(* ===== verification/Prelude.thy ===== *)
theory Prelude
  imports Main "HOL-Library.List_Lexorder" "HOL-Library.Char_ord" "HOL-Library.Multiset"
begin

text \<open>
  Shared vocabulary of the development: Python exceptions as values, insertion-ordered
  dictionaries built by comprehension, \<open>sorted\<close> and \<open>sorted(set(...))\<close>, the string
  methods the code calls, and the collections of facts the component theories feed to
  \<open>simp\<close>.  A Python \<open>str\<close> is a \<open>string\<close> whose characters are the code points below 256.
\<close>

named_theorems verdict_simps "facts about scenario verdicts"
named_theorems validator_simps "unfoldings of artifact validators"
named_theorems lookup_simps "facts about dictionaries built by comprehension"

section \<open>Exceptions\<close>

text \<open>
  \<open>ValueError\<close> carries the message of the \<open>raise\<close>; the other constructors are the
  exceptions the standard library raises inside the modelled code.
\<close>

datatype error =
    ValueError string
  | KeyError
  | IndexError
  | StopIteration
  | AssertionError string
  | RuntimeError string
  | TypeError
  | OSError
  | TranscriptMismatch string

type_synonym 'a result = "error + 'a"

definition bind_result :: "'a result \<Rightarrow> ('a \<Rightarrow> 'b result) \<Rightarrow> 'b result" where
  "bind_result r f = (case r of Inl e \<Rightarrow> Inl e | Inr x \<Rightarrow> f x)"

lemma bind_result_simps [simp]:
  "bind_result (Inl e) f = Inl e"
  "bind_result (Inr x) f = f x"
  by (simp_all add: bind_result_def)

lemma bind_result_eq_Inr:
  "bind_result r f = Inr y \<longleftrightarrow> (\<exists>x. r = Inr x \<and> f x = Inr y)"
  by (cases r) auto

text \<open>Constructing a record runs its validator.\<close>

definition construct :: "('a \<Rightarrow> error option) \<Rightarrow> 'a \<Rightarrow> 'a result" where
  "construct validate x = (case validate x of Some e \<Rightarrow> Inl e | None \<Rightarrow> Inr x)"

lemma construct_eq_Inr [simp]: "construct validate x = Inr y \<longleftrightarrow> validate x = None \<and> y = x"
  by (auto simp: construct_def split: option.splits)

text \<open>A Python generator or loop that evaluates \<open>f\<close> on every element and stops at the first raise.\<close>

fun traverse :: "('a \<Rightarrow> 'b result) \<Rightarrow> 'a list \<Rightarrow> 'b list result" where
  "traverse f [] = Inr []"
| "traverse f (x # xs) =
     bind_result (f x) (\<lambda>y. bind_result (traverse f xs) (\<lambda>ys. Inr (y # ys)))"

lemma traverse_total:
  "(\<And>x. x \<in> set xs \<Longrightarrow> f x = Inr (g x)) \<Longrightarrow> traverse f xs = Inr (map g xs)"
  by (induction xs) auto

lemma traverse_Inr_length: "traverse f xs = Inr ys \<Longrightarrow> length ys = length xs"
  by (induction xs arbitrary: ys) (auto simp: bind_result_eq_Inr)

lemma traverse_Inr_iff: "traverse f xs = Inr ys \<longleftrightarrow> list_all2 (\<lambda>x y. f x = Inr y) xs ys"
  by (induction xs arbitrary: ys) (auto simp: bind_result_eq_Inr list_all2_Cons1)

text \<open>The first raise of a sequence of statements that return nothing.\<close>

fun first_error :: "error option list \<Rightarrow> error option" where
  "first_error [] = None"
| "first_error (None # es) = first_error es"
| "first_error (Some e # es) = Some e"

lemma first_error_None_iff: "first_error es = None \<longleftrightarrow> (\<forall>e \<in> set es. e = None)"
  by (induction es rule: first_error.induct) auto

section \<open>Dictionaries\<close>

text \<open>
  \<open>{key(x): x for x in xs}\<close>: a later element overwrites an earlier one of the same key.
\<close>

definition dict_by :: "('a \<Rightarrow> 'k) \<Rightarrow> 'a list \<Rightarrow> 'k \<Rightarrow> 'a option" where
  "dict_by key xs k = map_of (rev (map (\<lambda>x. (key x, x)) xs)) k"

lemma dict_by_code: "dict_by key xs k = find (\<lambda>x. key x = k) (rev xs)"
proof -
  have "map_of (map (\<lambda>x. (key x, x)) ys) k = find (\<lambda>x. key x = k) ys" for ys
    by (induction ys) auto
  then show ?thesis by (simp add: dict_by_def rev_map)
qed

lemma dict_by_Nil [simp]: "dict_by key [] k = None"
  by (simp add: dict_by_def)

lemma dict_by_SomeD:
  assumes "dict_by key xs k = Some x"
  shows "x \<in> set xs" and "key x = k"
  using assms by (auto simp: dict_by_def dest!: map_of_SomeD)

lemma dict_by_eq_None [lookup_simps]: "dict_by key xs k = None \<longleftrightarrow> k \<notin> key ` set xs"
  by (auto simp: dict_by_def map_of_eq_None_iff image_comp)

lemma dict_by_key_in:
  assumes "x \<in> set xs"
  obtains y where "dict_by key xs (key x) = Some y" and "y \<in> set xs" and "key y = key x"
proof (cases "dict_by key xs (key x)")
  case None
  with assms show ?thesis by (auto simp: dict_by_eq_None)
next
  case (Some y)
  then show ?thesis using that dict_by_SomeD[OF Some] by blast
qed

text \<open>\<open>dict.fromkeys(xs)\<close> keeps the first occurrence of every element.\<close>

definition fromkeys :: "'a list \<Rightarrow> 'a list" where
  "fromkeys xs = rev (remdups (rev xs))"

lemma set_fromkeys [simp]: "set (fromkeys xs) = set xs"
  by (simp add: fromkeys_def)

lemma distinct_fromkeys [simp]: "distinct (fromkeys xs)"
  by (simp add: fromkeys_def)

lemma fromkeys_distinct: "distinct xs \<Longrightarrow> fromkeys xs = xs"
  by (simp add: fromkeys_def distinct_remdups_id)

text \<open>
  The contract the graph, the source index and the applicability artifact rely on: records
  stored under an identifying key, every key used once.
\<close>

locale keyed_records =
  fixes key :: "'a \<Rightarrow> 'k" and records :: "'s \<Rightarrow> 'a list" and wf :: "'s \<Rightarrow> bool"
  assumes wf_distinct: "wf s \<Longrightarrow> distinct (map key (records s))"
begin

lemma lookup_record:
  assumes "wf s" and "x \<in> set (records s)"
  shows "dict_by key (records s) (key x) = Some x"
proof -
  obtain y where y: "dict_by key (records s) (key x) = Some y" "y \<in> set (records s)" "key y = key x"
    using assms(2) by (rule dict_by_key_in)
  have "inj_on key (set (records s))"
    using wf_distinct[OF assms(1)] by (simp add: distinct_map)
  with y assms(2) have "y = x" by (auto dest: inj_onD)
  with y show ?thesis by simp
qed

lemma lookup_iff:
  assumes "wf s"
  shows "dict_by key (records s) k = Some x \<longleftrightarrow> x \<in> set (records s) \<and> key x = k"
  using lookup_record[OF assms] dict_by_SomeD by fastforce

lemma records_distinct: "wf s \<Longrightarrow> distinct (records s)"
  using wf_distinct by (auto simp: distinct_map)

end

section \<open>Ordering\<close>

text \<open>\<open>sorted(set(xs))\<close> for strings; \<open>sorted(xs, key=f)\<close> is the stable \<open>sort_key f xs\<close>.\<close>

definition sorted_set :: "'a::linorder list \<Rightarrow> 'a list" where
  "sorted_set xs = sort (remdups xs)"

lemma set_sorted_set [simp]: "set (sorted_set xs) = set xs"
  by (simp add: sorted_set_def)

lemma distinct_sorted_set [simp]: "distinct (sorted_set xs)"
  by (simp add: sorted_set_def)

lemma sorted_sorted_set [simp]: "sorted (sorted_set xs)"
  by (simp add: sorted_set_def)

lemma sorted_set_cong: "set xs = set ys \<Longrightarrow> sorted_set xs = sorted_set ys"
  by (rule sorted_distinct_set_unique) auto

lemma sorted_set_idem [simp]: "sorted_set (sorted_set xs) = sorted_set xs"
  by (rule sorted_set_cong) simp

lemma sorted_set_fixpoint: "sorted_set xs = xs \<longleftrightarrow> sorted xs \<and> distinct xs"
  by (metis distinct_sorted_set sorted_sorted_set set_sorted_set sorted_distinct_set_unique)

lemma map_sort_key: "map f (sort_key f xs) = sort (map f xs)"
proof (rule properties_for_sort[symmetric])
  show "sorted (map f (sort_key f xs))" by simp
  show "mset (map f (sort_key f xs)) = mset (map f xs)" by simp
qed

text \<open>Sorting by a key that separates the elements forgets the order they came in.\<close>

lemma sort_key_perm_inj:
  assumes "mset xs = mset ys" and "inj_on f (set xs)"
  shows "sort_key f xs = sort_key f ys"
proof -
  have "set xs = set ys" using assms(1) by (rule mset_eq_setD)
  moreover have "map f (sort_key f xs) = map f (sort_key f ys)"
    unfolding map_sort_key using assms(1) by (intro properties_for_sort) simp_all
  ultimately show ?thesis
    using assms(2) by (metis map_inj_on set_sort Un_absorb)
qed

section \<open>Strings\<close>

fun join :: "string \<Rightarrow> string list \<Rightarrow> string" where
  "join sep [] = []"
| "join sep [x] = x"
| "join sep (x # y # xs) = x @ sep @ join sep (y # xs)"

text \<open>The code points below 256 for which \<open>str.isspace\<close> holds: what \<open>str.strip()\<close> removes.\<close>

definition is_space :: "char \<Rightarrow> bool" where
  "is_space c = (let n = of_char c :: nat in
     (9 \<le> n \<and> n \<le> 13) \<or> (28 \<le> n \<and> n \<le> 32) \<or> n = 133 \<or> n = 160)"

definition strip :: "string \<Rightarrow> string" where
  "strip s = rev (dropWhile is_space (rev (dropWhile is_space s)))"

definition starts_with :: "string \<Rightarrow> string \<Rightarrow> bool" where
  "starts_with p s = (take (length p) s = p)"

definition remove_prefix :: "string \<Rightarrow> string \<Rightarrow> string" where
  "remove_prefix p s = (if starts_with p s then drop (length p) s else s)"

lemma remove_prefix_append [simp]: "remove_prefix p (p @ s) = s"
  by (simp add: remove_prefix_def starts_with_def)

fun split_on :: "char \<Rightarrow> string \<Rightarrow> string list" where
  "split_on c [] = [[]]"
| "split_on c (x # xs) =
     (if x = c then [] # split_on c xs
      else (case split_on c xs of [] \<Rightarrow> [[x]] | w # ws \<Rightarrow> (x # w) # ws))"

lemma split_on_nonempty: "split_on c s \<noteq> []"
  by (induction s) (auto split: list.splits)

lemma split_on_pieces: "w \<in> set (split_on c s) \<Longrightarrow> c \<notin> set w"
proof (induction s arbitrary: w)
  case Nil
  then show ?case by simp
next
  case (Cons x xs)
  show ?case
  proof (cases "split_on c xs")
    case Nil
    then show ?thesis using split_on_nonempty by blast
  next
    case (Cons v vs)
    then show ?thesis using Cons.IH[of w] Cons.IH[of v] Cons.prems
      by (auto split: if_splits)
  qed
qed

text \<open>Decimal rendering of the integers, \<open>str(n)\<close>.\<close>

fun digits :: "nat \<Rightarrow> string" where
  "digits n = (if n < 10 then [char_of (48 + n)] else digits (n div 10) @ [char_of (48 + n mod 10)])"

declare digits.simps [simp del]

definition str_int :: "int \<Rightarrow> string" where
  "str_int i = (if i < 0 then CHR ''-'' # digits (nat (- i)) else digits (nat i))"

text \<open>Occurrences of an element, and lists with one element.\<close>

lemma length_filter_count: "length (filter P xs) = size (filter_mset P (mset xs))"
  by (metis mset_filter size_mset)

lemma singleton_of_length: "length xs = 1 \<longleftrightarrow> (\<exists>x. xs = [x])"
  by (auto simp: length_Suc_conv)

end
