(* ===== verification/Identity.thy ===== *)
theory Identity
  imports Digest
begin

text \<open>
  \<open>contracts/identity.py\<close>: canonical JSON, fingerprints, and the stable identities of files,
  symbols, graph records, scenarios, assertions, checks and findings.  A component of an
  identity is the text \<open>str(component)\<close>; a JSON value is the tree \<open>_json_value\<close> returns.
\<close>

section \<open>Canonical JSON\<close>

datatype json =
    JNull
  | JBool bool
  | JInt int
  | JStr string
  | JArr "json list"
  | JObj "(string \<times> json) list"

definition json_escape_char :: "char \<Rightarrow> string" where
  "json_escape_char c =
     (if c = CHR 0x22 then [CHR 0x5C, CHR 0x22]
      else if c = CHR 0x5C then [CHR 0x5C, CHR 0x5C]
      else if c = CHR 0x0A then [CHR 0x5C, CHR ''n'']
      else if c = CHR 0x0D then [CHR 0x5C, CHR ''r'']
      else if c = CHR 0x09 then [CHR 0x5C, CHR ''t'']
      else if c = CHR 0x0C then [CHR 0x5C, CHR ''f'']
      else if c = CHR 0x08 then [CHR 0x5C, CHR ''b'']
      else if (of_char c :: nat) < 32
      then [CHR 0x5C, CHR ''u'', CHR ''0'', CHR ''0'',
            hex_digit (of_char c div 16), hex_digit (of_char c mod 16)]
      else [c])"

definition json_string :: "string \<Rightarrow> string" where
  "json_string s = CHR 0x22 # concat (map json_escape_char s) @ [CHR 0x22]"

text \<open>\<open>json.dumps(value, sort_keys=True, separators=(",", ":"), ensure_ascii=False)\<close>.\<close>

fun canonical_json :: "json \<Rightarrow> string" where
  "canonical_json JNull = ''null''"
| "canonical_json (JBool b) = (if b then ''true'' else ''false'')"
| "canonical_json (JInt i) = str_int i"
| "canonical_json (JStr s) = json_string s"
| "canonical_json (JArr xs) = ''['' @ join '','' (map canonical_json xs) @ '']''"
| "canonical_json (JObj kvs) =
     ''{'' @ join '','' (map (\<lambda>(k, v). json_string k @ '':'' @ v)
                       (sort_key fst (map (\<lambda>(k, v). (k, canonical_json v)) kvs))) @ ''}''"

definition sha256_digest :: "byte list \<Rightarrow> string" where
  "sha256_digest payload = ''sha256:'' @ hexdigest payload"

definition sha256_digest_str :: "string \<Rightarrow> string" where
  "sha256_digest_str s = sha256_digest (utf8 s)"

definition fingerprint_json :: "json \<Rightarrow> string" where
  "fingerprint_json v = sha256_digest_str (canonical_json v)"

text \<open>Encoders shared by the record encoders of the component theories.\<close>

definition jopt :: "('a \<Rightarrow> json) \<Rightarrow> 'a option \<Rightarrow> json" where
  "jopt f x = (case x of None \<Rightarrow> JNull | Some y \<Rightarrow> f y)"

abbreviation jstrs :: "string list \<Rightarrow> json" where
  "jstrs xs \<equiv> JArr (map JStr xs)"

abbreviation jnat :: "nat \<Rightarrow> json" where
  "jnat n \<equiv> JInt (int n)"

section \<open>Stable identities\<close>

definition stable_id :: "string \<Rightarrow> string list \<Rightarrow> string" where
  "stable_id prefix components =
     prefix @ ''_'' @ take 32 (hexdigest (utf8 (join [CHR 0x1F] components)))"

definition blank :: "string \<Rightarrow> bool" where
  "blank s \<longleftrightarrow> strip s = ''''"

definition symbol_id :: "string \<Rightarrow> string \<Rightarrow> string \<Rightarrow> int \<Rightarrow> string result" where
  "symbol_id file_id qualified_name kind definition_ordinal =
     (if definition_ordinal < 0 then Inl (ValueError ''definition ordinal must not be negative'')
      else if blank qualified_name \<or> blank kind
      then Inl (ValueError ''symbol qualified name and kind must not be blank'')
      else Inr (stable_id ''sgsym''
        [file_id, strip qualified_name, strip kind, str_int definition_ordinal]))"

definition framework_instance_id :: "string \<Rightarrow> string \<Rightarrow> string \<Rightarrow> int \<Rightarrow> string result" where
  "framework_instance_id file_id qualified_binding_name kind definition_ordinal =
     (if definition_ordinal < 0
      then Inl (ValueError ''framework-instance definition ordinal must not be negative'')
      else if blank qualified_binding_name \<or> blank kind
      then Inl (ValueError ''framework-instance binding name and kind must not be blank'')
      else Inr (stable_id ''sgfw''
        [file_id, strip qualified_binding_name, strip kind, str_int definition_ordinal]))"

definition graph_node_id :: "string \<Rightarrow> string \<Rightarrow> string \<Rightarrow> string result" where
  "graph_node_id kind backing_identity discriminator =
     (if blank kind \<or> blank backing_identity
      then Inl (ValueError ''graph node kind and backing identity must not be blank'')
      else Inr (stable_id ''sgnode'' [strip kind, strip backing_identity, strip discriminator]))"

definition include_occurrence_anchor ::
  "string \<Rightarrow> string \<Rightarrow> string option \<Rightarrow> int \<Rightarrow> string result" where
  "include_occurrence_anchor parent_instance_id included_router_instance_id prefix ordinal =
     (if ordinal < 0 then Inl (ValueError ''include same-shape ordinal must not be negative'')
      else Inr (stable_id ''sginclude''
        [parent_instance_id, included_router_instance_id,
         (case prefix of None \<Rightarrow> ''<UNKNOWN>'' | Some p \<Rightarrow> strip p), str_int ordinal]))"

definition upper_char :: "char \<Rightarrow> char" where
  "upper_char c = (let n = of_char c :: nat in
     if (97 \<le> n \<and> n \<le> 122) \<or> (224 \<le> n \<and> n \<le> 254 \<and> n \<noteq> 247) then char_of (n - 32) else c)"

text \<open>
  \<open>str.upper\<close> on code points whose upper case stays below 256 (all but the micro sign,
  sharp s and y with diaeresis).
\<close>

definition upper :: "string \<Rightarrow> string" where
  "upper = map upper_char"

definition route_registration_id ::
  "string \<Rightarrow> string list \<Rightarrow> string \<Rightarrow> string \<Rightarrow> string \<Rightarrow> string \<Rightarrow> int \<Rightarrow> string result" where
  "route_registration_id app include_anchors registrar owner_symbol_id meth route_path ordinal =
     (if ordinal < 0 then Inl (ValueError ''route same-shape ordinal must not be negative'')
      else if blank meth \<or> blank route_path
      then Inl (ValueError ''route method and path must not be blank'')
      else Inr (stable_id ''sgroute''
        ([app] @ include_anchors @
         [registrar, owner_symbol_id, upper (strip meth), strip route_path, str_int ordinal])))"

definition structural_anchor :: "string list \<Rightarrow> string result" where
  "structural_anchor components =
     (if components = [] then Inl (ValueError ''structural anchor requires at least one component'')
      else Inr (stable_id ''sganchor'' components))"

definition merchant_state_carrier_id :: "string \<Rightarrow> string \<Rightarrow> string result" where
  "merchant_state_carrier_id source_file_id binding_name =
     (if blank binding_name
      then Inl (ValueError ''merchant-state carrier binding must not be blank'')
      else Inr (stable_id ''sgcarrier'' [source_file_id, strip binding_name]))"

definition graph_edge_id :: "string \<Rightarrow> string \<Rightarrow> string \<Rightarrow> int \<Rightarrow> string \<Rightarrow> string result" where
  "graph_edge_id kind source_node_id target_node_id duplicate_ordinal discriminator =
     (if duplicate_ordinal < 0 then Inl (ValueError ''duplicate ordinal must not be negative'')
      else if blank kind then Inl (ValueError ''graph edge kind must not be blank'')
      else Inr (stable_id ''sgedge''
        [strip kind, source_node_id, target_node_id, str_int duplicate_ordinal,
         strip discriminator]))"

definition normal_control_id :: "string list \<Rightarrow> string result" where
  "normal_control_id components =
     (if components = []
      then Inl (ValueError ''normal-control identity requires evidence components'')
      else Inr (stable_id ''sgcontrol'' components))"

definition scenario_instance_id :: "string \<Rightarrow> string list \<Rightarrow> string result" where
  "scenario_instance_id scenario_id components =
     (if blank scenario_id then Inl (ValueError ''scenario identity requires a scenario ID'')
      else Inr (stable_id ''sgscenario'' (strip scenario_id # components)))"

definition assertion_id :: "string \<Rightarrow> string \<Rightarrow> string result" where
  "assertion_id instance_id assertion_key =
     (if blank assertion_key then Inl (ValueError ''assertion identity requires an assertion key'')
      else Inr (stable_id ''sgassert'' [instance_id, strip assertion_key]))"

definition verification_check_id :: "string \<Rightarrow> string \<Rightarrow> string \<Rightarrow> string" where
  "verification_check_id run_id instance_id assertion =
     stable_id ''sgcheck'' [run_id, instance_id, assertion]"

definition verification_check_key :: "string list \<Rightarrow> string result" where
  "verification_check_key components =
     (if components = []
      then Inl (ValueError ''verification-check identity requires logical components'')
      else Inr (stable_id ''sgcheckkey'' components))"

definition finding_key :: "string \<Rightarrow> string" where
  "finding_key check_key = stable_id ''sgfindingkey'' [check_key]"

definition finding_occurrence_id :: "string \<Rightarrow> string \<Rightarrow> string" where
  "finding_occurrence_id run_id check_id = stable_id ''sgfinding'' [run_id, check_id]"

definition runtime_request_id :: "string \<Rightarrow> int \<Rightarrow> string result" where
  "runtime_request_id session_id ordinal =
     (if ordinal < 0 then Inl (ValueError ''runtime request ordinal must not be negative'')
      else Inr (stable_id ''sgreq'' [session_id, str_int ordinal]))"

section \<open>Shape and canonicity\<close>

text \<open>The patterns of \<open>contracts/common.py\<close>: a prefix, an underscore and 32 hexadecimal digits.\<close>

definition has_id_shape :: "string \<Rightarrow> string \<Rightarrow> bool" where
  "has_id_shape prefix s \<longleftrightarrow>
     take (Suc (length prefix)) s = prefix @ ''_'' \<and> length s = length prefix + 33 \<and>
     list_all (\<lambda>c. c \<in> set hex_chars) (drop (Suc (length prefix)) s)"

definition has_digest_shape :: "string \<Rightarrow> bool" where
  "has_digest_shape s \<longleftrightarrow>
     take 7 s = ''sha256:'' \<and> length s = 71 \<and> list_all (\<lambda>c. c \<in> set hex_chars) (drop 7 s)"

lemma stable_id_shape: "has_id_shape prefix (stable_id prefix components)"
  using set_hexdigest[of "utf8 (join [CHR 0x1F] components)"]
  by (auto simp: has_id_shape_def stable_id_def list_all_iff dest!: in_set_takeD)

lemma fingerprint_shape: "has_digest_shape (fingerprint_json v)"
  using set_hexdigest
  by (auto simp: has_digest_shape_def fingerprint_json_def sha256_digest_str_def
      sha256_digest_def list_all_iff)

text \<open>
  Canonical JSON forgets the order in which the keys of an object were given, which is what
  lets a fingerprint survive a re-ordered \<open>model_dump\<close>.
\<close>

lemma canonical_json_object_perm:
  assumes "mset kvs = mset kvs'" and "distinct (map fst kvs)"
  shows "canonical_json (JObj kvs) = canonical_json (JObj kvs')"
proof -
  let ?g = "\<lambda>(k :: string, v). (k, canonical_json v)"
  have m: "mset (map ?g kvs) = mset (map ?g kvs')"
    using assms(1) by simp
  have "inj_on fst (set (map ?g kvs))"
    by (auto intro!: inj_onI dest: eq_key_imp_eq_value[OF assms(2)])
  then have "sort_key fst (map ?g kvs) = sort_key fst (map ?g kvs')"
    by (rule sort_key_perm_inj[OF m])
  then show ?thesis by simp
qed

text \<open>Records ordered by their canonical text have an order-independent canonical array.\<close>

definition canonical_order :: "('a \<Rightarrow> json) \<Rightarrow> 'a list \<Rightarrow> 'a list" where
  "canonical_order enc xs = sort_key (\<lambda>x. canonical_json (enc x)) xs"

lemma set_canonical_order [simp]: "set (canonical_order enc xs) = set xs"
  by (simp add: canonical_order_def)

lemma length_canonical_order [simp]: "length (canonical_order enc xs) = length xs"
  by (simp add: canonical_order_def)

lemma mset_canonical_order [simp]: "mset (canonical_order enc xs) = mset xs"
  by (simp add: canonical_order_def)

lemma canonical_order_texts:
  "map (\<lambda>x. canonical_json (enc x)) (canonical_order enc xs)
     = sort (map (\<lambda>x. canonical_json (enc x)) xs)"
  unfolding canonical_order_def by (rule map_sort_key)

lemma canonical_order_perm:
  assumes "mset xs = mset ys"
  shows "canonical_json (JArr (map enc (canonical_order enc xs)))
       = canonical_json (JArr (map enc (canonical_order enc ys)))"
proof -
  have "sort (map (\<lambda>x. canonical_json (enc x)) xs) = sort (map (\<lambda>x. canonical_json (enc x)) ys)"
    using assms by (intro properties_for_sort) simp_all
  then show ?thesis
    using canonical_order_texts[of enc xs] canonical_order_texts[of enc ys] by (simp add: o_def)
qed

end
