(* ===== verification/Common.thy ===== *)
theory Common
  imports Identity
begin

text \<open>
  \<open>contracts/common.py\<close> and the policy part of \<open>contracts/config.py\<close>: project-relative
  paths, source locations, provenance records, merchant policies.  A timestamp is the
  instant it denotes, the text \<open>isoformat()\<close> gives and whether it carries a time zone.
\<close>

section \<open>Paths\<close>

definition to_slash :: "string \<Rightarrow> string" where
  "to_slash = map (\<lambda>c. if c = CHR 0x5C then CHR ''/'' else c)"

definition ascii_letter :: "char \<Rightarrow> bool" where
  "ascii_letter c = (let n = of_char c :: nat in (65 \<le> n \<and> n \<le> 90) \<or> (97 \<le> n \<and> n \<le> 122))"

text \<open>
  \<open>pathlib\<close>: the parts of a relative POSIX path are its segments that are neither empty nor
  a single dot.  A Windows path has a root when it starts with a separator and a drive
  when a letter and a colon come first; UNC paths start with a separator.
\<close>

definition posix_parts :: "string \<Rightarrow> string list" where
  "posix_parts s = filter (\<lambda>p. p \<noteq> [] \<and> p \<noteq> ''.'') (split_on (CHR ''/'') s)"

definition posix_absolute :: "string \<Rightarrow> bool" where
  "posix_absolute s = starts_with ''/'' s"

definition windows_anchored :: "string \<Rightarrow> bool" where
  "windows_anchored s =
     (starts_with ''/'' s \<or> starts_with [CHR 0x5C] s \<or>
      (case s of c # d # _ \<Rightarrow> ascii_letter c \<and> d = CHR '':'' | _ \<Rightarrow> False))"

definition is_cross_platform_absolute_path :: "string \<Rightarrow> bool" where
  "is_cross_platform_absolute_path value =
     (let candidate = strip value
      in posix_absolute (to_slash candidate) \<or> windows_anchored candidate)"

definition normalize_relative_path :: "string \<Rightarrow> string result" where
  "normalize_relative_path value =
     (let normalized = to_slash (strip value); parts = posix_parts normalized
      in if normalized = [] then Inl (ValueError ''path must not be empty'')
         else if is_cross_platform_absolute_path value \<or> ''..'' \<in> set parts
         then Inl (ValueError ''path must be project-relative and must not traverse parents'')
         else Inr (if parts = [] then ''.'' else join ''/'' parts))"

text \<open>\<open>source_file_id\<close> of \<open>contracts/identity.py\<close>, which depends on the path above.\<close>

definition source_file_id :: "string \<Rightarrow> string \<Rightarrow> string result" where
  "source_file_id project_id path =
     bind_result (normalize_relative_path path) (\<lambda>p. Inr (stable_id ''sgfile'' [project_id, p]))"

section \<open>Timestamps\<close>

record datetime =
  dt_instant :: int
  dt_isoformat :: string
  dt_aware :: bool

definition require_timezone :: "datetime \<Rightarrow> datetime result" where
  "require_timezone value =
     (if \<not> dt_aware value then Inl (ValueError ''generated_at must be timezone-aware'') else Inr value)"

section \<open>Source locations and provenance\<close>

record source_location =
  sl_path :: string
  sl_line_start :: nat
  sl_column_start :: nat
  sl_line_end :: nat
  sl_column_end :: nat

definition span_before :: "nat \<times> nat \<Rightarrow> nat \<times> nat \<Rightarrow> bool" where
  "span_before p q = (fst p < fst q \<or> (fst p = fst q \<and> snd p < snd q))"

definition validate_source_location :: "source_location \<Rightarrow> source_location result" where
  "validate_source_location l =
     (if sl_line_start l < 1 \<or> sl_line_end l < 1
      then Inl (ValueError ''greater_than_equal'')
      else bind_result (normalize_relative_path (sl_path l)) (\<lambda>path.
        if span_before (sl_line_end l, sl_column_end l) (sl_line_start l, sl_column_start l)
        then Inl (ValueError ''source location end must not precede its start'')
        else Inr (l\<lparr>sl_path := path\<rparr>)))"

definition source_location_json :: "source_location \<Rightarrow> json" where
  "source_location_json l = JObj
     [(''path'', JStr (sl_path l)), (''line_start'', jnat (sl_line_start l)),
      (''column_start'', jnat (sl_column_start l)), (''line_end'', jnat (sl_line_end l)),
      (''column_end'', jnat (sl_column_end l))]"

datatype provenance_kind = STATIC | AI_INFERRED | HUMAN_CONFIRMED | RUNTIME_OBSERVED

fun provenance_kind_value :: "provenance_kind \<Rightarrow> string" where
  "provenance_kind_value STATIC = ''STATIC''"
| "provenance_kind_value AI_INFERRED = ''AI_INFERRED''"
| "provenance_kind_value HUMAN_CONFIRMED = ''HUMAN_CONFIRMED''"
| "provenance_kind_value RUNTIME_OBSERVED = ''RUNTIME_OBSERVED''"

record provenance_record =
  pr_kind :: provenance_kind
  pr_reference :: string
  pr_source_location :: "source_location option"
  pr_supporting_fingerprint :: "string option"

definition strip_reference :: "string \<Rightarrow> string result" where
  "strip_reference value =
     (let stripped = strip value
      in if stripped = [] then Inl (ValueError ''provenance reference must not be blank'')
         else Inr stripped)"

definition provenance_json :: "provenance_record \<Rightarrow> json" where
  "provenance_json r = JObj
     [(''kind'', JStr (provenance_kind_value (pr_kind r))), (''reference'', JStr (pr_reference r)),
      (''source_location'', jopt source_location_json (pr_source_location r)),
      (''supporting_fingerprint'', jopt JStr (pr_supporting_fingerprint r))]"

definition strip_producer_version :: "string \<Rightarrow> string result" where
  "strip_producer_version value =
     (let stripped = strip value
      in if stripped = [] then Inl (ValueError ''producer version must not be blank'')
         else Inr stripped)"

section \<open>Merchant policy\<close>

datatype fulfilment_policy = CAPTURE_REQUIRED | AUTHORIZED_ALLOWED

datatype late_authorisation_policy = FULFIL_LATER | DO_NOT_FULFIL

fun fulfilment_value :: "fulfilment_policy \<Rightarrow> string" where
  "fulfilment_value CAPTURE_REQUIRED = ''CAPTURE_REQUIRED''"
| "fulfilment_value AUTHORIZED_ALLOWED = ''AUTHORIZED_ALLOWED''"

fun late_authorisation_value :: "late_authorisation_policy \<Rightarrow> string" where
  "late_authorisation_value FULFIL_LATER = ''FULFIL_LATER''"
| "late_authorisation_value DO_NOT_FULFIL = ''DO_NOT_FULFIL''"

record confirmed_fulfilment =
  cf_value :: fulfilment_policy
  cf_evidence_fingerprint :: string

record confirmed_late_authorisation =
  cl_value :: late_authorisation_policy
  cl_evidence_fingerprint :: string

record merchant_policy_config =
  mp_fulfilment :: "confirmed_fulfilment option"
  mp_late_authorisation :: "confirmed_late_authorisation option"

section \<open>Facts about paths\<close>

lemma posix_parts_no_slash: "p \<in> set (posix_parts s) \<Longrightarrow> CHR ''/'' \<notin> set p \<and> p \<noteq> [] \<and> p \<noteq> ''.''"
  by (auto simp: posix_parts_def dest: split_on_pieces)

lemma split_on_no_sep: "c \<notin> set w \<Longrightarrow> split_on c w = [w]"
  by (induction w) auto

lemma split_on_append_sep: "c \<notin> set w \<Longrightarrow> split_on c (w @ c # s) = w # split_on c s"
  by (induction w) auto

lemma split_on_join:
  assumes "\<forall>p \<in> set ps. c \<notin> set p" and "ps \<noteq> []"
  shows "split_on c (join [c] ps) = ps"
  using assms
proof (induction "[c]" ps rule: join.induct)
  case (3 x y xs)
  then show ?case using split_on_append_sep[of c x "join [c] (y # xs)"] by simp
qed (auto simp: split_on_no_sep)

lemma posix_parts_join:
  assumes "\<forall>p \<in> set ps. CHR ''/'' \<notin> set p \<and> p \<noteq> [] \<and> p \<noteq> ''.''" and "ps \<noteq> []"
  shows "posix_parts (join ''/'' ps) = ps"
  using assms by (simp add: posix_parts_def split_on_join filter_id_conv)

lemma normalize_relative_path_Inr:
  assumes "normalize_relative_path v = Inr p"
  shows "(posix_parts (to_slash (strip v)) = [] \<and> p = ''.'') \<or>
         (posix_parts (to_slash (strip v)) \<noteq> [] \<and> p = join ''/'' (posix_parts (to_slash (strip v))))"
    and "''..'' \<notin> set (posix_parts (to_slash (strip v)))"
    and "\<not> is_cross_platform_absolute_path v"
  using assms by (auto simp: normalize_relative_path_def Let_def split: if_splits)

lemma normalized_parts:
  assumes "normalize_relative_path v = Inr p"
  shows "posix_parts p = posix_parts (to_slash (strip v))"
proof (cases "posix_parts (to_slash (strip v)) = []")
  case True
  then show ?thesis
    using normalize_relative_path_Inr(1)[OF assms] by (simp add: posix_parts_def)
next
  case False
  then show ?thesis
    using normalize_relative_path_Inr(1)[OF assms] posix_parts_no_slash
    by (auto intro!: posix_parts_join)
qed

lemma join_relative:
  assumes "\<forall>p \<in> set ps. CHR ''/'' \<notin> set p \<and> p \<noteq> [] \<and> p \<noteq> ''.''" and "ps \<noteq> []"
  shows "join ''/'' ps \<noteq> [] \<and> \<not> posix_absolute (join ''/'' ps)"
proof -
  obtain q qs where ps: "ps = q # qs" using assms(2) by (cases ps) auto
  with assms(1) obtain c w where q: "q = c # w" "c \<noteq> CHR ''/''" by (cases q) auto
  have "\<exists>t. join ''/'' ps = c # t"
    by (cases qs) (simp_all add: ps q)
  then show ?thesis
    using q(2) by (auto simp: posix_absolute_def starts_with_def)
qed

text \<open>
  C33. A path that \<open>normalize_relative_path\<close> accepts is portable as text: it is not empty,
  does not start with a slash, has no parent segment, and is either the single dot or the
  slash-joined list of its own segments (no empty and no dot segment is left).
\<close>

theorem normalize_relative_path_safe:
  assumes "normalize_relative_path v = Inr p"
  shows "p \<noteq> [] \<and> \<not> posix_absolute p \<and> ''..'' \<notin> set (posix_parts p) \<and>
         (p = ''.'' \<or> p = join ''/'' (posix_parts p))"
  using normalize_relative_path_Inr[OF assms] normalized_parts[OF assms]
    join_relative[of "posix_parts (to_slash (strip v))"] posix_parts_no_slash
  by (auto simp: posix_absolute_def starts_with_def)

theorem normalize_relative_path_safe_witness:
  "normalize_relative_path '' src//./app/main.py '' = Inr ''src/app/main.py'' \<and>
   ''src/app/main.py'' = join ''/'' (posix_parts ''src/app/main.py'')"
proof -
  have h: "normalize_relative_path '' src//./app/main.py '' = Inr ''src/app/main.py''"
    by code_simp
  have "''src/app/main.py'' \<noteq> (''.'' :: string)" by simp
  with normalize_relative_path_safe[OF h] h show ?thesis by blast
qed

text \<open>
  C39. Acceptance does not make the path relative for every platform: the check for a drive
  runs on the text before the leading dot segment is dropped, so an accepted path can be one
  that \<open>is_cross_platform_absolute_path\<close> recognises, and one that a second call refuses.
\<close>

theorem normalize_relative_path_drive_escape:
  "\<exists>v p. normalize_relative_path v = Inr p \<and> is_cross_platform_absolute_path p \<and>
     (\<exists>e. normalize_relative_path p = Inl e)"
proof -
  have "normalize_relative_path ''./C:/windows'' = Inr ''C:/windows''" by code_simp
  moreover have "is_cross_platform_absolute_path ''C:/windows''" by code_simp
  moreover have "normalize_relative_path ''C:/windows'' =
    Inl (ValueError ''path must be project-relative and must not traverse parents'')" by code_simp
  ultimately show ?thesis by blast
qed

end
