(* ===== verification/RuleCatalog.thy ===== *)
theory RuleCatalog
  imports Common
begin

text \<open>
  \<open>rules/razorpay.py\<close>: the curated Razorpay facts, each with the URL it was read at, the day
  it was checked and the recognizers it feeds, and the fingerprints of one rule and of the
  catalogue.  The lemmas show that the catalogue is total over the rule identifiers.
\<close>

datatype razorpay_rule_id =
    PAYMENT_CAPTURED_WEBHOOK_EVENT
  | PAYMENT_AUTHORIZED_WEBHOOK_EVENT
  | WEBHOOK_SIGNATURE_RAW_BODY
  | WEBHOOK_DUPLICATE_DELIVERY
  | WEBHOOK_ORDER_NOT_GUARANTEED
  | WEBHOOK_RETRY_ON_UNSUCCESSFUL_ACK
  | CHECKOUT_SERVER_SIGNATURE_VERIFICATION
  | CHECKOUT_SERVER_ORDER_ID
  | CAPTURE_BEFORE_FULFILMENT
  | LATE_AUTHORISATION_BUSINESS_POLICY

fun rule_id_value :: "razorpay_rule_id \<Rightarrow> string" where
  "rule_id_value PAYMENT_CAPTURED_WEBHOOK_EVENT = ''RZP-PAYMENT-CAPTURED-WEBHOOK-EVENT-001''"
| "rule_id_value PAYMENT_AUTHORIZED_WEBHOOK_EVENT = ''RZP-PAYMENT-AUTHORIZED-WEBHOOK-EVENT-001''"
| "rule_id_value WEBHOOK_SIGNATURE_RAW_BODY = ''RZP-WEBHOOK-SIGNATURE-RAW-BODY-001''"
| "rule_id_value WEBHOOK_DUPLICATE_DELIVERY = ''RZP-WEBHOOK-DUPLICATE-DELIVERY-001''"
| "rule_id_value WEBHOOK_ORDER_NOT_GUARANTEED = ''RZP-WEBHOOK-ORDER-NOT-GUARANTEED-001''"
| "rule_id_value WEBHOOK_RETRY_ON_UNSUCCESSFUL_ACK = ''RZP-WEBHOOK-RETRY-ON-UNSUCCESSFUL-ACK-001''"
| "rule_id_value CHECKOUT_SERVER_SIGNATURE_VERIFICATION = ''RZP-CHECKOUT-SERVER-SIGNATURE-VERIFICATION-001''"
| "rule_id_value CHECKOUT_SERVER_ORDER_ID = ''RZP-CHECKOUT-SERVER-ORDER-ID-001''"
| "rule_id_value CAPTURE_BEFORE_FULFILMENT = ''RZP-CAPTURE-BEFORE-FULFILMENT-001''"
| "rule_id_value LATE_AUTHORISATION_BUSINESS_POLICY = ''RZP-LATE-AUTHORISATION-BUSINESS-POLICY-001''"

record razorpay_fact =
  rf_rule_id :: razorpay_rule_id
  rf_fact :: string
  rf_source_url :: string
  rf_verified_on :: string
  rf_recognizer_ids :: "string list"

definition RAZORPAY_PROTOCOL_FACTS :: "razorpay_fact list" where
  "RAZORPAY_PROTOCOL_FACTS = [
    \<lparr>rf_rule_id = PAYMENT_CAPTURED_WEBHOOK_EVENT,
     rf_fact = ''The payment.captured webhook event represents a payment captured state and its payload contains a captured payment entity snapshot.'',
     rf_source_url = ''https://razorpay.com/docs/webhooks/payments/'',
     rf_verified_on = ''2026-08-27'',
     rf_recognizer_ids = [''SG-AST-PAYMENT-STATE-GATE-001'']\<rparr>,
    \<lparr>rf_rule_id = PAYMENT_AUTHORIZED_WEBHOOK_EVENT,
     rf_fact = ''The payment.authorized webhook notifies a merchant when a payment moves to the Authorized state, including a payment expected to become late authorised.'',
     rf_source_url = ''https://razorpay.com/docs/payments/payments/late-authorisation/handle/'',
     rf_verified_on = ''2026-08-29'',
     rf_recognizer_ids = [''SG-AST-PAYMENT-STATE-GATE-001'']\<rparr>,
    \<lparr>rf_rule_id = WEBHOOK_SIGNATURE_RAW_BODY,
     rf_fact = ''Webhook signatures use HMAC-SHA256 over the raw request body.'',
     rf_source_url = ''https://razorpay.com/docs/webhooks/validate-test/'',
     rf_verified_on = ''2026-08-25'',
     rf_recognizer_ids = [''SG-AST-WEBHOOK-SIGNATURE-001'']\<rparr>,
    \<lparr>rf_rule_id = WEBHOOK_DUPLICATE_DELIVERY,
     rf_fact = ''Webhook delivery is at least once, so the same event may be delivered more than once; x-razorpay-event-id uniquely identifies the event for duplicate detection.'',
     rf_source_url = ''https://razorpay.com/docs/webhooks/validate-test/'',
     rf_verified_on = ''2026-08-27'',
     rf_recognizer_ids = [''SG-AST-EVENT-IDENTITY-GUARD-001'']\<rparr>,
    \<lparr>rf_rule_id = WEBHOOK_ORDER_NOT_GUARANTEED,
     rf_fact = ''Webhook delivery order is not guaranteed.'',
     rf_source_url = ''https://razorpay.com/docs/webhooks/validate-test/'',
     rf_verified_on = ''2026-08-25'',
     rf_recognizer_ids = [''SG-AST-PAYMENT-STATE-GATE-001'']\<rparr>,
    \<lparr>rf_rule_id = WEBHOOK_RETRY_ON_UNSUCCESSFUL_ACK,
     rf_fact = ''A non-2xx webhook response is a delivery failure; Razorpay uses at-least-once delivery and may resend when processing occurred but no successful response was received within 5 seconds.'',
     rf_source_url = ''https://razorpay.com/docs/webhooks/best-practices/'',
     rf_verified_on = ''2026-08-29'',
     rf_recognizer_ids = [''SG-AST-ACKNOWLEDGEMENT-001'']\<rparr>,
    \<lparr>rf_rule_id = CHECKOUT_SERVER_SIGNATURE_VERIFICATION,
     rf_fact = (''Standard Checkout verification is performed on the merchant server using HMAC-SHA256 over order_id + '' @ [CHR 0x27] @ ''|'' @ [CHR 0x27] @ '' + razorpay_payment_id.''),
     rf_source_url = ''https://razorpay.com/docs/payments/payment-gateway/web-integration/standard/integration-steps/'',
     rf_verified_on = ''2026-08-28'',
     rf_recognizer_ids = [''SG-AST-CHECKOUT-SIGNATURE-001'']\<rparr>,
    \<lparr>rf_rule_id = CHECKOUT_SERVER_ORDER_ID,
     rf_fact = ''Checkout verification uses the order ID retrieved from merchant server state, not the browser-returned order identity.'',
     rf_source_url = ''https://razorpay.com/docs/payments/payment-gateway/web-integration/standard/integration-steps/'',
     rf_verified_on = ''2026-08-28'',
     rf_recognizer_ids = [''SG-AST-SERVER-ORDER-BINDING-001'']\<rparr>,
    \<lparr>rf_rule_id = CAPTURE_BEFORE_FULFILMENT,
     rf_fact = ''An authorised payment is not captured; Razorpay guidance recommends providing products or services only after capture.'',
     rf_source_url = ''https://razorpay.com/docs/payments/payment-gateway/web-integration/standard/integration-steps/'',
     rf_verified_on = ''2026-08-25'',
     rf_recognizer_ids = [''SG-AST-PAYMENT-STATE-GATE-001'']\<rparr>,
    \<lparr>rf_rule_id = LATE_AUTHORISATION_BUSINESS_POLICY,
     rf_fact = ''Handling a late-authorised payment depends on whether the merchant can still provide the service.'',
     rf_source_url = ''https://razorpay.com/docs/payments/payments/late-authorisation/handle/'',
     rf_verified_on = ''2026-08-29'',
     rf_recognizer_ids = [''SG-POLICY-LATE-AUTHORISATION-001'']\<rparr>]"

definition RAZORPAY_RULE_CATALOG_VERSION :: int where
  "RAZORPAY_RULE_CATALOG_VERSION = 1"

text \<open>\<open>next(item for item in FACTS if ...)\<close> raises \<open>StopIteration\<close> when no item matches.\<close>

definition rule_fact :: "razorpay_rule_id \<Rightarrow> razorpay_fact result" where
  "rule_fact rule_id =
     (case find (\<lambda>f. rf_rule_id f = rule_id) RAZORPAY_PROTOCOL_FACTS of
        None \<Rightarrow> Inl StopIteration | Some f \<Rightarrow> Inr f)"

definition rule_fact_json :: "razorpay_fact \<Rightarrow> json" where
  "rule_fact_json f = JObj
     [(''rule_id'', JStr (rule_id_value (rf_rule_id f))), (''fact'', JStr (rf_fact f)),
      (''source_url'', JStr (rf_source_url f)), (''verified_on'', JStr (rf_verified_on f)),
      (''recognizer_ids'', jstrs (rf_recognizer_ids f))]"

definition razorpay_rule_fingerprint :: "razorpay_rule_id \<Rightarrow> string result" where
  "razorpay_rule_fingerprint rule_id =
     bind_result (rule_fact rule_id) (\<lambda>f. Inr (fingerprint_json (rule_fact_json f)))"

text \<open>
  The fingerprint as a value: \<open>razorpay_rule_fingerprint_total\<close> below shows that the lookup
  never raises, so the callers can use it without a case distinction.
\<close>

definition rule_fingerprint :: "razorpay_rule_id \<Rightarrow> string" where
  "rule_fingerprint rule_id =
     (case razorpay_rule_fingerprint rule_id of Inl e \<Rightarrow> [] | Inr fp \<Rightarrow> fp)"

definition razorpay_rule_catalog_fingerprint :: string where
  "razorpay_rule_catalog_fingerprint = fingerprint_json (JObj
     [(''catalog_version'', JInt RAZORPAY_RULE_CATALOG_VERSION),
      (''rules'', JArr (map (\<lambda>f. JObj
          [(''rule_id'', JStr (rule_id_value (rf_rule_id f))),
           (''rule_fingerprint'', JStr (rule_fingerprint (rf_rule_id f)))])
        (sort_key (\<lambda>f. rule_id_value (rf_rule_id f)) RAZORPAY_PROTOCOL_FACTS)))])"

section \<open>The catalogue is total and has no duplicates\<close>

lemma rule_id_value_inj: "rule_id_value a = rule_id_value b \<longleftrightarrow> a = b"
  by (cases a; cases b) simp_all

lemma inj_rule_id_value: "inj rule_id_value"
  by (simp add: inj_def rule_id_value_inj)

lemma facts_ids: "map rf_rule_id RAZORPAY_PROTOCOL_FACTS =
   [PAYMENT_CAPTURED_WEBHOOK_EVENT, PAYMENT_AUTHORIZED_WEBHOOK_EVENT, WEBHOOK_SIGNATURE_RAW_BODY, WEBHOOK_DUPLICATE_DELIVERY, WEBHOOK_ORDER_NOT_GUARANTEED, WEBHOOK_RETRY_ON_UNSUCCESSFUL_ACK, CHECKOUT_SERVER_SIGNATURE_VERIFICATION, CHECKOUT_SERVER_ORDER_ID, CAPTURE_BEFORE_FULFILMENT, LATE_AUTHORISATION_BUSINESS_POLICY]"
  by (simp add: RAZORPAY_PROTOCOL_FACTS_def)

lemma facts_ids_distinct: "distinct (map rf_rule_id RAZORPAY_PROTOCOL_FACTS)"
  unfolding facts_ids by simp

lemma facts_ids_all: "rule_id \<in> set (map rf_rule_id RAZORPAY_PROTOCOL_FACTS)"
  unfolding facts_ids by (cases rule_id) simp_all

lemma rule_fact_total:
  "\<exists>f \<in> set RAZORPAY_PROTOCOL_FACTS. rule_fact rule_id = Inr f \<and> rf_rule_id f = rule_id"
proof -
  obtain g where g: "g \<in> set RAZORPAY_PROTOCOL_FACTS" "rf_rule_id g = rule_id"
    using facts_ids_all[of rule_id] by auto
  then have "find (\<lambda>f. rf_rule_id f = rule_id) RAZORPAY_PROTOCOL_FACTS \<noteq> None"
    by (auto simp: find_None_iff)
  then obtain f where f: "find (\<lambda>f. rf_rule_id f = rule_id) RAZORPAY_PROTOCOL_FACTS = Some f"
    by blast
  then have "f \<in> set RAZORPAY_PROTOCOL_FACTS" "rf_rule_id f = rule_id"
    by (auto simp: find_Some_iff)
  with f show ?thesis by (auto simp: rule_fact_def)
qed

lemma razorpay_rule_fingerprint_total:
  "razorpay_rule_fingerprint rule_id = Inr (rule_fingerprint rule_id)"
  using rule_fact_total[of rule_id]
  by (auto simp: razorpay_rule_fingerprint_def rule_fingerprint_def)

lemma rule_fingerprint_shape: "has_digest_shape (rule_fingerprint rule_id)"
  using rule_fact_total[of rule_id] fingerprint_shape
  by (auto simp: razorpay_rule_fingerprint_def rule_fingerprint_def)

end
