(* ===== verification/SafetyGraph.thy ===== *)
theory SafetyGraph
  imports Common
begin

text \<open>
  \<open>graph/contracts.py\<close>: the Payment Safety Graph, its node and edge records, the validators
  that run when a record is constructed, and the fingerprint.  The lemmas show that a graph
  the validator accepts has unique identities, no dangling edge and only edges whose
  orientation its kind allows, and that its fingerprint does not depend on record order.
\<close>

section \<open>Vocabulary\<close>

datatype graph_node_kind =
    PAYMENT_INGRESS
  | TRUST_GATE
  | EVENT_IDENTITY_GUARD
  | PAYMENT_STATE_GATE
  | MERCHANT_STATE_MUTATION
  | CUSTOMER_VALUE_ACTION
  | ACKNOWLEDGEMENT_BOUNDARY

fun graph_node_kind_value :: "graph_node_kind \<Rightarrow> string" where
  "graph_node_kind_value PAYMENT_INGRESS = ''PAYMENT_INGRESS''"
| "graph_node_kind_value TRUST_GATE = ''TRUST_GATE''"
| "graph_node_kind_value EVENT_IDENTITY_GUARD = ''EVENT_IDENTITY_GUARD''"
| "graph_node_kind_value PAYMENT_STATE_GATE = ''PAYMENT_STATE_GATE''"
| "graph_node_kind_value MERCHANT_STATE_MUTATION = ''MERCHANT_STATE_MUTATION''"
| "graph_node_kind_value CUSTOMER_VALUE_ACTION = ''CUSTOMER_VALUE_ACTION''"
| "graph_node_kind_value ACKNOWLEDGEMENT_BOUNDARY = ''ACKNOWLEDGEMENT_BOUNDARY''"

datatype graph_edge_kind =
    CALLS
  | GUARDS
  | BRANCHES_TO
  | MUTATES
  | TRIGGERS
  | ACKNOWLEDGES_AFTER

fun graph_edge_kind_value :: "graph_edge_kind \<Rightarrow> string" where
  "graph_edge_kind_value CALLS = ''CALLS''"
| "graph_edge_kind_value GUARDS = ''GUARDS''"
| "graph_edge_kind_value BRANCHES_TO = ''BRANCHES_TO''"
| "graph_edge_kind_value MUTATES = ''MUTATES''"
| "graph_edge_kind_value TRIGGERS = ''TRIGGERS''"
| "graph_edge_kind_value ACKNOWLEDGES_AFTER = ''ACKNOWLEDGES_AFTER''"

datatype graph_completeness =
    COMPLETE
  | PARTIAL

fun graph_completeness_value :: "graph_completeness \<Rightarrow> string" where
  "graph_completeness_value COMPLETE = ''COMPLETE''"
| "graph_completeness_value PARTIAL = ''PARTIAL''"

datatype graph_diagnostic_impact =
    COVERAGE_REDUCED
  | NOTICE

fun graph_diagnostic_impact_value :: "graph_diagnostic_impact \<Rightarrow> string" where
  "graph_diagnostic_impact_value COVERAGE_REDUCED = ''COVERAGE_REDUCED''"
| "graph_diagnostic_impact_value NOTICE = ''NOTICE''"

datatype graph_diagnostic_code =
    UPSTREAM_SOURCE_INDEX_PARTIAL
  | APP_TARGET_UNSELECTED
  | ROUTE_COMPOSITION_UNRESOLVED
  | ROUTE_COMPOSITION_CYCLE
  | UNRESOLVED_STRUCTURAL_CANDIDATE
  | CONTROL_FLOW_UNSUPPORTED
  | CALL_PATH_UNRESOLVED

fun graph_diagnostic_code_value :: "graph_diagnostic_code \<Rightarrow> string" where
  "graph_diagnostic_code_value UPSTREAM_SOURCE_INDEX_PARTIAL = ''UPSTREAM_SOURCE_INDEX_PARTIAL''"
| "graph_diagnostic_code_value APP_TARGET_UNSELECTED = ''APP_TARGET_UNSELECTED''"
| "graph_diagnostic_code_value ROUTE_COMPOSITION_UNRESOLVED = ''ROUTE_COMPOSITION_UNRESOLVED''"
| "graph_diagnostic_code_value ROUTE_COMPOSITION_CYCLE = ''ROUTE_COMPOSITION_CYCLE''"
| "graph_diagnostic_code_value UNRESOLVED_STRUCTURAL_CANDIDATE = ''UNRESOLVED_STRUCTURAL_CANDIDATE''"
| "graph_diagnostic_code_value CONTROL_FLOW_UNSUPPORTED = ''CONTROL_FLOW_UNSUPPORTED''"
| "graph_diagnostic_code_value CALL_PATH_UNRESOLVED = ''CALL_PATH_UNRESOLVED''"

datatype graph_candidate_kind =
    WEBHOOK_INGRESS
  | CHECKOUT_CALLBACK_INGRESS
  | WEBHOOK_SIGNATURE
  | CHECKOUT_SIGNATURE
  | SERVER_ORDER_IDENTITY
  | EVENT_IDENTITY
  | PAYMENT_STATE
  | MERCHANT_MUTATION
  | ACKNOWLEDGEMENT
  | CUSTOMER_VALUE_EXECUTION

fun graph_candidate_kind_value :: "graph_candidate_kind \<Rightarrow> string" where
  "graph_candidate_kind_value WEBHOOK_INGRESS = ''WEBHOOK_INGRESS''"
| "graph_candidate_kind_value CHECKOUT_CALLBACK_INGRESS = ''CHECKOUT_CALLBACK_INGRESS''"
| "graph_candidate_kind_value WEBHOOK_SIGNATURE = ''WEBHOOK_SIGNATURE''"
| "graph_candidate_kind_value CHECKOUT_SIGNATURE = ''CHECKOUT_SIGNATURE''"
| "graph_candidate_kind_value SERVER_ORDER_IDENTITY = ''SERVER_ORDER_IDENTITY''"
| "graph_candidate_kind_value EVENT_IDENTITY = ''EVENT_IDENTITY''"
| "graph_candidate_kind_value PAYMENT_STATE = ''PAYMENT_STATE''"
| "graph_candidate_kind_value MERCHANT_MUTATION = ''MERCHANT_MUTATION''"
| "graph_candidate_kind_value ACKNOWLEDGEMENT = ''ACKNOWLEDGEMENT''"
| "graph_candidate_kind_value CUSTOMER_VALUE_EXECUTION = ''CUSTOMER_VALUE_EXECUTION''"

datatype graph_diagnostic_reason =
    INSUFFICIENT_CONVERGING_EVIDENCE
  | RAW_BODY_UNRESOLVED
  | PARSED_BODY_USED
  | VALIDATION_NOT_CONTROL_EFFECTIVE
  | VALIDATION_AFTER_MUTATION
  | CLIENT_ORDER_ID_USED
  | ORDER_IDENTITY_UNKNOWN
  | EVENT_ID_OBSERVED_ONLY
  | PERSISTENCE_UNRESOLVED
  | DYNAMIC_RESPONSE
  | RECURSIVE_CALL_PATH
  | UNSUPPORTED_AST
  | SDK_BINDING_UNRESOLVED
  | EXECUTION_SEMANTICS_UNPROVEN

fun graph_diagnostic_reason_value :: "graph_diagnostic_reason \<Rightarrow> string" where
  "graph_diagnostic_reason_value INSUFFICIENT_CONVERGING_EVIDENCE = ''INSUFFICIENT_CONVERGING_EVIDENCE''"
| "graph_diagnostic_reason_value RAW_BODY_UNRESOLVED = ''RAW_BODY_UNRESOLVED''"
| "graph_diagnostic_reason_value PARSED_BODY_USED = ''PARSED_BODY_USED''"
| "graph_diagnostic_reason_value VALIDATION_NOT_CONTROL_EFFECTIVE = ''VALIDATION_NOT_CONTROL_EFFECTIVE''"
| "graph_diagnostic_reason_value VALIDATION_AFTER_MUTATION = ''VALIDATION_AFTER_MUTATION''"
| "graph_diagnostic_reason_value CLIENT_ORDER_ID_USED = ''CLIENT_ORDER_ID_USED''"
| "graph_diagnostic_reason_value ORDER_IDENTITY_UNKNOWN = ''ORDER_IDENTITY_UNKNOWN''"
| "graph_diagnostic_reason_value EVENT_ID_OBSERVED_ONLY = ''EVENT_ID_OBSERVED_ONLY''"
| "graph_diagnostic_reason_value PERSISTENCE_UNRESOLVED = ''PERSISTENCE_UNRESOLVED''"
| "graph_diagnostic_reason_value DYNAMIC_RESPONSE = ''DYNAMIC_RESPONSE''"
| "graph_diagnostic_reason_value RECURSIVE_CALL_PATH = ''RECURSIVE_CALL_PATH''"
| "graph_diagnostic_reason_value UNSUPPORTED_AST = ''UNSUPPORTED_AST''"
| "graph_diagnostic_reason_value SDK_BINDING_UNRESOLVED = ''SDK_BINDING_UNRESOLVED''"
| "graph_diagnostic_reason_value EXECUTION_SEMANTICS_UNPROVEN = ''EXECUTION_SEMANTICS_UNPROVEN''"

datatype payment_ingress_kind =
    WEBHOOK
  | CHECKOUT_CALLBACK

fun payment_ingress_kind_value :: "payment_ingress_kind \<Rightarrow> string" where
  "payment_ingress_kind_value WEBHOOK = ''WEBHOOK''"
| "payment_ingress_kind_value CHECKOUT_CALLBACK = ''CHECKOUT_CALLBACK''"

datatype checkout_request_transport =
    JSON
  | FORM_URLENCODED
  | QUERY

fun checkout_request_transport_value :: "checkout_request_transport \<Rightarrow> string" where
  "checkout_request_transport_value JSON = ''JSON''"
| "checkout_request_transport_value FORM_URLENCODED = ''FORM_URLENCODED''"
| "checkout_request_transport_value QUERY = ''QUERY''"

datatype trust_gate_kind =
    WEBHOOK_SIGNATURE_VERIFICATION
  | CHECKOUT_SIGNATURE_VERIFICATION
  | SERVER_ORDER_IDENTITY_BINDING

fun trust_gate_kind_value :: "trust_gate_kind \<Rightarrow> string" where
  "trust_gate_kind_value WEBHOOK_SIGNATURE_VERIFICATION = ''WEBHOOK_SIGNATURE_VERIFICATION''"
| "trust_gate_kind_value CHECKOUT_SIGNATURE_VERIFICATION = ''CHECKOUT_SIGNATURE_VERIFICATION''"
| "trust_gate_kind_value SERVER_ORDER_IDENTITY_BINDING = ''SERVER_ORDER_IDENTITY_BINDING''"

datatype order_identity_origin =
    CLIENT_RETURNED
  | SERVER_STATE_CONFIRMED
  | ORDER_ORIGIN_UNKNOWN

fun order_identity_origin_value :: "order_identity_origin \<Rightarrow> string" where
  "order_identity_origin_value CLIENT_RETURNED = ''CLIENT_RETURNED''"
| "order_identity_origin_value SERVER_STATE_CONFIRMED = ''SERVER_STATE_CONFIRMED''"
| "order_identity_origin_value ORDER_ORIGIN_UNKNOWN = ''UNKNOWN''"

datatype webhook_body_origin =
    RAW_PRESERVED
  | PARSED
  | BODY_ORIGIN_UNKNOWN

fun webhook_body_origin_value :: "webhook_body_origin \<Rightarrow> string" where
  "webhook_body_origin_value RAW_PRESERVED = ''RAW_PRESERVED''"
| "webhook_body_origin_value PARSED = ''PARSED''"
| "webhook_body_origin_value BODY_ORIGIN_UNKNOWN = ''UNKNOWN''"

datatype event_identity_strategy =
    LOOKUP_AND_RECORD
  | ATOMIC_CLAIM

fun event_identity_strategy_value :: "event_identity_strategy \<Rightarrow> string" where
  "event_identity_strategy_value LOOKUP_AND_RECORD = ''LOOKUP_AND_RECORD''"
| "event_identity_strategy_value ATOMIC_CLAIM = ''ATOMIC_CLAIM''"

datatype payment_state_operator =
    EQUALS
  | NOT_EQUALS
  | IN
  | NOT_IN
  | MATCH_CASE
  | COMPOUND

fun payment_state_operator_value :: "payment_state_operator \<Rightarrow> string" where
  "payment_state_operator_value EQUALS = ''EQUALS''"
| "payment_state_operator_value NOT_EQUALS = ''NOT_EQUALS''"
| "payment_state_operator_value IN = ''IN''"
| "payment_state_operator_value NOT_IN = ''NOT_IN''"
| "payment_state_operator_value MATCH_CASE = ''MATCH_CASE''"
| "payment_state_operator_value COMPOUND = ''COMPOUND''"

datatype merchant_mutation_kind =
    ATTRIBUTE_WRITE
  | SUBSCRIPT_WRITE
  | MERCHANT_HELPER

fun merchant_mutation_kind_value :: "merchant_mutation_kind \<Rightarrow> string" where
  "merchant_mutation_kind_value ATTRIBUTE_WRITE = ''ATTRIBUTE_WRITE''"
| "merchant_mutation_kind_value SUBSCRIPT_WRITE = ''SUBSCRIPT_WRITE''"
| "merchant_mutation_kind_value MERCHANT_HELPER = ''MERCHANT_HELPER''"

datatype acknowledgement_exit_kind =
    RETURN
  | IMPLICIT_RETURN
  | RESPONSE
  | HTTP_EXCEPTION

fun acknowledgement_exit_kind_value :: "acknowledgement_exit_kind \<Rightarrow> string" where
  "acknowledgement_exit_kind_value RETURN = ''RETURN''"
| "acknowledgement_exit_kind_value IMPLICIT_RETURN = ''IMPLICIT_RETURN''"
| "acknowledgement_exit_kind_value RESPONSE = ''RESPONSE''"
| "acknowledgement_exit_kind_value HTTP_EXCEPTION = ''HTTP_EXCEPTION''"

datatype acknowledgement_outcome =
    SUCCESS_2XX
  | NON_SUCCESS
  | OUTCOME_UNKNOWN

fun acknowledgement_outcome_value :: "acknowledgement_outcome \<Rightarrow> string" where
  "acknowledgement_outcome_value SUCCESS_2XX = ''SUCCESS_2XX''"
| "acknowledgement_outcome_value NON_SUCCESS = ''NON_SUCCESS''"
| "acknowledgement_outcome_value OUTCOME_UNKNOWN = ''UNKNOWN''"

datatype branch_disposition =
    MATCHED
  | NOT_MATCHED
  | DEFAULT

fun branch_disposition_value :: "branch_disposition \<Rightarrow> string" where
  "branch_disposition_value MATCHED = ''MATCHED''"
| "branch_disposition_value NOT_MATCHED = ''NOT_MATCHED''"
| "branch_disposition_value DEFAULT = ''DEFAULT''"

section \<open>Diagnostics\<close>

record graph_diagnostic =
  gd_code :: graph_diagnostic_code
  gd_impact :: graph_diagnostic_impact
  gd_candidate_kind :: "graph_candidate_kind option"
  gd_reason :: "graph_diagnostic_reason option"
  gd_symbol_id :: "string option"
  gd_route_registration_id :: "string option"
  gd_source_location :: "source_location option"

definition validate_candidate_fields :: "graph_diagnostic \<Rightarrow> error option" where
  "validate_candidate_fields d =
     (if gd_code d = UNRESOLVED_STRUCTURAL_CANDIDATE
      then (if gd_candidate_kind d = None \<or> gd_reason d = None
            then Some (ValueError ''unresolved structural candidates require kind and reason'')
            else None)
      else if gd_candidate_kind d \<noteq> None \<or> gd_reason d \<noteq> None
      then Some (ValueError ''candidate kind/reason are valid only for unresolved candidates'')
      else None)"

definition graph_diagnostic_json :: "graph_diagnostic \<Rightarrow> json" where
  "graph_diagnostic_json d = JObj
     [(''code'', JStr (graph_diagnostic_code_value (gd_code d))),
      (''impact'', JStr (graph_diagnostic_impact_value (gd_impact d))),
      (''candidate_kind'', jopt (JStr \<circ> graph_candidate_kind_value) (gd_candidate_kind d)),
      (''reason'', jopt (JStr \<circ> graph_diagnostic_reason_value) (gd_reason d)),
      (''symbol_id'', jopt JStr (gd_symbol_id d)),
      (''route_registration_id'', jopt JStr (gd_route_registration_id d)),
      (''source_location'', jopt source_location_json (gd_source_location d))]"

definition graph_completeness_for :: "graph_diagnostic list \<Rightarrow> graph_completeness" where
  "graph_completeness_for diagnostics =
     (if list_ex (\<lambda>d. gd_impact d = COVERAGE_REDUCED) diagnostics then PARTIAL else COMPLETE)"

section \<open>Node details\<close>

record checkout_field_binding =
  fb_canonical_name :: string
  fb_request_name :: string

record checkout_request_binding =
  rb_transport :: checkout_request_transport
  rb_fields :: "checkout_field_binding list"

definition checkout_canonical_fields :: "string list" where
  "checkout_canonical_fields =
     [''razorpay_payment_id'', ''razorpay_order_id'', ''razorpay_signature'']"

definition validate_fields :: "checkout_request_binding \<Rightarrow> error option" where
  "validate_fields b =
     (if set (map fb_canonical_name (rb_fields b)) \<noteq> set checkout_canonical_fields \<or>
         card (set (map fb_request_name (rb_fields b))) \<noteq> 3
      then Some (ValueError ''Checkout request binding requires three unique exact fields'')
      else None)"

definition checkout_request_binding_json :: "checkout_request_binding \<Rightarrow> json" where
  "checkout_request_binding_json b = JObj
     [(''transport'', JStr (checkout_request_transport_value (rb_transport b))),
      (''fields'', JArr (map (\<lambda>f. JObj
         [(''canonical_name'', JStr (fb_canonical_name f)),
          (''request_name'', JStr (fb_request_name f))]) (rb_fields b)))]"

record effective_route =
  er_route_registration_id :: string
  er_app_instance_id :: string
  er_registrar_instance_id :: string
  er_method :: string
  er_component_path :: string
  er_effective_path :: string

definition normalize_method :: "string \<Rightarrow> string" where
  "normalize_method value = upper (strip value)"

definition validate_route_path :: "string \<Rightarrow> string result" where
  "validate_route_path value =
     (let stripped = strip value
      in if \<not> starts_with ''/'' stripped
         then Inl (ValueError (''graph route paths must begin with '' @
                               [CHR 0x27] @ ''/'' @ [CHR 0x27]))
         else Inr stripped)"

definition effective_route_json :: "effective_route \<Rightarrow> json" where
  "effective_route_json r = JObj
     [(''route_registration_id'', JStr (er_route_registration_id r)),
      (''app_instance_id'', JStr (er_app_instance_id r)),
      (''registrar_instance_id'', JStr (er_registrar_instance_id r)),
      (''method'', JStr (er_method r)), (''component_path'', JStr (er_component_path r)),
      (''effective_path'', JStr (er_effective_path r))]"

record payment_ingress_details =
  pi_ingress_kind :: payment_ingress_kind
  pi_registration :: effective_route
  pi_evidence_families :: "string list"
  pi_checkout_request_binding :: "checkout_request_binding option"

definition validate_checkout_binding :: "payment_ingress_details \<Rightarrow> error option" where
  "validate_checkout_binding d =
     (if pi_ingress_kind d = WEBHOOK \<and> pi_checkout_request_binding d \<noteq> None
      then Some (ValueError ''webhook ingress cannot carry a Checkout request binding'')
      else None)"

record trust_gate_details =
  tg_trust_kind :: trust_gate_kind
  tg_route_registration_id :: string
  tg_structural_anchor :: string
  tg_webhook_body_origin :: "webhook_body_origin option"
  tg_order_identity_origin :: "order_identity_origin option"

definition validate_subtype_details :: "trust_gate_details \<Rightarrow> error option" where
  "validate_subtype_details d =
     (if tg_trust_kind d = WEBHOOK_SIGNATURE_VERIFICATION \<and>
         (tg_webhook_body_origin d = None \<or> tg_order_identity_origin d \<noteq> None)
      then Some (ValueError ''webhook trust details require only webhook body origin'')
      else if tg_trust_kind d \<noteq> WEBHOOK_SIGNATURE_VERIFICATION \<and> tg_webhook_body_origin d \<noteq> None
      then Some (ValueError ''webhook body origin is valid only for webhook signature trust'')
      else if tg_trust_kind d \<noteq> WEBHOOK_SIGNATURE_VERIFICATION \<and> tg_order_identity_origin d = None
      then Some (ValueError ''Checkout trust details require order identity origin'')
      else if tg_trust_kind d = SERVER_ORDER_IDENTITY_BINDING \<and>
              tg_order_identity_origin d \<noteq> Some SERVER_STATE_CONFIRMED
      then Some (ValueError ''server order binding requires confirmed server-state origin'')
      else None)"

record event_identity_guard_details =
  eg_route_registration_id :: string
  eg_structural_anchor :: string
  eg_strategy :: event_identity_strategy

record payment_state_gate_details =
  sg_route_registration_id :: string
  sg_structural_anchor :: string
  sg_operator :: payment_state_operator
  sg_states :: "string list"

record merchant_state_mutation_details =
  mm_route_registration_id :: string
  mm_structural_anchor :: string
  mm_mutation_kind :: merchant_mutation_kind
  mm_carrier_reference :: string
  mm_assigned_payment_state :: "string option"

record acknowledgement_boundary_details =
  ab_route_registration_id :: string
  ab_structural_anchor :: string
  ab_exit_kind :: acknowledgement_exit_kind
  ab_status_code :: "nat option"
  ab_outcome :: acknowledgement_outcome

definition validate_outcome :: "acknowledgement_boundary_details \<Rightarrow> error option" where
  "validate_outcome d =
     (case ab_status_code d of
        None \<Rightarrow>
          if ab_outcome d \<noteq> OUTCOME_UNKNOWN
          then Some (ValueError ''unknown acknowledgement status requires UNKNOWN outcome'')
          else None
      | Some code \<Rightarrow>
          if ab_outcome d \<noteq> (if 200 \<le> code \<and> code < 300 then SUCCESS_2XX else NON_SUCCESS)
          then Some (ValueError ''acknowledgement outcome must match status code'')
          else None)"

datatype node_details =
    PaymentIngressDetails payment_ingress_details
  | TrustGateDetails trust_gate_details
  | EventIdentityGuardDetails event_identity_guard_details
  | PaymentStateGateDetails payment_state_gate_details
  | MerchantStateMutationDetails merchant_state_mutation_details
  | AcknowledgementBoundaryDetails acknowledgement_boundary_details

fun node_details_json :: "node_details \<Rightarrow> json" where
  "node_details_json (PaymentIngressDetails d) = JObj
     [(''detail_kind'', JStr ''PAYMENT_INGRESS''),
      (''ingress_kind'', JStr (payment_ingress_kind_value (pi_ingress_kind d))),
      (''registration'', effective_route_json (pi_registration d)),
      (''evidence_families'', jstrs (pi_evidence_families d)),
      (''checkout_request_binding'',
        jopt checkout_request_binding_json (pi_checkout_request_binding d))]"
| "node_details_json (TrustGateDetails d) = JObj
     [(''detail_kind'', JStr ''TRUST_GATE''),
      (''trust_kind'', JStr (trust_gate_kind_value (tg_trust_kind d))),
      (''route_registration_id'', JStr (tg_route_registration_id d)),
      (''structural_anchor'', JStr (tg_structural_anchor d)),
      (''webhook_body_origin'', jopt (JStr \<circ> webhook_body_origin_value) (tg_webhook_body_origin d)),
      (''order_identity_origin'',
        jopt (JStr \<circ> order_identity_origin_value) (tg_order_identity_origin d))]"
| "node_details_json (EventIdentityGuardDetails d) = JObj
     [(''detail_kind'', JStr ''EVENT_IDENTITY_GUARD''),
      (''route_registration_id'', JStr (eg_route_registration_id d)),
      (''structural_anchor'', JStr (eg_structural_anchor d)),
      (''strategy'', JStr (event_identity_strategy_value (eg_strategy d)))]"
| "node_details_json (PaymentStateGateDetails d) = JObj
     [(''detail_kind'', JStr ''PAYMENT_STATE_GATE''),
      (''route_registration_id'', JStr (sg_route_registration_id d)),
      (''structural_anchor'', JStr (sg_structural_anchor d)),
      (''operator'', JStr (payment_state_operator_value (sg_operator d))),
      (''states'', jstrs (sg_states d))]"
| "node_details_json (MerchantStateMutationDetails d) = JObj
     [(''detail_kind'', JStr ''MERCHANT_STATE_MUTATION''),
      (''route_registration_id'', JStr (mm_route_registration_id d)),
      (''structural_anchor'', JStr (mm_structural_anchor d)),
      (''mutation_kind'', JStr (merchant_mutation_kind_value (mm_mutation_kind d))),
      (''carrier_reference'', JStr (mm_carrier_reference d)),
      (''assigned_payment_state'', jopt JStr (mm_assigned_payment_state d))]"
| "node_details_json (AcknowledgementBoundaryDetails d) = JObj
     [(''detail_kind'', JStr ''ACKNOWLEDGEMENT_BOUNDARY''),
      (''route_registration_id'', JStr (ab_route_registration_id d)),
      (''structural_anchor'', JStr (ab_structural_anchor d)),
      (''exit_kind'', JStr (acknowledgement_exit_kind_value (ab_exit_kind d))),
      (''status_code'', jopt jnat (ab_status_code d)),
      (''outcome'', JStr (acknowledgement_outcome_value (ab_outcome d)))]"

section \<open>Nodes\<close>

record graph_node =
  gn_node_id :: string
  gn_kind :: graph_node_kind
  gn_label :: string
  gn_backing_symbol_id :: "string option"
  gn_details :: "node_details option"
  gn_provenance :: "provenance_record list"

fun details_match :: "graph_node_kind \<Rightarrow> node_details option \<Rightarrow> bool" where
  "details_match PAYMENT_INGRESS d = (case d of Some (PaymentIngressDetails _) \<Rightarrow> True | _ \<Rightarrow> False)"
| "details_match TRUST_GATE d = (case d of Some (TrustGateDetails _) \<Rightarrow> True | _ \<Rightarrow> False)"
| "details_match EVENT_IDENTITY_GUARD d =
     (case d of Some (EventIdentityGuardDetails _) \<Rightarrow> True | _ \<Rightarrow> False)"
| "details_match PAYMENT_STATE_GATE d =
     (case d of Some (PaymentStateGateDetails _) \<Rightarrow> True | _ \<Rightarrow> False)"
| "details_match MERCHANT_STATE_MUTATION d =
     (case d of Some (MerchantStateMutationDetails _) \<Rightarrow> True | _ \<Rightarrow> False)"
| "details_match ACKNOWLEDGEMENT_BOUNDARY d =
     (case d of Some (AcknowledgementBoundaryDetails _) \<Rightarrow> True | _ \<Rightarrow> False)"
| "details_match CUSTOMER_VALUE_ACTION d = True"

definition static_unsupported :: "provenance_record \<Rightarrow> bool" where
  "static_unsupported r \<longleftrightarrow> pr_kind r = STATIC \<and> pr_supporting_fingerprint r = None"

definition semantic_evidence :: "provenance_record \<Rightarrow> bool" where
  "semantic_evidence r \<longleftrightarrow>
     pr_supporting_fingerprint r \<noteq> None \<and>
     ((pr_kind r = AI_INFERRED \<and>
       pr_reference r = ''customer-value-resolution:MODEL_UNIQUE'') \<or>
      (pr_kind r = HUMAN_CONFIRMED \<and>
       pr_reference r \<in> {''customer-value-resolution:HUMAN_CONFIRMED'',
                         ''customer-value-resolution:MANUAL_SELECTION''}))"

definition validate_node :: "graph_node \<Rightarrow> error option" where
  "validate_node n =
     (if \<not> details_match (gn_kind n) (gn_details n)
      then Some (ValueError ''graph node details must match node kind'')
      else if gn_kind n = CUSTOMER_VALUE_ACTION \<and> gn_details n \<noteq> None
      then Some (ValueError ''customer-value details are owned by semantic resolution'')
      else if gn_backing_symbol_id n = None
      then Some (ValueError ''graph nodes require a backing symbol'')
      else if list_ex static_unsupported (gn_provenance n)
      then Some (ValueError ''static graph provenance requires a supporting fingerprint'')
      else if gn_kind n \<noteq> CUSTOMER_VALUE_ACTION then None
      else if filter semantic_evidence (gn_provenance n) = []
      then Some (ValueError (''customer-value actions require fingerprinted semantic-resolution '' @
                             ''provenance from AI inference or human confirmation''))
      else None)"

definition graph_node_json :: "graph_node \<Rightarrow> json" where
  "graph_node_json n = JObj
     [(''node_id'', JStr (gn_node_id n)), (''kind'', JStr (graph_node_kind_value (gn_kind n))),
      (''label'', JStr (gn_label n)), (''backing_symbol_id'', jopt JStr (gn_backing_symbol_id n)),
      (''details'', jopt node_details_json (gn_details n)),
      (''provenance'', JArr (map provenance_json (gn_provenance n)))]"

section \<open>Edges\<close>

record graph_branch =
  br_disposition :: branch_disposition
  br_states :: "string list"

record graph_edge =
  ge_edge_id :: string
  ge_source_node_id :: string
  ge_target_node_id :: string
  ge_kind :: graph_edge_kind
  ge_branch :: "graph_branch option"
  ge_provenance :: "provenance_record list"

definition validate_edge_details :: "graph_edge \<Rightarrow> error option" where
  "validate_edge_details e =
     (if ge_kind e = BRANCHES_TO \<and> ge_branch e = None
      then Some (ValueError ''BRANCHES_TO edges require branch details'')
      else if ge_kind e \<noteq> BRANCHES_TO \<and> ge_branch e \<noteq> None
      then Some (ValueError ''branch details are valid only for BRANCHES_TO edges'')
      else if list_ex static_unsupported (ge_provenance e)
      then Some (ValueError ''static graph provenance requires a supporting fingerprint'')
      else None)"

definition graph_edge_json :: "graph_edge \<Rightarrow> json" where
  "graph_edge_json e = JObj
     [(''edge_id'', JStr (ge_edge_id e)), (''source_node_id'', JStr (ge_source_node_id e)),
      (''target_node_id'', JStr (ge_target_node_id e)),
      (''kind'', JStr (graph_edge_kind_value (ge_kind e))),
      (''branch'', jopt (\<lambda>b. JObj
         [(''disposition'', JStr (branch_disposition_value (br_disposition b))),
          (''states'', jstrs (br_states b))]) (ge_branch e)),
      (''provenance'', JArr (map provenance_json (ge_provenance e)))]"

section \<open>The graph artifact\<close>

definition ordered_records :: "('a \<Rightarrow> json) \<Rightarrow> 'a list \<Rightarrow> json" where
  "ordered_records enc records = JArr (map enc (canonical_order enc records))"

definition graph_fingerprint ::
  "string \<Rightarrow> string \<Rightarrow> graph_completeness \<Rightarrow> graph_diagnostic list \<Rightarrow> graph_node list \<Rightarrow>
   graph_edge list \<Rightarrow> string" where
  "graph_fingerprint project_id source_index_fingerprint completeness diagnostics nodes edges =
     fingerprint_json (JObj
       [(''schema_version'', JInt 2), (''project_id'', JStr project_id),
        (''source_index_fingerprint'', JStr source_index_fingerprint),
        (''completeness'', JStr (graph_completeness_value completeness)),
        (''diagnostics'', ordered_records graph_diagnostic_json diagnostics),
        (''nodes'', ordered_records graph_node_json nodes),
        (''edges'', ordered_records graph_edge_json edges)])"

record safety_graph =
  pg_project_id :: string
  pg_source_index_fingerprint :: string
  pg_graph_fingerprint :: string
  pg_completeness :: graph_completeness
  pg_diagnostics :: "graph_diagnostic list"
  pg_nodes :: "graph_node list"
  pg_edges :: "graph_edge list"

abbreviation graph_callers :: "graph_node_kind set" where
  "graph_callers \<equiv> {PAYMENT_INGRESS, TRUST_GATE, EVENT_IDENTITY_GUARD, PAYMENT_STATE_GATE,
                    MERCHANT_STATE_MUTATION}"

abbreviation graph_called :: "graph_node_kind set" where
  "graph_called \<equiv> {TRUST_GATE, EVENT_IDENTITY_GUARD, PAYMENT_STATE_GATE, MERCHANT_STATE_MUTATION,
                   CUSTOMER_VALUE_ACTION}"

abbreviation graph_guarded :: "graph_node_kind set" where
  "graph_guarded \<equiv> graph_called \<union> {CUSTOMER_VALUE_ACTION}"

definition validate_edge_kinds ::
  "graph_edge_kind \<Rightarrow> graph_node_kind \<Rightarrow> graph_node_kind \<Rightarrow> error option" where
  "validate_edge_kinds edge_kind source_kind target_kind =
     (if edge_kind = CALLS \<and> \<not> (source_kind \<in> graph_callers \<and> target_kind \<in> graph_called)
      then Some (ValueError ''CALLS edge has invalid node-kind orientation'')
      else if edge_kind = GUARDS \<and>
        \<not> (source_kind \<in> {TRUST_GATE, EVENT_IDENTITY_GUARD} \<and> target_kind \<in> graph_guarded)
      then Some (ValueError ''GUARDS edge has invalid node-kind orientation'')
      else if edge_kind = BRANCHES_TO \<and>
        \<not> (source_kind = PAYMENT_STATE_GATE \<and>
           target_kind \<in> graph_guarded \<union> {ACKNOWLEDGEMENT_BOUNDARY})
      then Some (ValueError ''BRANCHES_TO edge has invalid node-kind orientation'')
      else if edge_kind = ACKNOWLEDGES_AFTER \<and>
        \<not> (source_kind = ACKNOWLEDGEMENT_BOUNDARY \<and> target_kind \<in> graph_guarded)
      then Some (ValueError ''ACKNOWLEDGES_AFTER edge has invalid node-kind orientation'')
      else if edge_kind = MUTATES \<and>
        \<not> (source_kind = CUSTOMER_VALUE_ACTION \<and> target_kind = MERCHANT_STATE_MUTATION)
      then Some (ValueError ''MUTATES edge has invalid node-kind orientation'')
      else if edge_kind = TRIGGERS \<and>
        \<not> (source_kind \<in> {PAYMENT_STATE_GATE, MERCHANT_STATE_MUTATION} \<and>
           target_kind = CUSTOMER_VALUE_ACTION)
      then Some (ValueError ''TRIGGERS edge has invalid node-kind orientation'')
      else None)"

definition validate_edge_endpoints :: "graph_node list \<Rightarrow> graph_edge \<Rightarrow> error option" where
  "validate_edge_endpoints nodes e =
     (case (dict_by gn_node_id nodes (ge_source_node_id e),
            dict_by gn_node_id nodes (ge_target_node_id e)) of
        (Some source, Some target) \<Rightarrow> validate_edge_kinds (ge_kind e) (gn_kind source) (gn_kind target)
      | _ \<Rightarrow> Some (ValueError ''graph edge endpoints must refer to existing nodes''))"

definition validate_graph :: "safety_graph \<Rightarrow> error option" where
  "validate_graph g =
     (if \<not> distinct (map gn_node_id (pg_nodes g))
      then Some (ValueError ''graph node IDs must be unique'')
      else if \<not> distinct (map ge_edge_id (pg_edges g))
      then Some (ValueError ''graph edge IDs must be unique'')
      else case first_error (map (validate_edge_endpoints (pg_nodes g)) (pg_edges g)) of
        Some err \<Rightarrow> Some err
      | None \<Rightarrow>
          if pg_completeness g \<noteq> graph_completeness_for (pg_diagnostics g)
          then Some (ValueError ''graph completeness must match diagnostic impact'')
          else if pg_graph_fingerprint g \<noteq>
            graph_fingerprint (pg_project_id g) (pg_source_index_fingerprint g) (pg_completeness g)
              (pg_diagnostics g) (pg_nodes g) (pg_edges g)
          then Some (ValueError ''graph fingerprint must match graph contents'')
          else None)"

definition valid_graph :: "safety_graph \<Rightarrow> bool" where
  "valid_graph g \<longleftrightarrow> validate_graph g = None"

section \<open>What validation guarantees\<close>

lemma valid_graph_facts:
  assumes "valid_graph g"
  shows "distinct (map gn_node_id (pg_nodes g))"
    and "distinct (map ge_edge_id (pg_edges g))"
    and "e \<in> set (pg_edges g) \<Longrightarrow> validate_edge_endpoints (pg_nodes g) e = None"
    and "pg_completeness g = graph_completeness_for (pg_diagnostics g)"
    and "pg_graph_fingerprint g =
      graph_fingerprint (pg_project_id g) (pg_source_index_fingerprint g) (pg_completeness g)
        (pg_diagnostics g) (pg_nodes g) (pg_edges g)"
  using assms
  by (auto simp: valid_graph_def validate_graph_def first_error_None_iff
      split: if_splits option.splits)

interpretation graph_nodes: keyed_records gn_node_id pg_nodes valid_graph
  by unfold_locales (rule valid_graph_facts)

interpretation graph_edges: keyed_records ge_edge_id pg_edges valid_graph
  by unfold_locales (rule valid_graph_facts)

lemma valid_graph_endpoints:
  assumes "valid_graph g" and "e \<in> set (pg_edges g)"
  obtains source target where
    "source \<in> set (pg_nodes g)" and "gn_node_id source = ge_source_node_id e"
    and "target \<in> set (pg_nodes g)" and "gn_node_id target = ge_target_node_id e"
    and "validate_edge_kinds (ge_kind e) (gn_kind source) (gn_kind target) = None"
proof -
  obtain source target where
    "dict_by gn_node_id (pg_nodes g) (ge_source_node_id e) = Some source"
    "dict_by gn_node_id (pg_nodes g) (ge_target_node_id e) = Some target"
    "validate_edge_kinds (ge_kind e) (gn_kind source) (gn_kind target) = None"
    using valid_graph_facts(3)[OF assms]
    by (auto simp: validate_edge_endpoints_def split: option.splits)
  then show thesis using that dict_by_SomeD by metis
qed

lemma graph_partial_iff:
  assumes "valid_graph g"
  shows "pg_completeness g = PARTIAL \<longleftrightarrow> (\<exists>d \<in> set (pg_diagnostics g). gd_impact d = COVERAGE_REDUCED)"
  using valid_graph_facts(4)[OF assms] by (auto simp: graph_completeness_for_def list_ex_iff)

lemma ordered_records_perm:
  "mset xs = mset ys \<Longrightarrow> canonical_json (ordered_records enc xs) = canonical_json (ordered_records enc ys)"
  unfolding ordered_records_def by (rule canonical_order_perm)

text \<open>
  The fingerprint of a safety graph depends on which nodes, edges and diagnostics it has,
  not on the order in which the recognizers produced them.
\<close>

theorem graph_fingerprint_order_independent:
  assumes "mset diagnostics = mset diagnostics'"
    and "mset nodes = mset nodes'" and "mset edges = mset edges'"
  shows "graph_fingerprint p s c diagnostics nodes edges = graph_fingerprint p s c diagnostics' nodes' edges'"
  using ordered_records_perm[OF assms(1)] ordered_records_perm[OF assms(2)]
    ordered_records_perm[OF assms(3)]
  by (simp add: graph_fingerprint_def fingerprint_json_def)

theorem graph_fingerprint_order_independent_witness:
  "graph_fingerprint ''p'' ''s'' COMPLETE [] []
     [\<lparr>ge_edge_id = ''e1'', ge_source_node_id = ''a'', ge_target_node_id = ''b'', ge_kind = CALLS,
       ge_branch = None, ge_provenance = []\<rparr>,
      \<lparr>ge_edge_id = ''e2'', ge_source_node_id = ''b'', ge_target_node_id = ''a'', ge_kind = GUARDS,
       ge_branch = None, ge_provenance = []\<rparr>]
   = graph_fingerprint ''p'' ''s'' COMPLETE [] []
     [\<lparr>ge_edge_id = ''e2'', ge_source_node_id = ''b'', ge_target_node_id = ''a'', ge_kind = GUARDS,
       ge_branch = None, ge_provenance = []\<rparr>,
      \<lparr>ge_edge_id = ''e1'', ge_source_node_id = ''a'', ge_target_node_id = ''b'', ge_kind = CALLS,
       ge_branch = None, ge_provenance = []\<rparr>]"
  by (rule graph_fingerprint_order_independent) simp_all

text \<open>
  The orientation table of the graph: between which kinds of nodes an edge of each kind may run.
\<close>

fun orientations :: "graph_edge_kind \<Rightarrow> (graph_node_kind \<times> graph_node_kind) set" where
  "orientations CALLS =
     {PAYMENT_INGRESS, TRUST_GATE, EVENT_IDENTITY_GUARD, PAYMENT_STATE_GATE, MERCHANT_STATE_MUTATION} \<times>
     {TRUST_GATE, EVENT_IDENTITY_GUARD, PAYMENT_STATE_GATE, MERCHANT_STATE_MUTATION, CUSTOMER_VALUE_ACTION}"
| "orientations GUARDS =
     {TRUST_GATE, EVENT_IDENTITY_GUARD} \<times>
     {TRUST_GATE, EVENT_IDENTITY_GUARD, PAYMENT_STATE_GATE, MERCHANT_STATE_MUTATION, CUSTOMER_VALUE_ACTION}"
| "orientations BRANCHES_TO =
     {PAYMENT_STATE_GATE} \<times> {TRUST_GATE, EVENT_IDENTITY_GUARD, PAYMENT_STATE_GATE,
       MERCHANT_STATE_MUTATION, CUSTOMER_VALUE_ACTION, ACKNOWLEDGEMENT_BOUNDARY}"
| "orientations MUTATES = {(CUSTOMER_VALUE_ACTION, MERCHANT_STATE_MUTATION)}"
| "orientations TRIGGERS = {PAYMENT_STATE_GATE, MERCHANT_STATE_MUTATION} \<times> {CUSTOMER_VALUE_ACTION}"
| "orientations ACKNOWLEDGES_AFTER =
     {ACKNOWLEDGEMENT_BOUNDARY} \<times>
     {TRUST_GATE, EVENT_IDENTITY_GUARD, PAYMENT_STATE_GATE, MERCHANT_STATE_MUTATION, CUSTOMER_VALUE_ACTION}"

definition oriented_edge :: "graph_node list \<Rightarrow> graph_edge \<Rightarrow> bool" where
  "oriented_edge nodes e \<longleftrightarrow>
     (\<exists>source \<in> set nodes. \<exists>target \<in> set nodes.
        gn_node_id source = ge_source_node_id e \<and> gn_node_id target = ge_target_node_id e \<and>
        (gn_kind source, gn_kind target) \<in> orientations (ge_kind e))"

lemma validate_edge_kinds_iff: "validate_edge_kinds k a b = None \<longleftrightarrow> (a, b) \<in> orientations k"
  by (cases k; cases a; cases b) (simp_all add: validate_edge_kinds_def)

interpretation node_list: keyed_records gn_node_id "\<lambda>ns. ns" "\<lambda>ns. distinct (map gn_node_id ns)"
  by unfold_locales

lemma validate_edge_endpoints_iff:
  assumes "distinct (map gn_node_id nodes)"
  shows "validate_edge_endpoints nodes e = None \<longleftrightarrow> oriented_edge nodes e"
proof
  assume "validate_edge_endpoints nodes e = None"
  then obtain source target where
    "dict_by gn_node_id nodes (ge_source_node_id e) = Some source"
    "dict_by gn_node_id nodes (ge_target_node_id e) = Some target"
    "validate_edge_kinds (ge_kind e) (gn_kind source) (gn_kind target) = None"
    by (auto simp: validate_edge_endpoints_def split: option.splits)
  then show "oriented_edge nodes e"
    unfolding oriented_edge_def validate_edge_kinds_iff node_list.lookup_iff[OF assms] by blast
next
  assume "oriented_edge nodes e"
  then obtain source target where
    "dict_by gn_node_id nodes (ge_source_node_id e) = Some source"
    "dict_by gn_node_id nodes (ge_target_node_id e) = Some target"
    "validate_edge_kinds (ge_kind e) (gn_kind source) (gn_kind target) = None"
    unfolding oriented_edge_def validate_edge_kinds_iff node_list.lookup_iff[OF assms] by blast
  then show "validate_edge_endpoints nodes e = None" by (simp add: validate_edge_endpoints_def)
qed

text \<open>
  C31. The validator accepts exactly the well-formed graphs: identities of nodes and of edges are
  unique; every edge joins two recorded nodes whose kinds the table \<open>orientations\<close> lists for the
  kind of the edge; the graph is partial if and only if some diagnostic reduces its coverage; and
  the fingerprint is the one of its contents.
\<close>

theorem valid_graph_characterization:
  "valid_graph g \<longleftrightarrow>
     distinct (map gn_node_id (pg_nodes g)) \<and> distinct (map ge_edge_id (pg_edges g)) \<and>
     (\<forall>e \<in> set (pg_edges g). oriented_edge (pg_nodes g) e) \<and>
     (pg_completeness g = PARTIAL \<longleftrightarrow> (\<exists>d \<in> set (pg_diagnostics g). gd_impact d = COVERAGE_REDUCED)) \<and>
     pg_graph_fingerprint g =
       graph_fingerprint (pg_project_id g) (pg_source_index_fingerprint g) (pg_completeness g)
         (pg_diagnostics g) (pg_nodes g) (pg_edges g)"
proof -
  have complete: "pg_completeness g = graph_completeness_for (pg_diagnostics g) \<longleftrightarrow>
      (pg_completeness g = PARTIAL \<longleftrightarrow> (\<exists>d \<in> set (pg_diagnostics g). gd_impact d = COVERAGE_REDUCED))"
    by (cases "pg_completeness g") (auto simp: graph_completeness_for_def list_ex_iff)
  show ?thesis
  proof (cases "distinct (map gn_node_id (pg_nodes g))")
    case True
    have "first_error (map (validate_edge_endpoints (pg_nodes g)) (pg_edges g)) = None \<longleftrightarrow>
        (\<forall>e \<in> set (pg_edges g). oriented_edge (pg_nodes g) e)"
      by (simp add: first_error_None_iff validate_edge_endpoints_iff[OF True])
    then show ?thesis unfolding complete[symmetric]
      by (auto simp: valid_graph_def validate_graph_def split: option.splits)
  qed (simp add: valid_graph_def validate_graph_def)
qed

definition demo_node :: "string \<Rightarrow> graph_node_kind \<Rightarrow> graph_node" where
  "demo_node i k = \<lparr>gn_node_id = i, gn_kind = k, gn_label = ''n'', gn_backing_symbol_id = Some ''s'',
     gn_details = None, gn_provenance = []\<rparr>"

definition demo_edge :: graph_edge where
  "demo_edge = \<lparr>ge_edge_id = ''e1'', ge_source_node_id = ''a'', ge_target_node_id = ''b'',
     ge_kind = CALLS, ge_branch = None, ge_provenance = []\<rparr>"

definition demo_graph :: safety_graph where
  "demo_graph =
     (let nodes = [demo_node ''a'' PAYMENT_INGRESS, demo_node ''b'' CUSTOMER_VALUE_ACTION]
      in \<lparr>pg_project_id = ''p'', pg_source_index_fingerprint = ''s'',
          pg_graph_fingerprint = graph_fingerprint ''p'' ''s'' COMPLETE [] nodes [demo_edge],
          pg_completeness = COMPLETE, pg_diagnostics = [], pg_nodes = nodes,
          pg_edges = [demo_edge]\<rparr>)"

lemma demo_graph_valid: "valid_graph demo_graph"
  by (simp add: valid_graph_def validate_graph_def demo_graph_def Let_def demo_node_def
      demo_edge_def validate_edge_endpoints_def validate_edge_kinds_def dict_by_def
      graph_completeness_for_def)

theorem valid_graph_characterization_witness:
  "valid_graph demo_graph \<and> oriented_edge (pg_nodes demo_graph) demo_edge \<and>
   \<not> oriented_edge (pg_nodes demo_graph) (demo_edge\<lparr>ge_kind := GUARDS\<rparr>)"
proof -
  have "demo_edge \<in> set (pg_edges demo_graph)" by (simp add: demo_graph_def Let_def)
  with valid_graph_characterization[of demo_graph] demo_graph_valid
  have "oriented_edge (pg_nodes demo_graph) demo_edge" by blast
  moreover have "\<not> oriented_edge (pg_nodes demo_graph) (demo_edge\<lparr>ge_kind := GUARDS\<rparr>)"
    by (simp add: oriented_edge_def demo_graph_def demo_edge_def demo_node_def Let_def)
  ultimately show ?thesis using demo_graph_valid by blast
qed

end
