(* ===== verification/Applicability.thy ===== *)
theory Applicability
  imports SafetyGraph
begin

text \<open>
  The persisted contracts of merchant-policy evidence and scenario applicability,
  \<open>applicability/contracts.py\<close>: the reason and evidence vocabulary, the policy assessments,
  the assertion, instance and scenario records, the roll-up of assertion states, and the
  validators of the applicability artifact.  Reason codes carry the prefix \<open>AR_\<close> and evidence
  kinds \<open>EV_\<close>.
\<close>

section \<open>Vocabulary\<close>

datatype policy_evidence_status =
    CONSISTENT_SUGGESTION
  | CONFLICTING_EVIDENCE
  | INSUFFICIENT_EVIDENCE

fun policy_evidence_status_value :: "policy_evidence_status \<Rightarrow> string" where
  "policy_evidence_status_value CONSISTENT_SUGGESTION = ''CONSISTENT_SUGGESTION''"
| "policy_evidence_status_value CONFLICTING_EVIDENCE = ''CONFLICTING_EVIDENCE''"
| "policy_evidence_status_value INSUFFICIENT_EVIDENCE = ''INSUFFICIENT_EVIDENCE''"

datatype applicability_state =
    APPLICABLE
  | NOT_APPLICABLE
  | NEEDS_INPUT
  | INDETERMINATE

fun applicability_state_value :: "applicability_state \<Rightarrow> string" where
  "applicability_state_value APPLICABLE = ''APPLICABLE''"
| "applicability_state_value NOT_APPLICABLE = ''NOT_APPLICABLE''"
| "applicability_state_value NEEDS_INPUT = ''NEEDS_INPUT''"
| "applicability_state_value INDETERMINATE = ''INDETERMINATE''"

datatype assertion_role =
    CORE
  | OPTIONAL

fun assertion_role_value :: "assertion_role \<Rightarrow> string" where
  "assertion_role_value CORE = ''CORE''"
| "assertion_role_value OPTIONAL = ''OPTIONAL''"

datatype scenario_id =
    SG_01
  | SG_02
  | SG_03
  | SG_04
  | SG_05
  | SG_06
  | SG_07
  | SG_08

fun scenario_id_value :: "scenario_id \<Rightarrow> string" where
  "scenario_id_value SG_01 = ''SG-01''"
| "scenario_id_value SG_02 = ''SG-02''"
| "scenario_id_value SG_03 = ''SG-03''"
| "scenario_id_value SG_04 = ''SG-04''"
| "scenario_id_value SG_05 = ''SG-05''"
| "scenario_id_value SG_06 = ''SG-06''"
| "scenario_id_value SG_07 = ''SG-07''"
| "scenario_id_value SG_08 = ''SG-08''"

datatype evidence_reference_kind =
    EV_GRAPH_NODE
  | EV_GRAPH_EDGE
  | EV_GRAPH_DIAGNOSTIC
  | EV_SEMANTIC_RESOLUTION
  | EV_MERCHANT_POLICY
  | EV_RAZORPAY_RULE
  | EV_NORMAL_CONTROL

fun evidence_reference_kind_value :: "evidence_reference_kind \<Rightarrow> string" where
  "evidence_reference_kind_value EV_GRAPH_NODE = ''GRAPH_NODE''"
| "evidence_reference_kind_value EV_GRAPH_EDGE = ''GRAPH_EDGE''"
| "evidence_reference_kind_value EV_GRAPH_DIAGNOSTIC = ''GRAPH_DIAGNOSTIC''"
| "evidence_reference_kind_value EV_SEMANTIC_RESOLUTION = ''SEMANTIC_RESOLUTION''"
| "evidence_reference_kind_value EV_MERCHANT_POLICY = ''MERCHANT_POLICY''"
| "evidence_reference_kind_value EV_RAZORPAY_RULE = ''RAZORPAY_RULE''"
| "evidence_reference_kind_value EV_NORMAL_CONTROL = ''NORMAL_CONTROL''"

datatype applicability_reason_code =
    AR_EXACT_CONTROL_AVAILABLE
  | AR_INGRESS_ABSENT
  | AR_CUSTOMER_VALUE_UNRESOLVED
  | AR_CUSTOMER_VALUE_PATH_ABSENT
  | AR_GRAPH_COVERAGE_INSUFFICIENT
  | AR_FULFILMENT_POLICY_REQUIRED
  | AR_FULFILMENT_POLICY_STALE
  | AR_NORMAL_CAPTURE_THRESHOLD_AVAILABLE
  | AR_NORMAL_CAPTURE_THRESHOLD_UNPROVEN
  | AR_CAPTURED_EVENT_TARGET_AVAILABLE
  | AR_CAPTURED_EVENT_TARGET_UNPROVEN
  | AR_LATE_AUTHORISATION_POLICY_REQUIRED
  | AR_LATE_AUTHORISATION_POLICY_STALE
  | AR_MERCHANT_LATE_CONTEXT_UNPROVEN
  | AR_VALUE_BEFORE_ACK_PROVEN
  | AR_VALUE_BEFORE_ACK_NOT_PRESENT
  | AR_ACK_ORDER_UNRESOLVED
  | AR_MUTATION_TARGET_AVAILABLE
  | AR_MUTATION_TARGET_ABSENT
  | AR_CHECKOUT_SURFACE_REQUIRED
  | AR_CHECKOUT_REQUEST_BINDING_AVAILABLE
  | AR_CHECKOUT_REQUEST_BINDING_UNRESOLVED
  | AR_CHECKOUT_TARGET_LINK_AVAILABLE
  | AR_CHECKOUT_TARGET_LINK_UNRESOLVED
  | AR_STATE_REGRESSION_TARGET_AVAILABLE
  | AR_STATE_REGRESSION_TARGET_ABSENT
  | AR_STATE_REGRESSION_TARGET_UNRESOLVED
  | AR_POLICY_MATRIX_SELECTED
  | AR_LATE_SEQUENCE_NOT_SUPPORTED
  | AR_LATE_SEQUENCE_UNRESOLVED

fun applicability_reason_code_value :: "applicability_reason_code \<Rightarrow> string" where
  "applicability_reason_code_value AR_EXACT_CONTROL_AVAILABLE = ''EXACT_CONTROL_AVAILABLE''"
| "applicability_reason_code_value AR_INGRESS_ABSENT = ''INGRESS_ABSENT''"
| "applicability_reason_code_value AR_CUSTOMER_VALUE_UNRESOLVED = ''CUSTOMER_VALUE_UNRESOLVED''"
| "applicability_reason_code_value AR_CUSTOMER_VALUE_PATH_ABSENT = ''CUSTOMER_VALUE_PATH_ABSENT''"
| "applicability_reason_code_value AR_GRAPH_COVERAGE_INSUFFICIENT = ''GRAPH_COVERAGE_INSUFFICIENT''"
| "applicability_reason_code_value AR_FULFILMENT_POLICY_REQUIRED = ''FULFILMENT_POLICY_REQUIRED''"
| "applicability_reason_code_value AR_FULFILMENT_POLICY_STALE = ''FULFILMENT_POLICY_STALE''"
| "applicability_reason_code_value AR_NORMAL_CAPTURE_THRESHOLD_AVAILABLE = ''NORMAL_CAPTURE_THRESHOLD_AVAILABLE''"
| "applicability_reason_code_value AR_NORMAL_CAPTURE_THRESHOLD_UNPROVEN = ''NORMAL_CAPTURE_THRESHOLD_UNPROVEN''"
| "applicability_reason_code_value AR_CAPTURED_EVENT_TARGET_AVAILABLE = ''CAPTURED_EVENT_TARGET_AVAILABLE''"
| "applicability_reason_code_value AR_CAPTURED_EVENT_TARGET_UNPROVEN = ''CAPTURED_EVENT_TARGET_UNPROVEN''"
| "applicability_reason_code_value AR_LATE_AUTHORISATION_POLICY_REQUIRED = ''LATE_AUTHORISATION_POLICY_REQUIRED''"
| "applicability_reason_code_value AR_LATE_AUTHORISATION_POLICY_STALE = ''LATE_AUTHORISATION_POLICY_STALE''"
| "applicability_reason_code_value AR_MERCHANT_LATE_CONTEXT_UNPROVEN = ''MERCHANT_LATE_CONTEXT_UNPROVEN''"
| "applicability_reason_code_value AR_VALUE_BEFORE_ACK_PROVEN = ''VALUE_BEFORE_ACK_PROVEN''"
| "applicability_reason_code_value AR_VALUE_BEFORE_ACK_NOT_PRESENT = ''VALUE_BEFORE_ACK_NOT_PRESENT''"
| "applicability_reason_code_value AR_ACK_ORDER_UNRESOLVED = ''ACK_ORDER_UNRESOLVED''"
| "applicability_reason_code_value AR_MUTATION_TARGET_AVAILABLE = ''MUTATION_TARGET_AVAILABLE''"
| "applicability_reason_code_value AR_MUTATION_TARGET_ABSENT = ''MUTATION_TARGET_ABSENT''"
| "applicability_reason_code_value AR_CHECKOUT_SURFACE_REQUIRED = ''CHECKOUT_SURFACE_REQUIRED''"
| "applicability_reason_code_value AR_CHECKOUT_REQUEST_BINDING_AVAILABLE = ''CHECKOUT_REQUEST_BINDING_AVAILABLE''"
| "applicability_reason_code_value AR_CHECKOUT_REQUEST_BINDING_UNRESOLVED = ''CHECKOUT_REQUEST_BINDING_UNRESOLVED''"
| "applicability_reason_code_value AR_CHECKOUT_TARGET_LINK_AVAILABLE = ''CHECKOUT_TARGET_LINK_AVAILABLE''"
| "applicability_reason_code_value AR_CHECKOUT_TARGET_LINK_UNRESOLVED = ''CHECKOUT_TARGET_LINK_UNRESOLVED''"
| "applicability_reason_code_value AR_STATE_REGRESSION_TARGET_AVAILABLE = ''STATE_REGRESSION_TARGET_AVAILABLE''"
| "applicability_reason_code_value AR_STATE_REGRESSION_TARGET_ABSENT = ''STATE_REGRESSION_TARGET_ABSENT''"
| "applicability_reason_code_value AR_STATE_REGRESSION_TARGET_UNRESOLVED = ''STATE_REGRESSION_TARGET_UNRESOLVED''"
| "applicability_reason_code_value AR_POLICY_MATRIX_SELECTED = ''POLICY_MATRIX_SELECTED''"
| "applicability_reason_code_value AR_LATE_SEQUENCE_NOT_SUPPORTED = ''LATE_SEQUENCE_NOT_SUPPORTED''"
| "applicability_reason_code_value AR_LATE_SEQUENCE_UNRESOLVED = ''LATE_SEQUENCE_UNRESOLVED''"

section \<open>Assertion keys\<close>

definition SG01_ASSERTION_KEY :: string where
  "SG01_ASSERTION_KEY = ''VALUE_EXACTLY_ONCE_AT_POLICY_THRESHOLD''"

definition SG02_ASSERTION_KEY :: string where
  "SG02_ASSERTION_KEY = ''DUPLICATE_VALUE_AT_MOST_ONCE''"

definition SG03_ASSERTION_KEY :: string where
  "SG03_ASSERTION_KEY = ''RETRY_VALUE_AT_MOST_ONCE''"

definition SG04_CUSTOMER_VALUE_ASSERTION_KEY :: string where
  "SG04_CUSTOMER_VALUE_ASSERTION_KEY = ''OUT_OF_ORDER_VALUE_AT_MOST_ONCE''"

definition SG04_STATE_REGRESSION_ASSERTION_KEY :: string where
  "SG04_STATE_REGRESSION_ASSERTION_KEY = ''MERCHANT_STATE_DOES_NOT_REGRESS''"

definition SG05_CUSTOMER_VALUE_ASSERTION_KEY :: string where
  "SG05_CUSTOMER_VALUE_ASSERTION_KEY = ''FORGED_WEBHOOK_NO_CUSTOMER_VALUE''"

definition SG05_MUTATION_ASSERTION_KEY :: string where
  "SG05_MUTATION_ASSERTION_KEY = ''FORGED_WEBHOOK_NO_TRUSTED_MUTATION''"

definition SG06_CUSTOMER_VALUE_ASSERTION_KEY :: string where
  "SG06_CUSTOMER_VALUE_ASSERTION_KEY = ''TAMPERED_CALLBACK_NO_CUSTOMER_VALUE''"

definition SG06_MUTATION_ASSERTION_KEY :: string where
  "SG06_MUTATION_ASSERTION_KEY = ''TAMPERED_CALLBACK_NO_TRUSTED_MUTATION''"

definition SG07_CUSTOMER_VALUE_ASSERTION_KEY :: string where
  "SG07_CUSTOMER_VALUE_ASSERTION_KEY = ''WEBHOOK_OUTCOME_WITHOUT_CALLBACK''"

definition SG08_PRECAPTURE_ASSERTION_KEY :: string where
  "SG08_PRECAPTURE_ASSERTION_KEY = ''LATE_AUTHORIZATION_PROVIDES_NO_VALUE''"

definition SG08_CAPTURE_ASSERTION_KEY :: string where
  "SG08_CAPTURE_ASSERTION_KEY = ''LATE_PAYMENT_VALUE_ONCE_AFTER_CAPTURE''"

definition SG08_LATE_POLICY_ASSERTION_KEY :: string where
  "SG08_LATE_POLICY_ASSERTION_KEY = ''LATE_PAYMENT_POLICY_OUTCOME''"

lemmas assertion_key_defs =
  SG01_ASSERTION_KEY_def
  SG02_ASSERTION_KEY_def
  SG03_ASSERTION_KEY_def
  SG04_CUSTOMER_VALUE_ASSERTION_KEY_def
  SG04_STATE_REGRESSION_ASSERTION_KEY_def
  SG05_CUSTOMER_VALUE_ASSERTION_KEY_def
  SG05_MUTATION_ASSERTION_KEY_def
  SG06_CUSTOMER_VALUE_ASSERTION_KEY_def
  SG06_MUTATION_ASSERTION_KEY_def
  SG07_CUSTOMER_VALUE_ASSERTION_KEY_def
  SG08_PRECAPTURE_ASSERTION_KEY_def
  SG08_CAPTURE_ASSERTION_KEY_def
  SG08_LATE_POLICY_ASSERTION_KEY_def

definition scenario_ids :: "scenario_id list" where
  "scenario_ids = [SG_01, SG_02, SG_03, SG_04, SG_05, SG_06, SG_07, SG_08]"

lemma set_scenario_ids: "set scenario_ids = UNIV"
proof -
  have "s \<in> set scenario_ids" for s by (cases s) (simp_all add: scenario_ids_def)
  then show ?thesis by auto
qed

lemma distinct_scenario_ids: "distinct scenario_ids"
  by (simp add: scenario_ids_def)

lemma finite_scenario_id [simp]: "finite (S :: scenario_id set)"
  using set_scenario_ids by (metis finite_set finite_subset subset_UNIV)

lemma card_scenario_id: "card (UNIV :: scenario_id set) = 8"
  by (simp add: set_scenario_ids[symmetric] scenario_ids_def)

section \<open>Evidence and reasons\<close>

record evidence_reference =
  ev_ref_kind :: evidence_reference_kind
  ev_ref_reference :: string

record applicability_reason =
  rs_code :: applicability_reason_code
  rs_evidence :: "evidence_reference list"

definition evidence_reference_json :: "evidence_reference \<Rightarrow> json" where
  "evidence_reference_json r = JObj
     [(''kind'', JStr (evidence_reference_kind_value (ev_ref_kind r))),
      (''reference'', JStr (ev_ref_reference r))]"

definition applicability_reason_json :: "applicability_reason \<Rightarrow> json" where
  "applicability_reason_json r = JObj
     [(''code'', JStr (applicability_reason_code_value (rs_code r))),
      (''evidence'', JArr (map evidence_reference_json (rs_evidence r)))]"

section \<open>Normal controls\<close>

record normal_control =
  nc_control_id :: string
  nc_ingress_node_id :: string
  nc_route_registration_id :: string
  nc_ingress_kind :: payment_ingress_kind
  nc_customer_value_node_id :: string
  nc_customer_value_symbol_id :: string
  nc_connectivity_edge_id :: string
  nc_call_path_references :: "string list"
  nc_semantic_resolution_fingerprint :: string

definition normal_control_json :: "normal_control \<Rightarrow> json" where
  "normal_control_json c = JObj
     [(''control_id'', JStr (nc_control_id c)),
      (''ingress_node_id'', JStr (nc_ingress_node_id c)),
      (''route_registration_id'', JStr (nc_route_registration_id c)),
      (''ingress_kind'', JStr (payment_ingress_kind_value (nc_ingress_kind c))),
      (''customer_value_node_id'', JStr (nc_customer_value_node_id c)),
      (''customer_value_symbol_id'', JStr (nc_customer_value_symbol_id c)),
      (''connectivity_edge_id'', JStr (nc_connectivity_edge_id c)),
      (''call_path_references'', jstrs (nc_call_path_references c)),
      (''semantic_resolution_fingerprint'', JStr (nc_semantic_resolution_fingerprint c))]"

section \<open>Policy assessments\<close>

record fulfilment_assessment =
  fa_evidence_status :: policy_evidence_status
  fa_evidence_fingerprint :: string
  fa_observed_states :: "string list"
  fa_suggested_policy :: "fulfilment_policy option"
  fa_confirmed_policy :: "fulfilment_policy option"
  fa_evidence_current :: "bool option"
  fa_implementation_mismatch :: bool

definition expected_mismatch :: "fulfilment_assessment \<Rightarrow> bool" where
  "expected_mismatch f \<longleftrightarrow>
     fa_confirmed_policy f \<noteq> None \<and> fa_suggested_policy f \<noteq> None \<and>
     fa_confirmed_policy f \<noteq> fa_suggested_policy f"

definition validate_assessment :: "fulfilment_assessment \<Rightarrow> error option" where
  "validate_assessment f =
     (if (fa_evidence_status f = CONSISTENT_SUGGESTION) \<noteq> (fa_suggested_policy f \<noteq> None)
      then Some (ValueError ''only consistent evidence may carry a policy suggestion'')
      else if fa_confirmed_policy f = None \<and>
              (fa_evidence_current f \<noteq> None \<or> fa_implementation_mismatch f)
      then Some (ValueError ''unconfirmed policy cannot have confirmation status'')
      else if fa_confirmed_policy f \<noteq> None \<and> fa_evidence_current f = None
      then Some (ValueError ''confirmed policy requires evidence-current status'')
      else if fa_implementation_mismatch f \<noteq> expected_mismatch f
      then Some (ValueError ''implementation mismatch must match evidence and declaration'')
      else None)"

record late_assessment =
  la_evidence_fingerprint :: string
  la_confirmed_policy :: "late_authorisation_policy option"
  la_evidence_current :: "bool option"

definition validate_confirmation :: "late_assessment \<Rightarrow> error option" where
  "validate_confirmation l =
     (if (la_confirmed_policy l = None) \<noteq> (la_evidence_current l = None)
      then Some (ValueError ''late-authorisation confirmation status must accompany policy'')
      else None)"

record policy_assessment =
  pa_fulfilment :: fulfilment_assessment
  pa_late_authorisation :: late_assessment

definition policy_assessment_json :: "policy_assessment \<Rightarrow> json" where
  "policy_assessment_json p =
     (let f = pa_fulfilment p; l = pa_late_authorisation p
      in JObj
       [(''fulfilment'', JObj
          [(''evidence_status'', JStr (policy_evidence_status_value (fa_evidence_status f))),
           (''evidence_fingerprint'', JStr (fa_evidence_fingerprint f)),
           (''observed_states'', jstrs (fa_observed_states f)),
           (''suggested_policy'', jopt (JStr \<circ> fulfilment_value) (fa_suggested_policy f)),
           (''confirmed_policy'', jopt (JStr \<circ> fulfilment_value) (fa_confirmed_policy f)),
           (''evidence_current'', jopt JBool (fa_evidence_current f)),
           (''implementation_mismatch'', JBool (fa_implementation_mismatch f))]),
        (''late_authorisation'', JObj
          [(''evidence_fingerprint'', JStr (la_evidence_fingerprint l)),
           (''confirmed_policy'', jopt (JStr \<circ> late_authorisation_value) (la_confirmed_policy l)),
           (''evidence_current'', jopt JBool (la_evidence_current l))])])"

section \<open>Assertions and their roll-up\<close>

record assertion_applicability =
  aa_assertion_id :: string
  aa_key :: string
  aa_role :: assertion_role
  aa_state :: applicability_state
  aa_reasons :: "applicability_reason list"
  aa_normal_control_id :: "string option"

definition assertion_json :: "assertion_applicability \<Rightarrow> json" where
  "assertion_json a = JObj
     [(''assertion_id'', JStr (aa_assertion_id a)), (''key'', JStr (aa_key a)),
      (''role'', JStr (assertion_role_value (aa_role a))),
      (''state'', JStr (applicability_state_value (aa_state a))),
      (''reasons'', JArr (map applicability_reason_json (aa_reasons a))),
      (''normal_control_id'', jopt JStr (aa_normal_control_id a))]"

definition state_priority :: "applicability_state list" where
  "state_priority = [APPLICABLE, NEEDS_INPUT, INDETERMINATE, NOT_APPLICABLE]"

definition core_states :: "assertion_applicability list \<Rightarrow> applicability_state list" where
  "core_states xs = map aa_state (filter (\<lambda>a. aa_role a = CORE) xs)"

definition roll_up_assertions :: "assertion_applicability list \<Rightarrow> applicability_state result" where
  "roll_up_assertions xs =
     (let states = core_states xs
      in if states = []
         then Inl (ValueError ''scenario applicability requires at least one core assertion'')
         else case find (\<lambda>c. c \<in> set states) state_priority of
                Some c \<Rightarrow> Inr c
              | None \<Rightarrow> Inl (AssertionError ''unreachable applicability state''))"

lemma only_not_applicable:
  "APPLICABLE \<notin> S \<Longrightarrow> NEEDS_INPUT \<notin> S \<Longrightarrow> INDETERMINATE \<notin> S \<Longrightarrow> s \<in> S \<Longrightarrow> s = NOT_APPLICABLE"
  by (cases s) auto

text \<open>The priority scan, unrolled.\<close>

lemma roll_up_eq:
  "roll_up_assertions xs =
     (let S = set (core_states xs)
      in if S = {} then Inl (ValueError ''scenario applicability requires at least one core assertion'')
         else if APPLICABLE \<in> S then Inr APPLICABLE
         else if NEEDS_INPUT \<in> S then Inr NEEDS_INPUT
         else if INDETERMINATE \<in> S then Inr INDETERMINATE
         else Inr NOT_APPLICABLE)"
proof (cases "core_states xs")
  case Nil
  then show ?thesis by (simp add: roll_up_assertions_def)
next
  case (Cons s ss)
  then have "s \<in> set (core_states xs)" by simp
  then have "APPLICABLE \<in> set (core_states xs) \<or> NEEDS_INPUT \<in> set (core_states xs) \<or>
      INDETERMINATE \<in> set (core_states xs) \<or> NOT_APPLICABLE \<in> set (core_states xs)"
    by - (cases s, auto)
  moreover have "core_states xs \<noteq> []" using Cons by simp
  ultimately show ?thesis
    by (auto simp only: roll_up_assertions_def Let_def state_priority_def find.simps set_empty if_True
        if_False option.case simp_thms split: if_splits)
qed

lemma roll_up_never_unreachable: "roll_up_assertions xs \<noteq> Inl (AssertionError m)"
  by (simp add: roll_up_eq Let_def)

lemma roll_up_Inr_core: "roll_up_assertions xs = Inr s \<Longrightarrow> s \<in> set (core_states xs)"
  by (auto simp: roll_up_assertions_def Let_def find_Some_iff split: if_splits option.splits)

lemma roll_up_applicable_iff:
  "roll_up_assertions xs = Inr APPLICABLE \<longleftrightarrow> APPLICABLE \<in> set (core_states xs)"
  by (auto simp: roll_up_eq Let_def)

lemma roll_up_not_applicable_iff:
  "roll_up_assertions xs = Inr NOT_APPLICABLE \<longleftrightarrow>
     core_states xs \<noteq> [] \<and> set (core_states xs) \<subseteq> {NOT_APPLICABLE}"
  by (auto simp: roll_up_eq Let_def dest: only_not_applicable)

lemma roll_up_cong:
  "set (core_states xs) = set (core_states ys) \<Longrightarrow> roll_up_assertions xs = roll_up_assertions ys"
  by (simp add: roll_up_eq)

section \<open>Instances and scenarios\<close>

record scenario_instance =
  si_instance_id :: string
  si_state :: applicability_state
  si_ingress_node_id :: "string option"
  si_normal_control_id :: "string option"
  si_route_registration_id :: "string option"
  si_customer_value_node_id :: "string option"
  si_customer_value_symbol_id :: "string option"
  si_assertions :: "assertion_applicability list"

definition validate_instance :: "scenario_instance \<Rightarrow> error option" where
  "validate_instance i =
     (case roll_up_assertions (si_assertions i) of
        Inl e \<Rightarrow> Some e
      | Inr s \<Rightarrow> if si_state i \<noteq> s
                then Some (ValueError ''scenario-instance state must roll up from core assertions'')
                else None)"

definition scenario_instance_json :: "scenario_instance \<Rightarrow> json" where
  "scenario_instance_json i = JObj
     [(''instance_id'', JStr (si_instance_id i)),
      (''state'', JStr (applicability_state_value (si_state i))),
      (''ingress_node_id'', jopt JStr (si_ingress_node_id i)),
      (''normal_control_id'', jopt JStr (si_normal_control_id i)),
      (''route_registration_id'', jopt JStr (si_route_registration_id i)),
      (''customer_value_node_id'', jopt JStr (si_customer_value_node_id i)),
      (''customer_value_symbol_id'', jopt JStr (si_customer_value_symbol_id i)),
      (''assertions'', JArr (map assertion_json (si_assertions i)))]"

record scenario_applicability =
  sc_scenario_id :: scenario_id
  sc_state :: applicability_state
  sc_instances :: "scenario_instance list"

definition scenario_assertions :: "scenario_applicability \<Rightarrow> assertion_applicability list" where
  "scenario_assertions s = concat (map si_assertions (sc_instances s))"

definition validate_scenario :: "scenario_applicability \<Rightarrow> error option" where
  "validate_scenario s =
     (case roll_up_assertions (scenario_assertions s) of
        Inl e \<Rightarrow> Some e
      | Inr r \<Rightarrow>
          if sc_state s \<noteq> r
          then Some (ValueError ''scenario state must roll up from all core assertions'')
          else if \<not> distinct (map si_instance_id (sc_instances s))
          then Some (ValueError ''scenario instance IDs must be unique'')
          else None)"

definition scenario_json :: "scenario_applicability \<Rightarrow> json" where
  "scenario_json s = JObj
     [(''scenario_id'', JStr (scenario_id_value (sc_scenario_id s))),
      (''state'', JStr (applicability_state_value (sc_state s))),
      (''instances'', JArr (map scenario_instance_json (sc_instances s)))]"

section \<open>The artifact\<close>

record applicability_artifact =
  ap_project_id :: string
  ap_project_source_fingerprint :: string
  ap_source_index_fingerprint :: string
  ap_structural_graph_fingerprint :: string
  ap_projected_graph_fingerprint :: string
  ap_semantic_resolution_fingerprint :: "string option"
  ap_policy :: policy_assessment
  ap_normal_controls :: "normal_control list"
  ap_scenarios :: "scenario_applicability list"
  ap_applicability_fingerprint :: string

text \<open>The arguments of \<open>applicability_fingerprint\<close> are the artifact's other fields.\<close>

definition applicability_fingerprint :: "applicability_artifact \<Rightarrow> string" where
  "applicability_fingerprint a = fingerprint_json (JObj
     [(''schema_version'', JInt 2),
      (''project_id'', JStr (ap_project_id a)),
      (''project_source_fingerprint'', JStr (ap_project_source_fingerprint a)),
      (''source_index_fingerprint'', JStr (ap_source_index_fingerprint a)),
      (''structural_graph_fingerprint'', JStr (ap_structural_graph_fingerprint a)),
      (''projected_graph_fingerprint'', JStr (ap_projected_graph_fingerprint a)),
      (''semantic_resolution_fingerprint'', jopt JStr (ap_semantic_resolution_fingerprint a)),
      (''policy'', policy_assessment_json (ap_policy a)),
      (''normal_controls'', ordered_records normal_control_json (ap_normal_controls a)),
      (''scenarios'', ordered_records scenario_json (ap_scenarios a))])"

definition check_instance_control :: "normal_control list \<Rightarrow> scenario_instance \<Rightarrow> error option" where
  "check_instance_control controls i =
     (case si_normal_control_id i of
        Some cid \<Rightarrow>
          (case dict_by nc_control_id controls cid of
             None \<Rightarrow> Some (ValueError ''scenario instance refers to an unknown normal control'')
           | Some c \<Rightarrow>
               if si_ingress_node_id i \<noteq> Some (nc_ingress_node_id c)
               then Some (ValueError ''scenario instance ingress must match exact normal control'')
               else if si_route_registration_id i \<noteq> Some (nc_route_registration_id c)
               then Some (ValueError ''scenario instance route must match exact normal control'')
               else if si_customer_value_node_id i \<noteq> Some (nc_customer_value_node_id c)
               then Some (ValueError
                 ''scenario instance customer-value node must match exact normal control'')
               else if si_customer_value_symbol_id i \<noteq> Some (nc_customer_value_symbol_id c)
               then Some (ValueError
                 ''scenario instance customer-value symbol must match exact normal control'')
               else None)
      | None \<Rightarrow>
          if list_ex (\<lambda>v. v \<noteq> None) [si_route_registration_id i, si_customer_value_node_id i,
                                      si_customer_value_symbol_id i]
          then Some (ValueError ''control identity fields require a normal control'')
          else None)"

definition check_assertion_control ::
  "normal_control list \<Rightarrow> scenario_instance \<Rightarrow> assertion_applicability \<Rightarrow> error option" where
  "check_assertion_control controls i a =
     (case aa_normal_control_id a of
        None \<Rightarrow> None
      | Some cid \<Rightarrow>
          if dict_by nc_control_id controls cid = None
          then Some (ValueError ''assertion refers to an unknown normal control'')
          else if si_normal_control_id i \<noteq> None \<and> si_normal_control_id i \<noteq> Some cid
          then Some (ValueError ''assertion dependency must match exact instance control'')
          else None)"

definition check_scenario_controls ::
  "normal_control list \<Rightarrow> scenario_applicability \<Rightarrow> error option" where
  "check_scenario_controls controls s =
     first_error (concat (map (\<lambda>i. check_instance_control controls i #
                                   map (check_assertion_control controls i) (si_assertions i))
                              (sc_instances s)))"

definition validate_applicability :: "applicability_artifact \<Rightarrow> error option" where
  "validate_applicability a =
     (if \<not> distinct (map nc_control_id (ap_normal_controls a))
      then Some (ValueError ''normal-control IDs must be unique'')
      else if set (map sc_scenario_id (ap_scenarios a)) \<noteq> set scenario_ids
      then Some (ValueError ''applicability artifact must contain the fixed scenario catalog'')
      else case first_error (map (check_scenario_controls (ap_normal_controls a)) (ap_scenarios a)) of
             Some e \<Rightarrow> Some e
           | None \<Rightarrow>
               if ap_applicability_fingerprint a \<noteq> applicability_fingerprint a
               then Some (ValueError ''applicability fingerprint must match artifact contents'')
               else None)"

text \<open>
  What pydantic checks when it builds the artifact: the length of the catalog and the validators
  of the nested records, then the validator of the artifact itself.
\<close>

definition valid_applicability :: "applicability_artifact \<Rightarrow> bool" where
  "valid_applicability a \<longleftrightarrow>
     length (ap_scenarios a) = 8 \<and>
     validate_assessment (pa_fulfilment (ap_policy a)) = None \<and>
     validate_confirmation (pa_late_authorisation (ap_policy a)) = None \<and>
     list_all (\<lambda>s. sc_instances s \<noteq> [] \<and> list_all (\<lambda>i. validate_instance i = None) (sc_instances s) \<and>
                   validate_scenario s = None) (ap_scenarios a) \<and>
     validate_applicability a = None"

interpretation applicability_controls: keyed_records nc_control_id ap_normal_controls valid_applicability
  by unfold_locales (simp add: valid_applicability_def validate_applicability_def split: if_splits)

lemma valid_applicability_scenarios_distinct:
  assumes "valid_applicability a"
  shows "distinct (map sc_scenario_id (ap_scenarios a))"
proof -
  have len: "length (map sc_scenario_id (ap_scenarios a)) = 8"
    and "set (map sc_scenario_id (ap_scenarios a)) = set scenario_ids"
    using assms by (auto simp: valid_applicability_def validate_applicability_def split: if_splits)
  then have "card (set (map sc_scenario_id (ap_scenarios a))) = length (map sc_scenario_id (ap_scenarios a))"
    using set_scenario_ids card_scenario_id by simp
  then show ?thesis by (rule card_distinct)
qed

interpretation applicability_scenarios: keyed_records sc_scenario_id ap_scenarios valid_applicability
  by unfold_locales (rule valid_applicability_scenarios_distinct)

section \<open>What a valid artifact says\<close>

lemma validate_instance_None [validator_simps]:
  "validate_instance i = None \<longleftrightarrow> roll_up_assertions (si_assertions i) = Inr (si_state i)"
  by (cases "roll_up_assertions (si_assertions i)") (auto simp: validate_instance_def)

lemma validate_scenario_None [validator_simps]:
  "validate_scenario s = None \<longleftrightarrow>
     roll_up_assertions (scenario_assertions s) = Inr (sc_state s) \<and>
     distinct (map si_instance_id (sc_instances s))"
  by (cases "roll_up_assertions (scenario_assertions s)") (auto simp: validate_scenario_def)

lemma check_assertion_control_None [validator_simps]:
  "check_assertion_control controls i x = None \<longleftrightarrow>
     (case aa_normal_control_id x of None \<Rightarrow> True
      | Some cid \<Rightarrow> dict_by nc_control_id controls cid \<noteq> None \<and>
          (si_normal_control_id i = None \<or> si_normal_control_id i = Some cid))"
  by (cases "aa_normal_control_id x") (auto simp: check_assertion_control_def)

lemma valid_instance_state:
  assumes "valid_applicability a" and "s \<in> set (ap_scenarios a)" and "i \<in> set (sc_instances s)"
  shows "roll_up_assertions (si_assertions i) = Inr (si_state i)"
  using assms by (simp add: valid_applicability_def list_all_iff validator_simps)

lemma valid_scenario_state:
  assumes "valid_applicability a" and "s \<in> set (ap_scenarios a)"
  shows "roll_up_assertions (scenario_assertions s) = Inr (sc_state s)" and "sc_instances s \<noteq> []"
  using assms by (simp_all add: valid_applicability_def list_all_iff validator_simps)

lemma core_states_scenario:
  "set (core_states (scenario_assertions s)) =
     (\<Union>i \<in> set (sc_instances s). set (core_states (si_assertions i)))"
  by (auto simp: core_states_def scenario_assertions_def)

text \<open>
  In a valid applicability artifact the two levels of roll-up agree: a scenario is
  applicable exactly when one of its instances is, and not applicable exactly when all are,
  although the code computes the scenario's state from the assertions and not from the
  instances.
\<close>

theorem scenario_state_follows_instances:
  assumes "valid_applicability a" and "s \<in> set (ap_scenarios a)"
  shows "(sc_state s = APPLICABLE \<longleftrightarrow> (\<exists>i \<in> set (sc_instances s). si_state i = APPLICABLE)) \<and>
         (sc_state s = NOT_APPLICABLE \<longleftrightarrow> (\<forall>i \<in> set (sc_instances s). si_state i = NOT_APPLICABLE))"
proof -
  note inst = valid_instance_state[OF assms] and scen = valid_scenario_state[OF assms]
  have app: "si_state i = APPLICABLE \<longleftrightarrow> APPLICABLE \<in> set (core_states (si_assertions i))"
    and na: "si_state i = NOT_APPLICABLE \<longleftrightarrow>
      core_states (si_assertions i) \<noteq> [] \<and> set (core_states (si_assertions i)) \<subseteq> {NOT_APPLICABLE}"
    and ne: "core_states (si_assertions i) \<noteq> []"
    if "i \<in> set (sc_instances s)" for i
    using inst[OF that] roll_up_applicable_iff[of "si_assertions i"]
      roll_up_not_applicable_iff[of "si_assertions i"] roll_up_Inr_core[OF inst[OF that]]
    by auto
  have "sc_state s = APPLICABLE \<longleftrightarrow> APPLICABLE \<in> set (core_states (scenario_assertions s))"
    using scen(1) roll_up_applicable_iff[of "scenario_assertions s"] by simp
  moreover have "sc_state s = NOT_APPLICABLE \<longleftrightarrow>
      core_states (scenario_assertions s) \<noteq> [] \<and>
      set (core_states (scenario_assertions s)) \<subseteq> {NOT_APPLICABLE}"
    using scen(1) roll_up_not_applicable_iff[of "scenario_assertions s"] by simp
  moreover have "core_states (scenario_assertions s) \<noteq> []"
    using roll_up_Inr_core[OF scen(1)] by auto
  ultimately show ?thesis using app na ne by (auto simp: core_states_scenario)
qed

lemma valid_instance_control:
  assumes "valid_applicability a" and "s \<in> set (ap_scenarios a)" and "i \<in> set (sc_instances s)"
  shows "check_instance_control (ap_normal_controls a) i = None"
    and "\<forall>x \<in> set (si_assertions i). check_assertion_control (ap_normal_controls a) i x = None"
proof -
  have "check_scenario_controls (ap_normal_controls a) s = None"
    using assms(1,2)
    by (auto simp: valid_applicability_def validate_applicability_def first_error_None_iff
        split: if_splits option.splits)
  with assms(3) show "check_instance_control (ap_normal_controls a) i = None"
    and "\<forall>x \<in> set (si_assertions i). check_assertion_control (ap_normal_controls a) i x = None"
    by (auto simp: check_scenario_controls_def first_error_None_iff)
qed

text \<open>
  An instance of a valid artifact that names a normal control names exactly one stored
  control and repeats its ingress, route and customer-value target; none of its assertions
  depends on another control.
\<close>

theorem instance_matches_its_control:
  assumes "valid_applicability a" and "s \<in> set (ap_scenarios a)" and "i \<in> set (sc_instances s)"
    and "si_normal_control_id i = Some cid"
  shows "(\<exists>!c. c \<in> set (ap_normal_controls a) \<and> nc_control_id c = cid \<and>
           si_ingress_node_id i = Some (nc_ingress_node_id c) \<and>
           si_route_registration_id i = Some (nc_route_registration_id c) \<and>
           si_customer_value_node_id i = Some (nc_customer_value_node_id c) \<and>
           si_customer_value_symbol_id i = Some (nc_customer_value_symbol_id c)) \<and>
         (\<forall>x \<in> set (si_assertions i). aa_normal_control_id x \<in> {None, Some cid})"
proof (rule conjI)
  note v = valid_instance_control[OF assms(1-3)]
  from v(1) assms(4) obtain c where d: "dict_by nc_control_id (ap_normal_controls a) cid = Some c"
    and eqs: "si_ingress_node_id i = Some (nc_ingress_node_id c)"
      "si_route_registration_id i = Some (nc_route_registration_id c)"
      "si_customer_value_node_id i = Some (nc_customer_value_node_id c)"
      "si_customer_value_symbol_id i = Some (nc_customer_value_symbol_id c)"
    by (auto simp: check_instance_control_def split: option.splits if_splits)
  note in_c = dict_by_SomeD[OF d]
  show "\<exists>!c. c \<in> set (ap_normal_controls a) \<and> nc_control_id c = cid \<and>
           si_ingress_node_id i = Some (nc_ingress_node_id c) \<and>
           si_route_registration_id i = Some (nc_route_registration_id c) \<and>
           si_customer_value_node_id i = Some (nc_customer_value_node_id c) \<and>
           si_customer_value_symbol_id i = Some (nc_customer_value_symbol_id c)"
    using in_c eqs applicability_controls.lookup_record[OF assms(1)] d by (metis option.inject)
  have "aa_normal_control_id x \<in> {None, Some cid}" if "x \<in> set (si_assertions i)" for x
    using bspec[OF v(2) that] assms(4)
    by (cases "aa_normal_control_id x") (auto simp: validator_simps)
  then show "\<forall>x \<in> set (si_assertions i). aa_normal_control_id x \<in> {None, Some cid}" by blast
qed

section \<open>Inputs for the witnesses\<close>

definition demo_control :: normal_control where
  "demo_control = \<lparr>nc_control_id = ''c1'', nc_ingress_node_id = ''n1'',
     nc_route_registration_id = ''r1'', nc_ingress_kind = WEBHOOK,
     nc_customer_value_node_id = ''v1'', nc_customer_value_symbol_id = ''y1'',
     nc_connectivity_edge_id = ''e1'', nc_call_path_references = [''call-site:1''],
     nc_semantic_resolution_fingerprint = ''f''\<rparr>"

definition demo_assertion :: "string option \<Rightarrow> assertion_applicability" where
  "demo_assertion cid = \<lparr>aa_assertion_id = ''a1'', aa_key = ''K'', aa_role = CORE,
     aa_state = APPLICABLE, aa_reasons = [\<lparr>rs_code = AR_EXACT_CONTROL_AVAILABLE, rs_evidence = []\<rparr>],
     aa_normal_control_id = cid\<rparr>"

definition demo_instance :: scenario_instance where
  "demo_instance = \<lparr>si_instance_id = ''i1'', si_state = APPLICABLE, si_ingress_node_id = Some ''n1'',
     si_normal_control_id = Some ''c1'', si_route_registration_id = Some ''r1'',
     si_customer_value_node_id = Some ''v1'', si_customer_value_symbol_id = Some ''y1'',
     si_assertions = [demo_assertion (Some ''c1'')]\<rparr>"

definition demo_scenario :: "scenario_id \<Rightarrow> scenario_applicability" where
  "demo_scenario sid = \<lparr>sc_scenario_id = sid, sc_state = APPLICABLE, sc_instances = [demo_instance]\<rparr>"

definition demo_policy :: policy_assessment where
  "demo_policy = \<lparr>pa_fulfilment = \<lparr>fa_evidence_status = CONSISTENT_SUGGESTION,
     fa_evidence_fingerprint = ''pf'', fa_observed_states = [''captured''],
     fa_suggested_policy = Some CAPTURE_REQUIRED, fa_confirmed_policy = Some CAPTURE_REQUIRED,
     fa_evidence_current = Some True, fa_implementation_mismatch = False\<rparr>,
     pa_late_authorisation = \<lparr>la_evidence_fingerprint = ''lf'',
       la_confirmed_policy = Some FULFIL_LATER, la_evidence_current = Some True\<rparr>\<rparr>"

definition demo_draft :: applicability_artifact where
  "demo_draft = \<lparr>ap_project_id = ''p'', ap_project_source_fingerprint = ''f1'',
     ap_source_index_fingerprint = ''f2'', ap_structural_graph_fingerprint = ''f3'',
     ap_projected_graph_fingerprint = ''f4'', ap_semantic_resolution_fingerprint = Some ''f'',
     ap_policy = demo_policy, ap_normal_controls = [demo_control],
     ap_scenarios = map demo_scenario scenario_ids, ap_applicability_fingerprint = []\<rparr>"

definition demo_applicability :: applicability_artifact where
  "demo_applicability =
     demo_draft\<lparr>ap_applicability_fingerprint := applicability_fingerprint demo_draft\<rparr>"

lemma applicability_fingerprint_update [simp]:
  "applicability_fingerprint (a\<lparr>ap_applicability_fingerprint := f\<rparr>) = applicability_fingerprint a"
  by (simp add: applicability_fingerprint_def)

lemma demo_instance_valid:
  "validate_instance demo_instance = None" "validate_scenario (demo_scenario sid) = None"
  "check_scenario_controls [demo_control] (demo_scenario sid) = None"
  by (simp_all add: validator_simps demo_instance_def demo_assertion_def roll_up_eq core_states_def
      demo_scenario_def scenario_assertions_def check_scenario_controls_def
      check_instance_control_def check_assertion_control_def demo_control_def dict_by_def)

lemma demo_applicability_valid: "valid_applicability demo_applicability"
proof -
  have controls: "check_scenario_controls [demo_control] \<circ> demo_scenario = (\<lambda>s. None)"
    using demo_instance_valid(3) by auto
  have ids: "sc_scenario_id ` demo_scenario ` S = S" for S
    by (simp add: image_image demo_scenario_def)
  have ok: "validate_applicability demo_applicability = None"
    by (simp add: validate_applicability_def demo_applicability_def)
      (simp add: demo_draft_def controls ids first_error_None_iff
        option.case_eq_if)
  have "list_all (\<lambda>s. sc_instances s \<noteq> [] \<and> list_all (\<lambda>i. validate_instance i = None) (sc_instances s) \<and>
          validate_scenario s = None) (map demo_scenario scenario_ids)"
    using demo_instance_valid by (auto simp: list_all_iff demo_scenario_def)
  then show ?thesis using ok
    by (simp add: valid_applicability_def demo_applicability_def demo_draft_def demo_policy_def
        validate_assessment_def expected_mismatch_def validate_confirmation_def scenario_ids_def)
qed

lemma demo_members:
  "demo_scenario SG_01 \<in> set (ap_scenarios demo_applicability)"
  "demo_instance \<in> set (sc_instances (demo_scenario SG_01))"
  "si_normal_control_id demo_instance = Some ''c1''"
  by (simp_all add: demo_applicability_def demo_draft_def scenario_ids_def demo_scenario_def
      demo_instance_def)

theorem scenario_state_follows_instances_witness:
  "valid_applicability demo_applicability \<and>
   (\<exists>i \<in> set (sc_instances (demo_scenario SG_01)). si_state i = APPLICABLE)"
  using scenario_state_follows_instances[OF demo_applicability_valid demo_members(1)]
    demo_applicability_valid by (simp add: demo_scenario_def)

theorem instance_matches_its_control_witness:
  "valid_applicability demo_applicability \<and>
   (\<exists>c. c \<in> set (ap_normal_controls demo_applicability) \<and> nc_control_id c = ''c1'' \<and>
        si_ingress_node_id demo_instance = Some (nc_ingress_node_id c))"
  using instance_matches_its_control[OF demo_applicability_valid demo_members]
    demo_applicability_valid by blast

end
