(* ===== verification/EvidenceCatalog.thy ===== *)
theory EvidenceCatalog
  imports Applicability RuleCatalog
begin

text \<open>
  The versioned assertion definitions of \<open>evidence/catalog.py\<close>: for every assertion the
  Failure Lab can make, its invariant, the roles of its requests, the policy dimensions it
  uses and the Razorpay rules it rests on.  The lemmas show that a lookup by scenario and
  assertion key finds exactly the definition stored under that pair, and that the order of the
  assertions of a scenario is a strict one.
\<close>

section \<open>Vocabulary\<close>

datatype request_role =
    ROLE_NORMAL_CAPTURE
  | ROLE_INITIAL_DELIVERY
  | ROLE_DUPLICATE_DELIVERY
  | ROLE_INITIAL_WITH_ACK_FAILURE
  | ROLE_MODELED_RETRY
  | ROLE_CAPTURED_CONTROL
  | ROLE_STALE_AUTHORIZED
  | ROLE_REJECTED_SIGNATURE
  | ROLE_VALID_SIGNATURE_CONTROL
  | ROLE_TAMPERED_CALLBACK
  | ROLE_VALID_CALLBACK_CONTROL
  | ROLE_WEBHOOK_WITH_CALLBACK_OMITTED
  | ROLE_MODELED_LATE_AUTHORIZED
  | ROLE_CAPTURED_THRESHOLD_CONTROL

fun request_role_value :: "request_role \<Rightarrow> string" where
  "request_role_value ROLE_NORMAL_CAPTURE = ''NORMAL_CAPTURE''"
| "request_role_value ROLE_INITIAL_DELIVERY = ''INITIAL_DELIVERY''"
| "request_role_value ROLE_DUPLICATE_DELIVERY = ''DUPLICATE_DELIVERY''"
| "request_role_value ROLE_INITIAL_WITH_ACK_FAILURE = ''INITIAL_WITH_ACK_FAILURE''"
| "request_role_value ROLE_MODELED_RETRY = ''MODELED_RETRY''"
| "request_role_value ROLE_CAPTURED_CONTROL = ''CAPTURED_CONTROL''"
| "request_role_value ROLE_STALE_AUTHORIZED = ''STALE_AUTHORIZED''"
| "request_role_value ROLE_REJECTED_SIGNATURE = ''REJECTED_SIGNATURE''"
| "request_role_value ROLE_VALID_SIGNATURE_CONTROL = ''VALID_SIGNATURE_CONTROL''"
| "request_role_value ROLE_TAMPERED_CALLBACK = ''TAMPERED_CALLBACK''"
| "request_role_value ROLE_VALID_CALLBACK_CONTROL = ''VALID_CALLBACK_CONTROL''"
| "request_role_value ROLE_WEBHOOK_WITH_CALLBACK_OMITTED = ''WEBHOOK_WITH_CALLBACK_OMITTED''"
| "request_role_value ROLE_MODELED_LATE_AUTHORIZED = ''MODELED_LATE_AUTHORIZED''"
| "request_role_value ROLE_CAPTURED_THRESHOLD_CONTROL = ''CAPTURED_THRESHOLD_CONTROL''"

datatype policy_dimension =
    DIM_FULFILMENT
  | DIM_LATE_AUTHORISATION

fun policy_dimension_value :: "policy_dimension \<Rightarrow> string" where
  "policy_dimension_value DIM_FULFILMENT = ''FULFILMENT''"
| "policy_dimension_value DIM_LATE_AUTHORISATION = ''LATE_AUTHORISATION''"

record assertion_entry =
  ad_scenario_id :: scenario_id
  ad_assertion_key :: string
  ad_invariant_id :: string
  ad_invariant_version :: nat
  ad_expected_invariant :: string
  ad_request_roles :: "request_role list"
  ad_policy_authority :: "policy_dimension list"
  ad_key_policy_dimensions :: "policy_dimension list"
  ad_razorpay_rule_ids :: "razorpay_rule_id list"

definition validate_policy_dimensions :: "assertion_entry \<Rightarrow> error option" where
  "validate_policy_dimensions d =
     (if \<not> set (ad_key_policy_dimensions d) \<subseteq> set (ad_policy_authority d)
      then Some (ValueError ''check-key policy dimensions must be used assertion authority'')
      else if \<not> distinct (ad_razorpay_rule_ids d)
      then Some (ValueError ''assertion rule references must be unique'')
      else None)"

section \<open>The catalog\<close>

definition CAPTURE_RULES :: "razorpay_rule_id list" where
  "CAPTURE_RULES = [PAYMENT_CAPTURED_WEBHOOK_EVENT, WEBHOOK_SIGNATURE_RAW_BODY]"

definition ASSERTION_DEFINITIONS :: "assertion_entry list" where
  "ASSERTION_DEFINITIONS = [
    \<lparr>ad_scenario_id = SG_01,
     ad_assertion_key = SG01_ASSERTION_KEY,
     ad_invariant_id = ''NORMAL_CAPTURE_VALUE_EXACTLY_ONCE'',
     ad_invariant_version = 1,
     ad_expected_invariant = ''A normal captured payment enters and normally returns from the exact customer-value target once.'',
     ad_request_roles = [ROLE_NORMAL_CAPTURE],
     ad_policy_authority = [DIM_FULFILMENT],
     ad_key_policy_dimensions = [DIM_FULFILMENT],
     ad_razorpay_rule_ids = CAPTURE_RULES\<rparr>,
    \<lparr>ad_scenario_id = SG_02,
     ad_assertion_key = SG02_ASSERTION_KEY,
     ad_invariant_id = ''DUPLICATE_DELIVERY_VALUE_AT_MOST_ONCE'',
     ad_invariant_version = 1,
     ad_expected_invariant = ''A duplicate captured webhook adds no customer-value target entry after a normal first delivery.'',
     ad_request_roles = [ROLE_INITIAL_DELIVERY, ROLE_DUPLICATE_DELIVERY],
     ad_policy_authority = [DIM_FULFILMENT],
     ad_key_policy_dimensions = [],
     ad_razorpay_rule_ids = CAPTURE_RULES @ [WEBHOOK_DUPLICATE_DELIVERY]\<rparr>,
    \<lparr>ad_scenario_id = SG_03,
     ad_assertion_key = SG03_ASSERTION_KEY,
     ad_invariant_id = ''MODELED_RETRY_VALUE_AT_MOST_ONCE'',
     ad_invariant_version = 1,
     ad_expected_invariant = ''A modeled retry after an injected unsuccessful acknowledgement adds no customer-value target entry.'',
     ad_request_roles = [ROLE_INITIAL_WITH_ACK_FAILURE, ROLE_MODELED_RETRY],
     ad_policy_authority = [DIM_FULFILMENT],
     ad_key_policy_dimensions = [],
     ad_razorpay_rule_ids = CAPTURE_RULES @ [WEBHOOK_RETRY_ON_UNSUCCESSFUL_ACK]\<rparr>,
    \<lparr>ad_scenario_id = SG_04,
     ad_assertion_key = SG04_CUSTOMER_VALUE_ASSERTION_KEY,
     ad_invariant_id = ''OUT_OF_ORDER_VALUE_AT_MOST_ONCE'',
     ad_invariant_version = 1,
     ad_expected_invariant = ''A stale authorized event after capture adds no customer-value target entry.'',
     ad_request_roles = [ROLE_CAPTURED_CONTROL, ROLE_STALE_AUTHORIZED],
     ad_policy_authority = [DIM_FULFILMENT],
     ad_key_policy_dimensions = [],
     ad_razorpay_rule_ids = [PAYMENT_CAPTURED_WEBHOOK_EVENT, WEBHOOK_ORDER_NOT_GUARANTEED, WEBHOOK_SIGNATURE_RAW_BODY]\<rparr>,
    \<lparr>ad_scenario_id = SG_04,
     ad_assertion_key = SG04_STATE_REGRESSION_ASSERTION_KEY,
     ad_invariant_id = ''MERCHANT_STATE_DOES_NOT_REGRESS'',
     ad_invariant_version = 1,
     ad_expected_invariant = ''The exact observed merchant assignment does not complete a captured-to-authorized regression.'',
     ad_request_roles = [ROLE_CAPTURED_CONTROL, ROLE_STALE_AUTHORIZED],
     ad_policy_authority = [],
     ad_key_policy_dimensions = [],
     ad_razorpay_rule_ids = [PAYMENT_CAPTURED_WEBHOOK_EVENT, WEBHOOK_ORDER_NOT_GUARANTEED, WEBHOOK_SIGNATURE_RAW_BODY]\<rparr>,
    \<lparr>ad_scenario_id = SG_05,
     ad_assertion_key = SG05_MUTATION_ASSERTION_KEY,
     ad_invariant_id = ''FORGED_WEBHOOK_NO_MUTATION_COMPLETION'',
     ad_invariant_version = 1,
     ad_expected_invariant = ''A forged webhook completes no exact Python merchant-assignment instruction.'',
     ad_request_roles = [ROLE_REJECTED_SIGNATURE, ROLE_VALID_SIGNATURE_CONTROL],
     ad_policy_authority = [],
     ad_key_policy_dimensions = [],
     ad_razorpay_rule_ids = CAPTURE_RULES\<rparr>,
    \<lparr>ad_scenario_id = SG_05,
     ad_assertion_key = SG05_CUSTOMER_VALUE_ASSERTION_KEY,
     ad_invariant_id = ''FORGED_WEBHOOK_NO_CUSTOMER_VALUE'',
     ad_invariant_version = 1,
     ad_expected_invariant = ''A forged webhook does not enter the exact customer-value target.'',
     ad_request_roles = [ROLE_REJECTED_SIGNATURE, ROLE_VALID_SIGNATURE_CONTROL],
     ad_policy_authority = [],
     ad_key_policy_dimensions = [],
     ad_razorpay_rule_ids = CAPTURE_RULES\<rparr>,
    \<lparr>ad_scenario_id = SG_06,
     ad_assertion_key = SG06_MUTATION_ASSERTION_KEY,
     ad_invariant_id = ''TAMPERED_CHECKOUT_NO_MUTATION_COMPLETION'',
     ad_invariant_version = 1,
     ad_expected_invariant = ''A tampered Checkout callback completes no exact protected Python assignment instruction.'',
     ad_request_roles = [ROLE_TAMPERED_CALLBACK, ROLE_VALID_CALLBACK_CONTROL],
     ad_policy_authority = [],
     ad_key_policy_dimensions = [],
     ad_razorpay_rule_ids = [CHECKOUT_SERVER_SIGNATURE_VERIFICATION, CHECKOUT_SERVER_ORDER_ID]\<rparr>,
    \<lparr>ad_scenario_id = SG_06,
     ad_assertion_key = SG06_CUSTOMER_VALUE_ASSERTION_KEY,
     ad_invariant_id = ''TAMPERED_CHECKOUT_NO_CUSTOMER_VALUE'',
     ad_invariant_version = 1,
     ad_expected_invariant = ''A tampered Checkout callback does not enter the exact customer-value target.'',
     ad_request_roles = [ROLE_TAMPERED_CALLBACK, ROLE_VALID_CALLBACK_CONTROL],
     ad_policy_authority = [],
     ad_key_policy_dimensions = [],
     ad_razorpay_rule_ids = [CHECKOUT_SERVER_SIGNATURE_VERIFICATION, CHECKOUT_SERVER_ORDER_ID]\<rparr>,
    \<lparr>ad_scenario_id = SG_07,
     ad_assertion_key = SG07_CUSTOMER_VALUE_ASSERTION_KEY,
     ad_invariant_id = ''WEBHOOK_OUTCOME_WITHOUT_CALLBACK'',
     ad_invariant_version = 1,
     ad_expected_invariant = ''The captured webhook reaches the exact customer-value target once without a browser callback.'',
     ad_request_roles = [ROLE_WEBHOOK_WITH_CALLBACK_OMITTED],
     ad_policy_authority = [DIM_FULFILMENT],
     ad_key_policy_dimensions = [],
     ad_razorpay_rule_ids = CAPTURE_RULES\<rparr>,
    \<lparr>ad_scenario_id = SG_08,
     ad_assertion_key = SG08_PRECAPTURE_ASSERTION_KEY,
     ad_invariant_id = ''LATE_AUTHORIZATION_NO_PRECAPTURE_VALUE'',
     ad_invariant_version = 1,
     ad_expected_invariant = ''Under capture-required policy, modeled late authorization does not enter the customer-value target before capture.'',
     ad_request_roles = [ROLE_MODELED_LATE_AUTHORIZED, ROLE_CAPTURED_THRESHOLD_CONTROL],
     ad_policy_authority = [DIM_FULFILMENT, DIM_LATE_AUTHORISATION],
     ad_key_policy_dimensions = [DIM_FULFILMENT, DIM_LATE_AUTHORISATION],
     ad_razorpay_rule_ids = [PAYMENT_AUTHORIZED_WEBHOOK_EVENT, PAYMENT_CAPTURED_WEBHOOK_EVENT, LATE_AUTHORISATION_BUSINESS_POLICY, WEBHOOK_SIGNATURE_RAW_BODY]\<rparr>,
    \<lparr>ad_scenario_id = SG_08,
     ad_assertion_key = SG08_CAPTURE_ASSERTION_KEY,
     ad_invariant_id = ''LATE_PAYMENT_VALUE_ONCE_AFTER_CAPTURE'',
     ad_invariant_version = 1,
     ad_expected_invariant = ''Under fulfil-later capture policy, the capture threshold enters the customer-value target once.'',
     ad_request_roles = [ROLE_MODELED_LATE_AUTHORIZED, ROLE_CAPTURED_THRESHOLD_CONTROL],
     ad_policy_authority = [DIM_FULFILMENT, DIM_LATE_AUTHORISATION],
     ad_key_policy_dimensions = [DIM_FULFILMENT, DIM_LATE_AUTHORISATION],
     ad_razorpay_rule_ids = [PAYMENT_AUTHORIZED_WEBHOOK_EVENT, PAYMENT_CAPTURED_WEBHOOK_EVENT, LATE_AUTHORISATION_BUSINESS_POLICY, WEBHOOK_SIGNATURE_RAW_BODY]\<rparr>,
    \<lparr>ad_scenario_id = SG_08,
     ad_assertion_key = SG08_LATE_POLICY_ASSERTION_KEY,
     ad_invariant_id = ''LATE_PAYMENT_POLICY_OUTCOME'',
     ad_invariant_version = 1,
     ad_expected_invariant = ''The late-payment outcome is re-verifiable only with current merchant late-policy context.'',
     ad_request_roles = [ROLE_MODELED_LATE_AUTHORIZED],
     ad_policy_authority = [DIM_FULFILMENT, DIM_LATE_AUTHORISATION],
     ad_key_policy_dimensions = [DIM_FULFILMENT, DIM_LATE_AUTHORISATION],
     ad_razorpay_rule_ids = [PAYMENT_AUTHORIZED_WEBHOOK_EVENT, PAYMENT_CAPTURED_WEBHOOK_EVENT, LATE_AUTHORISATION_BUSINESS_POLICY, WEBHOOK_SIGNATURE_RAW_BODY]\<rparr>]"

text \<open>The dictionary keyed by scenario and assertion key, and the lookup in it.\<close>

definition definition_key :: "assertion_entry \<Rightarrow> scenario_id \<times> string" where
  "definition_key d = (ad_scenario_id d, ad_assertion_key d)"

definition assertion_definition :: "scenario_id \<Rightarrow> string \<Rightarrow> assertion_entry result" where
  "assertion_definition sid key =
     (case dict_by definition_key ASSERTION_DEFINITIONS (sid, key) of
        None \<Rightarrow> Inl (ValueError ''unknown Failure Lab assertion definition'')
      | Some d \<Rightarrow> Inr d)"

fun index_of :: "('a \<Rightarrow> bool) \<Rightarrow> 'a list \<Rightarrow> nat result" where
  "index_of p [] = Inl StopIteration"
| "index_of p (x # xs) =
     (if p x then Inr 0 else bind_result (index_of p xs) (\<lambda>i. Inr (Suc i)))"

definition assertion_order :: "scenario_id \<Rightarrow> string \<Rightarrow> nat result" where
  "assertion_order sid key =
     index_of (\<lambda>d. ad_assertion_key d = key)
       (filter (\<lambda>d. ad_scenario_id d = sid) ASSERTION_DEFINITIONS)"

section \<open>Lookups\<close>

lemmas assertion_key_defs =
  SG01_ASSERTION_KEY_def SG02_ASSERTION_KEY_def SG03_ASSERTION_KEY_def
  SG04_CUSTOMER_VALUE_ASSERTION_KEY_def SG04_STATE_REGRESSION_ASSERTION_KEY_def
  SG05_CUSTOMER_VALUE_ASSERTION_KEY_def SG05_MUTATION_ASSERTION_KEY_def
  SG06_CUSTOMER_VALUE_ASSERTION_KEY_def SG06_MUTATION_ASSERTION_KEY_def
  SG07_CUSTOMER_VALUE_ASSERTION_KEY_def SG08_PRECAPTURE_ASSERTION_KEY_def
  SG08_CAPTURE_ASSERTION_KEY_def SG08_LATE_POLICY_ASSERTION_KEY_def

lemma definition_keys_distinct: "distinct (map definition_key ASSERTION_DEFINITIONS)"
  by (simp add: ASSERTION_DEFINITIONS_def definition_key_def assertion_key_defs)

interpretation catalog: keyed_records definition_key "\<lambda>_ :: unit. ASSERTION_DEFINITIONS" "\<lambda>_. True"
  by unfold_locales (simp add: definition_keys_distinct)

lemma definitions_accepted: "d \<in> set ASSERTION_DEFINITIONS \<Longrightarrow> validate_policy_dimensions d = None"
  by (auto simp: ASSERTION_DEFINITIONS_def validate_policy_dimensions_def CAPTURE_RULES_def)

lemma assertion_definition_Inr:
  "assertion_definition sid key = Inr d \<longleftrightarrow>
   d \<in> set ASSERTION_DEFINITIONS \<and> ad_scenario_id d = sid \<and> ad_assertion_key d = key"
  using catalog.lookup_iff[of "(sid, key)" d]
  by (auto simp: assertion_definition_def definition_key_def split: option.split)

lemma index_of_Inr:
  "index_of p xs = Inr i \<Longrightarrow> i < length xs \<and> p (xs ! i)"
  by (induction xs arbitrary: i) (auto simp: bind_result_eq_Inr split: if_splits)

lemma index_of_total: "x \<in> set xs \<Longrightarrow> p x \<Longrightarrow> \<exists>i. index_of p xs = Inr i"
  by (induction xs) auto

lemma assertion_order_total:
  assumes "assertion_definition sid key = Inr d"
  shows "\<exists>i. assertion_order sid key = Inr i"
  unfolding assertion_order_def
  by (rule index_of_total[of d]) (use assms in \<open>auto simp: assertion_definition_Inr\<close>)

text \<open>Two assertions of a scenario with the same position are the same assertion.\<close>

lemma assertion_order_injective:
  assumes "assertion_order sid key = Inr i" and "assertion_order sid key' = Inr i"
  shows "key = key'"
  using index_of_Inr[OF assms(1)[unfolded assertion_order_def]]
    index_of_Inr[OF assms(2)[unfolded assertion_order_def]] by simp

end
