(* ===== verification/RuntimeContracts.thy ===== *)
theory RuntimeContracts
  imports SafetyGraph
begin

text \<open>
  \<open>runtime/contracts.py\<close>: runtime targets and capabilities, observation events, the sealed
  transcript of a runtime session, and the check that a transcript belongs to the assessed
  capability.  The lemmas show what an accepted transcript guarantees to the scenario
  reducers: contiguous sequence numbers, one ingress per request, only assessed targets.
\<close>

section \<open>Vocabulary\<close>

datatype runtime_capability_state =
    CAP_COMPLETE
  | CAP_PARTIAL
  | CAP_UNAVAILABLE

fun runtime_capability_state_value :: "runtime_capability_state \<Rightarrow> string" where
  "runtime_capability_state_value CAP_COMPLETE = ''COMPLETE''"
| "runtime_capability_state_value CAP_PARTIAL = ''PARTIAL''"
| "runtime_capability_state_value CAP_UNAVAILABLE = ''UNAVAILABLE''"

datatype runtime_process_ownership =
    OWN_STATEGUARD
  | OWN_EXTERNAL
  | OWN_NONE

fun runtime_process_ownership_value :: "runtime_process_ownership \<Rightarrow> string" where
  "runtime_process_ownership_value OWN_STATEGUARD = ''STATEGUARD''"
| "runtime_process_ownership_value OWN_EXTERNAL = ''EXTERNAL''"
| "runtime_process_ownership_value OWN_NONE = ''NONE''"

datatype runtime_lifecycle_state =
    LIFE_READY
  | LIFE_HISTORICAL
  | LIFE_UNAVAILABLE

fun runtime_lifecycle_state_value :: "runtime_lifecycle_state \<Rightarrow> string" where
  "runtime_lifecycle_state_value LIFE_READY = ''READY''"
| "runtime_lifecycle_state_value LIFE_HISTORICAL = ''HISTORICAL''"
| "runtime_lifecycle_state_value LIFE_UNAVAILABLE = ''UNAVAILABLE''"

datatype runtime_reason =
    RC_AVAILABLE
  | RC_STATIC_ONLY_CONFIGURED
  | RC_APP_TARGET_UNRESOLVED
  | RC_RUNTIME_DEPENDENCY_MISSING
  | RC_RUNTIME_VERSION_UNTESTED
  | RC_UNSUPPORTED_PYTHON_RUNTIME
  | RC_RUNTIME_ROUTE_NOT_FOUND
  | RC_RUNTIME_ROUTE_AMBIGUOUS
  | RC_RUNTIME_ROUTE_SHADOWED
  | RC_TARGET_CODE_MISMATCH
  | RC_MUTATION_INSTRUCTION_UNRESOLVED
  | RC_CHECKOUT_REQUEST_BINDING_UNRESOLVED
  | RC_ENTRY_ONLY
  | RC_CLIENT_RESPONSE_ONLY
  | RC_IN_PROCESS_INSTRUMENTATION_UNAVAILABLE
  | RC_EXTERNAL_STATE_RESET_UNAVAILABLE
  | RC_EXTERNAL_RUNTIME_UNAVAILABLE
  | RC_TARGET_POLICY_REJECTED
  | RC_STARTUP_FAILED
  | RC_STARTUP_TIMEOUT
  | RC_PROCESS_CRASHED
  | RC_OBSERVATION_CHANNEL_FAILED
  | RC_UNCORRELATED_TARGET_EXECUTION
  | RC_SOURCE_STALE
  | RC_CONFIG_STALE
  | RC_CLEANUP_FAILED

fun runtime_reason_value :: "runtime_reason \<Rightarrow> string" where
  "runtime_reason_value RC_AVAILABLE = ''AVAILABLE''"
| "runtime_reason_value RC_STATIC_ONLY_CONFIGURED = ''STATIC_ONLY_CONFIGURED''"
| "runtime_reason_value RC_APP_TARGET_UNRESOLVED = ''APP_TARGET_UNRESOLVED''"
| "runtime_reason_value RC_RUNTIME_DEPENDENCY_MISSING = ''RUNTIME_DEPENDENCY_MISSING''"
| "runtime_reason_value RC_RUNTIME_VERSION_UNTESTED = ''RUNTIME_VERSION_UNTESTED''"
| "runtime_reason_value RC_UNSUPPORTED_PYTHON_RUNTIME = ''UNSUPPORTED_PYTHON_RUNTIME''"
| "runtime_reason_value RC_RUNTIME_ROUTE_NOT_FOUND = ''RUNTIME_ROUTE_NOT_FOUND''"
| "runtime_reason_value RC_RUNTIME_ROUTE_AMBIGUOUS = ''RUNTIME_ROUTE_AMBIGUOUS''"
| "runtime_reason_value RC_RUNTIME_ROUTE_SHADOWED = ''RUNTIME_ROUTE_SHADOWED''"
| "runtime_reason_value RC_TARGET_CODE_MISMATCH = ''TARGET_CODE_MISMATCH''"
| "runtime_reason_value RC_MUTATION_INSTRUCTION_UNRESOLVED = ''MUTATION_INSTRUCTION_UNRESOLVED''"
| "runtime_reason_value RC_CHECKOUT_REQUEST_BINDING_UNRESOLVED = ''CHECKOUT_REQUEST_BINDING_UNRESOLVED''"
| "runtime_reason_value RC_ENTRY_ONLY = ''ENTRY_ONLY''"
| "runtime_reason_value RC_CLIENT_RESPONSE_ONLY = ''CLIENT_RESPONSE_ONLY''"
| "runtime_reason_value RC_IN_PROCESS_INSTRUMENTATION_UNAVAILABLE = ''IN_PROCESS_INSTRUMENTATION_UNAVAILABLE''"
| "runtime_reason_value RC_EXTERNAL_STATE_RESET_UNAVAILABLE = ''EXTERNAL_STATE_RESET_UNAVAILABLE''"
| "runtime_reason_value RC_EXTERNAL_RUNTIME_UNAVAILABLE = ''EXTERNAL_RUNTIME_UNAVAILABLE''"
| "runtime_reason_value RC_TARGET_POLICY_REJECTED = ''TARGET_POLICY_REJECTED''"
| "runtime_reason_value RC_STARTUP_FAILED = ''STARTUP_FAILED''"
| "runtime_reason_value RC_STARTUP_TIMEOUT = ''STARTUP_TIMEOUT''"
| "runtime_reason_value RC_PROCESS_CRASHED = ''PROCESS_CRASHED''"
| "runtime_reason_value RC_OBSERVATION_CHANNEL_FAILED = ''OBSERVATION_CHANNEL_FAILED''"
| "runtime_reason_value RC_UNCORRELATED_TARGET_EXECUTION = ''UNCORRELATED_TARGET_EXECUTION''"
| "runtime_reason_value RC_SOURCE_STALE = ''SOURCE_STALE''"
| "runtime_reason_value RC_CONFIG_STALE = ''CONFIG_STALE''"
| "runtime_reason_value RC_CLEANUP_FAILED = ''CLEANUP_FAILED''"

datatype runtime_diagnostic_stage =
    STAGE_PREFLIGHT
  | STAGE_STARTUP
  | STAGE_ATTACHMENT
  | STAGE_READINESS
  | STAGE_REQUEST
  | STAGE_OBSERVATION
  | STAGE_CLEANUP

fun runtime_diagnostic_stage_value :: "runtime_diagnostic_stage \<Rightarrow> string" where
  "runtime_diagnostic_stage_value STAGE_PREFLIGHT = ''PREFLIGHT''"
| "runtime_diagnostic_stage_value STAGE_STARTUP = ''STARTUP''"
| "runtime_diagnostic_stage_value STAGE_ATTACHMENT = ''ATTACHMENT''"
| "runtime_diagnostic_stage_value STAGE_READINESS = ''READINESS''"
| "runtime_diagnostic_stage_value STAGE_REQUEST = ''REQUEST''"
| "runtime_diagnostic_stage_value STAGE_OBSERVATION = ''OBSERVATION''"
| "runtime_diagnostic_stage_value STAGE_CLEANUP = ''CLEANUP''"

datatype customer_value_strength =
    ENTRY_ONLY
  | ENTRY_AND_TERMINAL

fun customer_value_strength_value :: "customer_value_strength \<Rightarrow> string" where
  "customer_value_strength_value ENTRY_ONLY = ''ENTRY_ONLY''"
| "customer_value_strength_value ENTRY_AND_TERMINAL = ''ENTRY_AND_TERMINAL''"

datatype mutation_strength =
    PYTHON_ASSIGNMENT_INSTRUCTION_COMPLETION

fun mutation_strength_value :: "mutation_strength \<Rightarrow> string" where
  "mutation_strength_value PYTHON_ASSIGNMENT_INSTRUCTION_COMPLETION = ''PYTHON_ASSIGNMENT_INSTRUCTION_COMPLETION''"

datatype observation_kind =
    REQUEST_DISPATCHED
  | REQUEST_RECEIVED
  | CUSTOMER_VALUE_ENTERED
  | CUSTOMER_VALUE_RETURNED_NORMALLY
  | CUSTOMER_VALUE_EXCEPTION_ESCAPED
  | MERCHANT_ASSIGNMENT_INSTRUCTION_REACHED
  | MERCHANT_ASSIGNMENT_INSTRUCTION_COMPLETED_NORMALLY
  | MERCHANT_ASSIGNMENT_INSTRUCTION_RAISED
  | RESPONSE_STARTED
  | ACKNOWLEDGEMENT_FAILURE_INJECTED
  | RESPONSE_COMPLETED
  | RESPONSE_RECEIVED
  | REQUEST_ABORTED

fun observation_kind_value :: "observation_kind \<Rightarrow> string" where
  "observation_kind_value REQUEST_DISPATCHED = ''REQUEST_DISPATCHED''"
| "observation_kind_value REQUEST_RECEIVED = ''REQUEST_RECEIVED''"
| "observation_kind_value CUSTOMER_VALUE_ENTERED = ''CUSTOMER_VALUE_ENTERED''"
| "observation_kind_value CUSTOMER_VALUE_RETURNED_NORMALLY = ''CUSTOMER_VALUE_RETURNED_NORMALLY''"
| "observation_kind_value CUSTOMER_VALUE_EXCEPTION_ESCAPED = ''CUSTOMER_VALUE_EXCEPTION_ESCAPED''"
| "observation_kind_value MERCHANT_ASSIGNMENT_INSTRUCTION_REACHED = ''MERCHANT_ASSIGNMENT_INSTRUCTION_REACHED''"
| "observation_kind_value MERCHANT_ASSIGNMENT_INSTRUCTION_COMPLETED_NORMALLY = ''MERCHANT_ASSIGNMENT_INSTRUCTION_COMPLETED_NORMALLY''"
| "observation_kind_value MERCHANT_ASSIGNMENT_INSTRUCTION_RAISED = ''MERCHANT_ASSIGNMENT_INSTRUCTION_RAISED''"
| "observation_kind_value RESPONSE_STARTED = ''RESPONSE_STARTED''"
| "observation_kind_value ACKNOWLEDGEMENT_FAILURE_INJECTED = ''ACKNOWLEDGEMENT_FAILURE_INJECTED''"
| "observation_kind_value RESPONSE_COMPLETED = ''RESPONSE_COMPLETED''"
| "observation_kind_value RESPONSE_RECEIVED = ''RESPONSE_RECEIVED''"
| "observation_kind_value REQUEST_ABORTED = ''REQUEST_ABORTED''"

section \<open>Targets and capabilities\<close>

record capability_assessment =
  ca_state :: runtime_capability_state
  ca_reasons :: "runtime_reason list"

record ingress_binding =
  ib_ingress_node_id :: string
  ib_route_registration_id :: string
  ib_app_instance_id :: string
  ib_ingress_symbol_id :: string
  ib_method :: string
  ib_effective_path :: string
  ib_checkout_request_binding :: "checkout_request_binding option"

definition validate_ingress_path :: "string \<Rightarrow> string result" where
  "validate_ingress_path value =
     (let stripped = strip value
      in if \<not> starts_with ''/'' stripped
         then Inl (ValueError (''runtime ingress path must begin with '' @
                               [CHR 0x27] @ ''/'' @ [CHR 0x27]))
         else Inr stripped)"

record customer_value_target =
  ct_ingress :: ingress_binding
  ct_normal_control_id :: string
  ct_customer_value_node_id :: string
  ct_customer_value_symbol_id :: string
  ct_connectivity_edge_id :: string
  ct_call_path_references :: "string list"
  ct_semantic_resolution_fingerprint :: string

record mutation_target =
  mt_ingress :: ingress_binding
  mt_mutation_node_id :: string
  mt_mutation_symbol_id :: string
  mt_structural_anchor :: string
  mt_mutation_kind :: merchant_mutation_kind
  mt_carrier_reference :: string

record acknowledgement_target =
  at_ingress :: ingress_binding
  at_acknowledgement_node_id :: string
  at_acknowledgement_symbol_id :: string
  at_structural_anchor :: string
  at_exit_kind :: acknowledgement_exit_kind
  at_status_code :: "nat option"
  at_outcome :: acknowledgement_outcome

record ingress_capability =
  ic_binding :: ingress_binding
  ic_addressability :: capability_assessment
  ic_request_correlation :: capability_assessment

record customer_value_capability =
  cc_target :: customer_value_target
  cc_lifecycle :: capability_assessment
  cc_strength :: "customer_value_strength option"

definition validate_customer_strength :: "customer_value_capability \<Rightarrow> error option" where
  "validate_customer_strength c =
     (if (ca_state (cc_lifecycle c) = CAP_UNAVAILABLE) \<noteq> (cc_strength c = None)
      then Some (ValueError ''customer lifecycle strength must match availability'')
      else None)"

record mutation_capability =
  mc_target :: mutation_target
  mc_assignment :: capability_assessment
  mc_strength :: "mutation_strength option"

definition validate_mutation_strength :: "mutation_capability \<Rightarrow> error option" where
  "validate_mutation_strength c =
     (if (ca_state (mc_assignment c) = CAP_UNAVAILABLE) \<noteq> (mc_strength c = None)
      then Some (ValueError ''mutation observation strength must match availability'')
      else None)"

record acknowledgement_capability =
  ac_target :: acknowledgement_target
  ac_timeline :: capability_assessment

record isolation_capability =
  is_fresh_process :: capability_assessment
  is_observation_reset :: capability_assessment
  is_external_state_reset :: capability_assessment

record runtime_compatibility =
  rc_python_implementation :: string
  rc_python_version :: string
  rc_fastapi_version :: "string option"
  rc_starlette_version :: "string option"
  rc_uvicorn_version :: "string option"

record runtime_diagnostic =
  rd_code :: runtime_reason
  rd_stage :: runtime_diagnostic_stage
  rd_reference :: "string option"

section \<open>JSON of the capability records\<close>

definition assessment_json :: "capability_assessment \<Rightarrow> json" where
  "assessment_json a = JObj
     [(''state'', JStr (runtime_capability_state_value (ca_state a))),
      (''reasons'', jstrs (map runtime_reason_value (ca_reasons a)))]"

definition ingress_binding_json :: "ingress_binding \<Rightarrow> json" where
  "ingress_binding_json b = JObj
     [(''ingress_node_id'', JStr (ib_ingress_node_id b)),
      (''route_registration_id'', JStr (ib_route_registration_id b)),
      (''app_instance_id'', JStr (ib_app_instance_id b)),
      (''ingress_symbol_id'', JStr (ib_ingress_symbol_id b)),
      (''method'', JStr (ib_method b)), (''effective_path'', JStr (ib_effective_path b)),
      (''checkout_request_binding'',
        jopt checkout_request_binding_json (ib_checkout_request_binding b))]"

definition ingress_capability_json :: "ingress_capability \<Rightarrow> json" where
  "ingress_capability_json c = JObj
     [(''binding'', ingress_binding_json (ic_binding c)),
      (''addressability'', assessment_json (ic_addressability c)),
      (''request_correlation'', assessment_json (ic_request_correlation c))]"

definition customer_capability_json :: "customer_value_capability \<Rightarrow> json" where
  "customer_capability_json c = (let t = cc_target c in JObj
     [(''target'', JObj
        [(''ingress'', ingress_binding_json (ct_ingress t)),
         (''normal_control_id'', JStr (ct_normal_control_id t)),
         (''customer_value_node_id'', JStr (ct_customer_value_node_id t)),
         (''customer_value_symbol_id'', JStr (ct_customer_value_symbol_id t)),
         (''connectivity_edge_id'', JStr (ct_connectivity_edge_id t)),
         (''call_path_references'', jstrs (ct_call_path_references t)),
         (''semantic_resolution_fingerprint'', JStr (ct_semantic_resolution_fingerprint t))]),
      (''lifecycle'', assessment_json (cc_lifecycle c)),
      (''strength'', jopt (JStr \<circ> customer_value_strength_value) (cc_strength c))])"

definition mutation_capability_json :: "mutation_capability \<Rightarrow> json" where
  "mutation_capability_json c = (let t = mc_target c in JObj
     [(''target'', JObj
        [(''ingress'', ingress_binding_json (mt_ingress t)),
         (''mutation_node_id'', JStr (mt_mutation_node_id t)),
         (''mutation_symbol_id'', JStr (mt_mutation_symbol_id t)),
         (''structural_anchor'', JStr (mt_structural_anchor t)),
         (''mutation_kind'', JStr (merchant_mutation_kind_value (mt_mutation_kind t))),
         (''carrier_reference'', JStr (mt_carrier_reference t))]),
      (''assignment'', assessment_json (mc_assignment c)),
      (''strength'', jopt (JStr \<circ> mutation_strength_value) (mc_strength c))])"

definition acknowledgement_capability_json :: "acknowledgement_capability \<Rightarrow> json" where
  "acknowledgement_capability_json c = (let t = ac_target c in JObj
     [(''target'', JObj
        [(''ingress'', ingress_binding_json (at_ingress t)),
         (''acknowledgement_node_id'', JStr (at_acknowledgement_node_id t)),
         (''acknowledgement_symbol_id'', JStr (at_acknowledgement_symbol_id t)),
         (''structural_anchor'', JStr (at_structural_anchor t)),
         (''exit_kind'', JStr (acknowledgement_exit_kind_value (at_exit_kind t))),
         (''status_code'', jopt jnat (at_status_code t)),
         (''outcome'', JStr (acknowledgement_outcome_value (at_outcome t)))]),
      (''timeline'', assessment_json (ac_timeline c))])"

definition isolation_json :: "isolation_capability \<Rightarrow> json" where
  "isolation_json i = JObj
     [(''fresh_process'', assessment_json (is_fresh_process i)),
      (''observation_reset'', assessment_json (is_observation_reset i)),
      (''external_state_reset'', assessment_json (is_external_state_reset i))]"

definition compatibility_json :: "runtime_compatibility \<Rightarrow> json" where
  "compatibility_json c = JObj
     [(''python_implementation'', JStr (rc_python_implementation c)),
      (''python_version'', JStr (rc_python_version c)),
      (''fastapi_version'', jopt JStr (rc_fastapi_version c)),
      (''starlette_version'', jopt JStr (rc_starlette_version c)),
      (''uvicorn_version'', jopt JStr (rc_uvicorn_version c))]"

definition runtime_diagnostic_json :: "runtime_diagnostic \<Rightarrow> json" where
  "runtime_diagnostic_json d = JObj
     [(''code'', JStr (runtime_reason_value (rd_code d))),
      (''stage'', JStr (runtime_diagnostic_stage_value (rd_stage d))),
      (''reference'', jopt JStr (rd_reference d))]"

section \<open>The capability artifact\<close>

record runtime_capability_artifact =
  ra_project_id :: string
  ra_project_source_fingerprint :: string
  ra_source_index_fingerprint :: string
  ra_structural_graph_fingerprint :: string
  ra_projected_graph_fingerprint :: string
  ra_applicability_fingerprint :: string
  ra_runtime_config_fingerprint :: string
  ra_assessment_session_id :: string
  ra_mode :: string
  ra_ownership :: runtime_process_ownership
  ra_lifecycle :: runtime_lifecycle_state
  ra_compatibility :: runtime_compatibility
  ra_ingresses :: "ingress_capability list"
  ra_customer_values :: "customer_value_capability list"
  ra_mutations :: "mutation_capability list"
  ra_acknowledgements :: "acknowledgement_capability list"
  ra_isolation :: isolation_capability
  ra_diagnostics :: "runtime_diagnostic list"
  ra_capability_fingerprint :: string

text \<open>
  The arguments of \<open>runtime_capability_fingerprint\<close> are the fields of the artifact other
  than the session identity and the fingerprint itself, so the model reads them from it.
\<close>

definition runtime_capability_fingerprint :: "runtime_capability_artifact \<Rightarrow> string" where
  "runtime_capability_fingerprint a = fingerprint_json (JObj
     [(''schema_version'', JInt 1),
      (''project_id'', JStr (ra_project_id a)),
      (''project_source_fingerprint'', JStr (ra_project_source_fingerprint a)),
      (''source_index_fingerprint'', JStr (ra_source_index_fingerprint a)),
      (''structural_graph_fingerprint'', JStr (ra_structural_graph_fingerprint a)),
      (''projected_graph_fingerprint'', JStr (ra_projected_graph_fingerprint a)),
      (''applicability_fingerprint'', JStr (ra_applicability_fingerprint a)),
      (''runtime_config_fingerprint'', JStr (ra_runtime_config_fingerprint a)),
      (''mode'', JStr (ra_mode a)),
      (''ownership'', JStr (runtime_process_ownership_value (ra_ownership a))),
      (''lifecycle'', JStr (runtime_lifecycle_state_value (ra_lifecycle a))),
      (''compatibility'', compatibility_json (ra_compatibility a)),
      (''ingresses'', ordered_records ingress_capability_json (ra_ingresses a)),
      (''customer_values'', ordered_records customer_capability_json (ra_customer_values a)),
      (''mutations'', ordered_records mutation_capability_json (ra_mutations a)),
      (''acknowledgements'',
        ordered_records acknowledgement_capability_json (ra_acknowledgements a)),
      (''isolation'', isolation_json (ra_isolation a)),
      (''diagnostics'', ordered_records runtime_diagnostic_json (ra_diagnostics a))])"

definition binding_key :: "ingress_binding \<Rightarrow> string \<times> string" where
  "binding_key b = (ib_ingress_node_id b, ib_route_registration_id b)"

definition assessed_bindings ::
  "runtime_capability_artifact \<Rightarrow> string \<times> string \<Rightarrow> ingress_binding option" where
  "assessed_bindings a = dict_by binding_key (map ic_binding (ra_ingresses a))"

definition uses_assessed_binding :: "runtime_capability_artifact \<Rightarrow> ingress_binding \<Rightarrow> bool" where
  "uses_assessed_binding a b \<longleftrightarrow> assessed_bindings a (binding_key b) = Some b"

definition target_ingresses :: "runtime_capability_artifact \<Rightarrow> ingress_binding list" where
  "target_ingresses a =
     map (ct_ingress \<circ> cc_target) (ra_customer_values a) @
     map (mt_ingress \<circ> mc_target) (ra_mutations a) @
     map (at_ingress \<circ> ac_target) (ra_acknowledgements a)"

definition validate_capability_artifact :: "runtime_capability_artifact \<Rightarrow> error option" where
  "validate_capability_artifact a =
     (if \<not> distinct (map (binding_key \<circ> ic_binding) (ra_ingresses a))
      then Some (ValueError ''runtime ingress bindings must be unique'')
      else if \<not> list_all (uses_assessed_binding a) (target_ingresses a)
      then Some (ValueError ''runtime target must use an exact assessed ingress binding'')
      else if \<not> distinct (map (ct_normal_control_id \<circ> cc_target) (ra_customer_values a))
      then Some (ValueError ''customer-value runtime controls must be unique'')
      else if \<not> distinct (map (mt_mutation_node_id \<circ> mc_target) (ra_mutations a))
      then Some (ValueError ''mutation runtime targets must be unique'')
      else if \<not> distinct (map (at_acknowledgement_node_id \<circ> ac_target) (ra_acknowledgements a))
      then Some (ValueError ''acknowledgement runtime targets must be unique'')
      else if ra_capability_fingerprint a \<noteq> runtime_capability_fingerprint a
      then Some (ValueError ''runtime capability fingerprint must match artifact contents'')
      else None)"

section \<open>Observation events\<close>

record observation_event =
  ev_session_id :: string
  ev_request_id :: string
  ev_sequence :: nat
  ev_kind :: observation_kind
  ev_ingress_node_id :: string
  ev_route_registration_id :: string
  ev_normal_control_id :: "string option"
  ev_customer_value_node_id :: "string option"
  ev_customer_value_symbol_id :: "string option"
  ev_mutation_node_id :: "string option"
  ev_acknowledgement_node_id :: "string option"
  ev_status_code :: "nat option"
  ev_original_status_code :: "nat option"

definition customer_kinds :: "observation_kind list" where
  "customer_kinds = [CUSTOMER_VALUE_ENTERED, CUSTOMER_VALUE_RETURNED_NORMALLY,
                     CUSTOMER_VALUE_EXCEPTION_ESCAPED]"

definition mutation_kinds :: "observation_kind list" where
  "mutation_kinds = [MERCHANT_ASSIGNMENT_INSTRUCTION_REACHED,
                     MERCHANT_ASSIGNMENT_INSTRUCTION_COMPLETED_NORMALLY,
                     MERCHANT_ASSIGNMENT_INSTRUCTION_RAISED]"

definition response_kinds :: "observation_kind list" where
  "response_kinds = [RESPONSE_STARTED, RESPONSE_COMPLETED, RESPONSE_RECEIVED,
                     ACKNOWLEDGEMENT_FAILURE_INJECTED]"

definition managed_response_kinds :: "observation_kind list" where
  "managed_response_kinds = [RESPONSE_STARTED, RESPONSE_COMPLETED, ACKNOWLEDGEMENT_FAILURE_INJECTED]"

text \<open>
  The \<open>Field\<close> bounds of two kinds of values the records repeat: an HTTP status is 100 to 599, a
  path has 1 to 4096 characters.
\<close>

definition status_bound_error :: "nat option \<Rightarrow> error option" where
  "status_bound_error code =
     (case code of None \<Rightarrow> None
      | Some c \<Rightarrow> if c < 100 then Some (ValueError ''Input should be greater than or equal to 100'')
                  else if 599 < c then Some (ValueError ''Input should be less than or equal to 599'')
                  else None)"

definition path_bound_error :: "string \<Rightarrow> error option" where
  "path_bound_error path =
     (if path = [] then Some (ValueError ''String should have at least 1 character'')
      else if 4096 < length path
      then Some (ValueError ''String should have at most 4096 characters'')
      else None)"

lemma status_bound_error_None [simp]:
  "status_bound_error (Some c) = None \<longleftrightarrow> 100 \<le> c \<and> c \<le> 599"
  "status_bound_error None = None"
  by (auto simp: status_bound_error_def)

lemma path_bound_error_None: "path_bound_error p = None \<longleftrightarrow> 1 \<le> length p \<and> length p \<le> 4096"
  by (cases p) (auto simp: path_bound_error_def)

definition validate_target :: "observation_event \<Rightarrow> error option" where
  "validate_target e =
     (let customer = ev_kind e \<in> set customer_kinds;
          mutation = ev_kind e \<in> set mutation_kinds;
          customer_identity = [ev_normal_control_id e, ev_customer_value_node_id e,
                               ev_customer_value_symbol_id e];
          response = ev_kind e \<in> set response_kinds;
          managed_response = ev_kind e \<in> set managed_response_kinds;
          injected = (ev_kind e = ACKNOWLEDGEMENT_FAILURE_INJECTED)
      in if ev_sequence e = 0
         then Some (ValueError ''Input should be greater than or equal to 1'')
         else if status_bound_error (ev_status_code e) \<noteq> None
         then status_bound_error (ev_status_code e)
         else if status_bound_error (ev_original_status_code e) \<noteq> None
         then status_bound_error (ev_original_status_code e)
         else if customer \<and> \<not> list_all (\<lambda>i. i \<noteq> None) customer_identity
         then Some (ValueError ''customer lifecycle events require only exact fulfilment identity'')
         else if \<not> customer \<and> list_ex (\<lambda>i. i \<noteq> None) customer_identity
         then Some (ValueError ''non-customer events cannot carry fulfilment identity'')
         else if mutation \<noteq> (ev_mutation_node_id e \<noteq> None)
         then Some (ValueError ''mutation events require only an exact mutation node'')
         else if response \<noteq> (ev_status_code e \<noteq> None)
         then Some (ValueError ''response events require a status code'')
         else if ev_acknowledgement_node_id e \<noteq> None \<and> \<not> managed_response
         then Some (ValueError ''acknowledgement identity is valid only at the app response boundary'')
         else if injected \<and>
           (ev_acknowledgement_node_id e = None \<or>
            (case ev_original_status_code e of None \<Rightarrow> True | Some c \<Rightarrow> \<not> (200 \<le> c \<and> c < 300)) \<or>
            ev_status_code e \<noteq> Some 503)
         then Some (ValueError ''acknowledgement injection requires exact 2xx to 503 evidence'')
         else if \<not> injected \<and> ev_original_status_code e \<noteq> None
         then Some (ValueError ''original status is valid only for acknowledgement injection'')
         else None)"

definition observation_event_json :: "observation_event \<Rightarrow> json" where
  "observation_event_json e = JObj
     [(''session_id'', JStr (ev_session_id e)), (''request_id'', JStr (ev_request_id e)),
      (''sequence'', jnat (ev_sequence e)),
      (''kind'', JStr (observation_kind_value (ev_kind e))),
      (''ingress_node_id'', JStr (ev_ingress_node_id e)),
      (''route_registration_id'', JStr (ev_route_registration_id e)),
      (''normal_control_id'', jopt JStr (ev_normal_control_id e)),
      (''customer_value_node_id'', jopt JStr (ev_customer_value_node_id e)),
      (''customer_value_symbol_id'', jopt JStr (ev_customer_value_symbol_id e)),
      (''mutation_node_id'', jopt JStr (ev_mutation_node_id e)),
      (''acknowledgement_node_id'', jopt JStr (ev_acknowledgement_node_id e)),
      (''status_code'', jopt jnat (ev_status_code e)),
      (''original_status_code'', jopt jnat (ev_original_status_code e))]"

section \<open>Transcripts\<close>

record transcript =
  tr_session_id :: string
  tr_capability_fingerprint :: string
  tr_complete :: bool
  tr_events :: "observation_event list"
  tr_diagnostics :: "runtime_reason list"
  tr_transcript_fingerprint :: string

definition transcript_fingerprint :: "transcript \<Rightarrow> string" where
  "transcript_fingerprint t = fingerprint_json (JObj
     [(''session_id'', JStr (tr_session_id t)),
      (''capability_fingerprint'', JStr (tr_capability_fingerprint t)),
      (''complete'', JBool (tr_complete t)),
      (''events'', JArr (map observation_event_json (tr_events t))),
      (''diagnostics'', jstrs (map runtime_reason_value (tr_diagnostics t)))])"

definition validate_transcript :: "transcript \<Rightarrow> error option" where
  "validate_transcript t =
     (if list_ex (\<lambda>e. ev_session_id e \<noteq> tr_session_id t) (tr_events t)
      then Some (ValueError ''transcript events must belong to one runtime session'')
      else if map ev_sequence (tr_events t) \<noteq> [1..<Suc (length (tr_events t))]
      then Some (ValueError ''transcript event sequence must be contiguous and ordered'')
      else if tr_transcript_fingerprint t \<noteq> transcript_fingerprint t
      then Some (ValueError ''runtime transcript fingerprint must match contents'')
      else None)"

text \<open>
  One iteration of the loop of \<open>validate_observation_transcript\<close>: \<open>previous\<close> is the ingress
  \<open>request_bindings.setdefault\<close> returns.
\<close>

definition check_customer_target ::
  "runtime_capability_artifact \<Rightarrow> ingress_binding \<Rightarrow> observation_event \<Rightarrow> error option" where
  "check_customer_target a b e =
     (case ev_normal_control_id e of None \<Rightarrow> None
      | Some control \<Rightarrow>
         (case dict_by ct_normal_control_id (map cc_target (ra_customer_values a)) control of
            Some target \<Rightarrow>
              if ct_ingress target \<noteq> b \<or>
                 Some (ct_customer_value_node_id target) \<noteq> ev_customer_value_node_id e \<or>
                 Some (ct_customer_value_symbol_id target) \<noteq> ev_customer_value_symbol_id e
              then Some (TranscriptMismatch
                     ''customer observation target is not the assessed normal control'')
              else None
          | None \<Rightarrow> Some (TranscriptMismatch
                     ''customer observation target is not the assessed normal control'')))"

definition check_mutation_target ::
  "runtime_capability_artifact \<Rightarrow> ingress_binding \<Rightarrow> observation_event \<Rightarrow> error option" where
  "check_mutation_target a b e =
     (case ev_mutation_node_id e of None \<Rightarrow> None
      | Some node \<Rightarrow>
         (case dict_by mt_mutation_node_id (map mc_target (ra_mutations a)) node of
            Some target \<Rightarrow>
              if mt_ingress target \<noteq> b
              then Some (TranscriptMismatch
                     ''mutation observation target is not the assessed graph node'')
              else None
          | None \<Rightarrow> Some (TranscriptMismatch
                     ''mutation observation target is not the assessed graph node'')))"

definition check_acknowledgement_target ::
  "runtime_capability_artifact \<Rightarrow> ingress_binding \<Rightarrow> observation_event \<Rightarrow> error option" where
  "check_acknowledgement_target a b e =
     (case ev_acknowledgement_node_id e of None \<Rightarrow> None
      | Some node \<Rightarrow>
         (case dict_by at_acknowledgement_node_id (map ac_target (ra_acknowledgements a)) node of
            Some target \<Rightarrow>
              if at_ingress target \<noteq> b
              then Some (TranscriptMismatch
                     ''acknowledgement observation target is not the assessed graph node'')
              else None
          | None \<Rightarrow> Some (TranscriptMismatch
                     ''acknowledgement observation target is not the assessed graph node'')))"

definition event_key :: "observation_event \<Rightarrow> string \<times> string" where
  "event_key e = (ev_ingress_node_id e, ev_route_registration_id e)"

definition check_event ::
  "runtime_capability_artifact \<Rightarrow> (string \<times> string) option \<Rightarrow> observation_event \<Rightarrow> error option" where
  "check_event a previous e =
     (case assessed_bindings a (event_key e) of
        None \<Rightarrow> Some (TranscriptMismatch ''observation ingress binding is not assessed'')
      | Some b \<Rightarrow>
          if previous \<noteq> None \<and> previous \<noteq> Some (event_key e)
          then Some (TranscriptMismatch ''one request crossed exact ingress bindings'')
          else first_error [check_customer_target a b e, check_mutation_target a b e,
                            check_acknowledgement_target a b e])"

fun check_events ::
  "runtime_capability_artifact \<Rightarrow> (string \<rightharpoonup> string \<times> string) \<Rightarrow> observation_event list \<Rightarrow>
   error option" where
  "check_events a request_bindings [] = None"
| "check_events a request_bindings (e # es) =
     (case check_event a (request_bindings (ev_request_id e)) e of
        Some err \<Rightarrow> Some err
      | None \<Rightarrow> check_events a (request_bindings(ev_request_id e \<mapsto> event_key e)) es)"

definition validate_observation_transcript ::
  "runtime_capability_artifact \<Rightarrow> transcript \<Rightarrow> error option" where
  "validate_observation_transcript a t =
     (if \<not> tr_complete t \<or> tr_diagnostics t \<noteq> []
      then Some (TranscriptMismatch ''runtime observation transcript is incomplete'')
      else if tr_session_id t \<noteq> ra_assessment_session_id a
      then Some (TranscriptMismatch ''runtime observation session identity is mismatched'')
      else if tr_capability_fingerprint t \<noteq> ra_capability_fingerprint a
      then Some (TranscriptMismatch ''runtime capability fingerprint is mismatched'')
      else check_events a Map.empty (tr_events t))"

section \<open>What an accepted transcript guarantees\<close>

lemma transcript_sequence_nth:
  assumes "validate_transcript t = None" and "i < length (tr_events t)"
  shows "ev_sequence (tr_events t ! i) = Suc i"
proof -
  have "map ev_sequence (tr_events t) = [1..<Suc (length (tr_events t))]"
    using assms(1) by (simp add: validate_transcript_def split: if_splits)
  then have "map ev_sequence (tr_events t) ! i = [1..<Suc (length (tr_events t))] ! i" by simp
  then show ?thesis using assms(2) by (simp del: upt_Suc)
qed

lemma transcript_sequences_distinct:
  assumes "validate_transcript t = None"
  shows "distinct (map ev_sequence (tr_events t))"
  using assms by (simp add: validate_transcript_def del: upt_Suc split: if_splits)

lemma check_event_assessed:
  assumes "check_event a previous e = None"
  shows "assessed_bindings a (event_key e) \<noteq> None"
    and "previous = None \<or> previous = Some (event_key e)"
proof -
  from assms obtain b where b: "assessed_bindings a (event_key e) = Some b"
    and p: "\<not> (previous \<noteq> None \<and> previous \<noteq> Some (event_key e))"
    by (simp add: check_event_def split: option.splits if_splits)
  show "assessed_bindings a (event_key e) \<noteq> None" using b by simp
  show "previous = None \<or> previous = Some (event_key e)" using p by blast
qed

lemma check_events_keys:
  assumes "check_events a m es = None" and "e \<in> set es"
  shows "assessed_bindings a (event_key e) \<noteq> None \<and>
         (m (ev_request_id e) = None \<or> m (ev_request_id e) = Some (event_key e)) \<and>
         (\<forall>e' \<in> set es. ev_request_id e' = ev_request_id e \<longrightarrow> event_key e' = event_key e)"
  using assms
proof (induction es arbitrary: m e)
  case Nil
  then show ?case by simp
next
  case (Cons x es)
  let ?m = "m(ev_request_id x \<mapsto> event_key x)"
  from Cons.prems(1) have x: "check_event a (m (ev_request_id x)) x = None"
    and es: "check_events a ?m es = None"
    by (auto split: option.splits)
  have later: "ev_request_id y = ev_request_id x \<longrightarrow> event_key y = event_key x"
    if "y \<in> set es" for y
    using Cons.IH[OF es that] by auto
  show ?case
  proof (cases "e = x")
    case True
    then show ?thesis using check_event_assessed[OF x] later by auto
  next
    case False
    then have "e \<in> set es" using Cons.prems(2) by simp
    from Cons.IH[OF es this] later[OF this] check_event_assessed[OF x]
    show ?thesis by (auto split: if_splits)
  qed
qed

text \<open>
  A transcript that is accepted against the assessed capability never lets one request
  cross ingress bindings, and every event it holds happened at an ingress binding the
  capability assessed.
\<close>

theorem accepted_transcript_one_ingress_per_request:
  assumes "validate_observation_transcript a t = None"
    and "e \<in> set (tr_events t)" and "e' \<in> set (tr_events t)"
    and "ev_request_id e' = ev_request_id e"
  shows "ev_ingress_node_id e' = ev_ingress_node_id e \<and>
         ev_route_registration_id e' = ev_route_registration_id e \<and>
         (\<exists>c \<in> set (ra_ingresses a). binding_key (ic_binding c) = event_key e)"
proof -
  have es: "check_events a Map.empty (tr_events t) = None"
    using assms(1) by (simp add: validate_observation_transcript_def split: if_splits)
  from check_events_keys[OF es assms(2)] assms(3,4)
  have k: "event_key e' = event_key e" and "assessed_bindings a (event_key e) \<noteq> None" by auto
  then obtain b where b: "assessed_bindings a (event_key e) = Some b" by blast
  then have "b \<in> set (map ic_binding (ra_ingresses a))" and "binding_key b = event_key e"
    unfolding assessed_bindings_def by (rule dict_by_SomeD)+
  then have "\<exists>c \<in> set (ra_ingresses a). binding_key (ic_binding c) = event_key e" by auto
  with k show ?thesis by (simp add: event_key_def)
qed

text \<open>Inputs for the witnesses: one ingress, one request.\<close>

definition demo_assessment :: capability_assessment where
  "demo_assessment = \<lparr>ca_state = CAP_COMPLETE, ca_reasons = [RC_AVAILABLE]\<rparr>"

definition demo_binding :: ingress_binding where
  "demo_binding = \<lparr>ib_ingress_node_id = ''n1'', ib_route_registration_id = ''r1'',
     ib_app_instance_id = ''app'', ib_ingress_symbol_id = ''sym'', ib_method = ''POST'',
     ib_effective_path = ''/hook'', ib_checkout_request_binding = None\<rparr>"

definition demo_capability :: runtime_capability_artifact where
  "demo_capability = \<lparr>ra_project_id = ''p'', ra_project_source_fingerprint = ''f1'',
     ra_source_index_fingerprint = ''f2'', ra_structural_graph_fingerprint = ''f3'',
     ra_projected_graph_fingerprint = ''f4'', ra_applicability_fingerprint = ''f5'',
     ra_runtime_config_fingerprint = ''f6'', ra_assessment_session_id = ''s1'',
     ra_mode = ''managed'', ra_ownership = OWN_STATEGUARD, ra_lifecycle = LIFE_READY,
     ra_compatibility = \<lparr>rc_python_implementation = ''CPython'', rc_python_version = ''3.11'',
       rc_fastapi_version = None, rc_starlette_version = None, rc_uvicorn_version = None\<rparr>,
     ra_ingresses = [\<lparr>ic_binding = demo_binding, ic_addressability = demo_assessment,
       ic_request_correlation = demo_assessment\<rparr>],
     ra_customer_values = [], ra_mutations = [], ra_acknowledgements = [],
     ra_isolation = \<lparr>is_fresh_process = demo_assessment, is_observation_reset = demo_assessment,
       is_external_state_reset = demo_assessment\<rparr>,
     ra_diagnostics = [], ra_capability_fingerprint = ''cap''\<rparr>"

definition demo_event :: "nat \<Rightarrow> observation_kind \<Rightarrow> observation_event" where
  "demo_event i k = \<lparr>ev_session_id = ''s1'', ev_request_id = ''q1'', ev_sequence = i, ev_kind = k,
     ev_ingress_node_id = ''n1'', ev_route_registration_id = ''r1'', ev_normal_control_id = None,
     ev_customer_value_node_id = None, ev_customer_value_symbol_id = None,
     ev_mutation_node_id = None, ev_acknowledgement_node_id = None, ev_status_code = None,
     ev_original_status_code = None\<rparr>"

definition demo_transcript :: transcript where
  "demo_transcript = \<lparr>tr_session_id = ''s1'', tr_capability_fingerprint = ''cap'',
     tr_complete = True,
     tr_events = [demo_event 1 REQUEST_DISPATCHED, demo_event 2 REQUEST_RECEIVED],
     tr_diagnostics = [], tr_transcript_fingerprint = ''tf''\<rparr>"

theorem accepted_transcript_one_ingress_per_request_witness:
  "validate_observation_transcript demo_capability demo_transcript = None \<and>
   ev_ingress_node_id (demo_event 2 REQUEST_RECEIVED) =
     ev_ingress_node_id (demo_event 1 REQUEST_DISPATCHED) \<and>
   (\<exists>c \<in> set (ra_ingresses demo_capability).
     binding_key (ic_binding c) = event_key (demo_event 1 REQUEST_DISPATCHED))"
proof -
  have v: "validate_observation_transcript demo_capability demo_transcript = None"
    by (simp add: validate_observation_transcript_def demo_capability_def demo_transcript_def
        check_event_def assessed_bindings_def dict_by_def binding_key_def event_key_def
        demo_event_def demo_binding_def check_customer_target_def check_mutation_target_def
        check_acknowledgement_target_def)
  have "demo_event 1 REQUEST_DISPATCHED \<in> set (tr_events demo_transcript)"
    "demo_event 2 REQUEST_RECEIVED \<in> set (tr_events demo_transcript)"
    by (simp_all add: demo_transcript_def)
  moreover have "ev_request_id (demo_event 2 REQUEST_RECEIVED) =
    ev_request_id (demo_event 1 REQUEST_DISPATCHED)"
    by (simp add: demo_event_def)
  ultimately show ?thesis
    using v accepted_transcript_one_ingress_per_request[OF v] by blast
qed

end
