(* ===== verification/ScenarioObservations.thy ===== *)
theory ScenarioObservations
  imports RuntimeContracts
begin

text \<open>
  What a scenario observed: the verdict vocabulary and observation records of
  \<open>failure_lab/contracts.py\<close>, and the functions of \<open>sg01.py\<close>, \<open>sg03.py\<close> and \<open>sg05.py\<close> that
  project a transcript onto one request.  The lemmas tie the counts the reducers read to the
  number of events in the transcript.
\<close>

section \<open>Verdict vocabulary\<close>

datatype result_state =
    VERIFIED_PASS
  | VERIFIED_FAIL
  | STATIC_WARNING
  | RESULT_NEEDS_INPUT
  | UNVERIFIED
  | RESULT_NOT_APPLICABLE

fun result_state_value :: "result_state \<Rightarrow> string" where
  "result_state_value VERIFIED_PASS = ''VERIFIED PASS''"
| "result_state_value VERIFIED_FAIL = ''VERIFIED FAIL''"
| "result_state_value STATIC_WARNING = ''STATIC WARNING''"
| "result_state_value RESULT_NEEDS_INPUT = ''NEEDS INPUT''"
| "result_state_value UNVERIFIED = ''UNVERIFIED''"
| "result_state_value RESULT_NOT_APPLICABLE = ''NOT APPLICABLE''"

datatype evidence_tier =
    E0_DISCOVERED
  | E1_RESOLVED
  | E2_STATIC_VERIFIED
  | E3_DYNAMIC_VERIFIED
  | E4_RAZORPAY_GROUNDED

fun evidence_tier_value :: "evidence_tier \<Rightarrow> string" where
  "evidence_tier_value E0_DISCOVERED = ''E0 DISCOVERED''"
| "evidence_tier_value E1_RESOLVED = ''E1 RESOLVED''"
| "evidence_tier_value E2_STATIC_VERIFIED = ''E2 STATIC VERIFIED''"
| "evidence_tier_value E3_DYNAMIC_VERIFIED = ''E3 DYNAMIC VERIFIED''"
| "evidence_tier_value E4_RAZORPAY_GROUNDED = ''E4 RAZORPAY GROUNDED''"

datatype input_authority =
    STATEGUARD_OFFLINE_SYNTHETIC
  | STATEGUARD_SYNTHETIC_FROM_RAZORPAY_TEST_RESOURCE

fun input_authority_value :: "input_authority \<Rightarrow> string" where
  "input_authority_value STATEGUARD_OFFLINE_SYNTHETIC = ''STATEGUARD_OFFLINE_SYNTHETIC''"
| "input_authority_value STATEGUARD_SYNTHETIC_FROM_RAZORPAY_TEST_RESOURCE = ''STATEGUARD_SYNTHETIC_FROM_RAZORPAY_TEST_RESOURCE''"

datatype result_reason =
    APPLICABILITY_NOT_APPLICABLE
  | APPLICABILITY_NEEDS_INPUT
  | APPLICABILITY_INDETERMINATE
  | STALE_APPLICABILITY_AUTHORITY
  | AUTHORITY_MISMATCH
  | RUNTIME_MODE_UNSUPPORTED
  | RUNTIME_SESSION_UNAVAILABLE
  | RUNTIME_CAPABILITY_INSUFFICIENT
  | WEBHOOK_SECRET_UNAVAILABLE
  | CHECKOUT_SECRET_UNAVAILABLE
  | SERVER_ORDER_CONTROL_UNAVAILABLE
  | REQUEST_EXECUTION_FAILED
  | TRANSCRIPT_UNTRUSTWORTHY
  | REQUEST_LIFECYCLE_UNPROVEN
  | NORMAL_INPUT_PRECONDITION_UNPROVEN
  | TARGET_TERMINAL_UNPROVEN
  | EXACT_TARGET_ENTERED_ONCE
  | EXACT_TARGET_ENTERED_MULTIPLE_TIMES
  | NORMAL_CONTROL_MULTIPLE_TARGET_ENTRIES
  | DUPLICATE_DELIVERY_ADDED_TARGET_ENTRY
  | DUPLICATE_DELIVERY_ADDED_NO_TARGET_ENTRY
  | REJECTED_SIGNATURE_ADDED_CUSTOMER_TARGET_ENTRY
  | REJECTED_SIGNATURE_ADDED_NO_CUSTOMER_TARGET_ENTRY
  | REJECTED_SIGNATURE_COMPLETED_MUTATION
  | REJECTED_SIGNATURE_ADDED_NO_MUTATION
  | VALID_SIGNATURE_CONTROL_UNPROVEN
  | MUTATION_OUTCOME_UNPROVEN
  | OUT_OF_ORDER_CONTROL_MULTIPLE_TARGET_ENTRIES
  | STALE_AUTHORIZED_ADDED_TARGET_ENTRY
  | STALE_AUTHORIZED_ADDED_NO_TARGET_ENTRY
  | MERCHANT_STATE_REGRESSED_TO_AUTHORIZED
  | MERCHANT_STATE_DID_NOT_REGRESS
  | CAPTURED_STATE_CONTROL_UNPROVEN
  | TAMPERED_CALLBACK_ADDED_CUSTOMER_TARGET_ENTRY
  | TAMPERED_CALLBACK_ADDED_NO_CUSTOMER_TARGET_ENTRY
  | TAMPERED_CALLBACK_COMPLETED_MUTATION
  | TAMPERED_CALLBACK_ADDED_NO_MUTATION
  | VALID_CHECKOUT_CONTROL_UNPROVEN
  | WEBHOOK_ONLY_TARGET_ENTERED_ONCE
  | WEBHOOK_ONLY_TARGET_ENTERED_MULTIPLE_TIMES
  | MODELED_ACK_FAILURE_UNPROVEN
  | INITIAL_DELIVERY_MULTIPLE_TARGET_ENTRIES
  | MODELED_RETRY_ADDED_TARGET_ENTRY
  | MODELED_RETRY_ADDED_NO_TARGET_ENTRY
  | MERCHANT_LATE_CONTEXT_UNPROVEN
  | AUTHORIZED_EXECUTED_BEFORE_CAPTURE
  | AUTHORIZED_ADDED_NO_TARGET_ENTRY
  | CAPTURED_THRESHOLD_TARGET_ENTERED_ONCE
  | CAPTURED_THRESHOLD_MULTIPLE_TARGET_ENTRIES

fun result_reason_value :: "result_reason \<Rightarrow> string" where
  "result_reason_value APPLICABILITY_NOT_APPLICABLE = ''APPLICABILITY_NOT_APPLICABLE''"
| "result_reason_value APPLICABILITY_NEEDS_INPUT = ''APPLICABILITY_NEEDS_INPUT''"
| "result_reason_value APPLICABILITY_INDETERMINATE = ''APPLICABILITY_INDETERMINATE''"
| "result_reason_value STALE_APPLICABILITY_AUTHORITY = ''STALE_APPLICABILITY_AUTHORITY''"
| "result_reason_value AUTHORITY_MISMATCH = ''AUTHORITY_MISMATCH''"
| "result_reason_value RUNTIME_MODE_UNSUPPORTED = ''RUNTIME_MODE_UNSUPPORTED''"
| "result_reason_value RUNTIME_SESSION_UNAVAILABLE = ''RUNTIME_SESSION_UNAVAILABLE''"
| "result_reason_value RUNTIME_CAPABILITY_INSUFFICIENT = ''RUNTIME_CAPABILITY_INSUFFICIENT''"
| "result_reason_value WEBHOOK_SECRET_UNAVAILABLE = ''WEBHOOK_SECRET_UNAVAILABLE''"
| "result_reason_value CHECKOUT_SECRET_UNAVAILABLE = ''CHECKOUT_SECRET_UNAVAILABLE''"
| "result_reason_value SERVER_ORDER_CONTROL_UNAVAILABLE = ''SERVER_ORDER_CONTROL_UNAVAILABLE''"
| "result_reason_value REQUEST_EXECUTION_FAILED = ''REQUEST_EXECUTION_FAILED''"
| "result_reason_value TRANSCRIPT_UNTRUSTWORTHY = ''TRANSCRIPT_UNTRUSTWORTHY''"
| "result_reason_value REQUEST_LIFECYCLE_UNPROVEN = ''REQUEST_LIFECYCLE_UNPROVEN''"
| "result_reason_value NORMAL_INPUT_PRECONDITION_UNPROVEN = ''NORMAL_INPUT_PRECONDITION_UNPROVEN''"
| "result_reason_value TARGET_TERMINAL_UNPROVEN = ''TARGET_TERMINAL_UNPROVEN''"
| "result_reason_value EXACT_TARGET_ENTERED_ONCE = ''EXACT_TARGET_ENTERED_ONCE''"
| "result_reason_value EXACT_TARGET_ENTERED_MULTIPLE_TIMES = ''EXACT_TARGET_ENTERED_MULTIPLE_TIMES''"
| "result_reason_value NORMAL_CONTROL_MULTIPLE_TARGET_ENTRIES = ''NORMAL_CONTROL_MULTIPLE_TARGET_ENTRIES''"
| "result_reason_value DUPLICATE_DELIVERY_ADDED_TARGET_ENTRY = ''DUPLICATE_DELIVERY_ADDED_TARGET_ENTRY''"
| "result_reason_value DUPLICATE_DELIVERY_ADDED_NO_TARGET_ENTRY = ''DUPLICATE_DELIVERY_ADDED_NO_TARGET_ENTRY''"
| "result_reason_value REJECTED_SIGNATURE_ADDED_CUSTOMER_TARGET_ENTRY = ''REJECTED_SIGNATURE_ADDED_CUSTOMER_TARGET_ENTRY''"
| "result_reason_value REJECTED_SIGNATURE_ADDED_NO_CUSTOMER_TARGET_ENTRY = ''REJECTED_SIGNATURE_ADDED_NO_CUSTOMER_TARGET_ENTRY''"
| "result_reason_value REJECTED_SIGNATURE_COMPLETED_MUTATION = ''REJECTED_SIGNATURE_COMPLETED_MUTATION''"
| "result_reason_value REJECTED_SIGNATURE_ADDED_NO_MUTATION = ''REJECTED_SIGNATURE_ADDED_NO_MUTATION''"
| "result_reason_value VALID_SIGNATURE_CONTROL_UNPROVEN = ''VALID_SIGNATURE_CONTROL_UNPROVEN''"
| "result_reason_value MUTATION_OUTCOME_UNPROVEN = ''MUTATION_OUTCOME_UNPROVEN''"
| "result_reason_value OUT_OF_ORDER_CONTROL_MULTIPLE_TARGET_ENTRIES = ''OUT_OF_ORDER_CONTROL_MULTIPLE_TARGET_ENTRIES''"
| "result_reason_value STALE_AUTHORIZED_ADDED_TARGET_ENTRY = ''STALE_AUTHORIZED_ADDED_TARGET_ENTRY''"
| "result_reason_value STALE_AUTHORIZED_ADDED_NO_TARGET_ENTRY = ''STALE_AUTHORIZED_ADDED_NO_TARGET_ENTRY''"
| "result_reason_value MERCHANT_STATE_REGRESSED_TO_AUTHORIZED = ''MERCHANT_STATE_REGRESSED_TO_AUTHORIZED''"
| "result_reason_value MERCHANT_STATE_DID_NOT_REGRESS = ''MERCHANT_STATE_DID_NOT_REGRESS''"
| "result_reason_value CAPTURED_STATE_CONTROL_UNPROVEN = ''CAPTURED_STATE_CONTROL_UNPROVEN''"
| "result_reason_value TAMPERED_CALLBACK_ADDED_CUSTOMER_TARGET_ENTRY = ''TAMPERED_CALLBACK_ADDED_CUSTOMER_TARGET_ENTRY''"
| "result_reason_value TAMPERED_CALLBACK_ADDED_NO_CUSTOMER_TARGET_ENTRY = ''TAMPERED_CALLBACK_ADDED_NO_CUSTOMER_TARGET_ENTRY''"
| "result_reason_value TAMPERED_CALLBACK_COMPLETED_MUTATION = ''TAMPERED_CALLBACK_COMPLETED_MUTATION''"
| "result_reason_value TAMPERED_CALLBACK_ADDED_NO_MUTATION = ''TAMPERED_CALLBACK_ADDED_NO_MUTATION''"
| "result_reason_value VALID_CHECKOUT_CONTROL_UNPROVEN = ''VALID_CHECKOUT_CONTROL_UNPROVEN''"
| "result_reason_value WEBHOOK_ONLY_TARGET_ENTERED_ONCE = ''WEBHOOK_ONLY_TARGET_ENTERED_ONCE''"
| "result_reason_value WEBHOOK_ONLY_TARGET_ENTERED_MULTIPLE_TIMES = ''WEBHOOK_ONLY_TARGET_ENTERED_MULTIPLE_TIMES''"
| "result_reason_value MODELED_ACK_FAILURE_UNPROVEN = ''MODELED_ACK_FAILURE_UNPROVEN''"
| "result_reason_value INITIAL_DELIVERY_MULTIPLE_TARGET_ENTRIES = ''INITIAL_DELIVERY_MULTIPLE_TARGET_ENTRIES''"
| "result_reason_value MODELED_RETRY_ADDED_TARGET_ENTRY = ''MODELED_RETRY_ADDED_TARGET_ENTRY''"
| "result_reason_value MODELED_RETRY_ADDED_NO_TARGET_ENTRY = ''MODELED_RETRY_ADDED_NO_TARGET_ENTRY''"
| "result_reason_value MERCHANT_LATE_CONTEXT_UNPROVEN = ''MERCHANT_LATE_CONTEXT_UNPROVEN''"
| "result_reason_value AUTHORIZED_EXECUTED_BEFORE_CAPTURE = ''AUTHORIZED_EXECUTED_BEFORE_CAPTURE''"
| "result_reason_value AUTHORIZED_ADDED_NO_TARGET_ENTRY = ''AUTHORIZED_ADDED_NO_TARGET_ENTRY''"
| "result_reason_value CAPTURED_THRESHOLD_TARGET_ENTERED_ONCE = ''CAPTURED_THRESHOLD_TARGET_ENTERED_ONCE''"
| "result_reason_value CAPTURED_THRESHOLD_MULTIPLE_TARGET_ENTRIES = ''CAPTURED_THRESHOLD_MULTIPLE_TARGET_ENTRIES''"

type_synonym verdict = "result_state \<times> evidence_tier option \<times> result_reason"

abbreviation unverified :: "result_reason \<Rightarrow> verdict" where
  "unverified why \<equiv> (UNVERIFIED, None, why)"

abbreviation verified_pass :: "result_reason \<Rightarrow> verdict" where
  "verified_pass why \<equiv> (VERIFIED_PASS, Some E3_DYNAMIC_VERIFIED, why)"

abbreviation verified_fail :: "result_reason \<Rightarrow> verdict" where
  "verified_fail why \<equiv> (VERIFIED_FAIL, Some E3_DYNAMIC_VERIFIED, why)"

section \<open>Observation records\<close>

record acknowledgement_failure =
  af_acknowledgement_node_id :: string
  af_original_status_code :: nat
  af_effective_status_code :: nat
  af_injection_sequence :: nat

definition validate_acknowledgement_failure :: "acknowledgement_failure \<Rightarrow> error option" where
  "validate_acknowledgement_failure f =
     (if af_original_status_code f < 200
      then Some (ValueError ''Input should be greater than or equal to 200'')
      else if 299 < af_original_status_code f
      then Some (ValueError ''Input should be less than or equal to 299'')
      else if af_effective_status_code f \<noteq> 503
      then Some (ValueError ''Input should be 503'')
      else if af_injection_sequence f = 0
      then Some (ValueError ''Input should be greater than or equal to 1'')
      else None)"

record customer_summary =
  cs_entered_count :: nat
  cs_returned_normally_count :: nat
  cs_exception_escaped_count :: nat
  cs_entered_sequences :: "nat list"
  cs_returned_normally_sequences :: "nat list"
  cs_exception_escaped_sequences :: "nat list"
  cs_request_received_sequences :: "nat list"
  cs_response_completed_sequences :: "nat list"
  cs_request_aborted_sequences :: "nat list"
  cs_http_status_code :: "nat option"

definition validate_customer_counts :: "customer_summary \<Rightarrow> error option" where
  "validate_customer_counts s =
     (if status_bound_error (cs_http_status_code s) \<noteq> None
      then status_bound_error (cs_http_status_code s)
      else if cs_entered_count s \<noteq> length (cs_entered_sequences s)
      then Some (ValueError ''customer entry count must match its sequence references'')
      else if cs_returned_normally_count s \<noteq> length (cs_returned_normally_sequences s)
      then Some (ValueError ''normal-return count must match its sequence references'')
      else if cs_exception_escaped_count s \<noteq> length (cs_exception_escaped_sequences s)
      then Some (ValueError ''escaped-exception count must match its sequence references'')
      else None)"

record request_observation =
  ro_request_id :: string
  ro_observations :: customer_summary
  ro_acknowledgement_failure :: "acknowledgement_failure option"

record mutation_summary =
  ms_mutation_node_id :: string
  ms_reached_count :: nat
  ms_completed_normally_count :: nat
  ms_raised_count :: nat
  ms_reached_sequences :: "nat list"
  ms_completed_normally_sequences :: "nat list"
  ms_raised_sequences :: "nat list"

definition validate_mutation_counts :: "mutation_summary \<Rightarrow> error option" where
  "validate_mutation_counts s =
     (if ms_reached_count s \<noteq> length (ms_reached_sequences s)
      then Some (ValueError ''mutation reached count must match its sequence references'')
      else if ms_completed_normally_count s \<noteq> length (ms_completed_normally_sequences s)
      then Some (ValueError ''mutation completion count must match its sequence references'')
      else if ms_raised_count s \<noteq> length (ms_raised_sequences s)
      then Some (ValueError ''mutation raised count must match its sequence references'')
      else None)"

record mutation_observation =
  mo_request_id :: string
  mo_mutation_targets :: "mutation_summary list"
  mo_request_received_sequences :: "nat list"
  mo_response_completed_sequences :: "nat list"
  mo_request_aborted_sequences :: "nat list"
  mo_http_status_code :: "nat option"

definition validate_mutation_targets :: "mutation_observation \<Rightarrow> error option" where
  "validate_mutation_targets obs =
     (if mo_mutation_targets obs = []
      then Some (ValueError ''Tuple should have at least 1 item'')
      else if status_bound_error (mo_http_status_code obs) \<noteq> None
      then status_bound_error (mo_http_status_code obs)
      else if \<not> distinct (map ms_mutation_node_id (mo_mutation_targets obs))
      then Some (ValueError ''mutation request observations require unique exact targets'')
      else None)"

datatype scenario_observation =
    CustomerObservation request_observation
  | MutationObservation mutation_observation

fun observation_request_id :: "scenario_observation \<Rightarrow> string" where
  "observation_request_id (CustomerObservation c) = ro_request_id c"
| "observation_request_id (MutationObservation m) = mo_request_id m"

fun is_customer :: "scenario_observation \<Rightarrow> bool" where
  "is_customer (CustomerObservation c) = True"
| "is_customer (MutationObservation m) = False"

definition status_2xx :: "nat option \<Rightarrow> bool" where
  "status_2xx code = (case code of None \<Rightarrow> False | Some c \<Rightarrow> 200 \<le> c \<and> c < 300)"

definition normal_first_delivery :: "customer_summary \<Rightarrow> bool" where
  "normal_first_delivery s \<longleftrightarrow>
     length (cs_request_received_sequences s) = 1 \<and> cs_entered_count s = 1 \<and>
     cs_returned_normally_count s = 1 \<and> cs_exception_escaped_count s = 0 \<and>
     length (cs_response_completed_sequences s) = 1 \<and> cs_request_aborted_sequences s = [] \<and>
     status_2xx (cs_http_status_code s)"

section \<open>Projecting a transcript\<close>

definition sequences_of ::
  "observation_event list \<Rightarrow> string \<Rightarrow> observation_kind \<Rightarrow> nat list" where
  "sequences_of events request_id kind =
     map ev_sequence (filter (\<lambda>e. ev_kind e = kind) (filter (\<lambda>e. ev_request_id e = request_id) events))"

definition control_sequences_of ::
  "observation_event list \<Rightarrow> string \<Rightarrow> string \<Rightarrow> observation_kind \<Rightarrow> nat list" where
  "control_sequences_of events request_id control kind =
     map ev_sequence (filter (\<lambda>e. ev_kind e = kind \<and> ev_normal_control_id e = Some control)
                        (filter (\<lambda>e. ev_request_id e = request_id) events))"

definition observed_summary ::
  "observation_event list \<Rightarrow> string \<Rightarrow> string \<Rightarrow> nat \<Rightarrow> customer_summary" where
  "observed_summary events request_id control http_status_code =
     (let entered = control_sequences_of events request_id control CUSTOMER_VALUE_ENTERED;
          returned = control_sequences_of events request_id control
            CUSTOMER_VALUE_RETURNED_NORMALLY;
          escaped = control_sequences_of events request_id control
            CUSTOMER_VALUE_EXCEPTION_ESCAPED
      in \<lparr>cs_entered_count = length entered, cs_returned_normally_count = length returned,
          cs_exception_escaped_count = length escaped, cs_entered_sequences = entered,
          cs_returned_normally_sequences = returned, cs_exception_escaped_sequences = escaped,
          cs_request_received_sequences = sequences_of events request_id REQUEST_RECEIVED,
          cs_response_completed_sequences = sequences_of events request_id RESPONSE_COMPLETED,
          cs_request_aborted_sequences = sequences_of events request_id REQUEST_ABORTED,
          cs_http_status_code = Some http_status_code\<rparr>)"

text \<open>
  \<open>summarize_observations\<close> constructs the record, so it raises on a status its bounds exclude;
  \<open>observed_summary\<close> is the record alone.
\<close>

definition summarize_observations ::
  "observation_event list \<Rightarrow> string \<Rightarrow> string \<Rightarrow> nat \<Rightarrow> customer_summary result" where
  "summarize_observations events request_id control http_status_code =
     construct validate_customer_counts (observed_summary events request_id control http_status_code)"

definition mutation_sequences_of ::
  "observation_event list \<Rightarrow> string \<Rightarrow> string \<Rightarrow> observation_kind \<Rightarrow> nat list" where
  "mutation_sequences_of events request_id mutation_node_id kind =
     map ev_sequence (filter (\<lambda>e. ev_kind e = kind \<and> ev_mutation_node_id e = Some mutation_node_id)
                        (filter (\<lambda>e. ev_request_id e = request_id) events))"

definition summarize_mutation_target ::
  "observation_event list \<Rightarrow> string \<Rightarrow> string \<Rightarrow> mutation_summary" where
  "summarize_mutation_target events request_id node =
     (let reached = mutation_sequences_of events request_id node
            MERCHANT_ASSIGNMENT_INSTRUCTION_REACHED;
          completed = mutation_sequences_of events request_id node
            MERCHANT_ASSIGNMENT_INSTRUCTION_COMPLETED_NORMALLY;
          raised = mutation_sequences_of events request_id node
            MERCHANT_ASSIGNMENT_INSTRUCTION_RAISED
      in \<lparr>ms_mutation_node_id = node, ms_reached_count = length reached,
          ms_completed_normally_count = length completed, ms_raised_count = length raised,
          ms_reached_sequences = reached, ms_completed_normally_sequences = completed,
          ms_raised_sequences = raised\<rparr>)"

definition mutation_observation_of ::
  "observation_event list \<Rightarrow> string \<Rightarrow> string list \<Rightarrow> nat \<Rightarrow> mutation_observation" where
  "mutation_observation_of events request_id mutation_node_ids http_status_code =
     \<lparr>mo_request_id = request_id,
      mo_mutation_targets = map (summarize_mutation_target events request_id) mutation_node_ids,
      mo_request_received_sequences = sequences_of events request_id REQUEST_RECEIVED,
      mo_response_completed_sequences = sequences_of events request_id RESPONSE_COMPLETED,
      mo_request_aborted_sequences = sequences_of events request_id REQUEST_ABORTED,
      mo_http_status_code = Some http_status_code\<rparr>"

definition summarize_mutation_observations ::
  "observation_event list \<Rightarrow> string \<Rightarrow> string list \<Rightarrow> nat \<Rightarrow> mutation_observation result" where
  "summarize_mutation_observations events request_id mutation_node_ids http_status_code =
     construct validate_mutation_targets
       (mutation_observation_of events request_id mutation_node_ids http_status_code)"

definition observed_acknowledgement_failure ::
  "observation_event list \<Rightarrow> string \<Rightarrow> string \<Rightarrow> acknowledgement_failure option" where
  "observed_acknowledgement_failure events request_id acknowledgement_node_id =
     (case filter (\<lambda>e. ev_request_id e = request_id \<and>
                      ev_kind e = ACKNOWLEDGEMENT_FAILURE_INJECTED \<and>
                      ev_acknowledgement_node_id e = Some acknowledgement_node_id \<and>
                      ev_original_status_code e \<noteq> None \<and> ev_status_code e = Some 503) events of
        [event] \<Rightarrow>
          (case ev_original_status_code event of
             None \<Rightarrow> None
           | Some code \<Rightarrow>
               Some \<lparr>af_acknowledgement_node_id = acknowledgement_node_id,
                     af_original_status_code = code, af_effective_status_code = 503,
                     af_injection_sequence = ev_sequence event\<rparr>)
      | _ \<Rightarrow> None)"

definition summarize_acknowledgement_failure ::
  "observation_event list \<Rightarrow> string \<Rightarrow> string \<Rightarrow> acknowledgement_failure option result" where
  "summarize_acknowledgement_failure events request_id acknowledgement_node_id =
     (case observed_acknowledgement_failure events request_id acknowledgement_node_id of
        None \<Rightarrow> Inr None
      | Some failure \<Rightarrow>
          bind_result (construct validate_acknowledgement_failure failure) (\<lambda>f. Inr (Some f)))"

section \<open>Counts are numbers of events\<close>

definition events_of ::
  "observation_event list \<Rightarrow> string \<Rightarrow> string \<Rightarrow> observation_kind \<Rightarrow> observation_event list" where
  "events_of events request_id control kind =
     filter (\<lambda>e. ev_request_id e = request_id \<and> ev_kind e = kind \<and>
                 ev_normal_control_id e = Some control) events"

text \<open>The entries of the confirmed customer-value target that one request caused.\<close>

definition value_entries :: "observation_event list \<Rightarrow> string \<Rightarrow> string \<Rightarrow> nat" where
  "value_entries events request_id control =
     length (events_of events request_id control CUSTOMER_VALUE_ENTERED)"

lemma length_control_sequences:
  "length (control_sequences_of events r c k) = length (events_of events r c k)"
  by (simp add: control_sequences_of_def events_of_def conj_commute conj_left_commute)

lemma observed_summary_counts [simp]:
  "cs_entered_count (observed_summary evs r c s) = value_entries evs r c"
  "cs_returned_normally_count (observed_summary evs r c s) =
     length (events_of evs r c CUSTOMER_VALUE_RETURNED_NORMALLY)"
  "cs_exception_escaped_count (observed_summary evs r c s) =
     length (events_of evs r c CUSTOMER_VALUE_EXCEPTION_ESCAPED)"
  "cs_request_received_sequences (observed_summary evs r c s) =
     sequences_of evs r REQUEST_RECEIVED"
  "cs_response_completed_sequences (observed_summary evs r c s) =
     sequences_of evs r RESPONSE_COMPLETED"
  "cs_request_aborted_sequences (observed_summary evs r c s) =
     sequences_of evs r REQUEST_ABORTED"
  "cs_returned_normally_sequences (observed_summary evs r c s) =
     control_sequences_of evs r c CUSTOMER_VALUE_RETURNED_NORMALLY"
  "cs_http_status_code (observed_summary evs r c s) = Some s"
  by (simp_all add: observed_summary_def Let_def length_control_sequences value_entries_def)

abbreviation legal_status :: "nat \<Rightarrow> bool" where
  "legal_status c \<equiv> 100 \<le> c \<and> c \<le> 599"

text \<open>The counts always fit; what the validator of a summary can refuse is the status.\<close>

lemma observed_summary_valid:
  "validate_customer_counts (observed_summary evs r c s) = status_bound_error (Some s)"
  by (simp add: validate_customer_counts_def observed_summary_def Let_def del: status_bound_error_None)

lemma summarize_observations_Inr:
  "summarize_observations evs r c s = Inr x \<longleftrightarrow> legal_status s \<and> x = observed_summary evs r c s"
  unfolding summarize_observations_def construct_eq_Inr observed_summary_valid status_bound_error_None(1)
  by (rule refl)

lemma summarize_mutation_target_valid:
  "validate_mutation_counts (summarize_mutation_target evs r n) = None"
  by (simp add: validate_mutation_counts_def summarize_mutation_target_def Let_def)

lemma summarize_mutation_target_id [simp]:
  "ms_mutation_node_id (summarize_mutation_target evs r n) = n"
  by (simp add: summarize_mutation_target_def Let_def)

lemma summarize_mutation_ids [simp]:
  "map ms_mutation_node_id (mo_mutation_targets (mutation_observation_of evs r ns s)) = ns"
  by (simp add: mutation_observation_of_def o_def)

lemma summarize_mutation_fields [simp]:
  "mo_request_id (mutation_observation_of evs r ns s) = r"
  "mo_request_received_sequences (mutation_observation_of evs r ns s) =
     sequences_of evs r REQUEST_RECEIVED"
  "mo_response_completed_sequences (mutation_observation_of evs r ns s) =
     sequences_of evs r RESPONSE_COMPLETED"
  "mo_http_status_code (mutation_observation_of evs r ns s) = Some s"
  by (simp_all add: mutation_observation_of_def)

lemma summarize_mutation_observations_Inr:
  "summarize_mutation_observations evs r ns s = Inr x \<longleftrightarrow>
     ns \<noteq> [] \<and> distinct ns \<and> legal_status s \<and> x = mutation_observation_of evs r ns s"
proof -
  have "mo_mutation_targets (mutation_observation_of evs r ns s) = [] \<longleftrightarrow> ns = []"
    by (simp add: mutation_observation_of_def)
  then show ?thesis
    by (simp add: summarize_mutation_observations_def validate_mutation_targets_def) blast
qed

lemma summarize_acknowledgement_failure_Inr:
  assumes "summarize_acknowledgement_failure events request_id node = Inr f"
  shows "f = observed_acknowledgement_failure events request_id node"
  using assms
  by (auto simp: summarize_acknowledgement_failure_def bind_result_eq_Inr split: option.splits)

end
