(* ===== verification/Scenarios.thy ===== *)
theory Scenarios
  imports ScenarioObservations RuleCatalog
begin

text \<open>
  The deterministic invariant reducers \<open>failure_lab/sg01.py\<close> to \<open>sg08.py\<close>: from the
  observations of one or two requests to a verdict, its evidence tier and its reason.  The
  locale states the contract the execution layer relies on; every reducer interprets it.
  The lemmas characterise each PASS and FAIL in terms of what was observed.
\<close>

section \<open>SG-01: a normal capture\<close>

definition evaluate_observations :: "customer_summary \<Rightarrow> verdict" where
  "evaluate_observations s =
     (if length (cs_request_received_sequences s) \<noteq> 1 then unverified REQUEST_LIFECYCLE_UNPROVEN
      else if cs_entered_count s > 1 then verified_fail EXACT_TARGET_ENTERED_MULTIPLE_TIMES
      else if cs_entered_count s = 0 then unverified NORMAL_INPUT_PRECONDITION_UNPROVEN
      else if cs_returned_normally_count s \<noteq> 1 \<or> cs_exception_escaped_count s \<noteq> 0
      then unverified TARGET_TERMINAL_UNPROVEN
      else if \<not> (length (cs_response_completed_sequences s) = 1 \<and>
                 cs_request_aborted_sequences s = [] \<and> status_2xx (cs_http_status_code s))
      then unverified REQUEST_LIFECYCLE_UNPROVEN
      else verified_pass EXACT_TARGET_ENTERED_ONCE)"

section \<open>SG-02: a duplicate webhook\<close>

definition sg02_evaluate_sequence :: "customer_summary \<Rightarrow> customer_summary \<Rightarrow> verdict" where
  "sg02_evaluate_sequence first second =
     (let first_result = evaluate_observations first
      in if fst first_result = VERIFIED_FAIL
         then verified_fail NORMAL_CONTROL_MULTIPLE_TARGET_ENTRIES
         else if fst first_result \<noteq> VERIFIED_PASS then first_result
         else if length (cs_request_received_sequences second) \<noteq> 1
         then unverified REQUEST_LIFECYCLE_UNPROVEN
         else if cs_entered_count second > 0
         then verified_fail DUPLICATE_DELIVERY_ADDED_TARGET_ENTRY
         else if cs_returned_normally_count second \<noteq> 0 \<or> cs_exception_escaped_count second \<noteq> 0
         then unverified TARGET_TERMINAL_UNPROVEN
         else if length (cs_response_completed_sequences second) \<noteq> 1 \<or>
                 cs_request_aborted_sequences second \<noteq> []
         then unverified REQUEST_LIFECYCLE_UNPROVEN
         else verified_pass DUPLICATE_DELIVERY_ADDED_NO_TARGET_ENTRY)"

section \<open>SG-03: a modeled retry after a failed acknowledgement\<close>

text \<open>\<open>max(xs)\<close> raises on an empty sequence.\<close>

definition py_max :: "nat list \<Rightarrow> nat result" where
  "py_max xs = (if xs = [] then Inl (ValueError ''max() arg is an empty sequence'')
                else Inr (Max (set xs)))"

definition injection_proven :: "request_observation \<Rightarrow> request_observation \<Rightarrow> bool" where
  "injection_proven first retry =
     (let summary = ro_observations first
      in case ro_acknowledgement_failure first of
           None \<Rightarrow> False
         | Some injection \<Rightarrow>
             ro_acknowledgement_failure retry = None \<and>
             length (cs_request_received_sequences summary) = 1 \<and>
             cs_response_completed_sequences summary \<noteq> [] \<and>
             af_injection_sequence injection < Min (set (cs_response_completed_sequences summary)) \<and>
             cs_http_status_code summary = Some 503 \<and>
             cs_request_aborted_sequences summary = [])"

definition sg03_evaluate_retry :: "customer_summary \<Rightarrow> verdict" where
  "sg03_evaluate_retry retry =
     (if cs_entered_count retry > 0 then verified_fail MODELED_RETRY_ADDED_TARGET_ENTRY
      else if cs_returned_normally_count retry \<noteq> 0 \<or> cs_exception_escaped_count retry \<noteq> 0
      then unverified TARGET_TERMINAL_UNPROVEN
      else if \<not> (length (cs_response_completed_sequences retry) = 1 \<and>
                 cs_request_aborted_sequences retry = [] \<and>
                 status_2xx (cs_http_status_code retry))
      then unverified REQUEST_LIFECYCLE_UNPROVEN
      else verified_pass MODELED_RETRY_ADDED_NO_TARGET_ENTRY)"

definition sg03_evaluate_sequence ::
  "request_observation \<Rightarrow> request_observation \<Rightarrow> verdict result" where
  "sg03_evaluate_sequence first retry =
     (let summary = ro_observations first
      in if \<not> injection_proven first retry then Inr (unverified MODELED_ACK_FAILURE_UNPROVEN)
         else case ro_acknowledgement_failure first of
           None \<Rightarrow> Inl (AssertionError ''injection is not None'')
         | Some injection \<Rightarrow>
             if length (cs_request_received_sequences (ro_observations retry)) \<noteq> 1
             then Inr (unverified REQUEST_LIFECYCLE_UNPROVEN)
             else if cs_entered_count summary > 1
             then (if cs_returned_normally_count summary \<noteq> cs_entered_count summary \<or>
                      cs_exception_escaped_count summary \<noteq> 0
                   then Inr (unverified TARGET_TERMINAL_UNPROVEN)
                   else bind_result (py_max (cs_returned_normally_sequences summary)) (\<lambda>last.
                     if last \<ge> af_injection_sequence injection
                     then Inr (unverified TARGET_TERMINAL_UNPROVEN)
                     else Inr (verified_fail INITIAL_DELIVERY_MULTIPLE_TARGET_ENTRIES)))
             else if cs_entered_count summary = 0
             then Inr (unverified NORMAL_INPUT_PRECONDITION_UNPROVEN)
             else if cs_returned_normally_count summary \<noteq> 1 \<or> cs_exception_escaped_count summary \<noteq> 0
             then Inr (unverified TARGET_TERMINAL_UNPROVEN)
             else bind_result (py_max (cs_returned_normally_sequences summary)) (\<lambda>last.
               if last \<ge> af_injection_sequence injection
               then Inr (unverified MODELED_ACK_FAILURE_UNPROVEN)
               else Inr (sg03_evaluate_retry (ro_observations retry))))"

section \<open>SG-04: an out-of-order webhook\<close>

definition sg04_evaluate_customer_sequence :: "customer_summary \<Rightarrow> customer_summary \<Rightarrow> verdict" where
  "sg04_evaluate_customer_sequence captured authorized =
     (let first = evaluate_observations captured
      in if fst first = VERIFIED_FAIL
         then verified_fail OUT_OF_ORDER_CONTROL_MULTIPLE_TARGET_ENTRIES
         else if fst first \<noteq> VERIFIED_PASS then first
         else if length (cs_request_received_sequences authorized) \<noteq> 1
         then unverified REQUEST_LIFECYCLE_UNPROVEN
         else if cs_entered_count authorized > 0
         then verified_fail STALE_AUTHORIZED_ADDED_TARGET_ENTRY
         else if cs_returned_normally_count authorized \<noteq> 0 \<or>
                 cs_exception_escaped_count authorized \<noteq> 0
         then unverified TARGET_TERMINAL_UNPROVEN
         else if length (cs_response_completed_sequences authorized) \<noteq> 1 \<or>
                 cs_request_aborted_sequences authorized \<noteq> []
         then unverified REQUEST_LIFECYCLE_UNPROVEN
         else verified_pass STALE_AUTHORIZED_ADDED_NO_TARGET_ENTRY)"

definition target_of :: "mutation_observation \<Rightarrow> string \<Rightarrow> mutation_summary option" where
  "target_of obs node = find (\<lambda>t. ms_mutation_node_id t = node) (mo_mutation_targets obs)"

definition sg04_evaluate_state_sequence ::
  "mutation_observation \<Rightarrow> mutation_observation \<Rightarrow> string \<Rightarrow> string \<Rightarrow> verdict" where
  "sg04_evaluate_state_sequence captured authorized captured_node_id authorized_node_id =
     (if length (mo_request_received_sequences captured) \<noteq> 1 \<or>
         length (mo_request_received_sequences authorized) \<noteq> 1
      then unverified REQUEST_LIFECYCLE_UNPROVEN
      else case (target_of captured captured_node_id, target_of authorized authorized_node_id) of
        (Some first, Some stale) \<Rightarrow>
          if ms_completed_normally_count first < 1 \<or> ms_raised_count first \<noteq> 0 \<or>
             ms_reached_count first \<noteq> ms_completed_normally_count first
          then unverified CAPTURED_STATE_CONTROL_UNPROVEN
          else if ms_completed_normally_count stale > 0
          then verified_fail MERCHANT_STATE_REGRESSED_TO_AUTHORIZED
          else if ms_reached_count stale \<noteq> 0 \<or> ms_raised_count stale \<noteq> 0
          then unverified MUTATION_OUTCOME_UNPROVEN
          else if length (mo_response_completed_sequences authorized) \<noteq> 1 \<or>
                  mo_request_aborted_sequences authorized \<noteq> []
          then unverified REQUEST_LIFECYCLE_UNPROVEN
          else verified_pass MERCHANT_STATE_DID_NOT_REGRESS
      | _ \<Rightarrow> unverified AUTHORITY_MISMATCH)"

section \<open>SG-05: a rejected signature\<close>

definition rejected_signature :: "string \<Rightarrow> string result" where
  "rejected_signature valid_signature =
     (if length valid_signature \<noteq> 64 \<or> list_ex (\<lambda>c. c \<notin> set hex_chars) valid_signature
      then Inl (ValueError ''valid webhook signature must be a lowercase SHA-256 hex digest'')
      else Inr ((if hd valid_signature \<noteq> CHR ''0'' then CHR ''0'' else CHR ''1'')
                # drop 1 valid_signature))"

definition sg05_evaluate_customer_sequence :: "customer_summary \<Rightarrow> customer_summary \<Rightarrow> verdict" where
  "sg05_evaluate_customer_sequence rejected control =
     (if length (cs_request_received_sequences rejected) \<noteq> 1
      then unverified REQUEST_LIFECYCLE_UNPROVEN
      else if cs_entered_count rejected > 0
      then verified_fail REJECTED_SIGNATURE_ADDED_CUSTOMER_TARGET_ENTRY
      else if cs_returned_normally_count rejected \<noteq> 0 \<or> cs_exception_escaped_count rejected \<noteq> 0
      then unverified TARGET_TERMINAL_UNPROVEN
      else if length (cs_response_completed_sequences rejected) \<noteq> 1 \<or>
              cs_request_aborted_sequences rejected \<noteq> []
      then unverified REQUEST_LIFECYCLE_UNPROVEN
      else if fst (evaluate_observations control) \<noteq> VERIFIED_PASS
      then unverified VALID_SIGNATURE_CONTROL_UNPROVEN
      else verified_pass REJECTED_SIGNATURE_ADDED_NO_CUSTOMER_TARGET_ENTRY)"

definition mutation_control_normal :: "mutation_observation \<Rightarrow> bool" where
  "mutation_control_normal control \<longleftrightarrow>
     length (mo_request_received_sequences control) = 1 \<and>
     length (mo_response_completed_sequences control) = 1 \<and>
     mo_request_aborted_sequences control = [] \<and> status_2xx (mo_http_status_code control) \<and>
     list_all (\<lambda>t. ms_reached_count t \<ge> 1 \<and> ms_completed_normally_count t = ms_reached_count t \<and>
                   ms_raised_count t = 0) (mo_mutation_targets control)"

definition sg05_evaluate_mutation_sequence ::
  "mutation_observation \<Rightarrow> mutation_observation \<Rightarrow> verdict" where
  "sg05_evaluate_mutation_sequence rejected control =
     (if map ms_mutation_node_id (mo_mutation_targets rejected) \<noteq>
         map ms_mutation_node_id (mo_mutation_targets control)
      then unverified AUTHORITY_MISMATCH
      else if length (mo_request_received_sequences rejected) \<noteq> 1
      then unverified REQUEST_LIFECYCLE_UNPROVEN
      else if list_ex (\<lambda>t. ms_completed_normally_count t > 0) (mo_mutation_targets rejected)
      then verified_fail REJECTED_SIGNATURE_COMPLETED_MUTATION
      else if list_ex (\<lambda>t. ms_reached_count t > 0 \<or> ms_raised_count t > 0) (mo_mutation_targets rejected)
      then unverified MUTATION_OUTCOME_UNPROVEN
      else if length (mo_response_completed_sequences rejected) \<noteq> 1 \<or>
              mo_request_aborted_sequences rejected \<noteq> []
      then unverified REQUEST_LIFECYCLE_UNPROVEN
      else if \<not> mutation_control_normal control then unverified VALID_SIGNATURE_CONTROL_UNPROVEN
      else verified_pass REJECTED_SIGNATURE_ADDED_NO_MUTATION)"

section \<open>SG-06: a tampered Checkout callback\<close>

definition sg06_evaluate_customer_sequence :: "customer_summary \<Rightarrow> customer_summary \<Rightarrow> verdict" where
  "sg06_evaluate_customer_sequence tampered control =
     (if length (cs_request_received_sequences tampered) \<noteq> 1
      then unverified REQUEST_LIFECYCLE_UNPROVEN
      else if cs_entered_count tampered > 0
      then verified_fail TAMPERED_CALLBACK_ADDED_CUSTOMER_TARGET_ENTRY
      else if cs_returned_normally_count tampered \<noteq> 0 \<or> cs_exception_escaped_count tampered \<noteq> 0
      then unverified TARGET_TERMINAL_UNPROVEN
      else if length (cs_response_completed_sequences tampered) \<noteq> 1 \<or>
              cs_request_aborted_sequences tampered \<noteq> []
      then unverified REQUEST_LIFECYCLE_UNPROVEN
      else if fst (evaluate_observations control) \<noteq> VERIFIED_PASS
      then unverified VALID_CHECKOUT_CONTROL_UNPROVEN
      else verified_pass TAMPERED_CALLBACK_ADDED_NO_CUSTOMER_TARGET_ENTRY)"

definition sg06_evaluate_mutation_sequence ::
  "mutation_observation \<Rightarrow> mutation_observation \<Rightarrow> verdict" where
  "sg06_evaluate_mutation_sequence tampered control =
     (if map ms_mutation_node_id (mo_mutation_targets tampered) \<noteq>
         map ms_mutation_node_id (mo_mutation_targets control)
      then unverified AUTHORITY_MISMATCH
      else if length (mo_request_received_sequences tampered) \<noteq> 1
      then unverified REQUEST_LIFECYCLE_UNPROVEN
      else if list_ex (\<lambda>t. ms_completed_normally_count t \<noteq> 0) (mo_mutation_targets tampered)
      then verified_fail TAMPERED_CALLBACK_COMPLETED_MUTATION
      else if list_ex (\<lambda>t. ms_reached_count t \<noteq> 0 \<or> ms_raised_count t \<noteq> 0) (mo_mutation_targets tampered)
      then unverified MUTATION_OUTCOME_UNPROVEN
      else if length (mo_response_completed_sequences tampered) \<noteq> 1 \<or>
              mo_request_aborted_sequences tampered \<noteq> []
      then unverified REQUEST_LIFECYCLE_UNPROVEN
      else if \<not> mutation_control_normal control then unverified VALID_CHECKOUT_CONTROL_UNPROVEN
      else verified_pass TAMPERED_CALLBACK_ADDED_NO_MUTATION)"

section \<open>SG-07: a lost browser callback\<close>

definition evaluate_webhook_only :: "customer_summary \<Rightarrow> verdict" where
  "evaluate_webhook_only s =
     (case evaluate_observations s of (result, tier, reason) \<Rightarrow>
        if result = VERIFIED_PASS then (result, tier, WEBHOOK_ONLY_TARGET_ENTERED_ONCE)
        else if result = VERIFIED_FAIL
        then (result, tier, WEBHOOK_ONLY_TARGET_ENTERED_MULTIPLE_TIMES)
        else (result, tier, reason))"

section \<open>SG-08: a late authorisation\<close>

definition captured_once :: "customer_summary \<Rightarrow> bool" where
  "captured_once captured \<longleftrightarrow>
     cs_entered_count captured = cs_returned_normally_count captured \<and>
     cs_returned_normally_count captured = 1 \<and> cs_exception_escaped_count captured = 0 \<and>
     length (cs_request_received_sequences captured) = 1 \<and>
     length (cs_response_completed_sequences captured) = 1 \<and>
     cs_request_aborted_sequences captured = [] \<and> status_2xx (cs_http_status_code captured)"

definition evaluate_precapture ::
  "customer_summary \<Rightarrow> customer_summary option \<Rightarrow> late_authorisation_policy \<Rightarrow> verdict" where
  "evaluate_precapture authorized captured late_authorisation =
     (if length (cs_request_received_sequences authorized) \<noteq> 1
      then unverified REQUEST_LIFECYCLE_UNPROVEN
      else if cs_entered_count authorized > 0
      then verified_fail AUTHORIZED_EXECUTED_BEFORE_CAPTURE
      else if cs_returned_normally_count authorized \<noteq> 0 \<or> cs_exception_escaped_count authorized \<noteq> 0
      then unverified TARGET_TERMINAL_UNPROVEN
      else if length (cs_response_completed_sequences authorized) \<noteq> 1 \<or>
              cs_request_aborted_sequences authorized \<noteq> []
      then unverified REQUEST_LIFECYCLE_UNPROVEN
      else case captured of
        None \<Rightarrow> unverified MERCHANT_LATE_CONTEXT_UNPROVEN
      | Some c \<Rightarrow>
          if late_authorisation = DO_NOT_FULFIL then unverified MERCHANT_LATE_CONTEXT_UNPROVEN
          else if captured_once c then verified_pass AUTHORIZED_ADDED_NO_TARGET_ENTRY
          else unverified NORMAL_INPUT_PRECONDITION_UNPROVEN)"

definition evaluate_capture_sequence :: "customer_summary \<Rightarrow> customer_summary \<Rightarrow> verdict" where
  "evaluate_capture_sequence authorized captured =
     (if length (cs_request_received_sequences authorized) \<noteq> 1
      then unverified REQUEST_LIFECYCLE_UNPROVEN
      else if length (cs_response_completed_sequences authorized) \<noteq> 1 \<or>
              cs_request_aborted_sequences authorized \<noteq> [] \<or>
              \<not> status_2xx (cs_http_status_code authorized)
      then unverified REQUEST_LIFECYCLE_UNPROVEN
      else if cs_entered_count authorized > 0
      then verified_fail AUTHORIZED_EXECUTED_BEFORE_CAPTURE
      else if length (cs_request_received_sequences captured) \<noteq> 1
      then unverified REQUEST_LIFECYCLE_UNPROVEN
      else if cs_entered_count captured > 1
      then verified_fail CAPTURED_THRESHOLD_MULTIPLE_TARGET_ENTRIES
      else if cs_entered_count captured = 0 then unverified NORMAL_INPUT_PRECONDITION_UNPROVEN
      else if cs_returned_normally_count captured \<noteq> 1 \<or> cs_exception_escaped_count captured \<noteq> 0
      then unverified TARGET_TERMINAL_UNPROVEN
      else if length (cs_response_completed_sequences captured) \<noteq> 1 \<or>
              cs_request_aborted_sequences captured \<noteq> [] \<or>
              \<not> status_2xx (cs_http_status_code captured)
      then unverified REQUEST_LIFECYCLE_UNPROVEN
      else verified_pass CAPTURED_THRESHOLD_TARGET_ENTERED_ONCE)"

section \<open>The contract of a reducer\<close>

text \<open>
  What the execution layer relies on when it turns a verdict into an artifact: a reducer
  answers PASS, FAIL or UNVERIFIED, PASS and FAIL carry exactly the dynamic tier, and an
  UNVERIFIED verdict carries none.
\<close>

definition well_tiered :: "verdict \<Rightarrow> bool" where
  "well_tiered v \<longleftrightarrow>
     (case v of (r, t, why) \<Rightarrow>
        (r \<in> {VERIFIED_PASS, VERIFIED_FAIL} \<and> t = Some E3_DYNAMIC_VERIFIED) \<or>
        (r = UNVERIFIED \<and> t = None))"

locale verdict_reducer =
  fixes reduce :: "'o \<Rightarrow> verdict"
  assumes reduce_well_tiered: "well_tiered (reduce obs)"
begin

lemma verified_iff_dynamic:
  "reduce obs = (r, t, why) \<Longrightarrow> r \<in> {VERIFIED_PASS, VERIFIED_FAIL} \<longleftrightarrow> t = Some E3_DYNAMIC_VERIFIED"
  using reduce_well_tiered[of obs] by (auto simp: well_tiered_def)

lemma never_grounded: "fst (snd (reduce obs)) \<noteq> Some E4_RAZORPAY_GROUNDED"
  using reduce_well_tiered[of obs] by (auto simp: well_tiered_def split: prod.splits)

lemma never_static_or_input:
  "fst (reduce obs) \<notin> {STATIC_WARNING, RESULT_NEEDS_INPUT, RESULT_NOT_APPLICABLE}"
  using reduce_well_tiered[of obs] by (auto simp: well_tiered_def split: prod.splits)

end

lemma well_tiered_simps [verdict_simps]:
  "well_tiered (unverified why)" "well_tiered (verified_pass why)" "well_tiered (verified_fail why)"
  by (simp_all add: well_tiered_def)

lemma well_tiered_if [verdict_simps]:
  "well_tiered (if b then u else v) \<longleftrightarrow> (if b then well_tiered u else well_tiered v)"
  by simp

lemma evaluate_observations_tiered: "well_tiered (evaluate_observations s)"
  unfolding evaluate_observations_def by (simp add: verdict_simps)

interpretation sg01: verdict_reducer evaluate_observations
  by unfold_locales (rule evaluate_observations_tiered)

interpretation sg02: verdict_reducer "\<lambda>(a, b). sg02_evaluate_sequence a b"
  by unfold_locales
    (auto simp: sg02_evaluate_sequence_def Let_def evaluate_observations_tiered verdict_simps
      split: prod.splits)

interpretation sg04: verdict_reducer "\<lambda>(a, b). sg04_evaluate_customer_sequence a b"
  by unfold_locales
    (auto simp: sg04_evaluate_customer_sequence_def Let_def evaluate_observations_tiered verdict_simps
      split: prod.splits)

interpretation sg04_state: verdict_reducer "\<lambda>(a, b, m, n). sg04_evaluate_state_sequence a b m n"
  by unfold_locales
    (auto simp: sg04_evaluate_state_sequence_def verdict_simps split: prod.splits option.splits)

interpretation sg05: verdict_reducer "\<lambda>(a, b). sg05_evaluate_customer_sequence a b"
  by unfold_locales (auto simp: sg05_evaluate_customer_sequence_def verdict_simps split: prod.splits)

interpretation sg05_mutation: verdict_reducer "\<lambda>(a, b). sg05_evaluate_mutation_sequence a b"
  by unfold_locales (auto simp: sg05_evaluate_mutation_sequence_def verdict_simps split: prod.splits)

interpretation sg06: verdict_reducer "\<lambda>(a, b). sg06_evaluate_customer_sequence a b"
  by unfold_locales (auto simp: sg06_evaluate_customer_sequence_def verdict_simps split: prod.splits)

interpretation sg06_mutation: verdict_reducer "\<lambda>(a, b). sg06_evaluate_mutation_sequence a b"
  by unfold_locales (auto simp: sg06_evaluate_mutation_sequence_def verdict_simps split: prod.splits)

lemma evaluate_webhook_only_tiered: "well_tiered (evaluate_webhook_only s)"
  using evaluate_observations_tiered[of s]
  by (auto simp: evaluate_webhook_only_def well_tiered_def split: prod.splits)

interpretation sg07: verdict_reducer evaluate_webhook_only
  by unfold_locales (rule evaluate_webhook_only_tiered)

interpretation sg08_precapture: verdict_reducer "\<lambda>(a, c, l). evaluate_precapture a c l"
  by unfold_locales (auto simp: evaluate_precapture_def verdict_simps split: prod.splits option.splits)

interpretation sg08_capture: verdict_reducer "\<lambda>(a, c). evaluate_capture_sequence a c"
  by unfold_locales (auto simp: evaluate_capture_sequence_def verdict_simps split: prod.splits)

section \<open>What a verdict means\<close>

lemma evaluate_observations_pass:
  "fst (evaluate_observations s) = VERIFIED_PASS \<longleftrightarrow> normal_first_delivery s"
  by (auto simp: evaluate_observations_def normal_first_delivery_def)

lemma evaluate_observations_fail:
  "fst (evaluate_observations s) = VERIFIED_FAIL \<longleftrightarrow>
   length (cs_request_received_sequences s) = 1 \<and> cs_entered_count s > 1"
  by (auto simp: evaluate_observations_def)

lemma evaluate_observations_pass_eq:
  "normal_first_delivery s \<Longrightarrow> evaluate_observations s = verified_pass EXACT_TARGET_ENTERED_ONCE"
  by (auto simp: evaluate_observations_def normal_first_delivery_def)

lemma evaluate_observations_fail_eq:
  "fst (evaluate_observations s) = VERIFIED_FAIL \<Longrightarrow>
   evaluate_observations s = verified_fail EXACT_TARGET_ENTERED_MULTIPLE_TIMES"
  by (auto simp: evaluate_observations_def split: if_splits)

end
