(* ===== verification/ScenarioVerdicts.thy ===== *)
theory ScenarioVerdicts
  imports Scenarios
begin

text \<open>
  What the verdicts of the reducers mean for the merchant: a decided verdict (PASS or FAIL)
  agrees with the safety violation the scenario is about, counted in entries of the customer
  value target.  The locale states that contract, and every reducer of \<open>Scenarios\<close>
  interprets it with the violation its source file documents.
\<close>

section \<open>Sound oracles\<close>

abbreviation decided :: "verdict \<Rightarrow> bool" where
  "decided v \<equiv> fst v \<in> {VERIFIED_PASS, VERIFIED_FAIL}"

locale scenario_oracle = verdict_reducer reduce for reduce :: "'o \<Rightarrow> verdict" +
  fixes violated :: "'o \<Rightarrow> bool"
  assumes pass_clean: "fst (reduce obs) = VERIFIED_PASS \<Longrightarrow> \<not> violated obs"
    and fail_violated: "fst (reduce obs) = VERIFIED_FAIL \<Longrightarrow> violated obs"
begin

lemma violation_never_passes: "violated obs \<Longrightarrow> fst (reduce obs) \<noteq> VERIFIED_PASS"
  using pass_clean by blast

lemma decided_iff: "decided (reduce obs) \<Longrightarrow> fst (reduce obs) = VERIFIED_FAIL \<longleftrightarrow> violated obs"
  using pass_clean fail_violated by auto

lemma decided_pass_iff:
  "decided (reduce obs) \<Longrightarrow> fst (reduce obs) = VERIFIED_PASS \<longleftrightarrow> \<not> violated obs"
  using pass_clean fail_violated by auto

lemma decided_dynamic: "decided (reduce obs) \<Longrightarrow> fst (snd (reduce obs)) = Some E3_DYNAMIC_VERIFIED"
  using reduce_well_tiered[of obs] by (auto simp: well_tiered_def split: prod.splits)

end

section \<open>The violations\<close>

definition not_exactly_once :: "customer_summary \<Rightarrow> bool" where
  "not_exactly_once s \<longleftrightarrow> cs_entered_count s \<noteq> 1"

definition pair_not_exactly_once :: "customer_summary \<times> customer_summary \<Rightarrow> bool" where
  "pair_not_exactly_once p \<longleftrightarrow> cs_entered_count (fst p) + cs_entered_count (snd p) \<noteq> 1"

definition first_entered :: "customer_summary \<times> 'b \<Rightarrow> bool" where
  "first_entered p \<longleftrightarrow> cs_entered_count (fst p) \<noteq> 0"

definition completed_mutation :: "mutation_observation \<times> 'b \<Rightarrow> bool" where
  "completed_mutation p \<longleftrightarrow> (\<exists>t \<in> set (mo_mutation_targets (fst p)). ms_completed_normally_count t > 0)"

definition regressed ::
  "mutation_observation \<times> mutation_observation \<times> string \<times> string \<Rightarrow> bool" where
  "regressed q = (case q of (captured, authorized, m, n) \<Rightarrow>
     (case target_of authorized n of None \<Rightarrow> False | Some t \<Rightarrow> ms_completed_normally_count t > 0))"

definition capture_order_broken :: "customer_summary \<times> customer_summary \<Rightarrow> bool" where
  "capture_order_broken p \<longleftrightarrow> cs_entered_count (fst p) \<noteq> 0 \<or> cs_entered_count (snd p) \<noteq> 1"

lemmas violation_defs = not_exactly_once_def pair_not_exactly_once_def first_entered_def
  completed_mutation_def regressed_def capture_order_broken_def

section \<open>Every reducer is a sound oracle\<close>

lemma first_delivery_cases:
  "fst (evaluate_observations s) = VERIFIED_PASS \<Longrightarrow> cs_entered_count s = 1"
  "fst (evaluate_observations s) = VERIFIED_FAIL \<Longrightarrow> cs_entered_count s > 1"
  by (simp_all add: evaluate_observations_pass evaluate_observations_fail normal_first_delivery_def)

interpretation sg01_oracle: scenario_oracle evaluate_observations not_exactly_once
  by unfold_locales (auto simp: violation_defs dest: first_delivery_cases)

interpretation sg02_oracle: scenario_oracle "\<lambda>(a, b). sg02_evaluate_sequence a b" pair_not_exactly_once
  by unfold_locales
    (auto simp: violation_defs sg02_evaluate_sequence_def Let_def
      dest: first_delivery_cases split: if_splits prod.splits)

interpretation sg04_oracle:
  scenario_oracle "\<lambda>(a, b). sg04_evaluate_customer_sequence a b" pair_not_exactly_once
  by unfold_locales
    (auto simp: violation_defs sg04_evaluate_customer_sequence_def Let_def
      dest: first_delivery_cases split: if_splits prod.splits)

interpretation sg04_state_oracle:
  scenario_oracle "\<lambda>(a, b, m, n). sg04_evaluate_state_sequence a b m n" regressed
  by unfold_locales
    (auto simp: violation_defs sg04_evaluate_state_sequence_def
      split: if_splits prod.splits option.splits)

interpretation sg05_oracle: scenario_oracle "\<lambda>(a, b). sg05_evaluate_customer_sequence a b" first_entered
  by unfold_locales
    (auto simp: violation_defs sg05_evaluate_customer_sequence_def split: if_splits prod.splits)

interpretation sg05_mutation_oracle:
  scenario_oracle "\<lambda>(a, b). sg05_evaluate_mutation_sequence a b" completed_mutation
  by unfold_locales
    (auto simp: violation_defs sg05_evaluate_mutation_sequence_def list_ex_iff
      split: if_splits prod.splits)

interpretation sg06_oracle: scenario_oracle "\<lambda>(a, b). sg06_evaluate_customer_sequence a b" first_entered
  by unfold_locales
    (auto simp: violation_defs sg06_evaluate_customer_sequence_def split: if_splits prod.splits)

interpretation sg06_mutation_oracle:
  scenario_oracle "\<lambda>(a, b). sg06_evaluate_mutation_sequence a b" completed_mutation
  by unfold_locales
    (auto simp: violation_defs sg06_evaluate_mutation_sequence_def list_ex_iff
      split: if_splits prod.splits)

lemma evaluate_webhook_only_result:
  "fst (evaluate_webhook_only s) = fst (evaluate_observations s)"
  by (simp add: evaluate_webhook_only_def split: prod.splits)

interpretation sg07_oracle: scenario_oracle evaluate_webhook_only not_exactly_once
  by unfold_locales
    (auto simp: violation_defs evaluate_webhook_only_result dest: first_delivery_cases)

interpretation sg08_precapture_oracle:
  scenario_oracle "\<lambda>(a, c, l). evaluate_precapture a c l" first_entered
  by unfold_locales
    (auto simp: violation_defs evaluate_precapture_def split: if_splits prod.splits option.splits)

interpretation sg08_capture_oracle:
  scenario_oracle "\<lambda>(a, c). evaluate_capture_sequence a c" capture_order_broken
  by unfold_locales
    (auto simp: violation_defs evaluate_capture_sequence_def split: if_splits prod.splits)

section \<open>SG-03, whose reducer may raise\<close>

lemma sg03_decided_cases:
  assumes "sg03_evaluate_sequence first retry = Inr v"
  shows "fst v = VERIFIED_PASS \<Longrightarrow>
      cs_entered_count (ro_observations first) = 1 \<and> cs_entered_count (ro_observations retry) = 0"
    and "fst v = VERIFIED_FAIL \<Longrightarrow>
      cs_entered_count (ro_observations first) > 1 \<or>
      cs_entered_count (ro_observations first) = 1 \<and> cs_entered_count (ro_observations retry) > 0"
  using assms
  by (auto simp: sg03_evaluate_sequence_def sg03_evaluate_retry_def Let_def bind_result_eq_Inr
      split: if_splits option.splits)

lemma sg03_decided_injection:
  assumes "sg03_evaluate_sequence first retry = Inr v" and "decided v"
  obtains injection where "ro_acknowledgement_failure first = Some injection"
    and "ro_acknowledgement_failure retry = None"
    and "cs_http_status_code (ro_observations first) = Some 503"
    and "cs_returned_normally_sequences (ro_observations first) \<noteq> []"
    and "\<forall>i \<in> set (cs_returned_normally_sequences (ro_observations first)).
           i < af_injection_sequence injection"
    and "cs_response_completed_sequences (ro_observations first) \<noteq> []"
    and "\<forall>i \<in> set (cs_response_completed_sequences (ro_observations first)).
           af_injection_sequence injection < i"
proof -
  let ?s = "ro_observations first"
  from assms have proven: "injection_proven first retry"
    by (auto simp: sg03_evaluate_sequence_def Let_def split: if_splits)
  then obtain inj where inj: "ro_acknowledgement_failure first = Some inj"
    and post: "af_injection_sequence inj < Min (set (cs_response_completed_sequences ?s))"
    and shape: "ro_acknowledgement_failure retry = None"
      "cs_response_completed_sequences ?s \<noteq> []" "cs_http_status_code ?s = Some 503"
    by (auto simp: injection_proven_def Let_def split: option.splits)
  from assms proven inj obtain last where
    "py_max (cs_returned_normally_sequences ?s) = Inr last" "last < af_injection_sequence inj"
    by (cases v) (auto simp: sg03_evaluate_sequence_def Let_def bind_result_eq_Inr split: if_splits)
  then have "cs_returned_normally_sequences ?s \<noteq> []"
    "\<forall>i \<in> set (cs_returned_normally_sequences ?s). i < af_injection_sequence inj"
    by (auto simp: py_max_def split: if_splits)
  moreover have "\<forall>i \<in> set (cs_response_completed_sequences ?s). af_injection_sequence inj < i"
    using post shape(2) by auto
  ultimately show ?thesis using that inj shape by blast
qed

section \<open>Inputs for the witnesses\<close>

definition value_event :: "nat \<Rightarrow> string \<Rightarrow> observation_kind \<Rightarrow> observation_event" where
  "value_event i q k = (demo_event i k)\<lparr>ev_request_id := q, ev_normal_control_id := Some ''c''\<rparr>"

definition request_event :: "nat \<Rightarrow> string \<Rightarrow> observation_kind \<Rightarrow> observation_event" where
  "request_event i q k = (demo_event i k)\<lparr>ev_request_id := q\<rparr>"

definition injection_event :: "nat \<Rightarrow> string \<Rightarrow> observation_event" where
  "injection_event i q = (request_event i q ACKNOWLEDGEMENT_FAILURE_INJECTED)
     \<lparr>ev_acknowledgement_node_id := Some ''a'', ev_status_code := Some 503,
      ev_original_status_code := Some 200\<rparr>"

definition fulfilled_then_quiet :: "observation_event list" where
  "fulfilled_then_quiet =
     [request_event 1 ''q1'' REQUEST_RECEIVED, value_event 2 ''q1'' CUSTOMER_VALUE_ENTERED,
      value_event 3 ''q1'' CUSTOMER_VALUE_RETURNED_NORMALLY, injection_event 4 ''q1'',
      request_event 5 ''q1'' RESPONSE_COMPLETED, request_event 6 ''q2'' REQUEST_RECEIVED,
      request_event 7 ''q2'' RESPONSE_COMPLETED]"

lemmas verdict_demo_defs = fulfilled_then_quiet_def value_event_def request_event_def
  injection_event_def demo_event_def observed_summary_def control_sequences_of_def
  sequences_of_def value_entries_def events_of_def evaluate_observations_def status_2xx_def

section \<open>The verdicts over a transcript\<close>

text \<open>
  C22. A decided verdict about a duplicate webhook is right: it is PASS exactly when the two
  deliveries together entered the confirmed customer-value target exactly once.  A second
  delivery that grants value again, or a first one that grants it twice, is never passed.
\<close>

theorem sg02_verdict_counts_entries:
  assumes "summarize_observations events first control s1 = Inr a"
    and "summarize_observations events second control s2 = Inr b"
    and "decided (sg02_evaluate_sequence a b)"
  shows "fst (sg02_evaluate_sequence a b) = VERIFIED_PASS \<longleftrightarrow>
         value_entries events first control + value_entries events second control = 1"
  using sg02_oracle.decided_pass_iff[of "(a, b)"] assms
  by (auto simp: pair_not_exactly_once_def summarize_observations_Inr)

theorem sg02_verdict_counts_entries_witness:
  "\<exists>a b. summarize_observations fulfilled_then_quiet ''q1'' ''c'' 200 = Inr a \<and>
         summarize_observations fulfilled_then_quiet ''q2'' ''c'' 200 = Inr b \<and>
         fst (sg02_evaluate_sequence a b) = VERIFIED_PASS \<and>
         value_entries fulfilled_then_quiet ''q1'' ''c'' + value_entries fulfilled_then_quiet ''q2'' ''c'' = 1"
proof -
  let ?a = "observed_summary fulfilled_then_quiet ''q1'' ''c'' 200"
  let ?b = "observed_summary fulfilled_then_quiet ''q2'' ''c'' 200"
  have a: "summarize_observations fulfilled_then_quiet ''q1'' ''c'' 200 = Inr ?a"
    and b: "summarize_observations fulfilled_then_quiet ''q2'' ''c'' 200 = Inr ?b"
    by (simp_all add: summarize_observations_Inr)
  have pass: "fst (sg02_evaluate_sequence ?a ?b) = VERIFIED_PASS"
    by (simp add: sg02_evaluate_sequence_def verdict_demo_defs)
  with sg02_verdict_counts_entries[OF a b] a b show ?thesis by blast
qed

text \<open>
  When SG-03 decides, the acknowledgement failure it injected lies strictly after every
  normal return of the target and strictly before the response, and the verdict is PASS
  exactly when the first delivery and its retry together entered the target once.
\<close>

theorem sg03_verdict_counts_entries:
  assumes "sg03_evaluate_sequence
             \<lparr>ro_request_id = first, ro_observations = observed_summary events first control s1,
              ro_acknowledgement_failure = observed_acknowledgement_failure events first node\<rparr>
             \<lparr>ro_request_id = retry, ro_observations = observed_summary events retry control s2,
              ro_acknowledgement_failure = observed_acknowledgement_failure events retry node\<rparr>
           = Inr v" (is "sg03_evaluate_sequence ?first ?retry = Inr v")
    and "decided v"
  shows "\<exists>injection. observed_acknowledgement_failure events first node = Some injection \<and>
     (\<forall>i \<in> set (control_sequences_of events first control CUSTOMER_VALUE_RETURNED_NORMALLY).
        i < af_injection_sequence injection) \<and>
     (\<forall>i \<in> set (sequences_of events first RESPONSE_COMPLETED). af_injection_sequence injection < i) \<and>
     (fst v = VERIFIED_PASS \<longleftrightarrow>
        value_entries events first control + value_entries events retry control = 1)"
proof -
  from sg03_decided_injection[OF assms] obtain injection where
    "observed_acknowledgement_failure events first node = Some injection"
    "\<forall>i \<in> set (control_sequences_of events first control CUSTOMER_VALUE_RETURNED_NORMALLY).
       i < af_injection_sequence injection"
    "\<forall>i \<in> set (sequences_of events first RESPONSE_COMPLETED). af_injection_sequence injection < i"
    by auto
  moreover have "fst v = VERIFIED_PASS \<longleftrightarrow>
      value_entries events first control + value_entries events retry control = 1"
    using sg03_decided_cases[OF assms(1)] assms(2) by auto
  ultimately show ?thesis by blast
qed

theorem sg03_verdict_counts_entries_witness:
  "\<exists>injection. observed_acknowledgement_failure fulfilled_then_quiet ''q1'' ''a'' = Some injection \<and>
     af_injection_sequence injection = 4 \<and>
     value_entries fulfilled_then_quiet ''q1'' ''c'' + value_entries fulfilled_then_quiet ''q2'' ''c'' = 1"
proof -
  have inj: "observed_acknowledgement_failure fulfilled_then_quiet ''q1'' ''a'' =
      Some \<lparr>af_acknowledgement_node_id = ''a'', af_original_status_code = 200,
            af_effective_status_code = 503, af_injection_sequence = 4\<rparr>"
    by (simp add: observed_acknowledgement_failure_def verdict_demo_defs)
  have none: "observed_acknowledgement_failure fulfilled_then_quiet ''q2'' ''a'' = None"
    by (simp add: observed_acknowledgement_failure_def verdict_demo_defs)
  have v: "sg03_evaluate_sequence
      \<lparr>ro_request_id = ''q1'', ro_observations = observed_summary fulfilled_then_quiet ''q1'' ''c'' 503,
       ro_acknowledgement_failure = observed_acknowledgement_failure fulfilled_then_quiet ''q1'' ''a''\<rparr>
      \<lparr>ro_request_id = ''q2'', ro_observations = observed_summary fulfilled_then_quiet ''q2'' ''c'' 200,
       ro_acknowledgement_failure = observed_acknowledgement_failure fulfilled_then_quiet ''q2'' ''a''\<rparr>
    = Inr (verified_pass MODELED_RETRY_ADDED_NO_TARGET_ENTRY)"
    unfolding inj none
    by (simp add: sg03_evaluate_sequence_def injection_proven_def py_max_def Let_def
        sg03_evaluate_retry_def verdict_demo_defs)
  from sg03_verdict_counts_entries[OF v] inj show ?thesis by auto
qed

text \<open>
  The signature SG-05 rejects with is never the valid one: for every lowercase SHA-256
  digest it is another lowercase SHA-256 digest that differs in the first digit only, and
  anything else raises.
\<close>

theorem rejected_signature_is_wrong:
  "case rejected_signature valid of
     Inl e \<Rightarrow> \<not> (length valid = 64 \<and> set valid \<subseteq> set hex_chars)
   | Inr s \<Rightarrow> length valid = 64 \<and> set valid \<subseteq> set hex_chars \<and> length s = 64 \<and>
             set s \<subseteq> set hex_chars \<and> s \<noteq> valid \<and> tl s = tl valid"
proof (cases "length valid = 64 \<and> set valid \<subseteq> set hex_chars")
  case True
  then obtain c cs where v: "valid = c # cs" by (cases valid) auto
  have "CHR ''0'' \<in> set hex_chars" "CHR ''1'' \<in> set hex_chars" by (simp_all add: hex_chars_def)
  with True v show ?thesis by (auto simp: rejected_signature_def list_ex_iff)
next
  case False
  then show ?thesis by (auto simp: rejected_signature_def list_ex_iff)
qed

text \<open>
  A decided SG-08 capture verdict is right: it is PASS exactly when the merely authorised
  payment granted no value and the captured one granted it once.
\<close>

theorem sg08_capture_verdict_counts_entries:
  assumes "decided (evaluate_capture_sequence (observed_summary events authorized control s1)
                                              (observed_summary events captured control s2))"
  shows "fst (evaluate_capture_sequence (observed_summary events authorized control s1)
                                        (observed_summary events captured control s2))
           = VERIFIED_PASS \<longleftrightarrow>
         value_entries events authorized control = 0 \<and> value_entries events captured control = 1"
  using sg08_capture_oracle.decided_pass_iff[of "(observed_summary events authorized control s1,
      observed_summary events captured control s2)"] assms
  by (simp add: capture_order_broken_def)

theorem sg08_capture_verdict_counts_entries_witness:
  "fst (evaluate_capture_sequence (observed_summary fulfilled_then_quiet ''q2'' ''c'' 200)
                                  (observed_summary fulfilled_then_quiet ''q1'' ''c'' 200))
     = VERIFIED_PASS \<and>
   value_entries fulfilled_then_quiet ''q2'' ''c'' = 0 \<and> value_entries fulfilled_then_quiet ''q1'' ''c'' = 1"
proof -
  have pass: "fst (evaluate_capture_sequence (observed_summary fulfilled_then_quiet ''q2'' ''c'' 200)
      (observed_summary fulfilled_then_quiet ''q1'' ''c'' 200)) = VERIFIED_PASS"
    by (simp add: evaluate_capture_sequence_def verdict_demo_defs)
  then show ?thesis
    using sg08_capture_verdict_counts_entries[of fulfilled_then_quiet "''q2''" "''c''" 200 "''q1''" 200]
    by simp
qed

end
