(* ===== verification/ScenarioResult.thy ===== *)
theory ScenarioResult
  imports ScenarioVerdicts Applicability
begin

text \<open>
  The execution result artifact of \<open>failure_lab/contracts.py\<close>: the authority and input
  references, the canonical payload of the result fingerprint, and the validator that
  re-derives from the recorded observations whether the claimed verdict is allowed, one
  definition per \<open>_validate_sg0x\<close>.  A validator returns the exception it raises, or \<open>None\<close>.
\<close>

section \<open>Authority\<close>

record authority_reference =
  au_applicability_fingerprint :: string
  au_scenario_instance_id :: string
  au_normal_control_id :: "string option"
  au_runtime_capability_fingerprint :: "string option"
  au_runtime_session_id :: "string option"
  au_runtime_request_ids :: "string list"
  au_transcript_fingerprint :: "string option"

definition validate_runtime_authority :: "authority_reference \<Rightarrow> error option" where
  "validate_runtime_authority a =
     (if au_runtime_request_ids a \<noteq> [] \<and> au_runtime_session_id a = None
      then Some (ValueError ''runtime request authority requires a runtime session'')
      else if \<not> distinct (au_runtime_request_ids a)
      then Some (ValueError ''runtime request authority must be unique and ordered'')
      else if au_transcript_fingerprint a \<noteq> None \<and>
              (au_runtime_capability_fingerprint a = None \<or> au_runtime_session_id a = None)
      then Some (ValueError ''transcript authority requires capability and session authority'')
      else None)"

definition authority_json :: "authority_reference \<Rightarrow> json" where
  "authority_json a = JObj
     [(''applicability_fingerprint'', JStr (au_applicability_fingerprint a)),
      (''scenario_instance_id'', JStr (au_scenario_instance_id a)),
      (''normal_control_id'', jopt JStr (au_normal_control_id a)),
      (''runtime_capability_fingerprint'', jopt JStr (au_runtime_capability_fingerprint a)),
      (''runtime_session_id'', jopt JStr (au_runtime_session_id a)),
      (''runtime_request_ids'', jstrs (au_runtime_request_ids a)),
      (''transcript_fingerprint'', jopt JStr (au_transcript_fingerprint a))]"

section \<open>Input references\<close>

datatype fixture_id = RZP_PAYMENT_CAPTURED_SAMPLE_V1 | RZP_PAYMENT_AUTHORIZED_SAMPLE_V1

fun fixture_id_value :: "fixture_id \<Rightarrow> string" where
  "fixture_id_value RZP_PAYMENT_CAPTURED_SAMPLE_V1 = ''RZP_PAYMENT_CAPTURED_SAMPLE_V1''"
| "fixture_id_value RZP_PAYMENT_AUTHORIZED_SAMPLE_V1 = ''RZP_PAYMENT_AUTHORIZED_SAMPLE_V1''"

text \<open>The patterns of the synthetic event identities: twenty hexadecimal digits and a suffix.\<close>

definition event_id_shape :: "string list \<Rightarrow> string \<Rightarrow> bool" where
  "event_id_shape suffixes s \<longleftrightarrow>
     (let body = drop 15 s
      in starts_with ''evt_stateguard_'' s \<and> 20 \<le> length body \<and>
         set (take 20 body) \<subseteq> set hex_chars \<and> drop 20 body \<in> set suffixes)"

definition pattern_error :: "error option" where
  "pattern_error = Some (ValueError ''String should match pattern'')"

record webhook_input =
  wi_authority :: input_authority
  wi_fixture_fingerprint :: string
  wi_raw_body_fingerprint :: string
  wi_synthetic_event_id :: string
  wi_path :: string
  wi_header_names :: "string list"

definition safe_header_names :: "string list" where
  "safe_header_names = [''Content-Type'', ''X-Razorpay-Signature'', ''x-razorpay-event-id'']"

definition validate_safe_headers :: "bool \<Rightarrow> webhook_input \<Rightarrow> error option" where
  "validate_safe_headers exact_type w =
     (if \<not> event_id_shape [''''] (wi_synthetic_event_id w) then pattern_error
      else if path_bound_error (wi_path w) \<noteq> None then path_bound_error (wi_path w)
      else if exact_type \<and> wi_authority w \<noteq> STATEGUARD_OFFLINE_SYNTHETIC
      then Some (ValueError ''offline scenario input requires offline synthetic authority'')
      else if wi_header_names w \<noteq> safe_header_names
      then Some (ValueError ''scenario input reference may contain only fixed safe header names'')
      else None)"

definition validate_grounded_authority :: "webhook_input \<Rightarrow> error option" where
  "validate_grounded_authority w =
     (if wi_authority w \<noteq> STATEGUARD_SYNTHETIC_FROM_RAZORPAY_TEST_RESOURCE
      then Some (ValueError ''grounded scenario input requires Razorpay Test resource authority'')
      else None)"

datatype sequence_role = CAPTURED_CONTROL | STALE_AUTHORIZED

fun sequence_role_value :: "sequence_role \<Rightarrow> string" where
  "sequence_role_value CAPTURED_CONTROL = ''CAPTURED_CONTROL''"
| "sequence_role_value STALE_AUTHORIZED = ''STALE_AUTHORIZED''"

record sequence_event =
  sq_role :: sequence_role
  sq_fixture_id :: fixture_id
  sq_fixture_fingerprint :: string
  sq_raw_body_fingerprint :: string
  sq_synthetic_event_id :: string

record webhook_sequence_input =
  ws_context_fingerprint :: string
  ws_path :: string
  ws_events :: "sequence_event \<times> sequence_event"

definition validate_webhook_sequence :: "webhook_sequence_input \<Rightarrow> error option" where
  "validate_webhook_sequence w =
     (let (first, second) = ws_events w
      in if path_bound_error (ws_path w) \<noteq> None then path_bound_error (ws_path w)
         else if \<not> event_id_shape [''_c'', ''_a''] (sq_synthetic_event_id first) \<or>
            \<not> event_id_shape [''_c'', ''_a''] (sq_synthetic_event_id second)
         then pattern_error
         else if (sq_role first, sq_role second) \<noteq> (CAPTURED_CONTROL, STALE_AUTHORIZED) \<or>
                 sq_synthetic_event_id first = sq_synthetic_event_id second
         then Some (ValueError ''out-of-order input must retain captured/authorized ordering'')
         else None)"

datatype checkout_role = TAMPERED | VALID_CONTROL

fun checkout_role_value :: "checkout_role \<Rightarrow> string" where
  "checkout_role_value TAMPERED = ''TAMPERED''"
| "checkout_role_value VALID_CONTROL = ''VALID_CONTROL''"

record checkout_sequence_input =
  ck_transport :: checkout_request_transport
  ck_path :: string
  ck_payment_context_fingerprint :: string
  ck_requests :: "(checkout_role \<times> string) \<times> (checkout_role \<times> string)"

definition validate_checkout_sequence :: "checkout_sequence_input \<Rightarrow> error option" where
  "validate_checkout_sequence c =
     (if path_bound_error (ck_path c) \<noteq> None then path_bound_error (ck_path c)
      else if (fst (fst (ck_requests c)), fst (snd (ck_requests c))) \<noteq> (TAMPERED, VALID_CONTROL)
      then Some (ValueError ''Checkout input must retain tampered/control ordering'')
      else None)"

record late_policy_reference =
  lp_fulfilment :: fulfilment_policy
  lp_fulfilment_evidence_fingerprint :: string
  lp_late_authorisation :: late_authorisation_policy
  lp_late_authorisation_evidence_fingerprint :: string

datatype late_role = MODELED_LATE_AUTHORIZED | CAPTURED_THRESHOLD_CONTROL

fun late_role_value :: "late_role \<Rightarrow> string" where
  "late_role_value MODELED_LATE_AUTHORIZED = ''MODELED_LATE_AUTHORIZED''"
| "late_role_value CAPTURED_THRESHOLD_CONTROL = ''CAPTURED_THRESHOLD_CONTROL''"

record late_event =
  le_role :: late_role
  le_fixture_id :: fixture_id
  le_fixture_fingerprint :: string
  le_raw_body_fingerprint :: string
  le_synthetic_event_id :: string

record late_input =
  li_context_fingerprint :: string
  li_policy :: late_policy_reference
  li_path :: string
  li_events :: "late_event list"

definition allowed_late_roles :: "late_policy_reference \<Rightarrow> late_role list list" where
  "allowed_late_roles p =
     (if lp_fulfilment p = CAPTURE_REQUIRED \<and> lp_late_authorisation p = FULFIL_LATER
      then [[MODELED_LATE_AUTHORIZED], [MODELED_LATE_AUTHORIZED, CAPTURED_THRESHOLD_CONTROL]]
      else [[MODELED_LATE_AUTHORIZED]])"

definition validate_late_sequence :: "late_input \<Rightarrow> error option" where
  "validate_late_sequence l =
     (let events = li_events l
      in if path_bound_error (li_path l) \<noteq> None then path_bound_error (li_path l)
         else if events = [] \<or> length events > 2
         then Some (ValueError ''Tuple should have 1 to 2 items'')
         else if \<not> list_all (\<lambda>e. event_id_shape [''_c'', ''_a''] (le_synthetic_event_id e)) events
         then pattern_error
         else if map le_role events \<notin> set (allowed_late_roles (li_policy l))
         then Some (ValueError
           ''modeled late-authorisation input must match the exact policy sequence'')
         else if le_fixture_id (events ! 0) \<noteq> RZP_PAYMENT_AUTHORIZED_SAMPLE_V1
         then Some (ValueError
           ''modeled late-authorisation sequence must begin with authorization'')
         else if length events = 2 \<and> le_fixture_id (events ! 1) \<noteq> RZP_PAYMENT_CAPTURED_SAMPLE_V1
         then Some (ValueError ''late capture threshold control must use the captured fixture'')
         else if \<not> distinct (map le_synthetic_event_id events)
         then Some (ValueError ''modeled late-authorisation event identities must be distinct'')
         else None)"

text \<open>
  \<open>GroundedScenarioInputReference\<close> inherits from \<open>ScenarioInputReference\<close>, so the code's
  \<open>isinstance\<close> test accepts both of the first two constructors.
\<close>

datatype input_reference =
    OfflineInput webhook_input
  | GroundedInput webhook_input string string
  | WebhookSequenceInput webhook_sequence_input
  | CheckoutSequenceInput checkout_sequence_input
  | LateAuthorisationInput late_input

fun validate_input_reference :: "input_reference \<Rightarrow> error option" where
  "validate_input_reference (OfflineInput w) = validate_safe_headers True w"
| "validate_input_reference (GroundedInput w g p) =
     first_error [validate_safe_headers False w, validate_grounded_authority w]"
| "validate_input_reference (WebhookSequenceInput w) = validate_webhook_sequence w"
| "validate_input_reference (CheckoutSequenceInput c) = validate_checkout_sequence c"
| "validate_input_reference (LateAuthorisationInput l) = validate_late_sequence l"

fun is_scenario_input :: "input_reference \<Rightarrow> bool" where
  "is_scenario_input (OfflineInput w) = True"
| "is_scenario_input (GroundedInput w g p) = True"
| "is_scenario_input ref = False"

fun is_grounded_input :: "input_reference \<Rightarrow> bool" where
  "is_grounded_input (GroundedInput w g p) = True"
| "is_grounded_input ref = False"

fun is_webhook_sequence :: "input_reference \<Rightarrow> bool" where
  "is_webhook_sequence (WebhookSequenceInput w) = True"
| "is_webhook_sequence ref = False"

fun is_checkout_sequence :: "input_reference \<Rightarrow> bool" where
  "is_checkout_sequence (CheckoutSequenceInput c) = True"
| "is_checkout_sequence ref = False"

definition input_is :: "(input_reference \<Rightarrow> bool) \<Rightarrow> input_reference option \<Rightarrow> bool" where
  "input_is p ref = (case ref of None \<Rightarrow> False | Some r \<Rightarrow> p r)"

definition webhook_input_fields :: "webhook_input \<Rightarrow> (string \<times> json) list" where
  "webhook_input_fields w =
     [(''authority'', JStr (input_authority_value (wi_authority w))),
      (''fixture_id'', JStr (fixture_id_value RZP_PAYMENT_CAPTURED_SAMPLE_V1)),
      (''fixture_fingerprint'', JStr (wi_fixture_fingerprint w)),
      (''raw_body_fingerprint'', JStr (wi_raw_body_fingerprint w)),
      (''synthetic_event_id'', JStr (wi_synthetic_event_id w)),
      (''method'', JStr ''POST''), (''path'', JStr (wi_path w)),
      (''header_names'', jstrs (wi_header_names w))]"

definition sequence_event_json :: "sequence_event \<Rightarrow> json" where
  "sequence_event_json e = JObj
     [(''role'', JStr (sequence_role_value (sq_role e))),
      (''fixture_id'', JStr (fixture_id_value (sq_fixture_id e))),
      (''fixture_fingerprint'', JStr (sq_fixture_fingerprint e)),
      (''raw_body_fingerprint'', JStr (sq_raw_body_fingerprint e)),
      (''synthetic_event_id'', JStr (sq_synthetic_event_id e))]"

definition checkout_request_json :: "checkout_role \<times> string \<Rightarrow> json" where
  "checkout_request_json r = JObj
     [(''role'', JStr (checkout_role_value (fst r))),
      (''request_material_fingerprint'', JStr (snd r))]"

definition late_event_json :: "late_event \<Rightarrow> json" where
  "late_event_json e = JObj
     [(''role'', JStr (late_role_value (le_role e))),
      (''fixture_id'', JStr (fixture_id_value (le_fixture_id e))),
      (''fixture_fingerprint'', JStr (le_fixture_fingerprint e)),
      (''raw_body_fingerprint'', JStr (le_raw_body_fingerprint e)),
      (''synthetic_event_id'', JStr (le_synthetic_event_id e))]"

definition late_policy_json :: "late_policy_reference \<Rightarrow> json" where
  "late_policy_json p = JObj
     [(''fulfilment'', JStr (fulfilment_value (lp_fulfilment p))),
      (''fulfilment_evidence_fingerprint'', JStr (lp_fulfilment_evidence_fingerprint p)),
      (''late_authorisation'', JStr (late_authorisation_value (lp_late_authorisation p))),
      (''late_authorisation_evidence_fingerprint'',
        JStr (lp_late_authorisation_evidence_fingerprint p))]"

fun input_reference_json :: "input_reference \<Rightarrow> json" where
  "input_reference_json (OfflineInput w) = JObj (webhook_input_fields w)"
| "input_reference_json (GroundedInput w g p) = JObj (webhook_input_fields w @
     [(''grounding_fingerprint'', JStr g), (''sanitized_projection_fingerprint'', JStr p)])"
| "input_reference_json (WebhookSequenceInput w) = JObj
     [(''input_kind'', JStr ''OUT_OF_ORDER_WEBHOOK_SEQUENCE''),
      (''context_fingerprint'', JStr (ws_context_fingerprint w)), (''method'', JStr ''POST''),
      (''path'', JStr (ws_path w)),
      (''events'', JArr [sequence_event_json (fst (ws_events w)), sequence_event_json (snd (ws_events w))])]"
| "input_reference_json (CheckoutSequenceInput c) = JObj
     [(''input_kind'', JStr ''CHECKOUT_TAMPER_SEQUENCE''),
      (''transport'', JStr (checkout_request_transport_value (ck_transport c))),
      (''method'', JStr ''POST''), (''path'', JStr (ck_path c)),
      (''payment_context_fingerprint'', JStr (ck_payment_context_fingerprint c)),
      (''browser_order_mismatch'', JBool True),
      (''requests'', JArr [checkout_request_json (fst (ck_requests c)),
                           checkout_request_json (snd (ck_requests c))])]"
| "input_reference_json (LateAuthorisationInput l) = JObj
     [(''input_kind'', JStr ''MODELED_LATE_AUTHORIZATION_SEQUENCE''),
      (''context_authority'', JStr ''STATEGUARD_MODELED_NOT_MERCHANT_OBSERVED''),
      (''context_fingerprint'', JStr (li_context_fingerprint l)),
      (''policy'', late_policy_json (li_policy l)), (''method'', JStr ''POST''),
      (''path'', JStr (li_path l)), (''events'', JArr (map late_event_json (li_events l)))]"

section \<open>The result artifact\<close>

definition jnats :: "nat list \<Rightarrow> json" where
  "jnats ns = JArr (map jnat ns)"

definition acknowledgement_failure_json :: "acknowledgement_failure \<Rightarrow> json" where
  "acknowledgement_failure_json f = JObj
     [(''acknowledgement_node_id'', JStr (af_acknowledgement_node_id f)),
      (''original_status_code'', jnat (af_original_status_code f)),
      (''effective_status_code'', jnat (af_effective_status_code f)),
      (''injection_sequence'', jnat (af_injection_sequence f))]"

definition customer_summary_json :: "customer_summary \<Rightarrow> json" where
  "customer_summary_json s = JObj
     [(''entered_count'', jnat (cs_entered_count s)),
      (''returned_normally_count'', jnat (cs_returned_normally_count s)),
      (''exception_escaped_count'', jnat (cs_exception_escaped_count s)),
      (''entered_sequences'', jnats (cs_entered_sequences s)),
      (''returned_normally_sequences'', jnats (cs_returned_normally_sequences s)),
      (''exception_escaped_sequences'', jnats (cs_exception_escaped_sequences s)),
      (''request_received_sequences'', jnats (cs_request_received_sequences s)),
      (''response_completed_sequences'', jnats (cs_response_completed_sequences s)),
      (''request_aborted_sequences'', jnats (cs_request_aborted_sequences s)),
      (''http_status_code'', jopt jnat (cs_http_status_code s))]"

definition mutation_summary_json :: "mutation_summary \<Rightarrow> json" where
  "mutation_summary_json s = JObj
     [(''mutation_node_id'', JStr (ms_mutation_node_id s)),
      (''reached_count'', jnat (ms_reached_count s)),
      (''completed_normally_count'', jnat (ms_completed_normally_count s)),
      (''raised_count'', jnat (ms_raised_count s)),
      (''reached_sequences'', jnats (ms_reached_sequences s)),
      (''completed_normally_sequences'', jnats (ms_completed_normally_sequences s)),
      (''raised_sequences'', jnats (ms_raised_sequences s))]"

fun scenario_observation_json :: "scenario_observation \<Rightarrow> json" where
  "scenario_observation_json (CustomerObservation c) = JObj
     [(''request_id'', JStr (ro_request_id c)),
      (''observations'', customer_summary_json (ro_observations c)),
      (''acknowledgement_failure'', jopt acknowledgement_failure_json (ro_acknowledgement_failure c))]"
| "scenario_observation_json (MutationObservation m) = JObj
     [(''request_id'', JStr (mo_request_id m)),
      (''mutation_targets'', JArr (map mutation_summary_json (mo_mutation_targets m))),
      (''request_received_sequences'', jnats (mo_request_received_sequences m)),
      (''response_completed_sequences'', jnats (mo_response_completed_sequences m)),
      (''request_aborted_sequences'', jnats (mo_request_aborted_sequences m)),
      (''http_status_code'', jopt jnat (mo_http_status_code m))]"

record scenario_result =
  sx_schema_version :: nat
  sx_execution_id :: string
  sx_scenario_id :: scenario_id
  sx_scenario_definition_fingerprint :: string
  sx_assertion_id :: string
  sx_authority :: authority_reference
  sx_input_reference :: "input_reference option"
  sx_request_observations :: "scenario_observation list"
  sx_result :: result_state
  sx_evidence_tier :: "evidence_tier option"
  sx_reason :: result_reason
  sx_runtime_diagnostics :: "runtime_reason list"
  sx_result_fingerprint :: string

definition scenario_result_fingerprint_payload :: "scenario_result \<Rightarrow> json" where
  "scenario_result_fingerprint_payload r = JObj
     [(''schema_version'', jnat (sx_schema_version r)),
      (''execution_id'', JStr (sx_execution_id r)),
      (''scenario_id'', JStr (scenario_id_value (sx_scenario_id r))),
      (''scenario_definition_fingerprint'', JStr (sx_scenario_definition_fingerprint r)),
      (''assertion_id'', JStr (sx_assertion_id r)),
      (''authority'', authority_json (sx_authority r)),
      (''input_reference'', jopt input_reference_json (sx_input_reference r)),
      (''request_observations'', JArr (map scenario_observation_json (sx_request_observations r))),
      (''result'', JStr (result_state_value (sx_result r))),
      (''evidence_tier'', jopt (JStr \<circ> evidence_tier_value) (sx_evidence_tier r)),
      (''reason'', JStr (result_reason_value (sx_reason r))),
      (''runtime_diagnostics'', jstrs (map runtime_reason_value (sx_runtime_diagnostics r)))]"

definition verified :: "scenario_result \<Rightarrow> bool" where
  "verified r \<longleftrightarrow> sx_result r = VERIFIED_PASS \<or> sx_result r = VERIFIED_FAIL"

fun customer_of :: "scenario_observation \<Rightarrow> request_observation option" where
  "customer_of (CustomerObservation c) = Some c"
| "customer_of (MutationObservation m) = None"

fun mutation_of :: "scenario_observation \<Rightarrow> mutation_observation option" where
  "mutation_of (CustomerObservation c) = None"
| "mutation_of (MutationObservation m) = Some m"

definition customers_of :: "scenario_result \<Rightarrow> request_observation list" where
  "customers_of r = List.map_filter customer_of (sx_request_observations r)"

definition mutations_of :: "scenario_result \<Rightarrow> mutation_observation list" where
  "mutations_of r = List.map_filter mutation_of (sx_request_observations r)"

definition all_customers :: "scenario_result \<Rightarrow> bool" where
  "all_customers r \<longleftrightarrow> list_all is_customer (sx_request_observations r)"

definition all_mutations :: "scenario_result \<Rightarrow> bool" where
  "all_mutations r \<longleftrightarrow> list_all (\<lambda>o'. \<not> is_customer o') (sx_request_observations r)"

text \<open>Unpacking a generator into the wrong number of names raises.\<close>

definition unpack_error :: "error option" where
  "unpack_error = Some (ValueError ''not enough values to unpack'')"

section \<open>The validator of each scenario\<close>

definition validate_sg01 :: "scenario_result \<Rightarrow> customer_summary list \<Rightarrow> error option" where
  "validate_sg01 r summaries =
     (if verified r \<and> length summaries \<noteq> 1
      then Some (ValueError ''verified SG-01 results require exactly one request'')
      else if sx_result r = VERIFIED_PASS \<and>
        (sx_reason r \<noteq> EXACT_TARGET_ENTERED_ONCE \<or> summaries = [] \<or>
         \<not> normal_first_delivery (hd summaries))
      then Some (ValueError ''verified SG-01 pass must match exact normal lifecycle evidence'')
      else if sx_result r = VERIFIED_FAIL \<and>
        (sx_reason r \<noteq> EXACT_TARGET_ENTERED_MULTIPLE_TIMES \<or> summaries = [] \<or>
         cs_entered_count (hd summaries) \<le> 1 \<or>
         length (cs_request_received_sequences (hd summaries)) \<noteq> 1)
      then Some (ValueError ''verified SG-01 fail requires multiple exact target entries'')
      else None)"

definition sg02_valid_pass :: "customer_summary list \<Rightarrow> bool" where
  "sg02_valid_pass summaries \<longleftrightarrow>
     length summaries = 2 \<and> normal_first_delivery (summaries ! 0) \<and>
     length (cs_request_received_sequences (summaries ! 1)) = 1 \<and>
     cs_entered_count (summaries ! 1) = 0 \<and>
     length (cs_response_completed_sequences (summaries ! 1)) = 1 \<and>
     cs_request_aborted_sequences (summaries ! 1) = []"

definition sg02_attributed_failure :: "result_reason \<Rightarrow> customer_summary list \<Rightarrow> bool" where
  "sg02_attributed_failure why summaries \<longleftrightarrow>
     (why = NORMAL_CONTROL_MULTIPLE_TARGET_ENTRIES \<and> length summaries = 2 \<and>
      length (cs_request_received_sequences (summaries ! 0)) = 1 \<and>
      cs_entered_count (summaries ! 0) > 1) \<or>
     (why = DUPLICATE_DELIVERY_ADDED_TARGET_ENTRY \<and> length summaries = 2 \<and>
      normal_first_delivery (summaries ! 0) \<and>
      length (cs_request_received_sequences (summaries ! 1)) = 1 \<and>
      cs_entered_count (summaries ! 1) > 0)"

definition validate_sg02 :: "scenario_result \<Rightarrow> customer_summary list \<Rightarrow> error option" where
  "validate_sg02 r summaries =
     (if verified r \<and> length summaries \<noteq> 2
      then Some (ValueError ''verified SG-02 results require exactly two requests'')
      else if verified r \<and> list_ex (\<lambda>s. length (cs_request_received_sequences s) \<noteq> 1) summaries
      then Some (ValueError ''verified SG-02 results require both correlated deliveries'')
      else if sx_result r = VERIFIED_PASS \<and>
        (sx_reason r \<noteq> DUPLICATE_DELIVERY_ADDED_NO_TARGET_ENTRY \<or> \<not> sg02_valid_pass summaries)
      then Some (ValueError ''verified SG-02 pass must match the duplicate sequence invariant'')
      else if sx_result r = VERIFIED_FAIL \<and> \<not> sg02_attributed_failure (sx_reason r) summaries
      then Some (ValueError
        ''verified SG-02 fail reason must identify the delivery that added entries'')
      else None)"

definition sg03_injection_exact :: "request_observation \<Rightarrow> request_observation \<Rightarrow> bool" where
  "sg03_injection_exact first retry =
     (let s = ro_observations first
      in case ro_acknowledgement_failure first of
           None \<Rightarrow> False
         | Some injection \<Rightarrow>
             ro_acknowledgement_failure retry = None \<and>
             cs_http_status_code s = Some 503 \<and>
             cs_returned_normally_sequences s \<noteq> [] \<and>
             Max (set (cs_returned_normally_sequences s)) < af_injection_sequence injection \<and>
             cs_response_completed_sequences s \<noteq> [] \<and>
             af_injection_sequence injection < Min (set (cs_response_completed_sequences s)))"

definition sg03_valid_pass :: "result_reason \<Rightarrow> customer_summary \<Rightarrow> customer_summary \<Rightarrow> bool" where
  "sg03_valid_pass why first retry \<longleftrightarrow>
     why = MODELED_RETRY_ADDED_NO_TARGET_ENTRY \<and>
     cs_entered_count first = cs_returned_normally_count first \<and>
     cs_returned_normally_count first = 1 \<and> cs_exception_escaped_count first = 0 \<and>
     cs_entered_count retry = 0 \<and> length (cs_request_received_sequences retry) = 1 \<and>
     length (cs_response_completed_sequences retry) = 1 \<and>
     cs_request_aborted_sequences retry = [] \<and> status_2xx (cs_http_status_code retry)"

definition sg03_attributed_failure ::
  "result_reason \<Rightarrow> customer_summary \<Rightarrow> customer_summary \<Rightarrow> bool" where
  "sg03_attributed_failure why first retry \<longleftrightarrow>
     (why = INITIAL_DELIVERY_MULTIPLE_TARGET_ENTRIES \<and> cs_entered_count first > 1) \<or>
     (why = MODELED_RETRY_ADDED_TARGET_ENTRY \<and>
      cs_entered_count first = cs_returned_normally_count first \<and>
      cs_returned_normally_count first = 1 \<and> cs_exception_escaped_count first = 0 \<and>
      cs_entered_count retry > 0)"

definition validate_sg03 :: "scenario_result \<Rightarrow> error option" where
  "validate_sg03 r =
     (if (verified r \<or> sx_request_observations r \<noteq> []) \<and>
         au_normal_control_id (sx_authority r) = None
      then Some (ValueError ''SG-03 requires exact customer-control authority'')
      else if \<not> all_customers r
      then Some (ValueError ''SG-03 requires exact customer-control observations'')
      else if verified r \<and>
        (length (customers_of r) \<noteq> 2 \<or> \<not> input_is is_scenario_input (sx_input_reference r))
      then Some (ValueError ''verified SG-03 requires exact two-delivery authority'')
      else if \<not> verified r \<or> length (customers_of r) \<noteq> 2 then None
      else let first = customers_of r ! 0; retry = customers_of r ! 1
        in if \<not> sg03_injection_exact first retry
           then Some (ValueError
             ''verified SG-03 requires exact post-processing acknowledgement injection'')
           else if sx_result r = VERIFIED_PASS \<and>
             \<not> sg03_valid_pass (sx_reason r) (ro_observations first) (ro_observations retry)
           then Some (ValueError ''verified SG-03 pass must match the modeled retry invariant'')
           else if sx_result r = VERIFIED_FAIL \<and>
             \<not> sg03_attributed_failure (sx_reason r) (ro_observations first) (ro_observations retry)
           then Some (ValueError ''verified SG-03 failure must retain exact delivery attribution'')
           else None)"

text \<open>\<open>all(...)\<close> over the targets that nothing was observed, or that every reach completed.\<close>

definition untouched :: "mutation_observation \<Rightarrow> bool" where
  "untouched m \<longleftrightarrow>
     list_all (\<lambda>t. ms_reached_count t = 0 \<and> ms_completed_normally_count t = 0 \<and> ms_raised_count t = 0)
       (mo_mutation_targets m)"

definition completed_somewhere :: "mutation_observation \<Rightarrow> bool" where
  "completed_somewhere m \<longleftrightarrow> list_ex (\<lambda>t. ms_completed_normally_count t > 0) (mo_mutation_targets m)"

definition completed_every_reach :: "mutation_observation \<Rightarrow> bool" where
  "completed_every_reach m \<longleftrightarrow>
     list_all (\<lambda>t. ms_reached_count t \<ge> 1 \<and> ms_completed_normally_count t = ms_reached_count t \<and>
                   ms_raised_count t = 0) (mo_mutation_targets m)"

definition validate_sg05_customer ::
  "scenario_result \<Rightarrow> customer_summary \<Rightarrow> customer_summary \<Rightarrow> error option" where
  "validate_sg05_customer r rejected control =
     (let received = (length (cs_request_received_sequences rejected) = 1);
          completed = (received \<and> cs_entered_count rejected = 0 \<and>
            cs_returned_normally_count rejected = 0 \<and> cs_exception_escaped_count rejected = 0 \<and>
            length (cs_response_completed_sequences rejected) = 1 \<and>
            cs_request_aborted_sequences rejected = [])
      in if sx_result r = VERIFIED_FAIL
         then (if sx_reason r \<noteq> REJECTED_SIGNATURE_ADDED_CUSTOMER_TARGET_ENTRY \<or> \<not> received \<or>
                  cs_entered_count rejected = 0
               then Some (ValueError ''verified SG-05 customer fail requires rejected-request entry'')
               else None)
         else if sx_result r = VERIFIED_PASS
         then (if sx_reason r \<noteq> REJECTED_SIGNATURE_ADDED_NO_CUSTOMER_TARGET_ENTRY \<or>
                  \<not> completed \<or> \<not> normal_first_delivery control
               then Some (ValueError ''verified SG-05 customer pass requires differential control'')
               else None)
         else None)"

definition validate_sg05_mutation ::
  "scenario_result \<Rightarrow> mutation_observation \<Rightarrow> mutation_observation \<Rightarrow> error option" where
  "validate_sg05_mutation r rejected control =
     (if map ms_mutation_node_id (mo_mutation_targets rejected) \<noteq>
         map ms_mutation_node_id (mo_mutation_targets control)
      then Some (ValueError ''SG-05 mutation observations must retain exact ordered targets'')
      else if sx_result r = VERIFIED_FAIL
      then (if sx_reason r \<noteq> REJECTED_SIGNATURE_COMPLETED_MUTATION \<or>
               length (mo_request_received_sequences rejected) \<noteq> 1 \<or> \<not> completed_somewhere rejected
            then Some (ValueError ''verified SG-05 mutation fail requires exact completion'')
            else None)
      else let rejected_clean = (length (mo_request_received_sequences rejected) = 1 \<and>
                 untouched rejected \<and> length (mo_response_completed_sequences rejected) = 1 \<and>
                 mo_request_aborted_sequences rejected = []);
               control_normal = (length (mo_request_received_sequences control) = 1 \<and>
                 length (mo_response_completed_sequences control) = 1 \<and>
                 mo_request_aborted_sequences control = [] \<and>
                 status_2xx (mo_http_status_code control) \<and> completed_every_reach control)
           in if sx_reason r \<noteq> REJECTED_SIGNATURE_ADDED_NO_MUTATION \<or> \<not> rejected_clean \<or>
                 \<not> control_normal
              then Some (ValueError ''verified SG-05 mutation pass requires differential control'')
              else None)"

definition validate_sg05 :: "scenario_result \<Rightarrow> error option" where
  "validate_sg05 r =
     (if verified r \<and> length (sx_request_observations r) \<noteq> 2
      then Some (ValueError ''verified SG-05 results require rejected and control requests'')
      else if \<not> verified r \<or> sx_request_observations r = [] then None
      else if all_customers r = all_mutations r
      then Some (ValueError
        ''verified SG-05 result must carry one exact assertion observation type'')
      else if all_customers r
      then (if au_normal_control_id (sx_authority r) = None
            then Some (ValueError ''verified SG-05 customer result requires a normal control'')
            else case map ro_observations (customers_of r) of
                   [rejected, control] \<Rightarrow> validate_sg05_customer r rejected control
                 | _ \<Rightarrow> unpack_error)
      else if au_normal_control_id (sx_authority r) \<noteq> None
      then Some (ValueError ''verified SG-05 mutation result cannot borrow a normal control'')
      else case mutations_of r of
             [rejected, control] \<Rightarrow> validate_sg05_mutation r rejected control
           | _ \<Rightarrow> unpack_error)"

definition validate_sg04_customer ::
  "scenario_result \<Rightarrow> customer_summary \<Rightarrow> customer_summary \<Rightarrow> error option" where
  "validate_sg04_customer r first second =
     (if sx_result r = VERIFIED_PASS \<and>
        \<not> (sx_reason r = STALE_AUTHORIZED_ADDED_NO_TARGET_ENTRY \<and> normal_first_delivery first \<and>
           length (cs_request_received_sequences second) = 1 \<and> cs_entered_count second = 0 \<and>
           length (cs_response_completed_sequences second) = 1 \<and>
           cs_request_aborted_sequences second = [])
      then Some (ValueError ''verified SG-04 pass must prove the stale event added no value'')
      else if sx_result r = VERIFIED_FAIL \<and>
        \<not> ((sx_reason r = OUT_OF_ORDER_CONTROL_MULTIPLE_TARGET_ENTRIES \<and> cs_entered_count first > 1) \<or>
           (sx_reason r = STALE_AUTHORIZED_ADDED_TARGET_ENTRY \<and> normal_first_delivery first \<and>
            cs_entered_count second > 0))
      then Some (ValueError ''verified SG-04 fail must retain delivery attribution'')
      else None)"

definition validate_sg04_mutation ::
  "scenario_result \<Rightarrow> mutation_observation \<Rightarrow> mutation_observation \<Rightarrow> error option" where
  "validate_sg04_mutation r first second =
     (if sx_result r = VERIFIED_FAIL \<and>
        \<not> (sx_reason r = MERCHANT_STATE_REGRESSED_TO_AUTHORIZED \<and> completed_somewhere second)
      then Some (ValueError ''verified SG-04 regression requires a completed stale transition'')
      else if sx_result r = VERIFIED_PASS \<and>
        \<not> (sx_reason r = MERCHANT_STATE_DID_NOT_REGRESS \<and> completed_somewhere first \<and>
           untouched second)
      then Some (ValueError ''verified SG-04 state pass requires a differential control'')
      else None)"

definition validate_sg04 :: "scenario_result \<Rightarrow> error option" where
  "validate_sg04 r =
     (if verified r \<and>
        (length (sx_request_observations r) \<noteq> 2 \<or>
         \<not> input_is is_webhook_sequence (sx_input_reference r) \<or>
         au_normal_control_id (sx_authority r) = None)
      then Some (ValueError ''verified SG-04 requires exact two-request sequence authority'')
      else if \<not> verified r \<or> sx_request_observations r = [] then None
      else if all_customers r = all_mutations r
      then Some (ValueError ''verified SG-04 requires one assertion observation type'')
      else if all_customers r
      then (case map ro_observations (customers_of r) of
              [first, second] \<Rightarrow> validate_sg04_customer r first second
            | _ \<Rightarrow> unpack_error)
      else case mutations_of r of
             [first, second] \<Rightarrow> validate_sg04_mutation r first second
           | _ \<Rightarrow> unpack_error)"

definition validate_sg06_customer ::
  "scenario_result \<Rightarrow> customer_summary \<Rightarrow> customer_summary \<Rightarrow> error option" where
  "validate_sg06_customer r tampered control =
     (if sx_result r = VERIFIED_FAIL \<and>
        \<not> (sx_reason r = TAMPERED_CALLBACK_ADDED_CUSTOMER_TARGET_ENTRY \<and>
           cs_entered_count tampered > 0)
      then Some (ValueError ''verified SG-06 fail requires tampered-request entry'')
      else if sx_result r = VERIFIED_PASS \<and>
        \<not> (sx_reason r = TAMPERED_CALLBACK_ADDED_NO_CUSTOMER_TARGET_ENTRY \<and>
           cs_entered_count tampered = 0 \<and>
           length (cs_response_completed_sequences tampered) = 1 \<and> normal_first_delivery control)
      then Some (ValueError ''verified SG-06 pass requires a valid differential control'')
      else None)"

definition validate_sg06_mutation ::
  "scenario_result \<Rightarrow> mutation_observation \<Rightarrow> mutation_observation \<Rightarrow> error option" where
  "validate_sg06_mutation r tampered control =
     (if sx_result r = VERIFIED_FAIL \<and>
        \<not> (sx_reason r = TAMPERED_CALLBACK_COMPLETED_MUTATION \<and> completed_somewhere tampered)
      then Some (ValueError ''verified SG-06 mutation fail requires exact completion'')
      else if sx_result r = VERIFIED_PASS \<and>
        \<not> (sx_reason r = TAMPERED_CALLBACK_ADDED_NO_MUTATION \<and> untouched tampered \<and>
           completed_every_reach control)
      then Some (ValueError ''verified SG-06 mutation pass requires a valid control'')
      else None)"

definition validate_sg06 :: "scenario_result \<Rightarrow> error option" where
  "validate_sg06 r =
     (if verified r \<and>
        (length (sx_request_observations r) \<noteq> 2 \<or>
         \<not> input_is is_checkout_sequence (sx_input_reference r))
      then Some (ValueError ''verified SG-06 requires tampered/control sequence authority'')
      else if \<not> verified r \<or> sx_request_observations r = [] then None
      else if all_customers r = all_mutations r
      then Some (ValueError ''verified SG-06 requires one assertion observation type'')
      else if all_customers r
      then (if au_normal_control_id (sx_authority r) = None
            then Some (ValueError ''verified SG-06 customer result requires exact control'')
            else case map ro_observations (customers_of r) of
                   [tampered, control] \<Rightarrow> validate_sg06_customer r tampered control
                 | _ \<Rightarrow> unpack_error)
      else case mutations_of r of
             [tampered, control] \<Rightarrow> validate_sg06_mutation r tampered control
           | _ \<Rightarrow> unpack_error)"

definition validate_sg07 :: "scenario_result \<Rightarrow> error option" where
  "validate_sg07 r =
     (if verified r \<and>
        (length (sx_request_observations r) \<noteq> 1 \<or>
         \<not> input_is is_scenario_input (sx_input_reference r) \<or>
         au_normal_control_id (sx_authority r) = None)
      then Some (ValueError ''verified SG-07 requires one exact webhook request'')
      else if \<not> verified r \<or> sx_request_observations r = [] then None
      else if \<not> all_customers r
      then Some (ValueError ''SG-07 requires customer-value observations'')
      else case map ro_observations (customers_of r) of
             [] \<Rightarrow> Some StopIteration
           | summary # rest \<Rightarrow>
               if sx_result r = VERIFIED_PASS \<and>
                 \<not> (sx_reason r = WEBHOOK_ONLY_TARGET_ENTERED_ONCE \<and> normal_first_delivery summary)
               then Some (ValueError ''verified SG-07 pass requires one normal webhook-only outcome'')
               else if sx_result r = VERIFIED_FAIL \<and>
                 \<not> (sx_reason r = WEBHOOK_ONLY_TARGET_ENTERED_MULTIPLE_TIMES \<and>
                    cs_entered_count summary > 1)
               then Some (ValueError ''verified SG-07 fail requires multiple exact entries'')
               else None)"

definition validate_sg08_pass ::
  "result_reason \<Rightarrow> customer_summary \<Rightarrow> customer_summary list \<Rightarrow> error option" where
  "validate_sg08_pass why authorized rest =
     (case rest of
        [captured] \<Rightarrow>
          if \<not> (cs_entered_count authorized = 0 \<and> captured_once captured \<and>
                why \<in> {AUTHORIZED_ADDED_NO_TARGET_ENTRY, CAPTURED_THRESHOLD_TARGET_ENTERED_ONCE})
          then Some (ValueError ''verified SG-08 pass requires the captured differential control'')
          else None
      | _ \<Rightarrow> Some (ValueError ''verified SG-08 pass requires the captured differential control''))"

definition validate_sg08_fail ::
  "result_reason \<Rightarrow> customer_summary \<Rightarrow> customer_summary list \<Rightarrow> error option" where
  "validate_sg08_fail why authorized rest =
     (if \<not> ((why = AUTHORIZED_EXECUTED_BEFORE_CAPTURE \<and> cs_entered_count authorized > 0) \<or>
            (why = CAPTURED_THRESHOLD_MULTIPLE_TARGET_ENTRIES \<and> length rest = 1 \<and>
             cs_entered_count (hd rest) > 1))
      then Some (ValueError ''verified SG-08 fail must retain authorization/capture attribution'')
      else None)"

definition validate_sg08 :: "scenario_result \<Rightarrow> error option" where
  "validate_sg08 r =
     (if (verified r \<or> sx_request_observations r \<noteq> []) \<and>
         au_normal_control_id (sx_authority r) = None
      then Some (ValueError ''SG-08 requires exact customer-control authority'')
      else if \<not> all_customers r
      then Some (ValueError ''SG-08 requires customer-value observations'')
      else if \<not> verified r then None
      else case sx_input_reference r of
             Some (LateAuthorisationInput l) \<Rightarrow>
               if lp_fulfilment (li_policy l) \<noteq> CAPTURE_REQUIRED
               then Some (ValueError
                 ''authorized-allowed late assertions require merchant late-context authority'')
               else let summaries = map ro_observations (customers_of r);
                        expected_count = (if length (li_events l) = 2 then 2 else 1)
                 in if length summaries \<noteq> expected_count
                    then Some (ValueError
                      ''verified SG-08 observations must match the policy input sequence'')
                    else if sx_result r = VERIFIED_FAIL
                    then validate_sg08_fail (sx_reason r) (hd summaries) (tl summaries)
                    else validate_sg08_pass (sx_reason r) (hd summaries) (tl summaries)
           | _ \<Rightarrow> Some (ValueError
               ''verified SG-08 requires modeled late-authorisation input authority''))"

section \<open>The validator of the artifact\<close>

definition validate_customer_only ::
  "string \<Rightarrow> (scenario_result \<Rightarrow> customer_summary list \<Rightarrow> error option) \<Rightarrow> scenario_result \<Rightarrow>
   error option" where
  "validate_customer_only name validate r =
     (if (verified r \<or> sx_request_observations r \<noteq> []) \<and>
         au_normal_control_id (sx_authority r) = None
      then Some (ValueError (name @ '' requires exact customer-control authority''))
      else if \<not> all_customers r
      then Some (ValueError (name @ '' requires exact customer-control observations''))
      else validate r (map ro_observations (customers_of r)))"

fun validate_by_scenario :: "scenario_id \<Rightarrow> scenario_result \<Rightarrow> error option" where
  "validate_by_scenario SG_01 r = validate_customer_only ''SG-01'' validate_sg01 r"
| "validate_by_scenario SG_02 r = validate_customer_only ''SG-02'' validate_sg02 r"
| "validate_by_scenario SG_03 r = validate_sg03 r"
| "validate_by_scenario SG_04 r = validate_sg04 r"
| "validate_by_scenario SG_05 r = validate_sg05 r"
| "validate_by_scenario SG_06 r = validate_sg06 r"
| "validate_by_scenario SG_07 r = validate_sg07 r"
| "validate_by_scenario SG_08 r = validate_sg08 r"

definition observation_ids :: "scenario_result \<Rightarrow> string list" where
  "observation_ids r = map observation_request_id (sx_request_observations r)"

definition carries_acknowledgement_failure :: "scenario_result \<Rightarrow> bool" where
  "carries_acknowledgement_failure r \<longleftrightarrow>
     list_ex (\<lambda>c. ro_acknowledgement_failure c \<noteq> None) (customers_of r)"

definition validate_result :: "scenario_result \<Rightarrow> error option" where
  "validate_result r =
     (let auth = sx_authority r
      in if verified r \<noteq> (sx_evidence_tier r = Some E3_DYNAMIC_VERIFIED)
         then Some (ValueError ''only verified offline scenario results may carry E3'')
         else if sx_evidence_tier r = Some E4_RAZORPAY_GROUNDED
         then Some (ValueError ''offline scenario execution cannot carry E4'')
         else if input_is is_grounded_input (sx_input_reference r) \<and>
           (sx_schema_version r \<noteq> 3 \<or> sx_scenario_id r \<noteq> SG_01)
         then Some (ValueError
           ''resource-grounded synthetic input is valid only for SG-01 schema v3'')
         else if observation_ids r \<noteq>
           take (length (observation_ids r)) (au_runtime_request_ids auth)
         then Some (ValueError
           ''ordered request observations must match runtime request authority'')
         else if sx_request_observations r \<noteq> [] \<and> sx_input_reference r = None
         then Some (ValueError ''request observations require one shared event input reference'')
         else if verified r \<and>
           (au_runtime_capability_fingerprint auth = None \<or> au_runtime_session_id auth = None \<or>
            au_transcript_fingerprint auth = None \<or> sx_input_reference r = None \<or>
            observation_ids r \<noteq> au_runtime_request_ids auth)
         then Some (ValueError ''verified results require complete dynamic authority'')
         else if sx_scenario_id r \<noteq> SG_03 \<and> carries_acknowledgement_failure r
         then Some (ValueError ''acknowledgement failure evidence is valid only for SG-03'')
         else case validate_by_scenario (sx_scenario_id r) r of
                Some e \<Rightarrow> Some e
              | None \<Rightarrow>
                  if sx_result_fingerprint r \<noteq> fingerprint_json (scenario_result_fingerprint_payload r)
                  then Some (ValueError ''scenario result fingerprint must match artifact contents'')
                  else None)"

text \<open>
  \<open>_make_result\<close> of \<open>application/failure_lab.py\<close>: the diagnostics are deduplicated and sorted
  by their values, the fingerprint is computed, and the artifact is validated.
\<close>

definition sorted_diagnostics :: "runtime_reason list \<Rightarrow> runtime_reason list" where
  "sorted_diagnostics ds = sort_key runtime_reason_value (remdups ds)"

definition make_result ::
  "string \<Rightarrow> scenario_id \<Rightarrow> string \<Rightarrow> string \<Rightarrow> authority_reference \<Rightarrow> verdict \<Rightarrow>
   input_reference option \<Rightarrow> scenario_observation list \<Rightarrow> runtime_reason list \<Rightarrow>
   scenario_result result" where
  "make_result execution sid definition_fp assertion auth v input observations diagnostics =
     (case v of (outcome, tier, why) \<Rightarrow>
        let draft = \<lparr>sx_schema_version = 3, sx_execution_id = execution, sx_scenario_id = sid,
              sx_scenario_definition_fingerprint = definition_fp, sx_assertion_id = assertion,
              sx_authority = auth, sx_input_reference = input,
              sx_request_observations = observations, sx_result = outcome,
              sx_evidence_tier = tier, sx_reason = why,
              sx_runtime_diagnostics = sorted_diagnostics diagnostics,
              sx_result_fingerprint = []\<rparr>;
            artifact = draft\<lparr>sx_result_fingerprint :=
              fingerprint_json (scenario_result_fingerprint_payload draft)\<rparr>
        in case validate_result artifact of Some e \<Rightarrow> Inl e | None \<Rightarrow> Inr artifact)"

section \<open>When the validator accepts\<close>

text \<open>
  What the execution layer supplies around a verdict: a tier that fits it and, for a decided
  verdict, a complete authority over exactly the observed requests.
\<close>

definition complete_authority :: "scenario_result \<Rightarrow> bool" where
  "complete_authority r \<longleftrightarrow>
     well_tiered (sx_result r, sx_evidence_tier r, sx_reason r) \<and>
     au_runtime_capability_fingerprint (sx_authority r) \<noteq> None \<and>
     au_runtime_session_id (sx_authority r) \<noteq> None \<and>
     au_transcript_fingerprint (sx_authority r) \<noteq> None \<and>
     sx_input_reference r \<noteq> None \<and>
     (input_is is_grounded_input (sx_input_reference r) \<longrightarrow>
        sx_schema_version r = 3 \<and> sx_scenario_id r = SG_01) \<and>
     observation_ids r = au_runtime_request_ids (sx_authority r) \<and>
     (sx_scenario_id r \<noteq> SG_03 \<longrightarrow> \<not> carries_acknowledgement_failure r) \<and>
     sx_result_fingerprint r = fingerprint_json (scenario_result_fingerprint_payload r)"

lemma validate_result_complete:
  assumes "complete_authority r"
  shows "validate_result r = validate_by_scenario (sx_scenario_id r) r"
proof -
  note ca = assms[unfolded complete_authority_def]
  have tier: "verified r = (sx_evidence_tier r = Some E3_DYNAMIC_VERIFIED)"
    "sx_evidence_tier r \<noteq> Some E4_RAZORPAY_GROUNDED"
    using ca by (auto simp: well_tiered_def verified_def)
  have grounded: "\<not> (input_is is_grounded_input (sx_input_reference r) \<and>
      (sx_schema_version r \<noteq> 3 \<or> sx_scenario_id r \<noteq> SG_01))"
    and ack: "\<not> (sx_scenario_id r \<noteq> SG_03 \<and> carries_acknowledgement_failure r)"
    using ca by blast+
  have ids: "observation_ids r = au_runtime_request_ids (sx_authority r)"
    and present: "au_runtime_capability_fingerprint (sx_authority r) \<noteq> None"
      "au_runtime_session_id (sx_authority r) \<noteq> None" "au_transcript_fingerprint (sx_authority r) \<noteq> None"
      "sx_input_reference r \<noteq> None"
    and fp: "sx_result_fingerprint r = fingerprint_json (scenario_result_fingerprint_payload r)"
    using ca by blast+
  show ?thesis
    unfolding validate_result_def Let_def
    by (simp only: tier grounded ack ids present fp take_all order.refl simp_thms if_False)
      (simp add: option.case_eq_if)
qed

lemma customer_pair [simp]:
  "sx_request_observations r = [CustomerObservation a, CustomerObservation b] \<Longrightarrow>
     customers_of r = [a, b] \<and> all_customers r \<and> \<not> all_mutations r"
  by (simp add: customers_of_def all_customers_def all_mutations_def map_filter_simps)

lemma customer_single [simp]:
  "sx_request_observations r = [CustomerObservation a] \<Longrightarrow>
     customers_of r = [a] \<and> all_customers r \<and> \<not> all_mutations r"
  by (simp add: customers_of_def all_customers_def all_mutations_def map_filter_simps)

lemma mutation_pair [simp]:
  "sx_request_observations r = [MutationObservation a, MutationObservation b] \<Longrightarrow>
     mutations_of r = [a, b] \<and> all_mutations r \<and> \<not> all_customers r"
  by (simp add: mutations_of_def all_customers_def all_mutations_def map_filter_simps)

end
