(* ===== verification/Evidence.thy ===== *)
theory Evidence
  imports EvidenceCatalog ScenarioResult
begin

text \<open>
  The immutable verification run of \<open>evidence/contracts.py\<close> with the grounding records of
  \<open>grounding/contracts.py\<close> it embeds: the authority snapshots, the check record and its
  validator, the stable check key, the findings and the summary derived from the checks, and
  the validator of the run.  Timestamps carry the two texts under which they enter a
  fingerprint.
\<close>

section \<open>Vocabulary\<close>

datatype grounding_status =
    GROUNDING_GROUNDED
  | GROUNDING_UNAVAILABLE

fun grounding_status_value :: "grounding_status \<Rightarrow> string" where
  "grounding_status_value GROUNDING_GROUNDED = ''GROUNDED''"
| "grounding_status_value GROUNDING_UNAVAILABLE = ''UNAVAILABLE''"

datatype grounding_reason =
    GR_MISSING_ENVIRONMENT
  | GR_LIVE_CREDENTIAL_REJECTED
  | GR_INVALID_TEST_CREDENTIAL
  | GR_INVALID_PAYMENT_REFERENCE
  | GR_REQUEST_REJECTED
  | GR_AUTHENTICATION_FAILED
  | GR_RESOURCE_NOT_FOUND
  | GR_RATE_LIMITED
  | GR_PROVIDER_FAILED
  | GR_NETWORK_FAILED
  | GR_TIMEOUT
  | GR_RESPONSE_TOO_LARGE
  | GR_MALFORMED_RESPONSE
  | GR_RESOURCE_INELIGIBLE

fun grounding_reason_value :: "grounding_reason \<Rightarrow> string" where
  "grounding_reason_value GR_MISSING_ENVIRONMENT = ''MISSING_ENVIRONMENT''"
| "grounding_reason_value GR_LIVE_CREDENTIAL_REJECTED = ''LIVE_CREDENTIAL_REJECTED''"
| "grounding_reason_value GR_INVALID_TEST_CREDENTIAL = ''INVALID_TEST_CREDENTIAL''"
| "grounding_reason_value GR_INVALID_PAYMENT_REFERENCE = ''INVALID_PAYMENT_REFERENCE''"
| "grounding_reason_value GR_REQUEST_REJECTED = ''REQUEST_REJECTED''"
| "grounding_reason_value GR_AUTHENTICATION_FAILED = ''AUTHENTICATION_FAILED''"
| "grounding_reason_value GR_RESOURCE_NOT_FOUND = ''RESOURCE_NOT_FOUND''"
| "grounding_reason_value GR_RATE_LIMITED = ''RATE_LIMITED''"
| "grounding_reason_value GR_PROVIDER_FAILED = ''PROVIDER_FAILED''"
| "grounding_reason_value GR_NETWORK_FAILED = ''NETWORK_FAILED''"
| "grounding_reason_value GR_TIMEOUT = ''TIMEOUT''"
| "grounding_reason_value GR_RESPONSE_TOO_LARGE = ''RESPONSE_TOO_LARGE''"
| "grounding_reason_value GR_MALFORMED_RESPONSE = ''MALFORMED_RESPONSE''"
| "grounding_reason_value GR_RESOURCE_INELIGIBLE = ''RESOURCE_INELIGIBLE''"

datatype endpoint_kind =
    FETCH_PAYMENT
  | FETCH_LINKED_ORDER

fun endpoint_kind_value :: "endpoint_kind \<Rightarrow> string" where
  "endpoint_kind_value FETCH_PAYMENT = ''FETCH_PAYMENT''"
| "endpoint_kind_value FETCH_LINKED_ORDER = ''FETCH_LINKED_ORDER''"

datatype resolution_state =
    RESOLUTION_UNIQUE
  | RESOLUTION_AMBIGUOUS
  | RESOLUTION_UNMAPPED

fun resolution_state_value :: "resolution_state \<Rightarrow> string" where
  "resolution_state_value RESOLUTION_UNIQUE = ''UNIQUE''"
| "resolution_state_value RESOLUTION_AMBIGUOUS = ''AMBIGUOUS''"
| "resolution_state_value RESOLUTION_UNMAPPED = ''UNMAPPED''"

datatype resolution_basis =
    BASIS_MODEL_UNIQUE
  | BASIS_HUMAN_CONFIRMED
  | BASIS_MANUAL_SELECTION
  | BASIS_UNRESOLVED

fun resolution_basis_value :: "resolution_basis \<Rightarrow> string" where
  "resolution_basis_value BASIS_MODEL_UNIQUE = ''MODEL_UNIQUE''"
| "resolution_basis_value BASIS_HUMAN_CONFIRMED = ''HUMAN_CONFIRMED''"
| "resolution_basis_value BASIS_MANUAL_SELECTION = ''MANUAL_SELECTION''"
| "resolution_basis_value BASIS_UNRESOLVED = ''UNRESOLVED''"

datatype finding_kind =
    KIND_VERIFIED_FAILURE
  | KIND_STATIC_WARNING
  | KIND_RESOLUTION_REQUIRED
  | KIND_VERIFICATION_COVERAGE

fun finding_kind_value :: "finding_kind \<Rightarrow> string" where
  "finding_kind_value KIND_VERIFIED_FAILURE = ''VERIFIED_FAILURE''"
| "finding_kind_value KIND_STATIC_WARNING = ''STATIC_WARNING''"
| "finding_kind_value KIND_RESOLUTION_REQUIRED = ''RESOLUTION_REQUIRED''"
| "finding_kind_value KIND_VERIFICATION_COVERAGE = ''VERIFICATION_COVERAGE''"

record stamp = datetime +
  dt_json :: string

definition require_run_timezone :: "stamp \<Rightarrow> error option" where
  "require_run_timezone value =
     (if dt_aware value then None
      else Some (ValueError ''verification-run timestamps must be timezone-aware''))"

section \<open>Grounding\<close>

record grounding_snapshot =
  gs_status :: grounding_status
  gs_unavailable_reason :: "grounding_reason option"
  gs_run_id :: string
  gs_acquired_at :: stamp
  gs_source_endpoint_kinds :: "endpoint_kind list"
  gs_key_id_fingerprint :: "string option"
  gs_payment_id_fingerprint :: "string option"
  gs_order_id_fingerprint :: "string option"
  gs_resource_snapshot_fingerprint :: "string option"
  gs_sanitized_projection_fingerprint :: "string option"
  gs_payment_captured :: bool
  gs_order_paid :: bool
  gs_linkage_consistent :: bool
  gs_amount_consistent :: bool
  gs_currency_consistent :: bool
  gs_no_current_refund :: bool
  gs_grounding_fingerprint :: string

definition grounding_fields :: "grounding_snapshot \<Rightarrow> (string \<times> json) list" where
  "grounding_fields g =
     [(''schema_version'', JInt 1), (''mode'', JStr ''TEST''),
      (''status'', JStr (grounding_status_value (gs_status g))),
      (''unavailable_reason'', jopt (JStr \<circ> grounding_reason_value) (gs_unavailable_reason g)),
      (''run_id'', JStr (gs_run_id g)), (''acquired_at'', JStr (dt_json (gs_acquired_at g))),
      (''source_endpoint_kinds'', jstrs (map endpoint_kind_value (gs_source_endpoint_kinds g))),
      (''key_id_fingerprint'', jopt JStr (gs_key_id_fingerprint g)),
      (''payment_id_fingerprint'', jopt JStr (gs_payment_id_fingerprint g)),
      (''order_id_fingerprint'', jopt JStr (gs_order_id_fingerprint g)),
      (''resource_snapshot_fingerprint'', jopt JStr (gs_resource_snapshot_fingerprint g)),
      (''sanitized_projection_fingerprint'', jopt JStr (gs_sanitized_projection_fingerprint g)),
      (''payment_captured'', JBool (gs_payment_captured g)),
      (''order_paid'', JBool (gs_order_paid g)),
      (''linkage_consistent'', JBool (gs_linkage_consistent g)),
      (''amount_consistent'', JBool (gs_amount_consistent g)),
      (''currency_consistent'', JBool (gs_currency_consistent g)),
      (''no_current_refund'', JBool (gs_no_current_refund g))]"

definition grounding_fingerprints :: "grounding_snapshot \<Rightarrow> string option list" where
  "grounding_fingerprints g =
     [gs_key_id_fingerprint g, gs_payment_id_fingerprint g, gs_order_id_fingerprint g,
      gs_resource_snapshot_fingerprint g, gs_sanitized_projection_fingerprint g]"

definition grounding_consistency :: "grounding_snapshot \<Rightarrow> bool list" where
  "grounding_consistency g =
     [gs_payment_captured g, gs_order_paid g, gs_linkage_consistent g, gs_amount_consistent g,
      gs_currency_consistent g, gs_no_current_refund g]"

definition validate_grounding :: "grounding_snapshot \<Rightarrow> error option" where
  "validate_grounding g =
     (if \<not> dt_aware (gs_acquired_at g)
      then Some (ValueError ''grounding acquisition timestamp must be timezone-aware'')
      else if \<not> distinct (gs_source_endpoint_kinds g)
      then Some (ValueError ''grounding endpoint kinds must be unique and ordered'')
      else if gs_status g = GROUNDING_GROUNDED \<and>
        (gs_unavailable_reason g \<noteq> None \<or>
         gs_source_endpoint_kinds g \<noteq> [FETCH_PAYMENT, FETCH_LINKED_ORDER] \<or>
         list_ex (\<lambda>f. f = None) (grounding_fingerprints g) \<or>
         \<not> list_all (\<lambda>b. b) (grounding_consistency g))
      then Some (ValueError ''grounded evidence requires the complete eligible resource pair'')
      else if gs_status g \<noteq> GROUNDING_GROUNDED \<and>
        (gs_unavailable_reason g = None \<or>
         list_ex (\<lambda>f. f \<noteq> None) (grounding_fingerprints g) \<or>
         list_ex (\<lambda>b. b) (grounding_consistency g))
      then Some (ValueError ''unavailable grounding may retain only bounded attempt diagnostics'')
      else if gs_grounding_fingerprint g \<noteq> fingerprint_json (JObj (grounding_fields g))
      then Some (ValueError ''grounding fingerprint must match the safe snapshot'')
      else None)"

definition grounding_json :: "grounding_snapshot \<Rightarrow> json" where
  "grounding_json g = JObj (grounding_fields g @
     [(''grounding_fingerprint'', JStr (gs_grounding_fingerprint g))])"

record check_grounding =
  cg_grounding_fingerprint :: string
  cg_sanitized_projection_fingerprint :: string

definition check_grounding_json :: "check_grounding \<Rightarrow> json" where
  "check_grounding_json c = JObj
     [(''schema_version'', JInt 1), (''label'', JStr ''TEST MODE RESOURCE PROFILE GROUNDED''),
      (''grounding_fingerprint'', JStr (cg_grounding_fingerprint c)),
      (''sanitized_projection_fingerprint'', JStr (cg_sanitized_projection_fingerprint c))]"

section \<open>Authority snapshots\<close>

record schema_versions =
  sv_scenario_execution_result :: nat
  sv_razorpay_grounding :: "nat option"

definition schema_versions_json :: "schema_versions \<Rightarrow> (string \<times> json) list" where
  "schema_versions_json v =
     [(''source_index'', JInt 2), (''structural_graph'', JInt 2), (''projected_graph'', JInt 2),
      (''semantics'', JInt 2), (''applicability'', JInt 2), (''runtime_capability'', JInt 1),
      (''scenario_execution_result'', jnat (sv_scenario_execution_result v)),
      (''razorpay_rule_catalog'', JInt 1)]"

record semantic_provenance =
  sp_kind :: provenance_kind
  sp_source_location :: "source_location option"
  sp_supporting_fingerprint :: "string option"

record semantic_authority =
  sa_state :: "resolution_state option"
  sa_basis :: "resolution_basis option"
  sa_selected_symbol_id :: "string option"
  sa_resolution_fingerprint :: "string option"
  sa_semantic_context_fingerprint :: "string option"
  sa_selected_target_provenance :: "semantic_provenance list"

definition validate_resolution :: "semantic_authority \<Rightarrow> error option" where
  "validate_resolution s =
     (if sa_state s = Some RESOLUTION_UNIQUE
      then (if sa_basis s = None \<or> sa_basis s = Some BASIS_UNRESOLVED \<or>
               sa_selected_symbol_id s = None \<or> sa_resolution_fingerprint s = None
            then Some (ValueError ''unique semantic authority requires selected resolved evidence'')
            else None)
      else if sa_selected_symbol_id s \<noteq> None
      then Some (ValueError ''unresolved semantic authority cannot select a target'')
      else None)"

definition semantic_provenance_json :: "semantic_provenance \<Rightarrow> json" where
  "semantic_provenance_json p = JObj
     [(''kind'', JStr (provenance_kind_value (sp_kind p))),
      (''source_location'', jopt source_location_json (sp_source_location p)),
      (''supporting_fingerprint'', jopt JStr (sp_supporting_fingerprint p))]"

definition semantic_authority_json :: "semantic_authority \<Rightarrow> json" where
  "semantic_authority_json s = JObj
     [(''state'', jopt (JStr \<circ> resolution_state_value) (sa_state s)),
      (''basis'', jopt (JStr \<circ> resolution_basis_value) (sa_basis s)),
      (''selected_symbol_id'', jopt JStr (sa_selected_symbol_id s)),
      (''resolution_fingerprint'', jopt JStr (sa_resolution_fingerprint s)),
      (''semantic_context_fingerprint'', jopt JStr (sa_semantic_context_fingerprint s)),
      (''selected_target_provenance'',
        JArr (map semantic_provenance_json (sa_selected_target_provenance s)))]"

record policy_snapshot =
  ps_fulfilment :: "fulfilment_policy option"
  ps_fulfilment_evidence_fingerprint :: string
  ps_fulfilment_evidence_current :: "bool option"
  ps_late_authorisation :: "late_authorisation_policy option"
  ps_late_authorisation_evidence_fingerprint :: string
  ps_late_authorisation_evidence_current :: "bool option"

definition policy_snapshot_json :: "policy_snapshot \<Rightarrow> json" where
  "policy_snapshot_json p = JObj
     [(''fulfilment'', jopt (JStr \<circ> fulfilment_value) (ps_fulfilment p)),
      (''fulfilment_evidence_fingerprint'', JStr (ps_fulfilment_evidence_fingerprint p)),
      (''fulfilment_evidence_current'', jopt JBool (ps_fulfilment_evidence_current p)),
      (''late_authorisation'', jopt (JStr \<circ> late_authorisation_value) (ps_late_authorisation p)),
      (''late_authorisation_evidence_fingerprint'', JStr (ps_late_authorisation_evidence_fingerprint p)),
      (''late_authorisation_evidence_current'', jopt JBool (ps_late_authorisation_evidence_current p))]"

record rule_snapshot =
  rn_rule_id :: razorpay_rule_id
  rn_fact :: string
  rn_source_url :: string
  rn_verified_on :: string
  rn_rule_fingerprint :: string

record rule_authority =
  rl_catalog_fingerprint :: string
  rl_referenced_rules :: "rule_snapshot list"

definition validate_rules :: "rule_authority \<Rightarrow> error option" where
  "validate_rules r =
     (let ids = map rn_rule_id (rl_referenced_rules r)
      in if \<not> distinct ids \<or> ids \<noteq> sort_key rule_id_value ids
         then Some (ValueError ''referenced Razorpay rules must be unique and ordered'') else None)"

definition rule_snapshot_json :: "rule_snapshot \<Rightarrow> json" where
  "rule_snapshot_json r = JObj
     [(''rule_id'', JStr (rule_id_value (rn_rule_id r))), (''fact'', JStr (rn_fact r)),
      (''source_url'', JStr (rn_source_url r)), (''verified_on'', JStr (rn_verified_on r)),
      (''rule_fingerprint'', JStr (rn_rule_fingerprint r))]"

definition rule_authority_json :: "rule_authority \<Rightarrow> json" where
  "rule_authority_json r = JObj
     [(''catalog_version'', JInt 1), (''catalog_fingerprint'', JStr (rl_catalog_fingerprint r)),
      (''referenced_rules'', JArr (map rule_snapshot_json (rl_referenced_rules r)))]"

record verification_authority =
  va_project_id :: string
  va_config_fingerprint :: string
  va_project_source_fingerprint :: string
  va_source_index_fingerprint :: string
  va_structural_graph_fingerprint :: string
  va_projected_graph_fingerprint :: string
  va_applicability_fingerprint :: string
  va_runtime_config_fingerprint :: string
  va_runtime_capability_fingerprints :: "string list"
  va_semantic :: semantic_authority
  va_policy :: policy_snapshot
  va_razorpay_rules :: rule_authority
  va_razorpay_grounding :: "grounding_snapshot option"
  va_schema_versions :: schema_versions

definition validate_capabilities :: "verification_authority \<Rightarrow> error option" where
  "validate_capabilities a =
     (if va_runtime_capability_fingerprints a \<noteq> sorted_set (va_runtime_capability_fingerprints a)
      then Some (ValueError ''runtime capability fingerprints must be unique and ordered'') else None)"

text \<open>The current schema adds the grounding of the run and its version.\<close>

definition verification_authority_json :: "bool \<Rightarrow> verification_authority \<Rightarrow> json" where
  "verification_authority_json current a = JObj (
     [(''project_id'', JStr (va_project_id a)),
      (''config_fingerprint'', JStr (va_config_fingerprint a)),
      (''project_source_fingerprint'', JStr (va_project_source_fingerprint a)),
      (''source_index_fingerprint'', JStr (va_source_index_fingerprint a)),
      (''structural_graph_fingerprint'', JStr (va_structural_graph_fingerprint a)),
      (''projected_graph_fingerprint'', JStr (va_projected_graph_fingerprint a)),
      (''applicability_fingerprint'', JStr (va_applicability_fingerprint a)),
      (''runtime_config_fingerprint'', JStr (va_runtime_config_fingerprint a)),
      (''runtime_capability_fingerprints'', jstrs (va_runtime_capability_fingerprints a)),
      (''semantic'', semantic_authority_json (va_semantic a)),
      (''policy'', policy_snapshot_json (va_policy a)),
      (''razorpay_rules'', rule_authority_json (va_razorpay_rules a)),
      (''schema_versions'', JObj (schema_versions_json (va_schema_versions a) @
        (if current then [(''razorpay_grounding'', jopt jnat (sv_razorpay_grounding (va_schema_versions a)))]
         else [])))] @
     (if current then [(''razorpay_grounding'', jopt grounding_json (va_razorpay_grounding a))] else []))"

section \<open>The evidence of one check\<close>

record applicability_evidence =
  ae_state :: applicability_state
  ae_role :: assertion_role
  ae_reasons :: "applicability_reason_code list"
  ae_graph_node_ids :: "string list"
  ae_graph_edge_ids :: "string list"
  ae_normal_control_ids :: "string list"

definition validate_collections :: "applicability_evidence \<Rightarrow> error option" where
  "validate_collections e =
     (if ae_reasons e = [] then Some (ValueError ''too_short'')
      else if \<not> (distinct (ae_reasons e) \<and> distinct (ae_graph_node_ids e) \<and>
              distinct (ae_graph_edge_ids e) \<and> distinct (ae_normal_control_ids e))
      then Some (ValueError ''applicability evidence collections must be unique'') else None)"

definition applicability_evidence_json :: "applicability_evidence \<Rightarrow> json" where
  "applicability_evidence_json e = JObj
     [(''state'', JStr (applicability_state_value (ae_state e))),
      (''role'', JStr (assertion_role_value (ae_role e))),
      (''reasons'', jstrs (map applicability_reason_code_value (ae_reasons e))),
      (''graph_node_ids'', jstrs (ae_graph_node_ids e)),
      (''graph_edge_ids'', jstrs (ae_graph_edge_ids e)),
      (''normal_control_ids'', jstrs (ae_normal_control_ids e))]"

record check_targets =
  ckt_ingress_node_id :: "string option"
  ckt_route_registration_id :: "string option"
  ckt_ingress_symbol_id :: "string option"
  ckt_normal_control_id :: "string option"
  ckt_customer_value_node_id :: "string option"
  ckt_customer_value_symbol_id :: "string option"
  ckt_connectivity_edge_id :: "string option"
  ckt_mutation_node_ids :: "string list"
  ckt_acknowledgement_node_ids :: "string list"

definition validate_targets :: "check_targets \<Rightarrow> error option" where
  "validate_targets t =
     (if ckt_mutation_node_ids t \<noteq> sorted_set (ckt_mutation_node_ids t)
      then Some (ValueError ''mutation target identities must be unique and ordered'')
      else if ckt_acknowledgement_node_ids t \<noteq> sorted_set (ckt_acknowledgement_node_ids t)
      then Some (ValueError ''acknowledgement identities must be unique and ordered'')
      else None)"

definition check_targets_json :: "check_targets \<Rightarrow> json" where
  "check_targets_json t = JObj
     [(''ingress_node_id'', jopt JStr (ckt_ingress_node_id t)),
      (''route_registration_id'', jopt JStr (ckt_route_registration_id t)),
      (''ingress_symbol_id'', jopt JStr (ckt_ingress_symbol_id t)),
      (''normal_control_id'', jopt JStr (ckt_normal_control_id t)),
      (''customer_value_node_id'', jopt JStr (ckt_customer_value_node_id t)),
      (''customer_value_symbol_id'', jopt JStr (ckt_customer_value_symbol_id t)),
      (''connectivity_edge_id'', jopt JStr (ckt_connectivity_edge_id t)),
      (''mutation_node_ids'', jstrs (ckt_mutation_node_ids t)),
      (''acknowledgement_node_ids'', jstrs (ckt_acknowledgement_node_ids t))]"

record source_evidence =
  se_symbol_id :: string
  se_source_location :: source_location

definition source_evidence_json :: "source_evidence \<Rightarrow> json" where
  "source_evidence_json s = JObj
     [(''symbol_id'', JStr (se_symbol_id s)),
      (''source_location'', source_location_json (se_source_location s))]"

record relevant_source_file =
  rv_file_id :: string
  rv_path :: string
  rv_content_fingerprint :: string

definition relevant_source_file_json :: "relevant_source_file \<Rightarrow> json" where
  "relevant_source_file_json f = JObj
     [(''file_id'', JStr (rv_file_id f)), (''path'', JStr (rv_path f)),
      (''content_fingerprint'', JStr (rv_content_fingerprint f))]"

text \<open>The path validator replaces the path by its normal form.\<close>

definition relevant_source_file_of :: "string \<Rightarrow> string \<Rightarrow> string \<Rightarrow> relevant_source_file result" where
  "relevant_source_file_of file_id path content_fp =
     bind_result (normalize_relative_path path) (\<lambda>p.
       Inr \<lparr>rv_file_id = file_id, rv_path = p, rv_content_fingerprint = content_fp\<rparr>)"

record relevant_fact =
  rt_fact_id :: string
  rt_fact_fingerprint :: string

definition relevant_fact_json :: "relevant_fact \<Rightarrow> json" where
  "relevant_fact_json f = JObj
     [(''fact_id'', JStr (rt_fact_id f)), (''fact_fingerprint'', JStr (rt_fact_fingerprint f))]"

record customer_evidence =
  ce_entered_count :: nat
  ce_returned_normally_count :: nat
  ce_exception_escaped_count :: nat
  ce_entered_sequences :: "nat list"
  ce_returned_normally_sequences :: "nat list"
  ce_exception_escaped_sequences :: "nat list"

definition validate_customer_evidence :: "customer_evidence \<Rightarrow> error option" where
  "validate_customer_evidence c =
     (if ce_entered_count c \<noteq> length (ce_entered_sequences c)
      then Some (ValueError ''customer entry evidence count is inconsistent'')
      else if ce_returned_normally_count c \<noteq> length (ce_returned_normally_sequences c)
      then Some (ValueError ''customer return evidence count is inconsistent'')
      else if ce_exception_escaped_count c \<noteq> length (ce_exception_escaped_sequences c)
      then Some (ValueError ''customer exception evidence count is inconsistent'')
      else None)"

definition customer_evidence_json :: "customer_evidence \<Rightarrow> json" where
  "customer_evidence_json c = JObj
     [(''entered_count'', jnat (ce_entered_count c)),
      (''returned_normally_count'', jnat (ce_returned_normally_count c)),
      (''exception_escaped_count'', jnat (ce_exception_escaped_count c)),
      (''entered_sequences'', jnats (ce_entered_sequences c)),
      (''returned_normally_sequences'', jnats (ce_returned_normally_sequences c)),
      (''exception_escaped_sequences'', jnats (ce_exception_escaped_sequences c))]"

record mutation_evidence =
  me_mutation_node_id :: string
  me_reached_count :: nat
  me_completed_normally_count :: nat
  me_raised_count :: nat
  me_reached_sequences :: "nat list"
  me_completed_normally_sequences :: "nat list"
  me_raised_sequences :: "nat list"

definition validate_mutation_evidence :: "mutation_evidence \<Rightarrow> error option" where
  "validate_mutation_evidence m =
     (if me_reached_count m \<noteq> length (me_reached_sequences m)
      then Some (ValueError ''mutation reach evidence count is inconsistent'')
      else if me_completed_normally_count m \<noteq> length (me_completed_normally_sequences m)
      then Some (ValueError ''mutation completion evidence count is inconsistent'')
      else if me_raised_count m \<noteq> length (me_raised_sequences m)
      then Some (ValueError ''mutation raised evidence count is inconsistent'')
      else None)"

definition mutation_evidence_json :: "mutation_evidence \<Rightarrow> json" where
  "mutation_evidence_json m = JObj
     [(''mutation_node_id'', JStr (me_mutation_node_id m)),
      (''observation_strength'', JStr ''PYTHON_ASSIGNMENT_INSTRUCTION_COMPLETION''),
      (''reached_count'', jnat (me_reached_count m)),
      (''completed_normally_count'', jnat (me_completed_normally_count m)),
      (''raised_count'', jnat (me_raised_count m)),
      (''reached_sequences'', jnats (me_reached_sequences m)),
      (''completed_normally_sequences'', jnats (me_completed_normally_sequences m)),
      (''raised_sequences'', jnats (me_raised_sequences m))]"

record injection_evidence =
  ie_acknowledgement_node_id :: string
  ie_original_status_code :: nat
  ie_effective_status_code :: nat
  ie_injection_sequence :: nat

definition validate_injection_evidence :: "injection_evidence \<Rightarrow> error option" where
  "validate_injection_evidence i =
     (if ie_original_status_code i < 200
      then Some (ValueError ''Input should be greater than or equal to 200'')
      else if 299 < ie_original_status_code i
      then Some (ValueError ''Input should be less than or equal to 299'')
      else if ie_effective_status_code i \<noteq> 503
      then Some (ValueError ''Input should be 503'')
      else if ie_injection_sequence i = 0
      then Some (ValueError ''Input should be greater than or equal to 1'')
      else None)"

definition injection_evidence_json :: "injection_evidence \<Rightarrow> json" where
  "injection_evidence_json i = JObj
     [(''acknowledgement_node_id'', JStr (ie_acknowledgement_node_id i)),
      (''original_status_code'', jnat (ie_original_status_code i)),
      (''effective_status_code'', jnat (ie_effective_status_code i)),
      (''injection_sequence'', jnat (ie_injection_sequence i))]"

record request_evidence =
  re_request_id :: string
  re_ordinal :: nat
  re_role :: request_role
  re_request_received_sequences :: "nat list"
  re_response_completed_sequences :: "nat list"
  re_request_aborted_sequences :: "nat list"
  re_http_status_code :: "nat option"
  re_customer :: "customer_evidence option"
  re_mutations :: "mutation_evidence list"
  re_acknowledgement_injection :: "injection_evidence option"

definition validate_projection :: "request_evidence \<Rightarrow> error option" where
  "validate_projection r =
     (if status_bound_error (re_http_status_code r) \<noteq> None
      then status_bound_error (re_http_status_code r)
      else if (re_customer r = None) = (re_mutations r = [])
      then Some (ValueError ''request evidence requires exactly one target observation shape'')
      else if \<not> distinct (map me_mutation_node_id (re_mutations r))
      then Some (ValueError ''request mutation evidence must have unique targets'')
      else None)"

definition request_evidence_json :: "request_evidence \<Rightarrow> json" where
  "request_evidence_json r = JObj
     [(''request_id'', JStr (re_request_id r)), (''ordinal'', jnat (re_ordinal r)),
      (''role'', JStr (request_role_value (re_role r))),
      (''request_received_sequences'', jnats (re_request_received_sequences r)),
      (''response_completed_sequences'', jnats (re_response_completed_sequences r)),
      (''request_aborted_sequences'', jnats (re_request_aborted_sequences r)),
      (''http_status_code'', jopt jnat (re_http_status_code r)),
      (''customer'', jopt customer_evidence_json (re_customer r)),
      (''mutations'', JArr (map mutation_evidence_json (re_mutations r))),
      (''acknowledgement_injection'', jopt injection_evidence_json (re_acknowledgement_injection r))]"

record runtime_evidence =
  ru_scenario_execution_id :: string
  ru_runtime_session_id :: "string option"
  ru_runtime_capability_fingerprint :: "string option"
  ru_transcript_fingerprint :: "string option"
  ru_requests :: "request_evidence list"
  ru_diagnostics :: "runtime_reason list"

definition validate_runtime_evidence :: "runtime_evidence \<Rightarrow> error option" where
  "validate_runtime_evidence e =
     (if \<not> distinct (map re_request_id (ru_requests e))
      then Some (ValueError ''runtime request evidence must be unique'')
      else if map re_ordinal (ru_requests e) \<noteq> [0..<length (ru_requests e)]
      then Some (ValueError ''runtime request evidence must preserve exact order'')
      else if ru_requests e \<noteq> [] \<and> ru_runtime_session_id e = None
      then Some (ValueError ''runtime requests require session authority'')
      else if ru_transcript_fingerprint e \<noteq> None \<and>
        (ru_runtime_session_id e = None \<or> ru_runtime_capability_fingerprint e = None)
      then Some (ValueError ''transcript evidence requires session and capability authority'')
      else if \<not> distinct (ru_diagnostics e)
      then Some (ValueError ''runtime diagnostic codes must be unique'')
      else None)"

definition runtime_evidence_json :: "runtime_evidence \<Rightarrow> json" where
  "runtime_evidence_json e = JObj
     [(''scenario_execution_id'', JStr (ru_scenario_execution_id e)),
      (''runtime_session_id'', jopt JStr (ru_runtime_session_id e)),
      (''runtime_capability_fingerprint'', jopt JStr (ru_runtime_capability_fingerprint e)),
      (''transcript_fingerprint'', jopt JStr (ru_transcript_fingerprint e)),
      (''requests'', JArr (map request_evidence_json (ru_requests e))),
      (''diagnostics'', jstrs (map runtime_reason_value (ru_diagnostics e)))]"

record check_policy =
  cp_dimensions :: "policy_dimension list"
  cp_fulfilment :: "fulfilment_policy option"
  cp_fulfilment_evidence_fingerprint :: "string option"
  cp_late_authorisation :: "late_authorisation_policy option"
  cp_late_authorisation_evidence_fingerprint :: "string option"

definition validate_dimensions :: "check_policy \<Rightarrow> error option" where
  "validate_dimensions p =
     (if (DIM_FULFILMENT \<in> set (cp_dimensions p)) \<noteq> (cp_fulfilment_evidence_fingerprint p \<noteq> None)
      then Some (ValueError ''fulfilment policy evidence must match declared usage'')
      else if (DIM_LATE_AUTHORISATION \<in> set (cp_dimensions p)) \<noteq>
              (cp_late_authorisation_evidence_fingerprint p \<noteq> None)
      then Some (ValueError ''late policy evidence must match declared usage'')
      else None)"

definition check_policy_json :: "check_policy \<Rightarrow> json" where
  "check_policy_json p = JObj
     [(''dimensions'', jstrs (map policy_dimension_value (cp_dimensions p))),
      (''fulfilment'', jopt (JStr \<circ> fulfilment_value) (cp_fulfilment p)),
      (''fulfilment_evidence_fingerprint'', jopt JStr (cp_fulfilment_evidence_fingerprint p)),
      (''late_authorisation'', jopt (JStr \<circ> late_authorisation_value) (cp_late_authorisation p)),
      (''late_authorisation_evidence_fingerprint'',
        jopt JStr (cp_late_authorisation_evidence_fingerprint p))]"

record relevant_authority =
  fr_source_files :: "relevant_source_file list"
  fr_symbols :: "relevant_fact list"
  fr_call_sites :: "relevant_fact list"
  fr_call_path_references :: "string list"
  fr_graph_nodes :: "relevant_fact list"
  fr_graph_edges :: "relevant_fact list"
  fr_applicability_assertion_fingerprint :: string
  fr_selected_semantic_symbol_id :: "string option"
  fr_semantic_resolution_fingerprint :: "string option"
  fr_semantic_context_fingerprint :: "string option"
  fr_key_policy_authority :: check_policy
  fr_invariant_id :: string
  fr_invariant_version :: nat
  fr_scenario_definition_fingerprint :: string
  fr_razorpay_rules :: "relevant_fact list"
  fr_razorpay_rule_catalog_fingerprint :: string
  fr_relevant_authority_fingerprint :: string

definition relevant_authority_fields :: "relevant_authority \<Rightarrow> (string \<times> json) list" where
  "relevant_authority_fields s =
     [(''source_files'', JArr (map relevant_source_file_json (fr_source_files s))),
      (''symbols'', JArr (map relevant_fact_json (fr_symbols s))),
      (''call_sites'', JArr (map relevant_fact_json (fr_call_sites s))),
      (''call_path_references'', jstrs (fr_call_path_references s)),
      (''graph_nodes'', JArr (map relevant_fact_json (fr_graph_nodes s))),
      (''graph_edges'', JArr (map relevant_fact_json (fr_graph_edges s))),
      (''applicability_assertion_fingerprint'', JStr (fr_applicability_assertion_fingerprint s)),
      (''selected_semantic_symbol_id'', jopt JStr (fr_selected_semantic_symbol_id s)),
      (''semantic_resolution_fingerprint'', jopt JStr (fr_semantic_resolution_fingerprint s)),
      (''semantic_context_fingerprint'', jopt JStr (fr_semantic_context_fingerprint s)),
      (''key_policy_authority'', check_policy_json (fr_key_policy_authority s)),
      (''invariant_id'', JStr (fr_invariant_id s)),
      (''invariant_version'', jnat (fr_invariant_version s)),
      (''scenario_definition_fingerprint'', JStr (fr_scenario_definition_fingerprint s)),
      (''razorpay_rules'', JArr (map relevant_fact_json (fr_razorpay_rules s))),
      (''razorpay_rule_catalog_fingerprint'', JStr (fr_razorpay_rule_catalog_fingerprint s))]"

definition relevant_authority_json :: "relevant_authority \<Rightarrow> json" where
  "relevant_authority_json s = JObj (relevant_authority_fields s @
     [(''relevant_authority_fingerprint'', JStr (fr_relevant_authority_fingerprint s))])"

definition canonical_facts :: "('a \<Rightarrow> json) \<Rightarrow> 'a list \<Rightarrow> error option" where
  "canonical_facts enc xs =
     (if xs \<noteq> canonical_order enc xs
      then Some (ValueError ''finding-relevant authority facts must be canonically ordered'')
      else if \<not> distinct xs
      then Some (ValueError ''finding-relevant authority facts must be unique'')
      else None)"

definition validate_relevant_authority :: "relevant_authority \<Rightarrow> error option" where
  "validate_relevant_authority s =
     (case first_error
        [canonical_facts relevant_source_file_json (fr_source_files s),
         canonical_facts relevant_fact_json (fr_symbols s),
         canonical_facts relevant_fact_json (fr_call_sites s),
         canonical_facts relevant_fact_json (fr_graph_nodes s),
         canonical_facts relevant_fact_json (fr_graph_edges s),
         canonical_facts relevant_fact_json (fr_razorpay_rules s)] of
        Some e \<Rightarrow> Some e
      | None \<Rightarrow>
          if fr_call_path_references s \<noteq> sorted_set (fr_call_path_references s)
          then Some (ValueError ''call-path references must be unique and ordered'')
          else if fr_relevant_authority_fingerprint s \<noteq> fingerprint_json (JObj (relevant_authority_fields s))
          then Some (ValueError ''finding-relevant authority fingerprint must match exact facts'')
          else None)"

section \<open>The check key\<close>

text \<open>\<open>value or default\<close>, and \<open>str\<close> of a pair of strings without quotes in them.\<close>

definition or_default :: "string option \<Rightarrow> string \<Rightarrow> string" where
  "or_default v d = (case v of None \<Rightarrow> d | Some s \<Rightarrow> if s = '''' then d else s)"

definition str_pair :: "string \<times> string \<Rightarrow> string" where
  "str_pair p = [CHR ''('', CHR 0x27] @ fst p @ [CHR 0x27, CHR '','', CHR '' '', CHR 0x27] @ snd p @
     [CHR 0x27, CHR '')'']"

definition key_policy_values :: "policy_dimension list \<Rightarrow> policy_snapshot \<Rightarrow> (string \<times> string) list" where
  "key_policy_values dimensions policy =
     (if DIM_FULFILMENT \<in> set dimensions
      then [(''FULFILMENT'', (case ps_fulfilment policy of
               None \<Rightarrow> ''UNRESOLVED'' | Some p \<Rightarrow> fulfilment_value p))] else []) @
     (if DIM_LATE_AUTHORISATION \<in> set dimensions
      then [(''LATE_AUTHORISATION'', (case ps_late_authorisation policy of
               None \<Rightarrow> ''UNRESOLVED'' | Some p \<Rightarrow> late_authorisation_value p))] else [])"

definition check_key_components ::
  "string \<Rightarrow> scenario_id \<Rightarrow> string \<Rightarrow> string \<Rightarrow> nat \<Rightarrow> check_targets \<Rightarrow> policy_dimension list \<Rightarrow>
   policy_snapshot \<Rightarrow> string list" where
  "check_key_components project_id sid key invariant version targets dimensions policy =
     [''VERIFICATION_CHECK_KEY_V1'', project_id, scenario_id_value sid, key, invariant,
      str_int (int version),
      or_default (ckt_ingress_node_id targets) ''NO_INGRESS'',
      or_default (ckt_route_registration_id targets) ''NO_ROUTE'',
      or_default (ckt_ingress_symbol_id targets) ''NO_INGRESS_SYMBOL'',
      or_default (ckt_customer_value_node_id targets) ''NO_CUSTOMER_NODE'',
      or_default (ckt_customer_value_symbol_id targets) ''NO_CUSTOMER_SYMBOL'',
      or_default (ckt_connectivity_edge_id targets) ''NO_CONNECTIVITY_EDGE''] @
     ckt_mutation_node_ids targets @ ckt_acknowledgement_node_ids targets @
     map str_pair (key_policy_values dimensions policy)"

definition build_verification_check_key ::
  "string \<Rightarrow> scenario_id \<Rightarrow> string \<Rightarrow> string \<Rightarrow> nat \<Rightarrow> check_targets \<Rightarrow> policy_dimension list \<Rightarrow>
   policy_snapshot \<Rightarrow> string result" where
  "build_verification_check_key project_id sid key invariant version targets dimensions policy =
     verification_check_key
       (check_key_components project_id sid key invariant version targets dimensions policy)"

section \<open>The check record\<close>

record reverification =
  vf_scenario_id :: scenario_id
  vf_assertion_key :: string
  vf_invariant_id :: string
  vf_invariant_version :: nat
  vf_targets :: check_targets
  vf_input_reference :: "input_reference option"
  vf_config_fingerprint :: string
  vf_project_source_fingerprint :: string
  vf_projected_graph_fingerprint :: string
  vf_applicability_fingerprint :: string
  vf_razorpay_rule_catalog_fingerprint :: string

definition reverification_json :: "reverification \<Rightarrow> json" where
  "reverification_json v = JObj
     [(''mode'', JStr ''REVERIFY_CURRENT_AUTHORITY''),
      (''scenario_id'', JStr (scenario_id_value (vf_scenario_id v))),
      (''assertion_key'', JStr (vf_assertion_key v)),
      (''invariant_id'', JStr (vf_invariant_id v)),
      (''invariant_version'', jnat (vf_invariant_version v)),
      (''targets'', check_targets_json (vf_targets v)),
      (''input_reference'', jopt input_reference_json (vf_input_reference v)),
      (''config_fingerprint'', JStr (vf_config_fingerprint v)),
      (''project_source_fingerprint'', JStr (vf_project_source_fingerprint v)),
      (''projected_graph_fingerprint'', JStr (vf_projected_graph_fingerprint v)),
      (''applicability_fingerprint'', JStr (vf_applicability_fingerprint v)),
      (''razorpay_rule_catalog_fingerprint'', JStr (vf_razorpay_rule_catalog_fingerprint v))]"

record verification_check =
  vc_check_id :: string
  vc_check_key :: string
  vc_scenario_id :: scenario_id
  vc_scenario_instance_id :: string
  vc_assertion_id :: string
  vc_assertion_key :: string
  vc_invariant_id :: string
  vc_invariant_version :: nat
  vc_expected_invariant :: string
  vc_scenario_definition_fingerprint :: string
  vc_scenario_result_fingerprint :: string
  vc_applicability :: applicability_evidence
  vc_targets :: check_targets
  vc_policy_authority :: check_policy
  vc_key_policy_dimensions :: "policy_dimension list"
  vc_razorpay_rule_ids :: "razorpay_rule_id list"
  vc_source_references :: "source_evidence list"
  vc_graph_node_ids :: "string list"
  vc_graph_edge_ids :: "string list"
  vc_input_reference :: "input_reference option"
  vc_runtime_evidence :: runtime_evidence
  vc_result :: result_state
  vc_evidence_tier :: "evidence_tier option"
  vc_grounding :: "check_grounding option"
  vc_reason :: result_reason
  vc_reverification :: reverification
  vc_relevant_authority :: "relevant_authority option"

fun grounded_fingerprints :: "input_reference \<Rightarrow> (string \<times> string) option" where
  "grounded_fingerprints (GroundedInput w g p) = Some (g, p)"
| "grounded_fingerprints _ = None"

text \<open>E4 names the grounding its own input was built from.\<close>

definition grounding_is_exact :: "verification_check \<Rightarrow> bool" where
  "grounding_is_exact c \<longleftrightarrow>
     vc_scenario_id c = SG_01 \<and>
     (case (vc_grounding c, Option.bind (vc_input_reference c) grounded_fingerprints) of
        (Some g, Some (fp, projection)) \<Rightarrow>
          cg_grounding_fingerprint g = fp \<and> cg_sanitized_projection_fingerprint g = projection
      | _ \<Rightarrow> False)"

definition dynamic_tier :: "evidence_tier option \<Rightarrow> bool" where
  "dynamic_tier t \<longleftrightarrow> t = Some E3_DYNAMIC_VERIFIED \<or> t = Some E4_RAZORPAY_GROUNDED"

definition verified_state :: "result_state \<Rightarrow> bool" where
  "verified_state s \<longleftrightarrow> s = VERIFIED_PASS \<or> s = VERIFIED_FAIL"

definition validate_tier :: "verification_check \<Rightarrow> error option" where
  "validate_tier c =
     (let e = vc_runtime_evidence c
      in if verified_state (vc_result c)
         then (if \<not> dynamic_tier (vc_evidence_tier c)
               then Some (ValueError ''verified checks require dynamic evidence'')
               else if vc_input_reference c = None \<or> ru_requests e = [] \<or>
                 ru_runtime_session_id e = None \<or> ru_runtime_capability_fingerprint e = None \<or>
                 ru_transcript_fingerprint e = None
               then Some (ValueError ''verified checks require complete safe runtime authority'')
               else None)
         else if vc_evidence_tier c = Some E3_DYNAMIC_VERIFIED
         then Some (ValueError ''non-verified checks cannot claim E3'')
         else if vc_evidence_tier c = Some E4_RAZORPAY_GROUNDED
         then Some (ValueError ''non-verified checks cannot claim E4'')
         else None)"

definition validate_check_grounding :: "verification_check \<Rightarrow> error option" where
  "validate_check_grounding c =
     (if vc_evidence_tier c = Some E4_RAZORPAY_GROUNDED
      then (if \<not> grounding_is_exact c
            then Some (ValueError ''E4 requires exact SG-01 resource-profile grounding'') else None)
      else if vc_grounding c \<noteq> None
      then Some (ValueError ''per-check grounding is valid only for E4'') else None)"

text \<open>
  The JSON text of a source location determines the location, so comparing the pairs compares
  the keys of the code.
\<close>

definition validate_check :: "verification_check \<Rightarrow> error option" where
  "validate_check c =
     (case first_error [validate_tier c, validate_check_grounding c] of
        Some e \<Rightarrow> Some e
      | None \<Rightarrow>
          if vc_input_reference c \<noteq> vf_input_reference (vc_reverification c)
          then Some (ValueError ''re-verification input reference must match recorded evidence'')
          else if \<not> distinct (vc_razorpay_rule_ids c)
          then Some (ValueError ''check Razorpay rule references must be unique'')
          else if \<not> set (vc_key_policy_dimensions c) \<subseteq> set (cp_dimensions (vc_policy_authority c))
          then Some (ValueError ''check-key policy dimensions must be used check authority'')
          else if vc_graph_node_ids c \<noteq> sorted_set (vc_graph_node_ids c)
          then Some (ValueError ''check graph node references must be unique and ordered'')
          else if vc_graph_edge_ids c \<noteq> sorted_set (vc_graph_edge_ids c)
          then Some (ValueError ''check graph edge references must be unique and ordered'')
          else if \<not> distinct (map (\<lambda>s. (se_symbol_id s, se_source_location s)) (vc_source_references c))
          then Some (ValueError ''check source references must be unique'')
          else None)"

text \<open>Schema 1 leaves out the relevant authority and the grounding, schema 2 the grounding.\<close>

definition verification_check_json :: "nat \<Rightarrow> verification_check \<Rightarrow> json" where
  "verification_check_json schema c = JObj (
     [(''check_id'', JStr (vc_check_id c)), (''check_key'', JStr (vc_check_key c)),
      (''scenario_id'', JStr (scenario_id_value (vc_scenario_id c))),
      (''scenario_instance_id'', JStr (vc_scenario_instance_id c)),
      (''assertion_id'', JStr (vc_assertion_id c)), (''assertion_key'', JStr (vc_assertion_key c)),
      (''invariant_id'', JStr (vc_invariant_id c)),
      (''invariant_version'', jnat (vc_invariant_version c)),
      (''expected_invariant'', JStr (vc_expected_invariant c)),
      (''scenario_definition_fingerprint'', JStr (vc_scenario_definition_fingerprint c)),
      (''scenario_result_fingerprint'', JStr (vc_scenario_result_fingerprint c)),
      (''applicability'', applicability_evidence_json (vc_applicability c)),
      (''targets'', check_targets_json (vc_targets c)),
      (''policy_authority'', check_policy_json (vc_policy_authority c)),
      (''key_policy_dimensions'', jstrs (map policy_dimension_value (vc_key_policy_dimensions c))),
      (''razorpay_rule_ids'', jstrs (map rule_id_value (vc_razorpay_rule_ids c))),
      (''source_references'', JArr (map source_evidence_json (vc_source_references c))),
      (''graph_node_ids'', jstrs (vc_graph_node_ids c)),
      (''graph_edge_ids'', jstrs (vc_graph_edge_ids c)),
      (''input_reference'', jopt input_reference_json (vc_input_reference c)),
      (''runtime_evidence'', runtime_evidence_json (vc_runtime_evidence c)),
      (''result'', JStr (result_state_value (vc_result c))),
      (''evidence_tier'', jopt (JStr \<circ> evidence_tier_value) (vc_evidence_tier c)),
      (''reason'', JStr (result_reason_value (vc_reason c))),
      (''reverification'', reverification_json (vc_reverification c))] @
     (if schema = 1 then []
      else [(''relevant_authority'', jopt relevant_authority_json (vc_relevant_authority c))]) @
     (if schema = 1 \<or> schema = 2 then []
      else [(''grounding'', jopt check_grounding_json (vc_grounding c))]))"

section \<open>Findings and summary\<close>

record finding =
  fi_occurrence_id :: string
  fi_finding_key :: string
  fi_check_id :: string
  fi_check_key :: string
  fi_kind :: finding_kind
  fi_critical :: bool

definition validate_critical :: "finding \<Rightarrow> error option" where
  "validate_critical f =
     (if fi_critical f \<noteq> (fi_kind f = KIND_VERIFIED_FAILURE)
      then Some (ValueError ''only verified-failure findings are critical'') else None)"

fun finding_kind_by_result :: "result_state \<Rightarrow> finding_kind option" where
  "finding_kind_by_result VERIFIED_FAIL = Some KIND_VERIFIED_FAILURE"
| "finding_kind_by_result STATIC_WARNING = Some KIND_STATIC_WARNING"
| "finding_kind_by_result RESULT_NEEDS_INPUT = Some KIND_RESOLUTION_REQUIRED"
| "finding_kind_by_result UNVERIFIED = Some KIND_VERIFICATION_COVERAGE"
| "finding_kind_by_result VERIFIED_PASS = None"
| "finding_kind_by_result RESULT_NOT_APPLICABLE = None"

definition finding_of :: "string \<Rightarrow> verification_check \<Rightarrow> finding option" where
  "finding_of run_id c =
     map_option (\<lambda>kind.
       \<lparr>fi_occurrence_id = finding_occurrence_id run_id (vc_check_id c),
        fi_finding_key = finding_key (vc_check_key c), fi_check_id = vc_check_id c,
        fi_check_key = vc_check_key c, fi_kind = kind,
        fi_critical = (kind = KIND_VERIFIED_FAILURE)\<rparr>)
     (finding_kind_by_result (vc_result c))"

definition derive_findings :: "string \<Rightarrow> verification_check list \<Rightarrow> finding list" where
  "derive_findings run_id checks = List.map_filter (finding_of run_id) checks"

definition finding_json :: "finding \<Rightarrow> json" where
  "finding_json f = JObj
     [(''occurrence_id'', JStr (fi_occurrence_id f)), (''finding_key'', JStr (fi_finding_key f)),
      (''check_id'', JStr (fi_check_id f)), (''check_key'', JStr (fi_check_key f)),
      (''kind'', JStr (finding_kind_value (fi_kind f))), (''critical'', JBool (fi_critical f))]"

record tier_distribution =
  td_no_tier :: nat
  td_e0_discovered :: nat
  td_e1_resolved :: nat
  td_e2_static_verified :: nat
  td_e3_dynamic_verified :: nat
  td_e4_razorpay_grounded :: nat

record run_summary =
  vs_verified_pass :: nat
  vs_verified_fail :: nat
  vs_static_warning :: nat
  vs_needs_input :: nat
  vs_unverified :: nat
  vs_not_applicable :: nat
  vs_dynamic_coverage_numerator :: nat
  vs_dynamic_coverage_denominator :: nat
  vs_evidence_tiers :: tier_distribution

definition count_state :: "verification_check list \<Rightarrow> result_state \<Rightarrow> nat" where
  "count_state checks s = length (filter (\<lambda>c. vc_result c = s) checks)"

definition count_tier :: "verification_check list \<Rightarrow> evidence_tier option \<Rightarrow> nat" where
  "count_tier checks t = length (filter (\<lambda>c. vc_evidence_tier c = t) checks)"

definition summarize_checks :: "verification_check list \<Rightarrow> run_summary" where
  "summarize_checks checks =
     \<lparr>vs_verified_pass = count_state checks VERIFIED_PASS,
      vs_verified_fail = count_state checks VERIFIED_FAIL,
      vs_static_warning = count_state checks STATIC_WARNING,
      vs_needs_input = count_state checks RESULT_NEEDS_INPUT,
      vs_unverified = count_state checks UNVERIFIED,
      vs_not_applicable = count_state checks RESULT_NOT_APPLICABLE,
      vs_dynamic_coverage_numerator =
        count_tier checks (Some E3_DYNAMIC_VERIFIED) + count_tier checks (Some E4_RAZORPAY_GROUNDED),
      vs_dynamic_coverage_denominator = length checks - count_state checks RESULT_NOT_APPLICABLE,
      vs_evidence_tiers =
        \<lparr>td_no_tier = count_tier checks None,
         td_e0_discovered = count_tier checks (Some E0_DISCOVERED),
         td_e1_resolved = count_tier checks (Some E1_RESOLVED),
         td_e2_static_verified = count_tier checks (Some E2_STATIC_VERIFIED),
         td_e3_dynamic_verified = count_tier checks (Some E3_DYNAMIC_VERIFIED),
         td_e4_razorpay_grounded = count_tier checks (Some E4_RAZORPAY_GROUNDED)\<rparr>\<rparr>"

definition tier_distribution_json :: "tier_distribution \<Rightarrow> json" where
  "tier_distribution_json t = JObj
     [(''no_tier'', jnat (td_no_tier t)), (''e0_discovered'', jnat (td_e0_discovered t)),
      (''e1_resolved'', jnat (td_e1_resolved t)),
      (''e2_static_verified'', jnat (td_e2_static_verified t)),
      (''e3_dynamic_verified'', jnat (td_e3_dynamic_verified t)),
      (''e4_razorpay_grounded'', jnat (td_e4_razorpay_grounded t))]"

definition run_summary_json :: "run_summary \<Rightarrow> json" where
  "run_summary_json s = JObj
     [(''verified_pass'', jnat (vs_verified_pass s)), (''verified_fail'', jnat (vs_verified_fail s)),
      (''static_warning'', jnat (vs_static_warning s)), (''needs_input'', jnat (vs_needs_input s)),
      (''unverified'', jnat (vs_unverified s)), (''not_applicable'', jnat (vs_not_applicable s)),
      (''dynamic_coverage_numerator'', jnat (vs_dynamic_coverage_numerator s)),
      (''dynamic_coverage_denominator'', jnat (vs_dynamic_coverage_denominator s)),
      (''evidence_tiers'', tier_distribution_json (vs_evidence_tiers s))]"

section \<open>The run\<close>

record verification_run =
  vr_schema_version :: nat
  vr_producer_version :: string
  vr_generated_at :: stamp
  vr_run_id :: string
  vr_created_at :: stamp
  vr_completed_at :: stamp
  vr_authority :: verification_authority
  vr_checks :: "verification_check list"
  vr_findings :: "finding list"
  vr_summary :: run_summary
  vr_run_fingerprint :: string

definition verification_run_fingerprint_payload :: "verification_run \<Rightarrow> json" where
  "verification_run_fingerprint_payload r = JObj
     [(''artifact_type'', JStr ''VERIFICATION_RUN''),
      (''schema_version'', jnat (vr_schema_version r)),
      (''producer_version'', JStr (vr_producer_version r)),
      (''generated_at'', JStr (dt_isoformat (vr_generated_at r))),
      (''run_id'', JStr (vr_run_id r)), (''status'', JStr ''COMPLETED''),
      (''created_at'', JStr (dt_isoformat (vr_created_at r))),
      (''completed_at'', JStr (dt_isoformat (vr_completed_at r))),
      (''authority'', verification_authority_json
         (vr_schema_version r \<noteq> 1 \<and> vr_schema_version r \<noteq> 2) (vr_authority r)),
      (''checks'', JArr (map (verification_check_json (vr_schema_version r)) (vr_checks r))),
      (''findings'', JArr (map finding_json (vr_findings r))),
      (''summary'', run_summary_json (vr_summary r))]"

text \<open>The stages of \<open>validate_run\<close>, in its order.\<close>

definition check_run_identity :: "verification_run \<Rightarrow> error option" where
  "check_run_identity r =
     (if dt_instant (vr_completed_at r) < dt_instant (vr_created_at r)
      then Some (ValueError ''verification run completion cannot precede creation'')
      else if \<not> distinct (map vc_check_id (vr_checks r))
      then Some (ValueError ''verification check occurrence IDs must be unique'')
      else if \<not> distinct (map vc_check_key (vr_checks r))
      then Some (ValueError ''verification check keys must be unique within one run'')
      else None)"

definition check_run_schema :: "verification_run \<Rightarrow> error option" where
  "check_run_schema r =
     (if vr_schema_version r = 1 \<and> list_ex (\<lambda>c. vc_relevant_authority c \<noteq> None) (vr_checks r)
      then Some (ValueError ''schema-v1 verification checks cannot carry v2 authority'')
      else if vr_schema_version r \<in> {2, 3} \<and>
        list_ex (\<lambda>c. vc_relevant_authority c = None) (vr_checks r)
      then Some (ValueError ''current verification checks require relevant authority'')
      else if vr_schema_version r \<in> {1, 2} \<and>
        (va_razorpay_grounding (vr_authority r) \<noteq> None \<or>
         list_ex (\<lambda>c. vc_grounding c \<noteq> None) (vr_checks r))
      then Some (ValueError ''legacy verification runs cannot carry Razorpay grounding'')
      else if vr_schema_version r = 3 \<and>
        sv_scenario_execution_result (va_schema_versions (vr_authority r)) \<noteq> 3
      then Some (ValueError ''schema-v3 verification requires scenario result schema v3'')
      else None)"

definition e4_checks :: "verification_check list \<Rightarrow> verification_check list" where
  "e4_checks = filter (\<lambda>c. vc_evidence_tier c = Some E4_RAZORPAY_GROUNDED)"

definition check_run_grounding :: "verification_run \<Rightarrow> error option" where
  "check_run_grounding r =
     (let a = vr_authority r;
          version = sv_razorpay_grounding (va_schema_versions a)
      in case va_razorpay_grounding a of
           Some g \<Rightarrow>
             if gs_run_id g \<noteq> vr_run_id r \<or>
                \<not> (dt_instant (vr_created_at r) \<le> dt_instant (gs_acquired_at g) \<and>
                   dt_instant (gs_acquired_at g) \<le> dt_instant (vr_completed_at r)) \<or>
                version \<noteq> Some 1
             then Some (ValueError ''run grounding must be current and bound to the exact run'')
             else None
         | None \<Rightarrow>
             if version \<noteq> None
             then Some (ValueError ''grounding schema authority requires a grounding attempt'')
             else None)"

definition check_run_e4 :: "verification_run \<Rightarrow> error option" where
  "check_run_e4 r =
     (let e4 = e4_checks (vr_checks r)
      in if length e4 > 1
         then Some (ValueError ''bounded grounding may promote at most one SG-01 check'')
         else if e4 = [] then None
         else case va_razorpay_grounding (vr_authority r) of
           None \<Rightarrow> Some (ValueError ''E4 checks require a successful run grounding snapshot'')
         | Some g \<Rightarrow>
             if gs_status g \<noteq> GROUNDING_GROUNDED
             then Some (ValueError ''E4 checks require a successful run grounding snapshot'')
             else if list_ex (\<lambda>c. case vc_grounding c of
                 None \<Rightarrow> True
               | Some cg \<Rightarrow> cg_grounding_fingerprint cg \<noteq> gs_grounding_fingerprint g \<or>
                   Some (cg_sanitized_projection_fingerprint cg) \<noteq> gs_sanitized_projection_fingerprint g)
               e4
             then Some (ValueError ''E4 check grounding must match exact run authority'')
             else None)"

definition run_runtime_fingerprints :: "verification_check list \<Rightarrow> string list" where
  "run_runtime_fingerprints checks = sorted_set
     (List.map_filter (\<lambda>c. ru_runtime_capability_fingerprint (vc_runtime_evidence c)) checks)"

definition check_check_identity :: "verification_run \<Rightarrow> verification_check \<Rightarrow> error option" where
  "check_check_identity r c =
     (if Inr (vc_assertion_id c) \<noteq> assertion_id (vc_scenario_instance_id c) (vc_assertion_key c)
      then Some (ValueError ''verification assertion identity is not canonical'')
      else if vc_check_id c \<noteq>
        verification_check_id (vr_run_id r) (vc_scenario_instance_id c) (vc_assertion_id c)
      then Some (ValueError ''verification check occurrence identity is not canonical'')
      else if Inr (vc_check_key c) \<noteq> build_verification_check_key
          (va_project_id (vr_authority r)) (vc_scenario_id c) (vc_assertion_key c)
          (vc_invariant_id c) (vc_invariant_version c) (vc_targets c)
          (vc_key_policy_dimensions c) (va_policy (vr_authority r))
      then Some (ValueError ''verification check key is not canonical'')
      else None)"

definition check_check_reverification :: "verification_run \<Rightarrow> verification_check \<Rightarrow> error option" where
  "check_check_reverification r c =
     (let v = vc_reverification c; a = vr_authority r
      in if vf_scenario_id v \<noteq> vc_scenario_id c \<or> vf_assertion_key v \<noteq> vc_assertion_key c \<or>
            vf_invariant_id v \<noteq> vc_invariant_id c \<or>
            vf_invariant_version v \<noteq> vc_invariant_version c \<or> vf_targets v \<noteq> vc_targets c \<or>
            vf_config_fingerprint v \<noteq> va_config_fingerprint a \<or>
            vf_project_source_fingerprint v \<noteq> va_project_source_fingerprint a \<or>
            vf_projected_graph_fingerprint v \<noteq> va_projected_graph_fingerprint a \<or>
            vf_applicability_fingerprint v \<noteq> va_applicability_fingerprint a \<or>
            vf_razorpay_rule_catalog_fingerprint v \<noteq> rl_catalog_fingerprint (va_razorpay_rules a)
         then Some (ValueError ''check re-verification authority is inconsistent with its run'')
         else None)"

definition check_check_policy :: "verification_run \<Rightarrow> verification_check \<Rightarrow> error option" where
  "check_check_policy r c =
     (let p = vc_policy_authority c; q = va_policy (vr_authority r)
      in if DIM_FULFILMENT \<in> set (cp_dimensions p) \<and>
            (cp_fulfilment p \<noteq> ps_fulfilment q \<or>
             cp_fulfilment_evidence_fingerprint p \<noteq> Some (ps_fulfilment_evidence_fingerprint q))
         then Some (ValueError ''check fulfilment authority is inconsistent with its run'')
         else if DIM_LATE_AUTHORISATION \<in> set (cp_dimensions p) \<and>
            (cp_late_authorisation p \<noteq> ps_late_authorisation q \<or>
             cp_late_authorisation_evidence_fingerprint p \<noteq>
               Some (ps_late_authorisation_evidence_fingerprint q))
         then Some (ValueError ''check late-policy authority is inconsistent with its run'')
         else None)"

definition check_check_authority :: "verification_run \<Rightarrow> verification_check \<Rightarrow> error option" where
  "check_check_authority r c =
     first_error [check_check_identity r c, check_check_reverification r c, check_check_policy r c]"

definition check_run_projections :: "verification_run \<Rightarrow> error option" where
  "check_run_projections r =
     (if vr_findings r \<noteq> derive_findings (vr_run_id r) (vr_checks r)
      then Some (ValueError ''findings must be derived exactly from normalized checks'')
      else if vr_summary r \<noteq> summarize_checks (vr_checks r)
      then Some (ValueError ''run summary must be derived exactly from normalized checks'')
      else if set (concat (map vc_razorpay_rule_ids (vr_checks r))) \<noteq>
              set (map rn_rule_id (rl_referenced_rules (va_razorpay_rules (vr_authority r))))
      then Some (ValueError ''run rule snapshot must match check rule references'')
      else if vr_run_fingerprint r \<noteq> fingerprint_json (verification_run_fingerprint_payload r)
      then Some (ValueError ''verification-run fingerprint must match artifact contents'')
      else None)"

definition validate_run :: "verification_run \<Rightarrow> error option" where
  "validate_run r =
     first_error [
       require_run_timezone (vr_created_at r), require_run_timezone (vr_completed_at r),
       (if vr_checks r = [] then Some (ValueError ''too_short'') else None),
       check_run_identity r, check_run_schema r, check_run_grounding r, check_run_e4 r,
       (if run_runtime_fingerprints (vr_checks r) \<noteq>
           va_runtime_capability_fingerprints (vr_authority r)
        then Some (ValueError ''run runtime authority must match check evidence'') else None),
       first_error (map (check_check_authority r) (vr_checks r)),
       check_run_projections r]"

text \<open>A run is constructed from records that passed their own validators.\<close>

definition valid_run :: "verification_run \<Rightarrow> bool" where
  "valid_run r \<longleftrightarrow> list_all (\<lambda>c. validate_check c = None) (vr_checks r) \<and> validate_run r = None"

end
