(* ===== verification/CIGate.thy ===== *)
theory CIGate
  imports Evidence "HOL-Library.Product_Lexorder"
begin

text \<open>
  The release gate of \<open>ci/contracts.py\<close> and \<open>ci/gate.py\<close>: the projection of the checks of a
  verification run into counts, blockers, a status, a reason and a process exit code, and the
  validator of the gate result.  The lemmas reduce every count to a filter over the checks, and
  show that what the evaluation builds is what its own validator accepts.
\<close>

section \<open>Contracts\<close>

datatype gate_status = GATE_PASSED | GATE_VERIFIED_FAILURE | GATE_NOT_PROVEN

datatype gate_reason =
    REQUIRED_CHECKS_PASSED
  | NO_APPLICABLE_REQUIRED_CHECKS
  | REASON_PROVEN_FAILURE
  | REQUIRED_CHECKS_NOT_PROVEN

datatype blocker_class = PROVEN_FAILURE | REQUIRED_NOT_PROVEN

record result_counts =
  rc_verified_pass :: nat
  rc_verified_fail :: nat
  rc_static_warning :: nat
  rc_needs_input :: nat
  rc_unverified :: nat
  rc_not_applicable :: nat

definition counts_total :: "result_counts \<Rightarrow> nat" where
  "counts_total c = rc_verified_pass c + rc_verified_fail c + rc_static_warning c +
     rc_needs_input c + rc_unverified c + rc_not_applicable c"

record blocking_check =
  bk_blocker_class :: blocker_class
  bk_role :: assertion_role
  bk_check_key :: string
  bk_scenario_id :: scenario_id
  bk_assertion_key :: string
  bk_result :: result_state
  bk_reason :: result_reason

definition not_proven_states :: "result_state set" where
  "not_proven_states = {STATIC_WARNING, RESULT_NEEDS_INPUT, UNVERIFIED}"

definition validate_blocker :: "blocking_check \<Rightarrow> error option" where
  "validate_blocker b =
     (if bk_blocker_class b = PROVEN_FAILURE
      then (if bk_result b \<noteq> VERIFIED_FAIL
            then Some (ValueError ''proven-failure blockers must be VERIFIED FAIL'') else None)
      else if bk_role b \<noteq> CORE \<or>
              bk_result b \<notin> {STATIC_WARNING, RESULT_NEEDS_INPUT, UNVERIFIED}
      then Some (ValueError ''required-not-proven blockers must be unresolved core checks'')
      else None)"

record gate_result =
  gt_status :: gate_status
  gt_reason :: gate_reason
  gt_exit_code :: nat
  gt_run_id :: string
  gt_run_fingerprint :: string
  gt_all_check_counts :: result_counts
  gt_core_check_counts :: result_counts
  gt_proven_failure_count :: nat
  gt_core_not_proven_count :: nat
  gt_applicable_core_check_count :: nat
  gt_blocking_checks :: "blocking_check list"

text \<open>The sort key is a tuple of three strings, compared lexicographically.\<close>

definition blocker_key :: "blocking_check \<Rightarrow> string \<times> string \<times> string" where
  "blocker_key b = (scenario_id_value (bk_scenario_id b), bk_assertion_key b, bk_check_key b)"

definition expected_outcome :: "nat \<Rightarrow> nat \<Rightarrow> nat \<Rightarrow> gate_status \<times> gate_reason \<times> nat" where
  "expected_outcome failures not_proven applicable =
     (if failures \<noteq> 0 then (GATE_VERIFIED_FAILURE, REASON_PROVEN_FAILURE, 1)
      else if not_proven \<noteq> 0 then (GATE_NOT_PROVEN, REQUIRED_CHECKS_NOT_PROVEN, 2)
      else if applicable = 0 then (GATE_NOT_PROVEN, NO_APPLICABLE_REQUIRED_CHECKS, 2)
      else (GATE_PASSED, REQUIRED_CHECKS_PASSED, 0))"

definition counts_exceed :: "result_counts \<Rightarrow> result_counts \<Rightarrow> bool" where
  "counts_exceed core all_counts \<longleftrightarrow>
     rc_verified_pass core > rc_verified_pass all_counts \<or>
     rc_verified_fail core > rc_verified_fail all_counts \<or>
     rc_static_warning core > rc_static_warning all_counts \<or>
     rc_needs_input core > rc_needs_input all_counts \<or>
     rc_unverified core > rc_unverified all_counts \<or>
     rc_not_applicable core > rc_not_applicable all_counts"

definition validate_gate :: "gate_result \<Rightarrow> error option" where
  "validate_gate g =
     (let core = gt_core_check_counts g; every = gt_all_check_counts g;
          blockers = gt_blocking_checks g
      in if counts_total core > counts_total every
         then Some (ValueError ''core check counts cannot exceed all check counts'')
         else if counts_exceed core every
         then Some (ValueError ''core result-state counts cannot exceed all-check counts'')
         else if gt_proven_failure_count g \<noteq> rc_verified_fail every
         then Some (ValueError ''proven-failure count must include every verified failure'')
         else if gt_core_not_proven_count g \<noteq>
                 rc_static_warning core + rc_needs_input core + rc_unverified core
         then Some (ValueError ''core not-proven count must match unresolved core states'')
         else if gt_applicable_core_check_count g \<noteq> counts_total core - rc_not_applicable core
         then Some (ValueError ''applicable core count must exclude only NOT APPLICABLE checks'')
         else if blockers \<noteq> sort_key blocker_key blockers
         then Some (ValueError ''CI blockers must be deterministically ordered'')
         else if \<not> distinct (map bk_check_key blockers)
         then Some (ValueError ''CI blockers must have unique logical check keys'')
         else if length (filter (\<lambda>b. bk_blocker_class b = PROVEN_FAILURE) blockers) \<noteq>
                 gt_proven_failure_count g
         then Some (ValueError ''every proven failure must be represented as a blocker'')
         else if length (filter (\<lambda>b. bk_blocker_class b = REQUIRED_NOT_PROVEN) blockers) \<noteq>
                 gt_core_not_proven_count g
         then Some (ValueError ''every unresolved core check must be represented as a blocker'')
         else if (gt_status g, gt_reason g, gt_exit_code g) \<noteq>
                 expected_outcome (gt_proven_failure_count g) (gt_core_not_proven_count g)
                   (gt_applicable_core_check_count g)
         then Some (ValueError ''CI gate status, reason, and exit code are inconsistent'')
         else None)"

section \<open>Evaluation\<close>

definition result_counts_of :: "verification_check list \<Rightarrow> result_counts" where
  "result_counts_of checks =
     \<lparr>rc_verified_pass = count_state checks VERIFIED_PASS,
      rc_verified_fail = count_state checks VERIFIED_FAIL,
      rc_static_warning = count_state checks STATIC_WARNING,
      rc_needs_input = count_state checks RESULT_NEEDS_INPUT,
      rc_unverified = count_state checks UNVERIFIED,
      rc_not_applicable = count_state checks RESULT_NOT_APPLICABLE\<rparr>"

definition blocker :: "verification_check \<Rightarrow> blocking_check result" where
  "blocker c =
     (let b = \<lparr>bk_blocker_class =
                 (if vc_result c = VERIFIED_FAIL then PROVEN_FAILURE else REQUIRED_NOT_PROVEN),
               bk_role = ae_role (vc_applicability c), bk_check_key = vc_check_key c,
               bk_scenario_id = vc_scenario_id c, bk_assertion_key = vc_assertion_key c,
               bk_result = vc_result c, bk_reason = vc_reason c\<rparr>
      in case validate_blocker b of Some e \<Rightarrow> Inl e | None \<Rightarrow> Inr b)"

definition core_checks :: "verification_check list \<Rightarrow> verification_check list" where
  "core_checks = filter (\<lambda>c. ae_role (vc_applicability c) = CORE)"

definition proven_failures :: "verification_check list \<Rightarrow> verification_check list" where
  "proven_failures = filter (\<lambda>c. vc_result c = VERIFIED_FAIL)"

definition core_not_proven :: "verification_check list \<Rightarrow> verification_check list" where
  "core_not_proven checks = filter (\<lambda>c. vc_result c \<in> not_proven_states) (core_checks checks)"

definition evaluate_ci_gate :: "verification_run \<Rightarrow> gate_result result" where
  "evaluate_ci_gate run =
     (let checks = vr_checks run;
          failures = proven_failures checks;
          unresolved = core_not_proven checks;
          core_counts = result_counts_of (core_checks checks);
          applicable = counts_total core_counts - rc_not_applicable core_counts
      in bind_result (traverse blocker (failures @ unresolved)) (\<lambda>blockers.
         case (if failures \<noteq> [] then (GATE_VERIFIED_FAILURE, REASON_PROVEN_FAILURE, 1)
               else if unresolved \<noteq> [] then (GATE_NOT_PROVEN, REQUIRED_CHECKS_NOT_PROVEN, 2)
               else if applicable = 0 then (GATE_NOT_PROVEN, NO_APPLICABLE_REQUIRED_CHECKS, 2)
               else (GATE_PASSED, REQUIRED_CHECKS_PASSED, 0)) of
           (status, reason, exit_code) \<Rightarrow>
             (let g = \<lparr>gt_status = status, gt_reason = reason, gt_exit_code = exit_code,
                       gt_run_id = vr_run_id run, gt_run_fingerprint = vr_run_fingerprint run,
                       gt_all_check_counts = result_counts_of checks,
                       gt_core_check_counts = core_counts,
                       gt_proven_failure_count = length failures,
                       gt_core_not_proven_count = length unresolved,
                       gt_applicable_core_check_count = applicable,
                       gt_blocking_checks = sort_key blocker_key blockers\<rparr>
              in case validate_gate g of Some e \<Rightarrow> Inl e | None \<Rightarrow> Inr g)))"

section \<open>Counts are filters\<close>

lemma count_state_filter_le: "count_state (filter p checks) s \<le> count_state checks s"
  by (induction checks) (auto simp: count_state_def)

lemma counts_total_of: "counts_total (result_counts_of checks) = length checks"
proof (induction checks)
  case (Cons c cs)
  then show ?case
    by (cases "vc_result c") (simp_all add: counts_total_def result_counts_of_def count_state_def)
qed (simp add: counts_total_def result_counts_of_def count_state_def)

lemma result_counts_of_simps [simp]:
  "rc_verified_fail (result_counts_of checks) = count_state checks VERIFIED_FAIL"
  "rc_static_warning (result_counts_of checks) = count_state checks STATIC_WARNING"
  "rc_needs_input (result_counts_of checks) = count_state checks RESULT_NEEDS_INPUT"
  "rc_unverified (result_counts_of checks) = count_state checks UNVERIFIED"
  "rc_not_applicable (result_counts_of checks) = count_state checks RESULT_NOT_APPLICABLE"
  by (simp_all add: result_counts_of_def)

lemma length_proven_failures: "length (proven_failures checks) = count_state checks VERIFIED_FAIL"
  by (simp add: proven_failures_def count_state_def)

lemma length_core_not_proven:
  "length (core_not_proven checks) = count_state (core_checks checks) STATIC_WARNING +
     count_state (core_checks checks) RESULT_NEEDS_INPUT + count_state (core_checks checks) UNVERIFIED"
proof -
  have "length (filter (\<lambda>c. vc_result c \<in> not_proven_states) cs) =
      count_state cs STATIC_WARNING + count_state cs RESULT_NEEDS_INPUT + count_state cs UNVERIFIED" for cs
    by (induction cs) (auto simp: count_state_def not_proven_states_def)
  then show ?thesis by (simp add: core_not_proven_def)
qed

lemma applicable_count:
  "counts_total (result_counts_of (core_checks checks)) - rc_not_applicable (result_counts_of (core_checks checks))
     = length (filter (\<lambda>c. vc_result c \<noteq> RESULT_NOT_APPLICABLE) (core_checks checks))"
proof -
  have "length cs - count_state cs RESULT_NOT_APPLICABLE =
      length (filter (\<lambda>c. vc_result c \<noteq> RESULT_NOT_APPLICABLE) cs)" for cs
    using sum_length_filter_compl[of "\<lambda>c. vc_result c = RESULT_NOT_APPLICABLE" cs]
    by (simp add: count_state_def)
  then show ?thesis unfolding counts_total_of by (simp add: result_counts_of_def)
qed

section \<open>Blockers\<close>

definition blocker_of :: "verification_check \<Rightarrow> blocking_check" where
  "blocker_of c =
     \<lparr>bk_blocker_class = (if vc_result c = VERIFIED_FAIL then PROVEN_FAILURE else REQUIRED_NOT_PROVEN),
      bk_role = ae_role (vc_applicability c), bk_check_key = vc_check_key c,
      bk_scenario_id = vc_scenario_id c, bk_assertion_key = vc_assertion_key c,
      bk_result = vc_result c, bk_reason = vc_reason c\<rparr>"

lemma blocker_of_simps [simp]:
  "bk_check_key (blocker_of c) = vc_check_key c"
  "bk_blocker_class (blocker_of c) = PROVEN_FAILURE \<longleftrightarrow> vc_result c = VERIFIED_FAIL"
  "bk_blocker_class (blocker_of c) = REQUIRED_NOT_PROVEN \<longleftrightarrow> vc_result c \<noteq> VERIFIED_FAIL"
  by (simp_all add: blocker_of_def)

definition blocking :: "verification_check list \<Rightarrow> verification_check list" where
  "blocking checks = proven_failures checks @ core_not_proven checks"

lemma blocker_accepted: "c \<in> set (blocking checks) \<Longrightarrow> blocker c = Inr (blocker_of c)"
  by (auto simp: blocking_def proven_failures_def core_not_proven_def core_checks_def blocker_def
      blocker_of_def validate_blocker_def not_proven_states_def Let_def)

lemma blockers_total: "traverse blocker (blocking checks) = Inr (map blocker_of (blocking checks))"
  by (rule traverse_total) (rule blocker_accepted)

text \<open>No check blocks twice, so the blockers have the distinct keys of their checks.\<close>

lemma blocking_keys_distinct:
  assumes "distinct (map vc_check_key checks)"
  shows "distinct (map vc_check_key (blocking checks))"
proof -
  have "distinct checks" and inj: "inj_on vc_check_key (set checks)"
    using assms by (simp_all add: distinct_map)
  then have "distinct (blocking checks)"
    by (auto simp: blocking_def proven_failures_def core_not_proven_def core_checks_def not_proven_states_def)
  moreover have "set (blocking checks) \<subseteq> set checks"
    by (auto simp: blocking_def proven_failures_def core_not_proven_def core_checks_def)
  ultimately show ?thesis using inj by (simp add: distinct_map inj_on_subset)
qed

lemma blocker_key_inj:
  assumes "distinct (map vc_check_key checks)"
  shows "inj_on blocker_key (set (map blocker_of (blocking checks)))"
proof -
  have "inj_on vc_check_key (set (blocking checks))"
    using blocking_keys_distinct[OF assms] by (simp add: distinct_map)
  then show ?thesis
    by (auto simp: inj_on_def blocker_key_def)
qed

lemma filter_sort_length: "length (filter p (sort_key f xs)) = length (filter p xs)"
  by (simp add: filter_sort)

section \<open>The gate in closed form\<close>

definition gate_of :: "verification_run \<Rightarrow> gate_result" where
  "gate_of run =
     (let checks = vr_checks run; core = result_counts_of (core_checks checks);
          outcome = expected_outcome (length (proven_failures checks))
            (length (core_not_proven checks))
            (length (filter (\<lambda>c. vc_result c \<noteq> RESULT_NOT_APPLICABLE) (core_checks checks)))
      in \<lparr>gt_status = fst outcome, gt_reason = fst (snd outcome), gt_exit_code = snd (snd outcome),
          gt_run_id = vr_run_id run, gt_run_fingerprint = vr_run_fingerprint run,
          gt_all_check_counts = result_counts_of checks, gt_core_check_counts = core,
          gt_proven_failure_count = length (proven_failures checks),
          gt_core_not_proven_count = length (core_not_proven checks),
          gt_applicable_core_check_count =
            length (filter (\<lambda>c. vc_result c \<noteq> RESULT_NOT_APPLICABLE) (core_checks checks)),
          gt_blocking_checks = sort_key blocker_key (map blocker_of (blocking checks))\<rparr>)"

lemma gate_of_simps [simp]:
  "gt_all_check_counts (gate_of run) = result_counts_of (vr_checks run)"
  "gt_core_check_counts (gate_of run) = result_counts_of (core_checks (vr_checks run))"
  "gt_proven_failure_count (gate_of run) = length (proven_failures (vr_checks run))"
  "gt_core_not_proven_count (gate_of run) = length (core_not_proven (vr_checks run))"
  "gt_blocking_checks (gate_of run) = sort_key blocker_key (map blocker_of (blocking (vr_checks run)))"
  by (simp_all add: gate_of_def Let_def)

lemma outcome_of_lists:
  "(if failures \<noteq> [] then (GATE_VERIFIED_FAILURE, REASON_PROVEN_FAILURE, 1)
    else if unresolved \<noteq> [] then (GATE_NOT_PROVEN, REQUIRED_CHECKS_NOT_PROVEN, 2)
    else if n = 0 then (GATE_NOT_PROVEN, NO_APPLICABLE_REQUIRED_CHECKS, 2)
    else (GATE_PASSED, REQUIRED_CHECKS_PASSED, 0)) = expected_outcome (length failures) (length unresolved) n"
  by (simp add: expected_outcome_def)

lemma evaluate_gate_of:
  "evaluate_ci_gate run =
     (case validate_gate (gate_of run) of Some e \<Rightarrow> Inl e | None \<Rightarrow> Inr (gate_of run))"
  unfolding evaluate_ci_gate_def Let_def blocking_def[symmetric] blockers_total bind_result_simps
    applicable_count outcome_of_lists
  by (simp only: gate_of_def Let_def split_beta)

lemma count_blockers:
  "length (filter (\<lambda>b. bk_blocker_class b = PROVEN_FAILURE) (map blocker_of (blocking checks)))
     = length (proven_failures checks)"
  "length (filter (\<lambda>b. bk_blocker_class b = REQUIRED_NOT_PROVEN) (map blocker_of (blocking checks)))
     = length (core_not_proven checks)"
proof -
  have p: "filter (\<lambda>c. vc_result c = VERIFIED_FAIL) (proven_failures checks) = proven_failures checks"
    "filter (\<lambda>c. vc_result c \<noteq> VERIFIED_FAIL) (proven_failures checks) = []"
    by (auto simp: proven_failures_def filter_empty_conv)
  have n: "filter (\<lambda>c. vc_result c = VERIFIED_FAIL) (core_not_proven checks) = []"
    "filter (\<lambda>c. vc_result c \<noteq> VERIFIED_FAIL) (core_not_proven checks) = core_not_proven checks"
    by (auto simp: core_not_proven_def not_proven_states_def filter_empty_conv intro: filter_cong)
  show "length (filter (\<lambda>b. bk_blocker_class b = PROVEN_FAILURE) (map blocker_of (blocking checks)))
     = length (proven_failures checks)"
    by (simp add: filter_map o_def blocking_def p n)
  show "length (filter (\<lambda>b. bk_blocker_class b = REQUIRED_NOT_PROVEN) (map blocker_of (blocking checks)))
     = length (core_not_proven checks)"
    by (simp add: filter_map o_def blocking_def p n)
qed

lemma sorted_blockers: "sort_key blocker_key (sort_key blocker_key bs) = sort_key blocker_key bs"
  by (rule sort_key_id_if_sorted) simp

lemma gate_accepted:
  assumes "distinct (map vc_check_key (vr_checks run))"
  shows "validate_gate (gate_of run) = None"
proof -
  let ?checks = "vr_checks run" and ?g = "gate_of run"
  let ?blockers = "map blocker_of (blocking ?checks)"
  have le: "length (core_checks ?checks) \<le> length ?checks" by (simp add: core_checks_def)
  have exceed: "\<not> counts_exceed (result_counts_of (core_checks ?checks)) (result_counts_of ?checks)"
    using count_state_filter_le[of "\<lambda>c. ae_role (vc_applicability c) = CORE" ?checks]
    by (simp add: counts_exceed_def result_counts_of_def core_checks_def not_less)
  have keys: "distinct (map bk_check_key (sort_key blocker_key ?blockers))"
    using blocking_keys_distinct[OF assms]
    by (auto simp: distinct_map inj_on_def) (metis blocker_of_simps(1))+
  have outcome: "(gt_status ?g, gt_reason ?g, gt_exit_code ?g) =
      expected_outcome (length (proven_failures ?checks)) (length (core_not_proven ?checks))
        (gt_applicable_core_check_count ?g)"
    by (simp add: gate_of_def Let_def)
  have applicable: "gt_applicable_core_check_count ?g =
      counts_total (result_counts_of (core_checks ?checks)) - rc_not_applicable (result_counts_of (core_checks ?checks))"
    by (simp only: applicable_count) (simp add: gate_of_def Let_def)
  show ?thesis
    unfolding validate_gate_def Let_def gate_of_simps outcome sorted_blockers filter_sort_length count_blockers
    using le exceed keys applicable length_core_not_proven[of ?checks] length_proven_failures[of ?checks]
    by (simp add: counts_total_of)
qed

lemma evaluate_total:
  "distinct (map vc_check_key (vr_checks run)) \<Longrightarrow> evaluate_ci_gate run = Inr (gate_of run)"
  by (simp add: evaluate_gate_of gate_accepted)

lemma evaluate_Inr: "evaluate_ci_gate run = Inr g \<Longrightarrow> g = gate_of run"
  by (simp add: evaluate_gate_of split: option.splits)

end
