(* ===== verification/EvidenceProperties.thy ===== *)
theory EvidenceProperties
  imports CIGate
begin

text \<open>
  What a valid verification run guarantees, the exact comparison of a historical check with a
  current run (\<open>remediation/comparison.py\<close>), and the properties of findings, coverage,
  grounding, gate and comparison.
\<close>

section \<open>Comparison by exact key\<close>

datatype comparison_outcome =
    PROVEN_RESOLVED
  | STILL_VERIFIED_FAIL
  | COMPARED_NOT_PROVEN
  | COMPARED_NOT_APPLICABLE
  | NOT_DIRECTLY_COMPARABLE

record finding_comparison =
  fc_historical_run_id :: string
  fc_current_run_id :: string
  fc_check_key :: string
  fc_outcome :: comparison_outcome
  fc_current_check_id :: "string option"

fun outcome_of :: "result_state \<Rightarrow> comparison_outcome" where
  "outcome_of VERIFIED_PASS = PROVEN_RESOLVED"
| "outcome_of VERIFIED_FAIL = STILL_VERIFIED_FAIL"
| "outcome_of RESULT_NOT_APPLICABLE = COMPARED_NOT_APPLICABLE"
| "outcome_of UNVERIFIED = COMPARED_NOT_PROVEN"
| "outcome_of RESULT_NEEDS_INPUT = COMPARED_NOT_PROVEN"
| "outcome_of STATIC_WARNING = COMPARED_NOT_PROVEN"

definition compare_exact_check ::
  "verification_run \<Rightarrow> verification_check \<Rightarrow> verification_run \<Rightarrow> finding_comparison" where
  "compare_exact_check historical_run historical_check current_run =
     (case filter (\<lambda>c. vc_check_key c = vc_check_key historical_check) (vr_checks current_run) of
        [current] \<Rightarrow>
          \<lparr>fc_historical_run_id = vr_run_id historical_run, fc_current_run_id = vr_run_id current_run,
           fc_check_key = vc_check_key historical_check,
           fc_outcome = outcome_of (vc_result current),
           fc_current_check_id = Some (vc_check_id current)\<rparr>
      | _ \<Rightarrow>
          \<lparr>fc_historical_run_id = vr_run_id historical_run, fc_current_run_id = vr_run_id current_run,
           fc_check_key = vc_check_key historical_check,
           fc_outcome = NOT_DIRECTLY_COMPARABLE, fc_current_check_id = None\<rparr>)"

section \<open>Valid runs\<close>

lemma valid_run_stages:
  assumes "valid_run r"
  shows "check_run_identity r = None" and "check_run_grounding r = None" and "check_run_e4 r = None"
    and "check_run_projections r = None"
    and "c \<in> set (vr_checks r) \<Longrightarrow> validate_check c = None"
    and "c \<in> set (vr_checks r) \<Longrightarrow> check_check_authority r c = None"
  using assms by (auto simp: valid_run_def validate_run_def first_error_None_iff list_all_iff)

lemma valid_run_keys_distinct: "valid_run r \<Longrightarrow> distinct (map vc_check_key (vr_checks r))"
  using valid_run_stages(1)[of r] by (simp add: check_run_identity_def split: if_splits)

lemma valid_run_findings: "valid_run r \<Longrightarrow> vr_findings r = derive_findings (vr_run_id r) (vr_checks r)"
  using valid_run_stages(4)[of r] by (simp add: check_run_projections_def split: if_splits)

lemma valid_run_summary: "valid_run r \<Longrightarrow> vr_summary r = summarize_checks (vr_checks r)"
  using valid_run_stages(4)[of r] by (simp add: check_run_projections_def split: if_splits)

interpretation run_checks: keyed_records vc_check_key vr_checks valid_run
  by unfold_locales (rule valid_run_keys_distinct)

lemma valid_check_tier: "validate_check c = None \<Longrightarrow> dynamic_tier (vc_evidence_tier c) \<longleftrightarrow> verified_state (vc_result c)"
  by (auto simp: validate_check_def validate_tier_def dynamic_tier_def Let_def
      split: option.splits if_splits)

lemma filter_eq_single: "distinct xs \<Longrightarrow> x \<in> set xs \<Longrightarrow> filter (\<lambda>y. y = x) xs = [x]"
  by (induction xs) (auto simp: filter_empty_conv)

lemma count_tiers_dynamic:
  "count_tier checks (Some E3_DYNAMIC_VERIFIED) + count_tier checks (Some E4_RAZORPAY_GROUNDED)
     = length (filter (\<lambda>c. dynamic_tier (vc_evidence_tier c)) checks)"
  by (induction checks) (auto simp: count_tier_def dynamic_tier_def)

lemma count_states_verified:
  "count_state checks VERIFIED_PASS + count_state checks VERIFIED_FAIL
     = length (filter (\<lambda>c. verified_state (vc_result c)) checks)"
  by (induction checks) (auto simp: count_state_def verified_state_def)

lemma count_state_le: "count_state checks s \<le> length checks"
  by (simp add: count_state_def)

lemma verified_le_applicable:
  "length (filter (\<lambda>c. verified_state (vc_result c)) checks) \<le> length checks - count_state checks RESULT_NOT_APPLICABLE"
proof -
  have "length (filter (\<lambda>c. verified_state (vc_result c)) checks) + count_state checks RESULT_NOT_APPLICABLE
      \<le> length checks"
    by (induction checks) (auto simp: verified_state_def count_state_def)
  then show ?thesis by simp
qed

lemma critical_finding:
  "(\<exists>f \<in> set (derive_findings run_id checks). fi_critical f) \<longleftrightarrow>
   (\<exists>c \<in> set checks. vc_result c = VERIFIED_FAIL)"
proof -
  have "(\<exists>f. finding_of run_id c = Some f \<and> fi_critical f) \<longleftrightarrow> vc_result c = VERIFIED_FAIL" for c
    by (cases "vc_result c") (simp_all add: finding_of_def)
  then show ?thesis
    by (auto simp: derive_findings_def List.map_filter_def) (metis option.sel option.discI)+
qed

section \<open>Demonstration runs\<close>

definition demo_stamp :: stamp where
  "demo_stamp = \<lparr>dt_instant = 0, dt_isoformat = ''2026-09-01T00:00:00+00:00'', dt_aware = True,
     dt_json = ''2026-09-01T00:00:00Z''\<rparr>"

definition demo_targets :: check_targets where
  "demo_targets = \<lparr>ckt_ingress_node_id = Some ''n1'', ckt_route_registration_id = Some ''r1'',
     ckt_ingress_symbol_id = Some ''y0'', ckt_normal_control_id = Some ''c1'',
     ckt_customer_value_node_id = Some ''v1'', ckt_customer_value_symbol_id = Some ''y1'',
     ckt_connectivity_edge_id = Some ''e1'', ckt_mutation_node_ids = [],
     ckt_acknowledgement_node_ids = []\<rparr>"

definition demo_policy_snapshot :: policy_snapshot where
  "demo_policy_snapshot = \<lparr>ps_fulfilment = Some CAPTURE_REQUIRED,
     ps_fulfilment_evidence_fingerprint = ''p1'', ps_fulfilment_evidence_current = Some True,
     ps_late_authorisation = None, ps_late_authorisation_evidence_fingerprint = ''p2'',
     ps_late_authorisation_evidence_current = None\<rparr>"

definition demo_check_policy :: check_policy where
  "demo_check_policy = \<lparr>cp_dimensions = [], cp_fulfilment = None,
     cp_fulfilment_evidence_fingerprint = None, cp_late_authorisation = None,
     cp_late_authorisation_evidence_fingerprint = None\<rparr>"

definition demo_relevant_authority :: relevant_authority where
  "demo_relevant_authority = \<lparr>fr_source_files = [], fr_symbols = [], fr_call_sites = [],
     fr_call_path_references = [], fr_graph_nodes = [], fr_graph_edges = [],
     fr_applicability_assertion_fingerprint = ''a'', fr_selected_semantic_symbol_id = None,
     fr_semantic_resolution_fingerprint = None, fr_semantic_context_fingerprint = None,
     fr_key_policy_authority = demo_check_policy, fr_invariant_id = ''INV'',
     fr_invariant_version = 1, fr_scenario_definition_fingerprint = ''d'', fr_razorpay_rules = [],
     fr_razorpay_rule_catalog_fingerprint = ''rules'', fr_relevant_authority_fingerprint = ''x''\<rparr>"

text \<open>One undecided core check, as the run of an unavailable runtime has it.\<close>

definition demo_assertion_id :: string where
  "demo_assertion_id = stable_id ''sgassert'' [''i1'', strip SG02_ASSERTION_KEY]"

definition demo_check :: verification_check where
  "demo_check =
     \<lparr>vc_check_id = verification_check_id ''run1'' ''i1'' demo_assertion_id,
      vc_check_key = stable_id ''sgcheckkey'' (check_key_components ''p'' SG_02 SG02_ASSERTION_KEY ''INV'' 1
        demo_targets [] demo_policy_snapshot),
      vc_scenario_id = SG_02, vc_scenario_instance_id = ''i1'', vc_assertion_id = demo_assertion_id,
      vc_assertion_key = SG02_ASSERTION_KEY, vc_invariant_id = ''INV'', vc_invariant_version = 1,
      vc_expected_invariant = ''E'', vc_scenario_definition_fingerprint = ''d'',
      vc_scenario_result_fingerprint = ''r'',
      vc_applicability = \<lparr>ae_state = APPLICABLE, ae_role = CORE,
        ae_reasons = [AR_NORMAL_CAPTURE_THRESHOLD_AVAILABLE], ae_graph_node_ids = [], ae_graph_edge_ids = [],
        ae_normal_control_ids = []\<rparr>,
      vc_targets = demo_targets, vc_policy_authority = demo_check_policy,
      vc_key_policy_dimensions = [], vc_razorpay_rule_ids = [], vc_source_references = [],
      vc_graph_node_ids = [], vc_graph_edge_ids = [], vc_input_reference = None,
      vc_runtime_evidence = \<lparr>ru_scenario_execution_id = ''x1'', ru_runtime_session_id = None,
        ru_runtime_capability_fingerprint = None, ru_transcript_fingerprint = None,
        ru_requests = [], ru_diagnostics = []\<rparr>,
      vc_result = UNVERIFIED, vc_evidence_tier = None, vc_grounding = None,
      vc_reason = RUNTIME_SESSION_UNAVAILABLE,
      vc_reverification = \<lparr>vf_scenario_id = SG_02, vf_assertion_key = SG02_ASSERTION_KEY,
        vf_invariant_id = ''INV'', vf_invariant_version = 1, vf_targets = demo_targets,
        vf_input_reference = None, vf_config_fingerprint = ''cf'',
        vf_project_source_fingerprint = ''sf'', vf_projected_graph_fingerprint = ''pg'',
        vf_applicability_fingerprint = ''af'', vf_razorpay_rule_catalog_fingerprint = ''rules''\<rparr>,
      vc_relevant_authority = Some demo_relevant_authority\<rparr>"

definition demo_authority :: verification_authority where
  "demo_authority = \<lparr>va_project_id = ''p'', va_config_fingerprint = ''cf'',
     va_project_source_fingerprint = ''sf'', va_source_index_fingerprint = ''si'',
     va_structural_graph_fingerprint = ''sg'', va_projected_graph_fingerprint = ''pg'',
     va_applicability_fingerprint = ''af'', va_runtime_config_fingerprint = ''rf'',
     va_runtime_capability_fingerprints = [],
     va_semantic = \<lparr>sa_state = None, sa_basis = None, sa_selected_symbol_id = None,
       sa_resolution_fingerprint = None, sa_semantic_context_fingerprint = None,
       sa_selected_target_provenance = []\<rparr>,
     va_policy = demo_policy_snapshot,
     va_razorpay_rules = \<lparr>rl_catalog_fingerprint = ''rules'', rl_referenced_rules = []\<rparr>,
     va_razorpay_grounding = None,
     va_schema_versions = \<lparr>sv_scenario_execution_result = 3, sv_razorpay_grounding = None\<rparr>\<rparr>"

definition demo_draft_run :: "verification_authority \<Rightarrow> verification_check list \<Rightarrow> verification_run" where
  "demo_draft_run authority checks = \<lparr>vr_schema_version = 3, vr_producer_version = ''0.1'',
     vr_generated_at = demo_stamp, vr_run_id = ''run1'', vr_created_at = demo_stamp,
     vr_completed_at = demo_stamp, vr_authority = authority, vr_checks = checks,
     vr_findings = derive_findings ''run1'' checks, vr_summary = summarize_checks checks,
     vr_run_fingerprint = ''''\<rparr>"

definition demo_run :: "verification_authority \<Rightarrow> verification_check list \<Rightarrow> verification_run" where
  "demo_run authority checks = (demo_draft_run authority checks)\<lparr>vr_run_fingerprint :=
     fingerprint_json (verification_run_fingerprint_payload (demo_draft_run authority checks))\<rparr>"

text \<open>The same check after a grounded execution of SG-01.\<close>

definition grounded_input :: input_reference where
  "grounded_input = GroundedInput
     \<lparr>wi_authority = STATEGUARD_SYNTHETIC_FROM_RAZORPAY_TEST_RESOURCE, wi_fixture_fingerprint = ''fx'',
      wi_raw_body_fingerprint = ''rb'', wi_synthetic_event_id = ''evt_1'', wi_path = ''/hook'',
      wi_header_names = safe_header_names\<rparr> ''gf'' ''pf''"

definition grounded_request :: request_evidence where
  "grounded_request = \<lparr>re_request_id = ''q'', re_ordinal = 0, re_role = ROLE_NORMAL_CAPTURE,
     re_request_received_sequences = [1], re_response_completed_sequences = [4],
     re_request_aborted_sequences = [], re_http_status_code = Some 200,
     re_customer = Some \<lparr>ce_entered_count = 1, ce_returned_normally_count = 1,
       ce_exception_escaped_count = 0, ce_entered_sequences = [2],
       ce_returned_normally_sequences = [3], ce_exception_escaped_sequences = []\<rparr>,
     re_mutations = [], re_acknowledgement_injection = None\<rparr>"

definition grounded_check :: verification_check where
  "grounded_check = demo_check
     \<lparr>vc_scenario_id := SG_01, vc_result := VERIFIED_PASS, vc_reason := EXACT_TARGET_ENTERED_ONCE,
      vc_check_key := stable_id ''sgcheckkey'' (check_key_components ''p'' SG_01 SG02_ASSERTION_KEY ''INV'' 1
        demo_targets [] demo_policy_snapshot),
      vc_evidence_tier := Some E4_RAZORPAY_GROUNDED, vc_input_reference := Some grounded_input,
      vc_grounding := Some \<lparr>cg_grounding_fingerprint = ''gf'', cg_sanitized_projection_fingerprint = ''pf''\<rparr>,
      vc_runtime_evidence := \<lparr>ru_scenario_execution_id = ''x1'', ru_runtime_session_id = Some ''s1'',
        ru_runtime_capability_fingerprint = Some ''k'', ru_transcript_fingerprint = Some ''t'',
        ru_requests = [grounded_request], ru_diagnostics = []\<rparr>,
      vc_reverification := (vc_reverification demo_check)
        \<lparr>vf_scenario_id := SG_01, vf_input_reference := Some grounded_input\<rparr>\<rparr>"

definition grounded_snapshot :: grounding_snapshot where
  "grounded_snapshot = \<lparr>gs_status = GROUNDING_GROUNDED, gs_unavailable_reason = None,
     gs_run_id = ''run1'', gs_acquired_at = demo_stamp,
     gs_source_endpoint_kinds = [FETCH_PAYMENT, FETCH_LINKED_ORDER],
     gs_key_id_fingerprint = Some ''k1'', gs_payment_id_fingerprint = Some ''k2'',
     gs_order_id_fingerprint = Some ''k3'', gs_resource_snapshot_fingerprint = Some ''k4'',
     gs_sanitized_projection_fingerprint = Some ''pf'', gs_payment_captured = True,
     gs_order_paid = True, gs_linkage_consistent = True, gs_amount_consistent = True,
     gs_currency_consistent = True, gs_no_current_refund = True, gs_grounding_fingerprint = ''gf''\<rparr>"

definition grounded_authority :: verification_authority where
  "grounded_authority = demo_authority\<lparr>va_razorpay_grounding := Some grounded_snapshot,
     va_runtime_capability_fingerprints := [''k''],
     va_schema_versions := \<lparr>sv_scenario_execution_result = 3, sv_razorpay_grounding = Some 1\<rparr>\<rparr>"

lemmas demo_run_defs = demo_run_def demo_draft_run_def demo_authority_def demo_check_def demo_stamp_def

lemma demo_run_simps [simp]:
  "vr_checks (demo_run authority checks) = checks" "vr_authority (demo_run authority checks) = authority"
  "vr_run_id (demo_run authority checks) = ''run1''" "vr_schema_version (demo_run authority checks) = 3"
  "vr_created_at (demo_run authority checks) = demo_stamp" "vr_completed_at (demo_run authority checks) = demo_stamp"
  "vr_findings (demo_run authority checks) = derive_findings ''run1'' checks"
  "vr_summary (demo_run authority checks) = summarize_checks checks"
  "vr_run_fingerprint (demo_run authority checks) =
     fingerprint_json (verification_run_fingerprint_payload (demo_run authority checks))"
  by (simp_all add: demo_run_def demo_draft_run_def verification_run_fingerprint_payload_def)

lemma demo_key_text: "\<not> blank SG02_ASSERTION_KEY"
  by code_simp

lemma check_components_nonempty [simp]: "check_key_components p s k i v t d q \<noteq> []"
  by (simp add: check_key_components_def)

lemma demo_check_accepted: "validate_check demo_check = None"
  by (simp add: demo_check_def validate_check_def validate_tier_def validate_check_grounding_def
      verified_state_def demo_check_policy_def sorted_set_def)

lemma demo_check_authority: "check_check_authority (demo_run demo_authority checks) demo_check = None"
  unfolding check_check_authority_def first_error_None_iff
  by (simp add: check_check_identity_def check_check_reverification_def check_check_policy_def
      demo_check_def demo_authority_def demo_check_policy_def demo_assertion_id_def
      build_verification_check_key_def verification_check_key_def assertion_id_def demo_key_text Let_def)

lemma grounded_check_accepted: "validate_check grounded_check = None"
  by (simp add: grounded_check_def demo_check_def validate_check_def validate_tier_def
      validate_check_grounding_def grounding_is_exact_def grounded_input_def dynamic_tier_def
      verified_state_def demo_check_policy_def sorted_set_def)

lemma grounded_check_authority: "check_check_authority (demo_run grounded_authority checks) grounded_check = None"
  unfolding check_check_authority_def first_error_None_iff
  by (simp add: check_check_identity_def check_check_reverification_def check_check_policy_def
      grounded_check_def grounded_authority_def
      demo_check_def demo_authority_def demo_check_policy_def demo_assertion_id_def
      build_verification_check_key_def verification_check_key_def assertion_id_def demo_key_text Let_def)

lemma valid_runI:
  assumes "\<And>c. c \<in> set (vr_checks r) \<Longrightarrow> validate_check c = None"
    and "\<And>c. c \<in> set (vr_checks r) \<Longrightarrow> check_check_authority r c = None"
    and "vr_checks r \<noteq> []" and "require_run_timezone (vr_created_at r) = None"
    and "require_run_timezone (vr_completed_at r) = None" and "check_run_identity r = None"
    and "check_run_schema r = None" and "check_run_grounding r = None" and "check_run_e4 r = None"
    and "run_runtime_fingerprints (vr_checks r) = va_runtime_capability_fingerprints (vr_authority r)"
    and "check_run_projections r = None"
  shows "valid_run r"
  using assms by (auto simp: valid_run_def validate_run_def list_all_iff first_error_None_iff)

lemma demo_run_valid: "valid_run (demo_run demo_authority [demo_check])"
proof (rule valid_runI)
  show "check_run_identity (demo_run demo_authority [demo_check]) = None"
    by (simp add: check_run_identity_def)
  show "check_run_schema (demo_run demo_authority [demo_check]) = None"
    by (simp add: check_run_schema_def demo_check_def demo_authority_def)
  show "check_run_grounding (demo_run demo_authority [demo_check]) = None"
    by (simp add: check_run_grounding_def demo_authority_def)
  show "check_run_e4 (demo_run demo_authority [demo_check]) = None"
    by (simp add: check_run_e4_def e4_checks_def demo_check_def)
  show "run_runtime_fingerprints (vr_checks (demo_run demo_authority [demo_check])) =
      va_runtime_capability_fingerprints (vr_authority (demo_run demo_authority [demo_check]))"
    by (simp add: run_runtime_fingerprints_def List.map_filter_def sorted_set_def demo_check_def demo_authority_def)
  show "check_run_projections (demo_run demo_authority [demo_check]) = None"
    by (simp add: check_run_projections_def) (simp add: demo_check_def demo_authority_def)
qed (simp_all add: demo_check_accepted demo_check_authority require_run_timezone_def demo_stamp_def)

lemma grounded_run_valid: "valid_run (demo_run grounded_authority [grounded_check])"
proof (rule valid_runI)
  show "check_run_identity (demo_run grounded_authority [grounded_check]) = None"
    by (simp add: check_run_identity_def)
  show "check_run_schema (demo_run grounded_authority [grounded_check]) = None"
    by (simp add: check_run_schema_def grounded_check_def demo_check_def grounded_authority_def)
  show "check_run_grounding (demo_run grounded_authority [grounded_check]) = None"
    by (simp add: check_run_grounding_def grounded_authority_def grounded_snapshot_def)
  show "check_run_e4 (demo_run grounded_authority [grounded_check]) = None"
    by (simp add: check_run_e4_def e4_checks_def grounded_check_def grounded_authority_def grounded_snapshot_def)
  show "run_runtime_fingerprints (vr_checks (demo_run grounded_authority [grounded_check])) =
      va_runtime_capability_fingerprints (vr_authority (demo_run grounded_authority [grounded_check]))"
    by (simp add: run_runtime_fingerprints_def List.map_filter_def sorted_set_def grounded_check_def grounded_authority_def)
  show "check_run_projections (demo_run grounded_authority [grounded_check]) = None"
    by (simp add: check_run_projections_def)
      (simp add: grounded_check_def demo_check_def grounded_authority_def demo_authority_def)
qed (simp_all add: grounded_check_accepted grounded_check_authority require_run_timezone_def demo_stamp_def)

section \<open>Properties\<close>

text \<open>
  The gate always comes to a result: for checks with unique logical keys, no blocker and
  no consistency condition of its own artifact is ever violated.
\<close>

theorem gate_always_evaluates:
  assumes "distinct (map vc_check_key (vr_checks run))"
  shows "\<exists>g. evaluate_ci_gate run = Inr g \<and> validate_gate g = None"
  using evaluate_total[OF assms] gate_accepted[OF assms] by blast

text \<open>
  C23. The exit code says exactly what was proven: 0 when no check of any role failed, every
  core check passed or does not apply, and at least one core check passed; 1 when some check,
  core or optional, failed; 2 otherwise.
\<close>

theorem gate_exit_code_meaning:
  assumes "evaluate_ci_gate run = Inr g"
  shows "(gt_exit_code g = 0 \<longleftrightarrow>
            (\<forall>c \<in> set (vr_checks run). vc_result c \<noteq> VERIFIED_FAIL \<and>
               (ae_role (vc_applicability c) = CORE \<longrightarrow>
                  vc_result c = VERIFIED_PASS \<or> vc_result c = RESULT_NOT_APPLICABLE)) \<and>
            (\<exists>c \<in> set (vr_checks run). ae_role (vc_applicability c) = CORE \<and> vc_result c = VERIFIED_PASS)) \<and>
         (gt_exit_code g = 1 \<longleftrightarrow> (\<exists>c \<in> set (vr_checks run). vc_result c = VERIFIED_FAIL)) \<and>
         gt_exit_code g \<le> 2"
proof -
  let ?F = "proven_failures (vr_checks run)" and ?N = "core_not_proven (vr_checks run)"
  let ?A = "filter (\<lambda>c. vc_result c \<noteq> RESULT_NOT_APPLICABLE) (core_checks (vr_checks run))"
  have code: "gt_exit_code g = (if ?F \<noteq> [] then 1 else if ?N \<noteq> [] then 2 else if ?A = [] then 2 else 0)"
    unfolding evaluate_Inr[OF assms] by (simp add: gate_of_def expected_outcome_def Let_def)
  have lists: "?F = [] \<longleftrightarrow> (\<forall>c \<in> set (vr_checks run). vc_result c \<noteq> VERIFIED_FAIL)"
    "?N = [] \<longleftrightarrow> (\<forall>c \<in> set (vr_checks run). ae_role (vc_applicability c) = CORE \<longrightarrow>
        vc_result c \<notin> not_proven_states)"
    "?A = [] \<longleftrightarrow> (\<forall>c \<in> set (vr_checks run). ae_role (vc_applicability c) = CORE \<longrightarrow>
        vc_result c = RESULT_NOT_APPLICABLE)"
    by (auto simp: proven_failures_def core_not_proven_def core_checks_def filter_empty_conv)
  have states: "s = VERIFIED_PASS \<or> s = RESULT_NOT_APPLICABLE \<longleftrightarrow> s \<noteq> VERIFIED_FAIL \<and> s \<notin> not_proven_states" for s
    by (cases s) (simp_all add: not_proven_states_def)
  have one: "gt_exit_code g = 1 \<longleftrightarrow> ?F \<noteq> []" and zero: "gt_exit_code g = 0 \<longleftrightarrow> ?F = [] \<and> ?N = [] \<and> ?A \<noteq> []"
    and two: "gt_exit_code g \<le> 2"
    unfolding code by simp_all
  have "gt_exit_code g = 0 \<longleftrightarrow>
      (\<forall>c \<in> set (vr_checks run). vc_result c \<noteq> VERIFIED_FAIL \<and>
         (ae_role (vc_applicability c) = CORE \<longrightarrow> vc_result c \<notin> not_proven_states)) \<and>
      (\<exists>c \<in> set (vr_checks run). ae_role (vc_applicability c) = CORE \<and> vc_result c \<noteq> RESULT_NOT_APPLICABLE)"
    unfolding zero lists by blast
  also have "\<dots> \<longleftrightarrow>
      (\<forall>c \<in> set (vr_checks run). vc_result c \<noteq> VERIFIED_FAIL \<and>
         (ae_role (vc_applicability c) = CORE \<longrightarrow>
            vc_result c = VERIFIED_PASS \<or> vc_result c = RESULT_NOT_APPLICABLE)) \<and>
      (\<exists>c \<in> set (vr_checks run). ae_role (vc_applicability c) = CORE \<and> vc_result c = VERIFIED_PASS)"
    unfolding states by (metis result_state.distinct(9) states)
  finally show ?thesis using two unfolding one lists by simp
qed

text \<open>
  The gate does not depend on the order of the checks: two runs with the same identity
  and the same checks, whose logical keys are unique, get the same gate result.
\<close>

theorem gate_order_independent:
  assumes "distinct (map vc_check_key (vr_checks run))" and "mset (vr_checks run) = mset (vr_checks run')"
    and "vr_run_id run = vr_run_id run'" and "vr_run_fingerprint run = vr_run_fingerprint run'"
  shows "evaluate_ci_gate run = evaluate_ci_gate run'"
proof -
  let ?cs = "vr_checks run" and ?cs' = "vr_checks run'"
  have filters: "mset (filter p ?cs) = mset (filter p ?cs')" for p
    using assms(2) by (simp add: mset_filter)
  then have lengths: "length (filter p ?cs) = length (filter p ?cs')" for p
    by (metis size_mset)
  have core: "mset (core_checks ?cs) = mset (core_checks ?cs')"
    unfolding core_checks_def by (rule filters)
  have core_lengths: "length (filter p (core_checks ?cs)) = length (filter p (core_checks ?cs'))" for p
    by (metis core mset_filter size_mset)
  have counts: "result_counts_of ?cs = result_counts_of ?cs'"
    "result_counts_of (core_checks ?cs) = result_counts_of (core_checks ?cs')"
    by (simp_all add: result_counts_of_def count_state_def lengths core_lengths)
  have "mset (map blocker_of (blocking ?cs)) = mset (map blocker_of (blocking ?cs'))"
    using filters core by (simp add: blocking_def proven_failures_def core_not_proven_def mset_filter)
  then have blockers: "sort_key blocker_key (map blocker_of (blocking ?cs)) =
      sort_key blocker_key (map blocker_of (blocking ?cs'))"
    by (rule sort_key_perm_inj) (rule blocker_key_inj[OF assms(1)])
  have "length (proven_failures ?cs) = length (proven_failures ?cs')"
    "length (core_not_proven ?cs) = length (core_not_proven ?cs')"
    by (simp_all add: proven_failures_def core_not_proven_def lengths core_lengths)
  then have "gate_of run = gate_of run'"
    using assms(3,4) counts blockers core_lengths by (simp add: gate_of_def Let_def)
  then show ?thesis by (simp only: evaluate_gate_of)
qed

text \<open>
  In a valid run the dynamic coverage is exact and a proper fraction: its numerator counts
  the verified checks, its denominator the applicable ones, and the six state counts add up to
  all checks.
\<close>

theorem valid_run_coverage:
  assumes "valid_run r"
  shows "vs_dynamic_coverage_numerator (vr_summary r) =
           vs_verified_pass (vr_summary r) + vs_verified_fail (vr_summary r) \<and>
         vs_dynamic_coverage_numerator (vr_summary r) \<le> vs_dynamic_coverage_denominator (vr_summary r) \<and>
         vs_verified_pass (vr_summary r) + vs_verified_fail (vr_summary r) +
           vs_static_warning (vr_summary r) + vs_needs_input (vr_summary r) +
           vs_unverified (vr_summary r) + vs_not_applicable (vr_summary r) = length (vr_checks r)"
proof -
  let ?cs = "vr_checks r"
  have "filter (\<lambda>c. dynamic_tier (vc_evidence_tier c)) ?cs = filter (\<lambda>c. verified_state (vc_result c)) ?cs"
    using valid_check_tier valid_run_stages(5)[OF assms] by (intro filter_cong) auto
  then have "count_tier ?cs (Some E3_DYNAMIC_VERIFIED) + count_tier ?cs (Some E4_RAZORPAY_GROUNDED) =
      count_state ?cs VERIFIED_PASS + count_state ?cs VERIFIED_FAIL"
    by (simp only: count_tiers_dynamic count_states_verified)
  moreover have "count_state ?cs VERIFIED_PASS + count_state ?cs VERIFIED_FAIL \<le>
      length ?cs - count_state ?cs RESULT_NOT_APPLICABLE"
    by (simp only: count_states_verified verified_le_applicable)
  moreover have "counts_total (result_counts_of ?cs) = length ?cs" by (rule counts_total_of)
  ultimately show ?thesis
    by (simp add: valid_run_summary[OF assms] summarize_checks_def counts_total_def result_counts_of_def)
qed

text \<open>
  The findings and the gate tell the same story: a valid run has a critical finding exactly
  when the gate blocks the release with exit code 1.
\<close>

theorem critical_finding_blocks_release:
  assumes "valid_run r"
  shows "(\<exists>f \<in> set (vr_findings r). fi_critical f) \<longleftrightarrow>
         (\<exists>g. evaluate_ci_gate r = Inr g \<and> gt_status g = GATE_VERIFIED_FAILURE \<and> gt_exit_code g = 1)"
proof -
  have "evaluate_ci_gate r = Inr (gate_of r)"
    by (rule evaluate_total[OF valid_run_keys_distinct[OF assms]])
  moreover have "gt_status (gate_of r) = GATE_VERIFIED_FAILURE \<and> gt_exit_code (gate_of r) = 1 \<longleftrightarrow>
      proven_failures (vr_checks r) \<noteq> []"
    by (simp add: gate_of_def expected_outcome_def Let_def)
  ultimately show ?thesis
    by (simp add: valid_run_findings[OF assms] critical_finding) (auto simp: proven_failures_def filter_empty_conv)
qed

text \<open>
  C29. Evidence of tier E4 is exact: in a valid run it belongs to a decided SG-01 check, no
  second check has it, and the run's own successful grounding of that run is the one the input
  of the check was built from.
\<close>

theorem e4_evidence_is_exact:
  assumes "valid_run r" and "c \<in> set (vr_checks r)" and "vc_evidence_tier c = Some E4_RAZORPAY_GROUNDED"
  shows "vc_scenario_id c = SG_01 \<and> verified_state (vc_result c) \<and>
         (\<forall>c' \<in> set (vr_checks r). vc_evidence_tier c' = Some E4_RAZORPAY_GROUNDED \<longrightarrow> c' = c) \<and>
         (\<exists>g w. va_razorpay_grounding (vr_authority r) = Some g \<and> gs_status g = GROUNDING_GROUNDED \<and>
            gs_run_id g = vr_run_id r \<and>
            vc_input_reference c = Some (GroundedInput w (gs_grounding_fingerprint g)
              (the (gs_sanitized_projection_fingerprint g))))"
proof -
  let ?e4 = "e4_checks (vr_checks r)"
  have in_e4: "c \<in> set ?e4" using assms by (simp add: e4_checks_def)
  have accepted: "validate_check c = None" by (rule valid_run_stages(5)[OF assms(1,2)])
  then have exact: "grounding_is_exact c" and verified: "verified_state (vc_result c)"
    using assms(3) valid_check_tier[OF accepted]
    by (auto simp: validate_check_def validate_check_grounding_def dynamic_tier_def first_error_None_iff
        split: option.splits if_splits)
  have "check_run_e4 r = None" by (rule valid_run_stages(3)[OF assms(1)])
  then obtain g where single: "length ?e4 \<le> 1" and g: "va_razorpay_grounding (vr_authority r) = Some g"
    and grounded: "gs_status g = GROUNDING_GROUNDED"
    and same: "\<forall>x \<in> set ?e4. \<exists>cg. vc_grounding x = Some cg \<and>
      cg_grounding_fingerprint cg = gs_grounding_fingerprint g \<and>
      Some (cg_sanitized_projection_fingerprint cg) = gs_sanitized_projection_fingerprint g"
    using in_e4 by (auto simp: check_run_e4_def list_ex_iff Let_def split: if_splits option.splits)
  have e4: "?e4 = [c]" using single in_e4 by (cases ?e4 rule: list.exhaust) auto
  have unique: "\<forall>c' \<in> set (vr_checks r). vc_evidence_tier c' = Some E4_RAZORPAY_GROUNDED \<longrightarrow> c' = c"
  proof (intro ballI impI)
    fix c' assume "c' \<in> set (vr_checks r)" "vc_evidence_tier c' = Some E4_RAZORPAY_GROUNDED"
    then have "c' \<in> set ?e4" by (simp add: e4_checks_def)
    then show "c' = c" unfolding e4 by simp
  qed
  obtain cg fp projection where cg: "vc_grounding c = Some cg" "cg_grounding_fingerprint cg = fp"
      "cg_sanitized_projection_fingerprint cg = projection"
      "Option.bind (vc_input_reference c) grounded_fingerprints = Some (fp, projection)" "vc_scenario_id c = SG_01"
    using exact by (auto simp: grounding_is_exact_def split: option.splits)
  then obtain w where w: "vc_input_reference c = Some (GroundedInput w fp projection)"
    by (auto simp: bind_eq_Some_conv elim: grounded_fingerprints.elims)
  have "gs_run_id g = vr_run_id r"
    using valid_run_stages(2)[OF assms(1)] g by (simp add: check_run_grounding_def Let_def split: if_splits)
  moreover have "fp = gs_grounding_fingerprint g \<and> Some projection = gs_sanitized_projection_fingerprint g"
    using bspec[OF same in_e4] cg(1,2,3) by simp
  then have "fp = gs_grounding_fingerprint g" "projection = the (gs_sanitized_projection_fingerprint g)"
    by (auto dest: sym)
  ultimately show ?thesis using w cg(5) verified unique g grounded by blast
qed

lemma finding_of_check:
  "(\<exists>f. finding_of run_id c = Some f \<and> fi_critical f) \<longleftrightarrow> vc_result c = VERIFIED_FAIL"
  "(\<exists>f. finding_of run_id c = Some f \<and> \<not> fi_critical f) \<longleftrightarrow>
     vc_result c \<in> {STATIC_WARNING, RESULT_NEEDS_INPUT, UNVERIFIED}"
  "finding_of run_id c = Some f \<Longrightarrow> fi_check_key f = vc_check_key c"
  by (cases "vc_result c"; auto simp: finding_of_def)+

lemma findings_with_key:
  assumes "filter (\<lambda>x. vc_check_key x = k) checks = [now]"
  shows "(\<exists>f \<in> set (derive_findings run_id checks). fi_check_key f = k \<and> P f) \<longleftrightarrow>
         (\<exists>f. finding_of run_id now = Some f \<and> P f)"
proof -
  have now: "x \<in> set checks \<and> vc_check_key x = k \<longleftrightarrow> x = now" for x
    using arg_cong[OF assms, of set] by auto
  have "(\<exists>f \<in> set (derive_findings run_id checks). fi_check_key f = k \<and> P f) \<longleftrightarrow>
      (\<exists>x \<in> set checks. \<exists>f. finding_of run_id x = Some f \<and> fi_check_key f = k \<and> P f)"
    by (auto simp: derive_findings_def List.map_filter_def) (metis option.sel option.distinct(1))
  also have "\<dots> \<longleftrightarrow> (\<exists>x. (x \<in> set checks \<and> vc_check_key x = k) \<and> (\<exists>f. finding_of run_id x = Some f \<and> P f))"
    using finding_of_check(3) by metis
  finally show ?thesis unfolding now by blast
qed

text \<open>
  C30. Comparison never infers similarity.  Against a run whose findings are derived from its
  checks, a historical check is incomparable unless exactly one current check has the very same
  logical key, whether none has it or several.  Otherwise the answer names that check and agrees
  with the findings of the run: still failing exactly when a critical finding bears the key, not
  proven exactly when another finding bears it, and, when none does, resolved exactly on a pass
  and not applicable exactly on a check that does not apply.
\<close>

theorem comparison_is_exact:
  assumes "vr_findings current = derive_findings (vr_run_id current) (vr_checks current)"
  shows "let same = filter (\<lambda>x. vc_check_key x = vc_check_key c) (vr_checks current);
             named = (\<lambda>f. f \<in> set (vr_findings current) \<and> fi_check_key f = vc_check_key c);
             answer = compare_exact_check historical c current
         in (fc_outcome answer = NOT_DIRECTLY_COMPARABLE \<longleftrightarrow> length same \<noteq> 1) \<and>
            (fc_outcome answer = STILL_VERIFIED_FAIL \<longleftrightarrow> length same = 1 \<and> (\<exists>f. named f \<and> fi_critical f)) \<and>
            (fc_outcome answer = COMPARED_NOT_PROVEN \<longleftrightarrow> length same = 1 \<and> (\<exists>f. named f \<and> \<not> fi_critical f)) \<and>
            (fc_outcome answer = PROVEN_RESOLVED \<longleftrightarrow> (\<exists>now. same = [now] \<and> vc_result now = VERIFIED_PASS)) \<and>
            (fc_outcome answer = COMPARED_NOT_APPLICABLE \<longleftrightarrow>
               (\<exists>now. same = [now] \<and> vc_result now = RESULT_NOT_APPLICABLE)) \<and>
            fc_current_check_id answer = (case same of [now] \<Rightarrow> Some (vc_check_id now) | _ \<Rightarrow> None)"
proof -
  let ?same = "filter (\<lambda>x. vc_check_key x = vc_check_key c) (vr_checks current)"
  show ?thesis
  proof (cases "length ?same = 1")
    case False
    then have "compare_exact_check historical c current =
        \<lparr>fc_historical_run_id = vr_run_id historical, fc_current_run_id = vr_run_id current,
         fc_check_key = vc_check_key c, fc_outcome = NOT_DIRECTLY_COMPARABLE, fc_current_check_id = None\<rparr>"
      by (auto simp: compare_exact_check_def split: list.splits)
    with False show ?thesis by (auto simp: Let_def split: list.splits)
  next
    case True
    then obtain now where now: "?same = [now]" by (auto simp: length_Suc_conv)
    have answer: "fc_outcome (compare_exact_check historical c current) = outcome_of (vc_result now)"
      "fc_current_check_id (compare_exact_check historical c current) = Some (vc_check_id now)"
      by (simp_all add: compare_exact_check_def now)
    note named = findings_with_key[OF now, of "vr_run_id current", folded assms]
    have "(\<exists>f. (f \<in> set (vr_findings current) \<and> fi_check_key f = vc_check_key c) \<and> fi_critical f) \<longleftrightarrow>
        vc_result now = VERIFIED_FAIL"
      using named[of fi_critical] finding_of_check(1)[of "vr_run_id current" now] by auto
    moreover have "(\<exists>f. (f \<in> set (vr_findings current) \<and> fi_check_key f = vc_check_key c) \<and> \<not> fi_critical f) \<longleftrightarrow>
        vc_result now \<in> {STATIC_WARNING, RESULT_NEEDS_INPUT, UNVERIFIED}"
      using named[of "\<lambda>f. \<not> fi_critical f"] finding_of_check(2)[of "vr_run_id current" now] by auto
    ultimately show ?thesis
      unfolding Let_def answer now by (cases "vc_result now") simp_all
  qed
qed

section \<open>Witnesses\<close>

text \<open>The run of an unavailable runtime, a grounded SG-01, and two checks that disagree.\<close>

definition failed_check :: verification_check where
  "failed_check = grounded_check\<lparr>vc_check_key := ''sgcheckkey_f'', vc_result := VERIFIED_FAIL\<rparr>"

definition skipped_check :: verification_check where
  "skipped_check = demo_check\<lparr>vc_check_key := ''sgcheckkey_s'', vc_result := RESULT_NOT_APPLICABLE\<rparr>"

lemma demo_pair_keys: "distinct (map vc_check_key [failed_check, skipped_check])"
  by (simp add: failed_check_def skipped_check_def)

theorem gate_always_evaluates_witness:
  "\<exists>g. evaluate_ci_gate (demo_run demo_authority [failed_check, skipped_check]) = Inr g \<and> validate_gate g = None"
  by (rule gate_always_evaluates) (use demo_pair_keys in simp)

theorem gate_exit_code_meaning_witness:
  "gt_exit_code (gate_of (demo_run demo_authority [failed_check, skipped_check])) = 1"
proof -
  have "evaluate_ci_gate (demo_run demo_authority [failed_check, skipped_check]) =
      Inr (gate_of (demo_run demo_authority [failed_check, skipped_check]))"
    by (rule evaluate_total) (use demo_pair_keys in simp)
  then show ?thesis using gate_exit_code_meaning by (simp add: failed_check_def)
qed

theorem gate_order_independent_witness:
  "evaluate_ci_gate (demo_run demo_authority [failed_check, skipped_check]) =
   evaluate_ci_gate ((demo_run demo_authority [failed_check, skipped_check])
     \<lparr>vr_checks := [skipped_check, failed_check]\<rparr>)"
  by (rule gate_order_independent) (use demo_pair_keys in simp_all)

theorem valid_run_coverage_witness:
  "vs_dynamic_coverage_numerator (vr_summary (demo_run grounded_authority [grounded_check])) \<le>
   vs_dynamic_coverage_denominator (vr_summary (demo_run grounded_authority [grounded_check]))"
  using valid_run_coverage[OF grounded_run_valid] by blast

theorem critical_finding_blocks_release_witness:
  "\<not> (\<exists>g. evaluate_ci_gate (demo_run demo_authority [demo_check]) = Inr g \<and>
        gt_status g = GATE_VERIFIED_FAILURE \<and> gt_exit_code g = 1)"
proof -
  have "\<not> (\<exists>f \<in> set (vr_findings (demo_run demo_authority [demo_check])). fi_critical f)"
    by (simp add: critical_finding) (simp add: demo_check_def)
  then show ?thesis unfolding critical_finding_blocks_release[OF demo_run_valid] .
qed

theorem e4_evidence_is_exact_witness: "vc_scenario_id grounded_check = SG_01"
proof -
  have "vc_evidence_tier grounded_check = Some E4_RAZORPAY_GROUNDED" by (simp add: grounded_check_def)
  then show ?thesis using e4_evidence_is_exact[OF grounded_run_valid, of grounded_check] by simp
qed

theorem comparison_is_exact_witness:
  "fc_outcome (compare_exact_check (demo_run demo_authority [demo_check]) failed_check
     (demo_run demo_authority [failed_check, skipped_check])) = STILL_VERIFIED_FAIL \<and>
   fc_outcome (compare_exact_check (demo_run demo_authority [demo_check]) failed_check
     (demo_run demo_authority [failed_check, failed_check])) = NOT_DIRECTLY_COMPARABLE"
proof -
  let ?run = "demo_run demo_authority"
  have one: "filter (\<lambda>x. vc_check_key x = vc_check_key failed_check) [failed_check, skipped_check] = [failed_check]"
    by (simp add: failed_check_def skipped_check_def)
  have "\<exists>f \<in> set (derive_findings ''run1'' [failed_check, skipped_check]).
      fi_check_key f = vc_check_key failed_check \<and> fi_critical f"
    unfolding findings_with_key[OF one] finding_of_check(1) by (simp add: failed_check_def)
  then have "fc_outcome (compare_exact_check (?run [demo_check]) failed_check
      (?run [failed_check, skipped_check])) = STILL_VERIFIED_FAIL"
    using comparison_is_exact[of "?run [failed_check, skipped_check]" failed_check "?run [demo_check]"] one
    by (auto simp: Let_def)
  moreover have "fc_outcome (compare_exact_check (?run [demo_check]) failed_check
      (?run [failed_check, failed_check])) = NOT_DIRECTLY_COMPARABLE"
    using comparison_is_exact[of "?run [failed_check, failed_check]" failed_check "?run [demo_check]"]
    by (simp add: Let_def)
  ultimately show ?thesis by blast
qed

end
