(* ===== verification/SourceIndex.thy ===== *)
theory SourceIndex
  imports SafetyGraph
begin

text \<open>
  The persisted contracts of project discovery and of the Python source index,
  \<open>discovery/contracts.py\<close>: files, symbols, imports, framework instances, routes, call sites and
  bounded references, their field validators, the two fingerprints and the validators of the
  discovery and the index artifact.  The lemmas show that an accepted index is referentially
  closed, that its symbols are determined by their backing fields, and that the references it
  keeps are from a fixed vocabulary.
\<close>

section \<open>Vocabulary\<close>

datatype source_completeness =
    SOURCE_COMPLETE
  | SOURCE_PARTIAL

fun source_completeness_value :: "source_completeness \<Rightarrow> string" where
  "source_completeness_value SOURCE_COMPLETE = ''COMPLETE''"
| "source_completeness_value SOURCE_PARTIAL = ''PARTIAL''"

datatype source_impact =
    SOURCE_COVERAGE_REDUCED
  | SOURCE_NOTICE

fun source_impact_value :: "source_impact \<Rightarrow> string" where
  "source_impact_value SOURCE_COVERAGE_REDUCED = ''COVERAGE_REDUCED''"
| "source_impact_value SOURCE_NOTICE = ''NOTICE''"

datatype source_diagnostic_code =
    SD_UNREADABLE_DIRECTORY
  | SD_UNREADABLE_FILE
  | SD_SYMLINK_SKIPPED
  | SD_INVALID_SOURCE_ENCODING
  | SD_SYNTAX_ERROR
  | SD_MODULE_NAME_COLLISION
  | SD_UNRESOLVED_RELATIVE_IMPORT
  | SD_WILDCARD_IMPORT
  | SD_AMBIGUOUS_FRAMEWORK_BINDING
  | SD_DYNAMIC_FRAMEWORK_CONSTRUCTION
  | SD_DYNAMIC_ROUTER_PREFIX
  | SD_DYNAMIC_ROUTE_PATH
  | SD_DYNAMIC_ROUTE_METHODS
  | SD_DYNAMIC_ROUTE_REGISTRATION
  | SD_UNRESOLVED_ROUTER_INCLUDE
  | SD_AUTOMATIC_APP_TARGET_MISSING
  | SD_AUTOMATIC_APP_TARGET_AMBIGUOUS
  | SD_CONFIGURED_APP_TARGET_MISSING
  | SD_CONFIGURED_APP_TARGET_AMBIGUOUS
  | SD_CONFIGURED_APP_TARGET_UNPARSABLE
  | SD_CONFIGURED_APP_TARGET_NOT_FASTAPI

fun source_diagnostic_code_value :: "source_diagnostic_code \<Rightarrow> string" where
  "source_diagnostic_code_value SD_UNREADABLE_DIRECTORY = ''UNREADABLE_DIRECTORY''"
| "source_diagnostic_code_value SD_UNREADABLE_FILE = ''UNREADABLE_FILE''"
| "source_diagnostic_code_value SD_SYMLINK_SKIPPED = ''SYMLINK_SKIPPED''"
| "source_diagnostic_code_value SD_INVALID_SOURCE_ENCODING = ''INVALID_SOURCE_ENCODING''"
| "source_diagnostic_code_value SD_SYNTAX_ERROR = ''SYNTAX_ERROR''"
| "source_diagnostic_code_value SD_MODULE_NAME_COLLISION = ''MODULE_NAME_COLLISION''"
| "source_diagnostic_code_value SD_UNRESOLVED_RELATIVE_IMPORT = ''UNRESOLVED_RELATIVE_IMPORT''"
| "source_diagnostic_code_value SD_WILDCARD_IMPORT = ''WILDCARD_IMPORT''"
| "source_diagnostic_code_value SD_AMBIGUOUS_FRAMEWORK_BINDING = ''AMBIGUOUS_FRAMEWORK_BINDING''"
| "source_diagnostic_code_value SD_DYNAMIC_FRAMEWORK_CONSTRUCTION = ''DYNAMIC_FRAMEWORK_CONSTRUCTION''"
| "source_diagnostic_code_value SD_DYNAMIC_ROUTER_PREFIX = ''DYNAMIC_ROUTER_PREFIX''"
| "source_diagnostic_code_value SD_DYNAMIC_ROUTE_PATH = ''DYNAMIC_ROUTE_PATH''"
| "source_diagnostic_code_value SD_DYNAMIC_ROUTE_METHODS = ''DYNAMIC_ROUTE_METHODS''"
| "source_diagnostic_code_value SD_DYNAMIC_ROUTE_REGISTRATION = ''DYNAMIC_ROUTE_REGISTRATION''"
| "source_diagnostic_code_value SD_UNRESOLVED_ROUTER_INCLUDE = ''UNRESOLVED_ROUTER_INCLUDE''"
| "source_diagnostic_code_value SD_AUTOMATIC_APP_TARGET_MISSING = ''AUTOMATIC_APP_TARGET_MISSING''"
| "source_diagnostic_code_value SD_AUTOMATIC_APP_TARGET_AMBIGUOUS = ''AUTOMATIC_APP_TARGET_AMBIGUOUS''"
| "source_diagnostic_code_value SD_CONFIGURED_APP_TARGET_MISSING = ''CONFIGURED_APP_TARGET_MISSING''"
| "source_diagnostic_code_value SD_CONFIGURED_APP_TARGET_AMBIGUOUS = ''CONFIGURED_APP_TARGET_AMBIGUOUS''"
| "source_diagnostic_code_value SD_CONFIGURED_APP_TARGET_UNPARSABLE = ''CONFIGURED_APP_TARGET_UNPARSABLE''"
| "source_diagnostic_code_value SD_CONFIGURED_APP_TARGET_NOT_FASTAPI = ''CONFIGURED_APP_TARGET_NOT_FASTAPI''"

datatype framework_kind =
    FASTAPI_APP
  | API_ROUTER

fun framework_kind_value :: "framework_kind \<Rightarrow> string" where
  "framework_kind_value FASTAPI_APP = ''FASTAPI_APP''"
| "framework_kind_value API_ROUTER = ''API_ROUTER''"

datatype app_target_selection =
    TARGET_CONFIGURED
  | TARGET_AUTO_SELECTED
  | TARGET_AUTO_CANDIDATE

fun app_target_selection_value :: "app_target_selection \<Rightarrow> string" where
  "app_target_selection_value TARGET_CONFIGURED = ''CONFIGURED''"
| "app_target_selection_value TARGET_AUTO_SELECTED = ''AUTO_SELECTED''"
| "app_target_selection_value TARGET_AUTO_CANDIDATE = ''AUTO_CANDIDATE''"

datatype symbol_kind =
    SYM_FUNCTION
  | SYM_ASYNC_FUNCTION
  | SYM_METHOD
  | SYM_ASYNC_METHOD
  | SYM_CLASS
  | SYM_MODULE

fun symbol_kind_value :: "symbol_kind \<Rightarrow> string" where
  "symbol_kind_value SYM_FUNCTION = ''FUNCTION''"
| "symbol_kind_value SYM_ASYNC_FUNCTION = ''ASYNC_FUNCTION''"
| "symbol_kind_value SYM_METHOD = ''METHOD''"
| "symbol_kind_value SYM_ASYNC_METHOD = ''ASYNC_METHOD''"
| "symbol_kind_value SYM_CLASS = ''CLASS''"
| "symbol_kind_value SYM_MODULE = ''MODULE''"

datatype import_kind =
    KIND_IMPORT
  | KIND_FROM_IMPORT

fun import_kind_value :: "import_kind \<Rightarrow> string" where
  "import_kind_value KIND_IMPORT = ''IMPORT''"
| "import_kind_value KIND_FROM_IMPORT = ''FROM_IMPORT''"

datatype reference_kind =
    REF_IMPORT
  | REF_ATTRIBUTE
  | REF_IDENTIFIER
  | REF_PAYMENT_LITERAL

fun reference_kind_value :: "reference_kind \<Rightarrow> string" where
  "reference_kind_value REF_IMPORT = ''IMPORT''"
| "reference_kind_value REF_ATTRIBUTE = ''ATTRIBUTE''"
| "reference_kind_value REF_IDENTIFIER = ''IDENTIFIER''"
| "reference_kind_value REF_PAYMENT_LITERAL = ''PAYMENT_LITERAL''"

datatype literal_kind =
    LIT_PAYMENT_EVENT
  | LIT_PAYMENT_STATE
  | LIT_RAZORPAY_IDENTIFIER
  | LIT_WEBHOOK_HEADER

fun literal_kind_value :: "literal_kind \<Rightarrow> string" where
  "literal_kind_value LIT_PAYMENT_EVENT = ''PAYMENT_EVENT''"
| "literal_kind_value LIT_PAYMENT_STATE = ''PAYMENT_STATE''"
| "literal_kind_value LIT_RAZORPAY_IDENTIFIER = ''RAZORPAY_IDENTIFIER''"
| "literal_kind_value LIT_WEBHOOK_HEADER = ''WEBHOOK_HEADER''"

section \<open>Regular expressions and case folding\<close>

text \<open>
  \<open>\w\<close> matches what \<open>str.isalnum\<close> accepts and the underscore; for code points below 256 these
  are the ASCII letters and digits, the superscripts and fractions, the ordinal and micro
  signs and the Latin-1 letters.
\<close>

definition ascii_digit :: "char \<Rightarrow> bool" where
  "ascii_digit c = (let n = of_char c :: nat in 48 \<le> n \<and> n \<le> 57)"

definition word_char :: "char \<Rightarrow> bool" where
  "word_char c = (let n = of_char c :: nat in
     ascii_letter c \<or> ascii_digit c \<or> c = CHR ''_'' \<or>
     n \<in> {170, 178, 179, 181, 185, 186, 188, 189, 190} \<or>
     (192 \<le> n \<and> n \<noteq> 215 \<and> n \<noteq> 247))"

definition name_start :: "char \<Rightarrow> bool" where
  "name_start c \<longleftrightarrow> ascii_letter c \<or> c = CHR ''_''"

text \<open>\<open>_PYTHON_NAME\<close> and \<open>_DOTTED_PYTHON_REFERENCE\<close>: one name, and names joined by single dots.\<close>

definition python_name :: "string \<Rightarrow> bool" where
  "python_name s = (case s of [] \<Rightarrow> False | c # cs \<Rightarrow> name_start c \<and> list_all word_char cs)"

definition dotted_reference :: "string \<Rightarrow> bool" where
  "dotted_reference s \<longleftrightarrow> list_all python_name (split_on (CHR ''.'') s)"

definition ends_with :: "string \<Rightarrow> string \<Rightarrow> bool" where
  "ends_with s suffix \<longleftrightarrow> length suffix \<le> length s \<and> drop (length s - length suffix) s = suffix"

text \<open>
  \<open>_SYNTACTIC_IMPORT_REFERENCE\<close>: leading dots, a dotted name and an optional \<open>.*\<close>, or at least
  one dot followed by a star.
\<close>

definition syntactic_import_reference :: "string \<Rightarrow> bool" where
  "syntactic_import_reference s =
     (let rest = dropWhile (\<lambda>c. c = CHR ''.'') s;
          dots = takeWhile (\<lambda>c. c = CHR ''.'') s
      in dotted_reference rest \<or>
         (ends_with rest ''.*'' \<and> dotted_reference (take (length rest - 2) rest)) \<or>
         (dots \<noteq> [] \<and> rest = ''*''))"

text \<open>
  \<open>str.casefold\<close> below 256: the capitals of ASCII and Latin-1 become small, the sharp s becomes
  a double s; the micro sign folds to a letter outside the range and stays as it is here.
\<close>

definition casefold_char :: "char \<Rightarrow> string" where
  "casefold_char c = (let n = of_char c :: nat in
     if (65 \<le> n \<and> n \<le> 90) \<or> (192 \<le> n \<and> n \<le> 222 \<and> n \<noteq> 215) then [char_of (n + 32)]
     else if n = 223 then ''ss'' else [c])"

definition casefold :: "string \<Rightarrow> string" where
  "casefold s = concat (map casefold_char s)"

section \<open>Diagnostics, files and application targets\<close>

record source_diagnostic =
  dg_code :: source_diagnostic_code
  dg_impact :: source_impact
  dg_path :: "string option"
  dg_source_location :: "source_location option"

definition validate_diagnostic :: "source_diagnostic \<Rightarrow> source_diagnostic result" where
  "validate_diagnostic d =
     bind_result (case dg_path d of None \<Rightarrow> Inr None
                  | Some p \<Rightarrow> bind_result (normalize_relative_path p) (\<lambda>q. Inr (Some q))) (\<lambda>path.
       case (path, dg_source_location d) of
         (Some p, Some l) \<Rightarrow>
           if p \<noteq> sl_path l
           then Inl (ValueError ''diagnostic path must match its source-location path'')
           else Inr (d\<lparr>dg_path := path\<rparr>)
       | _ \<Rightarrow> Inr (d\<lparr>dg_path := path\<rparr>))"

definition source_diagnostic_json :: "source_diagnostic \<Rightarrow> json" where
  "source_diagnostic_json d = JObj
     [(''code'', JStr (source_diagnostic_code_value (dg_code d))),
      (''impact'', JStr (source_impact_value (dg_impact d))),
      (''path'', jopt JStr (dg_path d)),
      (''source_location'', jopt source_location_json (dg_source_location d))]"

definition completeness_for :: "source_diagnostic list \<Rightarrow> source_completeness" where
  "completeness_for diagnostics =
     (if list_ex (\<lambda>d. dg_impact d = SOURCE_COVERAGE_REDUCED) diagnostics
      then SOURCE_PARTIAL else SOURCE_COMPLETE)"

record source_file =
  sf_file_id :: string
  sf_path :: string
  sf_content_fingerprint :: string
  sf_byte_size :: nat

definition validate_file_path :: "source_file \<Rightarrow> source_file result" where
  "validate_file_path f =
     bind_result (normalize_relative_path (sf_path f)) (\<lambda>p. Inr (f\<lparr>sf_path := p\<rparr>))"

definition source_file_json :: "source_file \<Rightarrow> json" where
  "source_file_json f = JObj
     [(''file_id'', JStr (sf_file_id f)), (''path'', JStr (sf_path f)), (''language'', JStr ''PYTHON''),
      (''content_fingerprint'', JStr (sf_content_fingerprint f)),
      (''byte_size'', jnat (sf_byte_size f))]"

definition project_source_fingerprint :: "source_file list \<Rightarrow> string" where
  "project_source_fingerprint files = fingerprint_json (JArr
     (map (\<lambda>f. JObj [(''path'', JStr (sf_path f)),
                     (''content_fingerprint'', JStr (sf_content_fingerprint f))])
       (sort_key sf_path files)))"

record app_target =
  at_import_target :: string
  at_framework_instance_id :: string
  at_selection :: app_target_selection
  at_source_location :: source_location

definition normalize_import_target :: "string \<Rightarrow> string result" where
  "normalize_import_target value =
     (let stripped = strip value
      in if CHR '':'' \<notin> set stripped
         then Inl (ValueError ''application target must use module:attribute syntax'')
         else Inr stripped)"

definition app_target_json :: "app_target \<Rightarrow> json" where
  "app_target_json t = JObj
     [(''framework'', JStr ''FASTAPI''), (''import_target'', JStr (at_import_target t)),
      (''framework_instance_id'', JStr (at_framework_instance_id t)),
      (''selection'', JStr (app_target_selection_value (at_selection t))),
      (''source_location'', source_location_json (at_source_location t))]"

section \<open>The discovery artifact\<close>

record discovery_artifact =
  dc_project_id :: string
  dc_source_root :: string
  dc_project_source_fingerprint :: string
  dc_files :: "source_file list"
  dc_app_targets :: "app_target list"
  dc_diagnostics :: "source_diagnostic list"
  dc_completeness :: source_completeness

text \<open>A file carries the identity derived from its project and its path; deriving it may raise.\<close>

definition check_file_identity :: "string \<Rightarrow> string \<Rightarrow> source_file \<Rightarrow> error option" where
  "check_file_identity msg project_id f =
     (case source_file_id project_id (sf_path f) of
        Inl e \<Rightarrow> Some e
      | Inr expected \<Rightarrow> if sf_file_id f \<noteq> expected then Some (ValueError msg) else None)"

definition validate_discovery :: "discovery_artifact \<Rightarrow> error option" where
  "validate_discovery d =
     (if \<not> distinct (map sf_file_id (dc_files d))
      then Some (ValueError ''discovery file IDs must be unique'')
      else if \<not> distinct (map sf_path (dc_files d))
      then Some (ValueError ''discovery file paths must be unique'')
      else case first_error (map (check_file_identity
          ''discovery file ID must match its project and path'' (dc_project_id d)) (dc_files d)) of
        Some e \<Rightarrow> Some e
      | None \<Rightarrow>
          if dc_project_source_fingerprint d \<noteq> project_source_fingerprint (dc_files d)
          then Some (ValueError ''project-source fingerprint must match discovered files'')
          else if list_ex (\<lambda>t. sl_path (at_source_location t) \<notin> set (map sf_path (dc_files d)))
                 (dc_app_targets d)
          then Some (ValueError ''application target must refer to a discovered file'')
          else if dc_completeness d \<noteq> completeness_for (dc_diagnostics d)
          then Some (ValueError ''discovery completeness must match diagnostic impact'')
          else None)"

section \<open>Symbols, imports and framework instances\<close>

record symbol_record =
  sy_symbol_id :: string
  sy_source_file_id :: string
  sy_qualified_name :: string
  sy_kind :: symbol_kind
  sy_signature :: string
  sy_definition_ordinal :: nat
  sy_source_location :: source_location

definition strip_symbol_text :: "symbol_record \<Rightarrow> symbol_record" where
  "strip_symbol_text s = s\<lparr>sy_qualified_name := strip (sy_qualified_name s),
     sy_signature := strip (sy_signature s)\<rparr>"

definition symbol_record_json :: "symbol_record \<Rightarrow> json" where
  "symbol_record_json s = JObj
     [(''symbol_id'', JStr (sy_symbol_id s)), (''source_file_id'', JStr (sy_source_file_id s)),
      (''qualified_name'', JStr (sy_qualified_name s)), (''kind'', JStr (symbol_kind_value (sy_kind s))),
      (''signature'', JStr (sy_signature s)), (''definition_ordinal'', jnat (sy_definition_ordinal s)),
      (''source_location'', source_location_json (sy_source_location s))]"

record import_binding =
  im_owner_symbol_id :: string
  im_kind :: import_kind
  im_syntactic_reference :: string
  im_local_name :: "string option"
  im_canonical_reference :: "string option"
  im_resolved_symbol_id :: "string option"
  im_source_location :: source_location

definition validate_syntactic_reference :: "string \<Rightarrow> string result" where
  "validate_syntactic_reference value =
     (if \<not> syntactic_import_reference (strip value)
      then Inl (ValueError ''syntactic import reference must be normalized Python import syntax'')
      else Inr (strip value))"

definition validate_local_name :: "string option \<Rightarrow> string option result" where
  "validate_local_name value =
     (case value of None \<Rightarrow> Inr None
      | Some v \<Rightarrow> if \<not> python_name (strip v)
                  then Inl (ValueError ''local import name must be a Python identifier'')
                  else Inr (Some (strip v)))"

definition validate_canonical_reference :: "string option \<Rightarrow> string option result" where
  "validate_canonical_reference value =
     (case value of None \<Rightarrow> Inr None
      | Some v \<Rightarrow> if \<not> dotted_reference (strip v)
                  then Inl (ValueError ''canonical import reference must be a dotted Python name'')
                  else Inr (Some (strip v)))"

definition validate_import :: "import_binding \<Rightarrow> import_binding result" where
  "validate_import b =
     bind_result (validate_syntactic_reference (im_syntactic_reference b)) (\<lambda>reference.
     bind_result (validate_local_name (im_local_name b)) (\<lambda>local_name.
     bind_result (validate_canonical_reference (im_canonical_reference b)) (\<lambda>canonical.
       if im_resolved_symbol_id b \<noteq> None \<and> canonical = None
       then Inl (ValueError ''resolved import symbol requires a canonical reference'')
       else if ends_with reference ''.*'' \<and> local_name \<noteq> None
       then Inl (ValueError ''wildcard imports do not bind one local name'')
       else if \<not> ends_with reference ''.*'' \<and> local_name = None
       then Inl (ValueError ''non-wildcard imports must record their local name'')
       else Inr (b\<lparr>im_syntactic_reference := reference, im_local_name := local_name,
                   im_canonical_reference := canonical\<rparr>))))"

definition import_binding_json :: "import_binding \<Rightarrow> json" where
  "import_binding_json b = JObj
     [(''owner_symbol_id'', JStr (im_owner_symbol_id b)), (''kind'', JStr (import_kind_value (im_kind b))),
      (''syntactic_reference'', JStr (im_syntactic_reference b)),
      (''local_name'', jopt JStr (im_local_name b)),
      (''canonical_reference'', jopt JStr (im_canonical_reference b)),
      (''resolved_symbol_id'', jopt JStr (im_resolved_symbol_id b)),
      (''source_location'', source_location_json (im_source_location b))]"

record framework_instance =
  fw_framework_instance_id :: string
  fw_source_file_id :: string
  fw_qualified_binding_name :: string
  fw_kind :: framework_kind
  fw_definition_ordinal :: nat
  fw_prefix :: "string option"
  fw_source_location :: source_location

text \<open>The prefix validator of framework instances and of router includes.\<close>

definition validate_prefix :: "string \<Rightarrow> string option \<Rightarrow> string option result" where
  "validate_prefix msg value =
     (case value of None \<Rightarrow> Inr None
      | Some v \<Rightarrow> if strip v \<noteq> [] \<and> \<not> starts_with ''/'' (strip v)
                  then Inl (ValueError msg) else Inr (Some (strip v)))"

definition validate_framework_instance :: "framework_instance \<Rightarrow> framework_instance result" where
  "validate_framework_instance f =
     (let name = strip (fw_qualified_binding_name f)
      in if \<not> dotted_reference name
         then Inl (ValueError ''framework binding must be a dotted Python name'')
         else bind_result (validate_prefix
           ''framework route prefix must be empty or begin with '/' '' (fw_prefix f)) (\<lambda>prefix.
             Inr (f\<lparr>fw_qualified_binding_name := name, fw_prefix := prefix\<rparr>)))"

definition framework_instance_json :: "framework_instance \<Rightarrow> json" where
  "framework_instance_json f = JObj
     [(''framework_instance_id'', JStr (fw_framework_instance_id f)),
      (''source_file_id'', JStr (fw_source_file_id f)),
      (''qualified_binding_name'', JStr (fw_qualified_binding_name f)),
      (''kind'', JStr (framework_kind_value (fw_kind f))),
      (''definition_ordinal'', jnat (fw_definition_ordinal f)), (''prefix'', jopt JStr (fw_prefix f)),
      (''source_location'', source_location_json (fw_source_location f))]"

section \<open>Routes, includes, call sites and references\<close>

record route_record =
  rr_owner_symbol_id :: string
  rr_registrar_instance_id :: string
  rr_method :: string
  rr_route_path :: string
  rr_source_location :: source_location

definition validate_route :: "route_record \<Rightarrow> route_record result" where
  "validate_route r =
     (let verb = upper (strip (rr_method r)); path = strip (rr_route_path r)
      in if verb = [] then Inl (ValueError ''HTTP method must not be blank'')
         else if \<not> starts_with ''/'' path then Inl (ValueError ''route path must begin with '/' '')
         else Inr (r\<lparr>rr_method := verb, rr_route_path := path\<rparr>))"

definition route_record_json :: "route_record \<Rightarrow> json" where
  "route_record_json r = JObj
     [(''owner_symbol_id'', JStr (rr_owner_symbol_id r)),
      (''registrar_instance_id'', JStr (rr_registrar_instance_id r)),
      (''method'', JStr (rr_method r)), (''route_path'', JStr (rr_route_path r)),
      (''source_location'', source_location_json (rr_source_location r))]"

record router_include =
  ri_parent_instance_id :: string
  ri_included_router_instance_id :: string
  ri_prefix :: "string option"
  ri_source_location :: source_location

definition validate_include :: "router_include \<Rightarrow> router_include result" where
  "validate_include i =
     bind_result (validate_prefix ''router include prefix must be empty or begin with '/' '' (ri_prefix i))
       (\<lambda>prefix. Inr (i\<lparr>ri_prefix := prefix\<rparr>))"

definition router_include_json :: "router_include \<Rightarrow> json" where
  "router_include_json i = JObj
     [(''parent_instance_id'', JStr (ri_parent_instance_id i)),
      (''included_router_instance_id'', JStr (ri_included_router_instance_id i)),
      (''prefix'', jopt JStr (ri_prefix i)),
      (''source_location'', source_location_json (ri_source_location i))]"

record call_site =
  ca_caller_symbol_id :: string
  ca_callee_symbol_id :: "string option"
  ca_callee_reference :: string
  ca_source_location :: source_location

definition strip_callee_reference :: "call_site \<Rightarrow> call_site" where
  "strip_callee_reference c = c\<lparr>ca_callee_reference := strip (ca_callee_reference c)\<rparr>"

definition call_site_json :: "call_site \<Rightarrow> json" where
  "call_site_json c = JObj
     [(''caller_symbol_id'', JStr (ca_caller_symbol_id c)),
      (''callee_symbol_id'', jopt JStr (ca_callee_symbol_id c)),
      (''callee_reference'', JStr (ca_callee_reference c)),
      (''source_location'', source_location_json (ca_source_location c))]"

definition PAYMENT_EVENTS :: "string list" where
  "PAYMENT_EVENTS = [''payment.authorized'', ''payment.captured'', ''payment.failed'']"

definition PAYMENT_STATES :: "string list" where
  "PAYMENT_STATES = [''authorized'', ''captured'', ''failed'']"

definition RAZORPAY_IDENTIFIERS :: "string list" where
  "RAZORPAY_IDENTIFIERS =
     [''razorpay_event_id'', ''razorpay_order_id'', ''razorpay_payment_id'', ''razorpay_signature'']"

definition WEBHOOK_HEADERS :: "string list" where
  "WEBHOOK_HEADERS = [''x-razorpay-event-id'', ''x-razorpay-signature'']"

definition classify_payment_literal :: "string \<Rightarrow> (literal_kind \<times> string) option" where
  "classify_payment_literal raw_value =
     (let normalized = casefold (strip raw_value)
      in if normalized = [] \<or> length normalized > 256 then None
         else if normalized \<in> set PAYMENT_EVENTS then Some (LIT_PAYMENT_EVENT, normalized)
         else if normalized \<in> set PAYMENT_STATES then Some (LIT_PAYMENT_STATE, normalized)
         else if normalized \<in> set RAZORPAY_IDENTIFIERS then Some (LIT_RAZORPAY_IDENTIFIER, normalized)
         else if normalized \<in> set WEBHOOK_HEADERS then Some (LIT_WEBHOOK_HEADER, normalized)
         else None)"

record source_reference =
  sr_kind :: reference_kind
  sr_value :: string
  sr_payment_literal_kind :: "literal_kind option"
  sr_source_location :: source_location

definition validate_reference :: "source_reference \<Rightarrow> source_reference result" where
  "validate_reference r0 =
     (let r = r0\<lparr>sr_value := strip (sr_value r0)\<rparr>
      in if sr_kind r = REF_PAYMENT_LITERAL
         then (case classify_payment_literal (sr_value r) of
                 None \<Rightarrow> Inl (ValueError ''payment literal must be a recognized safe payment constant'')
               | Some (kind, normalized) \<Rightarrow>
                   if sr_payment_literal_kind r \<noteq> Some kind \<or> casefold (sr_value r) \<noteq> normalized
                   then Inl (ValueError
                     ''payment literal kind/value must match deterministic classification'')
                   else Inr r)
         else if sr_payment_literal_kind r \<noteq> None
         then Inl (ValueError ''payment_literal_kind is valid only for payment literal references'')
         else if sr_kind r = REF_IDENTIFIER
         then (if sr_value r \<notin> set RAZORPAY_IDENTIFIERS
               then Inl (ValueError ''identifier reference must be a recognized Razorpay identifier'')
               else Inr r)
         else if \<not> dotted_reference (sr_value r)
         then Inl (ValueError ''import and attribute references must be dotted Python names'')
         else Inr r)"

definition source_reference_json :: "source_reference \<Rightarrow> json" where
  "source_reference_json r = JObj
     [(''kind'', JStr (reference_kind_value (sr_kind r))), (''value'', JStr (sr_value r)),
      (''payment_literal_kind'', jopt (JStr \<circ> literal_kind_value) (sr_payment_literal_kind r)),
      (''source_location'', source_location_json (sr_source_location r))]"

text \<open>The two constructors of bounded references; \<open>None\<close> is the omitted evidence.\<close>

definition source_reference_for_payment_literal ::
  "string \<Rightarrow> source_location \<Rightarrow> source_reference option result" where
  "source_reference_for_payment_literal raw_value location =
     (case classify_payment_literal raw_value of
        None \<Rightarrow> Inr None
      | Some (kind, normalized) \<Rightarrow>
          bind_result (validate_reference \<lparr>sr_kind = REF_PAYMENT_LITERAL, sr_value = normalized,
            sr_payment_literal_kind = Some kind, sr_source_location = location\<rparr>) (\<lambda>r. Inr (Some r)))"

definition source_reference_for_payment_identifier ::
  "string \<Rightarrow> source_location \<Rightarrow> source_reference option result" where
  "source_reference_for_payment_identifier raw_name location =
     (let normalized = casefold (strip raw_name)
      in if normalized \<notin> set RAZORPAY_IDENTIFIERS then Inr None
         else bind_result (validate_reference \<lparr>sr_kind = REF_IDENTIFIER, sr_value = normalized,
                sr_payment_literal_kind = None, sr_source_location = location\<rparr>) (\<lambda>r. Inr (Some r)))"

section \<open>The index artifact\<close>

record source_index =
  ix_project_id :: string
  ix_project_source_fingerprint :: string
  ix_source_index_fingerprint :: string
  ix_indexed_files :: "source_file list"
  ix_symbols :: "symbol_record list"
  ix_imports :: "import_binding list"
  ix_call_sites :: "call_site list"
  ix_references :: "source_reference list"
  ix_framework_instances :: "framework_instance list"
  ix_app_targets :: "app_target list"
  ix_routes :: "route_record list"
  ix_router_includes :: "router_include list"
  ix_diagnostics :: "source_diagnostic list"
  ix_completeness :: source_completeness

text \<open>The fingerprint covers everything but itself and the artifact metadata.\<close>

definition source_index_fingerprint :: "source_index \<Rightarrow> string" where
  "source_index_fingerprint i = fingerprint_json (JObj
     [(''schema_version'', JInt 2), (''project_id'', JStr (ix_project_id i)),
      (''project_source_fingerprint'', JStr (ix_project_source_fingerprint i)),
      (''indexed_files'', ordered_records source_file_json (ix_indexed_files i)),
      (''symbols'', ordered_records symbol_record_json (ix_symbols i)),
      (''imports'', ordered_records import_binding_json (ix_imports i)),
      (''call_sites'', ordered_records call_site_json (ix_call_sites i)),
      (''references'', ordered_records source_reference_json (ix_references i)),
      (''framework_instances'', ordered_records framework_instance_json (ix_framework_instances i)),
      (''app_targets'', ordered_records app_target_json (ix_app_targets i)),
      (''routes'', ordered_records route_record_json (ix_routes i)),
      (''router_includes'', ordered_records router_include_json (ix_router_includes i)),
      (''diagnostics'', ordered_records source_diagnostic_json (ix_diagnostics i)),
      (''completeness'', JStr (source_completeness_value (ix_completeness i)))])"

text \<open>The lookups of the validator: \<open>path_by_file_id\<close>, \<open>symbol_by_id\<close> and \<open>framework_by_id\<close>.\<close>

definition file_path_of :: "source_index \<Rightarrow> string \<Rightarrow> string option" where
  "file_path_of i fid = map_option sf_path (dict_by sf_file_id (ix_indexed_files i) fid)"

definition symbol_of :: "source_index \<Rightarrow> string \<Rightarrow> symbol_record option" where
  "symbol_of i sid = dict_by sy_symbol_id (ix_symbols i) sid"

definition framework_of :: "source_index \<Rightarrow> string \<Rightarrow> framework_instance option" where
  "framework_of i fid = dict_by fw_framework_instance_id (ix_framework_instances i) fid"

definition known_symbol :: "source_index \<Rightarrow> string \<Rightarrow> bool" where
  "known_symbol i sid \<longleftrightarrow> sid \<in> set (map sy_symbol_id (ix_symbols i))"

definition known_framework :: "source_index \<Rightarrow> string \<Rightarrow> bool" where
  "known_framework i fid \<longleftrightarrow> fid \<in> set (map fw_framework_instance_id (ix_framework_instances i))"

text \<open>\<open>located i fid l\<close>: the location \<open>l\<close> is in the file \<open>fid\<close>; an unknown file is a \<open>KeyError\<close>.\<close>

definition check_located :: "source_index \<Rightarrow> string \<Rightarrow> source_location \<Rightarrow> string \<Rightarrow> error option" where
  "check_located i fid l msg =
     (case file_path_of i fid of
        None \<Rightarrow> Some KeyError
      | Some path \<Rightarrow> if sl_path l \<noteq> path then Some (ValueError msg) else None)"

definition check_identity :: "string result \<Rightarrow> string \<Rightarrow> string \<Rightarrow> error option" where
  "check_identity expected actual msg =
     (case expected of Inl e \<Rightarrow> Some e
      | Inr x \<Rightarrow> if actual \<noteq> x then Some (ValueError msg) else None)"

definition check_symbol :: "source_index \<Rightarrow> symbol_record \<Rightarrow> error option" where
  "check_symbol i s =
     (if sy_source_file_id s \<notin> set (map sf_file_id (ix_indexed_files i))
      then Some (ValueError ''symbol must refer to an indexed file'')
      else first_error
        [check_located i (sy_source_file_id s) (sy_source_location s)
           ''symbol location must match its source file'',
         check_identity (symbol_id (sy_source_file_id s) (sy_qualified_name s)
             (symbol_kind_value (sy_kind s)) (int (sy_definition_ordinal s)))
           (sy_symbol_id s) ''symbol ID must match its backing fields''])"

definition check_import :: "source_index \<Rightarrow> import_binding \<Rightarrow> error option" where
  "check_import i b =
     (case symbol_of i (im_owner_symbol_id b) of
        None \<Rightarrow> Some (ValueError ''import owner must refer to an indexed symbol'')
      | Some owner \<Rightarrow>
          if (case im_resolved_symbol_id b of None \<Rightarrow> False | Some r \<Rightarrow> \<not> known_symbol i r)
          then Some (ValueError ''resolved import must refer to an indexed symbol'')
          else check_located i (sy_source_file_id owner) (im_source_location b)
                 ''import location must match its owning scope file'')"

definition check_framework_instance :: "source_index \<Rightarrow> framework_instance \<Rightarrow> error option" where
  "check_framework_instance i f =
     (if fw_source_file_id f \<notin> set (map sf_file_id (ix_indexed_files i))
      then Some (ValueError ''framework instance must refer to an indexed file'')
      else first_error
        [check_located i (fw_source_file_id f) (fw_source_location f)
           ''framework-instance location must match its source file'',
         check_identity (framework_instance_id (fw_source_file_id f) (fw_qualified_binding_name f)
             (framework_kind_value (fw_kind f)) (int (fw_definition_ordinal f)))
           (fw_framework_instance_id f) ''framework-instance ID must match its backing fields''])"

definition check_app_target :: "source_index \<Rightarrow> app_target \<Rightarrow> error option" where
  "check_app_target i t =
     (case framework_of i (at_framework_instance_id t) of
        None \<Rightarrow> Some (ValueError ''application target must refer to a framework instance'')
      | Some f \<Rightarrow>
          if fw_kind f \<noteq> FASTAPI_APP
          then Some (ValueError ''application target must refer to a FastAPI app'')
          else if at_source_location t \<noteq> fw_source_location f
          then Some (ValueError ''application target location must match its framework instance'')
          else None)"

definition check_route :: "source_index \<Rightarrow> route_record \<Rightarrow> error option" where
  "check_route i r =
     (case symbol_of i (rr_owner_symbol_id r) of
        None \<Rightarrow> Some (ValueError ''route must refer to an indexed symbol'')
      | Some owner \<Rightarrow>
          if \<not> known_framework i (rr_registrar_instance_id r)
          then Some (ValueError ''route must refer to a framework instance'')
          else check_located i (sy_source_file_id owner) (rr_source_location r)
                 ''route location must match its owning symbol file'')"

definition check_include :: "source_index \<Rightarrow> router_include \<Rightarrow> error option" where
  "check_include i x =
     (case framework_of i (ri_parent_instance_id x) of
        None \<Rightarrow> Some (ValueError ''router include parent must refer to a framework instance'')
      | Some parent \<Rightarrow>
          (case framework_of i (ri_included_router_instance_id x) of
             None \<Rightarrow> Some (ValueError ''included router must refer to a framework instance'')
           | Some included \<Rightarrow>
               if fw_kind included \<noteq> API_ROUTER
               then Some (ValueError ''included framework instance must be an API router'')
               else check_located i (fw_source_file_id parent) (ri_source_location x)
                      ''router include location must match its parent instance file''))"

definition check_call_site :: "source_index \<Rightarrow> call_site \<Rightarrow> error option" where
  "check_call_site i c =
     (case symbol_of i (ca_caller_symbol_id c) of
        None \<Rightarrow> Some (ValueError ''call site caller must refer to an indexed symbol'')
      | Some caller \<Rightarrow>
          if (case ca_callee_symbol_id c of None \<Rightarrow> False | Some s \<Rightarrow> \<not> known_symbol i s)
          then Some (ValueError ''resolved call-site callee must refer to an indexed symbol'')
          else check_located i (sy_source_file_id caller) (ca_source_location c)
                 ''call-site location must match its caller symbol file'')"

definition check_unique :: "source_index \<Rightarrow> error option" where
  "check_unique i =
     (if \<not> distinct (map sf_file_id (ix_indexed_files i))
      then Some (ValueError ''indexed file IDs must be unique'')
      else if \<not> distinct (map sf_path (ix_indexed_files i))
      then Some (ValueError ''indexed file paths must be unique'')
      else if \<not> distinct (map sy_symbol_id (ix_symbols i))
      then Some (ValueError ''symbol IDs must be unique'')
      else if \<not> distinct (map fw_framework_instance_id (ix_framework_instances i))
      then Some (ValueError ''framework-instance IDs must be unique'')
      else None)"

definition validate_index :: "source_index \<Rightarrow> error option" where
  "validate_index i = first_error
     [check_unique i,
      first_error (map (check_file_identity ''indexed file ID must match its project and path''
        (ix_project_id i)) (ix_indexed_files i)),
      (if ix_project_source_fingerprint i \<noteq> project_source_fingerprint (ix_indexed_files i)
       then Some (ValueError ''project-source fingerprint must match indexed files'') else None),
      first_error (map (check_symbol i) (ix_symbols i)),
      first_error (map (check_import i) (ix_imports i)),
      first_error (map (check_framework_instance i) (ix_framework_instances i)),
      first_error (map (check_app_target i) (ix_app_targets i)),
      first_error (map (check_route i) (ix_routes i)),
      first_error (map (check_include i) (ix_router_includes i)),
      first_error (map (check_call_site i) (ix_call_sites i)),
      (if list_ex (\<lambda>r. sl_path (sr_source_location r) \<notin> set (map sf_path (ix_indexed_files i)))
           (ix_references i)
       then Some (ValueError ''source reference must refer to an indexed file path'') else None),
      (if ix_completeness i \<noteq> completeness_for (ix_diagnostics i)
       then Some (ValueError ''source-index completeness must match diagnostic impact'') else None),
      (if ix_source_index_fingerprint i \<noteq> source_index_fingerprint i
       then Some (ValueError ''source-index fingerprint must match indexed contents'') else None)]"

section \<open>An accepted index is closed\<close>

lemma valid_index_stages:
  assumes "validate_index i = None"
  shows "check_unique i = None"
    and "s \<in> set (ix_symbols i) \<Longrightarrow> check_symbol i s = None"
    and "b \<in> set (ix_imports i) \<Longrightarrow> check_import i b = None"
    and "r \<in> set (ix_routes i) \<Longrightarrow> check_route i r = None"
    and "x \<in> set (ix_router_includes i) \<Longrightarrow> check_include i x = None"
    and "c \<in> set (ix_call_sites i) \<Longrightarrow> check_call_site i c = None"
    and "t \<in> set (ix_app_targets i) \<Longrightarrow> check_app_target i t = None"
  using assms by (auto simp: validate_index_def first_error_None_iff)

lemma valid_index_distinct:
  assumes "validate_index i = None"
  shows "distinct (map sf_file_id (ix_indexed_files i))" and "distinct (map sy_symbol_id (ix_symbols i))"
    and "distinct (map fw_framework_instance_id (ix_framework_instances i))"
  using valid_index_stages(1)[OF assms] by (simp_all add: check_unique_def split: if_splits)

interpretation index_files: keyed_records sf_file_id ix_indexed_files "\<lambda>i. validate_index i = None"
  by unfold_locales (rule valid_index_distinct)

interpretation index_symbols: keyed_records sy_symbol_id ix_symbols "\<lambda>i. validate_index i = None"
  by unfold_locales (rule valid_index_distinct)

interpretation index_frameworks:
  keyed_records fw_framework_instance_id ix_framework_instances "\<lambda>i. validate_index i = None"
  by unfold_locales (rule valid_index_distinct)

lemma check_located_None:
  "check_located i fid l msg = None \<longleftrightarrow> file_path_of i fid = Some (sl_path l)"
  by (auto simp: check_located_def split: option.splits)

lemma check_identity_None: "check_identity expected actual msg = None \<longleftrightarrow> expected = Inr actual"
  by (auto simp: check_identity_def split: sum.splits)

lemma valid_symbol_identity:
  assumes "validate_index i = None" and "s \<in> set (ix_symbols i)"
  shows "symbol_id (sy_source_file_id s) (sy_qualified_name s) (symbol_kind_value (sy_kind s))
           (int (sy_definition_ordinal s)) = Inr (sy_symbol_id s)"
  using valid_index_stages(2)[OF assms(1), of s] assms(2)
  by (auto simp: check_symbol_def first_error_None_iff check_identity_None split: if_splits)

lemma valid_symbol_file:
  assumes "validate_index i = None" and "s \<in> set (ix_symbols i)"
  shows "file_path_of i (sy_source_file_id s) = Some (sl_path (sy_source_location s))"
  using valid_index_stages(2)[OF assms(1), of s] assms(2)
  by (auto simp: check_symbol_def first_error_None_iff check_located_None split: if_splits)

section \<open>Bounded references\<close>

definition bounded_vocabulary :: "string list" where
  "bounded_vocabulary = PAYMENT_EVENTS @ PAYMENT_STATES @ RAZORPAY_IDENTIFIERS @ WEBHOOK_HEADERS"

lemma vocabulary_normal: "\<forall>v \<in> set bounded_vocabulary. strip v = v \<and> casefold v = v"
  by code_simp

lemma vocabulary_classified: "\<forall>v \<in> set bounded_vocabulary. classify_payment_literal v \<noteq> None"
  by code_simp

lemma classify_in_vocabulary:
  "classify_payment_literal raw = Some (k, v) \<Longrightarrow> v \<in> set bounded_vocabulary \<and> v = casefold (strip raw)"
  by (auto simp: classify_payment_literal_def bounded_vocabulary_def Let_def split: if_splits)

lemma classify_idem:
  assumes "classify_payment_literal raw = Some (k, v)"
  shows "classify_payment_literal v = Some (k, v)"
proof -
  have "v \<in> set bounded_vocabulary" and v: "v = casefold (strip raw)"
    using classify_in_vocabulary[OF assms] by blast+
  then have "casefold (strip v) = casefold (strip raw)" using vocabulary_normal by metis
  then have "classify_payment_literal v = classify_payment_literal raw"
    by (simp add: classify_payment_literal_def)
  then show ?thesis using assms by simp
qed

section \<open>Properties\<close>

text \<open>
  In an accepted index a symbol is determined by its backing fields: two recorded symbols
  of the same file with the same qualified name, kind and definition ordinal are one record.
\<close>

theorem index_symbols_determined:
  assumes "validate_index i = None" and "s \<in> set (ix_symbols i)" and "s' \<in> set (ix_symbols i)"
    and "sy_source_file_id s = sy_source_file_id s'" and "sy_kind s = sy_kind s'"
    and "strip (sy_qualified_name s) = strip (sy_qualified_name s')"
    and "sy_definition_ordinal s = sy_definition_ordinal s'"
  shows "s = s'"
proof -
  have "sy_symbol_id s = sy_symbol_id s'"
    using valid_symbol_identity[OF assms(1,2)] valid_symbol_identity[OF assms(1,3)] assms(4-7)
    by (auto simp: symbol_id_def blank_def split: if_splits)
  then show ?thesis
    using index_symbols.lookup_record[OF assms(1)] assms(2,3) by (metis option.inject)
qed

text \<open>
  The call graph of an accepted index is closed and located: the caller of every call site
  and, when it is resolved, its callee are recorded symbols, and the call is in the file of its
  caller.
\<close>

theorem index_calls_closed:
  assumes "validate_index i = None" and "c \<in> set (ix_call_sites i)"
  shows "\<exists>caller \<in> set (ix_symbols i). sy_symbol_id caller = ca_caller_symbol_id c \<and>
           sl_path (sy_source_location caller) = sl_path (ca_source_location c) \<and>
           (\<forall>x. ca_callee_symbol_id c = Some x \<longrightarrow> (\<exists>callee \<in> set (ix_symbols i). sy_symbol_id callee = x))"
proof -
  have ok: "check_call_site i c = None" by (rule valid_index_stages(6)[OF assms])
  then obtain caller where caller: "symbol_of i (ca_caller_symbol_id c) = Some caller"
    by (auto simp: check_call_site_def split: option.splits)
  then have s: "caller \<in> set (ix_symbols i)" "sy_symbol_id caller = ca_caller_symbol_id c"
    by (auto simp: symbol_of_def dest: dict_by_SomeD)
  have "file_path_of i (sy_source_file_id caller) = Some (sl_path (ca_source_location c))"
    and callee: "\<And>x. ca_callee_symbol_id c = Some x \<Longrightarrow> known_symbol i x"
    using ok caller by (auto simp: check_call_site_def check_located_None split: option.splits if_splits)
  then have "sl_path (sy_source_location caller) = sl_path (ca_source_location c)"
    using valid_symbol_file[OF assms(1) s(1)] by simp
  then show ?thesis using s callee by (fastforce simp: known_symbol_def)
qed

text \<open>
  No source text leaks through a payment literal: for any text of the analysed project the
  constructor never raises, and what it keeps is one of twelve fixed constants.
\<close>

theorem payment_literals_are_bounded:
  "\<exists>kept. source_reference_for_payment_literal raw location = Inr kept \<and>
     (case kept of
        None \<Rightarrow> classify_payment_literal raw = None
      | Some r \<Rightarrow> sr_value r \<in> set bounded_vocabulary \<and> sr_value r = casefold (strip raw) \<and>
                  sr_source_location r = location)"
proof (cases "classify_payment_literal raw")
  case None
  then show ?thesis by (simp add: source_reference_for_payment_literal_def)
next
  case (Some kv)
  obtain k v where kv: "kv = (k, v)" by (cases kv)
  have v: "v \<in> set bounded_vocabulary" "v = casefold (strip raw)" "classify_payment_literal v = Some (k, v)"
    using Some kv classify_in_vocabulary classify_idem by blast+
  then have "strip v = v" "casefold v = v" using vocabulary_normal by auto
  then show ?thesis using Some kv v
    by (simp add: source_reference_for_payment_literal_def validate_reference_def Let_def)
qed

text \<open>
  The fingerprint of the index depends on which records it has, not on the order in which
  the discovery produced them.
\<close>

theorem index_fingerprint_order_independent:
  assumes "ix_project_id i = ix_project_id j"
    and "ix_project_source_fingerprint i = ix_project_source_fingerprint j"
    and "mset (ix_indexed_files i) = mset (ix_indexed_files j)" and "mset (ix_symbols i) = mset (ix_symbols j)"
    and "mset (ix_imports i) = mset (ix_imports j)" and "mset (ix_call_sites i) = mset (ix_call_sites j)"
    and "mset (ix_references i) = mset (ix_references j)"
    and "mset (ix_framework_instances i) = mset (ix_framework_instances j)"
    and "mset (ix_app_targets i) = mset (ix_app_targets j)" and "mset (ix_routes i) = mset (ix_routes j)"
    and "mset (ix_router_includes i) = mset (ix_router_includes j)"
    and "mset (ix_diagnostics i) = mset (ix_diagnostics j)" and "ix_completeness i = ix_completeness j"
  shows "source_index_fingerprint i = source_index_fingerprint j"
  by (simp only: source_index_fingerprint_def fingerprint_json_def canonical_json.simps list.map prod.case
      assms(1,2,13) ordered_records_perm[OF assms(3)] ordered_records_perm[OF assms(4)]
      ordered_records_perm[OF assms(5)] ordered_records_perm[OF assms(6)]
      ordered_records_perm[OF assms(7)] ordered_records_perm[OF assms(8)]
      ordered_records_perm[OF assms(9)] ordered_records_perm[OF assms(10)]
      ordered_records_perm[OF assms(11)] ordered_records_perm[OF assms(12)])

section \<open>Witnesses\<close>

definition demo_location :: source_location where
  "demo_location = \<lparr>sl_path = ''app/main.py'', sl_line_start = 3, sl_column_start = 0,
     sl_line_end = 9, sl_column_end = 4\<rparr>"

definition demo_file :: source_file where
  "demo_file = \<lparr>sf_file_id = stable_id ''sgfile'' [''p'', ''app/main.py''], sf_path = ''app/main.py'',
     sf_content_fingerprint = ''fp'', sf_byte_size = 120\<rparr>"

definition demo_symbol :: "string \<Rightarrow> symbol_record" where
  "demo_symbol name = \<lparr>sy_symbol_id = stable_id ''sgsym''
       [stable_id ''sgfile'' [''p'', ''app/main.py''], name, ''FUNCTION'', ''0''],
     sy_source_file_id = stable_id ''sgfile'' [''p'', ''app/main.py''], sy_qualified_name = name,
     sy_kind = SYM_FUNCTION, sy_signature = ''()'', sy_definition_ordinal = 0,
     sy_source_location = demo_location\<rparr>"

definition demo_call :: call_site where
  "demo_call = \<lparr>ca_caller_symbol_id = sy_symbol_id (demo_symbol ''app.main.hook''),
     ca_callee_symbol_id = Some (sy_symbol_id (demo_symbol ''app.main.hook'')),
     ca_callee_reference = ''hook'', ca_source_location = demo_location\<rparr>"

definition demo_draft_index :: source_index where
  "demo_draft_index = \<lparr>ix_project_id = ''p'',
     ix_project_source_fingerprint = project_source_fingerprint [demo_file],
     ix_source_index_fingerprint = '''', ix_indexed_files = [demo_file],
     ix_symbols = [demo_symbol ''app.main.hook''], ix_imports = [], ix_call_sites = [demo_call],
     ix_references = [], ix_framework_instances = [], ix_app_targets = [], ix_routes = [],
     ix_router_includes = [], ix_diagnostics = [], ix_completeness = SOURCE_COMPLETE\<rparr>"

definition demo_index :: source_index where
  "demo_index = demo_draft_index
     \<lparr>ix_source_index_fingerprint := source_index_fingerprint demo_draft_index\<rparr>"

lemma fingerprint_ignores_itself [simp]:
  "source_index_fingerprint (i\<lparr>ix_source_index_fingerprint := x\<rparr>) = source_index_fingerprint i"
  by (simp add: source_index_fingerprint_def)

lemma demo_file_identity: "source_file_id ''p'' ''app/main.py'' = Inr (stable_id ''sgfile'' [''p'', ''app/main.py''])"
proof -
  have "normalize_relative_path ''app/main.py'' = Inr ''app/main.py''" by code_simp
  then show ?thesis by (simp add: source_file_id_def)
qed

lemma demo_symbol_identity:
  "symbol_id f ''app.main.hook'' ''FUNCTION'' 0 = Inr (stable_id ''sgsym'' [f, ''app.main.hook'', ''FUNCTION'', ''0''])"
proof -
  have "strip ''app.main.hook'' = ''app.main.hook''" "strip ''FUNCTION'' = ''FUNCTION''" "str_int 0 = ''0''"
    by code_simp+
  then show ?thesis by (simp add: symbol_id_def blank_def)
qed

lemma demo_index_fingerprint: "ix_source_index_fingerprint demo_index = source_index_fingerprint demo_index"
  unfolding demo_index_def fingerprint_ignores_itself by simp

lemma demo_index_valid: "validate_index demo_index = None"
  unfolding validate_index_def first_error_None_iff demo_index_fingerprint
  by (simp add: demo_index_def demo_draft_index_def check_unique_def check_file_identity_def
      demo_file_identity demo_file_def check_symbol_def demo_symbol_def check_located_def
      file_path_of_def dict_by_def check_identity_def demo_symbol_identity demo_location_def
      check_call_site_def demo_call_def symbol_of_def known_symbol_def completeness_for_def
      project_source_fingerprint_def)

theorem index_symbols_determined_witness:
  "the (symbol_of demo_index (sy_symbol_id (demo_symbol ''app.main.hook''))) = demo_symbol ''app.main.hook''"
proof (rule index_symbols_determined[OF demo_index_valid])
  show "the (symbol_of demo_index (sy_symbol_id (demo_symbol ''app.main.hook''))) \<in> set (ix_symbols demo_index)"
    "demo_symbol ''app.main.hook'' \<in> set (ix_symbols demo_index)"
    by (simp_all add: symbol_of_def dict_by_def demo_index_def demo_draft_index_def)
qed (simp_all add: symbol_of_def dict_by_def demo_index_def demo_draft_index_def)

theorem index_calls_closed_witness:
  "\<exists>caller \<in> set (ix_symbols demo_index). sy_symbol_id caller = ca_caller_symbol_id demo_call"
proof -
  have "demo_call \<in> set (ix_call_sites demo_index)" by (simp add: demo_index_def demo_draft_index_def)
  then show ?thesis using index_calls_closed[OF demo_index_valid] by blast
qed

theorem index_fingerprint_order_independent_witness:
  "source_index_fingerprint (demo_index\<lparr>ix_symbols := [demo_symbol ''a'', demo_symbol ''b'']\<rparr>) =
   source_index_fingerprint (demo_index\<lparr>ix_symbols := [demo_symbol ''b'', demo_symbol ''a'']\<rparr>)"
  by (rule index_fingerprint_order_independent) simp_all

end
