(* ===== verification/RequestMaterial.thy ===== *)
theory RequestMaterial
  imports ScenarioResult
begin

text \<open>
  The request material the scenarios send: the pinned webhook fixture and its signature
  (\<open>failure_lab/captured_webhook.py\<close>), the request sequences of \<open>sg04.py\<close>, \<open>sg05.py\<close>,
  \<open>sg06.py\<close> and \<open>sg08.py\<close>, and the fingerprints of the eight scenario definitions.  The
  theorems show that every prepared sequence carries a valid input reference and that the
  adversarial request differs from the valid one exactly where it should.
\<close>

section \<open>Scenario definitions\<close>

definition SG01_DEFINITION_FINGERPRINT :: string where
  "SG01_DEFINITION_FINGERPRINT = fingerprint_json (JObj
     [(''scenario'', JStr ''SG-01''),
      (''definition_version'', JInt 1),
      (''fixture_id'', JStr (fixture_id_value RZP_PAYMENT_CAPTURED_SAMPLE_V1)),
      (''invariant'', JStr ''exact correlated customer-value target entry cardinality''),
      (''terminal_requirement'', JStr ''one normal Python terminal return for pass''),
      (''rules'', jstrs (map rule_fingerprint
         [PAYMENT_CAPTURED_WEBHOOK_EVENT, WEBHOOK_SIGNATURE_RAW_BODY]))])"

definition SG02_DEFINITION_FINGERPRINT :: string where
  "SG02_DEFINITION_FINGERPRINT = fingerprint_json (JObj
     [(''scenario'', JStr ''SG-02''),
      (''definition_version'', JInt 1),
      (''fixture_id'', JStr (fixture_id_value RZP_PAYMENT_CAPTURED_SAMPLE_V1)),
      (''sequence'', JStr ''the same captured webhook event is delivered twice sequentially''),
      (''positive_control'', JStr ''delivery one satisfies the SG-01 normal lifecycle''),
      (''invariant'', JStr ''total exact correlated customer-value target entries are at most one''),
      (''rules'', jstrs (map rule_fingerprint
         [PAYMENT_CAPTURED_WEBHOOK_EVENT, WEBHOOK_SIGNATURE_RAW_BODY, WEBHOOK_DUPLICATE_DELIVERY]))])"

definition SG03_DEFINITION_FINGERPRINT :: string where
  "SG03_DEFINITION_FINGERPRINT = fingerprint_json (JObj
     [(''scenario'', JStr ''SG-03''),
      (''definition_version'', JInt 1),
      (''fixture_id'', JStr (fixture_id_value RZP_PAYMENT_CAPTURED_SAMPLE_V1)),
      (''sequence'', JStr ''captured webhook with modeled failed acknowledgement, then modeled retry''),
      (''acknowledgement_model'', JStr ''StateGuard forces an exact merchant 2xx to effective 503''),
      (''invariant'', JStr ''the modeled retry adds no exact customer-value target entry''),
      (''rules'', jstrs (map rule_fingerprint
         [PAYMENT_CAPTURED_WEBHOOK_EVENT, WEBHOOK_SIGNATURE_RAW_BODY, WEBHOOK_RETRY_ON_UNSUCCESSFUL_ACK]))])"

definition SG04_DEFINITION_FINGERPRINT :: string where
  "SG04_DEFINITION_FINGERPRINT = fingerprint_json (JObj
     [(''scenario'', JStr ''SG-04''),
      (''definition_version'', JInt 1),
      (''sequence'', JStr ''payment.captured then stale payment.authorized for one payment/order''),
      (''customer_invariant'', JStr ''stale event adds no exact customer-value target entry''),
      (''optional_state_invariant'', JStr ''captured merchant state does not regress to authorized''),
      (''rules'', jstrs (map rule_fingerprint
         [PAYMENT_CAPTURED_WEBHOOK_EVENT, WEBHOOK_ORDER_NOT_GUARANTEED, WEBHOOK_SIGNATURE_RAW_BODY]))])"

definition SG05_DEFINITION_FINGERPRINT :: string where
  "SG05_DEFINITION_FINGERPRINT = fingerprint_json (JObj
     [(''scenario'', JStr ''SG-05''),
      (''definition_version'', JInt 1),
      (''fixture_id'', JStr (fixture_id_value RZP_PAYMENT_CAPTURED_SAMPLE_V1)),
      (''sequence'', JStr ''rejected signature first, valid signature control second''),
      (''adversarial_variation'', JStr ''one deterministic hexadecimal signature nibble''),
      (''customer_invariant'', JStr ''rejected request does not enter exact customer target''),
      (''mutation_invariant'', JStr ''rejected request completes no exact mutation instruction''),
      (''rules'', jstrs (map rule_fingerprint
         [PAYMENT_CAPTURED_WEBHOOK_EVENT, WEBHOOK_SIGNATURE_RAW_BODY]))])"

definition SG06_DEFINITION_FINGERPRINT :: string where
  "SG06_DEFINITION_FINGERPRINT = fingerprint_json (JObj
     [(''scenario'', JStr ''SG-06''),
      (''definition_version'', JInt 1),
      (''sequence'', JStr ''tampered Checkout callback then valid server-order control''),
      (''invariant'', JStr ''tampered callback creates no protected merchant effect''),
      (''rules'', jstrs (map rule_fingerprint
         [CHECKOUT_SERVER_SIGNATURE_VERIFICATION, CHECKOUT_SERVER_ORDER_ID]))])"

definition SG07_DEFINITION_FINGERPRINT :: string where
  "SG07_DEFINITION_FINGERPRINT = fingerprint_json (JObj
     [(''scenario'', JStr ''SG-07''),
      (''definition_version'', JInt 1),
      (''condition'', JStr ''Checkout callback omitted; captured webhook delivered''),
      (''invariant'', JStr ''server-side path reaches the exact customer outcome once''),
      (''rules'', jstrs (map rule_fingerprint
         [PAYMENT_CAPTURED_WEBHOOK_EVENT, WEBHOOK_SIGNATURE_RAW_BODY]))])"

definition SG08_DEFINITION_FINGERPRINT :: string where
  "SG08_DEFINITION_FINGERPRINT = fingerprint_json (JObj
     [(''scenario'', JStr ''SG-08''),
      (''definition_version'', JInt 1),
      (''context_authority'', JStr ''StateGuard-modeled; merchant late business state is not implied''),
      (''capture_sequence'', JStr ''payment.authorized then payment.captured for one payment/order''),
      (''rules'', jstrs (map rule_fingerprint
         [PAYMENT_AUTHORIZED_WEBHOOK_EVENT, PAYMENT_CAPTURED_WEBHOOK_EVENT, LATE_AUTHORISATION_BUSINESS_POLICY, WEBHOOK_SIGNATURE_RAW_BODY]))])"

section \<open>The webhook fixture\<close>

text \<open>
  \<open>str.encode("ascii")\<close> raises on a character above 127.  The fields of the template that a
  scenario overrides are the fields of \<open>fixture_values\<close>; the other fields are constant.
\<close>

definition encode_ascii :: "string \<Rightarrow> byte list result" where
  "encode_ascii s =
     (if list_all (\<lambda>c. (of_char c :: nat) < 128) s then Inr (utf8 s)
      else Inl (ValueError ''ordinal not in range(128)''))"

record fixture_values =
  fx_amount :: int
  fx_currency :: string
  fx_captured :: bool
  fx_status :: string
  fx_id :: string
  fx_order_id :: string

definition fixture_entity :: "fixture_values \<Rightarrow> json" where
  "fixture_entity v = JObj
     [(''acquirer_data'', JObj [(''bank_transaction_id'', JStr ''STATEGUARD_REDACTED'')]),
      (''amount'', JInt (fx_amount v)),
      (''amount_refunded'', JInt 0),
      (''captured'', JBool (fx_captured v)),
      (''contact'', JStr ''+910000000000''),
      (''created_at'', JInt 1700000000),
      (''currency'', JStr (fx_currency v)),
      (''description'', JStr ''StateGuard offline synthetic fixture''),
      (''email'', JStr ''redacted@example.invalid''),
      (''entity'', JStr ''payment''),
      (''error_code'', JNull),
      (''error_description'', JNull),
      (''fee'', JInt 0),
      (''id'', JStr (fx_id v)),
      (''international'', JBool False),
      (''invoice_id'', JNull),
      (''method'', JStr ''netbanking''),
      (''notes'', JArr []),
      (''order_id'', JStr (fx_order_id v)),
      (''refund_status'', JNull),
      (''status'', JStr (fx_status v)),
      (''tax'', JInt 0)]"

definition fixture_template :: "string \<Rightarrow> fixture_values \<Rightarrow> json" where
  "fixture_template event v = JObj
     [(''account_id'', JStr ''acc_STATEGUARD_REDACTED''), (''contains'', jstrs [''payment'']),
      (''created_at'', JInt 1700000000), (''entity'', JStr ''event''), (''event'', JStr event),
      (''payload'', JObj [(''payment'', JObj [(''entity'', fixture_entity v)])])]"

definition template_values :: fixture_values where
  "template_values = \<lparr>fx_amount = 100, fx_currency = ''INR'', fx_captured = True,
     fx_status = ''captured'', fx_id = ''__PAYMENT_ID__'', fx_order_id = ''__ORDER_ID__''\<rparr>"

record captured_profile =
  pf_amount :: int
  pf_currency :: string
  pf_status :: string
  pf_captured :: bool

definition profile_values :: "captured_profile option \<Rightarrow> fixture_values \<Rightarrow> fixture_values" where
  "profile_values profile v =
     (case profile of None \<Rightarrow> v
      | Some p \<Rightarrow> v\<lparr>fx_amount := pf_amount p, fx_currency := pf_currency p,
                     fx_status := pf_status p, fx_captured := pf_captured p\<rparr>)"

definition captured_fixture_fingerprint :: "captured_profile option \<Rightarrow> string" where
  "captured_fixture_fingerprint profile = fingerprint_json (JObj
     [(''fixture_id'', JStr (fixture_id_value RZP_PAYMENT_CAPTURED_SAMPLE_V1)),
      (''template'', fixture_template ''payment.captured'' (profile_values profile template_values)),
      (''rule'', JStr (rule_fingerprint PAYMENT_CAPTURED_WEBHOOK_EVENT))])"

definition event_values :: "string \<Rightarrow> fixture_values" where
  "event_values normalized =
     template_values\<lparr>fx_captured := (normalized = ''captured''), fx_status := normalized\<rparr>"

definition payment_event_fixture_fingerprint :: "string \<Rightarrow> string" where
  "payment_event_fixture_fingerprint event =
     (let normalized = remove_prefix ''payment.'' event;
          captured = (normalized = ''captured'')
      in fingerprint_json (JObj
        [(''fixture_id'', JStr (fixture_id_value
           (if captured then RZP_PAYMENT_CAPTURED_SAMPLE_V1 else RZP_PAYMENT_AUTHORIZED_SAMPLE_V1))),
         (''template'', fixture_template (''payment.'' @ normalized) (event_values normalized)),
         (''rule'', JStr (rule_fingerprint
           (if captured then PAYMENT_CAPTURED_WEBHOOK_EVENT else PAYMENT_AUTHORIZED_WEBHOOK_EVENT)))]))"

section \<open>A prepared webhook\<close>

record prepared_webhook =
  pw_raw_body :: "byte list"
  pw_headers :: "(string \<times> string) list"
  pw_fixture_fingerprint :: string
  pw_raw_body_fingerprint :: string
  pw_synthetic_event_id :: string
  pw_path :: string
  pw_grounding_fingerprint :: "string option"
  pw_sanitized_projection_fingerprint :: "string option"

text \<open>Building a reference runs its validators.\<close>

definition checked_reference :: "input_reference \<Rightarrow> input_reference result" where
  "checked_reference ref = (case validate_input_reference ref of Some e \<Rightarrow> Inl e | None \<Rightarrow> Inr ref)"

definition prepared_input_reference :: "prepared_webhook \<Rightarrow> input_reference result" where
  "prepared_input_reference p =
     (let fields = \<lambda>auth. \<lparr>wi_authority = auth, wi_fixture_fingerprint = pw_fixture_fingerprint p,
            wi_raw_body_fingerprint = pw_raw_body_fingerprint p,
            wi_synthetic_event_id = pw_synthetic_event_id p, wi_path = pw_path p,
            wi_header_names = safe_header_names\<rparr>
      in case (pw_grounding_fingerprint p, pw_sanitized_projection_fingerprint p) of
           (Some g, Some s) \<Rightarrow> checked_reference
             (GroundedInput (fields STATEGUARD_SYNTHETIC_FROM_RAZORPAY_TEST_RESOURCE) g s)
         | _ \<Rightarrow> checked_reference (OfflineInput (fields STATEGUARD_OFFLINE_SYNTHETIC)))"

definition synthetic_suffix :: "string \<Rightarrow> string result" where
  "synthetic_suffix execution_id =
     bind_result (encode_ascii execution_id) (\<lambda>bytes. Inr (take 20 (hexdigest bytes)))"

definition webhook_headers :: "string \<Rightarrow> string \<Rightarrow> (string \<times> string) list" where
  "webhook_headers signature event_id =
     [(''Content-Type'', ''application/json''), (''X-Razorpay-Signature'', signature),
      (''x-razorpay-event-id'', event_id)]"

definition prepare_payment_webhook_event ::
  "string \<Rightarrow> string \<Rightarrow> string \<Rightarrow> string \<Rightarrow> string \<Rightarrow> prepared_webhook result" where
  "prepare_payment_webhook_event execution_id path secret event event_id_suffix =
     (let normalized = remove_prefix ''payment.'' event
      in if normalized \<notin> {''authorized'', ''captured''} \<or> event_id_suffix \<notin> {''a'', ''c''}
         then Inl (ValueError ''supported payment event and matching sequence suffix are required'')
         else bind_result (synthetic_suffix execution_id) (\<lambda>suffix.
           let fixture = fixture_template (''payment.'' @ normalized)
                 ((event_values normalized)\<lparr>fx_id := ''pay_'' @ suffix, fx_order_id := ''order_'' @ suffix\<rparr>);
               raw_body = utf8 (canonical_json fixture);
               event_id = ''evt_stateguard_'' @ suffix @ ''_'' @ event_id_suffix
           in Inr \<lparr>pw_raw_body = raw_body,
                   pw_headers = webhook_headers (hmac_hexdigest (utf8 secret) raw_body) event_id,
                   pw_fixture_fingerprint = payment_event_fixture_fingerprint normalized,
                   pw_raw_body_fingerprint = sha256_digest raw_body,
                   pw_synthetic_event_id = event_id, pw_path = path,
                   pw_grounding_fingerprint = None,
                   pw_sanitized_projection_fingerprint = None\<rparr>))"

definition prepare_captured_webhook ::
  "string \<Rightarrow> string \<Rightarrow> string \<Rightarrow> captured_profile option \<Rightarrow> string option \<Rightarrow> string option \<Rightarrow>
   prepared_webhook result" where
  "prepare_captured_webhook execution_id path secret profile grounding_fp projection_fp =
     (if (profile = None) \<noteq> (grounding_fp = None \<or> projection_fp = None)
      then Inl (ValueError
        ''grounded captured input requires the complete safe grounding reference'')
      else bind_result (synthetic_suffix execution_id) (\<lambda>suffix.
        let fixture = fixture_template ''payment.captured''
              ((profile_values profile template_values)
                 \<lparr>fx_id := ''pay_'' @ suffix, fx_order_id := ''order_'' @ suffix\<rparr>);
            raw_body = utf8 (canonical_json fixture);
            event_id = ''evt_stateguard_'' @ suffix
        in Inr \<lparr>pw_raw_body = raw_body,
                pw_headers = webhook_headers (hmac_hexdigest (utf8 secret) raw_body) event_id,
                pw_fixture_fingerprint = captured_fixture_fingerprint profile,
                pw_raw_body_fingerprint = sha256_digest raw_body,
                pw_synthetic_event_id = event_id, pw_path = path,
                pw_grounding_fingerprint = grounding_fp,
                pw_sanitized_projection_fingerprint = projection_fp\<rparr>))"

section \<open>SG-04: captured, then stale authorized\<close>

record sg04_requests =
  r4_captured :: prepared_webhook
  r4_authorized :: prepared_webhook
  r4_input_reference :: input_reference

definition prepare_sg04_requests :: "string \<Rightarrow> string \<Rightarrow> string \<Rightarrow> sg04_requests result" where
  "prepare_sg04_requests execution_id path secret =
     bind_result (prepare_payment_webhook_event execution_id path secret ''captured'' ''c'') (\<lambda>captured.
     bind_result (prepare_payment_webhook_event execution_id path secret ''authorized'' ''a'') (\<lambda>authorized.
     let event = \<lambda>role fixture p. \<lparr>sq_role = role, sq_fixture_id = fixture,
           sq_fixture_fingerprint = pw_fixture_fingerprint p,
           sq_raw_body_fingerprint = pw_raw_body_fingerprint p,
           sq_synthetic_event_id = pw_synthetic_event_id p\<rparr>;
         context_fp = fingerprint_json (JObj
           [(''execution_id'', JStr execution_id),
            (''payment_identity_source'', JStr ''shared deterministic execution suffix'')])
     in bind_result (checked_reference (WebhookSequenceInput
          \<lparr>ws_context_fingerprint = context_fp, ws_path = path,
           ws_events = (event CAPTURED_CONTROL RZP_PAYMENT_CAPTURED_SAMPLE_V1 captured,
                        event STALE_AUTHORIZED RZP_PAYMENT_AUTHORIZED_SAMPLE_V1 authorized)\<rparr>))
        (\<lambda>reference. Inr \<lparr>r4_captured = captured, r4_authorized = authorized,
                           r4_input_reference = reference\<rparr>)))"

section \<open>SG-05: rejected, then valid signature\<close>

record sg05_requests =
  r5_raw_body :: "byte list"
  r5_rejected_headers :: "(string \<times> string) list"
  r5_valid_headers :: "(string \<times> string) list"
  r5_input_reference :: input_reference

text \<open>A dictionary in insertion order: assigning an existing key keeps its position.\<close>

fun dict_put :: "'k \<Rightarrow> 'v \<Rightarrow> ('k \<times> 'v) list \<Rightarrow> ('k \<times> 'v) list" where
  "dict_put k v [] = [(k, v)]"
| "dict_put k v ((k', v') # kvs) = (if k' = k then (k, v) # kvs else (k', v') # dict_put k v kvs)"

definition prepare_sg05_requests :: "string \<Rightarrow> string \<Rightarrow> string \<Rightarrow> sg05_requests result" where
  "prepare_sg05_requests execution_id path secret =
     bind_result (prepare_captured_webhook execution_id path secret None None None) (\<lambda>prepared.
     case map_of (pw_headers prepared) ''X-Razorpay-Signature'' of
       None \<Rightarrow> Inl KeyError
     | Some signature \<Rightarrow>
         bind_result (rejected_signature signature) (\<lambda>rejected.
         bind_result (prepared_input_reference prepared) (\<lambda>reference.
           Inr \<lparr>r5_raw_body = pw_raw_body prepared,
                r5_rejected_headers = dict_put ''X-Razorpay-Signature'' rejected (pw_headers prepared),
                r5_valid_headers = pw_headers prepared, r5_input_reference = reference\<rparr>)))"

section \<open>SG-06: a tampered and a valid Checkout callback\<close>

record checkout_request =
  kr_headers :: "(string \<times> string) list"
  kr_content :: "byte list option"
  kr_params :: "(string \<times> string) list option"

record sg06_requests =
  r6_tampered :: checkout_request
  r6_valid :: checkout_request
  r6_input_reference :: input_reference

definition checkout_signature :: "string \<Rightarrow> string \<Rightarrow> string \<Rightarrow> string" where
  "checkout_signature order_id payment_id secret =
     hmac_hexdigest (utf8 secret) (utf8 (order_id @ ''|'' @ payment_id))"

text \<open>\<open>urllib.parse.urlencode\<close>: \<open>quote_plus\<close> on the UTF-8 bytes of every key and value.\<close>

definition url_safe :: "nat \<Rightarrow> bool" where
  "url_safe n \<longleftrightarrow> (48 \<le> n \<and> n \<le> 57) \<or> (65 \<le> n \<and> n \<le> 90) \<or> (97 \<le> n \<and> n \<le> 122) \<or>
     n = 45 \<or> n = 46 \<or> n = 95 \<or> n = 126"

definition upper_hex_digit :: "nat \<Rightarrow> char" where
  "upper_hex_digit n = (if n < 10 then char_of (48 + n) else char_of (55 + n))"

definition quote_byte :: "byte \<Rightarrow> string" where
  "quote_byte b =
     (let n = unat b
      in if n = 32 then ''+'' else if url_safe n then [char_of n]
         else ''%'' @ [upper_hex_digit (n div 16), upper_hex_digit (n mod 16)])"

definition quote_plus :: "string \<Rightarrow> string" where
  "quote_plus s = concat (map quote_byte (utf8 s))"

definition urlencode :: "(string \<times> string) list \<Rightarrow> string" where
  "urlencode kvs = join ''&'' (map (\<lambda>(k, v). quote_plus k @ ''='' @ quote_plus v) kvs)"

definition request_alias :: "checkout_request_binding \<Rightarrow> string \<Rightarrow> string result" where
  "request_alias binding name =
     (case dict_by fb_canonical_name (rb_fields binding) name of
        None \<Rightarrow> Inl KeyError | Some f \<Rightarrow> Inr (fb_request_name f))"

definition render_payload ::
  "checkout_request_binding \<Rightarrow> (string \<times> string) list \<Rightarrow> (string \<times> string) list result" where
  "render_payload binding values =
     bind_result (traverse (\<lambda>(name, value).
         bind_result (request_alias binding name) (\<lambda>alias. Inr (alias, value))) values)
       (\<lambda>kvs. Inr (fold (\<lambda>(k, v) payload. dict_put k v payload) kvs []))"

definition payload_json :: "(string \<times> string) list \<Rightarrow> json" where
  "payload_json payload = JObj (map (\<lambda>(k, v). (k, JStr v)) payload)"

definition render_request ::
  "checkout_request_binding \<Rightarrow> (string \<times> string) list \<Rightarrow> (checkout_request \<times> string) result" where
  "render_request binding values =
     bind_result (render_payload binding values) (\<lambda>payload.
       case rb_transport binding of
         JSON \<Rightarrow>
           let content = utf8 (canonical_json (payload_json payload))
           in Inr (\<lparr>kr_headers = [(''Content-Type'', ''application/json'')],
                    kr_content = Some content, kr_params = None\<rparr>, sha256_digest content)
       | FORM_URLENCODED \<Rightarrow>
           bind_result (encode_ascii (urlencode payload)) (\<lambda>content.
             Inr (\<lparr>kr_headers = [(''Content-Type'', ''application/x-www-form-urlencoded'')],
                   kr_content = Some content, kr_params = None\<rparr>, sha256_digest content))
       | QUERY \<Rightarrow>
           Inr (\<lparr>kr_headers = [], kr_content = None, kr_params = Some payload\<rparr>,
                fingerprint_json (payload_json payload)))"

definition attacker_order_id :: "string \<Rightarrow> string \<Rightarrow> string" where
  "attacker_order_id suffix server_order_id =
     (if ''order_stateguard_'' @ suffix = server_order_id then ''order_stateguard_x'' @ suffix
      else ''order_stateguard_'' @ suffix)"

definition callback_values :: "string \<Rightarrow> string \<Rightarrow> string \<Rightarrow> (string \<times> string) list" where
  "callback_values payment_id order_id secret =
     [(''razorpay_payment_id'', payment_id), (''razorpay_order_id'', order_id),
      (''razorpay_signature'', checkout_signature order_id payment_id secret)]"

definition prepare_sg06_requests ::
  "string \<Rightarrow> string \<Rightarrow> checkout_request_binding \<Rightarrow> string \<Rightarrow> string \<Rightarrow> sg06_requests result" where
  "prepare_sg06_requests execution_id path binding secret server_order_id =
     bind_result (synthetic_suffix execution_id) (\<lambda>suffix.
     let payment_id = ''pay_'' @ suffix;
         attacker = attacker_order_id suffix server_order_id
     in bind_result (render_request binding (callback_values payment_id attacker secret)) (\<lambda>(tampered, tampered_fp).
        bind_result (render_request binding (callback_values payment_id server_order_id secret)) (\<lambda>(valid, valid_fp).
        bind_result (checked_reference (CheckoutSequenceInput
          \<lparr>ck_transport = rb_transport binding, ck_path = path,
           ck_payment_context_fingerprint = fingerprint_json (JObj
             [(''payment_id'', JStr payment_id),
              (''server_order_id_fingerprint'', JStr (sha256_digest (utf8 server_order_id)))]),
           ck_requests = ((TAMPERED, tampered_fp), (VALID_CONTROL, valid_fp))\<rparr>))
        (\<lambda>reference. Inr \<lparr>r6_tampered = tampered, r6_valid = valid,
                           r6_input_reference = reference\<rparr>))))"

section \<open>SG-08: authorized, then captured\<close>

record sg08_requests =
  r8_authorized :: prepared_webhook
  r8_captured :: "prepared_webhook option"
  r8_input_reference :: input_reference

definition late_event_of :: "late_role \<Rightarrow> fixture_id \<Rightarrow> prepared_webhook \<Rightarrow> late_event" where
  "late_event_of role fixture p = \<lparr>le_role = role, le_fixture_id = fixture,
     le_fixture_fingerprint = pw_fixture_fingerprint p,
     le_raw_body_fingerprint = pw_raw_body_fingerprint p,
     le_synthetic_event_id = pw_synthetic_event_id p\<rparr>"

definition prepare_sg08_requests ::
  "string \<Rightarrow> string \<Rightarrow> string \<Rightarrow> late_policy_reference \<Rightarrow> bool \<Rightarrow> sg08_requests result" where
  "prepare_sg08_requests execution_id path secret policy include_capture =
     bind_result (prepare_payment_webhook_event execution_id path secret ''authorized'' ''a'') (\<lambda>authorized.
     bind_result
       (if include_capture \<and> lp_fulfilment policy = CAPTURE_REQUIRED \<and>
           lp_late_authorisation policy = FULFIL_LATER
        then bind_result (prepare_payment_webhook_event execution_id path secret ''captured'' ''c'')
               (\<lambda>c. Inr (Some c))
        else Inr None)
     (\<lambda>captured.
       let events = late_event_of MODELED_LATE_AUTHORIZED RZP_PAYMENT_AUTHORIZED_SAMPLE_V1 authorized #
             (case captured of None \<Rightarrow> []
              | Some c \<Rightarrow> [late_event_of CAPTURED_THRESHOLD_CONTROL RZP_PAYMENT_CAPTURED_SAMPLE_V1 c]);
           context_fp = fingerprint_json (JObj
             [(''execution_id'', JStr execution_id),
              (''context'', JStr
                ''modeled payment.authorized notification; merchant late state unproven''),
              (''policy'', late_policy_json policy)])
       in bind_result (checked_reference (LateAuthorisationInput
            \<lparr>li_context_fingerprint = context_fp, li_policy = policy, li_path = path,
             li_events = events\<rparr>))
          (\<lambda>reference. Inr \<lparr>r8_authorized = authorized, r8_captured = captured,
                             r8_input_reference = reference\<rparr>)))"

section \<open>Every prepared sequence has a valid reference\<close>

lemma synthetic_suffix_Inr:
  assumes "encode_ascii eid = Inr b"
  shows "synthetic_suffix eid = Inr (take 20 (hexdigest b))"
  using assms by (simp add: synthetic_suffix_def)

lemma suffix_shape:
  "length (take 20 (hexdigest b)) = 20" "set (take 20 (hexdigest b)) \<subseteq> set hex_chars"
  using set_hexdigest[of b] by (auto dest: in_set_takeD)

lemma event_id_shape_suffix:
  "length suffix = 20 \<Longrightarrow> set suffix \<subseteq> set hex_chars \<Longrightarrow> rest \<in> set allowed \<Longrightarrow>
   event_id_shape allowed (''evt_stateguard_'' @ suffix @ rest)"
  by (simp add: event_id_shape_def starts_with_def)

lemma prepare_payment_event_Inr:
  assumes "encode_ascii eid = Inr b"
  shows "\<exists>p. prepare_payment_webhook_event eid path secret ''captured'' ''c'' = Inr p \<and>
           pw_synthetic_event_id p = ''evt_stateguard_'' @ take 20 (hexdigest b) @ ''_c''"
    and "\<exists>p. prepare_payment_webhook_event eid path secret ''authorized'' ''a'' = Inr p \<and>
           pw_synthetic_event_id p = ''evt_stateguard_'' @ take 20 (hexdigest b) @ ''_a''"
  by (simp_all add: prepare_payment_webhook_event_def synthetic_suffix_Inr[OF assms] Let_def
      remove_prefix_def starts_with_def)

lemma prepare_captured_fields:
  assumes "prepare_captured_webhook eid path secret profile g pr = Inr p" and "encode_ascii eid = Inr b"
  shows "pw_synthetic_event_id p = ''evt_stateguard_'' @ take 20 (hexdigest b) @ []"
    and "pw_grounding_fingerprint p = g" and "pw_sanitized_projection_fingerprint p = pr"
    and "pw_headers p = webhook_headers (hmac_hexdigest (utf8 secret) (pw_raw_body p))
           (pw_synthetic_event_id p)"
    and "(profile = None) = (g = None \<or> pr = None)" and "pw_path p = path"
  using assms(1)
  by (auto simp: prepare_captured_webhook_def synthetic_suffix_Inr[OF assms(2)] Let_def
      split: if_split_asm)

lemma prepare_captured_Inr:
  assumes "encode_ascii eid = Inr b" and "(profile = None) = (g = None \<or> pr = None)"
  shows "\<exists>p. prepare_captured_webhook eid path secret profile g pr = Inr p"
  using assms(2) by (simp add: prepare_captured_webhook_def synthetic_suffix_Inr[OF assms(1)] Let_def)

lemma captured_reference_Inr:
  assumes "prepare_captured_webhook eid path secret profile g pr = Inr p" and "encode_ascii eid = Inr b"
    and "path_bound_error path = None"
  shows "\<exists>ref. prepared_input_reference p = Inr ref \<and> is_scenario_input ref \<and>
           (is_grounded_input ref \<longleftrightarrow> profile \<noteq> None)"
proof -
  note f = prepare_captured_fields[OF assms(1,2)]
  have shape: "event_id_shape [[]] (pw_synthetic_event_id p)"
    unfolding f(1) by (rule event_id_shape_suffix[OF suffix_shape]) simp
  show ?thesis
  proof (cases "profile = None")
    case True
    then show ?thesis using f(2,3,5,6) shape assms(3)
      by (cases g; cases pr)
        (simp_all add: prepared_input_reference_def checked_reference_def Let_def
          validate_safe_headers_def)
  next
    case False
    then obtain g' pr' where "g = Some g'" "pr = Some pr'" using f(5) by auto
    then show ?thesis using f(2,3,6) shape False assms(3)
      by (simp add: prepared_input_reference_def checked_reference_def Let_def
          validate_safe_headers_def validate_grounded_authority_def)
  qed
qed

lemma quote_plus_ascii: "list_all (\<lambda>c. (of_char c :: nat) < 128) (quote_plus s)"
proof -
  have safe: "url_safe n \<Longrightarrow> n < 128" for n by (auto simp: url_safe_def)
  have up: "n < 16 \<Longrightarrow> (of_char (upper_hex_digit n) :: nat) < 128" for n
    by (auto simp: upper_hex_digit_def of_char_of)
  have "list_all (\<lambda>c. (of_char c :: nat) < 128) (quote_byte b)" for b :: byte
  proof -
    have "unat b < 2 ^ LENGTH(8)" by (rule unsigned_less)
    then have "unat b div 16 < 16" "unat b mod 16 < 16" by (simp_all add: less_mult_imp_div_less)
    then show ?thesis using safe[of "unat b"] up by (auto simp: quote_byte_def Let_def of_char_of)
  qed
  then show ?thesis by (auto simp: quote_plus_def list_all_iff)
qed

lemma join_all: "list_all P sep \<Longrightarrow> list_all (list_all P) ws \<Longrightarrow> list_all P (join sep ws)"
  by (induction sep ws rule: join.induct) auto

lemma urlencode_ascii: "encode_ascii (urlencode kvs) = Inr (utf8 (urlencode kvs))"
proof -
  have "list_all (\<lambda>c. (of_char c :: nat) < 128) (urlencode kvs)"
    unfolding urlencode_def
    by (rule join_all) (auto simp: list_all_iff quote_plus_ascii[unfolded list_all_iff, rule_format])
  then show ?thesis by (simp add: encode_ascii_def)
qed

lemma request_alias_Inr:
  assumes "validate_fields binding = None" and "name \<in> set checkout_canonical_fields"
  obtains field where "request_alias binding name = Inr field"
proof -
  have "name \<in> fb_canonical_name ` set (rb_fields binding)"
    using assms by (auto simp: validate_fields_def split: if_splits)
  then show ?thesis using that
    by (cases "dict_by fb_canonical_name (rb_fields binding) name")
      (auto simp: request_alias_def dict_by_eq_None)
qed

lemma render_request_Inr:
  assumes "validate_fields binding = None"
  obtains request fp where
    "render_request binding (callback_values payment_id order_id secret) = Inr (request, fp)"
proof -
  have names: "''razorpay_payment_id'' \<in> set checkout_canonical_fields"
    "''razorpay_order_id'' \<in> set checkout_canonical_fields"
    "''razorpay_signature'' \<in> set checkout_canonical_fields"
    by (simp_all add: checkout_canonical_fields_def)
  obtain a1 a2 a3 where "request_alias binding ''razorpay_payment_id'' = Inr a1"
    "request_alias binding ''razorpay_order_id'' = Inr a2"
    "request_alias binding ''razorpay_signature'' = Inr a3"
    using request_alias_Inr[OF assms] names by metis
  then obtain payload where
    "render_payload binding (callback_values payment_id order_id secret) = Inr payload"
    by (simp add: render_payload_def callback_values_def)
  then show ?thesis using that
    by (cases "rb_transport binding") (auto simp: render_request_def urlencode_ascii Let_def)
qed

lemma attacker_order_id_differs: "attacker_order_id suffix server \<noteq> server"
proof (cases "''order_stateguard_'' @ suffix = server")
  case True
  have "length (''order_stateguard_x'' @ suffix) \<noteq> length (''order_stateguard_'' @ suffix)" by simp
  with True show ?thesis by (auto simp: attacker_order_id_def)
next
  case False
  then show ?thesis by (simp add: attacker_order_id_def)
qed

lemma prepare_sg05_Inr:
  assumes "encode_ascii eid = Inr b" and "path_bound_error path = None"
  shows "\<exists>r. prepare_sg05_requests eid path secret = Inr r"
proof -
  obtain p where p: "prepare_captured_webhook eid path secret None None None = Inr p"
    using prepare_captured_Inr[OF assms(1), of None None None] by blast
  note h = prepare_captured_fields(4)[OF p assms(1)]
  obtain ref where "prepared_input_reference p = Inr ref"
    using captured_reference_Inr[OF p assms] by blast
  moreover have "\<not> list_ex (\<lambda>c. c \<notin> set hex_chars) (hmac_hexdigest (utf8 secret) (pw_raw_body p))"
    using set_hmac_hexdigest by (auto simp: list_ex_iff)
  ultimately show ?thesis
    by (simp add: prepare_sg05_requests_def p h webhook_headers_def rejected_signature_def)
qed

text \<open>
  For an ASCII execution identity and a path within its bounds no preparation of a webhook sequence raises: the events
  of SG-04, SG-05 and SG-08, with any policy, always form a reference their own validators
  accept.
\<close>

theorem webhook_sequences_always_prepared:
  assumes "encode_ascii eid = Inr b" and "path_bound_error path = None"
  shows "(\<exists>r. prepare_sg04_requests eid path secret = Inr r) \<and>
         (\<exists>r. prepare_sg05_requests eid path secret = Inr r) \<and>
         (\<exists>r. prepare_sg08_requests eid path secret policy include_capture = Inr r)"
proof -
  obtain c a where
    c: "prepare_payment_webhook_event eid path secret ''captured'' ''c'' = Inr c"
      "pw_synthetic_event_id c = ''evt_stateguard_'' @ take 20 (hexdigest b) @ ''_c''" and
    a: "prepare_payment_webhook_event eid path secret ''authorized'' ''a'' = Inr a"
      "pw_synthetic_event_id a = ''evt_stateguard_'' @ take 20 (hexdigest b) @ ''_a''"
    using prepare_payment_event_Inr[OF assms(1)] by blast
  have shape: "event_id_shape [''_c'', ''_a''] (pw_synthetic_event_id c)"
    "event_id_shape [''_c'', ''_a''] (pw_synthetic_event_id a)"
    unfolding c(2) a(2) by (rule event_id_shape_suffix[OF suffix_shape], simp)+
  have neq: "pw_synthetic_event_id c \<noteq> pw_synthetic_event_id a" by (simp add: c(2) a(2))
  have "\<exists>r. prepare_sg04_requests eid path secret = Inr r"
    by (simp add: prepare_sg04_requests_def c(1) a(1) checked_reference_def
        validate_webhook_sequence_def shape neq assms(2) Let_def)
  moreover have "\<exists>r. prepare_sg08_requests eid path secret policy include_capture = Inr r"
    by (simp add: prepare_sg08_requests_def c(1) a(1) checked_reference_def late_event_of_def
        validate_late_sequence_def allowed_late_roles_def shape neq neq[symmetric] assms(2) Let_def)
  moreover note prepare_sg05_Inr[OF assms, of secret]
  ultimately show ?thesis by blast
qed

text \<open>
  The two requests of SG-05 differ in the signature only: the control carries the HMAC of
  the raw body under the webhook secret, the first request a well-formed digest that is not
  that HMAC, so an endpoint that verifies the signature must refuse exactly the first.
\<close>

theorem sg05_forges_only_the_signature:
  assumes "prepare_sg05_requests eid path secret = Inr r"
  shows "map_of (r5_valid_headers r) ''X-Razorpay-Signature'' =
           Some (hmac_hexdigest (utf8 secret) (r5_raw_body r)) \<and>
         (\<exists>forged. map_of (r5_rejected_headers r) ''X-Razorpay-Signature'' = Some forged \<and>
            forged \<noteq> hmac_hexdigest (utf8 secret) (r5_raw_body r) \<and>
            length forged = 64 \<and> set forged \<subseteq> set hex_chars) \<and>
         (\<forall>k. k \<noteq> ''X-Razorpay-Signature'' \<longrightarrow>
            map_of (r5_rejected_headers r) k = map_of (r5_valid_headers r) k)"
proof -
  from assms obtain p where p: "prepare_captured_webhook eid path secret None None None = Inr p"
    by (auto simp: prepare_sg05_requests_def bind_result_eq_Inr)
  then obtain b where "encode_ascii eid = Inr b"
    by (auto simp: prepare_captured_webhook_def synthetic_suffix_def bind_result_eq_Inr Let_def)
  note h = prepare_captured_fields(4)[OF p this]
  let ?sig = "hmac_hexdigest (utf8 secret) (pw_raw_body p)"
  from assms p h obtain forged where f: "rejected_signature ?sig = Inr forged"
    and r: "r5_raw_body r = pw_raw_body p" "r5_valid_headers r = pw_headers p"
      "r5_rejected_headers r = dict_put ''X-Razorpay-Signature'' forged (pw_headers p)"
    by (auto simp: prepare_sg05_requests_def webhook_headers_def bind_result_eq_Inr)
  have "forged \<noteq> ?sig \<and> length forged = 64 \<and> set forged \<subseteq> set hex_chars"
  proof -
    obtain c cs where s: "?sig = c # cs" by (cases ?sig) (auto dest: arg_cong[of _ _ length])
    have hex: "CHR ''0'' \<in> set hex_chars" "CHR ''1'' \<in> set hex_chars"
      by (simp_all add: hex_chars_def)
    have "length (c # cs) = 64" "set (c # cs) \<subseteq> set hex_chars"
      using set_hmac_hexdigest[of "utf8 secret" "pw_raw_body p"] length_hmac_hexdigest
      unfolding s[symmetric] by simp_all
    then show ?thesis using f hex unfolding s
      by (auto simp: rejected_signature_def split: if_splits)
  qed
  then show ?thesis unfolding r h by (simp add: webhook_headers_def)
qed

text \<open>
  C32. For a binding that passes its validator, the two Checkout callbacks of SG-06 are prepared
  exactly for the paths of 1 to 4096 characters; for any other path the preparation raises.  Both
  callbacks carry the signature Razorpay would issue for their own order; the order of the
  tampered one is never the merchant's.
\<close>

theorem sg06_tampers_with_the_order:
  assumes "encode_ascii eid = Inr b" and "validate_fields binding = None"
  shows "case prepare_sg06_requests eid path binding secret server_order_id of
     Inl e \<Rightarrow> length path = 0 \<or> 4096 < length path
   | Inr r \<Rightarrow> 1 \<le> length path \<and> length path \<le> 4096 \<and>
       (\<exists>t_fp v_fp attacker. attacker \<noteq> server_order_id \<and>
          render_request binding (callback_values (''pay_'' @ take 20 (hexdigest b)) attacker secret) =
            Inr (r6_tampered r, t_fp) \<and>
          render_request binding
            (callback_values (''pay_'' @ take 20 (hexdigest b)) server_order_id secret) =
            Inr (r6_valid r, v_fp))"
proof -
  let ?pay = "''pay_'' @ take 20 (hexdigest b)"
  let ?attacker = "attacker_order_id (take 20 (hexdigest b)) server_order_id"
  obtain t t_fp where t: "render_request binding (callback_values ?pay ?attacker secret) = Inr (t, t_fp)"
    using render_request_Inr[OF assms(2)] by blast
  obtain v v_fp where v: "render_request binding (callback_values ?pay server_order_id secret) = Inr (v, v_fp)"
    using render_request_Inr[OF assms(2)] by blast
  note prepared = prepare_sg06_requests_def synthetic_suffix_Inr[OF assms(1)] Let_def
    checked_reference_def validate_checkout_sequence_def
  show ?thesis
  proof (cases "path_bound_error path")
    case None
    then obtain r where "prepare_sg06_requests eid path binding secret server_order_id = Inr r"
      "r6_tampered r = t" "r6_valid r = v"
      using t v by (simp add: prepared)
    then show ?thesis using t v attacker_order_id_differs None path_bound_error_None[of path] by auto
  next
    case (Some e)
    then have "prepare_sg06_requests eid path binding secret server_order_id = Inl e"
      using t v by (simp add: prepared)
    moreover have "length path = 0 \<or> 4096 < length path"
      using Some path_bound_error_None[of path] by (auto simp: not_le less_one)
    ultimately show ?thesis by simp
  qed
qed

lemma demo_execution_ascii: "encode_ascii ''sgexec_1'' = Inr (utf8 ''sgexec_1'')"
proof -
  have "list_all (\<lambda>c. (of_char c :: nat) < 128) ''sgexec_1''" by code_simp
  then show ?thesis by (simp add: encode_ascii_def)
qed

definition demo_checkout_binding :: checkout_request_binding where
  "demo_checkout_binding = \<lparr>rb_transport = FORM_URLENCODED, rb_fields =
     [\<lparr>fb_canonical_name = ''razorpay_payment_id'', fb_request_name = ''pid''\<rparr>,
      \<lparr>fb_canonical_name = ''razorpay_order_id'', fb_request_name = ''oid''\<rparr>,
      \<lparr>fb_canonical_name = ''razorpay_signature'', fb_request_name = ''sig''\<rparr>]\<rparr>"

lemma demo_checkout_binding_valid: "validate_fields demo_checkout_binding = None"
  by (simp add: validate_fields_def demo_checkout_binding_def checkout_canonical_fields_def)

theorem webhook_sequences_always_prepared_witness:
  "\<exists>r. prepare_sg04_requests ''sgexec_1'' ''/hook'' ''secret'' = Inr r"
  using webhook_sequences_always_prepared[OF demo_execution_ascii, of "''/hook''"]
  by (simp add: path_bound_error_None)

theorem sg05_forges_only_the_signature_witness:
  "\<exists>r. prepare_sg05_requests ''sgexec_1'' ''/hook'' ''secret'' = Inr r \<and>
       map_of (r5_rejected_headers r) ''X-Razorpay-Signature'' \<noteq>
       map_of (r5_valid_headers r) ''X-Razorpay-Signature''"
proof -
  obtain r where "prepare_sg05_requests ''sgexec_1'' ''/hook'' ''secret'' = Inr r"
    using prepare_sg05_Inr[OF demo_execution_ascii, of "''/hook''"] by (auto simp: path_bound_error_None)
  with sg05_forges_only_the_signature[OF this] show ?thesis by auto
qed

theorem sg06_tampers_with_the_order_witness:
  "(\<exists>r. prepare_sg06_requests ''sgexec_1'' ''/verify'' demo_checkout_binding ''secret'' ''order_1'' = Inr r) \<and>
   (\<exists>e. prepare_sg06_requests ''sgexec_1'' [] demo_checkout_binding ''secret'' ''order_1'' = Inl e)"
  using sg06_tampers_with_the_order[OF demo_execution_ascii demo_checkout_binding_valid,
      of "''/verify''" "''order_1''" "''secret''"]
    sg06_tampers_with_the_order[OF demo_execution_ascii demo_checkout_binding_valid,
      of "[]" "''order_1''" "''secret''"]
  by (auto split: sum.splits)

end
