(* ===== verification/Normalization.thy ===== *)
theory Normalization
  imports EvidenceProperties SourceIndex RequestMaterial
begin

text \<open>
  \<open>evidence/normalization.py\<close>: the projection of one applicability artifact and the scenario
  results obtained for it into a verification run.  The file system is the parameter
  \<open>read_bytes\<close>, which gives the bytes of a repository path or nothing when reading raises; the
  configuration enters through its fingerprints and its configured semantic context.
\<close>

section \<open>Authorities\<close>

type_synonym assertion_key = "scenario_id \<times> string \<times> string"

definition definition_fingerprint_of :: "scenario_id \<Rightarrow> string" where
  "definition_fingerprint_of sid =
     (case sid of SG_01 \<Rightarrow> SG01_DEFINITION_FINGERPRINT | SG_02 \<Rightarrow> SG02_DEFINITION_FINGERPRINT
      | SG_03 \<Rightarrow> SG03_DEFINITION_FINGERPRINT | SG_04 \<Rightarrow> SG04_DEFINITION_FINGERPRINT
      | SG_05 \<Rightarrow> SG05_DEFINITION_FINGERPRINT | SG_06 \<Rightarrow> SG06_DEFINITION_FINGERPRINT
      | SG_07 \<Rightarrow> SG07_DEFINITION_FINGERPRINT | SG_08 \<Rightarrow> SG08_DEFINITION_FINGERPRINT)"

text \<open>The nested loops over scenarios, instances and assertions, flattened in their order.\<close>

definition applicability_entries ::
  "applicability_artifact \<Rightarrow> (scenario_id \<times> scenario_instance \<times> assertion_applicability) list" where
  "applicability_entries a =
     concat (map (\<lambda>s. concat (map (\<lambda>i. map (\<lambda>x. (sc_scenario_id s, i, x)) (si_assertions i))
       (sc_instances s))) (ap_scenarios a))"

fun entry_key :: "scenario_id \<times> scenario_instance \<times> assertion_applicability \<Rightarrow> assertion_key" where
  "entry_key (sid, i, x) = (sid, si_instance_id i, aa_assertion_id x)"

text \<open>The dictionary as an association list in insertion order.\<close>

fun collect_authorities ::
  "assertion_key set \<Rightarrow> (scenario_id \<times> scenario_instance \<times> assertion_applicability) list \<Rightarrow>
   (assertion_key \<times> scenario_instance \<times> assertion_applicability) list result" where
  "collect_authorities seen [] = Inr []"
| "collect_authorities seen ((sid, i, x) # es) =
     bind_result (assertion_id (si_instance_id i) (aa_key x)) (\<lambda>expected.
       if aa_assertion_id x \<noteq> expected
       then Inl (ValueError ''applicability assertion identity is not canonical'')
       else let key = (sid, si_instance_id i, aa_assertion_id x)
            in if key \<in> seen then Inl (ValueError ''duplicate applicability assertion authority'')
               else bind_result (collect_authorities (insert key seen) es) (\<lambda>rest.
                 Inr ((key, i, x) # rest)))"

definition assertion_authorities ::
  "applicability_artifact \<Rightarrow> (assertion_key \<times> scenario_instance \<times> assertion_applicability) list result" where
  "assertion_authorities a = collect_authorities {} (applicability_entries a)"

definition result_key :: "scenario_result \<Rightarrow> assertion_key" where
  "result_key r = (sx_scenario_id r, au_scenario_instance_id (sx_authority r), sx_assertion_id r)"

text \<open>Every result is rebuilt from its dump, so its validator runs again.\<close>

fun collect_results ::
  "assertion_key set \<Rightarrow> scenario_result list \<Rightarrow> (assertion_key \<times> scenario_result) list result" where
  "collect_results seen [] = Inr []"
| "collect_results seen (r # rs) =
     bind_result (construct validate_result r) (\<lambda>r'.
       if result_key r' \<in> seen
       then Inl (ValueError ''duplicate scenario execution assertion authority'')
       else bind_result (collect_results (insert (result_key r') seen) rs) (\<lambda>rest.
         Inr ((result_key r', r') # rest)))"

definition execution_results :: "scenario_result list \<Rightarrow> (assertion_key \<times> scenario_result) list result" where
  "execution_results rs = collect_results {} rs"

section \<open>Projections of one assertion\<close>

definition all_evidence :: "assertion_applicability \<Rightarrow> evidence_reference list" where
  "all_evidence x = concat (map rs_evidence (aa_reasons x))"

definition references_of :: "evidence_reference_kind \<Rightarrow> assertion_applicability \<Rightarrow> string list" where
  "references_of kind x = map ev_ref_reference (filter (\<lambda>e. ev_ref_kind e = kind) (all_evidence x))"

definition applicability_projection :: "assertion_applicability \<Rightarrow> applicability_evidence result" where
  "applicability_projection x =
     (if \<not> list_all (\<lambda>e. ev_ref_kind e \<in> {EV_GRAPH_NODE, EV_GRAPH_EDGE, EV_NORMAL_CONTROL}) (all_evidence x)
      then Inl (ValueError ''unsupported free-form applicability evidence reference'')
      else construct validate_collections
        \<lparr>ae_state = aa_state x, ae_role = aa_role x, ae_reasons = fromkeys (map rs_code (aa_reasons x)),
         ae_graph_node_ids = fromkeys (references_of EV_GRAPH_NODE x),
         ae_graph_edge_ids = fromkeys (references_of EV_GRAPH_EDGE x),
         ae_normal_control_ids = fromkeys (references_of EV_NORMAL_CONTROL x)\<rparr>)"

definition node_of_kind :: "safety_graph \<Rightarrow> graph_node_kind \<Rightarrow> string \<Rightarrow> bool" where
  "node_of_kind g kind nid =
     (case dict_by gn_node_id (pg_nodes g) nid of None \<Rightarrow> False | Some n \<Rightarrow> gn_kind n = kind)"

definition observed_mutations :: "scenario_result \<Rightarrow> string list" where
  "observed_mutations r = concat (map (\<lambda>m. map ms_mutation_node_id (mo_mutation_targets m)) (mutations_of r))"

definition injected_acknowledgements :: "scenario_result \<Rightarrow> string list" where
  "injected_acknowledgements r =
     map af_acknowledgement_node_id (List.map_filter ro_acknowledgement_failure (customers_of r))"

definition target_reference ::
  "applicability_artifact \<Rightarrow> scenario_instance \<Rightarrow> assertion_applicability \<Rightarrow> scenario_result \<Rightarrow>
   safety_graph \<Rightarrow> check_targets result" where
  "target_reference a i x r g =
     (let lookup = dict_by nc_control_id (ap_normal_controls a);
          named = au_normal_control_id (sx_authority r);
          result_control = Option.bind named lookup;
          identity_control = (case si_normal_control_id i of
             Some cid \<Rightarrow> lookup cid | None \<Rightarrow> result_control);
          evidence_nodes = references_of EV_GRAPH_NODE x;
          mutations = filter (node_of_kind g MERCHANT_STATE_MUTATION) (evidence_nodes @ observed_mutations r);
          acknowledgements = filter (node_of_kind g ACKNOWLEDGEMENT_BOUNDARY) evidence_nodes @
            injected_acknowledgements r;
          ingress = Option.bind (si_ingress_node_id i) (dict_by gn_node_id (pg_nodes g))
      in if named \<noteq> aa_normal_control_id x
         then Inl (ValueError ''scenario result substituted assertion normal-control authority'')
         else if named \<noteq> None \<and> result_control = None
         then Inl (ValueError ''scenario result refers to an unknown normal control'')
         else construct validate_targets
           \<lparr>ckt_ingress_node_id = si_ingress_node_id i,
            ckt_route_registration_id = si_route_registration_id i,
            ckt_ingress_symbol_id = Option.bind ingress gn_backing_symbol_id,
            ckt_normal_control_id = named,
            ckt_customer_value_node_id = map_option nc_customer_value_node_id identity_control,
            ckt_customer_value_symbol_id = map_option nc_customer_value_symbol_id identity_control,
            ckt_connectivity_edge_id = map_option nc_connectivity_edge_id identity_control,
            ckt_mutation_node_ids = sorted_set mutations,
            ckt_acknowledgement_node_ids = sorted_set acknowledgements\<rparr>)"

definition source_references ::
  "source_index \<Rightarrow> safety_graph \<Rightarrow> string list \<Rightarrow> source_evidence list" where
  "source_references ix g node_ids =
     (let symbol_ids = List.map_filter
            (\<lambda>nid. Option.bind (dict_by gn_node_id (pg_nodes g) nid) gn_backing_symbol_id) node_ids;
          records = List.map_filter (dict_by sy_symbol_id (ix_symbols ix)) (remdups symbol_ids)
      in canonical_order source_evidence_json
           (map (\<lambda>s. \<lparr>se_symbol_id = sy_symbol_id s, se_source_location = sy_source_location s\<rparr>) records))"

definition customer_projection :: "customer_summary \<Rightarrow> customer_evidence result" where
  "customer_projection s = construct validate_customer_evidence
     \<lparr>ce_entered_count = cs_entered_count s, ce_returned_normally_count = cs_returned_normally_count s,
      ce_exception_escaped_count = cs_exception_escaped_count s,
      ce_entered_sequences = cs_entered_sequences s,
      ce_returned_normally_sequences = cs_returned_normally_sequences s,
      ce_exception_escaped_sequences = cs_exception_escaped_sequences s\<rparr>"

definition mutation_projection :: "mutation_summary \<Rightarrow> mutation_evidence result" where
  "mutation_projection m = construct validate_mutation_evidence
     \<lparr>me_mutation_node_id = ms_mutation_node_id m, me_reached_count = ms_reached_count m,
      me_completed_normally_count = ms_completed_normally_count m, me_raised_count = ms_raised_count m,
      me_reached_sequences = ms_reached_sequences m,
      me_completed_normally_sequences = ms_completed_normally_sequences m,
      me_raised_sequences = ms_raised_sequences m\<rparr>"

definition injection_projection :: "acknowledgement_failure option \<Rightarrow> injection_evidence option result" where
  "injection_projection failure =
     (case failure of
        None \<Rightarrow> Inr None
      | Some f \<Rightarrow> bind_result (construct validate_injection_evidence
          \<lparr>ie_acknowledgement_node_id = af_acknowledgement_node_id f,
           ie_original_status_code = af_original_status_code f,
           ie_effective_status_code = af_effective_status_code f,
           ie_injection_sequence = af_injection_sequence f\<rparr>) (\<lambda>i. Inr (Some i)))"

fun observation_projection ::
  "nat \<Rightarrow> request_role \<Rightarrow> scenario_observation \<Rightarrow> request_evidence result" where
  "observation_projection ordinal role (CustomerObservation c) =
     (let s = ro_observations c
      in bind_result (customer_projection s) (\<lambda>customer.
         bind_result (injection_projection (ro_acknowledgement_failure c)) (\<lambda>injection.
         construct validate_projection
           \<lparr>re_request_id = ro_request_id c, re_ordinal = ordinal, re_role = role,
            re_request_received_sequences = cs_request_received_sequences s,
            re_response_completed_sequences = cs_response_completed_sequences s,
            re_request_aborted_sequences = cs_request_aborted_sequences s,
            re_http_status_code = cs_http_status_code s, re_customer = Some customer,
            re_mutations = [],
            re_acknowledgement_injection = injection\<rparr>)))"
| "observation_projection ordinal role (MutationObservation m) =
     bind_result (traverse mutation_projection (mo_mutation_targets m)) (\<lambda>targets.
       construct validate_projection
         \<lparr>re_request_id = mo_request_id m, re_ordinal = ordinal, re_role = role,
          re_request_received_sequences = mo_request_received_sequences m,
          re_response_completed_sequences = mo_response_completed_sequences m,
          re_request_aborted_sequences = mo_request_aborted_sequences m,
          re_http_status_code = mo_http_status_code m, re_customer = None, re_mutations = targets,
          re_acknowledgement_injection = None\<rparr>)"

definition request_projection :: "scenario_result \<Rightarrow> request_role list \<Rightarrow> request_evidence list result" where
  "request_projection r roles =
     (let observations = sx_request_observations r
      in if length observations > length roles
         then Inl (ValueError ''scenario result has more requests than its assertion definition'')
         else traverse (\<lambda>(ordinal, role, observation). observation_projection ordinal role observation)
           (zip [0..<length observations] (zip roles observations)))"

definition check_policy_of :: "policy_dimension list \<Rightarrow> applicability_artifact \<Rightarrow> check_policy result" where
  "check_policy_of dimensions a =
     (let f = pa_fulfilment (ap_policy a); l = pa_late_authorisation (ap_policy a);
          uses_f = DIM_FULFILMENT \<in> set dimensions; uses_l = DIM_LATE_AUTHORISATION \<in> set dimensions
      in construct validate_dimensions
        \<lparr>cp_dimensions = dimensions, cp_fulfilment = (if uses_f then fa_confirmed_policy f else None),
         cp_fulfilment_evidence_fingerprint = (if uses_f then Some (fa_evidence_fingerprint f) else None),
         cp_late_authorisation = (if uses_l then la_confirmed_policy l else None),
         cp_late_authorisation_evidence_fingerprint = (if uses_l then Some (la_evidence_fingerprint l) else None)\<rparr>)"

definition policy_snapshot_of :: "applicability_artifact \<Rightarrow> policy_snapshot" where
  "policy_snapshot_of a =
     (let f = pa_fulfilment (ap_policy a); l = pa_late_authorisation (ap_policy a)
      in \<lparr>ps_fulfilment = fa_confirmed_policy f,
          ps_fulfilment_evidence_fingerprint = fa_evidence_fingerprint f,
          ps_fulfilment_evidence_current = fa_evidence_current f,
          ps_late_authorisation = la_confirmed_policy l,
          ps_late_authorisation_evidence_fingerprint = la_evidence_fingerprint l,
          ps_late_authorisation_evidence_current = la_evidence_current l\<rparr>)"

section \<open>The relevant authority of one check\<close>

text \<open>
  \<open>bytes.splitlines(keepends=True)\<close>: a line ends after a line feed, or after a carriage
  return that no line feed follows.  A byte is a character below 256.
\<close>

fun split_lines :: "string \<Rightarrow> string list" where
  "split_lines [] = []"
| "split_lines (c # cs) =
     (if c = CHR 0x0A \<or> c = CHR 0x0D \<and> take 1 cs \<noteq> [CHR 0x0A] then [c] # split_lines cs
      else (case split_lines cs of [] \<Rightarrow> [[c]] | l # ls \<Rightarrow> (c # l) # ls))"

definition byte_of :: "char \<Rightarrow> byte" where
  "byte_of c = of_nat (of_char c)"

definition source_span_fingerprint ::
  "(string \<Rightarrow> string option) \<Rightarrow> string \<Rightarrow> nat \<Rightarrow> nat \<Rightarrow> string result" where
  "source_span_fingerprint read_bytes path line_start line_end =
     (case read_bytes path of
        None \<Rightarrow> Inl OSError
      | Some raw \<Rightarrow>
          (let ls = split_lines raw
           in if line_start < 1 \<or> line_end < line_start \<or> line_end > length ls
              then Inl (ValueError ''finding-relevant source span is unavailable'')
              else Inr (sha256_digest (map byte_of
                (concat (take (line_end - (line_start - 1)) (drop (line_start - 1) ls)))))))"

definition location_fingerprint ::
  "(string \<Rightarrow> string option) \<Rightarrow> source_location \<Rightarrow> string result" where
  "location_fingerprint read_bytes l =
     source_span_fingerprint read_bytes (sl_path l) (sl_line_start l) (sl_line_end l)"

text \<open>The JSON of a graph record without the drift diagnostics of its provenance.\<close>

fun without_fields :: "string list \<Rightarrow> json \<Rightarrow> json" where
  "without_fields names (JObj kvs) = JObj (filter (\<lambda>(k, v). k \<notin> set names) kvs)"
| "without_fields names v = v"

fun trim_provenance :: "string \<times> json \<Rightarrow> string \<times> json" where
  "trim_provenance (k, JArr ps) =
     (k, if k = ''provenance''
         then JArr (map (without_fields [''source_location'', ''supporting_fingerprint'']) ps)
         else JArr ps)"
| "trim_provenance (k, v) = (k, v)"

fun graph_fact_fingerprint :: "json \<Rightarrow> string" where
  "graph_fact_fingerprint (JObj kvs) = fingerprint_json (JObj (map trim_provenance kvs))"
| "graph_fact_fingerprint v = fingerprint_json v"

definition symbol_fact :: "(string \<Rightarrow> string option) \<Rightarrow> symbol_record \<Rightarrow> relevant_fact result" where
  "symbol_fact read_bytes s =
     bind_result (location_fingerprint read_bytes (sy_source_location s)) (\<lambda>content.
       Inr \<lparr>rt_fact_id = sy_symbol_id s, rt_fact_fingerprint = fingerprint_json (JObj
         [(''symbol_id'', JStr (sy_symbol_id s)), (''source_file_id'', JStr (sy_source_file_id s)),
          (''qualified_name'', JStr (sy_qualified_name s)),
          (''kind'', JStr (symbol_kind_value (sy_kind s))), (''signature'', JStr (sy_signature s)),
          (''definition_ordinal'', jnat (sy_definition_ordinal s)),
          (''definition_content_fingerprint'', JStr content)])\<rparr>)"

definition call_site_fact :: "(string \<Rightarrow> string option) \<Rightarrow> call_site \<Rightarrow> relevant_fact result" where
  "call_site_fact read_bytes c =
     bind_result (location_fingerprint read_bytes (ca_source_location c)) (\<lambda>content.
       (let fp = fingerprint_json (JObj
              [(''caller_symbol_id'', JStr (ca_caller_symbol_id c)),
               (''callee_symbol_id'', jopt JStr (ca_callee_symbol_id c)),
               (''callee_reference'', JStr (ca_callee_reference c)),
               (''content_fingerprint'', JStr content)])
        in Inr \<lparr>rt_fact_id = fp, rt_fact_fingerprint = fp\<rparr>))"

definition rule_authority_fact :: "razorpay_rule_id \<Rightarrow> relevant_fact result" where
  "rule_authority_fact rule_id = bind_result (razorpay_rule_fingerprint rule_id) (\<lambda>fp.
     Inr \<lparr>rt_fact_id = rule_id_value rule_id, rt_fact_fingerprint = fp\<rparr>)"

definition referenced_symbols :: "check_targets \<Rightarrow> source_evidence list \<Rightarrow> string set" where
  "referenced_symbols t sources = set (map se_symbol_id sources) \<union>
     set (List.map_filter id [ckt_ingress_symbol_id t, ckt_customer_value_symbol_id t])"

definition relevant_call_sites :: "source_index \<Rightarrow> string set \<Rightarrow> call_site list" where
  "relevant_call_sites ix symbols = filter (\<lambda>c. ca_caller_symbol_id c \<in> symbols \<or>
     (case ca_callee_symbol_id c of None \<Rightarrow> False | Some s \<Rightarrow> s \<in> symbols)) (ix_call_sites ix)"

definition keyed_policy_of :: "policy_dimension list \<Rightarrow> check_policy \<Rightarrow> check_policy result" where
  "keyed_policy_of dimensions p =
     (let uses_f = DIM_FULFILMENT \<in> set dimensions; uses_l = DIM_LATE_AUTHORISATION \<in> set dimensions
      in construct validate_dimensions
        \<lparr>cp_dimensions = dimensions, cp_fulfilment = (if uses_f then cp_fulfilment p else None),
         cp_fulfilment_evidence_fingerprint =
           (if uses_f then cp_fulfilment_evidence_fingerprint p else None),
         cp_late_authorisation = (if uses_l then cp_late_authorisation p else None),
         cp_late_authorisation_evidence_fingerprint =
           (if uses_l then cp_late_authorisation_evidence_fingerprint p else None)\<rparr>)"

definition node_facts :: "safety_graph \<Rightarrow> string list \<Rightarrow> relevant_fact list" where
  "node_facts g ids = List.map_filter (\<lambda>nid. map_option (\<lambda>n. \<lparr>rt_fact_id = nid,
     rt_fact_fingerprint = graph_fact_fingerprint (graph_node_json n)\<rparr>) (dict_by gn_node_id (pg_nodes g) nid)) ids"

definition edge_facts :: "safety_graph \<Rightarrow> string list \<Rightarrow> relevant_fact list" where
  "edge_facts g ids = List.map_filter (\<lambda>eid. map_option (\<lambda>e. \<lparr>rt_fact_id = eid,
     rt_fact_fingerprint = graph_fact_fingerprint (graph_edge_json e)\<rparr>) (dict_by ge_edge_id (pg_edges g) eid)) ids"

definition build_finding_relevant_authority_snapshot ::
  "(string \<Rightarrow> string option) \<Rightarrow> source_index \<Rightarrow> safety_graph \<Rightarrow> applicability_artifact \<Rightarrow>
   assertion_applicability \<Rightarrow> check_targets \<Rightarrow> source_evidence list \<Rightarrow> string list \<Rightarrow> string list \<Rightarrow>
   policy_dimension list \<Rightarrow> check_policy \<Rightarrow> string \<Rightarrow> nat \<Rightarrow> string \<Rightarrow> razorpay_rule_id list \<Rightarrow>
   semantic_authority \<Rightarrow> relevant_authority result" where
  "build_finding_relevant_authority_snapshot read_bytes ix g a x targets sources node_ids edge_ids
     key_dimensions policy invariant version definition_fp rule_ids semantic =
     (let referenced = referenced_symbols targets sources;
          symbols = filter (\<lambda>s. sy_symbol_id s \<in> referenced)
            (List.map_filter (dict_by sy_symbol_id (ix_symbols ix)) (fromkeys (map sy_symbol_id (ix_symbols ix))));
          files = List.map_filter (dict_by sf_file_id (ix_indexed_files ix))
            (remdups (map sy_source_file_id symbols));
          control = find (\<lambda>c. Some (nc_control_id c) = ckt_normal_control_id targets) (ap_normal_controls a)
      in bind_result (traverse (symbol_fact read_bytes) symbols) (\<lambda>symbol_facts.
         bind_result (keyed_policy_of key_dimensions policy) (\<lambda>keyed.
         bind_result (traverse (\<lambda>f. relevant_source_file_of (sf_file_id f) (sf_path f) (sf_content_fingerprint f))
           files) (\<lambda>file_facts.
         bind_result (traverse (call_site_fact read_bytes) (relevant_call_sites ix referenced)) (\<lambda>call_facts.
         bind_result (traverse rule_authority_fact rule_ids) (\<lambda>rule_facts.
         let draft = \<lparr>fr_source_files = canonical_order relevant_source_file_json file_facts,
               fr_symbols = canonical_order relevant_fact_json symbol_facts,
               fr_call_sites = canonical_order relevant_fact_json (remdups call_facts),
               fr_call_path_references =
                 (case control of None \<Rightarrow> [] | Some c \<Rightarrow> sorted_set (nc_call_path_references c)),
               fr_graph_nodes = canonical_order relevant_fact_json (node_facts g node_ids),
               fr_graph_edges = canonical_order relevant_fact_json (edge_facts g edge_ids),
               fr_applicability_assertion_fingerprint = fingerprint_json (assertion_json x),
               fr_selected_semantic_symbol_id = sa_selected_symbol_id semantic,
               fr_semantic_resolution_fingerprint = sa_resolution_fingerprint semantic,
               fr_semantic_context_fingerprint = sa_semantic_context_fingerprint semantic,
               fr_key_policy_authority = keyed, fr_invariant_id = invariant,
               fr_invariant_version = version, fr_scenario_definition_fingerprint = definition_fp,
               fr_razorpay_rules = canonical_order relevant_fact_json rule_facts,
               fr_razorpay_rule_catalog_fingerprint = razorpay_rule_catalog_fingerprint,
               fr_relevant_authority_fingerprint = []\<rparr>
         in construct validate_relevant_authority (draft\<lparr>fr_relevant_authority_fingerprint :=
              fingerprint_json (JObj (relevant_authority_fields draft))\<rparr>)))))))"

section \<open>Authority snapshots of the run\<close>

record value_resolution =
  vx_state :: resolution_state
  vx_basis :: resolution_basis
  vx_selected_symbol_id :: "string option"

definition validate_value_resolution :: "value_resolution \<Rightarrow> error option" where
  "validate_value_resolution r =
     (if vx_state r = RESOLUTION_UNIQUE
      then (if vx_selected_symbol_id r = None \<or> vx_basis r = BASIS_UNRESOLVED
            then Some (ValueError ''UNIQUE requires a selected symbol and resolved basis'') else None)
      else if vx_selected_symbol_id r \<noteq> None \<or> vx_basis r \<noteq> BASIS_UNRESOLVED
      then Some (ValueError ''unresolved states cannot select a symbol or resolved basis'') else None)"

text \<open>
  \<open>artifact_context\<close> is the context fingerprint of the semantic artifact, when there is one;
  \<open>configured_context\<close> the one of the configuration.
\<close>

definition semantic_snapshot_of ::
  "value_resolution option \<Rightarrow> string option \<Rightarrow> string option \<Rightarrow> string option \<Rightarrow> safety_graph \<Rightarrow>
   semantic_authority result" where
  "semantic_snapshot_of resolution resolution_fp artifact_context configured_context g =
     (let selected = Option.bind resolution vx_selected_symbol_id;
          nodes = filter (\<lambda>n. gn_kind n = CUSTOMER_VALUE_ACTION \<and> gn_backing_symbol_id n = selected)
            (pg_nodes g)
      in construct validate_resolution
        \<lparr>sa_state = map_option vx_state resolution, sa_basis = map_option vx_basis resolution,
         sa_selected_symbol_id = selected, sa_resolution_fingerprint = resolution_fp,
         sa_semantic_context_fingerprint =
           (case artifact_context of Some c \<Rightarrow> Some c | None \<Rightarrow> configured_context),
         sa_selected_target_provenance = map (\<lambda>p. \<lparr>sp_kind = pr_kind p,
             sp_source_location = pr_source_location p,
             sp_supporting_fingerprint = pr_supporting_fingerprint p\<rparr>)
           (concat (map gn_provenance nodes))\<rparr>)"

definition rule_snapshot_entry :: "razorpay_rule_id \<Rightarrow> rule_snapshot result" where
  "rule_snapshot_entry rule_id =
     (case dict_by rf_rule_id RAZORPAY_PROTOCOL_FACTS rule_id of
        None \<Rightarrow> Inl KeyError
      | Some f \<Rightarrow> bind_result (razorpay_rule_fingerprint rule_id) (\<lambda>fp.
          Inr \<lparr>rn_rule_id = rule_id, rn_fact = rf_fact f, rn_source_url = rf_source_url f,
               rn_verified_on = rf_verified_on f, rn_rule_fingerprint = fp\<rparr>))"

definition rule_snapshot_of :: "razorpay_rule_id list \<Rightarrow> rule_authority result" where
  "rule_snapshot_of rule_ids =
     bind_result (traverse rule_snapshot_entry (sort_key rule_id_value (remdups rule_ids))) (\<lambda>rules.
       construct validate_rules \<lparr>rl_catalog_fingerprint = razorpay_rule_catalog_fingerprint,
         rl_referenced_rules = rules\<rparr>)"

section \<open>The verification run\<close>

text \<open>
  The keyword arguments of \<open>build_verification_run\<close>.  The configuration is read through
  \<open>fingerprint_json(config)\<close>, the fingerprint of its runtime part and its configured semantic
  context, the semantic artifact through its context fingerprint.
\<close>

record run_inputs =
  ni_run_id :: string
  ni_created_at :: stamp
  ni_completed_at :: stamp
  ni_config_fingerprint :: string
  ni_runtime_config_fingerprint :: string
  ni_configured_context :: "string option"
  ni_source_index :: source_index
  ni_structural_graph :: safety_graph
  ni_projected_graph :: safety_graph
  ni_artifact_context :: "string option"
  ni_resolution :: "value_resolution option"
  ni_resolution_fingerprint :: "string option"
  ni_applicability :: applicability_artifact
  ni_results :: "scenario_result list"
  ni_grounding :: "grounding_snapshot option"

text \<open>The promotion of a grounded SG-01 result, the only place where a tier changes.\<close>

definition promote ::
  "grounding_snapshot option \<Rightarrow> scenario_id \<Rightarrow> scenario_result \<Rightarrow>
   (evidence_tier option \<times> check_grounding option) result" where
  "promote grounding sid r =
     (case Option.bind (sx_input_reference r) grounded_fingerprints of
        None \<Rightarrow> Inr (sx_evidence_tier r, None)
      | Some (fp, projection) \<Rightarrow>
          (case grounding of
             None \<Rightarrow> Inl (ValueError ''grounded scenario input has no matching run grounding authority'')
           | Some g \<Rightarrow>
               if sid \<noteq> SG_01 \<or> gs_status g \<noteq> GROUNDING_GROUNDED \<or> gs_grounding_fingerprint g \<noteq> fp \<or>
                  gs_sanitized_projection_fingerprint g \<noteq> Some projection
               then Inl (ValueError ''grounded scenario input has no matching run grounding authority'')
               else if sx_evidence_tier r = Some E3_DYNAMIC_VERIFIED
               then Inr (Some E4_RAZORPAY_GROUNDED, Some \<lparr>cg_grounding_fingerprint = gs_grounding_fingerprint g,
                 cg_sanitized_projection_fingerprint = projection\<rparr>)
               else Inr (sx_evidence_tier r, None)))"

definition graph_nodes_of :: "applicability_evidence \<Rightarrow> check_targets \<Rightarrow> string list" where
  "graph_nodes_of e t = sorted_set (ae_graph_node_ids e @ ckt_mutation_node_ids t @
     ckt_acknowledgement_node_ids t @
     List.map_filter id [ckt_ingress_node_id t, ckt_customer_value_node_id t])"

definition graph_edges_of :: "applicability_evidence \<Rightarrow> check_targets \<Rightarrow> string list" where
  "graph_edges_of e t = sorted_set (ae_graph_edge_ids e @
     List.map_filter id [ckt_connectivity_edge_id t])"

definition build_check ::
  "(string \<Rightarrow> string option) \<Rightarrow> run_inputs \<Rightarrow> policy_snapshot \<Rightarrow> semantic_authority \<Rightarrow>
   (assertion_key \<times> scenario_result) list \<Rightarrow>
   assertion_key \<times> scenario_instance \<times> assertion_applicability \<Rightarrow> verification_check result" where
  "build_check read_bytes n policy semantic results entry =
     (case entry of (key, i, x) \<Rightarrow>
      let a = ni_applicability n; g = ni_projected_graph n; sid = fst key; instance_id = si_instance_id i
      in case map_of results key of
        None \<Rightarrow> Inl KeyError
      | Some r \<Rightarrow>
        if au_applicability_fingerprint (sx_authority r) \<noteq> ap_applicability_fingerprint a
        then Inl (ValueError ''scenario result has foreign applicability authority'')
        else if sx_scenario_definition_fingerprint r \<noteq> definition_fingerprint_of sid
        then Inl (ValueError ''scenario result has foreign invariant-definition authority'')
        else
        bind_result (assertion_definition sid (aa_key x)) (\<lambda>d.
        bind_result (target_reference a i x r g) (\<lambda>targets.
        bind_result (applicability_projection x) (\<lambda>evidence.
        bind_result (request_projection r (ad_request_roles d)) (\<lambda>requests.
        if map re_request_id requests \<noteq> map observation_request_id (sx_request_observations r)
        then Inl (ValueError ''runtime evidence projection changed request identity'')
        else
        bind_result (check_policy_of (ad_policy_authority d) a) (\<lambda>check_policy_authority.
        bind_result (build_verification_check_key (ap_project_id a) sid (aa_key x) (ad_invariant_id d)
          (ad_invariant_version d) targets (ad_key_policy_dimensions d) policy) (\<lambda>stable_key.
        bind_result (promote (ni_grounding n) sid r) (\<lambda>(tier, grounding).
        let nodes = graph_nodes_of evidence targets; edges = graph_edges_of evidence targets;
            sources = source_references (ni_source_index n) g nodes
        in bind_result (construct validate_runtime_evidence
             \<lparr>ru_scenario_execution_id = sx_execution_id r,
              ru_runtime_session_id = au_runtime_session_id (sx_authority r),
              ru_runtime_capability_fingerprint = au_runtime_capability_fingerprint (sx_authority r),
              ru_transcript_fingerprint = au_transcript_fingerprint (sx_authority r),
              ru_requests = requests, ru_diagnostics = sx_runtime_diagnostics r\<rparr>) (\<lambda>runtime.
        bind_result (build_finding_relevant_authority_snapshot read_bytes (ni_source_index n) g a x targets
          sources nodes edges (ad_key_policy_dimensions d) check_policy_authority (ad_invariant_id d)
          (ad_invariant_version d) (sx_scenario_definition_fingerprint r) (ad_razorpay_rule_ids d)
          semantic) (\<lambda>relevant.
        construct validate_check
          \<lparr>vc_check_id = verification_check_id (ni_run_id n) instance_id (aa_assertion_id x),
           vc_check_key = stable_key, vc_scenario_id = sid, vc_scenario_instance_id = instance_id,
           vc_assertion_id = aa_assertion_id x, vc_assertion_key = aa_key x,
           vc_invariant_id = ad_invariant_id d, vc_invariant_version = ad_invariant_version d,
           vc_expected_invariant = ad_expected_invariant d,
           vc_scenario_definition_fingerprint = sx_scenario_definition_fingerprint r,
           vc_scenario_result_fingerprint = sx_result_fingerprint r,
           vc_applicability = evidence, vc_targets = targets,
           vc_policy_authority = check_policy_authority,
           vc_key_policy_dimensions = ad_key_policy_dimensions d,
           vc_razorpay_rule_ids = ad_razorpay_rule_ids d, vc_source_references = sources,
           vc_graph_node_ids = nodes, vc_graph_edge_ids = edges,
           vc_input_reference = sx_input_reference r, vc_runtime_evidence = runtime,
           vc_result = sx_result r, vc_evidence_tier = tier, vc_grounding = grounding,
           vc_reason = sx_reason r,
           vc_reverification = \<lparr>vf_scenario_id = sid, vf_assertion_key = aa_key x,
             vf_invariant_id = ad_invariant_id d, vf_invariant_version = ad_invariant_version d,
             vf_targets = targets, vf_input_reference = sx_input_reference r,
             vf_config_fingerprint = ni_config_fingerprint n,
             vf_project_source_fingerprint = ix_project_source_fingerprint (ni_source_index n),
             vf_projected_graph_fingerprint = pg_graph_fingerprint g,
             vf_applicability_fingerprint = ap_applicability_fingerprint a,
             vf_razorpay_rule_catalog_fingerprint = razorpay_rule_catalog_fingerprint\<rparr>,
           vc_relevant_authority = Some relevant\<rparr>))))))))))"

fun scenario_number :: "scenario_id \<Rightarrow> nat" where
  "scenario_number SG_01 = 1" | "scenario_number SG_02 = 2" | "scenario_number SG_03 = 3"
| "scenario_number SG_04 = 4" | "scenario_number SG_05 = 5" | "scenario_number SG_06 = 6"
| "scenario_number SG_07 = 7" | "scenario_number SG_08 = 8"

definition check_position :: "verification_check \<Rightarrow> ((nat \<times> string \<times> nat) \<times> verification_check) result" where
  "check_position c = bind_result (assertion_order (vc_scenario_id c) (vc_assertion_key c)) (\<lambda>k.
     Inr ((scenario_number (vc_scenario_id c), vc_scenario_instance_id c, k), c))"

definition order_checks :: "verification_check list \<Rightarrow> verification_check list result" where
  "order_checks checks = bind_result (traverse check_position checks) (\<lambda>positioned.
     Inr (map snd (sort_key fst positioned)))"

definition run_guards :: "run_inputs \<Rightarrow> error option" where
  "run_guards n =
     (let a = ni_applicability n; ix = ni_source_index n
      in if ix_project_id ix \<noteq> ap_project_id a
         then Some (ValueError ''verification authority refers to different projects'')
         else if ix_source_index_fingerprint ix \<noteq> ap_source_index_fingerprint a
         then Some (ValueError ''verification applicability has stale source authority'')
         else if pg_graph_fingerprint (ni_structural_graph n) \<noteq> ap_structural_graph_fingerprint a
         then Some (ValueError ''verification applicability has stale structural graph authority'')
         else if pg_graph_fingerprint (ni_projected_graph n) \<noteq> ap_projected_graph_fingerprint a
         then Some (ValueError ''verification applicability has stale projected graph authority'')
         else None)"

definition assemble_run ::
  "run_inputs \<Rightarrow> policy_snapshot \<Rightarrow> semantic_authority \<Rightarrow> verification_check list \<Rightarrow> verification_run result" where
  "assemble_run n policy semantic checks =
     bind_result (rule_snapshot_of (concat (map vc_razorpay_rule_ids checks))) (\<lambda>rules.
     bind_result (construct validate_capabilities
       \<lparr>va_project_id = ix_project_id (ni_source_index n),
        va_config_fingerprint = ni_config_fingerprint n,
        va_project_source_fingerprint = ix_project_source_fingerprint (ni_source_index n),
        va_source_index_fingerprint = ix_source_index_fingerprint (ni_source_index n),
        va_structural_graph_fingerprint = pg_graph_fingerprint (ni_structural_graph n),
        va_projected_graph_fingerprint = pg_graph_fingerprint (ni_projected_graph n),
        va_applicability_fingerprint = ap_applicability_fingerprint (ni_applicability n),
        va_runtime_config_fingerprint = ni_runtime_config_fingerprint n,
        va_runtime_capability_fingerprints = run_runtime_fingerprints checks,
        va_semantic = semantic, va_policy = policy, va_razorpay_rules = rules,
        va_razorpay_grounding = ni_grounding n,
        va_schema_versions = \<lparr>sv_scenario_execution_result = 3,
          sv_razorpay_grounding = (if ni_grounding n \<noteq> None then Some 1 else None)\<rparr>\<rparr>) (\<lambda>authority.
     let draft = \<lparr>vr_schema_version = 3, vr_producer_version = ''0.1.0'',
           vr_generated_at = ni_completed_at n, vr_run_id = ni_run_id n,
           vr_created_at = ni_created_at n, vr_completed_at = ni_completed_at n,
           vr_authority = authority, vr_checks = checks,
           vr_findings = derive_findings (ni_run_id n) checks, vr_summary = summarize_checks checks,
           vr_run_fingerprint = []\<rparr>
     in construct validate_run
          (draft\<lparr>vr_run_fingerprint := fingerprint_json (verification_run_fingerprint_payload draft)\<rparr>)))"

definition build_verification_run ::
  "(string \<Rightarrow> string option) \<Rightarrow> run_inputs \<Rightarrow> verification_run result" where
  "build_verification_run read_bytes n =
     (case run_guards n of
        Some e \<Rightarrow> Inl e
      | None \<Rightarrow>
          bind_result (assertion_authorities (ni_applicability n)) (\<lambda>authorities.
          bind_result (execution_results (ni_results n)) (\<lambda>results.
          if set (map fst authorities) \<noteq> set (map fst results)
          then Inl (ValueError ''scenario results must map one-to-one to applicability assertions'')
          else
          let policy = policy_snapshot_of (ni_applicability n)
          in bind_result (semantic_snapshot_of (ni_resolution n) (ni_resolution_fingerprint n)
               (ni_artifact_context n) (ni_configured_context n) (ni_projected_graph n)) (\<lambda>semantic.
          bind_result (traverse (build_check read_bytes n policy semantic results) authorities) (\<lambda>checks.
          bind_result (order_checks checks) (\<lambda>ordered.
          assemble_run n policy semantic ordered))))))"

end
