(* ===== verification/Execution.thy ===== *)
theory Execution
  imports RequestMaterial
begin

text \<open>
  The orchestration of one managed scenario execution, \<open>application/failure_lab.py\<close>: the
  shared helpers and the handlers \<open>execute_sg01\<close>, \<open>execute_sg02\<close> and \<open>execute_sg07\<close>.  What an
  execution reads from outside (the fresh applicability analysis, the configuration, the host
  environment, the opened runtime session, the replies of the application under test and the
  sealed transcript) is the record \<open>world\<close>; the theorems quantify over it.
\<close>

section \<open>What an execution reads\<close>

datatype ack_failure_mode = FORCE_NON_2XX_AFTER_SUCCESS

record managed_request =
  mr_headers :: "(string \<times> string) list"
  mr_content :: "byte list option"
  mr_params :: "(string \<times> string) list option"
  mr_acknowledgement_failure :: "ack_failure_mode option"
  mr_acknowledgement_node_id :: "string option"

definition plain_request :: "(string \<times> string) list \<Rightarrow> byte list \<Rightarrow> managed_request" where
  "plain_request headers content = \<lparr>mr_headers = headers, mr_content = Some content,
     mr_params = None, mr_acknowledgement_failure = None, mr_acknowledgement_node_id = None\<rparr>"

record request_result =
  rq_request_id :: string
  rq_binding :: ingress_binding
  rq_status_code :: nat

datatype session_kind = ManagedSession | OtherSession

record opened_runtime =
  op_applicability :: applicability_artifact
  op_artifact :: runtime_capability_artifact
  op_plan_ingresses :: "ingress_binding list"
  op_session :: "session_kind option"

text \<open>
  \<open>ManagedRuntime fp env\<close> is a managed runtime configuration with its fingerprint and its
  \<open>env_from_host\<close> table.  \<open>wd_opened = None\<close> is \<open>open_runtime_session\<close> raising \<open>OSError\<close> or
  \<open>ValueError\<close>; \<open>wd_request\<close> answers the i-th request or raises a \<open>RuntimeSessionError\<close> with its
  reason; \<open>wd_close\<close> seals the transcript of the requests sent, or raises.
\<close>

datatype runtime_setting = ManagedRuntime string "string \<Rightarrow> string option" | UnmanagedRuntime

record world =
  wd_execution_id :: string
  wd_preflight :: applicability_artifact
  wd_runtime :: runtime_setting
  wd_environ :: "string \<Rightarrow> string option"
  wd_opened :: "opened_runtime option"
  wd_request :: "nat \<Rightarrow> ingress_binding \<Rightarrow> managed_request \<Rightarrow> runtime_reason + request_result"
  wd_close :: "managed_request list \<Rightarrow> transcript option"

section \<open>Shared helpers\<close>

definition scenario_instance_of ::
  "applicability_artifact \<Rightarrow> scenario_id \<Rightarrow> string \<Rightarrow> scenario_instance option" where
  "scenario_instance_of a sid instance_id =
     (case find (\<lambda>s. sc_scenario_id s = sid) (ap_scenarios a) of
        None \<Rightarrow> None
      | Some s \<Rightarrow> find (\<lambda>i. si_instance_id i = instance_id) (sc_instances s))"

fun dispatch_loop ::
  "world \<Rightarrow> ingress_binding option \<Rightarrow> nat \<Rightarrow> managed_request list \<Rightarrow>
   request_result list \<times> runtime_reason option \<times> nat" where
  "dispatch_loop w ingress i [] = ([], None, i)"
| "dispatch_loop w ingress i (r # rs) =
     (case ingress of
        None \<Rightarrow> ([], Some RC_RUNTIME_ROUTE_NOT_FOUND, i)
      | Some b \<Rightarrow>
          (case wd_request w i b r of
             Inl reason \<Rightarrow> ([], Some reason, Suc i)
           | Inr res \<Rightarrow>
               (case dispatch_loop w ingress (Suc i) rs of
                  (rest, failure, n) \<Rightarrow> (res # rest, failure, n))))"

text \<open>
  \<open>_dispatch_managed_sequence\<close>: the session is closed in every case; the transcript is
  \<open>None\<close> exactly when closing failed, so the fourth component of the code is redundant here.
\<close>

definition dispatch_managed_sequence ::
  "world \<Rightarrow> ingress_binding option \<Rightarrow> managed_request list \<Rightarrow>
   request_result list \<times> transcript option \<times> runtime_reason option" where
  "dispatch_managed_sequence w ingress requests =
     (case dispatch_loop w ingress 0 requests of
        (results, failure, n) \<Rightarrow> (results, wd_close w (take n requests), failure))"

definition sequence_authority_is_exact :: "transcript \<Rightarrow> request_result list \<Rightarrow> bool" where
  "sequence_authority_is_exact t results =
     (let expected = map rq_request_id results;
          received = map ev_request_id (filter (\<lambda>e. ev_kind e = REQUEST_RECEIVED) (tr_events t))
      in if \<not> distinct expected then False
         else case results of
           [] \<Rightarrow> False
         | first # rest \<Rightarrow>
             let b = rq_binding first
             in set (map ev_request_id (tr_events t)) = set expected \<and> received = expected \<and>
                list_all (\<lambda>q. rq_binding q = b) results \<and>
                list_all (\<lambda>e. ev_request_id e \<in> set expected \<longrightarrow>
                    ev_ingress_node_id e = ib_ingress_node_id b \<and>
                    ev_route_registration_id e = ib_route_registration_id b) (tr_events t))"

definition assertion_for :: "scenario_instance option \<Rightarrow> string \<Rightarrow> string \<Rightarrow> string result" where
  "assertion_for inst instance_id key =
     (case inst of
        None \<Rightarrow> assertion_id instance_id key
      | Some i \<Rightarrow>
          (case filter (\<lambda>a. aa_key a = key) (si_assertions i) of
             [a] \<Rightarrow> Inr (aa_assertion_id a)
           | _ \<Rightarrow> assertion_id instance_id key))"

definition base_authority ::
  "string \<Rightarrow> string \<Rightarrow> string option \<Rightarrow> string option \<Rightarrow> string option \<Rightarrow> string list \<Rightarrow>
   string option \<Rightarrow> authority_reference result" where
  "base_authority applicability_fp instance_id control capability_fp session_id request_ids transcript_fp =
     (let a = \<lparr>au_applicability_fingerprint = applicability_fp,
               au_scenario_instance_id = instance_id, au_normal_control_id = control,
               au_runtime_capability_fingerprint = capability_fp,
               au_runtime_session_id = session_id, au_runtime_request_ids = request_ids,
               au_transcript_fingerprint = transcript_fp\<rparr>
      in case validate_runtime_authority a of Some e \<Rightarrow> Inl e | None \<Rightarrow> Inr a)"

fun early_applicability_result :: "applicability_state \<Rightarrow> (result_state \<times> result_reason) option" where
  "early_applicability_result NOT_APPLICABLE =
     Some (RESULT_NOT_APPLICABLE, APPLICABILITY_NOT_APPLICABLE)"
| "early_applicability_result NEEDS_INPUT = Some (RESULT_NEEDS_INPUT, APPLICABILITY_NEEDS_INPUT)"
| "early_applicability_result INDETERMINATE = Some (UNVERIFIED, APPLICABILITY_INDETERMINATE)"
| "early_applicability_result APPLICABLE = None"

definition customers_for :: "runtime_capability_artifact \<Rightarrow> string \<Rightarrow> customer_value_capability list" where
  "customers_for a control = filter (\<lambda>c. ct_normal_control_id (cc_target c) = control) (ra_customer_values a)"

definition complete :: "capability_assessment \<Rightarrow> bool" where
  "complete c \<longleftrightarrow> ca_state c = CAP_COMPLETE"

definition capability_is_sufficient :: "opened_runtime \<Rightarrow> string \<Rightarrow> bool" where
  "capability_is_sufficient opened control =
     (let a = op_artifact opened
      in case customers_for a control of
           [customer] \<Rightarrow>
             (let ingresses = filter (\<lambda>i. ic_binding i = ct_ingress (cc_target customer)) (ra_ingresses a)
              in ra_mode a = ''managed'' \<and> ra_lifecycle a = LIFE_READY \<and>
                 length ingresses = 1 \<and>
                 complete (ic_addressability (ingresses ! 0)) \<and>
                 complete (ic_request_correlation (ingresses ! 0)) \<and>
                 complete (cc_lifecycle customer) \<and>
                 cc_strength customer = Some ENTRY_AND_TERMINAL \<and>
                 complete (is_fresh_process (ra_isolation a)) \<and>
                 complete (is_observation_reset (ra_isolation a)))
         | _ \<Rightarrow> False)"

definition secret_child_name :: string where
  "secret_child_name = ''STATEGUARD_TEST_WEBHOOK_SECRET''"

definition webhook_secret :: "world \<Rightarrow> (string \<Rightarrow> string option) \<Rightarrow> string" where
  "webhook_secret w env_from_host =
     (case env_from_host secret_child_name of
        None \<Rightarrow> ''''
      | Some host_name \<Rightarrow> (case wd_environ w host_name of None \<Rightarrow> '''' | Some v \<Rightarrow> v))"

text \<open>An event of the customer target that belongs to another control.\<close>

definition foreign_control_event :: "string \<Rightarrow> observation_event \<Rightarrow> bool" where
  "foreign_control_event control e \<longleftrightarrow>
     ev_kind e \<in> set customer_kinds \<and> ev_normal_control_id e \<noteq> Some control"

definition request_observation_of :: "transcript \<Rightarrow> string \<Rightarrow> request_result \<Rightarrow> request_observation" where
  "request_observation_of t control q =
     \<lparr>ro_request_id = rq_request_id q,
      ro_observations = observed_summary (tr_events t) (rq_request_id q) control (rq_status_code q),
      ro_acknowledgement_failure = None\<rparr>"

text \<open>Building the observation of a request runs the validators of its summary.\<close>

definition observe_request :: "transcript \<Rightarrow> string \<Rightarrow> request_result \<Rightarrow> request_observation result" where
  "observe_request t control q =
     bind_result (summarize_observations (tr_events t) (rq_request_id q) control (rq_status_code q))
       (\<lambda>summary. Inr \<lparr>ro_request_id = rq_request_id q, ro_observations = summary,
                       ro_acknowledgement_failure = None\<rparr>)"

lemma observe_request_Inr:
  "observe_request t c q = Inr x \<longleftrightarrow> legal_status (rq_status_code q) \<and> x = request_observation_of t c q"
  by (auto simp: observe_request_def bind_result_eq_Inr summarize_observations_Inr
      request_observation_of_def)

lemma observe_request_legal:
  "legal_status (rq_status_code q) \<Longrightarrow> observe_request t c q = Inr (request_observation_of t c q)"
  by (simp add: observe_request_Inr)

definition session_diagnostics ::
  "opened_runtime \<Rightarrow> transcript \<Rightarrow> runtime_reason option \<Rightarrow> runtime_reason list" where
  "session_diagnostics opened t failure =
     map rd_code (ra_diagnostics (op_artifact opened)) @ tr_diagnostics t @
     (case failure of None \<Rightarrow> [] | Some reason \<Rightarrow> [reason])"

definition opened_diagnostics :: "opened_runtime \<Rightarrow> runtime_reason list" where
  "opened_diagnostics opened = map rd_code (ra_diagnostics (op_artifact opened))"

section \<open>The fixed part of a handler\<close>

text \<open>
  What the handlers keep in local variables after the preflight: the world, the scenario and
  its definition, the selected instance, assertion and control.  \<open>stop\<close> is the result of a
  handler that ends without a verdict.
\<close>

record run_context =
  rx_world :: world
  rx_scenario :: scenario_id
  rx_definition :: string
  rx_instance_id :: string
  rx_instance :: scenario_instance
  rx_assertion :: string
  rx_control :: string

definition finish ::
  "run_context \<Rightarrow> authority_reference \<Rightarrow> verdict \<Rightarrow> input_reference option \<Rightarrow>
   scenario_observation list \<Rightarrow> runtime_reason list \<Rightarrow> scenario_result result" where
  "finish rx auth v input observations diagnostics =
     make_result (wd_execution_id (rx_world rx)) (rx_scenario rx) (rx_definition rx)
       (rx_assertion rx) auth v input observations diagnostics"

definition stop ::
  "run_context \<Rightarrow> authority_reference \<Rightarrow> result_reason \<Rightarrow> input_reference option \<Rightarrow>
   runtime_reason list \<Rightarrow> scenario_result result" where
  "stop rx auth why input diagnostics = finish rx auth (unverified why) input [] diagnostics"

definition runtime_authority ::
  "run_context \<Rightarrow> opened_runtime \<Rightarrow> authority_reference result" where
  "runtime_authority rx opened =
     base_authority (ap_applicability_fingerprint (wd_preflight (rx_world rx))) (rx_instance_id rx)
       (Some (rx_control rx)) (Some (ra_capability_fingerprint (op_artifact opened)))
       (Some (ra_assessment_session_id (op_artifact opened))) [] None"

definition sealed_authority ::
  "run_context \<Rightarrow> opened_runtime \<Rightarrow> request_result list \<Rightarrow> transcript \<Rightarrow> authority_reference result" where
  "sealed_authority rx opened results t =
     base_authority (ap_applicability_fingerprint (wd_preflight (rx_world rx))) (rx_instance_id rx)
       (Some (rx_control rx)) (Some (ra_capability_fingerprint (op_artifact opened)))
       (Some (ra_assessment_session_id (op_artifact opened))) (map rq_request_id results)
       (Some (tr_transcript_fingerprint t))"

section \<open>Guards shared by the handlers\<close>

text \<open>
  \<open>execute_sg01\<close> and \<open>execute_sg02\<close> start with the same guards, up to the scenario, its
  definition fingerprint and its assertion key; \<open>continue\<close> is the rest of the handler.  The
  second definition is the check of the opened session, in which the two agree as well.
\<close>

definition preflight ::
  "world \<Rightarrow> scenario_id \<Rightarrow> string \<Rightarrow> string \<Rightarrow> string \<Rightarrow> string \<Rightarrow>
   (run_context \<Rightarrow> authority_reference \<Rightarrow> string \<Rightarrow> string \<Rightarrow> scenario_result result) \<Rightarrow>
   scenario_result result" where
  "preflight w sid definition_fp key instance_id expected_fp continue =
     (let applicability = wd_preflight w;
          inst = scenario_instance_of applicability sid instance_id;
          control = (case inst of None \<Rightarrow> None | Some i \<Rightarrow> si_normal_control_id i);
          ended = \<lambda>assertion auth v.
            make_result (wd_execution_id w) sid definition_fp assertion auth v None [] []
      in bind_result (assertion_for inst instance_id key) (\<lambda>assertion.
         bind_result (base_authority (ap_applicability_fingerprint applicability) instance_id control
                        None None [] None) (\<lambda>auth.
         if ap_applicability_fingerprint applicability \<noteq> expected_fp
         then ended assertion auth (unverified STALE_APPLICABILITY_AUTHORITY)
         else case inst of
           None \<Rightarrow> ended assertion auth (unverified AUTHORITY_MISMATCH)
         | Some i \<Rightarrow>
             (case early_applicability_result (si_state i) of
                Some early \<Rightarrow> ended assertion auth (fst early, None, snd early)
              | None \<Rightarrow>
                  (case control of
                     None \<Rightarrow> ended assertion auth (unverified AUTHORITY_MISMATCH)
                   | Some c \<Rightarrow>
                       (case wd_runtime w of
                          UnmanagedRuntime \<Rightarrow> ended assertion auth (unverified RUNTIME_MODE_UNSUPPORTED)
                        | ManagedRuntime config_fp env \<Rightarrow>
                            if webhook_secret w env = ''''
                            then ended assertion auth (unverified WEBHOOK_SECRET_UNAVAILABLE)
                            else continue
                              \<lparr>rx_world = w, rx_scenario = sid, rx_definition = definition_fp,
                               rx_instance_id = instance_id, rx_instance = i,
                               rx_assertion = assertion, rx_control = c\<rparr>
                              auth config_fp (webhook_secret w env)))))))"

text \<open>
  A handler that refuses an opened session closes it first; nothing guards that call, so an
  exception of \<open>close\<close> (the \<open>ValueError\<close> of a transcript that does not validate, for example)
  leaves the handler.
\<close>

definition discard :: "world \<Rightarrow> opened_runtime \<Rightarrow> 'a result \<Rightarrow> 'a result" where
  "discard w opened result =
     (if op_session opened \<noteq> None \<and> wd_close w [] = None
      then Inl (ValueError ''runtime session could not be closed'') else result)"

definition checked_session ::
  "run_context \<Rightarrow> string \<Rightarrow> authority_reference \<Rightarrow>
   (opened_runtime \<Rightarrow> authority_reference \<Rightarrow> scenario_result result) \<Rightarrow> scenario_result result" where
  "checked_session rx config_fp auth run =
     (case wd_opened (rx_world rx) of
        None \<Rightarrow> stop rx auth RUNTIME_SESSION_UNAVAILABLE None []
      | Some opened \<Rightarrow>
          bind_result (runtime_authority rx opened) (\<lambda>runtime_auth.
            if ap_applicability_fingerprint (op_applicability opened) \<noteq>
                 ap_applicability_fingerprint (wd_preflight (rx_world rx)) \<or>
               ra_runtime_config_fingerprint (op_artifact opened) \<noteq> config_fp
            then discard (rx_world rx) opened
              (stop rx runtime_auth STALE_APPLICABILITY_AUTHORITY None (opened_diagnostics opened))
            else if scenario_instance_of (op_applicability opened) (rx_scenario rx)
                      (rx_instance_id rx) \<noteq> Some (rx_instance rx)
            then discard (rx_world rx) opened (stop rx runtime_auth AUTHORITY_MISMATCH None [])
            else if op_session opened \<noteq> Some ManagedSession
            then stop rx runtime_auth RUNTIME_SESSION_UNAVAILABLE None (opened_diagnostics opened)
            else run opened runtime_auth))"

section \<open>SG-01\<close>

record grounding_result =
  gr_profile :: "captured_profile option"
  gr_grounding_fingerprint :: string
  gr_sanitized_projection_fingerprint :: "string option"

definition prepare_grounded ::
  "string \<Rightarrow> string \<Rightarrow> string \<Rightarrow> grounding_result option \<Rightarrow> prepared_webhook result" where
  "prepare_grounded execution_id path secret grounding =
     (let profile = (case grounding of None \<Rightarrow> None | Some g \<Rightarrow> gr_profile g)
      in prepare_captured_webhook execution_id path secret profile
        (case grounding of None \<Rightarrow> None
         | Some g \<Rightarrow> if profile = None then None else Some (gr_grounding_fingerprint g))
        (case grounding of None \<Rightarrow> None
         | Some g \<Rightarrow> if profile = None then None else gr_sanitized_projection_fingerprint g))"

definition sg01_judge ::
  "run_context \<Rightarrow> opened_runtime \<Rightarrow> authority_reference \<Rightarrow> transcript \<Rightarrow> request_result \<Rightarrow>
   prepared_webhook \<Rightarrow> runtime_reason list \<Rightarrow> scenario_result result" where
  "sg01_judge rx opened auth t q prepared diagnostics =
     bind_result (prepared_input_reference prepared) (\<lambda>reference.
       if validate_observation_transcript (op_artifact opened) t \<noteq> None
       then stop rx auth TRANSCRIPT_UNTRUSTWORTHY (Some reference) diagnostics
       else if tr_diagnostics t \<noteq> []
       then stop rx auth TRANSCRIPT_UNTRUSTWORTHY (Some reference) diagnostics
       else if set (map ev_request_id (tr_events t)) \<noteq> {rq_request_id q} \<or>
               list_ex (\<lambda>e. ev_request_id e = rq_request_id q \<and> foreign_control_event (rx_control rx) e)
                 (tr_events t)
       then stop rx auth AUTHORITY_MISMATCH (Some reference) diagnostics
       else bind_result (observe_request t (rx_control rx) q) (\<lambda>observation.
              finish rx auth (evaluate_observations (ro_observations observation)) (Some reference)
                [CustomerObservation observation] diagnostics))"

definition sg01_run ::
  "run_context \<Rightarrow> opened_runtime \<Rightarrow> string \<Rightarrow> grounding_result option \<Rightarrow> authority_reference \<Rightarrow>
   scenario_result result" where
  "sg01_run rx opened secret grounding runtime_auth =
     (let w = rx_world rx;
          sufficient = capability_is_sufficient opened (rx_control rx)
      in case (if sufficient
               then (case customers_for (op_artifact opened) (rx_control rx) of
                       [] \<Rightarrow> Inl StopIteration
                     | target # rest \<Rightarrow>
                         bind_result (prepare_grounded (wd_execution_id w)
                             (ib_effective_path (ct_ingress (cc_target target))) secret grounding)
                           (\<lambda>p. let request = plain_request (pw_headers p) (pw_raw_body p)
                                in Inr (Some p, [request],
                                        Some (wd_request w 0 (ct_ingress (cc_target target)) request))))
               else Inr (None, [], None)) of
           Inl e \<Rightarrow> Inl e
         | Inr (prepared, sent, reply) \<Rightarrow>
             (case wd_close w sent of
                None \<Rightarrow> stop rx runtime_auth TRANSCRIPT_UNTRUSTWORTHY None []
              | Some t \<Rightarrow>
                  let request_result = (case reply of Some (Inr q) \<Rightarrow> Some q | _ \<Rightarrow> None);
                      failure = (case reply of Some (Inl reason) \<Rightarrow> Some reason | _ \<Rightarrow> None);
                      diagnostics = session_diagnostics opened t failure
                  in bind_result (sealed_authority rx opened
                       (case request_result of None \<Rightarrow> [] | Some q \<Rightarrow> [q]) t) (\<lambda>auth.
                     if \<not> sufficient then stop rx auth RUNTIME_CAPABILITY_INSUFFICIENT None diagnostics
                     else case (request_result, prepared) of
                            (Some q, Some p) \<Rightarrow> sg01_judge rx opened auth t q p diagnostics
                          | _ \<Rightarrow> stop rx auth REQUEST_EXECUTION_FAILED None diagnostics)))"

definition execute_sg01 ::
  "world \<Rightarrow> string \<Rightarrow> string \<Rightarrow> grounding_result option \<Rightarrow> scenario_result result" where
  "execute_sg01 w instance_id expected_fp grounding =
     preflight w SG_01 SG01_DEFINITION_FINGERPRINT SG01_ASSERTION_KEY instance_id expected_fp
       (\<lambda>rx auth config_fp secret.
          checked_session rx config_fp auth (\<lambda>opened. sg01_run rx opened secret grounding))"

section \<open>SG-02\<close>

definition sg02_judge ::
  "run_context \<Rightarrow> opened_runtime \<Rightarrow> authority_reference \<Rightarrow> transcript \<Rightarrow> request_result list \<Rightarrow>
   input_reference \<Rightarrow> runtime_reason list \<Rightarrow> scenario_result result" where
  "sg02_judge rx opened auth t results reference diagnostics =
     (if validate_observation_transcript (op_artifact opened) t \<noteq> None
      then stop rx auth TRANSCRIPT_UNTRUSTWORTHY (Some reference) diagnostics
      else if tr_diagnostics t \<noteq> []
      then stop rx auth TRANSCRIPT_UNTRUSTWORTHY (Some reference) diagnostics
      else case results of
        [first, second] \<Rightarrow>
          if \<not> sequence_authority_is_exact t results \<or>
             list_ex (\<lambda>e. ev_request_id e \<in> set (map rq_request_id results) \<and>
                          foreign_control_event (rx_control rx) e) (tr_events t)
          then stop rx auth AUTHORITY_MISMATCH (Some reference) diagnostics
          else bind_result (observe_request t (rx_control rx) first) (\<lambda>a.
               bind_result (observe_request t (rx_control rx) second) (\<lambda>b.
                 finish rx auth (sg02_evaluate_sequence (ro_observations a) (ro_observations b))
                   (Some reference) [CustomerObservation a, CustomerObservation b] diagnostics))
      | _ \<Rightarrow> stop rx auth REQUEST_EXECUTION_FAILED (Some reference) diagnostics)"

definition sg02_sealed ::
  "run_context \<Rightarrow> opened_runtime \<Rightarrow> prepared_webhook option \<Rightarrow> authority_reference \<Rightarrow>
   request_result list \<Rightarrow> transcript option \<Rightarrow> runtime_reason option \<Rightarrow> scenario_result result" where
  "sg02_sealed rx opened prepared runtime_auth results sealed failure =
     (case sealed of
        None \<Rightarrow> stop rx runtime_auth TRANSCRIPT_UNTRUSTWORTHY None []
      | Some t \<Rightarrow>
          (let diagnostics = session_diagnostics opened t failure;
               sufficient = capability_is_sufficient opened (rx_control rx)
           in bind_result (sealed_authority rx opened results t) (\<lambda>auth.
              case prepared of
                None \<Rightarrow>
                  if \<not> sufficient
                  then stop rx auth RUNTIME_CAPABILITY_INSUFFICIENT None diagnostics
                  else stop rx auth REQUEST_EXECUTION_FAILED None diagnostics
              | Some p \<Rightarrow>
                  bind_result (prepared_input_reference p) (\<lambda>reference.
                    if \<not> sufficient
                    then stop rx auth RUNTIME_CAPABILITY_INSUFFICIENT None diagnostics
                    else sg02_judge rx opened auth t results reference diagnostics))))"

definition sg02_run ::
  "run_context \<Rightarrow> opened_runtime \<Rightarrow> string \<Rightarrow> authority_reference \<Rightarrow> scenario_result result" where
  "sg02_run rx opened secret runtime_auth =
     bind_result
       (if capability_is_sufficient opened (rx_control rx)
        then (case customers_for (op_artifact opened) (rx_control rx) of
                [] \<Rightarrow> Inl StopIteration
              | target # rest \<Rightarrow>
                  bind_result (prepare_captured_webhook (wd_execution_id (rx_world rx))
                      (ib_effective_path (ct_ingress (cc_target target))) secret None None None)
                    (\<lambda>p. Inr (Some (ct_ingress (cc_target target)), Some p)))
        else Inr (None, None))
     (\<lambda>(ingress, prepared).
        let requests = (case prepared of None \<Rightarrow> []
              | Some p \<Rightarrow> [plain_request (pw_headers p) (pw_raw_body p),
                           plain_request (pw_headers p) (pw_raw_body p)])
        in case dispatch_managed_sequence (rx_world rx) ingress requests of
             (results, sealed, failure) \<Rightarrow>
               sg02_sealed rx opened prepared runtime_auth results sealed failure)"

definition execute_sg02 :: "world \<Rightarrow> string \<Rightarrow> string \<Rightarrow> scenario_result result" where
  "execute_sg02 w instance_id expected_fp =
     preflight w SG_02 SG02_DEFINITION_FINGERPRINT SG02_ASSERTION_KEY instance_id expected_fp
       (\<lambda>rx auth config_fp secret.
          checked_session rx config_fp auth (\<lambda>opened. sg02_run rx opened secret))"

section \<open>SG-07\<close>

definition sg07_judge ::
  "run_context \<Rightarrow> opened_runtime \<Rightarrow> authority_reference \<Rightarrow> transcript \<Rightarrow> request_result list \<Rightarrow>
   prepared_webhook \<Rightarrow> runtime_reason list \<Rightarrow> scenario_result result" where
  "sg07_judge rx opened auth t results prepared diagnostics =
     bind_result (prepared_input_reference prepared) (\<lambda>reference.
       if validate_observation_transcript (op_artifact opened) t \<noteq> None
       then stop rx auth TRANSCRIPT_UNTRUSTWORTHY (Some reference) diagnostics
       else if tr_diagnostics t \<noteq> [] \<or> \<not> sequence_authority_is_exact t results \<or>
               list_ex (foreign_control_event (rx_control rx)) (tr_events t)
       then stop rx auth AUTHORITY_MISMATCH (Some reference) diagnostics
       else case results of
              [] \<Rightarrow> Inl IndexError
            | q # rest \<Rightarrow>
                bind_result (observe_request t (rx_control rx) q) (\<lambda>observation.
                  finish rx auth (evaluate_webhook_only (ro_observations observation))
                    (Some reference) [CustomerObservation observation] diagnostics))"

definition sg07_sealed ::
  "run_context \<Rightarrow> opened_runtime \<Rightarrow> prepared_webhook option \<Rightarrow> authority_reference \<Rightarrow>
   request_result list \<Rightarrow> transcript option \<Rightarrow> runtime_reason option \<Rightarrow> scenario_result result" where
  "sg07_sealed rx opened prepared runtime_auth results sealed failure =
     (case sealed of
        None \<Rightarrow>
          bind_result (base_authority (ap_applicability_fingerprint (wd_preflight (rx_world rx)))
              (rx_instance_id rx) (Some (rx_control rx))
              (Some (ra_capability_fingerprint (op_artifact opened)))
              (Some (ra_assessment_session_id (op_artifact opened))) (map rq_request_id results) None)
            (\<lambda>auth. stop rx runtime_auth TRANSCRIPT_UNTRUSTWORTHY None [])
      | Some t \<Rightarrow>
          (let diagnostics = session_diagnostics opened t failure
           in bind_result (sealed_authority rx opened results t) (\<lambda>auth.
              if \<not> capability_is_sufficient opened (rx_control rx)
              then stop rx auth RUNTIME_CAPABILITY_INSUFFICIENT None diagnostics
              else case (prepared, results) of
                     (Some p, [q]) \<Rightarrow> sg07_judge rx opened auth t results p diagnostics
                   | _ \<Rightarrow> stop rx auth REQUEST_EXECUTION_FAILED None diagnostics)))"

definition sg07_run ::
  "run_context \<Rightarrow> opened_runtime \<Rightarrow> string \<Rightarrow> authority_reference \<Rightarrow> scenario_result result" where
  "sg07_run rx opened secret runtime_auth =
     (let targets = customers_for (op_artifact opened) (rx_control rx)
      in bind_result
           (case (capability_is_sufficient opened (rx_control rx), targets) of
              (True, [target]) \<Rightarrow>
                bind_result (prepare_captured_webhook (wd_execution_id (rx_world rx))
                    (ib_effective_path (ct_ingress (cc_target target))) secret None None None)
                  (\<lambda>p. Inr (Some p, [plain_request (pw_headers p) (pw_raw_body p)]))
            | _ \<Rightarrow> Inr (None, []))
         (\<lambda>(prepared, requests).
           bind_result
             (case targets of
                target # rest \<Rightarrow> Inr (ct_ingress (cc_target target))
              | [] \<Rightarrow> (case op_plan_ingresses opened of b # bs \<Rightarrow> Inr b | [] \<Rightarrow> Inl IndexError))
           (\<lambda>ingress.
             case dispatch_managed_sequence (rx_world rx) (Some ingress) requests of
               (results, sealed, failure) \<Rightarrow>
                 sg07_sealed rx opened prepared runtime_auth results sealed failure)))"

definition sg07_session ::
  "run_context \<Rightarrow> string \<Rightarrow> string \<Rightarrow> authority_reference \<Rightarrow> scenario_result result" where
  "sg07_session rx config_fp secret auth =
     (let w = rx_world rx
      in case wd_opened w of
           None \<Rightarrow> stop rx auth RUNTIME_SESSION_UNAVAILABLE None []
         | Some opened \<Rightarrow>
             bind_result (runtime_authority rx opened) (\<lambda>runtime_auth.
               if ap_applicability_fingerprint (op_applicability opened) \<noteq>
                    ap_applicability_fingerprint (wd_preflight w) \<or>
                  ra_runtime_config_fingerprint (op_artifact opened) \<noteq> config_fp \<or>
                  scenario_instance_of (op_applicability opened) SG_07 (rx_instance_id rx) \<noteq>
                    Some (rx_instance rx)
               then discard w opened (stop rx runtime_auth STALE_APPLICABILITY_AUTHORITY None [])
               else if op_session opened \<noteq> Some ManagedSession
               then stop rx runtime_auth RUNTIME_SESSION_UNAVAILABLE None []
               else sg07_run rx opened secret runtime_auth))"

definition execute_sg07 :: "world \<Rightarrow> string \<Rightarrow> string \<Rightarrow> scenario_result result" where
  "execute_sg07 w instance_id expected_fp =
     (let applicability = wd_preflight w;
          inst = scenario_instance_of applicability SG_07 instance_id;
          control = (case inst of None \<Rightarrow> None | Some i \<Rightarrow> si_normal_control_id i);
          ended = \<lambda>assertion auth v.
            make_result (wd_execution_id w) SG_07 SG07_DEFINITION_FINGERPRINT assertion auth v None [] []
      in bind_result (assertion_for inst instance_id SG07_CUSTOMER_VALUE_ASSERTION_KEY) (\<lambda>assertion.
         bind_result (base_authority (ap_applicability_fingerprint applicability) instance_id control
                        None None [] None) (\<lambda>auth.
         if ap_applicability_fingerprint applicability \<noteq> expected_fp
         then ended assertion auth (unverified STALE_APPLICABILITY_AUTHORITY)
         else case (inst, control) of
           (Some i, Some c) \<Rightarrow>
             (case si_assertions i of
                [] \<Rightarrow> Inl IndexError
              | a # rest \<Rightarrow>
                 (case early_applicability_result (aa_state a) of
                    Some early \<Rightarrow> ended assertion auth (fst early, None, snd early)
                  | None \<Rightarrow>
                     (case wd_runtime w of
                        UnmanagedRuntime \<Rightarrow> ended assertion auth (unverified RUNTIME_MODE_UNSUPPORTED)
                      | ManagedRuntime config_fp env \<Rightarrow>
                          let secret = webhook_secret w env
                          in if secret = ''''
                             then ended assertion auth (unverified WEBHOOK_SECRET_UNAVAILABLE)
                             else sg07_session
                               \<lparr>rx_world = w, rx_scenario = SG_07,
                                rx_definition = SG07_DEFINITION_FINGERPRINT,
                                rx_instance_id = instance_id, rx_instance = i,
                                rx_assertion = assertion, rx_control = c\<rparr>
                               config_fp secret auth)))
         | _ \<Rightarrow> ended assertion auth (unverified AUTHORITY_MISMATCH))))"

end
