(* ===== verification/ExecutionSafety.thy ===== *)
theory ExecutionSafety
  imports Execution
begin

text \<open>
  What the handlers of \<open>Execution\<close> guarantee.  \<open>make_result\<close> never rejects what a handler gives
  it, so no execution ends in an exception, and a decided result always comes from a transcript
  that was validated against the assessed capability and contains exactly the requests sent.
\<close>

section \<open>Building a result\<close>

lemma payload_ignores_fingerprint [simp]:
  "scenario_result_fingerprint_payload (r\<lparr>sx_result_fingerprint := f\<rparr>) =
   scenario_result_fingerprint_payload r"
  by (simp add: scenario_result_fingerprint_payload_def)

lemma make_result_fields:
  assumes "make_result eid sid fp a auth v input obs ds = Inr r"
  shows "(sx_result r, sx_evidence_tier r, sx_reason r) = v" and "sx_authority r = auth"
    and "sx_request_observations r = obs" and "sx_input_reference r = input"
    and "sx_scenario_id r = sid" and "validate_result r = None" and "sx_assertion_id r = a"
  using assms
  by (auto simp: make_result_def Let_def split: prod.splits option.splits)

definition accepted :: "scenario_result result \<Rightarrow> bool" where
  "accepted x \<longleftrightarrow> (\<exists>r. x = Inr r \<and> validate_result r = None)"

lemma make_result_accepts:
  assumes "\<And>r. sx_schema_version r = 3 \<Longrightarrow> sx_scenario_id r = sid \<Longrightarrow> sx_authority r = auth \<Longrightarrow>
      sx_input_reference r = input \<Longrightarrow> sx_request_observations r = obs \<Longrightarrow>
      (sx_result r, sx_evidence_tier r, sx_reason r) = v \<Longrightarrow>
      sx_result_fingerprint r = fingerprint_json (scenario_result_fingerprint_payload r) \<Longrightarrow>
      validate_result r = None"
  shows "accepted (make_result eid sid fp a auth v input obs ds)"
proof -
  obtain outcome tier why where v: "v = (outcome, tier, why)" by (cases v)
  let ?d = "\<lparr>sx_schema_version = 3, sx_execution_id = eid, sx_scenario_id = sid,
    sx_scenario_definition_fingerprint = fp, sx_assertion_id = a, sx_authority = auth,
    sx_input_reference = input, sx_request_observations = obs, sx_result = outcome,
    sx_evidence_tier = tier, sx_reason = why, sx_runtime_diagnostics = sorted_diagnostics ds,
    sx_result_fingerprint = []\<rparr>"
  let ?a = "?d\<lparr>sx_result_fingerprint := fingerprint_json (scenario_result_fingerprint_payload ?d)\<rparr>"
  have "validate_result ?a = None"
    by (rule assms) (simp_all only: payload_ignores_fingerprint v, simp_all)
  then show ?thesis
    by (simp only: accepted_def make_result_def v prod.case Let_def option.case) blast
qed

text \<open>A result without a verdict carries no observations and is always accepted.\<close>

lemma validate_by_scenario_undecided:
  assumes "\<not> verified r" and "sx_request_observations r = []"
  shows "validate_by_scenario sid r = None"
  using assms
  by (cases sid)
    (simp_all add: validate_customer_only_def validate_sg01_def validate_sg02_def validate_sg03_def
      validate_sg04_def validate_sg05_def validate_sg06_def validate_sg07_def validate_sg08_def
      all_customers_def customers_of_def map_filter_simps verified_def)

lemma make_result_undecided:
  assumes "outcome \<notin> {VERIFIED_PASS, VERIFIED_FAIL}"
    and "input_is is_grounded_input input \<Longrightarrow> sid = SG_01"
  shows "accepted (make_result eid sid fp a auth (outcome, None, why) input [] ds)"
proof (rule make_result_accepts)
  fix r :: scenario_result
  assume r: "sx_schema_version r = 3" "sx_scenario_id r = sid" "sx_input_reference r = input"
    "sx_request_observations r = []"
    "(sx_result r, sx_evidence_tier r, sx_reason r) = (outcome, None, why)"
    "sx_result_fingerprint r = fingerprint_json (scenario_result_fingerprint_payload r)"
  then have "\<not> verified r" using assms(1) by (auto simp: verified_def)
  moreover have "observation_ids r = []" "\<not> carries_acknowledgement_failure r"
    using r(4) by (simp_all add: observation_ids_def carries_acknowledgement_failure_def
        customers_of_def map_filter_simps)
  ultimately show "validate_result r = None"
    using r assms(2) validate_by_scenario_undecided[of r]
    by (simp add: validate_result_def Let_def)
qed

lemma make_result_verdict:
  assumes "well_tiered v"
    and "au_runtime_capability_fingerprint auth \<noteq> None" "au_runtime_session_id auth \<noteq> None"
      "au_transcript_fingerprint auth \<noteq> None"
    and "is_grounded_input reference \<Longrightarrow> sid = SG_01"
    and "map observation_request_id obs = au_runtime_request_ids auth"
    and "sid \<noteq> SG_03 \<Longrightarrow> \<forall>c \<in> set (List.map_filter customer_of obs). ro_acknowledgement_failure c = None"
    and "\<And>r. sx_authority r = auth \<Longrightarrow> sx_input_reference r = Some reference \<Longrightarrow>
      sx_request_observations r = obs \<Longrightarrow> (sx_result r, sx_evidence_tier r, sx_reason r) = v \<Longrightarrow>
      validate_by_scenario sid r = None"
  shows "accepted (make_result eid sid fp a auth v (Some reference) obs ds)"
proof (rule make_result_accepts)
  fix r :: scenario_result
  assume r: "sx_schema_version r = 3" "sx_scenario_id r = sid" "sx_authority r = auth"
    "sx_input_reference r = Some reference" "sx_request_observations r = obs"
    "(sx_result r, sx_evidence_tier r, sx_reason r) = v"
    "sx_result_fingerprint r = fingerprint_json (scenario_result_fingerprint_payload r)"
  have "sid \<noteq> SG_03 \<Longrightarrow> \<not> carries_acknowledgement_failure r"
    using assms(7) r(5) by (auto simp: carries_acknowledgement_failure_def customers_of_def list_ex_iff)
  then have "complete_authority r"
    using r assms(1-6) by (auto simp: complete_authority_def input_is_def observation_ids_def)
  from validate_result_complete[OF this] show "validate_result r = None"
    using assms(8)[OF r(3,4,5,6)] r(2) by simp
qed

section \<open>Authorities\<close>

lemma base_authority_Inr:
  assumes "request_ids \<noteq> [] \<Longrightarrow> session_id \<noteq> None" and "distinct request_ids"
    and "transcript_fp \<noteq> None \<Longrightarrow> capability_fp \<noteq> None \<and> session_id \<noteq> None"
  shows "base_authority afp iid control capability_fp session_id request_ids transcript_fp =
    Inr \<lparr>au_applicability_fingerprint = afp, au_scenario_instance_id = iid,
         au_normal_control_id = control, au_runtime_capability_fingerprint = capability_fp,
         au_runtime_session_id = session_id, au_runtime_request_ids = request_ids,
         au_transcript_fingerprint = transcript_fp\<rparr>"
  using assms
  by (cases session_id; cases transcript_fp; cases capability_fp)
    (auto simp: base_authority_def validate_runtime_authority_def Let_def)

lemma runtime_authority_total: "\<exists>a. runtime_authority rx opened = Inr a"
  by (simp add: runtime_authority_def base_authority_Inr)

lemma sealed_authority_fields:
  assumes "sealed_authority rx opened results t = Inr a"
  shows "au_runtime_request_ids a = map rq_request_id results"
    and "au_normal_control_id a = Some (rx_control rx)"
    and "au_runtime_capability_fingerprint a \<noteq> None" "au_runtime_session_id a \<noteq> None"
    and "au_transcript_fingerprint a = Some (tr_transcript_fingerprint t)"
    and "au_applicability_fingerprint a = ap_applicability_fingerprint (wd_preflight (rx_world rx))"
  using assms
  by (auto simp: sealed_authority_def base_authority_def Let_def split: option.splits)

lemma sealed_authority_total:
  assumes "distinct (map rq_request_id results)"
  shows "\<exists>a. sealed_authority rx opened results t = Inr a"
  using assms by (simp add: sealed_authority_def base_authority_Inr)

lemma assertion_keys_not_blank:
  "\<not> blank SG01_ASSERTION_KEY" "\<not> blank SG02_ASSERTION_KEY"
  "\<not> blank SG07_CUSTOMER_VALUE_ASSERTION_KEY"
  by code_simp+

lemma assertion_for_total:
  assumes "\<not> blank key"
  shows "\<exists>a. assertion_for inst instance_id key = Inr a"
  using assms by (auto simp: assertion_for_def assertion_id_def split: option.splits list.splits)

section \<open>Exactness of a request sequence\<close>

lemma filter_eq_distinct: "distinct xs \<Longrightarrow> filter (\<lambda>y. y = x) xs = (if x \<in> set xs then [x] else [])"
  by (induction xs) auto

text \<open>In an exact sequence every request was received exactly once.\<close>

lemma exact_received_once:
  assumes "sequence_authority_is_exact t results" and "q \<in> set results"
  shows "length (sequences_of (tr_events t) (rq_request_id q) REQUEST_RECEIVED) = 1"
proof -
  let ?R = "filter (\<lambda>e. ev_kind e = REQUEST_RECEIVED) (tr_events t)"
  from assms(1) have r: "map ev_request_id ?R = map rq_request_id results"
    and d: "distinct (map rq_request_id results)"
    by (auto simp: sequence_authority_is_exact_def Let_def split: if_splits list.splits)
  have "rq_request_id q \<in> set (map rq_request_id results)" using assms(2) by simp
  then have "filter (\<lambda>y. y = rq_request_id q) (map ev_request_id ?R) = [rq_request_id q]"
    unfolding r by (simp only: filter_eq_distinct[OF d] if_True)
  then have "length (filter (\<lambda>e. ev_request_id e = rq_request_id q) ?R) = 1"
    by (simp only: filter_map length_map o_def) (metis length_map length_Cons list.size(3) One_nat_def)
  then show ?thesis by (simp add: sequences_of_def conj_commute)
qed

section \<open>The validators accept the reducers\<close>

lemma sg01_verdict_accepted:
  assumes "sx_request_observations r = [CustomerObservation obs]"
    and "au_normal_control_id (sx_authority r) \<noteq> None"
    and "(sx_result r, sx_evidence_tier r, sx_reason r) = evaluate_observations (ro_observations obs)"
  shows "validate_by_scenario SG_01 r = None"
proof -
  have pass: "sx_result r = VERIFIED_PASS \<Longrightarrow>
      normal_first_delivery (ro_observations obs) \<and> sx_reason r = EXACT_TARGET_ENTERED_ONCE"
    using assms(3) evaluate_observations_pass[of "ro_observations obs"]
      evaluate_observations_pass_eq[of "ro_observations obs"]
    by (metis fst_conv prod.inject)
  have failed: "sx_result r = VERIFIED_FAIL \<Longrightarrow>
      length (cs_request_received_sequences (ro_observations obs)) = 1 \<and>
      cs_entered_count (ro_observations obs) > 1 \<and>
      sx_reason r = EXACT_TARGET_ENTERED_MULTIPLE_TIMES"
    using assms(3) evaluate_observations_fail[of "ro_observations obs"]
      evaluate_observations_fail_eq[of "ro_observations obs"]
    by (metis fst_conv prod.inject)
  show ?thesis using assms(1,2) pass failed
    by (auto simp: validate_customer_only_def validate_sg01_def)
qed

lemma sg02_verdict_accepted:
  assumes "sx_request_observations r = [CustomerObservation a, CustomerObservation b]"
    and "au_normal_control_id (sx_authority r) \<noteq> None"
    and "length (cs_request_received_sequences (ro_observations a)) = 1"
    and "length (cs_request_received_sequences (ro_observations b)) = 1"
    and "(sx_result r, sx_evidence_tier r, sx_reason r) =
      sg02_evaluate_sequence (ro_observations a) (ro_observations b)"
  shows "validate_by_scenario SG_02 r = None"
proof -
  have "sx_result r = VERIFIED_PASS \<Longrightarrow>
      sx_reason r = DUPLICATE_DELIVERY_ADDED_NO_TARGET_ENTRY \<and>
      sg02_valid_pass [ro_observations a, ro_observations b]"
    using assms(5)
    by (auto simp: sg02_evaluate_sequence_def Let_def sg02_valid_pass_def normal_first_delivery_def
        evaluate_observations_def split: if_splits)
  moreover have "sx_result r = VERIFIED_FAIL \<Longrightarrow>
      sg02_attributed_failure (sx_reason r) [ro_observations a, ro_observations b]"
    using assms(5)
    by (auto simp: sg02_evaluate_sequence_def Let_def sg02_attributed_failure_def
        normal_first_delivery_def evaluate_observations_def split: if_splits)
  ultimately show ?thesis using assms(1-4)
    by (auto simp: validate_customer_only_def validate_sg02_def)
qed

lemma sg07_verdict_accepted:
  assumes "sx_request_observations r = [CustomerObservation obs]"
    and "au_normal_control_id (sx_authority r) \<noteq> None"
    and "input_is is_scenario_input (sx_input_reference r)"
    and "(sx_result r, sx_evidence_tier r, sx_reason r) = evaluate_webhook_only (ro_observations obs)"
  shows "validate_by_scenario SG_07 r = None"
proof -
  let ?s = "ro_observations obs"
  obtain x y z where e: "evaluate_observations ?s = (x, y, z)" by (cases "evaluate_observations ?s")
  have "x = VERIFIED_PASS \<Longrightarrow> normal_first_delivery ?s" and "x = VERIFIED_FAIL \<Longrightarrow> cs_entered_count ?s > 1"
    using evaluate_observations_pass[of ?s] evaluate_observations_fail[of ?s] e by auto
  then show ?thesis using assms
    by (auto simp: evaluate_webhook_only_def e validate_sg07_def verified_def split: if_splits)
qed

section \<open>Handlers that stop without a verdict\<close>

lemma stop_total:
  "(input_is is_grounded_input input \<Longrightarrow> rx_scenario rx = SG_01) \<Longrightarrow>
   accepted (stop rx auth why input ds)"
  unfolding stop_def finish_def by (rule make_result_undecided) auto

lemma stop_undecided: "stop rx auth why input ds = Inr r \<Longrightarrow> sx_result r = UNVERIFIED"
  unfolding stop_def finish_def by (drule make_result_fields(1)) simp

lemma stop_total_none: "accepted (stop rx auth why None ds)"
  by (rule stop_total) (simp add: input_is_def)

lemma request_observation_of_simps [simp]:
  "ro_request_id (request_observation_of t c q) = rq_request_id q"
  "ro_acknowledgement_failure (request_observation_of t c q) = None"
  "ro_observations (request_observation_of t c q) =
     observed_summary (tr_events t) (rq_request_id q) c (rq_status_code q)"
  by (simp_all add: request_observation_of_def)

section \<open>SG-02 never raises\<close>

lemma sg02_judge_eq:
  "sg02_judge rx opened auth t results reference ds =
     (if validate_observation_transcript (op_artifact opened) t \<noteq> None \<or> tr_diagnostics t \<noteq> []
      then stop rx auth TRANSCRIPT_UNTRUSTWORTHY (Some reference) ds
      else if length results \<noteq> 2 then stop rx auth REQUEST_EXECUTION_FAILED (Some reference) ds
      else if \<not> sequence_authority_is_exact t results \<or>
              list_ex (\<lambda>e. ev_request_id e \<in> set (map rq_request_id results) \<and>
                           foreign_control_event (rx_control rx) e) (tr_events t)
      then stop rx auth AUTHORITY_MISMATCH (Some reference) ds
      else bind_result (observe_request t (rx_control rx) (results ! 0)) (\<lambda>a.
           bind_result (observe_request t (rx_control rx) (results ! 1)) (\<lambda>b.
             finish rx auth (sg02_evaluate_sequence (ro_observations a) (ro_observations b))
               (Some reference) [CustomerObservation a, CustomerObservation b] ds)))"
proof -
  consider "results = []" | a where "results = [a]" | a b where "results = [a, b]"
    | a b c rest where "results = a # b # c # rest"
    by (metis list.exhaust)
  then show ?thesis by cases (simp_all add: sg02_judge_def)
qed

lemma sg02_judge_total:
  assumes "rx_scenario rx = SG_02" and "sealed_authority rx opened results t = Inr auth"
    and "\<not> is_grounded_input reference" and "\<forall>q \<in> set results. legal_status (rq_status_code q)"
  shows "accepted (sg02_judge rx opened auth t results reference ds)"
proof -
  have stops: "accepted (stop rx auth why (Some reference) ds)" for why
    using assms(3) by (intro stop_total) (simp add: input_is_def)
  have verdict: "accepted (finish rx auth
      (sg02_evaluate_sequence (ro_observations (request_observation_of t (rx_control rx) a))
                              (ro_observations (request_observation_of t (rx_control rx) b)))
      (Some reference) [CustomerObservation (request_observation_of t (rx_control rx) a),
                        CustomerObservation (request_observation_of t (rx_control rx) b)] ds)"
    if "results = [a, b]" and exact: "sequence_authority_is_exact t results" for a b
  proof -
    note f = sealed_authority_fields[OF assms(2)]
    have once: "length (sequences_of (tr_events t) (rq_request_id a) REQUEST_RECEIVED) = 1"
      "length (sequences_of (tr_events t) (rq_request_id b) REQUEST_RECEIVED) = 1"
      using exact_received_once[OF exact] that(1) by auto
    show ?thesis unfolding finish_def assms(1)
    proof (rule make_result_verdict)
      show "well_tiered (sg02_evaluate_sequence
          (ro_observations (request_observation_of t (rx_control rx) a))
          (ro_observations (request_observation_of t (rx_control rx) b)))"
        using sg02.reduce_well_tiered[of "(_, _)"] by simp
    next
      fix r :: scenario_result
      assume "sx_authority r = auth" and
        "sx_request_observations r = [CustomerObservation (request_observation_of t (rx_control rx) a),
           CustomerObservation (request_observation_of t (rx_control rx) b)]" and
        "(sx_result r, sx_evidence_tier r, sx_reason r) = sg02_evaluate_sequence
           (ro_observations (request_observation_of t (rx_control rx) a))
           (ro_observations (request_observation_of t (rx_control rx) b))"
      then show "validate_by_scenario SG_02 r = None"
        using f(2) once
        by (intro sg02_verdict_accepted[of r "request_observation_of t (rx_control rx) a"
              "request_observation_of t (rx_control rx) b"]) simp_all
    qed (use f assms(3) that(1) in \<open>simp_all add: map_filter_simps\<close>)
  qed
  show ?thesis
  proof (cases "length results = 2 \<and> sequence_authority_is_exact t results")
    case True
    then obtain a b where ab: "results = [a, b]"
      by (metis length_0_conv length_Suc_conv numeral_2_eq_2)
    have exact: "sequence_authority_is_exact t results" using True by blast
    show ?thesis unfolding sg02_judge_eq using stops verdict[OF ab exact] ab assms(4)
      by (simp add: observe_request_legal del: request_observation_of_simps)
  next
    case False
    then show ?thesis unfolding sg02_judge_eq using stops by (auto simp del: request_observation_of_simps)
  qed
qed

text \<open>The identities of the replies: the session numbers the requests it sends.\<close>

definition distinct_replies :: "world \<Rightarrow> bool" where
  "distinct_replies w \<longleftrightarrow>
     (\<forall>i j b b' m m' q q'. i \<noteq> j \<longrightarrow> wd_request w i b m = Inr q \<longrightarrow> wd_request w j b' m' = Inr q' \<longrightarrow>
        rq_request_id q \<noteq> rq_request_id q')"

lemma dispatch_loop_reply:
  assumes "dispatch_loop w ingress i requests = (results, failure, n)" and "q \<in> set results"
  shows "\<exists>j \<ge> i. \<exists>b m. wd_request w j b m = Inr q"
  using assms
proof (induction w ingress i requests arbitrary: results failure n rule: dispatch_loop.induct)
  case (1 w ingress i)
  then show ?case by simp
next
  case (2 w ingress i r rs)
  show ?case
  proof (cases ingress)
    case None
    with 2 show ?thesis by simp
  next
    case (Some b)
    show ?thesis
    proof (cases "wd_request w i b r")
      case (Inl e)
      with 2 Some show ?thesis by simp
    next
      case (Inr res)
      obtain rest fl m where l: "dispatch_loop w ingress (Suc i) rs = (rest, fl, m)"
        by (cases "dispatch_loop w ingress (Suc i) rs")
      with 2(2) Some Inr have "results = res # rest" by simp
      with 2(3) 2(1)[OF Some Inr l] Inr show ?thesis
        by (metis Suc_leD order_refl set_ConsD)
    qed
  qed
qed

lemma dispatch_loop_distinct:
  assumes "distinct_replies w" and "dispatch_loop w ingress i requests = (results, failure, n)"
  shows "distinct (map rq_request_id results)"
  using assms(2)
proof (induction requests arbitrary: i results failure n)
  case Nil
  then show ?case by simp
next
  case (Cons r rs)
  show ?case
  proof (cases results)
    case Nil
    then show ?thesis by simp
  next
    fix res rest assume results: "results = res # rest"
    with Cons.prems obtain b where b: "wd_request w i b r = Inr res"
      by (cases ingress) (auto split: sum.splits prod.splits)
    with Cons.prems results obtain fl m where l: "dispatch_loop w ingress (Suc i) rs = (rest, fl, m)"
      by (cases ingress) (auto split: sum.splits prod.splits)
    have "rq_request_id q \<noteq> rq_request_id res" if "q \<in> set rest" for q
    proof -
      obtain j b' m' where "Suc i \<le> j" "wd_request w j b' m' = Inr q"
        using dispatch_loop_reply[OF l \<open>q \<in> set rest\<close>] by blast
      moreover from this have "j \<noteq> i" by simp
      ultimately show ?thesis using assms(1) b unfolding distinct_replies_def by blast
    qed
    then have "rq_request_id res \<notin> rq_request_id ` set rest" by (metis imageE)
    then show ?thesis using Cons.IH[OF l] results by simp
  qed
qed

text \<open>
  What the records around a session hold within their \<open>Field\<close> bounds: the status of every
  reply is 100 to 599, and the path of every ingress a handler can address has 1 to 4096
  characters.
\<close>

definition legal_replies :: "world \<Rightarrow> bool" where
  "legal_replies w \<longleftrightarrow>
     (\<forall>i b m q. wd_request w i b m = Inr q \<longrightarrow> legal_status (rq_status_code q))"

definition addressable :: "opened_runtime \<Rightarrow> ingress_binding set" where
  "addressable opened = set (op_plan_ingresses opened) \<union>
     (\<lambda>c. ct_ingress (cc_target c)) ` set (ra_customer_values (op_artifact opened))"

definition bounded_paths :: "world \<Rightarrow> bool" where
  "bounded_paths w \<longleftrightarrow> (\<forall>opened. wd_opened w = Some opened \<longrightarrow>
     (\<forall>b \<in> addressable opened. path_bound_error (ib_effective_path b) = None))"

lemma target_addressable:
  assumes "customers_for (op_artifact opened) control = [target]"
  shows "ct_ingress (cc_target target) \<in> addressable opened"
proof -
  have "target \<in> set (customers_for (op_artifact opened) control)" using assms by simp
  then show ?thesis by (auto simp: customers_for_def addressable_def)
qed

lemma dispatched_legal:
  assumes "legal_replies w" and "dispatch_managed_sequence w ingress requests = (results, sealed, failure)"
  shows "\<forall>q \<in> set results. legal_status (rq_status_code q)"
proof
  fix q assume "q \<in> set results"
  moreover obtain n where "dispatch_loop w ingress 0 requests = (results, failure, n)"
    using assms(2) by (auto simp: dispatch_managed_sequence_def split: prod.splits)
  ultimately obtain j b m where "wd_request w j b m = Inr q" using dispatch_loop_reply by metis
  then show "legal_status (rq_status_code q)" using assms(1) unfolding legal_replies_def by blast
qed

lemma sg02_sealed_total:
  assumes "rx_scenario rx = SG_02" and "distinct (map rq_request_id results)"
    and "\<forall>q \<in> set results. legal_status (rq_status_code q)"
    and "\<And>p. prepared = Some p \<Longrightarrow>
      \<exists>ref. prepared_input_reference p = Inr ref \<and> \<not> is_grounded_input ref"
  shows "accepted (sg02_sealed rx opened prepared runtime_auth results sealed failure)"
proof (cases sealed)
  case None
  then show ?thesis by (simp add: sg02_sealed_def stop_total_none)
next
  case (Some t)
  obtain auth where a: "sealed_authority rx opened results t = Inr auth"
    using sealed_authority_total[OF assms(2)] by blast
  show ?thesis
  proof (cases prepared)
    case None
    then show ?thesis by (simp add: sg02_sealed_def Some a stop_total_none Let_def)
  next
    fix p assume p: "prepared = Some p"
    then obtain ref where "prepared_input_reference p = Inr ref" "\<not> is_grounded_input ref"
      using assms(4) by blast
    moreover from this have "accepted (sg02_judge rx opened auth t results ref ds)" for ds
      by (intro sg02_judge_total[OF assms(1) a _ assms(3)])
    ultimately show ?thesis
      by (simp add: sg02_sealed_def Some a p stop_total_none Let_def)
  qed
qed

lemma sufficient_customer:
  assumes "capability_is_sufficient opened control"
  obtains target where "customers_for (op_artifact opened) control = [target]"
  using assms by (auto simp: capability_is_sufficient_def Let_def split: list.splits)

lemma offline_webhook:
  assumes "encode_ascii eid = Inr b" and "path_bound_error path = None"
  obtains p ref where "prepare_captured_webhook eid path secret None None None = Inr p"
    and "prepared_input_reference p = Inr ref" and "\<not> is_grounded_input ref" and "is_scenario_input ref"
  using prepare_captured_Inr[OF assms(1), of None None None] captured_reference_Inr[OF _ assms]
  by metis

lemma sg02_run_total:
  assumes "rx_scenario rx = SG_02" and "distinct_replies (rx_world rx)"
    and "encode_ascii (wd_execution_id (rx_world rx)) = Inr b" and "legal_replies (rx_world rx)"
    and "bounded_paths (rx_world rx)" and "wd_opened (rx_world rx) = Some opened"
  shows "accepted (sg02_run rx opened secret runtime_auth)"
proof -
  have dist: "distinct (map rq_request_id results)" "\<forall>q \<in> set results. legal_status (rq_status_code q)"
    if "dispatch_managed_sequence (rx_world rx) ingress requests = (results, sealed, failure)"
    for ingress requests results sealed failure
    using that dispatch_loop_distinct[OF assms(2)] dispatched_legal[OF assms(4)]
    by (auto simp: dispatch_managed_sequence_def split: prod.splits)
  show ?thesis
  proof (cases "capability_is_sufficient opened (rx_control rx)")
    case False
    then show ?thesis using dist
      by (auto simp: sg02_run_def Let_def split: prod.splits intro!: sg02_sealed_total[OF assms(1)])
  next
    case True
    then obtain target where c: "customers_for (op_artifact opened) (rx_control rx) = [target]"
      by (rule sufficient_customer)
    have path: "path_bound_error (ib_effective_path (ct_ingress (cc_target target))) = None"
      using assms(5,6) target_addressable[OF c] by (simp add: bounded_paths_def)
    obtain p ref where p: "prepare_captured_webhook (wd_execution_id (rx_world rx))
        (ib_effective_path (ct_ingress (cc_target target))) secret None None None = Inr p"
      and ref: "prepared_input_reference p = Inr ref" "\<not> is_grounded_input ref"
      using offline_webhook[OF assms(3) path] by metis
    show ?thesis using dist ref
      by (auto simp: sg02_run_def Let_def True c p split: prod.splits
          intro!: sg02_sealed_total[OF assms(1)])
  qed
qed

lemma early_undecided:
  "early_applicability_result s = Some (state, why) \<Longrightarrow> state \<notin> {VERIFIED_PASS, VERIFIED_FAIL}"
  by (cases s) auto

lemma ended_total:
  "state \<notin> {VERIFIED_PASS, VERIFIED_FAIL} \<Longrightarrow>
   accepted (make_result eid sid fp a auth (state, None, why) None [] [])"
  by (rule make_result_undecided) (simp_all add: input_is_def)

lemma preflight_authority_total:
  "\<exists>a. base_authority afp iid control None None [] None = Inr a"
  using base_authority_Inr[of "[]" None None None] by simp

lemma preflight_total:
  assumes "\<not> blank key"
    and k: "\<And>rx auth config_fp secret. rx_world rx = w \<Longrightarrow> rx_scenario rx = sid \<Longrightarrow>
      accepted (continue rx auth config_fp secret)"
  shows "accepted (preflight w sid definition_fp key instance_id expected_fp continue)"
proof -
  let ?inst = "scenario_instance_of (wd_preflight w) sid instance_id"
  obtain assertion where a: "assertion_for ?inst instance_id key = Inr assertion"
    using assertion_for_total[OF assms(1)] by blast
  obtain auth where au: "base_authority (ap_applicability_fingerprint (wd_preflight w)) instance_id
      (case ?inst of None \<Rightarrow> None | Some i \<Rightarrow> si_normal_control_id i) None None [] None = Inr auth"
    using preflight_authority_total by blast
  have ends: "accepted (make_result (wd_execution_id w) sid definition_fp assertion auth (unverified why) None [] [])" for why by (rule ended_total) simp
  have early: "accepted (make_result (wd_execution_id w) sid definition_fp assertion auth
      (fst e, None, snd e) None [] [])"
    if "early_applicability_result st = Some e" for st e
    using that early_undecided[of st "fst e" "snd e"] by (intro ended_total) simp
  show ?thesis
    unfolding preflight_def Let_def a au bind_result_simps
    using ends early k by (simp split: option.split runtime_setting.split)
qed

lemma discard_total: "wd_close w [] \<noteq> None \<Longrightarrow> discard w opened result = result"
  by (auto simp: discard_def)

lemma discard_Inr: "discard w opened result = Inr r \<Longrightarrow> result = Inr r"
  by (simp add: discard_def split: if_splits)

lemma checked_session_total:
  assumes "wd_close (rx_world rx) [] \<noteq> None"
    and "\<And>opened auth. wd_opened (rx_world rx) = Some opened \<Longrightarrow> accepted (run opened auth)"
  shows "accepted (checked_session rx config_fp auth run)"
proof (cases "wd_opened (rx_world rx)")
  case None
  then show ?thesis by (simp add: checked_session_def stop_total_none)
next
  case (Some opened)
  obtain ra where "runtime_authority rx opened = Inr ra" using runtime_authority_total by blast
  then show ?thesis using assms by (simp add: checked_session_def Some stop_total_none discard_total)
qed

lemma execute_sg02_total:
  assumes "distinct_replies w" and "wd_close w [] \<noteq> None" and "encode_ascii (wd_execution_id w) = Inr b"
    and "legal_replies w" and "bounded_paths w"
  shows "accepted (execute_sg02 w instance_id expected_fp)"
  unfolding execute_sg02_def
  by (intro preflight_total checked_session_total sg02_run_total assertion_keys_not_blank)
    (simp_all add: assms)

section \<open>A decided SG-02 result\<close>

text \<open>
  The evidence behind a decided result of two requests: the session that was opened, the
  transcript it sealed, and that both passed every authority check.
\<close>

definition evidenced ::
  "world \<Rightarrow> string \<Rightarrow> scenario_result \<Rightarrow> opened_runtime \<Rightarrow> transcript \<Rightarrow> request_result list \<Rightarrow> bool" where
  "evidenced w control r opened t results \<longleftrightarrow>
     wd_opened w = Some opened \<and> (\<exists>sent. wd_close w sent = Some t) \<and>
     ap_applicability_fingerprint (op_applicability opened) =
       ap_applicability_fingerprint (wd_preflight w) \<and>
     capability_is_sufficient opened control \<and>
     validate_observation_transcript (op_artifact opened) t = None \<and>
     au_normal_control_id (sx_authority r) = Some control \<and>
     au_runtime_request_ids (sx_authority r) = map rq_request_id results \<and>
     au_transcript_fingerprint (sx_authority r) = Some (tr_transcript_fingerprint t) \<and>
     au_applicability_fingerprint (sx_authority r) = ap_applicability_fingerprint (wd_preflight w)"

lemma stop_not_verified: "stop rx auth why input ds = Inr r \<Longrightarrow> \<not> verified r"
  using stop_undecided by (fastforce simp: verified_def)

lemma sg02_judge_decided:
  assumes "sg02_judge rx opened auth t results reference ds = Inr r" and "verified r"
  shows "validate_observation_transcript (op_artifact opened) t = None \<and> length results = 2 \<and>
    sequence_authority_is_exact t results \<and> sx_authority r = auth \<and>
    (sx_result r, sx_evidence_tier r, sx_reason r) =
      sg02_evaluate_sequence
        (observed_summary (tr_events t) (rq_request_id (results ! 0)) (rx_control rx)
           (rq_status_code (results ! 0)))
        (observed_summary (tr_events t) (rq_request_id (results ! 1)) (rx_control rx)
           (rq_status_code (results ! 1)))"
  using assms stop_not_verified
  unfolding sg02_judge_eq finish_def
  by (auto simp: bind_result_eq_Inr observe_request_Inr split: if_splits dest: make_result_fields(1,2))

lemma sg02_sealed_decided:
  assumes "sg02_sealed rx opened prepared runtime_auth results sealed failure = Inr r" and "verified r"
  obtains t auth reference ds where "sealed = Some t" and "capability_is_sufficient opened (rx_control rx)"
    and "sealed_authority rx opened results t = Inr auth"
    and "sg02_judge rx opened auth t results reference ds = Inr r"
  using assms stop_not_verified
  by (auto simp: sg02_sealed_def Let_def bind_result_eq_Inr split: option.splits if_splits)

lemma sg02_run_decided:
  assumes "sg02_run rx opened secret runtime_auth = Inr r" and "verified r"
  obtains sent t auth results reference ds where "wd_close (rx_world rx) sent = Some t"
    and "capability_is_sufficient opened (rx_control rx)"
    and "sealed_authority rx opened results t = Inr auth"
    and "sg02_judge rx opened auth t results reference ds = Inr r"
proof -
  from assms(1) obtain x where
    "(case x of (ingress, prepared) \<Rightarrow>
        let requests = (case prepared of None \<Rightarrow> []
              | Some p \<Rightarrow> [plain_request (pw_headers p) (pw_raw_body p),
                           plain_request (pw_headers p) (pw_raw_body p)])
        in case dispatch_managed_sequence (rx_world rx) ingress requests of
             (results, sealed, failure) \<Rightarrow>
               sg02_sealed rx opened prepared runtime_auth results sealed failure) = Inr r"
    unfolding sg02_run_def bind_result_eq_Inr by blast
  then obtain ingress prepared requests where
    "(case dispatch_managed_sequence (rx_world rx) ingress requests of
        (results, sealed, failure) \<Rightarrow>
          sg02_sealed rx opened prepared runtime_auth results sealed failure) = Inr r"
    by (cases x) (simp add: Let_def)
  then obtain results sealed failure where
    d: "dispatch_managed_sequence (rx_world rx) ingress requests = (results, sealed, failure)"
    and s: "sg02_sealed rx opened prepared runtime_auth results sealed failure = Inr r"
    by (cases "dispatch_managed_sequence (rx_world rx) ingress requests") simp
  from sg02_sealed_decided[OF s assms(2)] obtain t auth reference ds where
    "sealed = Some t" "capability_is_sufficient opened (rx_control rx)"
    "sealed_authority rx opened results t = Inr auth"
    "sg02_judge rx opened auth t results reference ds = Inr r" by blast
  with d show ?thesis using that
    by (auto simp: dispatch_managed_sequence_def split: prod.splits)
qed

lemma ended_not_verified:
  "make_result eid sid fp a auth (state, None, why) input obs ds = Inr r \<Longrightarrow>
   state \<notin> {VERIFIED_PASS, VERIFIED_FAIL} \<Longrightarrow> \<not> verified r"
  by (drule make_result_fields(1)) (auto simp: verified_def)

lemma preflight_decided:
  assumes p: "preflight w sid definition_fp key instance_id expected_fp continue = Inr r" and "verified r"
  shows "\<exists>rx auth config_fp secret. rx_world rx = w \<and> rx_scenario rx = sid \<and>
     ap_applicability_fingerprint (wd_preflight w) = expected_fp \<and>
     continue rx auth config_fp secret = Inr r"
proof -
  have no: "make_result (wd_execution_id w) sid definition_fp a au (unverified why) None [] [] \<noteq> Inr r"
    for a au why
    using assms(2) ended_not_verified[where state = UNVERIFIED] by fastforce
  have no_early: "make_result (wd_execution_id w) sid definition_fp a au (fst e, None, snd e) None [] []
      \<noteq> Inr r" if "early_applicability_result st = Some e" for a au e st
    using assms(2) ended_not_verified[where state = "fst e"] early_undecided[of st "fst e" "snd e"] that
    by fastforce
  let ?inst = "scenario_instance_of (wd_preflight w) sid instance_id"
  obtain assertion where a: "assertion_for ?inst instance_id key = Inr assertion"
    using p by (cases "assertion_for ?inst instance_id key") (simp_all add: preflight_def Let_def)
  obtain auth where au: "base_authority (ap_applicability_fingerprint (wd_preflight w)) instance_id
      (case ?inst of None \<Rightarrow> None | Some i \<Rightarrow> si_normal_control_id i) None None [] None = Inr auth"
    using preflight_authority_total by blast
  note q = p[unfolded preflight_def Let_def a au bind_result_simps]
  have fp: "ap_applicability_fingerprint (wd_preflight w) = expected_fp"
    by (rule ccontr) (use q no in simp)
  note q1 = q[unfolded fp simp_thms if_False]
  obtain i where i: "?inst = Some i"
  proof (cases ?inst)
    case None
    have False using q1 no unfolding None option.case by blast
    then show ?thesis ..
  qed
  note q2 = q1[unfolded i option.case]
  have early: "early_applicability_result (si_state i) = None"
  proof (cases "early_applicability_result (si_state i)")
    case (Some e)
    have False using q2 no_early[OF Some] unfolding Some option.case by blast
    then show ?thesis ..
  qed
  note q3 = q2[unfolded early option.case]
  obtain c where c: "si_normal_control_id i = Some c"
  proof (cases "si_normal_control_id i")
    case None
    have False using q3 no unfolding None option.case by blast
    then show ?thesis ..
  qed
  note q4 = q3[unfolded c option.case]
  obtain config_fp env where m: "wd_runtime w = ManagedRuntime config_fp env"
  proof (cases "wd_runtime w")
    case UnmanagedRuntime
    have False using q4 no unfolding UnmanagedRuntime runtime_setting.case by blast
    then show ?thesis ..
  qed
  note q5 = q4[unfolded m runtime_setting.case]
  have "webhook_secret w env \<noteq> ''''"
  proof
    assume e: "webhook_secret w env = ''''"
    show False using q5 no unfolding e by simp
  qed
  then have "continue \<lparr>rx_world = w, rx_scenario = sid, rx_definition = definition_fp,
      rx_instance_id = instance_id, rx_instance = i, rx_assertion = assertion, rx_control = c\<rparr>
      auth config_fp (webhook_secret w env) = Inr r"
    using q5 by (simp only: if_False)
  then show ?thesis using fp by (intro exI conjI) simp_all
qed

lemma checked_session_decided:
  assumes "checked_session rx config_fp auth run = Inr r" and "verified r"
  shows "\<exists>opened runtime_auth. wd_opened (rx_world rx) = Some opened \<and>
     ap_applicability_fingerprint (op_applicability opened) =
       ap_applicability_fingerprint (wd_preflight (rx_world rx)) \<and>
     run opened runtime_auth = Inr r"
  using assms stop_not_verified
  by (auto simp: checked_session_def bind_result_eq_Inr dest!: discard_Inr split: option.splits if_splits)

lemma sg02_result_decided:
  assumes "sg02_judge rx opened auth t results reference ds = Inr r" and "verified r"
    and "sealed_authority rx opened results t = Inr auth"
  obtains a b where "results = [a, b]" and "sequence_authority_is_exact t [a, b]"
    and "validate_observation_transcript (op_artifact opened) t = None" and "sx_authority r = auth"
    and "sx_result r = VERIFIED_PASS \<longleftrightarrow>
      value_entries (tr_events t) (rq_request_id a) (rx_control rx) +
      value_entries (tr_events t) (rq_request_id b) (rx_control rx) = 1"
proof -
  note d = sg02_judge_decided[OF assms(1,2)]
  then obtain a b where ab: "results = [a, b]"
    by (metis length_0_conv length_Suc_conv numeral_2_eq_2)
  let ?sa = "observed_summary (tr_events t) (rq_request_id a) (rx_control rx) (rq_status_code a)"
  let ?sb = "observed_summary (tr_events t) (rq_request_id b) (rx_control rx) (rq_status_code b)"
  have v: "(sx_result r, sx_evidence_tier r, sx_reason r) = sg02_evaluate_sequence ?sa ?sb"
    using d ab by simp
  have e: "fst (sg02_evaluate_sequence ?sa ?sb) = sx_result r"
    unfolding v[symmetric] by simp
  with assms(2) have "decided (sg02_evaluate_sequence ?sa ?sb)" by (auto simp: verified_def)
  then have "sx_result r = VERIFIED_PASS \<longleftrightarrow> \<not> pair_not_exactly_once (?sa, ?sb)"
    using sg02_oracle.decided_pass_iff[of "(?sa, ?sb)"] e by simp
  then show ?thesis using that ab d by (simp add: pair_not_exactly_once_def)
qed

section \<open>The handlers of SG-01 and SG-07\<close>

lemma exact_single_received:
  "sequence_authority_is_exact t [q] \<Longrightarrow>
   length (sequences_of (tr_events t) (rq_request_id q) REQUEST_RECEIVED) = 1"
  using exact_received_once[of t "[q]" q] by simp

lemma single_verdict_total:
  assumes "sealed_authority rx opened [q] t = Inr auth"
    and "rx_scenario rx \<noteq> SG_03"
    and "is_grounded_input reference \<Longrightarrow> rx_scenario rx = SG_01"
    and "well_tiered v"
    and "\<And>r. sx_authority r = auth \<Longrightarrow> sx_input_reference r = Some reference \<Longrightarrow>
      sx_request_observations r = [CustomerObservation (request_observation_of t (rx_control rx) q)] \<Longrightarrow>
      (sx_result r, sx_evidence_tier r, sx_reason r) = v \<Longrightarrow>
      validate_by_scenario (rx_scenario rx) r = None"
  shows "accepted (finish rx auth v (Some reference)
    [CustomerObservation (request_observation_of t (rx_control rx) q)] ds)"
  unfolding finish_def
  by (rule make_result_verdict)
    (use sealed_authority_fields[OF assms(1)] assms in \<open>simp_all add: map_filter_simps\<close>)

lemma sg01_judge_total:
  assumes "rx_scenario rx = SG_01" and "sealed_authority rx opened [q] t = Inr auth"
    and "prepared_input_reference p = Inr reference" and "legal_status (rq_status_code q)"
  shows "accepted (sg01_judge rx opened auth t q p ds)"
proof -
  have "accepted (stop rx auth why (Some reference) ds)" for why
    using assms(1) by (intro stop_total)
  moreover have "accepted (finish rx auth
      (evaluate_observations (ro_observations (request_observation_of t (rx_control rx) q))) (Some reference)
      [CustomerObservation (request_observation_of t (rx_control rx) q)] ds)"
    using assms(1) sealed_authority_fields(2)[OF assms(2)]
    by (intro single_verdict_total[OF assms(2)])
      (auto simp: evaluate_observations_tiered simp del: validate_by_scenario.simps
        intro!: sg01_verdict_accepted[of _ "request_observation_of t (rx_control rx) q"])
  ultimately show ?thesis
    by (simp add: sg01_judge_def assms(3) observe_request_legal[OF assms(4)] del: request_observation_of_simps)
qed

lemma sg07_judge_total:
  assumes "rx_scenario rx = SG_07" and "sealed_authority rx opened [q] t = Inr auth"
    and "prepared_input_reference p = Inr reference" and "\<not> is_grounded_input reference"
    and "is_scenario_input reference" and "legal_status (rq_status_code q)"
  shows "accepted (sg07_judge rx opened auth t [q] p ds)"
proof -
  have "accepted (stop rx auth why (Some reference) ds)" for why
    using assms(4) by (intro stop_total) (simp add: input_is_def)
  moreover have "accepted (finish rx auth
      (evaluate_webhook_only (ro_observations (request_observation_of t (rx_control rx) q))) (Some reference)
      [CustomerObservation (request_observation_of t (rx_control rx) q)] ds)"
    using assms(1,4,5) sealed_authority_fields(2)[OF assms(2)]
    by (intro single_verdict_total[OF assms(2)])
      (auto simp: evaluate_webhook_only_tiered input_is_def simp del: validate_by_scenario.simps
        intro!: sg07_verdict_accepted[of _ "request_observation_of t (rx_control rx) q"])
  ultimately show ?thesis
    by (simp add: sg07_judge_def assms(3) observe_request_legal[OF assms(6)] del: request_observation_of_simps)
qed

text \<open>Grounding is complete when a profile comes with its sanitized projection.\<close>

definition complete_grounding :: "grounding_result option \<Rightarrow> bool" where
  "complete_grounding grounding \<longleftrightarrow>
     (case grounding of None \<Rightarrow> True
      | Some g \<Rightarrow> gr_profile g \<noteq> None \<longrightarrow> gr_sanitized_projection_fingerprint g \<noteq> None)"

lemma prepare_grounded_total:
  assumes "encode_ascii eid = Inr b" and "complete_grounding grounding" and "path_bound_error path = None"
  shows "\<exists>p ref. prepare_grounded eid path secret grounding = Inr p \<and> prepared_input_reference p = Inr ref"
proof -
  have "\<exists>p. prepare_grounded eid path secret grounding = Inr p"
    using assms(2) unfolding prepare_grounded_def Let_def
    by (intro prepare_captured_Inr[OF assms(1)]) (auto simp: complete_grounding_def split: option.splits)
  then show ?thesis
    using captured_reference_Inr[OF _ assms(1,3)] unfolding prepare_grounded_def Let_def by blast
qed

lemma sg01_run_total:
  assumes "rx_scenario rx = SG_01" and "complete_grounding grounding"
    and "encode_ascii (wd_execution_id (rx_world rx)) = Inr b" and "legal_replies (rx_world rx)"
    and "bounded_paths (rx_world rx)" and "wd_opened (rx_world rx) = Some opened"
  shows "accepted (sg01_run rx opened secret grounding runtime_auth)"
proof -
  have stops: "accepted (stop rx a why None ds)" for a why ds by (rule stop_total_none)
  show ?thesis
  proof (cases "capability_is_sufficient opened (rx_control rx)")
    case False
    show ?thesis
    proof (cases "wd_close (rx_world rx) []")
      case None
      then show ?thesis using False stops by (simp add: sg01_run_def Let_def)
    next
      case (Some t)
      obtain auth where "sealed_authority rx opened [] t = Inr auth"
        using sealed_authority_total[of "[]" rx opened t] by auto
      then show ?thesis using False stops Some by (simp add: sg01_run_def Let_def)
    qed
  next
    case True
    then obtain target where c: "customers_for (op_artifact opened) (rx_control rx) = [target]"
      by (rule sufficient_customer)
    have path: "path_bound_error (ib_effective_path (ct_ingress (cc_target target))) = None"
      using assms(5,6) target_addressable[OF c] by (simp add: bounded_paths_def)
    obtain p ref where p: "prepare_grounded (wd_execution_id (rx_world rx))
        (ib_effective_path (ct_ingress (cc_target target))) secret grounding = Inr p"
      and ref: "prepared_input_reference p = Inr ref"
      using prepare_grounded_total[OF assms(3,2) path] by blast
    let ?m = "plain_request (pw_headers p) (pw_raw_body p)"
    show ?thesis
    proof (cases "wd_close (rx_world rx) [?m]")
      case None
      then show ?thesis using stops by (simp add: sg01_run_def Let_def True c p)
    next
      case (Some t)
      show ?thesis
      proof (cases "wd_request (rx_world rx) 0 (ct_ingress (cc_target target)) ?m")
        case (Inl reason)
        obtain auth where "sealed_authority rx opened [] t = Inr auth"
          using sealed_authority_total[of "[]" rx opened t] by auto
        then show ?thesis using stops by (simp add: sg01_run_def Let_def True c p Some Inl)
      next
        case (Inr q)
        obtain auth where a: "sealed_authority rx opened [q] t = Inr auth"
          using sealed_authority_total[of "[q]" rx opened t] by auto
        have "legal_status (rq_status_code q)" using assms(4) Inr unfolding legal_replies_def by blast
        with a show ?thesis using sg01_judge_total[OF assms(1) a ref]
          by (simp add: sg01_run_def Let_def True c p Some Inr)
      qed
    qed
  qed
qed

lemma execute_sg01_total:
  assumes "complete_grounding grounding" and "wd_close w [] \<noteq> None" and "encode_ascii (wd_execution_id w) = Inr b"
    and "legal_replies w" and "bounded_paths w"
  shows "accepted (execute_sg01 w instance_id expected_fp grounding)"
  unfolding execute_sg01_def
  by (intro preflight_total checked_session_total sg01_run_total assertion_keys_not_blank)
    (simp_all add: assms)

section \<open>An execution in which nothing goes wrong\<close>

text \<open>
  \<open>observed_duplicate\<close> collects the environment of such an execution: a current, applicable
  instance, a managed runtime with its secret, a sufficient session on the same authority whose
  target is reached by a path within its bounds, a reply \<open>a\<close> and \<open>b\<close> for the two deliveries, and a sealed transcript \<open>t\<close> of exactly these two
  that passes validation and speaks of no other control.
\<close>

definition observed_duplicate ::
  "world \<Rightarrow> string \<Rightarrow> string \<Rightarrow> scenario_instance \<Rightarrow> string \<Rightarrow> opened_runtime \<Rightarrow>
   request_result \<Rightarrow> request_result \<Rightarrow> transcript \<Rightarrow> bool" where
  "observed_duplicate w instance_id expected_fp i control opened a b t \<longleftrightarrow>
     ap_applicability_fingerprint (wd_preflight w) = expected_fp \<and>
     scenario_instance_of (wd_preflight w) SG_02 instance_id = Some i \<and> si_state i = APPLICABLE \<and>
     si_normal_control_id i = Some control \<and>
     (case wd_runtime w of UnmanagedRuntime \<Rightarrow> False
      | ManagedRuntime config_fp env \<Rightarrow> webhook_secret w env \<noteq> '''' \<and>
          ra_runtime_config_fingerprint (op_artifact opened) = config_fp) \<and>
     wd_opened w = Some opened \<and> op_session opened = Some ManagedSession \<and>
     ap_applicability_fingerprint (op_applicability opened) = expected_fp \<and>
     scenario_instance_of (op_applicability opened) SG_02 instance_id = Some i \<and>
     capability_is_sufficient opened control \<and>
     (\<forall>target m. customers_for (op_artifact opened) control = [target] \<longrightarrow>
        path_bound_error (ib_effective_path (ct_ingress (cc_target target))) = None \<and>
        wd_request w 0 (ct_ingress (cc_target target)) m = Inr a \<and>
        wd_request w 1 (ct_ingress (cc_target target)) m = Inr b) \<and>
     (\<forall>sent. length sent = 2 \<longrightarrow> wd_close w sent = Some t) \<and>
     validate_observation_transcript (op_artifact opened) t = None \<and> tr_diagnostics t = [] \<and>
     sequence_authority_is_exact t [a, b] \<and>
     \<not> list_ex (foreign_control_event control) (tr_events t)"

lemma two_requests_dispatched:
  assumes "\<And>m. wd_request w 0 ingress m = Inr a" and "\<And>m. wd_request w 1 ingress m = Inr b"
    and "\<And>sent. length sent = 2 \<Longrightarrow> wd_close w sent = Some t"
  shows "dispatch_managed_sequence w (Some ingress) [r1, r2] = ([a, b], Some t, None)"
  using assms by (simp add: dispatch_managed_sequence_def)

lemma observed_duplicate_result:
  assumes o': "observed_duplicate w iid fp i control opened a b t"
    and "encode_ascii (wd_execution_id w) = Inr x"
    and "summarize_observations (tr_events t) (rq_request_id a) control (rq_status_code a) = Inr sa"
    and "summarize_observations (tr_events t) (rq_request_id b) control (rq_status_code b) = Inr sb"
  shows "\<exists>r. execute_sg02 w iid fp = Inr r \<and> validate_result r = None \<and>
    (sx_result r, sx_evidence_tier r, sx_reason r) = sg02_evaluate_sequence sa sb"
proof -
  have legal: "\<forall>q \<in> set [a, b]. legal_status (rq_status_code q)"
    and observed: "observe_request t control a = Inr (request_observation_of t control a)"
      "observe_request t control b = Inr (request_observation_of t control b)"
    and s: "sa = observed_summary (tr_events t) (rq_request_id a) control (rq_status_code a)"
      "sb = observed_summary (tr_events t) (rq_request_id b) control (rq_status_code b)"
    using assms(3,4) by (simp_all add: summarize_observations_Inr observe_request_legal)
  obtain config_fp env where rt: "wd_runtime w = ManagedRuntime config_fp env"
    and secret: "webhook_secret w env \<noteq> ''''" "ra_runtime_config_fingerprint (op_artifact opened) = config_fp"
    using o' by (auto simp: observed_duplicate_def split: runtime_setting.splits)
  note f = o'[unfolded observed_duplicate_def, simplified rt runtime_setting.case]
  obtain assertion where as: "assertion_for (Some i) iid SG02_ASSERTION_KEY = Inr assertion"
    using assertion_for_total[OF assertion_keys_not_blank(2)] by blast
  let ?rx = "\<lparr>rx_world = w, rx_scenario = SG_02, rx_definition = SG02_DEFINITION_FINGERPRINT,
    rx_instance_id = iid, rx_instance = i, rx_assertion = assertion, rx_control = control\<rparr>"
  obtain auth where au: "base_authority fp iid (Some control) None None [] None = Inr auth"
    using preflight_authority_total by blast
  obtain ra where ra: "runtime_authority ?rx opened = Inr ra" using runtime_authority_total by blast
  obtain target where target: "customers_for (op_artifact opened) control = [target]"
    using sufficient_customer f by blast
  obtain p ref where p: "prepare_captured_webhook (wd_execution_id w)
      (ib_effective_path (ct_ingress (cc_target target))) (webhook_secret w env) None None None = Inr p"
    and ref: "prepared_input_reference p = Inr ref" "\<not> is_grounded_input ref"
    using offline_webhook[OF assms(2)] f target by metis
  have d: "dispatch_managed_sequence w (Some (ct_ingress (cc_target target))) [r1, r2] =
      ([a, b], Some t, None)" for r1 r2
    using f target by (intro two_requests_dispatched) auto
  have "distinct (map rq_request_id [a, b])"
    using f unfolding sequence_authority_is_exact_def Let_def by (metis (full_types))
  then obtain sealed where se: "sealed_authority ?rx opened [a, b] t = Inr sealed"
    using sealed_authority_total by blast
  have "execute_sg02 w iid fp = sg02_run ?rx opened (webhook_secret w env) ra"
    using f secret by (simp add: execute_sg02_def preflight_def Let_def as au rt checked_session_def ra)
  also have "\<dots> = sg02_judge ?rx opened sealed t [a, b] ref (session_diagnostics opened t None)"
    using f by (simp add: sg02_run_def target p d sg02_sealed_def Let_def se ref)
  finally have e: "execute_sg02 w iid fp =
    sg02_judge ?rx opened sealed t [a, b] ref (session_diagnostics opened t None)" .
  then obtain r where r: "execute_sg02 w iid fp = Inr r" "validate_result r = None"
    using sg02_judge_total[OF _ se ref(2) legal] by (auto simp: accepted_def)
  have none: "\<not> list_ex (\<lambda>e. ev_request_id e \<in> set (map rq_request_id [a, b]) \<and>
      foreign_control_event control e) (tr_events t)"
    using f by (auto simp: list_ex_iff)
  have "finish ?rx sealed (sg02_evaluate_sequence (ro_observations (request_observation_of t control a))
      (ro_observations (request_observation_of t control b))) (Some ref)
      [CustomerObservation (request_observation_of t control a), CustomerObservation (request_observation_of t control b)]
      (session_diagnostics opened t None) = Inr r"
    using e r(1) none f unfolding sg02_judge_eq
    by (simp add: observed del: request_observation_of_simps set_map list.set)
  from make_result_fields(1)[OF this[unfolded finish_def]] r show ?thesis by (auto simp: s)
qed

section \<open>A world in which both deliveries arrive\<close>

definition live_event :: "nat \<Rightarrow> string \<Rightarrow> observation_kind \<Rightarrow> observation_event" where
  "live_event i q k = (demo_event i k)\<lparr>ev_request_id := q, ev_normal_control_id := Some ''c1'',
     ev_customer_value_node_id := Some ''v1'', ev_customer_value_symbol_id := Some ''y1''\<rparr>"

definition live_transcript :: transcript where
  "live_transcript = demo_transcript\<lparr>tr_events :=
     [request_event 1 ''q'' REQUEST_RECEIVED, live_event 2 ''q'' CUSTOMER_VALUE_ENTERED,
      live_event 3 ''q'' CUSTOMER_VALUE_RETURNED_NORMALLY,
      (request_event 4 ''q'' RESPONSE_COMPLETED)\<lparr>ev_status_code := Some 200\<rparr>,
      request_event 5 ''qx'' REQUEST_RECEIVED,
      (request_event 6 ''qx'' RESPONSE_COMPLETED)\<lparr>ev_status_code := Some 200\<rparr>]\<rparr>"

definition live_capability :: runtime_capability_artifact where
  "live_capability = demo_capability\<lparr>ra_customer_values :=
     [\<lparr>cc_target = \<lparr>ct_ingress = demo_binding, ct_normal_control_id = ''c1'',
         ct_customer_value_node_id = ''v1'', ct_customer_value_symbol_id = ''y1'',
         ct_connectivity_edge_id = ''e1'', ct_call_path_references = [''call-site:1''],
         ct_semantic_resolution_fingerprint = ''f''\<rparr>,
       cc_lifecycle = demo_assessment, cc_strength = Some ENTRY_AND_TERMINAL\<rparr>]\<rparr>"

definition live_opened :: opened_runtime where
  "live_opened = \<lparr>op_applicability = demo_applicability, op_artifact = live_capability,
     op_plan_ingresses = [demo_binding], op_session = Some ManagedSession\<rparr>"

definition live_reply :: "nat \<Rightarrow> ingress_binding \<Rightarrow> request_result" where
  "live_reply i b = \<lparr>rq_request_id = CHR ''q'' # replicate i (CHR ''x''),
     rq_binding = b, rq_status_code = 200\<rparr>"

definition live_world :: world where
  "live_world = \<lparr>wd_execution_id = ''sgexec_1'', wd_preflight = demo_applicability,
     wd_runtime = ManagedRuntime ''f6'' (\<lambda>n. Some ''HOST''), wd_environ = (\<lambda>n. Some ''secret''),
     wd_opened = Some live_opened, wd_request = (\<lambda>i b m. Inr (live_reply i b)),
     wd_close = (\<lambda>sent. Some live_transcript)\<rparr>"

lemma live_world_ascii: "encode_ascii (wd_execution_id live_world) = Inr (utf8 ''sgexec_1'')"
  by (simp add: live_world_def demo_execution_ascii)

lemma live_world_close: "wd_close live_world [] \<noteq> None"
  by (simp add: live_world_def)

lemma live_world_distinct: "distinct_replies live_world"
proof -
  have "replicate i (CHR ''x'') \<noteq> replicate j (CHR ''x'')" if "i \<noteq> j" for i j
    using that by (metis length_replicate)
  then show ?thesis by (auto simp: live_world_def distinct_replies_def live_reply_def)
qed

lemma live_world_legal: "legal_replies live_world"
  by (simp add: legal_replies_def live_world_def live_reply_def)

lemma live_world_bounded: "bounded_paths live_world"
  by (simp add: bounded_paths_def live_world_def live_opened_def addressable_def live_capability_def
      demo_binding_def path_bound_error_None)

lemma live_transcript_accepted: "validate_observation_transcript live_capability live_transcript = None"
  by (simp add: validate_observation_transcript_def live_capability_def demo_capability_def
      live_transcript_def demo_transcript_def check_event_def assessed_bindings_def dict_by_def
      binding_key_def event_key_def demo_event_def live_event_def request_event_def demo_binding_def
      check_customer_target_def check_mutation_target_def check_acknowledgement_target_def)

lemma live_sequence_exact:
  "sequence_authority_is_exact live_transcript [live_reply 0 demo_binding, live_reply (Suc 0) demo_binding]"
  by (simp add: sequence_authority_is_exact_def live_transcript_def live_reply_def request_event_def
      live_event_def demo_event_def demo_binding_def insert_commute)

lemma live_sufficient: "capability_is_sufficient live_opened ''c1''"
  by (simp add: capability_is_sufficient_def live_opened_def live_capability_def demo_capability_def
      customers_for_def complete_def demo_assessment_def)

lemma live_instance:
  "scenario_instance_of demo_applicability SG_02 ''i1'' = Some demo_instance"
  "scenario_instance_of demo_applicability SG_01 ''i1'' = Some demo_instance"
  by (simp_all add: scenario_instance_of_def demo_applicability_def demo_draft_def scenario_ids_def
      demo_scenario_def demo_instance_def)

lemma live_instance_fields [simp]:
  "si_state demo_instance = APPLICABLE" "si_normal_control_id demo_instance = Some ''c1''"
  by (simp_all add: demo_instance_def)

abbreviation live_fp :: string where
  "live_fp \<equiv> ap_applicability_fingerprint demo_applicability"

lemma live_world_observed:
  "observed_duplicate live_world ''i1'' live_fp demo_instance ''c1'' live_opened
     (live_reply 0 demo_binding) (live_reply 1 demo_binding) live_transcript"
proof -
  have none: "\<not> list_ex (foreign_control_event ''c1'') (tr_events live_transcript)"
    by (simp add: live_transcript_def foreign_control_event_def customer_kinds_def request_event_def
        live_event_def demo_event_def)
  have target: "target = \<lparr>cc_target = \<lparr>ct_ingress = demo_binding, ct_normal_control_id = ''c1'',
         ct_customer_value_node_id = ''v1'', ct_customer_value_symbol_id = ''y1'',
         ct_connectivity_edge_id = ''e1'', ct_call_path_references = [''call-site:1''],
         ct_semantic_resolution_fingerprint = ''f''\<rparr>,
       cc_lifecycle = demo_assessment, cc_strength = Some ENTRY_AND_TERMINAL\<rparr>"
    if "customers_for live_capability ''c1'' = [target]" for target
    using that by (simp add: customers_for_def live_capability_def)
  have path: "path_bound_error (ib_effective_path demo_binding) = None"
    by (simp add: demo_binding_def path_bound_error_None)
  show ?thesis
    using live_transcript_accepted live_sufficient live_sequence_exact none path
    by (auto simp: observed_duplicate_def live_instance live_world_def live_opened_def webhook_secret_def
        dest!: target)
      (simp_all add: live_capability_def demo_capability_def live_transcript_def demo_transcript_def
        live_opened_def One_nat_def)
qed

lemma live_sg02_verified:
  "\<exists>r. execute_sg02 live_world ''i1'' live_fp = Inr r \<and> verified r"
proof -
  let ?s = "\<lambda>i. observed_summary (tr_events live_transcript)
    (rq_request_id (live_reply i demo_binding)) ''c1'' (rq_status_code (live_reply i demo_binding))"
  obtain r where r: "execute_sg02 live_world ''i1'' live_fp = Inr r"
    "(sx_result r, sx_evidence_tier r, sx_reason r) = sg02_evaluate_sequence (?s 0) (?s 1)"
    using observed_duplicate_result[OF live_world_observed live_world_ascii]
    by (auto simp: summarize_observations_Inr live_reply_def)
  have "fst (sg02_evaluate_sequence (?s 0) (?s 1)) = VERIFIED_PASS"
    by (simp add: sg02_evaluate_sequence_def live_transcript_def live_reply_def live_event_def
        verdict_demo_defs)
  then have "verified r" unfolding r(2)[symmetric] by (simp add: verified_def)
  with r(1) show ?thesis by blast
qed

section \<open>Properties of the execution\<close>

text \<open>
  No execution of SG-01 ends in an exception as long as a grounded profile comes with its
  sanitized projection, the session can be closed before it has sent anything (a handler that
  refuses a stale session closes it unguarded), and statuses and paths are within the bounds of
  the records that hold them: the verdict of the reducer is always one its own artifact accepts.
\<close>

theorem sg01_execution_always_reports:
  assumes "complete_grounding grounding" and "wd_close w [] \<noteq> None"
    and "encode_ascii (wd_execution_id w) = Inr b" and "legal_replies w" and "bounded_paths w"
  shows "\<exists>r. execute_sg01 w instance_id expected_fp grounding = Inr r \<and> validate_result r = None"
  using execute_sg01_total[OF assms] by (simp add: accepted_def)

theorem sg01_execution_always_reports_witness:
  "\<exists>r. execute_sg01 live_world ''i1'' live_fp None = Inr r \<and> validate_result r = None"
  by (rule sg01_execution_always_reports[OF _ live_world_close live_world_ascii live_world_legal
        live_world_bounded]) (simp add: complete_grounding_def)

text \<open>
  C2. An execution of SG-02 whose replies all carry an HTTP status of 100 to 599 never ends in an
  exception when the session numbers its requests, can be closed before it has sent any, and
  addresses its targets by paths of 1 to 4096 characters: the result always passes the artifact's
  own validator, whatever else the application replies and whatever transcript is sealed.  The
  reducer may fail on the first delivery alone, where the validator also demands the second one;
  the exactness check of the request sequence is what makes the two agree.
\<close>

theorem sg02_execution_always_reports:
  assumes "distinct_replies w" and "wd_close w [] \<noteq> None" and "encode_ascii (wd_execution_id w) = Inr b"
    and "legal_replies w" and "bounded_paths w"
  shows "\<exists>r. execute_sg02 w instance_id expected_fp = Inr r \<and> validate_result r = None"
  using execute_sg02_total[OF assms] by (simp add: accepted_def)

theorem sg02_execution_always_reports_witness:
  "\<exists>r. execute_sg02 live_world ''i1'' live_fp = Inr r \<and> validate_result r = None"
  by (rule sg02_execution_always_reports[OF live_world_distinct live_world_close live_world_ascii
        live_world_legal live_world_bounded])

text \<open>
  C1. A decided SG-02 result is backed by evidence: the applicability it was asked about is
  current, a sufficient session was opened on it, the sealed transcript passed validation and
  contains exactly the two requests the result names, and the result is PASS exactly when those
  two requests entered the control's customer-value target once in total.
\<close>

theorem sg02_decided_result_is_evidenced:
  assumes "execute_sg02 w instance_id expected_fp = Inr r" and "verified r"
  shows "\<exists>control opened t a b.
     evidenced w control r opened t [a, b] \<and> sequence_authority_is_exact t [a, b] \<and>
     ap_applicability_fingerprint (wd_preflight w) = expected_fp \<and>
     (sx_result r = VERIFIED_PASS \<longleftrightarrow>
        value_entries (tr_events t) (rq_request_id a) control +
        value_entries (tr_events t) (rq_request_id b) control = 1)"
proof -
  from preflight_decided[OF assms(1)[unfolded execute_sg02_def] assms(2)]
  obtain rx auth config_fp secret where rx: "rx_world rx = w"
    and fp: "ap_applicability_fingerprint (wd_preflight w) = expected_fp"
    and s: "checked_session rx config_fp auth (\<lambda>opened. sg02_run rx opened secret) = Inr r"
    by blast
  from checked_session_decided[OF s assms(2)] rx obtain opened ra where
    o': "wd_opened w = Some opened"
      "ap_applicability_fingerprint (op_applicability opened) = ap_applicability_fingerprint (wd_preflight w)"
    and run: "sg02_run rx opened secret ra = Inr r"
    by auto
  from sg02_run_decided[OF run assms(2)] rx obtain sent t au results reference ds where
    c: "wd_close w sent = Some t" "capability_is_sufficient opened (rx_control rx)"
    and au: "sealed_authority rx opened results t = Inr au"
    and j: "sg02_judge rx opened au t results reference ds = Inr r"
    by metis
  from sg02_result_decided[OF j assms(2) au] obtain a b where
    ab: "results = [a, b]" "sequence_authority_is_exact t [a, b]"
      "validate_observation_transcript (op_artifact opened) t = None" "sx_authority r = au"
      "sx_result r = VERIFIED_PASS \<longleftrightarrow>
        value_entries (tr_events t) (rq_request_id a) (rx_control rx) +
        value_entries (tr_events t) (rq_request_id b) (rx_control rx) = 1"
    by blast
  have "evidenced w (rx_control rx) r opened t [a, b]"
    unfolding evidenced_def using o' c ab sealed_authority_fields[OF au] rx by auto
  then show ?thesis using ab fp by blast
qed

theorem sg02_decided_result_is_evidenced_witness:
  "\<exists>r control opened t a b. execute_sg02 live_world ''i1'' live_fp = Inr r \<and>
     evidenced live_world control r opened t [a, b]"
proof -
  obtain r where r: "execute_sg02 live_world ''i1'' live_fp = Inr r" "verified r"
    using live_sg02_verified by blast
  from sg02_decided_result_is_evidenced[OF r] r(1) show ?thesis by blast
qed

section \<open>SG-04: a verdict its own artifact refuses\<close>

text \<open>
  \<open>execute_sg04\<close> observes both the assignment of \<open>captured\<close> and the assignment of
  \<open>authorized\<close> in both requests.  These observations describe a merchant that sets the order to
  \<open>captured\<close> again when the stale event arrives, and never to \<open>authorized\<close>.
\<close>

definition idle_target :: "string \<Rightarrow> mutation_summary" where
  "idle_target node = \<lparr>ms_mutation_node_id = node, ms_reached_count = 0,
     ms_completed_normally_count = 0, ms_raised_count = 0, ms_reached_sequences = [],
     ms_completed_normally_sequences = [], ms_raised_sequences = []\<rparr>"

definition completed_target :: "string \<Rightarrow> nat \<Rightarrow> mutation_summary" where
  "completed_target node i = \<lparr>ms_mutation_node_id = node, ms_reached_count = 1,
     ms_completed_normally_count = 1, ms_raised_count = 0, ms_reached_sequences = [i],
     ms_completed_normally_sequences = [Suc i], ms_raised_sequences = []\<rparr>"

definition reassigning_delivery :: "string \<Rightarrow> nat \<Rightarrow> mutation_observation" where
  "reassigning_delivery q i = \<lparr>mo_request_id = q,
     mo_mutation_targets = [idle_target ''authorized-node'', completed_target ''captured-node'' (Suc i)],
     mo_request_received_sequences = [i], mo_response_completed_sequences = [i + 3],
     mo_request_aborted_sequences = [], mo_http_status_code = Some 200\<rparr>"

definition two_request_authority :: authority_reference where
  "two_request_authority = \<lparr>au_applicability_fingerprint = ''fp'', au_scenario_instance_id = ''i1'',
     au_normal_control_id = Some ''c1'', au_runtime_capability_fingerprint = Some ''cap'',
     au_runtime_session_id = Some ''s1'', au_runtime_request_ids = [''q'', ''qx''],
     au_transcript_fingerprint = Some ''tf''\<rparr>"

text \<open>
  C40. The state reducer of SG-04 passes a merchant that re-assigns \<open>captured\<close> on the stale
  delivery (it looks at the \<open>authorized\<close> assignment only), but the artifact demands that the
  stale delivery reached no observed assignment at all: building the result of this PASS raises,
  for every prepared input, so the execution crashes instead of reporting it.
\<close>

theorem sg04_state_pass_is_refused:
  "sg04_evaluate_state_sequence (reassigning_delivery ''q'' 1) (reassigning_delivery ''qx'' 5)
       ''captured-node'' ''authorized-node'' = verified_pass MERCHANT_STATE_DID_NOT_REGRESS \<and>
   make_result execution SG_04 definition_fp assertion two_request_authority
       (sg04_evaluate_state_sequence (reassigning_delivery ''q'' 1) (reassigning_delivery ''qx'' 5)
          ''captured-node'' ''authorized-node'')
       (Some (WebhookSequenceInput input))
       [MutationObservation (reassigning_delivery ''q'' 1), MutationObservation (reassigning_delivery ''qx'' 5)]
       diagnostics =
     Inl (ValueError ''verified SG-04 state pass requires a differential control'')"
proof -
  have v: "sg04_evaluate_state_sequence (reassigning_delivery ''q'' 1) (reassigning_delivery ''qx'' 5)
      ''captured-node'' ''authorized-node'' = verified_pass MERCHANT_STATE_DID_NOT_REGRESS"
    by (simp add: sg04_evaluate_state_sequence_def target_of_def reassigning_delivery_def
        idle_target_def completed_target_def)
  have "validate_result r = Some (ValueError ''verified SG-04 state pass requires a differential control'')"
    if "sx_scenario_id r = SG_04" "sx_authority r = two_request_authority"
      "sx_result r = VERIFIED_PASS" "sx_evidence_tier r = Some E3_DYNAMIC_VERIFIED"
      "sx_reason r = MERCHANT_STATE_DID_NOT_REGRESS"
      "sx_input_reference r = Some (WebhookSequenceInput input)"
      "sx_request_observations r = [MutationObservation (reassigning_delivery ''q'' 1),
         MutationObservation (reassigning_delivery ''qx'' 5)]" for r
  proof -
    have "validate_sg04 r = Some (ValueError ''verified SG-04 state pass requires a differential control'')"
      using that by (simp add: validate_sg04_def validate_sg04_mutation_def verified_def input_is_def
          two_request_authority_def untouched_def reassigning_delivery_def completed_target_def)
    moreover have "observation_ids r = [''q'', ''qx'']" "\<not> carries_acknowledgement_failure r"
      using that by (simp_all add: observation_ids_def reassigning_delivery_def
          carries_acknowledgement_failure_def customers_of_def map_filter_simps)
    ultimately show ?thesis using that
      by (simp add: validate_result_def Let_def verified_def input_is_def two_request_authority_def)
  qed
  then show ?thesis unfolding v by (simp add: make_result_def Let_def)
qed

end
