(* ===== verification/NormalizationProperties.thy ===== *)
theory NormalizationProperties
  imports Normalization ExecutionSafety
begin

text \<open>
  What \<open>evidence/normalization.py\<close> guarantees of the runs it builds: one check per scenario
  result, with its verdict; promotion to tier E4 exactly for grounded input; independence of
  the order of the results; and, composed with the gate, when a release is blocked.
\<close>

section \<open>The dictionaries\<close>

lemma collect_results_Inr:
  assumes "collect_results seen rs = Inr m"
  shows "m = map (\<lambda>r. (result_key r, r)) rs \<and> distinct (map result_key rs) \<and>
         result_key ` set rs \<inter> seen = {} \<and> (\<forall>r \<in> set rs. validate_result r = None)"
  using assms
proof (induction rs arbitrary: seen m)
  case (Cons r rs)
  then obtain m' where r: "validate_result r = None" "result_key r \<notin> seen"
    and rest: "collect_results (insert (result_key r) seen) rs = Inr m'" and m: "m = (result_key r, r) # m'"
    by (auto simp: bind_result_eq_Inr split: if_splits)
  from Cons.IH[OF rest] r m show ?case by auto
qed simp

lemma collect_results_total:
  assumes "distinct (map result_key rs)" and "result_key ` set rs \<inter> seen = {}"
    and "\<forall>r \<in> set rs. validate_result r = None"
  shows "collect_results seen rs = Inr (map (\<lambda>r. (result_key r, r)) rs)"
  using assms
  by (induction seen rs rule: collect_results.induct) (auto simp: construct_def)

lemma execution_results_Inr:
  "execution_results rs = Inr m \<longleftrightarrow> m = map (\<lambda>r. (result_key r, r)) rs \<and>
     distinct (map result_key rs) \<and> (\<forall>r \<in> set rs. validate_result r = None)"
  using collect_results_Inr[of "{}" rs m] collect_results_total[of rs "{}"]
  by (auto simp: execution_results_def)

lemma collect_authorities_Inr:
  assumes "collect_authorities seen es = Inr m"
  shows "m = map (\<lambda>e. (entry_key e, snd e)) es \<and> distinct (map entry_key es) \<and>
         entry_key ` set es \<inter> seen = {}"
  using assms
proof (induction es arbitrary: seen m)
  case (Cons e es)
  obtain sid i x where e: "e = (sid, i, x)" by (cases e)
  from Cons.prems obtain m' where new: "entry_key e \<notin> seen"
    and rest: "collect_authorities (insert (entry_key e) seen) es = Inr m'" and m: "m = (entry_key e, i, x) # m'"
    by (auto simp: e bind_result_eq_Inr Let_def split: if_splits)
  from Cons.IH[OF rest] new m e show ?case by auto
qed simp

lemma map_of_results:
  assumes "distinct (map result_key rs)"
  shows "map_of (map (\<lambda>r. (result_key r, r)) rs) k = Some r \<longleftrightarrow> r \<in> set rs \<and> result_key r = k"
  using assms by (auto simp: map_of_eq_Some_iff o_def)

section \<open>One check\<close>

definition check_key_of :: "verification_check \<Rightarrow> assertion_key" where
  "check_key_of c = (vc_scenario_id c, vc_scenario_instance_id c, vc_assertion_id c)"

text \<open>What a check takes over from the result of its assertion.\<close>

definition carries_result :: "verification_check \<Rightarrow> scenario_result \<Rightarrow> bool" where
  "carries_result c r \<longleftrightarrow> vc_result c = sx_result r \<and> vc_reason c = sx_reason r \<and>
     vc_scenario_result_fingerprint c = sx_result_fingerprint r \<and>
     vc_input_reference c = sx_input_reference r"

lemma promote_Inr:
  assumes "promote grounding sid r = Inr (tier, g)"
  shows "tier = sx_evidence_tier r \<and> \<not> (sx_evidence_tier r = Some E3_DYNAMIC_VERIFIED \<and>
            Option.bind (sx_input_reference r) grounded_fingerprints \<noteq> None) \<or>
         tier = Some E4_RAZORPAY_GROUNDED \<and> sx_evidence_tier r = Some E3_DYNAMIC_VERIFIED \<and>
            Option.bind (sx_input_reference r) grounded_fingerprints \<noteq> None"
  using assms by (auto simp: promote_def split: option.splits if_splits)

lemma build_check_Inr:
  assumes "build_check read_bytes n policy semantic results (key, i, x) = Inr c"
  obtains r g where "map_of results key = Some r" and "carries_result c r"
    and "validate_check c = None"
    and "check_key_of c = (fst key, si_instance_id i, aa_assertion_id x)"
    and "promote (ni_grounding n) (fst key) r = Inr (vc_evidence_tier c, g)"
proof -
  obtain r where r: "map_of results key = Some r"
    using assms by (cases "map_of results key") (simp_all add: build_check_def Let_def)
  show thesis
    by (rule that[of r "vc_grounding c"])
      (use assms r in \<open>auto simp: build_check_def Let_def bind_result_eq_Inr carries_result_def
        check_key_of_def split: if_splits\<close>)
qed

section \<open>The run\<close>

lemma order_checks_Inr:
  assumes "order_checks checks = Inr ordered"
  shows "mset ordered = mset checks"
proof -
  from assms obtain ps where ps: "traverse check_position checks = Inr ps" "ordered = map snd (sort_key fst ps)"
    by (auto simp: order_checks_def bind_result_eq_Inr)
  from ps(1) have "map snd ps = checks"
    unfolding traverse_Inr_iff
    by (induction rule: list_all2_induct) (auto simp: check_position_def bind_result_eq_Inr)
  then show ?thesis by (metis ps(2) mset_map mset_sort)
qed

lemma assemble_run_Inr:
  assumes "assemble_run n policy semantic checks = Inr run"
  shows "vr_checks run = checks" and "validate_run run = None" and "vr_run_id run = ni_run_id n"
  using assms by (auto simp: assemble_run_def Let_def bind_result_eq_Inr)

text \<open>The stages of a successful build.\<close>

lemma build_run_Inr:
  assumes "build_verification_run read_bytes n = Inr run"
  obtains policy semantic checks where
    "run_guards n = None"
    and "distinct (map entry_key (applicability_entries (ni_applicability n)))"
    and "distinct (map result_key (ni_results n))"
    and "\<forall>r \<in> set (ni_results n). validate_result r = None"
    and "entry_key ` set (applicability_entries (ni_applicability n)) = result_key ` set (ni_results n)"
    and "list_all2 (\<lambda>e c. build_check read_bytes n policy semantic
           (map (\<lambda>r. (result_key r, r)) (ni_results n)) (entry_key e, snd e) = Inr c)
           (applicability_entries (ni_applicability n)) checks"
    and "mset (vr_checks run) = mset checks"
    and "validate_run run = None"
proof -
  let ?entries = "applicability_entries (ni_applicability n)"
    and ?results = "map (\<lambda>r. (result_key r, r)) (ni_results n)"
  from assms obtain authorities results semantic checks ordered where
    guards: "run_guards n = None"
    and a: "assertion_authorities (ni_applicability n) = Inr authorities"
    and r: "execution_results (ni_results n) = Inr results"
    and same: "set (map fst authorities) = set (map fst results)"
    and built: "traverse (build_check read_bytes n (policy_snapshot_of (ni_applicability n)) semantic results)
        authorities = Inr checks"
    and ordered: "order_checks checks = Inr ordered"
    and run: "assemble_run n (policy_snapshot_of (ni_applicability n)) semantic ordered = Inr run"
    by (auto simp: build_verification_run_def Let_def bind_result_eq_Inr split: option.splits if_splits)
  note am = collect_authorities_Inr[OF a[unfolded assertion_authorities_def]]
  note rm = r[unfolded execution_results_Inr]
  have checks: "list_all2 (\<lambda>e c. build_check read_bytes n (policy_snapshot_of (ni_applicability n)) semantic
      ?results (entry_key e, snd e) = Inr c) ?entries checks"
    using built am rm by (simp add: traverse_Inr_iff list_all2_map1)
  show thesis
    by (rule that[OF guards _ _ _ _ checks])
      (use am rm same order_checks_Inr[OF ordered] assemble_run_Inr[OF run] in \<open>auto simp: image_image\<close>)
qed

lemma entry_key_parts:
  "e = (sid, i, x) \<Longrightarrow> (fst (entry_key e), si_instance_id i, aa_assertion_id x) = entry_key e"
  by simp

text \<open>Every check of a built run stands for one result, every result for one check.\<close>

lemma built_checks:
  assumes "build_verification_run read_bytes n = Inr run"
  shows "mset (map check_key_of (vr_checks run)) = mset (map result_key (ni_results n))"
    and "c \<in> set (vr_checks run) \<Longrightarrow> \<exists>r g. r \<in> set (ni_results n) \<and> result_key r = check_key_of c \<and>
           carries_result c r \<and> validate_check c = None \<and>
           promote (ni_grounding n) (vc_scenario_id c) r = Inr (vc_evidence_tier c, g)"
    and "distinct (map result_key (ni_results n))" and "validate_run run = None"
proof -
  let ?entries = "applicability_entries (ni_applicability n)"
  obtain policy semantic checks where
    d: "distinct (map entry_key ?entries)" and rd: "distinct (map result_key (ni_results n))"
    and same: "entry_key ` set ?entries = result_key ` set (ni_results n)"
    and built: "list_all2 (\<lambda>e c. build_check read_bytes n policy semantic
           (map (\<lambda>r. (result_key r, r)) (ni_results n)) (entry_key e, snd e) = Inr c) ?entries checks"
    and order: "mset (vr_checks run) = mset checks" and run: "validate_run run = None"
    by (rule build_run_Inr[OF assms])
  have one: "check_key_of c = entry_key e \<and> (\<exists>r g. r \<in> set (ni_results n) \<and> result_key r = check_key_of c \<and>
      carries_result c r \<and> validate_check c = None \<and>
      promote (ni_grounding n) (vc_scenario_id c) r = Inr (vc_evidence_tier c, g))"
    if b: "build_check read_bytes n policy semantic (map (\<lambda>r. (result_key r, r)) (ni_results n))
          (entry_key e, snd e) = Inr c" for e c
  proof -
    obtain sid i x where e: "e = (sid, i, x)" by (cases e)
    obtain r g where r: "map_of (map (\<lambda>r. (result_key r, r)) (ni_results n)) (entry_key e) = Some r"
      and rest: "carries_result c r" "validate_check c = None"
        "check_key_of c = (fst (entry_key e), si_instance_id i, aa_assertion_id x)"
        "promote (ni_grounding n) (fst (entry_key e)) r = Inr (vc_evidence_tier c, g)"
      using build_check_Inr[OF b[unfolded e snd_conv]] unfolding e by blast
    from r have "r \<in> set (ni_results n)" "result_key r = entry_key e"
      by (simp_all add: map_of_results[OF rd])
    moreover have "check_key_of c = entry_key e" using rest(3) by (simp add: entry_key_parts[OF e])
    moreover from this have "fst (entry_key e) = vc_scenario_id c" by (metis check_key_of_def fst_conv)
    ultimately show ?thesis using rest by auto
  qed
  have keys: "map check_key_of checks = map entry_key ?entries"
    using built by (induction rule: list_all2_induct) (auto dest: one)
  have "mset (map entry_key ?entries) = mset (map result_key (ni_results n))"
    using d rd same by (metis set_eq_iff_mset_eq_distinct set_map)
  then show "mset (map check_key_of (vr_checks run)) = mset (map result_key (ni_results n))"
    using keys order by (metis mset_map)
  show "\<exists>r g. r \<in> set (ni_results n) \<and> result_key r = check_key_of c \<and> carries_result c r \<and>
      validate_check c = None \<and> promote (ni_grounding n) (vc_scenario_id c) r = Inr (vc_evidence_tier c, g)"
    if "c \<in> set (vr_checks run)"
  proof -
    from that have "c \<in> set checks" using order by (metis mset_eq_setD)
    then obtain i where "i < length checks" "checks ! i = c" by (auto simp: in_set_conv_nth)
    then show ?thesis using conjunct2[OF one[OF list_all2_nthD2[OF built]]] by blast
  qed
  show "distinct (map result_key (ni_results n))" "validate_run run = None" by (fact rd run)+
qed

lemma built_run_valid:
  assumes "build_verification_run read_bytes n = Inr run"
  shows "valid_run run"
  using built_checks(2,4)[OF assms] by (auto simp: valid_run_def list_all_iff)

section \<open>Properties\<close>

text \<open>
  C24. Normalization never recalculates a verdict: the checks of a built run and the scenario
  results it was built from agree, as multisets, in identity, verdict, reason and recorded
  result fingerprint.  No result is lost, duplicated or changed.
\<close>

theorem normalization_keeps_every_verdict:
  assumes "build_verification_run read_bytes n = Inr run"
  shows "mset (map (\<lambda>c. (check_key_of c, vc_result c, vc_reason c, vc_scenario_result_fingerprint c))
           (vr_checks run)) =
         mset (map (\<lambda>r. (result_key r, sx_result r, sx_reason r, sx_result_fingerprint r)) (ni_results n))"
proof -
  let ?find = "\<lambda>k. the (map_of (map (\<lambda>r. (result_key r, r)) (ni_results n)) k)"
  let ?row = "\<lambda>k. (k, sx_result (?find k), sx_reason (?find k), sx_result_fingerprint (?find k))"
  have found: "?find (result_key r) = r" if "r \<in> set (ni_results n)" for r
    using that by (simp add: iffD2[OF map_of_results[OF built_checks(3)[OF assms]]])
  have "(check_key_of c, vc_result c, vc_reason c, vc_scenario_result_fingerprint c) = ?row (check_key_of c)"
    if c: "c \<in> set (vr_checks run)" for c
  proof -
    obtain r where "r \<in> set (ni_results n)" "result_key r = check_key_of c" "carries_result c r"
      using built_checks(2)[OF assms c] by blast
    with found[of r] show ?thesis by (simp add: carries_result_def)
  qed
  then have "map (\<lambda>c. (check_key_of c, vc_result c, vc_reason c, vc_scenario_result_fingerprint c))
      (vr_checks run) = map ?row (map check_key_of (vr_checks run))"
    unfolding map_map by (intro map_cong) simp_all
  then have "mset (map (\<lambda>c. (check_key_of c, vc_result c, vc_reason c, vc_scenario_result_fingerprint c))
      (vr_checks run)) = mset (map ?row (map check_key_of (vr_checks run)))"
    by (rule arg_cong)
  also have "\<dots> = mset (map ?row (map result_key (ni_results n)))"
    using arg_cong[OF built_checks(1)[OF assms], of "image_mset ?row"] by (simp only: mset_map)
  also have "map ?row (map result_key (ni_results n)) =
      map (\<lambda>r. (result_key r, sx_result r, sx_reason r, sx_result_fingerprint r)) (ni_results n)"
    unfolding map_map by (intro map_cong) (simp_all add: found)
  finally show ?thesis .
qed

text \<open>
  Promotion is exact: the tier of a check is the tier of its result, except that a decided
  result of tier E3 whose input was built from the grounding of the run becomes tier E4.
\<close>

theorem normalization_promotes_only_grounded:
  assumes "build_verification_run read_bytes n = Inr run" and "c \<in> set (vr_checks run)"
  shows "\<exists>r \<in> set (ni_results n). result_key r = check_key_of c \<and>
           vc_evidence_tier c =
             (if sx_evidence_tier r = Some E3_DYNAMIC_VERIFIED \<and>
                 Option.bind (sx_input_reference r) grounded_fingerprints \<noteq> None
              then Some E4_RAZORPAY_GROUNDED else sx_evidence_tier r)"
  using built_checks(2)[OF assms] promote_Inr by fastforce

text \<open>
  C25. From the scenario results to the release decision: the gate of a built run always comes
  to a result, blocks with exit code 1 exactly when some scenario result is a proven failure,
  and passes only if no result is.
\<close>

theorem gate_blocks_failed_results:
  assumes "build_verification_run read_bytes n = Inr run"
  shows "\<exists>g. evaluate_ci_gate run = Inr g \<and>
           (gt_exit_code g = 1 \<longleftrightarrow> (\<exists>r \<in> set (ni_results n). sx_result r = VERIFIED_FAIL))"
proof -
  have gate: "evaluate_ci_gate run = Inr (gate_of run)"
    by (rule evaluate_total[OF valid_run_keys_distinct[OF built_run_valid[OF assms]]])
  have "gt_exit_code (gate_of run) = 1 \<longleftrightarrow> proven_failures (vr_checks run) \<noteq> []"
    by (simp add: gate_of_def expected_outcome_def Let_def)
  also have "\<dots> \<longleftrightarrow> (\<exists>c \<in> set (vr_checks run). vc_result c = VERIFIED_FAIL)"
    by (auto simp: proven_failures_def filter_empty_conv)
  also have "\<dots> \<longleftrightarrow> (\<exists>r \<in> set (ni_results n). sx_result r = VERIFIED_FAIL)"
  proof
    show "\<exists>r \<in> set (ni_results n). sx_result r = VERIFIED_FAIL"
      if "\<exists>c \<in> set (vr_checks run). vc_result c = VERIFIED_FAIL"
      using that built_checks(2)[OF assms] by (metis carries_result_def)
    assume "\<exists>r \<in> set (ni_results n). sx_result r = VERIFIED_FAIL"
    then obtain r where r: "r \<in> set (ni_results n)" "sx_result r = VERIFIED_FAIL" by blast
    have "result_key r \<in> set (map check_key_of (vr_checks run))"
      using r(1) mset_eq_setD[OF built_checks(1)[OF assms]] by simp
    then obtain c where c: "c \<in> set (vr_checks run)" "check_key_of c = result_key r" by auto
    obtain r' where r': "r' \<in> set (ni_results n)" "result_key r' = check_key_of c" "carries_result c r'"
      using built_checks(2)[OF assms c(1)] by blast
    then have "r' = r"
      using r(1) c(2) built_checks(3)[OF assms] by (metis distinct_map inj_onD)
    then show "\<exists>c \<in> set (vr_checks run). vc_result c = VERIFIED_FAIL"
      using c(1) r(2) r'(3) by (metis carries_result_def)
  qed
  finally show ?thesis using gate by blast
qed

lemma build_check_cong:
  "map_of results = map_of results' \<Longrightarrow>
   build_check read_bytes (n\<lparr>ni_results := rs\<rparr>) policy semantic results' e
     = build_check read_bytes n policy semantic results e"
  by (cases e) (simp add: build_check_def Let_def cong: option.case_cong if_cong)

text \<open>
  The order in which the scenarios were executed leaves no trace: a run built from the
  results is built, byte for byte, from every reordering of them.
\<close>

theorem build_ignores_result_order:
  assumes "build_verification_run read_bytes n = Inr run" and "mset results = mset (ni_results n)"
  shows "build_verification_run read_bytes (n\<lparr>ni_results := results\<rparr>) = Inr run"
proof -
  let ?m = "\<lambda>rs. map (\<lambda>r. (result_key r, r)) rs"
  have d: "distinct (map result_key (ni_results n))" by (rule built_checks(3)[OF assms(1)])
  have valid: "\<forall>r \<in> set (ni_results n). validate_result r = None"
    by (rule build_run_Inr[OF assms(1)]) blast
  have same: "set results = set (ni_results n)" using assms(2) by (rule mset_eq_setD)
  have d': "distinct (map result_key results)"
    using d assms(2) by (metis distinct_map mset_eq_imp_distinct_iff same)
  have before: "execution_results (ni_results n) = Inr (?m (ni_results n))"
    and after: "execution_results results = Inr (?m results)"
    using d d' valid same by (simp_all add: execution_results_Inr)
  have lookup: "map_of (?m (ni_results n)) = map_of (?m results)"
    using d d' same by (subst map_of_inject_set) (auto simp: o_def)
  have guards: "run_guards (n\<lparr>ni_results := results\<rparr>) = run_guards n" by (simp add: run_guards_def Let_def cong: if_cong)
  have assemble: "assemble_run (n\<lparr>ni_results := results\<rparr>) = assemble_run n"
    by (intro ext) (simp add: assemble_run_def Let_def)
  have checks: "build_check read_bytes (n\<lparr>ni_results := results\<rparr>) p s (?m results) =
      build_check read_bytes n p s (?m (ni_results n))" for p s
    by (rule ext) (rule build_check_cong[OF lookup])
  show ?thesis
    using assms(1) unfolding build_verification_run_def guards
    by (simp add: before after same assemble checks Let_def split: option.splits cong: if_cong)
qed

section \<open>Building blocks that cannot fail\<close>

lemma canonical_facts_ordered:
  "distinct xs \<Longrightarrow> canonical_facts enc (canonical_order enc xs) = None"
  by (simp add: canonical_facts_def canonical_order_def sort_key_id_if_sorted)

lemma rule_authority_facts:
  "traverse rule_authority_fact ids =
     Inr (map (\<lambda>rid. \<lparr>rt_fact_id = rule_id_value rid, rt_fact_fingerprint = rule_fingerprint rid\<rparr>) ids)"
  by (rule traverse_total) (simp add: rule_authority_fact_def razorpay_rule_fingerprint_total)

lemma rule_facts_distinct:
  "distinct ids \<Longrightarrow> distinct (map (\<lambda>rid. \<lparr>rt_fact_id = rule_id_value rid, rt_fact_fingerprint = rule_fingerprint rid\<rparr>) ids)"
  by (auto simp: distinct_map inj_on_def rule_id_value_inj)

lemma rule_snapshot_total:
  "\<exists>rules. rule_snapshot_of ids = Inr rules \<and>
     rl_catalog_fingerprint rules = razorpay_rule_catalog_fingerprint \<and>
     map rn_rule_id (rl_referenced_rules rules) = sort_key rule_id_value (remdups ids)"
proof -
  have "\<exists>e. rule_snapshot_entry rid = Inr e \<and> rn_rule_id e = rid" for rid
  proof -
    obtain f where "dict_by rf_rule_id RAZORPAY_PROTOCOL_FACTS rid = Some f"
      using facts_ids_all[of rid] by (cases "dict_by rf_rule_id RAZORPAY_PROTOCOL_FACTS rid") (auto simp: dict_by_eq_None)
    then show ?thesis by (simp add: rule_snapshot_entry_def razorpay_rule_fingerprint_total)
  qed
  then obtain entry where entry: "\<And>rid. rule_snapshot_entry rid = Inr (entry rid) \<and> rn_rule_id (entry rid) = rid"
    by metis
  let ?sorted = "sort_key rule_id_value (remdups ids)"
  have "traverse rule_snapshot_entry ?sorted = Inr (map entry ?sorted)"
    using entry by (intro traverse_total) blast
  moreover have "map rn_rule_id (map entry ?sorted) = ?sorted"
    using entry by (simp add: o_def)
  moreover have "distinct ?sorted" by (simp add: distinct_sort)
  ultimately show ?thesis
    by (simp add: rule_snapshot_of_def construct_def validate_rules_def sort_key_id_if_sorted)
qed

section \<open>A run built from one result\<close>

text \<open>
  The duplicate-delivery scenario of a project whose runtime could not be started: its single
  result is UNVERIFIED and the run has the one check for it.
\<close>

definition offline_assertion :: assertion_applicability where
  "offline_assertion = \<lparr>aa_assertion_id = demo_assertion_id, aa_key = SG02_ASSERTION_KEY, aa_role = CORE,
     aa_state = APPLICABLE, aa_reasons = [\<lparr>rs_code = AR_EXACT_CONTROL_AVAILABLE, rs_evidence = []\<rparr>],
     aa_normal_control_id = None\<rparr>"

definition offline_instance :: scenario_instance where
  "offline_instance = \<lparr>si_instance_id = ''i1'', si_state = APPLICABLE, si_ingress_node_id = None,
     si_normal_control_id = None, si_route_registration_id = None,
     si_customer_value_node_id = None, si_customer_value_symbol_id = None,
     si_assertions = [offline_assertion]\<rparr>"

definition offline_applicability :: applicability_artifact where
  "offline_applicability = demo_draft\<lparr>ap_normal_controls := [], ap_scenarios :=
     [\<lparr>sc_scenario_id = SG_02, sc_state = APPLICABLE, sc_instances = [offline_instance]\<rparr>],
     ap_applicability_fingerprint := ''af''\<rparr>"

definition offline_authority :: authority_reference where
  "offline_authority = \<lparr>au_applicability_fingerprint = ''af'', au_scenario_instance_id = ''i1'',
     au_normal_control_id = None, au_runtime_capability_fingerprint = None,
     au_runtime_session_id = None, au_runtime_request_ids = [], au_transcript_fingerprint = None\<rparr>"

definition offline_outcome :: "scenario_result result" where
  "offline_outcome = make_result ''x1'' SG_02 SG02_DEFINITION_FINGERPRINT demo_assertion_id offline_authority
     (UNVERIFIED, None, RUNTIME_SESSION_UNAVAILABLE) None [] []"

definition offline_result :: scenario_result where
  "offline_result = projr offline_outcome"

lemma offline_made: "offline_outcome = Inr offline_result"
  using make_result_undecided[of UNVERIFIED None SG_02 "''x1''" SG02_DEFINITION_FINGERPRINT
      demo_assertion_id offline_authority RUNTIME_SESSION_UNAVAILABLE "[]"]
  by (auto simp: accepted_def offline_result_def offline_outcome_def input_is_def)

lemma offline_result_fields:
  "validate_result offline_result = None" "sx_scenario_id offline_result = SG_02"
  "sx_authority offline_result = offline_authority" "sx_assertion_id offline_result = demo_assertion_id"
  "sx_scenario_definition_fingerprint offline_result = SG02_DEFINITION_FINGERPRINT"
  "sx_input_reference offline_result = None" "sx_request_observations offline_result = []"
  "sx_result offline_result = UNVERIFIED" "sx_evidence_tier offline_result = None"
  "sx_runtime_diagnostics offline_result = []"
proof -
  let ?d = "\<lparr>sx_schema_version = 3, sx_execution_id = ''x1'', sx_scenario_id = SG_02,
     sx_scenario_definition_fingerprint = SG02_DEFINITION_FINGERPRINT, sx_assertion_id = demo_assertion_id,
     sx_authority = offline_authority, sx_input_reference = None, sx_request_observations = [],
     sx_result = UNVERIFIED, sx_evidence_tier = None, sx_reason = RUNTIME_SESSION_UNAVAILABLE,
     sx_runtime_diagnostics = [], sx_result_fingerprint = []\<rparr>"
  have r: "validate_result offline_result = None \<and> offline_result = ?d\<lparr>sx_result_fingerprint :=
      fingerprint_json (scenario_result_fingerprint_payload ?d)\<rparr>"
    using offline_made
    by (auto simp: offline_outcome_def make_result_def sorted_diagnostics_def Let_def split: option.splits)
  show "validate_result offline_result = None" using r by blast
  show "sx_scenario_id offline_result = SG_02" "sx_authority offline_result = offline_authority"
    "sx_assertion_id offline_result = demo_assertion_id" "sx_input_reference offline_result = None"
    "sx_scenario_definition_fingerprint offline_result = SG02_DEFINITION_FINGERPRINT"
    "sx_request_observations offline_result = []" "sx_result offline_result = UNVERIFIED"
    "sx_evidence_tier offline_result = None" "sx_runtime_diagnostics offline_result = []"
    by (subst r[THEN conjunct2], simp)+
qed

definition offline_graph :: "string \<Rightarrow> safety_graph" where
  "offline_graph fp = \<lparr>pg_project_id = ''p'', pg_source_index_fingerprint = ''f2'',
     pg_graph_fingerprint = fp, pg_completeness = COMPLETE, pg_diagnostics = [], pg_nodes = [], pg_edges = []\<rparr>"

definition offline_inputs :: run_inputs where
  "offline_inputs = \<lparr>ni_run_id = ''run1'', ni_created_at = demo_stamp, ni_completed_at = demo_stamp,
     ni_config_fingerprint = ''cf'', ni_runtime_config_fingerprint = ''rf'', ni_configured_context = None,
     ni_source_index = demo_index\<lparr>ix_source_index_fingerprint := ''f2''\<rparr>,
     ni_structural_graph = offline_graph ''f3'', ni_projected_graph = offline_graph ''f4'',
     ni_artifact_context = None, ni_resolution = None, ni_resolution_fingerprint = None,
     ni_applicability = offline_applicability, ni_results = [offline_result], ni_grounding = None\<rparr>"

definition offline_targets :: check_targets where
  "offline_targets = \<lparr>ckt_ingress_node_id = None, ckt_route_registration_id = None,
     ckt_ingress_symbol_id = None, ckt_normal_control_id = None, ckt_customer_value_node_id = None,
     ckt_customer_value_symbol_id = None, ckt_connectivity_edge_id = None, ckt_mutation_node_ids = [],
     ckt_acknowledgement_node_ids = []\<rparr>"

lemma offline_guards: "run_guards offline_inputs = None"
  by (simp add: run_guards_def offline_inputs_def offline_applicability_def demo_draft_def
      offline_graph_def demo_index_def demo_draft_index_def)

lemma offline_authorities:
  "assertion_authorities offline_applicability =
     Inr [((SG_02, ''i1'', demo_assertion_id), offline_instance, offline_assertion)]"
  by (simp add: assertion_authorities_def applicability_entries_def offline_applicability_def
      offline_instance_def offline_assertion_def assertion_id_def demo_assertion_id_def demo_key_text)

lemma offline_results: "execution_results [offline_result] = Inr [((SG_02, ''i1'', demo_assertion_id), offline_result)]"
  by (simp add: execution_results_def construct_def offline_result_fields result_key_def offline_authority_def)

lemma offline_targets_built:
  "target_reference offline_applicability offline_instance offline_assertion offline_result (offline_graph fp)
     = Inr offline_targets"
  by (simp add: target_reference_def offline_instance_def offline_assertion_def offline_result_fields
      offline_authority_def offline_targets_def references_of_def all_evidence_def observed_mutations_def
      mutations_of_def customers_of_def injected_acknowledgements_def map_filter_simps validate_targets_def
      sorted_set_def)

lemma offline_definition:
  "\<exists>d. assertion_definition SG_02 SG02_ASSERTION_KEY = Inr d \<and> ad_policy_authority d = [DIM_FULFILMENT] \<and>
     ad_key_policy_dimensions d = [] \<and> distinct (ad_razorpay_rule_ids d)"
  unfolding assertion_definition_Inr
  by (rule exI[of _ "ASSERTION_DEFINITIONS ! 1"]) (simp add: ASSERTION_DEFINITIONS_def CAPTURE_RULES_def)

lemma offline_relevant:
  assumes "distinct rules"
  shows "\<exists>rel. build_finding_relevant_authority_snapshot read_bytes ix (offline_graph fp) offline_applicability
    x offline_targets [] [] [] [] policy invariant version definition_fp rules semantic = Inr rel"
proof -
  have none: "referenced_symbols offline_targets [] = {}"
    by (simp add: referenced_symbols_def offline_targets_def map_filter_simps)
  have calls: "relevant_call_sites ix {} = []"
    by (auto simp: relevant_call_sites_def filter_empty_conv split: option.splits)
  show ?thesis
    using canonical_facts_ordered[OF rule_facts_distinct[OF assms]]
    by (simp add: build_finding_relevant_authority_snapshot_def none calls keyed_policy_of_def
        construct_def validate_dimensions_def rule_authority_facts offline_applicability_def
        node_facts_def edge_facts_def map_filter_simps validate_relevant_authority_def
        canonical_facts_def[of _ "[]"] canonical_order_def[of _ "[]"] Let_def sorted_set_def)
      (simp add: relevant_authority_fields_def)
qed

lemma built_check_relevant:
  assumes "build_check read_bytes n policy semantic results (key, i, x) = Inr c"
  shows "vc_relevant_authority c \<noteq> None" and "vc_assertion_key c = aa_key x"
proof -
  obtain r where "map_of results key = Some r"
    using assms by (cases "map_of results key") (simp_all add: build_check_def Let_def)
  then show "vc_relevant_authority c \<noteq> None" "vc_assertion_key c = aa_key x"
    using assms by (auto simp: build_check_def Let_def bind_result_eq_Inr split: if_splits)
qed

lemma built_check_authority:
  assumes "build_check read_bytes n (policy_snapshot_of (ni_applicability n)) semantic results (key, i, x) = Inr c"
    and "assertion_id (si_instance_id i) (aa_key x) = Inr (aa_assertion_id x)"
    and "vr_run_id r = ni_run_id n" and "va_project_id (vr_authority r) = ap_project_id (ni_applicability n)"
    and "va_policy (vr_authority r) = policy_snapshot_of (ni_applicability n)"
    and "va_config_fingerprint (vr_authority r) = ni_config_fingerprint n"
    and "va_project_source_fingerprint (vr_authority r) = ix_project_source_fingerprint (ni_source_index n)"
    and "va_projected_graph_fingerprint (vr_authority r) = pg_graph_fingerprint (ni_projected_graph n)"
    and "va_applicability_fingerprint (vr_authority r) = ap_applicability_fingerprint (ni_applicability n)"
    and "rl_catalog_fingerprint (va_razorpay_rules (vr_authority r)) = razorpay_rule_catalog_fingerprint"
  shows "check_check_authority r c = None"
proof -
  obtain res where res: "map_of results key = Some res"
    using assms(1) by (cases "map_of results key") (simp_all add: build_check_def Let_def)
  from assms(1) obtain d p where fields: "vc_scenario_id c = fst key" "vc_scenario_instance_id c = si_instance_id i"
      "vc_assertion_id c = aa_assertion_id x" "vc_assertion_key c = aa_key x"
      "vc_check_id c = verification_check_id (ni_run_id n) (si_instance_id i) (aa_assertion_id x)"
      "build_verification_check_key (ap_project_id (ni_applicability n)) (fst key) (aa_key x)
        (vc_invariant_id c) (vc_invariant_version c) (vc_targets c) (vc_key_policy_dimensions c)
        (policy_snapshot_of (ni_applicability n)) = Inr (vc_check_key c)"
    and policy: "check_policy_of d (ni_applicability n) = Inr (vc_policy_authority c)"
    and reverification: "check_check_reverification r c = None"
    using res assms(3-)
    by (auto simp: build_check_def Let_def bind_result_eq_Inr check_check_reverification_def split: if_splits)
  have "check_check_identity r c = None"
    using fields assms(2-) by (simp add: check_check_identity_def)
  moreover have "check_check_policy r c = None"
    using policy assms(5)
    by (auto simp: check_check_policy_def check_policy_of_def policy_snapshot_of_def Let_def)
  ultimately show ?thesis
    using reverification by (simp add: check_check_authority_def)
qed

text \<open>Without a grounding attempt the run is assembled from any consistent, distinctly keyed checks.\<close>

lemma assemble_ungrounded:
  assumes "checks \<noteq> []" and "distinct (map vc_check_id checks)" and "distinct (map vc_check_key checks)"
    and "dt_aware (ni_created_at n)" and "dt_aware (ni_completed_at n)"
    and "dt_instant (ni_created_at n) \<le> dt_instant (ni_completed_at n)"
    and "ni_grounding n = None" and "\<forall>c \<in> set checks. vc_evidence_tier c \<noteq> Some E4_RAZORPAY_GROUNDED"
    and "\<forall>c \<in> set checks. vc_relevant_authority c \<noteq> None"
    and "\<And>c r. c \<in> set checks \<Longrightarrow> vr_run_id r = ni_run_id n \<Longrightarrow>
      va_project_id (vr_authority r) = ix_project_id (ni_source_index n) \<Longrightarrow>
      va_policy (vr_authority r) = policy \<Longrightarrow>
      va_config_fingerprint (vr_authority r) = ni_config_fingerprint n \<Longrightarrow>
      va_project_source_fingerprint (vr_authority r) = ix_project_source_fingerprint (ni_source_index n) \<Longrightarrow>
      va_projected_graph_fingerprint (vr_authority r) = pg_graph_fingerprint (ni_projected_graph n) \<Longrightarrow>
      va_applicability_fingerprint (vr_authority r) = ap_applicability_fingerprint (ni_applicability n) \<Longrightarrow>
      rl_catalog_fingerprint (va_razorpay_rules (vr_authority r)) = razorpay_rule_catalog_fingerprint \<Longrightarrow>
      check_check_authority r c = None"
  shows "\<exists>run. assemble_run n policy semantic checks = Inr run"
proof -
  obtain rules where rules: "rule_snapshot_of (concat (map vc_razorpay_rule_ids checks)) = Inr rules"
    "rl_catalog_fingerprint rules = razorpay_rule_catalog_fingerprint"
    "map rn_rule_id (rl_referenced_rules rules) =
       sort_key rule_id_value (remdups (concat (map vc_razorpay_rule_ids checks)))"
    using rule_snapshot_total by blast
  have rule_set: "set (map rn_rule_id (rl_referenced_rules rules)) = set (concat (map vc_razorpay_rule_ids checks))"
    unfolding rules(3) by simp
  have e4: "e4_checks checks = []" using assms(8) by (auto simp: e4_checks_def filter_empty_conv)
  have v: "validate_run r = None"
    if "vr_checks r = checks" "vr_schema_version r = 3" "vr_created_at r = ni_created_at n"
      "vr_completed_at r = ni_completed_at n" "vr_run_id r = ni_run_id n"
      "vr_findings r = derive_findings (ni_run_id n) checks" "vr_summary r = summarize_checks checks"
      "va_razorpay_grounding (vr_authority r) = None" "va_razorpay_rules (vr_authority r) = rules"
      "va_schema_versions (vr_authority r) = \<lparr>sv_scenario_execution_result = 3, sv_razorpay_grounding = None\<rparr>"
      "va_runtime_capability_fingerprints (vr_authority r) = run_runtime_fingerprints checks"
      "vr_run_fingerprint r = fingerprint_json (verification_run_fingerprint_payload r)"
      "\<forall>c \<in> set checks. check_check_authority r c = None" for r
    using that assms rule_set
    by (simp add: validate_run_def first_error_None_iff require_run_timezone_def check_run_identity_def
        check_run_schema_def check_run_grounding_def check_run_e4_def e4 check_run_projections_def
        list_ex_iff Let_def)
  have "\<exists>run. construct validate_run (r\<lparr>vr_run_fingerprint :=
      fingerprint_json (verification_run_fingerprint_payload r)\<rparr>) = Inr run"
    if "vr_checks r = checks" "vr_schema_version r = 3" "vr_created_at r = ni_created_at n"
      "vr_completed_at r = ni_completed_at n" "vr_run_id r = ni_run_id n"
      "vr_findings r = derive_findings (ni_run_id n) checks" "vr_summary r = summarize_checks checks"
      "va_razorpay_grounding (vr_authority r) = None" "va_razorpay_rules (vr_authority r) = rules"
      "va_schema_versions (vr_authority r) = \<lparr>sv_scenario_execution_result = 3, sv_razorpay_grounding = None\<rparr>"
      "va_runtime_capability_fingerprints (vr_authority r) = run_runtime_fingerprints checks"
      "\<forall>c \<in> set checks. check_check_authority r c = None" for r
  proof -
    have "check_check_authority (r\<lparr>vr_run_fingerprint := f\<rparr>) c = check_check_authority r c" for f c
      by (simp add: check_check_authority_def check_check_identity_def check_check_reverification_def
          check_check_policy_def)
    then have "validate_run (r\<lparr>vr_run_fingerprint := fingerprint_json (verification_run_fingerprint_payload r)\<rparr>) = None"
      using that by (intro v) (simp_all add: verification_run_fingerprint_payload_def)
    then show ?thesis by simp
  qed
  note made = this
  have capabilities: "construct validate_capabilities a = Inr a"
    if "va_runtime_capability_fingerprints a = run_runtime_fingerprints checks" for a
    using that by (simp add: construct_def validate_capabilities_def run_runtime_fingerprints_def)
  show ?thesis
    unfolding assemble_run_def rules(1) bind_result_simps Let_def
    by (subst capabilities, simp, unfold bind_result_simps, rule made) (use assms rules(2) in simp_all)
qed

lemma offline_checks_built:
  "\<exists>c semantic. semantic_snapshot_of None None None None (offline_graph ''f4'') = Inr semantic \<and>
     build_check read_bytes offline_inputs (policy_snapshot_of offline_applicability) semantic
       [((SG_02, ''i1'', demo_assertion_id), offline_result)]
       ((SG_02, ''i1'', demo_assertion_id), offline_instance, offline_assertion) = Inr c"
proof -
  obtain semantic where semantic: "semantic_snapshot_of None None None None (offline_graph ''f4'') = Inr semantic"
    by (simp add: semantic_snapshot_of_def construct_def validate_resolution_def offline_graph_def)
  obtain d where d: "assertion_definition SG_02 SG02_ASSERTION_KEY = Inr d" "ad_policy_authority d = [DIM_FULFILMENT]"
    "ad_key_policy_dimensions d = []" "distinct (ad_razorpay_rule_ids d)"
    using offline_definition by blast
  obtain evidence where evidence: "applicability_projection offline_assertion = Inr evidence"
    "ae_graph_node_ids evidence = []" "ae_graph_edge_ids evidence = []"
    by (simp add: applicability_projection_def offline_assertion_def all_evidence_def references_of_def
        construct_def validate_collections_def fromkeys_def)
  obtain policy where policy: "check_policy_of [DIM_FULFILMENT] offline_applicability = Inr policy"
    by (simp add: check_policy_of_def construct_def validate_dimensions_def Let_def)
  obtain stable_key where stable_key: "build_verification_check_key (ap_project_id offline_applicability) SG_02
      SG02_ASSERTION_KEY (ad_invariant_id d) (ad_invariant_version d) offline_targets []
      (policy_snapshot_of offline_applicability) = Inr stable_key"
    by (simp add: build_verification_check_key_def verification_check_key_def)
  obtain relevant where relevant: "build_finding_relevant_authority_snapshot read_bytes
      (ni_source_index offline_inputs) (offline_graph ''f4'') offline_applicability offline_assertion
      offline_targets [] [] [] [] policy (ad_invariant_id d) (ad_invariant_version d)
      SG02_DEFINITION_FINGERPRINT (ad_razorpay_rule_ids d) semantic = Inr relevant"
    using offline_relevant[OF d(4)] by blast
  have parts: "ni_applicability offline_inputs = offline_applicability"
    "ni_projected_graph offline_inputs = offline_graph ''f4''" "ni_grounding offline_inputs = None"
    "si_instance_id offline_instance = ''i1''" "aa_key offline_assertion = SG02_ASSERTION_KEY"
    "ap_applicability_fingerprint offline_applicability = ''af''"
    by (simp_all add: offline_inputs_def offline_instance_def offline_assertion_def offline_applicability_def)
  have no_requests: "request_projection offline_result roles = Inr []" for roles
    by (simp add: request_projection_def offline_result_fields)
  have lists: "graph_nodes_of evidence offline_targets = []" "graph_edges_of evidence offline_targets = []"
    "source_references ix g [] = []" for ix g
    using evidence by (simp_all add: graph_nodes_of_def graph_edges_of_def offline_targets_def map_filter_simps
        sorted_set_def source_references_def canonical_order_def)
  have promoted: "promote None SG_02 offline_result = Inr (None, None)"
    by (simp add: promote_def offline_result_fields)
  have "cp_dimensions policy = [DIM_FULFILMENT]" using policy by (auto simp: check_policy_of_def Let_def)
  then have "\<exists>c. build_check read_bytes offline_inputs (policy_snapshot_of offline_applicability) semantic
       [((SG_02, ''i1'', demo_assertion_id), offline_result)]
       ((SG_02, ''i1'', demo_assertion_id), offline_instance, offline_assertion) = Inr c"
    by (simp add: build_check_def parts d offline_targets_built evidence(1) policy stable_key relevant
        no_requests lists promoted offline_result_fields offline_authority_def definition_fingerprint_of_def
        construct_def validate_runtime_evidence_def validate_check_def validate_tier_def verified_state_def
        validate_check_grounding_def sorted_set_def Let_def)
  with semantic show ?thesis by blast
qed

lemma offline_run_built: "\<exists>run. build_verification_run read_bytes offline_inputs = Inr run \<and> vr_checks run \<noteq> []"
proof -
  obtain c semantic where semantic: "semantic_snapshot_of None None None None (offline_graph ''f4'') = Inr semantic"
    and built: "build_check read_bytes offline_inputs (policy_snapshot_of offline_applicability) semantic
       [((SG_02, ''i1'', demo_assertion_id), offline_result)]
       ((SG_02, ''i1'', demo_assertion_id), offline_instance, offline_assertion) = Inr c"
    using offline_checks_built by blast
  have parts: "ni_applicability offline_inputs = offline_applicability" "ni_results offline_inputs = [offline_result]"
    "ni_projected_graph offline_inputs = offline_graph ''f4''" "ni_grounding offline_inputs = None"
    "ni_resolution offline_inputs = None" "ni_resolution_fingerprint offline_inputs = None"
    "ni_artifact_context offline_inputs = None" "ni_configured_context offline_inputs = None"
    "ni_created_at offline_inputs = demo_stamp" "ni_completed_at offline_inputs = demo_stamp"
    "ap_project_id offline_applicability = ix_project_id (ni_source_index offline_inputs)"
    by (simp_all add: offline_inputs_def offline_applicability_def demo_draft_def demo_index_def demo_draft_index_def)
  have canonical: "assertion_id (si_instance_id offline_instance) (aa_key offline_assertion) =
      Inr (aa_assertion_id offline_assertion)"
    by (simp add: offline_instance_def offline_assertion_def assertion_id_def demo_assertion_id_def demo_key_text)
  obtain r g where r: "map_of [((SG_02, ''i1'', demo_assertion_id), offline_result)] (SG_02, ''i1'', demo_assertion_id) = Some r"
    and key: "check_key_of c = (SG_02, si_instance_id offline_instance, aa_assertion_id offline_assertion)"
    and tier: "promote (ni_grounding offline_inputs) SG_02 r = Inr (vc_evidence_tier c, g)"
    using build_check_Inr[OF built] unfolding fst_conv by blast
  have no_tier: "vc_evidence_tier c = None"
    using r tier by (simp add: promote_def offline_result_fields)
  have "vc_assertion_key c = SG02_ASSERTION_KEY"
    using built_check_relevant(2)[OF built] by (simp add: offline_assertion_def)
  moreover obtain k where "assertion_order SG_02 SG02_ASSERTION_KEY = Inr k"
    using offline_definition assertion_order_total by blast
  ultimately have ordered: "order_checks [c] = Inr [c]"
    using key by (simp add: order_checks_def check_position_def check_key_of_def)
  have "\<exists>run. assemble_run offline_inputs (policy_snapshot_of offline_applicability) semantic [c] = Inr run"
  proof (rule assemble_ungrounded)
    show "\<forall>c \<in> set [c]. vc_relevant_authority c \<noteq> None"
      using built_check_relevant(1)[OF built] by simp
    show "check_check_authority r c' = None"
      if "c' \<in> set [c]" "vr_run_id r = ni_run_id offline_inputs"
        "va_project_id (vr_authority r) = ix_project_id (ni_source_index offline_inputs)"
        "va_policy (vr_authority r) = policy_snapshot_of offline_applicability"
        "va_config_fingerprint (vr_authority r) = ni_config_fingerprint offline_inputs"
        "va_project_source_fingerprint (vr_authority r) = ix_project_source_fingerprint (ni_source_index offline_inputs)"
        "va_projected_graph_fingerprint (vr_authority r) = pg_graph_fingerprint (ni_projected_graph offline_inputs)"
        "va_applicability_fingerprint (vr_authority r) = ap_applicability_fingerprint (ni_applicability offline_inputs)"
        "rl_catalog_fingerprint (va_razorpay_rules (vr_authority r)) = razorpay_rule_catalog_fingerprint" for c' r
      using built_check_authority[OF built[folded parts(1)] canonical that(2)] that parts by simp
  qed (use no_tier parts in \<open>simp_all add: demo_stamp_def\<close>)
  then obtain run where run: "assemble_run offline_inputs (policy_snapshot_of offline_applicability) semantic [c] = Inr run"
    by blast
  have "build_verification_run read_bytes offline_inputs = Inr run"
    by (simp add: build_verification_run_def offline_guards parts offline_authorities offline_results
        semantic built ordered run Let_def)
  moreover have "vr_checks run = [c]" by (rule assemble_run_Inr(1)[OF run])
  ultimately show ?thesis by (intro exI[of _ run]) simp
qed

section \<open>Witnesses\<close>

theorem normalization_keeps_every_verdict_witness:
  "\<exists>run. build_verification_run (\<lambda>_. None) offline_inputs = Inr run \<and>
     mset (map (\<lambda>c. (check_key_of c, vc_result c, vc_reason c, vc_scenario_result_fingerprint c)) (vr_checks run))
       = {#(result_key offline_result, sx_result offline_result, sx_reason offline_result,
            sx_result_fingerprint offline_result)#}"
proof -
  obtain run where run: "build_verification_run (\<lambda>_. None) offline_inputs = Inr run"
    using offline_run_built by blast
  show ?thesis
    using run normalization_keeps_every_verdict[OF run] by (intro exI[of _ run]) (simp add: offline_inputs_def)
qed

theorem normalization_promotes_only_grounded_witness:
  "\<exists>run c. build_verification_run (\<lambda>_. None) offline_inputs = Inr run \<and> c \<in> set (vr_checks run) \<and>
     vc_evidence_tier c = None"
proof -
  obtain run where run: "build_verification_run (\<lambda>_. None) offline_inputs = Inr run" "vr_checks run \<noteq> []"
    using offline_run_built by blast
  then obtain c where c: "c \<in> set (vr_checks run)" by (cases "vr_checks run") auto
  have "vc_evidence_tier c = None"
    using normalization_promotes_only_grounded[OF run(1) c] by (simp add: offline_inputs_def offline_result_fields)
  with run c show ?thesis by blast
qed

theorem gate_blocks_failed_results_witness:
  "\<exists>run g. build_verification_run (\<lambda>_. None) offline_inputs = Inr run \<and> evaluate_ci_gate run = Inr g \<and>
     gt_exit_code g \<noteq> 1"
proof -
  obtain run where run: "build_verification_run (\<lambda>_. None) offline_inputs = Inr run"
    using offline_run_built by blast
  show ?thesis
    using gate_blocks_failed_results[OF run] run by (auto simp: offline_inputs_def offline_result_fields)
qed

theorem build_ignores_result_order_witness:
  "\<exists>run. build_verification_run (\<lambda>_. None) (offline_inputs\<lparr>ni_results := [offline_result]\<rparr>) = Inr run"
proof -
  obtain run where run: "build_verification_run (\<lambda>_. None) offline_inputs = Inr run"
    using offline_run_built by blast
  have "mset [offline_result] = mset (ni_results offline_inputs)" by (simp add: offline_inputs_def)
  then show ?thesis using build_ignores_result_order[OF run] by blast
qed

end
