(* ===== verification/Engine.thy ===== *)
theory Engine
  imports Normalization
begin

text \<open>
  \<open>applicability/engine.py\<close>: how the applicability artifact is derived from the projected
  safety graph, the customer-value resolution and the configured merchant policy.  The engine
  finds the normal controls (an ingress calling the selected customer-value action), assesses
  the merchant policy against the payment-state branches in front of the target, and decides
  for each of the eight scenarios which assertions apply to which control.
  \<open>isinstance(node.details, X)\<close> is a partial projection \<open>as_x\<close>; \<open>nodes\<close> is the dictionary of
  the graph's nodes by identity.
\<close>

section \<open>Policy composition\<close>

definition customer_value_allowed ::
  "fulfilment_policy \<Rightarrow> late_authorisation_policy \<Rightarrow> bool \<Rightarrow> string \<Rightarrow> bool" where
  "customer_value_allowed fulfilment late_authorisation payment_is_late_authorised payment_state =
     (if payment_is_late_authorised \<and> late_authorisation = DO_NOT_FULFIL then False
      else let normalized = remove_prefix ''payment.'' (casefold (strip payment_state))
           in if fulfilment = CAPTURE_REQUIRED then normalized = ''captured''
              else normalized \<in> {''authorized'', ''captured''})"

section \<open>Node details\<close>

definition as_ingress :: "graph_node \<Rightarrow> payment_ingress_details option" where
  "as_ingress n = (case gn_details n of Some (PaymentIngressDetails d) \<Rightarrow> Some d | _ \<Rightarrow> None)"

definition as_trust_gate :: "graph_node \<Rightarrow> trust_gate_details option" where
  "as_trust_gate n = (case gn_details n of Some (TrustGateDetails d) \<Rightarrow> Some d | _ \<Rightarrow> None)"

definition as_state_gate :: "graph_node \<Rightarrow> payment_state_gate_details option" where
  "as_state_gate n = (case gn_details n of Some (PaymentStateGateDetails d) \<Rightarrow> Some d | _ \<Rightarrow> None)"

definition as_mutation :: "graph_node \<Rightarrow> merchant_state_mutation_details option" where
  "as_mutation n = (case gn_details n of Some (MerchantStateMutationDetails d) \<Rightarrow> Some d | _ \<Rightarrow> None)"

definition as_acknowledgement :: "graph_node \<Rightarrow> acknowledgement_boundary_details option" where
  "as_acknowledgement n =
     (case gn_details n of Some (AcknowledgementBoundaryDetails d) \<Rightarrow> Some d | _ \<Rightarrow> None)"

fun details_route :: "node_details \<Rightarrow> string" where
  "details_route (PaymentIngressDetails d) = er_route_registration_id (pi_registration d)"
| "details_route (TrustGateDetails d) = tg_route_registration_id d"
| "details_route (EventIdentityGuardDetails d) = eg_route_registration_id d"
| "details_route (PaymentStateGateDetails d) = sg_route_registration_id d"
| "details_route (MerchantStateMutationDetails d) = mm_route_registration_id d"
| "details_route (AcknowledgementBoundaryDetails d) = ab_route_registration_id d"

definition route_id_for_node :: "graph_node \<Rightarrow> string option" where
  "route_id_for_node n = map_option details_route (gn_details n)"

definition graph_lookup :: "safety_graph \<Rightarrow> string \<Rightarrow> graph_node option" where
  "graph_lookup g = dict_by gn_node_id (pg_nodes g)"

section \<open>Evidence and reasons\<close>

definition evidence_ref :: "evidence_reference_kind \<Rightarrow> string \<Rightarrow> evidence_reference" where
  "evidence_ref kind reference = \<lparr>ev_ref_kind = kind, ev_ref_reference = reference\<rparr>"

definition reason :: "applicability_reason_code \<Rightarrow> evidence_reference list \<Rightarrow> applicability_reason list" where
  "reason code evidence = [\<lparr>rs_code = code, rs_evidence = evidence\<rparr>]"

type_synonym judgement = "applicability_state \<times> applicability_reason list"

section \<open>Normal controls\<close>

definition call_path_of :: "graph_edge \<Rightarrow> string list" where
  "call_path_of e = filter (starts_with ''call-site:'') (map pr_reference (ge_provenance e))"

text \<open>
  One iteration of the loop over the edges; \<open>None\<close> is its \<open>continue\<close>.
\<close>

definition normal_control_of_edge ::
  "(string \<Rightarrow> graph_node option) \<Rightarrow> string \<Rightarrow> string \<Rightarrow> graph_edge \<Rightarrow> normal_control option result" where
  "normal_control_of_edge nodes symbol resolution_fp e =
     (case (nodes (ge_source_node_id e), nodes (ge_target_node_id e)) of
        (Some source, Some target) \<Rightarrow>
          (case as_ingress source of
             None \<Rightarrow> Inr None
           | Some d \<Rightarrow>
               if ge_kind e \<noteq> CALLS \<or> gn_kind target \<noteq> CUSTOMER_VALUE_ACTION \<or>
                  gn_backing_symbol_id target \<noteq> Some symbol \<or> call_path_of e = []
               then Inr None
               else let route = er_route_registration_id (pi_registration d)
                    in bind_result (normal_control_id
                         ([gn_node_id source, route, gn_node_id target, symbol, ge_edge_id e] @
                          call_path_of e @ [resolution_fp])) (\<lambda>control_id.
                       Inr (Some \<lparr>nc_control_id = control_id, nc_ingress_node_id = gn_node_id source,
                         nc_route_registration_id = route, nc_ingress_kind = pi_ingress_kind d,
                         nc_customer_value_node_id = gn_node_id target,
                         nc_customer_value_symbol_id = symbol,
                         nc_connectivity_edge_id = ge_edge_id e,
                         nc_call_path_references = call_path_of e,
                         nc_semantic_resolution_fingerprint = resolution_fp\<rparr>)))
      | _ \<Rightarrow> Inr None)"

definition normal_controls ::
  "safety_graph \<Rightarrow> value_resolution option \<Rightarrow> string option \<Rightarrow> normal_control list result" where
  "normal_controls g resolution resolution_fp =
     (case (resolution, resolution_fp) of
        (Some r, Some fp) \<Rightarrow>
          (case vx_selected_symbol_id r of
             Some symbol \<Rightarrow>
               if vx_state r \<noteq> RESOLUTION_UNIQUE then Inr []
               else bind_result (traverse (normal_control_of_edge (graph_lookup g) symbol fp) (pg_edges g))
                      (\<lambda>found. Inr (canonical_order normal_control_json (List.map_filter id found)))
           | None \<Rightarrow> Inr [])
      | _ \<Rightarrow> Inr [])"

definition relevant_diagnostics :: "safety_graph \<Rightarrow> normal_control list \<Rightarrow> graph_diagnostic list" where
  "relevant_diagnostics g controls =
     filter (\<lambda>d. gd_impact d = COVERAGE_REDUCED \<and>
       gd_route_registration_id d \<in> Some ` set (map nc_route_registration_id controls)) (pg_diagnostics g)"

section \<open>The policy assessment\<close>

definition policy_control_evidence :: "normal_control \<Rightarrow> json" where
  "policy_control_evidence c = JObj
     [(''ingress_node_id'', JStr (nc_ingress_node_id c)),
      (''route_registration_id'', JStr (nc_route_registration_id c)),
      (''ingress_kind'', JStr (payment_ingress_kind_value (nc_ingress_kind c))),
      (''customer_value_node_id'', JStr (nc_customer_value_node_id c)),
      (''customer_value_symbol_id'', JStr (nc_customer_value_symbol_id c)),
      (''call_path_references'', jstrs (nc_call_path_references c))]"

definition policy_state_edge_evidence ::
  "(string \<Rightarrow> graph_node option) \<Rightarrow> graph_edge \<Rightarrow> json result" where
  "policy_state_edge_evidence nodes e =
     (case nodes (ge_source_node_id e) of
        None \<Rightarrow> Inl KeyError
      | Some source \<Rightarrow>
          (case ge_branch e of
             None \<Rightarrow> Inl (AssertionError [])
           | Some b \<Rightarrow> Inr (JObj
               [(''source_node_id'', JStr (ge_source_node_id e)),
                (''route_registration_id'', jopt JStr (route_id_for_node source)),
                (''target_node_id'', JStr (ge_target_node_id e)),
                (''disposition'', JStr (branch_disposition_value (br_disposition b))),
                (''states'', jstrs (sort (br_states b))),
                (''provenance'', JArr (map (\<lambda>r. JObj
                   [(''kind'', JStr (provenance_kind_value (pr_kind r))),
                    (''reference'', JStr (pr_reference r))]) (ge_provenance e)))])))"

definition policy_diagnostic_evidence :: "graph_diagnostic \<Rightarrow> json" where
  "policy_diagnostic_evidence d = JObj
     [(''code'', JStr (graph_diagnostic_code_value (gd_code d))),
      (''impact'', JStr (graph_diagnostic_impact_value (gd_impact d))),
      (''candidate_kind'', jopt (JStr \<circ> graph_candidate_kind_value) (gd_candidate_kind d)),
      (''reason'', jopt (JStr \<circ> graph_diagnostic_reason_value) (gd_reason d)),
      (''symbol_id'', jopt JStr (gd_symbol_id d)),
      (''route_registration_id'', jopt JStr (gd_route_registration_id d))]"

definition policy_webhook_evidence :: "graph_node \<Rightarrow> json result" where
  "policy_webhook_evidence n =
     (case as_ingress n of
        None \<Rightarrow> Inl (AssertionError [])
      | Some d \<Rightarrow> Inr (JObj
          [(''node_id'', JStr (gn_node_id n)),
           (''route_registration_id'', JStr (er_route_registration_id (pi_registration d))),
           (''method'', JStr (er_method (pi_registration d))),
           (''effective_path'', JStr (er_effective_path (pi_registration d))),
           (''ingress_kind'', JStr (payment_ingress_kind_value (pi_ingress_kind d)))]))"

definition matched_branch :: "graph_edge \<Rightarrow> bool" where
  "matched_branch e \<longleftrightarrow> ge_kind e = BRANCHES_TO \<and>
     (case ge_branch e of None \<Rightarrow> False | Some b \<Rightarrow> br_disposition b = MATCHED)"

definition source_route :: "(string \<Rightarrow> graph_node option) \<Rightarrow> graph_edge \<Rightarrow> string option" where
  "source_route nodes e = Option.bind (nodes (ge_source_node_id e)) route_id_for_node"

definition policy_state_edges :: "safety_graph \<Rightarrow> normal_control list \<Rightarrow> graph_edge list" where
  "policy_state_edges g controls = filter (\<lambda>e. matched_branch e \<and>
       ge_target_node_id e \<in> set (map nc_customer_value_node_id controls) \<and>
       source_route (graph_lookup g) e \<in> Some ` set (map nc_route_registration_id controls)) (pg_edges g)"

text \<open>The states of a branch without their \<open>payment.\<close> prefix, and those of them policies speak of.\<close>

definition branch_states :: "graph_edge \<Rightarrow> string list" where
  "branch_states e = (case ge_branch e of None \<Rightarrow> [] | Some b \<Rightarrow> map (remove_prefix ''payment.'') (br_states b))"

definition policy_states :: "graph_edge \<Rightarrow> string list" where
  "policy_states e = filter (\<lambda>s. s \<in> {''authorized'', ''captured''}) (branch_states e)"

definition observed_states :: "graph_edge list \<Rightarrow> string list" where
  "observed_states edges = sorted_set (concat (map policy_states edges))"

text \<open>
  The dictionary \<open>states_by_route\<close> has exactly the routes of the controls as keys, because the
  state edges were selected by these routes; its entry for a route is the set of these states.
\<close>

definition states_by_route :: "safety_graph \<Rightarrow> graph_edge list \<Rightarrow> string \<Rightarrow> string list" where
  "states_by_route g edges route =
     concat (map policy_states (filter (\<lambda>e. source_route (graph_lookup g) e = Some route) edges))"

definition evidence_status_of ::
  "safety_graph \<Rightarrow> normal_control list \<Rightarrow> policy_evidence_status \<times> fulfilment_policy option" where
  "evidence_status_of g controls =
     (let edges = policy_state_edges g controls; observed = observed_states edges
      in if relevant_diagnostics g controls \<noteq> [] \<or> controls = [] \<or> observed = [] \<or>
            list_ex (\<lambda>r. states_by_route g edges r = []) (map nc_route_registration_id controls)
         then (INSUFFICIENT_EVIDENCE, None)
         else if observed = [''captured''] then (CONSISTENT_SUGGESTION, Some CAPTURE_REQUIRED)
         else if observed = [''authorized''] then (CONSISTENT_SUGGESTION, Some AUTHORIZED_ALLOWED)
         else (CONFLICTING_EVIDENCE, None))"

definition fulfilment_evidence_fingerprint :: "safety_graph \<Rightarrow> normal_control list \<Rightarrow> string result" where
  "fulfilment_evidence_fingerprint g controls =
     bind_result (razorpay_rule_fingerprint CAPTURE_BEFORE_FULFILMENT) (\<lambda>rule_fp.
     bind_result (traverse (policy_state_edge_evidence (graph_lookup g)) (policy_state_edges g controls))
       (\<lambda>edges. Inr (fingerprint_json (JObj
          [(''rules'', JObj [(rule_id_value CAPTURE_BEFORE_FULFILMENT, JStr rule_fp)]),
           (''controls'', JArr (map policy_control_evidence controls)),
           (''state_edges'', JArr edges),
           (''diagnostics'', JArr (map policy_diagnostic_evidence (relevant_diagnostics g controls)))]))))"

definition is_webhook_control :: "normal_control \<Rightarrow> bool" where
  "is_webhook_control c \<longleftrightarrow> nc_ingress_kind c = WEBHOOK"

definition is_ingress_of_kind :: "payment_ingress_kind \<Rightarrow> graph_node \<Rightarrow> bool" where
  "is_ingress_of_kind k n = (case as_ingress n of None \<Rightarrow> False | Some d \<Rightarrow> pi_ingress_kind d = k)"

definition late_evidence_fingerprint :: "safety_graph \<Rightarrow> normal_control list \<Rightarrow> string result" where
  "late_evidence_fingerprint g controls =
     (let webhook_controls = filter is_webhook_control controls;
          webhook_nodes = filter (\<lambda>n. is_ingress_of_kind WEBHOOK n \<and>
            gn_node_id n \<in> set (map nc_ingress_node_id webhook_controls)) (pg_nodes g);
          webhook_edges = filter (\<lambda>e. source_route (graph_lookup g) e \<in>
            Some ` set (map nc_route_registration_id webhook_controls)) (policy_state_edges g controls)
      in bind_result (razorpay_rule_fingerprint LATE_AUTHORISATION_BUSINESS_POLICY) (\<lambda>rule_fp.
         bind_result (traverse policy_webhook_evidence webhook_nodes) (\<lambda>nodes.
         bind_result (traverse (policy_state_edge_evidence (graph_lookup g)) webhook_edges) (\<lambda>edges.
           Inr (fingerprint_json (JObj
             [(''rules'', JObj [(rule_id_value LATE_AUTHORISATION_BUSINESS_POLICY, JStr rule_fp)]),
              (''webhook_controls'', JArr (map policy_control_evidence webhook_controls)),
              (''webhook_nodes'', JArr nodes), (''state_edges'', JArr edges),
              (''diagnostics'', JArr (map policy_diagnostic_evidence
                 (relevant_diagnostics g webhook_controls)))]))))))"

definition configured_fulfilment :: "merchant_policy_config option \<Rightarrow> confirmed_fulfilment option" where
  "configured_fulfilment configured = Option.bind configured mp_fulfilment"

definition configured_late :: "merchant_policy_config option \<Rightarrow> confirmed_late_authorisation option" where
  "configured_late configured = Option.bind configured mp_late_authorisation"

definition policy_assessment_of ::
  "merchant_policy_config option \<Rightarrow> safety_graph \<Rightarrow> normal_control list \<Rightarrow> policy_assessment result" where
  "policy_assessment_of configured g controls =
     (let (status, suggestion) = evidence_status_of g controls;
          confirmed = map_option cf_value (configured_fulfilment configured)
      in bind_result (fulfilment_evidence_fingerprint g controls) (\<lambda>fulfilment_fp.
         bind_result (late_evidence_fingerprint g controls) (\<lambda>late_fp.
         bind_result (construct validate_assessment
           \<lparr>fa_evidence_status = status, fa_evidence_fingerprint = fulfilment_fp,
            fa_observed_states = observed_states (policy_state_edges g controls),
            fa_suggested_policy = suggestion, fa_confirmed_policy = confirmed,
            fa_evidence_current = map_option (\<lambda>c. cf_evidence_fingerprint c = fulfilment_fp)
              (configured_fulfilment configured),
            fa_implementation_mismatch =
              (confirmed \<noteq> None \<and> suggestion \<noteq> None \<and> confirmed \<noteq> suggestion)\<rparr>) (\<lambda>f.
         bind_result (construct validate_confirmation
           \<lparr>la_evidence_fingerprint = late_fp,
            la_confirmed_policy = map_option cl_value (configured_late configured),
            la_evidence_current = map_option (\<lambda>c. cl_evidence_fingerprint c = late_fp)
              (configured_late configured)\<rparr>) (\<lambda>l.
         Inr \<lparr>pa_fulfilment = f, pa_late_authorisation = l\<rparr>)))))"

section \<open>Assertions, instances and scenarios\<close>

definition assertion_for ::
  "string \<Rightarrow> string \<Rightarrow> assertion_role \<Rightarrow> judgement \<Rightarrow> normal_control option \<Rightarrow>
   assertion_applicability result" where
  "assertion_for instance_id key role j control =
     bind_result (assertion_id instance_id key) (\<lambda>aid. Inr
       \<lparr>aa_assertion_id = aid, aa_key = key, aa_role = role, aa_state = fst j, aa_reasons = snd j,
        aa_normal_control_id = map_option nc_control_id control\<rparr>)"

text \<open>
  \<open>_instance\<close> together with the identity its caller derived for the assertions: both call
  \<open>scenario_instance_id\<close> with the scenario and the same discriminator.  An assertion is given by
  its key, its role, its judgement and the control it depends on.
\<close>

type_synonym assertion_spec = "string \<times> assertion_role \<times> judgement \<times> normal_control option"

definition instance_for ::
  "scenario_id \<Rightarrow> string \<Rightarrow> assertion_spec list \<Rightarrow> graph_node option \<Rightarrow> normal_control option \<Rightarrow>
   scenario_instance result" where
  "instance_for scenario discriminator specs ingress control =
     bind_result (scenario_instance_id (scenario_id_value scenario) [discriminator]) (\<lambda>iid.
     bind_result (traverse (\<lambda>(key, role, j, c). assertion_for iid key role j c) specs) (\<lambda>assertions.
     bind_result (roll_up_assertions assertions) (\<lambda>state.
     construct validate_instance
       \<lparr>si_instance_id = iid, si_state = state, si_ingress_node_id = map_option gn_node_id ingress,
        si_normal_control_id = map_option nc_control_id control,
        si_route_registration_id = map_option nc_route_registration_id control,
        si_customer_value_node_id = map_option nc_customer_value_node_id control,
        si_customer_value_symbol_id = map_option nc_customer_value_symbol_id control,
        si_assertions = assertions\<rparr>)))"

definition scenario_for :: "scenario_id \<Rightarrow> scenario_instance list \<Rightarrow> scenario_applicability result" where
  "scenario_for scenario instances =
     bind_result (roll_up_assertions (concat (map si_assertions instances))) (\<lambda>state.
     construct validate_scenario
       \<lparr>sc_scenario_id = scenario, sc_state = state, sc_instances = instances\<rparr>)"

text \<open>The instance of a control: its ingress is \<open>nodes[control.ingress_node_id]\<close>.\<close>

definition control_instance ::
  "safety_graph \<Rightarrow> scenario_id \<Rightarrow> normal_control \<Rightarrow> assertion_spec list \<Rightarrow> scenario_instance result" where
  "control_instance g scenario c specs =
     (case graph_lookup g (nc_ingress_node_id c) of
        None \<Rightarrow> Inl KeyError
      | Some ingress \<Rightarrow> instance_for scenario (nc_control_id c) specs (Some ingress) (Some c))"

text \<open>The instance \<open>"catalog"\<close> stands for a scenario no control or ingress instantiates.\<close>

definition catalog_instance :: "scenario_id \<Rightarrow> string \<Rightarrow> judgement \<Rightarrow> scenario_instance result" where
  "catalog_instance scenario key j = instance_for scenario ''catalog'' [(key, CORE, j, None)] None None"

definition with_fallback ::
  "scenario_id \<Rightarrow> scenario_instance list result \<Rightarrow> scenario_instance result \<Rightarrow>
   scenario_applicability result" where
  "with_fallback scenario instances fallback =
     bind_result instances (\<lambda>xs.
       if xs = [] then bind_result fallback (\<lambda>x. scenario_for scenario [x])
       else scenario_for scenario xs)"

section \<open>Judgements\<close>

definition fallback_state ::
  "safety_graph \<Rightarrow> value_resolution option \<Rightarrow> graph_node list \<Rightarrow> judgement" where
  "fallback_state g resolution ingresses =
     (if ingresses = []
      then (if pg_completeness g = PARTIAL
            then (INDETERMINATE, reason AR_GRAPH_COVERAGE_INSUFFICIENT [])
            else (NOT_APPLICABLE, reason AR_INGRESS_ABSENT []))
      else if map_option vx_state resolution \<noteq> Some RESOLUTION_UNIQUE
      then (NEEDS_INPUT, reason AR_CUSTOMER_VALUE_UNRESOLVED [])
      else if pg_completeness g = PARTIAL
      then (INDETERMINATE, reason AR_GRAPH_COVERAGE_INSUFFICIENT [])
      else (NOT_APPLICABLE, reason AR_CUSTOMER_VALUE_PATH_ABSENT []))"

definition policy_state :: "policy_assessment \<Rightarrow> normal_control \<Rightarrow> judgement" where
  "policy_state policy c =
     (if fa_confirmed_policy (pa_fulfilment policy) = None
      then (NEEDS_INPUT, reason AR_FULFILMENT_POLICY_REQUIRED [])
      else if fa_evidence_current (pa_fulfilment policy) \<noteq> Some True
      then (NEEDS_INPUT, reason AR_FULFILMENT_POLICY_STALE [])
      else (APPLICABLE, reason AR_EXACT_CONTROL_AVAILABLE
             [evidence_ref EV_NORMAL_CONTROL (nc_control_id c)]))"

definition control_state_edges :: "safety_graph \<Rightarrow> normal_control \<Rightarrow> graph_edge list" where
  "control_state_edges g c = filter (\<lambda>e. matched_branch e \<and>
       ge_target_node_id e = nc_customer_value_node_id c \<and>
       source_route (graph_lookup g) e = Some (nc_route_registration_id c)) (pg_edges g)"

definition captured_branch :: "graph_edge \<Rightarrow> bool" where
  "captured_branch e \<longleftrightarrow> ''captured'' \<in> set (branch_states e)"

definition captured_control_edges :: "safety_graph \<Rightarrow> normal_control \<Rightarrow> graph_edge list" where
  "captured_control_edges g c = filter captured_branch (control_state_edges g c)"

definition is_post_webhook :: "graph_node \<Rightarrow> bool" where
  "is_post_webhook n = (case as_ingress n of
      None \<Rightarrow> False
    | Some d \<Rightarrow> pi_ingress_kind d = WEBHOOK \<and> er_method (pi_registration d) = ''POST'')"

definition captured_webhook_control_evidence ::
  "safety_graph \<Rightarrow> normal_control \<Rightarrow> evidence_reference list option" where
  "captured_webhook_control_evidence g c =
     (case graph_lookup g (nc_ingress_node_id c) of
        None \<Rightarrow> None
      | Some ingress \<Rightarrow>
          if \<not> is_post_webhook ingress \<or> relevant_diagnostics g [c] \<noteq> [] then None
          else if captured_control_edges g c = [] then None
          else Some (evidence_ref EV_NORMAL_CONTROL (nc_control_id c) #
            concat (map (\<lambda>e. [evidence_ref EV_GRAPH_NODE (ge_source_node_id e),
                              evidence_ref EV_GRAPH_EDGE (ge_edge_id e)])
              (captured_control_edges g c))))"

definition normal_capture_state ::
  "safety_graph \<Rightarrow> policy_assessment \<Rightarrow> normal_control \<Rightarrow> judgement" where
  "normal_capture_state g policy c =
     (if fst (policy_state policy c) \<noteq> APPLICABLE then policy_state policy c
      else if fa_confirmed_policy (pa_fulfilment policy) \<noteq> Some CAPTURE_REQUIRED
      then (INDETERMINATE, reason AR_NORMAL_CAPTURE_THRESHOLD_UNPROVEN [])
      else case captured_webhook_control_evidence g c of
             None \<Rightarrow> (INDETERMINATE, reason AR_NORMAL_CAPTURE_THRESHOLD_UNPROVEN [])
           | Some evidence \<Rightarrow> (APPLICABLE, reason AR_NORMAL_CAPTURE_THRESHOLD_AVAILABLE evidence))"

definition duplicate_capture_state ::
  "safety_graph \<Rightarrow> policy_assessment \<Rightarrow> normal_control \<Rightarrow> judgement" where
  "duplicate_capture_state g policy c =
     (if fst (policy_state policy c) \<noteq> APPLICABLE then policy_state policy c
      else case captured_webhook_control_evidence g c of
             None \<Rightarrow> (INDETERMINATE, reason AR_CAPTURED_EVENT_TARGET_UNPROVEN [])
           | Some evidence \<Rightarrow> (APPLICABLE, reason AR_CAPTURED_EVENT_TARGET_AVAILABLE evidence))"

section \<open>Mutation targets\<close>

text \<open>
  One iteration of the loop of \<open>_regression_mutations_for_control\<close>: the carrier, the assigned
  state and the node the dictionary of dictionaries stores, or nothing.
\<close>

definition regression_entry ::
  "safety_graph \<Rightarrow> normal_control \<Rightarrow> graph_edge \<Rightarrow> (string \<times> string \<times> graph_node) option" where
  "regression_entry g c e =
     (case (graph_lookup g (ge_target_node_id e), graph_lookup g (ge_source_node_id e)) of
        (Some mutation, Some state_gate) \<Rightarrow>
          (case (as_mutation mutation, as_state_gate state_gate) of
             (Some m, Some s) \<Rightarrow>
               if \<not> matched_branch e \<or> mm_route_registration_id m \<noteq> nc_route_registration_id c \<or>
                  sg_route_registration_id s \<noteq> nc_route_registration_id c
               then None
               else (case mm_assigned_payment_state m of
                  None \<Rightarrow> None
                | Some assigned \<Rightarrow>
                    if assigned \<notin> {''authorized'', ''captured''} \<or> assigned \<notin> set (branch_states e)
                    then None else Some (mm_carrier_reference m, assigned, mutation))
           | _ \<Rightarrow> None)
      | _ \<Rightarrow> None)"

text \<open>\<open>mutations_by_carrier[carrier][assigned]\<close>: the last edge that stored it wins.\<close>

definition stored_mutation ::
  "(string \<times> string \<times> graph_node) list \<Rightarrow> string \<Rightarrow> string \<Rightarrow> graph_node option" where
  "stored_mutation entries carrier assigned =
     map_of (rev (map (\<lambda>(c, a, n). ((c, a), n)) entries)) (carrier, assigned)"

text \<open>The mutations of a carrier that is assigned both states.\<close>

definition carrier_mutations ::
  "(string \<times> string \<times> graph_node) list \<Rightarrow> string \<Rightarrow> graph_node list option" where
  "carrier_mutations entries carrier =
     (case (stored_mutation entries carrier ''authorized'', stored_mutation entries carrier ''captured'') of
        (Some a, Some b) \<Rightarrow> Some [a, b] | _ \<Rightarrow> None)"

definition regression_mutations_for_control ::
  "safety_graph \<Rightarrow> normal_control \<Rightarrow> graph_node list" where
  "regression_mutations_for_control g c =
     (let entries = List.map_filter (regression_entry g c) (pg_edges g);
          pairs = List.map_filter (carrier_mutations entries) (fromkeys (map fst entries));
          selected = List.map_filter (dict_by gn_node_id (concat pairs))
            (fromkeys (map gn_node_id (concat pairs)))
      in canonical_order graph_node_json selected)"

definition checkout_protected_mutations :: "safety_graph \<Rightarrow> graph_node \<Rightarrow> graph_node list" where
  "checkout_protected_mutations g ingress =
     (case as_ingress ingress of
        None \<Rightarrow> []
      | Some d \<Rightarrow>
          let route = er_route_registration_id (pi_registration d);
              trust_ids = map gn_node_id (filter (\<lambda>n. case as_trust_gate n of None \<Rightarrow> False
                | Some t \<Rightarrow> tg_route_registration_id t = route \<and>
                    tg_trust_kind t \<in> {CHECKOUT_SIGNATURE_VERIFICATION, SERVER_ORDER_IDENTITY_BINDING})
                (pg_nodes g));
              guarded = map ge_target_node_id (filter (\<lambda>e. ge_kind e = GUARDS \<and>
                ge_source_node_id e \<in> set trust_ids) (pg_edges g))
          in canonical_order graph_node_json (filter (\<lambda>n. case as_mutation n of None \<Rightarrow> False
                | Some m \<Rightarrow> mm_route_registration_id m = route \<and>
                    (gn_node_id n \<in> set guarded \<or> mm_assigned_payment_state m \<noteq> None)) (pg_nodes g)))"

definition gate_states :: "graph_node \<Rightarrow> string \<Rightarrow> string list" where
  "gate_states n route = (case as_state_gate n of None \<Rightarrow> []
    | Some s \<Rightarrow> if sg_route_registration_id s = route
               then map (remove_prefix ''payment.'') (sg_states s) else [])"

definition route_payment_states :: "safety_graph \<Rightarrow> normal_control \<Rightarrow> string set" where
  "route_payment_states g c =
     set (concat (map (\<lambda>n. gate_states n (nc_route_registration_id c)) (pg_nodes g)))"

definition captured_gate_ids :: "safety_graph \<Rightarrow> string \<Rightarrow> normal_control option \<Rightarrow> string set" where
  "captured_gate_ids g route control =
     (case control of
        Some c \<Rightarrow> set (map ge_source_node_id (captured_control_edges g c))
      | None \<Rightarrow> set (map gn_node_id
          (filter (\<lambda>n. ''captured'' \<in> set (gate_states n route)) (pg_nodes g))))"

text \<open>
  The mutation identities form a set, so every node is returned once; sorting by the canonical
  text makes the order in which the set is listed immaterial, here that of the edges.
\<close>

definition captured_path_mutations ::
  "safety_graph \<Rightarrow> graph_node \<Rightarrow> normal_control option \<Rightarrow> graph_node list" where
  "captured_path_mutations g ingress control =
     (case as_ingress ingress of
        None \<Rightarrow> []
      | Some d \<Rightarrow>
          if pi_ingress_kind d \<noteq> WEBHOOK \<or> er_method (pi_registration d) \<noteq> ''POST'' then []
          else
            let route = er_route_registration_id (pi_registration d);
                mutation_ids = remdups (map ge_target_node_id (filter (\<lambda>e.
                  matched_branch e \<and> ge_source_node_id e \<in> captured_gate_ids g route control \<and>
                  captured_branch e \<and>
                  (case Option.bind (graph_lookup g (ge_target_node_id e)) as_mutation of
                     None \<Rightarrow> False | Some m \<Rightarrow> mm_route_registration_id m = route)) (pg_edges g)))
            in canonical_order graph_node_json (List.map_filter (graph_lookup g) mutation_ids))"

section \<open>The scenario catalog\<close>

definition graph_ingresses :: "safety_graph \<Rightarrow> graph_node list" where
  "graph_ingresses g = filter (\<lambda>n. as_ingress n \<noteq> None) (pg_nodes g)"

definition ingresses_of_kind :: "safety_graph \<Rightarrow> payment_ingress_kind \<Rightarrow> graph_node list" where
  "ingresses_of_kind g k = filter (is_ingress_of_kind k) (graph_ingresses g)"

subsection \<open>SG-01 and SG-02\<close>

definition sg01_instance ::
  "safety_graph \<Rightarrow> policy_assessment \<Rightarrow> normal_control \<Rightarrow> scenario_instance result" where
  "sg01_instance g policy c =
     control_instance g SG_01 c [(SG01_ASSERTION_KEY, CORE, normal_capture_state g policy c, Some c)]"

definition sg02_instance ::
  "safety_graph \<Rightarrow> policy_assessment \<Rightarrow> normal_control \<Rightarrow> scenario_instance result" where
  "sg02_instance g policy c =
     control_instance g SG_02 c [(SG02_ASSERTION_KEY, CORE, duplicate_capture_state g policy c, Some c)]"

subsection \<open>SG-03\<close>

definition acknowledgements_after_value :: "safety_graph \<Rightarrow> normal_control \<Rightarrow> graph_edge list" where
  "acknowledgements_after_value g c = filter (\<lambda>e. ge_kind e = ACKNOWLEDGES_AFTER \<and>
       ge_target_node_id e = nc_customer_value_node_id c \<and>
       source_route (graph_lookup g) e = Some (nc_route_registration_id c) \<and>
       (case Option.bind (graph_lookup g (ge_source_node_id e)) as_acknowledgement of
          None \<Rightarrow> False
        | Some a \<Rightarrow> ab_outcome a = SUCCESS_2XX \<and> ab_status_code a \<noteq> None)) (pg_edges g)"

definition sg03_state :: "safety_graph \<Rightarrow> policy_assessment \<Rightarrow> normal_control \<Rightarrow> judgement" where
  "sg03_state g policy c =
     (let base = duplicate_capture_state g policy c
      in if fst base \<noteq> APPLICABLE then base
         else case acknowledgements_after_value g c of
                [ack] \<Rightarrow> (APPLICABLE, reason AR_VALUE_BEFORE_ACK_PROVEN
                  (concat (map rs_evidence (snd base)) @
                   [evidence_ref EV_GRAPH_NODE (ge_source_node_id ack),
                    evidence_ref EV_GRAPH_EDGE (ge_edge_id ack)]))
              | _ \<Rightarrow> (INDETERMINATE, reason AR_ACK_ORDER_UNRESOLVED []))"

definition sg03_instance ::
  "safety_graph \<Rightarrow> policy_assessment \<Rightarrow> normal_control \<Rightarrow> scenario_instance result" where
  "sg03_instance g policy c =
     control_instance g SG_03 c [(SG03_ASSERTION_KEY, CORE, sg03_state g policy c, Some c)]"

subsection \<open>SG-04\<close>

definition sg04_optional_state :: "safety_graph \<Rightarrow> normal_control \<Rightarrow> judgement" where
  "sg04_optional_state g c =
     (let mutations = regression_mutations_for_control g c;
          diagnosed = relevant_diagnostics g [c] \<noteq> [];
          state = (if mutations \<noteq> [] \<and> \<not> diagnosed then APPLICABLE
                   else if diagnosed then INDETERMINATE else NOT_APPLICABLE);
          code = (if mutations \<noteq> [] then AR_STATE_REGRESSION_TARGET_AVAILABLE
                  else if state = INDETERMINATE then AR_STATE_REGRESSION_TARGET_UNRESOLVED
                  else AR_STATE_REGRESSION_TARGET_ABSENT)
      in (state, reason code (map (\<lambda>n. evidence_ref EV_GRAPH_NODE (gn_node_id n)) mutations)))"

definition sg04_instance ::
  "safety_graph \<Rightarrow> policy_assessment \<Rightarrow> normal_control \<Rightarrow> scenario_instance result" where
  "sg04_instance g policy c = control_instance g SG_04 c
     [(SG04_CUSTOMER_VALUE_ASSERTION_KEY, CORE, duplicate_capture_state g policy c, Some c),
      (SG04_STATE_REGRESSION_ASSERTION_KEY, OPTIONAL, sg04_optional_state g c, Some c)]"

subsection \<open>SG-05 and SG-06\<close>

definition route_mutations :: "safety_graph \<Rightarrow> graph_node \<Rightarrow> graph_node list" where
  "route_mutations g ingress = filter (\<lambda>n. case as_mutation n of None \<Rightarrow> False
     | Some m \<Rightarrow> Some (mm_route_registration_id m) = route_id_for_node ingress) (pg_nodes g)"

definition checkout_binding_of :: "graph_node \<Rightarrow> checkout_request_binding option" where
  "checkout_binding_of ingress = Option.bind (as_ingress ingress) pi_checkout_request_binding"

definition trust_value_state ::
  "safety_graph \<Rightarrow> value_resolution option \<Rightarrow> scenario_id \<Rightarrow> graph_node \<Rightarrow> normal_control option \<Rightarrow>
   judgement" where
  "trust_value_state g resolution scenario ingress control =
     (case control of
        None \<Rightarrow> fallback_state g resolution [ingress]
      | Some c \<Rightarrow>
          if scenario = SG_05
          then (case captured_webhook_control_evidence g c of
                  None \<Rightarrow> (INDETERMINATE, reason AR_CAPTURED_EVENT_TARGET_UNPROVEN [])
                | Some evidence \<Rightarrow> (APPLICABLE, reason AR_CAPTURED_EVENT_TARGET_AVAILABLE evidence))
          else if checkout_binding_of ingress = None
          then (INDETERMINATE, reason AR_CHECKOUT_REQUEST_BINDING_UNRESOLVED [])
          else (APPLICABLE, reason AR_CHECKOUT_REQUEST_BINDING_AVAILABLE
                 [evidence_ref EV_NORMAL_CONTROL (nc_control_id c)]))"

definition trust_mutations ::
  "safety_graph \<Rightarrow> scenario_id \<Rightarrow> graph_node \<Rightarrow> normal_control option \<Rightarrow> graph_node list" where
  "trust_mutations g scenario ingress control =
     (if scenario = SG_05 then captured_path_mutations g ingress control
      else checkout_protected_mutations g ingress)"

definition trust_mutation_state ::
  "safety_graph \<Rightarrow> scenario_id \<Rightarrow> graph_node \<Rightarrow> normal_control option \<Rightarrow> judgement" where
  "trust_mutation_state g scenario ingress control =
     (let mutations = trust_mutations g scenario ingress control;
          unbound = (scenario = SG_06 \<and> checkout_binding_of ingress = None);
          state = (if unbound then INDETERMINATE
                   else if mutations \<noteq> [] then APPLICABLE
                   else if pg_completeness g = PARTIAL \<or> route_mutations g ingress \<noteq> []
                   then INDETERMINATE else NOT_APPLICABLE);
          code = (if unbound then AR_CHECKOUT_REQUEST_BINDING_UNRESOLVED
                  else if mutations \<noteq> [] then AR_MUTATION_TARGET_AVAILABLE
                  else AR_MUTATION_TARGET_ABSENT)
      in (state, reason code (map (\<lambda>n. evidence_ref EV_GRAPH_NODE (gn_node_id n))
           (canonical_order graph_node_json mutations))))"

definition trust_discriminator :: "graph_node \<Rightarrow> normal_control option \<Rightarrow> string" where
  "trust_discriminator ingress control =
     (case control of Some c \<Rightarrow> nc_control_id c | None \<Rightarrow> gn_node_id ingress)"

definition trust_instance ::
  "safety_graph \<Rightarrow> value_resolution option \<Rightarrow> scenario_id \<Rightarrow> string \<Rightarrow> string \<Rightarrow>
   graph_node \<times> normal_control option \<Rightarrow> scenario_instance result" where
  "trust_instance g resolution scenario value_key mutation_key target =
     (case target of (ingress, control) \<Rightarrow>
        instance_for scenario (trust_discriminator ingress control)
          [(mutation_key, CORE, trust_mutation_state g scenario ingress control, None),
           (value_key, CORE, trust_value_state g resolution scenario ingress control, control)]
          (Some ingress) control)"

text \<open>Every control of an ingress is a target of it; an ingress without one is a target itself.\<close>

definition trust_targets ::
  "normal_control list \<Rightarrow> graph_node \<Rightarrow> (graph_node \<times> normal_control option) list" where
  "trust_targets controls ingress =
     (let matched = filter (\<lambda>c. nc_ingress_node_id c = gn_node_id ingress) controls
      in if matched = [] then [(ingress, None)] else map (\<lambda>c. (ingress, Some c)) matched)"

definition trust_scenario ::
  "safety_graph \<Rightarrow> value_resolution option \<Rightarrow> normal_control list \<Rightarrow> scenario_id \<Rightarrow> graph_node list \<Rightarrow>
   string \<Rightarrow> string \<Rightarrow> scenario_applicability result" where
  "trust_scenario g resolution controls scenario ingresses value_key mutation_key =
     with_fallback scenario
       (traverse (trust_instance g resolution scenario value_key mutation_key)
         (concat (map (trust_targets controls) ingresses)))
       (catalog_instance scenario value_key (fallback_state g resolution ingresses))"

subsection \<open>SG-07\<close>

definition linked_checkout_controls :: "normal_control list \<Rightarrow> normal_control \<Rightarrow> normal_control list" where
  "linked_checkout_controls controls c = filter (\<lambda>x. nc_ingress_kind x = CHECKOUT_CALLBACK \<and>
     nc_customer_value_node_id x = nc_customer_value_node_id c \<and>
     nc_customer_value_symbol_id x = nc_customer_value_symbol_id c) controls"

definition sg07_state ::
  "safety_graph \<Rightarrow> policy_assessment \<Rightarrow> normal_control list \<Rightarrow> normal_control \<Rightarrow> judgement" where
  "sg07_state g policy controls c =
     (let base = duplicate_capture_state g policy c; linked = linked_checkout_controls controls c
      in if fst base \<noteq> APPLICABLE then base
         else if linked = [] then (INDETERMINATE, reason AR_CHECKOUT_TARGET_LINK_UNRESOLVED [])
         else (APPLICABLE, reason AR_CHECKOUT_TARGET_LINK_AVAILABLE
                (map (\<lambda>x. evidence_ref EV_NORMAL_CONTROL (nc_control_id x)) linked @
                 (case snd base of [] \<Rightarrow> [] | r # _ \<Rightarrow> rs_evidence r))))"

definition sg07_instance ::
  "safety_graph \<Rightarrow> policy_assessment \<Rightarrow> normal_control list \<Rightarrow> normal_control \<Rightarrow> scenario_instance result" where
  "sg07_instance g policy controls c = control_instance g SG_07 c
     [(SG07_CUSTOMER_VALUE_ASSERTION_KEY, CORE, sg07_state g policy controls c, Some c)]"

definition sg07_catalog_state ::
  "safety_graph \<Rightarrow> value_resolution option \<Rightarrow> normal_control list \<Rightarrow> judgement" where
  "sg07_catalog_state g resolution controls =
     (if ingresses_of_kind g CHECKOUT_CALLBACK \<noteq> [] \<and> filter is_webhook_control controls = []
      then fallback_state g resolution (ingresses_of_kind g WEBHOOK)
      else (NOT_APPLICABLE, reason AR_CHECKOUT_SURFACE_REQUIRED []))"

subsection \<open>SG-08\<close>

definition late_policy_spec :: "judgement \<Rightarrow> normal_control \<Rightarrow> assertion_spec" where
  "late_policy_spec j c = (SG08_LATE_POLICY_ASSERTION_KEY, CORE, j, Some c)"

definition sg08_capture_state :: "safety_graph \<Rightarrow> normal_control \<Rightarrow> judgement" where
  "sg08_capture_state g c =
     (case captured_webhook_control_evidence g c of
        None \<Rightarrow> (INDETERMINATE, reason AR_CAPTURED_EVENT_TARGET_UNPROVEN [])
      | Some evidence \<Rightarrow> (APPLICABLE, reason AR_POLICY_MATRIX_SELECTED evidence))"

definition sg08_specs ::
  "safety_graph \<Rightarrow> policy_assessment \<Rightarrow> normal_control \<Rightarrow> assertion_spec list" where
  "sg08_specs g policy c =
     (let f = pa_fulfilment policy; l = pa_late_authorisation policy
      in case (fa_confirmed_policy f, la_confirmed_policy l) of
           (None, _) \<Rightarrow> [late_policy_spec (NEEDS_INPUT, reason AR_FULFILMENT_POLICY_REQUIRED []) c]
         | (Some fulfilment, late) \<Rightarrow>
             if fa_evidence_current f \<noteq> Some True
             then [late_policy_spec (NEEDS_INPUT, reason AR_FULFILMENT_POLICY_STALE []) c]
             else if late = None
             then [late_policy_spec (NEEDS_INPUT, reason AR_LATE_AUTHORISATION_POLICY_REQUIRED []) c]
             else if la_evidence_current l \<noteq> Some True
             then [late_policy_spec (NEEDS_INPUT, reason AR_LATE_AUTHORISATION_POLICY_STALE []) c]
             else if route_payment_states g c = {} \<or> relevant_diagnostics g [c] \<noteq> []
             then [late_policy_spec (INDETERMINATE, reason AR_LATE_SEQUENCE_UNRESOLVED
                    [evidence_ref EV_NORMAL_CONTROL (nc_control_id c)]) c]
             else if fulfilment = CAPTURE_REQUIRED
             then (SG08_PRECAPTURE_ASSERTION_KEY, CORE,
                    (APPLICABLE, reason AR_POLICY_MATRIX_SELECTED []), Some c) #
                  (if late = Some FULFIL_LATER
                   then [(SG08_CAPTURE_ASSERTION_KEY, CORE, sg08_capture_state g c, Some c)] else [])
             else [late_policy_spec (INDETERMINATE, reason AR_MERCHANT_LATE_CONTEXT_UNPROVEN []) c])"

text \<open>The \<open>continue\<close>: a route that distinguishes payment states but not the authorized one.\<close>

definition late_sequence_unsupported :: "safety_graph \<Rightarrow> normal_control \<Rightarrow> bool" where
  "late_sequence_unsupported g c \<longleftrightarrow>
     ''authorized'' \<notin> route_payment_states g c \<and> route_payment_states g c \<noteq> {}"

definition sg08_instance ::
  "safety_graph \<Rightarrow> policy_assessment \<Rightarrow> normal_control \<Rightarrow> scenario_instance result" where
  "sg08_instance g policy c = control_instance g SG_08 c (sg08_specs g policy c)"

definition sg08_catalog_state ::
  "safety_graph \<Rightarrow> value_resolution option \<Rightarrow> normal_control list \<Rightarrow> judgement" where
  "sg08_catalog_state g resolution webhook_controls =
     (if list_ex (late_sequence_unsupported g) webhook_controls \<and> webhook_controls \<noteq> []
      then (NOT_APPLICABLE, reason AR_LATE_SEQUENCE_NOT_SUPPORTED [])
      else fallback_state g resolution (ingresses_of_kind g WEBHOOK))"

subsection \<open>All eight\<close>

definition scenario_of ::
  "safety_graph \<Rightarrow> value_resolution option \<Rightarrow> normal_control list \<Rightarrow> policy_assessment \<Rightarrow>
   scenario_id \<Rightarrow> scenario_applicability result" where
  "scenario_of g resolution controls policy scenario =
     (let webhook_controls = filter is_webhook_control controls;
          webhooks = ingresses_of_kind g WEBHOOK;
          checkouts = ingresses_of_kind g CHECKOUT_CALLBACK;
          missing = (\<lambda>key ingresses.
            catalog_instance scenario key (fallback_state g resolution ingresses))
      in case scenario of
           SG_01 \<Rightarrow> with_fallback SG_01 (traverse (sg01_instance g policy) webhook_controls)
             (missing SG01_ASSERTION_KEY (graph_ingresses g))
         | SG_02 \<Rightarrow> with_fallback SG_02 (traverse (sg02_instance g policy) webhook_controls)
             (missing SG02_ASSERTION_KEY webhooks)
         | SG_03 \<Rightarrow> with_fallback SG_03 (traverse (sg03_instance g policy) webhook_controls)
             (missing SG03_ASSERTION_KEY webhooks)
         | SG_04 \<Rightarrow> with_fallback SG_04 (traverse (sg04_instance g policy) webhook_controls)
             (missing SG04_CUSTOMER_VALUE_ASSERTION_KEY webhooks)
         | SG_05 \<Rightarrow> trust_scenario g resolution controls SG_05 webhooks
             SG05_CUSTOMER_VALUE_ASSERTION_KEY SG05_MUTATION_ASSERTION_KEY
         | SG_06 \<Rightarrow> trust_scenario g resolution controls SG_06 checkouts
             SG06_CUSTOMER_VALUE_ASSERTION_KEY SG06_MUTATION_ASSERTION_KEY
         | SG_07 \<Rightarrow> with_fallback SG_07
             (traverse (sg07_instance g policy controls) (if checkouts = [] then [] else webhook_controls))
             (catalog_instance SG_07 SG07_CUSTOMER_VALUE_ASSERTION_KEY
               (sg07_catalog_state g resolution controls))
         | SG_08 \<Rightarrow> with_fallback SG_08
             (traverse (sg08_instance g policy)
               (filter (\<lambda>c. \<not> late_sequence_unsupported g c) webhook_controls))
             (catalog_instance SG_08 SG08_LATE_POLICY_ASSERTION_KEY
               (sg08_catalog_state g resolution webhook_controls)))"

definition catalog_scenarios ::
  "safety_graph \<Rightarrow> value_resolution option \<Rightarrow> normal_control list \<Rightarrow> policy_assessment \<Rightarrow>
   scenario_applicability list result" where
  "catalog_scenarios g resolution controls policy =
     traverse (scenario_of g resolution controls policy) scenario_ids"

section \<open>The artifact\<close>

definition evaluate_applicability ::
  "merchant_policy_config option \<Rightarrow> source_index \<Rightarrow> safety_graph \<Rightarrow> safety_graph \<Rightarrow>
   value_resolution option \<Rightarrow> string option \<Rightarrow> applicability_artifact result" where
  "evaluate_applicability configured index structural projected resolution resolution_fp =
     bind_result (normal_controls projected resolution resolution_fp) (\<lambda>controls.
     bind_result (policy_assessment_of configured projected controls) (\<lambda>policy.
     bind_result (catalog_scenarios projected resolution controls policy) (\<lambda>scenarios.
     let draft = \<lparr>ap_project_id = ix_project_id index,
           ap_project_source_fingerprint = ix_project_source_fingerprint index,
           ap_source_index_fingerprint = ix_source_index_fingerprint index,
           ap_structural_graph_fingerprint = pg_graph_fingerprint structural,
           ap_projected_graph_fingerprint = pg_graph_fingerprint projected,
           ap_semantic_resolution_fingerprint = resolution_fp, ap_policy = policy,
           ap_normal_controls = controls, ap_scenarios = scenarios,
           ap_applicability_fingerprint = []\<rparr>
     in construct validate_applicability
          (draft\<lparr>ap_applicability_fingerprint := applicability_fingerprint draft\<rparr>))))"

end
