(* ===== verification/EngineProperties.thy ===== *)
theory EngineProperties
  imports Engine
begin

text \<open>
  Properties of the applicability engine.  Every scenario is first reduced to a plan: the
  discriminator, assertion specifications, ingress and control of each of its instances
  (\<open>scenario_plan\<close>, \<open>scenario_of_plan\<close>).  From the plan follow the totality of the engine, the
  validity of its artifact, what an APPLICABLE assertion presupposes, and that its evidence can
  be looked up.
\<close>

section \<open>Identities\<close>

lemma scenario_instance_id_value [simp]:
  "scenario_instance_id (scenario_id_value s) ds = Inr (stable_id ''sgscenario'' (scenario_id_value s # ds))"
proof -
  have "strip (scenario_id_value s) = scenario_id_value s" "scenario_id_value s \<noteq> ''''"
    by (cases s; simp add: strip_def is_space_def)+
  then show ?thesis by (simp add: scenario_instance_id_def blank_def)
qed

abbreviation instance_identity :: "scenario_id \<Rightarrow> string \<Rightarrow> string" where
  "instance_identity s d \<equiv> stable_id ''sgscenario'' [scenario_id_value s, d]"

lemma engine_keys_not_blank [simp]:
  "\<not> blank SG01_ASSERTION_KEY" "\<not> blank SG02_ASSERTION_KEY" "\<not> blank SG03_ASSERTION_KEY"
  "\<not> blank SG04_CUSTOMER_VALUE_ASSERTION_KEY" "\<not> blank SG04_STATE_REGRESSION_ASSERTION_KEY"
  "\<not> blank SG05_CUSTOMER_VALUE_ASSERTION_KEY" "\<not> blank SG05_MUTATION_ASSERTION_KEY"
  "\<not> blank SG06_CUSTOMER_VALUE_ASSERTION_KEY" "\<not> blank SG06_MUTATION_ASSERTION_KEY"
  "\<not> blank SG07_CUSTOMER_VALUE_ASSERTION_KEY" "\<not> blank SG08_PRECAPTURE_ASSERTION_KEY"
  "\<not> blank SG08_CAPTURE_ASSERTION_KEY" "\<not> blank SG08_LATE_POLICY_ASSERTION_KEY"
  by (simp_all add: blank_def assertion_key_defs strip_def is_space_def)

section \<open>Instances from their specifications\<close>

definition spec_fits :: "assertion_spec \<Rightarrow> assertion_applicability \<Rightarrow> bool" where
  "spec_fits spec a = (case spec of (key, role, j, c) \<Rightarrow>
     aa_key a = key \<and> aa_role a = role \<and> aa_state a = fst j \<and> aa_reasons a = snd j \<and>
     aa_normal_control_id a = map_option nc_control_id c)"

lemma assertion_for_Inr:
  "assertion_for iid key role j c = Inr a \<Longrightarrow> spec_fits (key, role, j, c) a"
  by (auto simp: assertion_for_def spec_fits_def bind_result_eq_Inr)

lemma engine_assertion_total:
  assumes "\<not> blank key"
  shows "\<exists>a. assertion_for iid key role j c = Inr a"
  using assms by (simp add: assertion_for_def assertion_id_def)

lemma instance_for_Inr:
  assumes "instance_for s d specs ingress c = Inr i"
  shows "si_instance_id i = instance_identity s d"
    and "si_ingress_node_id i = map_option gn_node_id ingress"
    and "si_normal_control_id i = map_option nc_control_id c"
    and "si_route_registration_id i = map_option nc_route_registration_id c"
    and "si_customer_value_node_id i = map_option nc_customer_value_node_id c"
    and "si_customer_value_symbol_id i = map_option nc_customer_value_symbol_id c"
    and "list_all2 spec_fits specs (si_assertions i)"
    and "validate_instance i = None"
proof -
  obtain as st where t: "traverse (\<lambda>(key, role, j, c). assertion_for (instance_identity s d) key role j c) specs = Inr as"
    and st: "roll_up_assertions as = Inr st"
    and v: "validate_instance i = None"
    and i: "i = \<lparr>si_instance_id = instance_identity s d, si_state = st,
      si_ingress_node_id = map_option gn_node_id ingress,
      si_normal_control_id = map_option nc_control_id c,
      si_route_registration_id = map_option nc_route_registration_id c,
      si_customer_value_node_id = map_option nc_customer_value_node_id c,
      si_customer_value_symbol_id = map_option nc_customer_value_symbol_id c, si_assertions = as\<rparr>"
    using assms by (auto simp: instance_for_def bind_result_eq_Inr)
  show "si_instance_id i = instance_identity s d"
    and "si_ingress_node_id i = map_option gn_node_id ingress"
    and "si_normal_control_id i = map_option nc_control_id c"
    and "si_route_registration_id i = map_option nc_route_registration_id c"
    and "si_customer_value_node_id i = map_option nc_customer_value_node_id c"
    and "si_customer_value_symbol_id i = map_option nc_customer_value_symbol_id c"
    and "validate_instance i = None"
    using v by (simp_all add: i)
  show "list_all2 spec_fits specs (si_assertions i)"
    using t unfolding traverse_Inr_iff i
    by (auto elim!: list_all2_mono dest: assertion_for_Inr split: prod.splits)
qed

definition good_specs :: "assertion_spec list \<Rightarrow> bool" where
  "good_specs specs \<longleftrightarrow> (\<exists>spec \<in> set specs. fst (snd spec) = CORE) \<and> (\<forall>spec \<in> set specs. \<not> blank (fst spec))"

lemma good_specs_core: "\<not> blank key \<Longrightarrow> good_specs ((key, CORE, j, c) # specs) \<longleftrightarrow> (\<forall>spec \<in> set specs. \<not> blank (fst spec))"
  by (auto simp: good_specs_def)

lemma traverse_exists:
  assumes "\<And>x. x \<in> set xs \<Longrightarrow> \<exists>y. f x = Inr y"
  shows "\<exists>ys. traverse f xs = Inr ys"
  using assms by (induction xs) fastforce+

lemma traverse_member:
  "traverse f xs = Inr ys \<Longrightarrow> y \<in> set ys \<Longrightarrow> \<exists>x \<in> set xs. f x = Inr y"
  by (induction xs arbitrary: ys) (auto simp: bind_result_eq_Inr)

lemma list_all2_member2:
  "list_all2 P xs ys \<Longrightarrow> y \<in> set ys \<Longrightarrow> \<exists>x \<in> set xs. P x y"
  by (induction rule: list_all2_induct) auto

lemma list_all2_member1:
  "list_all2 P xs ys \<Longrightarrow> x \<in> set xs \<Longrightarrow> \<exists>y \<in> set ys. P x y"
  by (induction rule: list_all2_induct) auto

lemma bind_result_total:
  "\<exists>x. r = Inr x \<Longrightarrow> (\<And>x. r = Inr x \<Longrightarrow> \<exists>y. f x = Inr y) \<Longrightarrow> \<exists>y. bind_result r f = Inr y"
  by auto

lemma core_states_fit:
  assumes "list_all2 spec_fits specs as"
  shows "set (core_states as) = (\<lambda>spec. fst (fst (snd (snd spec)))) ` {spec \<in> set specs. fst (snd spec) = CORE}"
  using assms
proof (induction rule: list_all2_induct)
  case (Cons spec specs a as)
  have "{x \<in> set (spec # specs). fst (snd x) = CORE} =
      (if fst (snd spec) = CORE then {spec} else {}) \<union> {x \<in> set specs. fst (snd x) = CORE}"
    by auto
  with Cons show ?case by (cases spec) (simp add: core_states_def spec_fits_def image_Un)
qed (simp add: core_states_def)

lemma roll_up_total: "core_states as \<noteq> [] \<Longrightarrow> \<exists>st. roll_up_assertions as = Inr st"
  by (auto simp: roll_up_eq Let_def)

lemma instance_for_total:
  assumes "good_specs specs"
  shows "\<exists>i. instance_for s d specs ingress c = Inr i"
proof -
  let ?f = "\<lambda>(key, role, j, c). assertion_for (instance_identity s d) key role j c"
  have "\<exists>a. ?f spec = Inr a" if "spec \<in> set specs" for spec
    using assms that engine_assertion_total[of "fst spec"]
    by (simp add: good_specs_def case_prod_beta)
  then obtain as where t: "traverse ?f specs = Inr as" using traverse_exists[of specs ?f] by blast
  then have fits: "list_all2 spec_fits specs as"
    unfolding traverse_Inr_iff by (auto elim!: list_all2_mono dest: assertion_for_Inr)
  obtain spec where "spec \<in> set specs" "fst (snd spec) = CORE" using assms by (auto simp: good_specs_def)
  then have "set (core_states as) \<noteq> {}" unfolding core_states_fit[OF fits] by blast
  then obtain st where "roll_up_assertions as = Inr st" using roll_up_total[of as] by auto
  then show ?thesis by (simp add: instance_for_def t validator_simps)
qed

section \<open>The plan of a scenario\<close>

type_synonym instance_plan = "string \<times> assertion_spec list \<times> graph_node option \<times> normal_control option"

definition control_plan ::
  "safety_graph \<Rightarrow> (normal_control \<Rightarrow> assertion_spec list) \<Rightarrow> normal_control \<Rightarrow> instance_plan" where
  "control_plan g specs c =
     (nc_control_id c, specs c, graph_lookup g (nc_ingress_node_id c), Some c)"

definition trust_plan ::
  "safety_graph \<Rightarrow> value_resolution option \<Rightarrow> scenario_id \<Rightarrow> string \<Rightarrow> string \<Rightarrow>
   graph_node \<times> normal_control option \<Rightarrow> instance_plan" where
  "trust_plan g resolution s value_key mutation_key target =
     (trust_discriminator (fst target) (snd target),
      [(mutation_key, CORE, trust_mutation_state g s (fst target) (snd target), None),
       (value_key, CORE, trust_value_state g resolution s (fst target) (snd target), snd target)],
      Some (fst target), snd target)"

definition catalog_plan :: "string \<Rightarrow> judgement \<Rightarrow> instance_plan" where
  "catalog_plan key j = (''catalog'', [(key, CORE, j, None)], None, None)"

text \<open>The controls a scenario instantiates, and the assertions of each.\<close>

definition planned_controls :: "safety_graph \<Rightarrow> normal_control list \<Rightarrow> scenario_id \<Rightarrow> normal_control list" where
  "planned_controls g controls s =
     (let webhook_controls = filter is_webhook_control controls
      in case s of
           SG_05 \<Rightarrow> [] | SG_06 \<Rightarrow> []
         | SG_07 \<Rightarrow> if ingresses_of_kind g CHECKOUT_CALLBACK = [] then [] else webhook_controls
         | SG_08 \<Rightarrow> filter (\<lambda>c. \<not> late_sequence_unsupported g c) webhook_controls
         | _ \<Rightarrow> webhook_controls)"

definition planned_specs ::
  "safety_graph \<Rightarrow> policy_assessment \<Rightarrow> normal_control list \<Rightarrow> scenario_id \<Rightarrow> normal_control \<Rightarrow>
   assertion_spec list" where
  "planned_specs g policy controls s c =
     (case s of
        SG_01 \<Rightarrow> [(SG01_ASSERTION_KEY, CORE, normal_capture_state g policy c, Some c)]
      | SG_02 \<Rightarrow> [(SG02_ASSERTION_KEY, CORE, duplicate_capture_state g policy c, Some c)]
      | SG_03 \<Rightarrow> [(SG03_ASSERTION_KEY, CORE, sg03_state g policy c, Some c)]
      | SG_04 \<Rightarrow> [(SG04_CUSTOMER_VALUE_ASSERTION_KEY, CORE, duplicate_capture_state g policy c, Some c),
                 (SG04_STATE_REGRESSION_ASSERTION_KEY, OPTIONAL, sg04_optional_state g c, Some c)]
      | SG_07 \<Rightarrow> [(SG07_CUSTOMER_VALUE_ASSERTION_KEY, CORE, sg07_state g policy controls c, Some c)]
      | SG_08 \<Rightarrow> sg08_specs g policy c
      | _ \<Rightarrow> [])"

definition planned_targets ::
  "safety_graph \<Rightarrow> normal_control list \<Rightarrow> scenario_id \<Rightarrow> (graph_node \<times> normal_control option) list" where
  "planned_targets g controls s = concat (map (trust_targets controls)
     (case s of SG_05 \<Rightarrow> ingresses_of_kind g WEBHOOK
      | SG_06 \<Rightarrow> ingresses_of_kind g CHECKOUT_CALLBACK | _ \<Rightarrow> []))"

definition value_key_of :: "scenario_id \<Rightarrow> string" where
  "value_key_of s = (case s of
      SG_01 \<Rightarrow> SG01_ASSERTION_KEY | SG_02 \<Rightarrow> SG02_ASSERTION_KEY | SG_03 \<Rightarrow> SG03_ASSERTION_KEY
    | SG_04 \<Rightarrow> SG04_CUSTOMER_VALUE_ASSERTION_KEY | SG_05 \<Rightarrow> SG05_CUSTOMER_VALUE_ASSERTION_KEY
    | SG_06 \<Rightarrow> SG06_CUSTOMER_VALUE_ASSERTION_KEY | SG_07 \<Rightarrow> SG07_CUSTOMER_VALUE_ASSERTION_KEY
    | SG_08 \<Rightarrow> SG08_LATE_POLICY_ASSERTION_KEY)"

definition mutation_key_of :: "scenario_id \<Rightarrow> string" where
  "mutation_key_of s = (if s = SG_05 then SG05_MUTATION_ASSERTION_KEY else SG06_MUTATION_ASSERTION_KEY)"

definition catalog_judgement ::
  "safety_graph \<Rightarrow> value_resolution option \<Rightarrow> normal_control list \<Rightarrow> scenario_id \<Rightarrow> judgement" where
  "catalog_judgement g resolution controls s = (case s of
      SG_01 \<Rightarrow> fallback_state g resolution (graph_ingresses g)
    | SG_06 \<Rightarrow> fallback_state g resolution (ingresses_of_kind g CHECKOUT_CALLBACK)
    | SG_07 \<Rightarrow> sg07_catalog_state g resolution controls
    | SG_08 \<Rightarrow> sg08_catalog_state g resolution (filter is_webhook_control controls)
    | _ \<Rightarrow> fallback_state g resolution (ingresses_of_kind g WEBHOOK))"

definition scenario_plan ::
  "safety_graph \<Rightarrow> value_resolution option \<Rightarrow> normal_control list \<Rightarrow> policy_assessment \<Rightarrow>
   scenario_id \<Rightarrow> instance_plan list" where
  "scenario_plan g resolution controls policy s =
     (let own = map (control_plan g (planned_specs g policy controls s)) (planned_controls g controls s) @
                map (trust_plan g resolution s (value_key_of s) (mutation_key_of s)) (planned_targets g controls s)
      in if own = [] then [catalog_plan (value_key_of s) (catalog_judgement g resolution controls s)]
         else own)"

definition plan_instance :: "scenario_id \<Rightarrow> instance_plan \<Rightarrow> scenario_instance result" where
  "plan_instance s = (\<lambda>(d, specs, ingress, c). instance_for s d specs ingress c)"

definition controls_resolved :: "safety_graph \<Rightarrow> normal_control list \<Rightarrow> bool" where
  "controls_resolved g controls \<longleftrightarrow> (\<forall>c \<in> set controls. graph_lookup g (nc_ingress_node_id c) \<noteq> None)"

lemma traverse_map: "traverse f (map h xs) = traverse (\<lambda>x. f (h x)) xs"
  by (induction xs) simp_all

lemma traverse_cong: "(\<And>x. x \<in> set xs \<Longrightarrow> f x = h x) \<Longrightarrow> traverse f xs = traverse h xs"
  by (induction xs) simp_all

lemma traverse_Inr_Nil [simp]: "traverse f xs = Inr [] \<longleftrightarrow> xs = []"
  by (cases xs) (auto simp: bind_result_eq_Inr)

lemma with_fallback_plan:
  assumes "\<And>x. x \<in> set xs \<Longrightarrow> f x = plan_instance s (h x)" and "fallback = plan_instance s q"
  shows "with_fallback s (traverse f xs) fallback =
    bind_result (traverse (plan_instance s) (if map h xs = [] then [q] else map h xs)) (scenario_for s)"
proof -
  have "traverse f xs = traverse (\<lambda>x. plan_instance s (h x)) xs"
    using assms(1) by (rule traverse_cong)
  then have t: "traverse f xs = traverse (plan_instance s) (map h xs)" by (simp add: traverse_map)
  show ?thesis
  proof (cases "traverse (plan_instance s) (map h xs)")
    case (Inr ys)
    then have "ys = [] \<longleftrightarrow> xs = []" using traverse_Inr_length[OF Inr] by auto
    then show ?thesis using Inr
      by (cases "plan_instance s q") (auto simp: with_fallback_def t assms(2))
  qed (auto simp: with_fallback_def t)
qed

lemma control_instance_plan:
  assumes "controls_resolved g controls" and "c \<in> set controls"
  shows "control_instance g s c specs = plan_instance s (control_plan g (\<lambda>_. specs) c)"
  using assms by (auto simp: control_instance_def plan_instance_def control_plan_def controls_resolved_def
      split: option.splits)

lemma catalog_instance_plan:
  "catalog_instance s key j = plan_instance s (catalog_plan key j)"
  by (simp add: catalog_instance_def plan_instance_def catalog_plan_def)

lemma trust_instance_plan:
  "trust_instance g resolution s vk mk t = plan_instance s (trust_plan g resolution s vk mk t)"
  by (cases t) (simp add: trust_instance_def plan_instance_def trust_plan_def)

lemma plan_instance_specs:
  "plan_instance s (control_plan g (\<lambda>_. specs c) c) = plan_instance s (control_plan g specs c)"
  by (simp add: control_plan_def)

lemma planned_controls_subset: "c \<in> set (planned_controls g controls s) \<Longrightarrow> c \<in> set controls"
  by (cases s) (auto simp: planned_controls_def Let_def split: if_splits)

lemmas instance_defs = sg01_instance_def sg02_instance_def sg03_instance_def sg04_instance_def
  sg07_instance_def sg08_instance_def

lemmas plan_defs = scenario_plan_def planned_controls_def planned_specs_def planned_targets_def
  value_key_of_def mutation_key_of_def catalog_judgement_def

lemma scenario_of_plan:
  assumes "controls_resolved g controls"
  shows "scenario_of g resolution controls policy s =
    bind_result (traverse (plan_instance s) (scenario_plan g resolution controls policy s)) (scenario_for s)"
proof -
  let ?h = "control_plan g (planned_specs g policy controls s)"
  have own: "control_instance g s c (planned_specs g policy controls s c) = plan_instance s (?h c)"
    if "c \<in> set (planned_controls g controls s)" for c
    using control_instance_plan[OF assms planned_controls_subset[OF that]] by (simp add: control_plan_def)
  have wf: "with_fallback s (traverse f (planned_controls g controls s)) (catalog_instance s key j) =
      bind_result (traverse (plan_instance s)
        (if map ?h (planned_controls g controls s) = [] then [catalog_plan key j]
         else map ?h (planned_controls g controls s))) (scenario_for s)"
    if "\<And>c. f c = control_instance g s c (planned_specs g policy controls s c)" for f key j
    by (rule with_fallback_plan[OF _ catalog_instance_plan]) (simp only: that own)
  note wt = with_fallback_plan[of "planned_targets g controls s" _ s, OF trust_instance_plan catalog_instance_plan]
  show ?thesis
  proof (cases s)
    case SG_05
    show ?thesis using wt unfolding SG_05
      by (simp add: scenario_of_def trust_scenario_def plan_defs Let_def)
  next
    case SG_06
    show ?thesis using wt unfolding SG_06
      by (simp add: scenario_of_def trust_scenario_def plan_defs Let_def)
  next
    case SG_01
    show ?thesis using wf[of "sg01_instance g policy"] unfolding SG_01
      by (simp add: scenario_of_def instance_defs plan_defs Let_def)
  next
    case SG_02
    show ?thesis using wf[of "sg02_instance g policy"] unfolding SG_02
      by (simp add: scenario_of_def instance_defs plan_defs Let_def)
  next
    case SG_03
    show ?thesis using wf[of "sg03_instance g policy"] unfolding SG_03
      by (simp add: scenario_of_def instance_defs plan_defs Let_def)
  next
    case SG_04
    show ?thesis using wf[of "sg04_instance g policy"] unfolding SG_04
      by (simp add: scenario_of_def instance_defs plan_defs Let_def)
  next
    case SG_07
    show ?thesis using wf[of "sg07_instance g policy controls"] unfolding SG_07
      by (simp add: scenario_of_def instance_defs plan_defs Let_def)
  next
    case SG_08
    show ?thesis using wf[of "sg08_instance g policy"] unfolding SG_08
      by (simp add: scenario_of_def instance_defs plan_defs Let_def)
  qed
qed

section \<open>Every plan is well formed\<close>

definition plan_ok :: "normal_control list \<Rightarrow> instance_plan \<Rightarrow> bool" where
  "plan_ok controls p = (case p of (d, specs, ingress, control) \<Rightarrow>
     good_specs specs \<and> (\<forall>spec \<in> set specs. snd (snd (snd spec)) \<in> {None, control}) \<and>
     (case control of None \<Rightarrow> True
      | Some c \<Rightarrow> c \<in> set controls \<and> map_option gn_node_id ingress = Some (nc_ingress_node_id c)))"

lemma sg08_specs_shape:
  shows "good_specs (sg08_specs g policy c)"
    and "\<forall>spec \<in> set (sg08_specs g policy c). snd (snd (snd spec)) = Some c"
  by (cases "fa_confirmed_policy (pa_fulfilment policy)";
      simp add: sg08_specs_def Let_def late_policy_spec_def good_specs_def)+

lemma graph_lookup_Some:
  assumes "graph_lookup g k = Some n"
  shows "n \<in> set (pg_nodes g)" and "gn_node_id n = k"
  using assms dict_by_SomeD unfolding graph_lookup_def by fast+

lemma planned_specs_shape:
  assumes "c \<in> set (planned_controls g controls s)"
  shows "good_specs (planned_specs g policy controls s c)"
    and "\<forall>spec \<in> set (planned_specs g policy controls s c). snd (snd (snd spec)) = Some c"
  using assms sg08_specs_shape[of g policy c]
  by (cases s; simp add: planned_specs_def planned_controls_def good_specs_def)+

lemma control_plan_ok:
  assumes "controls_resolved g controls" and "c \<in> set (planned_controls g controls s)"
  shows "plan_ok controls (control_plan g (planned_specs g policy controls s) c)"
proof -
  have c: "c \<in> set controls" using assms(2) by (rule planned_controls_subset)
  then obtain n where n: "graph_lookup g (nc_ingress_node_id c) = Some n"
    using assms(1) by (auto simp: controls_resolved_def)
  then show ?thesis
    using graph_lookup_Some(2)[OF n] planned_specs_shape[OF assms(2)] c
    by (simp add: plan_ok_def control_plan_def)
qed

lemma trust_targets_members:
  assumes "(n, c) \<in> set (trust_targets controls ingress)"
  shows "n = ingress"
    and "c = Some x \<Longrightarrow> x \<in> set controls \<and> nc_ingress_node_id x = gn_node_id ingress"
  using assms by (auto simp: trust_targets_def Let_def split: if_splits)

lemma keys_of_scenario_not_blank [simp]: "\<not> blank (value_key_of s)" "\<not> blank (mutation_key_of s)"
  by (cases s; simp add: value_key_of_def mutation_key_of_def)+

lemma trust_plan_ok:
  assumes "t \<in> set (planned_targets g controls s)"
  shows "plan_ok controls (trust_plan g resolution s (value_key_of s) (mutation_key_of s) t)"
proof -
  obtain ingress where t: "t \<in> set (trust_targets controls ingress)"
    using assms by (auto simp: planned_targets_def)
  obtain n c where nc: "t = (n, c)" by (cases t) auto
  show ?thesis
    using trust_targets_members[of n c controls ingress] t
    by (cases c) (simp_all add: nc plan_ok_def trust_plan_def good_specs_def)
qed

lemma scenario_plan_ok:
  assumes "controls_resolved g controls" and "p \<in> set (scenario_plan g resolution controls policy s)"
  shows "plan_ok controls p"
proof -
  have cat: "plan_ok controls (catalog_plan (value_key_of s) j)" for j
    by (simp add: plan_ok_def catalog_plan_def good_specs_def)
  show ?thesis
    using assms(2) control_plan_ok[OF assms(1)] trust_plan_ok cat
    by (auto simp: scenario_plan_def Let_def split: if_splits)
qed

lemma scenario_plan_nonempty: "scenario_plan g resolution controls policy s \<noteq> []"
  by (simp add: scenario_plan_def Let_def)

section \<open>Identities that do not collide\<close>

definition engine_discriminators :: "safety_graph \<Rightarrow> normal_control list \<Rightarrow> string list" where
  "engine_discriminators g controls =
     map (\<lambda>t. trust_discriminator (fst t) (snd t)) (concat (map (trust_targets controls) (graph_ingresses g)))"

definition identities_distinct :: "safety_graph \<Rightarrow> normal_control list \<Rightarrow> bool" where
  "identities_distinct g controls \<longleftrightarrow>
     (\<forall>s. distinct (map (\<lambda>c. instance_identity s (nc_control_id c)) controls) \<and>
          distinct (map (instance_identity s) (engine_discriminators g controls)))"

lemma distinct_map_concat_filter:
  "distinct (map h (concat (map f xs))) \<Longrightarrow> distinct (map h (concat (map f (filter P xs))))"
  by (induction xs) auto

lemma distinct_map_filter_imp: "distinct (map h xs) \<Longrightarrow> distinct (map h (filter P xs))"
  by (induction xs) auto

lemma planned_controls_distinct:
  "distinct (map h controls) \<Longrightarrow> distinct (map h (planned_controls g controls s))"
  by (cases s) (auto simp: planned_controls_def Let_def distinct_map_filter_imp)

lemma planned_targets_distinct:
  assumes "distinct (map h (concat (map (trust_targets controls) (graph_ingresses g))))"
  shows "distinct (map h (planned_targets g controls s))"
  using distinct_map_concat_filter[OF assms]
  by (cases s) (simp_all add: planned_targets_def ingresses_of_kind_def)

lemma planned_one_empty: "planned_controls g controls s = [] \<or> planned_targets g controls s = []"
  by (cases s) (simp_all add: planned_controls_def planned_targets_def)

lemma scenario_plan_distinct:
  assumes "identities_distinct g controls"
  shows "distinct (map (\<lambda>p. instance_identity s (fst p)) (scenario_plan g resolution controls policy s))"
proof -
  have a: "distinct (map (\<lambda>c. instance_identity s (nc_control_id c)) (planned_controls g controls s))"
    using assms by (intro planned_controls_distinct) (simp add: identities_distinct_def)
  have b: "distinct (map (\<lambda>t. instance_identity s (trust_discriminator (fst t) (snd t)))
      (planned_targets g controls s))"
    using assms
    by (intro planned_targets_distinct) (simp add: identities_distinct_def engine_discriminators_def o_def)
  show ?thesis
    using planned_one_empty[of g controls s] a b
    by (auto simp: scenario_plan_def Let_def o_def control_plan_def trust_plan_def)
qed

section \<open>Scenarios from their plans\<close>

definition plan_fits :: "scenario_id \<Rightarrow> instance_plan \<Rightarrow> scenario_instance \<Rightarrow> bool" where
  "plan_fits s p i \<longleftrightarrow> plan_instance s p = Inr i"

lemma plan_fits_eq: "plan_fits s = (\<lambda>p i. plan_instance s p = Inr i)"
  by (simp add: plan_fits_def fun_eq_iff)

lemma plan_fits_facts:
  assumes "plan_fits s (d, specs, ingress, c) i"
  shows "si_instance_id i = instance_identity s d"
    and "si_ingress_node_id i = map_option gn_node_id ingress"
    and "si_normal_control_id i = map_option nc_control_id c"
    and "si_route_registration_id i = map_option nc_route_registration_id c"
    and "si_customer_value_node_id i = map_option nc_customer_value_node_id c"
    and "si_customer_value_symbol_id i = map_option nc_customer_value_symbol_id c"
    and "list_all2 spec_fits specs (si_assertions i)"
    and "validate_instance i = None"
  using assms instance_for_Inr by (simp_all add: plan_fits_def plan_instance_def)

lemma scenario_of_Inr:
  assumes "controls_resolved g controls" and "scenario_of g resolution controls policy s = Inr sc"
  shows "list_all2 (plan_fits s) (scenario_plan g resolution controls policy s) (sc_instances sc)"
    and "sc_scenario_id sc = s" and "validate_scenario sc = None"
  using assms(2)
  by (auto simp: scenario_of_plan[OF assms(1)] scenario_for_def bind_result_eq_Inr traverse_Inr_iff
      plan_fits_eq)

lemma plan_instance_total:
  assumes "plan_ok controls p"
  shows "\<exists>i. plan_instance s p = Inr i"
  using assms instance_for_total by (cases p) (simp add: plan_ok_def plan_instance_def)

lemma fitting_identities:
  "list_all2 (plan_fits s) plan insts \<Longrightarrow> map si_instance_id insts = map (\<lambda>p. instance_identity s (fst p)) plan"
  by (induction rule: list_all2_induct) (auto dest: plan_fits_facts(1))

lemma instance_core_nonempty:
  assumes "validate_instance i = None"
  shows "core_states (si_assertions i) \<noteq> []"
proof -
  have "roll_up_assertions (si_assertions i) = Inr (si_state i)" using assms by (simp add: validator_simps)
  then show ?thesis using roll_up_Inr_core by fastforce
qed

lemma scenario_for_total:
  assumes "insts \<noteq> []" and "\<forall>i \<in> set insts. validate_instance i = None" and "distinct (map si_instance_id insts)"
  shows "\<exists>sc. scenario_for s insts = Inr sc"
proof -
  obtain i js where "insts = i # js" using assms(1) by (cases insts) auto
  then have "core_states (concat (map si_assertions insts)) \<noteq> []"
    using assms(2) instance_core_nonempty by (simp add: core_states_def)
  then obtain st where "roll_up_assertions (concat (map si_assertions insts)) = Inr st"
    using roll_up_total by blast
  then show ?thesis using assms(3) by (simp add: scenario_for_def validator_simps scenario_assertions_def)
qed

lemma scenario_of_total:
  assumes res: "controls_resolved g controls" and ids: "identities_distinct g controls"
  shows "\<exists>sc. scenario_of g resolution controls policy s = Inr sc"
proof -
  let ?plan = "scenario_plan g resolution controls policy s"
  have "\<exists>i. plan_instance s p = Inr i" if "p \<in> set ?plan" for p
    using plan_instance_total[OF scenario_plan_ok[OF res that]] .
  then obtain insts where t: "traverse (plan_instance s) ?plan = Inr insts"
    using traverse_exists[of ?plan "plan_instance s"] by auto
  then have fits: "list_all2 (plan_fits s) ?plan insts"
    unfolding traverse_Inr_iff by (simp add: plan_fits_eq)
  have "insts \<noteq> []"
  proof
    assume "insts = []"
    with t scenario_plan_nonempty show False by simp
  qed
  moreover have "validate_instance i = None" if member: "i \<in> set insts" for i
  proof -
    obtain p where "plan_fits s p i" using traverse_member[OF t member] by (auto simp: plan_fits_def)
    then show ?thesis by (cases p) (auto dest: plan_fits_facts(8))
  qed
  moreover have "distinct (map si_instance_id insts)"
    unfolding fitting_identities[OF fits] by (rule scenario_plan_distinct[OF ids])
  ultimately show ?thesis
    using scenario_for_total[of insts s] t by (simp add: scenario_of_plan[OF res])
qed

section \<open>Controls and policy\<close>

lemma as_ingress_details: "as_ingress n = Some d \<Longrightarrow> gn_details n = Some (PaymentIngressDetails d)"
  by (auto simp: as_ingress_def split: option.splits node_details.splits)

definition control_on_edge ::
  "safety_graph \<Rightarrow> string \<Rightarrow> string \<Rightarrow> graph_edge \<Rightarrow> normal_control \<Rightarrow> bool" where
  "control_on_edge g symbol fp e c \<longleftrightarrow>
     ge_kind e = CALLS \<and> nc_connectivity_edge_id c = ge_edge_id e \<and>
     nc_ingress_node_id c = ge_source_node_id e \<and> nc_customer_value_node_id c = ge_target_node_id e \<and>
     nc_customer_value_symbol_id c = symbol \<and> nc_semantic_resolution_fingerprint c = fp \<and>
     nc_call_path_references c = call_path_of e \<and> call_path_of e \<noteq> [] \<and>
     (\<exists>n d. graph_lookup g (ge_source_node_id e) = Some n \<and> as_ingress n = Some d \<and>
        nc_route_registration_id c = er_route_registration_id (pi_registration d) \<and>
        nc_ingress_kind c = pi_ingress_kind d) \<and>
     (\<exists>v. graph_lookup g (ge_target_node_id e) = Some v \<and> gn_kind v = CUSTOMER_VALUE_ACTION \<and>
        gn_backing_symbol_id v = Some symbol)"

lemma normal_control_of_edge_total: "\<exists>x. normal_control_of_edge (graph_lookup g) symbol fp e = Inr x"
  by (auto simp: normal_control_of_edge_def normal_control_id_def Let_def split: option.splits)

lemma normal_control_of_edge_Some:
  assumes "normal_control_of_edge (graph_lookup g) symbol fp e = Inr (Some c)"
  shows "control_on_edge g symbol fp e c"
  using assms
  by (auto simp: normal_control_of_edge_def control_on_edge_def normal_control_id_def Let_def
      dest: graph_lookup_Some(2) split: option.splits if_splits)

lemma normal_controls_total: "\<exists>controls. normal_controls g resolution fp = Inr controls"
proof -
  have t: "\<exists>found. traverse (normal_control_of_edge (graph_lookup g) symbol f) (pg_edges g) = Inr found" for symbol f
    by (rule traverse_exists) (rule normal_control_of_edge_total)
  show ?thesis
  proof (cases "\<exists>r f symbol. resolution = Some r \<and> fp = Some f \<and> vx_selected_symbol_id r = Some symbol")
    case True
    then obtain r f symbol where "resolution = Some r" "fp = Some f" "vx_selected_symbol_id r = Some symbol"
      by blast
    then show ?thesis using t[of symbol f] by (auto simp: normal_controls_def)
  qed (auto simp: normal_controls_def split: option.splits)
qed

lemma set_map_filter_id: "set (List.map_filter id xs) = {x. Some x \<in> set xs}"
  by (force simp: map_filter_def)

text \<open>Where a normal control comes from.\<close>

lemma normal_controls_origin:
  assumes "normal_controls g resolution fp = Inr controls" and "c \<in> set controls"
  obtains r symbol f e where "resolution = Some r" and "vx_state r = RESOLUTION_UNIQUE"
    and "vx_selected_symbol_id r = Some symbol" and "fp = Some f"
    and "e \<in> set (pg_edges g)" and "control_on_edge g symbol f e c"
proof -
  obtain r symbol f found where r: "resolution = Some r" "vx_state r = RESOLUTION_UNIQUE"
      "vx_selected_symbol_id r = Some symbol" "fp = Some f"
    and t: "traverse (normal_control_of_edge (graph_lookup g) symbol f) (pg_edges g) = Inr found"
    and c: "Some c \<in> set found"
    using assms by (auto simp: normal_controls_def bind_result_eq_Inr set_map_filter_id
        split: option.splits if_splits)
  obtain e where "e \<in> set (pg_edges g)"
    and "normal_control_of_edge (graph_lookup g) symbol f e = Inr (Some c)"
    using traverse_member[OF t c] by blast
  then show thesis using that r normal_control_of_edge_Some by blast
qed

lemma normal_controls_resolved:
  assumes "normal_controls g resolution fp = Inr controls"
  shows "controls_resolved g controls"
  unfolding controls_resolved_def
proof
  fix c
  assume "c \<in> set controls"
  with assms show "graph_lookup g (nc_ingress_node_id c) \<noteq> None"
    by (rule normal_controls_origin) (auto simp: control_on_edge_def)
qed

lemma state_edge_evidence_total:
  assumes "matched_branch e" and "source_route (graph_lookup g) e = Some r"
  shows "\<exists>j. policy_state_edge_evidence (graph_lookup g) e = Inr j"
  using assms by (auto simp: matched_branch_def source_route_def policy_state_edge_evidence_def
      bind_eq_Some_conv split: option.splits)

lemma state_edges_evidence_total:
  assumes "set es \<subseteq> set (policy_state_edges g controls)"
  shows "\<exists>js. traverse (policy_state_edge_evidence (graph_lookup g)) es = Inr js"
proof (rule traverse_exists)
  fix e
  assume "e \<in> set es"
  with assms have "matched_branch e" and "source_route (graph_lookup g) e \<in> range Some"
    by (auto simp: policy_state_edges_def)
  then show "\<exists>j. policy_state_edge_evidence (graph_lookup g) e = Inr j"
    using state_edge_evidence_total by blast
qed

lemma evidence_fingerprints_total:
  shows "\<exists>x. fulfilment_evidence_fingerprint g controls = Inr x"
    and "\<exists>x. late_evidence_fingerprint g controls = Inr x"
  unfolding fulfilment_evidence_fingerprint_def late_evidence_fingerprint_def Let_def
    razorpay_rule_fingerprint_total
  by (intro bind_result_total state_edges_evidence_total[of _ g controls] exI[of _ "_ :: string"];
      auto intro!: traverse_exists simp: policy_webhook_evidence_def is_ingress_of_kind_def
        split: option.splits)+

lemma evidence_status_consistent:
  "fst (evidence_status_of g controls) = CONSISTENT_SUGGESTION \<longleftrightarrow> snd (evidence_status_of g controls) \<noteq> None"
  by (simp add: evidence_status_of_def Let_def)

text \<open>The assessment the engine builds is always accepted by its validators.\<close>

lemma policy_assessment_total:
  "\<exists>p. policy_assessment_of configured g controls = Inr p"
proof -
  obtain x y where xy: "fulfilment_evidence_fingerprint g controls = Inr x"
      "late_evidence_fingerprint g controls = Inr y"
    using evidence_fingerprints_total by blast
  obtain st sug where st: "evidence_status_of g controls = (st, sug)" by force
  have c: "st = CONSISTENT_SUGGESTION \<longleftrightarrow> sug \<noteq> None"
    using evidence_status_consistent[of g controls] by (simp add: st)
  show ?thesis
    using c
    by (cases "configured_fulfilment configured"; cases "configured_late configured"; cases sug)
      (simp_all add: policy_assessment_of_def st xy construct_def validate_assessment_def
        validate_confirmation_def expected_mismatch_def Let_def)
qed

lemma policy_assessment_facts:
  assumes "policy_assessment_of configured g controls = Inr p"
  shows "validate_assessment (pa_fulfilment p) = None"
    and "validate_confirmation (pa_late_authorisation p) = None"
    and "fa_confirmed_policy (pa_fulfilment p) = map_option cf_value (configured_fulfilment configured)"
    and "fa_evidence_current (pa_fulfilment p) =
      map_option (\<lambda>c. cf_evidence_fingerprint c = fa_evidence_fingerprint (pa_fulfilment p))
        (configured_fulfilment configured)"
    and "fulfilment_evidence_fingerprint g controls = Inr (fa_evidence_fingerprint (pa_fulfilment p))"
    and "(fa_evidence_status (pa_fulfilment p), fa_suggested_policy (pa_fulfilment p)) = evidence_status_of g controls"
  using assms
  by (auto simp: policy_assessment_of_def bind_result_eq_Inr Let_def split: prod.splits)

section \<open>The artifact\<close>

lemma dict_by_Some_of_member: "x \<in> set xs \<Longrightarrow> dict_by key xs (key x) \<noteq> None"
  by (auto simp: lookup_simps)

lemma dict_by_distinct:
  assumes "distinct (map key xs)" and "x \<in> set xs"
  shows "dict_by key xs (key x) = Some x"
proof -
  obtain y where y: "dict_by key xs (key x) = Some y" using dict_by_Some_of_member[OF assms(2), of key] by auto
  then have "y \<in> set xs" "key y = key x" using dict_by_SomeD by fast+
  then show ?thesis using y assms by (auto simp: distinct_map dest: inj_onD)
qed

lemma fitting_instance_controls:
  assumes fits: "plan_fits s p i" and ok: "plan_ok controls p" and dist: "distinct (map nc_control_id controls)"
  shows "check_instance_control controls i = None"
    and "\<forall>a \<in> set (si_assertions i). check_assertion_control controls i a = None"
proof -
  obtain d specs ingress c where p: "p = (d, specs, ingress, c)" by (cases p) auto
  note f = plan_fits_facts[OF fits[unfolded p]]
  have known: "dict_by nc_control_id controls (nc_control_id x) = Some x" if "c = Some x" for x
    using dict_by_distinct[OF dist] ok that by (simp add: p plan_ok_def)
  show "check_instance_control controls i = None"
    using f known ok by (cases c) (simp_all add: p plan_ok_def check_instance_control_def)
  have "aa_normal_control_id a \<in> {None, map_option nc_control_id c}" if member: "a \<in> set (si_assertions i)" for a
  proof -
    obtain spec where "spec \<in> set specs" "spec_fits spec a"
      using list_all2_member2[OF f(7) member] by blast
    then show ?thesis using ok by (cases spec) (auto simp: p plan_ok_def spec_fits_def)
  qed
  then show "\<forall>a \<in> set (si_assertions i). check_assertion_control controls i a = None"
    using f(3) known by (cases c) (fastforce simp: validator_simps)+
qed

lemma scenario_controls_ok:
  assumes res: "controls_resolved g controls" and dist: "distinct (map nc_control_id controls)"
    and sc: "scenario_of g resolution controls policy s = Inr sc"
  shows "check_scenario_controls controls sc = None" and "sc_instances sc \<noteq> []"
    and "\<forall>i \<in> set (sc_instances sc). validate_instance i = None"
proof -
  note fits = scenario_of_Inr(1)[OF res sc]
  have each: "check_instance_control controls i = None \<and> validate_instance i = None \<and>
      (\<forall>a \<in> set (si_assertions i). check_assertion_control controls i a = None)"
    if member: "i \<in> set (sc_instances sc)" for i
  proof -
    obtain p where p: "p \<in> set (scenario_plan g resolution controls policy s)" "plan_fits s p i"
      using list_all2_member2[OF fits member] by blast
    have "validate_instance i = None" using p(2) by (cases p) (auto dest: plan_fits_facts(8))
    then show ?thesis using fitting_instance_controls[OF p(2) scenario_plan_ok[OF res p(1)] dist] by blast
  qed
  then show "check_scenario_controls controls sc = None"
    by (auto simp: check_scenario_controls_def first_error_None_iff)
  show "\<forall>i \<in> set (sc_instances sc). validate_instance i = None" using each by blast
  show "sc_instances sc \<noteq> []" using fits scenario_plan_nonempty by fastforce
qed

lemma evaluate_applicability_Inr:
  assumes "evaluate_applicability configured index structural g resolution fp = Inr a"
  shows "normal_controls g resolution fp = Inr (ap_normal_controls a)"
    and "policy_assessment_of configured g (ap_normal_controls a) = Inr (ap_policy a)"
    and "list_all2 (\<lambda>s sc. scenario_of g resolution (ap_normal_controls a) (ap_policy a) s = Inr sc)
      scenario_ids (ap_scenarios a)"
  using assms
  by (auto simp: evaluate_applicability_def catalog_scenarios_def bind_result_eq_Inr traverse_Inr_iff Let_def)

lemma fitting_scenario_ids:
  assumes "controls_resolved g controls"
    and "list_all2 (\<lambda>s sc. scenario_of g resolution controls policy s = Inr sc) ss scs"
  shows "map sc_scenario_id scs = ss"
  using assms(2) by (induction rule: list_all2_induct) (auto dest: scenario_of_Inr(2)[OF assms(1)])

lemma artifact_valid:
  assumes controls: "normal_controls g resolution fp = Inr controls"
    and policy: "policy_assessment_of configured g controls = Inr policy"
    and scenarios: "list_all2 (\<lambda>s sc. scenario_of g resolution controls policy s = Inr sc) scenario_ids scs"
    and dist: "distinct (map nc_control_id controls)"
    and a: "ap_normal_controls a = controls" "ap_policy a = policy" "ap_scenarios a = scs"
      "ap_applicability_fingerprint a = applicability_fingerprint a"
  shows "valid_applicability a"
proof -
  note res = normal_controls_resolved[OF controls]
  have ids: "map sc_scenario_id scs = scenario_ids" by (rule fitting_scenario_ids[OF res scenarios])
  have sc: "check_scenario_controls controls sc = None \<and> sc_instances sc \<noteq> [] \<and>
      (\<forall>i \<in> set (sc_instances sc). validate_instance i = None) \<and> validate_scenario sc = None"
    if member: "sc \<in> set scs" for sc
  proof -
    obtain s where s: "scenario_of g resolution controls policy s = Inr sc"
      using list_all2_member2[OF scenarios member] by blast
    show ?thesis using scenario_controls_ok[OF res dist s] scenario_of_Inr(3)[OF res s] by blast
  qed
  have "first_error (map (check_scenario_controls controls) scs) = None"
    using sc by (simp add: first_error_None_iff)
  moreover have "set (map sc_scenario_id scs) = set scenario_ids" using ids by simp
  ultimately have "validate_applicability a = None"
    using dist a by (simp add: validate_applicability_def)
  moreover have "length scs = 8" using arg_cong[OF ids, of length] by (simp add: scenario_ids_def)
  ultimately show ?thesis
    using sc a policy_assessment_facts(1,2)[OF policy] by (simp add: valid_applicability_def list_all_iff)
qed

lemma engine_total:
  assumes "normal_controls g resolution fp = Inr controls" and "identities_distinct g controls"
  shows "\<exists>a. evaluate_applicability configured index structural g resolution fp = Inr a \<and>
    valid_applicability a"
proof -
  note res = normal_controls_resolved[OF assms(1)]
  obtain policy where policy: "policy_assessment_of configured g controls = Inr policy"
    using policy_assessment_total by blast
  obtain scs where scs: "traverse (scenario_of g resolution controls policy) scenario_ids = Inr scs"
    using traverse_exists[of scenario_ids, OF scenario_of_total[OF res assms(2)]] ..
  have "distinct (map (\<lambda>c. instance_identity SG_01 (nc_control_id c)) controls)"
    using assms(2) unfolding identities_distinct_def by blast
  then have dist: "distinct (map nc_control_id controls)"
    by (auto simp: distinct_map inj_on_def)
  define draft where "draft = \<lparr>ap_project_id = ix_project_id index,
       ap_project_source_fingerprint = ix_project_source_fingerprint index,
       ap_source_index_fingerprint = ix_source_index_fingerprint index,
       ap_structural_graph_fingerprint = pg_graph_fingerprint structural,
       ap_projected_graph_fingerprint = pg_graph_fingerprint g,
       ap_semantic_resolution_fingerprint = fp, ap_policy = policy, ap_normal_controls = controls,
       ap_scenarios = scs, ap_applicability_fingerprint = []\<rparr>"
  let ?a = "draft\<lparr>ap_applicability_fingerprint := applicability_fingerprint draft\<rparr>"
  have "valid_applicability ?a"
    by (rule artifact_valid[OF assms(1) policy scs[unfolded traverse_Inr_iff] dist])
      (simp_all, simp_all add: draft_def)
  moreover from this have "validate_applicability ?a = None" by (simp only: valid_applicability_def)
  moreover have "evaluate_applicability configured index structural g resolution fp = construct validate_applicability ?a"
    unfolding evaluate_applicability_def assms(1) policy catalog_scenarios_def scs bind_result_simps
      Let_def draft_def[symmetric] ..
  ultimately show ?thesis by (simp only: construct_eq_Inr) blast
qed

section \<open>What an applicable assertion presupposes\<close>

text \<open>Where an assertion of the artifact comes from.\<close>

lemma engine_assertion_origin:
  assumes run: "evaluate_applicability configured index structural g resolution fp = Inr a"
    and sc: "sc \<in> set (ap_scenarios a)" and i: "i \<in> set (sc_instances sc)" and x: "x \<in> set (si_assertions i)"
  obtains d specs ingress c spec where
    "(d, specs, ingress, c) \<in> set (scenario_plan g resolution (ap_normal_controls a) (ap_policy a) (sc_scenario_id sc))"
    and "list_all2 spec_fits specs (si_assertions i)" and "spec \<in> set specs" and "spec_fits spec x"
proof -
  note res = normal_controls_resolved[OF evaluate_applicability_Inr(1)[OF run]]
  obtain s where s: "scenario_of g resolution (ap_normal_controls a) (ap_policy a) s = Inr sc"
    using list_all2_member2[OF evaluate_applicability_Inr(3)[OF run] sc] by blast
  obtain p where p: "p \<in> set (scenario_plan g resolution (ap_normal_controls a) (ap_policy a) s)" "plan_fits s p i"
    using list_all2_member2[OF scenario_of_Inr(1)[OF res s] i] by blast
  obtain d specs ingress c where pe: "p = (d, specs, ingress, c)" by (cases p) auto
  have fits: "list_all2 spec_fits specs (si_assertions i)" using p(2) plan_fits_facts(7) by (simp add: pe)
  then obtain spec where "spec \<in> set specs" "spec_fits spec x" using list_all2_member2[OF _ x] by blast
  then show thesis using that p(1) fits scenario_of_Inr(2)[OF res s] by (simp add: pe)
qed

lemma fallback_not_applicable: "fst (fallback_state g resolution ns) \<noteq> APPLICABLE"
  by (simp add: fallback_state_def)

lemma catalog_not_applicable: "fst (catalog_judgement g resolution controls s) \<noteq> APPLICABLE"
  by (cases s) (simp_all add: catalog_judgement_def fallback_not_applicable sg07_catalog_state_def
      sg08_catalog_state_def)

definition capture_ready :: "safety_graph \<Rightarrow> normal_control \<Rightarrow> bool" where
  "capture_ready g c \<longleftrightarrow>
     (\<exists>n. graph_lookup g (nc_ingress_node_id c) = Some n \<and> is_post_webhook n) \<and>
     relevant_diagnostics g [c] = [] \<and> captured_control_edges g c \<noteq> []"

lemma captured_evidence_ready:
  "captured_webhook_control_evidence g c \<noteq> None \<longleftrightarrow> capture_ready g c"
  by (auto simp: captured_webhook_control_evidence_def capture_ready_def split: option.splits)

definition policy_confirmed :: "policy_assessment \<Rightarrow> bool" where
  "policy_confirmed policy \<longleftrightarrow> fa_confirmed_policy (pa_fulfilment policy) \<noteq> None \<and>
     fa_evidence_current (pa_fulfilment policy) = Some True"

lemma policy_state_applicable: "fst (policy_state policy c) = APPLICABLE \<longleftrightarrow> policy_confirmed policy"
  by (simp add: policy_state_def policy_confirmed_def)

lemma duplicate_capture_applicable:
  "fst (duplicate_capture_state g policy c) = APPLICABLE \<longleftrightarrow> policy_confirmed policy \<and> capture_ready g c"
  using captured_evidence_ready[of g c] policy_state_applicable[of policy c]
  by (auto simp: duplicate_capture_state_def split: option.splits)

lemma normal_capture_applicable:
  "fst (normal_capture_state g policy c) = APPLICABLE \<longleftrightarrow>
     policy_confirmed policy \<and> capture_ready g c \<and>
     fa_confirmed_policy (pa_fulfilment policy) = Some CAPTURE_REQUIRED"
  using captured_evidence_ready[of g c] policy_state_applicable[of policy c]
  by (auto simp: normal_capture_state_def split: option.splits)

lemma sg03_applicable:
  "fst (sg03_state g policy c) = APPLICABLE \<longleftrightarrow>
     policy_confirmed policy \<and> capture_ready g c \<and> length (acknowledgements_after_value g c) = 1"
  using duplicate_capture_applicable[of g policy c]
  by (cases "acknowledgements_after_value g c" rule: remdups_adj.cases) (auto simp: sg03_state_def Let_def)

lemma sg07_applicable:
  "fst (sg07_state g policy controls c) = APPLICABLE \<longleftrightarrow>
     policy_confirmed policy \<and> capture_ready g c \<and> linked_checkout_controls controls c \<noteq> []"
  using duplicate_capture_applicable[of g policy c] by (auto simp: sg07_state_def Let_def)

text \<open>The members of a plan, by kind.\<close>

lemma scenario_plan_cases:
  assumes "(d, specs, ingress, control) \<in> set (scenario_plan g resolution controls policy s)"
  obtains (own) c where "c \<in> set (planned_controls g controls s)" and "control = Some c"
      and "specs = planned_specs g policy controls s c" and "ingress = graph_lookup g (nc_ingress_node_id c)"
  | (trust) n where "(n, control) \<in> set (planned_targets g controls s)" and "ingress = Some n"
      and "specs = [(mutation_key_of s, CORE, trust_mutation_state g s n control, None),
        (value_key_of s, CORE, trust_value_state g resolution s n control, control)]"
  | (catalog) "specs = [(value_key_of s, CORE, catalog_judgement g resolution controls s, None)]"
      and "control = None"
  using assms
  by (auto simp: scenario_plan_def Let_def control_plan_def trust_plan_def catalog_plan_def
      split: if_splits)

lemma planned_controls_webhook:
  "c \<in> set (planned_controls g controls s) \<Longrightarrow> c \<in> set controls \<and> nc_ingress_kind c = WEBHOOK"
  by (cases s) (auto simp: planned_controls_def Let_def is_webhook_control_def split: if_splits)

lemma planned_targets_scenarios: "t \<in> set (planned_targets g controls s) \<Longrightarrow> s = SG_05 \<or> s = SG_06"
  by (cases s) (simp_all add: planned_targets_def)

lemma planned_core_judgement:
  assumes "spec \<in> set (planned_specs g policy controls s c)" and "s \<in> {SG_01, SG_02, SG_03, SG_04, SG_07}"
    and "fst (snd spec) = CORE"
  shows "snd (snd (snd spec)) = Some c \<and> fst (snd (snd spec)) =
    (case s of SG_01 \<Rightarrow> normal_capture_state g policy c | SG_03 \<Rightarrow> sg03_state g policy c
     | SG_07 \<Rightarrow> sg07_state g policy controls c | _ \<Rightarrow> duplicate_capture_state g policy c)"
  using assms by (cases s) (auto simp: planned_specs_def)

lemma planned_core_ready:
  assumes "spec \<in> set (planned_specs g policy controls s c)" and "s \<in> {SG_01, SG_02, SG_03, SG_04, SG_07}"
    and "fst (snd spec) = CORE" and app: "fst (fst (snd (snd spec))) = APPLICABLE"
  shows "policy_confirmed policy" and "capture_ready g c"
    and "s = SG_01 \<Longrightarrow> fa_confirmed_policy (pa_fulfilment policy) = Some CAPTURE_REQUIRED"
    and "snd (snd (snd spec)) = Some c"
proof -
  note j = planned_core_judgement[OF assms(1-3)]
  have "policy_confirmed policy \<and> capture_ready g c \<and>
      (s = SG_01 \<longrightarrow> fa_confirmed_policy (pa_fulfilment policy) = Some CAPTURE_REQUIRED)"
    using app assms(2)
    by (cases s) (simp_all add: j normal_capture_applicable duplicate_capture_applicable
        sg03_applicable sg07_applicable)
  then show "policy_confirmed policy" and "capture_ready g c"
    and "s = SG_01 \<Longrightarrow> fa_confirmed_policy (pa_fulfilment policy) = Some CAPTURE_REQUIRED"
    by simp_all
  show "snd (snd (snd spec)) = Some c" using j by simp
qed

lemma capture_ready_facts:
  assumes "capture_ready g c"
  shows "\<exists>n \<in> set (pg_nodes g). gn_node_id n = nc_ingress_node_id c \<and> is_post_webhook n"
    and "\<exists>e \<in> set (pg_edges g). matched_branch e \<and> captured_branch e \<and>
      ge_target_node_id e = nc_customer_value_node_id c \<and>
      source_route (graph_lookup g) e = Some (nc_route_registration_id c)"
    and "d \<in> set (pg_diagnostics g) \<Longrightarrow> gd_route_registration_id d = Some (nc_route_registration_id c) \<Longrightarrow>
      gd_impact d \<noteq> COVERAGE_REDUCED"
  using assms
  by (auto simp: capture_ready_def captured_control_edges_def control_state_edges_def
      relevant_diagnostics_def filter_empty_conv dest: graph_lookup_Some)

text \<open>
  C26. What "applicable" promises: a core assertion of SG-01 to SG-04 or SG-07 that the engine
  declares APPLICABLE belongs to a webhook control of the artifact, under a fulfilment policy the
  merchant confirmed against the current evidence (for SG-01, the policy that requires capture);
  the control's ingress takes POST requests, a matched branch on the captured state leads to its
  customer-value target on its own route, and no diagnostic reduces the coverage of that route.
\<close>

theorem engine_applicable_is_supported:
  assumes run: "evaluate_applicability configured index structural g resolution fp = Inr a"
    and sc: "sc \<in> set (ap_scenarios a)" "sc_scenario_id sc \<in> {SG_01, SG_02, SG_03, SG_04, SG_07}"
    and x: "i \<in> set (sc_instances sc)" "x \<in> set (si_assertions i)"
    and app: "aa_role x = CORE" "aa_state x = APPLICABLE"
  shows "\<exists>c \<in> set (ap_normal_controls a).
    aa_normal_control_id x = Some (nc_control_id c) \<and> nc_ingress_kind c = WEBHOOK \<and>
    fa_confirmed_policy (pa_fulfilment (ap_policy a)) \<noteq> None \<and>
    fa_evidence_current (pa_fulfilment (ap_policy a)) = Some True \<and>
    (sc_scenario_id sc = SG_01 \<longrightarrow>
      fa_confirmed_policy (pa_fulfilment (ap_policy a)) = Some CAPTURE_REQUIRED) \<and>
    (\<exists>n \<in> set (pg_nodes g). gn_node_id n = nc_ingress_node_id c \<and> is_post_webhook n) \<and>
    (\<exists>e \<in> set (pg_edges g). matched_branch e \<and> captured_branch e \<and>
      ge_target_node_id e = nc_customer_value_node_id c \<and>
      source_route (graph_lookup g) e = Some (nc_route_registration_id c)) \<and>
    (\<forall>d \<in> set (pg_diagnostics g). gd_route_registration_id d = Some (nc_route_registration_id c) \<longrightarrow>
      gd_impact d \<noteq> COVERAGE_REDUCED)"
proof -
  obtain d specs ingress control spec where
    plan: "(d, specs, ingress, control) \<in> set (scenario_plan g resolution (ap_normal_controls a) (ap_policy a) (sc_scenario_id sc))"
    and spec: "spec \<in> set specs" "spec_fits spec x"
    using engine_assertion_origin[OF run sc(1) x] by metis
  have fits: "fst (snd spec) = CORE" "fst (fst (snd (snd spec))) = APPLICABLE"
    "aa_normal_control_id x = map_option nc_control_id (snd (snd (snd spec)))"
    using spec(2) app by (auto simp: spec_fits_def split: prod.splits)
  show ?thesis
    using plan
  proof (cases rule: scenario_plan_cases)
    case (own c)
    note ready = planned_core_ready[OF spec(1)[unfolded own(3)] sc(2) fits(1,2)]
    show ?thesis
      using planned_controls_webhook[OF own(1)] ready(1,3,4) fits(3) capture_ready_facts[OF ready(2)]
      by (intro bexI[of _ c]) (auto simp: policy_confirmed_def)
  next
    case (trust n)
    then show ?thesis using planned_targets_scenarios sc(2) by fastforce
  next
    case catalog
    then show ?thesis
      using spec(1) fits(2) catalog_not_applicable[of g resolution "ap_normal_controls a" "sc_scenario_id sc"]
      by auto
  qed
qed

lemma sg08_late_policy_pending:
  assumes "spec \<in> set (sg08_specs g policy c)" and "fst spec = SG08_LATE_POLICY_ASSERTION_KEY"
  shows "fst (fst (snd (snd spec))) \<noteq> APPLICABLE"
  using assms
  by (auto simp: sg08_specs_def late_policy_spec_def Let_def assertion_key_defs split: option.splits if_splits)

lemma engine_fits_keys:
  assumes run: "evaluate_applicability configured index structural g resolution fp = Inr a"
    and sc: "sc \<in> set (ap_scenarios a)" and x: "i \<in> set (sc_instances sc)" "x \<in> set (si_assertions i)"
    and app: "aa_state x = APPLICABLE"
  shows "(sc_scenario_id sc = SG_08 \<longrightarrow> aa_key x \<noteq> SG08_LATE_POLICY_ASSERTION_KEY) \<and>
    (sc_scenario_id sc = SG_05 \<longrightarrow> map aa_key (si_assertions i) =
      [SG05_MUTATION_ASSERTION_KEY, SG05_CUSTOMER_VALUE_ASSERTION_KEY]) \<and>
    (sc_scenario_id sc = SG_06 \<longrightarrow> map aa_key (si_assertions i) =
      [SG06_MUTATION_ASSERTION_KEY, SG06_CUSTOMER_VALUE_ASSERTION_KEY])"
proof -
  obtain d specs ingress control spec where
    plan: "(d, specs, ingress, control) \<in> set (scenario_plan g resolution (ap_normal_controls a) (ap_policy a) (sc_scenario_id sc))"
    and fits: "list_all2 spec_fits specs (si_assertions i)"
    and spec: "spec \<in> set specs" "spec_fits spec x"
    using engine_assertion_origin[OF run sc x] by metis
  have st: "fst (fst (snd (snd spec))) = APPLICABLE" and key: "fst spec = aa_key x"
    using spec(2) app by (auto simp: spec_fits_def split: prod.splits)
  show ?thesis
    using plan
  proof (cases rule: scenario_plan_cases)
    case (own c)
    have "sc_scenario_id sc \<notin> {SG_05, SG_06}" using own(1) by (auto simp: planned_controls_def)
    moreover have "aa_key x \<noteq> SG08_LATE_POLICY_ASSERTION_KEY" if "sc_scenario_id sc = SG_08"
      using sg08_late_policy_pending[of spec g "ap_policy a" c] spec(1) own(3) that st key
      by (auto simp: planned_specs_def)
    ultimately show ?thesis by simp
  next
    case (trust n)
    then have "map aa_key (si_assertions i) = [mutation_key_of (sc_scenario_id sc), value_key_of (sc_scenario_id sc)]"
      using fits by (auto simp: list_all2_Cons1 spec_fits_def)
    then show ?thesis using planned_targets_scenarios[OF trust(1)]
      by (auto simp: mutation_key_of_def value_key_of_def)
  next
    case catalog
    then show ?thesis
      using spec(1) st catalog_not_applicable[of g resolution "ap_normal_controls a" "sc_scenario_id sc"]
      by auto
  qed
qed

text \<open>
  The artifact fits the handlers that execute it.  The late-payment policy assertion of
  SG-08, which no reducer evaluates, is never APPLICABLE; and an instance of SG-05 or SG-06 that
  has an APPLICABLE assertion has both the mutation assertion and the customer-value assertion,
  which the handlers look up by key.
\<close>

theorem engine_fits_handlers:
  assumes run: "evaluate_applicability configured index structural g resolution fp = Inr a"
    and sc: "sc \<in> set (ap_scenarios a)" and x: "i \<in> set (sc_instances sc)" "x \<in> set (si_assertions i)"
    and app: "aa_state x = APPLICABLE"
  shows "(sc_scenario_id sc = SG_08 \<longrightarrow> aa_key x \<noteq> SG08_LATE_POLICY_ASSERTION_KEY) \<and>
    (sc_scenario_id sc = SG_05 \<longrightarrow> map aa_key (si_assertions i) =
      [SG05_MUTATION_ASSERTION_KEY, SG05_CUSTOMER_VALUE_ASSERTION_KEY]) \<and>
    (sc_scenario_id sc = SG_06 \<longrightarrow> map aa_key (si_assertions i) =
      [SG06_MUTATION_ASSERTION_KEY, SG06_CUSTOMER_VALUE_ASSERTION_KEY])"
  using engine_fits_keys[OF assms] .

section \<open>Evidence can be looked up\<close>

definition evidence_resolves :: "safety_graph \<Rightarrow> normal_control list \<Rightarrow> evidence_reference \<Rightarrow> bool" where
  "evidence_resolves g controls r = (case ev_ref_kind r of
      EV_GRAPH_NODE \<Rightarrow> ev_ref_reference r \<in> gn_node_id ` set (pg_nodes g)
    | EV_GRAPH_EDGE \<Rightarrow> ev_ref_reference r \<in> ge_edge_id ` set (pg_edges g)
    | EV_NORMAL_CONTROL \<Rightarrow> ev_ref_reference r \<in> nc_control_id ` set controls
    | _ \<Rightarrow> False)"

definition resolves :: "safety_graph \<Rightarrow> normal_control list \<Rightarrow> evidence_reference list \<Rightarrow> bool" where
  "resolves g controls rs \<longleftrightarrow> (\<forall>r \<in> set rs. evidence_resolves g controls r)"

definition judgement_resolves :: "safety_graph \<Rightarrow> normal_control list \<Rightarrow> judgement \<Rightarrow> bool" where
  "judgement_resolves g controls j \<longleftrightarrow> (\<forall>x \<in> set (snd j). resolves g controls (rs_evidence x))"

lemma judgement_resolves_reason [simp]:
  "judgement_resolves g controls (st, reason code rs) \<longleftrightarrow> resolves g controls rs"
  by (simp add: judgement_resolves_def reason_def)

lemma resolves_simps [simp]:
  "resolves g controls []"
  "resolves g controls (r # rs) \<longleftrightarrow> evidence_resolves g controls r \<and> resolves g controls rs"
  "resolves g controls (rs @ rs') \<longleftrightarrow> resolves g controls rs \<and> resolves g controls rs'"
  "resolves g controls (concat rss) \<longleftrightarrow> (\<forall>rs \<in> set rss. resolves g controls rs)"
  by (auto simp: resolves_def)

lemma evidence_resolves_simps [simp]:
  "evidence_resolves g controls (evidence_ref EV_GRAPH_NODE k) \<longleftrightarrow> k \<in> gn_node_id ` set (pg_nodes g)"
  "evidence_resolves g controls (evidence_ref EV_GRAPH_EDGE k) \<longleftrightarrow> k \<in> ge_edge_id ` set (pg_edges g)"
  "evidence_resolves g controls (evidence_ref EV_NORMAL_CONTROL k) \<longleftrightarrow> k \<in> nc_control_id ` set controls"
  by (simp_all add: evidence_resolves_def evidence_ref_def)

lemma source_route_resolves:
  assumes "source_route (graph_lookup g) e = Some r"
  shows "ge_source_node_id e \<in> gn_node_id ` set (pg_nodes g)"
proof -
  obtain n where "graph_lookup g (ge_source_node_id e) = Some n"
    using assms by (auto simp: source_route_def bind_eq_Some_conv)
  from graph_lookup_Some[OF this] show ?thesis by (metis imageI)
qed

lemma captured_evidence_resolves:
  assumes "captured_webhook_control_evidence g c = Some rs" and "c \<in> set controls"
  shows "resolves g controls rs"
  using assms source_route_resolves
  by (auto simp: captured_webhook_control_evidence_def captured_control_edges_def control_state_edges_def
      split: option.splits if_splits)

lemma node_references_resolve:
  "set ns \<subseteq> set (pg_nodes g) \<Longrightarrow>
   resolves g controls (map (\<lambda>n. evidence_ref EV_GRAPH_NODE (gn_node_id n)) ns)"
  by (auto simp: resolves_def)

lemma control_references_resolve:
  "set cs \<subseteq> set controls \<Longrightarrow>
   resolves g controls (map (\<lambda>c. evidence_ref EV_NORMAL_CONTROL (nc_control_id c)) cs)"
  by (auto simp: resolves_def)

lemma in_set_map_filter: "y \<in> set (List.map_filter f xs) \<longleftrightarrow> (\<exists>x \<in> set xs. f x = Some y)"
  by (force simp: map_filter_def)

lemma stored_mutation_member:
  "stored_mutation entries carrier k = Some n \<Longrightarrow> \<exists>c a. (c, a, n) \<in> set entries"
  unfolding stored_mutation_def by (drule map_of_SomeD) auto

lemma regression_entry_node:
  "regression_entry g c e = Some (carrier, k, n) \<Longrightarrow> n \<in> set (pg_nodes g)"
  by (auto simp: regression_entry_def dest: graph_lookup_Some(1) split: option.splits if_splits)

lemma mutations_in_graph:
  shows "set (regression_mutations_for_control g c) \<subseteq> set (pg_nodes g)"
    and "set (checkout_protected_mutations g ingress) \<subseteq> set (pg_nodes g)"
    and "set (captured_path_mutations g ingress control) \<subseteq> set (pg_nodes g)"
proof -
  have stored: "n \<in> set (pg_nodes g)"
    if "stored_mutation (List.map_filter (regression_entry g c) (pg_edges g)) carrier k = Some n" for carrier k n
    using stored_mutation_member[OF that] by (auto simp: in_set_map_filter dest: regression_entry_node)
  have pair: "n \<in> set (pg_nodes g)"
    if "carrier_mutations (List.map_filter (regression_entry g c) (pg_edges g)) carrier = Some ns"
      and "n \<in> set ns" for carrier ns n
    using that stored by (auto simp: carrier_mutations_def split: option.splits)
  show "set (regression_mutations_for_control g c) \<subseteq> set (pg_nodes g)"
    by (auto simp: regression_mutations_for_control_def Let_def in_set_map_filter
        dest!: dict_by_SomeD(1)) (erule (1) pair)
  show "set (checkout_protected_mutations g ingress) \<subseteq> set (pg_nodes g)"
    by (auto simp: checkout_protected_mutations_def Let_def split: option.splits)
  show "set (captured_path_mutations g ingress control) \<subseteq> set (pg_nodes g)"
    by (auto simp: captured_path_mutations_def Let_def in_set_map_filter dest: graph_lookup_Some(1)
        split: option.splits)
qed

lemma fallback_resolves: "judgement_resolves g controls (fallback_state g' resolution ns)"
  by (simp add: fallback_state_def)

lemma capture_states_resolve:
  assumes "c \<in> set controls"
  shows "judgement_resolves g controls (normal_capture_state g policy c)"
    and "judgement_resolves g controls (duplicate_capture_state g policy c)"
    and "judgement_resolves g controls (sg08_capture_state g c)"
  using assms captured_evidence_resolves[OF _ assms]
  by (auto simp: normal_capture_state_def duplicate_capture_state_def sg08_capture_state_def policy_state_def
      split: option.splits)

lemma judgement_evidence: "judgement_resolves g controls j \<Longrightarrow> resolves g controls (concat (map rs_evidence (snd j)))"
  by (auto simp: judgement_resolves_def)

lemma composed_states_resolve:
  assumes "c \<in> set controls"
  shows "judgement_resolves g controls (sg03_state g policy c)"
    and "judgement_resolves g controls (sg04_optional_state g c)"
    and "judgement_resolves g controls (sg07_state g policy controls c)"
proof -
  note dup = capture_states_resolve(2)[OF assms, of g policy]
  have ack: "ge_source_node_id e \<in> gn_node_id ` set (pg_nodes g) \<and> e \<in> set (pg_edges g)"
    if "acknowledgements_after_value g c = [e]" for e
  proof -
    have "e \<in> set (acknowledgements_after_value g c)" using that by simp
    then show ?thesis using source_route_resolves by (auto simp: acknowledgements_after_value_def)
  qed
  show "judgement_resolves g controls (sg03_state g policy c)"
    using dup judgement_evidence[OF dup] ack
    by (auto simp: sg03_state_def Let_def split: list.splits)
  show "judgement_resolves g controls (sg04_optional_state g c)"
    using node_references_resolve[OF mutations_in_graph(1)]
    by (simp add: sg04_optional_state_def Let_def)
  have "resolves g controls (case snd (duplicate_capture_state g policy c) of [] \<Rightarrow> [] | r # _ \<Rightarrow> rs_evidence r)"
    using dup by (auto simp: judgement_resolves_def split: list.splits)
  moreover have "set (linked_checkout_controls controls c) \<subseteq> set controls"
    by (auto simp: linked_checkout_controls_def)
  ultimately show "judgement_resolves g controls (sg07_state g policy controls c)"
    using dup control_references_resolve by (simp add: sg07_state_def Let_def)
qed

lemma sg08_specs_resolve:
  assumes "c \<in> set controls" and "spec \<in> set (sg08_specs g policy c)"
  shows "judgement_resolves g controls (fst (snd (snd spec)))"
  using assms capture_states_resolve(3)[OF assms(1), of g]
  by (auto simp: sg08_specs_def late_policy_spec_def Let_def split: option.splits if_splits)

lemma planned_specs_resolve:
  assumes "c \<in> set controls" and "spec \<in> set (planned_specs g policy controls s c)"
  shows "judgement_resolves g controls (fst (snd (snd spec)))"
  using assms sg08_specs_resolve[OF assms(1)] capture_states_resolve[OF assms(1)] composed_states_resolve[OF assms(1)]
  by (cases s) (auto simp: planned_specs_def)

lemma trust_states_resolve:
  shows "judgement_resolves g controls (trust_mutation_state g s n control)"
    and "(\<And>c. control = Some c \<Longrightarrow> c \<in> set controls) \<Longrightarrow>
      judgement_resolves g controls (trust_value_state g resolution s n control)"
proof -
  have "set (canonical_order graph_node_json (trust_mutations g s n control)) \<subseteq> set (pg_nodes g)"
    using mutations_in_graph(2,3) by (simp add: trust_mutations_def)
  then show "judgement_resolves g controls (trust_mutation_state g s n control)"
    using node_references_resolve by (simp add: trust_mutation_state_def Let_def)
  assume "\<And>c. control = Some c \<Longrightarrow> c \<in> set controls"
  then show "judgement_resolves g controls (trust_value_state g resolution s n control)"
    using captured_evidence_resolves
    by (auto simp: trust_value_state_def fallback_resolves split: option.splits)
qed

lemma catalog_resolves: "judgement_resolves g controls (catalog_judgement g resolution cs s)"
  by (cases s) (simp_all add: catalog_judgement_def fallback_resolves sg07_catalog_state_def sg08_catalog_state_def)

text \<open>
  C28. Every piece of evidence in the artifact can be looked up: a reference of the engine names
  a node or an edge of the projected graph or a normal control of the artifact itself, and it
  never uses one of the other reference kinds.
\<close>

theorem engine_evidence_resolves:
  assumes run: "evaluate_applicability configured index structural g resolution fp = Inr a"
    and sc: "sc \<in> set (ap_scenarios a)" and x: "i \<in> set (sc_instances sc)" "x \<in> set (si_assertions i)"
    and r: "y \<in> set (aa_reasons x)" "r \<in> set (rs_evidence y)"
  shows "(ev_ref_kind r = EV_GRAPH_NODE \<and> ev_ref_reference r \<in> gn_node_id ` set (pg_nodes g)) \<or>
         (ev_ref_kind r = EV_GRAPH_EDGE \<and> ev_ref_reference r \<in> ge_edge_id ` set (pg_edges g)) \<or>
         (ev_ref_kind r = EV_NORMAL_CONTROL \<and> ev_ref_reference r \<in> nc_control_id ` set (ap_normal_controls a))"
proof -
  obtain d specs ingress control spec where
    plan: "(d, specs, ingress, control) \<in> set (scenario_plan g resolution (ap_normal_controls a) (ap_policy a) (sc_scenario_id sc))"
    and spec: "spec \<in> set specs" "spec_fits spec x"
    using engine_assertion_origin[OF run sc x] by metis
  note res = normal_controls_resolved[OF evaluate_applicability_Inr(1)[OF run]]
  have ok: "plan_ok (ap_normal_controls a) (d, specs, ingress, control)" by (rule scenario_plan_ok[OF res plan])
  have "judgement_resolves g (ap_normal_controls a) (fst (snd (snd spec)))"
    using plan
  proof (cases rule: scenario_plan_cases)
    case (own c)
    then show ?thesis using planned_specs_resolve planned_controls_subset spec(1) by metis
  next
    case (trust n)
    then have "c \<in> set (ap_normal_controls a)" if "control = Some c" for c
      using ok that by (simp add: plan_ok_def)
    then show ?thesis using trust(3) spec(1) trust_states_resolve by auto
  next
    case catalog
    then show ?thesis using spec(1) catalog_resolves by auto
  qed
  moreover have "aa_reasons x = snd (fst (snd (snd spec)))"
    using spec(2) by (simp add: spec_fits_def split: prod.splits)
  ultimately have "evidence_resolves g (ap_normal_controls a) r"
    using r by (auto simp: judgement_resolves_def resolves_def)
  then show ?thesis by (simp add: evidence_resolves_def split: evidence_reference_kind.splits)
qed

text \<open>
  C27. The engine is total: for every graph, resolution and configured policy it returns an
  artifact, and the artifact is well formed (every nested validator accepts it), provided that
  no two of the instance identities it derives from its controls and ingresses are equal.
\<close>

theorem engine_artifact_well_formed:
  assumes "normal_controls g resolution fp = Inr controls" and "identities_distinct g controls"
  shows "\<exists>a. evaluate_applicability configured index structural g resolution fp = Inr a \<and>
    valid_applicability a"
  using assms by (rule engine_total)

section \<open>A concrete project\<close>

text \<open>
  A webhook route that hands out customer value under a captured branch, with the policy the
  engine suggests confirmed against the current evidence.
\<close>

definition shop_ingress :: graph_node where
  "shop_ingress = \<lparr>gn_node_id = ''n1'', gn_kind = PAYMENT_INGRESS, gn_label = ''hook'',
     gn_backing_symbol_id = Some ''y0'', gn_details = Some (PaymentIngressDetails
       \<lparr>pi_ingress_kind = WEBHOOK,
        pi_registration = \<lparr>er_route_registration_id = ''r1'', er_app_instance_id = ''app'',
          er_registrar_instance_id = ''app'', er_method = ''POST'', er_component_path = ''/hook'',
          er_effective_path = ''/hook''\<rparr>,
        pi_evidence_families = [], pi_checkout_request_binding = None\<rparr>), gn_provenance = []\<rparr>"

definition shop_gate :: graph_node where
  "shop_gate = \<lparr>gn_node_id = ''p1'', gn_kind = PAYMENT_STATE_GATE, gn_label = ''gate'',
     gn_backing_symbol_id = Some ''y0'', gn_details = Some (PaymentStateGateDetails
       \<lparr>sg_route_registration_id = ''r1'', sg_structural_anchor = ''a'', sg_operator = EQUALS,
        sg_states = [''payment.captured'']\<rparr>), gn_provenance = []\<rparr>"

definition shop_value :: graph_node where
  "shop_value = \<lparr>gn_node_id = ''v1'', gn_kind = CUSTOMER_VALUE_ACTION, gn_label = ''ship'',
     gn_backing_symbol_id = Some ''y1'', gn_details = None, gn_provenance = []\<rparr>"

definition shop_call :: graph_edge where
  "shop_call = \<lparr>ge_edge_id = ''e1'', ge_source_node_id = ''n1'', ge_target_node_id = ''v1'',
     ge_kind = CALLS, ge_branch = None,
     ge_provenance = [\<lparr>pr_kind = STATIC, pr_reference = ''call-site:k'', pr_source_location = None,
       pr_supporting_fingerprint = Some ''s''\<rparr>]\<rparr>"

definition shop_branch :: graph_edge where
  "shop_branch = \<lparr>ge_edge_id = ''e2'', ge_source_node_id = ''p1'', ge_target_node_id = ''v1'',
     ge_kind = BRANCHES_TO,
     ge_branch = Some \<lparr>br_disposition = MATCHED, br_states = [''payment.captured'']\<rparr>,
     ge_provenance = []\<rparr>"

definition shop_graph :: safety_graph where
  "shop_graph = \<lparr>pg_project_id = ''p'', pg_source_index_fingerprint = ''s'',
     pg_graph_fingerprint = ''g'', pg_completeness = COMPLETE, pg_diagnostics = [],
     pg_nodes = [shop_ingress, shop_gate, shop_value], pg_edges = [shop_call, shop_branch]\<rparr>"

definition shop_control :: normal_control where
  "shop_control = \<lparr>nc_control_id = stable_id ''sgcontrol''
       [''n1'', ''r1'', ''v1'', ''y1'', ''e1'', ''call-site:k'', ''f''],
     nc_ingress_node_id = ''n1'', nc_route_registration_id = ''r1'', nc_ingress_kind = WEBHOOK,
     nc_customer_value_node_id = ''v1'', nc_customer_value_symbol_id = ''y1'',
     nc_connectivity_edge_id = ''e1'', nc_call_path_references = [''call-site:k''],
     nc_semantic_resolution_fingerprint = ''f''\<rparr>"

definition shop_resolution :: value_resolution where
  "shop_resolution = \<lparr>vx_state = RESOLUTION_UNIQUE, vx_basis = BASIS_MODEL_UNIQUE,
     vx_selected_symbol_id = Some ''y1''\<rparr>"

definition shop_fingerprint :: string where
  "shop_fingerprint =
     (case fulfilment_evidence_fingerprint shop_graph [shop_control] of Inl e \<Rightarrow> [] | Inr x \<Rightarrow> x)"

definition shop_policy :: merchant_policy_config where
  "shop_policy = \<lparr>mp_fulfilment = Some \<lparr>cf_value = CAPTURE_REQUIRED,
     cf_evidence_fingerprint = shop_fingerprint\<rparr>, mp_late_authorisation = None\<rparr>"

abbreviation shop_run :: "applicability_artifact result" where
  "shop_run \<equiv> evaluate_applicability (Some shop_policy) demo_index shop_graph shop_graph
     (Some shop_resolution) (Some ''f'')"

lemmas shop_defs = shop_graph_def shop_ingress_def shop_gate_def shop_value_def shop_call_def
  shop_branch_def shop_control_def

lemma shop_lookup [simp]:
  "graph_lookup shop_graph ''n1'' = Some shop_ingress"
  "graph_lookup shop_graph ''v1'' = Some shop_value"
  "graph_lookup shop_graph ''p1'' = Some shop_gate"
  by (simp_all add: graph_lookup_def dict_by_def shop_defs)

lemma shop_controls: "normal_controls shop_graph (Some shop_resolution) (Some ''f'') = Inr [shop_control]"
proof -
  have "normal_control_of_edge (graph_lookup shop_graph) ''y1'' ''f'' shop_call = Inr (Some shop_control)"
    by (simp add: normal_control_of_edge_def shop_call_def)
      (simp add: shop_defs as_ingress_def normal_control_id_def call_path_of_def starts_with_def Let_def)
  moreover have "normal_control_of_edge (graph_lookup shop_graph) ''y1'' ''f'' shop_branch = Inr None"
    by (simp add: normal_control_of_edge_def shop_branch_def) (simp add: shop_defs as_ingress_def)
  moreover have "pg_edges shop_graph = [shop_call, shop_branch]" by (simp add: shop_graph_def)
  ultimately show ?thesis
    by (simp add: normal_controls_def shop_resolution_def canonical_order_def map_filter_simps)
qed

lemma shop_ingresses: "graph_ingresses shop_graph = [shop_ingress]"
  by (simp add: graph_ingresses_def shop_defs as_ingress_def)

lemma shop_targets: "trust_targets [shop_control] shop_ingress = [(shop_ingress, Some shop_control)]"
  by (simp add: trust_targets_def shop_defs)

lemma shop_identities: "identities_distinct shop_graph [shop_control]"
  by (simp add: identities_distinct_def engine_discriminators_def shop_ingresses shop_targets)

lemma shop_capture_ready: "capture_ready shop_graph shop_control"
proof -
  have "source_route (graph_lookup shop_graph) shop_branch = Some ''r1''"
    by (simp add: source_route_def shop_branch_def) (simp add: shop_gate_def route_id_for_node_def)
  moreover have "branch_states shop_branch = [''captured'']"
    by (simp add: branch_states_def shop_branch_def remove_prefix_def starts_with_def)
  ultimately have "shop_branch \<in> set (captured_control_edges shop_graph shop_control)"
    by (simp add: captured_control_edges_def control_state_edges_def captured_branch_def)
      (simp add: shop_defs matched_branch_def)
  then have "captured_control_edges shop_graph shop_control \<noteq> []" by auto
  moreover have "graph_lookup shop_graph (nc_ingress_node_id shop_control) = Some shop_ingress"
    by (simp add: shop_control_def)
  moreover have "is_post_webhook shop_ingress"
    by (simp add: is_post_webhook_def as_ingress_def shop_ingress_def)
  moreover have "relevant_diagnostics shop_graph [shop_control] = []"
    by (simp add: relevant_diagnostics_def shop_graph_def)
  ultimately show ?thesis by (simp add: capture_ready_def)
qed

text \<open>The run of the engine on this project, down to an applicable assertion of SG-01 and SG-05.\<close>

lemma shop_run_assertion:
  assumes s: "s = SG_01 \<or> s = SG_05"
  obtains a sc i x where "shop_run = Inr a" and "sc \<in> set (ap_scenarios a)" and "sc_scenario_id sc = s"
    and "i \<in> set (sc_instances sc)" and "x \<in> set (si_assertions i)" and "aa_role x = CORE"
    and "aa_state x = APPLICABLE"
    and "\<exists>y \<in> set (aa_reasons x). evidence_ref EV_NORMAL_CONTROL (nc_control_id shop_control) \<in> set (rs_evidence y)"
proof -
  obtain a where run: "shop_run = Inr a" using engine_total[OF shop_controls shop_identities] by blast
  note parts = evaluate_applicability_Inr[OF run]
  have controls: "ap_normal_controls a = [shop_control]" using parts(1) shop_controls by simp
  note policy = policy_assessment_facts[OF parts(2)[unfolded controls]]
  have confirmed: "policy_confirmed (ap_policy a)"
    and required: "fa_confirmed_policy (pa_fulfilment (ap_policy a)) = Some CAPTURE_REQUIRED"
    using policy(3-5) by (simp_all add: policy_confirmed_def configured_fulfilment_def shop_policy_def
        shop_fingerprint_def)
  obtain rs where rs: "captured_webhook_control_evidence shop_graph shop_control =
      Some (evidence_ref EV_NORMAL_CONTROL (nc_control_id shop_control) # rs)"
    using captured_evidence_ready[of shop_graph shop_control] shop_capture_ready
    by (auto simp: captured_webhook_control_evidence_def split: option.splits if_splits)
  have "s \<in> set scenario_ids" by (simp add: set_scenario_ids)
  then obtain sc where sc: "sc \<in> set (ap_scenarios a)"
      "scenario_of shop_graph (Some shop_resolution) [shop_control] (ap_policy a) s = Inr sc"
    using parts(3)[unfolded controls] by (meson list_all2_member1)
  note res = normal_controls_resolved[OF shop_controls]
  have webhook: "is_webhook_control shop_control" "is_ingress_of_kind WEBHOOK shop_ingress"
    by (simp_all add: is_webhook_control_def shop_control_def is_ingress_of_kind_def as_ingress_def shop_ingress_def)
  let ?g = "shop_graph" and ?c = "shop_control"
  obtain p specs spec where plan: "p \<in> set (scenario_plan ?g (Some shop_resolution) [?c] (ap_policy a) s)"
      "fst (snd p) = specs" "spec \<in> set specs"
    and spec: "fst (snd spec) = CORE" "fst (fst (snd (snd spec))) = APPLICABLE"
      "\<exists>y \<in> set (snd (fst (snd (snd spec)))). evidence_ref EV_NORMAL_CONTROL (nc_control_id ?c) \<in> set (rs_evidence y)"
  proof (cases "s = SG_01")
    case True
    have "normal_capture_state ?g (ap_policy a) ?c = (APPLICABLE, reason AR_NORMAL_CAPTURE_THRESHOLD_AVAILABLE
        (evidence_ref EV_NORMAL_CONTROL (nc_control_id ?c) # rs))"
      using policy_state_applicable[of "ap_policy a" ?c] confirmed required rs
      by (simp add: normal_capture_state_def)
    then show thesis
      using that[of "control_plan ?g (planned_specs ?g (ap_policy a) [?c] s) ?c"] webhook True
      by (simp add: scenario_plan_def planned_controls_def planned_specs_def control_plan_def Let_def reason_def)
  next
    case False
    then have "s = SG_05" using s by simp
    then show thesis
      using that[of "trust_plan ?g (Some shop_resolution) s (value_key_of s) (mutation_key_of s) (shop_ingress, Some ?c)"
          _ "(value_key_of s, CORE, trust_value_state ?g (Some shop_resolution) s shop_ingress (Some ?c), Some ?c)", OF _ refl]
        webhook rs
      by (simp add: scenario_plan_def planned_controls_def planned_targets_def ingresses_of_kind_def
          shop_ingresses shop_targets trust_plan_def trust_value_state_def Let_def reason_def)
  qed
  obtain i where i: "i \<in> set (sc_instances sc)" "plan_fits s p i"
    using list_all2_member1[OF scenario_of_Inr(1)[OF res sc(2)] plan(1)] by blast
  have "list_all2 spec_fits specs (si_assertions i)"
    using i(2) plan(2) plan_fits_facts(7) by (cases p) auto
  then obtain x where x: "x \<in> set (si_assertions i)" "spec_fits spec x"
    using list_all2_member1 plan(3) by metis
  have "aa_role x = CORE" "aa_state x = APPLICABLE" "aa_reasons x = snd (fst (snd (snd spec)))"
    using x(2) spec by (auto simp: spec_fits_def split: prod.splits)
  then show thesis using that[OF run sc(1) scenario_of_Inr(2)[OF res sc(2)] i(1) x(1)] spec(3) by simp
qed

theorem engine_artifact_well_formed_witness:
  "\<exists>a. shop_run = Inr a \<and> valid_applicability a"
  by (rule engine_artifact_well_formed[OF shop_controls shop_identities])

theorem engine_applicable_is_supported_witness:
  "\<exists>a c. shop_run = Inr a \<and> c \<in> set (ap_normal_controls a) \<and> nc_ingress_kind c = WEBHOOK \<and>
     fa_confirmed_policy (pa_fulfilment (ap_policy a)) = Some CAPTURE_REQUIRED"
proof -
  obtain a sc i x where w: "shop_run = Inr a" "sc \<in> set (ap_scenarios a)" "sc_scenario_id sc = SG_01"
    "i \<in> set (sc_instances sc)" "x \<in> set (si_assertions i)" "aa_role x = CORE" "aa_state x = APPLICABLE"
    using shop_run_assertion[of SG_01] by metis
  have "sc_scenario_id sc \<in> {SG_01, SG_02, SG_03, SG_04, SG_07}" using w(3) by simp
  from engine_applicable_is_supported[OF w(1,2) this w(4-7)] show ?thesis using w(1,3) by blast
qed

theorem engine_fits_handlers_witness:
  "\<exists>a sc i. shop_run = Inr a \<and> sc \<in> set (ap_scenarios a) \<and> i \<in> set (sc_instances sc) \<and>
     map aa_key (si_assertions i) = [SG05_MUTATION_ASSERTION_KEY, SG05_CUSTOMER_VALUE_ASSERTION_KEY]"
proof -
  obtain a sc i x where w: "shop_run = Inr a" "sc \<in> set (ap_scenarios a)" "sc_scenario_id sc = SG_05"
    "i \<in> set (sc_instances sc)" "x \<in> set (si_assertions i)" "aa_state x = APPLICABLE"
    using shop_run_assertion[of SG_05] by metis
  from engine_fits_handlers[OF w(1,2,4-6)] show ?thesis
    using w by (intro exI[of _ a] exI[of _ sc] exI[of _ i]) simp
qed

theorem engine_evidence_resolves_witness:
  "\<exists>a. shop_run = Inr a \<and> nc_control_id shop_control \<in> nc_control_id ` set (ap_normal_controls a)"
proof -
  obtain a sc i x y where w: "shop_run = Inr a" "sc \<in> set (ap_scenarios a)"
    "i \<in> set (sc_instances sc)" "x \<in> set (si_assertions i)" "y \<in> set (aa_reasons x)"
    "evidence_ref EV_NORMAL_CONTROL (nc_control_id shop_control) \<in> set (rs_evidence y)"
    using shop_run_assertion[of SG_01] by metis
  from engine_evidence_resolves[OF w] show ?thesis using w(1) by (auto simp: evidence_ref_def)
qed

end
