(* ===== verification/ExecutionSequences.thy ===== *)
theory ExecutionSequences
  imports Execution
begin

text \<open>
  The remaining handlers of \<open>application/failure_lab.py\<close>: \<open>execute_sg03\<close> (a failed
  acknowledgement and the retry), \<open>execute_sg04\<close>, \<open>execute_sg05\<close> and \<open>execute_sg06\<close> (two
  requests, a mutation and a customer-value assertion) and \<open>execute_sg08\<close> (late payments).
  They read the same \<open>world\<close> as the handlers of \<open>Execution\<close>.  A handler of several assertions
  fills the dictionary \<open>results\<close> key by key and returns its entries in catalog order; the model
  keeps that dictionary as a map.
\<close>

section \<open>SG-03\<close>

definition acknowledged_node_ids :: "assertion_applicability \<Rightarrow> string list" where
  "acknowledged_node_ids a = map ev_ref_reference
     (filter (\<lambda>e. ev_ref_kind e = EV_GRAPH_NODE) (concat (map rs_evidence (aa_reasons a))))"

definition usable_acknowledgements ::
  "runtime_capability_artifact \<Rightarrow> string list \<Rightarrow> acknowledgement_capability list" where
  "usable_acknowledgements a node_ids = filter (\<lambda>k.
     at_acknowledgement_node_id (ac_target k) \<in> set node_ids \<and>
     status_2xx (at_status_code (ac_target k)) \<and> at_outcome (ac_target k) = SUCCESS_2XX \<and>
     complete (ac_timeline k)) (ra_acknowledgements a)"

text \<open>The target and the acknowledgement of a sufficient session, when it has exactly one of each.\<close>

definition sg03_targets ::
  "opened_runtime \<Rightarrow> string \<Rightarrow> assertion_applicability \<Rightarrow>
   (customer_value_capability \<times> acknowledgement_capability) option" where
  "sg03_targets opened control a =
     (case (customers_for (op_artifact opened) control,
            usable_acknowledgements (op_artifact opened) (acknowledged_node_ids a)) of
        ([target], [ack]) \<Rightarrow>
          if capability_is_sufficient opened control \<and>
             at_ingress (ac_target ack) = ct_ingress (cc_target target)
          then Some (target, ack) else None
      | _ \<Rightarrow> None)"

definition failing_request :: "prepared_webhook \<Rightarrow> string \<Rightarrow> managed_request" where
  "failing_request p node = \<lparr>mr_headers = pw_headers p, mr_content = Some (pw_raw_body p),
     mr_params = None, mr_acknowledgement_failure = Some FORCE_NON_2XX_AFTER_SUCCESS,
     mr_acknowledgement_node_id = Some node\<rparr>"

text \<open>
  \<open>sealed\<close> is built before the transcript is looked at, so a session that failed to close can
  make it raise.
\<close>

definition sealed_or_open_authority ::
  "run_context \<Rightarrow> opened_runtime \<Rightarrow> request_result list \<Rightarrow> transcript option \<Rightarrow>
   authority_reference result" where
  "sealed_or_open_authority rx opened results sealed =
     base_authority (ap_applicability_fingerprint (wd_preflight (rx_world rx))) (rx_instance_id rx)
       (Some (rx_control rx)) (Some (ra_capability_fingerprint (op_artifact opened)))
       (Some (ra_assessment_session_id (op_artifact opened))) (map rq_request_id results)
       (map_option tr_transcript_fingerprint sealed)"

definition sg03_judge ::
  "run_context \<Rightarrow> opened_runtime \<Rightarrow> authority_reference \<Rightarrow> transcript \<Rightarrow> request_result list \<Rightarrow>
   input_reference \<Rightarrow> string \<Rightarrow> runtime_reason list \<Rightarrow> scenario_result result" where
  "sg03_judge rx opened auth t results reference ack_node diagnostics =
     (if validate_observation_transcript (op_artifact opened) t \<noteq> None
      then stop rx auth TRANSCRIPT_UNTRUSTWORTHY (Some reference) diagnostics
      else if tr_diagnostics t \<noteq> [] \<or> \<not> sequence_authority_is_exact t results \<or>
              list_ex (foreign_control_event (rx_control rx)) (tr_events t)
      then stop rx auth AUTHORITY_MISMATCH (Some reference) diagnostics
      else case results of
        [first, retry] \<Rightarrow>
          bind_result (summarize_acknowledgement_failure (tr_events t) (rq_request_id first) ack_node)
            (\<lambda>acknowledgement.
          bind_result (observe_request t (rx_control rx) first) (\<lambda>a'.
          let a = a'\<lparr>ro_acknowledgement_failure := acknowledgement\<rparr>
          in bind_result (observe_request t (rx_control rx) retry) (\<lambda>b.
             bind_result (sg03_evaluate_sequence a b) (\<lambda>v.
               finish rx auth v (Some reference) [CustomerObservation a, CustomerObservation b]
                 diagnostics))))
      | _ \<Rightarrow> Inl (ValueError ''wrong number of values to unpack''))"

definition sg03_run ::
  "run_context \<Rightarrow> assertion_applicability \<Rightarrow> opened_runtime \<Rightarrow> string \<Rightarrow> authority_reference \<Rightarrow>
   scenario_result result" where
  "sg03_run rx assertion opened secret runtime_auth =
     (let targets = customers_for (op_artifact opened) (rx_control rx);
          selected = sg03_targets opened (rx_control rx) assertion
      in bind_result
           (case selected of
              None \<Rightarrow> Inr None
            | Some (target, ack) \<Rightarrow>
                bind_result (prepare_captured_webhook (wd_execution_id (rx_world rx))
                    (ib_effective_path (ct_ingress (cc_target target))) secret None None None)
                  (\<lambda>p. Inr (Some (p, at_acknowledgement_node_id (ac_target ack)))))
         (\<lambda>prepared.
           let requests = (case prepared of None \<Rightarrow> []
                 | Some (p, node) \<Rightarrow> [failing_request p node, plain_request (pw_headers p) (pw_raw_body p)]);
               ingress = (case targets of [] \<Rightarrow> None | target # _ \<Rightarrow> Some (ct_ingress (cc_target target)))
           in case dispatch_managed_sequence (rx_world rx) ingress requests of
                (results, sealed, failure) \<Rightarrow>
                  bind_result (sealed_or_open_authority rx opened results sealed) (\<lambda>auth.
                  bind_result (case prepared of None \<Rightarrow> Inr None
                      | Some (p, _) \<Rightarrow> bind_result (prepared_input_reference p) (\<lambda>x. Inr (Some x)))
                    (\<lambda>reference.
                  case sealed of
                    None \<Rightarrow> stop rx runtime_auth TRANSCRIPT_UNTRUSTWORTHY None []
                  | Some t \<Rightarrow>
                      let diagnostics = session_diagnostics opened t failure
                      in case (prepared, reference) of
                           (Some (p, node), Some input) \<Rightarrow>
                             if length results \<noteq> 2
                             then stop rx auth REQUEST_EXECUTION_FAILED reference diagnostics
                             else sg03_judge rx opened auth t results input node diagnostics
                         | _ \<Rightarrow> stop rx auth RUNTIME_CAPABILITY_INSUFFICIENT None diagnostics))))"

definition sg03_session ::
  "run_context \<Rightarrow> assertion_applicability \<Rightarrow> string \<Rightarrow> string \<Rightarrow> authority_reference \<Rightarrow>
   scenario_result result" where
  "sg03_session rx assertion config_fp secret auth =
     (let w = rx_world rx
      in case wd_opened w of
           None \<Rightarrow> stop rx auth RUNTIME_SESSION_UNAVAILABLE None []
         | Some opened \<Rightarrow>
             bind_result (runtime_authority rx opened) (\<lambda>runtime_auth.
               if ap_applicability_fingerprint (op_applicability opened) \<noteq>
                    ap_applicability_fingerprint (wd_preflight w) \<or>
                  ra_runtime_config_fingerprint (op_artifact opened) \<noteq> config_fp \<or>
                  scenario_instance_of (op_applicability opened) SG_03 (rx_instance_id rx) \<noteq>
                    Some (rx_instance rx)
               then discard w opened (stop rx runtime_auth STALE_APPLICABILITY_AUTHORITY None [])
               else if op_session opened \<noteq> Some ManagedSession
               then stop rx runtime_auth RUNTIME_SESSION_UNAVAILABLE None (opened_diagnostics opened)
               else sg03_run rx assertion opened secret runtime_auth))"

definition execute_sg03 :: "world \<Rightarrow> string \<Rightarrow> string \<Rightarrow> scenario_result result" where
  "execute_sg03 w instance_id expected_fp =
     (let applicability = wd_preflight w;
          inst = scenario_instance_of applicability SG_03 instance_id;
          control = (case inst of None \<Rightarrow> None | Some i \<Rightarrow> si_normal_control_id i);
          ended = \<lambda>assertion auth v.
            make_result (wd_execution_id w) SG_03 SG03_DEFINITION_FINGERPRINT assertion auth v None [] []
      in bind_result (assertion_for inst instance_id SG03_ASSERTION_KEY) (\<lambda>assertion.
         bind_result (base_authority (ap_applicability_fingerprint applicability) instance_id control
                        None None [] None) (\<lambda>auth.
         if ap_applicability_fingerprint applicability \<noteq> expected_fp
         then ended assertion auth (unverified STALE_APPLICABILITY_AUTHORITY)
         else case (inst, control) of
           (Some i, Some c) \<Rightarrow>
             (case find (\<lambda>a. aa_key a = SG03_ASSERTION_KEY) (si_assertions i) of
                None \<Rightarrow> ended assertion auth (unverified AUTHORITY_MISMATCH)
              | Some a \<Rightarrow>
                 (case early_applicability_result (aa_state a) of
                    Some early \<Rightarrow> ended assertion auth (fst early, None, snd early)
                  | None \<Rightarrow>
                     (case wd_runtime w of
                        UnmanagedRuntime \<Rightarrow> ended assertion auth (unverified RUNTIME_MODE_UNSUPPORTED)
                      | ManagedRuntime config_fp env \<Rightarrow>
                          let secret = webhook_secret w env
                          in if secret = ''''
                             then ended assertion auth (unverified WEBHOOK_SECRET_UNAVAILABLE)
                             else sg03_session
                               \<lparr>rx_world = w, rx_scenario = SG_03,
                                rx_definition = SG03_DEFINITION_FINGERPRINT,
                                rx_instance_id = instance_id, rx_instance = i,
                                rx_assertion = assertion, rx_control = c\<rparr>
                               a config_fp secret auth)))
         | _ \<Rightarrow> ended assertion auth (unverified AUTHORITY_MISMATCH))))"

section \<open>Handlers of two assertions\<close>

text \<open>
  What \<open>execute_sg04\<close>, \<open>execute_sg05\<close> and \<open>execute_sg06\<close> keep in local variables: the keys of
  the catalog in order, the assertions of the instance by key, the applicable keys, and the
  dictionary \<open>results\<close>.  \<open>hx_control_for\<close> is the control an assertion's authority names.
\<close>

type_synonym result_map = "string \<rightharpoonup> scenario_result"

record handler_context =
  hx_world :: world
  hx_scenario :: scenario_id
  hx_definition :: string
  hx_instance_id :: string
  hx_instance :: "scenario_instance option"
  hx_assertions :: "string \<rightharpoonup> assertion_applicability"
  hx_control_for :: "string \<Rightarrow> string option"
  hx_keys :: "string list"
  hx_applicable :: "string list"
  hx_results :: result_map

definition catalog_assertions ::
  "string list \<Rightarrow> scenario_instance option \<Rightarrow> string \<Rightarrow> assertion_applicability option" where
  "catalog_assertions catalog inst =
     dict_by aa_key (filter (\<lambda>a. aa_key a \<in> set catalog)
       (case inst of None \<Rightarrow> [] | Some i \<Rightarrow> si_assertions i))"

definition selected_assertion :: "handler_context \<Rightarrow> string \<Rightarrow> string result" where
  "selected_assertion hx key =
     (case hx_assertions hx key of
        Some a \<Rightarrow> Inr (aa_assertion_id a)
      | None \<Rightarrow> assertion_id (hx_instance_id hx) key)"

text \<open>\<open>authority_for\<close>: the session part is the capability fingerprint and the session identity.\<close>

definition authority_for ::
  "handler_context \<Rightarrow> string \<Rightarrow> opened_runtime option \<Rightarrow> string list \<Rightarrow> string option \<Rightarrow>
   authority_reference result" where
  "authority_for hx key opened request_ids transcript_fp =
     base_authority (ap_applicability_fingerprint (wd_preflight (hx_world hx))) (hx_instance_id hx)
       (hx_control_for hx key)
       (map_option (\<lambda>o'. ra_capability_fingerprint (op_artifact o')) opened)
       (map_option (\<lambda>o'. ra_assessment_session_id (op_artifact o')) opened) request_ids transcript_fp"

definition add_result ::
  "handler_context \<Rightarrow> string \<Rightarrow> authority_reference result \<Rightarrow> verdict \<Rightarrow> input_reference option \<Rightarrow>
   scenario_observation list \<Rightarrow> runtime_reason list \<Rightarrow> result_map \<Rightarrow> result_map result" where
  "add_result hx key authority v input observations diagnostics results =
     bind_result authority (\<lambda>auth.
     bind_result (selected_assertion hx key) (\<lambda>assertion.
     bind_result (make_result (wd_execution_id (hx_world hx)) (hx_scenario hx) (hx_definition hx)
         assertion auth v input observations diagnostics) (\<lambda>r.
     Inr (results(key \<mapsto> r)))))"

fun add_each ::
  "(string \<Rightarrow> result_map \<Rightarrow> result_map result) \<Rightarrow> string list \<Rightarrow> result_map \<Rightarrow> result_map result" where
  "add_each f [] results = Inr results"
| "add_each f (key # keys) results = bind_result (f key results) (add_each f keys)"

text \<open>
  \<open>ordered()\<close>: SG-05 indexes the dictionary by every key and raises on a missing one, SG-04 and
  SG-06 skip it.
\<close>

definition ordered_results :: "handler_context \<Rightarrow> result_map \<Rightarrow> scenario_result list result" where
  "ordered_results hx results =
     (if hx_scenario hx = SG_05
      then traverse (\<lambda>key. case results key of None \<Rightarrow> Inl KeyError | Some r \<Rightarrow> Inr r) (hx_keys hx)
      else Inr (List.map_filter results (hx_keys hx)))"

definition stop_keys ::
  "handler_context \<Rightarrow> string list \<Rightarrow> result_reason \<Rightarrow> opened_runtime option \<Rightarrow> string list \<Rightarrow>
   string option \<Rightarrow> input_reference option \<Rightarrow> runtime_reason list \<Rightarrow> scenario_result list result" where
  "stop_keys hx keys why opened request_ids transcript_fp input diagnostics =
     bind_result (add_each (\<lambda>key. add_result hx key
         (authority_for hx key opened request_ids transcript_fp) (unverified why) input [] diagnostics)
       keys (hx_results hx)) (ordered_results hx)"

definition stop_applicable ::
  "handler_context \<Rightarrow> result_reason \<Rightarrow> opened_runtime option \<Rightarrow> string list \<Rightarrow> string option \<Rightarrow>
   input_reference option \<Rightarrow> runtime_reason list \<Rightarrow> scenario_result list result" where
  "stop_applicable hx = stop_keys hx (hx_applicable hx)"

definition stop_before ::
  "handler_context \<Rightarrow> result_reason \<Rightarrow> scenario_result list result" where
  "stop_before hx why = stop_applicable hx why None [] None None []"

text \<open>
  The guards before the session: staleness, an unknown instance, the early results of the
  assertions that do not apply.  \<open>continue\<close> runs when some assertion applies.
\<close>

definition early_result ::
  "handler_context \<Rightarrow> string \<Rightarrow> result_map \<Rightarrow> result_map result" where
  "early_result hx key results =
     (case Option.bind (hx_assertions hx key) (\<lambda>a. early_applicability_result (aa_state a)) of
        None \<Rightarrow> Inr results
      | Some (state, why) \<Rightarrow>
          add_result hx key (authority_for hx key None [] None) (state, None, why) None [] [] results)"

definition assertion_applies :: "handler_context \<Rightarrow> string \<Rightarrow> bool" where
  "assertion_applies hx key \<longleftrightarrow>
     (case hx_assertions hx key of None \<Rightarrow> False | Some a \<Rightarrow> aa_state a = APPLICABLE)"

definition handler_start ::
  "world \<Rightarrow> scenario_id \<Rightarrow> string \<Rightarrow> string list \<Rightarrow> string \<Rightarrow>
   (scenario_instance option \<Rightarrow> (string \<rightharpoonup> assertion_applicability) \<Rightarrow> string \<Rightarrow> string option) \<Rightarrow>
   handler_context" where
  "handler_start w sid definition_fp catalog instance_id control_for =
     (let inst = scenario_instance_of (wd_preflight w) sid instance_id;
          assertions = catalog_assertions catalog inst
      in \<lparr>hx_world = w, hx_scenario = sid, hx_definition = definition_fp,
          hx_instance_id = instance_id, hx_instance = inst, hx_assertions = assertions,
          hx_control_for = control_for inst assertions,
          hx_keys = (if inst = None then catalog else filter (\<lambda>k. assertions k \<noteq> None) catalog),
          hx_applicable = [], hx_results = Map.empty\<rparr>)"

definition handler_preflight ::
  "handler_context \<Rightarrow> string \<Rightarrow> (handler_context \<Rightarrow> scenario_instance \<Rightarrow> scenario_result list result) \<Rightarrow>
   scenario_result list result" where
  "handler_preflight hx expected_fp continue =
     (if ap_applicability_fingerprint (wd_preflight (hx_world hx)) \<noteq> expected_fp
      then stop_keys hx (hx_keys hx) STALE_APPLICABILITY_AUTHORITY None [] None None []
      else case hx_instance hx of
        None \<Rightarrow> stop_keys hx (hx_keys hx) AUTHORITY_MISMATCH None [] None None []
      | Some i \<Rightarrow>
          bind_result (add_each (early_result hx) (hx_keys hx) (hx_results hx)) (\<lambda>results.
            let hx' = hx\<lparr>hx_results := results,
                         hx_applicable := filter (assertion_applies hx) (hx_keys hx)\<rparr>
            in if hx_applicable hx' = [] then ordered_results hx' results else continue hx' i))"

section \<open>What a session can observe\<close>

definition common_capability :: "opened_runtime \<Rightarrow> ingress_binding \<Rightarrow> bool" where
  "common_capability opened ingress =
     (let a = op_artifact opened; caps = filter (\<lambda>c. ic_binding c = ingress) (ra_ingresses a)
      in ra_mode a = ''managed'' \<and> ra_lifecycle a = LIFE_READY \<and> length caps = 1 \<and>
         complete (ic_addressability (caps ! 0)) \<and> complete (ic_request_correlation (caps ! 0)) \<and>
         complete (is_fresh_process (ra_isolation a)) \<and> complete (is_observation_reset (ra_isolation a)))"

text \<open>The mutation targets an assertion names; \<open>only\<close> restricts the reasons that are read.\<close>

definition mutation_ids_of ::
  "(applicability_reason_code \<Rightarrow> bool) \<Rightarrow> assertion_applicability \<Rightarrow> string list" where
  "mutation_ids_of only a = sorted_set (map ev_ref_reference
     (filter (\<lambda>e. ev_ref_kind e = EV_GRAPH_NODE)
       (concat (map rs_evidence (filter (\<lambda>r. only (rs_code r)) (aa_reasons a))))))"

definition mutation_capability ::
  "opened_runtime \<Rightarrow> ingress_binding \<Rightarrow> string list \<Rightarrow> bool" where
  "mutation_capability opened ingress ids =
     (let caps = filter (\<lambda>m. mt_mutation_node_id (mc_target m) \<in> set ids \<and>
            mt_ingress (mc_target m) = ingress) (ra_mutations (op_artifact opened))
      in common_capability opened ingress \<and> ids \<noteq> [] \<and>
         set (map (\<lambda>m. mt_mutation_node_id (mc_target m)) caps) = set ids \<and>
         list_all (\<lambda>m. complete (mc_assignment m) \<and>
            mc_strength m = Some PYTHON_ASSIGNMENT_INSTRUCTION_COMPLETION) caps)"

definition customer_capabilities ::
  "opened_runtime \<Rightarrow> ingress_binding \<Rightarrow> string option \<Rightarrow> customer_value_capability list" where
  "customer_capabilities opened ingress control = filter (\<lambda>c.
     Some (ct_normal_control_id (cc_target c)) = control \<and> ct_ingress (cc_target c) = ingress)
     (ra_customer_values (op_artifact opened))"

definition customer_observable :: "opened_runtime \<Rightarrow> ingress_binding \<Rightarrow> string option \<Rightarrow> bool" where
  "customer_observable opened ingress control =
     (common_capability opened ingress \<and>
      (case customer_capabilities opened ingress control of
         [c] \<Rightarrow> ca_state (cc_lifecycle c) \<noteq> CAP_UNAVAILABLE | _ \<Rightarrow> False))"

definition customer_pass_capability :: "opened_runtime \<Rightarrow> ingress_binding \<Rightarrow> string option \<Rightarrow> bool" where
  "customer_pass_capability opened ingress control =
     (customer_observable opened ingress control \<and>
      (case customer_capabilities opened ingress control of
         [c] \<Rightarrow> complete (cc_lifecycle c) \<and> cc_strength c = Some ENTRY_AND_TERMINAL | _ \<Rightarrow> False))"

definition foreign_mutation_event :: "string list \<Rightarrow> observation_event \<Rightarrow> bool" where
  "foreign_mutation_event ids e \<longleftrightarrow>
     ev_kind e \<in> set mutation_kinds \<and> ev_mutation_node_id e \<notin> Some ` set ids"

section \<open>The session of a handler of two assertions\<close>

text \<open>
  The checks of the opened session.  \<open>execute_sg05\<close> tells a changed instance from a stale
  artifact; \<open>execute_sg04\<close> reports no diagnostics.
\<close>

definition handler_session ::
  "handler_context \<Rightarrow> scenario_instance \<Rightarrow> string \<Rightarrow>
   (opened_runtime \<Rightarrow> ingress_binding \<Rightarrow> scenario_result list result) \<Rightarrow> scenario_result list result" where
  "handler_session hx i config_fp continue =
     (case wd_opened (hx_world hx) of
        None \<Rightarrow> stop_before hx RUNTIME_SESSION_UNAVAILABLE
      | Some opened \<Rightarrow>
          let w = hx_world hx; sid = hx_scenario hx;
              stale = (ap_applicability_fingerprint (op_applicability opened) \<noteq>
                         ap_applicability_fingerprint (wd_preflight w) \<or>
                       ra_runtime_config_fingerprint (op_artifact opened) \<noteq> config_fp);
              changed = (scenario_instance_of (op_applicability opened) sid (hx_instance_id hx) \<noteq> Some i);
              diagnostics = (if sid = SG_04 then [] else opened_diagnostics opened);
              refuse = (\<lambda>why ds. stop_applicable hx why (Some opened) [] None None ds)
          in if stale \<or> sid \<noteq> SG_05 \<and> changed
             then discard w opened (refuse STALE_APPLICABILITY_AUTHORITY diagnostics)
             else if changed then discard w opened (refuse AUTHORITY_MISMATCH [])
             else if op_session opened \<noteq> Some ManagedSession
             then refuse RUNTIME_SESSION_UNAVAILABLE diagnostics
             else case filter (\<lambda>b. Some (ib_ingress_node_id b) = si_ingress_node_id i)
                         (op_plan_ingresses opened) of
                    [ingress] \<Rightarrow> continue opened ingress
                  | _ \<Rightarrow> discard w opened (refuse AUTHORITY_MISMATCH []))"

text \<open>
  After the dispatch: the transcript, the number of replies and the authority of the sequence.
  \<open>crossed\<close> tells of events that belong to another control or mutation; \<open>untrusted\<close> is the
  reason a transcript with diagnostics is refused with.  \<open>execute_sg04\<close> builds its sealed
  authority before it looks at the transcript.
\<close>

definition handler_sealed ::
  "handler_context \<Rightarrow> opened_runtime \<Rightarrow> bool \<Rightarrow> input_reference option \<Rightarrow> request_result list \<Rightarrow>
   transcript option \<Rightarrow> runtime_reason option \<Rightarrow> result_reason \<Rightarrow> (transcript \<Rightarrow> bool) \<Rightarrow>
   (transcript \<Rightarrow> (string \<Rightarrow> authority_reference result) \<Rightarrow> runtime_reason list \<Rightarrow>
    scenario_result list result) \<Rightarrow> scenario_result list result" where
  "handler_sealed hx opened should_execute input results sealed failure untrusted crossed judge =
     (let request_ids = map rq_request_id results
      in bind_result (if hx_scenario hx = SG_04
                      then bind_result (authority_for hx SG04_CUSTOMER_VALUE_ASSERTION_KEY (Some opened)
                             request_ids (map_option tr_transcript_fingerprint sealed)) (\<lambda>_. Inr ())
                      else Inr ()) (\<lambda>_.
         case sealed of
           None \<Rightarrow> stop_applicable hx TRANSCRIPT_UNTRUSTWORTHY (Some opened) [] None None []
         | Some t \<Rightarrow>
             let diagnostics = session_diagnostics opened t failure;
                 refuse = (\<lambda>why ref. stop_applicable hx why (Some opened) request_ids
                   (Some (tr_transcript_fingerprint t)) ref diagnostics)
             in if \<not> should_execute then refuse RUNTIME_CAPABILITY_INSUFFICIENT None
                else if input = None \<or> length results \<noteq> 2 then refuse REQUEST_EXECUTION_FAILED input
                else if validate_observation_transcript (op_artifact opened) t \<noteq> None
                then refuse TRANSCRIPT_UNTRUSTWORTHY input
                else if tr_diagnostics t \<noteq> [] then refuse untrusted input
                else if \<not> sequence_authority_is_exact t results \<or> crossed t
                then refuse AUTHORITY_MISMATCH input
                else judge t (\<lambda>key. authority_for hx key (Some opened) request_ids
                       (Some (tr_transcript_fingerprint t))) diagnostics))"

text \<open>The verdict of the mutation assertion and of the customer-value assertion.\<close>

definition mutation_part ::
  "handler_context \<Rightarrow> string \<Rightarrow> (string \<Rightarrow> authority_reference result) \<Rightarrow> bool \<Rightarrow> string list \<Rightarrow>
   transcript \<Rightarrow> request_result list \<Rightarrow> input_reference option \<Rightarrow> runtime_reason list \<Rightarrow>
   (mutation_observation \<Rightarrow> mutation_observation \<Rightarrow> verdict result) \<Rightarrow> result_map \<Rightarrow> result_map result" where
  "mutation_part hx key auth capable ids t results input diagnostics evaluate m =
     (if key \<notin> set (hx_applicable hx) then Inr m
      else if \<not> capable
      then add_result hx key (auth key) (unverified RUNTIME_CAPABILITY_INSUFFICIENT) input [] diagnostics m
      else bind_result (traverse (\<lambda>q. summarize_mutation_observations (tr_events t)
               (rq_request_id q) ids (rq_status_code q)) results) (\<lambda>observations.
           case observations of
             [a, b] \<Rightarrow> bind_result (evaluate a b) (\<lambda>v.
               add_result hx key (auth key) v input [MutationObservation a, MutationObservation b]
                 diagnostics m)
           | _ \<Rightarrow> Inl TypeError))"

definition customer_part ::
  "handler_context \<Rightarrow> string \<Rightarrow> (string \<Rightarrow> authority_reference result) \<Rightarrow> bool \<Rightarrow> bool \<Rightarrow>
   string option \<Rightarrow> transcript \<Rightarrow> request_result list \<Rightarrow> input_reference option \<Rightarrow>
   runtime_reason list \<Rightarrow> (customer_summary \<Rightarrow> customer_summary \<Rightarrow> verdict) \<Rightarrow> result_map \<Rightarrow>
   result_map result" where
  "customer_part hx key auth observable pass_capable control t results input diagnostics evaluate m =
     (if key \<notin> set (hx_applicable hx) then Inr m
      else case (observable, control) of
        (True, Some c) \<Rightarrow>
          bind_result (traverse (observe_request t c) results) (\<lambda>observations.
           case observations of
             [a, b] \<Rightarrow>
               let v = evaluate (ro_observations a) (ro_observations b);
                   v' = (if fst v = VERIFIED_PASS \<and> \<not> pass_capable
                         then unverified RUNTIME_CAPABILITY_INSUFFICIENT else v)
               in add_result hx key (auth key) v' input [CustomerObservation a, CustomerObservation b]
                    diagnostics m
           | _ \<Rightarrow> Inl IndexError)
      | _ \<Rightarrow> add_result hx key (auth key) (unverified RUNTIME_CAPABILITY_INSUFFICIENT) input []
               diagnostics m)"

section \<open>SG-05\<close>

definition sg05_run ::
  "handler_context \<Rightarrow> string \<Rightarrow> opened_runtime \<Rightarrow> ingress_binding \<Rightarrow> scenario_result list result" where
  "sg05_run hx secret opened ingress =
     (case (hx_assertions hx SG05_MUTATION_ASSERTION_KEY, hx_assertions hx SG05_CUSTOMER_VALUE_ASSERTION_KEY) of
        (Some mutation, Some customer) \<Rightarrow>
          let ids = mutation_ids_of (\<lambda>code. code = AR_MUTATION_TARGET_AVAILABLE) mutation;
              control = aa_normal_control_id customer;
              capable = mutation_capability opened ingress ids;
              observable = customer_observable opened ingress control;
              pass = customer_pass_capability opened ingress control;
              mutation_applies = (SG05_MUTATION_ASSERTION_KEY \<in> set (hx_applicable hx));
              customer_applies = (SG05_CUSTOMER_VALUE_ASSERTION_KEY \<in> set (hx_applicable hx));
              should_execute = (mutation_applies \<and> capable \<or> customer_applies \<and> observable)
          in bind_result
               (if should_execute
                then bind_result (prepare_sg05_requests (wd_execution_id (hx_world hx))
                       (ib_effective_path ingress) secret) (\<lambda>p. Inr (Some p))
                else Inr None) (\<lambda>prepared.
             let requests = (case prepared of None \<Rightarrow> []
                   | Some p \<Rightarrow> [plain_request (r5_rejected_headers p) (r5_raw_body p),
                                plain_request (r5_valid_headers p) (r5_raw_body p)]);
                 input = map_option r5_input_reference prepared
             in case dispatch_managed_sequence (hx_world hx) (Some ingress) requests of
                  (results, sealed, failure) \<Rightarrow>
                    let expected = map rq_request_id results;
                        crossed = (\<lambda>t. list_ex (\<lambda>e. ev_request_id e \<in> set expected \<and>
                          (customer_applies \<and> ev_kind e \<in> set customer_kinds \<and> ev_normal_control_id e \<noteq> control \<or>
                           mutation_applies \<and> foreign_mutation_event ids e)) (tr_events t))
                    in handler_sealed hx opened should_execute input results sealed failure
                         TRANSCRIPT_UNTRUSTWORTHY crossed (\<lambda>t auth diagnostics.
                      bind_result (mutation_part hx SG05_MUTATION_ASSERTION_KEY auth capable ids t results
                          input diagnostics (\<lambda>a b. Inr (sg05_evaluate_mutation_sequence a b)) (hx_results hx)) (\<lambda>m.
                      bind_result (customer_part hx SG05_CUSTOMER_VALUE_ASSERTION_KEY auth observable pass
                          control t results input diagnostics sg05_evaluate_customer_sequence m)
                        (ordered_results hx))))
      | _ \<Rightarrow> Inl KeyError)"

definition customer_control ::
  "string \<Rightarrow> scenario_instance option \<Rightarrow> (string \<rightharpoonup> assertion_applicability) \<Rightarrow> string \<Rightarrow> string option" where
  "customer_control customer_key inst assertions key =
     (if key = customer_key then Option.bind (assertions key) aa_normal_control_id else None)"

definition sg05_catalog :: "string list" where
  "sg05_catalog = [SG05_MUTATION_ASSERTION_KEY, SG05_CUSTOMER_VALUE_ASSERTION_KEY]"

definition execute_sg05 :: "world \<Rightarrow> string \<Rightarrow> string \<Rightarrow> scenario_result list result" where
  "execute_sg05 w instance_id expected_fp =
     handler_preflight (handler_start w SG_05 SG05_DEFINITION_FINGERPRINT sg05_catalog instance_id
         (customer_control SG05_CUSTOMER_VALUE_ASSERTION_KEY)) expected_fp (\<lambda>hx i.
       case wd_runtime w of
         UnmanagedRuntime \<Rightarrow> stop_before hx RUNTIME_MODE_UNSUPPORTED
       | ManagedRuntime config_fp env \<Rightarrow>
           let secret = webhook_secret w env
           in if secret = '''' then stop_before hx WEBHOOK_SECRET_UNAVAILABLE
              else handler_session hx i config_fp (sg05_run hx secret))"

section \<open>SG-06\<close>

definition checkout_secret_child_name :: string where
  "checkout_secret_child_name = ''STATEGUARD_TEST_RAZORPAY_KEY_SECRET''"

definition server_order_child_name :: string where
  "server_order_child_name = ''STATEGUARD_TEST_SERVER_ORDER_ID''"

definition host_value :: "world \<Rightarrow> (string \<Rightarrow> string option) \<Rightarrow> string \<Rightarrow> string" where
  "host_value w env_from_host child =
     (case Option.bind (env_from_host child) (wd_environ w) of None \<Rightarrow> '''' | Some v \<Rightarrow> v)"

definition callback_request :: "checkout_request \<Rightarrow> managed_request" where
  "callback_request r = \<lparr>mr_headers = kr_headers r, mr_content = kr_content r, mr_params = kr_params r,
     mr_acknowledgement_failure = None, mr_acknowledgement_node_id = None\<rparr>"

definition sg06_run ::
  "handler_context \<Rightarrow> string \<Rightarrow> string \<Rightarrow> opened_runtime \<Rightarrow> ingress_binding \<Rightarrow> scenario_result list result" where
  "sg06_run hx secret server_order opened ingress =
     (case ib_checkout_request_binding ingress of
        None \<Rightarrow> discard (hx_world hx) opened
          (stop_applicable hx RUNTIME_CAPABILITY_INSUFFICIENT (Some opened) [] None None [])
      | Some binding \<Rightarrow>
     (case (hx_assertions hx SG06_MUTATION_ASSERTION_KEY, hx_assertions hx SG06_CUSTOMER_VALUE_ASSERTION_KEY) of
        (Some mutation, Some customer) \<Rightarrow>
          let ids = mutation_ids_of (\<lambda>code. True) mutation;
              control = aa_normal_control_id customer;
              capable = mutation_capability opened ingress ids;
              observable = customer_observable opened ingress control;
              pass = customer_pass_capability opened ingress control;
              mutation_applies = (SG06_MUTATION_ASSERTION_KEY \<in> set (hx_applicable hx));
              customer_applies = (SG06_CUSTOMER_VALUE_ASSERTION_KEY \<in> set (hx_applicable hx));
              should_execute = (mutation_applies \<and> capable \<or> customer_applies \<and> observable)
          in bind_result
               (if should_execute
                then bind_result (prepare_sg06_requests (wd_execution_id (hx_world hx))
                       (ib_effective_path ingress) binding secret server_order) (\<lambda>p. Inr (Some p))
                else Inr None) (\<lambda>prepared.
             let requests = (case prepared of None \<Rightarrow> []
                   | Some p \<Rightarrow> [callback_request (r6_tampered p), callback_request (r6_valid p)]);
                 input = map_option r6_input_reference prepared
             in case dispatch_managed_sequence (hx_world hx) (Some ingress) requests of
                  (results, sealed, failure) \<Rightarrow>
                    let crossed = (\<lambda>t. list_ex (\<lambda>e.
                          ev_kind e \<in> set customer_kinds \<and> control \<noteq> None \<and> ev_normal_control_id e \<noteq> control \<or>
                          mutation_applies \<and> foreign_mutation_event ids e) (tr_events t))
                    in handler_sealed hx opened should_execute input results sealed failure
                         AUTHORITY_MISMATCH crossed (\<lambda>t auth diagnostics.
                      bind_result (mutation_part hx SG06_MUTATION_ASSERTION_KEY auth capable ids t results
                          input diagnostics (\<lambda>a b. Inr (sg06_evaluate_mutation_sequence a b)) (hx_results hx)) (\<lambda>m.
                      bind_result (customer_part hx SG06_CUSTOMER_VALUE_ASSERTION_KEY auth observable pass
                          control t results input diagnostics sg06_evaluate_customer_sequence m)
                        (ordered_results hx))))
      | _ \<Rightarrow> Inl KeyError))"

definition sg06_catalog :: "string list" where
  "sg06_catalog = [SG06_MUTATION_ASSERTION_KEY, SG06_CUSTOMER_VALUE_ASSERTION_KEY]"

definition execute_sg06 :: "world \<Rightarrow> string \<Rightarrow> string \<Rightarrow> scenario_result list result" where
  "execute_sg06 w instance_id expected_fp =
     handler_preflight (handler_start w SG_06 SG06_DEFINITION_FINGERPRINT sg06_catalog instance_id
         (customer_control SG06_CUSTOMER_VALUE_ASSERTION_KEY)) expected_fp (\<lambda>hx i.
       case wd_runtime w of
         UnmanagedRuntime \<Rightarrow> stop_before hx RUNTIME_MODE_UNSUPPORTED
       | ManagedRuntime config_fp env \<Rightarrow>
           let secret = host_value w env checkout_secret_child_name;
               server_order = host_value w env server_order_child_name
           in if secret = '''' then stop_before hx CHECKOUT_SECRET_UNAVAILABLE
              else if server_order = '''' then stop_before hx SERVER_ORDER_CONTROL_UNAVAILABLE
              else handler_session hx i config_fp (sg06_run hx secret server_order))"

section \<open>SG-04\<close>

definition sg04_catalog :: "string list" where
  "sg04_catalog = [SG04_CUSTOMER_VALUE_ASSERTION_KEY, SG04_STATE_REGRESSION_ASSERTION_KEY]"

text \<open>The mutation targets of the graph that assign one payment state.\<close>

definition assigned_payment_state :: "graph_node \<Rightarrow> string option" where
  "assigned_payment_state n =
     (case gn_details n of Some (MerchantStateMutationDetails d) \<Rightarrow> mm_assigned_payment_state d
      | _ \<Rightarrow> None)"

definition ids_assigning :: "safety_graph \<Rightarrow> string \<Rightarrow> string list \<Rightarrow> string list result" where
  "ids_assigning graph state ids =
     bind_result (traverse (\<lambda>i. case dict_by gn_node_id (pg_nodes graph) i of
         None \<Rightarrow> Inl KeyError | Some n \<Rightarrow> Inr (i, assigned_payment_state n)) ids)
       (\<lambda>pairs. Inr (map fst (filter (\<lambda>p. snd p = Some state) pairs)))"

definition sg04_state_verdict ::
  "safety_graph \<Rightarrow> string list \<Rightarrow> mutation_observation \<Rightarrow> mutation_observation \<Rightarrow> verdict result" where
  "sg04_state_verdict graph ids a b =
     bind_result (ids_assigning graph ''captured'' ids) (\<lambda>captured.
     bind_result (ids_assigning graph ''authorized'' ids) (\<lambda>authorized.
       case (captured, authorized) of
         ([c], [z]) \<Rightarrow> Inr (sg04_evaluate_state_sequence a b c z)
       | _ \<Rightarrow> Inr (unverified AUTHORITY_MISMATCH)))"

definition sg04_run ::
  "safety_graph \<Rightarrow> handler_context \<Rightarrow> string option \<Rightarrow> string \<Rightarrow> opened_runtime \<Rightarrow> ingress_binding \<Rightarrow>
   scenario_result list result" where
  "sg04_run graph hx control secret opened ingress =
     (case hx_assertions hx SG04_STATE_REGRESSION_ASSERTION_KEY of
        None \<Rightarrow> Inl KeyError
      | Some regression \<Rightarrow>
          let ids = mutation_ids_of (\<lambda>code. True) regression;
              capable = mutation_capability opened ingress ids;
              observable = customer_observable opened ingress control;
              pass = customer_pass_capability opened ingress control;
              should_execute =
                (SG04_CUSTOMER_VALUE_ASSERTION_KEY \<in> set (hx_applicable hx) \<and> observable \<or>
                 SG04_STATE_REGRESSION_ASSERTION_KEY \<in> set (hx_applicable hx) \<and> capable)
          in bind_result
               (if should_execute
                then bind_result (prepare_sg04_requests (wd_execution_id (hx_world hx))
                       (ib_effective_path ingress) secret) (\<lambda>p. Inr (Some p))
                else Inr None) (\<lambda>prepared.
             let requests = (case prepared of None \<Rightarrow> []
                   | Some p \<Rightarrow>
                       [plain_request (pw_headers (r4_captured p)) (pw_raw_body (r4_captured p)),
                        plain_request (pw_headers (r4_authorized p)) (pw_raw_body (r4_authorized p))]);
                 input = map_option r4_input_reference prepared
             in case dispatch_managed_sequence (hx_world hx) (Some ingress) requests of
                  (results, sealed, failure) \<Rightarrow>
                    let crossed = (\<lambda>t. list_ex (\<lambda>e. ev_kind e \<in> set customer_kinds \<and>
                          ev_normal_control_id e \<noteq> control) (tr_events t))
                    in handler_sealed hx opened should_execute input results sealed failure
                         AUTHORITY_MISMATCH crossed (\<lambda>t auth diagnostics.
                      bind_result (customer_part hx SG04_CUSTOMER_VALUE_ASSERTION_KEY auth observable pass
                          control t results input diagnostics sg04_evaluate_customer_sequence
                          (hx_results hx)) (\<lambda>m.
                      bind_result (mutation_part hx SG04_STATE_REGRESSION_ASSERTION_KEY auth capable ids t
                          results input diagnostics (sg04_state_verdict graph ids) m)
                        (ordered_results hx)))))"

definition execute_sg04 ::
  "safety_graph \<Rightarrow> world \<Rightarrow> string \<Rightarrow> string \<Rightarrow> scenario_result list result" where
  "execute_sg04 graph w instance_id expected_fp =
     handler_preflight (handler_start w SG_04 SG04_DEFINITION_FINGERPRINT sg04_catalog instance_id
         (\<lambda>inst assertions key. Option.bind inst si_normal_control_id)) expected_fp (\<lambda>hx i.
       if si_normal_control_id i = None then stop_before hx AUTHORITY_MISMATCH
       else case wd_runtime w of
         UnmanagedRuntime \<Rightarrow> stop_before hx RUNTIME_MODE_UNSUPPORTED
       | ManagedRuntime config_fp env \<Rightarrow>
           let secret = webhook_secret w env
           in if secret = '''' then stop_before hx WEBHOOK_SECRET_UNAVAILABLE
              else handler_session hx i config_fp (sg04_run graph hx (si_normal_control_id i) secret))"

section \<open>SG-08\<close>

text \<open>
  \<open>execute_sg08\<close> returns one result per assertion key of the instance; the results of the
  assertions that do not apply (\<open>early_results\<close>) survive every later refusal.
\<close>

record late_context =
  lx_world :: world
  lx_instance_id :: string
  lx_instance :: "scenario_instance option"
  lx_keys :: "string list"
  lx_early :: result_map

definition late_assertions :: "late_context \<Rightarrow> string \<Rightarrow> assertion_applicability option" where
  "late_assertions lx = dict_by aa_key
     (case lx_instance lx of None \<Rightarrow> [] | Some i \<Rightarrow> si_assertions i)"

definition late_control :: "late_context \<Rightarrow> string option" where
  "late_control lx = Option.bind (lx_instance lx) si_normal_control_id"

definition late_start :: "world \<Rightarrow> string \<Rightarrow> late_context" where
  "late_start w instance_id =
     (let inst = scenario_instance_of (wd_preflight w) SG_08 instance_id;
          keys = fromkeys (map aa_key (case inst of None \<Rightarrow> [] | Some i \<Rightarrow> si_assertions i))
      in \<lparr>lx_world = w, lx_instance_id = instance_id, lx_instance = inst,
          lx_keys = (if keys = [] then [SG08_LATE_POLICY_ASSERTION_KEY] else keys),
          lx_early = Map.empty\<rparr>)"

definition late_authority ::
  "late_context \<Rightarrow> opened_runtime option \<Rightarrow> string list \<Rightarrow> string option \<Rightarrow>
   authority_reference result" where
  "late_authority lx opened request_ids transcript_fp =
     base_authority (ap_applicability_fingerprint (wd_preflight (lx_world lx))) (lx_instance_id lx)
       (late_control lx)
       (map_option (\<lambda>o'. ra_capability_fingerprint (op_artifact o')) opened)
       (map_option (\<lambda>o'. ra_assessment_session_id (op_artifact o')) opened) request_ids transcript_fp"

definition late_result ::
  "late_context \<Rightarrow> authority_reference result \<Rightarrow> input_reference option \<Rightarrow>
   scenario_observation list \<Rightarrow> runtime_reason list \<Rightarrow> verdict \<Rightarrow> string \<Rightarrow> scenario_result result" where
  "late_result lx authority input observations diagnostics v key =
     bind_result (assertion_for (lx_instance lx) (lx_instance_id lx) key) (\<lambda>assertion.
     bind_result authority (\<lambda>auth.
       make_result (wd_execution_id (lx_world lx)) SG_08 SG08_DEFINITION_FINGERPRINT assertion auth v
         input observations diagnostics))"

text \<open>\<open>result(key, state, reason)\<close> before a session is opened.\<close>

definition late_plain :: "late_context \<Rightarrow> verdict \<Rightarrow> string \<Rightarrow> scenario_result result" where
  "late_plain lx = late_result lx (late_authority lx None [] None) None [] []"

definition late_early_verdict :: "result_reason \<Rightarrow> assertion_applicability \<Rightarrow> verdict" where
  "late_early_verdict otherwise a =
     (case early_applicability_result (aa_state a) of
        Some (state, why) \<Rightarrow> (state, None, why) | None \<Rightarrow> unverified otherwise)"

text \<open>The early result of every key, or \<open>otherwise\<close> for an assertion that applies.\<close>

definition late_each_early :: "late_context \<Rightarrow> result_reason \<Rightarrow> scenario_result list result" where
  "late_each_early lx otherwise = traverse (\<lambda>key.
     case late_assertions lx key of
       None \<Rightarrow> Inl KeyError
     | Some a \<Rightarrow> late_plain lx (late_early_verdict otherwise a) key) (lx_keys lx)"

text \<open>\<open>early_results.get(key) or result(...)\<close> for every key.\<close>

definition late_refuse ::
  "late_context \<Rightarrow> (string \<Rightarrow> scenario_result result) \<Rightarrow> scenario_result list result" where
  "late_refuse lx refusal = traverse (\<lambda>key.
     case lx_early lx key of Some r \<Rightarrow> Inr r | None \<Rightarrow> refusal key) (lx_keys lx)"

definition late_applies :: "late_context \<Rightarrow> string \<Rightarrow> bool" where
  "late_applies lx key \<longleftrightarrow>
     (case late_assertions lx key of None \<Rightarrow> False | Some a \<Rightarrow> aa_state a = APPLICABLE)"

definition late_early_results :: "late_context \<Rightarrow> result_map result" where
  "late_early_results lx =
     add_each (\<lambda>key m. case late_assertions lx key of
         None \<Rightarrow> Inr m
       | Some a \<Rightarrow>
           if aa_state a = APPLICABLE then Inr m
           else bind_result (late_plain lx (late_early_verdict AUTHORITY_MISMATCH a) key)
                  (\<lambda>r. Inr (m(key \<mapsto> r)))) (lx_keys lx) Map.empty"

definition late_index :: "late_context \<Rightarrow> result_map \<Rightarrow> scenario_result list result" where
  "late_index lx m = traverse (\<lambda>key. case m key of None \<Rightarrow> Inl KeyError | Some r \<Rightarrow> Inr r) (lx_keys lx)"

definition late_part ::
  "late_context \<Rightarrow> string \<Rightarrow> verdict \<Rightarrow> (verdict \<Rightarrow> string \<Rightarrow> scenario_result result) \<Rightarrow>
   result_map \<Rightarrow> result_map result" where
  "late_part lx key v result m =
     (if \<not> late_applies lx key then Inr m
      else bind_result (result v key) (\<lambda>r. Inr (m(key \<mapsto> r))))"

definition late_judge ::
  "late_context \<Rightarrow> string \<Rightarrow> late_authorisation_policy \<Rightarrow> authority_reference \<Rightarrow> transcript \<Rightarrow>
   request_result list \<Rightarrow> input_reference \<Rightarrow> runtime_reason list \<Rightarrow> scenario_result list result" where
  "late_judge lx control late auth t results input diagnostics =
     bind_result (traverse (observe_request t control) results) (\<lambda>observations.
      let result = late_result lx (Inr auth) (Some input) (map CustomerObservation observations) diagnostics
      in case observations of
           [] \<Rightarrow> Inl IndexError
         | first # rest \<Rightarrow>
             let second = (case rest of [b] \<Rightarrow> Some (ro_observations b) | _ \<Rightarrow> None)
             in bind_result (late_part lx SG08_PRECAPTURE_ASSERTION_KEY
                    (evaluate_precapture (ro_observations first) second late) result (lx_early lx)) (\<lambda>m.
                bind_result (late_part lx SG08_CAPTURE_ASSERTION_KEY
                    (case second of None \<Rightarrow> unverified REQUEST_EXECUTION_FAILED
                     | Some b \<Rightarrow> evaluate_capture_sequence (ro_observations first) b) result m)
                  (late_index lx)))"

definition late_requests :: "sg08_requests option \<Rightarrow> prepared_webhook list" where
  "late_requests prepared =
     (case prepared of None \<Rightarrow> []
      | Some p \<Rightarrow> r8_authorized p # (case r8_captured p of None \<Rightarrow> [] | Some c \<Rightarrow> [c]))"

text \<open>The checks of the sealed sequence; \<open>active_unverified\<close> keeps the input reference throughout.\<close>

definition late_sealed ::
  "late_context \<Rightarrow> opened_runtime \<Rightarrow> string \<Rightarrow> late_authorisation_policy \<Rightarrow> bool \<Rightarrow>
   sg08_requests option \<Rightarrow> authority_reference \<Rightarrow> authority_reference \<Rightarrow> request_result list \<Rightarrow>
   transcript option \<Rightarrow> runtime_reason list \<Rightarrow> scenario_result list result" where
  "late_sealed lx opened control late sufficient prepared runtime_auth auth results sealed diagnostics =
     (let input = map_option r8_input_reference prepared;
          refuse = (\<lambda>selected why.
            late_refuse lx (late_result lx (Inr selected) input [] diagnostics (unverified why)))
      in case sealed of
           None \<Rightarrow> refuse runtime_auth TRANSCRIPT_UNTRUSTWORTHY
         | Some t \<Rightarrow>
             if \<not> sufficient then refuse auth RUNTIME_CAPABILITY_INSUFFICIENT
             else case input of
               None \<Rightarrow> refuse auth REQUEST_EXECUTION_FAILED
             | Some reference \<Rightarrow>
                 if length results \<noteq> length (late_requests prepared)
                 then refuse auth REQUEST_EXECUTION_FAILED
                 else if validate_observation_transcript (op_artifact opened) t \<noteq> None
                 then refuse auth TRANSCRIPT_UNTRUSTWORTHY
                 else if tr_diagnostics t \<noteq> [] \<or> \<not> sequence_authority_is_exact t results \<or>
                         list_ex (foreign_control_event control) (tr_events t)
                 then refuse auth AUTHORITY_MISMATCH
                 else late_judge lx control late auth t results reference diagnostics)"

definition late_run ::
  "late_context \<Rightarrow> string \<Rightarrow> late_policy_reference \<Rightarrow> string \<Rightarrow> opened_runtime \<Rightarrow>
   authority_reference \<Rightarrow> scenario_result list result" where
  "late_run lx control policy secret opened runtime_auth =
     (let targets = customers_for (op_artifact opened) control;
          sufficient = (capability_is_sufficient opened control \<and> length targets = 1);
          ingress = (case targets of [] \<Rightarrow> None | target # _ \<Rightarrow> Some (ct_ingress (cc_target target)))
      in bind_result
           (case (sufficient, ingress) of
              (True, Some b) \<Rightarrow>
                bind_result (prepare_sg08_requests (wd_execution_id (lx_world lx)) (ib_effective_path b)
                    secret policy (late_applies lx SG08_CAPTURE_ASSERTION_KEY)) (\<lambda>p. Inr (Some p))
            | _ \<Rightarrow> Inr None) (\<lambda>prepared.
         case dispatch_managed_sequence (lx_world lx) ingress
                (map (\<lambda>p. plain_request (pw_headers p) (pw_raw_body p)) (late_requests prepared)) of
           (results, sealed, failure) \<Rightarrow>
             bind_result (late_authority lx (Some opened) (map rq_request_id results)
                 (map_option tr_transcript_fingerprint sealed)) (\<lambda>auth.
               late_sealed lx opened control (lp_late_authorisation policy) sufficient prepared
                 runtime_auth auth results sealed
                 (opened_diagnostics opened @ (case sealed of None \<Rightarrow> [] | Some t \<Rightarrow> tr_diagnostics t) @
                  (case failure of None \<Rightarrow> [] | Some reason \<Rightarrow> [reason])))))"

definition late_session ::
  "late_context \<Rightarrow> string \<Rightarrow> late_policy_reference \<Rightarrow> string \<Rightarrow> string \<Rightarrow> scenario_result list result" where
  "late_session lx control policy config_fp secret =
     (let w = lx_world lx
      in case wd_opened w of
           None \<Rightarrow> late_refuse lx (late_plain lx (unverified RUNTIME_SESSION_UNAVAILABLE))
         | Some opened \<Rightarrow>
             bind_result (late_authority lx (Some opened) [] None) (\<lambda>runtime_auth.
               let refuse = (\<lambda>why. late_refuse lx
                     (late_result lx (Inr runtime_auth) None [] [] (unverified why)))
               in if ap_applicability_fingerprint (op_applicability opened) \<noteq>
                       ap_applicability_fingerprint (wd_preflight w) \<or>
                     ra_runtime_config_fingerprint (op_artifact opened) \<noteq> config_fp \<or>
                     scenario_instance_of (op_applicability opened) SG_08 (lx_instance_id lx) \<noteq>
                       lx_instance lx
                  then discard w opened (refuse STALE_APPLICABILITY_AUTHORITY)
                  else if op_session opened \<noteq> Some ManagedSession
                  then refuse RUNTIME_SESSION_UNAVAILABLE
                  else late_run lx control policy secret opened runtime_auth))"

definition late_policy_reference_of ::
  "policy_assessment \<Rightarrow> fulfilment_policy \<Rightarrow> late_authorisation_policy \<Rightarrow> late_policy_reference" where
  "late_policy_reference_of p fulfilment late = \<lparr>lp_fulfilment = fulfilment,
     lp_fulfilment_evidence_fingerprint = fa_evidence_fingerprint (pa_fulfilment p),
     lp_late_authorisation = late,
     lp_late_authorisation_evidence_fingerprint = la_evidence_fingerprint (pa_late_authorisation p)\<rparr>"

definition late_active ::
  "late_context \<Rightarrow> string \<Rightarrow> late_policy_reference \<Rightarrow> scenario_result list result" where
  "late_active lx control policy =
     bind_result (late_early_results lx) (\<lambda>early.
       let lx' = lx\<lparr>lx_early := early\<rparr>
       in if \<not> list_ex (late_applies lx) (lx_keys lx) then late_index lx' early
          else case wd_runtime (lx_world lx) of
            UnmanagedRuntime \<Rightarrow> late_refuse lx' (late_plain lx' (unverified RUNTIME_MODE_UNSUPPORTED))
          | ManagedRuntime config_fp env \<Rightarrow>
              let secret = webhook_secret (lx_world lx) env
              in if secret = ''''
                 then late_refuse lx' (late_plain lx' (unverified WEBHOOK_SECRET_UNAVAILABLE))
                 else late_session lx' control policy config_fp secret)"

definition execute_sg08 :: "world \<Rightarrow> string \<Rightarrow> string \<Rightarrow> scenario_result list result" where
  "execute_sg08 w instance_id expected_fp =
     (let lx = late_start w instance_id;
          p = ap_policy (wd_preflight w);
          all_results = (\<lambda>why. traverse (late_plain lx (unverified why)) (lx_keys lx));
          all_early = (\<lambda>i. si_assertions i \<noteq> [] \<and> list_all (\<lambda>key. case late_assertions lx key of
              None \<Rightarrow> False | Some a \<Rightarrow> early_applicability_result (aa_state a) \<noteq> None) (lx_keys lx))
      in if ap_applicability_fingerprint (wd_preflight w) \<noteq> expected_fp
         then all_results STALE_APPLICABILITY_AUTHORITY
         else case lx_instance lx of
           None \<Rightarrow> all_results AUTHORITY_MISMATCH
         | Some i \<Rightarrow>
             (case si_normal_control_id i of
                None \<Rightarrow> if all_early i then late_each_early lx AUTHORITY_MISMATCH
                        else all_results AUTHORITY_MISMATCH
              | Some control \<Rightarrow>
                 (case (fa_confirmed_policy (pa_fulfilment p),
                        la_confirmed_policy (pa_late_authorisation p)) of
                    (Some fulfilment, Some late) \<Rightarrow>
                      if fa_evidence_current (pa_fulfilment p) \<noteq> Some True \<or>
                         la_evidence_current (pa_late_authorisation p) \<noteq> Some True
                      then late_each_early lx STALE_APPLICABILITY_AUTHORITY
                      else if fulfilment = AUTHORIZED_ALLOWED
                      then all_results MERCHANT_LATE_CONTEXT_UNPROVEN
                      else late_active lx control (late_policy_reference_of p fulfilment late)
                  | _ \<Rightarrow> late_each_early lx AUTHORITY_MISMATCH)))"

end
