(* ===== verification/SequenceProperties.thy ===== *)
theory SequenceProperties
  imports ExecutionSequences ExecutionSafety
begin

text \<open>
  What the handlers of two assertions guarantee.  \<open>reported\<close> is the contract of one entry of
  their dictionary \<open>results\<close>; every operation that writes the dictionary keeps it, and
  \<open>ordered()\<close> returns one entry per key, so the handlers meet the contract as a whole.
\<close>

section \<open>The contract of a result\<close>

text \<open>
  The observations of a result are those the code builds from the transcript, one per reply: of a
  control's customer-value target, or of mutation targets.
\<close>

definition observed_by :: "transcript \<Rightarrow> request_result list \<Rightarrow> scenario_observation list \<Rightarrow> bool" where
  "observed_by t results obs \<longleftrightarrow>
     (\<exists>control os. traverse (observe_request t control) results = Inr os \<and>
        obs = map CustomerObservation os) \<or>
     (\<exists>ids os. traverse (\<lambda>q. summarize_mutation_observations (tr_events t)
          (rq_request_id q) ids (rq_status_code q)) results = Inr os \<and>
        obs = map MutationObservation os)"

lemma observed_byI:
  "traverse (observe_request t control) results = Inr os \<Longrightarrow> observed_by t results (map CustomerObservation os)"
  "traverse (\<lambda>q. summarize_mutation_observations (tr_events t) (rq_request_id q) ids (rq_status_code q)) results
     = Inr ms \<Longrightarrow> observed_by t results (map MutationObservation ms)"
  by (auto simp: observed_by_def)

text \<open>The evidence behind a decided result of a two-request handler.\<close>

definition sequence_evidence ::
  "world \<Rightarrow> scenario_id \<Rightarrow> string \<Rightarrow> opened_runtime \<Rightarrow> transcript \<Rightarrow> request_result list \<Rightarrow>
   scenario_result \<Rightarrow> bool" where
  "sequence_evidence w sid instance_id opened t results r \<longleftrightarrow>
     wd_opened w = Some opened \<and> op_session opened = Some ManagedSession \<and>
     (\<exists>sent. wd_close w sent = Some t) \<and>
     ap_applicability_fingerprint (op_applicability opened) =
       ap_applicability_fingerprint (wd_preflight w) \<and>
     scenario_instance_of (op_applicability opened) sid instance_id =
       scenario_instance_of (wd_preflight w) sid instance_id \<and>
     validate_observation_transcript (op_artifact opened) t = None \<and> tr_diagnostics t = [] \<and>
     length results = 2 \<and> sequence_authority_is_exact t results \<and>
     au_applicability_fingerprint (sx_authority r) = ap_applicability_fingerprint (wd_preflight w) \<and>
     au_runtime_request_ids (sx_authority r) = map rq_request_id results \<and>
     au_transcript_fingerprint (sx_authority r) = Some (tr_transcript_fingerprint t) \<and>
     observed_by t results (sx_request_observations r)"

text \<open>The state and reason an assertion gets before any session, if it gets one.\<close>

definition settled ::
  "handler_context \<Rightarrow> string \<Rightarrow> string \<Rightarrow> (result_state \<times> result_reason) option" where
  "settled hx expected_fp key =
     (if ap_applicability_fingerprint (wd_preflight (hx_world hx)) \<noteq> expected_fp
      then Some (UNVERIFIED, STALE_APPLICABILITY_AUTHORITY)
      else if hx_instance hx = None then Some (UNVERIFIED, AUTHORITY_MISMATCH)
      else Option.bind (hx_assertions hx key) (\<lambda>a. early_applicability_result (aa_state a)))"

definition reported :: "handler_context \<Rightarrow> string \<Rightarrow> string \<Rightarrow> scenario_result \<Rightarrow> bool" where
  "reported hx expected_fp key r \<longleftrightarrow>
     validate_result r = None \<and> sx_scenario_id r = hx_scenario hx \<and>
     selected_assertion hx key = Inr (sx_assertion_id r) \<and>
     (case settled hx expected_fp key of
        Some early \<Rightarrow> (sx_result r, sx_reason r) = early
      | None \<Rightarrow> sx_result r \<in> {VERIFIED_PASS, VERIFIED_FAIL, UNVERIFIED} \<and>
          (verified r \<longrightarrow> (\<exists>opened t results.
             sequence_evidence (hx_world hx) (hx_scenario hx) (hx_instance_id hx) opened t results r)))"

definition delivered :: "handler_context \<Rightarrow> string \<Rightarrow> scenario_result list \<Rightarrow> bool" where
  "delivered hx expected_fp rs \<longleftrightarrow> list_all2 (reported hx expected_fp) (hx_keys hx) rs"

definition results_ok :: "handler_context \<Rightarrow> string \<Rightarrow> result_map \<Rightarrow> bool" where
  "results_ok hx expected_fp m \<longleftrightarrow> (\<forall>key r. m key = Some r \<longrightarrow> reported hx expected_fp key r)"

text \<open>A handler past its preflight: what is missing from the dictionary are the applicable keys.\<close>

definition ready :: "handler_context \<Rightarrow> string \<Rightarrow> bool" where
  "ready hx expected_fp \<longleftrightarrow> results_ok hx expected_fp (hx_results hx) \<and>
     set (hx_keys hx) \<subseteq> dom (hx_results hx) \<union> set (hx_applicable hx) \<and>
     hx_instance hx = scenario_instance_of (wd_preflight (hx_world hx)) (hx_scenario hx) (hx_instance_id hx) \<and>
     (\<forall>key \<in> set (hx_applicable hx). settled hx expected_fp key = None)"

section \<open>Writing the dictionary\<close>

lemma results_ok_empty [intro]: "results_ok hx fp Map.empty"
  by (simp add: results_ok_def)

lemma results_ok_upd: "results_ok hx fp m \<Longrightarrow> reported hx fp key r \<Longrightarrow> results_ok hx fp (m(key \<mapsto> r))"
  by (simp add: results_ok_def)

lemma add_result_ok:
  assumes "add_result hx key authority v input obs ds m = Inr m'" and "results_ok hx fp m"
    and "\<And>(r :: scenario_result) auth. authority = Inr auth \<Longrightarrow> sx_authority r = auth \<Longrightarrow> sx_request_observations r = obs \<Longrightarrow>
      (sx_result r, sx_evidence_tier r, sx_reason r) = v \<Longrightarrow> sx_scenario_id r = hx_scenario hx \<Longrightarrow>
      selected_assertion hx key = Inr (sx_assertion_id r) \<Longrightarrow> validate_result r = None \<Longrightarrow>
      reported hx fp key r"
  shows "results_ok hx fp m' \<and> dom m' = insert key (dom m)"
proof -
  from assms(1) obtain auth a r where
    s: "authority = Inr auth" "selected_assertion hx key = Inr a"
    and r: "make_result (wd_execution_id (hx_world hx)) (hx_scenario hx) (hx_definition hx) a auth v
      input obs ds = Inr r" and m': "m' = m(key \<mapsto> r)"
    unfolding add_result_def bind_result_eq_Inr by blast
  have "reported hx fp key r"
    using assms(3)[OF s(1)] make_result_fields[OF r] s(2) by simp
  then show ?thesis using results_ok_upd[OF assms(2)] m' by simp
qed

lemma unverified_ok:
  assumes "add_result hx key authority (unverified why) input obs ds m = Inr m'"
    and "results_ok hx fp m" and "settled hx fp key \<in> {None, Some (UNVERIFIED, why)}"
  shows "results_ok hx fp m' \<and> dom m' = insert key (dom m)"
proof (rule add_result_ok[OF assms(1,2)])
  fix r :: scenario_result and auth :: authority_reference
  assume "(sx_result r, sx_evidence_tier r, sx_reason r) = unverified why"
    "sx_scenario_id r = hx_scenario hx" "selected_assertion hx key = Inr (sx_assertion_id r)"
    "validate_result r = None"
  then show "reported hx fp key r"
    using assms(3) by (auto simp: reported_def verified_def)
qed

lemma add_each_ok:
  assumes "add_each f keys m = Inr m'" and "results_ok hx fp m"
    and "\<And>key m m'. key \<in> set keys \<Longrightarrow> f key m = Inr m' \<Longrightarrow> results_ok hx fp m \<Longrightarrow>
      results_ok hx fp m' \<and> dom m \<subseteq> dom m' \<and> (P key \<longrightarrow> key \<in> dom m')"
  shows "results_ok hx fp m' \<and> dom m \<subseteq> dom m' \<and> (\<forall>key \<in> set keys. P key \<longrightarrow> key \<in> dom m')"
  using assms
proof (induction keys arbitrary: m)
  case (Cons key keys)
  from Cons.prems(1) obtain m1 where m1: "f key m = Inr m1" "add_each f keys m1 = Inr m'"
    by (auto simp: bind_result_eq_Inr)
  have 1: "results_ok hx fp m1" "dom m \<subseteq> dom m1" "P key \<longrightarrow> key \<in> dom m1"
    using Cons.prems(3)[OF _ m1(1) Cons.prems(2)] by simp_all
  have "results_ok hx fp m' \<and> dom m1 \<subseteq> dom m' \<and> (\<forall>k \<in> set keys. P k \<longrightarrow> k \<in> dom m')"
    by (rule Cons.IH[OF m1(2) 1(1)], rule Cons.prems(3)) simp_all
  with 1 show ?case by auto
qed simp

lemma map_filter_covered:
  "set keys \<subseteq> dom m \<Longrightarrow> list_all2 (\<lambda>key r. m key = Some r) keys (List.map_filter m keys)"
  by (induction keys) (auto simp: map_filter_simps split: option.splits)

lemma ordered_delivered:
  assumes "ordered_results hx m = Inr rs" and "results_ok hx fp m" and "set (hx_keys hx) \<subseteq> dom m"
  shows "delivered hx fp rs"
proof -
  have "list_all2 (\<lambda>key r. m key = Some r) (hx_keys hx) rs"
  proof (cases "hx_scenario hx = SG_05")
    case True
    then have "list_all2 (\<lambda>key r. (case m key of None \<Rightarrow> Inl KeyError | Some r \<Rightarrow> Inr r) = Inr r) (hx_keys hx) rs"
      using assms(1) by (simp add: ordered_results_def traverse_Inr_iff)
    then show ?thesis by (rule list_all2_mono) (simp split: option.splits)
  next
    case False
    then show ?thesis using assms(1) map_filter_covered[OF assms(3)]
      by (auto simp: ordered_results_def)
  qed
  then show ?thesis unfolding delivered_def
    by (rule list_all2_mono) (use assms(2) in \<open>simp add: results_ok_def\<close>)
qed

lemma stop_keys_delivered:
  assumes "stop_keys hx keys why opened ids tfp input ds = Inr rs" and "results_ok hx fp (hx_results hx)"
    and "set (hx_keys hx) \<subseteq> dom (hx_results hx) \<union> set keys"
    and "\<And>key. key \<in> set keys \<Longrightarrow> settled hx fp key \<in> {None, Some (UNVERIFIED, why)}"
  shows "delivered hx fp rs"
proof -
  from assms(1) obtain m where m: "add_each (\<lambda>key. add_result hx key (authority_for hx key opened ids tfp)
      (unverified why) input [] ds) keys (hx_results hx) = Inr m" and o: "ordered_results hx m = Inr rs"
    unfolding stop_keys_def bind_result_eq_Inr by blast
  have r: "results_ok hx fp m \<and> dom (hx_results hx) \<subseteq> dom m \<and> (\<forall>key \<in> set keys. True \<longrightarrow> key \<in> dom m)"
  proof (rule add_each_ok[OF m assms(2)])
    fix key m1 m2
    assume "key \<in> set keys" and r: "results_ok hx fp m1"
      and a: "add_result hx key (authority_for hx key opened ids tfp) (unverified why) input [] ds m1 = Inr m2"
    with unverified_ok[OF a r assms(4)]
    show "results_ok hx fp m2 \<and> dom m1 \<subseteq> dom m2 \<and> (True \<longrightarrow> key \<in> dom m2)" by auto
  qed
  then have "set (hx_keys hx) \<subseteq> dom m" using assms(3) by blast
  with r show ?thesis using ordered_delivered[OF o] by blast
qed

lemma stop_applicable_delivered:
  assumes "ready hx fp" and "stop_applicable hx why opened ids tfp input ds = Inr rs"
  shows "delivered hx fp rs"
  using assms(1)
  by (intro stop_keys_delivered[OF assms(2)[unfolded stop_applicable_def]]) (simp_all add: ready_def)

lemma stop_before_delivered: "ready hx fp \<Longrightarrow> stop_before hx why = Inr rs \<Longrightarrow> delivered hx fp rs"
  unfolding stop_before_def by (rule stop_applicable_delivered)

section \<open>The guards\<close>

lemma context_update [simp]:
  "selected_assertion (hx\<lparr>hx_results := m, hx_applicable := keys\<rparr>) = selected_assertion hx"
  "settled (hx\<lparr>hx_results := m, hx_applicable := keys\<rparr>) = settled hx"
  by (intro ext; simp add: selected_assertion_def settled_def cong: if_cong option.case_cong)+

lemma reported_update [simp]:
  "reported (hx\<lparr>hx_results := m, hx_applicable := keys\<rparr>) = reported hx"
  by (intro ext) (simp add: reported_def cong: option.case_cong)

lemma delivered_update [simp]:
  "delivered (hx\<lparr>hx_results := m, hx_applicable := keys\<rparr>) = delivered hx"
  "results_ok (hx\<lparr>hx_results := m, hx_applicable := keys\<rparr>) = results_ok hx"
  by (simp_all add: fun_eq_iff delivered_def results_ok_def)

lemma early_result_ok:
  assumes "early_result hx key m = Inr m'" and "results_ok hx fp m"
    and "ap_applicability_fingerprint (wd_preflight (hx_world hx)) = fp" and "hx_instance hx = Some i"
  shows "results_ok hx fp m' \<and> dom m \<subseteq> dom m' \<and>
    (hx_assertions hx key \<noteq> None \<and> \<not> assertion_applies hx key \<longrightarrow> key \<in> dom m')"
proof (cases "Option.bind (hx_assertions hx key) (\<lambda>a. early_applicability_result (aa_state a))")
  case None
  then have "m' = m" using assms(1) by (simp add: early_result_def)
  moreover have "hx_assertions hx key \<noteq> None \<longrightarrow> assertion_applies hx key"
  proof (cases "hx_assertions hx key")
    case (Some a)
    with None have "aa_state a = APPLICABLE" by (cases "aa_state a") simp_all
    then show ?thesis by (simp add: assertion_applies_def Some)
  qed simp
  ultimately show ?thesis using assms(2) by blast
next
  case (Some e)
  obtain state why where e: "e = (state, why)" by (cases e)
  have s: "settled hx fp key = Some (state, why)" using assms(3,4) Some e by (simp add: settled_def)
  from assms(1) have a: "add_result hx key (authority_for hx key None [] None) (state, None, why) None [] []
      m = Inr m'"
    by (simp add: early_result_def Some e)
  have "results_ok hx fp m' \<and> dom m' = insert key (dom m)"
    by (rule add_result_ok[OF a assms(2)]) (simp add: reported_def s)
  then show ?thesis by auto
qed

text \<open>The context a handler reaches after its preflight.\<close>

lemma preflight_ready:
  assumes m: "add_each (early_result hx) (hx_keys hx) (hx_results hx) = Inr m"
    and empty: "hx_results hx = Map.empty"
    and fp: "ap_applicability_fingerprint (wd_preflight (hx_world hx)) = fp" and i: "hx_instance hx = Some i"
    and inst: "hx_instance hx = scenario_instance_of (wd_preflight (hx_world hx)) (hx_scenario hx) (hx_instance_id hx)"
    and keys: "\<forall>key \<in> set (hx_keys hx). hx_assertions hx key \<noteq> None"
  shows "ready (hx\<lparr>hx_results := m, hx_applicable := filter (assertion_applies hx) (hx_keys hx)\<rparr>) fp"
    and "results_ok hx fp m"
    and "filter (assertion_applies hx) (hx_keys hx) = [] \<Longrightarrow> set (hx_keys hx) \<subseteq> dom m"
proof -
  have ok: "results_ok hx fp m \<and> dom (Map.empty :: result_map) \<subseteq> dom m \<and> (\<forall>key \<in> set (hx_keys hx).
      (hx_assertions hx key \<noteq> None \<and> \<not> assertion_applies hx key) \<longrightarrow> key \<in> dom m)"
  proof (rule add_each_ok[OF m[unfolded empty] results_ok_empty])
    fix key m1 m2
    assume "early_result hx key m1 = Inr m2" "results_ok hx fp m1"
    then show "results_ok hx fp m2 \<and> dom m1 \<subseteq> dom m2 \<and>
        (hx_assertions hx key \<noteq> None \<and> \<not> assertion_applies hx key \<longrightarrow> key \<in> dom m2)"
      by (rule early_result_ok[OF _ _ fp i])
  qed
  have "settled hx fp key = None" if "assertion_applies hx key" for key
    using that fp i by (auto simp: settled_def assertion_applies_def split: option.splits)
  then show "ready (hx\<lparr>hx_results := m, hx_applicable := filter (assertion_applies hx) (hx_keys hx)\<rparr>) fp"
    using ok keys i inst by (auto simp: ready_def)
  show "results_ok hx fp m" using ok by blast
  show "set (hx_keys hx) \<subseteq> dom m" if "filter (assertion_applies hx) (hx_keys hx) = []"
    using ok keys that by (auto simp: filter_empty_conv)
qed

lemma handler_preflight_delivered:
  assumes "handler_preflight hx fp continue = Inr rs" and "hx_results hx = Map.empty"
    and inst: "hx_instance hx = scenario_instance_of (wd_preflight (hx_world hx)) (hx_scenario hx) (hx_instance_id hx)"
    and keys: "hx_instance hx \<noteq> None \<Longrightarrow> \<forall>key \<in> set (hx_keys hx). hx_assertions hx key \<noteq> None"
    and continue: "\<And>m ks i. set ks \<subseteq> set (hx_keys hx) \<Longrightarrow> ready (hx\<lparr>hx_results := m, hx_applicable := ks\<rparr>) fp \<Longrightarrow> hx_instance hx = Some i \<Longrightarrow>
      continue (hx\<lparr>hx_results := m, hx_applicable := ks\<rparr>) i = Inr rs \<Longrightarrow> delivered hx fp rs"
  shows "delivered hx fp rs"
proof (cases "ap_applicability_fingerprint (wd_preflight (hx_world hx)) = fp")
  case False
  then have "stop_keys hx (hx_keys hx) STALE_APPLICABILITY_AUTHORITY None [] None None [] = Inr rs"
    using assms(1) by (simp add: handler_preflight_def)
  then show ?thesis
    by (rule stop_keys_delivered) (use assms(2) False in \<open>auto simp: settled_def\<close>)
next
  case True
  note fp = this
  show ?thesis
  proof (cases "hx_instance hx")
    case None
    then have "stop_keys hx (hx_keys hx) AUTHORITY_MISMATCH None [] None None [] = Inr rs"
      using assms(1) fp by (simp add: handler_preflight_def)
    then show ?thesis
      by (rule stop_keys_delivered) (use assms(2) fp None in \<open>auto simp: settled_def\<close>)
  next
    case (Some i)
    let ?hx = "\<lambda>m. hx\<lparr>hx_results := m, hx_applicable := filter (assertion_applies hx) (hx_keys hx)\<rparr>"
    from assms(1) fp Some obtain m where m: "add_each (early_result hx) (hx_keys hx) Map.empty = Inr m"
      and rest: "(if filter (assertion_applies hx) (hx_keys hx) = [] then ordered_results (?hx m) m
        else continue (?hx m) i) = Inr rs"
      by (auto simp: handler_preflight_def bind_result_eq_Inr assms(2) Let_def)
    note after = preflight_ready[OF m[folded assms(2)] assms(2) fp Some inst]
    have all: "\<forall>key \<in> set (hx_keys hx). hx_assertions hx key \<noteq> None" using keys Some by simp
    have "ready (?hx m) fp" by (rule after(1)[OF all])
    moreover have "delivered (?hx m) fp rs" if "ordered_results (?hx m) m = Inr rs"
      "filter (assertion_applies hx) (hx_keys hx) = []"
      using after(2,3)[OF all] that by (intro ordered_delivered[OF that(1)]) simp_all
    ultimately show ?thesis using rest continue[where m = m and i = i and ks = "filter (assertion_applies hx) (hx_keys hx)"] Some
      by (cases "filter (assertion_applies hx) (hx_keys hx) = []") (simp_all del: filter_empty_conv)
  qed
qed

lemma handler_session_delivered:
  assumes "ready hx fp" and "hx_instance hx = Some i"
    and "handler_session hx i config_fp continue = Inr rs"
    and "\<And>opened ingress. wd_opened (hx_world hx) = Some opened \<Longrightarrow> op_session opened = Some ManagedSession \<Longrightarrow>
      ap_applicability_fingerprint (op_applicability opened) =
        ap_applicability_fingerprint (wd_preflight (hx_world hx)) \<Longrightarrow>
      scenario_instance_of (op_applicability opened) (hx_scenario hx) (hx_instance_id hx) = hx_instance hx \<Longrightarrow>
      continue opened ingress = Inr rs \<Longrightarrow> delivered hx fp rs"
  shows "delivered hx fp rs"
proof (cases "wd_opened (hx_world hx)")
  case None
  then show ?thesis using assms(1,3) stop_before_delivered by (simp add: handler_session_def)
next
  case (Some opened)
  note stop = stop_applicable_delivered[OF assms(1)]
  show ?thesis
    using assms(3) assms(4)[OF Some] assms(2) stop
    by (auto simp: handler_session_def Some Let_def dest!: discard_Inr split: if_splits list.splits)
qed

section \<open>The sealed sequence\<close>

text \<open>What holds of the session and of the sealed transcript once a handler judges it.\<close>

definition opened_on :: "handler_context \<Rightarrow> opened_runtime \<Rightarrow> bool" where
  "opened_on hx opened \<longleftrightarrow>
     wd_opened (hx_world hx) = Some opened \<and> op_session opened = Some ManagedSession \<and>
     ap_applicability_fingerprint (op_applicability opened) =
       ap_applicability_fingerprint (wd_preflight (hx_world hx)) \<and>
     scenario_instance_of (op_applicability opened) (hx_scenario hx) (hx_instance_id hx) =
       scenario_instance_of (wd_preflight (hx_world hx)) (hx_scenario hx) (hx_instance_id hx)"

definition judged :: "handler_context \<Rightarrow> opened_runtime \<Rightarrow> transcript \<Rightarrow> request_result list \<Rightarrow> bool" where
  "judged hx opened t results \<longleftrightarrow> opened_on hx opened \<and> (\<exists>sent. wd_close (hx_world hx) sent = Some t) \<and>
     validate_observation_transcript (op_artifact opened) t = None \<and> tr_diagnostics t = [] \<and>
     length results = 2 \<and> sequence_authority_is_exact t results"

abbreviation final_authority ::
  "handler_context \<Rightarrow> opened_runtime \<Rightarrow> transcript \<Rightarrow> request_result list \<Rightarrow> string \<Rightarrow>
   authority_reference result" where
  "final_authority hx opened t results key \<equiv>
     authority_for hx key (Some opened) (map rq_request_id results) (Some (tr_transcript_fingerprint t))"

lemma final_authority_fields:
  assumes "final_authority hx opened t results key = Inr a"
  shows "au_applicability_fingerprint a = ap_applicability_fingerprint (wd_preflight (hx_world hx))"
    and "au_runtime_request_ids a = map rq_request_id results"
    and "au_transcript_fingerprint a = Some (tr_transcript_fingerprint t)"
  using assms by (auto simp: authority_for_def base_authority_def Let_def split: option.splits)

lemma verdict_ok:
  assumes "add_result hx key (final_authority hx opened t results key) v input obs ds m = Inr m'"
    and "results_ok hx fp m" and "ready hx fp" and "key \<in> set (hx_applicable hx)" and "well_tiered v"
    and "judged hx opened t results"
    and "observed_by t results obs"
  shows "results_ok hx fp m' \<and> dom m' = insert key (dom m)"
proof (rule add_result_ok[OF assms(1,2)])
  fix r :: scenario_result and auth :: authority_reference
  assume au: "final_authority hx opened t results key = Inr auth" "sx_authority r = auth"
    and r: "sx_request_observations r = obs" "(sx_result r, sx_evidence_tier r, sx_reason r) = v"
      "sx_scenario_id r = hx_scenario hx" "selected_assertion hx key = Inr (sx_assertion_id r)"
      "validate_result r = None"
  have "settled hx fp key = None" using assms(3,4) by (simp add: ready_def)
  moreover have "sx_result r \<in> {VERIFIED_PASS, VERIFIED_FAIL, UNVERIFIED}"
    using assms(5) r(2)[symmetric] by (auto simp: well_tiered_def)
  moreover have "sequence_evidence (hx_world hx) (hx_scenario hx) (hx_instance_id hx) opened t results r"
    using assms(6,7) final_authority_fields[OF au(1)] au(2) r(1)
    by (simp add: sequence_evidence_def judged_def opened_on_def)
  ultimately show "reported hx fp key r" using r(3-5) by (auto simp: reported_def)
qed

lemma insufficient_ok:
  assumes "add_result hx key authority (unverified why) input obs ds m = Inr m'" and "results_ok hx fp m"
    and "ready hx fp" and "key \<in> set (hx_applicable hx)"
  shows "results_ok hx fp m' \<and> dom m' = insert key (dom m)"
  using assms(3,4) by (intro unverified_ok[OF assms(1,2)]) (simp add: ready_def)

lemma traversed_pair:
  assumes "judged hx opened t results" and "traverse f results = Inr obs"
  obtains a b where "obs = [a, b]"
  using assms(1) traverse_Inr_length[OF assms(2)] by (auto simp: judged_def length_Suc_conv numeral_2_eq_2)

lemma mutation_part_ok:
  assumes "mutation_part hx key (final_authority hx opened t results) capable ids t results input ds evaluate m = Inr m'"
    and "results_ok hx fp m" and "ready hx fp" and "judged hx opened t results"
    and "\<And>a b v. evaluate a b = Inr v \<Longrightarrow> well_tiered v"
  shows "results_ok hx fp m' \<and> dom m' = dom m \<union> ({key} \<inter> set (hx_applicable hx))"
proof -
  let ?m = "\<lambda>q. summarize_mutation_observations (tr_events t) (rq_request_id q) ids (rq_status_code q)"
  consider "key \<notin> set (hx_applicable hx)" | "key \<in> set (hx_applicable hx)" "\<not> capable"
    | "key \<in> set (hx_applicable hx)" "capable" by blast
  then show ?thesis
  proof cases
    case 1
    then show ?thesis using assms(1,2) by (simp add: mutation_part_def)
  next
    case 2
    then have "add_result hx key (final_authority hx opened t results key)
        (unverified RUNTIME_CAPABILITY_INSUFFICIENT) input [] ds m = Inr m'"
      using assms(1) by (simp add: mutation_part_def)
    from insufficient_ok[OF this assms(2,3) 2(1)] 2(1) show ?thesis by auto
  next
    case 3
    then obtain obs where "traverse ?m results = Inr obs"
      using assms(1) by (auto simp: mutation_part_def bind_result_eq_Inr)
    moreover from this obtain a b where "obs = [a, b]" by (rule traversed_pair[OF assms(4)])
    ultimately have os: "traverse ?m results = Inr [a, b]" by simp
    then obtain v where v: "evaluate a b = Inr v" and
      r: "add_result hx key (final_authority hx opened t results key) v input
        (map MutationObservation [a, b]) ds m = Inr m'"
      using assms(1) 3 by (auto simp: mutation_part_def bind_result_eq_Inr)
    from verdict_ok[OF r assms(2,3) 3(1) assms(5)[OF v] assms(4) observed_byI(2)[OF os]] 3(1)
    show ?thesis by auto
  qed
qed

lemma customer_part_ok:
  assumes "customer_part hx key (final_authority hx opened t results) observable pass control t results
      input ds evaluate m = Inr m'"
    and "results_ok hx fp m" and "ready hx fp" and "judged hx opened t results"
    and "\<And>a b. well_tiered (evaluate a b)"
  shows "results_ok hx fp m' \<and> dom m' = dom m \<union> ({key} \<inter> set (hx_applicable hx))"
proof -
  consider "key \<notin> set (hx_applicable hx)" | "key \<in> set (hx_applicable hx)" "\<not> observable \<or> control = None"
    | c where "key \<in> set (hx_applicable hx)" "observable" "control = Some c" by blast
  then show ?thesis
  proof cases
    case 1
    then show ?thesis using assms(1,2) by (simp add: customer_part_def)
  next
    case 2
    then have "add_result hx key (final_authority hx opened t results key)
        (unverified RUNTIME_CAPABILITY_INSUFFICIENT) input [] ds m = Inr m'"
      using assms(1) by (auto simp: customer_part_def split: option.splits bool.splits)
    from insufficient_ok[OF this assms(2,3) 2(1)] 2(1) show ?thesis by auto
  next
    case (3 c)
    then obtain obs where "traverse (observe_request t c) results = Inr obs"
      using assms(1) by (auto simp: customer_part_def bind_result_eq_Inr)
    moreover from this obtain a b where "obs = [a, b]" by (rule traversed_pair[OF assms(4)])
    ultimately have os: "traverse (observe_request t c) results = Inr [a, b]" by simp
    let ?v = "evaluate (ro_observations a) (ro_observations b)"
    let ?w = "if fst ?v = VERIFIED_PASS \<and> \<not> pass then unverified RUNTIME_CAPABILITY_INSUFFICIENT else ?v"
    have r: "add_result hx key (final_authority hx opened t results key) ?w input
        (map CustomerObservation [a, b]) ds m = Inr m'"
      using assms(1) 3 os by (simp add: customer_part_def Let_def)
    have "well_tiered ?w" using assms(5) by (simp add: well_tiered_simps)
    from verdict_ok[OF r assms(2,3) 3(1) this assms(4) observed_byI(1)[OF os]] 3(1) show ?thesis by auto
  qed
qed

lemma handler_sealed_delivered:
  assumes "ready hx fp" and "opened_on hx opened"
    and "\<And>t. sealed = Some t \<Longrightarrow> \<exists>sent. wd_close (hx_world hx) sent = Some t"
    and s: "handler_sealed hx opened should_execute input results sealed failure untrusted crossed judge = Inr rs"
    and judge: "\<And>t ds. judged hx opened t results \<Longrightarrow> judge t (final_authority hx opened t results) ds = Inr rs \<Longrightarrow>
      delivered hx fp rs"
  shows "delivered hx fp rs"
proof (cases sealed)
  case None
  then show ?thesis using s stop_applicable_delivered[OF assms(1)]
    by (auto simp: handler_sealed_def Let_def bind_result_eq_Inr)
next
  case (Some t)
  note facts = s[unfolded handler_sealed_def Let_def bind_result_eq_Inr Some option.case]
  show ?thesis
  proof (cases "judged hx opened t results \<and> should_execute \<and> input \<noteq> None \<and> \<not> crossed t")
    case True
    then have "judge t (final_authority hx opened t results) (session_diagnostics opened t failure) = Inr rs"
      using facts by (auto simp: judged_def)
    with True show ?thesis using judge by blast
  next
    case False
    then show ?thesis using facts stop_applicable_delivered[OF assms(1)] assms(2,3) Some
      by (auto simp: judged_def split: if_splits)
  qed
qed

section \<open>The three handlers\<close>

lemma dispatch_closes:
  "dispatch_managed_sequence w ingress requests = (results, Some t, failure) \<Longrightarrow>
   \<exists>sent. wd_close w sent = Some t"
  by (auto simp: dispatch_managed_sequence_def split: prod.splits)

text \<open>The two parts of a judgement, in either order, fill the dictionary.\<close>

lemma parts_cover:
  assumes "ready hx fp"
    and "results_ok hx fp m1 \<and> dom m1 = dom (hx_results hx) \<union> ({k1} \<inter> set (hx_applicable hx))"
    and "results_ok hx fp m2 \<and> dom m2 = dom m1 \<union> ({k2} \<inter> set (hx_applicable hx))"
    and "set (hx_applicable hx) \<subseteq> {k1, k2}"
  shows "set (hx_keys hx) \<subseteq> dom m2"
proof -
  have "set (hx_keys hx) \<subseteq> dom (hx_results hx) \<union> set (hx_applicable hx)"
    using assms(1) by (simp add: ready_def)
  moreover have "dom m2 = dom (hx_results hx) \<union> set (hx_applicable hx)"
    unfolding conjunct2[OF assms(3)] conjunct2[OF assms(2)] Un_assoc
    using assms(4) by (intro arg_cong2[where f = "(\<union>)"]) auto
  ultimately show ?thesis by simp
qed

lemma parts_delivered:
  assumes "ready hx fp" and "ordered_results hx m2 = Inr rs"
    and "results_ok hx fp m1 \<and> dom m1 = dom (hx_results hx) \<union> ({k1} \<inter> set (hx_applicable hx))"
    and "results_ok hx fp m2 \<and> dom m2 = dom m1 \<union> ({k2} \<inter> set (hx_applicable hx))"
    and "set (hx_applicable hx) \<subseteq> {k1, k2}"
  shows "delivered hx fp rs"
  by (rule ordered_delivered[OF assms(2) conjunct1[OF assms(4)] parts_cover[OF assms(1,3-5)]])

lemma customer_verdicts_tiered:
  "well_tiered (sg04_evaluate_customer_sequence a b)" "well_tiered (sg05_evaluate_customer_sequence a b)"
  "well_tiered (sg06_evaluate_customer_sequence a b)"
  using sg04.reduce_well_tiered[of "(a, b)"] sg05.reduce_well_tiered[of "(a, b)"]
    sg06.reduce_well_tiered[of "(a, b)"] by simp_all

lemma mutation_verdicts_tiered:
  "Inr (sg05_evaluate_mutation_sequence c d) = Inr v \<Longrightarrow> well_tiered v"
  "Inr (sg06_evaluate_mutation_sequence c d) = Inr v \<Longrightarrow> well_tiered v"
  using sg05_mutation.reduce_well_tiered[of "(c, d)"] sg06_mutation.reduce_well_tiered[of "(c, d)"]
  by auto

lemma state_verdict_tiered:
  assumes "sg04_state_verdict graph ids c d = Inr v"
  shows "well_tiered v"
proof -
  from assms obtain xs ys where
    "(case (xs, ys) of ([x], [z]) \<Rightarrow> Inr (sg04_evaluate_state_sequence c d x z)
      | _ \<Rightarrow> Inr (unverified AUTHORITY_MISMATCH)) = (Inr v :: verdict result)"
    unfolding sg04_state_verdict_def bind_result_eq_Inr by blast
  then have "v = unverified AUTHORITY_MISMATCH \<or> (\<exists>x z. v = sg04_evaluate_state_sequence c d x z)"
    by (auto split: list.splits)
  then show ?thesis using sg04_state.reduce_well_tiered[of "(c, d, x, z)" for x z]
    by (auto simp: well_tiered_simps)
qed

lemma sequence_run_delivered:
  assumes "ready hx fp" and "opened_on hx opened"
    and run: "bind_result prepare (\<lambda>prepared.
      case dispatch_managed_sequence (hx_world hx) ingress (requests prepared) of
        (results, sealed, failure) \<Rightarrow>
          handler_sealed hx opened should_execute (input prepared) results sealed failure untrusted
            (crossed results) (judge prepared results)) = Inr rs"
    and judge: "\<And>prepared results t ds. judged hx opened t results \<Longrightarrow>
      judge prepared results t (final_authority hx opened t results) ds = Inr rs \<Longrightarrow> delivered hx fp rs"
  shows "delivered hx fp rs"
proof -
  from run obtain prepared where
    d: "(case dispatch_managed_sequence (hx_world hx) ingress (requests prepared) of
        (results, sealed, failure) \<Rightarrow>
          handler_sealed hx opened should_execute (input prepared) results sealed failure untrusted
            (crossed results) (judge prepared results)) = Inr rs"
    unfolding bind_result_eq_Inr by blast
  obtain results sealed failure where
    e: "dispatch_managed_sequence (hx_world hx) ingress (requests prepared) = (results, sealed, failure)"
    by (cases "dispatch_managed_sequence (hx_world hx) ingress (requests prepared)")
  have "\<And>t. sealed = Some t \<Longrightarrow> \<exists>sent. wd_close (hx_world hx) sent = Some t"
    using dispatch_closes e by blast
  from handler_sealed_delivered[OF assms(1,2) this d[unfolded e prod.case]] judge show ?thesis by blast
qed

lemma mutation_then_customer_delivered:
  assumes "judged hx opened t results" and "ready hx fp"
    and "bind_result (mutation_part hx k1 (final_authority hx opened t results) capable ids t results input ds
        evaluate (hx_results hx)) (\<lambda>m.
      bind_result (customer_part hx k2 (final_authority hx opened t results) observable pass control t
        results input ds evaluate' m) (ordered_results hx)) = Inr rs"
    and "\<And>a b v. evaluate a b = Inr v \<Longrightarrow> well_tiered v" and "\<And>a b. well_tiered (evaluate' a b)"
    and "set (hx_applicable hx) \<subseteq> {k1, k2}"
  shows "delivered hx fp rs"
proof -
  from assms(3) obtain m1 m2 where
    1: "mutation_part hx k1 (final_authority hx opened t results) capable ids t results input ds
        evaluate (hx_results hx) = Inr m1"
    and 2: "customer_part hx k2 (final_authority hx opened t results) observable pass control t
        results input ds evaluate' m1 = Inr m2" and o: "ordered_results hx m2 = Inr rs"
    unfolding bind_result_eq_Inr by blast
  have "results_ok hx fp (hx_results hx)" using assms(2) by (simp add: ready_def)
  note r1 = mutation_part_ok[OF 1 this assms(2,1,4)]
  note r2 = customer_part_ok[OF 2 conjunct1[OF r1] assms(2,1,5)]
  show ?thesis by (rule parts_delivered[OF assms(2) o r1 r2 assms(6)])
qed

lemma customer_then_mutation_delivered:
  assumes "judged hx opened t results" and "ready hx fp"
    and "bind_result (customer_part hx k1 (final_authority hx opened t results) observable pass control t
        results input ds evaluate' (hx_results hx)) (\<lambda>m.
      bind_result (mutation_part hx k2 (final_authority hx opened t results) capable ids t results input ds
        evaluate m) (ordered_results hx)) = Inr rs"
    and "\<And>a b v. evaluate a b = Inr v \<Longrightarrow> well_tiered v" and "\<And>a b. well_tiered (evaluate' a b)"
    and "set (hx_applicable hx) \<subseteq> {k1, k2}"
  shows "delivered hx fp rs"
proof -
  from assms(3) obtain m1 m2 where
    1: "customer_part hx k1 (final_authority hx opened t results) observable pass control t
        results input ds evaluate' (hx_results hx) = Inr m1"
    and 2: "mutation_part hx k2 (final_authority hx opened t results) capable ids t results input ds
        evaluate m1 = Inr m2" and o: "ordered_results hx m2 = Inr rs"
    unfolding bind_result_eq_Inr by blast
  have "results_ok hx fp (hx_results hx)" using assms(2) by (simp add: ready_def)
  note r1 = customer_part_ok[OF 1 this assms(2,1,5)]
  note r2 = mutation_part_ok[OF 2 conjunct1[OF r1] assms(2,1,4)]
  show ?thesis by (rule parts_delivered[OF assms(2) o r1 r2 assms(6)])
qed

lemma sg05_run_delivered:
  assumes "ready hx fp" and "opened_on hx opened" and "set (hx_applicable hx) \<subseteq> set sg05_catalog"
    and "sg05_run hx secret opened ingress = Inr rs"
  shows "delivered hx fp rs"
proof -
  from assms(4) obtain mutation customer where
    a: "hx_assertions hx SG05_MUTATION_ASSERTION_KEY = Some mutation"
      "hx_assertions hx SG05_CUSTOMER_VALUE_ASSERTION_KEY = Some customer"
    by (auto simp: sg05_run_def split: option.splits)
  show ?thesis
    by (rule sequence_run_delivered[OF assms(1,2) assms(4)[unfolded sg05_run_def a prod.case option.case Let_def]],
        erule mutation_then_customer_delivered[OF _ assms(1) _ _ _ assms(3)[unfolded sg05_catalog_def list.set]])
      (rule mutation_verdicts_tiered customer_verdicts_tiered | assumption)+
qed

lemma sg06_run_delivered:
  assumes "ready hx fp" and "opened_on hx opened" and "set (hx_applicable hx) \<subseteq> set sg06_catalog"
    and "sg06_run hx secret server_order opened ingress = Inr rs"
  shows "delivered hx fp rs"
proof (cases "ib_checkout_request_binding ingress")
  case None
  then show ?thesis using assms(4) stop_applicable_delivered[OF assms(1)]
    by (auto simp: sg06_run_def dest!: discard_Inr)
next
  case (Some binding)
  from assms(4) obtain mutation customer where
    a: "hx_assertions hx SG06_MUTATION_ASSERTION_KEY = Some mutation"
      "hx_assertions hx SG06_CUSTOMER_VALUE_ASSERTION_KEY = Some customer"
    by (auto simp: sg06_run_def Some split: option.splits)
  show ?thesis
    by (rule sequence_run_delivered[OF assms(1,2)
          assms(4)[unfolded sg06_run_def Some a prod.case option.case Let_def]],
        erule mutation_then_customer_delivered[OF _ assms(1) _ _ _ assms(3)[unfolded sg06_catalog_def list.set]])
      (rule mutation_verdicts_tiered customer_verdicts_tiered | assumption)+
qed

lemma sg04_run_delivered:
  assumes "ready hx fp" and "opened_on hx opened" and "set (hx_applicable hx) \<subseteq> set sg04_catalog"
    and "sg04_run graph hx control secret opened ingress = Inr rs"
  shows "delivered hx fp rs"
proof -
  from assms(4) obtain regression where
    a: "hx_assertions hx SG04_STATE_REGRESSION_ASSERTION_KEY = Some regression"
    by (auto simp: sg04_run_def split: option.splits)
  show ?thesis
    by (rule sequence_run_delivered[OF assms(1,2)
          assms(4)[unfolded sg04_run_def a prod.case option.case Let_def]],
        erule customer_then_mutation_delivered[OF _ assms(1) _ _ _ assms(3)[unfolded sg04_catalog_def list.set]])
      (erule state_verdict_tiered | rule customer_verdicts_tiered | assumption)+
qed

lemma handler_start_fields [simp]:
  "hx_world (handler_start w sid d catalog iid c) = w"
  "hx_scenario (handler_start w sid d catalog iid c) = sid"
  "hx_instance_id (handler_start w sid d catalog iid c) = iid"
  "hx_instance (handler_start w sid d catalog iid c) = scenario_instance_of (wd_preflight w) sid iid"
  "hx_results (handler_start w sid d catalog iid c) = Map.empty"
  "hx_assertions (handler_start w sid d catalog iid c) =
     catalog_assertions catalog (scenario_instance_of (wd_preflight w) sid iid)"
  by (simp_all add: handler_start_def Let_def)

lemma handler_start_keys:
  "set (hx_keys (handler_start w sid d catalog iid c)) \<subseteq> set catalog"
  "scenario_instance_of (wd_preflight w) sid iid \<noteq> None \<Longrightarrow>
   key \<in> set (hx_keys (handler_start w sid d catalog iid c)) \<Longrightarrow>
   catalog_assertions catalog (scenario_instance_of (wd_preflight w) sid iid) key \<noteq> None"
  by (auto simp: handler_start_def Let_def)

lemma session_delivered:
  assumes "ready hx fp" and "hx_instance hx = Some i"
    and "handler_session hx i config_fp run = Inr rs"
    and "\<And>opened ingress. opened_on hx opened \<Longrightarrow> run opened ingress = Inr rs \<Longrightarrow> delivered hx fp rs"
  shows "delivered hx fp rs"
proof (rule handler_session_delivered[OF assms(1-3)])
  fix opened ingress
  assume o': "wd_opened (hx_world hx) = Some opened" "op_session opened = Some ManagedSession"
    "ap_applicability_fingerprint (op_applicability opened) =
       ap_applicability_fingerprint (wd_preflight (hx_world hx))"
    "scenario_instance_of (op_applicability opened) (hx_scenario hx) (hx_instance_id hx) = hx_instance hx"
    and r: "run opened ingress = Inr rs"
  have "opened_on hx opened" using o' assms(1) by (simp add: opened_on_def ready_def)
  then show "delivered hx fp rs" using assms(4) r by blast
qed

text \<open>
  What the three \<open>execute\<close> functions have in common: after the preflight they refuse, or open
  a session and run.
\<close>

lemma handler_delivered:
  assumes "handler_preflight (handler_start w sid d catalog iid c) fp continue = Inr rs"
    and "\<And>hx i. set (hx_applicable hx) \<subseteq> set catalog \<Longrightarrow> ready hx fp \<Longrightarrow> hx_instance hx = Some i \<Longrightarrow>
      continue hx i = Inr rs \<Longrightarrow> delivered hx fp rs"
  shows "delivered (handler_start w sid d catalog iid c) fp rs"
proof (rule handler_preflight_delivered[OF assms(1)])
  let ?hx = "handler_start w sid d catalog iid c"
  fix m ks i
  assume "set ks \<subseteq> set (hx_keys ?hx)" "ready (?hx\<lparr>hx_results := m, hx_applicable := ks\<rparr>) fp"
    "hx_instance ?hx = Some i" "continue (?hx\<lparr>hx_results := m, hx_applicable := ks\<rparr>) i = Inr rs"
  then have "delivered (?hx\<lparr>hx_results := m, hx_applicable := ks\<rparr>) fp rs"
    using handler_start_keys(1)[of w sid d catalog iid c] by (intro assms(2)) auto
  then show "delivered ?hx fp rs" by (simp only: delivered_update)
qed (use handler_start_keys in auto)

lemma execute_sg04_delivered:
  assumes "execute_sg04 graph w iid fp = Inr rs"
  shows "delivered (handler_start w SG_04 SG04_DEFINITION_FINGERPRINT sg04_catalog iid
    (\<lambda>inst assertions key. Option.bind inst si_normal_control_id)) fp rs"
proof (rule handler_delivered[OF assms[unfolded execute_sg04_def]])
  fix hx i
  assume c: "set (hx_applicable hx) \<subseteq> set sg04_catalog" and r: "ready hx fp" and i: "hx_instance hx = Some i"
    and e: "(if si_normal_control_id i = None then stop_before hx AUTHORITY_MISMATCH
       else case wd_runtime w of
         UnmanagedRuntime \<Rightarrow> stop_before hx RUNTIME_MODE_UNSUPPORTED
       | ManagedRuntime config_fp env \<Rightarrow>
           let secret = webhook_secret w env
           in if secret = '''' then stop_before hx WEBHOOK_SECRET_UNAVAILABLE
              else handler_session hx i config_fp (sg04_run graph hx (si_normal_control_id i) secret)) = Inr rs"
  have run: "delivered hx fp rs"
    if "handler_session hx i config_fp (sg04_run graph hx control secret) = Inr rs" for config_fp control secret
    by (rule session_delivered[OF r i that]) (rule sg04_run_delivered[OF r _ c])
  show "delivered hx fp rs"
    using e run stop_before_delivered[OF r]
    by (auto simp: Let_def split: if_splits runtime_setting.splits)
qed

lemma execute_sg05_delivered:
  assumes "execute_sg05 w iid fp = Inr rs"
  shows "delivered (handler_start w SG_05 SG05_DEFINITION_FINGERPRINT sg05_catalog iid
    (customer_control SG05_CUSTOMER_VALUE_ASSERTION_KEY)) fp rs"
proof (rule handler_delivered[OF assms[unfolded execute_sg05_def]])
  fix hx i
  assume c: "set (hx_applicable hx) \<subseteq> set sg05_catalog" and r: "ready hx fp" and i: "hx_instance hx = Some i"
    and e: "(case wd_runtime w of
         UnmanagedRuntime \<Rightarrow> stop_before hx RUNTIME_MODE_UNSUPPORTED
       | ManagedRuntime config_fp env \<Rightarrow>
           let secret = webhook_secret w env
           in if secret = '''' then stop_before hx WEBHOOK_SECRET_UNAVAILABLE
              else handler_session hx i config_fp (sg05_run hx secret)) = Inr rs"
  have run: "delivered hx fp rs"
    if "handler_session hx i config_fp (sg05_run hx secret) = Inr rs" for config_fp secret
    by (rule session_delivered[OF r i that]) (rule sg05_run_delivered[OF r _ c])
  show "delivered hx fp rs"
    using e run stop_before_delivered[OF r]
    by (auto simp: Let_def split: if_splits runtime_setting.splits)
qed

lemma execute_sg06_delivered:
  assumes "execute_sg06 w iid fp = Inr rs"
  shows "delivered (handler_start w SG_06 SG06_DEFINITION_FINGERPRINT sg06_catalog iid
    (customer_control SG06_CUSTOMER_VALUE_ASSERTION_KEY)) fp rs"
proof (rule handler_delivered[OF assms[unfolded execute_sg06_def]])
  fix hx i
  assume c: "set (hx_applicable hx) \<subseteq> set sg06_catalog" and r: "ready hx fp" and i: "hx_instance hx = Some i"
    and e: "(case wd_runtime w of
         UnmanagedRuntime \<Rightarrow> stop_before hx RUNTIME_MODE_UNSUPPORTED
       | ManagedRuntime config_fp env \<Rightarrow>
           let secret = host_value w env checkout_secret_child_name;
               server_order = host_value w env server_order_child_name
           in if secret = '''' then stop_before hx CHECKOUT_SECRET_UNAVAILABLE
              else if server_order = '''' then stop_before hx SERVER_ORDER_CONTROL_UNAVAILABLE
              else handler_session hx i config_fp (sg06_run hx secret server_order)) = Inr rs"
  have run: "delivered hx fp rs"
    if "handler_session hx i config_fp (sg06_run hx secret server_order) = Inr rs"
    for config_fp secret server_order
    by (rule session_delivered[OF r i that]) (rule sg06_run_delivered[OF r _ c])
  show "delivered hx fp rs"
    using e run stop_before_delivered[OF r]
    by (auto simp: Let_def split: if_splits runtime_setting.splits)
qed

end
