(* ===== verification/SequenceTotality.thy ===== *)
theory SequenceTotality
  imports SequenceProperties
begin

text \<open>
  \<open>execute_sg05\<close> and \<open>execute_sg06\<close> never raise: every verdict of their reducers is one the
  validators of \<open>failure_lab/contracts.py\<close> accept, and every key they look up is present.  (The
  same is false for SG-04, whose state reducer can pass an observation the validator refuses.)
\<close>

section \<open>The validators accept the reducers\<close>

lemma sg05_customer_accepted:
  assumes "sx_request_observations r = [CustomerObservation a, CustomerObservation b]"
    and "au_normal_control_id (sx_authority r) \<noteq> None"
    and "(sx_result r, sx_evidence_tier r, sx_reason r) =
      sg05_evaluate_customer_sequence (ro_observations a) (ro_observations b)"
  shows "validate_by_scenario SG_05 r = None"
  using assms evaluate_observations_pass[of "ro_observations b"]
  by (auto simp: validate_sg05_def validate_sg05_customer_def verified_def Let_def
      sg05_evaluate_customer_sequence_def split: if_splits)

lemma sg06_customer_accepted:
  assumes "sx_request_observations r = [CustomerObservation a, CustomerObservation b]"
    and "au_normal_control_id (sx_authority r) \<noteq> None" and "input_is is_checkout_sequence (sx_input_reference r)"
    and "(sx_result r, sx_evidence_tier r, sx_reason r) =
      sg06_evaluate_customer_sequence (ro_observations a) (ro_observations b)"
  shows "validate_by_scenario SG_06 r = None"
  using assms evaluate_observations_pass[of "ro_observations b"]
  by (auto simp: validate_sg06_def validate_sg06_customer_def verified_def
      sg06_evaluate_customer_sequence_def split: if_splits)

lemma sg05_mutation_accepted:
  assumes "sx_request_observations r = [MutationObservation a, MutationObservation b]"
    and "au_normal_control_id (sx_authority r) = None"
    and "(sx_result r, sx_evidence_tier r, sx_reason r) = sg05_evaluate_mutation_sequence a b"
  shows "validate_by_scenario SG_05 r = None"
proof (cases "verified r")
  case False
  then show ?thesis using assms(1) by (simp add: validate_sg05_def)
next
  case True
  have "validate_sg05_mutation r a b = None"
    using assms(3) True
    by (auto simp: validate_sg05_mutation_def verified_def sg05_evaluate_mutation_sequence_def
        completed_somewhere_def untouched_def mutation_control_normal_def completed_every_reach_def
        list_ex_iff list_all_iff split: if_splits)
  then show ?thesis using assms(1,2) True by (simp add: validate_sg05_def)
qed

lemma sg06_mutation_accepted:
  assumes "sx_request_observations r = [MutationObservation a, MutationObservation b]"
    and "input_is is_checkout_sequence (sx_input_reference r)"
    and "(sx_result r, sx_evidence_tier r, sx_reason r) = sg06_evaluate_mutation_sequence a b"
  shows "validate_by_scenario SG_06 r = None"
proof (cases "verified r")
  case False
  then show ?thesis using assms(1) by (simp add: validate_sg06_def)
next
  case True
  have "validate_sg06_mutation r a b = None"
    using assms(3) True
    by (auto simp: validate_sg06_mutation_def verified_def sg06_evaluate_mutation_sequence_def
        completed_somewhere_def untouched_def mutation_control_normal_def completed_every_reach_def
        list_ex_iff list_all_iff split: if_splits)
  then show ?thesis using assms(1,2) True by (simp add: validate_sg06_def)
qed

lemma undecided_accepted:
  "\<not> verified r \<Longrightarrow> sid \<in> {SG_05, SG_06} \<Longrightarrow> validate_by_scenario sid r = None"
  by (auto simp: validate_sg05_def validate_sg06_def)

section \<open>Writing the dictionary never raises\<close>

lemma add_result_total:
  assumes "\<exists>auth. authority = Inr auth" and "\<not> blank key"
    and "\<And>auth a. authority = Inr auth \<Longrightarrow> accepted (make_result (wd_execution_id (hx_world hx))
      (hx_scenario hx) (hx_definition hx) a auth v input obs ds)"
  shows "\<exists>m'. add_result hx key authority v input obs ds m = Inr m'"
proof -
  obtain auth where a: "authority = Inr auth" using assms(1) by blast
  have "\<exists>s. selected_assertion hx key = Inr s"
    using assms(2) by (auto simp: selected_assertion_def assertion_id_def split: option.splits)
  then obtain s where s: "selected_assertion hx key = Inr s" by blast
  obtain r where "make_result (wd_execution_id (hx_world hx)) (hx_scenario hx) (hx_definition hx) s
      auth v input obs ds = Inr r"
    using assms(3)[OF a, of s] by (auto simp: accepted_def)
  then show ?thesis by (simp add: add_result_def a s)
qed

lemma add_undecided_total:
  assumes "\<exists>auth. authority = Inr auth" and "\<not> blank key" and "\<not> input_is is_grounded_input input"
    and "state \<notin> {VERIFIED_PASS, VERIFIED_FAIL}"
  shows "\<exists>m'. add_result hx key authority (state, None, why) input [] ds m = Inr m'"
  by (rule add_result_total[OF assms(1,2)], rule make_result_undecided) (use assms(3,4) in simp_all)

lemma add_each_total:
  assumes "\<And>key m. key \<in> set keys \<Longrightarrow> \<exists>m'. f key m = Inr m'"
  shows "\<exists>m'. add_each f keys m = Inr m'"
  using assms
proof (induction keys arbitrary: m)
  case (Cons key keys)
  then obtain m1 where "f key m = Inr m1" by (meson list.set_intros(1))
  then show ?case using Cons.IH[of m1] Cons.prems by simp
qed simp

lemma ordered_total: "set (hx_keys hx) \<subseteq> dom m \<Longrightarrow> \<exists>rs. ordered_results hx m = Inr rs"
proof (cases "hx_scenario hx = SG_05")
  case True
  assume "set (hx_keys hx) \<subseteq> dom m"
  then have "(case m key of None \<Rightarrow> Inl KeyError | Some r \<Rightarrow> Inr r) = Inr (the (m key))"
    if "key \<in> set (hx_keys hx)" for key
    using that by (force split: option.splits)
  then have "traverse (\<lambda>key. case m key of None \<Rightarrow> Inl KeyError | Some r \<Rightarrow> Inr r) (hx_keys hx) =
      Inr (map (\<lambda>key. the (m key)) (hx_keys hx))"
    by (rule traverse_total)
  then show ?thesis by (simp add: ordered_results_def True)
qed (simp add: ordered_results_def)

lemma authority_for_total:
  assumes "ids \<noteq> [] \<longrightarrow> opened \<noteq> None" and "distinct ids" and "tfp \<noteq> None \<longrightarrow> opened \<noteq> None"
  shows "\<exists>auth. authority_for hx key opened ids tfp = Inr auth"
  unfolding authority_for_def by (rule exI, rule base_authority_Inr) (use assms in auto)

lemma stop_keys_total:
  assumes "set (hx_keys hx) \<subseteq> dom (hx_results hx) \<union> set keys" and "\<And>key. key \<in> set keys \<Longrightarrow> \<not> blank key"
    and "\<not> input_is is_grounded_input input"
    and "\<And>key. \<exists>auth. authority_for hx key opened ids tfp = Inr auth"
    and "stop_keys hx keys why opened ids tfp input ds = x"
  shows "\<exists>rs. x = Inr rs"
proof -
  have "\<exists>m. add_each (\<lambda>key. add_result hx key (authority_for hx key opened ids tfp)
      (unverified why) input [] ds) keys (hx_results hx) = Inr m"
    by (rule add_each_total) (rule add_undecided_total, use assms in auto)
  then obtain m where m: "add_each (\<lambda>key. add_result hx key (authority_for hx key opened ids tfp)
      (unverified why) input [] ds) keys (hx_results hx) = Inr m" ..
  have "dom n \<union> set ks \<subseteq> dom m'"
    if "add_each (\<lambda>key. add_result hx key (authority_for hx key opened ids tfp)
      (unverified why) input [] ds) ks n = Inr m'" for ks n m'
    using that
  proof (induction ks arbitrary: n)
    case (Cons k ks)
    then obtain n1 where "add_result hx k (authority_for hx k opened ids tfp) (unverified why) input [] ds n = Inr n1"
      and r: "add_each (\<lambda>key. add_result hx key (authority_for hx key opened ids tfp)
        (unverified why) input [] ds) ks n1 = Inr m'"
      by (auto simp: bind_result_eq_Inr)
    then have "dom n1 = insert k (dom n)" by (auto simp: add_result_def bind_result_eq_Inr)
    then show ?case using Cons.IH[OF r] by auto
  qed simp
  from this[OF m] have "set (hx_keys hx) \<subseteq> dom m" using assms(1) by blast
  then show ?thesis using ordered_total[of hx m] assms(5) by (simp add: stop_keys_def m)
qed

section \<open>The handlers never raise\<close>

text \<open>
  What the handler of \<open>sid\<close> fixes: the scenario, its two keys, and the control only the
  customer-value assertion names.
\<close>

definition two_keys :: "handler_context \<Rightarrow> scenario_id \<Rightarrow> string \<Rightarrow> string \<Rightarrow> bool" where
  "two_keys hx sid mutation customer \<longleftrightarrow> hx_scenario hx = sid \<and> sid \<in> {SG_05, SG_06} \<and>
     mutation \<noteq> customer \<and> \<not> blank mutation \<and> \<not> blank customer \<and>
     set (hx_keys hx) \<subseteq> {mutation, customer} \<and> set (hx_applicable hx) \<subseteq> {mutation, customer} \<and>
     hx_control_for hx = customer_control customer (hx_instance hx) (hx_assertions hx)"

lemma two_keys_not_blank:
  "two_keys hx sid k1 k2 \<Longrightarrow> key \<in> set (hx_keys hx) \<union> set (hx_applicable hx) \<Longrightarrow> \<not> blank key"
  by (auto simp: two_keys_def)

lemma stop_applicable_total:
  assumes "two_keys hx sid k1 k2" and "ready hx fp" and "\<not> input_is is_grounded_input input"
    and "ids \<noteq> [] \<longrightarrow> opened \<noteq> None" and "distinct ids" and "tfp \<noteq> None \<longrightarrow> opened \<noteq> None"
  shows "\<exists>rs. stop_applicable hx why opened ids tfp input ds = Inr rs"
  unfolding stop_applicable_def
proof (rule stop_keys_total[OF _ _ assms(3) authority_for_total[OF assms(4-6)] refl])
  show "set (hx_keys hx) \<subseteq> dom (hx_results hx) \<union> set (hx_applicable hx)"
    using assms(2) by (simp add: ready_def)
qed (use two_keys_not_blank[OF assms(1)] in auto)

lemma stop_before_total:
  "two_keys hx sid k1 k2 \<Longrightarrow> ready hx fp \<Longrightarrow> \<exists>rs. stop_before hx why = Inr rs"
  unfolding stop_before_def by (rule stop_applicable_total) (simp_all add: input_is_def)

lemma final_authority_total:
  assumes "judged hx opened t results"
  shows "\<exists>auth. final_authority hx opened t results key = Inr auth"
proof (rule authority_for_total)
  show "distinct (map rq_request_id results)"
    using assms unfolding judged_def sequence_authority_is_exact_def Let_def by (metis (full_types))
qed simp_all

lemma final_authority_parts:
  assumes "final_authority hx opened t results key = Inr auth"
  shows "au_runtime_capability_fingerprint auth \<noteq> None" and "au_runtime_session_id auth \<noteq> None"
    and "au_transcript_fingerprint auth \<noteq> None" and "au_runtime_request_ids auth = map rq_request_id results"
    and "au_normal_control_id auth = hx_control_for hx key"
  using assms by (auto simp: authority_for_def base_authority_def Let_def split: option.splits)

lemma judged_pair:
  assumes "judged hx opened t results"
  obtains a b where "results = [a, b]"
  using assms by (auto simp: judged_def length_Suc_conv numeral_2_eq_2)

lemma mutation_observation_id [simp]:
  "mo_request_id (mutation_observation_of es q ids s) = q"
  by (simp add: mutation_observation_of_def Let_def)

lemma mutation_part_total:
  assumes k: "two_keys hx sid k1 k2" and j: "judged hx opened t results"
    and input: "input = Some ref" "\<not> is_grounded_input ref" "sid = SG_06 \<Longrightarrow> is_checkout_sequence ref"
    and ev: "evaluate = (if sid = SG_05 then (\<lambda>a b. Inr (sg05_evaluate_mutation_sequence a b))
      else (\<lambda>a b. Inr (sg06_evaluate_mutation_sequence a b)))"
    and ids: "capable \<Longrightarrow> ids \<noteq> []" "distinct ids"
    and legal: "\<forall>q \<in> set results. legal_status (rq_status_code q)"
  shows "\<exists>m'. mutation_part hx k1 (final_authority hx opened t results) capable ids t results input ds
    evaluate m = Inr m'"
proof -
  obtain a b where ab: "results = [a, b]" using judged_pair[OF j] .
  let ?m = "\<lambda>q. mutation_observation_of (tr_events t) (rq_request_id q) ids (rq_status_code q)"
  have sid: "sid = SG_05 \<or> sid = SG_06" "hx_scenario hx = sid" using k by (auto simp: two_keys_def)
  define v where "v = (if sid = SG_05 then sg05_evaluate_mutation_sequence (?m a) (?m b)
    else sg06_evaluate_mutation_sequence (?m a) (?m b))"
  have wt: "well_tiered v" using mutation_verdicts_tiered by (simp add: v_def)
  have nb: "\<not> blank k1" using k by (simp add: two_keys_def)
  have "\<exists>m'. add_result hx k1 (final_authority hx opened t results k1) v input
      [MutationObservation (?m a), MutationObservation (?m b)] ds m = Inr m'"
  proof (rule add_result_total[OF final_authority_total[OF j] nb])
    fix auth s
    assume au: "final_authority hx opened t results k1 = Inr auth"
    note f = final_authority_parts[OF au]
    have none: "au_normal_control_id auth = None"
      using k f(5) by (auto simp: two_keys_def customer_control_def)
    show "accepted (make_result (wd_execution_id (hx_world hx)) (hx_scenario hx) (hx_definition hx) s auth v
        input [MutationObservation (?m a), MutationObservation (?m b)] ds)"
      unfolding input(1) sid(2)
    proof (rule make_result_verdict[OF wt f(1-3)])
      show "map observation_request_id [MutationObservation (?m a), MutationObservation (?m b)] =
          au_runtime_request_ids auth"
        by (simp add: f(4) ab)
    next
      fix r :: scenario_result
      assume r: "sx_authority r = auth" "sx_input_reference r = Some ref"
        "sx_request_observations r = [MutationObservation (?m a), MutationObservation (?m b)]"
        "(sx_result r, sx_evidence_tier r, sx_reason r) = v"
      show "validate_by_scenario sid r = None"
        using sid(1) sg05_mutation_accepted[OF r(3)] sg06_mutation_accepted[OF r(3)] r(1,2,4) none input(3)
        by (auto simp: v_def input_is_def)
    qed (use input(2) sid(1) in \<open>auto simp: map_filter_simps\<close>)
  qed
  moreover have "\<exists>m'. add_result hx k1 (final_authority hx opened t results k1)
      (unverified RUNTIME_CAPABILITY_INSUFFICIENT) input [] ds m = Inr m'"
    by (rule add_undecided_total[OF final_authority_total[OF j] nb]) (use input in \<open>simp_all add: input_is_def\<close>)
  moreover have "traverse (\<lambda>q. summarize_mutation_observations (tr_events t) (rq_request_id q) ids
      (rq_status_code q)) results = Inr [?m a, ?m b]" if capable
  proof -
    have "summarize_mutation_observations (tr_events t) (rq_request_id q) ids (rq_status_code q) = Inr (?m q)"
      if "q \<in> set results" for q
      using ids \<open>capable\<close> legal that by (simp add: summarize_mutation_observations_Inr)
    then have "traverse (\<lambda>q. summarize_mutation_observations (tr_events t) (rq_request_id q) ids
        (rq_status_code q)) results = Inr (map ?m results)"
      by (rule traverse_total)
    then show ?thesis by (simp only: ab list.map)
  qed
  ultimately show ?thesis using sid(1) by (auto simp: mutation_part_def ev v_def)
qed

lemma customer_part_total:
  assumes k: "two_keys hx sid k1 k2" and j: "judged hx opened t results"
    and input: "input = Some ref" "\<not> is_grounded_input ref" "sid = SG_06 \<Longrightarrow> is_checkout_sequence ref"
    and ev: "evaluate = (if sid = SG_05 then sg05_evaluate_customer_sequence else sg06_evaluate_customer_sequence)"
    and control: "hx_assertions hx k2 = Some customer" "aa_normal_control_id customer = control"
    and legal: "\<forall>q \<in> set results. legal_status (rq_status_code q)"
  shows "\<exists>m'. customer_part hx k2 (final_authority hx opened t results) observable pass control t results
    input ds evaluate m = Inr m'"
proof -
  obtain a b where ab: "results = [a, b]" using judged_pair[OF j] .
  have sid: "sid = SG_05 \<or> sid = SG_06" "hx_scenario hx = sid" using k by (auto simp: two_keys_def)
  have nb: "\<not> blank k2" using k by (simp add: two_keys_def)
  have verdict: "\<exists>m'. add_result hx k2 (final_authority hx opened t results k2) v' input
      [CustomerObservation (request_observation_of t c a), CustomerObservation (request_observation_of t c b)] ds m = Inr m'"
    if c: "control = Some c" and v': "v' = v \<or> v' = unverified RUNTIME_CAPABILITY_INSUFFICIENT"
      and v: "v = evaluate (ro_observations (request_observation_of t c a)) (ro_observations (request_observation_of t c b))"
    for c v v'
  proof (rule add_result_total[OF final_authority_total[OF j] nb])
    fix auth s
    assume au: "final_authority hx opened t results k2 = Inr auth"
    note f = final_authority_parts[OF au]
    have some: "au_normal_control_id auth \<noteq> None"
      using k f(5) control c by (auto simp: two_keys_def customer_control_def)
    have wt: "well_tiered v'"
      using v' customer_verdicts_tiered by (auto simp: v ev well_tiered_simps)
    show "accepted (make_result (wd_execution_id (hx_world hx)) (hx_scenario hx) (hx_definition hx) s auth v'
        input [CustomerObservation (request_observation_of t c a), CustomerObservation (request_observation_of t c b)] ds)"
      unfolding input(1) sid(2)
    proof (rule make_result_verdict[OF wt f(1-3)])
      show "map observation_request_id [CustomerObservation (request_observation_of t c a),
          CustomerObservation (request_observation_of t c b)] = au_runtime_request_ids auth"
        by (simp add: f(4) ab)
    next
      fix r :: scenario_result
      assume r: "sx_authority r = auth" "sx_input_reference r = Some ref"
        "sx_request_observations r = [CustomerObservation (request_observation_of t c a),
           CustomerObservation (request_observation_of t c b)]"
        "(sx_result r, sx_evidence_tier r, sx_reason r) = v'"
      show "validate_by_scenario sid r = None"
      proof (cases "v' = v")
        case True
        then show ?thesis
          using sid(1) sg05_customer_accepted[OF r(3)] sg06_customer_accepted[OF r(3)] r(1,2,4) some input(3)
          by (auto simp: v ev input_is_def simp del: request_observation_of_simps)
      next
        case False
        then have "\<not> verified r" using v' r(4) by (auto simp: verified_def)
        then show ?thesis using undecided_accepted sid(1) by auto
      qed
    qed (use input(2) sid(1) in \<open>auto simp: map_filter_simps\<close>)
  qed
  have "\<exists>m'. add_result hx k2 (final_authority hx opened t results k2)
      (unverified RUNTIME_CAPABILITY_INSUFFICIENT) input [] ds m = Inr m'"
    by (rule add_undecided_total[OF final_authority_total[OF j] nb]) (use input in \<open>simp_all add: input_is_def\<close>)
  moreover have "traverse (observe_request t c) results =
      Inr [request_observation_of t c a, request_observation_of t c b]" for c
    using traverse_total[of results "observe_request t c" "request_observation_of t c"] legal
    by (simp add: ab observe_request_legal)
  ultimately show ?thesis using verdict
    by (auto simp: customer_part_def Let_def simp del: request_observation_of_simps
        split: option.splits bool.splits)
qed

lemma mutation_then_customer_total:
  assumes k: "two_keys hx sid k1 k2" and r: "ready hx fp" and j: "judged hx opened t results"
    and input: "input = Some ref" "\<not> is_grounded_input ref" "sid = SG_06 \<Longrightarrow> is_checkout_sequence ref"
    and ev: "evaluate = (if sid = SG_05 then (\<lambda>a b. Inr (sg05_evaluate_mutation_sequence a b))
      else (\<lambda>a b. Inr (sg06_evaluate_mutation_sequence a b)))"
    and ev': "evaluate' = (if sid = SG_05 then sg05_evaluate_customer_sequence else sg06_evaluate_customer_sequence)"
    and control: "hx_assertions hx k2 = Some customer" "aa_normal_control_id customer = control"
    and ids: "capable \<Longrightarrow> ids \<noteq> []" "distinct ids"
    and legal: "\<forall>q \<in> set results. legal_status (rq_status_code q)"
  shows "\<exists>rs. bind_result (mutation_part hx k1 (final_authority hx opened t results) capable ids t results
      input ds evaluate (hx_results hx)) (\<lambda>m.
    bind_result (customer_part hx k2 (final_authority hx opened t results) observable pass control t results
      input ds evaluate' m) (ordered_results hx)) = Inr rs"
proof -
  obtain m1 where m1: "mutation_part hx k1 (final_authority hx opened t results) capable ids t results
      input ds evaluate (hx_results hx) = Inr m1"
    using mutation_part_total[OF k j input ev ids legal] by blast
  obtain m2 where m2: "customer_part hx k2 (final_authority hx opened t results) observable pass control t
      results input ds evaluate' m1 = Inr m2"
    using customer_part_total[OF k j input ev' control legal] by blast
  have "well_tiered v" if "evaluate a b = Inr v" for a b v
    using that mutation_verdicts_tiered by (auto simp: ev split: if_splits)
  moreover have "well_tiered (evaluate' a b)" for a b using customer_verdicts_tiered by (simp add: ev')
  moreover have "results_ok hx fp (hx_results hx)" using r by (simp add: ready_def)
  ultimately have r1: "results_ok hx fp m1 \<and> dom m1 = dom (hx_results hx) \<union> ({k1} \<inter> set (hx_applicable hx))"
    and r2: "results_ok hx fp m2 \<and> dom m2 = dom m1 \<union> ({k2} \<inter> set (hx_applicable hx))"
    using mutation_part_ok[OF m1 _ r j] customer_part_ok[OF m2 _ r j] by blast+
  have "set (hx_applicable hx) \<subseteq> {k1, k2}" using k by (simp add: two_keys_def)
  from ordered_total[OF parts_cover[OF r r1 r2 this]] show ?thesis by (simp add: m1 m2)
qed

lemma handler_sealed_total:
  assumes k: "two_keys hx sid k1 k2" and r: "ready hx fp" and o': "opened_on hx opened"
    and "\<And>t. sealed = Some t \<Longrightarrow> \<exists>sent. wd_close (hx_world hx) sent = Some t"
    and "distinct (map rq_request_id results)" and "\<not> input_is is_grounded_input input"
    and judge: "\<And>t ds ref. judged hx opened t results \<Longrightarrow> input = Some ref \<Longrightarrow>
      \<exists>rs. judge t (final_authority hx opened t results) ds = Inr rs"
  shows "\<exists>rs. handler_sealed hx opened should_execute input results sealed failure untrusted crossed judge = Inr rs"
proof (cases sealed)
  case None
  then show ?thesis using k stop_applicable_total[OF k r]
    by (auto simp: handler_sealed_def Let_def two_keys_def input_is_def)
next
  case (Some t)
  have stops: "\<exists>rs. stop_applicable hx why (Some opened) (map rq_request_id results)
      (Some (tr_transcript_fingerprint t)) ref ds = Inr rs" if "ref = None \<or> ref = input" for why ref ds
    using that assms(5,6) by (intro stop_applicable_total[OF k r]) (auto simp: input_is_def)
  have sid: "hx_scenario hx \<noteq> SG_04" using k by (auto simp: two_keys_def)
  show ?thesis
  proof (cases "judged hx opened t results \<and> input \<noteq> None")
    case True
    then show ?thesis using judge stops sid by (auto simp: handler_sealed_def Let_def Some)
  next
    case False
    then show ?thesis using stops sid o' assms(4)[OF Some]
      by (auto simp: handler_sealed_def Let_def Some judged_def)
  qed
qed

lemma sequence_run_total:
  assumes k: "two_keys hx sid k1 k2" and r: "ready hx fp" and o': "opened_on hx opened"
    and dist: "distinct_replies (hx_world hx)" and "prepare = Inr prepared"
    and "\<not> input_is is_grounded_input (input prepared)" and replies: "legal_replies (hx_world hx)"
    and judge: "\<And>results t ds ref. judged hx opened t results \<Longrightarrow> input prepared = Some ref \<Longrightarrow>
      \<forall>q \<in> set results. legal_status (rq_status_code q) \<Longrightarrow>
      \<exists>rs. judge prepared results t (final_authority hx opened t results) ds = Inr rs"
  shows "\<exists>rs. bind_result prepare (\<lambda>prepared.
      case dispatch_managed_sequence (hx_world hx) ingress (requests prepared) of
        (results, sealed, failure) \<Rightarrow>
          handler_sealed hx opened should_execute (input prepared) results sealed failure untrusted
            (crossed results) (judge prepared results)) = Inr rs"
proof -
  obtain results sealed failure where
    e: "dispatch_managed_sequence (hx_world hx) ingress (requests prepared) = (results, sealed, failure)"
    by (cases "dispatch_managed_sequence (hx_world hx) ingress (requests prepared)")
  have "distinct (map rq_request_id results)"
    using e dispatch_loop_distinct[OF dist]
    by (auto simp: dispatch_managed_sequence_def split: prod.splits)
  moreover have "\<And>t. sealed = Some t \<Longrightarrow> \<exists>sent. wd_close (hx_world hx) sent = Some t"
    using dispatch_closes e by blast
  ultimately have "\<exists>rs. handler_sealed hx opened should_execute (input prepared) results sealed failure
      untrusted (crossed results) (judge prepared results) = Inr rs"
    using judge dispatched_legal[OF replies e] by (intro handler_sealed_total[OF k r o' _ _ assms(6)]) auto
  then show ?thesis by (simp add: assms(5) e)
qed

section \<open>Preparing the requests\<close>

lemma prepare_sg05_reference:
  assumes "encode_ascii eid = Inr b" and "path_bound_error path = None"
  shows "\<exists>p. prepare_sg05_requests eid path secret = Inr p \<and> \<not> is_grounded_input (r5_input_reference p)"
proof -
  obtain r where r: "prepare_sg05_requests eid path secret = Inr r" using prepare_sg05_Inr[OF assms] by blast
  obtain p ref where p: "prepare_captured_webhook eid path secret None None None = Inr p"
    and ref: "prepared_input_reference p = Inr ref" "\<not> is_grounded_input ref"
    using offline_webhook[OF assms] by metis
  have "r5_input_reference r = ref"
    using r by (auto simp: prepare_sg05_requests_def p ref bind_result_eq_Inr split: option.splits)
  then show ?thesis using r ref by blast
qed

lemma prepare_sg06_reference:
  assumes "encode_ascii eid = Inr b" and "validate_fields binding = None" and "path_bound_error path = None"
  shows "\<exists>p. prepare_sg06_requests eid path binding secret server_order = Inr p \<and>
    is_checkout_sequence (r6_input_reference p)"
proof -
  let ?pay = "''pay_'' @ take 20 (hexdigest b)"
  let ?attacker = "attacker_order_id (take 20 (hexdigest b)) server_order"
  obtain t t_fp where t: "render_request binding (callback_values ?pay ?attacker secret) = Inr (t, t_fp)"
    using render_request_Inr[OF assms(2)] by blast
  obtain v v_fp where v: "render_request binding (callback_values ?pay server_order secret) = Inr (v, v_fp)"
    using render_request_Inr[OF assms(2)] by blast
  show ?thesis using t v assms(3)
    by (simp add: prepare_sg06_requests_def synthetic_suffix_Inr[OF assms(1)] Let_def
        checked_reference_def validate_checkout_sequence_def)
qed

lemma checkout_not_grounded: "is_checkout_sequence ref \<Longrightarrow> \<not> is_grounded_input ref"
  by (cases ref) simp_all

section \<open>The runs\<close>

lemma mutation_ids_distinct [simp]: "distinct (mutation_ids_of only a)"
  by (simp add: mutation_ids_of_def)

lemma mutation_capability_ids: "mutation_capability opened ingress ids \<Longrightarrow> ids \<noteq> []"
  by (simp add: mutation_capability_def Let_def)

lemma sg05_run_total:
  assumes k: "two_keys hx SG_05 SG05_MUTATION_ASSERTION_KEY SG05_CUSTOMER_VALUE_ASSERTION_KEY"
    and r: "ready hx fp" and o': "opened_on hx opened" and dist: "distinct_replies (hx_world hx)"
    and ascii: "encode_ascii (wd_execution_id (hx_world hx)) = Inr b"
    and a: "hx_assertions hx SG05_MUTATION_ASSERTION_KEY = Some mutation"
      "hx_assertions hx SG05_CUSTOMER_VALUE_ASSERTION_KEY = Some customer"
    and replies: "legal_replies (hx_world hx)" and path: "path_bound_error (ib_effective_path ingress) = None"
  shows "\<exists>rs. sg05_run hx secret opened ingress = Inr rs"
proof -
  obtain p where p: "prepare_sg05_requests (wd_execution_id (hx_world hx)) (ib_effective_path ingress) secret = Inr p"
    "\<not> is_grounded_input (r5_input_reference p)"
    using prepare_sg05_reference[OF ascii path] by blast
  have prep: "(if should then bind_result (prepare_sg05_requests (wd_execution_id (hx_world hx))
        (ib_effective_path ingress) secret) (\<lambda>p. Inr (Some p)) else Inr None) =
      Inr (if should then Some p else None)" for should
    by (simp add: p)
  show ?thesis
    unfolding sg05_run_def a prod.case option.case Let_def
    by (rule sequence_run_total[OF k r o' dist prep],
        use p(2) in \<open>simp add: input_is_def split: if_splits\<close>, rule replies)
      (rule mutation_then_customer_total[OF k r _ _ _ _ _ _ a(2) refl mutation_capability_ids mutation_ids_distinct],
        use p(2) in \<open>auto split: if_splits\<close>)
qed

lemma sg06_run_total:
  assumes k: "two_keys hx SG_06 SG06_MUTATION_ASSERTION_KEY SG06_CUSTOMER_VALUE_ASSERTION_KEY"
    and r: "ready hx fp" and o': "opened_on hx opened" and dist: "distinct_replies (hx_world hx)"
    and close: "wd_close (hx_world hx) [] \<noteq> None"
    and ascii: "encode_ascii (wd_execution_id (hx_world hx)) = Inr b"
    and a: "hx_assertions hx SG06_MUTATION_ASSERTION_KEY = Some mutation"
      "hx_assertions hx SG06_CUSTOMER_VALUE_ASSERTION_KEY = Some customer"
    and valid: "\<And>binding. ib_checkout_request_binding ingress = Some binding \<Longrightarrow> validate_fields binding = None"
    and replies: "legal_replies (hx_world hx)" and path: "path_bound_error (ib_effective_path ingress) = None"
  shows "\<exists>rs. sg06_run hx secret server_order opened ingress = Inr rs"
proof (cases "ib_checkout_request_binding ingress")
  case None
  then show ?thesis using stop_applicable_total[OF k r] close
    by (simp add: sg06_run_def discard_total input_is_def)
next
  case (Some binding)
  obtain p where p: "prepare_sg06_requests (wd_execution_id (hx_world hx)) (ib_effective_path ingress)
      binding secret server_order = Inr p" "is_checkout_sequence (r6_input_reference p)"
    using prepare_sg06_reference[OF ascii valid[OF Some] path] by blast
  have prep: "(if should then bind_result (prepare_sg06_requests (wd_execution_id (hx_world hx))
        (ib_effective_path ingress) binding secret server_order) (\<lambda>p. Inr (Some p)) else Inr None) =
      Inr (if should then Some p else None)" for should
    by (simp add: p)
  show ?thesis
    unfolding sg06_run_def Some a prod.case option.case Let_def
    by (rule sequence_run_total[OF k r o' dist prep],
        use checkout_not_grounded[OF p(2)] in \<open>simp add: input_is_def split: if_splits\<close>, rule replies)
      (rule mutation_then_customer_total[OF k r _ _ _ _ _ _ a(2) refl mutation_capability_ids mutation_ids_distinct],
        use p(2) checkout_not_grounded[OF p(2)] in \<open>auto split: if_splits\<close>)
qed

section \<open>The executions\<close>

lemma handler_session_total:
  assumes k: "two_keys hx sid k1 k2" and r: "ready hx fp" and i: "hx_instance hx = Some i"
    and close: "wd_close (hx_world hx) [] \<noteq> None"
    and run: "\<And>opened ingress. opened_on hx opened \<Longrightarrow> ingress \<in> set (op_plan_ingresses opened) \<Longrightarrow>
      \<exists>rs. continue opened ingress = Inr rs"
  shows "\<exists>rs. handler_session hx i config_fp continue = Inr rs"
proof (cases "wd_opened (hx_world hx)")
  case None
  then show ?thesis using stop_before_total[OF k r] by (simp add: handler_session_def)
next
  case (Some opened)
  have stops: "\<exists>rs. stop_applicable hx why (Some opened) [] None None ds = Inr rs" for why ds
    by (rule stop_applicable_total[OF k r]) (simp_all add: input_is_def)
  let ?ingresses = "filter (\<lambda>b. Some (ib_ingress_node_id b) = si_ingress_node_id i) (op_plan_ingresses opened)"
  show ?thesis
  proof (cases "opened_on hx opened \<and> ra_runtime_config_fingerprint (op_artifact opened) = config_fp \<and>
      length ?ingresses = 1")
    case True
    then obtain ingress where one: "?ingresses = [ingress]" by (auto simp: length_Suc_conv)
    then have "ingress \<in> set ?ingresses" by simp
    then have "\<exists>rs. continue opened ingress = Inr rs" using run True by simp
    moreover have "handler_session hx i config_fp continue = continue opened ingress"
      using True one r i by (simp add: handler_session_def Some Let_def opened_on_def ready_def)
    ultimately show ?thesis by simp
  next
    case False
    then have "\<not> opened_on hx opened \<or> ra_runtime_config_fingerprint (op_artifact opened) \<noteq> config_fp \<or>
        (\<nexists>ingress. ?ingresses = [ingress])" by auto
    then show ?thesis using stops r i Some
      by (auto simp: handler_session_def Let_def discard_total[OF close] opened_on_def ready_def
          simp del: not_ex split: list.splits)
  qed
qed

text \<open>
  The keys a handler looks up are there: an instance with an applicable assertion of the
  catalog carries every assertion of the catalog.
\<close>

definition carries_catalog :: "world \<Rightarrow> scenario_id \<Rightarrow> string list \<Rightarrow> string \<Rightarrow> bool" where
  "carries_catalog w sid catalog instance_id \<longleftrightarrow>
     (\<forall>i x. scenario_instance_of (wd_preflight w) sid instance_id = Some i \<longrightarrow> x \<in> set (si_assertions i) \<longrightarrow>
        aa_state x = APPLICABLE \<longrightarrow> set catalog \<subseteq> aa_key ` set (si_assertions i))"

lemma catalog_assertions_member:
  assumes "catalog_assertions catalog (Some i) key = Some a"
  shows "a \<in> set (si_assertions i)" and "aa_key a = key" and "key \<in> set catalog"
  using dict_by_SomeD[OF assms[unfolded catalog_assertions_def]] by auto

lemma catalog_assertions_present:
  assumes "key \<in> set catalog" and "key \<in> aa_key ` set (si_assertions i)"
  shows "\<exists>a. catalog_assertions catalog (Some i) key = Some a"
proof -
  have "catalog_assertions catalog (Some i) key \<noteq> None"
    using assms by (auto simp: catalog_assertions_def dict_by_eq_None)
  then show ?thesis by blast
qed

lemma early_result_total:
  assumes "\<not> blank key"
  shows "\<exists>m'. early_result hx key m = Inr m'"
proof (cases "Option.bind (hx_assertions hx key) (\<lambda>a. early_applicability_result (aa_state a))")
  case None
  then show ?thesis by (simp add: early_result_def)
next
  case (Some e)
  obtain state why where e: "e = (state, why)" by (cases e)
  obtain s where s: "early_applicability_result s = Some (state, why)"
    using Some e by (cases "hx_assertions hx key") auto
  have "\<exists>auth. authority_for hx key None [] None = Inr auth" by (rule authority_for_total) simp_all
  then show ?thesis unfolding early_result_def Some option.case e prod.case
    by (rule add_undecided_total[OF _ assms]) (use early_undecided[OF s] in \<open>simp_all add: input_is_def\<close>)
qed

lemma handler_total:
  assumes keys: "set catalog = {k1, k2}" "k1 \<noteq> k2" "\<not> blank k1" "\<not> blank k2" "sid \<in> {SG_05, SG_06}"
    and carries: "carries_catalog w sid catalog iid"
    and continue: "\<And>hx i mutation customer. two_keys hx sid k1 k2 \<Longrightarrow> ready hx fp \<Longrightarrow> hx_instance hx = Some i \<Longrightarrow>
      hx_world hx = w \<Longrightarrow> hx_assertions hx k1 = Some mutation \<Longrightarrow> hx_assertions hx k2 = Some customer \<Longrightarrow>
      \<exists>rs. continue hx i = Inr rs"
  shows "\<exists>rs. handler_preflight (handler_start w sid d catalog iid (customer_control k2)) fp continue = Inr rs"
proof -
  let ?hx = "handler_start w sid d catalog iid (customer_control k2)"
  have ks: "set (hx_keys ?hx) \<subseteq> {k1, k2}" using handler_start_keys(1) keys(1) by metis
  then have nb: "\<not> blank key" if "key \<in> set (hx_keys ?hx)" for key using that keys(3,4) by auto
  have stops: "\<exists>rs. stop_keys ?hx (hx_keys ?hx) why None [] None None [] = Inr rs" for why
    by (rule stop_keys_total[OF _ nb _ authority_for_total refl]) (simp_all add: input_is_def)
  show ?thesis
  proof (cases "ap_applicability_fingerprint (wd_preflight w) = fp")
    case False
    then show ?thesis using stops by (simp add: handler_preflight_def)
  next
    case True
    note fp = this
    show ?thesis
    proof (cases "scenario_instance_of (wd_preflight w) sid iid")
      case None
      then show ?thesis using stops fp by (simp add: handler_preflight_def)
    next
      case (Some i)
      have i: "hx_instance ?hx = Some i" by (simp add: Some)
      obtain m where m: "add_each (early_result ?hx) (hx_keys ?hx) (hx_results ?hx) = Inr m"
        using add_each_total[of "hx_keys ?hx" "early_result ?hx"] early_result_total nb by blast
      let ?applicable = "filter (assertion_applies ?hx) (hx_keys ?hx)"
      let ?hx' = "?hx\<lparr>hx_results := m, hx_applicable := ?applicable\<rparr>"
      have ready: "ready ?hx' fp" and cover: "?applicable = [] \<Longrightarrow> set (hx_keys ?hx') \<subseteq> dom m"
        using preflight_ready[of ?hx m fp i] m fp i handler_start_keys(2)[of w sid iid] Some by simp_all
      have "\<exists>rs. continue ?hx' i = Inr rs" if "?applicable \<noteq> []"
      proof -
        from that obtain key where key: "assertion_applies ?hx key" by (auto simp: filter_empty_conv)
        then obtain x where x: "catalog_assertions catalog (Some i) key = Some x" "aa_state x = APPLICABLE"
          by (auto simp: assertion_applies_def Some split: option.splits)
        have "set catalog \<subseteq> aa_key ` set (si_assertions i)"
          using carries Some catalog_assertions_member(1)[OF x(1)] x(2) unfolding carries_catalog_def by blast
        then have "k1 \<in> aa_key ` set (si_assertions i)" "k2 \<in> aa_key ` set (si_assertions i)"
          using keys(1) by blast+
        then obtain a b where ab: "hx_assertions ?hx k1 = Some a" "hx_assertions ?hx k2 = Some b"
          using catalog_assertions_present[of k1 catalog i] catalog_assertions_present[of k2 catalog i] keys(1) Some
          by fastforce
        have "two_keys ?hx' sid k1 k2"
          using keys ks by (auto simp: two_keys_def handler_start_def Let_def)
        from continue[OF this ready] show ?thesis using ab i by simp
      qed
      then show ?thesis using m i fp ordered_total[OF cover]
        by (cases "?applicable = []") (simp_all add: handler_preflight_def Let_def del: filter_empty_conv)
    qed
  qed
qed

lemma sg05_keys:
  "set sg05_catalog = {SG05_MUTATION_ASSERTION_KEY, SG05_CUSTOMER_VALUE_ASSERTION_KEY}"
  "SG05_MUTATION_ASSERTION_KEY \<noteq> SG05_CUSTOMER_VALUE_ASSERTION_KEY"
  "\<not> blank SG05_MUTATION_ASSERTION_KEY" "\<not> blank SG05_CUSTOMER_VALUE_ASSERTION_KEY"
  by (simp add: sg05_catalog_def) code_simp+

lemma sg06_keys:
  "set sg06_catalog = {SG06_MUTATION_ASSERTION_KEY, SG06_CUSTOMER_VALUE_ASSERTION_KEY}"
  "SG06_MUTATION_ASSERTION_KEY \<noteq> SG06_CUSTOMER_VALUE_ASSERTION_KEY"
  "\<not> blank SG06_MUTATION_ASSERTION_KEY" "\<not> blank SG06_CUSTOMER_VALUE_ASSERTION_KEY"
  by (simp add: sg06_catalog_def) code_simp+

lemma execute_sg05_total:
  assumes dist: "distinct_replies w" and close: "wd_close w [] \<noteq> None"
    and ascii: "encode_ascii (wd_execution_id w) = Inr b" and carries: "carries_catalog w SG_05 sg05_catalog iid"
    and replies: "legal_replies w" and paths: "bounded_paths w"
  shows "\<exists>rs. execute_sg05 w iid fp = Inr rs"
  unfolding execute_sg05_def
proof (rule handler_total[OF sg05_keys _ carries])
  fix hx i mutation customer
  assume k: "two_keys hx SG_05 SG05_MUTATION_ASSERTION_KEY SG05_CUSTOMER_VALUE_ASSERTION_KEY"
    and r: "ready hx fp" and i: "hx_instance hx = Some i" and w: "hx_world hx = w"
    and a: "hx_assertions hx SG05_MUTATION_ASSERTION_KEY = Some mutation"
      "hx_assertions hx SG05_CUSTOMER_VALUE_ASSERTION_KEY = Some customer"
  have "\<exists>rs. handler_session hx i config_fp (sg05_run hx secret) = Inr rs" for config_fp secret
    by (rule handler_session_total[OF k r i], use close w in simp)
      (rule sg05_run_total[OF k r _ _ _ a],
        use dist ascii w replies paths in \<open>auto simp: opened_on_def bounded_paths_def addressable_def\<close>)
  then show "\<exists>rs. (case wd_runtime w of UnmanagedRuntime \<Rightarrow> stop_before hx RUNTIME_MODE_UNSUPPORTED
     | ManagedRuntime config_fp env \<Rightarrow>
         let secret = webhook_secret w env
         in if secret = '''' then stop_before hx WEBHOOK_SECRET_UNAVAILABLE
            else handler_session hx i config_fp (sg05_run hx secret)) = Inr rs"
    using stop_before_total[OF k r] by (simp add: Let_def split: runtime_setting.splits)
qed simp

text \<open>The Checkout bindings of a runtime plan passed their own validator.\<close>

definition valid_checkout_bindings :: "world \<Rightarrow> bool" where
  "valid_checkout_bindings w \<longleftrightarrow> (\<forall>opened ingress binding. wd_opened w = Some opened \<longrightarrow>
     ingress \<in> set (op_plan_ingresses opened) \<longrightarrow> ib_checkout_request_binding ingress = Some binding \<longrightarrow>
     validate_fields binding = None)"

lemma execute_sg06_total:
  assumes dist: "distinct_replies w" and close: "wd_close w [] \<noteq> None"
    and ascii: "encode_ascii (wd_execution_id w) = Inr b" and carries: "carries_catalog w SG_06 sg06_catalog iid"
    and bindings: "valid_checkout_bindings w" and replies: "legal_replies w" and paths: "bounded_paths w"
  shows "\<exists>rs. execute_sg06 w iid fp = Inr rs"
  unfolding execute_sg06_def
proof (rule handler_total[OF sg06_keys _ carries])
  fix hx i mutation customer
  assume k: "two_keys hx SG_06 SG06_MUTATION_ASSERTION_KEY SG06_CUSTOMER_VALUE_ASSERTION_KEY"
    and r: "ready hx fp" and i: "hx_instance hx = Some i" and w: "hx_world hx = w"
    and a: "hx_assertions hx SG06_MUTATION_ASSERTION_KEY = Some mutation"
      "hx_assertions hx SG06_CUSTOMER_VALUE_ASSERTION_KEY = Some customer"
  have run: "\<exists>rs. sg06_run hx secret order opened ingress = Inr rs"
    if "opened_on hx opened" "ingress \<in> set (op_plan_ingresses opened)" for opened ingress secret order
    using that bindings
    by (intro sg06_run_total[OF k r that(1) _ _ _ a])
      (use dist close ascii w replies paths in
        \<open>auto simp: opened_on_def valid_checkout_bindings_def bounded_paths_def addressable_def\<close>)
  have "\<exists>rs. handler_session hx i config_fp (sg06_run hx secret order) = Inr rs" for config_fp secret order
    by (rule handler_session_total[OF k r i]) (use close w run in simp_all)
  then show "\<exists>rs. (case wd_runtime w of UnmanagedRuntime \<Rightarrow> stop_before hx RUNTIME_MODE_UNSUPPORTED
     | ManagedRuntime config_fp env \<Rightarrow>
         let secret = host_value w env checkout_secret_child_name;
             server_order = host_value w env server_order_child_name
         in if secret = '''' then stop_before hx CHECKOUT_SECRET_UNAVAILABLE
            else if server_order = '''' then stop_before hx SERVER_ORDER_CONTROL_UNAVAILABLE
            else handler_session hx i config_fp (sg06_run hx secret server_order)) = Inr rs"
    using stop_before_total[OF k r] by (simp add: Let_def split: runtime_setting.splits)
qed simp

end
