(* ===== verification/EndToEnd.thy ===== *)
theory EndToEnd
  imports EngineProperties SequenceTotality
begin

text \<open>
  The applicability engine and the handlers of two assertions together: on an artifact the
  engine built, \<open>execute_sg05\<close> and \<open>execute_sg06\<close> always report, and what the three handlers
  report meets one contract.
\<close>

section \<open>The engine's artifact carries the keys the handlers look up\<close>

lemma scenario_instance_member:
  assumes "scenario_instance_of a sid iid = Some i"
  obtains sc where "sc \<in> set (ap_scenarios a)" and "sc_scenario_id sc = sid" and "i \<in> set (sc_instances sc)"
proof -
  from assms obtain sc where "find (\<lambda>s. sc_scenario_id s = sid) (ap_scenarios a) = Some sc"
    and "find (\<lambda>i. si_instance_id i = iid) (sc_instances sc) = Some i"
    by (auto simp: scenario_instance_of_def split: option.splits)
  moreover from this have "sc \<in> set (ap_scenarios a)" "sc_scenario_id sc = sid" "i \<in> set (sc_instances sc)"
    by (auto simp: find_Some_iff)
  ultimately show ?thesis using that by blast
qed

lemma engine_carries_catalog:
  assumes run: "evaluate_applicability configured index structural g resolution afp = Inr (wd_preflight w)"
  shows "carries_catalog w SG_05 sg05_catalog iid" and "carries_catalog w SG_06 sg06_catalog iid"
proof -
  have keys: "(sid = SG_05 \<longrightarrow> map aa_key (si_assertions i) = sg05_catalog) \<and>
      (sid = SG_06 \<longrightarrow> map aa_key (si_assertions i) = sg06_catalog)"
    if i: "scenario_instance_of (wd_preflight w) sid iid = Some i"
      and x: "x \<in> set (si_assertions i)" "aa_state x = APPLICABLE" for sid i x
  proof -
    obtain sc where sc: "sc \<in> set (ap_scenarios (wd_preflight w))" "sc_scenario_id sc = sid"
      "i \<in> set (sc_instances sc)"
      using scenario_instance_member[OF i] .
    from engine_fits_keys[OF run sc(1,3) x] sc(2) show ?thesis
      by (auto simp: sg05_catalog_def sg06_catalog_def)
  qed
  then show "carries_catalog w SG_05 sg05_catalog iid" "carries_catalog w SG_06 sg06_catalog iid"
    unfolding carries_catalog_def by (metis list.set_map order_refl)+
qed

section \<open>Properties\<close>

text \<open>
  C12. The contract of the handlers of SG-04, SG-05 and SG-06.  What they return is one valid
  result per assertion of the instance, in the order of the catalog: with the state the
  preflight settles (stale authority, unknown instance, an assertion that does not apply), or
  else PASS, FAIL or UNVERIFIED; and a PASS or FAIL is backed by a managed session on the same
  authority, a validated transcript of exactly its two requests, and observations projected
  from that transcript.
\<close>

theorem sequence_handlers_meet_contract:
  "(execute_sg04 graph w iid fp = Inr rs \<longrightarrow>
      delivered (handler_start w SG_04 SG04_DEFINITION_FINGERPRINT sg04_catalog iid
        (\<lambda>inst assertions key. Option.bind inst si_normal_control_id)) fp rs) \<and>
   (execute_sg05 w iid fp = Inr rs \<longrightarrow>
      delivered (handler_start w SG_05 SG05_DEFINITION_FINGERPRINT sg05_catalog iid
        (customer_control SG05_CUSTOMER_VALUE_ASSERTION_KEY)) fp rs) \<and>
   (execute_sg06 w iid fp = Inr rs \<longrightarrow>
      delivered (handler_start w SG_06 SG06_DEFINITION_FINGERPRINT sg06_catalog iid
        (customer_control SG06_CUSTOMER_VALUE_ASSERTION_KEY)) fp rs)"
  using execute_sg04_delivered execute_sg05_delivered execute_sg06_delivered by blast

text \<open>
  C13. On an artifact of the applicability engine no execution of SG-05 or SG-06 whose replies all
  carry an HTTP status of 100 to 599 ends in an exception, whatever else the application under
  test replies and whatever transcript the session seals: the session numbers its requests, can
  be closed before it sent any, and the bindings of its plan passed their validators, so that
  their paths have 1 to 4096 characters and their Checkout fields are the three exact ones.
\<close>

theorem sg05_and_sg06_always_report:
  assumes "evaluate_applicability configured index structural g resolution afp = Inr (wd_preflight w)"
    and "distinct_replies w" and "wd_close w [] \<noteq> None" and "encode_ascii (wd_execution_id w) = Inr b"
    and "valid_checkout_bindings w" and "legal_replies w" and "bounded_paths w"
  shows "(\<exists>rs. execute_sg05 w iid fp = Inr rs \<and> list_all (\<lambda>r. validate_result r = None) rs) \<and>
    (\<exists>rs. execute_sg06 w iid' fp' = Inr rs \<and> list_all (\<lambda>r. validate_result r = None) rs)"
proof -
  have valid: "list_all (\<lambda>r. validate_result r = None) rs" if "delivered hx expected rs" for hx expected rs
    using that unfolding delivered_def list_all_length list_all2_conv_all_nth
    by (auto simp: reported_def)
  obtain rs where rs: "execute_sg05 w iid fp = Inr rs"
    using execute_sg05_total[OF assms(2-4) engine_carries_catalog(1)[OF assms(1)] assms(6,7)] by blast
  obtain rs' where rs': "execute_sg06 w iid' fp' = Inr rs'"
    using execute_sg06_total[OF assms(2-4) engine_carries_catalog(2)[OF assms(1)] assms(5-7)] by blast
  show ?thesis
    using rs rs' valid execute_sg05_delivered[OF rs] execute_sg06_delivered[OF rs'] by blast
qed

text \<open>A world on the artifact of the demonstration project, with an applicable SG-05 assertion.\<close>

definition shop_world :: "applicability_artifact \<Rightarrow> world" where
  "shop_world a = live_world\<lparr>wd_preflight := a\<rparr>"

lemma shop_world_facts:
  "distinct_replies (shop_world a)" "wd_close (shop_world a) [] \<noteq> None"
  "encode_ascii (wd_execution_id (shop_world a)) = Inr (utf8 ''sgexec_1'')"
  "valid_checkout_bindings (shop_world a)" "legal_replies (shop_world a)" "bounded_paths (shop_world a)"
  "wd_preflight (shop_world a) = a"
  using live_world_distinct live_world_close live_world_ascii live_world_legal live_world_bounded
  by (simp_all add: shop_world_def distinct_replies_def legal_replies_def bounded_paths_def
      valid_checkout_bindings_def live_world_def live_opened_def demo_binding_def)

theorem sequence_handlers_meet_contract_witness:
  "\<exists>rs. execute_sg05 live_world ''i9'' live_fp = Inr rs \<and>
     map (\<lambda>r. (sx_result r, sx_reason r)) rs = replicate 2 (UNVERIFIED, AUTHORITY_MISMATCH)"
proof -
  let ?hx = "handler_start live_world SG_05 SG05_DEFINITION_FINGERPRINT sg05_catalog ''i9''
    (customer_control SG05_CUSTOMER_VALUE_ASSERTION_KEY)"
  have none: "scenario_instance_of (wd_preflight live_world) SG_05 ''i9'' = None"
    by (simp add: live_world_def scenario_instance_of_def demo_applicability_def demo_draft_def
        scenario_ids_def demo_scenario_def demo_instance_def)
  then have "carries_catalog live_world SG_05 sg05_catalog ''i9''" by (simp add: carries_catalog_def)
  then obtain rs where rs: "execute_sg05 live_world ''i9'' live_fp = Inr rs"
    using execute_sg05_total[OF live_world_distinct live_world_close live_world_ascii _ live_world_legal
        live_world_bounded] by blast
  have keys: "hx_keys ?hx = sg05_catalog" "length sg05_catalog = 2"
    by (simp_all add: handler_start_def none Let_def sg05_catalog_def)
  have "settled ?hx live_fp key = Some (UNVERIFIED, AUTHORITY_MISMATCH)" for key
    by (simp add: settled_def none) (simp add: live_world_def)
  note settled = this
  have "delivered ?hx live_fp rs"
    using sequence_handlers_meet_contract[of undefined live_world "''i9''" live_fp rs] rs by blast
  then have "list_all2 (\<lambda>key r. (sx_result r, sx_reason r) = (UNVERIFIED, AUTHORITY_MISMATCH)) sg05_catalog rs"
    unfolding delivered_def keys(1) by (rule list_all2_mono) (simp add: reported_def settled)
  then have "length rs = 2" "map (\<lambda>r. (sx_result r, sx_reason r)) rs = replicate (length rs) (UNVERIFIED, AUTHORITY_MISMATCH)"
    using keys(2) by (auto simp: list_all2_conv_all_nth intro!: nth_equalityI)
  with rs show ?thesis by simp
qed

theorem sg05_and_sg06_always_report_witness:
  "\<exists>a rs. shop_run = Inr a \<and> execute_sg05 (shop_world a) ''i5'' (ap_applicability_fingerprint a) = Inr rs"
proof -
  obtain a where a: "shop_run = Inr a" using shop_run_assertion[of SG_05] by metis
  have "evaluate_applicability (Some shop_policy) demo_index shop_graph shop_graph (Some shop_resolution)
      (Some ''f'') = Inr (wd_preflight (shop_world a))"
    using a by (simp add: shop_world_facts)
  from sg05_and_sg06_always_report[OF this shop_world_facts(1-6)] a show ?thesis by blast
qed

end
