(* ===== verification/ExecutionLiveness.thy ===== *)
theory ExecutionLiveness
  imports ExecutionSafety
begin

text \<open>
  Progress of \<open>execute_sg02\<close>: when the application under test answers both deliveries and the
  session observes them, the handler reaches a verdict, and the verdict is the one the
  observations demand.
\<close>

section \<open>The verdict is reached\<close>

text \<open>A second delivery one can judge: it entered the target, or it stayed away and completed.\<close>

definition judgeable_delivery :: "customer_summary \<Rightarrow> bool" where
  "judgeable_delivery s \<longleftrightarrow> cs_entered_count s > 0 \<or>
     (cs_returned_normally_count s = 0 \<and> cs_exception_escaped_count s = 0 \<and>
      length (cs_response_completed_sequences s) = 1 \<and> cs_request_aborted_sequences s = [])"

lemma sg02_judgeable:
  assumes "normal_first_delivery first" and "judgeable_delivery second"
    and "length (cs_request_received_sequences second) = 1"
  shows "fst (sg02_evaluate_sequence first second) =
    (if cs_entered_count second > 0 then VERIFIED_FAIL else VERIFIED_PASS)"
  using assms
  by (auto simp: sg02_evaluate_sequence_def evaluate_observations_pass_eq judgeable_delivery_def Let_def)

text \<open>
  C14. A duplicate webhook is always judged when it was observed: if nothing goes wrong around
  the session, the first delivery went through normally, and the second one either entered the
  customer-value target or completed without it, then the handler returns a valid result; it is
  a FAIL when the second delivery entered the target, and a PASS when it did not.
\<close>

theorem sg02_observed_duplicate_is_decided:
  assumes "observed_duplicate w iid fp i control opened a b t"
    and "encode_ascii (wd_execution_id w) = Inr x"
    and "summarize_observations (tr_events t) (rq_request_id a) control (rq_status_code a) = Inr sa"
    and "summarize_observations (tr_events t) (rq_request_id b) control (rq_status_code b) = Inr sb"
    and "normal_first_delivery sa" and "judgeable_delivery sb"
  shows "\<exists>r. execute_sg02 w iid fp = Inr r \<and> validate_result r = None \<and>
    sx_result r = (if value_entries (tr_events t) (rq_request_id b) control > 0
                   then VERIFIED_FAIL else VERIFIED_PASS)"
proof -
  have sb: "sb = observed_summary (tr_events t) (rq_request_id b) control (rq_status_code b)"
    using assms(4) by (simp add: summarize_observations_Inr)
  have "sequence_authority_is_exact t [a, b]" using assms(1) by (simp add: observed_duplicate_def)
  then have "length (cs_request_received_sequences sb) = 1"
    using exact_received_once[of t "[a, b]" b] by (simp add: sb)
  from sg02_judgeable[OF assms(5,6) this]
  have v: "fst (sg02_evaluate_sequence sa sb) =
      (if value_entries (tr_events t) (rq_request_id b) control > 0 then VERIFIED_FAIL else VERIFIED_PASS)"
    by (simp add: sb)
  obtain r where r: "execute_sg02 w iid fp = Inr r" "validate_result r = None"
    "(sx_result r, sx_evidence_tier r, sx_reason r) = sg02_evaluate_sequence sa sb"
    using observed_duplicate_result[OF assms(1,2,3,4)] by blast
  have "sx_result r = fst (sg02_evaluate_sequence sa sb)" unfolding r(3)[symmetric] by simp
  with r v show ?thesis by auto
qed

theorem sg02_observed_duplicate_is_decided_witness:
  "\<exists>r. execute_sg02 live_world ''i1'' live_fp = Inr r \<and> validate_result r = None \<and>
     sx_result r = VERIFIED_PASS"
proof -
  let ?s = "\<lambda>i. observed_summary (tr_events live_transcript)
    (rq_request_id (live_reply i demo_binding)) ''c1'' (rq_status_code (live_reply i demo_binding))"
  have s: "summarize_observations (tr_events live_transcript) (rq_request_id (live_reply i demo_binding)) ''c1''
      (rq_status_code (live_reply i demo_binding)) = Inr (?s i)" for i
    by (simp add: summarize_observations_Inr live_reply_def)
  have "normal_first_delivery (?s 0)" "judgeable_delivery (?s 1)"
    "value_entries (tr_events live_transcript) (rq_request_id (live_reply 1 demo_binding)) ''c1'' = 0"
    by (simp_all add: normal_first_delivery_def judgeable_delivery_def live_transcript_def live_reply_def
        live_event_def verdict_demo_defs)
  with sg02_observed_duplicate_is_decided[OF live_world_observed live_world_ascii s s] show ?thesis by simp
qed

end
