(* ===== verification/RouteComposition.thy ===== *)
theory RouteComposition
  imports SourceIndex
begin

text \<open>
  \<open>graph/reachability.py\<close>: the effective routes of the selected application.  The walk starts
  at the application, registers the routes of every instance it enters and follows the router
  includes, refusing an include whose prefix is unknown, whose target is not a router or is
  already on the stack.  The lemmas show that the walk ends, that it is the enumeration of the
  include steps, and that every instance an include chain reaches is entered.
\<close>

section \<open>Paths, occurrences and ordinals\<close>

definition rstrip_slash :: "string \<Rightarrow> string" where
  "rstrip_slash s = rev (dropWhile (\<lambda>c. c = CHR ''/'') (rev s))"

definition compose_path :: "string list \<Rightarrow> string \<Rightarrow> string" where
  "compose_path prefixes route_path =
     (let prefix = foldl (\<lambda>prefix component. if component \<noteq> [] then prefix @ rstrip_slash component
                                    else prefix) [] prefixes
      in if prefix = [] then route_path
         else if route_path = ''/'' then prefix @ ''/''
         else prefix @ route_path)"

record include_occurrence =
  io_record :: router_include
  io_anchor :: string

definition include_shape :: "router_include \<Rightarrow> string \<times> string \<times> string option" where
  "include_shape i = (ri_parent_instance_id i, ri_included_router_instance_id i, ri_prefix i)"

definition include_shape_json :: "string \<times> string \<times> string option \<Rightarrow> json" where
  "include_shape_json s = (case s of (parent, included, prefix) \<Rightarrow>
     JArr [JStr parent, JStr included, jopt JStr prefix])"

definition include_group :: "router_include list \<Rightarrow> string \<times> string \<times> string option \<Rightarrow> router_include list" where
  "include_group includes shape =
     sort_key (\<lambda>r. canonical_json (source_location_json (ri_source_location r)))
       (filter (\<lambda>r. include_shape r = shape) includes)"

definition occurrence_of :: "nat \<times> router_include \<Rightarrow> include_occurrence result" where
  "occurrence_of entry = (case entry of (ordinal, r) \<Rightarrow>
     bind_result (include_occurrence_anchor (ri_parent_instance_id r)
         (ri_included_router_instance_id r) (ri_prefix r) (int ordinal))
       (\<lambda>anchor. Inr \<lparr>io_record = r, io_anchor = anchor\<rparr>))"

definition include_occurrences :: "router_include list \<Rightarrow> include_occurrence list result" where
  "include_occurrences includes =
     (let shapes = sort_key (\<lambda>s. canonical_json (include_shape_json s))
                     (fromkeys (map include_shape includes))
      in bind_result (traverse (\<lambda>shape. traverse occurrence_of
             (enumerate 0 (include_group includes shape))) shapes)
           (\<lambda>groups. Inr (sort_key (\<lambda>x. canonical_json (router_include_json (io_record x)))
             (concat groups))))"

definition route_shape :: "route_record \<Rightarrow> string \<times> string \<times> string \<times> string" where
  "route_shape r =
     (rr_registrar_instance_id r, rr_owner_symbol_id r, rr_method r, rr_route_path r)"

definition route_group ::
  "route_record list \<Rightarrow> string \<times> string \<times> string \<times> string \<Rightarrow> (nat \<times> route_record) list" where
  "route_group routes shape =
     sort_key (\<lambda>(_, r). canonical_json (source_location_json (rr_source_location r)))
       (filter (\<lambda>(_, r). route_shape r = shape) (enumerate 0 routes))"

definition route_ordinals :: "route_record list \<Rightarrow> (nat \<times> nat) list" where
  "route_ordinals routes =
     concat (map (\<lambda>shape. map (\<lambda>(ordinal, index, _). (index, ordinal))
                   (enumerate 0 (route_group routes shape)))
               (fromkeys (map route_shape routes)))"

section \<open>Registrations\<close>

text \<open>
  Constructing an \<open>EffectiveRouteRegistration\<close>: the length bounds of its fields are checked
  on the given texts, then the field validators normalise them.
\<close>

definition construct_effective_route :: "effective_route \<Rightarrow> effective_route result" where
  "construct_effective_route r =
     (if er_method r = [] \<or> 16 < length (er_method r)
      then Inl (ValueError ''method length'')
      else if er_component_path r = [] \<or> 2048 < length (er_component_path r)
      then Inl (ValueError ''component path length'')
      else if er_effective_path r = [] \<or> 4096 < length (er_effective_path r)
      then Inl (ValueError ''effective path length'')
      else bind_result (validate_route_path (er_component_path r)) (\<lambda>component.
           bind_result (validate_route_path (er_effective_path r)) (\<lambda>effective.
             Inr (r\<lparr>er_method := normalize_method (er_method r), er_component_path := component,
                    er_effective_path := effective\<rparr>))))"

record reachable_route =
  rx_registration :: effective_route
  rx_owner_symbol_id :: string
  rx_route_location :: source_location
  rx_include_locations :: "source_location list"
  rx_include_anchors :: "string list"

record reachability_result =
  rs_routes :: "reachable_route list"
  rs_diagnostics :: "graph_diagnostic list"

definition composition_diagnostic ::
  "graph_diagnostic_code \<Rightarrow> source_location option \<Rightarrow> graph_diagnostic" where
  "composition_diagnostic code location =
     \<lparr>gd_code = code, gd_impact = COVERAGE_REDUCED, gd_candidate_kind = None, gd_reason = None,
      gd_symbol_id = None, gd_route_registration_id = None, gd_source_location = location\<rparr>"

section \<open>The walk\<close>

text \<open>
  What the walk reads, \<open>route_context\<close>, and the arguments of one call of \<open>walk\<close>,
  \<open>walk_state\<close>.
\<close>

record route_context =
  rc_app :: string
  rc_index :: source_index
  rc_occurrences :: "include_occurrence list"
  rc_ordinals :: "(nat \<times> nat) list"

record walk_state =
  ws_instance :: string
  ws_prefixes :: "string list"
  ws_anchors :: "string list"
  ws_include_locations :: "source_location list"
  ws_stack :: "string list"

definition registered_routes :: "route_context \<Rightarrow> string \<Rightarrow> (nat \<times> route_record) list" where
  "registered_routes c instance_id =
     sort_key (\<lambda>(_, r). canonical_json (route_record_json r))
       (filter (\<lambda>(_, r). rr_registrar_instance_id r = instance_id) (enumerate 0 (ix_routes (rc_index c))))"

definition child_includes :: "route_context \<Rightarrow> string \<Rightarrow> include_occurrence list" where
  "child_includes c instance_id =
     sort_key (\<lambda>x. canonical_json (router_include_json (io_record x)))
       (filter (\<lambda>x. ri_parent_instance_id (io_record x) = instance_id) (rc_occurrences c))"

definition register_route :: "route_context \<Rightarrow> walk_state \<Rightarrow> nat \<times> route_record \<Rightarrow> reachable_route result" where
  "register_route c w entry = (case entry of (index, route) \<Rightarrow>
     (case map_of (rc_ordinals c) index of
        None \<Rightarrow> Inl KeyError
      | Some ordinal \<Rightarrow>
          bind_result (route_registration_id (rc_app c) (ws_anchors w) (rr_registrar_instance_id route)
              (rr_owner_symbol_id route) (rr_method route) (rr_route_path route) (int ordinal))
            (\<lambda>registration_id.
          bind_result (construct_effective_route
              \<lparr>er_route_registration_id = registration_id, er_app_instance_id = rc_app c,
               er_registrar_instance_id = rr_registrar_instance_id route,
               er_method = rr_method route, er_component_path = rr_route_path route,
               er_effective_path = compose_path (ws_prefixes w) (rr_route_path route)\<rparr>)
            (\<lambda>registration.
              Inr \<lparr>rx_registration = registration, rx_owner_symbol_id = rr_owner_symbol_id route,
                   rx_route_location = rr_source_location route,
                   rx_include_locations = ws_include_locations w,
                   rx_include_anchors = ws_anchors w\<rparr>))))"

text \<open>One include: the diagnostic that stops it, or the state the walk enters.\<close>

definition follow_include ::
  "route_context \<Rightarrow> walk_state \<Rightarrow> include_occurrence \<Rightarrow> graph_diagnostic + walk_state" where
  "follow_include c w x =
     (let include = io_record x;
          child = framework_of (rc_index c) (ri_included_router_instance_id include)
      in case (ri_prefix include, child) of
           (Some prefix, Some f) \<Rightarrow>
             (case fw_prefix f of
                None \<Rightarrow> Inl (composition_diagnostic ROUTE_COMPOSITION_UNRESOLVED
                              (Some (ri_source_location include)))
              | Some child_prefix \<Rightarrow>
                  if fw_kind f \<noteq> API_ROUTER
                  then Inl (composition_diagnostic ROUTE_COMPOSITION_UNRESOLVED
                              (Some (ri_source_location include)))
                  else if fw_framework_instance_id f \<in> set (ws_stack w)
                  then Inl (composition_diagnostic ROUTE_COMPOSITION_CYCLE
                              (Some (ri_source_location include)))
                  else Inr \<lparr>ws_instance = fw_framework_instance_id f,
                            ws_prefixes = ws_prefixes w @ [prefix, child_prefix],
                            ws_anchors = ws_anchors w @ [io_anchor x],
                            ws_include_locations = ws_include_locations w @ [ri_source_location include],
                            ws_stack = ws_stack w @ [fw_framework_instance_id f]\<rparr>)
         | _ \<Rightarrow> Inl (composition_diagnostic ROUTE_COMPOSITION_UNRESOLVED
                              (Some (ri_source_location include))))"

text \<open>The instances that are not on the stack: every step of the walk takes one away.\<close>

definition unvisited :: "route_context \<Rightarrow> walk_state \<Rightarrow> string set" where
  "unvisited c w =
     set (map fw_framework_instance_id (ix_framework_instances (rc_index c))) - set (ws_stack w)"

lemma follow_include_unvisited:
  assumes "follow_include c w x = Inr w'"
  shows "unvisited c w' \<subset> unvisited c w"
proof -
  obtain f where "framework_of (rc_index c) (ri_included_router_instance_id (io_record x)) = Some f"
    and f: "fw_framework_instance_id f \<notin> set (ws_stack w)"
    and w': "ws_stack w' = ws_stack w @ [fw_framework_instance_id f]"
    using assms by (auto simp: follow_include_def Let_def split: option.splits if_splits)
  then have "fw_framework_instance_id f \<in> unvisited c w"
    by (auto simp: unvisited_def framework_of_def dest: dict_by_SomeD)
  then show ?thesis using w' by (auto simp: unvisited_def)
qed

lemma finite_unvisited [simp]: "finite (unvisited c w)"
  by (simp add: unvisited_def)

lemma follow_include_decreases:
  "follow_include c w x = Inr w' \<Longrightarrow> card (unvisited c w') < card (unvisited c w)"
  by (rule psubset_card_mono[OF finite_unvisited follow_include_unvisited])

type_synonym composition = "reachable_route list \<times> graph_diagnostic list"

function walk :: "route_context \<Rightarrow> walk_state \<Rightarrow> composition result"
  and walk_includes :: "route_context \<Rightarrow> walk_state \<Rightarrow> include_occurrence list \<Rightarrow> composition result"
where
  "walk c w =
     bind_result (traverse (register_route c w) (registered_routes c (ws_instance w))) (\<lambda>own.
     bind_result (walk_includes c w (child_includes c (ws_instance w))) (\<lambda>(below, diagnostics).
       Inr (own @ below, diagnostics)))"
| "walk_includes c w [] = Inr ([], [])"
| "walk_includes c w (x # xs) =
     (case follow_include c w x of
        Inl d \<Rightarrow> bind_result (walk_includes c w xs) (\<lambda>(rs, ds). Inr (rs, d # ds))
      | Inr child \<Rightarrow>
          bind_result (walk c child) (\<lambda>(rs, ds).
          bind_result (walk_includes c w xs) (\<lambda>(rs', ds'). Inr (rs @ rs', ds @ ds'))))"
  by pat_completeness auto

termination
  by (relation "measures
       [\<lambda>x. case x of Inl (c, w) \<Rightarrow> card (unvisited c w) | Inr (c, w, xs) \<Rightarrow> card (unvisited c w),
        \<lambda>x. case x of Inl (c, w) \<Rightarrow> Suc (length (child_includes c (ws_instance w)))
             | Inr (c, w, xs) \<Rightarrow> length xs]")
    (auto simp: follow_include_decreases)

definition selected_targets :: "source_index \<Rightarrow> app_target list" where
  "selected_targets i =
     filter (\<lambda>t. at_selection t \<in> {TARGET_CONFIGURED, TARGET_AUTO_SELECTED}) (ix_app_targets i)"

definition walk_start :: "string \<Rightarrow> walk_state" where
  "walk_start app = \<lparr>ws_instance = app, ws_prefixes = [], ws_anchors = [],
     ws_include_locations = [], ws_stack = [app]\<rparr>"

definition compose_effective_routes :: "source_index \<Rightarrow> reachability_result result" where
  "compose_effective_routes i =
     (case selected_targets i of
        [t] \<Rightarrow>
          bind_result (include_occurrences (ix_router_includes i)) (\<lambda>occurrences.
          bind_result (walk \<lparr>rc_app = at_framework_instance_id t, rc_index = i,
                             rc_occurrences = occurrences, rc_ordinals = route_ordinals (ix_routes i)\<rparr>
                        (walk_start (at_framework_instance_id t))) (\<lambda>(routes, diagnostics).
            Inr \<lparr>rs_routes = sort_key (\<lambda>r. canonical_json (effective_route_json (rx_registration r))) routes,
                 rs_diagnostics = sort_key (\<lambda>d. canonical_json (graph_diagnostic_json d)) diagnostics\<rparr>))
      | _ \<Rightarrow> Inr \<lparr>rs_routes = [],
                   rs_diagnostics = [composition_diagnostic APP_TARGET_UNSELECTED None]\<rparr>)"

declare walk.simps [simp del]

section \<open>The include steps\<close>

inductive enter_step :: "route_context \<Rightarrow> walk_state \<Rightarrow> walk_state \<Rightarrow> bool" for c where
  enter: "enter_step c w w'"
    if "x \<in> set (child_includes c (ws_instance w))" and "follow_include c w x = Inr w'"

inductive_cases enter_stepE: "enter_step c w w'"

definition routes_at :: "route_context \<Rightarrow> walk_state \<Rightarrow> reachable_route set" where
  "routes_at c w = {x. \<exists>e \<in> set (registered_routes c (ws_instance w)). register_route c w e = Inr x}"

definition routes_from :: "route_context \<Rightarrow> walk_state \<Rightarrow> reachable_route set" where
  "routes_from c w = (\<Union>w' \<in> {w'. (enter_step c)\<^sup>*\<^sup>* w w'}. routes_at c w')"

lemma routes_from_unfold:
  "routes_from c w = routes_at c w \<union> (\<Union>w' \<in> {w'. enter_step c w w'}. routes_from c w')"
proof -
  have "(enter_step c)\<^sup>*\<^sup>* w w' \<longleftrightarrow> w' = w \<or> (\<exists>v. enter_step c w v \<and> (enter_step c)\<^sup>*\<^sup>* v w')" for w'
    by (auto elim: converse_rtranclpE intro: converse_rtranclp_into_rtranclp)
  then show ?thesis by (auto simp: routes_from_def)
qed

lemma traverse_set: "traverse f xs = Inr ys \<Longrightarrow> set ys = {y. \<exists>x \<in> set xs. f x = Inr y}"
  by (induction xs arbitrary: ys) (auto simp: bind_result_eq_Inr)

lemma walk_routes:
  shows "walk c w = Inr (rs, ds) \<Longrightarrow> set rs = routes_from c w"
    and "walk_includes c w xs = Inr (rs, ds) \<Longrightarrow>
           set rs = (\<Union>w' \<in> {w'. \<exists>x \<in> set xs. follow_include c w x = Inr w'}. routes_from c w')"
proof (induction c w and c w xs arbitrary: rs ds and rs ds rule: walk_walk_includes.induct)
  case (1 c w)
  then obtain own below where own: "traverse (register_route c w) (registered_routes c (ws_instance w)) = Inr own"
    and below: "walk_includes c w (child_includes c (ws_instance w)) = Inr (below, ds)"
    and rs: "rs = own @ below"
    by (auto simp: walk.simps bind_result_eq_Inr)
  have "{w'. \<exists>x \<in> set (child_includes c (ws_instance w)). follow_include c w x = Inr w'}
      = {w'. enter_step c w w'}"
    by (auto intro: enter elim: enter_stepE)
  with "1.IH"[OF below] show ?case
    unfolding rs routes_from_unfold[of c w] by (simp add: routes_at_def traverse_set[OF own])
next
  case (2 c w)
  then show ?case by simp
next
  case (3 c w x xs)
  show ?case
  proof (cases "follow_include c w x")
    case (Inl d)
    with "3.prems" obtain ds' where rest: "walk_includes c w xs = Inr (rs, ds')"
      by (auto simp: bind_result_eq_Inr)
    show ?thesis unfolding "3.IH"(1)[OF Inl rest] by (auto simp: Inl)
  next
    case (Inr child)
    with "3.prems" obtain rs1 ds1 rs2 ds2 where
      one: "walk c child = Inr (rs1, ds1)" and two: "walk_includes c w xs = Inr (rs2, ds2)"
      and rs: "rs = rs1 @ rs2"
      by (auto simp: bind_result_eq_Inr)
    have "set rs1 = routes_from c child" by (rule "3.IH"(2)[OF Inr one])
    moreover have "set rs2 = (\<Union>w' \<in> {w'. \<exists>x \<in> set xs. follow_include c w x = Inr w'}. routes_from c w')"
      using "3.IH"(3)[OF Inr two] by simp
    ultimately show ?thesis using Inr rs by auto
  qed
qed

lemma walk_total:
  shows "(\<And>w'. (enter_step c)\<^sup>*\<^sup>* w w' \<Longrightarrow>
            \<forall>e \<in> set (registered_routes c (ws_instance w')). \<exists>x. register_route c w' e = Inr x) \<Longrightarrow>
          \<exists>res. walk c w = Inr res"
    and "(\<And>x w1 w'. x \<in> set xs \<Longrightarrow> follow_include c w x = Inr w1 \<Longrightarrow> (enter_step c)\<^sup>*\<^sup>* w1 w' \<Longrightarrow>
            \<forall>e \<in> set (registered_routes c (ws_instance w')). \<exists>x. register_route c w' e = Inr x) \<Longrightarrow>
          \<exists>res. walk_includes c w xs = Inr res"
proof (induction c w and c w xs rule: walk_walk_includes.induct)
  case (1 c w)
  have "\<forall>e \<in> set (registered_routes c (ws_instance w)). \<exists>x. register_route c w e = Inr x"
    by (rule "1.prems") simp
  then obtain g where "\<And>e. e \<in> set (registered_routes c (ws_instance w)) \<Longrightarrow> register_route c w e = Inr (g e)"
    by metis
  then have own: "traverse (register_route c w) (registered_routes c (ws_instance w))
      = Inr (map g (registered_routes c (ws_instance w)))"
    by (rule traverse_total)
  have "\<exists>res. walk_includes c w (child_includes c (ws_instance w)) = Inr res"
  proof (rule "1.IH")
    fix x w1 w'
    assume "x \<in> set (child_includes c (ws_instance w))" "follow_include c w x = Inr w1"
      and reach: "(enter_step c)\<^sup>*\<^sup>* w1 w'"
    then have "enter_step c w w1" by (intro enter)
    then have "(enter_step c)\<^sup>*\<^sup>* w w'" using reach by (rule converse_rtranclp_into_rtranclp)
    then show "\<forall>e \<in> set (registered_routes c (ws_instance w')). \<exists>x. register_route c w' e = Inr x"
      by (rule "1.prems")
  qed
  then show ?case using own by (auto simp: walk.simps)
next
  case (2 c w)
  then show ?case by simp
next
  case (3 c w x xs)
  show ?case
  proof (cases "follow_include c w x")
    case (Inl d)
    have "\<exists>res. walk_includes c w xs = Inr res"
      by (rule "3.IH"(1)[OF Inl], rule "3.prems") auto
    then show ?thesis using Inl by auto
  next
    case (Inr child)
    have "\<exists>res. walk c child = Inr res"
      by (rule "3.IH"(2)[OF Inr], rule "3.prems"[OF _ Inr]) auto
    moreover have "\<exists>res. walk_includes c w xs = Inr res"
      by (rule "3.IH"(3)[OF Inr], rule "3.prems") auto
    ultimately show ?thesis using Inr by auto
  qed
qed

section \<open>What the walk reads\<close>

lemma follow_include_Inr:
  "follow_include c w x = Inr w' \<longleftrightarrow>
     (\<exists>prefix f child_prefix.
        ri_prefix (io_record x) = Some prefix \<and>
        framework_of (rc_index c) (ri_included_router_instance_id (io_record x)) = Some f \<and>
        fw_prefix f = Some child_prefix \<and> fw_kind f = API_ROUTER \<and>
        ri_included_router_instance_id (io_record x) \<notin> set (ws_stack w) \<and>
        w' = \<lparr>ws_instance = ri_included_router_instance_id (io_record x),
              ws_prefixes = ws_prefixes w @ [prefix, child_prefix],
              ws_anchors = ws_anchors w @ [io_anchor x],
              ws_include_locations = ws_include_locations w @ [ri_source_location (io_record x)],
              ws_stack = ws_stack w @ [ri_included_router_instance_id (io_record x)]\<rparr>)"
proof -
  have "framework_of (rc_index c) k = Some f \<Longrightarrow> fw_framework_instance_id f = k" for k f
    by (auto simp: framework_of_def dest: dict_by_SomeD)
  then show ?thesis by (auto simp: follow_include_def Let_def split: option.splits if_splits)
qed

lemma set_enumerate_snd: "snd ` set (enumerate n xs) = set xs"
  by (metis list.set_map map_snd_enumerate)

lemma include_occurrences_total:
  "\<exists>xs. include_occurrences includes = Inr xs \<and> io_record ` set xs = set includes"
proof -
  have "\<exists>g. traverse occurrence_of (enumerate 0 (include_group includes s)) = Inr g \<and>
          io_record ` set g = set (include_group includes s)" for s
  proof -
    let ?es = "enumerate 0 (include_group includes s)"
    define anchor where "anchor = (\<lambda>(n :: nat, r :: router_include).
      stable_id ''sginclude'' [ri_parent_instance_id r, ri_included_router_instance_id r,
        (case ri_prefix r of None \<Rightarrow> ''<UNKNOWN>'' | Some p \<Rightarrow> strip p), str_int (int n)])"
    have "traverse occurrence_of ?es = Inr (map (\<lambda>e. \<lparr>io_record = snd e, io_anchor = anchor e\<rparr>) ?es)"
      by (rule traverse_total)
        (auto simp: occurrence_of_def include_occurrence_anchor_def anchor_def split: prod.splits)
    then show ?thesis by (simp add: image_image set_enumerate_snd)
  qed
  then obtain group where group: "\<And>s. traverse occurrence_of (enumerate 0 (include_group includes s)) = Inr (group s)"
    and records: "\<And>s. io_record ` set (group s) = set (include_group includes s)"
    by metis
  let ?shapes = "sort_key (\<lambda>s. canonical_json (include_shape_json s)) (fromkeys (map include_shape includes))"
  have all: "traverse (\<lambda>s. traverse occurrence_of (enumerate 0 (include_group includes s))) ?shapes
      = Inr (map group ?shapes)"
    by (rule traverse_total) (rule group)
  have "io_record ` set (concat (map group ?shapes)) = (\<Union>s \<in> set ?shapes. set (include_group includes s))"
    by (simp add: image_UN records)
  also have "\<dots> = set includes" by (auto simp: include_group_def)
  finally show ?thesis using all by (simp add: include_occurrences_def)
qed

lemma route_ordinals_total:
  assumes "k < length routes"
  shows "\<exists>n. map_of (route_ordinals routes) k = Some n"
proof -
  let ?r = "routes ! k"
  have "(k, ?r) \<in> set (enumerate 0 routes)" using assms by (simp add: in_set_enumerate_eq)
  then have "(k, ?r) \<in> set (route_group routes (route_shape ?r))" by (simp add: route_group_def)
  then obtain n where "(n, k, ?r) \<in> set (enumerate 0 (route_group routes (route_shape ?r)))"
    by (metis (no_types, lifting) imageE prod.collapse set_enumerate_snd)
  moreover have "route_shape ?r \<in> set (fromkeys (map route_shape routes))" using assms by simp
  ultimately have "(k, n) \<in> set (route_ordinals routes)"
    unfolding route_ordinals_def by (force intro!: bexI[of _ "route_shape ?r"])
  then show ?thesis by (metis map_of_eq_None_iff image_eqI fst_conv not_Some_eq)
qed

lemma set_registered_routes:
  "set (registered_routes c instance_id) =
     {(k, ix_routes (rc_index c) ! k) | k. k < length (ix_routes (rc_index c)) \<and>
        rr_registrar_instance_id (ix_routes (rc_index c) ! k) = instance_id}"
  by (auto simp: registered_routes_def in_set_enumerate_eq)

section \<open>Include chains\<close>

text \<open>
  The specification of the walk: an include chain starts at the application and is extended by
  an include with a known prefix, to a router with a known prefix that the chain has not
  entered.  A chain carries its prefixes, the locations of its includes and its instances.
\<close>

inductive include_chain ::
  "source_index \<Rightarrow> string \<Rightarrow> string list \<Rightarrow> source_location list \<Rightarrow> string list \<Rightarrow> string \<Rightarrow> bool"
  for i :: source_index and app :: string where
  start: "include_chain i app [] [] [app] app"
| extend: "include_chain i app (prefixes @ [prefix, child_prefix])
      (locations @ [ri_source_location x]) (stack @ [ri_included_router_instance_id x])
      (ri_included_router_instance_id x)"
    if "include_chain i app prefixes locations stack (ri_parent_instance_id x)"
      and "x \<in> set (ix_router_includes i)" and "ri_prefix x = Some prefix"
      and "framework_of i (ri_included_router_instance_id x) = Some f"
      and "fw_prefix f = Some child_prefix" and "fw_kind f = API_ROUTER"
      and "ri_included_router_instance_id x \<notin> set stack"

definition include_edge :: "source_index \<Rightarrow> (string \<times> string) set" where
  "include_edge i = {(ri_parent_instance_id x, ri_included_router_instance_id x) | x f.
     x \<in> set (ix_router_includes i) \<and> ri_prefix x \<noteq> None \<and>
     framework_of i (ri_included_router_instance_id x) = Some f \<and>
     fw_prefix f \<noteq> None \<and> fw_kind f = API_ROUTER}"

definition reads_index :: "route_context \<Rightarrow> source_index \<Rightarrow> bool" where
  "reads_index c i \<longleftrightarrow> rc_index c = i \<and> io_record ` set (rc_occurrences c) = set (ix_router_includes i)"

lemma entered_is_chain:
  assumes "(enter_step c)\<^sup>*\<^sup>* (walk_start app) w" and c: "reads_index c i"
  shows "include_chain i app (ws_prefixes w) (ws_include_locations w) (ws_stack w) (ws_instance w)"
  using assms(1)
proof induction
  case base
  show ?case by (simp add: walk_start_def include_chain.start)
next
  case (step w w')
  from step.hyps(2) obtain x where x: "x \<in> set (child_includes c (ws_instance w))"
    "follow_include c w x = Inr w'" by (rule enter_stepE)
  have "io_record x \<in> set (ix_router_includes i)" "ri_parent_instance_id (io_record x) = ws_instance w"
    using x(1) c by (auto simp: child_includes_def reads_index_def)
  then show ?case
    using x(2) step.IH c unfolding follow_include_Inr reads_index_def
    by (auto intro!: include_chain.extend)
qed

lemma chain_is_entered:
  assumes "include_chain i app ps ls st inst" and c: "reads_index c i"
  shows "\<exists>w. (enter_step c)\<^sup>*\<^sup>* (walk_start app) w \<and> ws_prefixes w = ps \<and>
           ws_include_locations w = ls \<and> ws_stack w = st \<and> ws_instance w = inst"
  using assms(1)
proof induction
  case start
  show ?case by (rule exI[of _ "walk_start app"]) (simp add: walk_start_def)
next
  case (extend prefixes locations stack x prefix f child_prefix)
  from extend.IH obtain w where w: "(enter_step c)\<^sup>*\<^sup>* (walk_start app) w" "ws_prefixes w = prefixes"
    "ws_include_locations w = locations" "ws_stack w = stack" "ws_instance w = ri_parent_instance_id x"
    by (elim exE conjE)
  obtain y where y: "y \<in> set (rc_occurrences c)" "io_record y = x"
    using c extend.hyps(2) unfolding reads_index_def by (metis imageE)
  let ?w = "\<lparr>ws_instance = ri_included_router_instance_id x,
     ws_prefixes = ws_prefixes w @ [prefix, child_prefix], ws_anchors = ws_anchors w @ [io_anchor y],
     ws_include_locations = ws_include_locations w @ [ri_source_location x],
     ws_stack = ws_stack w @ [ri_included_router_instance_id x]\<rparr>"
  have "follow_include c w y = Inr ?w"
    using extend.hyps(3-7) y w c by (simp add: follow_include_Inr reads_index_def)
  moreover have "y \<in> set (child_includes c (ws_instance w))" using y w by (simp add: child_includes_def)
  ultimately have "enter_step c w ?w" by (intro enter)
  with w(1) have "(enter_step c)\<^sup>*\<^sup>* (walk_start app) ?w" by (rule rtranclp.rtrancl_into_rtrancl)
  then show ?case using w by (intro exI[of _ ?w]) simp
qed

text \<open>A chain exists to exactly the instances that the include edges reach.\<close>

lemma chain_stack_reached:
  assumes "include_chain i app ps ls st inst"
  shows "distinct st" and "inst \<in> set st" and "length ps = 2 * (length st - 1)" and "st \<noteq> []"
    and "\<forall>v \<in> set st. (app, v) \<in> (include_edge i)\<^sup>*"
    and "\<forall>v \<in> set st. \<exists>ps ls st. include_chain i app ps ls st v"
  using assms
proof (induction)
  case start
  case 1 show ?case by simp
  case 2 show ?case by simp
  case 3 show ?case by simp
  case 4 show ?case by simp
  case 5 show ?case by simp
  case 6 show ?case using include_chain.start[of i app] by auto
next
  case (extend prefixes locations stack x prefix f child_prefix)
  have new: "include_chain i app (prefixes @ [prefix, child_prefix])
      (locations @ [ri_source_location x]) (stack @ [ri_included_router_instance_id x])
      (ri_included_router_instance_id x)"
    by (rule include_chain.extend[OF extend.hyps])
  case 1 show ?case using extend.IH(1) extend.hyps(7) by simp
  case 2 show ?case by simp
  case 3 show ?case using extend.IH(3,4) by (cases stack) simp_all
  case 4 show ?case by simp
  case 5
  have "(ri_parent_instance_id x, ri_included_router_instance_id x) \<in> include_edge i"
    using extend.hyps(2-6) by (auto simp: include_edge_def)
  then show ?case using extend.IH(2,5) by (auto intro: rtrancl_into_rtrancl)
  case 6 show ?case using extend.IH(6) new by auto
qed

lemma chain_reaches_closure:
  "(\<exists>ps ls st. include_chain i app ps ls st v) \<longleftrightarrow> (app, v) \<in> (include_edge i)\<^sup>*"
proof
  assume "\<exists>ps ls st. include_chain i app ps ls st v"
  then show "(app, v) \<in> (include_edge i)\<^sup>*" using chain_stack_reached(2,5) by blast
next
  assume "(app, v) \<in> (include_edge i)\<^sup>*"
  then show "\<exists>ps ls st. include_chain i app ps ls st v"
  proof induction
    case base
    show ?case using include_chain.start by blast
  next
    case (step u v)
    then obtain ps ls st where u: "include_chain i app ps ls st u" by blast
    from step.hyps(2) obtain x f prefix child_prefix where
      x: "u = ri_parent_instance_id x" "v = ri_included_router_instance_id x"
        "x \<in> set (ix_router_includes i)" "ri_prefix x = Some prefix" "framework_of i v = Some f"
        "fw_prefix f = Some child_prefix" "fw_kind f = API_ROUTER"
      unfolding include_edge_def by auto
    show ?case
    proof (cases "v \<in> set st")
      case True
      then show ?thesis using chain_stack_reached(6)[OF u] by blast
    next
      case False
      then show ?thesis
        using include_chain.extend[of i app ps ls st x prefix f child_prefix] u x by auto
    qed
  qed
qed

definition all_register :: "route_context \<Rightarrow> walk_state \<Rightarrow> bool" where
  "all_register c w \<longleftrightarrow> (\<forall>w'. (enter_step c)\<^sup>*\<^sup>* w w' \<longrightarrow>
     (\<forall>e \<in> set (registered_routes c (ws_instance w')). \<exists>x. register_route c w' e = Inr x))"

lemma all_register_unfold:
  "all_register c w \<longleftrightarrow>
     (\<forall>e \<in> set (registered_routes c (ws_instance w)). \<exists>x. register_route c w e = Inr x) \<and>
     (\<forall>w'. enter_step c w w' \<longrightarrow> all_register c w')"
proof -
  have "(enter_step c)\<^sup>*\<^sup>* w w' \<longleftrightarrow> w' = w \<or> (\<exists>v. enter_step c w v \<and> (enter_step c)\<^sup>*\<^sup>* v w')" for w'
    by (auto elim: converse_rtranclpE intro: converse_rtranclp_into_rtranclp)
  then show ?thesis unfolding all_register_def by auto
qed

lemma traverse_Inr_all: "traverse f xs = Inr ys \<Longrightarrow> x \<in> set xs \<Longrightarrow> \<exists>y. f x = Inr y"
  by (induction xs arbitrary: ys) (auto simp: bind_result_eq_Inr)

lemma walk_registers:
  shows "walk c w = Inr res \<Longrightarrow> all_register c w"
    and "walk_includes c w xs = Inr res \<Longrightarrow>
           \<forall>x w'. x \<in> set xs \<longrightarrow> follow_include c w x = Inr w' \<longrightarrow> all_register c w'"
proof (induction c w and c w xs arbitrary: res and res rule: walk_walk_includes.induct)
  case (1 c w)
  then obtain own below where own: "traverse (register_route c w) (registered_routes c (ws_instance w)) = Inr own"
    and below: "walk_includes c w (child_includes c (ws_instance w)) = Inr below"
    by (auto simp: walk.simps bind_result_eq_Inr)
  show ?case unfolding all_register_unfold[of c w]
    using traverse_Inr_all[OF own] "1.IH"[OF below] by (auto elim: enter_stepE)
next
  case (2 c w)
  then show ?case by simp
next
  case (3 c w x xs)
  show ?case
  proof (cases "follow_include c w x")
    case (Inl d)
    with "3.prems" obtain rest where "walk_includes c w xs = Inr rest" by (auto simp: bind_result_eq_Inr)
    from "3.IH"(1)[OF Inl this] show ?thesis using Inl by auto
  next
    case (Inr child)
    with "3.prems" obtain one two where "walk c child = Inr one" "walk_includes c w xs = Inr two"
      by (auto simp: bind_result_eq_Inr)
    from "3.IH"(2)[OF Inr this(1)] "3.IH"(3)[OF Inr this(2)] show ?thesis using Inr by auto
  qed
qed

lemma register_route_view:
  assumes "register_route c w (k, r) = Inr x"
  shows "rx_include_locations x = ws_include_locations w" and "rx_owner_symbol_id x = rr_owner_symbol_id r"
    and "rx_route_location x = rr_source_location r" and "rx_include_anchors x = ws_anchors w"
    and "er_effective_path (rx_registration x) = strip (compose_path (ws_prefixes w) (rr_route_path r))"
    and "er_method (rx_registration x) = normalize_method (rr_method r)"
    and "er_registrar_instance_id (rx_registration x) = rr_registrar_instance_id r"
  using assms
  by (auto simp: register_route_def construct_effective_route_def validate_route_path_def Let_def
      bind_result_eq_Inr split: option.splits if_splits)

definition composition_context :: "source_index \<Rightarrow> string \<Rightarrow> include_occurrence list \<Rightarrow> route_context" where
  "composition_context i app occurrences = \<lparr>rc_app = app, rc_index = i,
     rc_occurrences = occurrences, rc_ordinals = route_ordinals (ix_routes i)\<rparr>"

lemma compose_walks:
  assumes "selected_targets i = [t]" and "compose_effective_routes i = Inr res"
  shows "\<exists>c ds rs. reads_index c i \<and> walk c (walk_start (at_framework_instance_id t)) = Inr (rs, ds) \<and>
           set (rs_routes res) = set rs \<and> set (rs_diagnostics res) = set ds"
proof -
  obtain xs where xs: "include_occurrences (ix_router_includes i) = Inr xs"
    "io_record ` set xs = set (ix_router_includes i)"
    using include_occurrences_total by blast
  let ?c = "composition_context i (at_framework_instance_id t) xs"
  from assms obtain rs ds where "walk ?c (walk_start (at_framework_instance_id t)) = Inr (rs, ds)"
    and "set (rs_routes res) = set rs" and "set (rs_diagnostics res) = set ds"
    by (auto simp: compose_effective_routes_def composition_context_def xs bind_result_eq_Inr)
  moreover have "reads_index ?c i" using xs(2) by (simp add: reads_index_def composition_context_def)
  ultimately show ?thesis by blast
qed

text \<open>The registrations, as chains and routes.\<close>

lemma composed_routes:
  assumes "selected_targets i = [t]" and "compose_effective_routes i = Inr res"
  shows "x \<in> set (rs_routes res) \<Longrightarrow>
           \<exists>ps ls st r. include_chain i (at_framework_instance_id t) ps ls st (rr_registrar_instance_id r) \<and>
             r \<in> set (ix_routes i) \<and> rx_include_locations x = ls \<and>
             rx_owner_symbol_id x = rr_owner_symbol_id r \<and> rx_route_location x = rr_source_location r \<and>
             er_registrar_instance_id (rx_registration x) = rr_registrar_instance_id r \<and>
             er_effective_path (rx_registration x) = strip (compose_path ps (rr_route_path r))"
    and "include_chain i (at_framework_instance_id t) ps ls st (rr_registrar_instance_id r) \<Longrightarrow>
           r \<in> set (ix_routes i) \<Longrightarrow>
           \<exists>x \<in> set (rs_routes res). rx_include_locations x = ls \<and>
             rx_owner_symbol_id x = rr_owner_symbol_id r \<and> rx_route_location x = rr_source_location r \<and>
             er_registrar_instance_id (rx_registration x) = rr_registrar_instance_id r \<and>
             er_effective_path (rx_registration x) = strip (compose_path ps (rr_route_path r))"
proof -
  let ?app = "at_framework_instance_id t"
  from compose_walks[OF assms] obtain c rs ds where c: "reads_index c i"
    and walk: "walk c (walk_start ?app) = Inr (rs, ds)" and rs: "set (rs_routes res) = set rs"
    by blast
  have from_start: "set rs = routes_from c (walk_start ?app)" by (rule walk_routes(1)[OF walk])
  have registers: "all_register c (walk_start ?app)" by (rule walk_registers(1)[OF walk])
  have index: "rc_index c = i" using c by (simp add: reads_index_def)
  show "\<exists>ps ls st r. include_chain i ?app ps ls st (rr_registrar_instance_id r) \<and>
             r \<in> set (ix_routes i) \<and> rx_include_locations x = ls \<and>
             rx_owner_symbol_id x = rr_owner_symbol_id r \<and> rx_route_location x = rr_source_location r \<and>
             er_registrar_instance_id (rx_registration x) = rr_registrar_instance_id r \<and>
             er_effective_path (rx_registration x) = strip (compose_path ps (rr_route_path r))"
    if "x \<in> set (rs_routes res)"
  proof -
    from that obtain w e where w: "(enter_step c)\<^sup>*\<^sup>* (walk_start ?app) w"
      and e: "e \<in> set (registered_routes c (ws_instance w))" and x: "register_route c w e = Inr x"
      unfolding rs from_start routes_from_def routes_at_def by blast
    from e obtain k r where r: "e = (k, r)" "r \<in> set (ix_routes i)" "rr_registrar_instance_id r = ws_instance w"
      unfolding set_registered_routes index by auto
    have chain: "include_chain i ?app (ws_prefixes w) (ws_include_locations w) (ws_stack w)
        (rr_registrar_instance_id r)"
      unfolding r(3) by (rule entered_is_chain[OF w c])
    show ?thesis
      by (intro exI conjI, rule chain, rule r(2)) (use register_route_view[OF x[unfolded r(1)]] in simp_all)
  qed
  show "\<exists>x \<in> set (rs_routes res). rx_include_locations x = ls \<and>
             rx_owner_symbol_id x = rr_owner_symbol_id r \<and> rx_route_location x = rr_source_location r \<and>
             er_registrar_instance_id (rx_registration x) = rr_registrar_instance_id r \<and>
             er_effective_path (rx_registration x) = strip (compose_path ps (rr_route_path r))"
    if chain: "include_chain i ?app ps ls st (rr_registrar_instance_id r)" and r: "r \<in> set (ix_routes i)"
  proof -
    from chain_is_entered[OF chain c] obtain w where w: "(enter_step c)\<^sup>*\<^sup>* (walk_start ?app) w"
      "ws_prefixes w = ps" "ws_include_locations w = ls" "ws_instance w = rr_registrar_instance_id r"
      by blast
    from r obtain k where "k < length (ix_routes i)" "ix_routes i ! k = r" by (metis in_set_conv_nth)
    then have e: "(k, r) \<in> set (registered_routes c (ws_instance w))"
      unfolding set_registered_routes index w(4) by auto
    then obtain x where x: "register_route c w (k, r) = Inr x"
      using registers w(1) unfolding all_register_def by blast
    then have "x \<in> set (rs_routes res)"
      unfolding rs from_start routes_from_def routes_at_def using w(1) e by blast
    then show ?thesis using register_route_view[OF x] w by (intro bexI[of _ x]) simp_all
  qed
qed

section \<open>Properties\<close>

text \<open>
  C19. The effective routes are exactly the include chains: when one application is selected
  and the composition returns, its registrations are the pairs of an include chain and a route
  registered at its end, each with the locations of the includes followed and the path composed
  of their prefixes; no chain is missed and nothing else is registered.
\<close>

theorem routes_are_include_chains:
  assumes "selected_targets i = [t]" and "compose_effective_routes i = Inr res"
  shows "(\<lambda>x. (rx_include_locations x, rx_owner_symbol_id x, rx_route_location x,
              er_effective_path (rx_registration x))) ` set (rs_routes res)
       = {(ls, rr_owner_symbol_id r, rr_source_location r, strip (compose_path ps (rr_route_path r)))
            | ps ls st r. r \<in> set (ix_routes i) \<and>
              include_chain i (at_framework_instance_id t) ps ls st (rr_registrar_instance_id r)}"
  (is "?view ` _ = ?chains")
proof (intro set_eqI iffI)
  fix v assume "v \<in> ?view ` set (rs_routes res)"
  then show "v \<in> ?chains" using composed_routes(1)[OF assms] by fastforce
next
  fix v assume "v \<in> ?chains"
  then obtain ps ls st r where "v = (ls, rr_owner_symbol_id r, rr_source_location r,
      strip (compose_path ps (rr_route_path r)))" "r \<in> set (ix_routes i)"
    "include_chain i (at_framework_instance_id t) ps ls st (rr_registrar_instance_id r)"
    by auto
  with composed_routes(2)[OF assms this(3) this(2)] show "v \<in> ?view ` set (rs_routes res)" by force
qed

text \<open>
  C20. No reachable router is lost: when the composition returns, a router or application has a
  registration exactly when it registers a route and the resolvable includes lead to it from
  the selected application, cycles of includes or not.
\<close>

theorem registrars_are_the_include_closure:
  assumes "selected_targets i = [t]" and "compose_effective_routes i = Inr res"
  shows "(\<lambda>x. er_registrar_instance_id (rx_registration x)) ` set (rs_routes res)
       = {v. (at_framework_instance_id t, v) \<in> (include_edge i)\<^sup>* \<and>
             v \<in> rr_registrar_instance_id ` set (ix_routes i)}"
proof (intro set_eqI iffI)
  fix v assume "v \<in> (\<lambda>x. er_registrar_instance_id (rx_registration x)) ` set (rs_routes res)"
  then show "v \<in> {v. (at_framework_instance_id t, v) \<in> (include_edge i)\<^sup>* \<and>
             v \<in> rr_registrar_instance_id ` set (ix_routes i)}"
    using composed_routes(1)[OF assms] by (fastforce simp flip: chain_reaches_closure)
next
  fix v assume "v \<in> {v. (at_framework_instance_id t, v) \<in> (include_edge i)\<^sup>* \<and>
             v \<in> rr_registrar_instance_id ` set (ix_routes i)}"
  then obtain ps ls st r where "include_chain i (at_framework_instance_id t) ps ls st v"
    "r \<in> set (ix_routes i)" "v = rr_registrar_instance_id r"
    unfolding mem_Collect_eq chain_reaches_closure[symmetric] by auto
  then show "v \<in> (\<lambda>x. er_registrar_instance_id (rx_registration x)) ` set (rs_routes res)"
    using composed_routes(2)[OF assms] by force
qed

section \<open>Composition always answers\<close>

definition routes_within :: "nat \<Rightarrow> source_index \<Rightarrow> bool" where
  "routes_within q i \<longleftrightarrow> list_all (\<lambda>r. validate_route r = Inr r \<and> length (rr_method r) \<le> 16 \<and>
     length (rr_route_path r) \<le> q) (ix_routes i)"

definition prefixes_within :: "nat \<Rightarrow> source_index \<Rightarrow> bool" where
  "prefixes_within n i \<longleftrightarrow>
     list_all (\<lambda>x. validate_include x = Inr x \<and> list_all (\<lambda>p. length p \<le> n) (case ri_prefix x of None \<Rightarrow> [] | Some p \<Rightarrow> [p]))
       (ix_router_includes i) \<and>
     list_all (\<lambda>f. validate_framework_instance f = Inr f \<and>
         list_all (\<lambda>p. length p \<le> n) (case fw_prefix f of None \<Rightarrow> [] | Some p \<Rightarrow> [p]))
       (ix_framework_instances i)"

definition rooted :: "string \<Rightarrow> bool" where
  "rooted p \<longleftrightarrow> p = [] \<or> starts_with ''/'' p"

lemma starts_with_slash: "starts_with ''/'' s \<longleftrightarrow> (\<exists>t. s = CHR ''/'' # t)"
  by (cases s) (auto simp: starts_with_def)

lemma strip_slash: "starts_with ''/'' s \<Longrightarrow> starts_with ''/'' (strip s)"
proof -
  assume "starts_with ''/'' s"
  then obtain t where s: "s = CHR ''/'' # t" by (auto simp: starts_with_slash)
  have slash: "\<not> is_space (CHR ''/'')" by code_simp
  have "dropWhile is_space (xs @ [CHR ''/'']) = dropWhile is_space xs @ [CHR ''/'']" for xs
    using slash by (induction xs) auto
  then show ?thesis using slash s by (simp add: strip_def starts_with_def)
qed

lemma rstrip_slash_take: "\<exists>m. rstrip_slash p = take m p"
  unfolding rstrip_slash_def dropWhile_eq_drop by (auto simp: rev_drop)

lemma rooted_rstrip: "rooted p \<Longrightarrow> rooted (rstrip_slash p)"
proof -
  assume p: "rooted p"
  obtain m where "rstrip_slash p = take m p" using rstrip_slash_take by blast
  then show ?thesis using p by (cases m) (auto simp: rooted_def starts_with_slash)
qed

lemma length_rstrip: "length (rstrip_slash p) \<le> length p"
  using rstrip_slash_take[of p] by auto

lemma rooted_append: "rooted p \<Longrightarrow> rooted q \<Longrightarrow> rooted (p @ q)"
  by (auto simp: rooted_def starts_with_slash)

lemma composed_prefix:
  assumes "list_all (\<lambda>p. rooted p \<and> length p \<le> n) ps"
  shows "rooted (foldl (\<lambda>a p. if p \<noteq> [] then a @ rstrip_slash p else a) [] ps) \<and>
    length (foldl (\<lambda>a p. if p \<noteq> [] then a @ rstrip_slash p else a) [] ps) \<le> n * length ps"
  using assms
proof (induction ps rule: rev_induct)
  case Nil
  show ?case by (simp add: rooted_def)
next
  case (snoc p ps)
  then have p: "rooted (rstrip_slash p)" "length (rstrip_slash p) \<le> n"
    using length_rstrip[of p] by (simp_all add: rooted_rstrip)
  show ?case using snoc.IH snoc.prems p by (simp add: rooted_append)
qed

lemma compose_path_rooted:
  assumes "list_all (\<lambda>p. rooted p \<and> length p \<le> n) ps" and "starts_with ''/'' path"
  shows "starts_with ''/'' (compose_path ps path)"
    and "length (compose_path ps path) \<le> n * length ps + length path"
  using composed_prefix[OF assms(1)] assms(2)
  by (auto simp: compose_path_def Let_def rooted_def starts_with_slash)

lemma valid_prefix_rooted:
  "validate_prefix msg v = Inr (Some p) \<Longrightarrow> rooted p"
  by (auto simp: validate_prefix_def rooted_def split: option.splits if_splits)

lemma valid_include_prefix: "validate_include x = Inr x \<Longrightarrow> ri_prefix x = Some p \<Longrightarrow> rooted p"
  by (cases x) (auto simp: validate_include_def bind_result_eq_Inr dest: valid_prefix_rooted)

lemma valid_framework_prefix:
  "validate_framework_instance f = Inr f \<Longrightarrow> fw_prefix f = Some p \<Longrightarrow> rooted p"
  by (cases f) (auto simp: validate_framework_instance_def Let_def bind_result_eq_Inr
      split: if_splits dest: valid_prefix_rooted)

lemma valid_route_fields:
  assumes "validate_route r = Inr r"
  shows "\<not> blank (rr_method r)" and "rr_method r \<noteq> []" and "strip (rr_route_path r) = rr_route_path r"
    and "starts_with ''/'' (rr_route_path r)"
proof -
  have "upper (strip (rr_method r)) = rr_method r" and *: "rr_method r \<noteq> []"
    "strip (rr_route_path r) = rr_route_path r" "starts_with ''/'' (rr_route_path r)"
    using assms by (cases r; auto simp: validate_route_def Let_def split: if_splits)+
  then show "\<not> blank (rr_method r)" by (auto simp: blank_def upper_def)
qed (use assms in \<open>cases r; auto simp: validate_route_def Let_def split: if_splits\<close>)+

lemma chain_prefixes:
  assumes "include_chain i app ps ls st inst" and "prefixes_within n i"
  shows "list_all (\<lambda>p. rooted p \<and> length p \<le> n) ps"
  using assms(1)
proof induction
  case start
  then show ?case by simp
next
  case (extend prefixes locations stack x prefix f child_prefix)
  have "f \<in> set (ix_framework_instances i)"
    using extend.hyps(4) by (auto simp: framework_of_def dest: dict_by_SomeD)
  then have "validate_framework_instance f = Inr f" "length child_prefix \<le> n"
    "validate_include x = Inr x" "length prefix \<le> n"
    using assms(2) extend.hyps(2,3,5) by (auto simp: prefixes_within_def list_all_iff)
  moreover have "rooted prefix" using calculation(3) extend.hyps(3) by (rule valid_include_prefix)
  moreover have "rooted child_prefix" using calculation(1) extend.hyps(5) by (rule valid_framework_prefix)
  ultimately show ?case using extend.IH by simp
qed

lemma chain_depth:
  assumes "include_chain i app ps ls st inst" and "app \<in> set (map fw_framework_instance_id (ix_framework_instances i))"
  shows "length st \<le> length (ix_framework_instances i)"
proof -
  have "set st \<subseteq> set (map fw_framework_instance_id (ix_framework_instances i))"
    using assms(1)
  proof induction
    case start
    then show ?case using assms(2) by simp
  next
    case (extend prefixes locations stack x prefix f child_prefix)
    then have "f \<in> set (ix_framework_instances i)"
      "fw_framework_instance_id f = ri_included_router_instance_id x"
      by (auto simp: framework_of_def dest: dict_by_SomeD)
    then have "ri_included_router_instance_id x \<in> set (map fw_framework_instance_id (ix_framework_instances i))"
      by (metis image_eqI list.set_map)
    then show ?case using extend.IH by simp
  qed
  then have "card (set st) \<le> card (set (map fw_framework_instance_id (ix_framework_instances i)))"
    by (rule card_mono[OF finite_set])
  then show ?thesis
    using card_length[of "map fw_framework_instance_id (ix_framework_instances i)"]
      distinct_card[OF chain_stack_reached(1)[OF assms(1)]] by simp
qed

lemma register_route_total:
  assumes "reads_index c i" and ordinals: "rc_ordinals c = route_ordinals (ix_routes i)"
    and "routes_within q i" and "q \<le> 2048"
    and "list_all (\<lambda>p. rooted p \<and> length p \<le> n) (ws_prefixes w)"
    and "n * length (ws_prefixes w) + q \<le> 4096"
    and e: "e \<in> set (registered_routes c inst)"
  shows "\<exists>x. register_route c w e = Inr x"
proof -
  obtain k r where r: "e = (k, r)" "k < length (ix_routes i)" "r \<in> set (ix_routes i)"
    using e assms(1) unfolding set_registered_routes reads_index_def by auto
  then obtain ordinal where "map_of (rc_ordinals c) k = Some ordinal"
    using route_ordinals_total ordinals by metis
  moreover have "validate_route r = Inr r" "length (rr_method r) \<le> 16" "length (rr_route_path r) \<le> q"
    using assms(3) r(3) by (auto simp: routes_within_def list_all_iff)
  moreover from this(1) have path: "starts_with ''/'' (rr_route_path r)" by (rule valid_route_fields)
  moreover have "starts_with ''/'' (strip (compose_path (ws_prefixes w) (rr_route_path r)))"
    "starts_with ''/'' (compose_path (ws_prefixes w) (rr_route_path r))"
    "length (compose_path (ws_prefixes w) (rr_route_path r)) \<le> n * length (ws_prefixes w) + length (rr_route_path r)"
    using compose_path_rooted[OF assms(5) path] by (simp_all add: strip_slash)
  moreover have "compose_path (ws_prefixes w) (rr_route_path r) \<noteq> []" "rr_route_path r \<noteq> []"
    using calculation(5,7) by (auto simp: starts_with_def)
  moreover note valid_route_fields[OF calculation(2)]
  ultimately show ?thesis using r(1) assms(4,6)
    by (auto simp: register_route_def route_registration_id_def construct_effective_route_def
        validate_route_path_def Let_def blank_def)
qed

text \<open>
  An index whose texts are in normal form, whose prefixes are short enough for the number of
  framework instances, and whose application targets are recorded, is always composed.
\<close>

lemma composition_total:
  assumes "first_error (map (check_app_target i) (ix_app_targets i)) = None"
    and "routes_within q i" and "prefixes_within n i"
    and "q \<le> 2048" and "2 * n * (length (ix_framework_instances i) - 1) + q \<le> 4096"
  shows "\<exists>res. compose_effective_routes i = Inr res"
proof (cases "\<exists>t. selected_targets i = [t]")
  case False
  then show ?thesis by (auto simp: compose_effective_routes_def split: list.splits)
next
  case True
  then obtain t where t: "selected_targets i = [t]" by blast
  let ?app = "at_framework_instance_id t"
  obtain xs where xs: "include_occurrences (ix_router_includes i) = Inr xs"
    "io_record ` set xs = set (ix_router_includes i)"
    using include_occurrences_total by blast
  let ?c = "composition_context i ?app xs"
  have c: "reads_index ?c i" using xs(2) by (simp add: reads_index_def composition_context_def)
  have "t \<in> set (ix_app_targets i)" using t by (metis list.set_intros(1) selected_targets_def filter_is_subset subsetD)
  then have "check_app_target i t = None" using assms(1) by (auto simp: first_error_None_iff)
  then obtain f where "framework_of i ?app = Some f"
    by (auto simp: check_app_target_def split: option.splits)
  then have "f \<in> set (ix_framework_instances i)" "fw_framework_instance_id f = ?app"
    by (auto simp: framework_of_def dest: dict_by_SomeD)
  then have app: "?app \<in> set (map fw_framework_instance_id (ix_framework_instances i))"
    by (metis image_eqI list.set_map)
  have "\<forall>e \<in> set (registered_routes ?c (ws_instance w)). \<exists>x. register_route ?c w e = Inr x"
    if w: "(enter_step ?c)\<^sup>*\<^sup>* (walk_start ?app) w" for w
  proof
    fix e assume e: "e \<in> set (registered_routes ?c (ws_instance w))"
    note chain = entered_is_chain[OF w c]
    have "length (ws_prefixes w) = 2 * (length (ws_stack w) - 1)"
      by (rule chain_stack_reached(3)[OF chain])
    then have "length (ws_prefixes w) \<le> 2 * (length (ix_framework_instances i) - 1)"
      using chain_depth[OF chain app] by (simp add: diff_le_mono)
    then have "n * length (ws_prefixes w) \<le> n * (2 * (length (ix_framework_instances i) - 1))"
      by (rule mult_le_mono2)
    also have "\<dots> = 2 * n * (length (ix_framework_instances i) - 1)" by simp
    finally have "n * length (ws_prefixes w) + q \<le> 4096" using assms(5) by linarith
    then show "\<exists>x. register_route ?c w e = Inr x"
      using register_route_total[OF c _ assms(2,4) chain_prefixes[OF chain assms(3)] _ e]
      by (simp add: composition_context_def)
  qed
  from walk_total(1)[of ?c "walk_start ?app", OF this] obtain res
    where "walk ?c (walk_start ?app) = Inr res" by blast
  then show ?thesis using t xs(1)
    by (cases res) (simp add: compose_effective_routes_def composition_context_def)
qed

text \<open>
  C21. Route composition terminates with a result on every index, includes that form cycles
  among them: no registration is refused while the prefixes along the longest possible include
  chain fit the 4096 characters of an effective path.
\<close>

theorem composition_always_reports:
  assumes "first_error (map (check_app_target i) (ix_app_targets i)) = None"
    and "routes_within q i" and "prefixes_within n i"
    and "q \<le> 2048" and "2 * n * (length (ix_framework_instances i) - 1) + q \<le> 4096"
  shows "\<exists>res. compose_effective_routes i = Inr res \<and>
    (length (selected_targets i) \<noteq> 1 \<longrightarrow> rs_routes res = [] \<and> rs_diagnostics res \<noteq> [])"
proof -
  have "length (selected_targets i) \<noteq> 1 \<Longrightarrow> compose_effective_routes i =
      Inr \<lparr>rs_routes = [], rs_diagnostics = [composition_diagnostic APP_TARGET_UNSELECTED None]\<rparr>"
    by (auto simp: compose_effective_routes_def split: list.splits)
  then show ?thesis using composition_total[OF assms] by (metis list.discI reachability_result.select_convs)
qed

section \<open>Witnesses\<close>

definition demo_instance :: "string \<Rightarrow> framework_kind \<Rightarrow> framework_instance" where
  "demo_instance name kind = \<lparr>fw_framework_instance_id = name, fw_source_file_id = ''f'',
     fw_qualified_binding_name = name, fw_kind = kind, fw_definition_ordinal = 0,
     fw_prefix = Some [], fw_source_location = demo_location\<rparr>"

definition demo_include :: "string \<Rightarrow> string \<Rightarrow> router_include" where
  "demo_include parent prefix = \<lparr>ri_parent_instance_id = parent,
     ri_included_router_instance_id = ''api'', ri_prefix = Some prefix,
     ri_source_location = demo_location\<rparr>"

text \<open>An application that includes a router, and the router that includes itself.\<close>

definition demo_cyclic_index :: source_index where
  "demo_cyclic_index = \<lparr>ix_project_id = ''p'', ix_project_source_fingerprint = ''x'',
      ix_source_index_fingerprint = ''y'', ix_indexed_files = [], ix_symbols = [], ix_imports = [],
      ix_call_sites = [], ix_references = [],
      ix_framework_instances = [demo_instance ''app'' FASTAPI_APP, demo_instance ''api'' API_ROUTER],
      ix_app_targets = [\<lparr>at_import_target = ''main:app'', at_framework_instance_id = ''app'',
        at_selection = TARGET_CONFIGURED, at_source_location = demo_location\<rparr>],
      ix_routes = [\<lparr>rr_owner_symbol_id = ''s'', rr_registrar_instance_id = ''api'',
        rr_method = ''POST'', rr_route_path = ''/hook'', rr_source_location = demo_location\<rparr>],
      ix_router_includes = [demo_include ''app'' ''/v1/'', demo_include ''api'' ''/loop''],
      ix_diagnostics = [], ix_completeness = SOURCE_COMPLETE\<rparr>"

lemma demo_cyclic_premises:
  "first_error (map (check_app_target demo_cyclic_index) (ix_app_targets demo_cyclic_index)) = None"
  "routes_within 5 demo_cyclic_index" "prefixes_within 5 demo_cyclic_index"
  "length (ix_framework_instances demo_cyclic_index) = 2"
  by code_simp+

lemma demo_cyclic_target:
  "\<exists>t. selected_targets demo_cyclic_index = [t] \<and> at_framework_instance_id t = ''app''"
  by (simp add: selected_targets_def demo_cyclic_index_def)

lemma demo_cyclic_composed:
  "compose_effective_routes demo_cyclic_index = Inr (projr (compose_effective_routes demo_cyclic_index))"
  using composition_total[OF demo_cyclic_premises(1-3)] demo_cyclic_premises(4) by auto

theorem composition_always_reports_witness:
  "\<exists>res. compose_effective_routes demo_cyclic_index = Inr res"
  using composition_always_reports[OF demo_cyclic_premises(1-3)] demo_cyclic_premises(4) by auto

lemma demo_cyclic_chain:
  "include_chain demo_cyclic_index ''app'' [''/v1/'', []] [demo_location] [''app'', ''api''] ''api''"
proof -
  have "include_chain demo_cyclic_index ''app'' ([] @ [''/v1/'', []])
      ([] @ [ri_source_location (demo_include ''app'' ''/v1/'')])
      ([''app''] @ [ri_included_router_instance_id (demo_include ''app'' ''/v1/'')])
      (ri_included_router_instance_id (demo_include ''app'' ''/v1/''))"
    by (rule include_chain.extend[where f = "demo_instance ''api'' API_ROUTER"])
      (simp_all add: include_chain.start demo_include_def demo_cyclic_index_def demo_instance_def
        framework_of_def dict_by_def)
  then show ?thesis by (simp add: demo_include_def)
qed

theorem routes_are_include_chains_witness:
  "\<exists>x \<in> set (rs_routes (projr (compose_effective_routes demo_cyclic_index))).
     er_effective_path (rx_registration x) = ''/v1/hook'' \<and> rx_include_locations x = [demo_location]"
proof -
  obtain t where t: "selected_targets demo_cyclic_index = [t]" "at_framework_instance_id t = ''app''"
    using demo_cyclic_target by blast
  have path: "strip (compose_path [''/v1/'', []] ''/hook'') = ''/v1/hook''" by code_simp
  obtain r where r: "r \<in> set (ix_routes demo_cyclic_index)" "rr_registrar_instance_id r = ''api''"
    "rr_route_path r = ''/hook''"
    by (simp add: demo_cyclic_index_def)
  then have "([demo_location], rr_owner_symbol_id r, rr_source_location r, ''/v1/hook'')
      \<in> {(ls, rr_owner_symbol_id r, rr_source_location r, strip (compose_path ps (rr_route_path r)))
            | ps ls st r. r \<in> set (ix_routes demo_cyclic_index) \<and>
              include_chain demo_cyclic_index ''app'' ps ls st (rr_registrar_instance_id r)}"
    using demo_cyclic_chain path by force
  then show ?thesis
    unfolding routes_are_include_chains[OF t(1) demo_cyclic_composed, unfolded t(2), symmetric] by auto
qed

theorem registrars_are_the_include_closure_witness:
  "''api'' \<in> (\<lambda>x. er_registrar_instance_id (rx_registration x)) `
     set (rs_routes (projr (compose_effective_routes demo_cyclic_index)))"
proof -
  obtain t where t: "selected_targets demo_cyclic_index = [t]" "at_framework_instance_id t = ''app''"
    using demo_cyclic_target by blast
  have "(''app'', ''api'') \<in> (include_edge demo_cyclic_index)\<^sup>*"
    using demo_cyclic_chain chain_reaches_closure by blast
  then show ?thesis
    unfolding registrars_are_the_include_closure[OF t(1) demo_cyclic_composed] t(2)
    by (simp add: demo_cyclic_index_def)
qed

end
