(* ===== verification/RuntimePlan.thy ===== *)
theory RuntimePlan
  imports RuntimeContracts Applicability SourceIndex
begin

text \<open>
  \<open>runtime/planning.py\<close>: the exact runtime targets of a project, derived from its source index,
  its projected safety graph and its applicability artifact.  The lemmas show that a plan keeps
  one binding per route, that every target uses a binding of the plan, and which node of the
  graph every target stands for.
\<close>

section \<open>Bindings\<close>

record runtime_target_plan =
  rp_app_target :: "app_target option"
  rp_ingresses :: "ingress_binding list"
  rp_customer_values :: "customer_value_target list"
  rp_mutations :: "mutation_target list"
  rp_acknowledgements :: "acknowledgement_target list"

definition selected_app_target :: "source_index \<Rightarrow> app_target option" where
  "selected_app_target i =
     (case filter (\<lambda>t. at_selection t \<in> {TARGET_CONFIGURED, TARGET_AUTO_SELECTED}) (ix_app_targets i) of
        [t] \<Rightarrow> Some t
      | _ \<Rightarrow> None)"

definition construct_ingress_binding :: "ingress_binding \<Rightarrow> ingress_binding result" where
  "construct_ingress_binding b =
     (if ib_method b = [] \<or> 16 < length (ib_method b)
      then Inl (ValueError ''method length'')
      else if ib_effective_path b = [] \<or> 4096 < length (ib_effective_path b)
      then Inl (ValueError ''effective path length'')
      else bind_result (validate_ingress_path (ib_effective_path b)) (\<lambda>path.
             Inr (b\<lparr>ib_method := normalize_method (ib_method b), ib_effective_path := path\<rparr>)))"

definition binding_of :: "graph_node \<Rightarrow> ingress_binding result" where
  "binding_of n =
     (case (gn_backing_symbol_id n, gn_details n) of
        (Some symbol, Some (PaymentIngressDetails d)) \<Rightarrow>
          if gn_kind n \<noteq> PAYMENT_INGRESS
          then Inl (ValueError ''runtime ingress binding requires an exact ingress graph node'')
          else construct_ingress_binding
            \<lparr>ib_ingress_node_id = gn_node_id n,
             ib_route_registration_id = er_route_registration_id (pi_registration d),
             ib_app_instance_id = er_app_instance_id (pi_registration d),
             ib_ingress_symbol_id = symbol, ib_method = er_method (pi_registration d),
             ib_effective_path = er_effective_path (pi_registration d),
             ib_checkout_request_binding = pi_checkout_request_binding d\<rparr>
      | _ \<Rightarrow> Inl (ValueError ''runtime ingress binding requires an exact ingress graph node''))"

section \<open>The evidence of the trust scenarios\<close>

definition captured_state :: "string \<Rightarrow> bool" where
  "captured_state state \<longleftrightarrow> remove_prefix ''payment.'' state = ''captured''"

definition matched_captured_branch :: "graph_edge \<Rightarrow> bool" where
  "matched_captured_branch e = (ge_kind e = BRANCHES_TO \<and>
     (case ge_branch e of
        None \<Rightarrow> False
      | Some b \<Rightarrow> br_disposition b = MATCHED \<and> list_ex captured_state (br_states b)))"

definition planned_gate_ids ::
  "safety_graph \<Rightarrow> normal_control option \<Rightarrow> string \<Rightarrow> string list" where
  "planned_gate_ids g control route =
     map ge_source_node_id (filter (\<lambda>e. matched_captured_branch e \<and>
       (case dict_by gn_node_id (pg_nodes g) (ge_source_node_id e) of
          Some source \<Rightarrow>
            (case gn_details source of
               Some (PaymentStateGateDetails d) \<Rightarrow> sg_route_registration_id d = route
             | _ \<Rightarrow> False)
        | None \<Rightarrow> False) \<and>
       (case control of None \<Rightarrow> True | Some c \<Rightarrow> ge_target_node_id e = nc_customer_value_node_id c))
       (pg_edges g))"

text \<open>The nodes a captured gate of the route leads to and that are mutations of the route.\<close>

definition sg05_expected ::
  "safety_graph \<Rightarrow> normal_control option \<Rightarrow> string \<Rightarrow> string list \<Rightarrow> string list" where
  "sg05_expected g control route targets =
     (let gates = planned_gate_ids g control route
      in map ge_target_node_id (filter (\<lambda>e. matched_captured_branch e \<and>
           ge_source_node_id e \<in> set gates \<and> ge_target_node_id e \<in> set targets) (pg_edges g)))"

definition checkout_trust_ids :: "safety_graph \<Rightarrow> string \<Rightarrow> string list" where
  "checkout_trust_ids g route =
     map gn_node_id (filter (\<lambda>n. case gn_details n of
         Some (TrustGateDetails d) \<Rightarrow> tg_route_registration_id d = route \<and>
           tg_trust_kind d \<in> {CHECKOUT_SIGNATURE_VERIFICATION, SERVER_ORDER_IDENTITY_BINDING}
       | _ \<Rightarrow> False) (pg_nodes g))"

definition assigns_payment_state :: "graph_node \<Rightarrow> bool" where
  "assigns_payment_state n = (case gn_details n of
     Some (MerchantStateMutationDetails d) \<Rightarrow> mm_assigned_payment_state d \<noteq> None
   | _ \<Rightarrow> False)"

text \<open>\<open>nodes[node_id]\<close> raises for an unknown node that no trust gate guards.\<close>

definition sg06_expected :: "safety_graph \<Rightarrow> string \<Rightarrow> string list \<Rightarrow> string list result" where
  "sg06_expected g route targets =
     (let trust = checkout_trust_ids g route;
          guarded = map ge_target_node_id
            (filter (\<lambda>e. ge_kind e = GUARDS \<and> ge_source_node_id e \<in> set trust) (pg_edges g))
      in bind_result (traverse (\<lambda>m. if m \<in> set guarded then Inr [m]
             else (case dict_by gn_node_id (pg_nodes g) m of
                     None \<Rightarrow> Inl KeyError
                   | Some n \<Rightarrow> Inr (if assigns_payment_state n then [m] else []))) targets)
           (\<lambda>kept. Inr (concat kept)))"

definition mutation_available :: "assertion_applicability \<Rightarrow> bool" where
  "mutation_available a \<longleftrightarrow> list_ex (\<lambda>r. rs_code r = AR_MUTATION_TARGET_AVAILABLE) (aa_reasons a)"

definition observed_nodes :: "assertion_applicability \<Rightarrow> string list" where
  "observed_nodes a = map ev_ref_reference (filter (\<lambda>e. ev_ref_kind e = EV_GRAPH_NODE)
     (concat (map rs_evidence (aa_reasons a))))"

definition check_assertion_evidence :: "string list \<Rightarrow> assertion_applicability \<Rightarrow> error option" where
  "check_assertion_evidence expected a =
     (if mutation_available a \<and> set (observed_nodes a) \<noteq> set expected
      then Some (ValueError ''mutation assertion evidence must match exact route mutation nodes'')
      else None)"

definition route_mutations_of :: "mutation_target list \<Rightarrow> string \<Rightarrow> string list" where
  "route_mutations_of mutations route =
     map mt_mutation_node_id (filter (\<lambda>m. ib_route_registration_id (mt_ingress m) = route) mutations)"

definition check_trust_instance ::
  "applicability_artifact \<Rightarrow> safety_graph \<Rightarrow> ingress_binding list \<Rightarrow> mutation_target list \<Rightarrow>
   scenario_id \<Rightarrow> scenario_instance \<Rightarrow> error option" where
  "check_trust_instance ap g ingresses mutations scenario x =
     (case si_ingress_node_id x of
        None \<Rightarrow> None
      | Some ingress_id \<Rightarrow>
          (case dict_by ib_ingress_node_id ingresses ingress_id of
             None \<Rightarrow> Some (ValueError ''trust scenario refers to an unknown ingress binding'')
           | Some b \<Rightarrow>
               (let route = ib_route_registration_id b;
                    targets = route_mutations_of mutations route;
                    control = (case si_normal_control_id x of
                       None \<Rightarrow> None
                     | Some c \<Rightarrow> dict_by nc_control_id (ap_normal_controls ap) c);
                    expected = (if scenario = SG_05
                       then Inr (sg05_expected g control route targets)
                       else sg06_expected g route targets)
                in case expected of
                     Inl e \<Rightarrow> Some e
                   | Inr nodes \<Rightarrow> first_error (map (check_assertion_evidence nodes) (si_assertions x)))))"

definition validate_mutation_assertion_evidence ::
  "applicability_artifact \<Rightarrow> safety_graph \<Rightarrow> ingress_binding list \<Rightarrow> mutation_target list \<Rightarrow> error option" where
  "validate_mutation_assertion_evidence ap g ingresses mutations =
     first_error (concat (map (\<lambda>s.
       if sc_scenario_id s \<notin> {SG_05, SG_06} then []
       else map (check_trust_instance ap g ingresses mutations (sc_scenario_id s)) (sc_instances s))
       (ap_scenarios ap)))"

section \<open>The targets\<close>

definition customer_target ::
  "safety_graph \<Rightarrow> ingress_binding list \<Rightarrow> normal_control \<Rightarrow> customer_value_target result" where
  "customer_target g ingresses c =
     (case (dict_by ib_ingress_node_id ingresses (nc_ingress_node_id c),
            dict_by gn_node_id (pg_nodes g) (nc_customer_value_node_id c),
            find (\<lambda>e. ge_edge_id e = nc_connectivity_edge_id c) (pg_edges g)) of
        (Some ingress, Some node, Some edge) \<Rightarrow>
          if ib_route_registration_id ingress \<noteq> nc_route_registration_id c \<or>
             gn_kind node \<noteq> CUSTOMER_VALUE_ACTION \<or>
             gn_backing_symbol_id node \<noteq> Some (nc_customer_value_symbol_id c) \<or>
             ge_source_node_id edge \<noteq> nc_ingress_node_id c \<or>
             ge_target_node_id edge \<noteq> nc_customer_value_node_id c
          then Inl (ValueError ''normal control no longer matches exact runtime identities'')
          else Inr \<lparr>ct_ingress = ingress, ct_normal_control_id = nc_control_id c,
                    ct_customer_value_node_id = nc_customer_value_node_id c,
                    ct_customer_value_symbol_id = nc_customer_value_symbol_id c,
                    ct_connectivity_edge_id = nc_connectivity_edge_id c,
                    ct_call_path_references = nc_call_path_references c,
                    ct_semantic_resolution_fingerprint = nc_semantic_resolution_fingerprint c\<rparr>
      | _ \<Rightarrow> Inl (ValueError ''normal control no longer matches exact runtime identities''))"

definition mutation_target_of ::
  "ingress_binding list \<Rightarrow> graph_node \<times> merchant_state_mutation_details \<Rightarrow> mutation_target result" where
  "mutation_target_of ingresses entry = (case entry of (n, d) \<Rightarrow>
     (case gn_backing_symbol_id n of
        None \<Rightarrow> Inl (ValueError ''mutation node has no exact backing symbol'')
      | Some symbol \<Rightarrow>
          (case dict_by ib_route_registration_id ingresses (mm_route_registration_id d) of
             None \<Rightarrow> Inl (ValueError ''mutation node has no exact ingress route'')
           | Some ingress \<Rightarrow>
               Inr \<lparr>mt_ingress = ingress, mt_mutation_node_id = gn_node_id n,
                    mt_mutation_symbol_id = symbol, mt_structural_anchor = mm_structural_anchor d,
                    mt_mutation_kind = mm_mutation_kind d, mt_carrier_reference = mm_carrier_reference d\<rparr>)))"

definition mutation_nodes :: "safety_graph \<Rightarrow> (graph_node \<times> merchant_state_mutation_details) list" where
  "mutation_nodes g = concat (map (\<lambda>n. case gn_details n of
     Some (MerchantStateMutationDetails d) \<Rightarrow> [(n, d)] | _ \<Rightarrow> []) (pg_nodes g))"

definition acknowledgement_target_of ::
  "ingress_binding list \<Rightarrow> graph_node \<times> acknowledgement_boundary_details \<Rightarrow> acknowledgement_target result" where
  "acknowledgement_target_of ingresses entry = (case entry of (n, d) \<Rightarrow>
     (case gn_backing_symbol_id n of
        None \<Rightarrow> Inl (ValueError ''acknowledgement node has no exact backing symbol'')
      | Some symbol \<Rightarrow>
          (case dict_by ib_route_registration_id ingresses (ab_route_registration_id d) of
             None \<Rightarrow> Inl (ValueError ''acknowledgement node has no exact ingress route'')
           | Some ingress \<Rightarrow>
               Inr \<lparr>at_ingress = ingress, at_acknowledgement_node_id = gn_node_id n,
                    at_acknowledgement_symbol_id = symbol, at_structural_anchor = ab_structural_anchor d,
                    at_exit_kind = ab_exit_kind d, at_status_code = ab_status_code d,
                    at_outcome = ab_outcome d\<rparr>)))"

definition acknowledgement_nodes :: "safety_graph \<Rightarrow> (graph_node \<times> acknowledgement_boundary_details) list" where
  "acknowledgement_nodes g = concat (map (\<lambda>n. case gn_details n of
     Some (AcknowledgementBoundaryDetails d) \<Rightarrow> [(n, d)] | _ \<Rightarrow> []) (pg_nodes g))"

definition plan_ingresses :: "safety_graph \<Rightarrow> ingress_binding list result" where
  "plan_ingresses g =
     bind_result (traverse binding_of (filter (\<lambda>n. gn_kind n = PAYMENT_INGRESS) (pg_nodes g))) (\<lambda>bs.
       (let ingresses = sort_key (\<lambda>b. [ib_route_registration_id b, ib_ingress_node_id b]) bs
        in if \<not> distinct (map ib_route_registration_id ingresses)
           then Inl (ValueError ''one route registration produced multiple ingress nodes'')
           else Inr ingresses))"

definition build_runtime_target_plan ::
  "source_index \<Rightarrow> safety_graph \<Rightarrow> applicability_artifact \<Rightarrow> runtime_target_plan result" where
  "build_runtime_target_plan i g ap =
     (if ix_project_id i \<noteq> ap_project_id ap
      then Inl (ValueError ''runtime inputs refer to different projects'')
      else if ix_source_index_fingerprint i \<noteq> ap_source_index_fingerprint ap
      then Inl (ValueError ''runtime source-index fingerprint is stale'')
      else if pg_graph_fingerprint g \<noteq> ap_projected_graph_fingerprint ap
      then Inl (ValueError ''runtime graph fingerprint is stale'')
      else bind_result (plan_ingresses g) (\<lambda>ingresses.
           bind_result (traverse (customer_target g ingresses) (ap_normal_controls ap)) (\<lambda>customers.
           bind_result (traverse (mutation_target_of ingresses) (mutation_nodes g)) (\<lambda>mutations.
           bind_result (traverse (acknowledgement_target_of ingresses) (acknowledgement_nodes g)) (\<lambda>acknowledgements.
             case validate_mutation_assertion_evidence ap g ingresses mutations of
               Some e \<Rightarrow> Inl e
             | None \<Rightarrow> Inr
                 \<lparr>rp_app_target = selected_app_target i, rp_ingresses = ingresses,
                  rp_customer_values = sort_key ct_normal_control_id customers,
                  rp_mutations = sort_key mt_mutation_node_id mutations,
                  rp_acknowledgements = sort_key at_acknowledgement_node_id acknowledgements\<rparr>)))))"

section \<open>What a plan keeps\<close>

definition target_bindings :: "runtime_target_plan \<Rightarrow> ingress_binding list" where
  "target_bindings p = map ct_ingress (rp_customer_values p) @ map mt_ingress (rp_mutations p) @
     map at_ingress (rp_acknowledgements p)"

definition wf_plan :: "runtime_target_plan \<Rightarrow> bool" where
  "wf_plan p \<longleftrightarrow>
     distinct (map ib_route_registration_id (rp_ingresses p)) \<and>
     distinct (map ib_ingress_node_id (rp_ingresses p)) \<and>
     set (target_bindings p) \<subseteq> set (rp_ingresses p) \<and>
     distinct (map ct_normal_control_id (rp_customer_values p)) \<and>
     distinct (map mt_mutation_node_id (rp_mutations p)) \<and>
     distinct (map at_acknowledgement_node_id (rp_acknowledgements p))"

interpretation plan_routes: keyed_records ib_route_registration_id rp_ingresses wf_plan
  by unfold_locales (simp add: wf_plan_def)

interpretation plan_nodes: keyed_records ib_ingress_node_id rp_ingresses wf_plan
  by unfold_locales (simp add: wf_plan_def)

lemma traverse_map_key:
  "traverse f xs = Inr ys \<Longrightarrow> (\<And>x y. f x = Inr y \<Longrightarrow> k y = k' x) \<Longrightarrow> map k ys = map k' xs"
  by (induction xs arbitrary: ys) (auto simp: bind_result_eq_Inr)

lemma traverse_in_set:
  "traverse f xs = Inr ys \<Longrightarrow> y \<in> set ys \<Longrightarrow> \<exists>x \<in> set xs. f x = Inr y"
  by (induction xs arbitrary: ys) (auto simp: bind_result_eq_Inr)

lemma distinct_map_sort_key: "distinct (map f (sort_key k xs)) = distinct (map f xs)"
  by (rule mset_eq_imp_distinct_iff) simp

lemma binding_of_Inr:
  assumes "binding_of n = Inr b"
  shows "ib_ingress_node_id b = gn_node_id n" and "gn_backing_symbol_id n = Some (ib_ingress_symbol_id b)"
    and "\<exists>d. gn_details n = Some (PaymentIngressDetails d) \<and>
           ib_route_registration_id b = er_route_registration_id (pi_registration d) \<and>
           ib_checkout_request_binding b = pi_checkout_request_binding d"
    and "gn_kind n = PAYMENT_INGRESS"
  using assms
  by (auto simp: binding_of_def construct_ingress_binding_def bind_result_eq_Inr
      split: option.splits node_details.splits if_splits)

lemma distinct_concat_singletons:
  assumes "distinct (map k xs)" and "\<And>x. f x = [] \<or> (\<exists>d. f x = [(x, d)])"
  shows "distinct (map (\<lambda>e. k (fst e)) (concat (map f xs)))"
  using assms(1)
proof (induction xs)
  case Nil
  then show ?case by simp
next
  case (Cons x xs)
  have "fst ` set (concat (map f xs)) \<subseteq> set xs"
  proof
    fix y assume "y \<in> fst ` set (concat (map f xs))"
    then obtain z e where "z \<in> set xs" "e \<in> set (f z)" "fst e = y" by auto
    then show "y \<in> set xs" using assms(2)[of z] by auto
  qed
  then have "k x \<notin> (\<lambda>e. k (fst e)) ` set (concat (map f xs))" using Cons.prems by fastforce
  moreover have "distinct (map (\<lambda>e. k (fst e)) (concat (map f xs)))" using Cons by simp
  ultimately show ?case using assms(2)[of x] by (elim disjE exE) simp_all
qed

lemma mutation_nodes_distinct:
  "valid_graph g \<Longrightarrow> distinct (map (\<lambda>e. gn_node_id (fst e)) (mutation_nodes g))"
  unfolding mutation_nodes_def
  by (rule distinct_concat_singletons)
    (auto dest: valid_graph_facts split: option.splits node_details.splits)

lemma acknowledgement_nodes_distinct:
  "valid_graph g \<Longrightarrow> distinct (map (\<lambda>e. gn_node_id (fst e)) (acknowledgement_nodes g))"
  unfolding acknowledgement_nodes_def
  by (rule distinct_concat_singletons)
    (auto dest: valid_graph_facts split: option.splits node_details.splits)

lemma set_mutation_nodes:
  "(n, d) \<in> set (mutation_nodes g) \<longleftrightarrow>
     n \<in> set (pg_nodes g) \<and> gn_details n = Some (MerchantStateMutationDetails d)"
  by (auto simp: mutation_nodes_def split: option.splits node_details.splits)

lemma set_acknowledgement_nodes:
  "(n, d) \<in> set (acknowledgement_nodes g) \<longleftrightarrow>
     n \<in> set (pg_nodes g) \<and> gn_details n = Some (AcknowledgementBoundaryDetails d)"
  by (auto simp: acknowledgement_nodes_def split: option.splits node_details.splits)

lemma plan_ingresses_facts:
  assumes "plan_ingresses g = Inr bs"
  shows "distinct (map ib_route_registration_id bs)"
    and "valid_graph g \<Longrightarrow> distinct (map ib_ingress_node_id bs)"
    and "b \<in> set bs \<Longrightarrow> \<exists>n \<in> set (pg_nodes g). gn_kind n = PAYMENT_INGRESS \<and> binding_of n = Inr b"
    and "n \<in> set (pg_nodes g) \<Longrightarrow> gn_kind n = PAYMENT_INGRESS \<Longrightarrow> \<exists>b \<in> set bs. binding_of n = Inr b"
proof -
  let ?ns = "filter (\<lambda>n. gn_kind n = PAYMENT_INGRESS) (pg_nodes g)"
  obtain raw where raw: "traverse binding_of ?ns = Inr raw"
    and bs: "bs = sort_key (\<lambda>b. [ib_route_registration_id b, ib_ingress_node_id b]) raw"
    and routes: "distinct (map ib_route_registration_id bs)"
    using assms by (auto simp: plan_ingresses_def Let_def bind_result_eq_Inr split: if_splits)
  show "distinct (map ib_route_registration_id bs)" by (rule routes)
  have "map ib_ingress_node_id raw = map gn_node_id ?ns"
    by (rule traverse_map_key[OF raw]) (rule binding_of_Inr)
  then show "valid_graph g \<Longrightarrow> distinct (map ib_ingress_node_id bs)"
    unfolding bs distinct_map_sort_key by (simp add: distinct_map_filter valid_graph_facts)
  show "\<exists>n \<in> set (pg_nodes g). gn_kind n = PAYMENT_INGRESS \<and> binding_of n = Inr b" if "b \<in> set bs"
    using traverse_in_set[OF raw, of b] that bs by auto
  show "\<exists>b \<in> set bs. binding_of n = Inr b"
    if "n \<in> set (pg_nodes g)" and "gn_kind n = PAYMENT_INGRESS"
  proof -
    have "n \<in> set ?ns" using that by simp
    then obtain k where "k < length ?ns" "?ns ! k = n" by (metis in_set_conv_nth)
    then have "k < length raw" "binding_of n = Inr (raw ! k)"
      using raw unfolding traverse_Inr_iff by (auto dest: list_all2_lengthD list_all2_nthD)
    then show ?thesis unfolding bs by auto
  qed
qed

lemma built_plan_parts:
  assumes "build_runtime_target_plan i g ap = Inr p"
  obtains customers mutations acknowledgements where
    "plan_ingresses g = Inr (rp_ingresses p)"
    and "traverse (customer_target g (rp_ingresses p)) (ap_normal_controls ap) = Inr customers"
    and "rp_customer_values p = sort_key ct_normal_control_id customers"
    and "traverse (mutation_target_of (rp_ingresses p)) (mutation_nodes g) = Inr mutations"
    and "rp_mutations p = sort_key mt_mutation_node_id mutations"
    and "traverse (acknowledgement_target_of (rp_ingresses p)) (acknowledgement_nodes g) = Inr acknowledgements"
    and "rp_acknowledgements p = sort_key at_acknowledgement_node_id acknowledgements"
    and "validate_mutation_assertion_evidence ap g (rp_ingresses p) mutations = None"
    and "rp_app_target p = selected_app_target i"
  using assms
  by (auto simp: build_runtime_target_plan_def bind_result_eq_Inr split: if_splits option.splits)

lemma built_plan_wf:
  assumes plan: "build_runtime_target_plan i g ap = Inr p" and "valid_graph g"
    and "distinct (map nc_control_id (ap_normal_controls ap))"
  shows "wf_plan p"
proof -
  from plan obtain cs ms as where bs: "plan_ingresses g = Inr (rp_ingresses p)"
    and cs: "traverse (customer_target g (rp_ingresses p)) (ap_normal_controls ap) = Inr cs"
    and pcs: "rp_customer_values p = sort_key ct_normal_control_id cs"
    and ms: "traverse (mutation_target_of (rp_ingresses p)) (mutation_nodes g) = Inr ms"
    and pms: "rp_mutations p = sort_key mt_mutation_node_id ms"
    and as: "traverse (acknowledgement_target_of (rp_ingresses p)) (acknowledgement_nodes g) = Inr as"
    and pas: "rp_acknowledgements p = sort_key at_acknowledgement_node_id as"
    by (rule built_plan_parts)
  have "map ct_normal_control_id cs = map nc_control_id (ap_normal_controls ap)"
    by (rule traverse_map_key[OF cs]) (auto simp: customer_target_def split: option.splits if_splits)
  moreover have "map mt_mutation_node_id ms = map (\<lambda>e. gn_node_id (fst e)) (mutation_nodes g)"
    by (rule traverse_map_key[OF ms]) (auto simp: mutation_target_of_def split: option.splits prod.splits)
  moreover have "map at_acknowledgement_node_id as = map (\<lambda>e. gn_node_id (fst e)) (acknowledgement_nodes g)"
    by (rule traverse_map_key[OF as]) (auto simp: acknowledgement_target_of_def split: option.splits prod.splits)
  moreover have "ct_ingress ` set cs \<subseteq> set (rp_ingresses p)"
    using traverse_in_set[OF cs]
    by (fastforce simp: customer_target_def split: option.splits if_splits dest: dict_by_SomeD)
  moreover have "mt_ingress ` set ms \<subseteq> set (rp_ingresses p)"
    using traverse_in_set[OF ms]
    by (fastforce simp: mutation_target_of_def split: option.splits prod.splits dest: dict_by_SomeD)
  moreover have "at_ingress ` set as \<subseteq> set (rp_ingresses p)"
    using traverse_in_set[OF as]
    by (fastforce simp: acknowledgement_target_of_def split: option.splits prod.splits dest: dict_by_SomeD)
  ultimately show ?thesis
    using plan_ingresses_facts(1,2)[OF bs] assms(2,3) mutation_nodes_distinct acknowledgement_nodes_distinct
    by (simp add: wf_plan_def target_bindings_def pcs pms pas distinct_map_sort_key)
qed

end
