(* ===== verification/RuntimeCapability.thy ===== *)
theory RuntimeCapability
  imports RuntimePlan
begin

text \<open>
  \<open>runtime/capability.py\<close> and \<open>runtime/compatibility.py\<close>: the capability artifact of a project,
  from a runtime plan, the prepared instrumentation, the route attachments of a worker and the
  ownership of the process.  The compilation of the analysed functions and the comparison with
  live code objects, \<open>runtime/instrumentation.py\<close>, are arguments.  The lemmas show that the
  artifact built from a plan is accepted by its validator and what a complete capability
  requires.
\<close>

section \<open>Configuration and instrumentation\<close>

datatype runtime_mode = MODE_MANAGED | MODE_BYO | MODE_STATIC

fun runtime_mode_value :: "runtime_mode \<Rightarrow> string" where
  "runtime_mode_value MODE_MANAGED = ''managed''"
| "runtime_mode_value MODE_BYO = ''byo''"
| "runtime_mode_value MODE_STATIC = ''static''"

text \<open>What the code reads of a \<open>RuntimeConfig\<close>: its mode and its \<open>model_dump\<close>.\<close>

record runtime_config_view =
  rv_mode :: runtime_mode
  rv_dump :: json

datatype callable_shape = SHAPE_SYNC | SHAPE_COROUTINE | SHAPE_GENERATOR | SHAPE_ASYNC_GENERATOR

fun callable_shape_value :: "callable_shape \<Rightarrow> string" where
  "callable_shape_value SHAPE_SYNC = ''SYNC''"
| "callable_shape_value SHAPE_COROUTINE = ''COROUTINE''"
| "callable_shape_value SHAPE_GENERATOR = ''GENERATOR''"
| "callable_shape_value SHAPE_ASYNC_GENERATOR = ''ASYNC_GENERATOR''"

record trace_code_descriptor =
  td_source_path :: string
  td_qualified_name :: string
  td_definition_line :: nat
  td_definition_ordinal :: nat
  td_first_line :: nat
  td_code_fingerprint :: string
  td_initial_resume_offset :: nat
  td_shape :: callable_shape

record customer_trace_target =
  tc_descriptor :: trace_code_descriptor
  tc_normal_control_id :: string
  tc_customer_value_node_id :: string
  tc_customer_value_symbol_id :: string

record mutation_trace_target =
  tm_descriptor :: trace_code_descriptor
  tm_mutation_node_id :: string
  tm_mutation_symbol_id :: string
  tm_ingress_node_id :: string
  tm_route_registration_id :: string
  tm_instruction_offset :: nat
  tm_instruction_name :: string

record prepared_instrumentation =
  pp_customers :: "customer_trace_target list"
  pp_customer_failures :: "string \<rightharpoonup> runtime_reason"
  pp_mutations :: "mutation_trace_target list"
  pp_mutation_failures :: "string \<rightharpoonup> runtime_reason"

definition assessment :: "runtime_capability_state \<Rightarrow> runtime_reason \<Rightarrow> capability_assessment" where
  "assessment state reason = \<lparr>ca_state = state, ca_reasons = [reason]\<rparr>"

text \<open>The items a restriction drops are recorded as failures, over those already there.\<close>

definition mark_mismatches ::
  "('a \<Rightarrow> string) \<Rightarrow> 'a list \<Rightarrow> string list \<Rightarrow> (string \<rightharpoonup> runtime_reason) \<Rightarrow> string \<rightharpoonup> runtime_reason" where
  "mark_mismatches key items live failures =
     foldl (\<lambda>m x. if key x \<notin> set live then m(key x \<mapsto> RC_TARGET_CODE_MISMATCH) else m) failures items"

definition restrict_prepared_instrumentation ::
  "prepared_instrumentation \<Rightarrow> string list \<Rightarrow> string list \<Rightarrow> prepared_instrumentation" where
  "restrict_prepared_instrumentation p live_customers live_mutations =
     \<lparr>pp_customers = filter (\<lambda>x. tc_normal_control_id x \<in> set live_customers) (pp_customers p),
      pp_customer_failures =
        mark_mismatches tc_normal_control_id (pp_customers p) live_customers (pp_customer_failures p),
      pp_mutations = filter (\<lambda>x. tm_mutation_node_id x \<in> set live_mutations) (pp_mutations p),
      pp_mutation_failures =
        mark_mismatches tm_mutation_node_id (pp_mutations p) live_mutations (pp_mutation_failures p)\<rparr>"

text \<open>
  \<open>live_symbol_matches_descriptor\<close> is the argument \<open>live\<close>; a trace whose target is not in the
  plan is a \<open>KeyError\<close>.
\<close>

definition live_ids ::
  "(string \<Rightarrow> trace_code_descriptor \<Rightarrow> bool) \<Rightarrow> (string \<rightharpoonup> string) \<Rightarrow> ('a \<Rightarrow> string) \<Rightarrow>
   ('a \<Rightarrow> trace_code_descriptor) \<Rightarrow> 'a list \<Rightarrow> string list result" where
  "live_ids live symbols key descriptor items =
     bind_result (traverse (\<lambda>x. case symbols (key x) of
         None \<Rightarrow> Inl KeyError
       | Some symbol \<Rightarrow> Inr (if live symbol (descriptor x) then [key x] else [])) items)
       (\<lambda>kept. Inr (concat kept))"

definition reconcile_live_instrumentation ::
  "(string \<Rightarrow> trace_code_descriptor \<Rightarrow> bool) \<Rightarrow> runtime_target_plan \<Rightarrow> prepared_instrumentation \<Rightarrow>
   prepared_instrumentation result" where
  "reconcile_live_instrumentation live plan p =
     (let customer_symbols = (\<lambda>k. map_option ct_customer_value_symbol_id
            (dict_by ct_normal_control_id (rp_customer_values plan) k));
          mutation_symbols = (\<lambda>k. map_option mt_mutation_symbol_id
            (dict_by mt_mutation_node_id (rp_mutations plan) k))
      in bind_result (live_ids live customer_symbols tc_normal_control_id tc_descriptor (pp_customers p)) (\<lambda>customers.
         bind_result (live_ids live mutation_symbols tm_mutation_node_id tm_descriptor (pp_mutations p)) (\<lambda>mutations.
           Inr (restrict_prepared_instrumentation p customers mutations))))"

text \<open>
  \<open>compile_symbol_descriptor\<close> and \<open>compile_mutation_trace_target\<close> are arguments; \<open>None\<close> is the
  \<open>InstrumentationError\<close> (or \<open>StopIteration\<close>) the code catches.
\<close>

definition prepare_customer ::
  "(string \<rightharpoonup> trace_code_descriptor) \<Rightarrow> customer_value_target \<Rightarrow> prepared_instrumentation \<Rightarrow>
   prepared_instrumentation" where
  "prepare_customer compile t p =
     (case compile (ct_customer_value_symbol_id t) of
        None \<Rightarrow> p\<lparr>pp_customer_failures :=
                   (pp_customer_failures p)(ct_normal_control_id t \<mapsto> RC_TARGET_CODE_MISMATCH)\<rparr>
      | Some descriptor \<Rightarrow> p\<lparr>pp_customers := pp_customers p @
          [\<lparr>tc_descriptor = descriptor, tc_normal_control_id = ct_normal_control_id t,
            tc_customer_value_node_id = ct_customer_value_node_id t,
            tc_customer_value_symbol_id = ct_customer_value_symbol_id t\<rparr>]\<rparr>)"

definition prepare_mutation ::
  "safety_graph \<Rightarrow> (graph_node \<Rightarrow> merchant_mutation_kind \<Rightarrow> ingress_binding \<Rightarrow> mutation_trace_target option) \<Rightarrow>
   mutation_target \<Rightarrow> prepared_instrumentation \<Rightarrow> prepared_instrumentation result" where
  "prepare_mutation g compile t p =
     (case dict_by gn_node_id (pg_nodes g) (mt_mutation_node_id t) of
        None \<Rightarrow> Inl KeyError
      | Some node \<Rightarrow> Inr
          (case compile node (mt_mutation_kind t) (mt_ingress t) of
             None \<Rightarrow> p\<lparr>pp_mutation_failures :=
               (pp_mutation_failures p)(mt_mutation_node_id t \<mapsto> RC_MUTATION_INSTRUCTION_UNRESOLVED)\<rparr>
           | Some trace \<Rightarrow> p\<lparr>pp_mutations := pp_mutations p @ [trace]\<rparr>))"

definition prepare_instrumentation ::
  "(string \<rightharpoonup> trace_code_descriptor) \<Rightarrow>
   (graph_node \<Rightarrow> merchant_mutation_kind \<Rightarrow> ingress_binding \<Rightarrow> mutation_trace_target option) \<Rightarrow>
   safety_graph \<Rightarrow> runtime_target_plan \<Rightarrow> prepared_instrumentation result" where
  "prepare_instrumentation compile_symbol compile_mutation g plan =
     foldl (\<lambda>r t. bind_result r (prepare_mutation g compile_mutation t))
       (Inr (foldl (\<lambda>p t. prepare_customer compile_symbol t p)
         \<lparr>pp_customers = [], pp_customer_failures = Map.empty, pp_mutations = [],
          pp_mutation_failures = Map.empty\<rparr> (rp_customer_values plan)))
       (rp_mutations plan)"

section \<open>Freshness of an assessment\<close>

definition runtime_config_fingerprint :: "runtime_config_view option \<Rightarrow> string" where
  "runtime_config_fingerprint config = fingerprint_json (case config of
     None \<Rightarrow> JObj [(''mode'', JStr (runtime_mode_value MODE_STATIC))]
   | Some c \<Rightarrow> rv_dump c)"

definition validate_historical_capability_inputs ::
  "runtime_compatibility \<Rightarrow> runtime_capability_artifact \<Rightarrow> runtime_config_view option \<Rightarrow> source_index \<Rightarrow>
   safety_graph \<Rightarrow> safety_graph \<Rightarrow> applicability_artifact \<Rightarrow> error option" where
  "validate_historical_capability_inputs compatibility a config i structural g ap =
     (if (ra_project_id a, ra_project_source_fingerprint a, ra_source_index_fingerprint a,
          ra_structural_graph_fingerprint a, ra_projected_graph_fingerprint a,
          ra_applicability_fingerprint a, ra_runtime_config_fingerprint a, ra_compatibility a)
       \<noteq> (ix_project_id i, ix_project_source_fingerprint i, ix_source_index_fingerprint i,
          pg_graph_fingerprint structural, pg_graph_fingerprint g,
          ap_applicability_fingerprint ap, runtime_config_fingerprint config, compatibility)
      then Some (ValueError ''historical runtime capability inputs are stale; reassessment is required'')
      else None)"

definition managed_compatibility_reason :: "runtime_compatibility \<Rightarrow> runtime_reason" where
  "managed_compatibility_reason c =
     (if rc_python_implementation c \<noteq> ''CPython'' \<or> \<not> starts_with ''3.11.'' (rc_python_version c)
      then RC_UNSUPPORTED_PYTHON_RUNTIME
      else case (rc_fastapi_version c, rc_starlette_version c, rc_uvicorn_version c) of
        (Some fastapi, Some starlette, Some uvicorn) \<Rightarrow>
          if \<not> starts_with ''0.141.'' fastapi then RC_RUNTIME_VERSION_UNTESTED
          else if \<not> starts_with ''1.6.'' starlette then RC_RUNTIME_VERSION_UNTESTED
          else if \<not> starts_with ''0.52.'' uvicorn then RC_RUNTIME_VERSION_UNTESTED
          else RC_AVAILABLE
      | _ \<Rightarrow> RC_RUNTIME_DEPENDENCY_MISSING)"

section \<open>The capability artifact of a plan\<close>

record route_attachment =
  ra_binding :: ingress_binding
  ra_attached :: bool
  ra_reason :: runtime_reason

definition ingress_assessment ::
  "runtime_target_plan \<Rightarrow> runtime_mode \<Rightarrow> route_attachment list \<Rightarrow> ingress_binding \<Rightarrow> capability_assessment" where
  "ingress_assessment plan mode attachments b = (case mode of
     MODE_STATIC \<Rightarrow> assessment CAP_UNAVAILABLE RC_STATIC_ONLY_CONFIGURED
   | MODE_BYO \<Rightarrow>
       if length (filter (\<lambda>x. ib_method x = ib_method b \<and> ib_effective_path x = ib_effective_path b)
            (rp_ingresses plan)) = 1
       then assessment CAP_PARTIAL RC_CLIENT_RESPONSE_ONLY
       else assessment CAP_UNAVAILABLE RC_RUNTIME_ROUTE_AMBIGUOUS
   | MODE_MANAGED \<Rightarrow>
       (case dict_by (\<lambda>x. ib_ingress_node_id (ra_binding x)) attachments (ib_ingress_node_id b) of
          None \<Rightarrow> assessment CAP_UNAVAILABLE RC_RUNTIME_ROUTE_NOT_FOUND
        | Some x \<Rightarrow> if ra_attached x then assessment CAP_COMPLETE RC_AVAILABLE
                     else assessment CAP_UNAVAILABLE (ra_reason x)))"

definition route_assessments ::
  "runtime_target_plan \<Rightarrow> runtime_mode \<Rightarrow> route_attachment list \<Rightarrow> string \<rightharpoonup> capability_assessment" where
  "route_assessments plan mode attachments k =
     map_option (ingress_assessment plan mode attachments)
       (dict_by ib_ingress_node_id (rp_ingresses plan) k)"

definition route_state :: "(string \<rightharpoonup> capability_assessment) \<Rightarrow> ingress_binding \<Rightarrow> capability_assessment result" where
  "route_state route b =
     (case route (ib_ingress_node_id b) of None \<Rightarrow> Inl KeyError | Some a \<Rightarrow> Inr a)"

definition first_reason :: "capability_assessment \<Rightarrow> runtime_reason" where
  "first_reason a = hd (ca_reasons a)"

definition ingress_capability_of ::
  "runtime_mode \<Rightarrow> (string \<rightharpoonup> capability_assessment) \<Rightarrow> ingress_binding \<Rightarrow> ingress_capability result" where
  "ingress_capability_of mode route b = bind_result (route_state route b) (\<lambda>a. Inr
     \<lparr>ic_binding = b, ic_addressability = a,
      ic_request_correlation =
        (if mode = MODE_MANAGED then a
         else assessment (if ca_state a \<noteq> CAP_UNAVAILABLE then CAP_PARTIAL else CAP_UNAVAILABLE)
           (if mode = MODE_BYO then RC_CLIENT_RESPONSE_ONLY else first_reason a))\<rparr>)"

definition customer_capability_of ::
  "runtime_mode \<Rightarrow> (string \<rightharpoonup> capability_assessment) \<Rightarrow> prepared_instrumentation \<Rightarrow> customer_value_target \<Rightarrow>
   customer_value_capability result" where
  "customer_capability_of mode route p t =
     bind_result (route_state route (ct_ingress t)) (\<lambda>a.
       (let trace = dict_by tc_normal_control_id (pp_customers p) (ct_normal_control_id t);
            failed = (case pp_customer_failures p (ct_normal_control_id t) of
                        None \<Rightarrow> first_reason a | Some r \<Rightarrow> r);
            (state, reason, strength) =
              (if mode \<noteq> MODE_MANAGED
               then (CAP_UNAVAILABLE,
                     if mode = MODE_STATIC then RC_STATIC_ONLY_CONFIGURED
                     else RC_IN_PROCESS_INSTRUMENTATION_UNAVAILABLE, None)
               else case trace of
                 None \<Rightarrow> (CAP_UNAVAILABLE, failed, None)
               | Some x \<Rightarrow>
                   if ca_state a = CAP_UNAVAILABLE then (CAP_UNAVAILABLE, failed, None)
                   else if td_shape (tc_descriptor x) \<in> {SHAPE_GENERATOR, SHAPE_ASYNC_GENERATOR}
                   then (CAP_PARTIAL, RC_ENTRY_ONLY, Some ENTRY_ONLY)
                   else (CAP_COMPLETE, RC_AVAILABLE, Some ENTRY_AND_TERMINAL))
        in construct validate_customer_strength
             \<lparr>cc_target = t, cc_lifecycle = assessment state reason, cc_strength = strength\<rparr>))"

definition mutation_capability_of ::
  "runtime_mode \<Rightarrow> (string \<rightharpoonup> capability_assessment) \<Rightarrow> prepared_instrumentation \<Rightarrow> mutation_target \<Rightarrow>
   mutation_capability result" where
  "mutation_capability_of mode route p t =
     bind_result (route_state route (mt_ingress t)) (\<lambda>a.
       (let available = (mode = MODE_MANAGED \<and> ca_state a \<noteq> CAP_UNAVAILABLE \<and>
              mt_mutation_node_id t \<in> set (map tm_mutation_node_id (pp_mutations p)));
            reason = (if available then RC_AVAILABLE
              else if mode = MODE_STATIC then RC_STATIC_ONLY_CONFIGURED
              else if mode = MODE_BYO then RC_IN_PROCESS_INSTRUMENTATION_UNAVAILABLE
              else (case pp_mutation_failures p (mt_mutation_node_id t) of
                      None \<Rightarrow> first_reason a | Some r \<Rightarrow> r))
        in construct validate_mutation_strength
             \<lparr>mc_target = t,
              mc_assignment = assessment (if available then CAP_COMPLETE else CAP_UNAVAILABLE) reason,
              mc_strength = (if available then Some PYTHON_ASSIGNMENT_INSTRUCTION_COMPLETION else None)\<rparr>))"

definition acknowledgement_capability_of ::
  "runtime_mode \<Rightarrow> (string \<rightharpoonup> capability_assessment) \<Rightarrow> acknowledgement_target \<Rightarrow>
   acknowledgement_capability result" where
  "acknowledgement_capability_of mode route t =
     bind_result (if mode = MODE_STATIC then Inr (assessment CAP_UNAVAILABLE RC_STATIC_ONLY_CONFIGURED)
                  else route_state route (at_ingress t)) (\<lambda>a. Inr
       \<lparr>ac_target = t, ac_timeline =
          (if mode = MODE_MANAGED then a
           else assessment
             (if mode = MODE_BYO \<and> ca_state a \<noteq> CAP_UNAVAILABLE then CAP_PARTIAL else CAP_UNAVAILABLE)
             (if mode = MODE_BYO then RC_CLIENT_RESPONSE_ONLY else RC_STATIC_ONLY_CONFIGURED))\<rparr>)"

definition isolation_of :: "runtime_mode \<Rightarrow> runtime_process_ownership \<Rightarrow> isolation_capability" where
  "isolation_of mode ownership =
     (let owned = (ownership = OWN_STATEGUARD)
      in \<lparr>is_fresh_process =
            (if owned then assessment CAP_COMPLETE RC_AVAILABLE
             else assessment CAP_UNAVAILABLE RC_EXTERNAL_STATE_RESET_UNAVAILABLE),
          is_observation_reset =
            (if mode = MODE_MANAGED \<and> owned then assessment CAP_COMPLETE RC_AVAILABLE
             else assessment CAP_UNAVAILABLE RC_IN_PROCESS_INSTRUMENTATION_UNAVAILABLE),
          is_external_state_reset =
            assessment CAP_UNAVAILABLE RC_EXTERNAL_STATE_RESET_UNAVAILABLE\<rparr>)"

text \<open>The arguments of \<open>build_capability_artifact\<close>, and what the machine says of its packages.\<close>

record capability_inputs =
  ci_session_id :: string
  ci_config :: "runtime_config_view option"
  ci_index :: source_index
  ci_structural_graph :: safety_graph
  ci_graph :: safety_graph
  ci_applicability :: applicability_artifact
  ci_plan :: runtime_target_plan
  ci_prepared :: prepared_instrumentation
  ci_attachments :: "route_attachment list"
  ci_lifecycle :: runtime_lifecycle_state
  ci_ownership :: runtime_process_ownership
  ci_diagnostics :: "runtime_diagnostic list"
  ci_compatibility :: runtime_compatibility

definition configured_mode :: "runtime_config_view option \<Rightarrow> runtime_mode" where
  "configured_mode config = (case config of None \<Rightarrow> MODE_STATIC | Some c \<Rightarrow> rv_mode c)"

definition capability_draft ::
  "capability_inputs \<Rightarrow> ingress_capability list \<Rightarrow> customer_value_capability list \<Rightarrow>
   mutation_capability list \<Rightarrow> acknowledgement_capability list \<Rightarrow> runtime_capability_artifact" where
  "capability_draft x ingresses customers mutations acknowledgements =
     (let mode = configured_mode (ci_config x)
      in \<lparr>ra_project_id = ix_project_id (ci_index x),
          ra_project_source_fingerprint = ix_project_source_fingerprint (ci_index x),
          ra_source_index_fingerprint = ix_source_index_fingerprint (ci_index x),
          ra_structural_graph_fingerprint = pg_graph_fingerprint (ci_structural_graph x),
          ra_projected_graph_fingerprint = pg_graph_fingerprint (ci_graph x),
          ra_applicability_fingerprint = ap_applicability_fingerprint (ci_applicability x),
          ra_runtime_config_fingerprint = runtime_config_fingerprint (ci_config x),
          ra_assessment_session_id = ci_session_id x, ra_mode = runtime_mode_value mode,
          ra_ownership = ci_ownership x, ra_lifecycle = ci_lifecycle x,
          ra_compatibility = ci_compatibility x, ra_ingresses = ingresses,
          ra_customer_values = customers, ra_mutations = mutations,
          ra_acknowledgements = acknowledgements, ra_isolation = isolation_of mode (ci_ownership x),
          ra_diagnostics = ci_diagnostics x, ra_capability_fingerprint = []\<rparr>)"

definition build_capability_artifact :: "capability_inputs \<Rightarrow> runtime_capability_artifact result" where
  "build_capability_artifact x =
     (let mode = configured_mode (ci_config x); plan = ci_plan x;
          route = route_assessments plan mode (ci_attachments x)
      in bind_result (traverse (ingress_capability_of mode route) (rp_ingresses plan)) (\<lambda>ingresses.
         bind_result (traverse (customer_capability_of mode route (ci_prepared x)) (rp_customer_values plan)) (\<lambda>customers.
         bind_result (traverse (mutation_capability_of mode route (ci_prepared x)) (rp_mutations plan)) (\<lambda>mutations.
         bind_result (traverse (acknowledgement_capability_of mode route) (rp_acknowledgements plan)) (\<lambda>acknowledgements.
           (let draft = capability_draft x ingresses customers mutations acknowledgements
            in construct validate_capability_artifact
                 (draft\<lparr>ra_capability_fingerprint := runtime_capability_fingerprint draft\<rparr>)))))))"

section \<open>A plan is always assessed\<close>

lemma assessment_sel [simp]:
  "ca_state (assessment s r) = s" "ca_reasons (assessment s r) = [r]"
  by (simp_all add: assessment_def)

lemma capability_fingerprint_update [simp]:
  "runtime_capability_fingerprint (a\<lparr>ra_capability_fingerprint := f\<rparr>) = runtime_capability_fingerprint a"
  by (simp add: runtime_capability_fingerprint_def)

lemma capability_draft_sel [simp]:
  "ra_ingresses (capability_draft x ins cs ms ks) = ins"
  "ra_customer_values (capability_draft x ins cs ms ks) = cs"
  "ra_mutations (capability_draft x ins cs ms ks) = ms"
  "ra_acknowledgements (capability_draft x ins cs ms ks) = ks"
  "ra_mode (capability_draft x ins cs ms ks) = runtime_mode_value (configured_mode (ci_config x))"
  "ra_lifecycle (capability_draft x ins cs ms ks) = ci_lifecycle x"
  "ra_isolation (capability_draft x ins cs ms ks) = isolation_of (configured_mode (ci_config x)) (ci_ownership x)"
  by (simp_all add: capability_draft_def Let_def)

lemma route_state_total:
  assumes "wf_plan plan" and "b \<in> set (rp_ingresses plan)"
  shows "route_state (route_assessments plan mode attachments) b
       = Inr (ingress_assessment plan mode attachments b)"
  using plan_nodes.lookup_record[OF assms] by (simp add: route_state_def route_assessments_def)

lemma ingress_capability_total:
  assumes "wf_plan plan" and "b \<in> set (rp_ingresses plan)"
  shows "\<exists>c. ingress_capability_of mode (route_assessments plan mode attachments) b = Inr c \<and> ic_binding c = b \<and>
           ic_addressability c = ingress_assessment plan mode attachments b \<and>
           (mode = MODE_MANAGED \<longrightarrow> ic_request_correlation c = ic_addressability c)"
  by (simp add: ingress_capability_of_def route_state_total[OF assms])

lemma customer_capability_total:
  assumes "wf_plan plan" and "ct_ingress t \<in> set (rp_ingresses plan)"
  shows "\<exists>c. customer_capability_of mode (route_assessments plan mode attachments) p t = Inr c \<and> cc_target c = t"
  by (auto simp: customer_capability_of_def route_state_total[OF assms] Let_def validate_customer_strength_def
      split: option.splits)

lemma mutation_capability_total:
  assumes "wf_plan plan" and "mt_ingress t \<in> set (rp_ingresses plan)"
  shows "\<exists>c. mutation_capability_of mode (route_assessments plan mode attachments) p t = Inr c \<and> mc_target c = t"
  by (auto simp: mutation_capability_of_def route_state_total[OF assms] Let_def validate_mutation_strength_def)

lemma acknowledgement_capability_total:
  assumes "wf_plan plan" and "at_ingress t \<in> set (rp_ingresses plan)"
  shows "\<exists>c. acknowledgement_capability_of mode (route_assessments plan mode attachments) t = Inr c \<and> ac_target c = t"
  by (simp add: acknowledgement_capability_of_def route_state_total[OF assms])

lemma traverse_mapped:
  assumes "\<And>x. x \<in> set xs \<Longrightarrow> \<exists>y. f x = Inr y \<and> k y = x"
  shows "\<exists>ys. traverse f xs = Inr ys \<and> map k ys = xs"
proof -
  have "\<exists>g. \<forall>x \<in> set xs. f x = Inr (g x) \<and> k (g x) = x" using assms by metis
  then obtain g where g: "\<And>x. x \<in> set xs \<Longrightarrow> f x = Inr (g x)" "\<And>x. x \<in> set xs \<Longrightarrow> k (g x) = x"
    by blast
  have "traverse f xs = Inr (map g xs)" by (rule traverse_total) (rule g)
  moreover have "map k (map g xs) = xs" using g(2) by (simp add: map_idI)
  ultimately show ?thesis by blast
qed

text \<open>An artifact over the bindings and targets of a well-formed plan is accepted.\<close>

lemma capability_artifact_accepted:
  assumes "wf_plan plan" and "map ic_binding (ra_ingresses a) = rp_ingresses plan"
    and "map cc_target (ra_customer_values a) = rp_customer_values plan"
    and "map mc_target (ra_mutations a) = rp_mutations plan"
    and "map ac_target (ra_acknowledgements a) = rp_acknowledgements plan"
    and "ra_capability_fingerprint a = runtime_capability_fingerprint a"
  shows "validate_capability_artifact a = None"
proof -
  have keys: "inj_on binding_key (set (rp_ingresses plan))" "distinct (rp_ingresses plan)"
    using assms(1) unfolding wf_plan_def binding_key_def by (auto simp: distinct_map inj_on_def)
  have keyed: "distinct (map binding_key (rp_ingresses plan))"
    using keys by (simp add: distinct_map)
  have lookup: "uses_assessed_binding a b" if "b \<in> set (rp_ingresses plan)" for b
  proof -
    obtain b' where b': "dict_by binding_key (rp_ingresses plan) (binding_key b) = Some b'"
      "b' \<in> set (rp_ingresses plan)" "binding_key b' = binding_key b"
      by (rule dict_by_key_in[OF \<open>b \<in> set (rp_ingresses plan)\<close>, of binding_key])
    then show ?thesis using keys(1) that
      by (auto simp: uses_assessed_binding_def assessed_bindings_def assms(2) dest: inj_onD)
  qed
  have targets: "target_ingresses a = target_bindings plan"
    unfolding target_ingresses_def target_bindings_def assms(3-5)[symmetric] by simp
  have "map (binding_key \<circ> ic_binding) (ra_ingresses a) = map binding_key (rp_ingresses plan)"
    "map (ct_normal_control_id \<circ> cc_target) (ra_customer_values a) = map ct_normal_control_id (rp_customer_values plan)"
    "map (mt_mutation_node_id \<circ> mc_target) (ra_mutations a) = map mt_mutation_node_id (rp_mutations plan)"
    "map (at_acknowledgement_node_id \<circ> ac_target) (ra_acknowledgements a) = map at_acknowledgement_node_id (rp_acknowledgements plan)"
    unfolding assms(2-5)[symmetric] by simp_all
  then show ?thesis
    unfolding validate_capability_artifact_def targets
    using keyed lookup assms(1,6) by (auto simp: wf_plan_def list_all_iff)
qed

lemma capability_total:
  assumes "wf_plan (ci_plan x)"
  shows "\<exists>a. build_capability_artifact x = Inr a \<and> validate_capability_artifact a = None \<and>
    map ic_binding (ra_ingresses a) = rp_ingresses (ci_plan x) \<and>
    map cc_target (ra_customer_values a) = rp_customer_values (ci_plan x) \<and>
    map mc_target (ra_mutations a) = rp_mutations (ci_plan x) \<and>
    map ac_target (ra_acknowledgements a) = rp_acknowledgements (ci_plan x)"
proof -
  let ?mode = "configured_mode (ci_config x)" and ?plan = "ci_plan x"
  let ?route = "route_assessments ?plan ?mode (ci_attachments x)"
  have sub: "ct_ingress ` set (rp_customer_values ?plan) \<subseteq> set (rp_ingresses ?plan)"
    "mt_ingress ` set (rp_mutations ?plan) \<subseteq> set (rp_ingresses ?plan)"
    "at_ingress ` set (rp_acknowledgements ?plan) \<subseteq> set (rp_ingresses ?plan)"
    using assms by (auto simp: wf_plan_def target_bindings_def)
  obtain ics where i: "traverse (ingress_capability_of ?mode ?route) (rp_ingresses ?plan) = Inr ics"
    "map ic_binding ics = rp_ingresses ?plan"
    using traverse_mapped[of "rp_ingresses ?plan" "ingress_capability_of ?mode ?route" ic_binding]
      ingress_capability_total[OF assms] by blast
  obtain cs where c: "traverse (customer_capability_of ?mode ?route (ci_prepared x)) (rp_customer_values ?plan) = Inr cs"
    "map cc_target cs = rp_customer_values ?plan"
    using traverse_mapped[of "rp_customer_values ?plan" "customer_capability_of ?mode ?route (ci_prepared x)" cc_target]
      customer_capability_total[OF assms] sub(1) by blast
  obtain ms where m: "traverse (mutation_capability_of ?mode ?route (ci_prepared x)) (rp_mutations ?plan) = Inr ms"
    "map mc_target ms = rp_mutations ?plan"
    using traverse_mapped[of "rp_mutations ?plan" "mutation_capability_of ?mode ?route (ci_prepared x)" mc_target]
      mutation_capability_total[OF assms] sub(2) by blast
  obtain as where k: "traverse (acknowledgement_capability_of ?mode ?route) (rp_acknowledgements ?plan) = Inr as"
    "map ac_target as = rp_acknowledgements ?plan"
    using traverse_mapped[of "rp_acknowledgements ?plan" "acknowledgement_capability_of ?mode ?route" ac_target]
      acknowledgement_capability_total[OF assms] sub(3) by blast
  show ?thesis
    by (simp add: build_capability_artifact_def Let_def i(1) c(1) m(1) k(1) i(2) c(2) m(2) k(2)
        capability_artifact_accepted[OF assms])
qed

end
