(* ===== verification/PlanAgreement.thy ===== *)
theory PlanAgreement
  imports EngineProperties RuntimeSafety
begin

text \<open>
  The applicability engine and the runtime planner together.  Both read the mutations of the
  trust scenarios out of the safety graph, the engine to justify an assertion and the planner to
  refuse an artifact whose evidence is not exactly theirs; the lemmas show that the two readings
  agree, so that the artifact of the engine is never refused on the graph it was computed from.
\<close>

section \<open>Graphs as the graph construction leaves them\<close>

definition ingress_route :: "graph_node \<Rightarrow> string option" where
  "ingress_route n = map_option (\<lambda>d. er_route_registration_id (pi_registration d)) (as_ingress n)"

definition ingress_routes :: "safety_graph \<Rightarrow> string list" where
  "ingress_routes g = List.map_filter ingress_route (pg_nodes g)"

text \<open>A matched branch carries states of the gate it leaves.\<close>

definition branch_within_gate :: "safety_graph \<Rightarrow> graph_edge \<Rightarrow> bool" where
  "branch_within_gate g e = (case Option.bind (graph_lookup g (ge_source_node_id e)) as_state_gate of
     None \<Rightarrow> True
   | Some d \<Rightarrow> list_all (\<lambda>s. s \<in> set (map (remove_prefix ''payment.'') (sg_states d))) (branch_states e))"

text \<open>
  What the construction of a graph leaves behind: every node passed its validator, and matched
  branches stay within the states of their gate.
\<close>

definition well_built :: "safety_graph \<Rightarrow> bool" where
  "well_built g \<longleftrightarrow>
     list_all (\<lambda>n. validate_node n = None) (pg_nodes g) \<and>
     list_all (\<lambda>e. \<not> matched_branch e \<or> branch_within_gate g e) (pg_edges g)"

text \<open>
  The exact routes a plan needs from the graph alone: one ingress per route registration, each
  with a binding that can be built, and an ingress for the route of every mutation and of every
  acknowledgement.
\<close>

definition routable :: "safety_graph \<Rightarrow> bool" where
  "routable g \<longleftrightarrow>
     distinct (ingress_routes g) \<and>
     list_all (\<lambda>n. gn_kind n \<noteq> PAYMENT_INGRESS \<or> \<not> isl (binding_of n)) (pg_nodes g) \<and>
     list_all (\<lambda>e. mm_route_registration_id (snd e) \<in> set (ingress_routes g)) (mutation_nodes g) \<and>
     list_all (\<lambda>e. ab_route_registration_id (snd e) \<in> set (ingress_routes g)) (acknowledgement_nodes g)"

definition plannable :: "safety_graph \<Rightarrow> bool" where
  "plannable g \<longleftrightarrow> well_built g \<and> routable g"

lemmas plannable_defs = plannable_def well_built_def routable_def

lemma valid_node_kind:
  assumes "validate_node n = None"
  shows "gn_backing_symbol_id n \<noteq> None"
    and "gn_kind n = PAYMENT_INGRESS \<longleftrightarrow> as_ingress n \<noteq> None"
    and "gn_kind n = PAYMENT_STATE_GATE \<longleftrightarrow> as_state_gate n \<noteq> None"
    and "gn_kind n = PAYMENT_STATE_GATE \<Longrightarrow> route_id_for_node n = map_option sg_route_registration_id (as_state_gate n)"
  using assms
  by (cases "gn_kind n"; auto simp: validate_node_def as_ingress_def as_state_gate_def route_id_for_node_def
      split: if_splits option.splits node_details.splits)+

lemma as_mutation_iff: "as_mutation n = Some d \<longleftrightarrow> gn_details n = Some (MerchantStateMutationDetails d)"
  by (auto simp: as_mutation_def split: option.splits node_details.splits)

lemma as_state_gate_iff: "as_state_gate n = Some d \<longleftrightarrow> gn_details n = Some (PaymentStateGateDetails d)"
  by (auto simp: as_state_gate_def split: option.splits node_details.splits)

lemma as_trust_gate_iff: "as_trust_gate n = Some d \<longleftrightarrow> gn_details n = Some (TrustGateDetails d)"
  by (auto simp: as_trust_gate_def split: option.splits node_details.splits)

lemma graph_lookup_member:
  "valid_graph g \<Longrightarrow> n \<in> set (pg_nodes g) \<Longrightarrow> graph_lookup g (gn_node_id n) = Some n"
  unfolding graph_lookup_def by (rule graph_nodes.lookup_record)

lemma map_filter_filter:
  "(\<And>x. x \<in> set xs \<Longrightarrow> P x \<longleftrightarrow> f x \<noteq> None) \<Longrightarrow> List.map_filter f xs = map (\<lambda>x. the (f x)) (filter P xs)"
  by (induction xs) (auto simp: map_filter_simps split: option.splits)

section \<open>The ingress bindings\<close>

lemma ingress_binding_routes:
  assumes nodes: "\<And>n. n \<in> set (pg_nodes g) \<Longrightarrow> validate_node n = None"
    and raw: "traverse binding_of (filter (\<lambda>n. gn_kind n = PAYMENT_INGRESS) (pg_nodes g)) = Inr raw"
  shows "map ib_route_registration_id raw = ingress_routes g"
proof -
  have route: "ib_route_registration_id b = the (ingress_route n)" if "binding_of n = Inr b" for n b
    using binding_of_Inr(3)[OF that] by (auto simp: ingress_route_def as_ingress_def)
  have "map ib_route_registration_id raw =
      map (\<lambda>n. the (ingress_route n)) (filter (\<lambda>n. gn_kind n = PAYMENT_INGRESS) (pg_nodes g))"
    by (rule traverse_map_key[OF raw]) (rule route)
  also have "\<dots> = ingress_routes g"
    unfolding ingress_routes_def
    by (rule map_filter_filter[symmetric]) (use nodes valid_node_kind(2) in \<open>auto simp: ingress_route_def\<close>)
  finally show ?thesis .
qed

lemma plan_ingresses_total:
  assumes "valid_graph g" and p: "plannable g"
  shows "\<exists>bs. plan_ingresses g = Inr bs \<and>
    (\<forall>n \<in> set (pg_nodes g). \<forall>d. as_ingress n = Some d \<longrightarrow>
       (\<exists>b. dict_by ib_ingress_node_id bs (gn_node_id n) = Some b \<and>
            ib_route_registration_id b = er_route_registration_id (pi_registration d))) \<and>
    (\<forall>r \<in> set (ingress_routes g). \<exists>b. dict_by ib_route_registration_id bs r = Some b)"
proof -
  let ?ns = "filter (\<lambda>n. gn_kind n = PAYMENT_INGRESS) (pg_nodes g)"
  have nodes: "validate_node n = None" if "n \<in> set (pg_nodes g)" for n
    using p that by (auto simp: plannable_defs list_all_iff)
  have "\<exists>b. binding_of n = Inr b" if "n \<in> set ?ns" for n
    using p that by (cases "binding_of n") (auto simp: plannable_defs list_all_iff)
  then obtain raw where raw: "traverse binding_of ?ns = Inr raw"
    using traverse_exists by metis
  have route: "ib_route_registration_id b = the (ingress_route n)" if "binding_of n = Inr b" for n b
    using binding_of_Inr(3)[OF that] by (auto simp: ingress_route_def as_ingress_def)
  have routes: "map ib_route_registration_id raw = ingress_routes g"
    by (rule ingress_binding_routes[OF _ raw]) (rule nodes)
  let ?bs = "sort_key (\<lambda>b. [ib_route_registration_id b, ib_ingress_node_id b]) raw"
  have "distinct (map ib_route_registration_id ?bs)"
    unfolding distinct_map_sort_key routes using p by (simp add: plannable_defs)
  then have bs: "plan_ingresses g = Inr ?bs" by (simp add: plan_ingresses_def raw Let_def)
  have "\<exists>b. dict_by ib_ingress_node_id ?bs (gn_node_id n) = Some b \<and>
        ib_route_registration_id b = er_route_registration_id (pi_registration d)"
    if n: "n \<in> set (pg_nodes g)" and d: "as_ingress n = Some d" for n d
  proof -
    have "gn_kind n = PAYMENT_INGRESS" using valid_node_kind(2)[OF nodes[OF n]] d by simp
    then obtain b where b: "b \<in> set ?bs" "binding_of n = Inr b"
      using plan_ingresses_facts(4)[OF bs n] by blast
    have "distinct (map ib_ingress_node_id ?bs)" by (rule plan_ingresses_facts(2)[OF bs assms(1)])
    then have "dict_by ib_ingress_node_id ?bs (ib_ingress_node_id b) = Some b"
      using dict_by_distinct b(1) by metis
    then show ?thesis using binding_of_Inr(1)[OF b(2)] route[OF b(2)] d by (simp add: ingress_route_def)
  qed
  moreover have "\<exists>b. dict_by ib_route_registration_id ?bs r = Some b" if "r \<in> set (ingress_routes g)" for r
  proof -
    have "r \<in> ib_route_registration_id ` set ?bs" using that unfolding routes[symmetric] by simp
    then show ?thesis by (metis dict_by_eq_None not_Some_eq)
  qed
  ultimately show ?thesis using bs by blast
qed

section \<open>The two readings of the trust mutations\<close>

lemma targets_of_route:
  assumes "traverse (mutation_target_of bs) (mutation_nodes g) = Inr ms"
  shows "set (route_mutations_of ms r) = {gn_node_id n | n d. n \<in> set (pg_nodes g) \<and> as_mutation n = Some d \<and>
           mm_route_registration_id d = r}"
proof -
  have fits: "mt_mutation_node_id m = gn_node_id (fst e) \<and>
      ib_route_registration_id (mt_ingress m) = mm_route_registration_id (snd e)"
    if "mutation_target_of bs e = Inr m" for e m
    using that by (auto simp: mutation_target_of_def dest: dict_by_SomeD split: option.splits prod.splits)
  have pairs: "list_all2 (\<lambda>e m. mutation_target_of bs e = Inr m) (mutation_nodes g) ms"
    using assms by (simp add: traverse_Inr_iff)
  show ?thesis
  proof (intro set_eqI iffI)
    fix k assume "k \<in> set (route_mutations_of ms r)"
    then obtain m where "m \<in> set ms" "ib_route_registration_id (mt_ingress m) = r" "k = mt_mutation_node_id m"
      by (auto simp: route_mutations_of_def)
    moreover from this(1) obtain e where "e \<in> set (mutation_nodes g)" "mutation_target_of bs e = Inr m"
      using list_all2_member2[OF pairs] by blast
    ultimately show "k \<in> {gn_node_id n | n d. n \<in> set (pg_nodes g) \<and> as_mutation n = Some d \<and>
           mm_route_registration_id d = r}"
      using fits by (cases e) (auto simp: set_mutation_nodes as_mutation_iff)
  next
    fix k assume "k \<in> {gn_node_id n | n d. n \<in> set (pg_nodes g) \<and> as_mutation n = Some d \<and>
           mm_route_registration_id d = r}"
    then obtain n d where "(n, d) \<in> set (mutation_nodes g)" "mm_route_registration_id d = r" "k = gn_node_id n"
      by (auto simp: set_mutation_nodes as_mutation_iff)
    moreover from this(1) obtain m where "m \<in> set ms" "mutation_target_of bs (n, d) = Inr m"
      using list_all2_member1[OF pairs] by blast
    ultimately show "k \<in> set (route_mutations_of ms r)"
      using fits by (force simp: route_mutations_of_def)
  qed
qed

lemma list_ex_image: "list_ex (\<lambda>x. f x = c) xs \<longleftrightarrow> c \<in> f ` set xs"
  by (auto simp: list_ex_iff)

lemma captured_states_iff:
  "list_ex captured_state xs \<longleftrightarrow> ''captured'' \<in> set (map (remove_prefix ''payment.'') xs)"
  by (simp only: captured_state_def[abs_def] list_ex_image set_map)

lemma matched_captured_branch_iff: "matched_captured_branch e \<longleftrightarrow> matched_branch e \<and> captured_branch e"
  unfolding matched_captured_branch_def matched_branch_def captured_branch_def branch_states_def
    captured_states_iff
  by (cases "ge_branch e") (simp_all only: option.case simp_thms list.set empty_iff conj_assoc)

text \<open>The source of a branch is a state gate with details.\<close>

lemma branch_source:
  assumes "valid_graph g" and "plannable g" and "e \<in> set (pg_edges g)" and "ge_kind e = BRANCHES_TO"
  shows "\<exists>n d. graph_lookup g (ge_source_node_id e) = Some n \<and> n \<in> set (pg_nodes g) \<and>
    as_state_gate n = Some d \<and> route_id_for_node n = Some (sg_route_registration_id d)"
proof -
  obtain source target where st: "source \<in> set (pg_nodes g)" "gn_node_id source = ge_source_node_id e"
    "target \<in> set (pg_nodes g)" "gn_node_id target = ge_target_node_id e"
    "validate_edge_kinds (ge_kind e) (gn_kind source) (gn_kind target) = None"
    using assms(1,3) by (rule valid_graph_endpoints)
  have valid: "validate_node source = None" using assms(2) st(1) by (auto simp: plannable_defs list_all_iff)
  have kind: "gn_kind source = PAYMENT_STATE_GATE"
    using st(5) assms(4) by (auto simp: validate_edge_kinds_def split: if_splits)
  then obtain d where "as_state_gate source = Some d" using valid_node_kind(3)[OF valid] by auto
  then show ?thesis
    using valid_node_kind(4)[OF valid kind] graph_lookup_member[OF assms(1) st(1)] st by auto
qed

text \<open>The route of the state gate a branch leaves, as the planner reads it.\<close>

definition gate_on_route :: "safety_graph \<Rightarrow> string \<Rightarrow> graph_edge \<Rightarrow> bool" where
  "gate_on_route g r e \<longleftrightarrow>
     (case dict_by gn_node_id (pg_nodes g) (ge_source_node_id e) of
        Some source \<Rightarrow> (case gn_details source of
            Some (PaymentStateGateDetails d) \<Rightarrow> sg_route_registration_id d = r | _ \<Rightarrow> False)
      | None \<Rightarrow> False)"

lemma gate_on_route_iff:
  "gate_on_route g r e \<longleftrightarrow> (\<exists>n d. graph_lookup g (ge_source_node_id e) = Some n \<and>
     as_state_gate n = Some d \<and> sg_route_registration_id d = r)"
  by (auto simp: gate_on_route_def graph_lookup_def as_state_gate_def split: option.splits node_details.splits)

lemma gate_on_route_source:
  assumes "valid_graph g" and "plannable g" and "e \<in> set (pg_edges g)" and "matched_branch e"
  shows "gate_on_route g r e \<longleftrightarrow> source_route (graph_lookup g) e = Some r"
  using branch_source[OF assms(1-3)] assms(4)
  by (auto simp: gate_on_route_iff source_route_def matched_branch_def)

lemma set_planned_gate_ids:
  "set (planned_gate_ids g control r) = {ge_source_node_id e | e. e \<in> set (pg_edges g) \<and>
     matched_captured_branch e \<and> gate_on_route g r e \<and>
     (\<forall>c. control = Some c \<longrightarrow> ge_target_node_id e = nc_customer_value_node_id c)}"
  by (cases control) (auto simp: planned_gate_ids_def gate_on_route_def[symmetric])

text \<open>On a branch from a gate of the route the engine and the planner select the same gates.\<close>

lemma gates_agree:
  assumes g: "valid_graph g" "plannable g"
    and e: "e \<in> set (pg_edges g)" "matched_branch e" "captured_branch e"
    and control: "\<And>c. control = Some c \<Longrightarrow> nc_route_registration_id c = r"
  shows "ge_source_node_id e \<in> Engine.captured_gate_ids g r control \<longleftrightarrow>
         ge_source_node_id e \<in> set (planned_gate_ids g control r)"
proof (cases control)
  case (Some c)
  have "matched_captured_branch x \<and> gate_on_route g r x \<longleftrightarrow>
      matched_branch x \<and> captured_branch x \<and> source_route (graph_lookup g) x = Some r"
    if "x \<in> set (pg_edges g)" for x
    using gate_on_route_source[OF g that] by (auto simp: matched_captured_branch_iff)
  then show ?thesis
    using Some control[OF Some]
    by (auto simp: set_planned_gate_ids captured_gate_ids_def captured_control_edges_def control_state_edges_def)
next
  case None
  have branch: "ge_kind e = BRANCHES_TO" using e(2) by (simp add: matched_branch_def)
  then obtain n d where n: "graph_lookup g (ge_source_node_id e) = Some n" "n \<in> set (pg_nodes g)"
    "as_state_gate n = Some d"
    using branch_source[OF g e(1)] by blast
  have id: "gn_node_id n = ge_source_node_id e" by (rule graph_lookup_Some(2)[OF n(1)])
  have "branch_within_gate g e" using g(2) e(1,2) by (auto simp: plannable_defs list_all_iff)
  then have covered: "''captured'' \<in> set (map (remove_prefix ''payment.'') (sg_states d))"
    using e(3) n by (auto simp: branch_within_gate_def captured_branch_def list_all_iff)
  have "ge_source_node_id e \<in> Engine.captured_gate_ids g r None \<longleftrightarrow> sg_route_registration_id d = r"
  proof
    assume "ge_source_node_id e \<in> Engine.captured_gate_ids g r None"
    then obtain m where m: "m \<in> set (pg_nodes g)" "gn_node_id m = ge_source_node_id e"
      "''captured'' \<in> set (gate_states m r)"
      by (auto simp: captured_gate_ids_def)
    then have "m = n" using graph_lookup_member[OF g(1) m(1)] n(1) by simp
    then show "sg_route_registration_id d = r" using m(3) n(3) by (auto simp: gate_states_def split: if_splits)
  next
    assume "sg_route_registration_id d = r"
    then show "ge_source_node_id e \<in> Engine.captured_gate_ids g r None"
      using n id covered by (force simp: captured_gate_ids_def gate_states_def)
  qed
  moreover have "ge_source_node_id e \<in> set (planned_gate_ids g None r) \<longleftrightarrow> sg_route_registration_id d = r"
    unfolding set_planned_gate_ids using e n(1,3) by (auto simp: gate_on_route_iff matched_captured_branch_iff)
  ultimately show ?thesis using None by simp
qed

lemma image_of_lookup:
  assumes "\<And>k m. look k = Some m \<Longrightarrow> key m = k"
  shows "{t e | e. P e \<and> (\<exists>m. look (t e) = Some m \<and> Q m)} = key ` {m. \<exists>e. P e \<and> look (t e) = Some m \<and> Q m}"
  using assms by (fastforce simp: image_iff)

definition on_route :: "string \<Rightarrow> graph_node \<Rightarrow> bool" where
  "on_route r m = (case as_mutation m of None \<Rightarrow> False | Some x \<Rightarrow> mm_route_registration_id x = r)"

lemma on_route_lookup:
  "(case Option.bind look as_mutation of None \<Rightarrow> False | Some x \<Rightarrow> mm_route_registration_id x = r)
     \<longleftrightarrow> (case look of None \<Rightarrow> False | Some m \<Rightarrow> on_route r m)"
  by (cases look) (simp_all add: on_route_def)

lemma set_captured_path_mutations:
  assumes "as_ingress n = Some d" and "er_route_registration_id (pi_registration d) = r"
    and "pi_ingress_kind d = WEBHOOK" and "er_method (pi_registration d) = ''POST''"
  shows "set (captured_path_mutations g n control) =
    {m. \<exists>e. e \<in> set (pg_edges g) \<and> matched_branch e \<and> captured_branch e \<and>
       ge_source_node_id e \<in> Engine.captured_gate_ids g r control \<and>
       graph_lookup g (ge_target_node_id e) = Some m \<and> on_route r m}"
proof -
  have "m \<in> set (captured_path_mutations g n control) \<longleftrightarrow>
     (\<exists>e. e \<in> set (pg_edges g) \<and> matched_branch e \<and> captured_branch e \<and>
       ge_source_node_id e \<in> Engine.captured_gate_ids g r control \<and>
       graph_lookup g (ge_target_node_id e) = Some m \<and> on_route r m)" (is "_ \<longleftrightarrow> ?R") for m
  proof
    assume "m \<in> set (captured_path_mutations g n control)"
    then obtain e where "e \<in> set (pg_edges g)" "matched_branch e" "captured_branch e"
      "ge_source_node_id e \<in> Engine.captured_gate_ids g r control"
      "case graph_lookup g (ge_target_node_id e) of None \<Rightarrow> False | Some m \<Rightarrow> on_route r m"
      "graph_lookup g (ge_target_node_id e) = Some m"
      by (auto simp: captured_path_mutations_def assms Let_def in_set_map_filter on_route_lookup)
    then show ?R by auto
  next
    assume ?R
    then obtain e where e: "e \<in> set (pg_edges g)" "matched_branch e" "captured_branch e"
      "ge_source_node_id e \<in> Engine.captured_gate_ids g r control"
      "graph_lookup g (ge_target_node_id e) = Some m" "on_route r m"
      by (elim exE conjE)
    show "m \<in> set (captured_path_mutations g n control)"
      unfolding captured_path_mutations_def assms(1) option.case Let_def assms(2-4)
        if_False simp_thms set_canonical_order in_set_map_filter set_remdups set_map set_filter
      by (rule bexI[of _ "ge_target_node_id e"], rule e(5), rule imageI)
        (simp add: e on_route_lookup)
  qed
  then show ?thesis by blast
qed

lemma sg05_agree:
  assumes g: "valid_graph g" "plannable g"
    and ms: "traverse (mutation_target_of bs) (mutation_nodes g) = Inr ms"
    and d: "as_ingress n = Some d" "er_route_registration_id (pi_registration d) = r"
    and control: "\<And>c. control = Some c \<Longrightarrow> nc_route_registration_id c = r"
    and some: "captured_path_mutations g n control \<noteq> []"
  shows "set (sg05_expected g control r (route_mutations_of ms r))
       = gn_node_id ` set (captured_path_mutations g n control)"
proof -
  have post: "pi_ingress_kind d = WEBHOOK" "er_method (pi_registration d) = ''POST''"
    using some d(1) by (simp_all add: captured_path_mutations_def split: if_splits)
  define chosen where "chosen e \<longleftrightarrow> e \<in> set (pg_edges g) \<and> matched_branch e \<and> captured_branch e \<and>
      ge_source_node_id e \<in> Engine.captured_gate_ids g r control" for e
  have mutation: "k \<in> set (route_mutations_of ms r) \<longleftrightarrow> (\<exists>m. graph_lookup g k = Some m \<and> on_route r m)"
    (is "?L \<longleftrightarrow> ?R") for k
  proof
    assume ?L
    then obtain m x where m: "m \<in> set (pg_nodes g)" "k = gn_node_id m" "as_mutation m = Some x"
        "mm_route_registration_id x = r"
      unfolding targets_of_route[OF ms] by blast
    then have "graph_lookup g k = Some m" using graph_lookup_member[OF g(1)] by simp
    moreover have "on_route r m" using m(3,4) by (simp add: on_route_def)
    ultimately show ?R by blast
  next
    assume ?R
    then obtain m where m: "graph_lookup g k = Some m" "on_route r m" by blast
    obtain x where "as_mutation m = Some x" "mm_route_registration_id x = r"
      using m(2) by (simp add: on_route_def split: option.splits)
    then show ?L
      unfolding targets_of_route[OF ms] using graph_lookup_Some[OF m(1)] by blast
  qed
  have member: "chosen e \<longleftrightarrow> e \<in> set (pg_edges g) \<and> matched_captured_branch e \<and>
      ge_source_node_id e \<in> set (planned_gate_ids g control r)" for e
  proof (cases "e \<in> set (pg_edges g) \<and> matched_branch e \<and> captured_branch e")
    case True
    then have "ge_source_node_id e \<in> Engine.captured_gate_ids g r control \<longleftrightarrow>
        ge_source_node_id e \<in> set (planned_gate_ids g control r)"
      using gates_agree[OF g, of e control r] control by simp
    then show ?thesis using True by (simp add: chosen_def matched_captured_branch_iff)
  next
    case False
    then show ?thesis by (simp only: chosen_def matched_captured_branch_iff) argo
  qed
  have "set (sg05_expected g control r (route_mutations_of ms r)) =
      {ge_target_node_id e | e. chosen e \<and> (\<exists>m. graph_lookup g (ge_target_node_id e) = Some m \<and> on_route r m)}"
    unfolding sg05_expected_def Let_def set_map set_filter mutation member by blast
  also have "\<dots> = gn_node_id ` {m. \<exists>e. chosen e \<and> graph_lookup g (ge_target_node_id e) = Some m \<and> on_route r m}"
    by (rule image_of_lookup[where look = "graph_lookup g"]) (rule graph_lookup_Some(2))
  also have "\<dots> = gn_node_id ` set (captured_path_mutations g n control)"
    unfolding set_captured_path_mutations[OF d post] chosen_def conj_assoc ..
  finally show ?thesis .
qed

lemma sg06_agree:
  assumes g: "valid_graph g" and ms: "traverse (mutation_target_of bs) (mutation_nodes g) = Inr ms"
    and d: "as_ingress n = Some d" "er_route_registration_id (pi_registration d) = r"
  shows "\<exists>xs. sg06_expected g r (route_mutations_of ms r) = Inr xs \<and>
    set xs = gn_node_id ` set (checkout_protected_mutations g n)"
proof -
  let ?trust = "checkout_trust_ids g r"
  let ?guarded = "map ge_target_node_id (filter (\<lambda>e. ge_kind e = GUARDS \<and> ge_source_node_id e \<in> set ?trust) (pg_edges g))"
  have trust: "?trust = map gn_node_id (filter (\<lambda>n. case as_trust_gate n of None \<Rightarrow> False
      | Some t \<Rightarrow> tg_route_registration_id t = r \<and>
          tg_trust_kind t \<in> {CHECKOUT_SIGNATURE_VERIFICATION, SERVER_ORDER_IDENTITY_BINDING}) (pg_nodes g))"
    unfolding checkout_trust_ids_def as_trust_gate_def
    by (intro arg_cong[where f = "map gn_node_id"] filter_cong refl)
      (auto split: option.splits node_details.splits)
  define keep where "keep k = (k \<in> set ?guarded \<or>
      (\<exists>m. graph_lookup g k = Some m \<and> assigns_payment_state m))" for k
  have step: "(if k \<in> set ?guarded then Inr [k]
       else (case dict_by gn_node_id (pg_nodes g) k of None \<Rightarrow> Inl KeyError
             | Some m \<Rightarrow> Inr (if assigns_payment_state m then [k] else []))) = Inr (if keep k then [k] else [])"
    if "k \<in> set (route_mutations_of ms r)" for k
  proof -
    from that obtain m where "m \<in> set (pg_nodes g)" "k = gn_node_id m"
      unfolding targets_of_route[OF ms] by blast
    then have "graph_lookup g k = Some m" using graph_lookup_member[OF g] by simp
    then show ?thesis by (auto simp: keep_def graph_lookup_def)
  qed
  have "sg06_expected g r (route_mutations_of ms r)
      = Inr (concat (map (\<lambda>k. if keep k then [k] else []) (route_mutations_of ms r)))"
    using traverse_total[of "route_mutations_of ms r", OF step] by (simp add: sg06_expected_def Let_def)
  moreover have "set (concat (map (\<lambda>k. if keep k then [k] else []) (route_mutations_of ms r)))
      = {k \<in> set (route_mutations_of ms r). keep k}"
    by auto
  moreover have "{k \<in> set (route_mutations_of ms r). keep k} = gn_node_id ` set (checkout_protected_mutations g n)"
  proof -
    have assigned: "assigns_payment_state m \<longleftrightarrow> mm_assigned_payment_state x \<noteq> None" if "as_mutation m = Some x" for m x
      using that by (auto simp: assigns_payment_state_def as_mutation_iff)
    have "set (checkout_protected_mutations g n) = {m \<in> set (pg_nodes g). \<exists>x. as_mutation m = Some x \<and>
        mm_route_registration_id x = r \<and> (gn_node_id m \<in> set ?guarded \<or> mm_assigned_payment_state x \<noteq> None)}"
      using d by (auto simp: checkout_protected_mutations_def Let_def trust split: option.splits)
    then show ?thesis
      unfolding targets_of_route[OF ms] keep_def
      using graph_lookup_member[OF g] assigned by (auto simp: image_iff)
  qed
  ultimately show ?thesis by simp
qed

section \<open>The artifact of the engine is plannable\<close>

lemma trust_plan_cases:
  assumes "(d, specs, ingress, c) \<in> set (scenario_plan g resolution controls policy s)" and "s = SG_05 \<or> s = SG_06"
  obtains (catalog) "ingress = None"
  | (trust) n where "ingress = Some n" and "(n, c) \<in> set (planned_targets g controls s)"
      and "specs = [(mutation_key_of s, CORE, trust_mutation_state g s n c, None),
        (value_key_of s, CORE, trust_value_state g resolution s n c, c)]"
  using assms
  by (auto simp: scenario_plan_def Let_def trust_plan_def catalog_plan_def planned_controls_def split: if_splits)

lemma value_state_not_mutation:
  "\<not> list_ex (\<lambda>r. rs_code r = AR_MUTATION_TARGET_AVAILABLE) (snd (trust_value_state g resolution s n c))"
  by (auto simp: trust_value_state_def fallback_state_def reason_def split: option.splits)

lemma mutation_state_observed:
  assumes "aa_reasons x = snd (trust_mutation_state g s n c)" and "mutation_available x"
  shows "trust_mutations g s n c \<noteq> []" and "set (observed_nodes x) = gn_node_id ` set (trust_mutations g s n c)"
proof -
  let ?ms = "trust_mutations g s n c"
  have "?ms \<noteq> [] \<and> aa_reasons x = reason AR_MUTATION_TARGET_AVAILABLE
      (map (\<lambda>n. evidence_ref EV_GRAPH_NODE (gn_node_id n)) (canonical_order graph_node_json ?ms))"
    using assms by (auto simp: trust_mutation_state_def Let_def mutation_available_def reason_def split: if_splits)
  then show "?ms \<noteq> []" and "set (observed_nodes x) = gn_node_id ` set ?ms"
    by (auto simp: observed_nodes_def reason_def evidence_ref_def)
qed

lemma control_of_target:
  assumes "normal_controls g resolution fp = Inr controls" and "valid_graph g"
    and "(n, Some c) \<in> set (planned_targets g controls s)" and "n \<in> set (pg_nodes g)" and "as_ingress n = Some d"
  shows "c \<in> set controls" and "nc_route_registration_id c = er_route_registration_id (pi_registration d)"
proof -
  obtain ingress where t: "(n, Some c) \<in> set (trust_targets controls ingress)"
    using assms(3) by (auto simp: planned_targets_def)
  then have c: "c \<in> set controls" "nc_ingress_node_id c = gn_node_id n"
    using trust_targets_members[OF t] by auto
  then show "c \<in> set controls" by simp
  show "nc_route_registration_id c = er_route_registration_id (pi_registration d)"
    using assms(1) c(1)
  proof (rule normal_controls_origin)
    fix r symbol f e
    assume "control_on_edge g symbol f e c"
    then obtain n' d' where "graph_lookup g (nc_ingress_node_id c) = Some n'" "as_ingress n' = Some d'"
      "nc_route_registration_id c = er_route_registration_id (pi_registration d')"
      by (auto simp: control_on_edge_def)
    then show ?thesis using c(2) graph_lookup_member[OF assms(2,4)] assms(5) by simp
  qed
qed

lemma planned_targets_ingress:
  assumes "(n, c) \<in> set (planned_targets g controls s)"
  shows "n \<in> set (pg_nodes g)" and "\<exists>d. as_ingress n = Some d"
proof -
  obtain ingress where "(n, c) \<in> set (trust_targets controls ingress)" "ingress \<in> set (graph_ingresses g)"
    using assms by (auto simp: planned_targets_def ingresses_of_kind_def split: scenario_id.splits)
  then show "n \<in> set (pg_nodes g)" and "\<exists>d. as_ingress n = Some d"
    using trust_targets_members(1)[of n c controls ingress] by (auto simp: graph_ingresses_def)
qed

lemma trust_instance_accepted:
  assumes run: "evaluate_applicability configured index structural g resolution fp = Inr a"
    and g: "valid_graph g" "plannable g" and controls: "distinct (map nc_control_id (ap_normal_controls a))"
    and bs: "plan_ingresses g = Inr bs" and ms: "traverse (mutation_target_of bs) (mutation_nodes g) = Inr ms"
    and sc: "sc \<in> set (ap_scenarios a)" "sc_scenario_id sc = s" "s = SG_05 \<or> s = SG_06"
    and i: "i \<in> set (sc_instances sc)"
  shows "check_trust_instance a g bs ms s i = None"
proof -
  note parts = evaluate_applicability_Inr[OF run]
  note res = normal_controls_resolved[OF parts(1)]
  obtain s' where s': "scenario_of g resolution (ap_normal_controls a) (ap_policy a) s' = Inr sc"
    using list_all2_member2[OF parts(3) sc(1)] by blast
  then have "s' = s" using scenario_of_Inr(2)[OF res s'] sc(2) by simp
  then obtain p where p: "p \<in> set (scenario_plan g resolution (ap_normal_controls a) (ap_policy a) s)" "plan_fits s p i"
    using list_all2_member2[OF scenario_of_Inr(1)[OF res s'] i] by blast
  obtain d specs ingress c where pe: "p = (d, specs, ingress, c)" by (cases p) auto
  note fits = plan_fits_facts[OF p(2)[unfolded pe]]
  from p(1)[unfolded pe] sc(3) show ?thesis
  proof (cases rule: trust_plan_cases)
    case catalog
    then show ?thesis using fits(2) by (simp add: check_trust_instance_def)
  next
    case (trust n)
    obtain id where n: "n \<in> set (pg_nodes g)" "as_ingress n = Some id"
      using planned_targets_ingress[OF trust(2)] by blast
    define r where "r = er_route_registration_id (pi_registration id)"
    obtain b where b: "dict_by ib_ingress_node_id bs (gn_node_id n) = Some b" "ib_route_registration_id b = r"
      using plan_ingresses_total[OF g] bs n r_def by fastforce
    have control: "c = Some x \<Longrightarrow> x \<in> set (ap_normal_controls a) \<and> nc_route_registration_id x = r" for x
      using control_of_target[OF parts(1) g(1) _ n] trust(2) r_def by simp
    have looked: "(case si_normal_control_id i of None \<Rightarrow> None
        | Some k \<Rightarrow> dict_by nc_control_id (ap_normal_controls a) k) = c"
      using fits(3) control dict_by_distinct[OF controls] by (cases c) auto
    let ?expected = "if s = SG_05 then Inr (sg05_expected g c r (route_mutations_of ms r))
        else sg06_expected g r (route_mutations_of ms r)"
    obtain nodes where nodes: "?expected = Inr nodes"
      and agree: "trust_mutations g s n c \<noteq> [] \<Longrightarrow> set nodes = gn_node_id ` set (trust_mutations g s n c)"
    proof (cases "s = SG_05")
      case True
      then show thesis
        using that sg05_agree[OF g ms n(2) r_def[symmetric]] control by (simp add: trust_mutations_def)
    next
      case False
      then show thesis
        using that sg06_agree[OF g(1) ms n(2) r_def[symmetric]] by (auto simp: trust_mutations_def)
    qed
    have "check_assertion_evidence nodes x = None" if "x \<in> set (si_assertions i)" for x
    proof -
      have "aa_reasons x = snd (trust_mutation_state g s n c) \<or> aa_reasons x = snd (trust_value_state g resolution s n c)"
        using list_all2_member2[OF fits(7)[unfolded trust(3)] that]
        by (auto simp: spec_fits_def split: prod.splits)
      then show ?thesis
        using mutation_state_observed[of x g s n c] agree value_state_not_mutation[of g resolution s n c]
        by (auto simp: check_assertion_evidence_def mutation_available_def)
    qed
    then have "first_error (map (check_assertion_evidence nodes) (si_assertions i)) = None"
      by (simp add: first_error_None_iff)
    then show ?thesis
      using fits(2) trust(1) b looked nodes by (simp add: check_trust_instance_def Let_def)
  qed
qed

lemma engine_artifact_planned:
  assumes run: "evaluate_applicability configured index structural g resolution fp = Inr a"
    and g: "valid_graph g" "plannable g" and valid: "valid_applicability a"
  shows "\<exists>p. build_runtime_target_plan index g a = Inr p"
proof -
  note parts = evaluate_applicability_Inr[OF run]
  have distinct: "distinct (map nc_control_id (ap_normal_controls a))"
    by (rule applicability_controls.wf_distinct[OF valid])
  have meta: "ix_project_id index = ap_project_id a" "ix_source_index_fingerprint index = ap_source_index_fingerprint a"
    "pg_graph_fingerprint g = ap_projected_graph_fingerprint a"
    using run by (auto simp: evaluate_applicability_def bind_result_eq_Inr Let_def)
  obtain bs where bs: "plan_ingresses g = Inr bs"
    and by_node: "\<And>n d. n \<in> set (pg_nodes g) \<Longrightarrow> as_ingress n = Some d \<Longrightarrow>
       \<exists>b. dict_by ib_ingress_node_id bs (gn_node_id n) = Some b \<and>
            ib_route_registration_id b = er_route_registration_id (pi_registration d)"
    and by_route: "\<And>r. r \<in> set (ingress_routes g) \<Longrightarrow> \<exists>b. dict_by ib_route_registration_id bs r = Some b"
    using plan_ingresses_total[OF g] by blast
  have symbol: "\<exists>y. gn_backing_symbol_id n = Some y" if "n \<in> set (pg_nodes g)" for n
    using g(2) that valid_node_kind(1) by (auto simp: plannable_defs list_all_iff)
  have "\<exists>t. customer_target g bs c = Inr t" if "c \<in> set (ap_normal_controls a)" for c
    using parts(1) that
  proof (rule normal_controls_origin)
    fix r symbol f e
    assume e: "e \<in> set (pg_edges g)" "control_on_edge g symbol f e c"
    then obtain n d v where n: "graph_lookup g (ge_source_node_id e) = Some n" "as_ingress n = Some d"
      "nc_route_registration_id c = er_route_registration_id (pi_registration d)"
      and v: "graph_lookup g (ge_target_node_id e) = Some v" "gn_kind v = CUSTOMER_VALUE_ACTION"
      "gn_backing_symbol_id v = Some symbol"
      by (auto simp: control_on_edge_def)
    have c: "nc_connectivity_edge_id c = ge_edge_id e" "nc_ingress_node_id c = ge_source_node_id e"
      "nc_customer_value_node_id c = ge_target_node_id e" "nc_customer_value_symbol_id c = symbol"
      using e(2) by (auto simp: control_on_edge_def)
    obtain b where b: "dict_by ib_ingress_node_id bs (ge_source_node_id e) = Some b"
      "ib_route_registration_id b = nc_route_registration_id c"
      using by_node[OF graph_lookup_Some(1)[OF n(1)] n(2)] graph_lookup_Some(2)[OF n(1)] n(3) by auto
    obtain e' where e': "find (\<lambda>x. ge_edge_id x = ge_edge_id e) (pg_edges g) = Some e'"
      using e(1) by (cases "find (\<lambda>x. ge_edge_id x = ge_edge_id e) (pg_edges g)") (auto simp: find_None_iff)
    then have "e' \<in> set (pg_edges g)" "ge_edge_id e' = ge_edge_id e" by (auto simp: find_Some_iff)
    then have "e' = e" using graph_edges.lookup_record[OF g(1)] e(1) by (metis option.inject)
    then show ?thesis
      using b e' v by (simp add: customer_target_def c graph_lookup_def)
  qed
  then obtain cs where cs: "traverse (customer_target g bs) (ap_normal_controls a) = Inr cs"
    using traverse_exists by metis
  have "\<exists>t. mutation_target_of bs e = Inr t" if "e \<in> set (mutation_nodes g)" for e
  proof -
    have "mm_route_registration_id (snd e) \<in> set (ingress_routes g)"
      using g(2) that by (auto simp: plannable_defs list_all_iff)
    then obtain b where "dict_by ib_route_registration_id bs (mm_route_registration_id (snd e)) = Some b"
      using by_route by blast
    moreover have "fst e \<in> set (pg_nodes g)" using that set_mutation_nodes[of "fst e" "snd e" g] by simp
    then obtain y where "gn_backing_symbol_id (fst e) = Some y" using symbol by blast
    ultimately show ?thesis by (cases e) (simp add: mutation_target_of_def)
  qed
  then obtain ms where ms: "traverse (mutation_target_of bs) (mutation_nodes g) = Inr ms"
    using traverse_exists by metis
  have "\<exists>t. acknowledgement_target_of bs e = Inr t" if "e \<in> set (acknowledgement_nodes g)" for e
  proof -
    have "ab_route_registration_id (snd e) \<in> set (ingress_routes g)"
      using g(2) that by (auto simp: plannable_defs list_all_iff)
    then obtain b where "dict_by ib_route_registration_id bs (ab_route_registration_id (snd e)) = Some b"
      using by_route by blast
    moreover have "fst e \<in> set (pg_nodes g)" using that set_acknowledgement_nodes[of "fst e" "snd e" g] by simp
    then obtain y where "gn_backing_symbol_id (fst e) = Some y" using symbol by blast
    ultimately show ?thesis by (cases e) (simp add: acknowledgement_target_of_def)
  qed
  then obtain ks where ks: "traverse (acknowledgement_target_of bs) (acknowledgement_nodes g) = Inr ks"
    using traverse_exists by metis
  have "check_trust_instance a g bs ms (sc_scenario_id sc) i = None"
    if "sc \<in> set (ap_scenarios a)" "sc_scenario_id sc = SG_05 \<or> sc_scenario_id sc = SG_06" "i \<in> set (sc_instances sc)" for sc i
    by (rule trust_instance_accepted[OF run g distinct bs ms that(1) refl that(2,3)])
  then have "validate_mutation_assertion_evidence a g bs ms = None"
    by (auto simp: validate_mutation_assertion_evidence_def first_error_None_iff)
  then show ?thesis using meta bs cs ms ks by (simp add: build_runtime_target_plan_def)
qed

text \<open>Conversely a plan witnesses the routes of its graph.\<close>

lemma traverse_each: "traverse f xs = Inr ys \<Longrightarrow> x \<in> set xs \<Longrightarrow> \<exists>y. f x = Inr y"
  by (induction xs arbitrary: ys) (auto simp: bind_result_eq_Inr)

lemma planned_graph_routable:
  assumes "build_runtime_target_plan index g a = Inr p" and "well_built g"
  shows "routable g"
proof -
  from assms(1) obtain ms ks where bs: "plan_ingresses g = Inr (rp_ingresses p)"
    and ms: "traverse (mutation_target_of (rp_ingresses p)) (mutation_nodes g) = Inr ms"
    and ks: "traverse (acknowledgement_target_of (rp_ingresses p)) (acknowledgement_nodes g) = Inr ks"
    by (rule built_plan_parts)
  obtain raw where raw: "traverse binding_of (filter (\<lambda>n. gn_kind n = PAYMENT_INGRESS) (pg_nodes g)) = Inr raw"
    and sorted: "rp_ingresses p = sort_key (\<lambda>b. [ib_route_registration_id b, ib_ingress_node_id b]) raw"
    using bs by (auto simp: plan_ingresses_def Let_def bind_result_eq_Inr split: if_splits)
  have nodes: "validate_node n = None" if "n \<in> set (pg_nodes g)" for n
    using assms(2) that by (auto simp: well_built_def list_all_iff)
  have routes: "map ib_route_registration_id raw = ingress_routes g"
    by (rule ingress_binding_routes[OF _ raw]) (rule nodes)
  have route: "r \<in> set (ingress_routes g)"
    if "dict_by ib_route_registration_id (rp_ingresses p) r = Some b" for r b
    using dict_by_SomeD[OF that] unfolding sorted routes[symmetric] by auto
  have "distinct (ingress_routes g)"
    using plan_ingresses_facts(1)[OF bs] unfolding sorted distinct_map_sort_key routes .
  moreover have "\<not> isl (binding_of n)" if "n \<in> set (pg_nodes g)" "gn_kind n = PAYMENT_INGRESS" for n
    using plan_ingresses_facts(4)[OF bs that] by auto
  moreover have "mm_route_registration_id (snd e) \<in> set (ingress_routes g)" if "e \<in> set (mutation_nodes g)" for e
    using traverse_each[OF ms that] route
    by (auto simp: mutation_target_of_def split: prod.splits option.splits)
  moreover have "ab_route_registration_id (snd e) \<in> set (ingress_routes g)"
    if "e \<in> set (acknowledgement_nodes g)" for e
    using traverse_each[OF ks that] route
    by (auto simp: acknowledgement_target_of_def split: prod.splits option.splits)
  ultimately show ?thesis by (auto simp: routable_def list_all_iff)
qed

end
