(* ===== verification/PlanProperties.thy ===== *)
theory PlanProperties
  imports PlanAgreement
begin

text \<open>
  The properties of runtime planning and the capability artifact: the artifact of the engine is
  planned whenever the graph has exact routes, a plan is always assessed, and a capability the handlers call sufficient is
  backed by a process StateGuard owns, an attached route and a live trace.
\<close>

section \<open>Properties\<close>

text \<open>
  C15. The engine and the planner agree.  On the graph an accepted artifact of the applicability
  engine was computed from, when the graph is valid, its nodes passed their validators and its
  matched branches stay within the states of their gates, runtime planning refuses exactly the
  graphs without exact routes: two ingresses of one route registration, an ingress without a
  binding, or a mutation or acknowledgement on a route that no ingress serves.  It never refuses
  the artifact itself: every normal control still names its ingress, its customer-value node and
  its edge, and the mutations each trust assertion is justified by are exactly those the planner
  reads out of the graph.
\<close>

theorem engine_artifact_is_plannable:
  assumes "evaluate_applicability configured index structural g resolution fp = Inr a"
    and "valid_graph g" and "well_built g" and "valid_applicability a"
  shows "case build_runtime_target_plan index g a of
     Inl e \<Rightarrow> \<not> routable g
   | Inr p \<Rightarrow> routable g \<and> wf_plan p \<and>
       set (map ct_normal_control_id (rp_customer_values p)) = nc_control_id ` set (ap_normal_controls a)"
proof (cases "build_runtime_target_plan index g a")
  case (Inl e)
  then have "\<not> plannable g" using engine_artifact_planned[OF assms(1,2) _ assms(4)] by auto
  then show ?thesis using Inl assms(3) by (simp add: plannable_def)
next
  case p: (Inr p)
  have wf: "wf_plan p"
    by (rule built_plan_wf[OF p assms(2) applicability_controls.wf_distinct[OF assms(4)]])
  from p obtain cs where cs: "traverse (customer_target g (rp_ingresses p)) (ap_normal_controls a) = Inr cs"
    and pcs: "rp_customer_values p = sort_key ct_normal_control_id cs"
    by (rule built_plan_parts)
  have "map ct_normal_control_id cs = map nc_control_id (ap_normal_controls a)"
    by (rule traverse_map_key[OF cs]) (auto simp: customer_target_def split: option.splits if_splits)
  then have "ct_normal_control_id ` set cs = nc_control_id ` set (ap_normal_controls a)"
    by (metis list.set_map)
  then show ?thesis using wf planned_graph_routable[OF p assms(3)] by (simp add: p pcs)
qed

text \<open>
  C17. Whatever is planned is assessed: for a valid graph and an accepted applicability artifact
  from which a plan was built, building the capability artifact never raises, for every
  configuration, instrumentation, attachment and process; its validator accepts the result,
  which has one capability per binding and target of the plan.
\<close>

theorem planned_capability_is_accepted:
  assumes "build_runtime_target_plan i g ap = Inr plan" and "valid_graph g" and "valid_applicability ap"
  shows "\<exists>a. build_capability_artifact (x\<lparr>ci_plan := plan\<rparr>) = Inr a \<and> validate_capability_artifact a = None \<and>
    map ic_binding (ra_ingresses a) = rp_ingresses plan \<and>
    map cc_target (ra_customer_values a) = rp_customer_values plan \<and>
    map mc_target (ra_mutations a) = rp_mutations plan \<and>
    map ac_target (ra_acknowledgements a) = rp_acknowledgements plan"
proof -
  have "wf_plan (ci_plan (x\<lparr>ci_plan := plan\<rparr>))"
    using built_plan_wf[OF assms(1,2)] applicability_controls.wf_distinct[OF assms(3)] by simp
  from capability_total[OF this] show ?thesis by simp
qed

text \<open>
  C16. A capability the handlers call sufficient is not a claim of the configuration: when the
  artifact of the session was built from a plan, the runtime is managed and ready, StateGuard
  owns the process, the route of the control is attached in it, and the customer-value function
  has a trace that sees both its entry and its end.
\<close>

theorem sufficient_capability_is_backed:
  assumes "build_runtime_target_plan i g ap = Inr (ci_plan x)" and "valid_graph g" and "valid_applicability ap"
    and built: "build_capability_artifact x = Inr (op_artifact opened)"
    and "capability_is_sufficient opened control"
  shows "configured_mode (ci_config x) = MODE_MANAGED \<and> ci_lifecycle x = LIFE_READY \<and>
    ci_ownership x = OWN_STATEGUARD \<and>
    (\<exists>t \<in> set (rp_customer_values (ci_plan x)). ct_normal_control_id t = control \<and>
       (\<exists>y \<in> set (ci_attachments x). ra_attached y \<and>
          ib_ingress_node_id (ra_binding y) = ib_ingress_node_id (ct_ingress t)) \<and>
       (\<exists>y \<in> set (pp_customers (ci_prepared x)). tc_normal_control_id y = control \<and>
          td_shape (tc_descriptor y) \<in> {SHAPE_SYNC, SHAPE_COROUTINE}))"
proof -
  let ?mode = "configured_mode (ci_config x)" and ?plan = "ci_plan x"
  let ?route = "route_assessments ?plan ?mode (ci_attachments x)"
  have wf: "wf_plan ?plan"
    using built_plan_wf[OF assms(1,2)] applicability_controls.wf_distinct[OF assms(3)] by simp
  from built have parts:
    "traverse (ingress_capability_of ?mode ?route) (rp_ingresses ?plan) = Inr (ra_ingresses (op_artifact opened))"
    "traverse (customer_capability_of ?mode ?route (ci_prepared x)) (rp_customer_values ?plan)
       = Inr (ra_customer_values (op_artifact opened))"
    "ra_lifecycle (op_artifact opened) = ci_lifecycle x"
    "ra_isolation (op_artifact opened) = isolation_of ?mode (ci_ownership x)"
    by (blast elim: build_parts)+
  from assms(5) obtain c ic where c: "c \<in> set (ra_customer_values (op_artifact opened))"
    "ct_normal_control_id (cc_target c) = control" "ca_state (cc_lifecycle c) = CAP_COMPLETE"
    and ic: "ic \<in> set (ra_ingresses (op_artifact opened))" "ic_binding ic = ct_ingress (cc_target c)"
    "ca_state (ic_addressability ic) = CAP_COMPLETE"
    and life: "ra_lifecycle (op_artifact opened) = LIFE_READY"
    and reset: "ca_state (is_observation_reset (ra_isolation (op_artifact opened))) = CAP_COMPLETE"
    by (rule sufficient_parts)
  from traverse_in_set[OF parts(2) c(1)] obtain t where t: "t \<in> set (rp_customer_values ?plan)"
    "customer_capability_of ?mode ?route (ci_prepared x) t = Inr c" by blast
  note customer = complete_customer[OF t(2) c(3)]
  from traverse_in_set[OF parts(1) ic(1)] obtain b where b: "b \<in> set (rp_ingresses ?plan)"
    "ingress_capability_of ?mode ?route b = Inr ic" by blast
  then have "ic_binding ic = b" "ic_addressability ic = ingress_assessment ?plan ?mode (ci_attachments x) b"
    using ingress_capability_total[OF wf b(1), of ?mode "ci_attachments x"] by auto
  then have "\<exists>y \<in> set (ci_attachments x). ra_attached y \<and>
      ib_ingress_node_id (ra_binding y) = ib_ingress_node_id (ct_ingress t)"
    using complete_ingress(2)[of ?plan ?mode "ci_attachments x" b] ic(2,3) customer(1) by simp
  moreover have "ci_ownership x = OWN_STATEGUARD"
    using reset parts(4) by (auto simp: isolation_of_def Let_def split: if_splits)
  ultimately show ?thesis using t(1) customer c(2) life parts(3) by auto
qed

section \<open>A checkout whose plan is built\<close>

text \<open>
  The shop of the engine with a customer-value node that carries its evidence, and a mutation
  the captured branch reaches.
\<close>

definition till_value :: graph_node where
  "till_value = shop_value\<lparr>gn_provenance := [\<lparr>pr_kind = AI_INFERRED,
     pr_reference = ''customer-value-resolution:MODEL_UNIQUE'', pr_source_location = None,
     pr_supporting_fingerprint = Some ''f''\<rparr>]\<rparr>"

definition till_mutation :: graph_node where
  "till_mutation = \<lparr>gn_node_id = ''m1'', gn_kind = MERCHANT_STATE_MUTATION, gn_label = ''paid'',
     gn_backing_symbol_id = Some ''y2'', gn_details = Some (MerchantStateMutationDetails
       \<lparr>mm_route_registration_id = ''r1'', mm_structural_anchor = ''b'', mm_mutation_kind = ATTRIBUTE_WRITE,
        mm_carrier_reference = ''order'', mm_assigned_payment_state = None\<rparr>), gn_provenance = []\<rparr>"

definition till_branch :: graph_edge where
  "till_branch = shop_branch\<lparr>ge_edge_id := ''e3'', ge_target_node_id := ''m1''\<rparr>"

definition till_nodes :: "graph_node list" where
  "till_nodes = [shop_ingress, shop_gate, till_value, till_mutation]"

definition till_edges :: "graph_edge list" where
  "till_edges = [shop_call, shop_branch, till_branch]"

definition till_graph :: safety_graph where
  "till_graph = \<lparr>pg_project_id = ''p'', pg_source_index_fingerprint = ''s'',
     pg_graph_fingerprint = graph_fingerprint ''p'' ''s'' COMPLETE [] till_nodes till_edges,
     pg_completeness = COMPLETE, pg_diagnostics = [], pg_nodes = till_nodes, pg_edges = till_edges\<rparr>"

lemmas till_defs = till_graph_def till_nodes_def till_edges_def till_value_def till_mutation_def
  till_branch_def shop_ingress_def shop_gate_def shop_value_def shop_call_def shop_branch_def

lemma till_valid: "valid_graph till_graph"
  by (simp add: valid_graph_def validate_graph_def till_defs validate_edge_endpoints_def
      validate_edge_kinds_def dict_by_def graph_completeness_for_def)

definition till_binding :: ingress_binding where
  "till_binding = \<lparr>ib_ingress_node_id = ''n1'', ib_route_registration_id = ''r1'',
     ib_app_instance_id = ''app'', ib_ingress_symbol_id = ''y0'', ib_method = ''POST'',
     ib_effective_path = ''/hook'', ib_checkout_request_binding = None\<rparr>"

lemma till_binding_of: "binding_of shop_ingress = Inr till_binding"
proof -
  have "normalize_method ''POST'' = ''POST''" "validate_ingress_path ''/hook'' = Inr ''/hook''"
    by code_simp+
  then show ?thesis by (simp add: binding_of_def shop_ingress_def construct_ingress_binding_def till_binding_def)
qed

lemma till_plannable: "plannable till_graph"
proof -
  have nodes: "pg_nodes till_graph = [shop_ingress, shop_gate, till_value, till_mutation]"
    and edges: "pg_edges till_graph = [shop_call, shop_branch, till_branch]"
    by (simp_all add: till_graph_def till_nodes_def till_edges_def)
  have valid: "list_all (\<lambda>n. validate_node n = None) (pg_nodes till_graph)"
    unfolding nodes by (simp add: validate_node_def till_defs semantic_evidence_def static_unsupported_def)
  have routes: "ingress_routes till_graph = [''r1'']"
    unfolding ingress_routes_def nodes
    by (simp add: map_filter_simps ingress_route_def as_ingress_def till_defs)
  have kinds: "gn_kind shop_gate \<noteq> PAYMENT_INGRESS" "gn_kind till_value \<noteq> PAYMENT_INGRESS"
    "gn_kind till_mutation \<noteq> PAYMENT_INGRESS"
    by (simp_all add: till_defs)
  have bindings: "list_all (\<lambda>n. gn_kind n \<noteq> PAYMENT_INGRESS \<or> \<not> isl (binding_of n)) (pg_nodes till_graph)"
    unfolding nodes by (simp add: till_binding_of kinds)
  have muts: "list_all (\<lambda>e. mm_route_registration_id (snd e) \<in> {''r1''}) (mutation_nodes till_graph)"
    unfolding mutation_nodes_def nodes by (simp add: till_defs)
  have acks: "acknowledgement_nodes till_graph = []"
    unfolding acknowledgement_nodes_def nodes by (simp add: till_defs)
  have look: "graph_lookup till_graph ''p1'' = Some shop_gate"
    unfolding graph_lookup_def nodes by (simp add: dict_by_def till_defs)
  have gate: "as_state_gate shop_gate = Some \<lparr>sg_route_registration_id = ''r1'', sg_structural_anchor = ''a'',
       sg_operator = EQUALS, sg_states = [''payment.captured'']\<rparr>"
    by (simp add: as_state_gate_def shop_gate_def)
  have "branch_within_gate till_graph shop_branch" "branch_within_gate till_graph till_branch"
    by (simp_all add: branch_within_gate_def till_branch_def shop_branch_def look gate branch_states_def)
  moreover have "\<not> matched_branch shop_call" by (simp add: matched_branch_def shop_call_def)
  ultimately have branches: "list_all (\<lambda>e. \<not> matched_branch e \<or> branch_within_gate till_graph e) (pg_edges till_graph)"
    unfolding edges by simp
  show ?thesis unfolding plannable_defs routes using valid bindings muts acks branches by simp
qed

lemma till_lookup [simp]:
  "graph_lookup till_graph ''n1'' = Some shop_ingress"
  "graph_lookup till_graph ''v1'' = Some till_value"
  "graph_lookup till_graph ''p1'' = Some shop_gate"
  "graph_lookup till_graph ''m1'' = Some till_mutation"
  by (simp_all add: graph_lookup_def dict_by_def till_defs)

lemma till_controls: "normal_controls till_graph (Some shop_resolution) (Some ''f'') = Inr [shop_control]"
proof -
  have "normal_control_of_edge (graph_lookup till_graph) ''y1'' ''f'' shop_call = Inr (Some shop_control)"
    by (simp add: normal_control_of_edge_def shop_call_def)
      (simp add: till_value_def shop_defs as_ingress_def normal_control_id_def call_path_of_def starts_with_def Let_def)
  moreover have "normal_control_of_edge (graph_lookup till_graph) ''y1'' ''f'' shop_branch = Inr None"
    "normal_control_of_edge (graph_lookup till_graph) ''y1'' ''f'' till_branch = Inr None"
    by (simp_all add: normal_control_of_edge_def till_branch_def shop_branch_def)
      (simp_all add: till_value_def shop_defs as_ingress_def)
  moreover have "pg_edges till_graph = [shop_call, shop_branch, till_branch]"
    by (simp add: till_graph_def till_edges_def)
  ultimately show ?thesis
    by (simp add: normal_controls_def shop_resolution_def canonical_order_def map_filter_simps)
qed

lemma till_identities: "identities_distinct till_graph [shop_control]"
proof -
  have "graph_ingresses till_graph = [shop_ingress]"
    by (simp add: graph_ingresses_def till_defs as_ingress_def)
  then show ?thesis by (simp add: identities_distinct_def engine_discriminators_def shop_targets)
qed

theorem engine_artifact_is_plannable_witness:
  "\<exists>a p. evaluate_applicability (Some shop_policy) demo_index till_graph till_graph
      (Some shop_resolution) (Some ''f'') = Inr a \<and>
    build_runtime_target_plan demo_index till_graph a = Inr p \<and>
    map ct_normal_control_id (rp_customer_values p) \<noteq> []"
proof -
  obtain a where a: "evaluate_applicability (Some shop_policy) demo_index till_graph till_graph
      (Some shop_resolution) (Some ''f'') = Inr a" "valid_applicability a"
    using engine_total[OF till_controls till_identities] by blast
  have controls: "ap_normal_controls a = [shop_control]"
    using evaluate_applicability_Inr(1)[OF a(1)] till_controls by simp
  obtain p where p: "build_runtime_target_plan demo_index till_graph a = Inr p"
    "set (map ct_normal_control_id (rp_customer_values p)) = nc_control_id ` set (ap_normal_controls a)"
    using engine_artifact_is_plannable[OF a(1) till_valid _ a(2)] till_plannable
    by (auto simp: plannable_def split: sum.splits)
  then have "map ct_normal_control_id (rp_customer_values p) \<noteq> []" using controls by auto
  then show ?thesis using a(1) p(1) by blast
qed

definition till_draft :: applicability_artifact where
  "till_draft = demo_draft\<lparr>ap_source_index_fingerprint := ix_source_index_fingerprint demo_index,
     ap_projected_graph_fingerprint := pg_graph_fingerprint till_graph\<rparr>"

definition till_applicability :: applicability_artifact where
  "till_applicability =
     till_draft\<lparr>ap_applicability_fingerprint := applicability_fingerprint till_draft\<rparr>"

lemma till_applicability_valid: "valid_applicability till_applicability"
proof -
  have "valid_applicability demo_applicability" by (rule demo_applicability_valid)
  then show ?thesis
    by (simp add: valid_applicability_def validate_applicability_def till_applicability_def till_draft_def
        demo_applicability_def split: option.splits if_splits)
qed

definition till_customer :: customer_value_target where
  "till_customer = \<lparr>ct_ingress = till_binding, ct_normal_control_id = ''c1'',
     ct_customer_value_node_id = ''v1'', ct_customer_value_symbol_id = ''y1'',
     ct_connectivity_edge_id = ''e1'', ct_call_path_references = [''call-site:1''],
     ct_semantic_resolution_fingerprint = ''f''\<rparr>"

definition till_target :: mutation_target where
  "till_target = \<lparr>mt_ingress = till_binding, mt_mutation_node_id = ''m1'', mt_mutation_symbol_id = ''y2'',
     mt_structural_anchor = ''b'', mt_mutation_kind = ATTRIBUTE_WRITE, mt_carrier_reference = ''order''\<rparr>"

definition till_plan :: runtime_target_plan where
  "till_plan = \<lparr>rp_app_target = selected_app_target demo_index, rp_ingresses = [till_binding],
     rp_customer_values = [till_customer], rp_mutations = [till_target], rp_acknowledgements = []\<rparr>"

lemma till_planned: "build_runtime_target_plan demo_index till_graph till_applicability = Inr till_plan"
proof -
  have nodes: "pg_nodes till_graph = [shop_ingress, shop_gate, till_value, till_mutation]"
    and edges: "pg_edges till_graph = [shop_call, shop_branch, till_branch]"
    by (simp_all add: till_graph_def till_nodes_def till_edges_def)
  have kinds: "gn_kind shop_ingress = PAYMENT_INGRESS" "gn_kind shop_gate \<noteq> PAYMENT_INGRESS"
    "gn_kind till_value \<noteq> PAYMENT_INGRESS" "gn_kind till_mutation \<noteq> PAYMENT_INGRESS"
    by (simp_all add: till_defs)
  have bindings: "plan_ingresses till_graph = Inr [till_binding]"
    by (simp add: plan_ingresses_def nodes kinds till_binding_of)
  have customers: "traverse (customer_target till_graph [till_binding]) (ap_normal_controls till_applicability) = Inr [till_customer]"
    by (simp add: till_applicability_def till_draft_def demo_draft_def demo_control_def customer_target_def
        dict_by_def till_customer_def till_binding_def till_defs)
  have mutations: "traverse (mutation_target_of [till_binding]) (mutation_nodes till_graph) = Inr [till_target]"
    by (simp add: mutation_nodes_def mutation_target_of_def dict_by_def till_target_def till_binding_def till_defs)
  have acks: "acknowledgement_nodes till_graph = []"
    by (simp add: acknowledgement_nodes_def till_defs)
  have "check_trust_instance till_applicability till_graph [till_binding] [till_target] s demo_instance = None"
    if "s = SG_05 \<or> s = SG_06" for s
  proof -
    have "sg06_expected till_graph ''r1'' [''m1''] = Inr []"
      by (simp add: sg06_expected_def Let_def dict_by_def assigns_payment_state_def till_defs)
    then show ?thesis using that
      by (auto simp: check_trust_instance_def demo_instance_def Let_def dict_by_def till_binding_def
        check_assertion_evidence_def mutation_available_def demo_assertion_def route_mutations_of_def till_target_def)
  qed
  then have "validate_mutation_assertion_evidence till_applicability till_graph [till_binding] [till_target] = None"
    by (simp add: validate_mutation_assertion_evidence_def till_applicability_def till_draft_def demo_draft_def
        scenario_ids_def demo_scenario_def first_error_None_iff)
  moreover have "ix_project_id demo_index = ap_project_id till_applicability"
    "ix_source_index_fingerprint demo_index = ap_source_index_fingerprint till_applicability"
    "pg_graph_fingerprint till_graph = ap_projected_graph_fingerprint till_applicability"
    by (simp_all add: till_applicability_def till_draft_def demo_draft_def demo_index_def demo_draft_index_def)
  ultimately show ?thesis
    by (simp add: build_runtime_target_plan_def bindings customers mutations acks till_plan_def)
qed

definition till_inputs :: capability_inputs where
  "till_inputs = \<lparr>ci_session_id = ''s1'', ci_config = Some \<lparr>rv_mode = MODE_MANAGED, rv_dump = JObj []\<rparr>,
     ci_index = demo_index, ci_structural_graph = till_graph, ci_graph = till_graph,
     ci_applicability = till_applicability, ci_plan = till_plan,
     ci_prepared = \<lparr>pp_customers = [\<lparr>tc_descriptor = \<lparr>td_source_path = ''app/main.py'',
         td_qualified_name = ''ship'', td_definition_line = 3, td_definition_ordinal = 0, td_first_line = 3,
         td_code_fingerprint = ''k'', td_initial_resume_offset = 0, td_shape = SHAPE_SYNC\<rparr>,
         tc_normal_control_id = ''c1'', tc_customer_value_node_id = ''v1'', tc_customer_value_symbol_id = ''y1''\<rparr>],
       pp_customer_failures = Map.empty, pp_mutations = [], pp_mutation_failures = Map.empty\<rparr>,
     ci_attachments = [\<lparr>ra_binding = till_binding, ra_attached = True, ra_reason = RC_AVAILABLE\<rparr>],
     ci_lifecycle = LIFE_READY, ci_ownership = OWN_STATEGUARD, ci_diagnostics = [],
     ci_compatibility = \<lparr>rc_python_implementation = ''CPython'', rc_python_version = ''3.11.9'',
       rc_fastapi_version = Some ''0.141.0'', rc_starlette_version = Some ''1.6.0'',
       rc_uvicorn_version = Some ''0.52.0''\<rparr>\<rparr>"

theorem planned_capability_is_accepted_witness:
  "\<exists>a. build_capability_artifact till_inputs = Inr a \<and> validate_capability_artifact a = None \<and>
     map cc_target (ra_customer_values a) = [till_customer]"
  using planned_capability_is_accepted[OF till_planned till_valid till_applicability_valid, of till_inputs]
  by (auto simp: till_inputs_def till_plan_def)

lemma till_sufficient:
  assumes built: "build_capability_artifact till_inputs = Inr a"
  shows "capability_is_sufficient \<lparr>op_applicability = till_applicability, op_artifact = a,
     op_plan_ingresses = [till_binding], op_session = None\<rparr> ''c1''"
proof -
  let ?mode = "configured_mode (ci_config till_inputs)"
  let ?route = "route_assessments (ci_plan till_inputs) ?mode (ci_attachments till_inputs)"
  let ?ok = "assessment CAP_COMPLETE RC_AVAILABLE"
  from built have parts:
    "traverse (ingress_capability_of ?mode ?route) (rp_ingresses (ci_plan till_inputs)) = Inr (ra_ingresses a)"
    "traverse (customer_capability_of ?mode ?route (ci_prepared till_inputs))
       (rp_customer_values (ci_plan till_inputs)) = Inr (ra_customer_values a)"
    "ra_lifecycle a = ci_lifecycle till_inputs"
    "ra_isolation a = isolation_of ?mode (ci_ownership till_inputs)"
    by (blast elim: build_parts)+
  have mode: "?mode = MODE_MANAGED" by (simp add: configured_mode_def till_inputs_def)
  have route: "?route (ib_ingress_node_id till_binding) = Some ?ok"
    by (simp add: route_assessments_def mode ingress_assessment_def)
      (simp add: till_inputs_def till_plan_def dict_by_def till_binding_def)
  have ins: "ra_ingresses a = [\<lparr>ic_binding = till_binding, ic_addressability = ?ok, ic_request_correlation = ?ok\<rparr>]"
  proof -
    have "rp_ingresses (ci_plan till_inputs) = [till_binding]" by (simp add: till_inputs_def till_plan_def)
    then show ?thesis
      using parts(1) route by (simp add: ingress_capability_of_def route_state_def mode)
  qed
  have cs: "ra_customer_values a = [\<lparr>cc_target = till_customer, cc_lifecycle = ?ok,
      cc_strength = Some ENTRY_AND_TERMINAL\<rparr>]"
  proof -
    have plan: "rp_customer_values (ci_plan till_inputs) = [till_customer]"
      "ct_ingress till_customer = till_binding" "ct_normal_control_id till_customer = ''c1''"
      by (simp_all add: till_inputs_def till_plan_def till_customer_def)
    obtain x where "dict_by tc_normal_control_id (pp_customers (ci_prepared till_inputs)) ''c1'' = Some x"
      "td_shape (tc_descriptor x) = SHAPE_SYNC"
      by (simp add: till_inputs_def dict_by_def)
    then show ?thesis
      using parts(2) route
      by (simp add: plan customer_capability_of_def route_state_def mode validate_customer_strength_def construct_def Let_def)
  qed
  have "ra_mode a = ''managed''"
    using built mode by (auto simp: build_capability_artifact_def Let_def bind_result_eq_Inr)
  then show ?thesis
    using parts(3,4) ins cs mode
    by (simp add: capability_is_sufficient_def customers_for_def complete_def isolation_of_def till_inputs_def
        till_customer_def)
qed

theorem sufficient_capability_is_backed_witness:
  "\<exists>a. build_capability_artifact till_inputs = Inr a \<and> ci_ownership till_inputs = OWN_STATEGUARD \<and>
     ct_normal_control_id till_customer = ''c1''"
proof -
  have plan: "ci_plan till_inputs = till_plan" by (simp add: till_inputs_def)
  obtain a where a: "build_capability_artifact till_inputs = Inr a"
    using capability_total[of till_inputs]
      built_plan_wf[OF till_planned till_valid applicability_controls.wf_distinct[OF till_applicability_valid]]
    unfolding plan by blast
  have planned: "build_runtime_target_plan demo_index till_graph till_applicability = Inr (ci_plan till_inputs)"
    unfolding plan by (rule till_planned)
  from a have "build_capability_artifact till_inputs = Inr (op_artifact \<lparr>op_applicability = till_applicability,
      op_artifact = a, op_plan_ingresses = [till_binding], op_session = None\<rparr>)" by simp
  from sufficient_capability_is_backed[OF planned till_valid till_applicability_valid this till_sufficient[OF a]]
  have "ci_ownership till_inputs = OWN_STATEGUARD"
    and "\<exists>t \<in> set (rp_customer_values till_plan). ct_normal_control_id t = ''c1''"
    unfolding plan by blast+
  then show ?thesis using a by (simp add: till_plan_def)
qed

end
