(* ===== verification/CanonicalJson.thy ===== *)
theory CanonicalJson
  imports Identity
begin

text \<open>
  A reader for the compact JSON text that \<open>canonical_json\<close> writes, the grammar \<open>json.loads\<close>
  accepts without its white space and fractions, and the round trip: what is read back is the
  value with the keys of its objects sorted.  Two contents with one canonical text therefore
  differ in the order of keys only.
\<close>

section \<open>The reader\<close>

definition is_digit :: "char \<Rightarrow> bool" where
  "is_digit c \<longleftrightarrow> 48 \<le> (of_char c :: nat) \<and> (of_char c :: nat) \<le> 57"

definition digits_value :: "string \<Rightarrow> nat" where
  "digits_value ds = foldl (\<lambda>n c. 10 * n + (of_char c - 48)) 0 ds"

text \<open>\<open>0|[1-9][0-9]*\<close>\<close>

definition read_nat :: "string \<Rightarrow> (nat \<times> string) option" where
  "read_nat s =
     (let ds = takeWhile is_digit s
      in if ds = [] then None
         else if hd ds = CHR ''0'' then Some (0, tl s)
         else Some (digits_value ds, dropWhile is_digit s))"

definition hex_value :: "char \<Rightarrow> nat option" where
  "hex_value c =
     (let n = (of_char c :: nat)
      in if 48 \<le> n \<and> n \<le> 57 then Some (n - 48)
         else if 97 \<le> n \<and> n \<le> 102 then Some (n - 87)
         else if 65 \<le> n \<and> n \<le> 70 then Some (n - 55)
         else None)"

text \<open>The four digits of a \<open>\u\<close> escape; a code point above 255 is outside this text model.\<close>

definition hex_char :: "char \<Rightarrow> char \<Rightarrow> char \<Rightarrow> char \<Rightarrow> char option" where
  "hex_char a b c d =
     (case (hex_value a, hex_value b, hex_value c, hex_value d) of
        (Some x, Some y, Some z, Some w) \<Rightarrow>
          if x = 0 \<and> y = 0 then Some (char_of (16 * z + w)) else None
      | _ \<Rightarrow> None)"

definition simple_escape :: "char \<Rightarrow> char option" where
  "simple_escape c =
     (if c \<in> {CHR 0x22, CHR 0x5C, CHR ''/''} then Some c
      else if c = CHR ''n'' then Some (CHR 0x0A)
      else if c = CHR ''r'' then Some (CHR 0x0D)
      else if c = CHR ''t'' then Some (CHR 0x09)
      else if c = CHR ''f'' then Some (CHR 0x0C)
      else if c = CHR ''b'' then Some (CHR 0x08)
      else None)"

text \<open>The rest of a string literal after its opening quote.\<close>

fun read_chars :: "string \<Rightarrow> (string \<times> string) option" where
  "read_chars [] = None"
| "read_chars (c # s) =
     (if c = CHR 0x22 then Some ([], s)
      else if (of_char c :: nat) < 32 then None
      else if c \<noteq> CHR 0x5C then map_option (\<lambda>(t, r). (c # t, r)) (read_chars s)
      else (case s of
              [] \<Rightarrow> None
            | e # s1 \<Rightarrow>
                if e \<noteq> CHR ''u''
                then (case simple_escape e of
                        None \<Rightarrow> None
                      | Some x \<Rightarrow> map_option (\<lambda>(t, r). (x # t, r)) (read_chars s1))
                else (case s1 of
                        a # b # d # h # s2 \<Rightarrow>
                          (case hex_char a b d h of
                             None \<Rightarrow> None
                           | Some x \<Rightarrow> map_option (\<lambda>(t, r). (x # t, r)) (read_chars s2))
                      | _ \<Rightarrow> None)))"

text \<open>Values, the items of an array and the members of an object, each with fuel.\<close>

fun read_value :: "nat \<Rightarrow> string \<Rightarrow> (json \<times> string) option"
  and read_items :: "nat \<Rightarrow> string \<Rightarrow> (json list \<times> string) option"
  and read_members :: "nat \<Rightarrow> string \<Rightarrow> ((string \<times> json) list \<times> string) option" where
  "read_value 0 s = None"
| "read_value (Suc n) s = (case s of
     [] \<Rightarrow> None
   | c # r \<Rightarrow>
       if c = CHR 0x22 then map_option (\<lambda>(t, q). (JStr t, q)) (read_chars r)
       else if c = CHR ''['' then
         (case r of
            [] \<Rightarrow> None
          | b # q \<Rightarrow> if b = CHR '']'' then Some (JArr [], q)
                       else map_option (\<lambda>(xs, q). (JArr xs, q)) (read_items n r))
       else if c = CHR ''{'' then
         (case r of
            [] \<Rightarrow> None
          | b # q \<Rightarrow> if b = CHR ''}'' then Some (JObj [], q)
                       else map_option (\<lambda>(xs, q). (JObj xs, q)) (read_members n r))
       else if c = CHR ''-'' then map_option (\<lambda>(i, q). (JInt (- int i), q)) (read_nat r)
       else if is_digit c then map_option (\<lambda>(i, q). (JInt (int i), q)) (read_nat s)
       else if starts_with ''null'' s then Some (JNull, drop 4 s)
       else if starts_with ''true'' s then Some (JBool True, drop 4 s)
       else if starts_with ''false'' s then Some (JBool False, drop 5 s)
       else None)"
| "read_items 0 s = None"
| "read_items (Suc n) s = (case read_value n s of
     None \<Rightarrow> None
   | Some (v, []) \<Rightarrow> None
   | Some (v, c # r) \<Rightarrow>
       if c = CHR '']'' then Some ([v], r)
       else if c = CHR '','' then map_option (\<lambda>(vs, q). (v # vs, q)) (read_items n r)
       else None)"
| "read_members 0 s = None"
| "read_members (Suc n) s = (case s of
     [] \<Rightarrow> None
   | b # s1 \<Rightarrow>
       if b \<noteq> CHR 0x22 then None
       else (case read_chars s1 of
               None \<Rightarrow> None
             | Some (k, []) \<Rightarrow> None
             | Some (k, d # s2) \<Rightarrow>
                 if d \<noteq> CHR '':'' then None
                 else (case read_value n s2 of
                         None \<Rightarrow> None
                       | Some (v, []) \<Rightarrow> None
                       | Some (v, c # r) \<Rightarrow>
                           if c = CHR ''}'' then Some ([(k, v)], r)
                           else if c = CHR '','' then map_option (\<lambda>(vs, q). ((k, v) # vs, q)) (read_members n r)
                           else None)))"

text \<open>The whole text is one value.\<close>

definition read_json :: "string \<Rightarrow> json option" where
  "read_json s = (case read_value (length s) s of Some (v, []) \<Rightarrow> Some v | _ \<Rightarrow> None)"

fun key_sorted :: "json \<Rightarrow> json" where
  "key_sorted (JArr xs) = JArr (map key_sorted xs)"
| "key_sorted (JObj kvs) = JObj (sort_key fst (map (\<lambda>(k, v). (k, key_sorted v)) kvs))"
| "key_sorted v = v"

section \<open>Numbers\<close>

lemma char_of_digit: "(d :: nat) < 10 \<Longrightarrow> (of_char (char_of (48 + d) :: char) :: nat) = 48 + d"
  by simp

lemma digit_char [simp]: "(d :: nat) < 10 \<Longrightarrow> is_digit (char_of (48 + d))"
  by (simp add: is_digit_def)

lemma digits_all: "list_all is_digit (digits n)"
proof (induction n rule: digits.induct)
  case (1 n)
  then show ?case by (subst digits.simps) auto
qed

lemma digits_nonempty [simp]: "digits n \<noteq> []"
  by (subst digits.simps) auto

lemma digits_value_snoc [simp]: "digits_value (ds @ [c]) = 10 * digits_value ds + (of_char c - 48)"
  by (simp add: digits_value_def)

lemma digits_value_digits: "digits_value (digits n) = n"
proof (induction n rule: digits.induct)
  case (1 n)
  show ?case
  proof (cases "n < 10")
    case True
    then show ?thesis by (subst digits.simps) (simp add: digits_value_def)
  next
    case False
    then show ?thesis using 1 by (subst digits.simps) simp
  qed
qed

lemma digits_leading: "hd (digits n) = CHR ''0'' \<Longrightarrow> n = 0"
proof (induction n rule: digits.induct)
  case (1 n)
  show ?case
  proof (cases "n < 10")
    case True
    then have "digits n = [char_of (48 + n)]" by (subst digits.simps) simp
    with "1.prems" have "(char_of (48 + n) :: char) = CHR ''0''" by simp
    then have "(of_char (char_of (48 + n) :: char) :: nat) = of_char (CHR ''0'')" by simp
    then show ?thesis using True by simp
  next
    case False
    then have "digits n = digits (n div 10) @ [char_of (48 + n mod 10)]" by (subst digits.simps) simp
    then have "hd (digits (n div 10)) = CHR ''0''" using "1.prems" by simp
    from "1.IH"[OF False this] show ?thesis using False by simp
  qed
qed

definition delimited :: "string \<Rightarrow> bool" where
  "delimited s \<longleftrightarrow> (case s of [] \<Rightarrow> True | c # _ \<Rightarrow> \<not> is_digit c)"

lemma zero_char_of: "char_of (48 :: nat) = CHR ''0''"
  by code_simp

lemma read_nat_digits:
  assumes "delimited rest"
  shows "read_nat (digits n @ rest) = Some (n, rest)"
proof -
  have stop: "takeWhile is_digit rest = []" "dropWhile is_digit rest = rest"
    using assms by (auto simp: delimited_def split: list.splits)
  have ds: "takeWhile is_digit (digits n @ rest) = digits n" "dropWhile is_digit (digits n @ rest) = rest"
    using digits_all[of n] stop by (simp_all add: list_all_iff)
  show ?thesis
  proof (cases "hd (digits n) = CHR ''0''")
    case True
    then have "n = 0" by (rule digits_leading)
    then have "digits n = [CHR ''0'']" by (subst digits.simps) (simp add: zero_char_of)
    then show ?thesis using ds \<open>n = 0\<close> by (simp add: read_nat_def)
  next
    case False
    then show ?thesis using ds by (simp add: read_nat_def digits_value_digits)
  qed
qed

section \<open>Strings\<close>

lemma hex_value_digit: "n < 16 \<Longrightarrow> hex_value (hex_digit n) = Some n"
  by (auto simp: hex_value_def hex_digit_def)

lemma char_of_parts: "char_of (16 * ((of_char c :: nat) div 16) + of_char c mod 16) = c"
  by simp

lemma read_escaped:
  "read_chars (json_escape_char c @ s) = map_option (\<lambda>(t, r). (c # t, r)) (read_chars s)"
proof (cases "(of_char c :: nat) < 32")
  case False
  then show ?thesis by (auto simp: json_escape_char_def simple_escape_def)
next
  case True
  then have control: "(of_char c :: nat) div 16 < 2" by simp
  have "hex_char (CHR ''0'') (CHR ''0'') (hex_digit (of_char c div 16)) (hex_digit (of_char c mod 16)) = Some c"
    using control by (simp add: hex_char_def hex_value_digit) (simp add: hex_value_def)
  then show ?thesis by (auto simp: json_escape_char_def simple_escape_def)
qed

lemma read_string: "read_chars (concat (map json_escape_char t) @ CHR 0x22 # s) = Some (t, s)"
  by (induction t) (simp_all add: read_escaped)

section \<open>Values\<close>

lemma map_sort_key_fst:
  fixes f :: "'v \<Rightarrow> 'w" and kvs :: "(string \<times> 'v) list"
  shows "map (\<lambda>(k, v). (k, f v)) (sort_key fst kvs) = sort_key fst (map (\<lambda>(k, v). (k, f v)) kvs)"
proof -
  have ins: "map (\<lambda>(k, v). (k, f v)) (insort_key fst x xs) =
      insort_key fst ((\<lambda>(k, v). (k, f v)) x) (map (\<lambda>(k, v). (k, f v)) xs)" for x xs
    by (cases x, induction xs) auto
  show ?thesis by (induction kvs) (simp_all add: ins)
qed

lemma str_int_cases:
  obtains (neg) n where "i < 0" "str_int i = CHR ''-'' # digits n" "i = - int n"
  | (pos) n where "str_int i = digits n" "i = int n"
proof (cases "i < 0")
  case True
  then show ?thesis using neg[of "nat (- i)"] by (simp add: str_int_def)
next
  case False
  then show ?thesis using pos[of "nat i"] by (simp add: str_int_def)
qed

lemma digits_head: "\<exists>c s. digits n = c # s \<and> is_digit c"
  using digits_all[of n] by (cases "digits n") auto

lemma digit_not_special:
  assumes "is_digit c"
  shows "c \<noteq> CHR 0x22" "c \<noteq> CHR ''[''" "c \<noteq> CHR '']''" "c \<noteq> CHR ''{''" "c \<noteq> CHR ''}''" "c \<noteq> CHR ''-''"
  using assms by (auto simp: is_digit_def)

lemma canonical_json_head: "\<exists>c s. canonical_json v = c # s \<and> c \<noteq> CHR '']''"
proof (cases v)
  case (JInt i)
  show ?thesis
  proof (cases i rule: str_int_cases)
    case (neg n)
    then show ?thesis using JInt by simp
  next
    case (pos n)
    then show ?thesis using JInt digits_head[of n] digit_not_special(3) by auto
  qed
qed (auto simp: json_string_def)

text \<open>One value, followed by text that is no digit, is read back whatever its fuel beyond its length.\<close>

definition reads_back :: "json \<Rightarrow> bool" where
  "reads_back v \<longleftrightarrow> (\<forall>n rest. delimited rest \<longrightarrow> length (canonical_json v) \<le> n \<longrightarrow>
     read_value n (canonical_json v @ rest) = Some (key_sorted v, rest))"

lemma delimited_bracket [simp]: "delimited (CHR '']'' # s)" "delimited (CHR ''}'' # s)" "delimited (CHR '','' # s)"
  by (simp_all add: delimited_def is_digit_def)

lemma read_items_back:
  assumes "xs \<noteq> []" and "\<And>x. x \<in> set xs \<Longrightarrow> reads_back x"
    and "length (join '','' (map canonical_json xs)) < n"
  shows "read_items n (join '','' (map canonical_json xs) @ CHR '']'' # rest) = Some (map key_sorted xs, rest)"
  using assms
proof (induction xs arbitrary: n rule: induct_list012)
  case 1
  then show ?case by simp
next
  case (2 x)
  then obtain m where m: "n = Suc m" by (cases n) auto
  then show ?case using 2 by (auto simp: reads_back_def)
next
  case (3 x y zs)
  then obtain m where m: "n = Suc m" by (cases n) auto
  have len: "length (canonical_json x) \<le> m" "length (join '','' (map canonical_json (y # zs))) < m"
    using 3(5) m by simp_all
  have "read_value m (canonical_json x @ CHR '','' # join '','' (map canonical_json (y # zs)) @ CHR '']'' # rest)
      = Some (key_sorted x, CHR '','' # join '','' (map canonical_json (y # zs)) @ CHR '']'' # rest)"
    using 3(4)[of x] len(1) unfolding reads_back_def by simp
  moreover have "read_items m (join '','' (map canonical_json (y # zs)) @ CHR '']'' # rest)
      = Some (map key_sorted (y # zs), rest)"
    by (rule 3(2)) (use 3(4) len(2) in auto)
  ultimately show ?case using m by simp
qed

definition member_text :: "string \<times> json \<Rightarrow> string" where
  "member_text kv = json_string (fst kv) @ '':'' @ canonical_json (snd kv)"

lemma read_members_back:
  assumes "kvs \<noteq> []" and "\<And>k v. (k, v) \<in> set kvs \<Longrightarrow> reads_back v"
    and "length (join '','' (map member_text kvs)) < n"
  shows "read_members n (join '','' (map member_text kvs) @ CHR ''}'' # rest)
       = Some (map (\<lambda>(k, v). (k, key_sorted v)) kvs, rest)"
  using assms
proof (induction kvs arbitrary: n rule: induct_list012)
  case 1
  then show ?case by simp
next
  case (2 x)
  then obtain m where m: "n = Suc m" by (cases n) auto
  obtain k v where x: "x = (k, v)" by (cases x)
  have "read_value m (canonical_json v @ CHR ''}'' # rest) = Some (key_sorted v, CHR ''}'' # rest)"
    using 2(2,3) m x unfolding reads_back_def by (auto simp: member_text_def)
  then show ?case using m x by (simp add: member_text_def json_string_def read_string)
next
  case (3 x y zs)
  then obtain m where m: "n = Suc m" by (cases n) auto
  obtain k v where x: "x = (k, v)" by (cases x)
  define T where "T = join '','' (map member_text (y # zs)) @ CHR ''}'' # rest"
  let ?s = "CHR '','' # T"
  have len: "length (canonical_json v) \<le> m" "length (join '','' (map member_text (y # zs))) < m"
  proof -
    have "length (member_text x) + length (join '','' (map member_text (y # zs))) < m"
      using 3(5) m by simp
    moreover have "length (canonical_json v) \<le> length (member_text x)" using x by (simp add: member_text_def)
    ultimately show "length (canonical_json v) \<le> m" "length (join '','' (map member_text (y # zs))) < m"
      by linarith+
  qed
  have "read_value m (canonical_json v @ ?s) = Some (key_sorted v, ?s)"
    using 3(4)[of k v] len(1) x unfolding reads_back_def by simp
  moreover have "read_members m T = Some (map (\<lambda>(k, v). (k, key_sorted v)) (y # zs), rest)"
    unfolding T_def by (rule 3(2)) (use 3(4) len(2) in auto)
  moreover have "join '','' (map member_text (x # y # zs)) @ CHR ''}'' # rest =
      CHR 0x22 # concat (map json_escape_char k) @ CHR 0x22 # CHR '':'' # canonical_json v @ ?s"
    using x by (simp add: T_def member_text_def json_string_def)
  ultimately show ?case using m x by (simp add: read_string del: join.simps)
qed

lemma member_texts:
  "map (\<lambda>(k, v). json_string k @ '':'' @ v) (sort_key fst (map (\<lambda>(k, v). (k, canonical_json v)) kvs))
     = map member_text (sort_key fst kvs)"
  unfolding map_sort_key_fst[symmetric] by (simp add: member_text_def case_prod_beta)

lemma canonical_json_members:
  "canonical_json (JObj kvs) = ''{'' @ join '','' (map member_text (sort_key fst kvs)) @ ''}''"
  by (simp only: canonical_json.simps member_texts)

lemma reads_back: "reads_back v"
proof (induction v)
  case (JInt i)
  show ?case
    unfolding reads_back_def
  proof (intro allI impI)
    fix n rest assume rest: "delimited rest" and n: "length (canonical_json (JInt i)) \<le> n"
    obtain m where m: "n = Suc m" using n canonical_json_head[of "JInt i"] by (cases n) auto
    show "read_value n (canonical_json (JInt i) @ rest) = Some (key_sorted (JInt i), rest)"
    proof (cases i rule: str_int_cases)
      case (neg k)
      then show ?thesis using m rest by (simp add: read_nat_digits is_digit_def)
    next
      case (pos k)
      obtain c ds where c: "digits k = c # ds" "is_digit c" using digits_head by blast
      then show ?thesis
        using pos m read_nat_digits[OF rest, of k] digit_not_special[OF c(2)] by simp
    qed
  qed
next
  case (JArr xs)
  show ?case
    unfolding reads_back_def
  proof (intro allI impI)
    fix n rest assume n: "length (canonical_json (JArr xs)) \<le> n"
    then obtain m where m: "n = Suc m" by (cases n) auto
    show "read_value n (canonical_json (JArr xs) @ rest) = Some (key_sorted (JArr xs), rest)"
    proof (cases xs)
      case Nil
      then show ?thesis using m by simp
    next
      case (Cons x zs)
      let ?body = "join '','' (map canonical_json xs)"
      obtain c s where c: "?body @ CHR '']'' # rest = c # s" "c \<noteq> CHR '']''"
        using canonical_json_head[of x] Cons by (cases zs) auto
      have "read_items m (?body @ CHR '']'' # rest) = Some (map key_sorted xs, rest)"
        by (rule read_items_back) (use JArr Cons n m in auto)
      then show ?thesis using m c by simp
    qed
  qed
next
  case (JObj kvs)
  show ?case
    unfolding reads_back_def
  proof (intro allI impI)
    fix n rest assume n: "length (canonical_json (JObj kvs)) \<le> n"
    then obtain m where m: "n = Suc m" by (cases n) auto
    let ?kvs = "sort_key fst kvs" and ?body = "join '','' (map member_text (sort_key fst kvs))"
    show "read_value n (canonical_json (JObj kvs) @ rest) = Some (key_sorted (JObj kvs), rest)"
    proof (cases ?kvs)
      case Nil
      then have "kvs = []" by (metis set_empty set_sort)
      then show ?thesis using m by simp
    next
      case (Cons kv zs)
      obtain c s where c: "?body @ CHR ''}'' # rest = c # s" "c \<noteq> CHR ''}''"
        using Cons by (cases zs) (auto simp: member_text_def json_string_def)
      have "read_members m (?body @ CHR ''}'' # rest) = Some (map (\<lambda>(k, v). (k, key_sorted v)) ?kvs, rest)"
      proof (rule read_members_back)
        show "?kvs \<noteq> []" using Cons by simp
        show "reads_back v" if "(k, v) \<in> set ?kvs" for k v
          using JObj that by fastforce
        show "length ?body < m" using n m unfolding canonical_json_members by simp
      qed
      then show ?thesis
        using m c unfolding canonical_json_members by (simp add: map_sort_key_fst)
    qed
  qed
qed (auto simp: reads_back_def json_string_def read_string starts_with_def is_digit_def
    split: nat.splits elim!: Suc_le_D[THEN exE])

lemma read_canonical: "read_json (canonical_json v) = Some (key_sorted v)"
proof -
  have "delimited []" by (simp add: delimited_def)
  then have "read_value (length (canonical_json v)) (canonical_json v @ []) = Some (key_sorted v, [])"
    using reads_back[of v] unfolding reads_back_def by blast
  then show ?thesis by (simp add: read_json_def)
qed

section \<open>Property\<close>

lemma sort_key_idem: "sort_key fst (sort_key fst kvs) = sort_key fst (kvs :: (string \<times> 'v) list)"
  by (simp add: sort_key_id_if_sorted)

lemma canonical_json_key_sorted: "canonical_json (key_sorted v) = canonical_json v"
proof (induction v)
  case (JArr xs)
  then have "map (canonical_json \<circ> key_sorted) xs = map canonical_json xs" by simp
  then show ?case by (simp only: key_sorted.simps canonical_json.simps map_map)
next
  case (JObj kvs)
  have same: "map (\<lambda>(k, v). (k, canonical_json v)) (map (\<lambda>(k, v). (k, key_sorted v)) kvs)
      = map (\<lambda>(k, v). (k, canonical_json v)) kvs"
    using JObj by (auto simp: case_prod_beta)
  have "map (\<lambda>(k, v). (k, canonical_json v)) (sort_key fst (map (\<lambda>(k, v). (k, key_sorted v)) kvs))
      = sort_key fst (map (\<lambda>(k, v). (k, canonical_json v)) kvs)"
    unfolding map_sort_key_fst same ..
  then show ?case by (simp add: sort_key_idem)
qed simp_all

text \<open>
  C18. Canonical JSON loses nothing but the order of keys: the text of every value is read back
  as the value with its keys sorted, and two values have one text exactly when they agree up to
  that order.  So two fingerprints of different contents can only meet in a SHA-256 collision.
\<close>

theorem canonical_json_roundtrip:
  "read_json (canonical_json v) = Some (key_sorted v) \<and>
   (canonical_json v = canonical_json w \<longleftrightarrow> key_sorted v = key_sorted w)"
  using read_canonical[of v] read_canonical[of w] canonical_json_key_sorted[of v] canonical_json_key_sorted[of w]
  by (metis option.inject)

end
