(* ===== verification/SemanticContracts.thy ===== *)
theory SemanticContracts
  imports Normalization SourceIndex
begin

text \<open>
  \<open>semantics/contracts.py\<close>, \<open>semantics/candidate_validation.py\<close>, \<open>semantics/policy.py\<close> and
  \<open>model_providers/bounds.py\<close>: the bounded context shown to a model, what the model may answer,
  and the deterministic judgement of its answer.  A record with field constraints is built by its
  \<open>construct_\<dots>\<close> function, which checks the lengths first, as pydantic does, then strips and runs
  the validator of the class.
\<close>

section \<open>Policies\<close>

record generation_bounds =
  gb_version :: string
  gb_max_excerpt_material_bytes :: nat
  gb_max_output_tokens :: nat
  gb_max_serialized_response_bytes :: nat
  gb_max_structured_items :: nat
  gb_max_references_per_item :: nat
  gb_max_explanation_characters :: nat
  gb_max_reference_characters :: nat

definition DEFAULT_STRUCTURED_GENERATION_BOUNDS :: generation_bounds where
  "DEFAULT_STRUCTURED_GENERATION_BOUNDS =
     \<lparr>gb_version = ''structured-generation-bounds-v1'', gb_max_excerpt_material_bytes = 256 * 1024,
      gb_max_output_tokens = 2048, gb_max_serialized_response_bytes = 16 * 1024,
      gb_max_structured_items = 8, gb_max_references_per_item = 4,
      gb_max_explanation_characters = 512, gb_max_reference_characters = 128\<rparr>"

record bundle_policy =
  bp_version :: string
  bp_max_presented_candidates :: nat
  bp_generation :: generation_bounds

definition DEFAULT_SEMANTIC_BUNDLE_POLICY :: bundle_policy where
  "DEFAULT_SEMANTIC_BUNDLE_POLICY = \<lparr>bp_version = ''semantic-bundle-policy-v1'',
     bp_max_presented_candidates = 64, bp_generation = DEFAULT_STRUCTURED_GENERATION_BOUNDS\<rparr>"

definition max_excerpt_bytes :: "bundle_policy \<Rightarrow> nat" where
  "max_excerpt_bytes p = gb_max_excerpt_material_bytes (bp_generation p)"

definition max_output_tokens :: "bundle_policy \<Rightarrow> nat" where
  "max_output_tokens p = gb_max_output_tokens (bp_generation p)"

definition max_response_bytes :: "bundle_policy \<Rightarrow> nat" where
  "max_response_bytes p = gb_max_serialized_response_bytes (bp_generation p)"

definition MAX_RETURNED_CANDIDATES :: nat where
  "MAX_RETURNED_CANDIDATES = gb_max_structured_items DEFAULT_STRUCTURED_GENERATION_BOUNDS"

definition MAX_RATIONALE_CHARACTERS :: nat where
  "MAX_RATIONALE_CHARACTERS = gb_max_explanation_characters DEFAULT_STRUCTURED_GENERATION_BOUNDS"

definition MAX_REFERENCES_PER_CANDIDATE :: nat where
  "MAX_REFERENCES_PER_CANDIDATE = gb_max_references_per_item DEFAULT_STRUCTURED_GENERATION_BOUNDS"

definition MAX_REFERENCE_CHARACTERS :: nat where
  "MAX_REFERENCE_CHARACTERS = gb_max_reference_characters DEFAULT_STRUCTURED_GENERATION_BOUNDS"

lemmas semantic_bounds = MAX_RETURNED_CANDIDATES_def MAX_RATIONALE_CHARACTERS_def
  MAX_REFERENCES_PER_CANDIDATE_def MAX_REFERENCE_CHARACTERS_def DEFAULT_STRUCTURED_GENERATION_BOUNDS_def

text \<open>\<open>Field(min_length=1, max_length=n)\<close>\<close>

definition bounded :: "nat \<Rightarrow> string \<Rightarrow> bool" where
  "bounded n s \<longleftrightarrow> 1 \<le> length s \<and> length s \<le> n"

definition eligible_kind :: "symbol_kind \<Rightarrow> bool" where
  "eligible_kind k \<longleftrightarrow> k \<in> {SYM_FUNCTION, SYM_ASYNC_FUNCTION, SYM_METHOD, SYM_ASYNC_METHOD}"

section \<open>The context\<close>

datatype bundle_completeness = BUNDLE_COMPLETE | BUNDLE_PARTIAL

fun bundle_completeness_value :: "bundle_completeness \<Rightarrow> string" where
  "bundle_completeness_value BUNDLE_COMPLETE = ''BUNDLE_COMPLETE''"
| "bundle_completeness_value BUNDLE_PARTIAL = ''BUNDLE_PARTIAL''"

datatype excerpt_purpose = PURPOSE_CANDIDATE | PURPOSE_SUPPORTING

fun excerpt_purpose_value :: "excerpt_purpose \<Rightarrow> string" where
  "excerpt_purpose_value PURPOSE_CANDIDATE = ''CANDIDATE''"
| "excerpt_purpose_value PURPOSE_SUPPORTING = ''SUPPORTING''"

datatype semantic_code =
    SD_CANDIDATE_LIMIT_REACHED
  | SD_EXCERPT_BYTE_LIMIT_REACHED
  | SD_RELEVANT_SOURCE_DIAGNOSTIC
  | SD_RELEVANT_GRAPH_DIAGNOSTIC
  | SD_RELEVANT_CALL_UNRESOLVED
  | SD_PAYMENT_INGRESS_UNDETERMINED
  | SD_RELEVANT_SOURCE_UNAVAILABLE
  | SD_UNSUPPORTED_INLINE_ACTION

fun semantic_code_value :: "semantic_code \<Rightarrow> string" where
  "semantic_code_value SD_CANDIDATE_LIMIT_REACHED = ''CANDIDATE_LIMIT_REACHED''"
| "semantic_code_value SD_EXCERPT_BYTE_LIMIT_REACHED = ''EXCERPT_BYTE_LIMIT_REACHED''"
| "semantic_code_value SD_RELEVANT_SOURCE_DIAGNOSTIC = ''RELEVANT_SOURCE_DIAGNOSTIC''"
| "semantic_code_value SD_RELEVANT_GRAPH_DIAGNOSTIC = ''RELEVANT_GRAPH_DIAGNOSTIC''"
| "semantic_code_value SD_RELEVANT_CALL_UNRESOLVED = ''RELEVANT_CALL_UNRESOLVED''"
| "semantic_code_value SD_PAYMENT_INGRESS_UNDETERMINED = ''PAYMENT_INGRESS_UNDETERMINED''"
| "semantic_code_value SD_RELEVANT_SOURCE_UNAVAILABLE = ''RELEVANT_SOURCE_UNAVAILABLE''"
| "semantic_code_value SD_UNSUPPORTED_INLINE_ACTION = ''UNSUPPORTED_INLINE_ACTION''"

record semantic_diagnostic =
  sd_code :: semantic_code
  sd_reference :: string
  sd_affected_symbol_id :: "string option"
  sd_affected_path :: "string option"
  sd_fingerprint :: string

definition construct_semantic_diagnostic :: "semantic_diagnostic \<Rightarrow> semantic_diagnostic result" where
  "construct_semantic_diagnostic d =
     (if \<not> bounded 512 (sd_reference d) then Inl (ValueError ''diagnostic reference length'')
      else if (case sd_affected_path d of None \<Rightarrow> False | Some p \<Rightarrow> \<not> bounded 2048 p)
      then Inl (ValueError ''diagnostic path length'')
      else Inr (d\<lparr>sd_reference := strip (sd_reference d),
                  sd_affected_path := map_option strip (sd_affected_path d)\<rparr>))"

definition semantic_diagnostic_fields :: "semantic_diagnostic \<Rightarrow> (string \<times> json) list" where
  "semantic_diagnostic_fields d =
     [(''code'', JStr (semantic_code_value (sd_code d))), (''reference'', JStr (sd_reference d)),
      (''affected_symbol_id'', jopt JStr (sd_affected_symbol_id d)),
      (''affected_path'', jopt JStr (sd_affected_path d)), (''fingerprint'', JStr (sd_fingerprint d))]"

record catalog_entry =
  ce_catalog_reference :: string
  ce_symbol_id :: string
  ce_qualified_name :: string
  ce_symbol_kind :: symbol_kind
  ce_excerpt_references :: "string list"

definition bounded_references :: "string list \<Rightarrow> bool" where
  "bounded_references refs \<longleftrightarrow>
     list_all (\<lambda>r. strip r \<noteq> [] \<and> length r \<le> MAX_REFERENCE_CHARACTERS) refs"

definition validate_catalog_entry :: "catalog_entry \<Rightarrow> error option" where
  "validate_catalog_entry e =
     (if \<not> eligible_kind (ce_symbol_kind e)
      then Some (ValueError ''semantic catalog entries must be functions or methods'')
      else if \<not> distinct (ce_excerpt_references e)
      then Some (ValueError ''catalog excerpt references must be unique'')
      else if \<not> bounded_references (ce_excerpt_references e)
      then Some (ValueError ''catalog excerpt references must be bounded and non-blank'')
      else None)"

definition construct_catalog_entry :: "catalog_entry \<Rightarrow> catalog_entry result" where
  "construct_catalog_entry e =
     (if \<not> bounded MAX_REFERENCE_CHARACTERS (ce_catalog_reference e) \<or>
         \<not> bounded 512 (ce_qualified_name e) \<or>
         MAX_REFERENCES_PER_CANDIDATE < length (ce_excerpt_references e)
      then Inl (ValueError ''catalog entry length'')
      else construct validate_catalog_entry
        (e\<lparr>ce_catalog_reference := strip (ce_catalog_reference e),
           ce_qualified_name := strip (ce_qualified_name e)\<rparr>))"

definition catalog_entry_json :: "catalog_entry \<Rightarrow> json" where
  "catalog_entry_json e = JObj
     [(''catalog_reference'', JStr (ce_catalog_reference e)), (''symbol_id'', JStr (ce_symbol_id e)),
      (''qualified_name'', JStr (ce_qualified_name e)),
      (''symbol_kind'', JStr (symbol_kind_value (ce_symbol_kind e))),
      (''excerpt_references'', jstrs (ce_excerpt_references e))]"

record source_excerpt =
  se_excerpt_reference :: string
  se_purpose :: excerpt_purpose
  se_symbol_id :: string
  se_source_location :: source_location
  se_content_fingerprint :: string
  se_content :: string

definition construct_source_excerpt :: "source_excerpt \<Rightarrow> source_excerpt result" where
  "construct_source_excerpt e =
     (if \<not> bounded MAX_REFERENCE_CHARACTERS (se_excerpt_reference e)
      then Inl (ValueError ''excerpt reference length'')
      else if strip (se_content e) = [] then Inl (ValueError ''excerpt fields must not be blank'')
      else Inr (e\<lparr>se_excerpt_reference := strip (se_excerpt_reference e)\<rparr>))"

definition source_excerpt_json :: "source_excerpt \<Rightarrow> json" where
  "source_excerpt_json e = JObj
     [(''excerpt_reference'', JStr (se_excerpt_reference e)),
      (''purpose'', JStr (excerpt_purpose_value (se_purpose e))), (''symbol_id'', JStr (se_symbol_id e)),
      (''source_location'', source_location_json (se_source_location e)),
      (''content_fingerprint'', JStr (se_content_fingerprint e)), (''content'', JStr (se_content e))]"

datatype context_evidence_kind = CE_SOURCE_EXCERPT | CE_PAYMENT_CALL | CE_GRAPH_FACT

fun context_evidence_kind_value :: "context_evidence_kind \<Rightarrow> string" where
  "context_evidence_kind_value CE_SOURCE_EXCERPT = ''SOURCE_EXCERPT''"
| "context_evidence_kind_value CE_PAYMENT_CALL = ''PAYMENT_CALL''"
| "context_evidence_kind_value CE_GRAPH_FACT = ''GRAPH_FACT''"

record context_evidence =
  xe_kind :: context_evidence_kind
  xe_reference :: string
  xe_fingerprint :: string

definition construct_context_evidence :: "context_evidence \<Rightarrow> context_evidence result" where
  "construct_context_evidence e =
     (if \<not> bounded 1024 (xe_reference e) then Inl (ValueError ''context evidence reference length'')
      else Inr (e\<lparr>xe_reference := strip (xe_reference e)\<rparr>))"

definition context_evidence_json :: "context_evidence \<Rightarrow> json" where
  "context_evidence_json e = JObj
     [(''kind'', JStr (context_evidence_kind_value (xe_kind e))), (''reference'', JStr (xe_reference e)),
      (''fingerprint'', JStr (xe_fingerprint e))]"

record context_descriptor =
  cx_payment_ingress_symbol_ids :: "string list"
  cx_relevant_symbol_ids :: "string list"
  cx_presented_symbol_ids :: "string list"
  cx_bundle_completeness :: bundle_completeness
  cx_diagnostics :: "semantic_diagnostic list"
  cx_source_excerpts :: "context_evidence list"
  cx_payment_calls :: "context_evidence list"
  cx_graph_neighborhood :: "context_evidence list"

definition validate_evidence_group :: "context_evidence_kind \<Rightarrow> context_evidence list \<Rightarrow> error option" where
  "validate_evidence_group expected records =
     (if list_ex (\<lambda>e. xe_kind e \<noteq> expected) records
      then Some (ValueError (''semantic-context evidence must be '' @ context_evidence_kind_value expected))
      else if \<not> distinct (map (\<lambda>e. (xe_reference e, xe_fingerprint e)) records)
      then Some (ValueError ''semantic-context evidence records must be unique'')
      else None)"

definition validate_context :: "context_descriptor \<Rightarrow> error option" where
  "validate_context c =
     (if \<not> (distinct (cx_payment_ingress_symbol_ids c) \<and> distinct (cx_relevant_symbol_ids c) \<and>
            distinct (cx_presented_symbol_ids c))
      then Some (ValueError ''semantic-context symbol collections must be unique'')
      else if \<not> set (cx_payment_ingress_symbol_ids c) \<subseteq> set (cx_relevant_symbol_ids c)
      then Some (ValueError ''payment ingress symbols must be relevant'')
      else if \<not> set (cx_presented_symbol_ids c) \<subseteq> set (cx_relevant_symbol_ids c)
      then Some (ValueError ''presented symbols must be relevant'')
      else if set (cx_payment_ingress_symbol_ids c) \<inter> set (cx_presented_symbol_ids c) \<noteq> {}
      then Some (ValueError ''payment ingress route owners cannot be presented candidates'')
      else if cx_bundle_completeness c = BUNDLE_COMPLETE \<and> cx_diagnostics c \<noteq> []
      then Some (ValueError ''complete semantic bundles cannot contain known omissions'')
      else if cx_bundle_completeness c = BUNDLE_PARTIAL \<and> cx_diagnostics c = []
      then Some (ValueError ''partial semantic bundles require omission diagnostics'')
      else first_error [validate_evidence_group CE_SOURCE_EXCERPT (cx_source_excerpts c),
                        validate_evidence_group CE_PAYMENT_CALL (cx_payment_calls c),
                        validate_evidence_group CE_GRAPH_FACT (cx_graph_neighborhood c)])"

record mapping_input =
  mi_project_id :: string
  mi_project_source_fingerprint :: string
  mi_source_index_fingerprint :: string
  mi_graph_fingerprint :: string
  mi_semantic_context :: context_descriptor
  mi_catalog :: "catalog_entry list"
  mi_excerpts :: "source_excerpt list"

definition check_entry_excerpts :: "source_excerpt list \<Rightarrow> catalog_entry \<Rightarrow> error option" where
  "check_entry_excerpts excerpts e =
     (if \<not> set (ce_excerpt_references e) \<subseteq> set (map se_excerpt_reference excerpts)
      then Some (ValueError ''catalog entry refers to an unknown excerpt'')
      else if list_ex (\<lambda>r. case dict_by se_excerpt_reference excerpts r of
             None \<Rightarrow> False
           | Some x \<Rightarrow> se_purpose x \<noteq> PURPOSE_CANDIDATE \<or> se_symbol_id x \<noteq> ce_symbol_id e)
           (ce_excerpt_references e)
      then Some (ValueError ''catalog entries may cite only their candidate excerpts'')
      else None)"

definition check_excerpt_scope :: "mapping_input \<Rightarrow> source_excerpt \<Rightarrow> error option" where
  "check_excerpt_scope m x =
     (if se_purpose x = PURPOSE_CANDIDATE
      then (if se_symbol_id x \<notin> set (map ce_symbol_id (mi_catalog m))
            then Some (ValueError ''candidate excerpt refers outside the catalog'') else None)
      else if se_symbol_id x \<notin> set (cx_relevant_symbol_ids (mi_semantic_context m))
      then Some (ValueError ''supporting excerpt refers outside relevant context'')
      else None)"

definition validate_mapping_input :: "mapping_input \<Rightarrow> error option" where
  "validate_mapping_input m =
     (let symbols = map ce_symbol_id (mi_catalog m)
      in if \<not> distinct (map ce_catalog_reference (mi_catalog m))
         then Some (ValueError ''semantic catalog references must be unique'')
         else if \<not> distinct symbols
         then Some (ValueError ''semantic catalog symbol IDs must be unique'')
         else if \<not> distinct (map se_excerpt_reference (mi_excerpts m))
         then Some (ValueError ''source excerpt references must be unique'')
         else if set symbols \<noteq> set (cx_presented_symbol_ids (mi_semantic_context m))
         then Some (ValueError ''semantic catalog must match presented context symbols'')
         else if set symbols \<inter> set (cx_payment_ingress_symbol_ids (mi_semantic_context m)) \<noteq> {}
         then Some (ValueError ''route owners cannot be customer-value candidates'')
         else case first_error (map (check_entry_excerpts (mi_excerpts m)) (mi_catalog m)) of
                Some e \<Rightarrow> Some e
              | None \<Rightarrow> first_error (map (check_excerpt_scope m) (mi_excerpts m)))"

section \<open>What a model answers\<close>

text \<open>A finite floating-point number, as its mantissa over a power of two.\<close>

type_synonym confidence = "int \<times> nat"

record raw_candidate =
  rw_symbol_reference :: string
  rw_rationale :: string
  rw_excerpt_references :: "string list"
  rw_provider_confidence :: "confidence option"

definition confidence_in_range :: "confidence option \<Rightarrow> bool" where
  "confidence_in_range c = (case c of None \<Rightarrow> True | Some (m, e) \<Rightarrow> 0 \<le> m \<and> m \<le> 2 ^ e)"

definition construct_raw_candidate :: "raw_candidate \<Rightarrow> raw_candidate result" where
  "construct_raw_candidate r =
     (if \<not> bounded MAX_REFERENCE_CHARACTERS (rw_symbol_reference r) \<or>
         \<not> bounded MAX_RATIONALE_CHARACTERS (rw_rationale r) \<or>
         MAX_REFERENCES_PER_CANDIDATE < length (rw_excerpt_references r) \<or>
         \<not> confidence_in_range (rw_provider_confidence r)
      then Inl (ValueError ''raw candidate constraints'')
      else if \<not> bounded_references (rw_excerpt_references r)
      then Inl (ValueError ''candidate references must be bounded and non-blank'')
      else Inr (r\<lparr>rw_symbol_reference := strip (rw_symbol_reference r),
                  rw_rationale := strip (rw_rationale r)\<rparr>))"

text \<open>\<open>RawCustomerValueOutput.model_validate\<close>, once the output is read as candidate fields.\<close>

definition validate_raw_output :: "raw_candidate list \<Rightarrow> raw_candidate list result" where
  "validate_raw_output candidates =
     (if MAX_RETURNED_CANDIDATES < length candidates then Inl (ValueError ''too many candidates'')
      else traverse construct_raw_candidate candidates)"

record semantic_candidate =
  sm_catalog_reference :: string
  sm_symbol_id :: string
  sm_rationale :: string
  sm_excerpt_references :: "string list"
  sm_provider_confidence :: "confidence option"

definition validate_candidate :: "semantic_candidate \<Rightarrow> error option" where
  "validate_candidate c =
     (if \<not> distinct (sm_excerpt_references c)
      then Some (ValueError ''semantic candidate excerpt references must be unique'')
      else if \<not> bounded_references (sm_excerpt_references c)
      then Some (ValueError ''semantic candidate references must be bounded and non-blank'')
      else None)"

definition construct_candidate :: "semantic_candidate \<Rightarrow> semantic_candidate result" where
  "construct_candidate c =
     (if \<not> bounded MAX_REFERENCE_CHARACTERS (sm_catalog_reference c) \<or>
         \<not> bounded MAX_RATIONALE_CHARACTERS (sm_rationale c) \<or>
         MAX_REFERENCES_PER_CANDIDATE < length (sm_excerpt_references c) \<or>
         \<not> confidence_in_range (sm_provider_confidence c)
      then Inl (ValueError ''semantic candidate constraints'')
      else construct validate_candidate
        (c\<lparr>sm_catalog_reference := strip (sm_catalog_reference c), sm_rationale := strip (sm_rationale c)\<rparr>))"

datatype rejection_reason = UNKNOWN_SYMBOL_REFERENCE | UNKNOWN_EXCERPT_REFERENCE | DUPLICATE_CANDIDATE

fun rejection_reason_value :: "rejection_reason \<Rightarrow> string" where
  "rejection_reason_value UNKNOWN_SYMBOL_REFERENCE = ''UNKNOWN_SYMBOL_REFERENCE''"
| "rejection_reason_value UNKNOWN_EXCERPT_REFERENCE = ''UNKNOWN_EXCERPT_REFERENCE''"
| "rejection_reason_value DUPLICATE_CANDIDATE = ''DUPLICATE_CANDIDATE''"

record rejected_candidate =
  rj_raw_candidate :: raw_candidate
  rj_reasons :: "rejection_reason list"

record classification =
  cl_valid_candidates :: "semantic_candidate list"
  cl_rejected_candidates :: "rejected_candidate list"

section \<open>Classification and resolution\<close>

definition rejection_reasons :: "catalog_entry list \<Rightarrow> string set \<Rightarrow> raw_candidate \<Rightarrow> rejection_reason list" where
  "rejection_reasons catalog seen raw =
     (if rw_symbol_reference raw \<in> seen then [DUPLICATE_CANDIDATE] else []) @
     (case dict_by ce_catalog_reference catalog (rw_symbol_reference raw) of
        None \<Rightarrow> [UNKNOWN_SYMBOL_REFERENCE]
      | Some entry \<Rightarrow>
          if \<not> set (rw_excerpt_references raw) \<subseteq> set (ce_excerpt_references entry)
          then [UNKNOWN_EXCERPT_REFERENCE] else [])"

definition candidate_of :: "catalog_entry \<Rightarrow> raw_candidate \<Rightarrow> semantic_candidate result" where
  "candidate_of entry raw = construct_candidate
     \<lparr>sm_catalog_reference = ce_catalog_reference entry, sm_symbol_id = ce_symbol_id entry,
      sm_rationale = rw_rationale raw, sm_excerpt_references = rw_excerpt_references raw,
      sm_provider_confidence = rw_provider_confidence raw\<rparr>"

fun classify_from ::
  "catalog_entry list \<Rightarrow> string set \<Rightarrow> semantic_candidate list \<Rightarrow> rejected_candidate list \<Rightarrow>
   raw_candidate list \<Rightarrow> classification result" where
  "classify_from catalog seen valid rejected [] =
     Inr \<lparr>cl_valid_candidates = valid, cl_rejected_candidates = rejected\<rparr>"
| "classify_from catalog seen valid rejected (raw # raws) =
     (let reasons = rejection_reasons catalog seen raw;
          seen' = insert (rw_symbol_reference raw) seen
      in if reasons \<noteq> []
         then classify_from catalog seen' valid
                (rejected @ [\<lparr>rj_raw_candidate = raw, rj_reasons = reasons\<rparr>]) raws
         else case dict_by ce_catalog_reference catalog (rw_symbol_reference raw) of
                None \<Rightarrow> Inl (AssertionError ''entry is not None'')
              | Some entry \<Rightarrow> bind_result (candidate_of entry raw) (\<lambda>c.
                  classify_from catalog seen' (valid @ [c]) rejected raws))"

definition classify_candidates :: "raw_candidate list \<Rightarrow> catalog_entry list \<Rightarrow> classification result" where
  "classify_candidates raws catalog = classify_from catalog {} [] [] raws"

text \<open>A decision carries the state, the basis and the symbol of a resolution.\<close>

definition resolve_model_candidates ::
  "classification \<Rightarrow> bundle_completeness \<Rightarrow> value_resolution option" where
  "resolve_model_candidates c completeness =
     (if completeness = BUNDLE_PARTIAL then None
      else Some (case cl_valid_candidates c of
        [] \<Rightarrow> \<lparr>vx_state = RESOLUTION_UNMAPPED, vx_basis = BASIS_UNRESOLVED, vx_selected_symbol_id = None\<rparr>
      | [x] \<Rightarrow> \<lparr>vx_state = RESOLUTION_UNIQUE, vx_basis = BASIS_MODEL_UNIQUE,
               vx_selected_symbol_id = Some (sm_symbol_id x)\<rparr>
      | _ \<Rightarrow> \<lparr>vx_state = RESOLUTION_AMBIGUOUS, vx_basis = BASIS_UNRESOLVED,
               vx_selected_symbol_id = None\<rparr>))"

section \<open>The semantic artifact\<close>

datatype provider_failure_code =
    PF_AUTHENTICATION | PF_UNAVAILABLE | PF_RATE_LIMITED | PF_TIMEOUT | PF_INCOMPATIBLE_MODEL
  | PF_CONTEXT_LIMIT | PF_OUTPUT_LIMIT | PF_REFUSED | PF_INVALID_STRUCTURED_OUTPUT | PF_TRANSPORT_FAILURE

fun provider_failure_code_value :: "provider_failure_code \<Rightarrow> string" where
  "provider_failure_code_value PF_AUTHENTICATION = ''AUTHENTICATION''"
| "provider_failure_code_value PF_UNAVAILABLE = ''UNAVAILABLE''"
| "provider_failure_code_value PF_RATE_LIMITED = ''RATE_LIMITED''"
| "provider_failure_code_value PF_TIMEOUT = ''TIMEOUT''"
| "provider_failure_code_value PF_INCOMPATIBLE_MODEL = ''INCOMPATIBLE_MODEL''"
| "provider_failure_code_value PF_CONTEXT_LIMIT = ''CONTEXT_LIMIT''"
| "provider_failure_code_value PF_OUTPUT_LIMIT = ''OUTPUT_LIMIT''"
| "provider_failure_code_value PF_REFUSED = ''REFUSED''"
| "provider_failure_code_value PF_INVALID_STRUCTURED_OUTPUT = ''INVALID_STRUCTURED_OUTPUT''"
| "provider_failure_code_value PF_TRANSPORT_FAILURE = ''TRANSPORT_FAILURE''"

record human_audit =
  ha_selected_symbol_id :: string
  ha_basis :: resolution_basis
  ha_acted_at :: string

record model_attempt =
  ma_provider_id :: string
  ma_model :: string
  ma_request_fingerprint :: string
  ma_attempt_count :: nat
  ma_latency_ms :: "nat option"
  ma_token_usage :: "(nat option \<times> nat option) option"

record provider_failure =
  pf_code :: provider_failure_code
  pf_status_code :: "nat option"

record bundle_audit =
  ba_policy_version :: string
  ba_max_presented_candidates :: nat
  ba_max_excerpt_bytes :: nat
  ba_max_output_tokens :: nat
  ba_max_response_bytes :: nat

record semantic_artifact =
  sv_project_id :: string
  sv_project_source_fingerprint :: string
  sv_source_index_fingerprint :: string
  sv_structural_graph_fingerprint :: string
  sv_context :: context_descriptor
  sv_semantic_context_fingerprint :: string
  sv_bundle_policy :: bundle_audit
  sv_provider_bundle_fingerprint :: "string option"
  sv_model_attempt :: "model_attempt option"
  sv_provider_failure :: "provider_failure option"
  sv_valid_candidates :: "semantic_candidate list"
  sv_rejected_candidates :: "rejected_candidate list"
  sv_partial_bundle_suggestions :: "semantic_candidate list"
  sv_resolution :: "value_resolution option"
  sv_resolution_fingerprint :: "string option"
  sv_human_audit :: "human_audit option"

definition human_basis :: "resolution_basis \<Rightarrow> bool" where
  "human_basis b \<longleftrightarrow> b \<in> {BASIS_HUMAN_CONFIRMED, BASIS_MANUAL_SELECTION}"

definition validate_semantic_artifact :: "semantic_artifact \<Rightarrow> error option" where
  "validate_semantic_artifact a =
     (if \<not> distinct (map sm_symbol_id (sv_valid_candidates a)) \<or>
         \<not> distinct (map sm_symbol_id (sv_partial_bundle_suggestions a))
      then Some (ValueError ''semantic candidates must be unique by symbol'')
      else if cx_bundle_completeness (sv_context a) = BUNDLE_PARTIAL \<and> sv_valid_candidates a \<noteq> []
      then Some (ValueError ''partial bundles cannot contain authoritative valid candidates'')
      else if cx_bundle_completeness (sv_context a) = BUNDLE_PARTIAL \<and>
         (case sv_resolution a of None \<Rightarrow> False
          | Some r \<Rightarrow> vx_basis r \<in> {BASIS_MODEL_UNIQUE, BASIS_UNRESOLVED})
      then Some (ValueError ''partial bundles cannot create automatic resolution'')
      else if sv_provider_failure a \<noteq> None \<and> sv_model_attempt a = None
      then Some (ValueError ''provider failure requires a recorded model attempt'')
      else case sv_resolution a of
        None \<Rightarrow>
          if sv_resolution_fingerprint a \<noteq> None \<or> sv_human_audit a \<noteq> None
          then Some (ValueError ''resolution evidence requires a resolution'') else None
      | Some r \<Rightarrow>
          if sv_resolution_fingerprint a = None
          then Some (ValueError ''resolved semantic artifacts require a resolution fingerprint'')
          else if human_basis (vx_basis r) \<noteq> (sv_human_audit a \<noteq> None)
          then Some (ValueError ''human resolution and audit metadata must appear together'')
          else (case sv_human_audit a of
                  None \<Rightarrow> None
                | Some h \<Rightarrow>
                    if Some (ha_selected_symbol_id h) \<noteq> vx_selected_symbol_id r \<or> ha_basis h \<noteq> vx_basis r
                    then Some (ValueError ''human audit must match the authoritative resolution'')
                    else None))"

text \<open>What pydantic checks when it builds the artifact: the validators of its nested records, then its own.\<close>

definition valid_semantic_artifact :: "semantic_artifact \<Rightarrow> bool" where
  "valid_semantic_artifact a \<longleftrightarrow>
     validate_context (sv_context a) = None \<and>
     (\<forall>r \<in> set_option (sv_resolution a). validate_value_resolution r = None) \<and>
     validate_semantic_artifact a = None"

section \<open>Fingerprints of the context and of a decision\<close>

definition presentation_code :: "semantic_code \<Rightarrow> bool" where
  "presentation_code c \<longleftrightarrow> c \<in> {SD_CANDIDATE_LIMIT_REACHED, SD_EXCERPT_BYTE_LIMIT_REACHED}"

definition canonical_evidence :: "context_evidence list \<Rightarrow> json" where
  "canonical_evidence records = JArr (map context_evidence_json
     (sort_key (\<lambda>e. [context_evidence_kind_value (xe_kind e), xe_reference e, xe_fingerprint e]) records))"

text \<open>\<open>str()\<close> of a text value in a dictionary, and of the dictionary \<open>model_dump\<close> returns.\<close>

definition repr_char :: "char \<Rightarrow> char \<Rightarrow> string" where
  "repr_char quote c =
     (let n = (of_char c :: nat)
      in if c = quote \<or> c = CHR 0x5C then [CHR 0x5C, c]
         else if c = CHR 0x09 then [CHR 0x5C, CHR ''t'']
         else if c = CHR 0x0A then [CHR 0x5C, CHR ''n'']
         else if c = CHR 0x0D then [CHR 0x5C, CHR ''r'']
         else if n < 32 \<or> (127 \<le> n \<and> n \<le> 160) \<or> n = 173
         then [CHR 0x5C, CHR ''x'', hex_digit (n div 16), hex_digit (n mod 16)]
         else [c])"

definition py_repr :: "string \<Rightarrow> string" where
  "py_repr s =
     (let quote = (if CHR 0x27 \<in> set s \<and> CHR 0x22 \<notin> set s then CHR 0x22 else CHR 0x27)
      in quote # concat (map (repr_char quote) s) @ [quote])"

definition repr_option :: "string option \<Rightarrow> string" where
  "repr_option x = (case x of None \<Rightarrow> ''None'' | Some s \<Rightarrow> py_repr s)"

definition diagnostic_text :: "semantic_diagnostic \<Rightarrow> string" where
  "diagnostic_text d =
     ''{'' @ join '', '' [py_repr ''code'' @ '': '' @ py_repr (semantic_code_value (sd_code d)),
       py_repr ''reference'' @ '': '' @ py_repr (sd_reference d),
       py_repr ''affected_symbol_id'' @ '': '' @ repr_option (sd_affected_symbol_id d),
       py_repr ''affected_path'' @ '': '' @ repr_option (sd_affected_path d),
       py_repr ''fingerprint'' @ '': '' @ py_repr (sd_fingerprint d)] @ ''}''"

definition semantic_context_fingerprint :: "context_descriptor \<Rightarrow> string" where
  "semantic_context_fingerprint c = fingerprint_json (JObj
     [(''schema_version'', JInt 2),
      (''payment_ingress_symbol_ids'', jstrs (sort (cx_payment_ingress_symbol_ids c))),
      (''relevant_symbol_ids'', jstrs (sort (cx_relevant_symbol_ids c))),
      (''diagnostics'', JArr (map (\<lambda>d. JObj (semantic_diagnostic_fields d)) (sort_key diagnostic_text
         (filter (\<lambda>d. \<not> presentation_code (sd_code d)) (cx_diagnostics c))))),
      (''source_excerpts'', canonical_evidence (cx_source_excerpts c)),
      (''payment_calls'', canonical_evidence (cx_payment_calls c)),
      (''graph_neighborhood'', canonical_evidence (cx_graph_neighborhood c))])"

definition provider_bundle_fingerprint :: "mapping_input \<Rightarrow> string \<Rightarrow> string \<Rightarrow> string \<Rightarrow> string" where
  "provider_bundle_fingerprint m mapper_version instructions_version serialized = fingerprint_json (JObj
     [(''mapper_version'', JStr mapper_version), (''instructions_version'', JStr instructions_version),
      (''presented_symbol_ids'', jstrs (sort (cx_presented_symbol_ids (mi_semantic_context m)))),
      (''catalog'', JArr (map catalog_entry_json (mi_catalog m))),
      (''excerpts'', JArr (map source_excerpt_json (mi_excerpts m))),
      (''serialized_provider_input'', JStr serialized)])"

definition value_resolution_json :: "value_resolution \<Rightarrow> json" where
  "value_resolution_json r = JObj
     [(''state'', JStr (resolution_state_value (vx_state r))),
      (''basis'', JStr (resolution_basis_value (vx_basis r))),
      (''selected_symbol_id'', jopt JStr (vx_selected_symbol_id r))]"

definition resolution_fingerprint :: "value_resolution \<Rightarrow> string \<Rightarrow> string" where
  "resolution_fingerprint r semantic_fingerprint = fingerprint_json (JObj
     [(''semantic_context_fingerprint'', JStr semantic_fingerprint),
      (''resolution'', value_resolution_json r)])"

definition is_semantic_confirmation_stale :: "string \<Rightarrow> string \<Rightarrow> bool" where
  "is_semantic_confirmation_stale stored current \<longleftrightarrow> stored \<noteq> current"

end
