(* ===== verification/SemanticContext.thy ===== *)
theory SemanticContext
  imports SemanticContracts
begin

text \<open>
  \<open>semantics/context_builder.py\<close> and \<open>validate_indexed_source_snapshot\<close> of
  \<open>discovery/service.py\<close>: the call neighbourhood of the payment ingresses, breadth first, and the
  bounded view of it that is shown to a model.  The file system and the iteration order of a
  Python set are fields of the record \<open>source_world\<close>.
\<close>

section \<open>The source tree\<close>

datatype indexed_path = SymbolicLink | UnreadablePath | PathBytes "byte list"

record source_world =
  sw_root_available :: bool
  sw_indexed_path :: "string \<Rightarrow> indexed_path"
  sw_text :: "string \<Rightarrow> string option"
  sw_set_order :: "semantic_diagnostic list \<Rightarrow> semantic_diagnostic list"

definition check_indexed_file :: "source_world \<Rightarrow> source_file \<Rightarrow> error option" where
  "check_indexed_file w f =
     (case sw_indexed_path w (sf_path f) of
        SymbolicLink \<Rightarrow> Some (ValueError ''indexed source path is now a symlink'')
      | UnreadablePath \<Rightarrow> Some (ValueError ''indexed source path is missing or unreadable'')
      | PathBytes raw \<Rightarrow>
          if length raw \<noteq> sf_byte_size f \<or> sha256_digest raw \<noteq> sf_content_fingerprint f
          then Some (ValueError ''indexed source bytes changed; re-indexing is required'')
          else None)"

definition validate_indexed_source_snapshot :: "source_world \<Rightarrow> source_index \<Rightarrow> error option" where
  "validate_indexed_source_snapshot w i =
     (if \<not> sw_root_available w then Some (ValueError ''repository root is unavailable'')
      else first_error (map (check_indexed_file w) (ix_indexed_files i)))"

text \<open>\<open>str.splitlines(keepends=True)\<close> on code points below 256.\<close>

definition line_break :: "char \<Rightarrow> bool" where
  "line_break c = (let n = (of_char c :: nat) in (10 \<le> n \<and> n \<le> 13) \<or> (28 \<le> n \<and> n \<le> 30) \<or> n = 133)"

fun split_lines :: "string \<Rightarrow> string list" where
  "split_lines [] = []"
| "split_lines [c] = [[c]]"
| "split_lines (c # d # s) =
     (if c = CHR 0x0D \<and> d = CHR 0x0A then [c, d] # split_lines s
      else if line_break c then [c] # split_lines (d # s)
      else (case split_lines (d # s) of [] \<Rightarrow> [[c]] | l # ls \<Rightarrow> (c # l) # ls))"

text \<open>\<open>_symbol_source\<close>: the lines of a symbol; \<open>StaleSourceIndexError\<close> is a \<open>ValueError\<close>.\<close>

definition symbol_source :: "source_world \<Rightarrow> symbol_record \<Rightarrow> string result" where
  "symbol_source w s =
     (let l = sy_source_location s
      in case sw_text w (sl_path l) of
           None \<Rightarrow> Inl (ValueError ''indexed semantic source is unavailable'')
         | Some source \<Rightarrow>
             (let first = sl_line_start l - 1;
                  excerpt = concat (take (sl_line_end l - first) (drop first (split_lines source)))
              in if strip excerpt = [] then Inl (ValueError ''indexed semantic source span is unavailable'')
                 else Inr excerpt))"

section \<open>The reachable callables\<close>

definition callable_symbol :: "source_index \<Rightarrow> string \<Rightarrow> bool" where
  "callable_symbol i s = (case symbol_of i s of None \<Rightarrow> False | Some r \<Rightarrow> eligible_kind (sy_kind r))"

definition outgoing_calls :: "source_index \<Rightarrow> string \<Rightarrow> call_site list" where
  "outgoing_calls i caller = sort_key
     (\<lambda>c. [case ca_callee_symbol_id c of None \<Rightarrow> '''' | Some s \<Rightarrow> s, ca_callee_reference c])
     (filter (\<lambda>c. ca_caller_symbol_id c = caller \<and> ca_callee_symbol_id c \<noteq> None) (ix_call_sites i))"

text \<open>The dictionaries \<open>distances\<close> and \<open>paths\<close>, which have the same keys, in insertion order.\<close>

record reached_symbol =
  rs_symbol_id :: string
  rs_distance :: nat
  rs_path :: "call_site list"

definition reached_ids :: "reached_symbol list \<Rightarrow> string list" where
  "reached_ids reached = map rs_symbol_id reached"

definition follow_call ::
  "source_index \<Rightarrow> reached_symbol \<Rightarrow> reached_symbol list \<times> reached_symbol list \<Rightarrow> call_site \<Rightarrow>
   reached_symbol list \<times> reached_symbol list" where
  "follow_call i caller st call = (case st of (reached, queue) \<Rightarrow>
     (case ca_callee_symbol_id call of
        None \<Rightarrow> (reached, queue)
      | Some callee \<Rightarrow>
          if \<not> callable_symbol i callee \<or> callee \<in> set (reached_ids reached) then (reached, queue)
          else (let x = \<lparr>rs_symbol_id = callee, rs_distance = rs_distance caller + 1,
                         rs_path = rs_path caller @ [call]\<rparr>
                in (reached @ [x], queue @ [x]))))"

definition follow_calls ::
  "source_index \<Rightarrow> reached_symbol \<Rightarrow> reached_symbol list \<Rightarrow> reached_symbol list \<Rightarrow>
   reached_symbol list \<times> reached_symbol list" where
  "follow_calls i caller reached queue =
     foldl (follow_call i caller) (reached, queue) (outgoing_calls i (rs_symbol_id caller))"

definition unreached :: "source_index \<Rightarrow> reached_symbol list \<Rightarrow> string set" where
  "unreached i reached = {s \<in> set (map sy_symbol_id (ix_symbols i)). callable_symbol i s} - set (reached_ids reached)"

lemma finite_unreached [simp]: "finite (unreached i reached)"
  by (simp add: unreached_def)

lemma callable_symbol_known: "callable_symbol i s \<Longrightarrow> s \<in> set (map sy_symbol_id (ix_symbols i))"
  by (auto simp: callable_symbol_def symbol_of_def dest: dict_by_SomeD split: option.splits)

lemma follow_call_measure:
  "follow_call i caller (reached, queue) call = (reached', queue') \<Longrightarrow>
   2 * card (unreached i reached') + length queue' \<le> 2 * card (unreached i reached) + length queue"
proof -
  assume step: "follow_call i caller (reached, queue) call = (reached', queue')"
  show ?thesis
  proof (cases "reached' = reached")
    case True
    then show ?thesis using step
      by (auto simp: follow_call_def Let_def split: option.splits if_splits)
  next
    case False
    then obtain callee where callee: "ca_callee_symbol_id call = Some callee"
      using step by (auto simp: follow_call_def split: option.splits)
    have new: "callable_symbol i callee" "callee \<notin> set (reached_ids reached)"
      "set (reached_ids reached') = insert callee (set (reached_ids reached))" "length queue' = Suc (length queue)"
      using step callee False by (auto simp: follow_call_def Let_def reached_ids_def split: if_splits)
    then have "callee \<in> unreached i reached" using callable_symbol_known by (auto simp: unreached_def)
    moreover have "unreached i reached' = unreached i reached - {callee}"
      using new(3) by (auto simp: unreached_def)
    ultimately have "Suc (card (unreached i reached')) = card (unreached i reached)"
      by (metis card_Suc_Diff1 finite_unreached)
    then show ?thesis using new(4) by simp
  qed
qed

lemma foldl_follow_measure:
  "foldl (follow_call i caller) (reached, queue) calls = (reached', queue') \<Longrightarrow>
   2 * card (unreached i reached') + length queue' \<le> 2 * card (unreached i reached) + length queue"
proof (induction calls arbitrary: reached queue)
  case Nil
  then show ?case by simp
next
  case (Cons call calls)
  obtain r q where step: "follow_call i caller (reached, queue) call = (r, q)" by (cases "follow_call i caller (reached, queue) call")
  then have "foldl (follow_call i caller) (r, q) calls = (reached', queue')" using Cons.prems by simp
  then show ?case using Cons.IH follow_call_measure[OF step] by fastforce
qed

function search_calls :: "source_index \<Rightarrow> reached_symbol list \<Rightarrow> reached_symbol list \<Rightarrow> reached_symbol list" where
  "search_calls i reached [] = reached"
| "search_calls i reached (caller # queue) =
     (case follow_calls i caller reached queue of (reached', queue') \<Rightarrow> search_calls i reached' queue')"
  by pat_completeness auto

lemma follow_calls_measure:
  assumes "(reached', queue') = follow_calls i caller reached queue"
  shows "2 * card (unreached i reached') + length queue' < Suc (2 * card (unreached i reached) + length queue)"
  using foldl_follow_measure[OF assms[unfolded follow_calls_def, symmetric]] by simp

termination search_calls
  by (relation "measure (\<lambda>(i, reached, queue). 2 * card (unreached i reached) + length queue)")
    (auto dest: follow_calls_measure[OF sym] split: prod.splits)

declare search_calls.simps(2) [simp del]

definition ingress_nodes_of :: "safety_graph \<Rightarrow> graph_node list" where
  "ingress_nodes_of g = filter (\<lambda>n. gn_kind n = PAYMENT_INGRESS) (pg_nodes g)"

definition seed_ids :: "safety_graph \<Rightarrow> string list" where
  "seed_ids g = sort (remdups (filter (\<lambda>s. s \<noteq> []) (List.map_filter gn_backing_symbol_id (ingress_nodes_of g))))"

definition seed_entries :: "source_index \<Rightarrow> safety_graph \<Rightarrow> reached_symbol list" where
  "seed_entries i g = map (\<lambda>s. \<lparr>rs_symbol_id = s, rs_distance = 0, rs_path = []\<rparr>)
     (filter (callable_symbol i) (seed_ids g))"

definition reached_callables :: "source_index \<Rightarrow> safety_graph \<Rightarrow> reached_symbol list" where
  "reached_callables i g = search_calls i (seed_entries i g) (seed_entries i g)"

definition relevant_ids :: "reached_symbol list \<Rightarrow> string list" where
  "relevant_ids reached = sort (reached_ids reached)"

definition distance_of :: "reached_symbol list \<Rightarrow> string \<Rightarrow> nat" where
  "distance_of reached s = (case dict_by rs_symbol_id reached s of None \<Rightarrow> 0 | Some x \<Rightarrow> rs_distance x)"

definition route_owner :: "source_index \<Rightarrow> string \<Rightarrow> bool" where
  "route_owner i s \<longleftrightarrow> s \<in> set (map rr_owner_symbol_id (ix_routes i))"

text \<open>The relevant symbols are sorted, so sorting them by distance keeps equal distances in order.\<close>

definition nearest_first :: "reached_symbol list \<Rightarrow> (string \<Rightarrow> bool) \<Rightarrow> string list" where
  "nearest_first reached P = sort_key (distance_of reached) (filter P (relevant_ids reached))"

section \<open>Diagnostics\<close>

definition semantic_diagnostic_of ::
  "semantic_code \<Rightarrow> string \<Rightarrow> string option \<Rightarrow> string option \<Rightarrow> semantic_diagnostic result" where
  "semantic_diagnostic_of code reference symbol path = construct_semantic_diagnostic
     \<lparr>sd_code = code, sd_reference = reference, sd_affected_symbol_id = symbol, sd_affected_path = path,
      sd_fingerprint = fingerprint_json (JObj
        [(''code'', JStr (semantic_code_value code)), (''reference'', JStr reference),
         (''symbol_id'', jopt JStr symbol), (''path'', jopt JStr path)])\<rparr>"

definition source_diagnostic_path :: "source_diagnostic \<Rightarrow> string option" where
  "source_diagnostic_path d =
     (case dg_path d of
        Some p \<Rightarrow> if p \<noteq> [] then Some p else map_option sl_path (dg_source_location d)
      | None \<Rightarrow> map_option sl_path (dg_source_location d))"

definition source_omissions :: "source_index \<Rightarrow> string list \<Rightarrow> semantic_diagnostic list result" where
  "source_omissions i paths = traverse (\<lambda>d. semantic_diagnostic_of SD_RELEVANT_SOURCE_DIAGNOSTIC
       (''source-diagnostic:'' @ source_diagnostic_code_value (dg_code d)) None (source_diagnostic_path d))
     (filter (\<lambda>d. dg_impact d = SOURCE_COVERAGE_REDUCED \<and>
        (case source_diagnostic_path d of None \<Rightarrow> False | Some p \<Rightarrow> p \<in> set paths)) (ix_diagnostics i))"

definition relevant_route_ids :: "safety_graph \<Rightarrow> string list" where
  "relevant_route_ids g = List.map_filter (\<lambda>n. case gn_details n of
     Some (PaymentIngressDetails d) \<Rightarrow> Some (er_route_registration_id (pi_registration d)) | _ \<Rightarrow> None)
     (ingress_nodes_of g)"

definition in_option :: "string option \<Rightarrow> string list \<Rightarrow> bool" where
  "in_option x ys = (case x of None \<Rightarrow> False | Some y \<Rightarrow> y \<in> set ys)"

definition graph_omissions :: "safety_graph \<Rightarrow> string list \<Rightarrow> semantic_diagnostic list result" where
  "graph_omissions g relevant = traverse (\<lambda>d. semantic_diagnostic_of SD_RELEVANT_GRAPH_DIAGNOSTIC
       (''graph-diagnostic:'' @ graph_diagnostic_code_value (gd_code d)) (gd_symbol_id d)
       (map_option sl_path (gd_source_location d)))
     (filter (\<lambda>d. gd_impact d = COVERAGE_REDUCED \<and>
        (in_option (gd_symbol_id d) relevant \<or>
         in_option (gd_route_registration_id d) (relevant_route_ids g) \<or>
         (seed_ids g = [] \<and> gd_code d \<in> {APP_TARGET_UNSELECTED, ROUTE_COMPOSITION_UNRESOLVED,
                                             ROUTE_COMPOSITION_CYCLE}))) (pg_diagnostics g))"

definition last_segment :: "string \<Rightarrow> string" where
  "last_segment s = last (split_on CHR ''.'' s)"

definition known_simple_names :: "source_index \<Rightarrow> string list" where
  "known_simple_names i = map (\<lambda>s. last_segment (sy_qualified_name s))
     (filter (\<lambda>s. eligible_kind (sy_kind s)) (ix_symbols i))"

definition call_omissions :: "source_index \<Rightarrow> string list \<Rightarrow> semantic_diagnostic list result" where
  "call_omissions i relevant = traverse (\<lambda>c. semantic_diagnostic_of SD_RELEVANT_CALL_UNRESOLVED
       (''unresolved-call:'' @ ca_caller_symbol_id c @ '':'' @ ca_callee_reference c)
       (Some (ca_caller_symbol_id c)) (Some (sl_path (ca_source_location c))))
     (filter (\<lambda>c. ca_caller_symbol_id c \<in> set relevant \<and> ca_callee_symbol_id c = None \<and>
        last_segment (ca_callee_reference c) \<in> set (known_simple_names i)) (ix_call_sites i))"

definition lookup_symbol :: "source_index \<Rightarrow> string \<Rightarrow> symbol_record result" where
  "lookup_symbol i s = (case symbol_of i s of None \<Rightarrow> Inl KeyError | Some r \<Rightarrow> Inr r)"

text \<open>The dictionary \<open>source_text\<close>.\<close>

definition source_text :: "source_world \<Rightarrow> source_index \<Rightarrow> string \<Rightarrow> string option" where
  "source_text w i s = (case symbol_of i s of
     None \<Rightarrow> None
   | Some r \<Rightarrow> (case symbol_source w r of Inl _ \<Rightarrow> None | Inr t \<Rightarrow> Some t))"

definition text_omissions ::
  "source_world \<Rightarrow> source_index \<Rightarrow> string list \<Rightarrow> semantic_diagnostic list result" where
  "text_omissions w i relevant = traverse (\<lambda>s. bind_result (lookup_symbol i s) (\<lambda>r.
       semantic_diagnostic_of SD_RELEVANT_SOURCE_UNAVAILABLE (''source-unavailable:'' @ s) (Some s)
         (Some (sl_path (sy_source_location r)))))
     (filter (\<lambda>s. source_text w i s = None) relevant)"

section \<open>Evidence\<close>

definition symbol_evidence ::
  "source_index \<Rightarrow> (string \<Rightarrow> string) \<Rightarrow> string \<Rightarrow> context_evidence result" where
  "symbol_evidence i content s = bind_result (lookup_symbol i s) (\<lambda>r. construct_context_evidence
     \<lparr>xe_kind = CE_SOURCE_EXCERPT, xe_reference = ''symbol-definition:'' @ s,
      xe_fingerprint = fingerprint_json (JObj
        [(''symbol_id'', JStr s), (''qualified_name'', JStr (sy_qualified_name r)),
         (''kind'', JStr (symbol_kind_value (sy_kind r))), (''content'', JStr (content s))])\<rparr>)"

definition call_fingerprint :: "call_site \<Rightarrow> string" where
  "call_fingerprint c = fingerprint_json (JObj
     [(''caller'', JStr (ca_caller_symbol_id c)), (''callee'', jopt JStr (ca_callee_symbol_id c)),
      (''reference'', JStr (ca_callee_reference c)),
      (''source_location'', source_location_json (ca_source_location c))])"

definition call_position :: "call_site \<Rightarrow> string" where
  "call_position c = sl_path (ca_source_location c) @ '':'' @
     str_int (int (sl_line_start (ca_source_location c))) @ '':'' @
     str_int (int (sl_column_start (ca_source_location c)))"

definition internal_calls :: "source_index \<Rightarrow> string list \<Rightarrow> call_site list" where
  "internal_calls i relevant = filter (\<lambda>c. ca_caller_symbol_id c \<in> set relevant \<and>
     in_option (ca_callee_symbol_id c) relevant) (ix_call_sites i)"

definition named_call_evidence :: "source_index \<Rightarrow> call_site \<Rightarrow> context_evidence result" where
  "named_call_evidence i c =
     bind_result (lookup_symbol i (ca_caller_symbol_id c)) (\<lambda>caller.
     bind_result (case ca_callee_symbol_id c of None \<Rightarrow> Inl KeyError | Some s \<Rightarrow> lookup_symbol i s) (\<lambda>callee.
       construct_context_evidence
         \<lparr>xe_kind = CE_PAYMENT_CALL,
          xe_reference = ''resolved-call:'' @ sy_qualified_name caller @ ''->'' @ sy_qualified_name callee @
            ''@'' @ call_position c,
          xe_fingerprint = call_fingerprint c\<rparr>))"

definition details_route_id :: "node_details option \<Rightarrow> string option" where
  "details_route_id d = (case d of
     Some (TrustGateDetails x) \<Rightarrow> Some (tg_route_registration_id x)
   | Some (EventIdentityGuardDetails x) \<Rightarrow> Some (eg_route_registration_id x)
   | Some (PaymentStateGateDetails x) \<Rightarrow> Some (sg_route_registration_id x)
   | Some (MerchantStateMutationDetails x) \<Rightarrow> Some (mm_route_registration_id x)
   | Some (AcknowledgementBoundaryDetails x) \<Rightarrow> Some (ab_route_registration_id x)
   | _ \<Rightarrow> None)"

definition node_fingerprint :: "graph_node \<Rightarrow> string" where
  "node_fingerprint n = fingerprint_json (JObj
     [(''kind'', JStr (graph_node_kind_value (gn_kind n))),
      (''backing_symbol_id'', jopt JStr (gn_backing_symbol_id n)), (''label'', JStr (gn_label n)),
      (''details'', jopt node_details_json (gn_details n))])"

definition fact_evidence :: "graph_node \<Rightarrow> context_evidence result" where
  "fact_evidence n = construct_context_evidence
     \<lparr>xe_kind = CE_GRAPH_FACT,
      xe_reference = ''graph-fact:'' @ graph_node_kind_value (gn_kind n) @ '':'' @
        (case gn_backing_symbol_id n of None \<Rightarrow> ''None'' | Some s \<Rightarrow> s),
      xe_fingerprint = node_fingerprint n\<rparr>"

definition relevant_nodes :: "safety_graph \<Rightarrow> string list \<Rightarrow> graph_node list" where
  "relevant_nodes g relevant = filter (\<lambda>n. in_option (gn_backing_symbol_id n) relevant \<or>
     in_option (details_route_id (gn_details n)) (relevant_route_ids g)) (pg_nodes g)"

section \<open>The bounded view\<close>

definition content_size :: "string \<Rightarrow> nat" where
  "content_size s = length (utf8 s)"

fun budget_supporting ::
  "nat \<Rightarrow> (string \<Rightarrow> string option) \<Rightarrow> nat \<Rightarrow> string list \<Rightarrow> (nat \<times> semantic_diagnostic list) result" where
  "budget_supporting limit text used [] = Inr (used, [])"
| "budget_supporting limit text used (s # ss) =
     (case text s of
        None \<Rightarrow> budget_supporting limit text used ss
      | Some content \<Rightarrow>
          if limit < used + content_size content
          then bind_result (semantic_diagnostic_of SD_EXCERPT_BYTE_LIMIT_REACHED
                 (''supporting-excerpt-omitted:'' @ s) (Some s) None) (\<lambda>d.
               bind_result (budget_supporting limit text used ss) (\<lambda>(total, ds). Inr (total, d # ds)))
          else budget_supporting limit text (used + content_size content) ss)"

fun budget_candidates ::
  "bundle_policy \<Rightarrow> (string \<Rightarrow> string option) \<Rightarrow> nat \<Rightarrow> string list \<Rightarrow> string list \<Rightarrow>
   (string list \<times> semantic_diagnostic list) result" where
  "budget_candidates policy text used presented [] = Inr (presented, [])"
| "budget_candidates policy text used presented (s # ss) =
     (case text s of
        None \<Rightarrow> budget_candidates policy text used presented ss
      | Some content \<Rightarrow>
          if bp_max_presented_candidates policy \<le> length presented
          then bind_result (semantic_diagnostic_of SD_CANDIDATE_LIMIT_REACHED
                 (''candidate-omitted:'' @ s) (Some s) None) (\<lambda>d.
               bind_result (budget_candidates policy text used presented ss) (\<lambda>(ps, ds). Inr (ps, d # ds)))
          else if max_excerpt_bytes policy < used + content_size content
          then bind_result (semantic_diagnostic_of SD_EXCERPT_BYTE_LIMIT_REACHED
                 (''candidate-excerpt-omitted:'' @ s) (Some s) None) (\<lambda>d.
               bind_result (budget_candidates policy text used presented ss) (\<lambda>(ps, ds). Inr (ps, d # ds)))
          else budget_candidates policy text (used + content_size content) (presented @ [s]) ss)"

definition excerpt_reference_of :: "string \<Rightarrow> string" where
  "excerpt_reference_of s = ''src_'' @ drop 6 s"

definition excerpt_of ::
  "excerpt_purpose \<Rightarrow> string \<Rightarrow> symbol_record \<Rightarrow> string \<Rightarrow> source_excerpt result" where
  "excerpt_of purpose s r content = construct_source_excerpt
     \<lparr>se_excerpt_reference = excerpt_reference_of s, se_purpose = purpose, se_symbol_id = s,
      se_source_location = sy_source_location r, se_content_fingerprint = sha256_digest_str content,
      se_content = content\<rparr>"

fun supporting_excerpts ::
  "source_index \<Rightarrow> nat \<Rightarrow> (string \<Rightarrow> string option) \<Rightarrow> nat \<Rightarrow> string list \<Rightarrow> source_excerpt list result" where
  "supporting_excerpts i limit text used [] = Inr []"
| "supporting_excerpts i limit text used (s # ss) =
     (case text s of
        None \<Rightarrow> supporting_excerpts i limit text used ss
      | Some content \<Rightarrow>
          if limit < used + content_size content then supporting_excerpts i limit text used ss
          else bind_result (lookup_symbol i s) (\<lambda>r.
               bind_result (excerpt_of PURPOSE_SUPPORTING s r content) (\<lambda>x.
               bind_result (supporting_excerpts i limit text (used + content_size content) ss) (\<lambda>xs.
                 Inr (x # xs)))))"

text \<open>\<open>f"candidate_{ordinal:03d}"\<close>\<close>

definition candidate_reference :: "nat \<Rightarrow> string" where
  "candidate_reference ordinal =
     ''candidate_'' @ replicate (3 - length (digits ordinal)) (CHR ''0'') @ digits ordinal"

definition candidate_material ::
  "source_index \<Rightarrow> (string \<Rightarrow> string option) \<Rightarrow> nat \<times> string \<Rightarrow> (source_excerpt \<times> catalog_entry) result" where
  "candidate_material i text entry = (case entry of (ordinal, s) \<Rightarrow>
     (case text s of
        None \<Rightarrow> Inl KeyError
      | Some content \<Rightarrow>
          bind_result (lookup_symbol i s) (\<lambda>r.
          bind_result (excerpt_of PURPOSE_CANDIDATE s r content) (\<lambda>x.
          bind_result (construct_catalog_entry
            \<lparr>ce_catalog_reference = candidate_reference ordinal, ce_symbol_id = s,
             ce_qualified_name = sy_qualified_name r, ce_symbol_kind = sy_kind r,
             ce_excerpt_references = [excerpt_reference_of s]\<rparr>) (\<lambda>e. Inr (x, e))))))"

section \<open>The context of a project\<close>

record context_build =
  cb_descriptor :: context_descriptor
  cb_mapping_input :: "mapping_input option"
  cb_call_paths :: "string \<rightharpoonup> call_site list"
  cb_policy :: bundle_policy

definition ordered_diagnostics :: "source_world \<Rightarrow> semantic_diagnostic list \<Rightarrow> semantic_diagnostic list" where
  "ordered_diagnostics w ds =
     sort_key (\<lambda>d. [semantic_code_value (sd_code d), sd_reference d]) (sw_set_order w ds)"

definition build_mapping_input ::
  "source_index \<Rightarrow> safety_graph \<Rightarrow> context_descriptor \<Rightarrow> (string \<Rightarrow> string option) \<Rightarrow> nat \<Rightarrow>
   string list \<Rightarrow> string list \<Rightarrow> mapping_input result" where
  "build_mapping_input i g descriptor text limit supporting presented =
     bind_result (supporting_excerpts i limit text 0 supporting) (\<lambda>support.
     bind_result (traverse (candidate_material i text) (zip [1..<Suc (length presented)] presented)) (\<lambda>material.
       construct validate_mapping_input
         \<lparr>mi_project_id = ix_project_id i, mi_project_source_fingerprint = ix_project_source_fingerprint i,
          mi_source_index_fingerprint = ix_source_index_fingerprint i,
          mi_graph_fingerprint = pg_graph_fingerprint g, mi_semantic_context = descriptor,
          mi_catalog = map snd material, mi_excerpts = support @ map fst material\<rparr>))"

definition context_omissions ::
  "source_world \<Rightarrow> source_index \<Rightarrow> safety_graph \<Rightarrow> string list \<Rightarrow> semantic_diagnostic list result" where
  "context_omissions w i g relevant =
     (let paths = List.map_filter (\<lambda>s. map_option (\<lambda>r. sl_path (sy_source_location r)) (symbol_of i s)) relevant
      in bind_result (source_omissions i paths) (\<lambda>ds1.
         bind_result (graph_omissions g relevant) (\<lambda>ds2.
         bind_result (call_omissions i relevant) (\<lambda>ds3.
         bind_result (text_omissions w i relevant) (\<lambda>ds4. Inr (ds1 @ ds2 @ ds3 @ ds4))))))"

definition build_descriptor ::
  "source_world \<Rightarrow> source_index \<Rightarrow> safety_graph \<Rightarrow> bundle_policy \<Rightarrow> reached_symbol list \<Rightarrow>
   context_descriptor result" where
  "build_descriptor w i g policy reached =
     (let relevant = relevant_ids reached;
          supporting = nearest_first reached (route_owner i);
          candidates = nearest_first reached (\<lambda>s. \<not> route_owner i s);
          text = (\<lambda>s. if s \<in> set relevant then source_text w i s else None);
          content = (\<lambda>s. case text s of None \<Rightarrow> ''<unavailable>'' | Some t \<Rightarrow> t)
      in bind_result (context_omissions w i g relevant) (\<lambda>omissions.
         bind_result (traverse (symbol_evidence i content) relevant) (\<lambda>sources.
         bind_result (traverse (named_call_evidence i) (internal_calls i relevant)) (\<lambda>calls.
         bind_result (traverse fact_evidence (relevant_nodes g relevant)) (\<lambda>facts.
         bind_result (budget_supporting (max_excerpt_bytes policy) text 0 supporting) (\<lambda>(used, ds1).
         bind_result (budget_candidates policy text used [] candidates) (\<lambda>(presented, ds2).
           (let diagnostics = ordered_diagnostics w (omissions @ ds1 @ ds2)
            in construct validate_context
                 \<lparr>cx_payment_ingress_symbol_ids = seed_ids g, cx_relevant_symbol_ids = relevant,
                  cx_presented_symbol_ids = presented,
                  cx_bundle_completeness = (if diagnostics \<noteq> [] then BUNDLE_PARTIAL else BUNDLE_COMPLETE),
                  cx_diagnostics = diagnostics, cx_source_excerpts = sources,
                  cx_payment_calls = calls, cx_graph_neighborhood = facts\<rparr>))))))))"

definition build_semantic_context ::
  "source_world \<Rightarrow> source_index \<Rightarrow> safety_graph \<Rightarrow> bundle_policy \<Rightarrow> context_build result" where
  "build_semantic_context w i g policy =
     (if ix_project_id i \<noteq> pg_project_id g
      then Inl (ValueError ''source index and graph project IDs must match'')
      else if ix_source_index_fingerprint i \<noteq> pg_source_index_fingerprint g
      then Inl (ValueError ''structural graph must be built from the supplied source index'')
      else case validate_indexed_source_snapshot w i of
        Some e \<Rightarrow> Inl e
      | None \<Rightarrow>
          (let reached = reached_callables i g;
               text = (\<lambda>s. if s \<in> set (relevant_ids reached) then source_text w i s else None);
               paths = (\<lambda>s. map_option rs_path (dict_by rs_symbol_id reached s))
           in bind_result (build_descriptor w i g policy reached) (\<lambda>descriptor.
                if seed_ids g = []
                then Inr \<lparr>cb_descriptor = descriptor, cb_mapping_input = None, cb_call_paths = paths,
                          cb_policy = policy\<rparr>
                else bind_result (build_mapping_input i g descriptor text (max_excerpt_bytes policy)
                       (nearest_first reached (route_owner i)) (cx_presented_symbol_ids descriptor)) (\<lambda>m.
                     Inr \<lparr>cb_descriptor = descriptor, cb_mapping_input = Some m, cb_call_paths = paths,
                          cb_policy = policy\<rparr>))))"

section \<open>The neighbourhood of a manual target\<close>

text \<open>\<open>adjacent[s]\<close>, whose iteration order does not matter to the set of symbols it reaches.\<close>

definition adjacent_symbols :: "source_index \<Rightarrow> string \<Rightarrow> string list" where
  "adjacent_symbols i s =
     List.map_filter (\<lambda>c. if ca_caller_symbol_id c = s then ca_callee_symbol_id c else None) (ix_call_sites i) @
     map ca_caller_symbol_id (filter (\<lambda>c. ca_callee_symbol_id c = Some s) (ix_call_sites i))"

definition new_peers :: "source_index \<Rightarrow> string list \<Rightarrow> string \<Rightarrow> string list" where
  "new_peers i relevant s =
     remdups (filter (\<lambda>p. p \<notin> set relevant \<and> callable_symbol i p) (adjacent_symbols i s))"

definition uncollected :: "source_index \<Rightarrow> string list \<Rightarrow> string set" where
  "uncollected i relevant = {s \<in> set (map sy_symbol_id (ix_symbols i)). callable_symbol i s} - set relevant"

lemma new_peers_uncollected: "set (new_peers i relevant s) \<subseteq> uncollected i relevant"
  using callable_symbol_known by (auto simp: new_peers_def uncollected_def)

lemma finite_uncollected [simp]: "finite (uncollected i relevant)"
  by (simp add: uncollected_def)

lemma new_peers_measure:
  "2 * card (uncollected i (relevant @ new_peers i relevant s)) + length (new_peers i relevant s)
     \<le> 2 * card (uncollected i relevant)"
proof -
  have "uncollected i (relevant @ new_peers i relevant s) = uncollected i relevant - set (new_peers i relevant s)"
    by (auto simp: uncollected_def)
  then have "card (uncollected i (relevant @ new_peers i relevant s))
      = card (uncollected i relevant) - card (set (new_peers i relevant s))"
    using new_peers_uncollected by (simp add: card_Diff_subset)
  moreover have "card (set (new_peers i relevant s)) \<le> card (uncollected i relevant)"
    using new_peers_uncollected by (rule card_mono[OF finite_uncollected])
  moreover have "card (set (new_peers i relevant s)) = length (new_peers i relevant s)"
    by (rule distinct_card) (simp add: new_peers_def)
  ultimately show ?thesis by simp
qed

text \<open>The stack \<open>pending\<close> has its last element first.\<close>

function collect_peers :: "source_index \<Rightarrow> string list \<Rightarrow> string list \<Rightarrow> string list" where
  "collect_peers i relevant [] = relevant"
| "collect_peers i relevant (current # pending) =
     (let peers = new_peers i relevant current
      in collect_peers i (relevant @ peers) (rev peers @ pending))"
  by pat_completeness auto

termination
  by (relation "measure (\<lambda>(i, relevant, pending). 2 * card (uncollected i relevant) + length pending)")
    (auto simp: less_Suc_eq_le new_peers_measure)

declare collect_peers.simps(2) [simp del]

definition manual_call_evidence :: "call_site \<Rightarrow> context_evidence result" where
  "manual_call_evidence c = construct_context_evidence
     \<lparr>xe_kind = CE_PAYMENT_CALL,
      xe_reference = ''resolved-call:'' @ ca_caller_symbol_id c @ '':'' @
        (case ca_callee_symbol_id c of None \<Rightarrow> ''None'' | Some s \<Rightarrow> s) @ '':'' @ ca_callee_reference c @
        ''@'' @ call_position c,
      xe_fingerprint = call_fingerprint c\<rparr>"

definition manual_fact_evidence :: "graph_node \<Rightarrow> context_evidence result" where
  "manual_fact_evidence n = construct_context_evidence
     \<lparr>xe_kind = CE_GRAPH_FACT, xe_reference = ''graph-node:'' @ gn_node_id n,
      xe_fingerprint = node_fingerprint n\<rparr>"

definition manual_symbol_evidence ::
  "source_world \<Rightarrow> source_index \<Rightarrow> string \<Rightarrow> context_evidence result" where
  "manual_symbol_evidence w i s =
     bind_result (lookup_symbol i s) (\<lambda>r.
     bind_result (symbol_source w r) (\<lambda>content. symbol_evidence i (\<lambda>_. content) s))"

definition manual_ingress_ids :: "source_index \<Rightarrow> safety_graph \<Rightarrow> string list \<Rightarrow> string list" where
  "manual_ingress_ids i g relevant = sort (remdups (filter (\<lambda>s. s \<in> set relevant \<and> route_owner i s)
     (List.map_filter gn_backing_symbol_id (ingress_nodes_of g))))"

definition build_manual_semantic_context ::
  "source_world \<Rightarrow> source_index \<Rightarrow> safety_graph \<Rightarrow> string \<Rightarrow> context_descriptor result" where
  "build_manual_semantic_context w i g selected =
     (case validate_indexed_source_snapshot w i of
        Some e \<Rightarrow> Inl e
      | None \<Rightarrow>
          if symbol_of i selected = None then Inl (ValueError ''manual semantic target is not indexed'')
          else
            (let relevant = sort (collect_peers i [selected] [selected])
             in bind_result (traverse (manual_symbol_evidence w i) relevant) (\<lambda>sources.
                bind_result (traverse manual_call_evidence (internal_calls i relevant)) (\<lambda>calls.
                bind_result (traverse manual_fact_evidence
                    (filter (\<lambda>n. in_option (gn_backing_symbol_id n) relevant) (pg_nodes g))) (\<lambda>facts.
                  construct validate_context
                    \<lparr>cx_payment_ingress_symbol_ids = manual_ingress_ids i g relevant,
                     cx_relevant_symbol_ids = relevant, cx_presented_symbol_ids = [],
                     cx_bundle_completeness = BUNDLE_COMPLETE, cx_diagnostics = [],
                     cx_source_excerpts = sources, cx_payment_calls = calls,
                     cx_graph_neighborhood = facts\<rparr>)))))"

end
