(* ===== verification/Projection.thy ===== *)
theory Projection
  imports RouteComposition SemanticContext
begin

text \<open>
  \<open>graph/semantic_projection.py\<close>: a resolved customer-value symbol becomes a node of the safety
  graph, joined to every payment ingress from which a chain of resolved call sites leads to it.
  What the recognizers read out of the syntax trees is the argument \<open>ast_view\<close>.
\<close>

section \<open>Chains of call sites\<close>

definition canonical_calls :: "source_index \<Rightarrow> string \<Rightarrow> call_site list" where
  "canonical_calls i caller = canonical_order call_site_json
     (filter (\<lambda>c. ca_caller_symbol_id c = caller \<and> ca_callee_symbol_id c \<noteq> None) (ix_call_sites i))"

text \<open>The calls whose callee is new, and the visited symbols after them.\<close>

fun fresh_calls :: "string list \<Rightarrow> call_site list \<Rightarrow> (string \<times> call_site) list" where
  "fresh_calls visited [] = []"
| "fresh_calls visited (c # cs) =
     (case ca_callee_symbol_id c of
        None \<Rightarrow> fresh_calls visited cs
      | Some s \<Rightarrow> if s \<in> set visited then fresh_calls visited cs
                  else (s, c) # fresh_calls (visited @ [s]) cs)"

definition called_symbols :: "source_index \<Rightarrow> string set" where
  "called_symbols i = set (List.map_filter ca_callee_symbol_id (ix_call_sites i))"

lemma fresh_calls_distinct: "distinct (map fst (fresh_calls visited cs))"
  and fresh_calls_new: "set (map fst (fresh_calls visited cs)) \<inter> set visited = {}"
  by (induction visited cs rule: fresh_calls.induct) (auto split: option.splits)

lemma fresh_calls_member:
  "(s, c) \<in> set (fresh_calls visited cs) \<Longrightarrow> c \<in> set cs \<and> ca_callee_symbol_id c = Some s"
  by (induction visited cs rule: fresh_calls.induct) (auto split: option.splits if_splits)

lemma fresh_calls_cover:
  "c \<in> set cs \<Longrightarrow> ca_callee_symbol_id c = Some s \<Longrightarrow> s \<in> set visited \<or> s \<in> fst ` set (fresh_calls visited cs)"
  by (induction visited cs rule: fresh_calls.induct) (auto split: option.splits)

definition fresh_from :: "source_index \<Rightarrow> string list \<Rightarrow> string \<Rightarrow> (string \<times> call_site) list" where
  "fresh_from i visited current = fresh_calls visited (canonical_calls i current)"

lemma fresh_from_called: "set (map fst (fresh_from i visited current)) \<subseteq> called_symbols i - set visited"
proof
  fix s assume s: "s \<in> set (map fst (fresh_from i visited current))"
  then obtain c where "(s, c) \<in> set (fresh_from i visited current)" by auto
  then have "c \<in> set (canonical_calls i current)" "ca_callee_symbol_id c = Some s"
    unfolding fresh_from_def by (blast dest: fresh_calls_member)+
  then have "c \<in> set (ix_call_sites i)" "ca_callee_symbol_id c = Some s"
    by (simp_all add: canonical_calls_def)
  then have "s \<in> called_symbols i" by (force simp: called_symbols_def map_filter_def)
  then show "s \<in> called_symbols i - set visited"
    using s fresh_calls_new unfolding fresh_from_def by blast
qed

lemma fresh_from_measure:
  "2 * card (called_symbols i - set (visited @ map fst (fresh_from i visited current))) +
     length (fresh_from i visited current) \<le> 2 * card (called_symbols i - set visited)"
proof -
  let ?new = "set (map fst (fresh_from i visited current))"
  have fin: "finite (called_symbols i - set visited)" by (simp add: called_symbols_def)
  have "called_symbols i - set (visited @ map fst (fresh_from i visited current)) = (called_symbols i - set visited) - ?new"
    by auto
  then have "card (called_symbols i - set (visited @ map fst (fresh_from i visited current)))
      = card (called_symbols i - set visited) - card ?new"
    using fresh_from_called by (simp add: card_Diff_subset)
  moreover have "card ?new \<le> card (called_symbols i - set visited)" by (rule card_mono[OF fin fresh_from_called])
  moreover have "card ?new = length (fresh_from i visited current)"
    using distinct_card[OF fresh_calls_distinct] unfolding fresh_from_def by simp
  ultimately show ?thesis by simp
qed

function search_path ::
  "source_index \<Rightarrow> string \<Rightarrow> string list \<Rightarrow> (string \<times> call_site list) list \<Rightarrow> call_site list option" where
  "search_path i target visited [] = None"
| "search_path i target visited ((current, path) # queue) =
     (if current = target then Some path
      else let new = fresh_from i visited current
           in search_path i target (visited @ map fst new) (queue @ map (\<lambda>(s, c). (s, path @ [c])) new))"
  by pat_completeness auto

termination
  by (relation "measure (\<lambda>(i, target, visited, queue).
      2 * card (called_symbols i - set visited) + length queue)")
    (use fresh_from_measure in \<open>auto simp: less_Suc_eq_le\<close>)

declare search_path.simps(2) [simp del]

definition resolved_path :: "source_index \<Rightarrow> string \<Rightarrow> string \<Rightarrow> call_site list option" where
  "resolved_path i start target = search_path i target [start] [(start, [])]"

fun index_of :: "'a \<Rightarrow> 'a list \<Rightarrow> nat option" where
  "index_of x [] = None"
| "index_of x (y # ys) = (if x = y then Some 0 else map_option Suc (index_of x ys))"

definition call_site_reference :: "source_index \<Rightarrow> call_site \<Rightarrow> string result" where
  "call_site_reference i c =
     (let peers = canonical_order (\<lambda>x. source_location_json (ca_source_location x))
            (filter (\<lambda>x. ca_caller_symbol_id x = ca_caller_symbol_id c \<and>
               ca_callee_symbol_id x = ca_callee_symbol_id c \<and>
               ca_callee_reference x = ca_callee_reference c) (ix_call_sites i))
      in case index_of c peers of
           None \<Rightarrow> Inl (ValueError ''call site is not in list'')
         | Some ordinal \<Rightarrow>
             Inr (''call-site:'' @ ca_caller_symbol_id c @ '':'' @ str_int (int ordinal)))"

section \<open>Constructing nodes and edges\<close>

definition construct_provenance :: "provenance_record \<Rightarrow> provenance_record result" where
  "construct_provenance p = bind_result (strip_reference (pr_reference p)) (\<lambda>r. Inr (p\<lparr>pr_reference := r\<rparr>))"

definition construct_graph_node :: "graph_node \<Rightarrow> graph_node result" where
  "construct_graph_node n =
     (if \<not> bounded 4096 (gn_label n) \<or> gn_provenance n = [] then Inl (ValueError ''graph node constraints'')
      else construct validate_node (n\<lparr>gn_label := strip (gn_label n)\<rparr>))"

definition construct_graph_edge :: "graph_edge \<Rightarrow> graph_edge result" where
  "construct_graph_edge e =
     (if ge_provenance e = [] then Inl (ValueError ''graph edge constraints'')
      else construct validate_edge_details e)"

fun fold_result :: "('s \<Rightarrow> 'a \<Rightarrow> 's result) \<Rightarrow> 's \<Rightarrow> 'a list \<Rightarrow> 's result" where
  "fold_result f s [] = Inr s"
| "fold_result f s (x # xs) = bind_result (f s x) (\<lambda>t. fold_result f t xs)"

definition call_provenance :: "source_index \<Rightarrow> call_site \<Rightarrow> provenance_record result" where
  "call_provenance i c = bind_result (call_site_reference i c) (\<lambda>reference. construct_provenance
     \<lparr>pr_kind = STATIC, pr_reference = reference, pr_source_location = Some (ca_source_location c),
      pr_supporting_fingerprint = Some (ix_source_index_fingerprint i)\<rparr>)"

definition semantic_call_edge_discriminator :: "provenance_record list \<Rightarrow> string" where
  "semantic_call_edge_discriminator ps = canonical_json (jstrs (map pr_reference ps))"

section \<open>The customer-value node and its calls\<close>

definition value_node :: "source_index \<Rightarrow> value_resolution \<Rightarrow> string \<Rightarrow> symbol_record \<Rightarrow> graph_node result" where
  "value_node i r resolution_fp s =
     bind_result (graph_node_id (graph_node_kind_value CUSTOMER_VALUE_ACTION) (sy_symbol_id s) '''') (\<lambda>node_id.
     bind_result (construct_provenance
        \<lparr>pr_kind = (if vx_basis r = BASIS_MODEL_UNIQUE then AI_INFERRED else HUMAN_CONFIRMED),
         pr_reference = ''customer-value-resolution:'' @ resolution_basis_value (vx_basis r),
         pr_source_location = Some (sy_source_location s),
         pr_supporting_fingerprint = Some resolution_fp\<rparr>) (\<lambda>provenance.
       construct_graph_node
         \<lparr>gn_node_id = node_id, gn_kind = CUSTOMER_VALUE_ACTION, gn_label = sy_qualified_name s,
          gn_backing_symbol_id = Some (sy_symbol_id s), gn_details = None,
          gn_provenance = [provenance]\<rparr>))"

definition call_edge :: "source_index \<Rightarrow> graph_node \<Rightarrow> string \<Rightarrow> graph_edge list \<Rightarrow> graph_node \<Rightarrow> graph_edge list result" where
  "call_edge i node selected edges ingress =
     (case gn_backing_symbol_id ingress of
        None \<Rightarrow> Inl (AssertionError ''ingress.backing_symbol_id is not None'')
      | Some start \<Rightarrow>
          (case resolved_path i start selected of
             None \<Rightarrow> Inr edges
           | Some path \<Rightarrow>
               bind_result (traverse (call_provenance i) path) (\<lambda>provenance.
                 if provenance = [] then Inr edges
                 else bind_result (graph_edge_id (graph_edge_kind_value CALLS) (gn_node_id ingress)
                        (gn_node_id node) 0 (semantic_call_edge_discriminator provenance)) (\<lambda>edge_id.
                      bind_result (construct_graph_edge
                        \<lparr>ge_edge_id = edge_id, ge_source_node_id = gn_node_id ingress,
                         ge_target_node_id = gn_node_id node, ge_kind = CALLS, ge_branch = None,
                         ge_provenance = provenance\<rparr>) (\<lambda>e. Inr (edges @ [e]))))))"

section \<open>Control relationships\<close>

text \<open>
  What \<open>recognizers.py\<close> and \<open>control_flow.py\<close> find in the functions of a route: a statement is
  represented by its location.
\<close>

record gate_fact =
  gf_anchor :: string
  gf_states :: "string list"

record route_analysis =
  na_call_paths :: "string \<rightharpoonup> call_site list"
  na_state_gates :: "gate_fact list"
  na_acknowledgements :: "string list"

record ast_view =
  av_analysis :: "reachable_route \<Rightarrow> route_analysis"
  av_execution_proven :: "call_site \<Rightarrow> bool"
  av_controlled :: "gate_fact \<Rightarrow> call_site list \<Rightarrow> (source_location \<times> branch_disposition) option"
  av_route_call :: "string \<Rightarrow> call_site list \<Rightarrow> source_location option"
  av_precedes :: "source_location \<Rightarrow> string \<Rightarrow> string \<Rightarrow> bool"

definition relationship_provenance ::
  "source_index \<Rightarrow> string \<Rightarrow> source_location \<Rightarrow> call_site list \<Rightarrow> provenance_record list result" where
  "relationship_provenance i reference location path =
     bind_result (construct_provenance
       \<lparr>pr_kind = STATIC, pr_reference = reference, pr_source_location = Some location,
        pr_supporting_fingerprint = Some (ix_source_index_fingerprint i)\<rparr>) (\<lambda>found.
     bind_result (traverse (call_provenance i) path) (\<lambda>calls.
       Inr (canonical_order provenance_json (found # calls))))"

definition append_edge :: "graph_edge list \<Rightarrow> graph_edge \<Rightarrow> graph_edge list" where
  "append_edge edges e = (if ge_edge_id e \<in> set (map ge_edge_id edges) then edges else edges @ [e])"

definition anchored_node ::
  "(graph_node \<Rightarrow> (string \<times> string) option) \<Rightarrow> graph_node list \<Rightarrow> string \<Rightarrow> string \<Rightarrow> graph_node option" where
  "anchored_node key nodes route anchor = dict_by key (filter (\<lambda>n. key n \<noteq> None) nodes) (Some (route, anchor))"

definition state_gate_key :: "graph_node \<Rightarrow> (string \<times> string) option" where
  "state_gate_key n = (case gn_details n of
     Some (PaymentStateGateDetails d) \<Rightarrow> Some (sg_route_registration_id d, sg_structural_anchor d)
   | _ \<Rightarrow> None)"

definition acknowledgement_key :: "graph_node \<Rightarrow> (string \<times> string) option" where
  "acknowledgement_key n = (case gn_details n of
     Some (AcknowledgementBoundaryDetails d) \<Rightarrow> Some (ab_route_registration_id d, ab_structural_anchor d)
   | _ \<Rightarrow> None)"

definition graph_branch_json :: "graph_branch \<Rightarrow> json" where
  "graph_branch_json b = JObj [(''disposition'', JStr (branch_disposition_value (br_disposition b))),
     (''states'', jstrs (br_states b))]"

definition project_gate ::
  "source_index \<Rightarrow> ast_view \<Rightarrow> graph_node list \<Rightarrow> graph_node \<Rightarrow> string \<Rightarrow> call_site list \<Rightarrow>
   graph_edge list \<Rightarrow> gate_fact \<Rightarrow> graph_edge list result" where
  "project_gate i v nodes node route path edges found =
     (case av_controlled v found path of
        None \<Rightarrow> Inr edges
      | Some (location, disposition) \<Rightarrow>
          if disposition \<noteq> MATCHED then Inr edges
          else case anchored_node state_gate_key nodes route (gf_anchor found) of
            None \<Rightarrow> Inr edges
          | Some gate \<Rightarrow>
              (let branch = \<lparr>br_disposition = MATCHED, br_states = gf_states found\<rparr>
               in bind_result (graph_edge_id (graph_edge_kind_value BRANCHES_TO) (gn_node_id gate)
                    (gn_node_id node) 0 (canonical_json (graph_branch_json branch))) (\<lambda>edge_id.
                  bind_result (relationship_provenance i
                    (''ast-fact:PAYMENT_STATE_BRANCH_CONTROL:customer-value:'' @ gf_anchor found) location path) (\<lambda>ps.
                  bind_result (construct_graph_edge
                    \<lparr>ge_edge_id = edge_id, ge_source_node_id = gn_node_id gate,
                     ge_target_node_id = gn_node_id node, ge_kind = BRANCHES_TO,
                     ge_branch = Some branch, ge_provenance = ps\<rparr>) (\<lambda>e. Inr (append_edge edges e))))))"

definition project_acknowledgement ::
  "source_index \<Rightarrow> ast_view \<Rightarrow> graph_node list \<Rightarrow> graph_node \<Rightarrow> string \<Rightarrow> string \<Rightarrow> source_location \<Rightarrow>
   call_site list \<Rightarrow> graph_edge list \<Rightarrow> string \<Rightarrow> graph_edge list result" where
  "project_acknowledgement i v nodes node route owner work path edges anchor =
     (if \<not> av_precedes v work anchor owner then Inr edges
      else case anchored_node acknowledgement_key nodes route anchor of
        None \<Rightarrow> Inr edges
      | Some ack \<Rightarrow>
          bind_result (graph_edge_id (graph_edge_kind_value ACKNOWLEDGES_AFTER) (gn_node_id ack)
            (gn_node_id node) 0 '''') (\<lambda>edge_id.
          bind_result (relationship_provenance i
            (''ast-fact:EXIT_DOMINANCE:customer-value:'' @ anchor) work path) (\<lambda>ps.
          bind_result (construct_graph_edge
            \<lparr>ge_edge_id = edge_id, ge_source_node_id = gn_node_id ack,
             ge_target_node_id = gn_node_id node, ge_kind = ACKNOWLEDGES_AFTER, ge_branch = None,
             ge_provenance = ps\<rparr>) (\<lambda>e. Inr (append_edge edges e)))))"

definition execution_gap_diagnostic :: "string \<Rightarrow> string \<Rightarrow> call_site \<Rightarrow> graph_diagnostic" where
  "execution_gap_diagnostic selected route c =
     \<lparr>gd_code = UNRESOLVED_STRUCTURAL_CANDIDATE, gd_impact = COVERAGE_REDUCED,
      gd_candidate_kind = Some CUSTOMER_VALUE_EXECUTION, gd_reason = Some EXECUTION_SEMANTICS_UNPROVEN,
      gd_symbol_id = Some selected, gd_route_registration_id = Some route,
      gd_source_location = Some (ca_source_location c)\<rparr>"

type_synonym projection_state = "graph_edge list \<times> graph_diagnostic list"

definition project_ingress ::
  "source_index \<Rightarrow> ast_view \<Rightarrow> reachable_route list \<Rightarrow> graph_node list \<Rightarrow> graph_node \<Rightarrow> string \<Rightarrow>
   projection_state \<Rightarrow> effective_route \<Rightarrow> projection_state result" where
  "project_ingress i v routes nodes node selected st registration = (case st of (edges, diagnostics) \<Rightarrow>
     (let route_id = er_route_registration_id registration
      in case dict_by (\<lambda>r. er_route_registration_id (rx_registration r)) routes route_id of
           None \<Rightarrow> Inr st
         | Some route \<Rightarrow>
             (let analysis = av_analysis v route
              in case na_call_paths analysis selected of
                   None \<Rightarrow> Inr st
                 | Some [] \<Rightarrow> Inr st
                 | Some path \<Rightarrow>
                     (case find (\<lambda>c. \<not> av_execution_proven v c) path of
                        Some gap \<Rightarrow>
                          (let d = execution_gap_diagnostic selected route_id gap
                           in Inr (edges, if d \<in> set diagnostics then diagnostics else diagnostics @ [d]))
                      | None \<Rightarrow>
                          bind_result (fold_result (project_gate i v nodes node route_id path) edges
                            (na_state_gates analysis)) (\<lambda>gated.
                          (case av_route_call v (rx_owner_symbol_id route) path of
                             None \<Rightarrow> Inr (gated, diagnostics)
                           | Some work \<Rightarrow>
                               bind_result (fold_result (project_acknowledgement i v nodes node route_id
                                 (rx_owner_symbol_id route) work path) gated (na_acknowledgements analysis)) (\<lambda>finished.
                                 Inr (finished, diagnostics))))))))"

definition value_ingresses :: "graph_node list \<Rightarrow> graph_edge list \<Rightarrow> graph_node \<Rightarrow> effective_route list" where
  "value_ingresses nodes edges node = List.map_filter (\<lambda>n. case gn_details n of
     Some (PaymentIngressDetails d) \<Rightarrow>
       if list_ex (\<lambda>e. ge_kind e = CALLS \<and> ge_source_node_id e = gn_node_id n \<and>
            ge_target_node_id e = gn_node_id node) edges
       then Some (pi_registration d) else None
   | _ \<Rightarrow> None) nodes"

definition project_control_relationships ::
  "source_index \<Rightarrow> ast_view result \<Rightarrow> graph_node list \<Rightarrow> graph_edge list \<Rightarrow> graph_diagnostic list \<Rightarrow>
   graph_node \<Rightarrow> string \<Rightarrow> projection_state result" where
  "project_control_relationships i view nodes edges diagnostics node selected =
     bind_result view (\<lambda>v.
     bind_result (compose_effective_routes i) (\<lambda>composed.
     bind_result (fold_result (project_ingress i v (rs_routes composed) nodes node selected)
       (edges, diagnostics) (value_ingresses nodes edges node)) (\<lambda>(es, ds).
       Inr (canonical_order graph_edge_json es, canonical_order graph_diagnostic_json ds))))"

text \<open>\<open>repository_root=None\<close> leaves the control relationships out; \<open>view\<close> is then \<open>None\<close>.\<close>

definition project_customer_value ::
  "safety_graph \<Rightarrow> source_index \<Rightarrow> ast_view result option \<Rightarrow> value_resolution \<Rightarrow> string \<Rightarrow> safety_graph result" where
  "project_customer_value g i view r resolution_fp =
     (case vx_selected_symbol_id r of
        None \<Rightarrow> Inr g
      | Some selected \<Rightarrow>
          if vx_state r \<noteq> RESOLUTION_UNIQUE then Inr g
          else case find (\<lambda>s. sy_symbol_id s = selected) (ix_symbols i) of
            None \<Rightarrow> Inl (ValueError ''semantic target does not exist in the current Source Index'')
          | Some symbol \<Rightarrow>
              if route_owner i selected \<or> \<not> eligible_kind (sy_kind symbol)
              then Inl (ValueError ''semantic target must be a non-route function or method'')
              else bind_result (value_node i r resolution_fp symbol) (\<lambda>node.
                (let nodes = filter (\<lambda>n. gn_kind n \<noteq> CUSTOMER_VALUE_ACTION) (pg_nodes g) @ [node];
                     ids = map gn_node_id nodes;
                     kept = filter (\<lambda>e. ge_source_node_id e \<in> set ids \<and> ge_target_node_id e \<in> set ids) (pg_edges g);
                     ingresses = sort_key gn_node_id (filter (\<lambda>n. gn_kind n = PAYMENT_INGRESS) nodes)
                 in bind_result (fold_result (call_edge i node selected) kept ingresses) (\<lambda>edges.
                    (let ordered_nodes = canonical_order graph_node_json nodes;
                         ordered_edges = canonical_order graph_edge_json edges
                     in bind_result (case view of
                          None \<Rightarrow> Inr (ordered_edges, pg_diagnostics g)
                        | Some v \<Rightarrow> project_control_relationships i v ordered_nodes ordered_edges
                            (pg_diagnostics g) node selected) (\<lambda>(final_edges, diagnostics).
                          construct validate_graph
                            (g\<lparr>pg_graph_fingerprint := graph_fingerprint (pg_project_id g)
                                 (pg_source_index_fingerprint g) (graph_completeness_for diagnostics)
                                 diagnostics ordered_nodes final_edges,
                               pg_completeness := graph_completeness_for diagnostics,
                               pg_diagnostics := diagnostics, pg_nodes := ordered_nodes,
                               pg_edges := final_edges\<rparr>)))))))"

definition fulfilment_verification_eligible :: "value_resolution option \<Rightarrow> safety_graph \<Rightarrow> bool \<Rightarrow> bool" where
  "fulfilment_verification_eligible resolution g runtime_capable =
     (case resolution of
        None \<Rightarrow> False
      | Some r \<Rightarrow>
          if vx_state r \<noteq> RESOLUTION_UNIQUE \<or> vx_selected_symbol_id r = None \<or> \<not> runtime_capable then False
          else (let targets = map gn_node_id (filter (\<lambda>n. gn_kind n = CUSTOMER_VALUE_ACTION \<and>
                        gn_backing_symbol_id n = vx_selected_symbol_id r) (pg_nodes g));
                    ingresses = map gn_node_id (filter (\<lambda>n. gn_kind n = PAYMENT_INGRESS) (pg_nodes g))
                in list_ex (\<lambda>e. ge_kind e = CALLS \<and> ge_source_node_id e \<in> set ingresses \<and>
                     ge_target_node_id e \<in> set targets) (pg_edges g)))"

end
