(* ===== verification/SemanticExample.thy ===== *)
theory SemanticExample
  imports SemanticResolution
begin

text \<open>
  A shop with one payment route and one function it calls, on which the theorems about semantic
  resolution are applied: its source, its index and graph, what is shown to a model, and the
  resolution a model's answer leads to.
\<close>

section \<open>The shop\<close>

definition kiosk_hook :: string where
  "kiosk_hook = ''def hook(): ship()'' @ [CHR 0x0A]"

definition kiosk_ship :: string where
  "kiosk_ship = ''def ship(): pass'' @ [CHR 0x0A]"

definition kiosk_text :: string where
  "kiosk_text = kiosk_hook @ kiosk_ship"

definition kiosk_location :: "nat \<Rightarrow> source_location" where
  "kiosk_location line = \<lparr>sl_path = ''shop.py'', sl_line_start = line, sl_column_start = 0,
     sl_line_end = line, sl_column_end = 16\<rparr>"

definition kiosk_symbol :: "string \<Rightarrow> string \<Rightarrow> nat \<Rightarrow> symbol_record" where
  "kiosk_symbol s name line = \<lparr>sy_symbol_id = s, sy_source_file_id = ''f'', sy_qualified_name = name,
     sy_kind = SYM_FUNCTION, sy_signature = ''()'', sy_definition_ordinal = 0,
     sy_source_location = kiosk_location line\<rparr>"

definition kiosk_call :: call_site where
  "kiosk_call = \<lparr>ca_caller_symbol_id = ''sgsym:0'', ca_callee_symbol_id = Some ''sgsym:1'',
     ca_callee_reference = ''ship'', ca_source_location = kiosk_location 1\<rparr>"

definition kiosk_index :: source_index where
  "kiosk_index = \<lparr>ix_project_id = ''p'', ix_project_source_fingerprint = ''x'',
     ix_source_index_fingerprint = ''s'',
     ix_indexed_files = [\<lparr>sf_file_id = ''f'', sf_path = ''shop.py'',
       sf_content_fingerprint = sha256_digest (utf8 kiosk_text), sf_byte_size = 36\<rparr>],
     ix_symbols = [kiosk_symbol ''sgsym:0'' ''shop.hook'' 1, kiosk_symbol ''sgsym:1'' ''shop.ship'' 2],
     ix_imports = [], ix_call_sites = [kiosk_call], ix_references = [], ix_framework_instances = [],
     ix_app_targets = [], ix_routes = [\<lparr>rr_owner_symbol_id = ''sgsym:0'', rr_registrar_instance_id = ''app'',
       rr_method = ''POST'', rr_route_path = ''/hook'', rr_source_location = kiosk_location 1\<rparr>],
     ix_router_includes = [], ix_diagnostics = [], ix_completeness = SOURCE_COMPLETE\<rparr>"

definition kiosk_ingress :: graph_node where
  "kiosk_ingress = \<lparr>gn_node_id = ''n1'', gn_kind = PAYMENT_INGRESS, gn_label = ''hook'',
     gn_backing_symbol_id = Some ''sgsym:0'', gn_details = Some (PaymentIngressDetails
       \<lparr>pi_ingress_kind = WEBHOOK,
        pi_registration = \<lparr>er_route_registration_id = ''r1'', er_app_instance_id = ''app'',
          er_registrar_instance_id = ''app'', er_method = ''POST'', er_component_path = ''/hook'',
          er_effective_path = ''/hook''\<rparr>,
        pi_evidence_families = [], pi_checkout_request_binding = None\<rparr>), gn_provenance = []\<rparr>"

definition kiosk_graph :: safety_graph where
  "kiosk_graph = \<lparr>pg_project_id = ''p'', pg_source_index_fingerprint = ''s'',
     pg_graph_fingerprint = graph_fingerprint ''p'' ''s'' COMPLETE [] [kiosk_ingress] [],
     pg_completeness = COMPLETE, pg_diagnostics = [], pg_nodes = [kiosk_ingress], pg_edges = []\<rparr>"

definition kiosk_source :: source_world where
  "kiosk_source = \<lparr>sw_root_available = True, sw_indexed_path = (\<lambda>_. PathBytes (utf8 kiosk_text)),
     sw_text = (\<lambda>_. Some kiosk_text), sw_set_order = remdups\<rparr>"

section \<open>What is shown to a model\<close>

lemma kiosk_calls:
  "outgoing_calls kiosk_index ''sgsym:0'' = [kiosk_call]" "outgoing_calls kiosk_index ''sgsym:1'' = []"
  by (simp_all add: outgoing_calls_def kiosk_index_def kiosk_call_def)

lemma kiosk_callable: "callable_symbol kiosk_index ''sgsym:0''" "callable_symbol kiosk_index ''sgsym:1''"
  "route_owner kiosk_index ''sgsym:0''" "\<not> route_owner kiosk_index ''sgsym:1''"
  by (simp_all add: callable_symbol_def symbol_of_def dict_by_def kiosk_index_def kiosk_symbol_def route_owner_def eligible_kind_def)

lemma kiosk_seeds: "seed_ids kiosk_graph = [''sgsym:0'']"
  by (simp add: seed_ids_def ingress_nodes_of_def kiosk_graph_def kiosk_ingress_def List.map_filter_def)

definition kiosk_reached :: "reached_symbol list" where
  "kiosk_reached = [\<lparr>rs_symbol_id = ''sgsym:0'', rs_distance = 0, rs_path = []\<rparr>,
     \<lparr>rs_symbol_id = ''sgsym:1'', rs_distance = 1, rs_path = [kiosk_call]\<rparr>]"

lemma kiosk_reached: "reached_callables kiosk_index kiosk_graph = kiosk_reached"
  by (simp add: reached_callables_def seed_entries_def kiosk_seeds kiosk_callable search_calls.simps(2)
      follow_calls_def kiosk_calls follow_call_def reached_ids_def Let_def kiosk_reached_def)
    (simp add: kiosk_call_def kiosk_callable reached_ids_def search_calls.simps(2) follow_calls_def
      kiosk_calls Let_def)

lemma kiosk_snapshot: "validate_indexed_source_snapshot kiosk_source kiosk_index = None"
  by (simp add: validate_indexed_source_snapshot_def check_indexed_file_def kiosk_source_def kiosk_index_def)
     (code_simp)


lemma kiosk_lines: "split_lines kiosk_text = [kiosk_hook, kiosk_ship]"
  by code_simp

definition kiosk_line :: "string \<Rightarrow> string option" where
  "kiosk_line s = (if s = ''sgsym:0'' then Some kiosk_hook
     else if s = ''sgsym:1'' then Some kiosk_ship else None)"

lemma kiosk_relevant: "relevant_ids kiosk_reached = [''sgsym:0'', ''sgsym:1'']"
  by code_simp

lemma kiosk_nearest:
  "nearest_first kiosk_reached (route_owner kiosk_index) = [''sgsym:0'']"
  "nearest_first kiosk_reached (\<lambda>s. \<not> route_owner kiosk_index s) = [''sgsym:1'']"
  by (simp_all add: nearest_first_def kiosk_relevant kiosk_callable)

lemma kiosk_symbols [simp]: "ix_symbols kiosk_index = [kiosk_symbol ''sgsym:0'' ''shop.hook'' 1, kiosk_symbol ''sgsym:1'' ''shop.ship'' 2]"
  "ix_call_sites kiosk_index = [kiosk_call]" "ix_diagnostics kiosk_index = []" "ix_app_targets kiosk_index = []"
  by (simp_all add: kiosk_index_def)

lemma kiosk_content:
  "(\<lambda>s. if s \<in> set (relevant_ids kiosk_reached) then source_text kiosk_source kiosk_index s else None) = kiosk_line"
proof
  fix s
  have blank: "strip kiosk_hook \<noteq> []" "strip kiosk_ship \<noteq> []"
    by code_simp+
  show "(if s \<in> set (relevant_ids kiosk_reached) then source_text kiosk_source kiosk_index s else None) = kiosk_line s"
    using kiosk_lines blank
    by (simp add: kiosk_relevant kiosk_line_def source_text_def symbol_source_def symbol_of_def dict_by_def
        kiosk_symbol_def kiosk_location_def kiosk_source_def Let_def)
qed


lemma kiosk_lookup: "lookup_symbol kiosk_index ''sgsym:0'' = Inr (kiosk_symbol ''sgsym:0'' ''shop.hook'' 1)"
  "lookup_symbol kiosk_index ''sgsym:1'' = Inr (kiosk_symbol ''sgsym:1'' ''shop.ship'' 2)"
  by (simp_all add: lookup_symbol_def symbol_of_def dict_by_def kiosk_symbol_def)

lemma kiosk_omissions: "context_omissions kiosk_source kiosk_index kiosk_graph [''sgsym:0'', ''sgsym:1''] = Inr []"
proof -
  have "source_text kiosk_source kiosk_index s = kiosk_line s" if "s \<in> {''sgsym:0'', ''sgsym:1''}" for s
    using that fun_cong[OF kiosk_content, of s] by (auto simp: kiosk_relevant)
  then show ?thesis
    by (simp add: context_omissions_def source_omissions_def graph_omissions_def call_omissions_def text_omissions_def
        kiosk_line_def kiosk_call_def kiosk_graph_def Let_def)
qed

definition kiosk_descriptor :: context_descriptor where
  "kiosk_descriptor = \<lparr>cx_payment_ingress_symbol_ids = [''sgsym:0''],
     cx_relevant_symbol_ids = [''sgsym:0'', ''sgsym:1''], cx_presented_symbol_ids = [''sgsym:1''],
     cx_bundle_completeness = BUNDLE_COMPLETE, cx_diagnostics = [],
     cx_source_excerpts = [\<lparr>xe_kind = CE_SOURCE_EXCERPT, xe_reference = ''symbol-definition:sgsym:0'',
        xe_fingerprint = fingerprint_json (JObj
          [(''symbol_id'', JStr ''sgsym:0''), (''qualified_name'', JStr ''shop.hook''),
           (''kind'', JStr ''FUNCTION''), (''content'', JStr kiosk_hook)])\<rparr>,
       \<lparr>xe_kind = CE_SOURCE_EXCERPT, xe_reference = ''symbol-definition:sgsym:1'',
        xe_fingerprint = fingerprint_json (JObj
          [(''symbol_id'', JStr ''sgsym:1''), (''qualified_name'', JStr ''shop.ship''),
           (''kind'', JStr ''FUNCTION''), (''content'', JStr kiosk_ship)])\<rparr>],
     cx_payment_calls = [\<lparr>xe_kind = CE_PAYMENT_CALL,
        xe_reference = ''resolved-call:shop.hook->shop.ship@shop.py:1:0'', xe_fingerprint = call_fingerprint kiosk_call\<rparr>],
     cx_graph_neighborhood = [\<lparr>xe_kind = CE_GRAPH_FACT, xe_reference = ''graph-fact:PAYMENT_INGRESS:sgsym:0'',
        xe_fingerprint = node_fingerprint kiosk_ingress\<rparr>]\<rparr>"

lemma kiosk_evidence:
  "construct_context_evidence \<lparr>xe_kind = CE_SOURCE_EXCERPT, xe_reference = ''symbol-definition:sgsym:0'', xe_fingerprint = f\<rparr>
     = Inr \<lparr>xe_kind = CE_SOURCE_EXCERPT, xe_reference = ''symbol-definition:sgsym:0'', xe_fingerprint = f\<rparr>"
  "construct_context_evidence \<lparr>xe_kind = CE_SOURCE_EXCERPT, xe_reference = ''symbol-definition:sgsym:1'', xe_fingerprint = f\<rparr>
     = Inr \<lparr>xe_kind = CE_SOURCE_EXCERPT, xe_reference = ''symbol-definition:sgsym:1'', xe_fingerprint = f\<rparr>"
  "construct_context_evidence \<lparr>xe_kind = CE_PAYMENT_CALL, xe_reference = ''resolved-call:shop.hook->shop.ship@shop.py:1:0'', xe_fingerprint = f\<rparr>
     = Inr \<lparr>xe_kind = CE_PAYMENT_CALL, xe_reference = ''resolved-call:shop.hook->shop.ship@shop.py:1:0'', xe_fingerprint = f\<rparr>"
  "construct_context_evidence \<lparr>xe_kind = CE_GRAPH_FACT, xe_reference = ''graph-fact:PAYMENT_INGRESS:sgsym:0'', xe_fingerprint = f\<rparr>
     = Inr \<lparr>xe_kind = CE_GRAPH_FACT, xe_reference = ''graph-fact:PAYMENT_INGRESS:sgsym:0'', xe_fingerprint = f\<rparr>"
  by (simp_all add: construct_context_evidence_def bounded_def strip_def is_space_def)

lemma kiosk_position: "call_position kiosk_call = ''shop.py:1:0''"
  by code_simp

lemma kiosk_bounds: "max_excerpt_bytes DEFAULT_SEMANTIC_BUNDLE_POLICY = 262144"
  "bp_max_presented_candidates DEFAULT_SEMANTIC_BUNDLE_POLICY = 64"
  by (simp_all add: max_excerpt_bytes_def DEFAULT_SEMANTIC_BUNDLE_POLICY_def
      DEFAULT_STRUCTURED_GENERATION_BOUNDS_def)

lemma semantic_limits:
  "MAX_REFERENCE_CHARACTERS = 128" "MAX_REFERENCES_PER_CANDIDATE = 4" "MAX_RATIONALE_CHARACTERS = 512"
  "MAX_RETURNED_CANDIDATES = 8" "max_response_bytes DEFAULT_SEMANTIC_BUNDLE_POLICY = 16384"
  by (simp_all add: MAX_REFERENCE_CHARACTERS_def MAX_REFERENCES_PER_CANDIDATE_def MAX_RATIONALE_CHARACTERS_def
      MAX_RETURNED_CANDIDATES_def max_response_bytes_def DEFAULT_SEMANTIC_BUNDLE_POLICY_def
      DEFAULT_STRUCTURED_GENERATION_BOUNDS_def)

lemma kiosk_sizes: "content_size kiosk_hook = 19" "content_size kiosk_ship = 17"
  by code_simp+

lemma kiosk_described:
  "build_descriptor kiosk_source kiosk_index kiosk_graph DEFAULT_SEMANTIC_BUNDLE_POLICY kiosk_reached = Inr kiosk_descriptor"
proof -
  have calls: "internal_calls kiosk_index [''sgsym:0'', ''sgsym:1''] = [kiosk_call]"
    by (simp add: internal_calls_def in_option_def kiosk_call_def)
  have call: "named_call_evidence kiosk_index kiosk_call = Inr (hd (cx_payment_calls kiosk_descriptor))"
    by (simp add: named_call_evidence_def kiosk_position kiosk_descriptor_def)
      (simp add: kiosk_call_def kiosk_lookup kiosk_symbol_def kiosk_evidence)
  have nodes: "relevant_nodes kiosk_graph [''sgsym:0'', ''sgsym:1''] = [kiosk_ingress]"
    by (simp add: relevant_nodes_def kiosk_graph_def kiosk_ingress_def in_option_def)
  have node: "fact_evidence kiosk_ingress = Inr (hd (cx_graph_neighborhood kiosk_descriptor))"
    by (simp add: fact_evidence_def kiosk_descriptor_def) (simp add: kiosk_ingress_def kiosk_evidence)
  let ?content = "\<lambda>s. case kiosk_line s of None \<Rightarrow> ''<unavailable>'' | Some t \<Rightarrow> t"
  have sources: "traverse (symbol_evidence kiosk_index ?content) [''sgsym:0'', ''sgsym:1''] = Inr (cx_source_excerpts kiosk_descriptor)"
    by (simp add: symbol_evidence_def kiosk_lookup kiosk_symbol_def kiosk_evidence kiosk_descriptor_def kiosk_line_def)
  have known: "kiosk_line ''sgsym:0'' = Some kiosk_hook" "kiosk_line ''sgsym:1'' = Some kiosk_ship"
    by (simp_all add: kiosk_line_def)
  have support: "budget_supporting 262144 kiosk_line 0 [''sgsym:0''] = Inr (19, [])"
    by (simp add: known kiosk_sizes)
  have presented: "budget_candidates DEFAULT_SEMANTIC_BUNDLE_POLICY kiosk_line 19 [] [''sgsym:1''] = Inr ([''sgsym:1''], [])"
    by (simp add: known kiosk_sizes kiosk_bounds)
  have ordered: "ordered_diagnostics kiosk_source [] = []"
    by (simp add: ordered_diagnostics_def kiosk_source_def)
  have valid: "validate_context kiosk_descriptor = None"
    by (simp add: validate_context_def kiosk_descriptor_def validate_evidence_group_def)
  show ?thesis
    unfolding build_descriptor_def Let_def kiosk_relevant fun_cong[OF kiosk_content[unfolded kiosk_relevant]] kiosk_nearest kiosk_omissions
      bind_result_simps sources calls nodes kiosk_seeds kiosk_bounds support presented prod.case
    using valid by (simp add: call node ordered kiosk_descriptor_def)
qed


definition kiosk_excerpt :: "excerpt_purpose \<Rightarrow> string \<Rightarrow> string \<Rightarrow> nat \<Rightarrow> string \<Rightarrow> source_excerpt" where
  "kiosk_excerpt purpose s reference line content = \<lparr>se_excerpt_reference = reference, se_purpose = purpose,
     se_symbol_id = s, se_source_location = kiosk_location line,
     se_content_fingerprint = sha256_digest_str content, se_content = content\<rparr>"

definition kiosk_entry :: catalog_entry where
  "kiosk_entry = \<lparr>ce_catalog_reference = ''candidate_001'', ce_symbol_id = ''sgsym:1'',
     ce_qualified_name = ''shop.ship'', ce_symbol_kind = SYM_FUNCTION, ce_excerpt_references = [''src_1'']\<rparr>"

definition kiosk_mapping :: mapping_input where
  "kiosk_mapping = \<lparr>mi_project_id = ''p'', mi_project_source_fingerprint = ''x'',
     mi_source_index_fingerprint = ''s'', mi_graph_fingerprint = pg_graph_fingerprint kiosk_graph,
     mi_semantic_context = kiosk_descriptor, mi_catalog = [kiosk_entry],
     mi_excerpts = [kiosk_excerpt PURPOSE_SUPPORTING ''sgsym:0'' ''src_0'' 1 kiosk_hook,
                    kiosk_excerpt PURPOSE_CANDIDATE ''sgsym:1'' ''src_1'' 2 kiosk_ship]\<rparr>"

definition kiosk_build :: context_build where
  "kiosk_build = \<lparr>cb_descriptor = kiosk_descriptor, cb_mapping_input = Some kiosk_mapping,
     cb_call_paths = (\<lambda>s. map_option rs_path (dict_by rs_symbol_id kiosk_reached s)),
     cb_policy = DEFAULT_SEMANTIC_BUNDLE_POLICY\<rparr>"

lemma kiosk_mapped:
  "build_mapping_input kiosk_index kiosk_graph kiosk_descriptor kiosk_line 262144 [''sgsym:0''] [''sgsym:1''] = Inr kiosk_mapping"
proof -
  have known: "kiosk_line ''sgsym:0'' = Some kiosk_hook" "kiosk_line ''sgsym:1'' = Some kiosk_ship"
    by (simp_all add: kiosk_line_def)
  have shown: "strip kiosk_hook \<noteq> []" "strip kiosk_ship \<noteq> []" by code_simp+
  have ref: "candidate_reference 1 = ''candidate_001''" "excerpt_reference_of ''sgsym:0'' = ''src_0''"
    "excerpt_reference_of ''sgsym:1'' = ''src_1''" by code_simp+
  have ok: "bounded MAX_REFERENCE_CHARACTERS ''src_0''" "bounded MAX_REFERENCE_CHARACTERS ''src_1''"
    "strip ''src_0'' = ''src_0''" "strip ''src_1'' = ''src_1''"
    by (simp_all add: bounded_def semantic_limits strip_def is_space_def)
  have support: "supporting_excerpts kiosk_index 262144 kiosk_line 0 [''sgsym:0''] =
      Inr [kiosk_excerpt PURPOSE_SUPPORTING ''sgsym:0'' ''src_0'' 1 kiosk_hook]"
    by (simp add: known kiosk_sizes kiosk_lookup excerpt_of_def construct_source_excerpt_def ref ok shown)
      (simp add: kiosk_excerpt_def kiosk_symbol_def)
  have entry: "construct_catalog_entry kiosk_entry = Inr kiosk_entry"
    by (simp add: construct_catalog_entry_def kiosk_entry_def bounded_def semantic_limits strip_def is_space_def
        validate_catalog_entry_def eligible_kind_def bounded_references_def)
  have material: "candidate_material kiosk_index kiosk_line (1, ''sgsym:1'') =
      Inr (kiosk_excerpt PURPOSE_CANDIDATE ''sgsym:1'' ''src_1'' 2 kiosk_ship, kiosk_entry)"
    using entry
    by (simp add: candidate_material_def known kiosk_lookup excerpt_of_def construct_source_excerpt_def ref ok shown)
      (simp add: kiosk_excerpt_def kiosk_symbol_def kiosk_entry_def ref[simplified])
  have all: "traverse (candidate_material kiosk_index kiosk_line)
      (zip [1..<Suc (length [''sgsym:1''])] [''sgsym:1'']) = Inr [(kiosk_excerpt PURPOSE_CANDIDATE ''sgsym:1'' ''src_1'' 2 kiosk_ship, kiosk_entry)]"
    using material by simp
  have valid: "validate_mapping_input kiosk_mapping = None"
    by (simp add: validate_mapping_input_def kiosk_mapping_def kiosk_entry_def kiosk_descriptor_def kiosk_excerpt_def
        check_entry_excerpts_def check_excerpt_scope_def dict_by_def Let_def)
  have "ix_project_id kiosk_index = ''p''" "ix_project_source_fingerprint kiosk_index = ''x''"
    "ix_source_index_fingerprint kiosk_index = ''s''" by (simp_all add: kiosk_index_def)
  then show ?thesis
    using valid unfolding build_mapping_input_def support all bind_result_simps by (simp add: kiosk_mapping_def)
qed

lemma kiosk_built: "build_semantic_context kiosk_source kiosk_index kiosk_graph DEFAULT_SEMANTIC_BUNDLE_POLICY = Inr kiosk_build"
proof -
  have ids: "ix_project_id kiosk_index = pg_project_id kiosk_graph"
    "ix_source_index_fingerprint kiosk_index = pg_source_index_fingerprint kiosk_graph"
    by (simp_all add: kiosk_index_def kiosk_graph_def)
  have presented: "cx_presented_symbol_ids kiosk_descriptor = [''sgsym:1'']" by (simp add: kiosk_descriptor_def)
  show ?thesis
    unfolding build_semantic_context_def Let_def kiosk_snapshot kiosk_reached kiosk_described kiosk_content kiosk_bounds
      kiosk_nearest kiosk_seeds
    by (simp add: ids presented kiosk_mapped kiosk_build_def)
qed


section \<open>The answer of a model\<close>

definition kiosk_answer :: "string list \<Rightarrow> generation_result" where
  "kiosk_answer references = \<lparr>gr_provider_id = ''openai'', gr_model = ''m'', gr_output_text = ''{}'',
     gr_candidates = Some [\<lparr>rw_symbol_reference = ''candidate_001'', rw_rationale = ''ships'',
       rw_excerpt_references = references, rw_provider_confidence = None\<rparr>],
     gr_latency_ms = 5, gr_token_usage = None\<rparr>"

definition kiosk_view :: ast_view where
  "kiosk_view = \<lparr>av_analysis = (\<lambda>_. \<lparr>na_call_paths = Map.empty, na_state_gates = [], na_acknowledgements = []\<rparr>),
     av_execution_proven = (\<lambda>_. False), av_controlled = (\<lambda>_ _. None), av_route_call = (\<lambda>_ _. None),
     av_precedes = (\<lambda>_ _ _. False)\<rparr>"

definition kiosk_world :: "string list \<Rightarrow> semantic_world" where
  "kiosk_world references = \<lparr>mw_source = kiosk_source, mw_index = Inr kiosk_index, mw_graph = Inr kiosk_graph,
     mw_view = Inr kiosk_view, mw_ai = Some \<lparr>ai_provider = ''openai'', ai_model = ''m''\<rparr>,
     mw_provider = Inr (Inr (\<lambda>_. Inr (Inr (kiosk_answer references)))), mw_schema = JObj [], mw_time = ''t'',
     mw_config_write = None, mw_artifact_write = None\<rparr>"

definition kiosk_store :: semantic_store where
  "kiosk_store = \<lparr>ss_confirmation = None, ss_artifact = None\<rparr>"

lemma kiosk_fresh: "fresh_pipeline (kiosk_world references) = Inr (kiosk_index, kiosk_graph, kiosk_build)"
  by (simp add: fresh_pipeline_def kiosk_world_def kiosk_built)

lemma strip_nonblank: "\<not> is_space c \<Longrightarrow> strip (c # s) \<noteq> []"
  by (auto simp: strip_def dropWhile_eq_Nil_conv)

lemma prepared_request_total:
  assumes "strip model \<noteq> []" and "max_output_tokens policy \<noteq> 0"
  shows "\<exists>prepared. prepare_semantic_request schema m model policy = Inr prepared"
proof -
  have "strip (canonical_json (provider_input_json policy m)) \<noteq> []"
    by (simp add: provider_input_json_def Let_def strip_nonblank is_space_def)
  moreover have "strip (''sgsem_'' @ take 32 x) \<noteq> []" for x by (simp add: strip_nonblank is_space_def)
  moreover have "strip MAPPER_INSTRUCTIONS \<noteq> []"
    by (simp add: MAPPER_INSTRUCTIONS_def strip_nonblank is_space_def)
  ultimately show ?thesis using assms
    by (simp add: prepare_semantic_request_def construct_generation_request_def Let_def bind_result_def)
qed


definition kiosk_resolution :: "resolution_basis \<Rightarrow> value_resolution" where
  "kiosk_resolution basis = \<lparr>vx_state = RESOLUTION_UNIQUE, vx_basis = basis, vx_selected_symbol_id = Some ''sgsym:1''\<rparr>"

lemma kiosk_asked:
  "\<exists>e m. ask_model (kiosk_world [''src_1'']) kiosk_build = Inr e \<and> me_result e = Some m \<and> me_failure e = None \<and>
     map sm_symbol_id (cl_valid_candidates (mr_classification m)) = [''sgsym:1''] \<and>
     mr_decision m = Some (kiosk_resolution BASIS_MODEL_UNIQUE)"
proof -
  have "strip ''m'' \<noteq> []" "max_output_tokens DEFAULT_SEMANTIC_BUNDLE_POLICY \<noteq> 0"
    by (simp_all add: strip_nonblank is_space_def max_output_tokens_def DEFAULT_SEMANTIC_BUNDLE_POLICY_def
        DEFAULT_STRUCTURED_GENERATION_BOUNDS_def)
  from prepared_request_total[OF this] obtain prepared where
    prepared: "prepare_semantic_request (JObj []) kiosk_mapping ''m'' DEFAULT_SEMANTIC_BUNDLE_POLICY = Inr prepared" by blast
  let ?raw = "\<lparr>rw_symbol_reference = ''candidate_001'', rw_rationale = ''ships'',
       rw_excerpt_references = [''src_1''], rw_provider_confidence = None\<rparr>"
  let ?x = "\<lparr>sm_catalog_reference = ''candidate_001'', sm_symbol_id = ''sgsym:1'', sm_rationale = ''ships'',
       sm_excerpt_references = [''src_1''], sm_provider_confidence = None\<rparr>"
  have raw: "validate_raw_output [?raw] = Inr [?raw]"
    by (simp add: validate_raw_output_def semantic_limits construct_raw_candidate_def bounded_def bounded_references_def
        confidence_in_range_def strip_def is_space_def)
  have reasons: "rejection_reasons [kiosk_entry] {} ?raw = []"
    "dict_by ce_catalog_reference [kiosk_entry] ''candidate_001'' = Some kiosk_entry"
    by (simp_all add: rejection_reasons_def dict_by_def kiosk_entry_def)
  have "candidate_of kiosk_entry ?raw = Inr ?x"
    by (simp add: candidate_of_def construct_candidate_def validate_candidate_def semantic_limits bounded_def
        bounded_references_def confidence_in_range_def strip_def is_space_def kiosk_entry_def)
  then have judged: "classify_candidates [?raw] [kiosk_entry] = Inr \<lparr>cl_valid_candidates = [?x], cl_rejected_candidates = []\<rparr>"
    using reasons by (simp add: classify_candidates_def Let_def)
  have size: "length (utf8 ''{}'') = 2" by code_simp
  have "mi_catalog kiosk_mapping = [kiosk_entry]" "mi_semantic_context kiosk_mapping = kiosk_descriptor"
    "cx_bundle_completeness kiosk_descriptor = BUNDLE_COMPLETE"
    by (simp_all add: kiosk_mapping_def kiosk_descriptor_def)
  then show ?thesis
    using prepared raw judged size
    by (simp add: ask_model_def kiosk_world_def kiosk_build_def map_customer_value_def kiosk_answer_def semantic_limits
        resolve_model_candidates_def kiosk_resolution_def)
qed

section \<open>The projected graph\<close>

definition kiosk_value :: "resolution_basis \<Rightarrow> string \<Rightarrow> graph_node" where
  "kiosk_value basis fp = \<lparr>gn_node_id = stable_id ''sgnode'' [''CUSTOMER_VALUE_ACTION'', ''sgsym:1'', ''''],
     gn_kind = CUSTOMER_VALUE_ACTION, gn_label = ''shop.ship'', gn_backing_symbol_id = Some ''sgsym:1'',
     gn_details = None,
     gn_provenance = [\<lparr>pr_kind = (if basis = BASIS_MODEL_UNIQUE then AI_INFERRED else HUMAN_CONFIRMED),
       pr_reference = ''customer-value-resolution:'' @ resolution_basis_value basis,
       pr_source_location = Some (kiosk_location 2), pr_supporting_fingerprint = Some fp\<rparr>]\<rparr>"

lemma kiosk_node:
  assumes "basis \<noteq> BASIS_UNRESOLVED"
  shows "value_node kiosk_index (kiosk_resolution basis) fp (kiosk_symbol ''sgsym:1'' ''shop.ship'' 2) = Inr (kiosk_value basis fp)"
proof -
  have "strip (''customer-value-resolution:'' @ resolution_basis_value basis) = ''customer-value-resolution:'' @ resolution_basis_value basis"
    by (cases basis) (simp_all add: strip_def is_space_def)
  moreover have "strip ''CUSTOMER_VALUE_ACTION'' = ''CUSTOMER_VALUE_ACTION''" "strip ''sgsym:1'' = ''sgsym:1''"
    "strip ''shop.ship'' = ''shop.ship''" "strip '''' = ''''"
    by (simp_all add: strip_def is_space_def)
  ultimately show ?thesis
    using assms by (cases basis) (simp_all add: value_node_def graph_node_id_def blank_def construct_provenance_def strip_reference_def
        construct_graph_node_def bounded_def kiosk_symbol_def kiosk_resolution_def kiosk_value_def
        validate_node_def static_unsupported_def semantic_evidence_def construct_def)
qed

definition kiosk_edge_id :: string where
  "kiosk_edge_id = stable_id ''sgedge'' [''CALLS'', ''n1'', stable_id ''sgnode'' [''CUSTOMER_VALUE_ACTION'', ''sgsym:1'', ''''],
     ''0'', strip (semantic_call_edge_discriminator [\<lparr>pr_kind = STATIC, pr_reference = ''call-site:sgsym:0:0'',
        pr_source_location = Some (kiosk_location 1), pr_supporting_fingerprint = Some ''s''\<rparr>])]"

definition kiosk_edge :: graph_edge where
  "kiosk_edge = \<lparr>ge_edge_id = kiosk_edge_id, ge_source_node_id = ''n1'',
     ge_target_node_id = stable_id ''sgnode'' [''CUSTOMER_VALUE_ACTION'', ''sgsym:1'', ''''], ge_kind = CALLS,
     ge_branch = None, ge_provenance = [\<lparr>pr_kind = STATIC, pr_reference = ''call-site:sgsym:0:0'',
        pr_source_location = Some (kiosk_location 1), pr_supporting_fingerprint = Some ''s''\<rparr>]\<rparr>"

lemma kiosk_path: "resolved_path kiosk_index ''sgsym:0'' ''sgsym:1'' = Some [kiosk_call]"
proof -
  have "fresh_from kiosk_index [''sgsym:0''] ''sgsym:0'' = [(''sgsym:1'', kiosk_call)]"
    by (simp add: fresh_from_def canonical_calls_def canonical_order_def kiosk_call_def)
  then show ?thesis by (simp add: resolved_path_def search_path.simps(2) Let_def)
qed

lemma kiosk_edge:
  "call_edge kiosk_index (kiosk_value basis fp) ''sgsym:1'' [] kiosk_ingress = Inr [kiosk_edge]"
proof -
  have "call_site_reference kiosk_index kiosk_call = Inr (''call-site:sgsym:0:0'')"
  proof -
    have "str_int 0 = ''0''" by code_simp
    then show ?thesis by (simp add: call_site_reference_def canonical_order_def Let_def kiosk_call_def)
  qed
  then have "call_provenance kiosk_index kiosk_call = Inr (hd (ge_provenance kiosk_edge))"
    by (simp add: call_provenance_def construct_provenance_def strip_reference_def strip_def is_space_def kiosk_edge_def)
      (simp add: kiosk_call_def kiosk_index_def)
  moreover have "strip ''CALLS'' = ''CALLS''" by (simp add: strip_def is_space_def)
  moreover have "str_int 0 = ''0''" by code_simp
  moreover have "gn_backing_symbol_id kiosk_ingress = Some ''sgsym:0''" "gn_node_id kiosk_ingress = ''n1''"
    by (simp_all add: kiosk_ingress_def)
  ultimately show ?thesis
    by (simp add: call_edge_def kiosk_path kiosk_edge_def kiosk_edge_id_def graph_edge_id_def blank_def
        construct_graph_edge_def validate_edge_details_def static_unsupported_def construct_def kiosk_value_def)
qed

lemma kiosk_projected:
  assumes "basis \<noteq> BASIS_UNRESOLVED"
  shows "\<exists>g. project_customer_value kiosk_graph kiosk_index (Some (Inr kiosk_view)) (kiosk_resolution basis) fp = Inr g"
proof -
  have distinct_ids: "gn_node_id kiosk_ingress \<noteq> gn_node_id (kiosk_value basis fp)"
    by (simp add: kiosk_ingress_def kiosk_value_def stable_id_def)
  then have distinct: "distinct (map gn_node_id (canonical_order graph_node_json [kiosk_ingress, kiosk_value basis fp]))"
    by (simp add: canonical_order_def)
  have routes: "compose_effective_routes kiosk_index = Inr \<lparr>rs_routes = [], rs_diagnostics = [composition_diagnostic APP_TARGET_UNSELECTED None]\<rparr>"
    by (simp add: compose_effective_routes_def selected_targets_def)
  have folded: "fold_result (project_ingress kiosk_index kiosk_view [] nodes node selected) st rs = Inr st" for nodes node selected st rs
    by (induction rs) (auto simp: project_ingress_def dict_by_def split: prod.splits)
  have find: "find (\<lambda>s. sy_symbol_id s = ''sgsym:1'') (ix_symbols kiosk_index) = Some (kiosk_symbol ''sgsym:1'' ''shop.ship'' 2)"
    by (simp add: kiosk_symbol_def)
  have eligible: "eligible_kind (sy_kind (kiosk_symbol ''sgsym:1'' ''shop.ship'' 2))"
    by (simp add: kiosk_symbol_def eligible_kind_def)
  have kinds: "gn_kind kiosk_ingress = PAYMENT_INGRESS" "gn_kind (kiosk_value basis fp) = CUSTOMER_VALUE_ACTION"
    by (simp_all add: kiosk_ingress_def kiosk_value_def)
  have graph: "pg_nodes kiosk_graph = [kiosk_ingress]" "pg_edges kiosk_graph = []" "pg_diagnostics kiosk_graph = []"
    by (simp_all add: kiosk_graph_def)
  have ends: "ge_source_node_id kiosk_edge = gn_node_id kiosk_ingress"
    "ge_target_node_id kiosk_edge = gn_node_id (kiosk_value basis fp)" "ge_kind kiosk_edge = CALLS"
    by (simp_all add: kiosk_edge_def kiosk_ingress_def kiosk_value_def)
  let ?ns = "canonical_order graph_node_json [kiosk_ingress, kiosk_value basis fp]"
  have "?ns = [kiosk_ingress, kiosk_value basis fp] \<or> ?ns = [kiosk_value basis fp, kiosk_ingress]"
    by (simp add: canonical_order_def)
  moreover have "validate_edge_endpoints ns kiosk_edge = None" if "ns = [kiosk_ingress, kiosk_value basis fp] \<or> ns = [kiosk_value basis fp, kiosk_ingress]" for ns
    using that ends kinds distinct_ids
    by (auto simp: validate_edge_endpoints_def dict_by_def validate_edge_kinds_def)
  ultimately have endpoint: "validate_edge_endpoints ?ns kiosk_edge = None" by blast
  have single: "canonical_order graph_edge_json [kiosk_edge] = [kiosk_edge]" "canonical_order graph_diagnostic_json [] = []"
    by (simp_all add: canonical_order_def)
  have valid: "validate_graph (kiosk_graph\<lparr>pg_graph_fingerprint := graph_fingerprint (pg_project_id kiosk_graph)
        (pg_source_index_fingerprint kiosk_graph) COMPLETE [] ?ns [kiosk_edge], pg_completeness := COMPLETE,
      pg_diagnostics := [], pg_nodes := ?ns, pg_edges := [kiosk_edge]\<rparr>) = None"
    using distinct endpoint by (simp add: validate_graph_def graph_completeness_for_def)
  show ?thesis
    unfolding project_customer_value_def
    using valid find
    by (simp add: kiosk_resolution_def kiosk_callable eligible kiosk_node[OF assms, unfolded kiosk_resolution_def]
        graph kinds kiosk_edge project_control_relationships_def routes folded single graph_completeness_for_def Let_def
        del: kiosk_symbols)
qed

lemma kiosk_resolved:
  "\<exists>st u. resolve_customer_value (kiosk_world [''src_1'']) kiosk_store = (st, Inr u) \<and>
     sv_human_audit (us_artifact u) = None \<and>
     sv_resolution (us_artifact u) = Some (kiosk_resolution BASIS_MODEL_UNIQUE)"
proof -
  let ?w = "kiosk_world [''src_1'']"
  obtain e m where e: "ask_model ?w kiosk_build = Inr e" "me_result e = Some m" "me_failure e = None"
    "map sm_symbol_id (cl_valid_candidates (mr_classification m)) = [''sgsym:1'']"
    "mr_decision m = Some (kiosk_resolution BASIS_MODEL_UNIQUE)"
    using kiosk_asked by auto
  have parts: "cb_descriptor kiosk_build = kiosk_descriptor" "cx_bundle_completeness kiosk_descriptor = BUNDLE_COMPLETE"
    by (simp_all add: kiosk_build_def kiosk_descriptor_def)
  have "validate_value_resolution (kiosk_resolution BASIS_MODEL_UNIQUE) = None"
    by (simp add: validate_value_resolution_def kiosk_resolution_def)
  then obtain a where a: "model_artifact kiosk_index kiosk_graph kiosk_build e = Inr a"
    "sv_resolution a = Some (kiosk_resolution BASIS_MODEL_UNIQUE)" "sv_human_audit a = None"
    "sv_resolution_fingerprint a \<noteq> None"
    using e(2-5) parts
    by (simp add: model_artifact_def Let_def construct_def semantic_draft_def validate_semantic_artifact_def
        human_basis_def kiosk_resolution_def)
  have "\<exists>g. project_artifact ?w kiosk_index kiosk_graph a = Inr g"
  proof -
    obtain fp where "sv_resolution_fingerprint a = Some fp" using a(4) by blast
    moreover have "mw_view ?w = Inr kiosk_view" "vx_state (kiosk_resolution BASIS_MODEL_UNIQUE) = RESOLUTION_UNIQUE"
      by (simp_all add: kiosk_world_def kiosk_resolution_def)
    ultimately show ?thesis
      using a(2) kiosk_projected[of BASIS_MODEL_UNIQUE fp] by (simp add: project_artifact_def)
  qed
  then obtain g where g: "project_artifact ?w kiosk_index kiosk_graph a = Inr g" by blast
  have "current_human_resolution ?w (ss_confirmation kiosk_store) kiosk_index kiosk_graph kiosk_build None = Inr None"
    by (simp add: current_human_resolution_def kiosk_store_def)
  then have "resolved_artifact ?w kiosk_store = Inr (kiosk_index, kiosk_graph, g, a)"
    using kiosk_fresh e(1) a(1) g by (simp add: resolved_artifact_def kiosk_store_def)
  moreover have "mw_artifact_write ?w = None" by (simp add: kiosk_world_def)
  ultimately show ?thesis using a
    by (simp add: resolve_customer_value_def store_artifact_def)
qed

lemma kiosk_confirmed:
  "\<exists>c a. confirmed_artifact (kiosk_world references) kiosk_store ''shop.ship'' = Inr (kiosk_index, kiosk_graph, c, a) \<and>
     sv_resolution a = Some (kiosk_resolution BASIS_MANUAL_SELECTION)"
proof -
  let ?s = "kiosk_symbol ''sgsym:1'' ''shop.ship'' 2"
  have ids: "sy_symbol_id ?s = ''sgsym:1''" "eligible_kind (sy_kind ?s)"
    by (simp_all add: kiosk_symbol_def eligible_kind_def)
  have selected: "selected_symbol kiosk_index ''shop.ship'' = Inr ?s"
    using kiosk_callable(4) ids by (simp add: selected_symbol_def Let_def) (simp add: kiosk_symbol_def)
  have described: "descriptor_for (kiosk_world references) kiosk_index kiosk_graph kiosk_build ''sgsym:1'' = Inr kiosk_descriptor"
    by (simp add: descriptor_for_def kiosk_build_def kiosk_descriptor_def)
  have reusable: "reusable_ai_evidence (kiosk_world references) kiosk_build kiosk_descriptor fp None = Inr None" for fp
    by (simp add: reusable_ai_evidence_def)
  have valid: "validate_value_resolution (kiosk_resolution BASIS_MANUAL_SELECTION) = None"
    by (simp add: validate_value_resolution_def kiosk_resolution_def)
  have store: "ss_artifact kiosk_store = None" by (simp add: kiosk_store_def)
  show ?thesis
    unfolding confirmed_artifact_def Let_def kiosk_fresh bind_result_simps prod.case selected ids described
      store reusable option.case
    using valid
    by (simp add: kiosk_resolution_def construct_def validate_semantic_artifact_def semantic_draft_def human_basis_def)
qed

end
