(* ===== verification/SemanticProperties.thy ===== *)
theory SemanticProperties
  imports SemanticExample "HOL-Library.Sublist"
begin

text \<open>
  The properties of semantic resolution: what is shown to a model, what its answer can decide,
  and that a human decision is neither lost nor overridden.
\<close>

section \<open>Classification\<close>

lemma construct_candidate_Inr:
  assumes "construct_candidate c = Inr x"
  shows "sm_symbol_id x = sm_symbol_id c" and "sm_catalog_reference x = strip (sm_catalog_reference c)"
    and "sm_excerpt_references x = sm_excerpt_references c" and "distinct (sm_excerpt_references c)"
  using assms by (auto simp: construct_candidate_def validate_candidate_def split: if_splits)

definition judged_by :: "catalog_entry list \<Rightarrow> semantic_candidate \<Rightarrow> bool" where
  "judged_by catalog c \<longleftrightarrow> (\<exists>e \<in> set catalog. sm_symbol_id c = ce_symbol_id e \<and>
     set (sm_excerpt_references c) \<subseteq> set (ce_excerpt_references e))"

lemma rejection_reasons_Nil:
  assumes "rejection_reasons catalog seen raw = []"
  obtains e where "rw_symbol_reference raw \<notin> seen"
    and "dict_by ce_catalog_reference catalog (rw_symbol_reference raw) = Some e"
    and "set (rw_excerpt_references raw) \<subseteq> set (ce_excerpt_references e)"
  using assms by (auto simp: rejection_reasons_def split: if_splits option.splits)

lemma classify_from_facts:
  assumes "classify_from catalog seen valid rejected raws = Inr c"
  shows "\<exists>new. cl_valid_candidates c = valid @ new \<and>
     length (cl_valid_candidates c) + length (cl_rejected_candidates c)
       = length valid + length rejected + length raws \<and>
     (\<forall>x \<in> set new. judged_by catalog x)"
  using assms
proof (induction catalog seen valid rejected raws rule: classify_from.induct)
  case (1 catalog seen valid rejected)
  then show ?case by auto
next
  case (2 catalog seen valid rejected raw raws)
  let ?seen = "insert (rw_symbol_reference raw) seen"
  show ?case
  proof (cases "rejection_reasons catalog seen raw = []")
    case False
    then have "classify_from catalog ?seen valid
        (rejected @ [\<lparr>rj_raw_candidate = raw, rj_reasons = rejection_reasons catalog seen raw\<rparr>]) raws = Inr c"
      using "2.prems" by (simp add: Let_def)
    from "2.IH"(1)[OF refl refl False this] show ?thesis by auto
  next
    case True
    then obtain e where e: "dict_by ce_catalog_reference catalog (rw_symbol_reference raw) = Some e"
      "set (rw_excerpt_references raw) \<subseteq> set (ce_excerpt_references e)"
      by (rule rejection_reasons_Nil)
    obtain x where x: "candidate_of e raw = Inr x" "classify_from catalog ?seen (valid @ [x]) rejected raws = Inr c"
      using "2.prems" True e(1) by (auto simp: Let_def bind_result_eq_Inr)
    have "judged_by catalog x"
      using construct_candidate_Inr[OF x(1)[unfolded candidate_of_def]] e dict_by_SomeD(1)[OF e(1)]
      by (auto simp: judged_by_def)
    moreover from "2.IH"(2)[OF refl refl _ e(1) x(2)] True obtain new where
      "cl_valid_candidates c = (valid @ [x]) @ new" "\<forall>y \<in> set new. judged_by catalog y"
      "length (cl_valid_candidates c) + length (cl_rejected_candidates c)
        = length (valid @ [x]) + length rejected + length raws"
      by auto
    ultimately show ?thesis by (intro exI[of _ "x # new"]) auto
  qed
qed

lemma classify_candidates_facts:
  assumes "classify_candidates raws catalog = Inr c"
  shows "length (cl_valid_candidates c) + length (cl_rejected_candidates c) = length raws"
    and "x \<in> set (cl_valid_candidates c) \<Longrightarrow> judged_by catalog x"
  using classify_from_facts[OF assms[unfolded classify_candidates_def]] by auto

section \<open>Relevance is reachability\<close>

text \<open>A resolved call of one symbol by another, to a function or method.\<close>

inductive call_step :: "source_index \<Rightarrow> string \<Rightarrow> string \<Rightarrow> bool" for i where
  call: "call_step i (ca_caller_symbol_id c) s"
    if "c \<in> set (ix_call_sites i)" and "ca_callee_symbol_id c = Some s" and "callable_symbol i s"

inductive_cases call_stepE: "call_step i a b"

lemma set_outgoing_calls: "c \<in> set (outgoing_calls i a) \<longleftrightarrow>
    c \<in> set (ix_call_sites i) \<and> ca_caller_symbol_id c = a \<and> ca_callee_symbol_id c \<noteq> None"
  by (auto simp: outgoing_calls_def)

lemma call_step_outgoing:
  "call_step i a s \<longleftrightarrow> callable_symbol i s \<and> (\<exists>c \<in> set (outgoing_calls i a). ca_callee_symbol_id c = Some s)"
  by (auto simp: set_outgoing_calls intro: call elim!: call_stepE)

lemma foldl_follow_calls:
  assumes "foldl (follow_call i caller) (reached, queue) calls = (reached', queue')"
  shows "\<exists>new. reached' = reached @ new \<and> queue' = queue @ new \<and>
    (\<forall>x \<in> set new. callable_symbol i (rs_symbol_id x) \<and>
       (\<exists>c \<in> set calls. ca_callee_symbol_id c = Some (rs_symbol_id x))) \<and>
    (\<forall>c \<in> set calls. \<forall>s. ca_callee_symbol_id c = Some s \<longrightarrow> callable_symbol i s \<longrightarrow> s \<in> set (reached_ids reached')) \<and>
    (distinct (reached_ids reached) \<longrightarrow> distinct (reached_ids reached'))"
  using assms
proof (induction calls arbitrary: reached queue)
  case Nil
  then show ?case by simp
next
  case (Cons c calls)
  obtain r q where step: "follow_call i caller (reached, queue) c = (r, q)"
    by (cases "follow_call i caller (reached, queue) c")
  then have rest: "foldl (follow_call i caller) (r, q) calls = (reached', queue')" using Cons.prems by simp
  obtain one where one: "r = reached @ one" "q = queue @ one"
    "\<forall>x \<in> set one. callable_symbol i (rs_symbol_id x) \<and> ca_callee_symbol_id c = Some (rs_symbol_id x)"
    "\<forall>s. ca_callee_symbol_id c = Some s \<longrightarrow> callable_symbol i s \<longrightarrow> s \<in> set (reached_ids r)"
    "distinct (reached_ids reached) \<longrightarrow> distinct (reached_ids r)"
    using step by (auto simp: follow_call_def Let_def reached_ids_def split: option.splits if_splits)
  obtain new where new: "reached' = r @ new" "queue' = q @ new"
    "\<forall>x \<in> set new. callable_symbol i (rs_symbol_id x) \<and> (\<exists>c \<in> set calls. ca_callee_symbol_id c = Some (rs_symbol_id x))"
    "\<forall>c \<in> set calls. \<forall>s. ca_callee_symbol_id c = Some s \<longrightarrow> callable_symbol i s \<longrightarrow> s \<in> set (reached_ids reached')"
    "distinct (reached_ids r) \<longrightarrow> distinct (reached_ids reached')"
    using Cons.IH[OF rest] by auto
  have "set (reached_ids r) \<subseteq> set (reached_ids reached')" using new(1) by (simp add: reached_ids_def)
  with one new show ?case by (intro exI[of _ "one @ new"]) auto
qed

lemma follow_calls_facts:
  assumes "follow_calls i caller reached queue = (reached', queue')"
  obtains new where "reached' = reached @ new" and "queue' = queue @ new"
    and "\<forall>x \<in> set new. call_step i (rs_symbol_id caller) (rs_symbol_id x)"
    and "\<forall>s. call_step i (rs_symbol_id caller) s \<longrightarrow> s \<in> set (reached_ids reached')"
    and "distinct (reached_ids reached) \<longrightarrow> distinct (reached_ids reached')"
proof -
  obtain new where "reached' = reached @ new" "queue' = queue @ new"
    "\<forall>x \<in> set new. callable_symbol i (rs_symbol_id x) \<and>
       (\<exists>c \<in> set (outgoing_calls i (rs_symbol_id caller)). ca_callee_symbol_id c = Some (rs_symbol_id x))"
    "\<forall>c \<in> set (outgoing_calls i (rs_symbol_id caller)). \<forall>s. ca_callee_symbol_id c = Some s \<longrightarrow>
       callable_symbol i s \<longrightarrow> s \<in> set (reached_ids reached')"
    "distinct (reached_ids reached) \<longrightarrow> distinct (reached_ids reached')"
    using foldl_follow_calls[OF assms[unfolded follow_calls_def]] by auto
  then show ?thesis using that[of new] unfolding call_step_outgoing by blast
qed

text \<open>What is reached and no longer queued has all its callees reached.\<close>

definition search_invariant :: "source_index \<Rightarrow> reached_symbol list \<Rightarrow> reached_symbol list \<Rightarrow> bool" where
  "search_invariant i reached queue \<longleftrightarrow>
     set queue \<subseteq> set reached \<and> distinct (reached_ids reached) \<and>
     (\<forall>a \<in> set (reached_ids reached). a \<in> set (reached_ids queue) \<or>
        (\<forall>s. call_step i a s \<longrightarrow> s \<in> set (reached_ids reached)))"

lemma search_calls_reached:
  assumes "search_invariant i reached queue"
  shows "distinct (reached_ids (search_calls i reached queue)) \<and>
    set (reached_ids (search_calls i reached queue)) =
      {s. \<exists>a \<in> set (reached_ids reached). (call_step i)\<^sup>*\<^sup>* a s}"
  using assms
proof (induction i reached queue rule: search_calls.induct)
  case (1 i reached)
  have "s \<in> set (reached_ids reached)" if "(call_step i)\<^sup>*\<^sup>* a s" "a \<in> set (reached_ids reached)" for a s
    using that 1 by (induction rule: rtranclp_induct) (auto simp: search_invariant_def reached_ids_def)
  then show ?case using 1 by (auto simp: search_invariant_def)
next
  case (2 i reached caller queue)
  obtain reached' queue' where step: "follow_calls i caller reached queue = (reached', queue')"
    by (cases "follow_calls i caller reached queue")
  from step obtain new where new: "reached' = reached @ new" "queue' = queue @ new"
    "\<forall>x \<in> set new. call_step i (rs_symbol_id caller) (rs_symbol_id x)"
    "\<forall>s. call_step i (rs_symbol_id caller) s \<longrightarrow> s \<in> set (reached_ids reached')"
    "distinct (reached_ids reached) \<longrightarrow> distinct (reached_ids reached')"
    by (rule follow_calls_facts)
  have caller: "rs_symbol_id caller \<in> set (reached_ids reached)"
    using "2.prems" by (auto simp: search_invariant_def reached_ids_def)
  have "search_invariant i reached' queue'"
    unfolding search_invariant_def
  proof (intro conjI ballI)
    show "set queue' \<subseteq> set reached'" using "2.prems" new by (auto simp: search_invariant_def)
    show "distinct (reached_ids reached')" using "2.prems" new(5) by (simp add: search_invariant_def)
    fix a assume a: "a \<in> set (reached_ids reached')"
    show "a \<in> set (reached_ids queue') \<or> (\<forall>s. call_step i a s \<longrightarrow> s \<in> set (reached_ids reached'))"
    proof (cases "a \<in> set (reached_ids new) \<or> a \<in> set (reached_ids queue)")
      case True
      then show ?thesis using new(2) by (auto simp: reached_ids_def)
    next
      case False
      then have "a \<in> set (reached_ids reached)" using a new(1) by (auto simp: reached_ids_def)
      then have "a = rs_symbol_id caller \<or> (\<forall>s. call_step i a s \<longrightarrow> s \<in> set (reached_ids reached))"
        using "2.prems" False by (auto simp: search_invariant_def reached_ids_def)
      then show ?thesis using new(1,4) by (auto simp: reached_ids_def)
    qed
  qed
  note IH = "2.IH"[OF step[symmetric] this]
  have "{s. \<exists>a \<in> set (reached_ids reached'). (call_step i)\<^sup>*\<^sup>* a s}
      = {s. \<exists>a \<in> set (reached_ids reached). (call_step i)\<^sup>*\<^sup>* a s}"
  proof -
    have "\<exists>b \<in> set (reached_ids reached). (call_step i)\<^sup>*\<^sup>* b s"
      if a: "a \<in> set (reached_ids reached')" "(call_step i)\<^sup>*\<^sup>* a s" for a s
    proof (cases "a \<in> set (reached_ids reached)")
      case False
      then obtain x where "x \<in> set new" "a = rs_symbol_id x" using a(1) new(1) by (auto simp: reached_ids_def)
      then have "call_step i (rs_symbol_id caller) a" using new(3) by simp
      then show ?thesis using caller a(2) by (meson converse_rtranclp_into_rtranclp)
    qed (use a in blast)
    moreover have "set (reached_ids reached) \<subseteq> set (reached_ids reached')" using new(1) by (simp add: reached_ids_def)
    ultimately show ?thesis by blast
  qed
  then show ?case using IH step by (simp add: search_calls.simps(2))
qed

lemma reached_callables_facts:
  shows "distinct (reached_ids (reached_callables i g))"
    and "set (reached_ids (reached_callables i g)) =
      {s. \<exists>a \<in> set (seed_ids g). callable_symbol i a \<and> (call_step i)\<^sup>*\<^sup>* a s}"
proof -
  have ids: "reached_ids (seed_entries i g) = filter (callable_symbol i) (seed_ids g)"
    by (simp add: reached_ids_def seed_entries_def o_def)
  have "search_invariant i (seed_entries i g) (seed_entries i g)"
    unfolding search_invariant_def ids by (simp add: seed_ids_def)
  from search_calls_reached[OF this]
  show "distinct (reached_ids (reached_callables i g))"
    and "set (reached_ids (reached_callables i g)) =
      {s. \<exists>a \<in> set (seed_ids g). callable_symbol i a \<and> (call_step i)\<^sup>*\<^sup>* a s}"
    unfolding reached_callables_def ids by auto
qed

section \<open>What the bounded view contains\<close>

lemma set_relevant_ids: "set (relevant_ids reached) = set (reached_ids reached)"
  by (simp add: relevant_ids_def)

lemma set_nearest_first: "set (nearest_first reached P) = {s \<in> set (reached_ids reached). P s}"
  by (auto simp: nearest_first_def relevant_ids_def)

lemma distinct_nearest_first: "distinct (reached_ids reached) \<Longrightarrow> distinct (nearest_first reached P)"
  by (simp add: nearest_first_def relevant_ids_def)

definition text_size :: "(string \<Rightarrow> string option) \<Rightarrow> string \<Rightarrow> nat" where
  "text_size src s = (case src s of None \<Rightarrow> 0 | Some t \<Rightarrow> content_size t)"

lemma budget_supporting_facts:
  assumes "budget_supporting limit src used ss = Inr (spent, ds)"
  shows "used \<le> spent \<and> (used \<le> limit \<longrightarrow> spent \<le> limit)"
  using assms
proof (induction limit src used ss arbitrary: spent ds rule: budget_supporting.induct)
  case (2 limit src used s ss)
  then show ?case by (fastforce simp: bind_result_eq_Inr split: option.splits if_splits)
qed simp

lemma budget_candidates_facts:
  assumes "budget_candidates policy src used presented ss = Inr (ps, ds)"
  shows "(\<exists>new. ps = presented @ new \<and> subseq new ss \<and> (\<forall>s \<in> set new. src s \<noteq> None) \<and>
      (used \<le> max_excerpt_bytes policy \<longrightarrow> used + sum_list (map (text_size src) new) \<le> max_excerpt_bytes policy)) \<and>
    (length presented \<le> bp_max_presented_candidates policy \<longrightarrow> length ps \<le> bp_max_presented_candidates policy)"
  using assms
proof (induction policy src used presented ss arbitrary: ps ds rule: budget_candidates.induct)
  case (1 policy src used presented)
  then show ?case by auto
next
  case (2 policy src used presented s ss)
  show ?case
  proof (cases "src s")
    case None
    then show ?thesis using "2.IH"(1)[OF None] "2.prems" by (fastforce intro: list_emb_Cons)
  next
    case (Some content)
    consider (count) "bp_max_presented_candidates policy \<le> length presented"
      | (bytes) "\<not> bp_max_presented_candidates policy \<le> length presented"
          "max_excerpt_bytes policy < used + content_size content"
      | (keep) "\<not> bp_max_presented_candidates policy \<le> length presented"
          "\<not> max_excerpt_bytes policy < used + content_size content"
      by blast
    then show ?thesis
    proof cases
      case count
      then obtain ds' where "budget_candidates policy src used presented ss = Inr (ps, ds')"
        using "2.prems" Some by (auto simp: bind_result_eq_Inr)
      from "2.IH"(2)[OF Some count this] show ?thesis by (fastforce intro: list_emb_Cons)
    next
      case bytes
      then obtain ds' where "budget_candidates policy src used presented ss = Inr (ps, ds')"
        using "2.prems" Some by (auto simp: bind_result_eq_Inr)
      from "2.IH"(3)[OF Some bytes this] show ?thesis by (fastforce intro: list_emb_Cons)
    next
      case keep
      then have "budget_candidates policy src (used + content_size content) (presented @ [s]) ss = Inr (ps, ds)"
        using "2.prems" Some by simp
      from "2.IH"(4)[OF Some keep this] obtain new where new: "ps = (presented @ [s]) @ new" "subseq new ss"
        "\<forall>s \<in> set new. src s \<noteq> None"
        "used + content_size content \<le> max_excerpt_bytes policy \<longrightarrow>
           used + content_size content + sum_list (map (text_size src) new) \<le> max_excerpt_bytes policy"
        "length (presented @ [s]) \<le> bp_max_presented_candidates policy \<longrightarrow>
           length ps \<le> bp_max_presented_candidates policy"
        by blast
      moreover have "text_size src s = content_size content" using Some by (simp add: text_size_def)
      ultimately show ?thesis
        using keep Some by (intro conjI exI[of _ "s # new"]) auto
    qed
  qed
qed

text \<open>The parts of a built descriptor.\<close>

lemma build_descriptor_parts:
  assumes "build_descriptor w i g policy reached = Inr c"
  obtains used ds1 ds2 src where "cx_relevant_symbol_ids c = relevant_ids reached"
    and "cx_payment_ingress_symbol_ids c = seed_ids g" and "validate_context c = None"
    and "src = (\<lambda>s. if s \<in> set (relevant_ids reached) then source_text w i s else None)"
    and "budget_supporting (max_excerpt_bytes policy) src 0 (nearest_first reached (route_owner i)) = Inr (used, ds1)"
    and "budget_candidates policy src used [] (nearest_first reached (\<lambda>s. \<not> route_owner i s))
       = Inr (cx_presented_symbol_ids c, ds2)"
    and "cx_bundle_completeness c = (if cx_diagnostics c \<noteq> [] then BUNDLE_PARTIAL else BUNDLE_COMPLETE)"
  using assms by (auto simp: build_descriptor_def Let_def bind_result_eq_Inr split: prod.splits)

lemma build_context_descriptor:
  assumes "build_semantic_context w i g policy = Inr b"
  shows "build_descriptor w i g policy (reached_callables i g) = Inr (cb_descriptor b)"
    and "cb_policy b = policy"
  using assms by (auto simp: build_semantic_context_def Let_def bind_result_eq_Inr split: if_splits option.splits)

lemma build_context_mapping:
  assumes "build_semantic_context w i g policy = Inr b" and "cb_mapping_input b = Some m"
  shows "build_mapping_input i g (cb_descriptor b)
      (\<lambda>s. if s \<in> set (relevant_ids (reached_callables i g)) then source_text w i s else None)
      (max_excerpt_bytes policy) (nearest_first (reached_callables i g) (route_owner i))
      (cx_presented_symbol_ids (cb_descriptor b)) = Inr m"
  using assms by (auto simp: build_semantic_context_def Let_def bind_result_eq_Inr split: if_splits option.splits)

lemma mapping_input_valid:
  assumes "build_mapping_input i g descriptor src limit supporting presented = Inr m"
  shows "validate_mapping_input m = None" and "mi_semantic_context m = descriptor"
    and "length (mi_catalog m) = length presented"
proof -
  obtain support material where
    material: "traverse (candidate_material i src) (zip [1..<Suc (length presented)] presented) = Inr material"
    and m: "validate_mapping_input m = None" "mi_semantic_context m = descriptor" "mi_catalog m = map snd material"
    using assms by (auto simp: build_mapping_input_def bind_result_eq_Inr simp del: upt_Suc)
  then show "validate_mapping_input m = None" and "mi_semantic_context m = descriptor" by simp_all
  show "length (mi_catalog m) = length presented"
    using traverse_Inr_length[OF material] m(3) by (simp del: upt_Suc)
qed

lemma presented_symbols:
  assumes "build_semantic_context w i g policy = Inr b" and "s \<in> set (cx_presented_symbol_ids (cb_descriptor b))"
  shows "s \<in> set (cx_relevant_symbol_ids (cb_descriptor b))" and "\<not> route_owner i s"
proof -
  obtain used ds2 src where c: "cx_relevant_symbol_ids (cb_descriptor b) = relevant_ids (reached_callables i g)"
    "budget_candidates policy src used [] (nearest_first (reached_callables i g) (\<lambda>s. \<not> route_owner i s))
       = Inr (cx_presented_symbol_ids (cb_descriptor b), ds2)"
    by (rule build_descriptor_parts[OF build_context_descriptor(1)[OF assms(1)]])
  obtain new where "cx_presented_symbol_ids (cb_descriptor b) = new"
    "subseq new (nearest_first (reached_callables i g) (\<lambda>s. \<not> route_owner i s))"
    using budget_candidates_facts[OF c(2)] by auto
  then have "s \<in> set (nearest_first (reached_callables i g) (\<lambda>s. \<not> route_owner i s))"
    using assms(2) by (auto dest: list_emb_set)
  then show "s \<in> set (cx_relevant_symbol_ids (cb_descriptor b))" and "\<not> route_owner i s"
    by (simp_all add: set_nearest_first c(1) set_relevant_ids)
qed

lemma relevant_is_reachable:
  assumes "build_semantic_context w i g policy = Inr b"
  shows "set (cx_relevant_symbol_ids (cb_descriptor b)) =
    {s. \<exists>a \<in> set (seed_ids g). callable_symbol i a \<and> (call_step i)\<^sup>*\<^sup>* a s}"
proof -
  obtain used ds2 src where "cx_relevant_symbol_ids (cb_descriptor b) = relevant_ids (reached_callables i g)"
    by (rule build_descriptor_parts[OF build_context_descriptor(1)[OF assms(1)]])
  then show ?thesis by (simp add: set_relevant_ids reached_callables_facts(2))
qed

section \<open>What a model can decide\<close>

lemma map_customer_value_mapped:
  assumes "map_customer_value schema p m model policy = Inr (Inr r)"
  shows "\<exists>raws. length raws \<le> MAX_RETURNED_CANDIDATES \<and>
    classify_candidates raws (mi_catalog m) = Inr (mr_classification r) \<and>
    mr_decision r = resolve_model_candidates (mr_classification r)
      (cx_bundle_completeness (mi_semantic_context m))"
proof -
  obtain prepared reply where p: "prepare_semantic_request schema m model policy = Inr prepared"
    "p (pq_request prepared) = Inr reply"
    using assms by (auto simp: map_customer_value_def bind_result_eq_Inr)
  note body = assms[unfolded map_customer_value_def p bind_result_simps]
  obtain answer where reply: "reply = Inr answer" using body by (cases reply) simp_all
  note body = body[unfolded reply sum.case]
  have small: "\<not> max_response_bytes policy < length (utf8 (gr_output_text answer))"
    using body by (simp split: if_splits)
  obtain answered where answered: "gr_candidates answer = Some answered"
    using body small by (cases "gr_candidates answer") simp_all
  obtain raws where raws: "validate_raw_output answered = Inr raws"
    using body small answered by (cases "validate_raw_output answered") simp_all
  obtain c where c: "classify_candidates raws (mi_catalog m) = Inr c"
    using body small answered raws by (cases "classify_candidates raws (mi_catalog m)") simp_all
  have "r = \<lparr>mr_prepared = prepared, mr_provider_result = answer, mr_classification = c,
      mr_decision = resolve_model_candidates c (cx_bundle_completeness (mi_semantic_context m))\<rparr>"
    using body small answered raws c by simp
  moreover have "length raws \<le> MAX_RETURNED_CANDIDATES"
    using raws by (auto simp: validate_raw_output_def split: if_splits dest!: traverse_Inr_length)
  ultimately show ?thesis using c by auto
qed

lemma ask_model_mapped:
  assumes "ask_model w b = Inr e" and "me_result e = Some r"
  shows "\<exists>m raws. cb_mapping_input b = Some m \<and> length raws \<le> MAX_RETURNED_CANDIDATES \<and>
    classify_candidates raws (mi_catalog m) = Inr (mr_classification r) \<and>
    mr_decision r = resolve_model_candidates (mr_classification r)
      (cx_bundle_completeness (mi_semantic_context m))"
proof (cases "mw_ai w")
  case None
  then show ?thesis using assms by (auto simp: ask_model_def)
next
  case (Some ai)
  show ?thesis
  proof (cases "cb_mapping_input b")
    case None
    then show ?thesis using assms Some by (auto simp: ask_model_def)
  next
    case m: (Some m)
    obtain prepared p outcome where
      p: "mw_provider w = Inr p"
        "(case p of Inl failure \<Rightarrow> Inr (Inl failure)
          | Inr provider \<Rightarrow> map_customer_value (mw_schema w) provider m (ai_model ai) (cb_policy b)) = Inr outcome"
      and e: "e = (case outcome of
         Inl failure \<Rightarrow> \<lparr>me_bundle_fingerprint = Some (pq_provider_bundle_fingerprint prepared),
           me_attempt = Some (failed_attempt ai prepared), me_failure = Some failure, me_result = None\<rparr>
       | Inr mapped \<Rightarrow> \<lparr>me_bundle_fingerprint = Some (pq_provider_bundle_fingerprint prepared),
           me_attempt = Some (answered_attempt mapped), me_failure = None, me_result = Some mapped\<rparr>)"
      using assms(1) Some m unfolding ask_model_def by (simp add: bind_result_eq_Inr) blast
    have outcome: "outcome = Inr r" using assms(2) e by (cases outcome) simp_all
    then obtain provider where
      "map_customer_value (mw_schema w) provider m (ai_model ai) (cb_policy b) = Inr (Inr r)"
      using p(2) by (cases p) simp_all
    from map_customer_value_mapped[OF this] m show ?thesis by blast
  qed
qed

lemma model_artifact_unique:
  assumes "model_artifact i g b e = Inr a" and "sv_resolution a = Some r"
  shows "\<exists>m. me_result e = Some m \<and> mr_decision m = Some r \<and>
    cx_bundle_completeness (cb_descriptor b) = BUNDLE_COMPLETE \<and>
    sv_valid_candidates a = cl_valid_candidates (mr_classification m) \<and>
    sv_context a = cb_descriptor b"
proof (cases "me_result e")
  case None
  then show ?thesis using assms by (auto simp: model_artifact_def semantic_draft_def Let_def)
next
  case m: (Some m)
  show ?thesis
  proof (cases "cx_bundle_completeness (cb_descriptor b)")
    case BUNDLE_PARTIAL
    then show ?thesis using assms m by (auto simp: model_artifact_def semantic_draft_def Let_def)
  next
    case complete: BUNDLE_COMPLETE
    then obtain decision where "mr_decision m = Some decision"
      using assms(1) m by (cases "mr_decision m") (simp_all add: model_artifact_def Let_def)
    then show ?thesis using assms m complete
      by (auto simp: model_artifact_def semantic_draft_def Let_def bind_result_eq_Inr)
  qed
qed

lemma resolve_unique:
  assumes "resolve_model_candidates c completeness = Some r" and "vx_state r = RESOLUTION_UNIQUE"
  obtains x where "cl_valid_candidates c = [x]" and "vx_selected_symbol_id r = Some (sm_symbol_id x)"
    and "vx_basis r = BASIS_MODEL_UNIQUE"
  using assms by (auto simp: resolve_model_candidates_def split: if_splits list.splits)

lemma resolved_artifact_cases:
  assumes "resolved_artifact w st = Inr (i, g, projected, a)"
  obtains b human where "fresh_pipeline w = Inr (i, g, b)"
    and "current_human_resolution w (ss_confirmation st) i g b (ss_artifact st) = Inr human"
    and "case human of Some h \<Rightarrow> human_artifact i g b h = Inr a
         | None \<Rightarrow> \<exists>e. ask_model w b = Inr e \<and> model_artifact i g b e = Inr a"
    and "project_artifact w i g a = Inr projected"
  using assms by (auto simp: resolved_artifact_def bind_result_eq_Inr split: option.splits)

lemma fresh_pipeline_context:
  "fresh_pipeline w = Inr (i, g, b) \<Longrightarrow>
   build_semantic_context (mw_source w) i g DEFAULT_SEMANTIC_BUNDLE_POLICY = Inr b"
  by (auto simp: fresh_pipeline_def bind_result_eq_Inr)

lemma resolve_customer_value_Inr:
  assumes "resolve_customer_value w st = (st', Inr u)"
  shows "resolved_artifact w st = Inr (us_source_index u, us_structural_graph u, us_graph u, us_artifact u)"
    and "st' = st\<lparr>ss_artifact := Some (us_artifact u)\<rparr>"
  using assms by (auto simp: resolve_customer_value_def store_artifact_def split: sum.splits option.splits)

section \<open>How much is shown\<close>

definition excerpt_bytes :: "source_excerpt list \<Rightarrow> nat" where
  "excerpt_bytes xs = sum_list (map (\<lambda>x. content_size (se_content x)) xs)"

lemma excerpt_of_Inr:
  "excerpt_of purpose s r content = Inr x \<Longrightarrow> se_symbol_id x = s \<and> se_content x = content"
  by (auto simp: excerpt_of_def construct_source_excerpt_def split: if_splits)

lemma supporting_excerpts_facts:
  assumes "supporting_excerpts i limit src used ss = Inr xs" and "budget_supporting limit src used ss = Inr (spent, ds)"
  shows "used + excerpt_bytes xs = spent \<and> (\<forall>x \<in> set xs. src (se_symbol_id x) = Some (se_content x))"
  using assms
proof (induction i limit src used ss arbitrary: xs ds rule: supporting_excerpts.induct)
  case (1 i limit src used)
  then show ?case by (simp add: excerpt_bytes_def)
next
  case (2 i limit src used s ss)
  show ?case
  proof (cases "src s")
    case None
    then show ?thesis using 2 by simp
  next
    case (Some content)
    show ?thesis
    proof (cases "limit < used + content_size content")
      case True
      then obtain ds' where "budget_supporting limit src used ss = Inr (spent, ds')"
        using "2.prems"(2) Some by (auto simp: bind_result_eq_Inr)
      then show ?thesis using "2.IH"(2)[OF Some True] "2.prems"(1) Some True by simp
    next
      case False
      then obtain r x ys where step: "excerpt_of PURPOSE_SUPPORTING s r content = Inr x"
        "supporting_excerpts i limit src (used + content_size content) ss = Inr ys" "xs = x # ys"
        using "2.prems"(1) Some by (auto simp: bind_result_eq_Inr)
      have "budget_supporting limit src (used + content_size content) ss = Inr (spent, ds)"
        using "2.prems"(2) Some False by simp
      from "2.IH"(3)[OF Some False step(2) this] show ?thesis
        using excerpt_of_Inr[OF step(1)] Some step(3) by (simp add: excerpt_bytes_def)
    qed
  qed
qed

lemma candidate_material_facts:
  assumes "traverse (candidate_material i src) (zip ns ss) = Inr material" and "length ns = length ss"
  shows "excerpt_bytes (map fst material) = sum_list (map (text_size src) ss) \<and>
    (\<forall>x \<in> set (map fst material). src (se_symbol_id x) = Some (se_content x))"
  using assms
proof (induction ns ss arbitrary: material rule: list_induct2')
  case (4 n ns s ss)
  then obtain y ys where step: "candidate_material i src (n, s) = Inr y"
    "traverse (candidate_material i src) (zip ns ss) = Inr ys" "material = y # ys"
    by (auto simp: bind_result_eq_Inr)
  then obtain content r where "src s = Some content" "excerpt_of PURPOSE_CANDIDATE s r content = Inr (fst y)"
    by (auto simp: candidate_material_def bind_result_eq_Inr split: option.splits)
  then show ?case
    using 4 step excerpt_of_Inr by (force simp: excerpt_bytes_def text_size_def)
qed (auto simp: excerpt_bytes_def)

lemma mapping_input_parts:
  assumes "build_mapping_input i g descriptor src limit supporting presented = Inr m"
  shows "\<exists>support material. supporting_excerpts i limit src 0 supporting = Inr support \<and>
    traverse (candidate_material i src) (zip [1..<Suc (length presented)] presented) = Inr material \<and>
    mi_excerpts m = support @ map fst material"
  using assms by (auto simp: build_mapping_input_def bind_result_eq_Inr simp del: upt_Suc)

section \<open>A human decision\<close>

lemma selected_eligible:
  assumes "selected_symbol i reference = Inr s"
  shows "\<exists>x. eligible_symbol i (sy_symbol_id s) = Some x \<and> sy_symbol_id x = sy_symbol_id s"
proof -
  have s: "s \<in> set (ix_symbols i)" "\<not> route_owner i (sy_symbol_id s)" "eligible_kind (sy_kind s)"
  proof -
    have "[s] = filter (\<lambda>x. sy_symbol_id x = reference) (ix_symbols i) \<or>
        [s] = filter (\<lambda>x. sy_qualified_name x = reference) (ix_symbols i)"
      and rest: "\<not> route_owner i (sy_symbol_id s)" "eligible_kind (sy_kind s)"
      using assms by (auto simp: selected_symbol_def Let_def split: list.splits if_splits)
    then have "s \<in> set (filter (\<lambda>x. sy_symbol_id x = reference) (ix_symbols i)) \<or>
        s \<in> set (filter (\<lambda>x. sy_qualified_name x = reference) (ix_symbols i))"
      by (metis list.set_intros(1))
    with rest show "s \<in> set (ix_symbols i)" "\<not> route_owner i (sy_symbol_id s)" "eligible_kind (sy_kind s)"
      by auto
  qed
  let ?P = "\<lambda>x. sy_symbol_id x = sy_symbol_id s \<and> eligible_kind (sy_kind x) \<and> \<not> route_owner i (sy_symbol_id x)"
  obtain x where x: "find ?P (ix_symbols i) = Some x"
    using s by (cases "find ?P (ix_symbols i)") (auto simp: find_None_iff)
  then have "?P x" by (auto simp: find_Some_iff)
  then show ?thesis using x by (simp add: eligible_symbol_def)
qed

lemma confirmed_artifact_parts:
  assumes "confirmed_artifact w st reference = Inr (i, g, c, a)"
  shows "\<exists>b s d basis. fresh_pipeline w = Inr (i, g, b) \<and> selected_symbol i reference = Inr s \<and>
     descriptor_for w i g b (sy_symbol_id s) = Inr d \<and> basis \<noteq> BASIS_UNRESOLVED \<and>
     c = \<lparr>cn_symbol_id = sy_symbol_id s, cn_semantic_context_fingerprint = semantic_context_fingerprint d,
          cn_basis = basis\<rparr> \<and>
     sv_resolution a = Some \<lparr>vx_state = RESOLUTION_UNIQUE, vx_basis = basis,
       vx_selected_symbol_id = Some (sy_symbol_id s)\<rparr> \<and>
     sv_resolution_fingerprint a = Some (resolution_fingerprint \<lparr>vx_state = RESOLUTION_UNIQUE,
       vx_basis = basis, vx_selected_symbol_id = Some (sy_symbol_id s)\<rparr> (semantic_context_fingerprint d))"
  using assms
  by (auto simp: confirmed_artifact_def Let_def bind_result_eq_Inr semantic_draft_def)

lemma confirmation_is_current:
  assumes "selected_symbol i reference = Inr s" and "descriptor_for w i g b (sy_symbol_id s) = Inr d"
    and "basis \<noteq> BASIS_UNRESOLVED"
  shows "\<exists>h. current_human_resolution w (Some \<lparr>cn_symbol_id = sy_symbol_id s,
         cn_semantic_context_fingerprint = semantic_context_fingerprint d, cn_basis = basis\<rparr>) i g b prior = Inr (Some h) \<and>
     hr_resolution h = \<lparr>vx_state = RESOLUTION_UNIQUE, vx_basis = basis, vx_selected_symbol_id = Some (sy_symbol_id s)\<rparr> \<and>
     hr_fingerprint h = resolution_fingerprint (hr_resolution h) (semantic_context_fingerprint d)"
proof -
  obtain x where x: "eligible_symbol i (sy_symbol_id s) = Some x" "sy_symbol_id x = sy_symbol_id s"
    using selected_eligible[OF assms(1)] by blast
  have "validate_value_resolution \<lparr>vx_state = RESOLUTION_UNIQUE, vx_basis = basis,
      vx_selected_symbol_id = Some (sy_symbol_id s)\<rparr> = None"
    using assms(3) by (simp add: validate_value_resolution_def)
  then show ?thesis using x assms(2) by (simp add: current_human_resolution_def Let_def construct_def)
qed

lemma current_human_source:
  "mw_source w' = mw_source w \<Longrightarrow> descriptor_for w' = descriptor_for w"
  by (intro ext) (simp add: descriptor_for_def)

lemma fresh_pipeline_source:
  "mw_source w' = mw_source w \<Longrightarrow> mw_index w' = mw_index w \<Longrightarrow> mw_graph w' = mw_graph w \<Longrightarrow>
   fresh_pipeline w' = fresh_pipeline w"
  by (simp add: fresh_pipeline_def)

lemma current_human_model:
  "current_human_resolution (w\<lparr>mw_ai := ai, mw_provider := p\<rparr>) = current_human_resolution w"
proof -
  have "descriptor_for (w\<lparr>mw_ai := ai, mw_provider := p\<rparr>) = descriptor_for w" by (rule current_human_source) simp
  moreover have "mw_time (w\<lparr>mw_ai := ai, mw_provider := p\<rparr>) = mw_time w" by simp
  ultimately show ?thesis by (intro ext) (simp only: current_human_resolution_def)
qed

lemma human_decision_stands:
  assumes "fresh_pipeline w = Inr (i, g, b)"
    and "current_human_resolution w (ss_confirmation st) i g b (ss_artifact st) = Inr (Some h)"
  shows "resolve_customer_value w st = (st', Inr u) \<Longrightarrow>
      sv_resolution (us_artifact u) = Some (hr_resolution h) \<and> sv_human_audit (us_artifact u) \<noteq> None \<and>
      sv_resolution_fingerprint (us_artifact u) = Some (hr_fingerprint h)"
    and "rebuild_current_semantic_snapshot w st = Inr sn \<Longrightarrow>
      sn_resolution sn = Some (hr_resolution h) \<and> sn_resolution_fingerprint sn = Some (hr_fingerprint h)"
    and "resolve_customer_value (w\<lparr>mw_ai := ai, mw_provider := p\<rparr>) st = resolve_customer_value w st"
proof -
  let ?v = "w\<lparr>mw_ai := ai, mw_provider := p\<rparr>"
  have human: "resolved_artifact w' st = bind_result (human_artifact i g b h) (\<lambda>a.
      bind_result (project_artifact w i g a) (\<lambda>projected. Inr (i, g, projected, a)))"
    if "w' = w \<or> w' = ?v" for w'
  proof -
    have "mw_view ?v = mw_view w" by simp
    then have "project_artifact ?v = project_artifact w" by (intro ext) (simp only: project_artifact_def cong: if_cong)
    then show ?thesis
      using that assms fresh_pipeline_source[of ?v w] by (auto simp: resolved_artifact_def current_human_model)
  qed
  show "sv_resolution (us_artifact u) = Some (hr_resolution h) \<and> sv_human_audit (us_artifact u) \<noteq> None \<and>
      sv_resolution_fingerprint (us_artifact u) = Some (hr_fingerprint h)"
    if "resolve_customer_value w st = (st', Inr u)"
  proof -
    have "human_artifact i g b h = Inr (us_artifact u)"
      using resolve_customer_value_Inr(1)[OF that] unfolding human[of w, simplified]
      by (auto simp: bind_result_eq_Inr)
    then have "us_artifact u = (semantic_draft i g b (hr_descriptor h))\<lparr>sv_resolution := Some (hr_resolution h),
        sv_resolution_fingerprint := Some (hr_fingerprint h), sv_human_audit := Some (hr_audit h)\<rparr>"
      unfolding human_artifact_def construct_eq_Inr by (elim conjE)
    then show ?thesis by simp
  qed
  show "sn_resolution sn = Some (hr_resolution h) \<and> sn_resolution_fingerprint sn = Some (hr_fingerprint h)"
    if "rebuild_current_semantic_snapshot w st = Inr sn"
    using that assms by (auto simp: rebuild_current_semantic_snapshot_def bind_result_eq_Inr)
  have "resolved_artifact ?v st = resolved_artifact w st" using human[of w] human[of ?v] by simp
  moreover have "store_artifact ?v = store_artifact w" by (intro ext) (simp add: store_artifact_def)
  ultimately show "resolve_customer_value ?v st = resolve_customer_value w st"
    by (simp only: resolve_customer_value_def)
qed

section \<open>Properties\<close>

text \<open>
  C3. A model can only pick one of the symbols it was shown.  Whatever a provider answers, when
  \<open>resolve_customer_value\<close> ends with an automatic unique resolution, the context shown was
  complete, exactly one candidate survived the judgement, and the symbol is a function or method
  reachable by resolved calls from a payment ingress, presented to the model, and the owner of no
  route.
\<close>

theorem model_selects_a_presented_symbol:
  assumes "resolve_customer_value w st = (st', Inr u)" and "sv_human_audit (us_artifact u) = None"
    and "sv_resolution (us_artifact u) = Some r" and "vx_state r = RESOLUTION_UNIQUE"
  shows "vx_basis r = BASIS_MODEL_UNIQUE \<and> (\<exists>x s. sv_valid_candidates (us_artifact u) = [x] \<and>
     vx_selected_symbol_id r = Some s \<and> sm_symbol_id x = s \<and>
     s \<in> set (cx_presented_symbol_ids (sv_context (us_artifact u))) \<and>
     cx_bundle_completeness (sv_context (us_artifact u)) = BUNDLE_COMPLETE \<and>
     \<not> route_owner (us_source_index u) s \<and>
     (\<exists>a \<in> set (seed_ids (us_structural_graph u)). (call_step (us_source_index u))\<^sup>*\<^sup>* a s))"
proof -
  let ?i = "us_source_index u" and ?g = "us_structural_graph u" and ?a = "us_artifact u"
  from resolve_customer_value_Inr(1)[OF assms(1)] obtain b human where
    fresh: "fresh_pipeline w = Inr (?i, ?g, b)"
    and human: "case human of Some h \<Rightarrow> human_artifact ?i ?g b h = Inr ?a
         | None \<Rightarrow> \<exists>e. ask_model w b = Inr e \<and> model_artifact ?i ?g b e = Inr ?a"
    by (rule resolved_artifact_cases)
  note built = fresh_pipeline_context[OF fresh]
  obtain e where e: "ask_model w b = Inr e" "model_artifact ?i ?g b e = Inr ?a"
    using human assms(2) by (cases human) (auto simp: human_artifact_def)
  from model_artifact_unique[OF e(2) assms(3)] obtain m where m: "me_result e = Some m" "mr_decision m = Some r"
    "cx_bundle_completeness (cb_descriptor b) = BUNDLE_COMPLETE"
    "sv_valid_candidates ?a = cl_valid_candidates (mr_classification m)" "sv_context ?a = cb_descriptor b"
    by blast
  from ask_model_mapped[OF e(1) m(1)] obtain mi raws where mi: "cb_mapping_input b = Some mi"
    "classify_candidates raws (mi_catalog mi) = Inr (mr_classification m)"
    "mr_decision m = resolve_model_candidates (mr_classification m) (cx_bundle_completeness (mi_semantic_context mi))"
    by blast
  from mi(3)[symmetric] have "resolve_model_candidates (mr_classification m)
      (cx_bundle_completeness (mi_semantic_context mi)) = Some r" using m(2) by simp
  then obtain x where x: "cl_valid_candidates (mr_classification m) = [x]"
    "vx_selected_symbol_id r = Some (sm_symbol_id x)" "vx_basis r = BASIS_MODEL_UNIQUE"
    using assms(4) by (rule resolve_unique)
  have "judged_by (mi_catalog mi) x" using classify_candidates_facts(2)[OF mi(2)] x(1) by simp
  then have "sm_symbol_id x \<in> set (map ce_symbol_id (mi_catalog mi))" by (auto simp: judged_by_def)
  moreover note valid = mapping_input_valid[OF build_context_mapping[OF built mi(1)]]
  ultimately have presented: "sm_symbol_id x \<in> set (cx_presented_symbol_ids (cb_descriptor b))"
    by (auto simp: validate_mapping_input_def Let_def split: if_splits)
  have "sm_symbol_id x \<in> set (cx_relevant_symbol_ids (cb_descriptor b))"
    by (rule presented_symbols(1)[OF built presented])
  then have "\<exists>a \<in> set (seed_ids ?g). (call_step ?i)\<^sup>*\<^sup>* a (sm_symbol_id x)"
    unfolding relevant_is_reachable[OF built] by blast
  then show ?thesis
    using x m(3-5) presented presented_symbols(2)[OF built presented] by auto
qed

theorem model_selects_a_presented_symbol_witness:
  "\<exists>st u. resolve_customer_value (kiosk_world [''src_1'']) kiosk_store = (st, Inr u) \<and>
     (\<exists>x. sv_valid_candidates (us_artifact u) = [x] \<and> sm_symbol_id x = ''sgsym:1'')"
proof -
  obtain st u where u: "resolve_customer_value (kiosk_world [''src_1'']) kiosk_store = (st, Inr u)"
    "sv_human_audit (us_artifact u) = None"
    "sv_resolution (us_artifact u) = Some (kiosk_resolution BASIS_MODEL_UNIQUE)"
    using kiosk_resolved by auto
  have "vx_state (kiosk_resolution BASIS_MODEL_UNIQUE) = RESOLUTION_UNIQUE"
    "vx_selected_symbol_id (kiosk_resolution BASIS_MODEL_UNIQUE) = Some ''sgsym:1''"
    by (simp_all add: kiosk_resolution_def)
  with model_selects_a_presented_symbol[OF u] u(1) show ?thesis by auto
qed

text \<open>
  C4. A human decision outlives whatever a model says.  Once \<open>confirm_customer_value\<close> has written
  the confirmation, then as long as source, index and graph are the same, every later resolution
  and every snapshot carries exactly the confirmed resolution, whichever provider is configured,
  whatever it answers, and whatever artifact is stored, none at all included: the write of the
  artifact may have failed.
\<close>

theorem confirmation_is_durable:
  assumes "confirmed_artifact w st reference = Inr (i, g, c, a)" and "mw_config_write w = None"
    and "confirm_customer_value w st reference = (st', answer)"
    and "mw_source w' = mw_source w" and "mw_index w' = mw_index w" and "mw_graph w' = mw_graph w"
    and "ss_confirmation later = ss_confirmation st'"
  shows "(\<forall>final u. resolve_customer_value w' later = (final, Inr u) \<longrightarrow>
        sv_resolution (us_artifact u) = sv_resolution a \<and> sv_human_audit (us_artifact u) \<noteq> None \<and>
        sv_resolution_fingerprint (us_artifact u) = sv_resolution_fingerprint a)
    \<and> (\<forall>sn. rebuild_current_semantic_snapshot w' later = Inr sn \<longrightarrow>
        sn_resolution sn = sv_resolution a \<and> sn_resolution_fingerprint sn = sv_resolution_fingerprint a)
    \<and> (\<forall>ai p. resolve_customer_value (w'\<lparr>mw_ai := ai, mw_provider := p\<rparr>) later = resolve_customer_value w' later)"
proof -
  from confirmed_artifact_parts[OF assms(1)] obtain b s d basis where
    fresh: "fresh_pipeline w = Inr (i, g, b)" and s: "selected_symbol i reference = Inr s"
    and d: "descriptor_for w i g b (sy_symbol_id s) = Inr d" and basis: "basis \<noteq> BASIS_UNRESOLVED"
    and c: "c = \<lparr>cn_symbol_id = sy_symbol_id s, cn_semantic_context_fingerprint = semantic_context_fingerprint d,
          cn_basis = basis\<rparr>"
    and r: "sv_resolution a = Some \<lparr>vx_state = RESOLUTION_UNIQUE, vx_basis = basis,
         vx_selected_symbol_id = Some (sy_symbol_id s)\<rparr>"
       "sv_resolution_fingerprint a = Some (resolution_fingerprint \<lparr>vx_state = RESOLUTION_UNIQUE,
         vx_basis = basis, vx_selected_symbol_id = Some (sy_symbol_id s)\<rparr> (semantic_context_fingerprint d))"
    by (elim exE conjE)
  have later: "ss_confirmation later = Some c"
    using assms(1,2,3,7) by (auto simp: confirm_customer_value_def store_artifact_def split: option.splits)
  have fresh': "fresh_pipeline w' = Inr (i, g, b)" using fresh_pipeline_source[OF assms(4-6)] fresh by simp
  have "descriptor_for w' i g b (sy_symbol_id s) = Inr d" using d current_human_source[OF assms(4)] by simp
  from confirmation_is_current[OF s this basis, of "ss_artifact later"] obtain h where
    h: "current_human_resolution w' (ss_confirmation later) i g b (ss_artifact later) = Inr (Some h)"
    "Some (hr_resolution h) = sv_resolution a" "Some (hr_fingerprint h) = sv_resolution_fingerprint a"
    unfolding later c r by auto
  show ?thesis using human_decision_stands[OF fresh' h(1)] unfolding h(2,3) by blast
qed

theorem confirmation_is_durable_witness:
  "\<exists>i g c a st answer. confirmed_artifact (kiosk_world [''src_1'']) kiosk_store ''shop.ship'' = Inr (i, g, c, a) \<and>
     confirm_customer_value (kiosk_world [''src_1'']) kiosk_store ''shop.ship'' = (st, answer) \<and>
     (\<forall>sn. rebuild_current_semantic_snapshot (kiosk_world [''src_0'']) (st\<lparr>ss_artifact := None\<rparr>) = Inr sn \<longrightarrow>
        sn_resolution sn = Some (kiosk_resolution BASIS_MANUAL_SELECTION))"
proof -
  let ?w = "kiosk_world [''src_1'']" and ?w' = "kiosk_world [''src_0'']"
  obtain a c where a: "confirmed_artifact ?w kiosk_store ''shop.ship'' = Inr (kiosk_index, kiosk_graph, c, a)"
    "sv_resolution a = Some (kiosk_resolution BASIS_MANUAL_SELECTION)"
    using kiosk_confirmed[of "[''src_1'']"] by auto
  obtain st answer where st: "confirm_customer_value ?w kiosk_store ''shop.ship'' = (st, answer)" by fastforce
  have "mw_config_write ?w = None" "mw_source ?w' = mw_source ?w" "mw_index ?w' = mw_index ?w"
    "mw_graph ?w' = mw_graph ?w" by (simp_all add: kiosk_world_def)
  from confirmation_is_durable[OF a(1) this(1) st this(2-4), of "st\<lparr>ss_artifact := None\<rparr>"] a(1,2) st
  show ?thesis by auto
qed

text \<open>
  C5. What leaves the machine is bounded.  The material \<open>build_semantic_context\<close> prepares for a
  model under the default policy names at most 64 candidates, its excerpts, supporting ones
  included, are together at most 262144 bytes of UTF-8, and each of them is the current source text
  of a symbol reachable from a payment ingress.
\<close>

theorem shown_material_is_bounded:
  assumes "build_semantic_context w i g DEFAULT_SEMANTIC_BUNDLE_POLICY = Inr b"
    and "cb_mapping_input b = Some m"
  shows "length (mi_catalog m) \<le> 64 \<and> excerpt_bytes (mi_excerpts m) \<le> 262144 \<and>
    (\<forall>x \<in> set (mi_excerpts m). source_text w i (se_symbol_id x) = Some (se_content x) \<and>
       (\<exists>a \<in> set (seed_ids g). (call_step i)\<^sup>*\<^sup>* a (se_symbol_id x)))"
proof -
  let ?p = DEFAULT_SEMANTIC_BUNDLE_POLICY and ?reached = "reached_callables i g"
  let ?src = "\<lambda>s. if s \<in> set (relevant_ids ?reached) then source_text w i s else None"
  note built = build_context_descriptor(1)[OF assms(1)] and mapped = build_context_mapping[OF assms]
  obtain used ds1 ds2 src where c: "cx_relevant_symbol_ids (cb_descriptor b) = relevant_ids ?reached"
    "src = ?src"
    "budget_supporting (max_excerpt_bytes ?p) src 0 (nearest_first ?reached (route_owner i)) = Inr (used, ds1)"
    "budget_candidates ?p src used [] (nearest_first ?reached (\<lambda>s. \<not> route_owner i s))
       = Inr (cx_presented_symbol_ids (cb_descriptor b), ds2)"
    by (rule build_descriptor_parts[OF built])
  obtain support material where parts:
    "supporting_excerpts i (max_excerpt_bytes ?p) ?src 0 (nearest_first ?reached (route_owner i)) = Inr support"
    "traverse (candidate_material i ?src) (zip [1..<Suc (length (cx_presented_symbol_ids (cb_descriptor b)))]
       (cx_presented_symbol_ids (cb_descriptor b))) = Inr material"
    "mi_excerpts m = support @ map fst material"
    using mapping_input_parts[OF mapped] by blast
  have support: "excerpt_bytes support = used" "\<forall>x \<in> set support. ?src (se_symbol_id x) = Some (se_content x)"
    using supporting_excerpts_facts[OF parts(1) c(3)[unfolded c(2)]] by simp_all
  have shown: "excerpt_bytes (map fst material) = sum_list (map (text_size ?src) (cx_presented_symbol_ids (cb_descriptor b)))"
    "\<forall>x \<in> set (map fst material). ?src (se_symbol_id x) = Some (se_content x)"
    using candidate_material_facts[OF parts(2)] by (simp_all del: upt_Suc)
  have "used \<le> max_excerpt_bytes ?p" using budget_supporting_facts[OF c(3)] by simp
  then have "used + sum_list (map (text_size ?src) (cx_presented_symbol_ids (cb_descriptor b))) \<le> max_excerpt_bytes ?p"
    and "length (cx_presented_symbol_ids (cb_descriptor b)) \<le> bp_max_presented_candidates ?p"
    using budget_candidates_facts[OF c(4)[unfolded c(2)]] by auto
  moreover have "?src (se_symbol_id x) = Some (se_content x)" if "x \<in> set (mi_excerpts m)" for x
    using that support(2) shown(2) unfolding parts(3) by fastforce
  then have "source_text w i (se_symbol_id x) = Some (se_content x) \<and>
      se_symbol_id x \<in> set (cx_relevant_symbol_ids (cb_descriptor b))" if "x \<in> set (mi_excerpts m)" for x
    using that unfolding c(1) by (metis option.distinct(1))
  ultimately show ?thesis
    using mapping_input_valid(3)[OF mapped] support(1) shown(1) kiosk_bounds parts(3)
    unfolding relevant_is_reachable[OF assms(1)] by (auto simp: excerpt_bytes_def)
qed

theorem shown_material_is_bounded_witness:
  "cb_mapping_input kiosk_build = Some kiosk_mapping \<and> excerpt_bytes (mi_excerpts kiosk_mapping) \<le> 262144 \<and>
     length (mi_catalog kiosk_mapping) \<le> 64"
proof -
  have "cb_mapping_input kiosk_build = Some kiosk_mapping" by (simp add: kiosk_build_def)
  with shown_material_is_bounded[OF kiosk_built this] show ?thesis by simp
qed

text \<open>
  C34. A provider can make the use case fail.  An answer that passes the checks of
  \<open>RawCustomerValueOutput\<close> and cites one excerpt of a shown candidate twice is not recorded as an
  invalid answer: building the candidate raises outside the handler that turns bad answers into a
  provider failure, so the error leaves \<open>map_customer_value\<close>.
\<close>

theorem repeated_reference_escapes:
  assumes "prepare_semantic_request schema m model policy = Inr prepared"
    and "provider (pq_request prepared) = Inr (Inr answer)"
    and "length (utf8 (gr_output_text answer)) \<le> max_response_bytes policy"
    and "gr_candidates answer = Some answered" and "validate_raw_output answered = Inr (raw # rest)"
    and "dict_by ce_catalog_reference (mi_catalog m) (rw_symbol_reference raw) = Some entry"
    and "set (rw_excerpt_references raw) \<subseteq> set (ce_excerpt_references entry)"
    and "\<not> distinct (rw_excerpt_references raw)"
  shows "\<exists>t. map_customer_value schema provider m model policy = Inl (ValueError t)"
proof -
  have "\<exists>t. candidate_of entry raw = Inl (ValueError t)"
    using assms(8) by (simp add: candidate_of_def construct_candidate_def construct_def validate_candidate_def)
  then obtain t where t: "candidate_of entry raw = Inl (ValueError t)" by blast
  have "rejection_reasons (mi_catalog m) {} raw = []"
    using assms(6,7) by (simp add: rejection_reasons_def)
  then have "classify_candidates (raw # rest) (mi_catalog m) = Inl (ValueError t)"
    using assms(6) t by (simp add: classify_candidates_def Let_def)
  then show ?thesis using assms(1-5) by (simp add: map_customer_value_def)
qed

theorem repeated_reference_escapes_witness:
  "\<exists>t. resolve_customer_value (kiosk_world [''src_1'', ''src_1'']) kiosk_store = (kiosk_store, Inl (ValueError t))"
proof -
  let ?w = "kiosk_world [''src_1'', ''src_1'']" and ?p = "DEFAULT_SEMANTIC_BUNDLE_POLICY"
  let ?raw = "\<lparr>rw_symbol_reference = ''candidate_001'', rw_rationale = ''ships'',
       rw_excerpt_references = [''src_1'', ''src_1''], rw_provider_confidence = None\<rparr>"
  have "strip ''m'' \<noteq> []" "max_output_tokens ?p \<noteq> 0"
    by (simp_all add: strip_nonblank is_space_def max_output_tokens_def DEFAULT_SEMANTIC_BUNDLE_POLICY_def
        DEFAULT_STRUCTURED_GENERATION_BOUNDS_def)
  from prepared_request_total[OF this] obtain prepared where
    prepared: "prepare_semantic_request (JObj []) kiosk_mapping ''m'' ?p = Inr prepared" by blast
  have raw: "validate_raw_output [?raw] = Inr [?raw]"
    by (simp add: validate_raw_output_def semantic_limits construct_raw_candidate_def bounded_def bounded_references_def
        confidence_in_range_def strip_def is_space_def)
  have size: "length (utf8 (gr_output_text (kiosk_answer references))) \<le> max_response_bytes ?p" for references
  proof -
    have "length (utf8 ''{}'') = 2" by code_simp
    then show ?thesis by (simp add: kiosk_answer_def semantic_limits)
  qed
  have entry: "dict_by ce_catalog_reference (mi_catalog kiosk_mapping) (rw_symbol_reference ?raw) = Some kiosk_entry"
    "set (rw_excerpt_references ?raw) \<subseteq> set (ce_excerpt_references kiosk_entry)"
    by (simp_all add: dict_by_def kiosk_mapping_def kiosk_entry_def)
  have answered: "gr_candidates (kiosk_answer [''src_1'', ''src_1'']) = Some [?raw]" by (simp add: kiosk_answer_def)
  obtain t where "map_customer_value (JObj []) (\<lambda>_. Inr (Inr (kiosk_answer [''src_1'', ''src_1'']))) kiosk_mapping ''m'' ?p
      = Inl (ValueError t)"
    using repeated_reference_escapes[OF prepared _ size answered raw entry] by fastforce
  then have "ask_model ?w kiosk_build = Inl (ValueError t)"
    using prepared by (simp add: ask_model_def kiosk_world_def kiosk_build_def)
  moreover have "current_human_resolution ?w (ss_confirmation kiosk_store) kiosk_index kiosk_graph kiosk_build
      (ss_artifact kiosk_store) = Inr None"
    by (simp add: current_human_resolution_def kiosk_store_def)
  ultimately show ?thesis
    using kiosk_fresh[of "[''src_1'', ''src_1'']"] by (simp add: resolve_customer_value_def resolved_artifact_def)
qed

end
