(* ===== verification/ProjectionProperties.thy ===== *)
theory ProjectionProperties
  imports SemanticExample
begin

text \<open>
  The projection of a resolution onto the safety graph: the breadth-first search finds a chain of
  call sites exactly when there is one, and the edges it draws decide whether a project can be
  verified at run time.
\<close>

section \<open>Chains of call sites\<close>

inductive call_link :: "source_index \<Rightarrow> string \<Rightarrow> string \<Rightarrow> bool" for i where
  link: "call_link i (ca_caller_symbol_id c) s" if "c \<in> set (ix_call_sites i)" and "ca_callee_symbol_id c = Some s"

inductive_cases call_linkE: "call_link i a b"

fun call_chain :: "source_index \<Rightarrow> string \<Rightarrow> call_site list \<Rightarrow> string \<Rightarrow> bool" where
  "call_chain i a [] b \<longleftrightarrow> a = b"
| "call_chain i a (c # cs) b \<longleftrightarrow> c \<in> set (ix_call_sites i) \<and> ca_caller_symbol_id c = a \<and>
     (\<exists>s. ca_callee_symbol_id c = Some s \<and> call_chain i s cs b)"

lemma call_chain_links: "call_chain i a cs b \<Longrightarrow> (call_link i)\<^sup>*\<^sup>* a b"
proof (induction cs arbitrary: a)
  case (Cons c cs)
  then obtain s where "call_link i a s" "(call_link i)\<^sup>*\<^sup>* s b" by (auto intro: link)
  then show ?case by (rule converse_rtranclp_into_rtranclp)
qed simp

lemma fresh_from_links:
  shows "(s, c) \<in> set (fresh_from i visited a) \<Longrightarrow>
      c \<in> set (ix_call_sites i) \<and> ca_caller_symbol_id c = a \<and> ca_callee_symbol_id c = Some s"
    and "call_link i a s \<Longrightarrow> s \<in> set visited \<or> s \<in> fst ` set (fresh_from i visited a)"
proof -
  show "c \<in> set (ix_call_sites i) \<and> ca_caller_symbol_id c = a \<and> ca_callee_symbol_id c = Some s"
    if "(s, c) \<in> set (fresh_from i visited a)"
    using fresh_calls_member[OF that[unfolded fresh_from_def]] by (simp add: canonical_calls_def)
  show "s \<in> set visited \<or> s \<in> fst ` set (fresh_from i visited a)" if "call_link i a s"
  proof -
    from that obtain c where "c \<in> set (canonical_calls i a)" "ca_callee_symbol_id c = Some s"
      by (auto elim!: call_linkE simp: canonical_calls_def)
    then show ?thesis unfolding fresh_from_def by (rule fresh_calls_cover)
  qed
qed

lemma search_path_sound:
  assumes "search_path i target visited queue = Some path"
  shows "\<exists>s p rest. (s, p) \<in> set queue \<and> path = p @ rest \<and> call_chain i s rest target"
  using assms
proof (induction i target visited queue rule: search_path.induct)
  case (2 i target visited current before queue)
  show ?case
  proof (cases "current = target")
    case True
    then show ?thesis using "2.prems"
      by (intro exI[of _ current] exI[of _ path] exI[of _ "[]"]) (simp add: search_path.simps(2))
  next
    case False
    let ?new = "fresh_from i visited current"
    have "search_path i target (visited @ map fst ?new) (queue @ map (\<lambda>(s, c). (s, before @ [c])) ?new) = Some path"
      using "2.prems" False by (simp add: search_path.simps(2) Let_def)
    from "2.IH"[OF False refl this] obtain s p rest where found: "(s, p) \<in> set (queue @ map (\<lambda>(s, c). (s, before @ [c])) ?new)"
      "path = p @ rest" "call_chain i s rest target"
      by blast
    show ?thesis
    proof (cases "(s, p) \<in> set queue")
      case True
      then show ?thesis using found by (intro exI[of _ s] exI[of _ p] exI[of _ rest]) simp
    next
      case False
      then obtain c where c: "(s, c) \<in> set ?new" "p = before @ [c]" using found(1) by auto
      then have "call_chain i current (c # rest) target" using fresh_from_links(1)[OF c(1)] found(3) by auto
      then show ?thesis using found(2) c(2)
        by (intro exI[of _ current] exI[of _ before] exI[of _ "c # rest"]) simp
    qed
  qed
qed simp

definition path_invariant :: "source_index \<Rightarrow> string \<Rightarrow> string list \<Rightarrow> string set \<Rightarrow> bool" where
  "path_invariant i target visited pending \<longleftrightarrow> pending \<subseteq> set visited \<and>
     (\<forall>a \<in> set visited. a \<in> pending \<or> a \<noteq> target \<and> (\<forall>b. call_link i a b \<longrightarrow> b \<in> set visited))"

lemma search_path_complete:
  assumes "search_path i target visited queue = None" and "path_invariant i target visited (fst ` set queue)"
  shows "a \<in> set visited \<Longrightarrow> \<not> (call_link i)\<^sup>*\<^sup>* a target"
  using assms
proof (induction i target visited queue rule: search_path.induct)
  case (1 i target visited)
  have "b \<in> set visited" if "(call_link i)\<^sup>*\<^sup>* a b" for b
    using that 1 by (induction rule: rtranclp_induct) (auto simp: path_invariant_def)
  then show ?case using "1.prems"(3) unfolding path_invariant_def by fastforce
next
  case (2 i target visited current before queue)
  let ?new = "fresh_from i visited current"
  have differ: "current \<noteq> target" using "2.prems"(2) by (auto simp: search_path.simps(2))
  then have rest: "search_path i target (visited @ map fst ?new) (queue @ map (\<lambda>(s, c). (s, before @ [c])) ?new) = None"
    using "2.prems"(2) by (simp add: search_path.simps(2) Let_def)
  have names: "fst ` set (queue @ map (\<lambda>(s, c). (s, before @ [c])) ?new) = fst ` set queue \<union> fst ` set ?new"
    by force
  have "path_invariant i target (visited @ map fst ?new) (fst ` set queue \<union> fst ` set ?new)"
    unfolding path_invariant_def
  proof (intro conjI ballI)
    show "fst ` set queue \<union> fst ` set ?new \<subseteq> set (visited @ map fst ?new)"
      using "2.prems"(3) by (auto simp: path_invariant_def)
    fix x assume x: "x \<in> set (visited @ map fst ?new)"
    show "x \<in> fst ` set queue \<union> fst ` set ?new \<or>
        x \<noteq> target \<and> (\<forall>b. call_link i x b \<longrightarrow> b \<in> set (visited @ map fst ?new))"
    proof (cases "x = current")
      case True
      then show ?thesis using differ fresh_from_links(2)[of i current _ visited] by auto
    next
      case False
      then show ?thesis using x "2.prems"(3) by (fastforce simp: path_invariant_def)
    qed
  qed
  then show ?case
    using "2.IH"[OF differ refl] "2.prems"(1) rest unfolding names by simp
qed

lemma resolved_path_facts:
  shows "resolved_path i a b = Some path \<Longrightarrow> call_chain i a path b"
    and "resolved_path i a b = None \<longleftrightarrow> \<not> (call_link i)\<^sup>*\<^sup>* a b"
proof -
  show chain: "call_chain i a path b" if "resolved_path i a b = Some path" for path
    using search_path_sound[OF that[unfolded resolved_path_def]] by auto
  have "path_invariant i b [a] (fst ` set [(a, [])])" by (simp add: path_invariant_def)
  then have "\<not> (call_link i)\<^sup>*\<^sup>* a b" if "resolved_path i a b = None"
    using search_path_complete[OF that[unfolded resolved_path_def]] by simp
  moreover have "(call_link i)\<^sup>*\<^sup>* a b" if "resolved_path i a b = Some path" for path
    using call_chain_links[OF chain[OF that]] .
  ultimately show "resolved_path i a b = None \<longleftrightarrow> \<not> (call_link i)\<^sup>*\<^sup>* a b"
    by (cases "resolved_path i a b") auto
qed

section \<open>The edges\<close>

lemma call_edge_facts:
  assumes "call_edge i node selected edges ingress = Inr edges'"
  shows "\<exists>start new. gn_backing_symbol_id ingress = Some start \<and> edges' = edges @ new \<and>
    (new \<noteq> [] \<longleftrightarrow> start \<noteq> selected \<and> (call_link i)\<^sup>*\<^sup>* start selected) \<and>
    (\<forall>e \<in> set new. ge_kind e = CALLS \<and> ge_source_node_id e = gn_node_id ingress \<and>
       ge_target_node_id e = gn_node_id node)"
proof -
  obtain start where start: "gn_backing_symbol_id ingress = Some start"
    using assms by (auto simp: call_edge_def split: option.splits)
  show ?thesis
  proof (cases "resolved_path i start selected")
    case None
    then show ?thesis using assms start resolved_path_facts(2)[of i start selected] by (simp add: call_edge_def)
  next
    case (Some path)
    note chain = resolved_path_facts(1)[OF Some]
    obtain provenance where p: "traverse (call_provenance i) path = Inr provenance"
      using assms start Some by (auto simp: call_edge_def bind_result_eq_Inr)
    then have same: "provenance = [] \<longleftrightarrow> path = []" using traverse_Inr_length[OF p] by auto
    have "path = [] \<longleftrightarrow> start = selected"
    proof
      assume "start = selected"
      then show "path = []" using Some by (simp add: resolved_path_def search_path.simps(2))
    qed (use chain in simp)
    moreover have "(call_link i)\<^sup>*\<^sup>* start selected" using call_chain_links[OF chain] .
    ultimately show ?thesis
      using assms start Some p same
      by (auto simp: call_edge_def bind_result_eq_Inr construct_graph_edge_def split: if_splits)
  qed
qed

lemma fold_call_edges:
  assumes "fold_result (call_edge i node selected) edges ingresses = Inr edges'"
  shows "\<exists>new. edges' = edges @ new \<and>
    (\<forall>e \<in> set new. ge_kind e = CALLS \<and> ge_target_node_id e = gn_node_id node \<and>
       (\<exists>n \<in> set ingresses. ge_source_node_id e = gn_node_id n \<and> (\<exists>start. gn_backing_symbol_id n = Some start \<and>
          start \<noteq> selected \<and> (call_link i)\<^sup>*\<^sup>* start selected))) \<and>
    (\<forall>n \<in> set ingresses. \<forall>start. gn_backing_symbol_id n = Some start \<longrightarrow> start \<noteq> selected \<longrightarrow>
       (call_link i)\<^sup>*\<^sup>* start selected \<longrightarrow> (\<exists>e \<in> set new. ge_source_node_id e = gn_node_id n))"
  using assms
proof (induction ingresses arbitrary: edges)
  case (Cons n ns)
  then obtain mid where mid: "call_edge i node selected edges n = Inr mid"
    "fold_result (call_edge i node selected) mid ns = Inr edges'"
    by (auto simp: bind_result_eq_Inr)
  obtain start one where one: "gn_backing_symbol_id n = Some start" "mid = edges @ one"
    "one \<noteq> [] \<longleftrightarrow> start \<noteq> selected \<and> (call_link i)\<^sup>*\<^sup>* start selected"
    "\<forall>e \<in> set one. ge_kind e = CALLS \<and> ge_source_node_id e = gn_node_id n \<and> ge_target_node_id e = gn_node_id node"
    using call_edge_facts[OF mid(1)] by blast
  obtain new where new: "edges' = mid @ new"
    "\<forall>e \<in> set new. ge_kind e = CALLS \<and> ge_target_node_id e = gn_node_id node \<and>
       (\<exists>n \<in> set ns. ge_source_node_id e = gn_node_id n \<and> (\<exists>start. gn_backing_symbol_id n = Some start \<and>
          start \<noteq> selected \<and> (call_link i)\<^sup>*\<^sup>* start selected))"
    "\<forall>n \<in> set ns. \<forall>start. gn_backing_symbol_id n = Some start \<longrightarrow> start \<noteq> selected \<longrightarrow>
       (call_link i)\<^sup>*\<^sup>* start selected \<longrightarrow> (\<exists>e \<in> set new. ge_source_node_id e = gn_node_id n)"
    using Cons.IH[OF mid(2)] by blast
  have "\<exists>e \<in> set one. ge_source_node_id e = gn_node_id n" if "one \<noteq> []"
    using that one(4) by (cases one) auto
  then have "\<exists>e \<in> set (one @ new). ge_source_node_id e = gn_node_id x"
    if "x \<in> set (n # ns)" "gn_backing_symbol_id x = Some s" "s \<noteq> selected" "(call_link i)\<^sup>*\<^sup>* s selected" for x s
    using that one(1,3) new(3) by (cases "x = n") auto
  moreover have "edges' = edges @ (one @ new)" using one(2) new(1) by simp
  moreover have "ge_kind e = CALLS \<and> ge_target_node_id e = gn_node_id node \<and>
      (\<exists>x \<in> set (n # ns). ge_source_node_id e = gn_node_id x \<and> (\<exists>s. gn_backing_symbol_id x = Some s \<and>
         s \<noteq> selected \<and> (call_link i)\<^sup>*\<^sup>* s selected))" if e: "e \<in> set (one @ new)" for e
  proof (cases "e \<in> set one")
    case True
    then have "one \<noteq> []" by auto
    then show ?thesis using True one(1,3,4) by auto
  next
    case False
    then show ?thesis using e new(2) by auto
  qed
  ultimately show ?case by blast
qed simp

text \<open>The control relationships add edges of other kinds only.\<close>

definition adds_control_edges :: "graph_edge list \<Rightarrow> graph_edge list \<Rightarrow> bool" where
  "adds_control_edges edges edges' \<longleftrightarrow> set edges \<subseteq> set edges' \<and>
     (\<forall>e \<in> set edges'. e \<in> set edges \<or> ge_kind e \<noteq> CALLS)"

lemma adds_control_edges_trans:
  "adds_control_edges a b \<Longrightarrow> adds_control_edges b c \<Longrightarrow> adds_control_edges a c"
  unfolding adds_control_edges_def by blast

lemma append_edge_adds: "ge_kind e \<noteq> CALLS \<Longrightarrow> adds_control_edges edges (append_edge edges e)"
  by (auto simp: adds_control_edges_def append_edge_def)

lemma adds_control_edges_refl [simp]: "adds_control_edges edges edges"
  by (simp add: adds_control_edges_def)

lemma construct_graph_edge_kind: "construct_graph_edge d = Inr e \<Longrightarrow> ge_kind e = ge_kind d"
  by (auto simp: construct_graph_edge_def split: if_splits)

lemma fold_adds:
  assumes "\<And>x edges edges'. f edges x = Inr edges' \<Longrightarrow> adds_control_edges edges edges'"
  shows "fold_result f edges xs = Inr edges' \<Longrightarrow> adds_control_edges edges edges'"
  by (induction xs arbitrary: edges) (auto simp: bind_result_eq_Inr intro: adds_control_edges_trans assms)

lemma project_gate_adds:
  "project_gate i v nodes node route path edges x = Inr edges' \<Longrightarrow> adds_control_edges edges edges'"
  by (auto simp: project_gate_def bind_result_eq_Inr Let_def split: option.splits if_splits prod.splits
      intro!: append_edge_adds dest!: construct_graph_edge_kind)

lemma project_acknowledgement_adds:
  "project_acknowledgement i v nodes node route owner work path edges x = Inr edges' \<Longrightarrow>
   adds_control_edges edges edges'"
  by (auto simp: project_acknowledgement_def bind_result_eq_Inr split: option.splits if_splits
      intro!: append_edge_adds dest!: construct_graph_edge_kind)

lemma fold_gates_add:
  "fold_result (project_gate i v nodes node route path) edges xs = Inr edges' \<Longrightarrow> adds_control_edges edges edges'"
  by (rule fold_adds[where f = "project_gate i v nodes node route path"]) (rule project_gate_adds)

lemma fold_acknowledgements_add:
  "fold_result (project_acknowledgement i v nodes node route owner work path) edges xs = Inr edges' \<Longrightarrow>
   adds_control_edges edges edges'"
  by (rule fold_adds[where f = "project_acknowledgement i v nodes node route owner work path"])
    (rule project_acknowledgement_adds)

lemma project_ingress_adds:
  assumes "project_ingress i v routes nodes node selected st x = Inr st'"
  shows "adds_control_edges (fst st) (fst st')"
  using assms
  by (auto simp: project_ingress_def Let_def bind_result_eq_Inr split: prod.splits option.splits list.splits
      dest!: fold_gates_add fold_acknowledgements_add)
    (erule (1) adds_control_edges_trans)

lemma fold_ingress_adds:
  "fold_result (project_ingress i v routes nodes node selected) st xs = Inr st' \<Longrightarrow>
   adds_control_edges (fst st) (fst st')"
  by (induction xs arbitrary: st)
    (auto simp: bind_result_eq_Inr intro: adds_control_edges_trans dest!: project_ingress_adds)

lemma control_relationships_add:
  assumes "project_control_relationships i view nodes edges ds node selected = Inr (edges', ds')"
  shows "adds_control_edges edges edges'"
  using assms
  by (auto simp: project_control_relationships_def bind_result_eq_Inr adds_control_edges_def
      split: prod.splits dest!: fold_ingress_adds)

section \<open>The projected graph\<close>

lemma value_node_shape:
  assumes "value_node i r fp s = Inr v"
  shows "gn_kind v = CUSTOMER_VALUE_ACTION \<and> gn_backing_symbol_id v = Some (sy_symbol_id s)"
  using assms by (auto simp: value_node_def construct_graph_node_def bind_result_eq_Inr split: if_splits)

lemma projected_parts:
  assumes "project_customer_value g i view r fp = Inr g'" and "vx_state r = RESOLUTION_UNIQUE"
    and "vx_selected_symbol_id r = Some s"
  shows "\<exists>v kept edges. gn_kind v = CUSTOMER_VALUE_ACTION \<and> gn_backing_symbol_id v = Some s \<and>
    set (pg_nodes g') = insert v {n \<in> set (pg_nodes g). gn_kind n \<noteq> CUSTOMER_VALUE_ACTION} \<and>
    set kept \<subseteq> set (pg_edges g) \<and>
    fold_result (call_edge i v s) kept (sort_key gn_node_id (filter (\<lambda>n. gn_kind n = PAYMENT_INGRESS)
      (filter (\<lambda>n. gn_kind n \<noteq> CUSTOMER_VALUE_ACTION) (pg_nodes g) @ [v]))) = Inr edges \<and>
    adds_control_edges edges (pg_edges g') \<and> valid_graph g'"
proof -
  from assms obtain symbol where symbol: "find (\<lambda>x. sy_symbol_id x = s) (ix_symbols i) = Some symbol"
    by (auto simp: project_customer_value_def split: option.splits)
  then have id: "sy_symbol_id symbol = s" by (auto simp: find_Some_iff)
  let ?nodes = "\<lambda>v. filter (\<lambda>n. gn_kind n \<noteq> CUSTOMER_VALUE_ACTION) (pg_nodes g) @ [v]"
  let ?kept = "\<lambda>v. filter (\<lambda>e. ge_source_node_id e \<in> set (map gn_node_id (?nodes v)) \<and>
      ge_target_node_id e \<in> set (map gn_node_id (?nodes v))) (pg_edges g)"
  let ?graph = "\<lambda>v edges ds. g\<lparr>pg_graph_fingerprint := graph_fingerprint (pg_project_id g)
      (pg_source_index_fingerprint g) (graph_completeness_for ds) ds (canonical_order graph_node_json (?nodes v)) edges,
     pg_completeness := graph_completeness_for ds, pg_diagnostics := ds,
     pg_nodes := canonical_order graph_node_json (?nodes v), pg_edges := edges\<rparr>"
  note body = assms(1)[unfolded project_customer_value_def assms(2,3) option.case symbol Let_def simp_thms if_False]
  have eligible: "\<not> (route_owner i s \<or> \<not> eligible_kind (sy_kind symbol))"
    by (rule notI) (use body in simp)
  from body[unfolded if_not_P[OF eligible] bind_result_eq_Inr]
  obtain v edges fd where v: "value_node i r fp symbol = Inr v"
    and edges: "fold_result (call_edge i v s) (?kept v) (sort_key gn_node_id
      (filter (\<lambda>n. gn_kind n = PAYMENT_INGRESS) (?nodes v))) = Inr edges"
    and control: "(case view of None \<Rightarrow> Inr (canonical_order graph_edge_json edges, pg_diagnostics g)
        | Some a \<Rightarrow> project_control_relationships i a (canonical_order graph_node_json (?nodes v))
            (canonical_order graph_edge_json edges) (pg_diagnostics g) v s) = Inr fd"
    and built: "(case fd of (final, ds) \<Rightarrow> construct validate_graph (?graph v final ds)) = Inr g'"
    by (elim exE conjE) (rule that)
  obtain final ds where fd: "fd = (final, ds)" by (cases fd)
  then have "g' = ?graph v final ds" and valid: "validate_graph g' = None" using built by simp_all
  then have g': "pg_nodes g' = canonical_order graph_node_json (?nodes v)" "pg_edges g' = final" by simp_all
  have "adds_control_edges (canonical_order graph_edge_json edges) final"
    using control unfolding fd by (cases view) (auto dest: control_relationships_add)
  then have "adds_control_edges edges (pg_edges g')" using g'(2) by (simp add: adds_control_edges_def)
  moreover have "set (pg_nodes g') = insert v {n \<in> set (pg_nodes g). gn_kind n \<noteq> CUSTOMER_VALUE_ACTION}"
    using g'(1) by auto
  moreover have "set (?kept v) \<subseteq> set (pg_edges g)" by auto
  ultimately show ?thesis
    using value_node_shape[OF v] id edges valid unfolding valid_graph_def by blast
qed

text \<open>
  C6. Eligibility for run-time verification is call reachability.  On the graph
  \<open>project_customer_value\<close> returns for a resolved symbol, \<open>fulfilment_verification_eligible\<close>
  answers yes exactly when the runtime is capable and a chain of resolved call sites leads from the
  function behind some payment ingress to the symbol.
\<close>

theorem eligibility_is_call_reachability:
  assumes "project_customer_value g i view r fp = Inr g'" and "vx_state r = RESOLUTION_UNIQUE"
    and "vx_selected_symbol_id r = Some s" and "valid_graph g"
    and "\<forall>n \<in> set (pg_nodes g). gn_kind n \<noteq> CUSTOMER_VALUE_ACTION"
  shows "fulfilment_verification_eligible (Some r) g' capable \<longleftrightarrow> capable \<and>
    (\<exists>n \<in> set (pg_nodes g). gn_kind n = PAYMENT_INGRESS \<and> (\<exists>start. gn_backing_symbol_id n = Some start \<and>
       start \<noteq> s \<and> (call_link i)\<^sup>*\<^sup>* start s))"
proof -
  obtain v kept edges where v: "gn_kind v = CUSTOMER_VALUE_ACTION" "gn_backing_symbol_id v = Some s"
    and nodes: "set (pg_nodes g') = insert v {n \<in> set (pg_nodes g). gn_kind n \<noteq> CUSTOMER_VALUE_ACTION}"
    and kept: "set kept \<subseteq> set (pg_edges g)"
    and edges: "fold_result (call_edge i v s) kept (sort_key gn_node_id (filter (\<lambda>n. gn_kind n = PAYMENT_INGRESS)
      (filter (\<lambda>n. gn_kind n \<noteq> CUSTOMER_VALUE_ACTION) (pg_nodes g) @ [v]))) = Inr edges"
    and adds: "adds_control_edges edges (pg_edges g')" and valid: "valid_graph g'"
    using projected_parts[OF assms(1-3)] by blast
  let ?reach = "\<lambda>n. \<exists>start. gn_backing_symbol_id n = Some start \<and> start \<noteq> s \<and> (call_link i)\<^sup>*\<^sup>* start s"
  obtain new where new: "edges = kept @ new"
    "\<forall>e \<in> set new. ge_kind e = CALLS \<and> ge_target_node_id e = gn_node_id v \<and>
       (\<exists>n \<in> set (pg_nodes g). gn_kind n = PAYMENT_INGRESS \<and> ge_source_node_id e = gn_node_id n \<and> ?reach n)"
    "\<forall>n \<in> set (pg_nodes g). gn_kind n = PAYMENT_INGRESS \<longrightarrow> ?reach n \<longrightarrow>
       (\<exists>e \<in> set new. ge_source_node_id e = gn_node_id n)"
    using fold_call_edges[OF edges] v(1) by fastforce
  have ids: "gn_node_id n \<noteq> gn_node_id v" if n: "n \<in> set (pg_nodes g)" for n
  proof
    assume "gn_node_id n = gn_node_id v"
    moreover have "n \<in> set (pg_nodes g')" "v \<in> set (pg_nodes g')" using n assms(5) nodes by auto
    ultimately have "n = v"
      using valid_graph_facts(1)[OF valid] by (auto simp: distinct_map dest: inj_onD)
    then show False using n assms(5) v(1) by blast
  qed
  have old: "ge_target_node_id e \<noteq> gn_node_id v" if "e \<in> set kept" for e
  proof -
    from that kept have "e \<in> set (pg_edges g)" by blast
    from assms(4) this obtain target where "target \<in> set (pg_nodes g)" "gn_node_id target = ge_target_node_id e"
      by (rule valid_graph_endpoints)
    then show ?thesis using ids by metis
  qed
  have tgt: "gn_node_id ` {n \<in> set (pg_nodes g'). gn_kind n = CUSTOMER_VALUE_ACTION \<and> gn_backing_symbol_id n = Some s}
      = {gn_node_id v}"
    and ins: "{n \<in> set (pg_nodes g'). gn_kind n = PAYMENT_INGRESS} = {n \<in> set (pg_nodes g). gn_kind n = PAYMENT_INGRESS}"
    using assms(5) v nodes by auto
  have "(\<exists>e \<in> set (pg_edges g'). ge_kind e = CALLS \<and>
        ge_source_node_id e \<in> gn_node_id ` {n \<in> set (pg_nodes g). gn_kind n = PAYMENT_INGRESS} \<and>
        ge_target_node_id e = gn_node_id v) \<longleftrightarrow>
      (\<exists>n \<in> set (pg_nodes g). gn_kind n = PAYMENT_INGRESS \<and> ?reach n)" (is "?drawn \<longleftrightarrow> ?reached")
  proof
    assume ?drawn
    then obtain e where e: "e \<in> set (pg_edges g')" "ge_kind e = CALLS" "ge_target_node_id e = gn_node_id v" by blast
    then have "e \<in> set edges" using adds by (auto simp: adds_control_edges_def)
    then have "e \<in> set new" using old e(3) new(1) by auto
    then show ?reached using new(2) by blast
  next
    assume ?reached
    then obtain n where n: "n \<in> set (pg_nodes g)" "gn_kind n = PAYMENT_INGRESS" "?reach n" by blast
    then obtain e where e: "e \<in> set new" "ge_source_node_id e = gn_node_id n" using new(3) by blast
    then have "e \<in> set (pg_edges g')" using adds new(1) by (auto simp: adds_control_edges_def)
    then show ?drawn using e n(1,2) new(2) by blast
  qed
  then show ?thesis
    using assms(2,3) unfolding fulfilment_verification_eligible_def Let_def list_ex_iff
    by (simp add: tgt ins)
qed

theorem eligibility_is_call_reachability_witness:
  "\<exists>g. project_customer_value kiosk_graph kiosk_index (Some (Inr kiosk_view)) (kiosk_resolution BASIS_MODEL_UNIQUE) ''f'' = Inr g \<and>
     fulfilment_verification_eligible (Some (kiosk_resolution BASIS_MODEL_UNIQUE)) g True"
proof -
  obtain g where g: "project_customer_value kiosk_graph kiosk_index (Some (Inr kiosk_view))
      (kiosk_resolution BASIS_MODEL_UNIQUE) ''f'' = Inr g"
    using kiosk_projected[of BASIS_MODEL_UNIQUE "''f''"] by auto
  have valid: "valid_graph kiosk_graph"
    by (simp add: valid_graph_def validate_graph_def kiosk_graph_def graph_completeness_for_def)
  have parts: "vx_state (kiosk_resolution BASIS_MODEL_UNIQUE) = RESOLUTION_UNIQUE"
    "vx_selected_symbol_id (kiosk_resolution BASIS_MODEL_UNIQUE) = Some ''sgsym:1''"
    "pg_nodes kiosk_graph = [kiosk_ingress]" "gn_kind kiosk_ingress = PAYMENT_INGRESS"
    "gn_backing_symbol_id kiosk_ingress = Some ''sgsym:0''"
    by (simp_all add: kiosk_resolution_def kiosk_graph_def kiosk_ingress_def)
  have "call_link kiosk_index (ca_caller_symbol_id kiosk_call) ''sgsym:1''"
    by (rule link) (simp_all add: kiosk_call_def)
  then have "(call_link kiosk_index)\<^sup>*\<^sup>* ''sgsym:0'' ''sgsym:1''" by (simp add: kiosk_call_def)
  then show ?thesis
    using g eligibility_is_call_reachability[OF g parts(1,2) valid, of True] parts(3-5) by simp
qed

end
