(* ===== verification/PythonAst.thy ===== *)
theory PythonAst
  imports SourceIndex
begin

text \<open>
  \<open>discovery/python_ast.py\<close>: the structural extraction of one module.  A parsed module is a list
  of \<open>py_node\<close>, the node classes of \<open>ast\<close> the extractor distinguishes and \<open>PyOther\<close> for every
  other class, whose children stand in the order of its \<open>_fields\<close>.  The extractor is explicit
  state passing: \<open>extractor\<close> holds the lists and dictionaries of \<open>_Extractor\<close>, \<open>visit\<close> is
  \<open>_NodeCollector\<close> with its flag \<open>_inside_attribute\<close> as an argument.
\<close>

section \<open>Syntax trees\<close>

record py_pos =
  po_lineno :: "nat option"
  po_col_offset :: "nat option"
  po_end_lineno :: "nat option"
  po_end_col_offset :: "nat option"

datatype name_context = CtxLoad | CtxStore | CtxDel

datatype py_constant = StrConstant string | OtherConstant

record py_parameters =
  pp_posonlyargs :: "string list"
  pp_args :: "string list"
  pp_vararg :: "string option"
  pp_kwonlyargs :: "string list"
  pp_kwarg :: "string option"

text \<open>
  \<open>PySequence\<close> is \<open>ast.List\<close>, \<open>ast.Tuple\<close> or \<open>ast.Set\<close>.  A function definition carries its
  parameters, the defaults, the keyword defaults, the decorators and the body; a class definition its
  bases, keywords, decorators and body; an alias is its \<open>name\<close> and \<open>asname\<close>.
\<close>

datatype py_node =
    PyName py_pos string name_context
  | PyAttribute py_pos py_node string
  | PyConstant py_pos py_constant
  | PyCall py_pos py_node "py_node list" "(string option \<times> py_node) list"
  | PySubscript py_node py_node
  | PySequence "py_node list"
  | PyAssign py_pos "py_node list" py_node
  | PyAnnAssign py_pos py_node py_node "py_node option"
  | PyFunctionDef py_pos bool string py_parameters "py_node list" "py_node option list"
      "py_node list" "py_node list"
  | PyClassDef py_pos string "py_node list" "(string option \<times> py_node) list"
      "py_node list" "py_node list"
  | PyImport py_pos "(string \<times> string option) list"
  | PyImportFrom py_pos "string option" nat "(string \<times> string option) list"
  | PyOther "py_node list"

section \<open>Records of the analysis\<close>

record raw_import =
  wi_owner_symbol_id :: string
  wi_module_name :: string
  wi_level :: nat
  wi_imported_name :: "string option"
  wi_local_name :: "string option"
  wi_syntactic_reference :: string
  wi_location :: source_location

record raw_call =
  wc_caller_symbol_id :: string
  wc_reference :: string
  wc_location :: source_location

type_synonym py_position = "nat \<times> nat"

record module_binding =
  mb_name :: string
  mb_reference :: "string option"
  mb_string_value :: "string option"
  mb_call_reference :: "string option"
  mb_dynamic :: bool
  mb_position :: py_position
  mb_location :: source_location

record raw_framework_assignment =
  wf_binding_name :: string
  wf_constructor_reference :: string
  wf_prefix_value :: "string option"
  wf_prefix_reference :: "string option"
  wf_prefix_dynamic :: bool
  wf_position :: py_position
  wf_location :: source_location

record raw_route =
  wr_owner_symbol_id :: string
  wr_registrar_reference :: string
  wr_decorator_method :: string
  wr_path_value :: "string option"
  wr_path_reference :: "string option"
  wr_methods :: "string list option"
  wr_methods_dynamic :: bool
  wr_position :: py_position
  wr_location :: source_location

record raw_router_include =
  wn_owner_symbol_id :: string
  wn_parent_reference :: string
  wn_router_reference :: "string option"
  wn_prefix_value :: "string option"
  wn_prefix_reference :: "string option"
  wn_prefix_dynamic :: bool
  wn_position :: py_position
  wn_location :: source_location

text \<open>\<open>definitions\<close> is a \<open>defaultdict(list)\<close>, so every name has a list; \<open>writes\<close> is a set.\<close>

record scope_info =
  si_symbol :: symbol_record
  si_parent_symbol_id :: "string option"
  si_enclosing_class_symbol_id :: "string option"
  si_first_parameter :: "string option"
  si_definitions :: "string \<Rightarrow> string list"
  si_writes :: "string set"

record module_analysis =
  ma_module_name :: string
  ma_file :: source_file
  ma_symbols :: "symbol_record list"
  ma_scopes :: "string \<rightharpoonup> scope_info"
  ma_imports :: "raw_import list"
  ma_calls :: "raw_call list"
  ma_references :: "source_reference list"
  ma_bindings :: "module_binding list"
  ma_framework_assignments :: "raw_framework_assignment list"
  ma_routes :: "raw_route list"
  ma_router_includes :: "raw_router_include list"

text \<open>\<open>module_name_for\<close>.\<close>

definition module_name_for :: "string \<Rightarrow> string" where
  "module_name_for source_root_relative_path =
     (let parts = split_on (CHR ''/'') source_root_relative_path; filename = last parts
      in if filename = ''__init__.py''
         then (let package = join ''.'' (butlast parts)
               in if package = [] then ''__init__'' else package)
         else join ''.'' (butlast parts @ [take (length filename - 3) filename]))"

section \<open>Reading single nodes\<close>

text \<open>
  \<open>_location\<close>: \<open>getattr\<close> with its defaults, and \<open>or\<close>, which also replaces a zero.
\<close>

definition or_default :: "nat option \<Rightarrow> nat \<Rightarrow> nat" where
  "or_default x d = (case x of None \<Rightarrow> d | Some 0 \<Rightarrow> d | Some n \<Rightarrow> n)"

definition py_location :: "string \<Rightarrow> py_pos \<Rightarrow> source_location result" where
  "py_location path p =
     (let line_start = max (case po_lineno p of None \<Rightarrow> 1 | Some n \<Rightarrow> n) 1;
          column_start = (case po_col_offset p of None \<Rightarrow> 0 | Some n \<Rightarrow> n);
          line_end = max (or_default (po_end_lineno p) line_start) line_start;
          column_end = or_default (po_end_col_offset p) column_start
      in validate_source_location \<lparr>sl_path = path, sl_line_start = line_start,
           sl_column_start = column_start, sl_line_end = line_end, sl_column_end = column_end\<rparr>)"

definition location_position :: "source_location \<Rightarrow> py_position" where
  "location_position l = (sl_line_start l, sl_column_start l)"

text \<open>\<open>_reference\<close>: a name or a chain of attributes on a name.\<close>

fun py_reference :: "py_node \<Rightarrow> string option" where
  "py_reference (PyName _ i _) = Some i"
| "py_reference (PyAttribute _ v a) =
     (case py_reference v of None \<Rightarrow> None | Some parent \<Rightarrow> Some (parent @ ''.'' @ a))"
| "py_reference _ = None"

definition reference_of_option :: "py_node option \<Rightarrow> string option" where
  "reference_of_option n = (case n of None \<Rightarrow> None | Some x \<Rightarrow> py_reference x)"

text \<open>\<open>_string_or_name\<close>: a literal, a name, and whether there is something that is neither.\<close>

definition string_or_name :: "py_node option \<Rightarrow> string option \<times> string option \<times> bool" where
  "string_or_name n = (case n of
       None \<Rightarrow> (None, None, False)
     | Some (PyConstant _ (StrConstant s)) \<Rightarrow> (Some s, None, False)
     | Some (PyName _ i _) \<Rightarrow> (None, Some i, False)
     | Some _ \<Rightarrow> (None, None, True))"

text \<open>\<open>next((item.value for item in keywords if item.arg == name), None)\<close>.\<close>

definition keyword_value :: "string \<Rightarrow> (string option \<times> py_node) list \<Rightarrow> py_node option" where
  "keyword_value name keywords = map_option snd (find (\<lambda>k. fst k = Some name) keywords)"

text \<open>\<open>_safe_signature\<close>: parameter names, and a mark for every default; \<open>zip\<close> is strict.\<close>

definition with_default :: "bool \<Rightarrow> string \<Rightarrow> string" where
  "with_default has_default name = (if has_default then name @ ''=<default>'' else name)"

definition rendered_positional :: "py_parameters \<Rightarrow> nat \<Rightarrow> string list" where
  "rendered_positional ps defaults =
     (let positional = pp_posonlyargs ps @ pp_args ps
      in concat (map (\<lambda>i.
           with_default (length positional \<le> i + defaults) (positional ! i) #
           (if pp_posonlyargs ps \<noteq> [] \<and> i + 1 = length (pp_posonlyargs ps) then [''/''] else []))
         [0..<length positional]))"

definition rendered_keyword_only :: "py_parameters \<Rightarrow> bool list \<Rightarrow> string list result" where
  "rendered_keyword_only ps kw_defaults =
     (if length (pp_kwonlyargs ps) \<noteq> length kw_defaults
      then Inl (ValueError ''zip() argument 2 has a different length'')
      else Inr (map (\<lambda>(a, d). with_default d a) (zip (pp_kwonlyargs ps) kw_defaults)))"

definition safe_signature :: "py_parameters \<Rightarrow> nat \<Rightarrow> bool list \<Rightarrow> string result" where
  "safe_signature ps defaults kw_defaults =
     bind_result (rendered_keyword_only ps kw_defaults) (\<lambda>keyword_only.
       Inr (''('' @ join '', '' (rendered_positional ps defaults @
         (case pp_vararg ps of Some v \<Rightarrow> [''*'' @ v]
          | None \<Rightarrow> if pp_kwonlyargs ps \<noteq> [] then [''*''] else []) @
         keyword_only @
         (case pp_kwarg ps of Some k \<Rightarrow> [''**'' @ k] | None \<Rightarrow> [])) @ '')''))"

definition first_parameter :: "py_parameters \<Rightarrow> string option" where
  "first_parameter ps = (case pp_posonlyargs ps @ pp_args ps of [] \<Rightarrow> None | a # _ \<Rightarrow> Some a)"

definition parameter_names :: "py_parameters \<Rightarrow> string list" where
  "parameter_names ps = pp_posonlyargs ps @ pp_args ps @ pp_kwonlyargs ps @
     (case pp_vararg ps of None \<Rightarrow> [] | Some v \<Rightarrow> [v]) @
     (case pp_kwarg ps of None \<Rightarrow> [] | Some k \<Rightarrow> [k])"

section \<open>The extractor\<close>

record extractor =
  ex_symbols :: "symbol_record list"
  ex_scopes :: "string \<rightharpoonup> scope_info"
  ex_imports :: "raw_import list"
  ex_calls :: "raw_call list"
  ex_references :: "source_reference list"
  ex_bindings :: "module_binding list"
  ex_framework_assignments :: "raw_framework_assignment list"
  ex_routes :: "raw_route list"
  ex_router_includes :: "raw_router_include list"
  ex_ordinals :: "string \<times> symbol_kind \<Rightarrow> nat"

definition new_extractor :: extractor where
  "new_extractor = \<lparr>ex_symbols = [], ex_scopes = Map.empty, ex_imports = [], ex_calls = [],
     ex_references = [], ex_bindings = [], ex_framework_assignments = [], ex_routes = [],
     ex_router_includes = [], ex_ordinals = \<lambda>_. 0\<rparr>"

definition lookup_scope :: "extractor \<Rightarrow> string \<Rightarrow> scope_info result" where
  "lookup_scope x sid = (case ex_scopes x sid of None \<Rightarrow> Inl KeyError | Some s \<Rightarrow> Inr s)"

text \<open>Updates of a scope object held in the dictionary \<open>scopes\<close>.\<close>

definition update_scope :: "string \<Rightarrow> (scope_info \<Rightarrow> scope_info) \<Rightarrow> extractor \<Rightarrow> extractor" where
  "update_scope sid f x = x\<lparr>ex_scopes := (\<lambda>k. if k = sid then map_option f (ex_scopes x k)
                                              else ex_scopes x k)\<rparr>"

definition add_writes :: "string list \<Rightarrow> scope_info \<Rightarrow> scope_info" where
  "add_writes names s = s\<lparr>si_writes := si_writes s \<union> set names\<rparr>"

definition add_definition :: "string \<Rightarrow> string \<Rightarrow> scope_info \<Rightarrow> scope_info" where
  "add_definition name sid s =
     s\<lparr>si_definitions := (si_definitions s)(name := si_definitions s name @ [sid])\<rparr>"

definition put_scope :: "string \<Rightarrow> scope_info \<Rightarrow> extractor \<Rightarrow> extractor" where
  "put_scope sid s x = x\<lparr>ex_scopes := (ex_scopes x)(sid \<mapsto> s)\<rparr>"

definition add_reference :: "source_reference \<Rightarrow> extractor \<Rightarrow> extractor" where
  "add_reference r x = x\<lparr>ex_references := ex_references x @ [r]\<rparr>"

text \<open>The field bounds of \<open>SymbolRecord\<close> and \<open>SourceReferenceRecord\<close>, before their validators.\<close>

definition construct_symbol :: "symbol_record \<Rightarrow> symbol_record result" where
  "construct_symbol s =
     (if sy_qualified_name s = [] then Inl (ValueError ''string_too_short'')
      else if length (sy_qualified_name s) > 512 \<or> length (sy_signature s) > 2048
      then Inl (ValueError ''string_too_long'')
      else Inr (strip_symbol_text s))"

definition construct_reference :: "source_reference \<Rightarrow> source_reference result" where
  "construct_reference r =
     (if sr_value r = [] then Inl (ValueError ''string_too_short'')
      else if length (sr_value r) > 256 then Inl (ValueError ''string_too_long'')
      else validate_reference r)"

text \<open>\<open>_new_symbol\<close> returns the record; the extractor is threaded beside it.\<close>

definition new_symbol :: "source_file \<Rightarrow> string \<Rightarrow> symbol_kind \<Rightarrow> string \<Rightarrow> source_location \<Rightarrow>
    extractor \<Rightarrow> (symbol_record \<times> extractor) result" where
  "new_symbol file qualified_name kind signature location x =
     (let ordinal = ex_ordinals x (qualified_name, kind)
      in bind_result (symbol_id (sf_file_id file) qualified_name (symbol_kind_value kind) (int ordinal))
        (\<lambda>sid. bind_result (construct_symbol \<lparr>sy_symbol_id = sid, sy_source_file_id = sf_file_id file,
           sy_qualified_name = qualified_name, sy_kind = kind, sy_signature = signature,
           sy_definition_ordinal = ordinal, sy_source_location = location\<rparr>)
        (\<lambda>r. Inr (r, x\<lparr>ex_symbols := ex_symbols x @ [r],
           ex_ordinals := (ex_ordinals x)((qualified_name, kind) := ordinal + 1)\<rparr>))))"

definition function_kinds :: "symbol_kind list" where
  "function_kinds = [SYM_FUNCTION, SYM_ASYNC_FUNCTION, SYM_METHOD, SYM_ASYNC_METHOD]"

definition qualified_child :: "symbol_record \<Rightarrow> string \<Rightarrow> string" where
  "qualified_child owner name =
     (if sy_kind owner \<in> set function_kinds then sy_qualified_name owner @ ''.<locals>.'' @ name
      else sy_qualified_name owner @ ''.'' @ name)"

definition definition_kind :: "bool \<Rightarrow> bool \<Rightarrow> symbol_kind" where
  "definition_kind is_async in_class =
     (if is_async then (if in_class then SYM_ASYNC_METHOD else SYM_ASYNC_FUNCTION)
      else (if in_class then SYM_METHOD else SYM_FUNCTION))"

text \<open>
  \<open>process_function\<close> and \<open>process_class\<close> up to the visits: the symbol, its entry among the
  definitions of the owner, and its own scope.
\<close>

definition enter_function :: "source_file \<Rightarrow> string \<Rightarrow> py_pos \<Rightarrow> bool \<Rightarrow> string \<Rightarrow> py_parameters \<Rightarrow>
    nat \<Rightarrow> bool list \<Rightarrow> extractor \<Rightarrow> (string \<times> extractor) result" where
  "enter_function file owner_id pos is_async name ps defaults kw_defaults x =
     bind_result (lookup_scope x owner_id) (\<lambda>owner_scope.
       let owner = si_symbol owner_scope; in_class = (sy_kind owner = SYM_CLASS)
       in bind_result (safe_signature ps defaults kw_defaults) (\<lambda>signature.
          bind_result (py_location (sf_path file) pos) (\<lambda>location.
          bind_result (new_symbol file (qualified_child owner name) (definition_kind is_async in_class)
              signature location x) (\<lambda>(symbol, y).
            let sid = sy_symbol_id symbol
            in Inr (sid, put_scope sid \<lparr>si_symbol = symbol, si_parent_symbol_id = Some owner_id,
                 si_enclosing_class_symbol_id =
                   (if in_class then Some (sy_symbol_id owner)
                    else si_enclosing_class_symbol_id owner_scope),
                 si_first_parameter = first_parameter ps, si_definitions = (\<lambda>_. []),
                 si_writes = set (parameter_names ps)\<rparr>
               (update_scope owner_id (add_definition name sid) y))))))"

definition enter_class :: "source_file \<Rightarrow> string \<Rightarrow> py_pos \<Rightarrow> string \<Rightarrow> extractor \<Rightarrow>
    (string \<times> extractor) result" where
  "enter_class file owner_id pos name x =
     bind_result (lookup_scope x owner_id) (\<lambda>owner_scope.
       bind_result (py_location (sf_path file) pos) (\<lambda>location.
       bind_result (new_symbol file (qualified_child (si_symbol owner_scope) name) SYM_CLASS [] location x)
         (\<lambda>(symbol, y).
           let sid = sy_symbol_id symbol
           in Inr (sid, put_scope sid \<lparr>si_symbol = symbol, si_parent_symbol_id = Some owner_id,
                si_enclosing_class_symbol_id = Some sid, si_first_parameter = None,
                si_definitions = (\<lambda>_. []), si_writes = {}\<rparr>
              (update_scope owner_id (add_definition name sid) y)))))"

section \<open>Imports, calls, names and constants\<close>

definition import_reference :: "string \<Rightarrow> source_location \<Rightarrow> source_reference result" where
  "import_reference value location = construct_reference \<lparr>sr_kind = REF_IMPORT, sr_value = value,
     sr_payment_literal_kind = None, sr_source_location = location\<rparr>"

definition add_import :: "raw_import \<Rightarrow> extractor \<Rightarrow> extractor" where
  "add_import i x = x\<lparr>ex_imports := ex_imports x @ [i]\<rparr>"

text \<open>\<open>alias.asname or default\<close>: an empty name counts as absent.\<close>

definition alias_name :: "string option \<Rightarrow> string \<Rightarrow> string" where
  "alias_name asname d = (case asname of Some (c # cs) \<Rightarrow> c # cs | _ \<Rightarrow> d)"

fun record_import_names :: "string \<Rightarrow> source_location \<Rightarrow> (string \<times> string option) list \<Rightarrow>
    extractor \<Rightarrow> extractor result" where
  "record_import_names owner location [] x = Inr x"
| "record_import_names owner location ((name, asname) # aliases) x =
     (let local_name = alias_name asname (hd (split_on (CHR ''.'') name));
          y = add_import \<lparr>wi_owner_symbol_id = owner, wi_module_name = name, wi_level = 0,
                wi_imported_name = None, wi_local_name = Some local_name,
                wi_syntactic_reference = name, wi_location = location\<rparr>
              (update_scope owner (add_writes [local_name]) x)
      in bind_result (import_reference name location) (\<lambda>r.
           record_import_names owner location aliases (add_reference r y)))"

fun record_from_names :: "string \<Rightarrow> source_location \<Rightarrow> string \<Rightarrow> nat \<Rightarrow> (string \<times> string option) list \<Rightarrow>
    extractor \<Rightarrow> extractor result" where
  "record_from_names owner location module_name level [] x = Inr x"
| "record_from_names owner location module_name level ((name, asname) # aliases) x =
     (let bound = (if name = ''*'' then None else Some (alias_name asname name));
          y = add_import \<lparr>wi_owner_symbol_id = owner, wi_module_name = module_name, wi_level = level,
                wi_imported_name = Some name, wi_local_name = bound,
                wi_syntactic_reference = replicate level (CHR ''.'') @ module_name @
                  (if module_name \<noteq> [] then ''.'' @ name else name),
                wi_location = location\<rparr>
              (case bound of None \<Rightarrow> x | Some b \<Rightarrow> update_scope owner (add_writes [b]) x);
          reference_value = join ''.'' (filter (\<lambda>p. p \<noteq> []) [module_name, name])
      in if reference_value \<noteq> [] \<and> name \<noteq> ''*''
         then bind_result (import_reference reference_value location) (\<lambda>r.
           record_from_names owner location module_name level aliases (add_reference r y))
         else record_from_names owner location module_name level aliases y)"

definition record_import :: "source_file \<Rightarrow> string \<Rightarrow> py_pos \<Rightarrow> (string \<times> string option) list \<Rightarrow>
    extractor \<Rightarrow> extractor result" where
  "record_import file owner pos aliases x =
     bind_result (lookup_scope x owner) (\<lambda>_.
     bind_result (py_location (sf_path file) pos) (\<lambda>location.
       record_import_names owner location aliases x))"

definition record_import_from :: "source_file \<Rightarrow> string \<Rightarrow> py_pos \<Rightarrow> string option \<Rightarrow> nat \<Rightarrow>
    (string \<times> string option) list \<Rightarrow> extractor \<Rightarrow> extractor result" where
  "record_import_from file owner pos from_module level aliases x =
     bind_result (lookup_scope x owner) (\<lambda>_.
     bind_result (py_location (sf_path file) pos) (\<lambda>location.
       record_from_names owner location (case from_module of None \<Rightarrow> [] | Some m \<Rightarrow> m) level aliases x))"

text \<open>\<open>record_call\<close>: the call, and an include of a router when the method has that name.\<close>

definition call_reference :: "py_node \<Rightarrow> string" where
  "call_reference func = (case py_reference func of
       Some (c # cs) \<Rightarrow> c # cs
     | _ \<Rightarrow> (case func of PySubscript _ _ \<Rightarrow> ''<subscript-call>'' | _ \<Rightarrow> ''<dynamic-call>''))"

definition router_include_of :: "string \<Rightarrow> source_location \<Rightarrow> py_node \<Rightarrow> py_node list \<Rightarrow>
    (string option \<times> py_node) list \<Rightarrow> raw_router_include option" where
  "router_include_of owner location func args keywords =
     (case func of
        PyAttribute _ target attr \<Rightarrow>
          if attr \<noteq> ''include_router'' then None
          else (case py_reference target of
            None \<Rightarrow> None
          | Some parent \<Rightarrow>
              (let prefix_node = keyword_value ''prefix'' keywords;
                   (prefix_value, prefix_reference, prefix_dynamic) = string_or_name prefix_node
               in Some \<lparr>wn_owner_symbol_id = owner, wn_parent_reference = parent,
                    wn_router_reference = (case args of [] \<Rightarrow> None | a # _ \<Rightarrow> py_reference a),
                    wn_prefix_value = (if prefix_node \<noteq> None then prefix_value else Some []),
                    wn_prefix_reference = prefix_reference, wn_prefix_dynamic = prefix_dynamic,
                    wn_position = location_position location, wn_location = location\<rparr>))
      | _ \<Rightarrow> None)"

definition record_call :: "source_file \<Rightarrow> string \<Rightarrow> py_pos \<Rightarrow> py_node \<Rightarrow> py_node list \<Rightarrow>
    (string option \<times> py_node) list \<Rightarrow> extractor \<Rightarrow> extractor result" where
  "record_call file owner pos func args keywords x =
     bind_result (py_location (sf_path file) pos) (\<lambda>location.
       let y = x\<lparr>ex_calls := ex_calls x @ [\<lparr>wc_caller_symbol_id = owner,
                 wc_reference = call_reference func, wc_location = location\<rparr>]\<rparr>
       in Inr (case router_include_of owner location func args keywords of
            None \<Rightarrow> y
          | Some i \<Rightarrow> y\<lparr>ex_router_includes := ex_router_includes y @ [i]\<rparr>))"

definition record_attribute :: "source_file \<Rightarrow> py_pos \<Rightarrow> py_node \<Rightarrow> string \<Rightarrow> extractor \<Rightarrow>
    extractor result" where
  "record_attribute file pos target attr x =
     (case py_reference (PyAttribute pos target attr) of
        None \<Rightarrow> Inr x
      | Some reference \<Rightarrow>
          if length reference > 256 then Inr x
          else bind_result (py_location (sf_path file) pos) (\<lambda>location.
            bind_result (construct_reference \<lparr>sr_kind = REF_ATTRIBUTE, sr_value = reference,
              sr_payment_literal_kind = None, sr_source_location = location\<rparr>) (\<lambda>r.
              Inr (add_reference r x))))"

definition add_payment :: "source_reference option \<Rightarrow> extractor \<Rightarrow> extractor" where
  "add_payment payment x = (case payment of None \<Rightarrow> x | Some r \<Rightarrow> add_reference r x)"

definition record_name :: "source_file \<Rightarrow> string \<Rightarrow> py_pos \<Rightarrow> string \<Rightarrow> name_context \<Rightarrow> extractor \<Rightarrow>
    extractor result" where
  "record_name file owner pos name ctx x =
     bind_result (if ctx = CtxLoad then Inr x
                  else bind_result (lookup_scope x owner) (\<lambda>_.
                    Inr (update_scope owner (add_writes [name]) x))) (\<lambda>y.
     bind_result (py_location (sf_path file) pos) (\<lambda>location.
     bind_result (source_reference_for_payment_identifier name location) (\<lambda>payment.
       Inr (add_payment payment y))))"

definition record_constant :: "source_file \<Rightarrow> py_pos \<Rightarrow> py_constant \<Rightarrow> extractor \<Rightarrow> extractor result" where
  "record_constant file pos constant x =
     (case constant of
        OtherConstant \<Rightarrow> Inr x
      | StrConstant value \<Rightarrow>
          bind_result (py_location (sf_path file) pos) (\<lambda>location.
          bind_result (source_reference_for_payment_literal value location) (\<lambda>payment.
            Inr (add_payment payment x))))"

section \<open>Module bindings and routes\<close>

definition target_names :: "py_node list \<Rightarrow> string list" where
  "target_names targets = concat (map (\<lambda>t. case t of PyName _ i _ \<Rightarrow> [i] | _ \<Rightarrow> []) targets)"

definition add_nested_binding :: "source_location \<Rightarrow> module_binding list \<Rightarrow> string \<Rightarrow> module_binding list" where
  "add_nested_binding location bindings name =
     (let position = location_position location
      in if list_ex (\<lambda>b. mb_name b = name \<and> mb_position b = position) bindings then bindings
         else bindings @ [\<lparr>mb_name = name, mb_reference = None, mb_string_value = None,
           mb_call_reference = None, mb_dynamic = True, mb_position = position,
           mb_location = location\<rparr>])"

definition record_nested_module_write :: "source_file \<Rightarrow> string \<Rightarrow> py_pos \<Rightarrow> string list \<Rightarrow> extractor \<Rightarrow>
    extractor result" where
  "record_nested_module_write file owner pos names x =
     bind_result (lookup_scope x owner) (\<lambda>scope.
       if sy_kind (si_symbol scope) \<noteq> SYM_MODULE \<or> names = [] then Inr x
       else bind_result (py_location (sf_path file) pos) (\<lambda>location.
         Inr (x\<lparr>ex_bindings := foldl (add_nested_binding location) (ex_bindings x) names\<rparr>)))"

text \<open>
  \<open>_record_direct_module_binding\<close>: what a statement of the module body binds, its value, and
  whether it is an assignment to one name.
\<close>

definition direct_binding :: "py_node \<Rightarrow> (py_pos \<times> string list \<times> py_node option \<times> bool) option" where
  "direct_binding node = (case node of
       PyAssign pos targets v \<Rightarrow>
         Some (pos, target_names targets, Some v, length targets = 1 \<and> length (target_names targets) = 1)
     | PyAnnAssign pos (PyName _ i _) _ v \<Rightarrow> Some (pos, [i], v, True)
     | PyFunctionDef pos _ name _ _ _ _ _ \<Rightarrow> Some (pos, [name], None, False)
     | PyClassDef pos name _ _ _ _ \<Rightarrow> Some (pos, [name], None, False)
     | _ \<Rightarrow> None)"

definition binding_of :: "py_node option \<Rightarrow> source_location \<Rightarrow> string \<Rightarrow> module_binding" where
  "binding_of v location name =
     (let reference = reference_of_option v;
          string_value = (case v of Some (PyConstant _ (StrConstant s)) \<Rightarrow> Some s | _ \<Rightarrow> None);
          call_ref = (case v of Some (PyCall _ func _ _) \<Rightarrow> py_reference func | _ \<Rightarrow> None)
      in \<lparr>mb_name = name, mb_reference = reference, mb_string_value = string_value,
          mb_call_reference = call_ref,
          mb_dynamic = (v \<noteq> None \<and> reference = None \<and> string_value = None \<and> call_ref = None),
          mb_position = location_position location, mb_location = location\<rparr>)"

definition framework_assignment_of :: "py_node option \<Rightarrow> bool \<Rightarrow> source_location \<Rightarrow> string \<Rightarrow>
    raw_framework_assignment list" where
  "framework_assignment_of v simple_target location name = (case v of
       Some (PyCall _ func _ keywords) \<Rightarrow>
         (case py_reference func of
            None \<Rightarrow> []
          | Some constructor \<Rightarrow>
              if \<not> simple_target then []
              else (let prefix_node = keyword_value ''prefix'' keywords;
                        (prefix_value, prefix_reference, prefix_dynamic) = string_or_name prefix_node
                    in [\<lparr>wf_binding_name = name, wf_constructor_reference = constructor,
                         wf_prefix_value = (if prefix_node \<noteq> None then prefix_value else Some []),
                         wf_prefix_reference = prefix_reference, wf_prefix_dynamic = prefix_dynamic,
                         wf_position = location_position location, wf_location = location\<rparr>]))
     | _ \<Rightarrow> [])"

definition record_direct_module_binding :: "source_file \<Rightarrow> py_node \<Rightarrow> extractor \<Rightarrow> extractor result" where
  "record_direct_module_binding file node x =
     (case ex_symbols x of
        [] \<Rightarrow> Inl IndexError
      | module_symbol # _ \<Rightarrow>
          (case direct_binding node of
             None \<Rightarrow> Inr x
           | Some (pos, names, v, simple_target) \<Rightarrow>
               if names = [] then Inr x
               else bind_result (py_location (sf_path file) pos) (\<lambda>location.
                 bind_result (lookup_scope x (sy_symbol_id module_symbol)) (\<lambda>_.
                   Inr (update_scope (sy_symbol_id module_symbol) (add_writes names)
                     (x\<lparr>ex_bindings := ex_bindings x @ map (binding_of v location) names,
                        ex_framework_assignments := ex_framework_assignments x @
                          concat (map (framework_assignment_of v simple_target location) names)\<rparr>))))))"

definition ROUTE_METHODS :: "string list" where
  "ROUTE_METHODS = [''get'', ''put'', ''post'', ''delete'', ''options'', ''head'', ''patch'',
     ''trace'', ''api_route'']"

text \<open>The registrar and the method of a decorator that may register a route.\<close>

definition route_registrar :: "py_node \<Rightarrow> (string \<times> string) option" where
  "route_registrar func = (case func of
       PyAttribute _ target attr \<Rightarrow>
         if attr \<notin> set ROUTE_METHODS then None
         else map_option (\<lambda>r. (r, attr)) (py_reference target)
     | PyName _ i _ \<Rightarrow> Some (i, ''<alias>'')
     | _ \<Rightarrow> None)"

definition string_constant :: "py_node \<Rightarrow> string option" where
  "string_constant n = (case n of PyConstant _ (StrConstant s) \<Rightarrow> Some s | _ \<Rightarrow> None)"

definition literal_methods :: "py_node option \<Rightarrow> string list option" where
  "literal_methods n = (case n of
       Some (PySequence elts) \<Rightarrow>
         if list_all (\<lambda>e. string_constant e \<noteq> None) elts
         then Some (map (\<lambda>e. the (string_constant e)) elts) else None
     | _ \<Rightarrow> None)"

definition record_route :: "source_file \<Rightarrow> string \<Rightarrow> py_node \<Rightarrow> extractor \<Rightarrow> extractor result" where
  "record_route file owner decorator x = (case decorator of
       PyCall pos func args keywords \<Rightarrow>
         (case route_registrar func of
            None \<Rightarrow> Inr x
          | Some (registrar, verb) \<Rightarrow>
              (let path_node = (case args of a # _ \<Rightarrow> Some a | [] \<Rightarrow> keyword_value ''path'' keywords);
                   (path_value, path_reference, _) = string_or_name path_node;
                   methods = (if verb = ''api_route''
                     then literal_methods (keyword_value ''methods'' keywords) else None)
               in bind_result (py_location (sf_path file) pos) (\<lambda>location.
                 Inr (x\<lparr>ex_routes := ex_routes x @ [\<lparr>wr_owner_symbol_id = owner,
                   wr_registrar_reference = registrar, wr_decorator_method = verb,
                   wr_path_value = path_value, wr_path_reference = path_reference,
                   wr_methods = methods,
                   wr_methods_dynamic = (verb = ''api_route'' \<and> methods = None),
                   wr_position = location_position location, wr_location = location\<rparr>]\<rparr>))))
     | _ \<Rightarrow> Inr x)"

section \<open>The walk\<close>

text \<open>
  A \<open>visitor\<close> is the effect of visiting one node with a \<open>_NodeCollector\<close>: the owner, the flag
  \<open>_inside_attribute\<close> and the extractor.  \<open>visit_all\<close> runs the visits of a list in order.
\<close>

type_synonym visitor = "string \<Rightarrow> bool \<Rightarrow> extractor \<Rightarrow> extractor result"

fun visit_all :: "visitor list \<Rightarrow> visitor" where
  "visit_all [] owner inside x = Inr x"
| "visit_all (v # vs) owner inside x = bind_result (v owner inside x) (visit_all vs owner inside)"

text \<open>The decorators of a function: its route, then the visit by a collector of the owner.\<close>

fun visit_decorators :: "source_file \<Rightarrow> string \<Rightarrow> (py_node \<times> visitor) list \<Rightarrow> string \<Rightarrow> extractor \<Rightarrow>
    extractor result" where
  "visit_decorators file sid [] owner x = Inr x"
| "visit_decorators file sid ((d, v) # ds) owner x =
     bind_result (record_route file sid d x) (\<lambda>y.
     bind_result (v owner False y) (visit_decorators file sid ds owner))"

definition some_visits :: "visitor option list \<Rightarrow> visitor list" where
  "some_visits vs = concat (map (\<lambda>v. case v of None \<Rightarrow> [] | Some w \<Rightarrow> [w]) vs)"

text \<open>
  \<open>_NodeCollector.visit\<close>; the bodies of functions and classes are walked by a new collector, with
  the new symbol as owner and the flag cleared.
\<close>

primrec visit :: "source_file \<Rightarrow> py_node \<Rightarrow> visitor" where
  "visit file (PyName pos name ctx) = (\<lambda>owner inside x. record_name file owner pos name ctx x)"
| "visit file (PyAttribute pos target attr) = (\<lambda>owner inside x.
     bind_result (if inside then Inr x else record_attribute file pos target attr x)
       (visit file target owner True))"
| "visit file (PyConstant pos constant) = (\<lambda>owner inside x. record_constant file pos constant x)"
| "visit file (PyCall pos func args keywords) = (\<lambda>owner inside x.
     bind_result (record_call file owner pos func args keywords x) (\<lambda>y.
     bind_result (visit file func owner inside y) (\<lambda>z.
       visit_all (map (visit file) args @ map snd (map (map_prod id (visit file)) keywords))
         owner inside z)))"
| "visit file (PySubscript target index) = (\<lambda>owner inside x.
     bind_result (visit file target owner inside x) (visit file index owner inside))"
| "visit file (PySequence elts) = (\<lambda>owner inside x. visit_all (map (visit file) elts) owner inside x)"
| "visit file (PyAssign pos targets v) = (\<lambda>owner inside x.
     bind_result (record_nested_module_write file owner pos (target_names targets) x) (\<lambda>y.
     bind_result (visit_all (map (visit file) targets) owner inside y)
       (visit file v owner inside)))"
| "visit file (PyAnnAssign pos target annotation v) = (\<lambda>owner inside x.
     bind_result (record_nested_module_write file owner pos (target_names [target]) x) (\<lambda>y.
       visit_all ([visit file target, visit file annotation] @
         some_visits [map_option (visit file) v]) owner inside y))"
| "visit file (PyFunctionDef pos is_async name ps defaults kw_defaults decorators body) =
     (\<lambda>owner inside x.
     bind_result (enter_function file owner pos is_async name ps (length defaults)
         (map (\<lambda>d. d \<noteq> None) kw_defaults) x) (\<lambda>(sid, y).
     bind_result (visit_decorators file sid (zip decorators (map (visit file) decorators)) owner y) (\<lambda>z.
     bind_result (visit_all (map (visit file) defaults @
         some_visits (map (map_option (visit file)) kw_defaults)) owner False z)
       (visit_all (map (visit file) body) sid False))))"
| "visit file (PyClassDef pos name bases keywords decorators body) = (\<lambda>owner inside x.
     bind_result (enter_class file owner pos name x) (\<lambda>(sid, y).
     bind_result (visit_all (map (visit file) decorators @ map (visit file) bases @
         map snd (map (map_prod id (visit file)) keywords)) owner False y)
       (visit_all (map (visit file) body) sid False)))"
| "visit file (PyImport pos aliases) = (\<lambda>owner inside x. record_import file owner pos aliases x)"
| "visit file (PyImportFrom pos from_module level aliases) = (\<lambda>owner inside x.
     record_import_from file owner pos from_module level aliases x)"
| "visit file (PyOther children) = (\<lambda>owner inside x. visit_all (map (visit file) children) owner inside x)"

text \<open>
  \<open>_Extractor.extract\<close>; a \<open>Module\<close> node has no position attributes.
\<close>

definition no_position :: py_pos where
  "no_position = \<lparr>po_lineno = None, po_col_offset = None, po_end_lineno = None,
     po_end_col_offset = None\<rparr>"

definition enter_module :: "source_file \<Rightarrow> string \<Rightarrow> (string \<times> extractor) result" where
  "enter_module file module_name =
     bind_result (py_location (sf_path file) no_position) (\<lambda>location.
     bind_result (new_symbol file module_name SYM_MODULE [] location new_extractor) (\<lambda>(symbol, x).
       Inr (sy_symbol_id symbol, put_scope (sy_symbol_id symbol) \<lparr>si_symbol = symbol,
         si_parent_symbol_id = None, si_enclosing_class_symbol_id = None, si_first_parameter = None,
         si_definitions = (\<lambda>_. []), si_writes = {}\<rparr> x)))"

fun extract_statements :: "source_file \<Rightarrow> string \<Rightarrow> py_node list \<Rightarrow> extractor \<Rightarrow> extractor result" where
  "extract_statements file module_id [] x = Inr x"
| "extract_statements file module_id (statement # rest) x =
     bind_result (record_direct_module_binding file statement x) (\<lambda>y.
     bind_result (visit file statement module_id False y) (extract_statements file module_id rest))"

definition extract_module :: "source_file \<Rightarrow> string \<Rightarrow> py_node list \<Rightarrow> module_analysis result" where
  "extract_module file module_name body =
     bind_result (enter_module file module_name) (\<lambda>(module_id, x).
     bind_result (extract_statements file module_id body x) (\<lambda>y.
       Inr \<lparr>ma_module_name = module_name, ma_file = file, ma_symbols = ex_symbols y,
         ma_scopes = ex_scopes y, ma_imports = ex_imports y, ma_calls = ex_calls y,
         ma_references = ex_references y, ma_bindings = ex_bindings y,
         ma_framework_assignments = ex_framework_assignments y, ma_routes = ex_routes y,
         ma_router_includes = ex_router_includes y\<rparr>))"

text \<open>
  \<open>analyze_module\<close>: the parser of the interpreter is an argument; a \<open>SyntaxError\<close> carries the
  line and the offset it reports.
\<close>

record syntax_error =
  se_lineno :: "nat option"
  se_offset :: "nat option"

type_synonym py_parser = "string \<Rightarrow> (syntax_error + py_node list) result"

definition analyze_module :: "py_parser \<Rightarrow> source_file \<Rightarrow> string \<Rightarrow> string \<Rightarrow>
    (syntax_error + module_analysis) result" where
  "analyze_module parse file source_root_relative_path source =
     bind_result (parse source) (\<lambda>parsed. case parsed of
         Inl e \<Rightarrow> Inr (Inl e)
       | Inr body \<Rightarrow> bind_result (extract_module file (module_name_for source_root_relative_path) body)
           (\<lambda>a. Inr (Inr a)))"

end
