(* ===== verification/ExtractionProperties.thy ===== *)
theory ExtractionProperties
  imports PythonAst
begin

text \<open>
  Properties of the structural extraction.
\<close>

section \<open>The scopes only grow\<close>

abbreviation scope_ids :: "extractor \<Rightarrow> string set" where
  "scope_ids x \<equiv> dom (ex_scopes x)"

lemma lookup_scope_Inr [simp]: "lookup_scope x sid = Inr s \<longleftrightarrow> ex_scopes x sid = Some s"
  by (auto simp: lookup_scope_def split: option.splits)

lemma scope_ids_update [simp]: "scope_ids (update_scope sid f x) = scope_ids x"
  by (auto simp: update_scope_def dom_def)

lemma scope_ids_put [simp]: "scope_ids (put_scope sid s x) = insert sid (scope_ids x)"
  by (simp add: put_scope_def)

lemma scope_ids_add [simp]:
  "ex_scopes (add_import i x) = ex_scopes x" "ex_scopes (add_reference r x) = ex_scopes x"
  "ex_scopes (add_payment p x) = ex_scopes x"
  by (simp_all add: add_import_def add_reference_def add_payment_def split: option.splits)

lemma new_symbol_Inr:
  assumes "new_symbol file name kind signature location x = Inr (r, y)"
  obtains sid where "symbol_id (sf_file_id file) name (symbol_kind_value kind)
      (int (ex_ordinals x (name, kind))) = Inr sid"
    and "r = strip_symbol_text \<lparr>sy_symbol_id = sid, sy_source_file_id = sf_file_id file,
           sy_qualified_name = name, sy_kind = kind, sy_signature = signature,
           sy_definition_ordinal = ex_ordinals x (name, kind), sy_source_location = location\<rparr>"
    and "y = x\<lparr>ex_symbols := ex_symbols x @ [r],
           ex_ordinals := (ex_ordinals x)((name, kind) := ex_ordinals x (name, kind) + 1)\<rparr>"
  using assms
  by (auto simp: new_symbol_def Let_def bind_result_eq_Inr construct_symbol_def split: if_splits)

text \<open>
  What entering a definition does to the extractor.  The class around the new scope is the class
  around its owner, the owner or the new symbol itself.
\<close>

definition child_scope :: "string \<Rightarrow> scope_info \<Rightarrow> symbol_record \<Rightarrow> scope_info \<Rightarrow> bool" where
  "child_scope owner o_scope r s \<longleftrightarrow> si_symbol s = r \<and> si_parent_symbol_id s = Some owner \<and>
     si_definitions s = (\<lambda>_. []) \<and>
     si_enclosing_class_symbol_id s \<in> {si_enclosing_class_symbol_id o_scope,
       Some (sy_symbol_id (si_symbol o_scope)), Some (sy_symbol_id r)}"

definition entered :: "source_file \<Rightarrow> string \<Rightarrow> string \<Rightarrow> extractor \<Rightarrow> string \<Rightarrow> extractor \<Rightarrow> bool" where
  "entered file owner name x sid y \<longleftrightarrow>
     (\<exists>kind signature location pos r z s o_scope. ex_scopes x owner = Some o_scope \<and>
        py_location (sf_path file) pos = Inr location \<and>
        new_symbol file (qualified_child (si_symbol o_scope) name) kind signature location x = Inr (r, z) \<and>
        child_scope owner o_scope r s \<and> sid = sy_symbol_id r \<and>
        y = put_scope sid s (update_scope owner (add_definition name sid) z))"

lemma enteredI:
  assumes "ex_scopes x owner = Some o_scope" and "py_location (sf_path file) pos = Inr location"
    and "new_symbol file (qualified_child (si_symbol o_scope) name) kind signature location x = Inr (r, z)"
    and "child_scope owner o_scope r s"
  shows "entered file owner name x (sy_symbol_id r)
    (put_scope (sy_symbol_id r) s (update_scope owner (add_definition name (sy_symbol_id r)) z))"
  using assms unfolding entered_def by blast

lemma enter_function_entered:
  assumes "enter_function file owner pos is_async name ps d kd x = Inr (sid, y)"
  shows "entered file owner name x sid y"
  using assms unfolding enter_function_def Let_def
  by (auto simp: bind_result_eq_Inr child_scope_def intro: enteredI)

lemma enter_class_entered:
  assumes "enter_class file owner pos name x = Inr (sid, y)"
  shows "entered file owner name x sid y"
  using assms unfolding enter_class_def Let_def
  by (auto simp: bind_result_eq_Inr child_scope_def intro: enteredI)

section \<open>The steps of an extraction\<close>

definition in_file :: "source_file \<Rightarrow> source_location \<Rightarrow> bool" where
  "in_file file l \<longleftrightarrow> (\<exists>pos. py_location (sf_path file) pos = Inr l)"

definition sound_reference :: "source_file \<Rightarrow> source_reference \<Rightarrow> bool" where
  "sound_reference file r \<longleftrightarrow> (\<exists>r0. validate_reference r0 = Inr r) \<and> in_file file (sr_source_location r)"

text \<open>A record only ever changes what a scope writes; a definition leaves the place of a scope.\<close>

definition same_scope :: "scope_info option \<Rightarrow> scope_info option \<Rightarrow> bool" where
  "same_scope a b \<longleftrightarrow> rel_option (\<lambda>s t. s\<lparr>si_writes := {}\<rparr> = t\<lparr>si_writes := {}\<rparr>) a b"

definition same_place :: "scope_info option \<Rightarrow> scope_info option \<Rightarrow> bool" where
  "same_place a b \<longleftrightarrow> rel_option (\<lambda>s t. si_symbol s = si_symbol t \<and>
     si_parent_symbol_id s = si_parent_symbol_id t) a b"

definition same_scopes :: "extractor \<Rightarrow> extractor \<Rightarrow> bool" where
  "same_scopes x y \<longleftrightarrow> ex_symbols y = ex_symbols x \<and> (\<forall>k. same_scope (ex_scopes x k) (ex_scopes y k))"

definition recorded :: "source_file \<Rightarrow> extractor \<Rightarrow> extractor \<Rightarrow> bool" where
  "recorded file x y \<longleftrightarrow> same_scopes x y \<and>
     (\<exists>js cs rs ws ns. ex_imports y = ex_imports x @ js \<and> ex_calls y = ex_calls x @ cs \<and>
        ex_references y = ex_references x @ rs \<and> ex_routes y = ex_routes x @ ws \<and>
        ex_router_includes y = ex_router_includes x @ ns \<and>
        (\<forall>i \<in> set js. wi_owner_symbol_id i \<in> scope_ids x \<and> in_file file (wi_location i)) \<and>
        (\<forall>c \<in> set cs. wc_caller_symbol_id c \<in> scope_ids x \<and> in_file file (wc_location c)) \<and>
        (\<forall>r \<in> set rs. sound_reference file r) \<and>
        (\<forall>w \<in> set ws. wr_owner_symbol_id w \<in> scope_ids x \<and> in_file file (wr_location w)) \<and>
        (\<forall>n \<in> set ns. wn_owner_symbol_id n \<in> scope_ids x \<and> in_file file (wn_location n)))"

inductive extraction_step :: "source_file \<Rightarrow> extractor \<Rightarrow> extractor \<Rightarrow> bool" for f where
  recording: "recorded f x y \<Longrightarrow> extraction_step f x y"
| entering: "entered f owner name x sid y \<Longrightarrow> extraction_step f x y"

abbreviation extraction_run :: "source_file \<Rightarrow> extractor \<Rightarrow> extractor \<Rightarrow> bool" where
  "extraction_run file \<equiv> (extraction_step file)\<^sup>*\<^sup>*"

lemma same_scope_refl [simp]: "same_scope a a"
  by (simp add: same_scope_def option.rel_refl)

lemma same_scope_trans: "same_scope a b \<Longrightarrow> same_scope b c \<Longrightarrow> same_scope a c"
  by (cases a; cases b; cases c) (auto simp: same_scope_def)

lemma same_but_writes:
  "s\<lparr>si_writes := {}\<rparr> = t\<lparr>si_writes := {}\<rparr> \<Longrightarrow> si_symbol s = si_symbol t \<and>
     si_parent_symbol_id s = si_parent_symbol_id t \<and> si_definitions s = si_definitions t \<and>
     si_enclosing_class_symbol_id s = si_enclosing_class_symbol_id t"
  by (cases s; cases t) simp

lemma same_scope_place: "same_scope a b \<Longrightarrow> same_place a b"
  by (cases a; cases b) (auto simp: same_scope_def same_place_def dest: same_but_writes)

lemma same_scopes_ids:
  assumes "same_scopes x y"
  shows "scope_ids y = scope_ids x"
proof -
  have "ex_scopes y k = None \<longleftrightarrow> ex_scopes x k = None" for k
    using assms by (cases "ex_scopes x k"; cases "ex_scopes y k")
      (auto simp: same_scopes_def same_scope_def dest: spec[of _ k])
  then show ?thesis by (simp add: dom_def)
qed

lemma recorded_refl [simp]: "recorded file x x"
  by (simp add: recorded_def same_scopes_def)

lemma recorded_trans:
  assumes "recorded file x y" and "recorded file y z"
  shows "recorded file x z"
proof -
  have ids: "scope_ids y = scope_ids x" using assms(1) by (simp add: recorded_def same_scopes_ids)
  have "same_scopes x z"
    using assms by (auto simp: recorded_def same_scopes_def intro: same_scope_trans)
  moreover from assms(1) obtain js cs rs ws ns where a:
    "ex_imports y = ex_imports x @ js" "ex_calls y = ex_calls x @ cs"
    "ex_references y = ex_references x @ rs" "ex_routes y = ex_routes x @ ws"
    "ex_router_includes y = ex_router_includes x @ ns"
    "\<forall>i \<in> set js. wi_owner_symbol_id i \<in> scope_ids x \<and> in_file file (wi_location i)"
    "\<forall>c \<in> set cs. wc_caller_symbol_id c \<in> scope_ids x \<and> in_file file (wc_location c)"
    "\<forall>r \<in> set rs. sound_reference file r"
    "\<forall>w \<in> set ws. wr_owner_symbol_id w \<in> scope_ids x \<and> in_file file (wr_location w)"
    "\<forall>n \<in> set ns. wn_owner_symbol_id n \<in> scope_ids x \<and> in_file file (wn_location n)"
    by (auto simp: recorded_def)
  moreover from assms(2) obtain js' cs' rs' ws' ns' where
    "ex_imports z = ex_imports y @ js'" "ex_calls z = ex_calls y @ cs'"
    "ex_references z = ex_references y @ rs'" "ex_routes z = ex_routes y @ ws'"
    "ex_router_includes z = ex_router_includes y @ ns'"
    "\<forall>i \<in> set js'. wi_owner_symbol_id i \<in> scope_ids x \<and> in_file file (wi_location i)"
    "\<forall>c \<in> set cs'. wc_caller_symbol_id c \<in> scope_ids x \<and> in_file file (wc_location c)"
    "\<forall>r \<in> set rs'. sound_reference file r"
    "\<forall>w \<in> set ws'. wr_owner_symbol_id w \<in> scope_ids x \<and> in_file file (wr_location w)"
    "\<forall>n \<in> set ns'. wn_owner_symbol_id n \<in> scope_ids x \<and> in_file file (wn_location n)"
    by (auto simp: recorded_def ids)
  ultimately show ?thesis
    unfolding recorded_def
    by (intro conjI exI[of _ "js @ js'"] exI[of _ "cs @ cs'"] exI[of _ "rs @ rs'"]
        exI[of _ "ws @ ws'"] exI[of _ "ns @ ns'"]) auto
qed

text \<open>Every single record is a \<open>recorded\<close> step.\<close>

lemma recorded_update:
  assumes "\<And>s. (f s)\<lparr>si_writes := {}\<rparr> = s\<lparr>si_writes := {}\<rparr>"
  shows "recorded file x (update_scope sid f x)"
proof -
  have "same_scope (ex_scopes x k) (ex_scopes (update_scope sid f x) k)" for k
    using assms by (cases "ex_scopes x k")
      (auto simp: same_scope_def update_scope_def assms)
  then show ?thesis by (auto simp: recorded_def same_scopes_def update_scope_def)
qed

lemma recorded_writes: "recorded file x (update_scope sid (add_writes names) x)"
  by (rule recorded_update) (auto simp: add_writes_def)

lemma recorded_import:
  "wi_owner_symbol_id i \<in> scope_ids x \<Longrightarrow> in_file file (wi_location i) \<Longrightarrow> recorded file x (add_import i x)"
  by (auto simp: recorded_def same_scopes_def add_import_def)

lemma recorded_reference: "sound_reference file r \<Longrightarrow> recorded file x (add_reference r x)"
  by (auto simp: recorded_def same_scopes_def add_reference_def)

lemma recorded_updated_reference:
  "sound_reference file r \<Longrightarrow> recorded file x y \<Longrightarrow> recorded file x (add_reference r y)"
  using recorded_reference recorded_trans by blast

lemma validate_reference_location:
  "validate_reference r0 = Inr r \<Longrightarrow> sr_source_location r = sr_source_location r0"
  by (auto simp: validate_reference_def Let_def split: if_splits option.splits)

lemma sound_constructed:
  assumes "construct_reference r0 = Inr r" and "in_file file (sr_source_location r0)"
  shows "sound_reference file r"
  using assms validate_reference_location
  by (auto simp: construct_reference_def sound_reference_def split: if_splits)

lemma sound_import_reference:
  "import_reference value location = Inr r \<Longrightarrow> in_file file location \<Longrightarrow> sound_reference file r"
  unfolding import_reference_def by (rule sound_constructed) auto

lemma sound_payment_identifier:
  assumes "source_reference_for_payment_identifier name location = Inr (Some r)"
    and "in_file file location"
  shows "sound_reference file r"
  using assms validate_reference_location
  by (fastforce simp: source_reference_for_payment_identifier_def Let_def sound_reference_def
      bind_result_eq_Inr split: if_splits)

lemma sound_payment_literal:
  assumes "source_reference_for_payment_literal name location = Inr (Some r)"
    and "in_file file location"
  shows "sound_reference file r"
  using assms validate_reference_location
  by (fastforce simp: source_reference_for_payment_literal_def Let_def sound_reference_def
      bind_result_eq_Inr split: if_splits option.splits)

lemma in_fileI: "py_location (sf_path file) pos = Inr l \<Longrightarrow> in_file file l"
  by (auto simp: in_file_def)

lemma record_import_names_recorded:
  assumes "record_import_names owner location aliases x = Inr y" and "owner \<in> scope_ids x"
    and "in_file file location"
  shows "recorded file x y"
  using assms(1,2)
proof (induction aliases arbitrary: x)
  case Nil
  then show ?case by simp
next
  case (Cons a aliases)
  obtain name asname where a: "a = (name, asname)" by (cases a)
  define bound where "bound = alias_name asname (hd (split_on (CHR ''.'') name))"
  define w where "w = update_scope owner (add_writes [bound]) x"
  define i where "i = \<lparr>wi_owner_symbol_id = owner, wi_module_name = name, wi_level = 0,
    wi_imported_name = None, wi_local_name = Some bound, wi_syntactic_reference = name,
    wi_location = location\<rparr>"
  obtain r where r: "import_reference name location = Inr r"
    and rest: "record_import_names owner location aliases (add_reference r (add_import i w)) = Inr y"
    using Cons.prems(1) by (auto simp: a Let_def bind_result_eq_Inr bound_def w_def i_def)
  have "recorded file x w" by (simp add: w_def recorded_writes)
  moreover have "recorded file w (add_import i w)"
    by (rule recorded_import) (use Cons.prems(2) assms(3) in \<open>simp_all add: i_def w_def\<close>)
  moreover have "recorded file (add_import i w) (add_reference r (add_import i w))"
    using sound_import_reference[OF r assms(3)] by (rule recorded_reference)
  moreover have "recorded file (add_reference r (add_import i w)) y"
    using rest by (rule Cons.IH) (use Cons.prems(2) in \<open>simp add: w_def\<close>)
  ultimately show ?case by (metis recorded_trans)
qed

lemma record_from_names_recorded:
  assumes "record_from_names owner location m level aliases x = Inr y" and "owner \<in> scope_ids x"
    and "in_file file location"
  shows "recorded file x y"
  using assms(1,2)
proof (induction aliases arbitrary: x)
  case Nil
  then show ?case by simp
next
  case (Cons a aliases)
  obtain name asname where a: "a = (name, asname)" by (cases a)
  define bound where "bound = (if name = ''*'' then None else Some (alias_name asname name))"
  define w where "w = (case bound of None \<Rightarrow> x | Some b \<Rightarrow> update_scope owner (add_writes [b]) x)"
  define i where "i = \<lparr>wi_owner_symbol_id = owner, wi_module_name = m, wi_level = level,
    wi_imported_name = Some name, wi_local_name = bound,
    wi_syntactic_reference = replicate level (CHR ''.'') @ m @ (if m \<noteq> [] then ''.'' @ name else name),
    wi_location = location\<rparr>"
  have known: "owner \<in> scope_ids w" using Cons.prems(2) by (auto simp: w_def split: option.splits)
  have w: "recorded file x w" by (auto simp: w_def recorded_writes split: option.splits)
  have i: "recorded file w (add_import i w)"
    by (rule recorded_import) (use known assms(3) in \<open>simp_all add: i_def\<close>)
  have step: "(\<exists>r. import_reference (join ''.'' (filter (\<lambda>p. p \<noteq> []) [m, name])) location = Inr r \<and>
      record_from_names owner location m level aliases (add_reference r (add_import i w)) = Inr y) \<or>
     record_from_names owner location m level aliases (add_import i w) = Inr y"
    using Cons.prems(1) unfolding a record_from_names.simps Let_def
    by (auto simp: bind_result_eq_Inr bound_def w_def i_def split: if_splits)
  show ?case
    using step
  proof (elim disjE exE conjE)
    fix r
    assume r: "import_reference (join ''.'' (filter (\<lambda>p. p \<noteq> []) [m, name])) location = Inr r"
      and rest: "record_from_names owner location m level aliases (add_reference r (add_import i w)) = Inr y"
    have "recorded file (add_reference r (add_import i w)) y"
      using rest by (rule Cons.IH) (use known in simp)
    moreover have "recorded file (add_import i w) (add_reference r (add_import i w))"
      using sound_import_reference[OF r assms(3)] by (rule recorded_reference)
    ultimately show ?thesis using w i by (metis recorded_trans)
  next
    assume "record_from_names owner location m level aliases (add_import i w) = Inr y"
    then have "recorded file (add_import i w) y" by (rule Cons.IH) (use known in simp)
    then show ?thesis using w i by (metis recorded_trans)
  qed
qed

lemma record_import_recorded:
  "record_import file owner pos aliases x = Inr y \<Longrightarrow> recorded file x y"
  by (auto simp: record_import_def bind_result_eq_Inr in_fileI intro: record_import_names_recorded)

lemma record_import_from_recorded:
  "record_import_from file owner pos m level aliases x = Inr y \<Longrightarrow> recorded file x y"
  by (auto simp: record_import_from_def bind_result_eq_Inr in_fileI intro: record_from_names_recorded)

lemma record_attribute_recorded:
  assumes "record_attribute file pos target attr x = Inr y"
  shows "recorded file x y"
  using assms sound_constructed recorded_reference
  by (fastforce simp: record_attribute_def bind_result_eq_Inr in_fileI split: option.splits if_splits)

lemma recorded_payment:
  "(\<And>r. payment = Some r \<Longrightarrow> sound_reference file r) \<Longrightarrow> recorded file x (add_payment payment x)"
  by (cases payment) (auto simp: add_payment_def recorded_reference)

lemma record_name_recorded:
  assumes "record_name file owner pos name ctx x = Inr y"
  shows "recorded file x y"
proof -
  from assms obtain z location payment where z: "z = x \<or> z = update_scope owner (add_writes [name]) x"
    and location: "py_location (sf_path file) pos = Inr location"
    and payment: "source_reference_for_payment_identifier name location = Inr payment"
    and y: "y = add_payment payment z"
    by (auto simp: record_name_def bind_result_eq_Inr split: if_splits)
  have "recorded file x z" using z recorded_writes by auto
  moreover have "recorded file z y"
    unfolding y using sound_payment_identifier payment in_fileI[OF location]
    by (intro recorded_payment) auto
  ultimately show ?thesis by (rule recorded_trans)
qed

lemma record_constant_recorded:
  assumes "record_constant file pos c x = Inr y"
  shows "recorded file x y"
  using assms sound_payment_literal in_fileI
  by (cases c) (auto simp: record_constant_def bind_result_eq_Inr intro!: recorded_payment)

lemma record_nested_recorded:
  assumes "record_nested_module_write file owner pos names x = Inr y"
  shows "recorded file x y"
  using assms
  by (auto simp: record_nested_module_write_def bind_result_eq_Inr recorded_def same_scopes_def
      split: if_splits)

lemma record_call_recorded:
  assumes "record_call file owner pos func args keywords x = Inr y" and "owner \<in> scope_ids x"
  shows "recorded file x y"
proof -
  have "wn_owner_symbol_id i = owner \<and> wn_location i = location"
    if "router_include_of owner location func args keywords = Some i" for i location
    using that by (auto simp: router_include_of_def Let_def split: py_node.splits if_splits option.splits prod.splits)
  then show ?thesis
    using assms
    by (auto simp: record_call_def bind_result_eq_Inr Let_def recorded_def same_scopes_def in_fileI
        split: option.splits)
qed

lemma record_route_recorded:
  assumes "record_route file owner d x = Inr y" and "owner \<in> scope_ids x"
  shows "recorded file x y"
  using assms
  by (auto simp: record_route_def bind_result_eq_Inr Let_def recorded_def same_scopes_def in_fileI
      split: py_node.splits option.splits prod.splits)

lemma record_direct_recorded:
  assumes "record_direct_module_binding file node x = Inr y"
  shows "recorded file x y"
proof -
  have y: "y = x \<or> (\<exists>names bs fs sid. y = update_scope sid (add_writes names)
      (x\<lparr>ex_bindings := bs, ex_framework_assignments := fs\<rparr>))"
    using assms
    by (auto simp: record_direct_module_binding_def bind_result_eq_Inr
        split: list.splits option.splits prod.splits if_splits)
  have "recorded file x (x\<lparr>ex_bindings := bs, ex_framework_assignments := fs\<rparr>)" for bs fs
    by (simp add: recorded_def same_scopes_def)
  then show ?thesis using y by (metis recorded_writes recorded_trans recorded_refl)
qed

section \<open>The walk is a run\<close>

lemma step_grows: "extraction_step file x y \<Longrightarrow> scope_ids x \<subseteq> scope_ids y"
proof (induction rule: extraction_step.induct)
  case (recording x y)
  then have "scope_ids y = scope_ids x" unfolding recorded_def using same_scopes_ids by blast
  then show ?case by blast
next
  case (entering owner name x sid y)
  then obtain r z s kind q signature location where
    n: "new_symbol file q kind signature location x = Inr (r, z)"
    and y: "y = put_scope sid s (update_scope owner (add_definition name sid) z)"
    unfolding entered_def by blast
  from n have "ex_scopes z = ex_scopes x" by (auto elim: new_symbol_Inr)
  then show ?case by (auto simp: y)
qed

lemma run_grows: "extraction_run file x y \<Longrightarrow> scope_ids x \<subseteq> scope_ids y"
proof (induction rule: rtranclp_induct)
  case (step y z)
  then show ?case using step_grows by blast
qed simp

lemma entered_known: "entered file owner name x sid y \<Longrightarrow> sid \<in> scope_ids y"
  unfolding entered_def using scope_ids_put by blast

lemma recorded_run: "recorded file x y \<Longrightarrow> extraction_run file x y"
  by (auto intro: extraction_step.intros)

lemma entered_run: "entered file owner name x sid y \<Longrightarrow> extraction_run file x y"
  by (auto intro: extraction_step.intros)

text \<open>A visitor only makes steps, for every owner it knows.\<close>

definition runs :: "source_file \<Rightarrow> visitor \<Rightarrow> bool" where
  "runs file v \<longleftrightarrow> (\<forall>owner inside x y. owner \<in> scope_ids x \<longrightarrow> v owner inside x = Inr y \<longrightarrow>
     extraction_run file x y)"

lemma runsD:
  "runs file v \<Longrightarrow> owner \<in> scope_ids x \<Longrightarrow> v owner inside x = Inr y \<Longrightarrow> extraction_run file x y"
  by (simp add: runs_def)

lemma visit_all_run:
  assumes "\<And>v. v \<in> set vs \<Longrightarrow> runs file v" and "owner \<in> scope_ids x"
    and "visit_all vs owner inside x = Inr y"
  shows "extraction_run file x y"
  using assms
proof (induction vs arbitrary: x)
  case (Cons v vs)
  then obtain z where z: "v owner inside x = Inr z" "visit_all vs owner inside z = Inr y"
    by (auto simp: bind_result_eq_Inr)
  have xz: "extraction_run file x z" using Cons.prems(1) z(1) Cons.prems(2) runsD by fastforce
  then have "owner \<in> scope_ids z" using run_grows Cons.prems(2) by blast
  then have "extraction_run file z y" using Cons.IH Cons.prems(1) z(2) by simp
  with xz show ?case by simp
qed simp

lemma visit_decorators_run:
  assumes "\<And>v. v \<in> snd ` set ds \<Longrightarrow> runs file v" and "owner \<in> scope_ids x" and "sid \<in> scope_ids x"
    and "visit_decorators file sid ds owner x = Inr y"
  shows "extraction_run file x y"
  using assms
proof (induction ds arbitrary: x)
  case (Cons a ds)
  obtain d v where a: "a = (d, v)" by (cases a)
  obtain z w where z: "record_route file sid d x = Inr z" "v owner False z = Inr w"
    "visit_decorators file sid ds owner w = Inr y"
    using Cons.prems(4) by (auto simp: a bind_result_eq_Inr)
  have xz: "recorded file x z" using z(1) Cons.prems(3) by (rule record_route_recorded)
  then have "owner \<in> scope_ids z" using Cons.prems(2) run_grows recorded_run by blast
  then have "extraction_run file z w" using Cons.prems(1)[of v] z(2) runsD by (auto simp: a)
  with xz have xw: "extraction_run file x w" by (meson recorded_run rtranclp_trans)
  then have "extraction_run file w y"
    using Cons.prems run_grows[OF xw] z(3) by (intro Cons.IH) auto
  with xw show ?case by simp
qed simp

lemma runs_recorded:
  assumes "\<And>owner inside x y. owner \<in> scope_ids x \<Longrightarrow> v owner inside x = Inr y \<Longrightarrow> recorded file x y"
  shows "runs file v"
  using assms recorded_run by (auto simp: runs_def)

lemma runs_seq:
  assumes "runs file f" and "runs file g"
  shows "runs file (\<lambda>owner inside x. bind_result (f owner inside x) (g owner inside))"
  unfolding runs_def
proof (intro allI impI)
  fix owner inside x y
  assume known: "owner \<in> scope_ids x" and "bind_result (f owner inside x) (g owner inside) = Inr y"
  then obtain z where z: "f owner inside x = Inr z" "g owner inside z = Inr y"
    by (auto simp: bind_result_eq_Inr)
  have xz: "extraction_run file x z" using runsD[OF assms(1) known z(1)] .
  then have "owner \<in> scope_ids z" using run_grows known by blast
  then have "extraction_run file z y" using runsD[OF assms(2) _ z(2)] by blast
  with xz show "extraction_run file x y" by simp
qed

lemma runs_flag: "runs file v \<Longrightarrow> runs file (\<lambda>owner inside x. v owner flag x)"
  unfolding runs_def by blast

lemma runs_all: "(\<And>v. v \<in> set vs \<Longrightarrow> runs file v) \<Longrightarrow> runs file (visit_all vs)"
  unfolding runs_def using visit_all_run by (metis runs_def)

lemma some_visits_member: "v \<in> set (some_visits vs) \<longleftrightarrow> Some v \<in> set vs"
  by (induction vs) (auto simp: some_visits_def split: option.splits)

lemma some_visits_mapped:
  "v \<in> set (some_visits (map (map_option f) ns)) \<longleftrightarrow> (\<exists>n. Some n \<in> set ns \<and> v = f n)"
proof -
  have "Some v = map_option f n \<longleftrightarrow> (\<exists>m. n = Some m \<and> v = f m)" for n
    by (cases n) auto
  then show ?thesis by (auto simp: some_visits_member image_iff)
qed

lemma bodies_run:
  assumes e: "extraction_run file x y" and known: "owner \<in> scope_ids x" and sid: "sid \<in> scope_ids y"
    and outer: "\<And>v. v \<in> set vs \<Longrightarrow> runs file v" and inner: "\<And>v. v \<in> set ws \<Longrightarrow> runs file v"
    and go: "bind_result (visit_all vs owner False y) (visit_all ws sid False) = Inr z"
  shows "extraction_run file x z"
proof -
  from go obtain w where w: "visit_all vs owner False y = Inr w" "visit_all ws sid False w = Inr z"
    by (auto simp: bind_result_eq_Inr)
  have yw: "extraction_run file y w"
    using visit_all_run[OF outer _ w(1)] run_grows[OF e] known by blast
  moreover have "extraction_run file w z"
    using visit_all_run[OF inner _ w(2)] run_grows[OF yw] sid by blast
  ultimately show ?thesis using e by simp
qed

lemma runs_function:
  assumes decorators: "\<And>v. v \<in> snd ` set ds \<Longrightarrow> runs file v"
    and outer: "\<And>v. v \<in> set vs \<Longrightarrow> runs file v" and inner: "\<And>v. v \<in> set ws \<Longrightarrow> runs file v"
  shows "runs file (\<lambda>owner inside x.
     bind_result (enter_function file owner pos is_async name ps n flags x) (\<lambda>(sid, y).
     bind_result (visit_decorators file sid ds owner y) (\<lambda>z.
     bind_result (visit_all vs owner False z) (visit_all ws sid False))))"
  unfolding runs_def
proof (intro allI impI)
  fix owner inside x y
  assume known: "owner \<in> scope_ids x" and
    "bind_result (enter_function file owner pos is_async name ps n flags x) (\<lambda>(sid, y).
     bind_result (visit_decorators file sid ds owner y) (\<lambda>z.
     bind_result (visit_all vs owner False z) (visit_all ws sid False))) = Inr y"
  then obtain sid z w where z: "enter_function file owner pos is_async name ps n flags x = Inr (sid, z)"
    "visit_decorators file sid ds owner z = Inr w"
    "bind_result (visit_all vs owner False w) (visit_all ws sid False) = Inr y"
    by (auto simp: bind_result_eq_Inr)
  have xz: "extraction_run file x z" and sid: "sid \<in> scope_ids z"
    using enter_function_entered[OF z(1)] entered_run entered_known by blast+
  have "owner \<in> scope_ids z" using run_grows[OF xz] known by blast
  then have zw: "extraction_run file z w"
    using visit_decorators_run[OF decorators _ sid z(2)] by blast
  have "extraction_run file x w" using xz zw by simp
  moreover have "sid \<in> scope_ids w" using run_grows[OF zw] sid by blast
  ultimately show "extraction_run file x y" by (rule bodies_run[OF _ known _ outer inner z(3)])
qed

lemma runs_class:
  assumes outer: "\<And>v. v \<in> set vs \<Longrightarrow> runs file v" and inner: "\<And>v. v \<in> set ws \<Longrightarrow> runs file v"
  shows "runs file (\<lambda>owner inside x.
     bind_result (enter_class file owner pos name x) (\<lambda>(sid, y).
     bind_result (visit_all vs owner False y) (visit_all ws sid False)))"
  unfolding runs_def
proof (intro allI impI)
  fix owner inside x y
  assume known: "owner \<in> scope_ids x" and
    "bind_result (enter_class file owner pos name x) (\<lambda>(sid, y).
     bind_result (visit_all vs owner False y) (visit_all ws sid False)) = Inr y"
  then obtain sid z where z: "enter_class file owner pos name x = Inr (sid, z)"
    "bind_result (visit_all vs owner False z) (visit_all ws sid False) = Inr y"
    by (auto simp: bind_result_eq_Inr)
  have "extraction_run file x z" and "sid \<in> scope_ids z"
    using enter_class_entered[OF z(1)] entered_run entered_known by blast+
  then show "extraction_run file x y" by (rule bodies_run[OF _ known _ outer inner z(2)])
qed

lemma visit_runs: "runs file (visit file node)"
proof (induction node)
  case (PyName pos name ctx)
  then show ?case by (auto intro: runs_recorded record_name_recorded)
next
  case (PyAttribute pos target attr)
  have "runs file (\<lambda>owner inside x. if inside then Inr x else record_attribute file pos target attr x)"
    by (rule runs_recorded) (auto split: if_splits intro: record_attribute_recorded)
  then show ?case
    unfolding visit.simps by (rule runs_seq) (rule runs_flag, rule PyAttribute)
next
  case (PyConstant pos c)
  then show ?case by (auto intro: runs_recorded record_constant_recorded)
next
  case (PyCall pos func args kws)
  have "runs file (\<lambda>owner inside x. record_call file owner pos func args kws x)"
    by (rule runs_recorded) (rule record_call_recorded)
  moreover have "runs file (visit_all (map (visit file) args @ map snd (map (map_prod id (visit file)) kws)))"
    by (rule runs_all) (use PyCall(2,3) in fastforce)
  ultimately show ?case
    unfolding visit.simps by (intro runs_seq PyCall(1))
next
  case (PySubscript target index)
  then show ?case unfolding visit.simps by (rule runs_seq)
next
  case (PySequence elts)
  then show ?case by (auto intro!: runs_all)
next
  case (PyAssign pos targets v)
  have "runs file (\<lambda>owner inside x. record_nested_module_write file owner pos (target_names targets) x)"
    by (rule runs_recorded) (rule record_nested_recorded)
  moreover have "runs file (visit_all (map (visit file) targets))"
    by (rule runs_all) (use PyAssign(1) in auto)
  ultimately show ?case
    unfolding visit.simps by (intro runs_seq PyAssign(2))
next
  case (PyAnnAssign pos target annotation v)
  have "runs file (\<lambda>owner inside x. record_nested_module_write file owner pos (target_names [target]) x)"
    by (rule runs_recorded) (rule record_nested_recorded)
  moreover have "runs file (visit_all ([visit file target, visit file annotation] @
      some_visits [map_option (visit file) v]))"
    by (rule runs_all) (use PyAnnAssign in \<open>cases v; auto simp: some_visits_member\<close>)
  ultimately show ?case
    unfolding visit.simps by (rule runs_seq)
next
  case (PyFunctionDef pos is_async name ps defaults kw_defaults decorators body)
  show ?case
    unfolding visit.simps
    by (rule runs_function)
      (use PyFunctionDef in \<open>auto simp: some_visits_mapped elim!: in_set_zipE\<close>)
next
  case (PyClassDef pos name bases kws decorators body)
  show ?case
    unfolding visit.simps by (rule runs_class) (use PyClassDef in fastforce)+
next
  case (PyImport pos aliases)
  then show ?case by (auto intro: runs_recorded record_import_recorded)
next
  case (PyImportFrom pos m level aliases)
  then show ?case by (auto intro: runs_recorded record_import_from_recorded)
next
  case (PyOther children)
  then show ?case by (auto intro!: runs_all)
qed

lemma extract_statements_run:
  assumes "extract_statements file sid body x = Inr y" and "sid \<in> scope_ids x"
  shows "extraction_run file x y"
  using assms
proof (induction body arbitrary: x)
  case (Cons n body)
  obtain z w where z: "record_direct_module_binding file n x = Inr z" "visit file n sid False z = Inr w"
    "extract_statements file sid body w = Inr y"
    using Cons.prems(1) by (auto simp: bind_result_eq_Inr)
  have xz: "extraction_run file x z" using z(1) record_direct_recorded recorded_run by blast
  have zw: "extraction_run file z w"
    using runsD[OF visit_runs _ z(2)] run_grows[OF xz] Cons.prems(2) by blast
  have "extraction_run file w y"
    using Cons.IH[OF z(3)] run_grows[OF xz] run_grows[OF zw] Cons.prems(2) by blast
  then show ?case using xz zw by simp
qed simp

section \<open>The scopes of a module form a tree\<close>

abbreviation symbol_ids :: "extractor \<Rightarrow> string list" where
  "symbol_ids x \<equiv> map sy_symbol_id (ex_symbols x)"

text \<open>
  Every identity in the list has its own scope, whose parent comes before it; the first has none.
\<close>

definition rooted :: "(string \<rightharpoonup> scope_info) \<Rightarrow> string list \<Rightarrow> nat \<Rightarrow> bool" where
  "rooted scopes ids i \<longleftrightarrow> (\<exists>s. scopes (ids ! i) = Some s \<and> sy_symbol_id (si_symbol s) = ids ! i \<and>
     (case si_parent_symbol_id s of None \<Rightarrow> i = 0 | Some p \<Rightarrow> p \<in> set (take i ids)))"

definition scope_tree :: "(string \<rightharpoonup> scope_info) \<Rightarrow> string list \<Rightarrow> bool" where
  "scope_tree scopes ids \<longleftrightarrow> dom scopes = set ids \<and> ids \<noteq> [] \<and> (\<forall>i < length ids. rooted scopes ids i)"

lemma same_place_rooted:
  assumes "same_place (f (ids ! i)) (g (ids ! i))" and "rooted f ids i"
  shows "rooted g ids i"
  using assms by (cases "g (ids ! i)") (auto simp: rooted_def same_place_def)

lemma rooted_extend: "i < length ids \<Longrightarrow> rooted f (ids @ js) i = rooted f ids i"
proof -
  assume i: "i < length ids"
  then have "take i (ids @ js) = take i ids" by simp
  with i show ?thesis by (simp only: rooted_def nth_append if_True)
qed

lemma recorded_tree:
  assumes "recorded file x y" and "scope_tree (ex_scopes x) (symbol_ids x)"
  shows "scope_tree (ex_scopes y) (symbol_ids y)"
proof -
  have same: "same_scopes x y" using assms(1) by (simp add: recorded_def)
  then have "symbol_ids y = symbol_ids x" by (simp add: same_scopes_def)
  moreover have "rooted (ex_scopes y) (symbol_ids x) i" if "i < length (symbol_ids x)" for i
    by (rule same_place_rooted[of "ex_scopes x"])
      (use that assms(2) same in \<open>simp_all add: scope_tree_def same_scopes_def same_scope_place\<close>)
  ultimately show ?thesis
    using assms(2) same_scopes_ids[OF same] by (simp add: scope_tree_def)
qed

lemma same_place_update:
  "same_place (ex_scopes x k) (ex_scopes (update_scope sid (add_definition name d) x) k)"
  by (cases "ex_scopes x k") (auto simp: same_place_def update_scope_def add_definition_def)

lemma entered_tree:
  assumes "entered file owner name x sid y" and tree: "scope_tree (ex_scopes x) (symbol_ids x)"
    and distinct: "distinct (symbol_ids y)"
  shows "scope_tree (ex_scopes y) (symbol_ids y)"
proof -
  obtain r z s q kind signature location o_scope where owner: "owner \<in> scope_ids x"
    and n: "new_symbol file q kind signature location x = Inr (r, z)"
    and s: "child_scope owner o_scope r s" and sid: "sid = sy_symbol_id r"
    and y: "y = put_scope sid s (update_scope owner (add_definition name sid) z)"
    using assms(1) unfolding entered_def by blast
  let ?ids = "symbol_ids x"
  have z: "ex_scopes z = ex_scopes x" "ex_symbols z = ex_symbols x @ [r]"
    using n by (auto elim: new_symbol_Inr)
  have ids: "symbol_ids y = ?ids @ [sid]"
    by (simp add: y z(2) sid put_scope_def update_scope_def)
  then have new: "sid \<notin> set ?ids" using distinct by simp
  have dom: "scope_ids y = insert sid (set ?ids)"
    using tree by (auto simp: y scope_tree_def z(1))
  have "rooted (ex_scopes y) (symbol_ids y) i" if i: "i < length (symbol_ids y)" for i
  proof (cases "i < length ?ids")
    case True
    then have "?ids ! i \<noteq> sid" using new by (metis nth_mem)
    then have "same_place (ex_scopes x (?ids ! i)) (ex_scopes y (?ids ! i))"
      using same_place_update[of z "?ids ! i" owner name sid] by (simp add: y put_scope_def z(1))
    moreover have "rooted (ex_scopes x) ?ids i" using tree True by (simp add: scope_tree_def)
    ultimately have "rooted (ex_scopes y) ?ids i" using same_place_rooted by blast
    then show ?thesis using True rooted_extend by (metis ids)
  next
    case False
    then have "i = length ?ids" using i by (simp add: ids)
    then have "symbol_ids y ! i = sid" and "take i (symbol_ids y) = ?ids"
      unfolding ids by (simp_all only: nth_append_length) simp
    moreover have "owner \<in> set ?ids" using owner tree by (simp add: scope_tree_def)
    moreover have "ex_scopes y sid = Some s" by (simp add: y put_scope_def)
    ultimately show ?thesis
      using s sid by (simp add: rooted_def child_scope_def)
  qed
  then show ?thesis unfolding scope_tree_def using dom by (simp add: ids)
qed

lemma entered_ids: "entered file owner name x sid y \<Longrightarrow> symbol_ids y = symbol_ids x @ [sid]"
  by (auto simp: entered_def put_scope_def update_scope_def elim!: new_symbol_Inr)

lemma step_tree:
  assumes "extraction_step file x y" and "scope_tree (ex_scopes x) (symbol_ids x)"
    and "distinct (symbol_ids y)"
  shows "scope_tree (ex_scopes y) (symbol_ids y)"
  using assms by (cases rule: extraction_step.cases) (auto intro: recorded_tree entered_tree)

lemma step_ids: "extraction_step file x y \<Longrightarrow> \<exists>new. symbol_ids y = symbol_ids x @ new"
  by (cases rule: extraction_step.cases) (auto simp: recorded_def same_scopes_def entered_ids)

lemma run_tree:
  assumes "extraction_run file x y" and "scope_tree (ex_scopes x) (symbol_ids x)"
    and "distinct (symbol_ids y)"
  shows "scope_tree (ex_scopes y) (symbol_ids y)"
  using assms
proof (induction rule: rtranclp_induct)
  case (step y z)
  then have "distinct (symbol_ids y)" using step_ids by fastforce
  with step show ?case using step_tree by blast
qed simp

section \<open>What an extraction records belongs to its module\<close>

definition closed_records :: "source_file \<Rightarrow> extractor \<Rightarrow> bool" where
  "closed_records file x \<longleftrightarrow>
     (\<forall>i \<in> set (ex_imports x). wi_owner_symbol_id i \<in> scope_ids x \<and> in_file file (wi_location i)) \<and>
     (\<forall>c \<in> set (ex_calls x). wc_caller_symbol_id c \<in> scope_ids x \<and> in_file file (wc_location c)) \<and>
     (\<forall>r \<in> set (ex_references x). sound_reference file r) \<and>
     (\<forall>w \<in> set (ex_routes x). wr_owner_symbol_id w \<in> scope_ids x \<and> in_file file (wr_location w)) \<and>
     (\<forall>n \<in> set (ex_router_includes x). wn_owner_symbol_id n \<in> scope_ids x \<and>
        in_file file (wn_location n))"

lemma recorded_closed:
  assumes "recorded file x y" and "closed_records file x"
  shows "closed_records file y"
proof -
  have "scope_ids y = scope_ids x" using assms(1) by (simp add: recorded_def same_scopes_ids)
  moreover obtain js cs rs ws ns where
    "ex_imports y = ex_imports x @ js" "ex_calls y = ex_calls x @ cs"
    "ex_references y = ex_references x @ rs" "ex_routes y = ex_routes x @ ws"
    "ex_router_includes y = ex_router_includes x @ ns"
    "\<forall>i \<in> set js. wi_owner_symbol_id i \<in> scope_ids x \<and> in_file file (wi_location i)"
    "\<forall>c \<in> set cs. wc_caller_symbol_id c \<in> scope_ids x \<and> in_file file (wc_location c)"
    "\<forall>r \<in> set rs. sound_reference file r"
    "\<forall>w \<in> set ws. wr_owner_symbol_id w \<in> scope_ids x \<and> in_file file (wr_location w)"
    "\<forall>n \<in> set ns. wn_owner_symbol_id n \<in> scope_ids x \<and> in_file file (wn_location n)"
    using assms(1) by (auto simp: recorded_def)
  ultimately show ?thesis
    using assms(2) by (simp add: closed_records_def ball_Un)
qed

lemma entered_closed:
  assumes "entered file owner name x sid y" and "closed_records file x"
  shows "closed_records file y"
proof -
  have "ex_imports y = ex_imports x" "ex_calls y = ex_calls x" "ex_references y = ex_references x"
    "ex_routes y = ex_routes x" "ex_router_includes y = ex_router_includes x"
    using assms(1) by (auto simp: entered_def put_scope_def update_scope_def elim!: new_symbol_Inr)
  moreover have "scope_ids x \<subseteq> scope_ids y"
    using assms(1) entering step_grows by blast
  ultimately show ?thesis
    using assms(2) unfolding closed_records_def by (simp only:) blast
qed

lemma step_closed: "extraction_step file x y \<Longrightarrow> closed_records file x \<Longrightarrow> closed_records file y"
  by (cases rule: extraction_step.cases) (auto intro: recorded_closed entered_closed)

lemma run_closed: "extraction_run file x y \<Longrightarrow> closed_records file x \<Longrightarrow> closed_records file y"
  by (induction rule: rtranclp_induct) (auto dest: step_closed)

section \<open>What a scope names belongs to its module\<close>

definition sound_scopes :: "source_file \<Rightarrow> extractor \<Rightarrow> bool" where
  "sound_scopes file x \<longleftrightarrow> scope_ids x = set (symbol_ids x) \<and>
     (\<forall>k s. ex_scopes x k = Some s \<longrightarrow> si_symbol s \<in> set (ex_symbols x) \<and>
        (\<forall>name. set (si_definitions s name) \<subseteq> set (symbol_ids x)) \<and>
        set_option (si_enclosing_class_symbol_id s) \<subseteq> set (symbol_ids x))"

definition sound_symbol :: "source_file \<Rightarrow> symbol_record \<Rightarrow> bool" where
  "sound_symbol file r \<longleftrightarrow> sy_source_file_id r = sf_file_id file \<and> in_file file (sy_source_location r) \<and>
     symbol_id (sf_file_id file) (sy_qualified_name r) (symbol_kind_value (sy_kind r))
       (int (sy_definition_ordinal r)) = Inr (sy_symbol_id r)"

lemma strip_strip [simp]: "strip (strip s) = strip s"
proof -
  have "dropWhile P (rev (dropWhile P (rev (dropWhile P s)))) = rev (dropWhile P (rev (dropWhile P s)))"
    for P :: "char \<Rightarrow> bool"
  proof (cases "dropWhile P s")
    case (Cons c cs)
    then have "\<not> P c" by (simp add: dropWhile_eq_Cons_conv)
    then have "\<exists>ds. rev (dropWhile P (rev (c # cs))) = c # ds"
      by (simp add: dropWhile_append) (metis Cons append_Cons rev.simps(2) rev_rev_ident)
    then show ?thesis using \<open>\<not> P c\<close> by (auto simp: Cons)
  next
    case Nil
    then show ?thesis by (simp only: Nil) simp
  qed
  then show ?thesis by (simp add: strip_def)
qed

lemma new_symbol_sound:
  assumes "new_symbol file q kind signature location x = Inr (r, z)" and "in_file file location"
  shows "sound_symbol file r"
  using assms
  by (auto simp: sound_symbol_def symbol_id_def blank_def strip_symbol_text_def elim!: new_symbol_Inr
      split: if_splits)

lemma recorded_sound:
  assumes "recorded file x y" and "sound_scopes file x"
  shows "sound_scopes file y"
proof -
  have same: "same_scopes x y" using assms(1) by (simp add: recorded_def)
  then have ids: "ex_symbols y = ex_symbols x" and scopes: "scope_ids y = scope_ids x"
    by (simp_all add: same_scopes_def same_scopes_ids)
  have "si_symbol t \<in> set (ex_symbols x) \<and> (\<forall>name. set (si_definitions t name) \<subseteq> set (symbol_ids x)) \<and>
      set_option (si_enclosing_class_symbol_id t) \<subseteq> set (symbol_ids x)"
    if t: "ex_scopes y k = Some t" for k t
  proof -
    have "same_scope (ex_scopes x k) (ex_scopes y k)" using same by (simp add: same_scopes_def)
    then obtain s where s: "ex_scopes x k = Some s"
      and eq: "s\<lparr>si_writes := {}\<rparr> = t\<lparr>si_writes := {}\<rparr>"
      by (auto simp: same_scope_def t elim: option.rel_cases)
    have "si_symbol s \<in> set (ex_symbols x) \<and> (\<forall>name. set (si_definitions s name) \<subseteq> set (symbol_ids x)) \<and>
      set_option (si_enclosing_class_symbol_id s) \<subseteq> set (symbol_ids x)"
      using assms(2) s unfolding sound_scopes_def by blast
    then show ?thesis using same_but_writes[OF eq] by simp
  qed
  then show ?thesis using assms(2) unfolding sound_scopes_def ids scopes by blast
qed

lemma entered_sound:
  assumes "entered file owner name x sid y" and sound: "sound_scopes file x"
  shows "sound_scopes file y"
proof -
  obtain r z s q kind signature location o_scope where o_scope: "ex_scopes x owner = Some o_scope"
    and n: "new_symbol file q kind signature location x = Inr (r, z)"
    and s: "child_scope owner o_scope r s" and sid: "sid = sy_symbol_id r"
    and y: "y = put_scope sid s (update_scope owner (add_definition name sid) z)"
    using assms(1) unfolding entered_def by blast
  have z: "ex_scopes z = ex_scopes x" "ex_symbols z = ex_symbols x @ [r]"
    using n by (auto elim: new_symbol_Inr)
  have symbols: "ex_symbols y = ex_symbols x @ [r]" by (simp add: y z(2) put_scope_def update_scope_def)
  have old: "si_symbol t \<in> set (ex_symbols x) \<and> (\<forall>name. set (si_definitions t name) \<subseteq> set (symbol_ids x)) \<and>
      set_option (si_enclosing_class_symbol_id t) \<subseteq> set (symbol_ids x)"
    if "ex_scopes x k = Some t" for k t
    using sound that unfolding sound_scopes_def by blast
  have new: "si_symbol t \<in> set (ex_symbols y) \<and> (\<forall>name. set (si_definitions t name) \<subseteq> set (symbol_ids y)) \<and>
      set_option (si_enclosing_class_symbol_id t) \<subseteq> set (symbol_ids y)"
    if t: "ex_scopes y k = Some t" for k t
  proof (cases "k = sid")
    case True
    then have "t = s" using t by (simp add: y put_scope_def)
    then show ?thesis
      using s old[OF o_scope] by (auto simp: symbols child_scope_def)
  next
    case False
    then obtain u where u: "ex_scopes x k = Some u"
      and t_eq: "t = (if k = owner then add_definition name sid u else u)"
      using t by (auto simp: y put_scope_def update_scope_def z(1) split: if_splits)
    show ?thesis
      using old[OF u] by (auto simp: symbols t_eq add_definition_def sid split: if_splits)
  qed
  have ids: "set (symbol_ids y) = insert sid (set (symbol_ids x))" by (simp add: symbols sid)
  have "scope_ids y = insert sid (scope_ids x)" by (simp add: y z(1))
  then have "scope_ids y = set (symbol_ids y)"
    using sound unfolding sound_scopes_def by (simp only: ids)
  with new show ?thesis unfolding sound_scopes_def by blast
qed

lemma step_sound: "extraction_step file x y \<Longrightarrow> sound_scopes file x \<Longrightarrow> sound_scopes file y"
  by (cases rule: extraction_step.cases) (auto intro: recorded_sound entered_sound)

lemma run_sound: "extraction_run file x y \<Longrightarrow> sound_scopes file x \<Longrightarrow> sound_scopes file y"
  by (induction rule: rtranclp_induct) (auto dest: step_sound)

lemma step_symbols:
  assumes "extraction_step file x y" and "\<forall>r \<in> set (ex_symbols x). sound_symbol file r"
  shows "\<forall>r \<in> set (ex_symbols y). sound_symbol file r"
  using assms
proof (cases rule: extraction_step.cases)
  case recording
  then show ?thesis using assms(2) by (simp add: recorded_def same_scopes_def)
next
  case (entering owner name sid)
  then obtain kind signature location pos r z q where pos: "py_location (sf_path file) pos = Inr location"
    and n: "new_symbol file q kind signature location x = Inr (r, z)" and y: "ex_symbols y = ex_symbols z"
    by (auto simp: entered_def put_scope_def update_scope_def)
  have "sound_symbol file r" using n in_fileI[OF pos] by (rule new_symbol_sound)
  then show ?thesis using assms(2) n by (auto simp: y elim!: new_symbol_Inr)
qed

lemma run_symbols:
  "extraction_run file x y \<Longrightarrow> \<forall>r \<in> set (ex_symbols x). sound_symbol file r \<Longrightarrow>
   \<forall>r \<in> set (ex_symbols y). sound_symbol file r"
  by (induction rule: rtranclp_induct) (auto dest: step_symbols)

section \<open>The analysis of a module\<close>

lemma enter_module_start:
  assumes "enter_module file name = Inr (sid, x)"
  shows "scope_tree (ex_scopes x) (symbol_ids x)" and "closed_records file x" and "symbol_ids x = [sid]"
    and "sound_scopes file x" and "\<forall>r \<in> set (ex_symbols x). sound_symbol file r"
proof -
  from assms obtain l r z where l: "py_location (sf_path file) no_position = Inr l"
    and n: "new_symbol file name SYM_MODULE [] l new_extractor = Inr (r, z)"
    and sid: "sid = sy_symbol_id r" and x: "x = put_scope sid \<lparr>si_symbol = r,
      si_parent_symbol_id = None, si_enclosing_class_symbol_id = None, si_first_parameter = None,
      si_definitions = (\<lambda>_. []), si_writes = {}\<rparr> z"
    by (auto simp: enter_module_def bind_result_eq_Inr)
  from n have z: "ex_symbols z = [r]" "ex_scopes z = Map.empty" "ex_imports z = []" "ex_calls z = []"
    "ex_references z = []" "ex_routes z = []" "ex_router_includes z = []"
    by (auto simp: new_extractor_def elim!: new_symbol_Inr)
  then show ids: "symbol_ids x = [sid]" by (simp add: x put_scope_def sid)
  show "scope_tree (ex_scopes x) (symbol_ids x)"
    unfolding ids by (simp add: scope_tree_def rooted_def x put_scope_def sid z)
  show "closed_records file x"
    by (simp add: closed_records_def x put_scope_def z)
  show "sound_scopes file x"
    by (simp add: sound_scopes_def x put_scope_def z sid)
  show "\<forall>r \<in> set (ex_symbols x). sound_symbol file r"
    using new_symbol_sound[OF n in_fileI[OF l]] by (simp add: x put_scope_def z)
qed

lemma extract_module_run:
  assumes "extract_module file name body = Inr a"
  obtains x where "scope_tree (ex_scopes x) (symbol_ids x) \<or> \<not> distinct (symbol_ids x)"
    and "closed_records file x" and "sound_scopes file x" and "\<forall>r \<in> set (ex_symbols x). sound_symbol file r"
    and "ma_symbols a = ex_symbols x" and "ma_scopes a = ex_scopes x"
    and "ma_imports a = ex_imports x" and "ma_calls a = ex_calls x" and "ma_references a = ex_references x"
    and "ma_routes a = ex_routes x" and "ma_router_includes a = ex_router_includes x"
    and "ma_file a = file" and "ma_module_name a = name"
proof -
  from assms obtain sid x y where start: "enter_module file name = Inr (sid, x)"
    and rest: "extract_statements file sid body x = Inr y"
    and a: "a = \<lparr>ma_module_name = name, ma_file = file, ma_symbols = ex_symbols y,
         ma_scopes = ex_scopes y, ma_imports = ex_imports y, ma_calls = ex_calls y,
         ma_references = ex_references y, ma_bindings = ex_bindings y,
         ma_framework_assignments = ex_framework_assignments y, ma_routes = ex_routes y,
         ma_router_includes = ex_router_includes y\<rparr>"
    by (auto simp: extract_module_def bind_result_eq_Inr)
  have "sid \<in> scope_ids x"
    using enter_module_start[OF start] by (simp add: scope_tree_def)
  with rest have run: "extraction_run file x y" by (rule extract_statements_run)
  show ?thesis
    by (rule that[of y])
      (use run_tree[OF run] run_closed[OF run] run_sound[OF run enter_module_start(4)[OF start]]
        run_symbols[OF run enter_module_start(5)[OF start]] enter_module_start(1,2)[OF start] in
        \<open>auto simp: a\<close>)
qed

lemma extracted_tree:
  assumes "extract_module file name body = Inr a" and "distinct (map sy_symbol_id (ma_symbols a))"
  shows "scope_tree (ma_scopes a) (map sy_symbol_id (ma_symbols a))"
  using assms by (auto elim!: extract_module_run)

text \<open>The same facts over the analysis.\<close>

definition module_ids :: "module_analysis \<Rightarrow> string list" where
  "module_ids m = map sy_symbol_id (ma_symbols m)"

definition sound_module :: "module_analysis \<Rightarrow> bool" where
  "sound_module m \<longleftrightarrow>
     (distinct (module_ids m) \<longrightarrow> scope_tree (ma_scopes m) (module_ids m)) \<and>
     dom (ma_scopes m) = set (module_ids m) \<and>
     (\<forall>r \<in> set (ma_symbols m). sound_symbol (ma_file m) r) \<and>
     (\<forall>k s. ma_scopes m k = Some s \<longrightarrow> si_symbol s \<in> set (ma_symbols m) \<and>
        (\<forall>name. set (si_definitions s name) \<subseteq> set (module_ids m)) \<and>
        set_option (si_enclosing_class_symbol_id s) \<subseteq> set (module_ids m)) \<and>
     (\<forall>i \<in> set (ma_imports m). wi_owner_symbol_id i \<in> set (module_ids m) \<and>
        in_file (ma_file m) (wi_location i)) \<and>
     (\<forall>c \<in> set (ma_calls m). wc_caller_symbol_id c \<in> set (module_ids m) \<and>
        in_file (ma_file m) (wc_location c)) \<and>
     (\<forall>r \<in> set (ma_references m). sound_reference (ma_file m) r) \<and>
     (\<forall>w \<in> set (ma_routes m). wr_owner_symbol_id w \<in> set (module_ids m) \<and>
        in_file (ma_file m) (wr_location w)) \<and>
     (\<forall>n \<in> set (ma_router_includes m). wn_owner_symbol_id n \<in> set (module_ids m) \<and>
        in_file (ma_file m) (wn_location n))"

lemma extracted_sound:
  assumes "extract_module file name body = Inr m"
  shows "sound_module m" and "ma_file m = file" and "ma_module_name m = name"
proof -
  from assms obtain x where x: "scope_tree (ex_scopes x) (symbol_ids x) \<or> \<not> distinct (symbol_ids x)"
    "closed_records file x" "sound_scopes file x" "\<forall>r \<in> set (ex_symbols x). sound_symbol file r"
    and m: "ma_symbols m = ex_symbols x" "ma_scopes m = ex_scopes x" "ma_imports m = ex_imports x"
      "ma_calls m = ex_calls x" "ma_references m = ex_references x" "ma_routes m = ex_routes x"
      "ma_router_includes m = ex_router_includes x" "ma_file m = file" "ma_module_name m = name"
    by (rule extract_module_run)
  then show "ma_file m = file" and "ma_module_name m = name" by simp_all
  have ids: "module_ids m = symbol_ids x" by (simp add: module_ids_def m)
  have dom: "scope_ids x = set (symbol_ids x)" using x(3) by (simp add: sound_scopes_def)
  show "sound_module m"
    using x unfolding sound_module_def closed_records_def sound_scopes_def ids m dom by blast
qed

text \<open>
  An attribute chain that is legal Python and not a dotted ASCII name, as one that starts with an
  accented letter, is refused by the record and the exception leaves the extraction.
\<close>

theorem non_ascii_attribute_is_refused:
  assumes "py_reference (PyAttribute pos target attr) = Some reference" and "length reference \<le> 256"
    and "\<not> dotted_reference (strip reference)" and "py_location (sf_path file) pos = Inr l"
  shows "\<exists>e. record_attribute file pos target attr x = Inl e"
  using assms
  by (cases reference) (auto simp: record_attribute_def construct_reference_def validate_reference_def Let_def)

lemma accented_name_not_dotted: "\<not> dotted_reference (strip (CHR 0xE9 # ''t.x''))"
proof -
  have "strip (CHR 0xE9 # ''t.x'') = CHR 0xE9 # ''t.x''" by code_simp
  then show ?thesis
    by (simp add: dotted_reference_def python_name_def name_start_def ascii_letter_def Let_def)
qed

end
