(* ===== verification/Confidentiality.thy ===== *)
theory Confidentiality
  imports ExtractionProperties
begin

text \<open>
  What the source index can learn of the string literals of a project: nothing beyond the
  payment vocabulary.  \<open>redact\<close> empties every other literal of a syntax tree, and the symbols,
  scopes, imports, calls and references extracted from the redacted tree are the same.
\<close>

section \<open>Redaction\<close>

definition redact_constant :: "py_constant \<Rightarrow> py_constant" where
  "redact_constant c = (case c of
       StrConstant s \<Rightarrow> if classify_payment_literal s = None then StrConstant [] else StrConstant s
     | OtherConstant \<Rightarrow> OtherConstant)"

primrec redact :: "py_node \<Rightarrow> py_node" where
  "redact (PyName pos name ctx) = PyName pos name ctx"
| "redact (PyAttribute pos target attr) = PyAttribute pos (redact target) attr"
| "redact (PyConstant pos c) = PyConstant pos (redact_constant c)"
| "redact (PyCall pos func args keywords) =
     PyCall pos (redact func) (map redact args) (map (map_prod id redact) keywords)"
| "redact (PySubscript target index) = PySubscript (redact target) (redact index)"
| "redact (PySequence elts) = PySequence (map redact elts)"
| "redact (PyAssign pos targets v) = PyAssign pos (map redact targets) (redact v)"
| "redact (PyAnnAssign pos target annotation v) =
     PyAnnAssign pos (redact target) (redact annotation) (map_option redact v)"
| "redact (PyFunctionDef pos is_async name ps defaults kw_defaults decorators body) =
     PyFunctionDef pos is_async name ps (map redact defaults) (map (map_option redact) kw_defaults)
       (map redact decorators) (map redact body)"
| "redact (PyClassDef pos name bases keywords decorators body) =
     PyClassDef pos name (map redact bases) (map (map_prod id redact) keywords)
       (map redact decorators) (map redact body)"
| "redact (PyImport pos aliases) = PyImport pos aliases"
| "redact (PyImportFrom pos m level aliases) = PyImportFrom pos m level aliases"
| "redact (PyOther children) = PyOther (map redact children)"

lemma py_reference_redact [simp]: "py_reference (redact n) = py_reference n"
  by (induction n) auto

lemma call_reference_redact [simp]: "call_reference (redact n) = call_reference n"
proof -
  have "(case redact n of PySubscript _ _ \<Rightarrow> a | _ \<Rightarrow> b) = (case n of PySubscript _ _ \<Rightarrow> a | _ \<Rightarrow> b)"
    for a b :: string by (cases n) auto
  then show ?thesis by (simp only: call_reference_def py_reference_redact)
qed

lemma target_names_redact [simp]: "target_names (map redact ns) = target_names ns"
proof -
  have "(case redact n of PyName _ i _ \<Rightarrow> [i] | _ \<Rightarrow> []) = (case n of PyName _ i _ \<Rightarrow> [i] | _ \<Rightarrow> [])" for n
    by (cases n) auto
  then show ?thesis by (simp add: target_names_def comp_def)
qed

lemma payment_literal_redact:
  "record_constant file pos (redact_constant c) x = record_constant file pos c x"
proof (cases c)
  case (StrConstant s)
  have "classify_payment_literal [] = None" by (simp add: classify_payment_literal_def strip_def casefold_def)
  then show ?thesis
    by (auto simp: StrConstant redact_constant_def record_constant_def
        source_reference_for_payment_literal_def)
qed (simp add: redact_constant_def)

section \<open>Agreement of two extractions\<close>

definition same_public :: "extractor \<Rightarrow> extractor \<Rightarrow> bool" where
  "same_public x y \<longleftrightarrow> ex_symbols x = ex_symbols y \<and> ex_scopes x = ex_scopes y \<and>
     ex_imports x = ex_imports y \<and> ex_calls x = ex_calls y \<and> ex_references x = ex_references y \<and>
     ex_ordinals x = ex_ordinals y"

abbreviation agree :: "('a \<Rightarrow> 'b \<Rightarrow> bool) \<Rightarrow> 'a result \<Rightarrow> 'b result \<Rightarrow> bool" where
  "agree R \<equiv> rel_sum (=) R"

lemma agree_bind:
  assumes "agree R r r'" and "\<And>x y. R x y \<Longrightarrow> agree S (f x) (g y)"
  shows "agree S (bind_result r f) (bind_result r' g)"
  using assms by (cases r; cases r') auto

lemma agree_same: "agree R (bind_result r f) (bind_result r g)" if "\<And>v. agree R (f v) (g v)"
  using that by (cases r) auto

lemma agree_if: "agree R a b \<Longrightarrow> agree R c d \<Longrightarrow> agree R (if p then a else c) (if p then b else d)"
  by simp

lemma public_lookup: "same_public x y \<Longrightarrow> lookup_scope x sid = lookup_scope y sid"
  by (simp add: same_public_def lookup_scope_def)

lemma public_updates:
  assumes "same_public x y"
  shows "same_public (update_scope sid f x) (update_scope sid f y)"
    and "same_public (put_scope sid s x) (put_scope sid s y)"
    and "same_public (add_reference r x) (add_reference r y)"
    and "same_public (add_import i x) (add_import i y)"
    and "same_public (add_payment p x) (add_payment p y)"
  using assms
  by (auto simp: same_public_def update_scope_def put_scope_def add_reference_def add_import_def
      add_payment_def split: option.splits)

abbreviation same_entry :: "'a \<times> extractor \<Rightarrow> 'a \<times> extractor \<Rightarrow> bool" where
  "same_entry \<equiv> rel_prod (=) same_public"

lemma agree_entry:
  assumes "agree same_entry r r'" and "\<And>sid x y. same_public x y \<Longrightarrow> agree S (f sid x) (g sid y)"
  shows "agree S (bind_result r (\<lambda>(sid, x). f sid x)) (bind_result r' (\<lambda>(sid, y). g sid y))"
  using assms by (cases r; cases r') auto

lemma new_symbol_agree:
  assumes "same_public x y"
  shows "agree same_entry (new_symbol file q kind signature l x) (new_symbol file q kind signature l y)"
proof -
  have "ex_ordinals x = ex_ordinals y" using assms by (simp add: same_public_def)
  then show ?thesis
    unfolding new_symbol_def Let_def
    by (simp, intro agree_same) (use assms in \<open>simp add: same_public_def\<close>)
qed

lemma enter_function_agree:
  assumes "same_public x y"
  shows "agree same_entry (enter_function file owner pos is_async name ps n flags x)
     (enter_function file owner pos is_async name ps n flags y)"
  unfolding enter_function_def Let_def public_lookup[OF assms]
  by (intro agree_same agree_bind[OF new_symbol_agree[OF assms]]) (auto intro!: public_updates)

lemma enter_class_agree:
  assumes "same_public x y"
  shows "agree same_entry (enter_class file owner pos name x) (enter_class file owner pos name y)"
  unfolding enter_class_def Let_def public_lookup[OF assms]
  by (intro agree_same agree_bind[OF new_symbol_agree[OF assms]]) (auto intro!: public_updates)

lemma record_import_names_agree:
  "same_public x y \<Longrightarrow> agree same_public (record_import_names owner l aliases x)
     (record_import_names owner l aliases y)"
proof (induction aliases arbitrary: x y)
  case (Cons a aliases)
  obtain name asname where a: "a = (name, asname)" by (cases a)
  show ?case
    unfolding a record_import_names.simps Let_def
    by (intro agree_same Cons.IH public_updates Cons.prems)
qed simp

lemma record_from_names_agree:
  "same_public x y \<Longrightarrow> agree same_public (record_from_names owner l m level aliases x)
     (record_from_names owner l m level aliases y)"
proof (induction aliases arbitrary: x y)
  case (Cons a aliases)
  obtain name asname where a: "a = (name, asname)" by (cases a)
  have written: "same_public (case b of None \<Rightarrow> x | Some n \<Rightarrow> update_scope owner (add_writes [n]) x)
      (case b of None \<Rightarrow> y | Some n \<Rightarrow> update_scope owner (add_writes [n]) y)" for b
    using Cons.prems by (cases b) (auto intro: public_updates)
  show ?case
    unfolding a record_from_names.simps Let_def
    by (intro agree_if agree_same Cons.IH public_updates written)
qed simp

lemma record_agree:
  assumes "same_public x y"
  shows "agree same_public (record_import file owner pos aliases x) (record_import file owner pos aliases y)"
    and "agree same_public (record_import_from file owner pos m level aliases x)
          (record_import_from file owner pos m level aliases y)"
    and "agree same_public (record_name file owner pos name ctx x) (record_name file owner pos name ctx y)"
    and "agree same_public (record_constant file pos c x) (record_constant file pos c y)"
    and "agree same_public (record_attribute file pos target attr x) (record_attribute file pos target attr y)"
    and "agree same_public (record_nested_module_write file owner pos names x)
          (record_nested_module_write file owner pos names y)"
proof -
  note step = public_lookup[OF assms]
  show "agree same_public (record_import file owner pos aliases x) (record_import file owner pos aliases y)"
    unfolding record_import_def step by (intro agree_same record_import_names_agree assms)
  show "agree same_public (record_import_from file owner pos m level aliases x)
          (record_import_from file owner pos m level aliases y)"
    unfolding record_import_from_def step by (intro agree_same record_from_names_agree assms)
  show "agree same_public (record_name file owner pos name ctx x) (record_name file owner pos name ctx y)"
    unfolding record_name_def step
    by (rule agree_bind[where R = same_public])
      (use assms in \<open>auto intro!: agree_same public_updates\<close>)
  show "agree same_public (record_constant file pos c x) (record_constant file pos c y)"
    unfolding record_constant_def
    by (cases c) (use assms in \<open>auto intro!: agree_same public_updates\<close>)
  show "agree same_public (record_attribute file pos target attr x) (record_attribute file pos target attr y)"
    unfolding record_attribute_def
    by (cases "py_reference (PyAttribute pos target attr)")
      (use assms in \<open>auto intro!: agree_same public_updates\<close>)
  show "agree same_public (record_nested_module_write file owner pos names x)
          (record_nested_module_write file owner pos names y)"
    unfolding record_nested_module_write_def step
    by (intro agree_same) (use assms in \<open>auto intro!: agree_same simp: same_public_def\<close>)
qed

lemma record_attribute_redact:
  "record_attribute file pos (redact target) attr x = record_attribute file pos target attr x"
  by (simp add: record_attribute_def)

lemma record_call_agree:
  assumes "same_public x y"
  shows "agree same_public (record_call file owner pos (redact func) args kws x)
     (record_call file owner pos func args' kws' y)"
  unfolding record_call_def call_reference_redact Let_def
  by (intro agree_same) (use assms in \<open>auto simp: same_public_def split: option.splits\<close>)

lemma route_registrar_redact: "route_registrar (redact func) = route_registrar func"
  by (cases func) (auto simp: route_registrar_def)

lemma record_route_agree:
  assumes "same_public x y"
  shows "agree same_public (record_route file sid (redact d) x) (record_route file sid d y)"
proof (cases d)
  case (PyCall pos func args kws)
  show ?thesis
    using assms
    by (auto simp: PyCall record_route_def route_registrar_redact Let_def same_public_def
        intro!: agree_same split: option.splits prod.splits)
qed (use assms in \<open>simp_all add: record_route_def\<close>)

lemma record_direct_agree:
  assumes "same_public x y"
  shows "agree same_public (record_direct_module_binding file (redact n) x)
     (record_direct_module_binding file n y)"
proof -
  have shape: "rel_option (\<lambda>(p, names, _, _) (q, names', _, _). p = q \<and> names = names')
      (direct_binding (redact n)) (direct_binding n)"
  proof (cases n)
    case (PyAnnAssign pos target annotation v)
    then show ?thesis by (cases target) (auto simp: direct_binding_def)
  qed (auto simp: direct_binding_def)
  have symbols: "ex_symbols x = ex_symbols y" using assms by (simp add: same_public_def)
  have public: "same_public (update_scope sid f (x\<lparr>ex_bindings := a, ex_framework_assignments := b\<rparr>))
      (update_scope sid f (y\<lparr>ex_bindings := c, ex_framework_assignments := d\<rparr>))" for sid f a b c d
    by (rule public_updates) (use assms in \<open>simp add: same_public_def\<close>)
  show ?thesis
    using shape unfolding record_direct_module_binding_def symbols public_lookup[OF assms]
    by (cases "direct_binding (redact n)"; cases "direct_binding n"; cases "ex_symbols y")
      (auto intro!: agree_same public assms)
qed


section \<open>The walk\<close>

definition confidential :: "visitor \<Rightarrow> visitor \<Rightarrow> bool" where
  "confidential v v' \<longleftrightarrow> (\<forall>owner inside x y. same_public x y \<longrightarrow>
     agree same_public (v owner inside x) (v' owner inside y))"

lemma confidentialD: "confidential v v' \<Longrightarrow> same_public x y \<Longrightarrow> agree same_public (v owner inside x) (v' owner inside y)"
  by (simp add: confidential_def)

lemma confidentialI:
  "(\<And>owner inside x y. same_public x y \<Longrightarrow> agree same_public (v owner inside x) (v' owner inside y)) \<Longrightarrow>
   confidential v v'"
  by (simp add: confidential_def)

lemma confidential_seq:
  assumes "confidential f f'" and "confidential g g'"
  shows "confidential (\<lambda>owner inside x. bind_result (f owner inside x) (g owner inside))
     (\<lambda>owner inside x. bind_result (f' owner inside x) (g' owner inside))"
  using assms by (auto simp: confidential_def intro!: agree_bind[where R = same_public])

lemma visit_all_agree:
  assumes "list_all2 confidential vs vs'" and "same_public x y"
  shows "agree same_public (visit_all vs owner inside x) (visit_all vs' owner inside y)"
  using assms
proof (induction vs vs' arbitrary: x y rule: list_all2_induct)
  case (Cons v vs v' vs')
  show ?case
    unfolding visit_all.simps
    by (rule agree_bind[where R = same_public])
      (use Cons confidentialD in auto)
qed simp

lemma confidential_all: "list_all2 confidential vs vs' \<Longrightarrow> confidential (visit_all vs) (visit_all vs')"
  by (auto intro!: confidentialI visit_all_agree)

lemma visit_decorators_agree:
  assumes "list_all2 (\<lambda>(d, v) (d', v'). d = redact d' \<and> confidential v v') ds ds'" and "same_public x y"
  shows "agree same_public (visit_decorators file sid ds owner x) (visit_decorators file sid ds' owner y)"
  using assms
proof (induction ds ds' arbitrary: x y rule: list_all2_induct)
  case (Cons a ds a' ds')
  obtain d v d' v' where a: "a = (d, v)" "a' = (d', v')" by (cases a; cases a')
  then have d: "d = redact d'" and v: "confidential v v'" using Cons.hyps(1) by auto
  show ?case
    unfolding a visit_decorators.simps d
    by (intro agree_bind[OF record_route_agree[OF Cons.prems]] agree_bind[OF confidentialD[OF v]] Cons.IH)
qed simp

lemma all_redacted:
  "(\<And>n. n \<in> set ns \<Longrightarrow> confidential (visit file (redact n)) (visit file n)) \<Longrightarrow>
   list_all2 confidential (map (visit file) (map redact ns)) (map (visit file) ns)"
  by (induction ns) auto

lemma keywords_redacted:
  "(\<And>n. n \<in> snd ` set ks \<Longrightarrow> confidential (visit file (redact n)) (visit file n)) \<Longrightarrow>
   list_all2 confidential (map snd (map (map_prod id (visit file)) (map (map_prod id redact) ks)))
     (map snd (map (map_prod id (visit file)) ks))"
  by (induction ks) auto

lemma options_redacted:
  "(\<And>n. Some n \<in> set ns \<Longrightarrow> confidential (visit file (redact n)) (visit file n)) \<Longrightarrow>
   list_all2 confidential (some_visits (map (map_option (visit file)) (map (map_option redact) ns)))
     (some_visits (map (map_option (visit file)) ns))"
proof (induction ns)
  case (Cons n ns)
  then show ?case by (cases n) (auto simp: some_visits_def)
qed (simp add: some_visits_def)

lemma decorators_redacted:
  "(\<And>n. n \<in> set ns \<Longrightarrow> confidential (visit file (redact n)) (visit file n)) \<Longrightarrow>
   list_all2 (\<lambda>(d, v) (d', v'). d = redact d' \<and> confidential v v')
     (zip (map redact ns) (map (visit file) (map redact ns))) (zip ns (map (visit file) ns))"
  by (induction ns) auto

lemma flags_redacted: "map (\<lambda>d. d \<noteq> None) (map (map_option redact) ns) = map (\<lambda>d. d \<noteq> None) ns"
  by (induction ns) auto

lemma bodies_agree:
  assumes "list_all2 confidential vs vs'" and "list_all2 confidential ws ws'" and "same_public x y"
  shows "agree same_public (bind_result (visit_all vs owner False x) (visit_all ws sid False))
     (bind_result (visit_all vs' owner False y) (visit_all ws' sid False))"
  using assms by (intro agree_bind[OF visit_all_agree] visit_all_agree)

lemma visit_redacted: "confidential (visit file (redact node)) (visit file node)"
proof (induction node)
  case (PyAttribute pos target attr)
  show ?case
    unfolding redact.simps visit.simps record_attribute_redact
    by (intro confidentialI agree_bind[where R = same_public])
      (use PyAttribute in \<open>auto intro: record_agree dest: confidentialD\<close>)
next
  case (PyCall pos func args kws)
  have "confidential (visit_all (map (visit file) (map redact args) @
        map snd (map (map_prod id (visit file)) (map (map_prod id redact) kws))))
      (visit_all (map (visit file) args @ map snd (map (map_prod id (visit file)) kws)))"
    by (intro confidential_all list_all2_appendI all_redacted keywords_redacted)
      (use PyCall(2,3) in fastforce)+
  then show ?case
    unfolding redact.simps visit.simps
    by (intro confidential_seq PyCall(1)) (auto intro!: confidentialI record_call_agree)
next
  case (PySubscript target index)
  then show ?case unfolding redact.simps visit.simps by (rule confidential_seq)
next
  case (PySequence elts)
  then show ?case unfolding redact.simps visit.simps by (intro confidential_all all_redacted)
next
  case (PyAssign pos targets v)
  show ?case
    unfolding redact.simps visit.simps target_names_redact
    by (intro confidential_seq confidential_all all_redacted PyAssign)
      (auto intro!: confidentialI record_agree)
next
  case (PyAnnAssign pos target annotation v)
  have names: "target_names [redact target] = target_names [target]"
    using target_names_redact[of "[target]"] by simp
  have "list_all2 confidential (some_visits (map (map_option (visit file)) (map (map_option redact) [v])))
     (some_visits (map (map_option (visit file)) [v]))"
    by (rule options_redacted) (use PyAnnAssign(3) in auto)
  then show ?case
    unfolding redact.simps visit.simps names
    by (intro confidential_seq confidential_all list_all2_appendI)
      (auto intro!: confidentialI record_agree PyAnnAssign)
next
  case (PyFunctionDef pos is_async name ps defaults kw_defaults decorators body)
  have outer: "list_all2 confidential
      (map (visit file) (map redact defaults) @
         some_visits (map (map_option (visit file)) (map (map_option redact) kw_defaults)))
      (map (visit file) defaults @ some_visits (map (map_option (visit file)) kw_defaults))"
    by (intro list_all2_appendI all_redacted options_redacted) (use PyFunctionDef(1,2) in auto)
  note inner = all_redacted[OF PyFunctionDef(4)] and ds = decorators_redacted[OF PyFunctionDef(3)]
  show ?case
    unfolding redact.simps visit.simps length_map flags_redacted
    by (intro confidentialI agree_entry[OF enter_function_agree] agree_bind[OF visit_decorators_agree[OF ds]]
        bodies_agree outer inner)
next
  case (PyClassDef pos name bases kws decorators body)
  have outer: "list_all2 confidential
      (map (visit file) (map redact decorators) @ map (visit file) (map redact bases) @
         map snd (map (map_prod id (visit file)) (map (map_prod id redact) kws)))
      (map (visit file) decorators @ map (visit file) bases @ map snd (map (map_prod id (visit file)) kws))"
    by (intro list_all2_appendI all_redacted keywords_redacted) (use PyClassDef(1,2,3) in fastforce)+
  note inner = all_redacted[OF PyClassDef(4)]
  show ?case
    unfolding redact.simps visit.simps
    by (intro confidentialI agree_entry[OF enter_class_agree] bodies_agree outer inner)
next
  case (PyOther children)
  then show ?case unfolding redact.simps visit.simps by (intro confidential_all all_redacted)
qed (auto simp: payment_literal_redact intro!: confidentialI record_agree)

lemma extract_statements_redacted:
  "same_public x y \<Longrightarrow> agree same_public (extract_statements file sid (map redact body) x)
     (extract_statements file sid body y)"
proof (induction body arbitrary: x y)
  case (Cons n body)
  show ?case
    unfolding list.map extract_statements.simps
    by (intro agree_bind[OF record_direct_agree[OF Cons.prems]] agree_bind[OF confidentialD[OF visit_redacted]]
        Cons.IH)
qed simp

definition public_records :: "module_analysis \<Rightarrow> symbol_record list \<times> (string \<rightharpoonup> scope_info) \<times>
    raw_import list \<times> raw_call list \<times> source_reference list" where
  "public_records a = (ma_symbols a, ma_scopes a, ma_imports a, ma_calls a, ma_references a)"

text \<open>
  C7. No string literal of a source file outside the fixed payment vocabulary reaches the
  symbols, scopes, imports, calls or references of its analysis: with every other literal
  emptied, the extraction succeeds or fails alike and records the same.
\<close>

theorem extraction_is_confidential:
  "bind_result (extract_module file name (map redact body)) (\<lambda>a. Inr (public_records a)) =
   bind_result (extract_module file name body) (\<lambda>a. Inr (public_records a))"
proof (cases "enter_module file name")
  case (Inl e)
  then show ?thesis by (simp add: extract_module_def)
next
  case (Inr start)
  obtain sid x where start: "start = (sid, x)" by (cases start)
  have "agree same_public (extract_statements file sid (map redact body) x)
      (extract_statements file sid body x)"
    by (rule extract_statements_redacted) (simp add: same_public_def)
  then show ?thesis
    by (cases "extract_statements file sid (map redact body) x";
        cases "extract_statements file sid body x")
      (auto simp: extract_module_def public_records_def Inr start same_public_def)
qed

end
