(* ===== verification/Resolution.thy ===== *)
theory Resolution
  imports PythonAst
begin

text \<open>
  \<open>discovery/resolution.py\<close>: the resolution of imports, names and calls across the analysed
  modules.  The alias cache of \<open>ResolutionContext\<close> is a memo of \<open>aliases_for_scope\<close> and has no
  counterpart.  The walk along \<open>parent_symbol_id\<close> is a loop that a cycle would keep running, so it
  and everything that uses it return a \<open>run\<close>: \<open>None\<close> when the code does not return.
\<close>

section \<open>Computations that may not return\<close>

type_synonym 'a run = "'a result option"

definition run_bind :: "'a run \<Rightarrow> ('a \<Rightarrow> 'b run) \<Rightarrow> 'b run" where
  "run_bind r f = (case r of None \<Rightarrow> None | Some (Inl e) \<Rightarrow> Some (Inl e) | Some (Inr x) \<Rightarrow> f x)"

fun run_traverse :: "('a \<Rightarrow> 'b run) \<Rightarrow> 'a list \<Rightarrow> 'b list run" where
  "run_traverse f [] = Some (Inr [])"
| "run_traverse f (x # xs) =
     run_bind (f x) (\<lambda>y. run_bind (run_traverse f xs) (\<lambda>ys. Some (Inr (y # ys))))"

section \<open>The context\<close>

record alias_target =
  al_canonical_prefix :: string
  al_resolved_symbol_id :: "string option"

record resolution_context =
  rc_modules :: "module_analysis list"
  rc_module_by_name :: "string \<Rightarrow> module_analysis option"
  rc_colliding_modules :: "string list"
  rc_scope_by_id :: "string \<rightharpoonup> scope_info"
  rc_module_for_scope :: "string \<rightharpoonup> module_analysis"
  rc_unique_symbol_by_name :: "string \<Rightarrow> symbol_record option"
  rc_raw_imports_by_scope :: "string \<Rightarrow> raw_import list"

text \<open>\<open>values[0]\<close> of a group when it has one member.\<close>

definition single :: "'a list \<Rightarrow> 'a option" where
  "single xs = (case xs of [x] \<Rightarrow> Some x | _ \<Rightarrow> None)"

definition all_symbols :: "module_analysis list \<Rightarrow> symbol_record list" where
  "all_symbols modules = concat (map ma_symbols modules)"

definition new_context :: "module_analysis list \<Rightarrow> resolution_context" where
  "new_context modules = \<lparr>rc_modules = modules,
     rc_module_by_name = (\<lambda>name. single (filter (\<lambda>m. ma_module_name m = name) modules)),
     rc_colliding_modules = sorted_set (filter (\<lambda>name.
       length (filter (\<lambda>m. ma_module_name m = name) modules) \<noteq> 1) (map ma_module_name modules)),
     rc_scope_by_id = foldl (\<lambda>scopes m. scopes ++ ma_scopes m) Map.empty modules,
     rc_module_for_scope =
       foldl (\<lambda>owners m. owners ++ (\<lambda>k. map_option (\<lambda>_. m) (ma_scopes m k))) Map.empty modules,
     rc_unique_symbol_by_name =
       (\<lambda>name. single (filter (\<lambda>s. sy_qualified_name s = name) (all_symbols modules))),
     rc_raw_imports_by_scope =
       (\<lambda>sid. filter (\<lambda>i. wi_owner_symbol_id i = sid) (concat (map ma_imports modules)))\<rparr>"

text \<open>Subscripts of the dictionaries of the context.\<close>

definition scope_at :: "resolution_context \<Rightarrow> string \<Rightarrow> scope_info result" where
  "scope_at ctx sid = (case rc_scope_by_id ctx sid of None \<Rightarrow> Inl KeyError | Some s \<Rightarrow> Inr s)"

definition module_at :: "resolution_context \<Rightarrow> string \<Rightarrow> module_analysis result" where
  "module_at ctx sid = (case rc_module_for_scope ctx sid of None \<Rightarrow> Inl KeyError | Some m \<Rightarrow> Inr m)"

definition unique_symbol_id :: "resolution_context \<Rightarrow> string \<Rightarrow> string option" where
  "unique_symbol_id ctx name = map_option sy_symbol_id (rc_unique_symbol_by_name ctx name)"

section \<open>Imports\<close>

definition relative_base :: "module_analysis \<Rightarrow> nat \<Rightarrow> string option" where
  "relative_base m level =
     (if level = 0 then Some []
      else if ma_module_name m = ''__init__'' then None
      else let parts = split_on (CHR ''.'') (ma_module_name m);
               is_package = ends_with (sf_path (ma_file m)) ''/__init__.py'';
               package_parts = (if is_package then parts else butlast parts);
               ascents = level - 1
           in if ascents > length package_parts then None
              else let retained = take (length package_parts - ascents) package_parts
                   in if retained = [] then None else Some (join ''.'' retained))"

definition canonical_import_reference :: "resolution_context \<Rightarrow> raw_import \<Rightarrow> string option result" where
  "canonical_import_reference ctx raw =
     bind_result (module_at ctx (wi_owner_symbol_id raw)) (\<lambda>m.
       Inr (case (if wi_level raw \<noteq> 0
                  then (case relative_base m (wi_level raw) of
                          None \<Rightarrow> None
                        | Some base \<Rightarrow> Some (if wi_module_name raw \<noteq> []
                            then base @ ''.'' @ wi_module_name raw else base))
                  else Some (wi_module_name raw)) of
              None \<Rightarrow> None
            | Some base \<Rightarrow>
                (case wi_imported_name raw of
                   Some name \<Rightarrow> Some (if base \<noteq> [] then base @ ''.'' @ name else name)
                 | None \<Rightarrow> if base = [] then None else Some base)))"

definition alias_of :: "resolution_context \<Rightarrow> raw_import \<Rightarrow> (string \<times> alias_target) list result" where
  "alias_of ctx raw = (case wi_local_name raw of
       None \<Rightarrow> Inr []
     | Some local_name \<Rightarrow>
         bind_result (canonical_import_reference ctx raw) (\<lambda>found. case found of
             None \<Rightarrow> Inr []
           | Some canonical \<Rightarrow> Inr [(local_name, \<lparr>al_canonical_prefix =
               (if wi_imported_name raw = None \<and>
                   local_name = hd (split_on (CHR ''.'') (wi_module_name raw))
                then local_name else canonical),
               al_resolved_symbol_id = unique_symbol_id ctx canonical\<rparr>)]))"

definition aliases_for_scope :: "resolution_context \<Rightarrow> string \<Rightarrow> (string \<Rightarrow> alias_target option) result" where
  "aliases_for_scope ctx sid =
     bind_result (traverse (alias_of ctx) (rc_raw_imports_by_scope ctx sid)) (\<lambda>grouped.
       Inr (\<lambda>name. single (map snd (filter (\<lambda>a. fst a = name) (concat grouped)))))"

section \<open>Names\<close>

partial_function (option) scope_chain :: "(string \<rightharpoonup> scope_info) \<Rightarrow> string option \<Rightarrow> scope_info list run" where
  "scope_chain scopes current = (case current of
       None \<Rightarrow> Some (Inr [])
     | Some sid \<Rightarrow>
         (case scopes sid of
            None \<Rightarrow> Some (Inl KeyError)
          | Some s \<Rightarrow> Option.bind (scope_chain scopes (si_parent_symbol_id s)) (\<lambda>rest.
              Some (bind_result rest (\<lambda>ss. Inr (s # ss))))))"

fun canonical_in_chain :: "resolution_context \<Rightarrow> string \<Rightarrow> string \<Rightarrow> string \<Rightarrow> scope_info list \<Rightarrow> string result" where
  "canonical_in_chain ctx reference head suffix [] = Inr reference"
| "canonical_in_chain ctx reference head suffix (s # ss) =
     bind_result (aliases_for_scope ctx (sy_symbol_id (si_symbol s))) (\<lambda>aliases. case aliases head of
         Some a \<Rightarrow> Inr (al_canonical_prefix a @ suffix)
       | None \<Rightarrow> if head \<in> si_writes s then Inr reference
                 else canonical_in_chain ctx reference head suffix ss)"

definition reference_head :: "string \<Rightarrow> string" where
  "reference_head reference = takeWhile (\<lambda>c. c \<noteq> CHR ''.'') reference"

definition reference_suffix :: "string \<Rightarrow> string" where
  "reference_suffix reference = dropWhile (\<lambda>c. c \<noteq> CHR ''.'') reference"

definition canonicalize_reference :: "resolution_context \<Rightarrow> string \<Rightarrow> string \<Rightarrow> string run" where
  "canonicalize_reference ctx sid reference =
     (if starts_with ''<'' reference then Some (Inr reference)
      else run_bind (scope_chain (rc_scope_by_id ctx) (Some sid)) (\<lambda>chain.
        Some (canonical_in_chain ctx reference (reference_head reference)
          (reference_suffix reference) chain)))"

definition resolve_framework_import_reference :: "resolution_context \<Rightarrow> string \<Rightarrow> string \<Rightarrow> string run" where
  "resolve_framework_import_reference ctx sid reference = canonicalize_reference ctx sid reference"

text \<open>
  The loop of \<open>resolve_call_symbol\<close> over the chain for a bare name: what it returns, or \<open>None\<close>
  when it falls through.
\<close>

fun resolve_bare_name :: "string \<Rightarrow> scope_info list \<Rightarrow> string option option" where
  "resolve_bare_name name [] = None"
| "resolve_bare_name name (s # ss) =
     (let definitions = si_definitions s name
      in if name \<notin> si_writes s \<and> length definitions = 1 then Some (Some (hd definitions))
         else if name \<in> si_writes s then Some None
         else resolve_bare_name name ss)"

definition resolve_module_name :: "resolution_context \<Rightarrow> string \<Rightarrow> string \<Rightarrow> string option run" where
  "resolve_module_name ctx caller reference =
     Some (bind_result (module_at ctx caller) (\<lambda>m.
       Inr (unique_symbol_id ctx (ma_module_name m @ ''.'' @ reference))))"

definition resolve_own_method :: "resolution_context \<Rightarrow> scope_info \<Rightarrow> string \<Rightarrow> string option run" where
  "resolve_own_method ctx caller_scope tail =
     (case si_enclosing_class_symbol_id caller_scope of
        None \<Rightarrow> Some (Inr None)
      | Some class_id \<Rightarrow> Some (bind_result (scope_at ctx class_id) (\<lambda>class_scope.
          let definitions = si_definitions class_scope tail
          in Inr (if length definitions = 1 \<and> tail \<notin> si_writes class_scope
                  then Some (hd definitions) else None))))"

definition resolve_call_symbol :: "resolution_context \<Rightarrow> string \<Rightarrow> string \<Rightarrow> string option run" where
  "resolve_call_symbol ctx caller reference =
     (if starts_with ''<'' reference then Some (Inr None)
      else run_bind (canonicalize_reference ctx caller reference) (\<lambda>canonical.
        case unique_symbol_id ctx canonical of
          Some direct \<Rightarrow> Some (Inr (Some direct))
        | None \<Rightarrow> run_bind (Some (scope_at ctx caller)) (\<lambda>caller_scope.
            if CHR ''.'' \<notin> set reference
            then run_bind (scope_chain (rc_scope_by_id ctx) (Some caller)) (\<lambda>chain.
              case resolve_bare_name reference chain of
                Some found \<Rightarrow> Some (Inr found)
              | None \<Rightarrow> resolve_module_name ctx caller reference)
            else if reference_head reference \<in> {''self'', ''cls''} \<and>
                    si_first_parameter caller_scope = Some (reference_head reference)
            then resolve_own_method ctx caller_scope (tl (reference_suffix reference))
            else resolve_module_name ctx caller reference)))"

section \<open>All modules\<close>

definition new_diagnostic :: "source_diagnostic_code \<Rightarrow> string option \<Rightarrow> source_location option \<Rightarrow>
    source_diagnostic result" where
  "new_diagnostic code path location = validate_diagnostic \<lparr>dg_code = code,
     dg_impact = SOURCE_COVERAGE_REDUCED, dg_path = path, dg_source_location = location\<rparr>"

text \<open>The field bounds of \<open>ImportBindingRecord\<close> and \<open>CallSiteRecord\<close>, before their validators.\<close>

definition construct_import :: "import_binding \<Rightarrow> import_binding result" where
  "construct_import b =
     (if im_syntactic_reference b = [] then Inl (ValueError ''string_too_short'')
      else if length (im_syntactic_reference b) > 512 \<or>
              (case im_local_name b of None \<Rightarrow> False | Some n \<Rightarrow> length n > 256) \<or>
              (case im_canonical_reference b of None \<Rightarrow> False | Some n \<Rightarrow> length n > 512)
      then Inl (ValueError ''string_too_long'')
      else validate_import b)"

definition construct_call :: "call_site \<Rightarrow> call_site result" where
  "construct_call c =
     (if ca_callee_reference c = [] then Inl (ValueError ''string_too_short'')
      else if length (ca_callee_reference c) > 512 then Inl (ValueError ''string_too_long'')
      else Inr (strip_callee_reference c))"

record resolution_result =
  rs_imports :: "import_binding list"
  rs_call_sites :: "call_site list"
  rs_diagnostics :: "source_diagnostic list"
  rs_context :: resolution_context

definition collision_diagnostics :: "resolution_context \<Rightarrow> source_diagnostic list result" where
  "collision_diagnostics ctx =
     traverse (\<lambda>m. new_diagnostic SD_MODULE_NAME_COLLISION (Some (sf_path (ma_file m))) None)
       (concat (map (\<lambda>name. sort_key (\<lambda>m. sf_path (ma_file m))
          (filter (\<lambda>m. ma_module_name m = name) (rc_modules ctx))) (rc_colliding_modules ctx)))"

definition import_diagnostics :: "raw_import \<Rightarrow> string option \<Rightarrow> source_diagnostic list result" where
  "import_diagnostics raw canonical =
     (if wi_imported_name raw = Some ''*''
      then traverse (\<lambda>l. new_diagnostic SD_WILDCARD_IMPORT None (Some l)) [wi_location raw]
      else if wi_level raw \<noteq> 0 \<and> canonical = None
      then traverse (\<lambda>l. new_diagnostic SD_UNRESOLVED_RELATIVE_IMPORT None (Some l)) [wi_location raw]
      else Inr [])"

definition import_binding_of :: "resolution_context \<Rightarrow> raw_import \<Rightarrow> string option \<Rightarrow> import_binding" where
  "import_binding_of ctx raw canonical = \<lparr>im_owner_symbol_id = wi_owner_symbol_id raw,
     im_kind = (if wi_imported_name raw = None then KIND_IMPORT else KIND_FROM_IMPORT),
     im_syntactic_reference = wi_syntactic_reference raw, im_local_name = wi_local_name raw,
     im_canonical_reference = canonical,
     im_resolved_symbol_id = (case canonical of None \<Rightarrow> None | Some c \<Rightarrow> unique_symbol_id ctx c),
     im_source_location = wi_location raw\<rparr>"

definition call_site_of :: "raw_call \<Rightarrow> string \<Rightarrow> string option \<Rightarrow> call_site" where
  "call_site_of raw canonical callee = \<lparr>ca_caller_symbol_id = wc_caller_symbol_id raw,
     ca_callee_symbol_id = callee, ca_callee_reference = canonical,
     ca_source_location = wc_location raw\<rparr>"

definition resolve_import :: "resolution_context \<Rightarrow> raw_import \<Rightarrow>
    (import_binding \<times> source_diagnostic list) result" where
  "resolve_import ctx raw =
     bind_result (canonical_import_reference ctx raw) (\<lambda>canonical.
     bind_result (import_diagnostics raw canonical) (\<lambda>diagnostics.
     bind_result (construct_import (import_binding_of ctx raw canonical)) (\<lambda>b. Inr (b, diagnostics))))"

definition resolve_call :: "resolution_context \<Rightarrow> raw_call \<Rightarrow> call_site run" where
  "resolve_call ctx raw =
     run_bind (canonicalize_reference ctx (wc_caller_symbol_id raw) (wc_reference raw)) (\<lambda>canonical.
     run_bind (resolve_call_symbol ctx (wc_caller_symbol_id raw) (wc_reference raw)) (\<lambda>callee.
       Some (construct_call (call_site_of raw canonical callee))))"

definition resolve_modules :: "module_analysis list \<Rightarrow> resolution_result run" where
  "resolve_modules modules =
     (let ctx = new_context modules
      in run_bind (Some (collision_diagnostics ctx)) (\<lambda>collisions.
         run_bind (Some (traverse (resolve_import ctx) (concat (map ma_imports modules)))) (\<lambda>imports.
         run_bind (run_traverse (resolve_call ctx) (concat (map ma_calls modules))) (\<lambda>calls.
           Some (Inr \<lparr>rs_imports = map fst imports, rs_call_sites = calls,
             rs_diagnostics = collisions @ concat (map snd imports), rs_context = ctx\<rparr>)))))"

end
