(* ===== verification/ResolutionProperties.thy ===== *)
theory ResolutionProperties
  imports Resolution ExtractionProperties
begin

text \<open>
  Properties of name and call resolution: on analysed modules it returns, it names recorded
  symbols only, and what it builds is accepted by the validators of the source index.
\<close>

section \<open>The dictionaries of the context\<close>

text \<open>Modules as \<open>analyze_module\<close> returns them, whose symbols have different identities.\<close>

definition analysed :: "module_analysis list \<Rightarrow> bool" where
  "analysed modules \<longleftrightarrow> distinct (concat (map module_ids modules)) \<and>
     (\<forall>m \<in> set modules. \<exists>body. extract_module (ma_file m) (ma_module_name m) body = Inr m)"

lemma analysed_sound: "analysed modules \<Longrightarrow> m \<in> set modules \<Longrightarrow> sound_module m"
  using extracted_sound(1) by (auto simp: analysed_def)

lemma distinct_concat_map:
  "distinct (concat (map f xs)) \<Longrightarrow> x \<in> set xs \<Longrightarrow> y \<in> set xs \<Longrightarrow> k \<in> set (f x) \<Longrightarrow> k \<in> set (f y) \<Longrightarrow> x = y"
  by (induction xs) auto

lemma distinct_concat_part: "distinct (concat (map f xs)) \<Longrightarrow> x \<in> set xs \<Longrightarrow> distinct (f x)"
  by (induction xs) auto

lemma foldl_map_add:
  "foldl (\<lambda>f m. f ++ g m) f0 ms k = (case find (\<lambda>m. g m k \<noteq> None) (rev ms) of
     None \<Rightarrow> f0 k | Some m \<Rightarrow> g m k)"
proof (induction ms rule: rev_induct)
  case (snoc x xs)
  then show ?case by (cases "g x k") (simp_all add: map_add_def)
qed simp

lemma find_unique:
  assumes "x \<in> set xs" and "P x" and "\<And>y. y \<in> set xs \<Longrightarrow> P y \<Longrightarrow> y = x"
  shows "find P xs = Some x"
proof -
  obtain y where y: "find P xs = Some y" using assms(1,2) by (cases "find P xs") (auto simp: find_None_iff)
  then have "y \<in> set xs" and "P y" by (auto simp: find_Some_iff)
  then show ?thesis using assms(3) y by blast
qed

lemma analysed_owner:
  assumes "analysed modules" and "m \<in> set modules" and "k \<in> set (module_ids m)" and "y \<in> set modules"
    and "k \<in> set (module_ids y)"
  shows "y = m"
  using assms distinct_concat_map[of module_ids modules y m k] by (simp add: analysed_def)

lemma context_scope:
  assumes "analysed modules" and m: "m \<in> set modules" and k: "k \<in> set (module_ids m)"
  shows "rc_scope_by_id (new_context modules) k = ma_scopes m k"
    and "rc_module_for_scope (new_context modules) k = Some m"
    and "ma_scopes m k \<noteq> None"
proof -
  have dom: "ma_scopes y k \<noteq> None \<longleftrightarrow> k \<in> set (module_ids y)" if "y \<in> set modules" for y
    using analysed_sound[OF assms(1) that] unfolding sound_module_def by blast
  show some: "ma_scopes m k \<noteq> None" using dom m k by simp
  have only: "y = m" if "y \<in> set (rev modules)" and "ma_scopes y k \<noteq> None" for y
    using analysed_owner[OF assms(1) m k] dom[of y] that by simp
  have "find (\<lambda>y. ma_scopes y k \<noteq> None) (rev modules) = Some m"
    by (rule find_unique[where P = "\<lambda>y. ma_scopes y k \<noteq> None", OF _ some only]) (use m in simp)
  then have found: "find (\<lambda>y. \<exists>s. ma_scopes y k = Some s) (rev modules) = Some m" by simp
  show "rc_scope_by_id (new_context modules) k = ma_scopes m k"
    by (simp add: new_context_def foldl_map_add found)
  show "rc_module_for_scope (new_context modules) k = Some m"
    using some by (simp add: new_context_def foldl_map_add found)
qed

lemma single_member: "single xs = Some x \<Longrightarrow> x \<in> set xs"
  by (auto simp: single_def split: list.splits)

lemma unique_symbol_known:
  assumes "unique_symbol_id (new_context modules) name = Some sid"
  shows "sid \<in> set (concat (map module_ids modules))"
proof -
  from assms obtain s where "single (filter (\<lambda>s. sy_qualified_name s = name) (all_symbols modules)) = Some s"
    and "sid = sy_symbol_id s"
    by (auto simp: unique_symbol_id_def new_context_def)
  then show ?thesis using single_member by (force simp: all_symbols_def module_ids_def)
qed

section \<open>The chain of scopes ends\<close>

lemma scope_tree_chain:
  assumes tree: "scope_tree scopes ids" and same: "\<And>k. k \<in> set ids \<Longrightarrow> all k = scopes k"
  shows "i < length ids \<Longrightarrow> \<exists>chain. scope_chain all (Some (ids ! i)) = Some (Inr chain) \<and>
    length chain \<le> i + 1 \<and> (\<forall>s \<in> set chain. \<exists>k \<in> set ids. scopes k = Some s)"
proof (induction i rule: less_induct)
  case (less i)
  have here: "ids ! i \<in> set ids" using less.prems by simp
  have "rooted scopes ids i" using tree less.prems by (simp add: scope_tree_def)
  then obtain s where s: "scopes (ids ! i) = Some s"
    and parent: "case si_parent_symbol_id s of None \<Rightarrow> i = 0 | Some p \<Rightarrow> p \<in> set (take i ids)"
    by (auto simp: rooted_def)
  have "all (ids ! i) = Some s" using s same[OF here] by simp
  then have unfold: "scope_chain all (Some (ids ! i)) = Option.bind (scope_chain all (si_parent_symbol_id s))
      (\<lambda>rest. Some (bind_result rest (\<lambda>ss. Inr (s # ss))))"
    by (subst scope_chain.simps) simp
  show ?case
  proof (cases "si_parent_symbol_id s")
    case None
    have "scope_chain all None = Some (Inr [])" by (subst scope_chain.simps) simp
    then show ?thesis using s here by (auto simp: unfold None)
  next
    case (Some p)
    then obtain j where j: "j < i" "p = ids ! j"
      using parent less.prems by (auto simp: in_set_conv_nth)
    then obtain chain where "scope_chain all (Some p) = Some (Inr chain)" "length chain \<le> j + 1"
      "\<forall>s \<in> set chain. \<exists>k \<in> set ids. scopes k = Some s"
      using less.IH[OF j(1)] less.prems by auto
    then show ?thesis using s here j(1) by (auto simp: unfold Some)
  qed
qed

lemma analysed_chain:
  assumes a: "analysed modules" and m: "m \<in> set modules" and k: "k \<in> set (module_ids m)"
  obtains chain where "scope_chain (rc_scope_by_id (new_context modules)) (Some k) = Some (Inr chain)"
    and "length chain \<le> length (ma_symbols m)" and "\<forall>s \<in> set chain. \<exists>k. ma_scopes m k = Some s"
proof -
  have "distinct (module_ids m)"
    using a m distinct_concat_part[of module_ids modules m] by (simp add: analysed_def)
  then have tree: "scope_tree (ma_scopes m) (module_ids m)"
    using analysed_sound[OF a m] by (simp add: sound_module_def)
  obtain i where i: "i < length (module_ids m)" "k = module_ids m ! i"
    using k by (auto simp: in_set_conv_nth)
  then obtain chain where "scope_chain (rc_scope_by_id (new_context modules)) (Some k) = Some (Inr chain)"
    "length chain \<le> i + 1" "\<forall>s \<in> set chain. \<exists>k \<in> set (module_ids m). ma_scopes m k = Some s"
    using scope_tree_chain[OF tree, of "rc_scope_by_id (new_context modules)"]
      context_scope(1)[OF a m] by blast
  then show ?thesis using i(1) by (intro that[of chain]) (auto simp: module_ids_def)
qed

section \<open>Names resolve without raising\<close>

lemma import_owner:
  assumes "analysed modules" and "raw \<in> set (concat (map ma_imports modules))"
  obtains m where "m \<in> set modules" and "wi_owner_symbol_id raw \<in> set (module_ids m)"
    and "in_file (ma_file m) (wi_location raw)"
  using assms analysed_sound by (fastforce simp: sound_module_def)

lemma canonical_import_returns:
  assumes "analysed modules" and "raw \<in> set (concat (map ma_imports modules))"
  shows "\<exists>c. canonical_import_reference (new_context modules) raw = Inr c"
proof -
  obtain m where "m \<in> set modules" "wi_owner_symbol_id raw \<in> set (module_ids m)"
    using import_owner[OF assms] .
  then show ?thesis
    using context_scope(2)[OF assms(1)] by (simp add: canonical_import_reference_def module_at_def)
qed

lemma traverse_returns: "(\<And>x. x \<in> set xs \<Longrightarrow> \<exists>y. f x = Inr y) \<Longrightarrow> \<exists>ys. traverse f xs = Inr ys"
  by (induction xs) (auto simp: bind_result_def split: sum.splits, fastforce+)

lemma aliases_return:
  assumes "analysed modules"
  shows "\<exists>f. aliases_for_scope (new_context modules) sid = Inr f"
proof -
  have "\<exists>y. alias_of (new_context modules) raw = Inr y"
    if "raw \<in> set (rc_raw_imports_by_scope (new_context modules) sid)" for raw
  proof -
    have "raw \<in> set (concat (map ma_imports modules))" using that by (auto simp: new_context_def)
    then show ?thesis
      using canonical_import_returns[OF assms] by (fastforce simp: alias_of_def split: option.splits)
  qed
  then obtain ys where "traverse (alias_of (new_context modules))
      (rc_raw_imports_by_scope (new_context modules) sid) = Inr ys"
    using traverse_returns by blast
  then show ?thesis by (simp add: aliases_for_scope_def)
qed

lemma canonical_in_chain_returns:
  "analysed modules \<Longrightarrow> \<exists>c. canonical_in_chain (new_context modules) reference head suffix chain = Inr c"
proof (induction chain)
  case (Cons s ss)
  obtain f where "aliases_for_scope (new_context modules) (sy_symbol_id (si_symbol s)) = Inr f"
    using aliases_return[OF Cons.prems] by blast
  then show ?case using Cons by (auto split: option.splits)
qed simp

lemma canonicalize_returns:
  assumes "analysed modules" and "m \<in> set modules" and "sid \<in> set (module_ids m)"
  shows "\<exists>c. canonicalize_reference (new_context modules) sid reference = Some (Inr c)"
proof -
  obtain chain where "scope_chain (rc_scope_by_id (new_context modules)) (Some sid) = Some (Inr chain)"
    using analysed_chain[OF assms] .
  then show ?thesis
    using canonical_in_chain_returns[OF assms(1)]
    by (simp add: canonicalize_reference_def run_bind_def)
qed

lemma resolve_bare_name_known:
  "resolve_bare_name name chain = Some (Some sid) \<Longrightarrow>
   \<exists>s \<in> set chain. sid \<in> set (si_definitions s name)"
  by (induction chain) (auto simp: Let_def length_Suc_conv split: if_splits)

lemma resolution_names_recorded_symbols:
  assumes a: "analysed modules" and m: "m \<in> set modules" and caller: "caller \<in> set (module_ids m)"
  shows "\<exists>found. resolve_call_symbol (new_context modules) caller reference = Some (Inr found) \<and>
    set_option found \<subseteq> set (concat (map module_ids modules))"
proof -
  let ?ctx = "new_context modules"
  obtain canonical where canonical: "canonicalize_reference ?ctx caller reference = Some (Inr canonical)"
    using canonicalize_returns[OF a m caller] by blast
  obtain chain where chain: "scope_chain (rc_scope_by_id ?ctx) (Some caller) = Some (Inr chain)"
    "\<forall>s \<in> set chain. \<exists>k. ma_scopes m k = Some s"
    using analysed_chain[OF a m caller] .
  obtain scope where scope: "ma_scopes m caller = Some scope"
    using context_scope(3)[OF a m caller] by blast
  have known: "set (si_definitions s name) \<subseteq> set (module_ids m) \<and>
      set_option (si_enclosing_class_symbol_id s) \<subseteq> set (module_ids m)" if "ma_scopes m k = Some s" for k s name
    using analysed_sound[OF a m] that unfolding sound_module_def by blast
  have inside: "set (module_ids m) \<subseteq> set (concat (map module_ids modules))" using m by auto
  have bare: "set_option found \<subseteq> set (module_ids m)"
    if "resolve_bare_name reference chain = Some found" for found
    using that resolve_bare_name_known chain(2) known by (cases found) fastforce+
  have named: "\<exists>found. resolve_module_name ?ctx caller reference = Some (Inr found) \<and>
      set_option found \<subseteq> set (concat (map module_ids modules))"
    using context_scope(2)[OF a m caller] unique_symbol_known
    by (auto simp: resolve_module_name_def module_at_def simp del: set_concat)
  have own: "\<exists>found. resolve_own_method ?ctx scope tail = Some (Inr found) \<and> set_option found \<subseteq> set (module_ids m)"
    for tail
  proof (cases "si_enclosing_class_symbol_id scope")
    case (Some class_id)
    then have "class_id \<in> set (module_ids m)" using known[OF scope] by simp
    then obtain class_scope where c: "scope_at ?ctx class_id = Inr class_scope"
      "ma_scopes m class_id = Some class_scope"
      using context_scope(1,3)[OF a m, of class_id] by (auto simp: scope_at_def)
    show ?thesis
      using known[OF c(2), of tail]
      by (cases "si_definitions class_scope tail") (auto simp: resolve_own_method_def Some c(1) Let_def)
  qed (simp add: resolve_own_method_def)
  have at: "scope_at ?ctx caller = Inr scope"
    using scope context_scope(1)[OF a m caller] by (simp add: scope_at_def)
  show ?thesis
  proof (cases "unique_symbol_id ?ctx canonical")
    case (Some direct)
    then show ?thesis
      using unique_symbol_known[OF Some] by (simp add: resolve_call_symbol_def canonical run_bind_def)
  next
    case None
    show ?thesis
      using bare named own inside
      by (auto simp: resolve_call_symbol_def canonical run_bind_def None at chain(1)
          simp del: set_concat split: option.splits) blast+
  qed
qed

section \<open>What resolution builds passes the validators of the index\<close>

lemma run_traverse_Inr:
  "run_traverse f xs = Some (Inr ys) \<Longrightarrow> list_all2 (\<lambda>x y. f x = Some (Inr y)) xs ys"
  by (induction xs arbitrary: ys)
    (auto simp: run_bind_def split: option.splits sum.splits)

lemma run_traverse_returns: "(\<And>x. x \<in> set xs \<Longrightarrow> f x \<noteq> None) \<Longrightarrow> run_traverse f xs \<noteq> None"
  by (induction xs) (auto simp: run_bind_def split: option.splits sum.splits)

lemma list_all2_member: "list_all2 P xs ys \<Longrightarrow> y \<in> set ys \<Longrightarrow> \<exists>x \<in> set xs. P x y"
  by (induction rule: list_all2_induct) auto

text \<open>An index over the symbols and the files of the modules.\<close>

definition indexes :: "source_index \<Rightarrow> module_analysis list \<Rightarrow> bool" where
  "indexes i modules \<longleftrightarrow> mset (ix_symbols i) = mset (all_symbols modules) \<and>
     distinct (map sf_file_id (ix_indexed_files i)) \<and>
     (\<forall>m \<in> set modules. ma_file m \<in> set (ix_indexed_files i) \<and>
        normalize_relative_path (sf_path (ma_file m)) = Inr (sf_path (ma_file m)))"

lemma dict_by_own_key:
  assumes "distinct (map key xs)" and "x \<in> set xs"
  shows "dict_by key xs (key x) = Some x"
proof -
  obtain y where "dict_by key xs (key x) = Some y" "y \<in> set xs" "key y = key x"
    using assms(2) by (rule dict_by_key_in)
  moreover have "inj_on key (set xs)" using assms(1) by (simp add: distinct_map)
  ultimately show ?thesis using assms(2) by (auto dest: inj_onD)
qed

lemma in_file_path:
  assumes "in_file file l" and "normalize_relative_path (sf_path file) = Inr (sf_path file)"
  shows "sl_path l = sf_path file"
  using assms
  by (auto simp: in_file_def py_location_def validate_source_location_def Let_def bind_result_eq_Inr
      split: if_splits)

lemma all_symbols_ids: "map sy_symbol_id (all_symbols modules) = concat (map module_ids modules)"
  by (induction modules) (simp_all add: all_symbols_def module_ids_def)

lemma indexed_located:
  assumes a: "analysed modules" and i: "indexes i modules" and m: "m \<in> set modules"
    and sid: "sid \<in> set (module_ids m)" and l: "in_file (ma_file m) l"
  obtains s where "symbol_of i sid = Some s" and "check_located i (sy_source_file_id s) l msg = None"
proof -
  obtain s where s: "s \<in> set (ma_symbols m)" "sid = sy_symbol_id s"
    using sid by (auto simp: module_ids_def)
  have symbols: "mset (ix_symbols i) = mset (all_symbols modules)" using i by (simp add: indexes_def)
  then have "mset (map sy_symbol_id (ix_symbols i)) = mset (map sy_symbol_id (all_symbols modules))"
    by (simp only: mset_map)
  then have "distinct (map sy_symbol_id (ix_symbols i))"
    using a unfolding all_symbols_ids analysed_def by (metis mset_eq_imp_distinct_iff)
  moreover have "s \<in> set (ix_symbols i)"
    using s(1) m mset_eq_setD[OF symbols] by (auto simp: all_symbols_def)
  ultimately have found: "symbol_of i sid = Some s" by (simp add: symbol_of_def s(2) dict_by_own_key)
  have of_file: "sy_source_file_id s = sf_file_id (ma_file m)"
    using analysed_sound[OF a m] s(1) by (auto simp: sound_module_def sound_symbol_def)
  have "dict_by sf_file_id (ix_indexed_files i) (sf_file_id (ma_file m)) = Some (ma_file m)"
    by (rule dict_by_own_key) (use i m in \<open>auto simp: indexes_def\<close>)
  moreover have "sl_path l = sf_path (ma_file m)"
    using in_file_path[OF l] i m by (simp add: indexes_def)
  ultimately have "check_located i (sy_source_file_id s) l msg = None"
    by (simp add: check_located_def file_path_of_def of_file)
  with found show ?thesis by (rule that)
qed

lemma indexed_known:
  "indexes i modules \<Longrightarrow> sid \<in> set (concat (map module_ids modules)) \<Longrightarrow> known_symbol i sid"
  unfolding indexes_def known_symbol_def all_symbols_ids[symmetric]
  by (auto dest!: mset_eq_setD)

lemma call_owner:
  assumes "analysed modules" and "c \<in> set (concat (map ma_calls modules))"
  obtains m where "m \<in> set modules" and "wc_caller_symbol_id c \<in> set (module_ids m)"
    and "in_file (ma_file m) (wc_location c)"
  using assms analysed_sound by (fastforce simp: sound_module_def)

lemma resolve_call_returns:
  assumes "analysed modules" and "c \<in> set (concat (map ma_calls modules))"
  shows "resolve_call (new_context modules) c \<noteq> None"
proof -
  obtain m where m: "m \<in> set modules" "wc_caller_symbol_id c \<in> set (module_ids m)"
    using call_owner[OF assms] .
  show ?thesis
    using canonicalize_returns[OF assms(1) m, of "wc_reference c"]
      resolution_names_recorded_symbols[OF assms(1) m, of "wc_reference c"]
    by (auto simp: resolve_call_def run_bind_def)
qed

lemma resolved_call_accepted:
  assumes a: "analysed modules" and i: "indexes i modules"
    and raw: "raw \<in> set (concat (map ma_calls modules))"
    and c: "resolve_call (new_context modules) raw = Some (Inr c)"
  shows "check_call_site i c = None"
proof -
  obtain m where m: "m \<in> set modules" "wc_caller_symbol_id raw \<in> set (module_ids m)"
    "in_file (ma_file m) (wc_location raw)"
    using call_owner[OF a raw] .
  obtain found where found: "resolve_call_symbol (new_context modules) (wc_caller_symbol_id raw)
      (wc_reference raw) = Some (Inr found)" "set_option found \<subseteq> set (concat (map module_ids modules))"
    using resolution_names_recorded_symbols[OF a m(1,2)] by blast
  obtain canonical where "canonicalize_reference (new_context modules) (wc_caller_symbol_id raw)
      (wc_reference raw) = Some (Inr canonical)"
    using canonicalize_returns[OF a m(1,2)] by blast
  then have "ca_caller_symbol_id c = wc_caller_symbol_id raw" "ca_callee_symbol_id c = found"
    "ca_source_location c = wc_location raw"
    using c found(1)
    by (auto simp: resolve_call_def run_bind_def construct_call_def call_site_of_def strip_callee_reference_def
        split: if_splits)
  moreover obtain s where "symbol_of i (wc_caller_symbol_id raw) = Some s"
    "check_located i (sy_source_file_id s) (wc_location raw)
       ''call-site location must match its caller symbol file'' = None"
    using indexed_located[OF a i m] .
  ultimately show ?thesis
    using found(2) indexed_known[OF i] by (auto simp: check_call_site_def split: option.splits)
qed

lemma resolved_call_fields:
  assumes "resolve_call ctx raw = Some (Inr c)"
  shows "ca_caller_symbol_id c = wc_caller_symbol_id raw" and "ca_source_location c = wc_location raw"
  using assms by (auto simp: resolve_call_def run_bind_def construct_call_def call_site_of_def
      strip_callee_reference_def split: option.splits sum.splits if_splits)

lemma resolved_import_fields:
  assumes "resolve_import ctx raw = Inr (b, ds)"
  shows "im_owner_symbol_id b = wi_owner_symbol_id raw" and "im_source_location b = wi_location raw"
  using assms by (auto simp: resolve_import_def import_binding_of_def construct_import_def
      validate_import_def bind_result_eq_Inr split: if_splits option.splits)

lemma resolved_import_accepted:
  assumes a: "analysed modules" and i: "indexes i modules"
    and raw: "raw \<in> set (concat (map ma_imports modules))"
    and b: "resolve_import (new_context modules) raw = Inr (b, ds)"
  shows "check_import i b = None"
proof -
  obtain m where m: "m \<in> set modules" "wi_owner_symbol_id raw \<in> set (module_ids m)"
    "in_file (ma_file m) (wi_location raw)"
    using import_owner[OF a raw] .
  have "im_owner_symbol_id b = wi_owner_symbol_id raw" "im_source_location b = wi_location raw"
    "im_resolved_symbol_id b = None \<or> (\<exists>n. im_resolved_symbol_id b = unique_symbol_id (new_context modules) n)"
    using b
    by (auto simp: resolve_import_def import_binding_of_def construct_import_def validate_import_def bind_result_eq_Inr
        split: if_splits option.splits)
  moreover obtain s where "symbol_of i (wi_owner_symbol_id raw) = Some s"
    "check_located i (sy_source_file_id s) (wi_location raw)
       ''import location must match its owning scope file'' = None"
    using indexed_located[OF a i m] .
  ultimately show ?thesis
    using unique_symbol_known indexed_known[OF i] unfolding check_import_def
    by (auto split: option.splits)
qed

lemma traverse_Inl: "traverse f xs = Inl e \<Longrightarrow> \<exists>x \<in> set xs. f x = Inl e"
  by (induction xs) (auto simp: bind_result_def split: sum.splits)

lemma run_traverse_Inl: "run_traverse f xs = Some (Inl e) \<Longrightarrow> \<exists>x \<in> set xs. f x = Some (Inl e)"
  by (induction xs) (auto simp: run_bind_def split: sum.splits option.splits)

text \<open>The exceptions of the two record classes that resolution constructs.\<close>

definition import_refused :: "resolution_context \<Rightarrow> raw_import \<Rightarrow> error \<Rightarrow> bool" where
  "import_refused ctx raw e \<longleftrightarrow> (\<exists>canonical. canonical_import_reference ctx raw = Inr canonical \<and>
     construct_import (import_binding_of ctx raw canonical) = Inl e)"

definition call_refused :: "resolution_context \<Rightarrow> raw_call \<Rightarrow> error \<Rightarrow> bool" where
  "call_refused ctx raw e \<longleftrightarrow> (\<exists>canonical callee.
     canonicalize_reference ctx (wc_caller_symbol_id raw) (wc_reference raw) = Some (Inr canonical) \<and>
     resolve_call_symbol ctx (wc_caller_symbol_id raw) (wc_reference raw) = Some (Inr callee) \<and>
     construct_call (call_site_of raw canonical callee) = Inl e)"

lemma resolve_import_raises:
  assumes "analysed modules" and "raw \<in> set (concat (map ma_imports modules))"
    and "resolve_import (new_context modules) raw = Inl e"
  shows "import_refused (new_context modules) raw e"
proof -
  obtain c where c: "canonical_import_reference (new_context modules) raw = Inr c"
    using canonical_import_returns[OF assms(1,2)] by blast
  have "\<exists>ds. import_diagnostics raw c = Inr ds"
    by (simp add: import_diagnostics_def new_diagnostic_def validate_diagnostic_def)
  then show ?thesis using assms(3) c
    by (auto simp: resolve_import_def import_refused_def bind_result_def split: sum.splits)
qed

lemma resolve_call_raises:
  assumes "analysed modules" and "raw \<in> set (concat (map ma_calls modules))"
    and "resolve_call (new_context modules) raw = Some (Inl e)"
  shows "call_refused (new_context modules) raw e"
proof -
  obtain m where m: "m \<in> set modules" "wc_caller_symbol_id raw \<in> set (module_ids m)"
    using call_owner[OF assms(1,2)] .
  show ?thesis
    using canonicalize_returns[OF assms(1) m, of "wc_reference raw"]
      resolution_names_recorded_symbols[OF assms(1) m, of "wc_reference raw"] assms(3)
    by (auto simp: resolve_call_def run_bind_def call_refused_def)
qed

lemma collisions_return:
  assumes "indexes i modules"
  shows "\<exists>ds. collision_diagnostics (new_context modules) = Inr ds"
  using assms unfolding collision_diagnostics_def
  by (intro traverse_returns)
    (auto simp: new_diagnostic_def validate_diagnostic_def indexes_def new_context_def)

text \<open>
  C8. On the modules of a project whose symbols have different identities, resolution always
  returns, cyclic imports or not, and there are two outcomes.  Either it yields one record per
  import and per call, in the order of the source, each accepted by the validators of the source
  index: caller, callee and owner are recorded symbols and the location is in the file of its owner.
  Or it raises the \<open>ValidationError\<close> of the record it builds for one of the imports or calls, as for
  a wildcard import; no other exception leaves it.
\<close>

theorem resolution_is_accepted:
  assumes a: "analysed modules" and i: "indexes i modules"
  shows "case resolve_modules modules of
      None \<Rightarrow> False
    | Some (Inr res) \<Rightarrow>
        map (\<lambda>b. (im_owner_symbol_id b, im_source_location b)) (rs_imports res) =
          map (\<lambda>raw. (wi_owner_symbol_id raw, wi_location raw)) (concat (map ma_imports modules)) \<and>
        map (\<lambda>c. (ca_caller_symbol_id c, ca_source_location c)) (rs_call_sites res) =
          map (\<lambda>raw. (wc_caller_symbol_id raw, wc_location raw)) (concat (map ma_calls modules)) \<and>
        list_all (\<lambda>b. check_import i b = None) (rs_imports res) \<and>
        list_all (\<lambda>c. check_call_site i c = None) (rs_call_sites res)
    | Some (Inl e) \<Rightarrow>
        list_ex (\<lambda>raw. import_refused (new_context modules) raw e) (concat (map ma_imports modules)) \<or>
        list_ex (\<lambda>raw. call_refused (new_context modules) raw e) (concat (map ma_calls modules))"
proof -
  let ?ctx = "new_context modules"
  let ?raws = "concat (map ma_imports modules)" and ?calls = "concat (map ma_calls modules)"
  obtain ds where ds: "collision_diagnostics ?ctx = Inr ds" using collisions_return[OF i] by blast
  have "run_traverse (resolve_call ?ctx) ?calls \<noteq> None"
    using resolve_call_returns[OF a] by (rule run_traverse_returns)
  then obtain rc where rc: "run_traverse (resolve_call ?ctx) ?calls = Some rc" by blast
  show ?thesis
  proof (cases "traverse (resolve_import ?ctx) ?raws")
    case (Inl e)
    then show ?thesis
      using traverse_Inl[OF Inl] resolve_import_raises[OF a]
      by (auto simp: resolve_modules_def run_bind_def ds list_ex_iff simp del: set_concat)
  next
    case bound: (Inr bs)
    show ?thesis
    proof (cases rc)
      case (Inl e)
      then show ?thesis
        using run_traverse_Inl[of "resolve_call ?ctx" ?calls e] rc resolve_call_raises[OF a]
        by (auto simp: resolve_modules_def run_bind_def ds bound list_ex_iff simp del: set_concat)
    next
      case (Inr cs)
      have calls: "list_all2 (\<lambda>raw c. resolve_call ?ctx raw = Some (Inr c)) ?calls cs"
        using run_traverse_Inr rc Inr by blast
      have binds: "list_all2 (\<lambda>raw b. resolve_import ?ctx raw = Inr b) ?raws bs"
        using bound by (simp only: traverse_Inr_iff)
      have "list_all2 (\<lambda>raw c. check_call_site i c = None \<and> ca_caller_symbol_id c = wc_caller_symbol_id raw \<and>
          ca_source_location c = wc_location raw) ?calls cs"
        using calls by (rule list.rel_mono_strong)
          (auto simp: resolved_call_accepted[OF a i] resolved_call_fields simp del: set_concat)
      moreover have "list_all2 (\<lambda>raw b. check_import i (fst b) = None \<and>
          im_owner_symbol_id (fst b) = wi_owner_symbol_id raw \<and>
          im_source_location (fst b) = wi_location raw) ?raws bs"
        using binds by (rule list.rel_mono_strong)
          (auto simp: resolved_import_accepted[OF a i] resolved_import_fields simp del: set_concat)
      moreover have "resolve_modules modules = Some (Inr \<lparr>rs_imports = map fst bs, rs_call_sites = cs,
          rs_diagnostics = ds @ concat (map snd bs), rs_context = ?ctx\<rparr>)"
        using rc by (simp add: resolve_modules_def run_bind_def ds bound Inr Let_def)
      ultimately show ?thesis
        by (auto simp: list_all2_conv_all_nth list_all_length intro!: nth_equalityI simp del: length_concat)
    qed
  qed
qed

section \<open>Wildcard imports\<close>

lemma dotted_reference_star: "\<not> dotted_reference (p @ ''*'')"
proof -
  have "\<exists>w. last (split_on (CHR ''.'') (p @ ''*'')) = w @ ''*''"
  proof (induction p)
    case (Cons c p)
    then show ?case
      using split_on_nonempty[of "CHR ''.''" "p @ ''*''"] by (cases "split_on (CHR ''.'') (p @ ''*'')") auto
  qed simp
  then obtain w where w: "last (split_on (CHR ''.'') (p @ ''*'')) = w @ ''*''" by blast
  have "\<not> python_name (w @ ''*'')"
    by (cases w) (auto simp: python_name_def name_start_def ascii_letter_def word_char_def Let_def
        ascii_digit_def)
  then show ?thesis
    using w split_on_nonempty last_in_set unfolding dotted_reference_def list_all_iff by metis
qed

lemma strip_star: "\<exists>q. strip (p @ ''*'') = q @ ''*''"
proof -
  have "\<exists>q. dropWhile is_space (p @ ''*'') = q @ ''*''"
    by (induction p) (auto simp: is_space_def)
  then obtain q where "dropWhile is_space (p @ ''*'') = q @ ''*''" by blast
  then show ?thesis by (simp add: strip_def is_space_def)
qed

lemma traverse_error: "x \<in> set xs \<Longrightarrow> f x = Inl e \<Longrightarrow> \<exists>e. traverse f xs = Inl e"
  by (induction xs) (auto simp: bind_result_def split: sum.splits)

text \<open>
  C35. One wildcard import whose package is known stops the whole indexing: the canonical
  reference \<open>package.*\<close> is refused by the import record, so the exception leaves
  \<open>resolve_modules\<close> and the \<open>WILDCARD_IMPORT\<close> diagnostic prepared for it is never reported.
\<close>

theorem wildcard_import_is_refused:
  assumes raw: "raw \<in> set (concat (map ma_imports modules))"
    and star: "wi_imported_name raw = Some ''*''"
    and canonical: "canonical_import_reference (new_context modules) raw = Inr (Some c)"
  shows "\<exists>e. resolve_modules modules = Some (Inl e)"
proof -
  have "\<exists>p. c = p @ ''*''"
    using canonical star
    by (auto simp: canonical_import_reference_def bind_result_eq_Inr split: option.splits if_splits)
  then obtain p where c: "c = p @ ''*''" by blast
  obtain q where q: "strip c = q @ ''*''" using strip_star c by blast
  have "validate_canonical_reference (Some c) = Inl (ValueError
      ''canonical import reference must be a dotted Python name'')"
    using dotted_reference_star[of q] by (simp add: validate_canonical_reference_def q)
  then have refused: "im_canonical_reference b \<noteq> Some c" if "construct_import b = Inr x" for b x
    using that by (auto simp: construct_import_def validate_import_def bind_result_eq_Inr split: if_splits)
  have "\<exists>e. resolve_import (new_context modules) raw = Inl e"
  proof (cases "resolve_import (new_context modules) raw")
    case (Inr found)
    then show ?thesis
      using refused by (fastforce simp: resolve_import_def import_binding_of_def canonical bind_result_eq_Inr)
  qed simp
  then obtain e where "traverse (resolve_import (new_context modules)) (concat (map ma_imports modules)) = Inl e"
    using traverse_error[OF raw] by blast
  then show ?thesis
    by (cases "collision_diagnostics (new_context modules)")
      (auto simp: resolve_modules_def Let_def run_bind_def)
qed
text \<open>A module whose only statement is \<open>from shop import *\<close>.\<close>

definition star_file :: source_file where
  "star_file = \<lparr>sf_file_id = ''sgfile:1'', sf_path = ''main.py'',
     sf_content_fingerprint = ''sha256:0'', sf_byte_size = 19\<rparr>"

definition line_one :: py_pos where
  "line_one = \<lparr>po_lineno = Some 1, po_col_offset = Some 0, po_end_lineno = Some 1,
     po_end_col_offset = Some 18\<rparr>"

definition star_body :: "py_node list" where
  "star_body = [PyImportFrom line_one (Some ''shop'') 0 [(''*'', None)]]"

definition star_id :: string where
  "star_id = stable_id ''sgsym'' [''sgfile:1'', ''main'', ''MODULE'', ''0'']"

lemma star_facts:
  "normalize_relative_path ''main.py'' = Inr ''main.py''" "strip ''main'' = ''main''" "strip ''MODULE'' = ''MODULE''"
  "str_int 0 = ''0''" "strip [] = []"
  by code_simp+

lemma star_extracted:
  "\<exists>m. extract_module star_file ''main'' star_body = Inr m \<and> module_ids m = [star_id] \<and>
     (\<exists>l. ma_imports m = [\<lparr>wi_owner_symbol_id = star_id, wi_module_name = ''shop'', wi_level = 0,
       wi_imported_name = Some ''*'', wi_local_name = None, wi_syntactic_reference = ''shop.*'',
       wi_location = l\<rparr>])"
  by (simp add: extract_module_def enter_module_def new_symbol_def symbol_id_def blank_def star_facts
      py_location_def validate_source_location_def Let_def construct_symbol_def star_file_def
      star_body_def span_before_def or_default_def no_position_def line_one_def record_direct_module_binding_def
      direct_binding_def record_import_from_def lookup_scope_def put_scope_def strip_symbol_text_def
      new_extractor_def add_import_def star_id_def module_ids_def)

lemma star_analysed:
  assumes "extract_module star_file ''main'' star_body = Inr m" and "module_ids m = [star_id]"
  shows "analysed [m]"
  using assms(1,2) extracted_sound(2,3)[OF assms(1)] by (auto simp: analysed_def)

theorem wildcard_import_is_refused_witness:
  "\<exists>m e. extract_module star_file ''main'' star_body = Inr m \<and> resolve_modules [m] = Some (Inl e)"
proof -
  obtain m l where m: "extract_module star_file ''main'' star_body = Inr m" "module_ids m = [star_id]"
    "ma_imports m = [\<lparr>wi_owner_symbol_id = star_id, wi_module_name = ''shop'', wi_level = 0,
       wi_imported_name = Some ''*'', wi_local_name = None, wi_syntactic_reference = ''shop.*'',
       wi_location = l\<rparr>]"
    using star_extracted by blast
  have "rc_module_for_scope (new_context [m]) star_id = Some m"
    by (rule context_scope(2)[OF star_analysed[OF m(1,2)]]) (simp_all add: m(2))
  then have "canonical_import_reference (new_context [m]) (hd (ma_imports m)) = Inr (Some ''shop.*'')"
    by (simp add: canonical_import_reference_def module_at_def m(3))
  then have "\<exists>e. resolve_modules [m] = Some (Inl e)"
    by (intro wildcard_import_is_refused) (simp_all add: m(3))
  with m(1) show ?thesis by blast
qed

section \<open>Names the resolution gets wrong\<close>

text \<open>
  C37. A parameter or local variable does not hide a module of the same name: when the reference
  written in the call is the qualified name of one recorded symbol, the call resolves to that
  symbol although the scope of the caller binds its first name itself.
\<close>

theorem shadowed_call_resolves_to_module:
  assumes chain: "scope_chain (rc_scope_by_id ctx) (Some caller) = Some (Inr (s # outer))"
    and aliases: "aliases_for_scope ctx (sy_symbol_id (si_symbol s)) = Inr aliases"
    and "aliases (reference_head reference) = None"
    and written: "reference_head reference \<in> si_writes s"
    and target: "unique_symbol_id ctx reference = Some target" and "\<not> starts_with ''<'' reference"
  shows "resolve_call_symbol ctx caller reference = Some (Inr (Some target))"
  using assms by (simp add: resolve_call_symbol_def canonicalize_reference_def run_bind_def)

text \<open>
  A bare call in a method finds the methods of its class: when neither the method nor an
  import binds the name, the scope of the class is searched next, so \<open>ship()\<close> in a method
  resolves to the method \<open>ship\<close> that Python reaches only through \<open>self\<close>.
\<close>

theorem bare_call_resolves_to_method:
  assumes chain: "scope_chain (rc_scope_by_id ctx) (Some caller) = Some (Inr (s # c # outer))"
    and body: "name \<notin> si_writes s" "si_definitions s name = []"
    and klass: "name \<notin> si_writes c" "si_definitions c name = [target]" "sy_kind (si_symbol c) = SYM_CLASS"
    and canonical: "canonicalize_reference ctx caller name = Some (Inr name)"
    and "unique_symbol_id ctx name = None" and "CHR ''.'' \<notin> set name" and "\<not> starts_with ''<'' name"
  shows "resolve_call_symbol ctx caller name = Some (Inr (Some target))"
proof -
  obtain scope where "rc_scope_by_id ctx caller = Some scope"
    using chain by (subst (asm) scope_chain.simps) (auto split: option.splits)
  then show ?thesis
    using assms by (simp add: resolve_call_symbol_def run_bind_def scope_at_def)
qed

text \<open>
  A module \<open>shop\<close> with the function \<open>ship\<close>, and a module \<open>desk\<close> with a class \<open>Desk\<close> that has the
  methods \<open>ship\<close> and \<open>handle\<close>, and a function \<open>handler\<close> with the parameter \<open>shop\<close>.
\<close>

definition desk_symbol :: "string \<Rightarrow> string \<Rightarrow> symbol_kind \<Rightarrow> symbol_record" where
  "desk_symbol sid name kind = \<lparr>sy_symbol_id = sid, sy_source_file_id = ''sgfile:1'',
     sy_qualified_name = name, sy_kind = kind, sy_signature = [], sy_definition_ordinal = 0,
     sy_source_location = \<lparr>sl_path = ''desk.py'', sl_line_start = 1, sl_column_start = 0,
       sl_line_end = 1, sl_column_end = 0\<rparr>\<rparr>"

definition desk_scope :: "symbol_record \<Rightarrow> string option \<Rightarrow> string option \<Rightarrow> (string \<Rightarrow> string list) \<Rightarrow>
    string set \<Rightarrow> scope_info" where
  "desk_scope r parent enclosing definitions writes = \<lparr>si_symbol = r, si_parent_symbol_id = parent,
     si_enclosing_class_symbol_id = enclosing, si_first_parameter = None,
     si_definitions = definitions, si_writes = writes\<rparr>"

definition desk_analysis :: "string \<Rightarrow> symbol_record list \<Rightarrow> (string \<rightharpoonup> scope_info) \<Rightarrow> module_analysis" where
  "desk_analysis name symbols scopes = \<lparr>ma_module_name = name, ma_file = star_file, ma_symbols = symbols,
     ma_scopes = scopes, ma_imports = [], ma_calls = [], ma_references = [], ma_bindings = [],
     ma_framework_assignments = [], ma_routes = [], ma_router_includes = []\<rparr>"

definition shop_symbols :: "symbol_record list" where
  "shop_symbols = [desk_symbol ''1'' ''shop'' SYM_MODULE, desk_symbol ''2'' ''shop.ship'' SYM_FUNCTION]"

definition desk_symbols :: "symbol_record list" where
  "desk_symbols = [desk_symbol ''3'' ''desk'' SYM_MODULE, desk_symbol ''4'' ''desk.Desk'' SYM_CLASS,
     desk_symbol ''5'' ''desk.Desk.ship'' SYM_METHOD, desk_symbol ''6'' ''desk.Desk.handle'' SYM_METHOD,
     desk_symbol ''7'' ''desk.handler'' SYM_FUNCTION]"

definition desk_class :: scope_info where
  "desk_class = desk_scope (desk_symbols ! 1) (Some ''3'') (Some ''4'')
     (\<lambda>n. if n = ''ship'' then [''5''] else if n = ''handle'' then [''6''] else []) {}"

definition desk_handle :: scope_info where
  "desk_handle = desk_scope (desk_symbols ! 3) (Some ''4'') (Some ''4'') (\<lambda>_. []) {''self''}"

definition desk_handler :: scope_info where
  "desk_handler = desk_scope (desk_symbols ! 4) (Some ''3'') None (\<lambda>_. []) {''shop''}"

definition desk_top :: scope_info where
  "desk_top = desk_scope (desk_symbols ! 0) None None
     (\<lambda>n. if n = ''Desk'' then [''4''] else if n = ''handler'' then [''7''] else []) {''Desk'', ''handler''}"

definition desk_context :: resolution_context where
  "desk_context = new_context
     [desk_analysis ''shop'' shop_symbols
        [''1'' \<mapsto> desk_scope (shop_symbols ! 0) None None (\<lambda>n. if n = ''ship'' then [''2''] else []) {''ship''}],
      desk_analysis ''desk'' desk_symbols
        [''3'' \<mapsto> desk_top, ''4'' \<mapsto> desk_class, ''6'' \<mapsto> desk_handle, ''7'' \<mapsto> desk_handler]]"

lemma desk_scopes:
  "rc_scope_by_id desk_context ''3'' = Some desk_top" "rc_scope_by_id desk_context ''4'' = Some desk_class"
  "rc_scope_by_id desk_context ''6'' = Some desk_handle" "rc_scope_by_id desk_context ''7'' = Some desk_handler"
  by (simp_all add: desk_context_def new_context_def desk_analysis_def map_add_def)

lemma desk_chains:
  "scope_chain (rc_scope_by_id desk_context) (Some ''7'') = Some (Inr [desk_handler, desk_top])"
  "scope_chain (rc_scope_by_id desk_context) (Some ''6'') = Some (Inr [desk_handle, desk_class, desk_top])"
proof -
  have none: "scope_chain (rc_scope_by_id desk_context) None = Some (Inr [])"
    by (subst scope_chain.simps) simp
  have top: "scope_chain (rc_scope_by_id desk_context) (Some ''3'') = Some (Inr [desk_top])"
    by (subst scope_chain.simps) (simp add: desk_scopes none desk_top_def desk_scope_def)
  have klass: "scope_chain (rc_scope_by_id desk_context) (Some ''4'') = Some (Inr [desk_class, desk_top])"
    by (subst scope_chain.simps) (simp add: desk_scopes top desk_class_def desk_scope_def)
  show "scope_chain (rc_scope_by_id desk_context) (Some ''7'') = Some (Inr [desk_handler, desk_top])"
    by (subst scope_chain.simps) (simp add: desk_scopes top desk_handler_def desk_scope_def)
  show "scope_chain (rc_scope_by_id desk_context) (Some ''6'') = Some (Inr [desk_handle, desk_class, desk_top])"
    by (subst scope_chain.simps) (simp add: desk_scopes klass desk_handle_def desk_scope_def)
qed

lemma desk_names:
  "unique_symbol_id desk_context ''shop.ship'' = Some ''2''" "unique_symbol_id desk_context ''ship'' = None"
  by (simp_all add: unique_symbol_id_def desk_context_def new_context_def desk_analysis_def all_symbols_def
      shop_symbols_def desk_symbols_def desk_symbol_def single_def)

lemma desk_aliases: "aliases_for_scope desk_context sid = Inr (\<lambda>_. None)"
  by (simp add: aliases_for_scope_def desk_context_def new_context_def desk_analysis_def single_def)

theorem shadowed_call_resolves_to_module_witness:
  "resolve_call_symbol desk_context ''7'' ''shop.ship'' = Some (Inr (Some ''2''))"
  using shadowed_call_resolves_to_module[OF desk_chains(1) desk_aliases refl, of "''shop.ship''"] desk_names(1)
  by (simp add: desk_handler_def desk_scope_def reference_head_def starts_with_def)

theorem bare_call_resolves_to_method_witness:
  "resolve_call_symbol desk_context ''6'' ''ship'' = Some (Inr (Some ''5''))"
proof -
  have "canonicalize_reference desk_context ''6'' ''ship'' = Some (Inr ''ship'')"
    by (simp add: canonicalize_reference_def run_bind_def desk_chains desk_aliases starts_with_def)
  then show ?thesis
    using bare_call_resolves_to_method[OF desk_chains(2), of "''ship''" "''5''"] desk_names(2)
    by (simp add: desk_handle_def desk_class_def desk_scope_def desk_symbols_def desk_symbol_def starts_with_def)
qed

text \<open>
  C36. A function defined in the body of a module is recorded among the names its module scope
  writes.  So a call by its bare name, from a scope of that module in which no import and no inner
  definition or assignment binds the name and of which no symbol of the project is the qualified name,
  is not resolved, although the lookup of \<open>module.name\<close> that would come next has the function.
\<close>

theorem module_function_is_not_found:
  assumes recorded: "record_direct_module_binding file
      (PyFunctionDef pos is_async name ps defaults kw_defaults decorators body) x = Inr y"
    and "ex_symbols x = module_symbol # rest"
    and bound: "ex_scopes y (sy_symbol_id module_symbol) = Some module_scope"
    and later: "si_writes module_scope \<subseteq> si_writes final"
    and chain: "scope_chain (rc_scope_by_id ctx) (Some caller) = Some (Inr (inner @ [final]))"
    and inner: "list_all (\<lambda>s. name \<notin> si_writes s \<and> si_definitions s name = []) inner"
    and no_import: "list_all (\<lambda>s. \<exists>aliases. aliases_for_scope ctx (sy_symbol_id (si_symbol s)) = Inr aliases \<and>
      aliases name = None) (inner @ [final])"
    and global: "unique_symbol_id ctx name = None"
    and bare: "CHR ''.'' \<notin> set name" "\<not> starts_with ''<'' name"
    and own: "module_at ctx caller = Inr m" "unique_symbol_id ctx (ma_module_name m @ ''.'' @ name) = Some target"
  shows "resolve_call_symbol ctx caller name = Some (Inr None) \<and>
    resolve_module_name ctx caller name = Some (Inr (Some target))"
proof -
  have "name \<in> si_writes module_scope"
    using assms(1-3)
    by (auto simp: record_direct_module_binding_def direct_binding_def bind_result_eq_Inr
        update_scope_def add_writes_def)
  then have "resolve_bare_name name [final] = Some None" using later by (auto simp: Let_def)
  then have given_up: "resolve_bare_name name (inner @ [final]) = Some None"
    using inner by (induction inner) (auto simp: Let_def)
  have head: "reference_head name = name" "reference_suffix name = []"
    using bare(1) by (auto simp: reference_head_def reference_suffix_def takeWhile_eq_all_conv dropWhile_eq_Nil_conv)
  have "canonical_in_chain ctx name name [] chain = Inr name"
    if "list_all (\<lambda>s. \<exists>aliases. aliases_for_scope ctx (sy_symbol_id (si_symbol s)) = Inr aliases \<and>
      aliases name = None) chain" for chain
    using that by (induction chain) auto
  then have "canonicalize_reference ctx caller name = Some (Inr name)"
    using no_import chain bare(2) by (simp add: canonicalize_reference_def run_bind_def head)
  moreover obtain scope where "rc_scope_by_id ctx caller = Some scope"
    using chain by (subst (asm) scope_chain.simps) (auto split: option.splits)
  ultimately show ?thesis
    using bare global chain given_up own
    by (simp add: resolve_call_symbol_def resolve_module_name_def run_bind_def scope_at_def)
qed

text \<open>The function \<open>ship\<close> in the body of \<open>main\<close>, called from a function \<open>handle\<close> without locals.\<close>

definition ship_definition :: py_node where
  "ship_definition = PyFunctionDef line_one False ''ship''
     \<lparr>pp_posonlyargs = [], pp_args = [], pp_vararg = None, pp_kwonlyargs = [], pp_kwarg = None\<rparr>
     [] [] [] []"

lemma main_module_entered:
  "\<exists>x r. enter_module star_file ''main'' = Inr (star_id, x) \<and> ex_symbols x = [r] \<and>
     sy_symbol_id r = star_id \<and> (\<exists>scope. ex_scopes x star_id = Some scope \<and> si_parent_symbol_id scope = None)"
  by (simp add: enter_module_def new_symbol_def symbol_id_def blank_def star_facts
      py_location_def validate_source_location_def Let_def construct_symbol_def star_file_def
      span_before_def or_default_def no_position_def put_scope_def strip_symbol_text_def
      new_extractor_def star_id_def)

definition ship_caller :: scope_info where
  "ship_caller = desk_scope (desk_symbol ''h'' ''main.handle'' SYM_FUNCTION) (Some star_id) None (\<lambda>_. []) {}"

definition ship_analysis :: "scope_info \<Rightarrow> module_analysis" where
  "ship_analysis module_scope = desk_analysis ''main''
     [desk_symbol star_id ''main'' SYM_MODULE, desk_symbol ''s'' ''main.ship'' SYM_FUNCTION,
      desk_symbol ''h'' ''main.handle'' SYM_FUNCTION]
     [star_id \<mapsto> module_scope, ''h'' \<mapsto> ship_caller]"

lemma star_id_shape: "star_id \<noteq> ''h''"
  by (simp add: star_id_def stable_id_def)

theorem module_function_is_not_found_witness:
  "\<exists>x y module_scope. enter_module star_file ''main'' = Inr (star_id, x) \<and>
     record_direct_module_binding star_file ship_definition x = Inr y \<and>
     ex_scopes y star_id = Some module_scope \<and>
     resolve_call_symbol (new_context [ship_analysis module_scope]) ''h'' ''ship'' = Some (Inr None)"
proof -
  obtain x r scope where x: "enter_module star_file ''main'' = Inr (star_id, x)" "ex_symbols x = [r]"
    "sy_symbol_id r = star_id" "ex_scopes x star_id = Some scope" "si_parent_symbol_id scope = None"
    using main_module_entered by blast
  then obtain y where y: "record_direct_module_binding star_file ship_definition x = Inr y"
    by (auto simp: record_direct_module_binding_def ship_definition_def direct_binding_def star_facts
        py_location_def validate_source_location_def Let_def star_file_def span_before_def
        or_default_def line_one_def lookup_scope_def)
  then obtain module_scope where bound: "ex_scopes y star_id = Some module_scope"
    and parent: "si_parent_symbol_id module_scope = None"
    using x by (auto simp: record_direct_module_binding_def ship_definition_def direct_binding_def
        bind_result_eq_Inr update_scope_def add_writes_def)
  let ?ctx = "new_context [ship_analysis module_scope]"
  have scopes: "rc_scope_by_id ?ctx ''h'' = Some ship_caller" "rc_scope_by_id ?ctx star_id = Some module_scope"
    using star_id_shape by (simp_all add: new_context_def ship_analysis_def desk_analysis_def)
  have none: "scope_chain (rc_scope_by_id ?ctx) None = Some (Inr [])" by (subst scope_chain.simps) simp
  have top: "scope_chain (rc_scope_by_id ?ctx) (Some star_id) = Some (Inr [module_scope])"
    by (subst scope_chain.simps) (simp add: scopes none parent)
  have chain: "scope_chain (rc_scope_by_id ?ctx) (Some ''h'') = Some (Inr ([ship_caller] @ [module_scope]))"
    by (subst scope_chain.simps) (simp add: scopes top ship_caller_def desk_scope_def)
  have aliases: "aliases_for_scope ?ctx sid = Inr (\<lambda>_. None)" for sid
    by (simp add: aliases_for_scope_def new_context_def ship_analysis_def desk_analysis_def single_def)
  have names: "unique_symbol_id ?ctx ''ship'' = None" "unique_symbol_id ?ctx ''main.ship'' = Some ''s''"
    by (simp_all add: unique_symbol_id_def new_context_def ship_analysis_def desk_analysis_def
        all_symbols_def desk_symbol_def single_def)
  have main: "ma_module_name (ship_analysis module_scope) = ''main''"
    by (simp add: ship_analysis_def desk_analysis_def)
  have at: "module_at ?ctx ''h'' = Inr (ship_analysis module_scope)"
    using star_id_shape by (simp add: module_at_def new_context_def ship_analysis_def desk_analysis_def)
  have "resolve_call_symbol ?ctx ''h'' ''ship'' = Some (Inr None) \<and>
      resolve_module_name ?ctx ''h'' ''ship'' = Some (Inr (Some ''s''))"
    by (rule module_function_is_not_found[where m = "ship_analysis module_scope",
          OF y[unfolded ship_definition_def] x(2) _ subset_refl chain])
      (use aliases in \<open>simp_all add: x(3) bound names at main ship_caller_def desk_scope_def starts_with_def\<close>)
  then show ?thesis using x(1) y bound by blast
qed

section \<open>A project that resolves\<close>

text \<open>A module that imports \<open>json\<close> and calls \<open>ready()\<close>, and an index over its symbols.\<close>

definition plain_body :: "py_node list" where
  "plain_body = [PyImport line_one [(''json'', None)],
     PyOther [PyCall line_one (PyName line_one ''ready'' CtxLoad) [] []]]"

definition plain_index :: "module_analysis \<Rightarrow> source_index" where
  "plain_index m = demo_index\<lparr>ix_indexed_files := [star_file], ix_symbols := ma_symbols m\<rparr>"

lemma plain_facts: "strip ''json'' = ''json''" "dotted_reference ''json''" "python_name ''json''"
  "strip ''ready'' = ''ready''" "syntactic_import_reference ''json''" "\<not> ends_with ''json'' ''.*''"
  "source_reference_for_payment_identifier ''ready'' l = Inr None"
  "split_on CHR ''.'' ''json'' = [''json'']"
proof -
  have "casefold (strip ''ready'') \<notin> set RAZORPAY_IDENTIFIERS" by code_simp
  then show "source_reference_for_payment_identifier ''ready'' l = Inr None"
    by (simp add: source_reference_for_payment_identifier_def)
qed code_simp+

lemma plain_extracted:
  "\<exists>m l. extract_module star_file ''main'' plain_body = Inr m \<and> module_ids m = [star_id] \<and>
     map (\<lambda>c. (wc_caller_symbol_id c, wc_reference c)) (ma_calls m) = [(star_id, ''ready'')] \<and>
     ma_imports m = [\<lparr>wi_owner_symbol_id = star_id, wi_module_name = ''json'', wi_level = 0,
       wi_imported_name = None, wi_local_name = Some ''json'', wi_syntactic_reference = ''json'',
       wi_location = l\<rparr>]"
  by (simp add: extract_module_def enter_module_def new_symbol_def symbol_id_def blank_def star_facts
      py_location_def validate_source_location_def Let_def construct_symbol_def star_file_def
      plain_body_def span_before_def or_default_def no_position_def line_one_def
      record_direct_module_binding_def direct_binding_def record_import_def lookup_scope_def
      put_scope_def strip_symbol_text_def new_extractor_def add_import_def star_id_def module_ids_def
      import_reference_def construct_reference_def validate_reference_def plain_facts alias_name_def
      update_scope_def add_reference_def record_call_def router_include_of_def record_name_def
      add_payment_def call_reference_def)

theorem resolution_is_accepted_witness:
  "\<exists>m res. extract_module star_file ''main'' plain_body = Inr m \<and>
     resolve_modules [m] = Some (Inr res) \<and> length (rs_imports res) = 1 \<and> length (rs_call_sites res) = 1 \<and>
     list_all (\<lambda>c. check_call_site (plain_index m) c = None) (rs_call_sites res)"
proof -
  obtain m l where m: "extract_module star_file ''main'' plain_body = Inr m" "module_ids m = [star_id]"
    "map (\<lambda>c. (wc_caller_symbol_id c, wc_reference c)) (ma_calls m) = [(star_id, ''ready'')]"
    "ma_imports m = [\<lparr>wi_owner_symbol_id = star_id, wi_module_name = ''json'', wi_level = 0,
       wi_imported_name = None, wi_local_name = Some ''json'', wi_syntactic_reference = ''json'',
       wi_location = l\<rparr>]"
    using plain_extracted by (elim exE conjE) (rule that)
  let ?ctx = "new_context [m]"
  have of_m: "ma_file m = star_file" "ma_module_name m = ''main''" using extracted_sound(2,3)[OF m(1)] .
  have a: "analysed [m]" using m(1,2) of_m by (auto simp: analysed_def)
  have i: "indexes (plain_index m) [m]"
    using star_facts(1) by (simp add: indexes_def plain_index_def all_symbols_def of_m star_file_def)
  have at: "module_at ?ctx star_id = Inr m"
    using context_scope(2)[OF a, of m star_id] m(2) by (simp add: module_at_def)
  have json: "canonical_import_reference ?ctx (hd (ma_imports m)) = Inr (Some ''json'')"
    by (simp add: m(4) canonical_import_reference_def at)
  have "\<not> import_refused ?ctx (hd (ma_imports m)) e" for e
    unfolding import_refused_def json
    by (simp add: m(4) import_binding_of_def construct_import_def validate_import_def
        validate_syntactic_reference_def validate_local_name_def validate_canonical_reference_def plain_facts)
  then have imports_ok: "\<not> list_ex (\<lambda>raw. import_refused ?ctx raw e) (concat (map ma_imports [m]))" for e
    using m(4) by simp
  have aliases: "\<exists>f. aliases_for_scope ?ctx sid = Inr f \<and> f ''ready'' = None" for sid
    using at by (auto simp: aliases_for_scope_def new_context_def m(4) alias_of_def single_def
        canonical_import_reference_def module_at_def split: option.splits)
  have "canonical_in_chain ?ctx ''ready'' ''ready'' [] chain = Inr ''ready''" for chain
  proof (induction chain)
    case (Cons s ss)
    obtain f where "aliases_for_scope ?ctx (sy_symbol_id (si_symbol s)) = Inr f" "f ''ready'' = None"
      using aliases by blast
    then show ?case using Cons by simp
  qed simp
  moreover have "\<exists>chain. scope_chain (rc_scope_by_id ?ctx) (Some star_id) = Some (Inr chain)"
    using analysed_chain[OF a, of m star_id] m(2) by auto
  ultimately have "canonicalize_reference ?ctx star_id ''ready'' = Some (Inr ''ready'')"
    by (auto simp: canonicalize_reference_def run_bind_def starts_with_def reference_head_def reference_suffix_def)
  then have calls_ok: "\<not> list_ex (\<lambda>raw. call_refused ?ctx raw e) (concat (map ma_calls [m]))" for e
    using m(3) by (auto simp: call_refused_def call_site_of_def construct_call_def)
  have "length (ma_calls m) = 1" using arg_cong[OF m(3), of length] by simp
  then show ?thesis
    using resolution_is_accepted[OF a i] imports_ok calls_ok m(1,4)
    by (auto split: option.splits sum.splits dest: map_eq_imp_length_eq)
qed

end
