(* ===== verification/RemediationProperties.thy ===== *)
theory RemediationProperties
  imports Remediation
begin

text \<open>
  Properties of remediation.  A patch is characterised against \<open>rewrite_regions\<close>, which replaces all
  selected regions of a text at once: the splicing from the last region to the first computes it
  because the regions are checked to be separated and unchanged.  Then, when a patch is offered at all,
  what the explanation may cite, and a source on which the region of a symbol is not its definition.
\<close>

section \<open>Patches as simultaneous replacement\<close>

fun rewrite_regions :: "nat \<Rightarrow> selected_edit list \<Rightarrow> string \<Rightarrow> string" where
  "rewrite_regions position [] original = drop position original"
| "rewrite_regions position ((r, e) # xs) original =
     drop position (take (eg_start_offset r) original) @ sd_replacement_content e @
     rewrite_regions (eg_end_offset r) xs original"

fun separated :: "nat \<Rightarrow> selected_edit list \<Rightarrow> bool" where
  "separated position [] = True"
| "separated position ((r, e) # xs) =
     (position \<le> eg_start_offset r \<and> separated (eg_end_offset r) xs)"

definition region_inside :: "string \<Rightarrow> editable_region \<Rightarrow> bool" where
  "region_inside original r \<longleftrightarrow> eg_start_offset r \<le> eg_end_offset r \<and> eg_end_offset r \<le> length original"

lemma candidate_source_Cons:
  "candidate_source (x # xs) original = splice_region x (candidate_source xs original)"
  by (simp add: candidate_source_def)

lemma candidate_source_rewrites:
  assumes "separated position xs" and "\<forall>x \<in> set xs. region_inside original (fst x)"
    and "position \<le> length original"
  shows "candidate_source xs original = take position original @ rewrite_regions position xs original"
  using assms
proof (induction xs arbitrary: position)
  case Nil
  then show ?case by (simp add: candidate_source_def)
next
  case (Cons x xs)
  obtain r e where x: "x = (r, e)" by (cases x)
  have inside: "eg_start_offset r \<le> eg_end_offset r" "eg_end_offset r \<le> length original"
    using Cons.prems(2) by (simp_all add: x region_inside_def)
  have "candidate_source xs original =
      take (eg_end_offset r) original @ rewrite_regions (eg_end_offset r) xs original"
    using Cons inside by (simp add: x)
  moreover have "take position original @ drop position (take (eg_start_offset r) original) =
      take (eg_start_offset r) original"
    using Cons.prems(1) append_take_drop_id[of position "take (eg_start_offset r) original"]
    by (simp add: x min_def)
  ultimately show ?case using inside by (simp add: candidate_source_Cons splice_region_def x min_def)
qed

lemma check_file_edits_accepts:
  assumes "check_file_edits w file_fp original encoding (int position) xs = None"
  shows "separated position xs"
    and "\<forall>x \<in> set xs. sha256_digest_str (region_text original (fst x)) = eg_region_fingerprint (fst x) \<and>
      pw_encodable w encoding (sd_replacement_content (snd x))"
  using assms by (induction w file_fp original encoding "int position" xs arbitrary: position
      rule: check_file_edits.induct) (auto split: if_splits)

lemma check_file_edits_start:
  "check_file_edits w file_fp original encoding (- 1) xs = None \<Longrightarrow>
   check_file_edits w file_fp original encoding (int 0) xs = None"
  by (cases xs) (auto split: if_splits)

section \<open>Regions\<close>

lemma split_lines_Cons_not_Nil: "SemanticContext.split_lines (c # s) \<noteq> []"
  by (cases s) (auto split: list.splits)

lemma concat_split_lines: "concat (SemanticContext.split_lines s) = s"
proof (induction s rule: SemanticContext.split_lines.induct)
  case (3 c d s)
  then show ?case
    using split_lines_Cons_not_Nil[of d s] by (auto split: list.splits simp del: SemanticContext.split_lines.simps(2))
qed simp_all

lemma split_lines_nonempty: "[] \<notin> set (SemanticContext.split_lines s)"
  by (induction s rule: SemanticContext.split_lines.induct) (auto split: list.splits)

lemma take_lines: "take (length (concat (take n ls))) (concat ls) = concat (take n ls)"
  by (metis append_eq_conv_conj append_take_drop_id concat_append)

text \<open>The text between the two offsets is the lines from \<open>first\<close> to \<open>final\<close>.\<close>

lemma lines_between:
  fixes s first final
  defines "ls \<equiv> SemanticContext.split_lines s"
  assumes "1 \<le> first" "first \<le> final" "final \<le> length ls"
  defines "start \<equiv> length (concat (take (first - 1) ls))" and "finish \<equiv> length (concat (take final ls))"
  shows "drop start (take finish s) = concat (drop (first - 1) (take final ls))"
    and "start < finish" and "finish \<le> length s"
proof -
  have parts: "concat (take final ls) = concat (take (first - 1) ls) @ concat (drop (first - 1) (take final ls))"
    using assms(3) append_take_drop_id[of "first - 1" "take final ls"]
    by (metis concat_append min.absorb1 take_take diff_le_self le_trans)
  have "take finish s = concat (take final ls)"
    using take_lines[of final ls] concat_split_lines[of s] by (simp add: finish_def ls_def)
  then show "drop start (take finish s) = concat (drop (first - 1) (take final ls))"
    by (simp add: parts start_def)
  have "drop (first - 1) (take final ls) \<noteq> []" using assms(2-4) by simp
  moreover have "[] \<notin> set (drop (first - 1) (take final ls))"
    using split_lines_nonempty[of s] by (metis in_set_dropD in_set_takeD ls_def)
  ultimately have "concat (drop (first - 1) (take final ls)) \<noteq> []"
    by (cases "drop (first - 1) (take final ls)") auto
  then show "start < finish" using parts by (simp add: start_def finish_def)
  show "finish \<le> length s"
    using arg_cong[OF take_lines[of final ls], of length] concat_split_lines[of s]
    by (simp add: finish_def ls_def)
qed

definition faithful_region :: "editable_region \<Rightarrow> bool" where
  "faithful_region r \<longleftrightarrow> eg_start_offset r < eg_end_offset r \<and>
     length (eg_content r) = eg_end_offset r - eg_start_offset r \<and>
     eg_region_fingerprint r = sha256_digest_str (eg_content r)"

lemma construct_region_keeps: "construct_region r = Inr r' \<Longrightarrow> \<exists>path. r' = r\<lparr>eg_path := path\<rparr>"
  by (auto simp: construct_region_def bind_result_eq_Inr split: option.splits if_splits)

lemma symbol_region_faithful:
  assumes "symbol_region w i s m n = Inr (r, bytes)"
  shows "faithful_region r"
  using assms lines_between(2,3)[of "sl_line_start (sy_source_location s)" "sl_line_end (sy_source_location s)"]
  by (auto simp: symbol_region_def construct_region_def Let_def faithful_region_def bind_result_eq_Inr min_absorb2
      split: option.splits if_splits)

lemma collect_regions_from_symbols:
  assumes "collect_regions w i ss consumed regions = Inr result"
  shows "\<forall>r \<in> set result. r \<in> set regions \<or> (\<exists>s \<in> set ss. \<exists>m n bytes. symbol_region w i s m n = Inr (r, bytes))"
  using assms by (induction w i ss consumed regions rule: collect_regions.induct)
    (fastforce simp: bind_result_eq_Inr split: if_splits prod.splits)+

lemma build_symbol_regions_sound:
  assumes "build_symbol_regions w i ids = Inr regions" and "r \<in> set regions"
  obtains s m n bytes where "s \<in> set (ix_symbols i)" and "sy_symbol_id s \<in> set ids"
    and "symbol_region w i s m n = Inr (r, bytes)"
  using assms collect_regions_from_symbols[of w i _ 0 "[]" regions]
  by (fastforce simp: build_symbol_regions_def)

lemma select_edits_known:
  assumes "select_edits regions edits = Inr selected"
  shows "list_all2 (\<lambda>e x. snd x = e \<and> fst x \<in> set regions \<and>
    eg_region_reference (fst x) = sd_region_reference e) edits selected"
  using assms by (auto simp: select_edits_def traverse_Inr_iff elim!: list_all2_mono
      split: option.splits dest: dict_by_SomeD)

lemma select_edits_from_regions:
  assumes "select_edits regions edits = Inr selected" and "x \<in> set selected"
  shows "fst x \<in> set regions"
  using select_edits_known[OF assms(1)] assms(2)
  by (auto simp: list_all2_conv_all_nth in_set_conv_nth)

section \<open>What a patch contains\<close>

definition source_of :: "patch_world \<Rightarrow> string \<Rightarrow> string" where
  "source_of w path = (case read_python w path of Inl _ \<Rightarrow> [] | Inr (_, source, _) \<Rightarrow> source)"

definition rewritten :: "patch_world \<Rightarrow> selected_edit list \<Rightarrow> string \<Rightarrow> string" where
  "rewritten w selected path = rewrite_regions 0 (edits_of_file selected path) (source_of w path)"

definition current_region :: "patch_world \<Rightarrow> editable_region \<Rightarrow> bool" where
  "current_region w r \<longleftrightarrow> region_text (source_of w (eg_path r)) r = eg_content r"

text \<open>SHA-256 tells the text now found between the offsets of a region from the text shown.\<close>

definition change_detected :: "patch_world \<Rightarrow> editable_region \<Rightarrow> bool" where
  "change_detected w r \<longleftrightarrow> (current_region w r \<or>
     sha256_digest_str (region_text (source_of w (eg_path r)) r) \<noteq> sha256_digest_str (eg_content r))"

definition allowlisted :: "patch_world \<Rightarrow> string \<Rightarrow> bool" where
  "allowlisted w path \<longleftrightarrow> ends_with path ''.py'' \<and>
     (\<forall>part \<in> set (posix_parts path). casefold part \<notin> set FORBIDDEN_PARTS) \<and>
     \<not> pw_symlink_component w path"

definition sound_file_edit :: "patch_world \<Rightarrow> selected_edit list \<Rightarrow> string \<Rightarrow> bool" where
  "sound_file_edit w selected path \<longleftrightarrow> allowlisted w path \<and>
     (\<exists>raw encoding. read_python w path = Inr (raw, source_of w path, encoding)) \<and>
     separated 0 (edits_of_file selected path) \<and>
     (\<forall>x \<in> set (edits_of_file selected path). current_region w (fst x)) \<and>
     pw_valid_python w (rewritten w selected path)"

lemma read_python_allowlisted: "read_python w path = Inr x \<Longrightarrow> allowlisted w path"
  by (auto simp: read_python_def allowlisted_def list_ex_iff split: if_splits)

lemma set_edits_of_file: "set (edits_of_file selected path) = {x \<in> set selected. eg_path (fst x) = path}"
  by (auto simp: edits_of_file_def)

lemma current_region_inside:
  assumes "faithful_region r" and "current_region w r"
  shows "region_inside (source_of w (eg_path r)) r"
proof -
  have "length (region_text (source_of w (eg_path r)) r) = eg_end_offset r - eg_start_offset r"
    and "eg_start_offset r < eg_end_offset r"
    using assms by (simp_all add: faithful_region_def current_region_def)
  then show ?thesis by (auto simp: region_text_def region_inside_def min_def split: if_splits)
qed

lemma render_file_rewrites:
  assumes rendered: "render_file w selected path used = Inr (d, previews, used')"
    and regions: "\<forall>x \<in> set selected. faithful_region (fst x) \<and> change_detected w (fst x)"
  shows "d = render_diff w path (source_of w path) (rewritten w selected path)"
    and "previews = map preview_of (rev (edits_of_file selected path))"
    and "used' = used + length (utf8 (rewritten w selected path))" and "used' \<le> max_material"
    and "sound_file_edit w selected path"
proof -
  let ?es = "edits_of_file selected path"
  obtain raw original encoding where read: "read_python w path = Inr (raw, original, encoding)"
    and checked: "check_file_edits w (sha256_digest raw) original encoding (- 1) ?es = None"
    and "used + length (utf8 (candidate_source ?es original)) \<le> max_material"
    and "pw_valid_python w (candidate_source ?es original)"
    and "d = render_diff w path original (candidate_source ?es original)"
    and "previews = map preview_of (rev ?es)"
    and "used' = used + length (utf8 (candidate_source ?es original))"
    using rendered by (auto simp: render_file_def Let_def bind_result_eq_Inr split: option.splits if_splits)
  note facts = this
  have source: "source_of w path = original" by (simp add: source_of_def read)
  note accepted = check_file_edits_accepts[OF check_file_edits_start[OF checked]]
  have current: "current_region w (fst x)" if "x \<in> set ?es" for x
  proof -
    have "x \<in> set selected" "eg_path (fst x) = path" using that by (simp_all add: set_edits_of_file)
    moreover have "sha256_digest_str (region_text original (fst x)) = eg_region_fingerprint (fst x)"
      using accepted(2) that by blast
    ultimately show ?thesis using regions source
      by (metis change_detected_def faithful_region_def)
  qed
  have "region_inside original (fst x)" if "x \<in> set ?es" for x
    using current_region_inside[of "fst x" w] current[OF that] that regions source
    by (auto simp: set_edits_of_file)
  then have "candidate_source ?es original = rewritten w selected path"
    using candidate_source_rewrites[OF accepted(1)] by (simp add: rewritten_def source)
  with facts source accepted(1) current read_python_allowlisted[OF read]
  show "d = render_diff w path (source_of w path) (rewritten w selected path)"
    and "previews = map preview_of (rev (edits_of_file selected path))"
    and "used' = used + length (utf8 (rewritten w selected path))" and "used' \<le> max_material"
    and "sound_file_edit w selected path"
    by (auto simp: sound_file_edit_def)
qed

lemma render_files_rewrite:
  assumes "render_files w selected paths used = Inr (diffs, previews)"
    and "\<forall>x \<in> set selected. faithful_region (fst x) \<and> change_detected w (fst x)"
  shows "diffs = map (\<lambda>path. render_diff w path (source_of w path) (rewritten w selected path)) paths \<and>
    set previews = preview_of ` {x \<in> set selected. eg_path (fst x) \<in> set paths} \<and>
    (\<forall>path \<in> set paths. sound_file_edit w selected path) \<and>
    (paths \<noteq> [] \<longrightarrow> used + (\<Sum>path\<leftarrow>paths. length (utf8 (rewritten w selected path))) \<le> max_material)"
  using assms(1)
proof (induction paths arbitrary: used diffs previews)
  case Nil
  then show ?case by simp
next
  case (Cons path paths)
  obtain d ps used' ds qs where step: "render_file w selected path used = Inr (d, ps, used')"
    and rest: "render_files w selected paths used' = Inr (ds, qs)"
    and out: "diffs = d # ds" "previews = ps @ qs"
    using Cons.prems by (auto simp: bind_result_eq_Inr)
  note one = render_file_rewrites[OF step assms(2)]
  show ?case using Cons.IH[OF rest] one
    by (cases paths) (auto simp: out set_edits_of_file)
qed

text \<open>
  C9. A patch is the concatenated diff, file after file, between the current text and the text in
  which every selected region is replaced at once; the files are allowlisted Python sources, the
  regions do not overlap and still hold what the model was shown, and the size is bounded.
\<close>

theorem patch_replaces_only_regions:
  assumes "build_symbol_regions w0 i ids = Inr regions"
    and "validate_and_render_patch w regions edits = Inr p"
    and "list_all (change_detected w) regions"
  shows "\<exists>selected. list_all2 (\<lambda>e x. snd x = e \<and> fst x \<in> set regions \<and>
        eg_region_reference (fst x) = sd_region_reference e) edits selected \<and>
      (let paths = sorted_set (map (eg_path \<circ> fst) selected)
       in pp_diff p = concat (map (\<lambda>path.
            render_diff w path (source_of w path) (rewritten w selected path)) paths) \<and>
          list_all (sound_file_edit w selected) paths \<and>
          (\<Sum>path\<leftarrow>paths. length (utf8 (rewritten w selected path))) \<le> max_material \<and>
          set (pp_edits p) = preview_of ` set selected)"
proof -
  obtain selected diffs previews where selected: "select_edits regions edits = Inr selected"
    and rendered: "render_files w selected (sorted_set (map (eg_path \<circ> fst) selected)) 0 =
      Inr (diffs, previews)"
    and p: "p = \<lparr>pp_diff = concat diffs, pp_edits = sort_key preview_order previews\<rparr>"
    and "edits \<noteq> []"
    using assms(2) by (auto simp: validate_and_render_patch_def construct_patch_def Let_def
        bind_result_eq_Inr split: if_splits prod.splits)
  have known: "list_all2 (\<lambda>e x. snd x = e \<and> fst x \<in> set regions \<and>
      eg_region_reference (fst x) = sd_region_reference e) edits selected"
    by (rule select_edits_known[OF selected])
  then have "selected \<noteq> []" using \<open>edits \<noteq> []\<close> by auto
  have faithful: "faithful_region r" if "r \<in> set regions" for r
    by (rule build_symbol_regions_sound[OF assms(1) that]) (rule symbol_region_faithful)
  then have "\<forall>x \<in> set selected. faithful_region (fst x) \<and> change_detected w (fst x)"
    using select_edits_from_regions[OF selected] assms(3) by (auto simp: list_all_iff)
  from render_files_rewrite[OF rendered this] known \<open>selected \<noteq> []\<close> show ?thesis
    by (intro exI[of _ selected]) (auto simp: p Let_def list_all_iff simp flip: set_empty)
qed

section \<open>When assistance carries a patch\<close>

text \<open>Equality of everything but the whole files and the fingerprint of the snapshot itself.\<close>

definition same_relevant_authority :: "relevant_authority \<Rightarrow> relevant_authority \<Rightarrow> bool" where
  "same_relevant_authority h c \<longleftrightarrow>
     h\<lparr>fr_source_files := [], fr_relevant_authority_fingerprint := []\<rparr> =
     c\<lparr>fr_source_files := [], fr_relevant_authority_fingerprint := []\<rparr>"

lemma no_blockers_iff: "relevant_authority_blockers h c = [] \<longleftrightarrow> same_relevant_authority h c"
  by (cases h; cases c) (simp add: relevant_authority_blockers_def same_relevant_authority_def)

text \<open>Nothing the finding rests on has changed between the stored run and the current state.\<close>

definition current_authority_matches ::
  "remediation_inputs \<Rightarrow> verification_run \<Rightarrow> remediation_config \<Rightarrow> verification_check \<Rightarrow> current_state \<Rightarrow> bool" where
  "current_authority_matches n run config c now =
     (case (if vr_schema_version run \<in> {2, 3} then vc_relevant_authority c else None) of
        Some historical \<Rightarrow>
          (case rebuild_current_finding_authority n config c now of
             Inl _ \<Rightarrow> False | Inr current \<Rightarrow> same_relevant_authority historical current)
      | None \<Rightarrow> whole_drift run now = [] \<and> legacy_matches run config now = Inr True)"

lemma unavailable_blocks: "unavailable t e = Inr t' \<Longrightarrow> at_blockers t' \<noteq> []"
  by (auto simp: unavailable_def split: if_splits)

lemma offer_regions_unblocked:
  assumes "offer_regions n now c t = Inr t'" and "at_blockers t' = []"
  shows "at_blockers t = [] \<and> build_symbol_regions (ri_files n) (sn_source_index (cu_snapshot now))
    (map source_evidence.se_symbol_id (vc_source_references c)) = Inr (at_regions t')"
  using assms by (auto simp: offer_regions_def split: if_splits sum.splits dest: unavailable_blocks)

lemma legacy_match_no_drift: "legacy_matches run config now = Inr True \<Longrightarrow> whole_drift run now = []"
  by (auto simp: legacy_matches_def split: if_splits)

lemma assess_current_unblocked:
  assumes "assess_current n run config c = Inr t" and "at_blockers t = []"
  shows "\<exists>now. ri_current n = Inr now \<and> current_authority_matches n run config c now \<and>
    build_symbol_regions (ri_files n) (sn_source_index (cu_snapshot now))
      (map source_evidence.se_symbol_id (vc_source_references c)) = Inr (at_regions t)"
  using assms unfolding assess_current_def current_authority_matches_def Let_def
  by (auto split: sum.splits option.splits if_splits dest!: offer_regions_unblocked legacy_match_no_drift
      dest: unavailable_blocks simp: no_blockers_iff)

lemma build_remediation_context_parts:
  assumes "build_remediation_context n occurrence_id = Inr x"
  obtains references t where "ri_run n = Inr (rx_run x)"
    and "select_verified_failure (rx_run x) occurrence_id = Inr (rx_finding x, rx_check x)"
    and "ri_config n = Inr (rx_config x)"
    and "assess_current n (rx_run x) (rx_config x) (rx_check x) = Inr t"
    and "x = assemble_context (rx_run x) (rx_finding x) (rx_check x) (rx_config x) references t"
  using assms by (auto simp: build_remediation_context_def bind_result_eq_Inr assemble_context_def Let_def)

lemma validated_output_sound:
  assumes "validated_output out x = Inr raw"
  shows "\<exists>answered. out = Some answered \<and> construct_output answered = Inr raw"
    and "\<not> list_ex (ungrounded_claim (rx_allowed_reference_ids x)) (ro_grounded_claims raw)"
    and "rx_mode x = HISTORICAL_EXPLANATION_ONLY \<Longrightarrow>
      ro_proposal_state raw = BLOCKED_CURRENT_SOURCE_AUTHORITY \<and> ro_remediation_rationale raw = None"
    and "rx_mode x = CURRENT_SOURCE_REMEDIATION \<Longrightarrow> ro_proposal_state raw \<noteq> BLOCKED_CURRENT_SOURCE_AUTHORITY"
  using assms by (auto simp: validated_output_def split: option.splits sum.splits if_splits)

lemma reply_eq_Inr:
  "(case reply of Inl failure \<Rightarrow> Inr (Inl failure) | Inr y \<Rightarrow> g y) = Inr (Inr a) \<longleftrightarrow>
     (\<exists>y. reply = Inr y \<and> g y = (Inr (Inr a) :: error + 'f + 'a))"
  by (cases reply) auto

lemma construct_output_claims:
  assumes "construct_output answered = Inr raw" and "c \<in> set (ro_grounded_claims raw)"
  shows "gc_references c \<noteq> []"
proof -
  obtain c' where c': "c' \<in> set (ro_grounded_claims answered)" "c = strip_claim c'"
    and "validate_claim c' = None"
    using assms by (auto simp: construct_output_def first_error_None_iff split: option.splits)
  then show ?thesis by (auto simp: validate_claim_def strip_claim_def first_error_None_iff split: if_splits)
qed

lemma generate_assistance_parts:
  assumes "generate_assistance schema w x provider = Inr (Inr a)"
  obtains out raw where "validated_output out x = Inr raw"
    and "settle_proposal w x raw =
      Inr (ra_proposal_state a, ra_remediation_rationale a, ra_patch a, ra_limitations a)"
    and "validate_assistance a = None" and "ra_mode a = rx_mode x"
    and "ra_grounded_claims a = ro_grounded_claims raw"
  using assms by (auto simp: generate_assistance_def bind_result_eq_Inr reply_eq_Inr split: if_splits)

lemma settle_proposal_patch:
  assumes "settle_proposal w x raw = Inr (state, rationale, Some p, limitations)"
  shows "validate_and_render_patch w (rx_editable_regions x) (ro_edits raw) = Inr p \<and>
    ro_proposal_state raw = PROPOSED"
  using assms by (auto simp: settle_proposal_def split: if_splits sum.splits error.splits)

lemma generate_remediation_parts:
  assumes "generate_remediation_assistance schema create n w occurrence_id = Inr (Inr a)"
  obtains x provider where "build_remediation_context n occurrence_id = Inr x"
    and "generate_assistance schema w x provider = Inr (Inr a)"
  using assms by (auto simp: generate_remediation_assistance_def bind_result_eq_Inr reply_eq_Inr
      split: option.splits)

text \<open>
  C10. A patch is only ever offered for a critical verified failure whose authority is unchanged: the
  current state could be read, everything relevant to the finding equals what the run recorded, and
  the patch was rendered from regions of the symbols the check names.
\<close>

theorem patch_needs_unchanged_authority:
  assumes "generate_remediation_assistance schema create n w occurrence_id = Inr (Inr a)"
    and "ra_patch a = Some p"
  shows "ra_mode a = CURRENT_SOURCE_REMEDIATION \<and>
    (\<exists>run f c config now regions edits. ri_run n = Inr run \<and> ri_config n = Inr config \<and>
       ri_current n = Inr now \<and> select_verified_failure run occurrence_id = Inr (f, c) \<and>
       vc_result c = VERIFIED_FAIL \<and> current_authority_matches n run config c now \<and>
       build_symbol_regions (ri_files n) (sn_source_index (cu_snapshot now))
         (map source_evidence.se_symbol_id (vc_source_references c)) = Inr regions \<and>
       validate_and_render_patch w regions edits = Inr p)"
proof -
  obtain x provider where built: "build_remediation_context n occurrence_id = Inr x"
    and generated: "generate_assistance schema w x provider = Inr (Inr a)"
    using assms(1) by (rule generate_remediation_parts)
  obtain out raw where checked: "validated_output out x = Inr raw"
    and settled: "settle_proposal w x raw =
      Inr (ra_proposal_state a, ra_remediation_rationale a, ra_patch a, ra_limitations a)"
    and mode: "ra_mode a = rx_mode x"
    using generated by (rule generate_assistance_parts)
  obtain references t where parts: "ri_run n = Inr (rx_run x)" "ri_config n = Inr (rx_config x)"
    "select_verified_failure (rx_run x) occurrence_id = Inr (rx_finding x, rx_check x)"
    and assessed: "assess_current n (rx_run x) (rx_config x) (rx_check x) = Inr t"
    and x: "x = assemble_context (rx_run x) (rx_finding x) (rx_check x) (rx_config x) references t"
    using built by (rule build_remediation_context_parts)
  have patch: "validate_and_render_patch w (rx_editable_regions x) (ro_edits raw) = Inr p"
    and proposed: "ro_proposal_state raw = PROPOSED"
    using settle_proposal_patch settled assms(2) by auto
  then have current: "rx_mode x = CURRENT_SOURCE_REMEDIATION"
    using validated_output_sound(3)[OF checked] by (cases "rx_mode x") auto
  have "at_blockers t = [] \<and> rx_editable_regions x = at_regions t"
    using current by (subst (asm) x, subst x) (auto simp: assemble_context_def Let_def split: if_splits)
  moreover have "vc_result (rx_check x) = VERIFIED_FAIL"
    using parts(3) by (auto simp: select_verified_failure_def split: list.splits if_splits)
  ultimately show ?thesis
    using assess_current_unblocked[OF assessed] parts patch mode current by metis
qed

text \<open>
  C11. Assistance cites only references it was given and keeps to its mode: a historical explanation
  has no rationale and no patch, and a proposal always carries its patch.
\<close>

theorem assistance_is_grounded:
  assumes "generate_assistance schema w x provider = Inr (Inr a)"
  shows "(\<forall>claim \<in> set (ra_grounded_claims a). gc_references claim \<noteq> [] \<and>
        distinct (gc_references claim) \<and> set (gc_references claim) \<subseteq> set (rx_allowed_reference_ids x)) \<and>
      (ra_proposal_state a = PROPOSED \<longleftrightarrow> ra_patch a \<noteq> None) \<and>
      (if rx_mode x = HISTORICAL_EXPLANATION_ONLY
       then ra_proposal_state a = BLOCKED_CURRENT_SOURCE_AUTHORITY \<and> ra_patch a = None \<and>
            ra_remediation_rationale a = None
       else ra_proposal_state a \<noteq> BLOCKED_CURRENT_SOURCE_AUTHORITY)"
proof -
  obtain out raw where checked: "validated_output out x = Inr raw"
    and settled: "settle_proposal w x raw =
      Inr (ra_proposal_state a, ra_remediation_rationale a, ra_patch a, ra_limitations a)"
    and valid: "validate_assistance a = None" and mode: "ra_mode a = rx_mode x"
    and claims: "ra_grounded_claims a = ro_grounded_claims raw"
    using assms by (rule generate_assistance_parts)
  note sound = validated_output_sound[OF checked]
  have "\<forall>c \<in> set (ro_grounded_claims raw). gc_references c \<noteq> []"
    using sound(1) construct_output_claims by blast
  then have "\<forall>claim \<in> set (ra_grounded_claims a). gc_references claim \<noteq> [] \<and>
      distinct (gc_references claim) \<and> set (gc_references claim) \<subseteq> set (rx_allowed_reference_ids x)"
    using sound(2) by (auto simp: claims list_ex_iff ungrounded_claim_def)
  moreover have "ra_proposal_state a = PROPOSED \<longleftrightarrow> ra_patch a \<noteq> None"
    using valid by (simp add: validate_assistance_def split: if_splits)
  moreover have "rx_mode x = HISTORICAL_EXPLANATION_ONLY \<Longrightarrow>
      ra_proposal_state a = BLOCKED_CURRENT_SOURCE_AUTHORITY \<and> ra_patch a = None \<and>
      ra_remediation_rationale a = None"
    using sound(3) settled by (auto simp: settle_proposal_def)
  moreover have "rx_mode x \<noteq> HISTORICAL_EXPLANATION_ONLY \<Longrightarrow>
      ra_proposal_state a \<noteq> BLOCKED_CURRENT_SOURCE_AUTHORITY"
    using sound(4) settled by (cases "rx_mode x")
      (auto simp: settle_proposal_def split: if_splits sum.splits error.splits)
  ultimately show ?thesis by auto
qed

section \<open>An offered patch\<close>

text \<open>A one-line function whose order check failed, and a model that rewrites it.\<close>

definition shop_text :: string where
  "shop_text = ''def f(): 0'' @ [CHR 0x0A]"

definition shop_fix :: string where
  "shop_fix = ''def f(): 1'' @ [CHR 0x0A]"

definition shop_files :: patch_world where
  "shop_files = \<lparr>pw_root_available = True, pw_symlink_component = \<lambda>_. False,
     pw_read_bytes = \<lambda>_. Some (utf8 shop_text), pw_detect_encoding = \<lambda>_. Some ''utf-8'',
     pw_decode = \<lambda>_ _. Some shop_text, pw_encodable = \<lambda>_ _. True, pw_assignments = \<lambda>_. Some [],
     pw_valid_python = \<lambda>_. True, pw_unified_diff = \<lambda>before after _ _. concat (map (\<lambda>l. [''-'', l]) before) @
       concat (map (\<lambda>l. [''+'', l]) after)\<rparr>"

definition shop_location :: source_location where
  "shop_location = \<lparr>sl_path = ''shop.py'', sl_line_start = 1, sl_column_start = 0, sl_line_end = 1,
     sl_column_end = 10\<rparr>"

definition shop_symbol :: symbol_record where
  "shop_symbol = \<lparr>sy_symbol_id = ''y1'', sy_source_file_id = ''f1'', sy_qualified_name = ''shop.f'',
     sy_kind = SYM_FUNCTION, sy_signature = ''f()'', sy_definition_ordinal = 0,
     sy_source_location = shop_location\<rparr>"

definition shop_index :: source_index where
  "shop_index = \<lparr>ix_project_id = ''p'', ix_project_source_fingerprint = ''sf'',
     ix_source_index_fingerprint = ''si'',
     ix_indexed_files = [\<lparr>sf_file_id = ''f1'', sf_path = ''shop.py'',
       sf_content_fingerprint = sha256_digest (utf8 shop_text), sf_byte_size = 11\<rparr>],
     ix_symbols = [shop_symbol], ix_imports = [], ix_call_sites = [], ix_references = [],
     ix_framework_instances = [], ix_app_targets = [], ix_routes = [], ix_router_includes = [],
     ix_diagnostics = [], ix_completeness = SOURCE_COMPLETE\<rparr>"

definition shop_region :: editable_region where
  "shop_region = \<lparr>eg_region_reference = ''region-1'', eg_kind = FULL_SYMBOL, eg_path = ''shop.py'',
     eg_start_offset = 0, eg_end_offset = 11, eg_file_fingerprint = sha256_digest (utf8 shop_text),
     eg_region_fingerprint = sha256_digest_str shop_text, eg_content = shop_text\<rparr>"

definition shop_edit :: structured_edit where
  "shop_edit = \<lparr>sd_region_reference = ''region-1'', sd_replacement_content = shop_fix\<rparr>"

definition shop_patch :: patch_preview where
  "shop_patch = \<lparr>pp_diff = ''-'' @ shop_text @ ''+'' @ shop_fix,
     pp_edits = [preview_of (shop_region, shop_edit)]\<rparr>"

lemma shop_lines: "SemanticContext.split_lines shop_text = [shop_text]"
  "SemanticContext.split_lines shop_fix = [shop_fix]" by code_simp+

lemma shop_sizes: "length shop_text = 11" "length (utf8 shop_text) = 11" "length (utf8 shop_fix) = 11"
  "length (utf8 (CHR ''-'' # shop_text @ CHR ''+'' # shop_fix)) = 24" "str_int 1 = ''1''"
  by code_simp+

lemma remediation_bounds: "max_material = 262144" "max_items = 8" "max_reference = 128"
  "max_explanation = 512" "max_claim_references = 4"
  by (simp_all add: max_material_def max_items_def max_reference_def max_explanation_def
      max_claim_references_def DEFAULT_STRUCTURED_GENERATION_BOUNDS_def)

lemma shop_path:
  "ends_with ''shop.py'' ''.py''" "\<not> list_ex (\<lambda>part. casefold part \<in> set FORBIDDEN_PARTS) (posix_parts ''shop.py'')"
  "normalize_relative_path ''shop.py'' = Inr ''shop.py''"
  by code_simp+

lemma shop_read: "read_python shop_files ''shop.py'' = Inr (utf8 shop_text, shop_text, ''utf-8'')"
  using shop_path by (simp add: read_python_def shop_files_def)

lemma shop_source: "source_of shop_files ''shop.py'' = shop_text"
  by (simp add: source_of_def shop_read)

lemma shop_regions: "build_symbol_regions shop_files shop_index [''y1''] = Inr [shop_region]"
proof -
  have "contains_literal_secret shop_files shop_text 1 1 = False"
    by (simp add: contains_literal_secret_def shop_files_def)
  then have "symbol_region shop_files shop_index shop_symbol 0 1 = Inr (shop_region, 11)"
    by (simp add: symbol_region_def shop_index_def shop_symbol_def dict_by_code shop_read shop_location_def
        shop_lines shop_sizes remediation_bounds construct_region_def bounded_text_def shop_path shop_region_def Let_def)
  then show ?thesis
    by (simp add: build_symbol_regions_def shop_index_def shop_symbol_def shop_sizes remediation_bounds)
qed

lemma shop_patched: "validate_and_render_patch shop_files [shop_region] [shop_edit] = Inr shop_patch"
proof -
  let ?s = "[(shop_region, shop_edit)]"
  have selected: "select_edits [shop_region] [shop_edit] = Inr ?s"
    by (simp add: select_edits_def dict_by_code shop_region_def shop_edit_def)
  have unchanged: "region_text shop_text shop_region = shop_text"
    by (simp add: region_text_def shop_region_def shop_sizes remediation_bounds)
  have edits: "edits_of_file ?s ''shop.py'' = ?s" by (simp add: edits_of_file_def shop_region_def)
  have checked: "check_file_edits shop_files (sha256_digest (utf8 shop_text)) shop_text ''utf-8'' (- 1) ?s = None"
    using unchanged by (simp add: shop_region_def shop_files_def)
  have candidate: "candidate_source ?s shop_text = shop_fix"
    by (simp add: candidate_source_def splice_region_def shop_region_def shop_edit_def shop_sizes remediation_bounds)
  have diff: "render_diff shop_files ''shop.py'' shop_text shop_fix = pp_diff shop_patch"
    by (simp add: render_diff_def shop_files_def shop_lines shop_patch_def)
  have rendered: "render_file shop_files ?s ''shop.py'' 0 = Inr (pp_diff shop_patch, [preview_of (shop_region, shop_edit)], 11)"
    using edits checked candidate diff
    by (simp add: render_file_def shop_read shop_sizes remediation_bounds) (simp add: shop_files_def)
  have path: "eg_path shop_region = ''shop.py''" by (simp add: shop_region_def)
  have "pp_diff shop_patch \<noteq> []" "length (utf8 (pp_diff shop_patch)) = 24" "pp_edits shop_patch = [preview_of (shop_region, shop_edit)]"
    by (simp_all add: shop_patch_def shop_sizes remediation_bounds)
  then show ?thesis using selected rendered path
    by (simp add: validate_and_render_patch_def shop_sizes remediation_bounds sorted_set_def construct_patch_def
        construct_def)
qed

definition shop_check :: verification_check where
  "shop_check = demo_check
     \<lparr>vc_check_id := ''k1'', vc_assertion_key := ''late'', vc_result := VERIFIED_FAIL, vc_evidence_tier := Some E3_DYNAMIC_VERIFIED,
      vc_source_references := [\<lparr>source_evidence.se_symbol_id = ''y1'', source_evidence.se_source_location = shop_location\<rparr>],
      vc_relevant_authority := None\<rparr>"

definition shop_finding :: finding where
  "shop_finding = \<lparr>fi_occurrence_id = ''o1'', fi_finding_key = ''fk'', fi_check_id = ''k1'',
     fi_check_key = vc_check_key shop_check, fi_kind = KIND_VERIFIED_FAILURE, fi_critical = True\<rparr>"

definition shop_authority :: verification_authority where
  "shop_authority = demo_authority\<lparr>va_razorpay_rules :=
     \<lparr>rl_catalog_fingerprint = razorpay_rule_catalog_fingerprint, rl_referenced_rules = []\<rparr>\<rparr>"

definition shop_run :: verification_run where
  "shop_run = (demo_run shop_authority [shop_check])\<lparr>vr_findings := [shop_finding]\<rparr>"

definition shop_graph :: "string \<Rightarrow> safety_graph" where
  "shop_graph fingerprint = \<lparr>pg_project_id = ''p'', pg_source_index_fingerprint = ''si'',
     pg_graph_fingerprint = fingerprint, pg_completeness = COMPLETE, pg_diagnostics = [], pg_nodes = [],
     pg_edges = []\<rparr>"

definition shop_artifact :: applicability_artifact where
  "shop_artifact = \<lparr>ap_project_id = ''p'', ap_project_source_fingerprint = ''sf'',
     ap_source_index_fingerprint = ''si'', ap_structural_graph_fingerprint = ''sg'',
     ap_projected_graph_fingerprint = ''pg'', ap_semantic_resolution_fingerprint = None,
     ap_policy = \<lparr>pa_fulfilment = \<lparr>fa_evidence_status = INSUFFICIENT_EVIDENCE, fa_evidence_fingerprint = ''p1'',
         fa_observed_states = [], fa_suggested_policy = None, fa_confirmed_policy = None,
         fa_evidence_current = None, fa_implementation_mismatch = False\<rparr>,
       pa_late_authorisation = \<lparr>la_evidence_fingerprint = ''p2'', la_confirmed_policy = None,
         la_evidence_current = None\<rparr>\<rparr>,
     ap_normal_controls = [], ap_scenarios = [], ap_applicability_fingerprint = ''af''\<rparr>"

definition shop_now :: current_state where
  "shop_now = \<lparr>cu_snapshot = \<lparr>sn_source_index = shop_index, sn_structural_graph = shop_graph ''sg'',
       sn_graph = shop_graph ''pg'', sn_artifact = None, sn_resolution = None,
       sn_resolution_fingerprint = None\<rparr>,
     cu_artifact = shop_artifact\<rparr>"

definition shop_config :: remediation_config where
  "shop_config = \<lparr>mc_ai = Some \<lparr>ai_provider = ''p'', ai_model = ''m''\<rparr>,
     mc_semantic_context_fingerprint = None\<rparr>"

definition shop_inputs :: remediation_inputs where
  "shop_inputs = \<lparr>ri_run = Inr shop_run, ri_config = Inr shop_config, ri_current = Inr shop_now,
     ri_file_bytes = \<lambda>_. Some shop_text, ri_files = shop_files\<rparr>"

definition shop_output :: remediation_output where
  "shop_output = \<lparr>ro_causal_summary = ''f returns 0'',
     ro_grounded_claims = [\<lparr>gc_text = ''the function'', gc_references = [''region-1'']\<rparr>],
     ro_remediation_rationale = Some ''return 1'', ro_proposal_state = PROPOSED, ro_edits = [shop_edit],
     ro_limitations = []\<rparr>"

definition shop_provider :: remediation_provider where
  "shop_provider = \<lparr>rp_model = ''m'', rp_generate = \<lambda>_. Inr (Inr
     \<lparr>an_provider_id = ''p'', an_model = ''m'', an_output_text = ''{}'', an_output = Some shop_output\<rparr>)\<rparr>"

definition shop_references :: "grounding_reference list" where
  "shop_references =
     [\<lparr>go_reference = ''historical-invariant'', go_description = ''E''\<rparr>,
      \<lparr>go_reference = ''historical-result'',
       go_description = ''VERIFIED FAIL; reason RUNTIME_SESSION_UNAVAILABLE; evidence tier E3 DYNAMIC VERIFIED''\<rparr>,
      \<lparr>go_reference = ''historical-assertion'', go_description = ''SG-02 / late / INV v1''\<rparr>,
      \<lparr>go_reference = ''historical-target-1'',
       go_description = ''Historical symbol y1 at project-relative shop.py''\<rparr>]"

lemma shop_attempt:
  "assess_current shop_inputs shop_run shop_config shop_check =
     Inr \<lparr>at_drift = [], at_current = None, at_regions = [shop_region], at_blockers = []\<rparr>"
proof -
  have "whole_drift shop_run shop_now = []"
    by (simp add: whole_drift_def shop_run_def shop_now_def shop_authority_def demo_authority_def shop_index_def
        shop_graph_def shop_artifact_def map_filter_simps)
  moreover have "current_semantic_authority shop_config shop_now = Inr (va_semantic shop_authority)"
    by (simp add: current_semantic_authority_def shop_now_def shop_authority_def demo_authority_def
        construct_def validate_resolution_def shop_config_def)
  then have "legacy_matches shop_run shop_config shop_now = Inr True"
    using calculation by (simp add: legacy_matches_def) (simp add: shop_run_def shop_authority_def)
  ultimately show ?thesis using shop_regions
    by (simp add: assess_current_def shop_inputs_def offer_regions_def shop_now_def shop_check_def)
qed

lemma shop_selected: "select_verified_failure shop_run ''o1'' = Inr (shop_finding, shop_check)"
  by (simp add: select_verified_failure_def shop_run_def shop_finding_def) (simp add: shop_check_def)

lemma shop_historical: "historical_references shop_run shop_check = Inr shop_references"
proof -
  have "list_all (\<lambda>r. construct_grounding r = Inr r) shop_references"
    by (simp add: shop_references_def construct_grounding_def bounded_text_def remediation_bounds)
  then show ?thesis
    by (simp add: historical_references_def shop_check_def demo_check_def shop_references_def
        historical_target_reference_def shop_location_def shop_sizes)
qed

definition shop_context :: remediation_context where
  "shop_context = assemble_context shop_run shop_finding shop_check shop_config shop_references
     \<lparr>at_drift = [], at_current = None, at_regions = [shop_region], at_blockers = []\<rparr>"

lemma shop_built: "build_remediation_context shop_inputs ''o1'' = Inr shop_context"
  using shop_selected shop_historical shop_attempt
  by (simp add: build_remediation_context_def shop_context_def) (simp add: shop_inputs_def)

lemma shop_input_size: "length (utf8 (rx_provider_input shop_context)) \<le> max_material"
  "strip (rx_provider_input shop_context) \<noteq> []"
proof -
  let ?payload = "JObj [(''mode'', JStr ''CURRENT_SOURCE_REMEDIATION''), (''run_id'', JStr ''run1''),
    (''references'', JArr (map grounding_json shop_references)),
    (''editable_regions'', JArr [JObj [(''region_reference'', JStr ''region-1''),
      (''kind'', JStr ''FULL_SYMBOL''), (''merchant_source'', JStr shop_text)]])]"
  have input: "rx_provider_input shop_context = canonical_json ?payload"
    by (simp add: shop_context_def assemble_context_def region_json_def shop_region_def) (simp add: shop_run_def)
  have "length (utf8 (canonical_json ?payload)) \<le> 1000" by code_simp
  then show "length (utf8 (rx_provider_input shop_context)) \<le> max_material"
    by (simp add: input remediation_bounds)
  have "strip (canonical_json ?payload) \<noteq> []" by code_simp
  then show "strip (rx_provider_input shop_context) \<noteq> []" by (simp add: input)
qed

lemma strip_not_Nil: "\<not> is_space c \<Longrightarrow> strip (c # s) \<noteq> []"
  by (auto simp: strip_def dropWhile_eq_Nil_conv)

lemma shop_requested: "\<exists>q. remediation_request schema ''m'' shop_context = Inr q"
  using shop_input_size(2)
  by (simp add: remediation_request_def construct_generation_request_def strip_not_Nil is_space_def
      REMEDIATION_INSTRUCTIONS_def DEFAULT_STRUCTURED_GENERATION_BOUNDS_def)

definition shop_assistance :: remediation_assistance where
  "shop_assistance = \<lparr>ra_run_id = ''run1'', ra_occurrence_id = ''o1'', ra_check_id = ''k1'',
     ra_check_key = vc_check_key shop_check, ra_invariant_id = ''INV'', ra_invariant_version = 1,
     ra_mode = CURRENT_SOURCE_REMEDIATION, ra_historical_fingerprint = None, ra_current_fingerprint = None,
     ra_drift = [], ra_causal_summary = ''f returns 0'', ra_grounded_claims = ro_grounded_claims shop_output,
     ra_proposal_state = PROPOSED, ra_remediation_rationale = Some ''return 1'', ra_patch = Some shop_patch,
     ra_limitations = [], ra_provider_id = Some ''p'', ra_model = Some ''m''\<rparr>"

lemma shop_validated: "validated_output (Some shop_output) shop_context = Inr shop_output"
proof -
  have "construct_output shop_output = Inr shop_output"
    by (simp add: construct_output_def shop_output_def bounded_text_def remediation_bounds validate_claim_def
        validate_edit_def shop_edit_def shop_fix_def validate_proposal_shape_def construct_def strip_claim_def
        strip_def is_space_def)
  moreover have "rx_mode shop_context = CURRENT_SOURCE_REMEDIATION"
    "''region-1'' \<in> set (rx_allowed_reference_ids shop_context)"
    by (simp_all add: shop_context_def assemble_context_def shop_region_def)
  ultimately show ?thesis
    by (simp add: validated_output_def) (simp add: shop_output_def ungrounded_claim_def)
qed

lemma shop_assisted:
  "generate_remediation_assistance schema (\<lambda>_. Inr (Inr shop_provider)) shop_inputs shop_files ''o1'' =
     Inr (Inr shop_assistance)"
  "generate_assistance schema shop_files shop_context shop_provider = Inr (Inr shop_assistance)"
proof -
  obtain q where "remediation_request schema ''m'' shop_context = Inr q" using shop_requested by blast
  moreover have "length (utf8 ''{}'') = 2" by code_simp
  moreover have "settle_proposal shop_files shop_context shop_output =
      Inr (PROPOSED, Some ''return 1'', Some shop_patch, [])"
    using shop_patched by (simp add: settle_proposal_def shop_output_def shop_context_def assemble_context_def)
  moreover have "rx_run shop_context = shop_run" "rx_finding shop_context = shop_finding"
    "rx_check shop_context = shop_check" "rx_mode shop_context = CURRENT_SOURCE_REMEDIATION"
    "rx_historical_fingerprint shop_context = None" "rx_current_fingerprint shop_context = None"
    "rx_drift shop_context = []" "rx_config shop_context = shop_config"
    by (simp_all add: shop_context_def assemble_context_def shop_check_def)
  moreover have "validate_assistance shop_assistance = None"
    by (simp add: validate_assistance_def shop_assistance_def)
  moreover have "vr_run_id shop_run = ''run1''" by (simp add: shop_run_def)
  ultimately show generated: "generate_assistance schema shop_files shop_context shop_provider = Inr (Inr shop_assistance)"
    using shop_input_size(1) shop_validated
    by (simp add: generate_assistance_def shop_provider_def DEFAULT_STRUCTURED_GENERATION_BOUNDS_def
        construct_def shop_assistance_def shop_finding_def shop_check_def demo_check_def shop_output_def)
  then show "generate_remediation_assistance schema (\<lambda>_. Inr (Inr shop_provider)) shop_inputs shop_files ''o1'' =
     Inr (Inr shop_assistance)"
    using shop_built \<open>rx_config shop_context = shop_config\<close>
    by (simp add: generate_remediation_assistance_def shop_config_def)
qed

theorem patch_replaces_only_regions_witness:
  "\<exists>selected. list_all2 (\<lambda>e x. snd x = e \<and> fst x \<in> set [shop_region] \<and>
        eg_region_reference (fst x) = sd_region_reference e) [shop_edit] selected \<and>
      (let paths = sorted_set (map (eg_path \<circ> fst) selected)
       in pp_diff shop_patch = concat (map (\<lambda>path. render_diff shop_files path
            (source_of shop_files path) (rewritten shop_files selected path)) paths) \<and>
          list_all (sound_file_edit shop_files selected) paths \<and>
          (\<Sum>path\<leftarrow>paths. length (utf8 (rewritten shop_files selected path))) \<le> max_material \<and>
          set (pp_edits shop_patch) = preview_of ` set selected)"
proof (rule patch_replaces_only_regions[OF shop_regions shop_patched])
  have "current_region shop_files shop_region"
    by (simp add: current_region_def shop_region_def shop_source region_text_def shop_sizes)
  then show "list_all (change_detected shop_files) [shop_region]" by (simp add: change_detected_def)
qed

theorem patch_needs_unchanged_authority_witness:
  "\<exists>run f c config now regions edits. ri_run shop_inputs = Inr run \<and> ri_config shop_inputs = Inr config \<and>
     ri_current shop_inputs = Inr now \<and> select_verified_failure run ''o1'' = Inr (f, c) \<and>
     vc_result c = VERIFIED_FAIL \<and> current_authority_matches shop_inputs run config c now \<and>
     build_symbol_regions (ri_files shop_inputs) (sn_source_index (cu_snapshot now))
       (map source_evidence.se_symbol_id (vc_source_references c)) = Inr regions \<and>
     validate_and_render_patch shop_files regions edits = Inr shop_patch"
  using patch_needs_unchanged_authority[OF shop_assisted(1)[of JNull], of shop_patch]
  by (simp add: shop_assistance_def)

theorem assistance_is_grounded_witness:
  "set (gc_references (hd (ra_grounded_claims shop_assistance))) \<subseteq> set (rx_allowed_reference_ids shop_context) \<and>
   ra_patch shop_assistance \<noteq> None"
proof -
  have "hd (ra_grounded_claims shop_assistance) \<in> set (ra_grounded_claims shop_assistance)"
    and "ra_proposal_state shop_assistance = PROPOSED"
    by (simp_all add: shop_assistance_def shop_output_def)
  then show ?thesis using assistance_is_grounded[OF shop_assisted(2)[of JNull]] by blast
qed

section \<open>Lines of Python and lines of text\<close>

text \<open>
  C38. A form feed shifts the region of a symbol.  The region is cut along \<open>str.splitlines\<close>, which
  ends a line at a form feed, but the line numbers of the index, and the fingerprint of the definition,
  count the line feeds only: after a line holding a form feed the region of the definition on line 2 is
  a lone line break, and a replacement leaves the definition as it was.
\<close>

theorem form_feed_shifts_region:
  assumes "dict_by sf_file_id (ix_indexed_files i) (sy_source_file_id s) = Some f"
    and "read_python w (sf_path f) = Inr (raw, CHR 0x0C # CHR 0x0A # definition_text, encoding)"
    and "sl_line_start (sy_source_location s) = 2" and "sl_line_end (sy_source_location s) = 2"
    and "symbol_region w i s consumed number = Inr (r, bytes)"
  shows "Normalization.split_lines (CHR 0x0C # CHR 0x0A # definition_text) =
      [CHR 0x0C, CHR 0x0A] # Normalization.split_lines definition_text \<and>
    eg_content r = [CHR 0x0A] \<and>
    candidate_source [(r, e)] (CHR 0x0C # CHR 0x0A # definition_text) =
      CHR 0x0C # sd_replacement_content e @ definition_text"
proof -
  have breaks: "line_break (CHR 0x0C)" "line_break (CHR 0x0A)" by (simp_all add: line_break_def)
  obtain rest where "SemanticContext.split_lines (CHR 0x0C # CHR 0x0A # definition_text) =
      [CHR 0x0C] # [CHR 0x0A] # rest"
    using breaks by (cases definition_text) auto
  then have "eg_content r = [CHR 0x0A] \<and> eg_start_offset r = 1 \<and> eg_end_offset r = 2" using assms
    by (auto simp: symbol_region_def Let_def bind_result_eq_Inr numeral_2_eq_2 split: if_splits
        dest!: construct_region_keeps)
  then show ?thesis by (simp add: candidate_source_def splice_region_def numeral_2_eq_2)
qed

definition fed_text :: string where
  "fed_text = CHR 0x0C # CHR 0x0A # shop_text"

definition fed_files :: patch_world where
  "fed_files = shop_files\<lparr>pw_read_bytes := \<lambda>_. Some (utf8 fed_text), pw_decode := \<lambda>_ _. Some fed_text\<rparr>"

definition fed_symbol :: symbol_record where
  "fed_symbol = shop_symbol\<lparr>sy_source_location := shop_location\<lparr>sl_line_start := 2, sl_line_end := 2\<rparr>\<rparr>"

definition fed_file :: source_file where
  "fed_file = \<lparr>sf_file_id = ''f1'', sf_path = ''shop.py'',
     sf_content_fingerprint = sha256_digest (utf8 fed_text), sf_byte_size = 13\<rparr>"

definition fed_index :: source_index where
  "fed_index = shop_index\<lparr>ix_indexed_files := [fed_file], ix_symbols := [fed_symbol]\<rparr>"

definition fed_region :: editable_region where
  "fed_region = \<lparr>eg_region_reference = ''region-1'', eg_kind = FULL_SYMBOL, eg_path = ''shop.py'',
     eg_start_offset = 1, eg_end_offset = 2, eg_file_fingerprint = sha256_digest (utf8 fed_text),
     eg_region_fingerprint = sha256_digest_str [CHR 0x0A], eg_content = [CHR 0x0A]\<rparr>"

theorem form_feed_shifts_region_witness:
  "symbol_region fed_files fed_index fed_symbol 0 1 = Inr (fed_region, 1) \<and>
   candidate_source [(fed_region, shop_edit)] fed_text = CHR 0x0C # shop_fix @ shop_text"
proof -
  have file_of: "dict_by sf_file_id (ix_indexed_files fed_index) (sy_source_file_id fed_symbol) = Some fed_file"
    by (simp add: fed_index_def fed_symbol_def shop_symbol_def dict_by_code fed_file_def)
  have read: "read_python fed_files (sf_path fed_file) = Inr (utf8 fed_text, fed_text, ''utf-8'')"
    using shop_path by (simp add: read_python_def fed_files_def shop_files_def fed_file_def)
  have ls: "SemanticContext.split_lines fed_text = [[CHR 0x0C], [CHR 0x0A], shop_text]" by code_simp
  have cut: "drop 1 (take 2 fed_text) = [CHR 0x0A]" by (simp add: fed_text_def)
  have size: "length (utf8 [CHR 0x0A]) = 1" by code_simp
  have lines: "sl_line_start (sy_source_location fed_symbol) = 2" "sl_line_end (sy_source_location fed_symbol) = 2"
    by (simp_all add: fed_symbol_def)
  have "contains_literal_secret fed_files fed_text 2 2 = False"
    by (simp add: contains_literal_secret_def fed_files_def shop_files_def)
  then have built: "symbol_region fed_files fed_index fed_symbol 0 1 = Inr (fed_region, 1)"
    using file_of read ls lines cut size shop_path
    by (simp add: symbol_region_def fed_file_def construct_region_def bounded_text_def
        shop_sizes remediation_bounds fed_region_def numeral_2_eq_2 Let_def)
  show ?thesis
    using form_feed_shifts_region[OF file_of read[unfolded fed_text_def] lines built, of shop_edit] built
    by (simp add: fed_text_def shop_edit_def)
qed

end
