(* ===== verification/Spec2Isabelle.thy ===== *)
theory Spec2Isabelle
  imports RuleCatalog NormalizationProperties EndToEnd ExecutionLiveness RouteComposition PlanProperties CanonicalJson SemanticProperties ProjectionProperties Confidentiality ResolutionProperties RemediationProperties
begin

text \<open>
  A verification development for StateGuard, the Python program under \<open>src/src/stateguard\<close> that
  reads the source of a merchant's web application, finds how a Razorpay payment becomes customer
  value (the fulfilment of an order), and checks by controlled executions that duplicated, late,
  forged or reordered payment events cannot be turned into more value than was paid for.

  \<^bold>\<open>How the program is put together.\<close>
  Discovery reads the source files and records symbols, imports, calls, routes and bounded
  references in a \<^emph>\<open>source index\<close> (\<open>discovery/\<close>).  From the index a \<^emph>\<open>payment safety graph\<close> of
  ingresses, payment captures, mutations and gates is built (\<open>graph/\<close>), the effective routes of the
  selected application are composed (\<open>graph/reachability.py\<close>), and the function that delivers value
  is resolved with the help of a model or a human (\<open>semantics/\<close>, \<open>application/semantics.py\<close>) and
  projected onto the graph (\<open>graph/semantic_projection.py\<close>).  The \<^emph>\<open>applicability engine\<close> decides
  which assertions of the scenarios SG-01 to SG-08 apply (\<open>applicability/\<close>), the \<^emph>\<open>runtime plan\<close> and
  the capability artifact say what can be observed (\<open>runtime/\<close>), the \<^emph>\<open>failure lab\<close> sends the prepared
  requests to the running application and reduces the observed events to a verdict
  (\<open>failure_lab/\<close>, \<open>application/failure_lab.py\<close>), \<^emph>\<open>normalization\<close> turns results into a verification
  run with findings and coverage (\<open>evidence/\<close>), and the \<^emph>\<open>gate\<close> of a CI job evaluates it (\<open>ci/\<close>);
  \<^emph>\<open>remediation\<close> explains a failed check and may propose a patch (\<open>remediation/\<close>).
  Every stage stores an artifact whose validator runs when it is constructed and names the
  fingerprints of the artifacts it was computed from.

  \<^bold>\<open>How code is modelled.\<close>
  A pydantic model or dataclass is a \<open>record\<close> whose fields carry a two-letter prefix, an enum is a
  \<open>datatype\<close> with a \<open>_value\<close> function for its texts, and a validator is a function to \<open>error option\<close>
  or, where it also normalises, to \<open>'a result\<close>, the sum of the exception and the value.  Raising is
  \<open>Inl\<close>, every early return is a branch, and \<open>construct\<close> is the call of a model class: build the
  record, run its validator.  State is passed explicitly.  Loops over a list are structural
  functions or folds; a walk over a graph is a \<open>function\<close> with a measure on what it has not yet
  collected; a loop that need not end is a \<open>partial_function (option)\<close>.  No fuel is used anywhere.
  A \<open>str\<close> is a list of characters below 256; \<open>strip\<close>, \<open>casefold\<close> and the regular expressions
  follow Python on these.  SHA-256, HMAC and canonical JSON are computed, on 32-bit words where the
  standard wraps.

  \<^bold>\<open>Theories, from the bottom.\<close>

  \<^item> \<open>Prelude\<close>: exceptions as values, dictionaries built by comprehension, \<open>sorted\<close>,
    \<open>sorted(set(..))\<close>, string methods, and the locale \<open>keyed_records\<close> (records under an identifying
    key), interpreted for graph nodes and edges, index files, symbols and framework instances,
    normal controls, scenarios, checks, the assertion catalog and the ingresses of a plan.
  \<^item> \<open>Digest\<close>, \<open>Identity\<close> (\<open>contracts/identity.py\<close>), \<open>CanonicalJson\<close>: UTF-8, SHA-256, HMAC, canonical
    JSON, all derived identities; a reader for canonical JSON and the round trip.
  \<^item> \<open>Common\<close> (\<open>contracts/common.py\<close>, the policy part of \<open>contracts/config.py\<close>), \<open>RuleCatalog\<close>
    (\<open>rules/razorpay.py\<close>).
  \<^item> \<open>SafetyGraph\<close> (\<open>graph/contracts.py\<close>), \<open>SourceIndex\<close> (\<open>discovery/contracts.py\<close>): the records and
    validators of graph and index; the graphs accepted are characterised exactly, with a table of
    the node kinds each edge kind joins (\<open>orientations\<close>), a valid index is referentially closed and its fingerprint is independent of order.
  \<^item> \<open>PythonAst\<close> (\<open>discovery/python_ast.py\<close>), \<open>ExtractionProperties\<close>, \<open>Confidentiality\<close>: syntax trees as a
    datatype, the extractor as explicit state, the collector as a primitive recursion on the tree.
    Every extraction is a sequence of two kinds of steps (\<open>extraction_step\<close>), from which follow the
    tree shape of the scopes and the closure of what is recorded; two runs that differ only in string
    literals agree on everything public.
  \<^item> \<open>Resolution\<close> (\<open>discovery/resolution.py\<close>), \<open>ResolutionProperties\<close>: import, name and call
    resolution; the chain of scopes ends, the callee is a recorded symbol, the records built are
    accepted by the index, and three ways in which a name is resolved wrongly or not at all.
  \<^item> \<open>RouteComposition\<close> (\<open>graph/reachability.py\<close>): the walk over router includes, equivalent to the acyclic
    include chains of the selected application.
  \<^item> \<open>SemanticContracts\<close>, \<open>SemanticContext\<close>, \<open>SemanticResolution\<close>, \<open>SemanticExample\<close>,
    \<open>SemanticProperties\<close> (\<open>semantics/\<close>, \<open>application/semantics.py\<close>): what is shown to a model, the reading of
    its answer, the resolution, and the three use cases with their store; \<open>Projection\<close> and
    \<open>ProjectionProperties\<close> (\<open>graph/semantic_projection.py\<close>): the breadth-first search over call sites, equivalent
    to reachability, and the eligibility for run-time verification.
  \<^item> \<open>Applicability\<close>, \<open>Engine\<close>, \<open>EngineProperties\<close> (\<open>applicability/contracts.py\<close>, \<open>applicability/engine.py\<close>):
    the artifact with its validators and the engine that derives it.
  \<^item> \<open>RuntimeContracts\<close>, \<open>RuntimePlan\<close>, \<open>RuntimeCapability\<close>, \<open>PlanAgreement\<close>, \<open>RuntimeSafety\<close>, \<open>PlanProperties\<close>
    (\<open>runtime/contracts.py\<close>, \<open>planning.py\<close>, \<open>capability.py\<close>, \<open>compatibility.py\<close>): observation events and
    transcripts, the plan of targets, the capability artifact, and that planner and engine read the
    same mutations out of the graph.
  \<^item> \<open>ScenarioObservations\<close>, \<open>Scenarios\<close>, \<open>ScenarioVerdicts\<close> (\<open>failure_lab/sg01.py\<close> to \<open>sg08.py\<close>): the summaries of a
    transcript and the reducers; the locales \<open>verdict_reducer\<close> and \<open>scenario_oracle\<close> state what a
    verdict means and are interpreted for every reducer.
  \<^item> \<open>RequestMaterial\<close> (\<open>failure_lab/captured_webhook.py\<close> and the request preparation of the scenarios),
    \<open>ScenarioResult\<close> (\<open>failure_lab/contracts.py\<close>), \<open>Execution\<close>, \<open>ExecutionSequences\<close>, \<open>ExecutionSafety\<close>,
    \<open>ExecutionLiveness\<close>, \<open>SequenceProperties\<close>, \<open>SequenceTotality\<close>, \<open>EndToEnd\<close> (\<open>application/failure_lab.py\<close>): the
    handlers of the eight scenarios, what their results are evidence of, and that they report.
  \<^item> \<open>Remediation\<close>, \<open>RemediationProperties\<close> (\<open>remediation/\<close>, \<open>application/remediation.py\<close>): the current authority of a
    failed check, the regions offered to a model, its answer and the patch; a patch replaces exactly
    the selected regions of allowlisted files at once, and is offered only when nothing the finding
    rests on has changed.
  \<^item> \<open>EvidenceCatalog\<close>, \<open>Evidence\<close>, \<open>EvidenceProperties\<close>, \<open>Normalization\<close>, \<open>NormalizationProperties\<close> (\<open>evidence/\<close>,
    \<open>grounding/contracts.py\<close>, \<open>remediation/comparison.py\<close>), \<open>CIGate\<close> (\<open>ci/\<close>): the verification run, its
    findings and coverage, how it is built from results, and the exit code of the gate.

  \<^bold>\<open>Parameters.\<close>
  What is not under \<open>src/\<close> or comes from the machine is an argument.  The record \<open>world\<close> is what an
  execution reads: the environment, the opened runtime, the reply to each request and the transcript
  at its close.  \<open>source_world\<close> and \<open>semantic_world\<close> are the files, the fresh index and graph, the model
  provider and the outcome of file writes.  \<open>py_parser\<close> is \<open>ast.parse\<close>.  The view of syntax trees that
  projection takes from the recognizers is \<open>ast_view\<close>; compiling a function to a trace descriptor
  and matching it with live code are arguments of the capability artifact; reading artifact bytes is
  an argument of normalization, and \<open>patch_world\<close> is the file system, the decoder, the parser and the
  differ that a patch uses.  The iteration order of a Python set, where the code depends on it,
  is a parameter (\<open>sw_set_order\<close>).  No axiom is assumed about any of them; a theorem that needs one
  to behave says so in a hypothesis and is applied by its witness.

  \<^bold>\<open>Bounds.\<close>
  Identities are the first 32 hexadecimal digits of a SHA-256 digest, so different inputs may
  collide; theorems that need different identities (the artifact of the engine, the scopes of a
  project) have that as a hypothesis, which the validators of the artifacts check.  Texts shown to a
  model are bounded by 64 candidates and 262144 bytes; the length limits of fields are modelled where
  the code constructs the record from data of the project.  The status of an HTTP response is 100
  to 599 in every record that holds one, and the path of a request has 1 to 4096 characters: the
  constructors of the failure lab, the runtime events and the evidence refuse others, and the
  theorems that an execution reports have the hypotheses \<open>legal_replies\<close> and \<open>bounded_paths\<close> on
  the replies and the bindings of the world.

  \<^bold>\<open>Not modelled, and why.\<close>
  The artifact envelope (producer version, times, schema version) beyond the checks of
  \<open>Common\<close>; the reading of stored artifacts that were edited by hand; the walk of the file system
  and the FastAPI analysis of \<open>discovery/\<close>; the recognizers and the control flow of \<open>graph/\<close>, which need all of
  Python's statements; process control, sockets and interpreter instrumentation of \<open>runtime/\<close>; the HTTP clients of
  \<open>model_providers/\<close> and \<open>grounding/\<close>; persistence, the control API, the command line
  and the dashboard, which are input and output around the services above.
\<close>

end
